(* ===== verification/Prelude.thy ===== *)
theory Prelude
  imports Main "HOL-Library.Word" "HOL-Library.Signed_Division" "HOL-Library.Multiset" "HOL-Library.Sublist"
begin

text \<open>
  Shared vocabulary of the development: names of the machine types, the result type of
  fallible code (\<open>err + 'a\<close>, \<open>Inl\<close> is the error), Rust's slice accesses on lists, and the
  generic lemmas on lists and results that the component theories use.
\<close>

named_theorems rsimps \<open>unfolding of result and option chaining\<close>
named_theorems range_simps \<open>reading and writing of list ranges\<close>

type_synonym u8 = "8 word"
type_synonym u16 = "16 word"
type_synonym u32 = "32 word"
type_synonym u64 = "64 word"

text \<open>Rust's question mark operator: the first error ends the computation.\<close>

definition rbind :: "'e + 'a \<Rightarrow> ('a \<Rightarrow> 'e + 'b) \<Rightarrow> 'e + 'b" where
  "rbind r f = (case r of Inl e \<Rightarrow> Inl e | Inr x \<Rightarrow> f x)"

definition rmap :: "('a \<Rightarrow> 'b) \<Rightarrow> 'e + 'a \<Rightarrow> 'e + 'b" where
  "rmap f r = (case r of Inl e \<Rightarrow> Inl e | Inr x \<Rightarrow> Inr (f x))"

definition ok_or :: "'e \<Rightarrow> 'a option \<Rightarrow> 'e + 'a" where
  "ok_or e r = (case r of None \<Rightarrow> Inl e | Some x \<Rightarrow> Inr x)"

lemma rbind_simps [simp, rsimps]:
  "rbind (Inl e) f = Inl e"
  "rbind (Inr x) f = f x"
  by (simp_all add: rbind_def)

lemma rmap_simps [simp, rsimps]:
  "rmap f (Inl e) = Inl e"
  "rmap f (Inr x) = Inr (f x)"
  by (simp_all add: rmap_def)

lemma ok_or_simps [simp, rsimps]:
  "ok_or e None = Inl e"
  "ok_or e (Some x) = Inr x"
  by (simp_all add: ok_or_def)

lemma rbind_eq_Inr [rsimps]:
  "rbind r f = Inr y \<longleftrightarrow> (\<exists>x. r = Inr x \<and> f x = Inr y)"
  by (cases r) auto

lemma rmap_eq_Inr [rsimps]:
  "rmap f r = Inr y \<longleftrightarrow> (\<exists>x. r = Inr x \<and> f x = y)"
  by (cases r) auto

lemma ok_or_eq_Inr [rsimps]: "ok_or e r = Inr y \<longleftrightarrow> r = Some y"
  by (cases r) auto

lemma rmap_rmap [rsimps]: "rmap f (rmap g r) = rmap (f \<circ> g) r"
  by (cases r) auto

lemma rmap_id: "rmap (\<lambda>x. x) r = r"
  by (cases r) auto

lemma rbind_assoc: "rbind (rbind r f) g = rbind r (\<lambda>x. rbind (f x) g)"
  by (cases r) auto


section \<open>Slices\<close>

text \<open>
  \<open>get_range i n xs\<close> is \<open>xs.get(i..i + n)\<close> and \<open>put_range\<close> writes a slice back at \<open>i\<close>.
\<close>

definition get_range :: "nat \<Rightarrow> nat \<Rightarrow> 'a list \<Rightarrow> 'a list option" where
  "get_range i n xs = (if i + n \<le> length xs then Some (take n (drop i xs)) else None)"

definition put_range :: "nat \<Rightarrow> 'a list \<Rightarrow> 'a list \<Rightarrow> 'a list" where
  "put_range i ys xs = take i xs @ ys @ drop (i + length ys) xs"

definition get_at :: "'a list \<Rightarrow> nat \<Rightarrow> 'a option" where
  "get_at xs i = (if i < length xs then Some (xs ! i) else None)"

lemma get_at_eq_Some [simp]: "get_at xs i = Some x \<longleftrightarrow> i < length xs \<and> xs ! i = x"
  by (auto simp: get_at_def)

lemma get_at_eq_None [simp]: "get_at xs i = None \<longleftrightarrow> length xs \<le> i"
  by (auto simp: get_at_def)

lemma length_put_range [simp]:
  "i + length ys \<le> length xs \<Longrightarrow> length (put_range i ys xs) = length xs"
  by (simp add: put_range_def)

lemma get_range_put_range [range_simps]:
  "i + length ys \<le> length xs \<Longrightarrow> n = length ys \<Longrightarrow> get_range i n (put_range i ys xs) = Some ys"
  by (simp add: get_range_def put_range_def)

lemma get_range_Some [range_simps]:
  "get_range i n xs = Some ys \<longleftrightarrow> i + n \<le> length xs \<and> ys = take n (drop i xs)"
  by (auto simp: get_range_def)

lemma get_range_None [range_simps]: "get_range i n xs = None \<longleftrightarrow> length xs < i + n"
  by (auto simp: get_range_def)

lemma length_get_range: "get_range i n xs = Some ys \<Longrightarrow> length ys = n"
  by (auto simp: get_range_def split: if_splits)

lemma nth_put_range:
  assumes "i + length ys \<le> length xs" "j < length xs"
  shows "put_range i ys xs ! j =
    (if i \<le> j \<and> j < i + length ys then ys ! (j - i) else xs ! j)"
  using assms by (auto simp: put_range_def nth_append min_def)

lemma put_range_same:
  "i + n \<le> length xs \<Longrightarrow> put_range i (take n (drop i xs)) xs = xs"
  by (auto simp: list_eq_iff_nth_eq nth_put_range add.commute)

lemma get_range_put_range_disjoint:
  assumes "i + length ys \<le> length xs" "j + n \<le> length xs"
    and "j + n \<le> i \<or> i + length ys \<le> j"
  shows "get_range j n (put_range i ys xs) = get_range j n xs"
  using assms by (auto simp: get_range_def list_eq_iff_nth_eq nth_put_range)

lemma put_range_Nil [simp]: "i \<le> length xs \<Longrightarrow> put_range i [] xs = xs"
  by (simp add: put_range_def)


section \<open>Words\<close>

lemma unat_lt_iff_uint: "unat (a :: 'a::len word) < unat b \<longleftrightarrow> a < b"
  by (simp add: word_less_nat_alt)

lemma sint_of_range:
  fixes x :: int
  assumes "- (2 ^ (LENGTH('a) - 1)) \<le> x" "x < 2 ^ (LENGTH('a) - 1)"
  shows "sint (word_of_int x :: 'a::len word) = x"
  using assms by (simp add: sint_sbintrunc' signed_take_bit_int_eq_self)

lemma sint_eq_iff: "sint (a :: 'a::len word) = sint b \<longleftrightarrow> a = b"
  by (auto intro: signed_word_eqI)

lemma sint_bounds:
  "- (2 ^ (LENGTH('a) - 1)) \<le> sint (w :: 'a::len word)" "sint w < 2 ^ (LENGTH('a) - 1)"
  using sint_greater_eq [of w] sint_less [of w] by simp_all

lemma ucast_down_up: "LENGTH('a::len) \<le> LENGTH('b::len) \<Longrightarrow>
    ucast (ucast (w :: 'a word) :: 'b word) = w"
  by (rule bit_word_eqI) (auto simp: bit_ucast_iff dest: bit_imp_le_length)

lemma uint_ucast_up: "LENGTH('a::len) \<le> LENGTH('b::len) \<Longrightarrow>
    uint (ucast (w :: 'a word) :: 'b word) = uint w"
  by (rule uint_up_ucast) (simp add: is_up)

end
