(* ===== verification/Reg_Span.thy ===== *)
theory Reg_Span
  imports Prelude
begin

text \<open>
  Register indices and register spans of \<open>ir/src/index.rs\<close> and \<open>ir/src/span.rs\<close>. A register is
  an \<open>i16\<close>: function local constants have negative indices. A Rust panic is \<open>None\<close>. The locale
  \<open>register_file\<close> is the contract under which a span copy without overlap may be executed one
  register at a time.
\<close>

type_synonym reg = u16

definition reg_next_n :: "reg \<Rightarrow> u16 \<Rightarrow> reg" where "reg_next_n r n = r + n"
definition reg_prev_n :: "reg \<Rightarrow> u16 \<Rightarrow> reg" where "reg_prev_n r n = r - n"
definition reg_next :: "reg \<Rightarrow> reg" where "reg_next r = reg_next_n r 1"
definition reg_prev :: "reg \<Rightarrow> reg" where "reg_prev r = reg_prev_n r 1"
definition reg_is_const :: "reg \<Rightarrow> bool" where "reg_is_const r = (sint r < 0)"

definition reg_try_from :: "u32 \<Rightarrow> reg option" where
  "reg_try_from local_index =
    (if unat local_index < 2 ^ 15 then Some (ucast local_index) else None)"

text \<open>A \<open>RegSpan\<close> wraps its head register.\<close>

type_synonym reg_span = reg

record reg_span_iter =
  iter_next :: reg
  iter_last :: reg

definition iter_from_raw_parts :: "reg \<Rightarrow> reg \<Rightarrow> reg_span_iter option" where
  "iter_from_raw_parts start end_reg =
    (if sint start \<le> sint end_reg
     then Some \<lparr>iter_next = start, iter_last = end_reg\<rparr> else None)"

definition iter_new_u16 :: "reg \<Rightarrow> u16 \<Rightarrow> reg_span_iter option" where
  "iter_new_u16 start len =
    (if sint start + uint len < 2 ^ 15 then iter_from_raw_parts start (start + len) else None)"

definition iter_new :: "reg \<Rightarrow> nat \<Rightarrow> reg_span_iter option" where
  "iter_new start len = (if len < 2 ^ 16 then iter_new_u16 start (of_nat len) else None)"

definition iter_len_as_u16 :: "reg_span_iter \<Rightarrow> u16" where
  "iter_len_as_u16 it = word_of_int \<bar>sint (iter_last it) - sint (iter_next it)\<bar>"

definition iter_is_empty :: "reg_span_iter \<Rightarrow> bool" where
  "iter_is_empty it = (iter_len_as_u16 it = 0)"

definition iter_step :: "reg_span_iter \<Rightarrow> (reg \<times> reg_span_iter) option" where
  "iter_step it =
    (if iter_next it = iter_last it then None
     else Some (iter_next it, it\<lparr>iter_next := reg_next (iter_next it)\<rparr>))"

definition iter_step_back :: "reg_span_iter \<Rightarrow> (reg \<times> reg_span_iter) option" where
  "iter_step_back it =
    (if iter_next it = iter_last it then None
     else let l = reg_prev (iter_last it) in Some (l, it\<lparr>iter_last := l\<rparr>))"

text \<open>A \<open>for\<close> loop over the iterator visits these registers.\<close>

function iter_regs :: "reg_span_iter \<Rightarrow> reg list" where
  "iter_regs it = (case iter_step it of None \<Rightarrow> [] | Some (r, it') \<Rightarrow> r # iter_regs it')"
  by auto
termination
proof (relation "measure (\<lambda>it. unat (iter_last it - iter_next it))")
  fix it p r it'
  assume p: "iter_step it = Some p" "(r, it') = p"
  then have it': "it' = it\<lparr>iter_next := iter_next it + 1\<rparr>" "iter_next it \<noteq> iter_last it"
    by (auto simp: iter_step_def reg_next_def reg_next_n_def split: if_splits)
  have "iter_last it - iter_next it \<noteq> 0" using it'(2) by simp
  then have "unat (iter_last it - iter_next it - 1) < unat (iter_last it - iter_next it)"
    by (metis measure_unat)
  then show "(it', it) \<in> measure (\<lambda>it. unat (iter_last it - iter_next it))"
    using it' by (simp add: algebra_simps)
qed simp

declare iter_regs.simps [simp del]

definition span_has_overlapping_copies :: "reg_span_iter \<Rightarrow> reg_span_iter \<Rightarrow> bool option" where
  "span_has_overlapping_copies results vals =
    (if iter_len_as_u16 results \<noteq> iter_len_as_u16 vals then None
     else if iter_len_as_u16 results \<le> 1 then Some False
     else let first_value = iter_next vals; first_result = iter_next results
          in if sint first_result \<le> sint first_value then Some False
             else case iter_step_back vals of
               None \<Rightarrow> None
             | Some (last_value, _) \<Rightarrow> Some (sint first_result \<le> sint last_value))"

definition has_overlapping_copies :: "reg_span \<Rightarrow> reg_span \<Rightarrow> u16 \<Rightarrow> bool option" where
  "has_overlapping_copies results vals len =
    Option.bind (iter_new_u16 results len) (\<lambda>r.
    Option.bind (iter_new_u16 vals len) (\<lambda>v. span_has_overlapping_copies r v))"

record bounded_reg_span =
  brs_span :: reg_span
  brs_len :: u16

definition brs_contains :: "bounded_reg_span \<Rightarrow> reg \<Rightarrow> bool" where
  "brs_contains s r =
    (if brs_len s = 0 then False
     else sint (brs_span s) \<le> sint r \<and> sint r < sint (reg_next_n (brs_span s) (brs_len s)))"

text \<open>\<open>FixedRegSpan<N>\<close> carries its length \<open>N\<close> in the type; here it is the first argument.\<close>

definition fixed_new :: "u16 \<Rightarrow> reg_span \<Rightarrow> bounded_reg_span option" where
  "fixed_new n span =
    (if sint (reg_next_n span n) \<le> sint span then None
     else Some \<lparr>brs_span = span, brs_len = n\<rparr>)"

definition fixed_contains :: "u16 \<Rightarrow> reg_span \<Rightarrow> reg \<Rightarrow> bool" where
  "fixed_contains n span r =
    (if n = 0 then False
     else sint span \<le> sint r \<and> sint r < sint (reg_next_n span n))"


section \<open>The registers of a span\<close>

lemma sint_reg_add:
  fixes r :: reg
  assumes "sint r + int k < 2 ^ 15"
  shows "sint (r + of_nat k) = sint r + int k"
proof -
  have "r + of_nat k = word_of_int (sint r + int k)" by simp
  moreover have "- (2 ^ 15) \<le> sint r" using sint_bounds(1) [of r] by simp
  ultimately show ?thesis
    using assms sint_of_range [where 'a = 16, of "sint r + int k"] by simp
qed

lemma iter_new_u16_Some:
  "iter_new_u16 r n = Some it \<longleftrightarrow>
    sint r + uint n < 2 ^ 15 \<and> it = \<lparr>iter_next = r, iter_last = r + n\<rparr>"
proof -
  have "sint r \<le> sint (r + n)" if "sint r + uint n < 2 ^ 15"
    using sint_reg_add [of r "unat n"] that by simp
  then show ?thesis by (auto simp: iter_new_u16_def iter_from_raw_parts_def)
qed

lemma iter_len_new:
  assumes "sint r + uint n < 2 ^ 15"
  shows "iter_len_as_u16 \<lparr>iter_next = r, iter_last = r + n\<rparr> = n"
  using sint_reg_add [of r "unat n"] assms by (simp add: iter_len_as_u16_def)

lemma iter_regs_eq:
  assumes "k < 2 ^ 16"
  shows "iter_regs \<lparr>iter_next = r, iter_last = r + of_nat k\<rparr> = map (\<lambda>i. r + of_nat i) [0..<k]"
  using assms
proof (induction k arbitrary: r)
  case 0
  then show ?case by (simp add: iter_regs.simps iter_step_def)
next
  case (Suc k)
  have "(of_nat (Suc k) :: u16) \<noteq> 0"
    using Suc.prems by (simp only: word_of_nat_eq_0_iff) (auto dest: dvd_imp_le)
  then have "r \<noteq> r + of_nat (Suc k)" by (metis add_cancel_left_right)
  then have "iter_regs \<lparr>iter_next = r, iter_last = r + of_nat (Suc k)\<rparr>
      = r # iter_regs \<lparr>iter_next = r + 1, iter_last = (r + 1) + of_nat k\<rparr>"
    by (subst iter_regs.simps)
      (simp add: iter_step_def reg_next_def reg_next_n_def algebra_simps)
  also have "\<dots> = r # map (\<lambda>i. (r + 1) + of_nat i) [0..<k]"
    using Suc by simp
  also have "\<dots> = map (\<lambda>i. r + of_nat i) (0 # map Suc [0..<k])"
    by (simp add: algebra_simps)
  finally show ?case by (simp only: map_Suc_upt upt_conv_Cons zero_less_Suc)
qed

definition span_regs :: "reg_span \<Rightarrow> u16 \<Rightarrow> reg list" where
  "span_regs r n = map (\<lambda>i. r + of_nat i) [0..<unat n]"

lemma iter_regs_new:
  "iter_new_u16 r n = Some it \<Longrightarrow> iter_regs it = span_regs r n"
  using iter_regs_eq [of "unat n" r] unsigned_less [of n, where ?'a = nat]
  by (simp add: iter_new_u16_Some span_regs_def)

lemma length_span_regs [simp]: "length (span_regs r n) = unat n"
  by (simp add: span_regs_def)

text \<open>
  \<open>has_overlapping_copies\<close> is exact: it answers \<open>True\<close> just when a forward copy would read a
  register that an earlier step of the same copy has written.
\<close>

lemma has_overlapping_copies_exact:
  assumes "has_overlapping_copies results vals len = Some b"
  shows "b \<longleftrightarrow> (\<exists>i j. i < j \<and> j < unat len \<and> span_regs vals len ! j = span_regs results len ! i)"
proof -
  let ?n = "unat len"
  from assms have r: "sint results + int ?n < 2 ^ 15" and v: "sint vals + int ?n < 2 ^ 15"
    by (auto simp: has_overlapping_copies_def iter_new_u16_Some bind_eq_Some_conv)
  have idx: "vals + of_nat j = results + of_nat i \<longleftrightarrow> sint vals + int j = sint results + int i"
    if "i < ?n" "j < ?n" for i j
  proof -
    have "sint vals + int j < 2 ^ 15" "sint results + int i < 2 ^ 15" using that r v by linarith+
    then have "sint (vals + of_nat j) = sint vals + int j"
      "sint (results + of_nat i) = sint results + int i"
      by (simp_all only: sint_reg_add)
    then show ?thesis by (simp only: sint_eq_iff [symmetric])
  qed
  have ov: "b \<longleftrightarrow> 1 < ?n \<and> sint vals < sint results \<and> sint results \<le> sint vals + int ?n - 1"
  proof (cases "1 < ?n")
    case False
    then have "len \<le> 1" by (simp add: word_le_nat_alt)
    with False assms r v show ?thesis
      by (auto simp: has_overlapping_copies_def iter_new_u16_Some bind_eq_Some_conv
          span_has_overlapping_copies_def iter_len_new)
  next
    case True
    then have "\<not> len \<le> 1" by (simp add: word_le_nat_alt)
    moreover have "vals + len - 1 = vals + of_nat (?n - 1)"
      using True by simp
    then have "sint (vals + len - 1) = sint vals + int ?n - 1"
      using sint_reg_add [of vals "?n - 1"] v True by (simp add: algebra_simps)
    moreover have "vals \<noteq> vals + len" using True by auto
    ultimately show ?thesis using True assms r v
      by (auto simp: has_overlapping_copies_def iter_new_u16_Some bind_eq_Some_conv Let_def
          span_has_overlapping_copies_def iter_len_new iter_step_back_def reg_prev_def
          reg_prev_n_def split: if_splits)
  qed
  show ?thesis
  proof
    assume b
    with ov have *: "1 < ?n" "sint vals < sint results" "sint results \<le> sint vals + int ?n - 1"
      by auto
    let ?j = "nat (sint results - sint vals)"
    have "int ?j = sint results - sint vals" using * by simp
    with * have j: "0 < ?j" "?j < ?n" "sint vals + int ?j = sint results + int 0" by linarith+
    then have "vals + of_nat ?j = results + of_nat 0" using idx [of 0 ?j] * by linarith
    with j show "\<exists>i j. i < j \<and> j < ?n \<and> span_regs vals len ! j = span_regs results len ! i"
      by (intro exI [of _ 0] exI [of _ ?j]) (simp add: span_regs_def)
  next
    assume "\<exists>i j. i < j \<and> j < ?n \<and> span_regs vals len ! j = span_regs results len ! i"
    then obtain i j where "i < j" "j < ?n" "sint vals + int j = sint results + int i"
      by (auto simp: span_regs_def idx)
    then have "1 < ?n" "sint vals < sint results" "sint results \<le> sint vals + int ?n - 1"
      by linarith+
    then show b unfolding ov by blast
  qed
qed


section \<open>Copies between registers\<close>

primrec mapo :: "('a \<Rightarrow> 'b option) \<Rightarrow> 'a list \<Rightarrow> 'b list option" where
  "mapo f [] = Some []"
| "mapo f (x # xs) = Option.bind (f x) (\<lambda>y. Option.bind (mapo f xs) (\<lambda>ys. Some (y # ys)))"

lemma mapo_cong: "(\<And>x. x \<in> set xs \<Longrightarrow> f x = g x) \<Longrightarrow> mapo f xs = mapo g xs"
  by (induction xs) auto

lemma length_mapo: "mapo f xs = Some ys \<Longrightarrow> length ys = length xs"
  by (induction xs arbitrary: ys) (auto simp: bind_eq_Some_conv)

locale register_file =
  fixes rget :: "'s \<Rightarrow> reg \<Rightarrow> 'v option"
    and rset :: "'s \<Rightarrow> reg \<Rightarrow> 'v \<Rightarrow> 's option"
  assumes rset_defined: "rset s r v = None \<longleftrightarrow> rget s r = None"
    and rget_rset: "rset s r v = Some s' \<Longrightarrow> rget s' q = (if q = r then Some v else rget s q)"
begin

primrec set_all :: "'s \<Rightarrow> (reg \<times> 'v) list \<Rightarrow> 's option" where
  "set_all s [] = Some s"
| "set_all s (p # ps) = Option.bind (rset s (fst p) (snd p)) (\<lambda>s'. set_all s' ps)"

primrec copy_forward :: "'s \<Rightarrow> (reg \<times> reg) list \<Rightarrow> 's option" where
  "copy_forward s [] = Some s"
| "copy_forward s (p # ps) =
    Option.bind (rget s (snd p)) (\<lambda>x. Option.bind (rset s (fst p) x) (\<lambda>s'. copy_forward s' ps))"

definition copy_buffered :: "'s \<Rightarrow> (reg \<times> reg) list \<Rightarrow> 's option" where
  "copy_buffered s ps = Option.bind (mapo (rget s) (map snd ps)) (\<lambda>xs. set_all s (zip (map fst ps) xs))"

lemma set_all_get:
  "set_all s ps = Some s' \<Longrightarrow> q \<notin> fst ` set ps \<Longrightarrow> rget s' q = rget s q"
  by (induction ps arbitrary: s) (auto simp: bind_eq_Some_conv rget_rset)

lemma set_all_in:
  "set_all s ps = Some s' \<Longrightarrow> distinct (map fst ps) \<Longrightarrow> i < length ps \<Longrightarrow>
    rget s' (fst (ps ! i)) = Some (snd (ps ! i))"
proof (induction ps arbitrary: s i)
  case (Cons p ps)
  then obtain s1 where s1: "rset s (fst p) (snd p) = Some s1" "set_all s1 ps = Some s'"
    by (auto simp: bind_eq_Some_conv)
  show ?case
  proof (cases i)
    case 0
    have "fst p \<notin> fst ` set ps" using Cons.prems(2) by auto
    with s1 0 show ?thesis by (simp add: set_all_get rget_rset)
  next
    case (Suc j)
    with Cons s1 show ?thesis by auto
  qed
qed simp

text \<open>
  A forward copy equals the buffered copy when no source register is written before it is read.
\<close>

lemma copy_forward_buffered:
  assumes "\<forall>i j. i < j \<longrightarrow> j < length ps \<longrightarrow> snd (ps ! j) \<noteq> fst (ps ! i)"
  shows "copy_forward s ps = copy_buffered s ps"
  using assms
proof (induction ps arbitrary: s)
  case Nil
  then show ?case by (simp add: copy_buffered_def)
next
  case (Cons p ps)
  have IH: "copy_forward s' ps = copy_buffered s' ps" for s'
    using Cons.prems by (intro Cons.IH) (metis Suc_less_eq length_Cons nth_Cons_Suc)
  have fresh: "q \<noteq> fst p" if "q \<in> set (map snd ps)" for q
  proof -
    from that obtain j where "j < length ps" "q = snd (ps ! j)"
      by (auto simp: in_set_conv_nth)
    then show ?thesis using Cons.prems [rule_format, of 0 "Suc j"] by simp
  qed
  show ?case
  proof (cases "rget s (snd p)")
    case None
    then show ?thesis by (simp add: copy_buffered_def)
  next
    case (Some x)
    show ?thesis
    proof (cases "rset s (fst p) x")
      case None
      then have "rset s (fst p) y = None" for y using rset_defined by metis
      with Some None show ?thesis
        by (cases "mapo (rget s) (map snd ps)") (simp_all add: copy_buffered_def)
    next
      case s': (Some s')
      have "mapo (rget s') (map snd ps) = mapo (rget s) (map snd ps)"
        using fresh by (intro mapo_cong) (simp add: rget_rset [OF s'])
      with Some s' show ?thesis
        by (cases "mapo (rget s) (map snd ps)") (simp_all add: copy_buffered_def IH)
    qed
  qed
qed

end


section \<open>Properties\<close>

text \<open>
  C19. The overlap check of register spans is exact: it answers \<open>True\<close> just when a copy of the
  values to the results in ascending order would read a register that an earlier step has
  overwritten.
\<close>
theorem overlap_check_exact:
  assumes "has_overlapping_copies results vals len = Some b"
  shows "b \<longleftrightarrow> (\<exists>i j. i < j \<and> j < unat len \<and> span_regs vals len ! j = span_regs results len ! i)"
  by (rule has_overlapping_copies_exact [OF assms])

lemma overlap_check_exact_witness:
  "has_overlapping_copies 5 4 3 = Some True \<and>
   (\<exists>i j. i < j \<and> j < 3 \<and> span_regs 4 3 ! j = span_regs 5 3 ! i)"
proof -
  have "has_overlapping_copies 5 4 3 = Some True" by code_simp
  with overlap_check_exact [OF this] show ?thesis by simp
qed

end
