(* ===== verification/Wasm_Num.thy ===== *)
theory Wasm_Num
  imports Prelude
begin

text \<open>
  The untyped 64-bit value cell of \<open>core/src/untyped.rs\<close> and the integer operations of Wasm
  on it, with the traits \<open>ArithmeticOps\<close>, \<open>Integer\<close>, \<open>WrapInto\<close>, \<open>ExtendInto\<close> and
  \<open>SignExtendFrom\<close> of \<open>core/src/value.rs\<close> as generic functions on machine words. A signed
  and an unsigned Rust integer of one width share the Isabelle word type; an operation that
  reads the sign uses \<open>sint\<close>.
\<close>

unbundle bit_operations_syntax

datatype val_type = I32 | I64 | F32 | F64 | FuncRef | ExternRef

definition is_num :: "val_type \<Rightarrow> bool" where
  "is_num t = (t = I32 \<or> t = I64 \<or> t = F32 \<or> t = F64)"

definition is_ref :: "val_type \<Rightarrow> bool" where
  "is_ref t = (t = ExternRef \<or> t = FuncRef)"

definition is_float :: "val_type \<Rightarrow> bool" where
  "is_float t = (t = F32 \<or> t = F64)"

datatype trap_code =
    UnreachableCodeReached
  | MemoryOutOfBounds
  | TableOutOfBounds
  | IndirectCallToNull
  | IntegerDivisionByZero
  | IntegerOverflow
  | BadConversionToInteger
  | StackOverflow
  | BadSignature
  | OutOfFuel
  | GrowthOperationLimited


section \<open>Untyped values\<close>

text \<open>\<open>UntypedVal\<close> is a transparent wrapper of its 64 bits.\<close>

type_synonym untyped_val = u64

definition to_i32 :: "untyped_val \<Rightarrow> u32" where "to_i32 v = ucast v"
definition to_i64 :: "untyped_val \<Rightarrow> u64" where "to_i64 v = ucast v"
definition to_bool :: "untyped_val \<Rightarrow> bool" where "to_bool v = (v \<noteq> 0)"
definition of_i32 :: "u32 \<Rightarrow> untyped_val" where "of_i32 i = ucast i"
definition of_i64 :: "u64 \<Rightarrow> untyped_val" where "of_i64 i = ucast i"
definition of_boolean :: "bool \<Rightarrow> untyped_val" where "of_boolean b = (if b then 1 else 0)"

definition execute_unary :: "(untyped_val \<Rightarrow> 't) \<Rightarrow> ('r \<Rightarrow> untyped_val) \<Rightarrow> ('t \<Rightarrow> 'r)
    \<Rightarrow> untyped_val \<Rightarrow> untyped_val" where
  "execute_unary from into oper self = into (oper (from self))"

definition try_execute_unary :: "(untyped_val \<Rightarrow> 't) \<Rightarrow> ('r \<Rightarrow> untyped_val)
    \<Rightarrow> ('t \<Rightarrow> trap_code + 'r) \<Rightarrow> untyped_val \<Rightarrow> trap_code + untyped_val" where
  "try_execute_unary from into oper self = rmap into (oper (from self))"

definition execute_binary :: "(untyped_val \<Rightarrow> 't) \<Rightarrow> ('r \<Rightarrow> untyped_val) \<Rightarrow> ('t \<Rightarrow> 't \<Rightarrow> 'r)
    \<Rightarrow> untyped_val \<Rightarrow> untyped_val \<Rightarrow> untyped_val" where
  "execute_binary from into oper self rhs = into (oper (from self) (from rhs))"

definition try_execute_binary :: "(untyped_val \<Rightarrow> 't) \<Rightarrow> ('r \<Rightarrow> untyped_val)
    \<Rightarrow> ('t \<Rightarrow> 't \<Rightarrow> trap_code + 'r) \<Rightarrow> untyped_val \<Rightarrow> untyped_val \<Rightarrow> trap_code + untyped_val" where
  "try_execute_binary from into oper self rhs = rmap into (oper (from self) (from rhs))"


section \<open>Integer traits\<close>

definition arith_add :: "'a::len word \<Rightarrow> 'a word \<Rightarrow> 'a word" where "arith_add x y = x + y"
definition arith_sub :: "'a::len word \<Rightarrow> 'a word \<Rightarrow> 'a word" where "arith_sub x y = x - y"
definition arith_mul :: "'a::len word \<Rightarrow> 'a word \<Rightarrow> 'a word" where "arith_mul x y = x * y"

text \<open>The bits of a word, the least significant one first.\<close>

definition bits_lsb :: "'a::len word \<Rightarrow> bool list" where
  "bits_lsb x = map (bit x) [0..<LENGTH('a)]"

definition leading_zeros :: "'a::len word \<Rightarrow> 'a word" where
  "leading_zeros x = of_nat (length (takeWhile Not (rev (bits_lsb x))))"

definition trailing_zeros :: "'a::len word \<Rightarrow> 'a word" where
  "trailing_zeros x = of_nat (length (takeWhile Not (bits_lsb x)))"

definition count_ones :: "'a::len word \<Rightarrow> 'a word" where
  "count_ones x = of_nat (length (filter id (bits_lsb x)))"

text \<open>
  \<open>rotate_left(other as u32)\<close>: the amount is truncated to 32 bits and taken modulo the width.
\<close>

definition int_rotl :: "'a::len word \<Rightarrow> 'a word \<Rightarrow> 'a word" where
  "int_rotl x y = word_rotl (unat (ucast y :: u32)) x"

definition int_rotr :: "'a::len word \<Rightarrow> 'a word \<Rightarrow> 'a word" where
  "int_rotr x y = word_rotr (unat (ucast y :: u32)) x"

definition min_signed :: "'a::len word" where
  "min_signed = 2 ^ (LENGTH('a) - 1)"

definition max_signed :: "'a::len word" where
  "max_signed = 2 ^ (LENGTH('a) - 1) - 1"

text \<open>
  \<open>overflowing_div\<close> of a signed type: \<open>MIN / -1\<close> overflows and yields \<open>MIN\<close>.
\<close>

definition overflowing_div_s :: "'a::len word \<Rightarrow> 'a word \<Rightarrow> 'a word \<times> bool" where
  "overflowing_div_s x y =
    (if x = min_signed \<and> y = - 1 then (x, True)
     else (word_of_int (sint x sdiv sint y), False))"

definition overflowing_div_u :: "'a::len word \<Rightarrow> 'a word \<Rightarrow> 'a word \<times> bool" where
  "overflowing_div_u x y = (x div y, False)"

definition wrapping_rem_s :: "'a::len word \<Rightarrow> 'a word \<Rightarrow> 'a word" where
  "wrapping_rem_s x y =
    (if x = min_signed \<and> y = - 1 then 0 else word_of_int (sint x smod sint y))"

definition wrapping_rem_u :: "'a::len word \<Rightarrow> 'a word \<Rightarrow> 'a word" where
  "wrapping_rem_u x y = x mod y"

definition int_div :: "('a::len word \<Rightarrow> 'a word \<Rightarrow> 'a word \<times> bool) \<Rightarrow> 'a word \<Rightarrow> 'a word
    \<Rightarrow> trap_code + 'a word" where
  "int_div overflowing_div self other =
    (if other = 0 then Inl IntegerDivisionByZero
     else let (result, overflow) = overflowing_div self other
          in if overflow then Inl IntegerOverflow else Inr result)"

definition int_rem :: "('a::len word \<Rightarrow> 'a word \<Rightarrow> 'a word) \<Rightarrow> 'a word \<Rightarrow> 'a word
    \<Rightarrow> trap_code + 'a word" where
  "int_rem wrapping_rem self other =
    (if other = 0 then Inl IntegerDivisionByZero else Inr (wrapping_rem self other))"

text \<open>Shifts with the amount masked to the width (\<open>0x1F\<close>, \<open>0x3F\<close>).\<close>

definition shl_masked :: "'a::len word \<Rightarrow> 'a word \<Rightarrow> 'a word \<Rightarrow> 'a word" where
  "shl_masked m x y = push_bit (unat (y AND m)) x"

definition shr_s_masked :: "'a::len word \<Rightarrow> 'a word \<Rightarrow> 'a word \<Rightarrow> 'a word" where
  "shr_s_masked m x y = signed_drop_bit (unat (y AND m)) x"

definition shr_u_masked :: "'a::len word \<Rightarrow> 'a word \<Rightarrow> 'a word \<Rightarrow> 'a word" where
  "shr_u_masked m x y = drop_bit (unat (y AND m)) x"

definition wrap_into :: "'a::len word \<Rightarrow> 'b::len word" where "wrap_into x = ucast x"
definition extend_into_s :: "'a::len word \<Rightarrow> 'b::len word" where "extend_into_s x = scast x"
definition extend_into_u :: "'a::len word \<Rightarrow> 'b::len word" where "extend_into_u x = ucast x"

text \<open>\<open>sign_extend_from\<close> narrows to the small type (given by its \<open>itself\<close>) and widens it again.\<close>

definition sign_extend_from :: "'s::len itself \<Rightarrow> 'a::len word \<Rightarrow> 'a word" where
  "sign_extend_from _ x = scast (ucast x :: 's word)"


section \<open>The integer operations of Wasm\<close>

definition i32_add :: "untyped_val \<Rightarrow> untyped_val \<Rightarrow> untyped_val" where
  "i32_add = execute_binary to_i32 of_i32 arith_add"

definition i64_add :: "untyped_val \<Rightarrow> untyped_val \<Rightarrow> untyped_val" where
  "i64_add = execute_binary to_i64 of_i64 arith_add"

definition i32_sub :: "untyped_val \<Rightarrow> untyped_val \<Rightarrow> untyped_val" where
  "i32_sub = execute_binary to_i32 of_i32 arith_sub"

definition i64_sub :: "untyped_val \<Rightarrow> untyped_val \<Rightarrow> untyped_val" where
  "i64_sub = execute_binary to_i64 of_i64 arith_sub"

definition i32_mul :: "untyped_val \<Rightarrow> untyped_val \<Rightarrow> untyped_val" where
  "i32_mul = execute_binary to_i32 of_i32 arith_mul"

definition i64_mul :: "untyped_val \<Rightarrow> untyped_val \<Rightarrow> untyped_val" where
  "i64_mul = execute_binary to_i64 of_i64 arith_mul"

definition i32_div_s :: "untyped_val \<Rightarrow> untyped_val \<Rightarrow> trap_code + untyped_val" where
  "i32_div_s = try_execute_binary to_i32 of_i32 (int_div overflowing_div_s)"

definition i64_div_s :: "untyped_val \<Rightarrow> untyped_val \<Rightarrow> trap_code + untyped_val" where
  "i64_div_s = try_execute_binary to_i64 of_i64 (int_div overflowing_div_s)"

definition i32_div_u :: "untyped_val \<Rightarrow> untyped_val \<Rightarrow> trap_code + untyped_val" where
  "i32_div_u = try_execute_binary to_i32 of_i32 (int_div overflowing_div_u)"

definition i64_div_u :: "untyped_val \<Rightarrow> untyped_val \<Rightarrow> trap_code + untyped_val" where
  "i64_div_u = try_execute_binary to_i64 of_i64 (int_div overflowing_div_u)"

definition i32_rem_s :: "untyped_val \<Rightarrow> untyped_val \<Rightarrow> trap_code + untyped_val" where
  "i32_rem_s = try_execute_binary to_i32 of_i32 (int_rem wrapping_rem_s)"

definition i64_rem_s :: "untyped_val \<Rightarrow> untyped_val \<Rightarrow> trap_code + untyped_val" where
  "i64_rem_s = try_execute_binary to_i64 of_i64 (int_rem wrapping_rem_s)"

definition i32_rem_u :: "untyped_val \<Rightarrow> untyped_val \<Rightarrow> trap_code + untyped_val" where
  "i32_rem_u = try_execute_binary to_i32 of_i32 (int_rem wrapping_rem_u)"

definition i64_rem_u :: "untyped_val \<Rightarrow> untyped_val \<Rightarrow> trap_code + untyped_val" where
  "i64_rem_u = try_execute_binary to_i64 of_i64 (int_rem wrapping_rem_u)"

definition i32_and :: "untyped_val \<Rightarrow> untyped_val \<Rightarrow> untyped_val" where
  "i32_and = execute_binary to_i32 of_i32 (AND)"

definition i64_and :: "untyped_val \<Rightarrow> untyped_val \<Rightarrow> untyped_val" where
  "i64_and = execute_binary to_i64 of_i64 (AND)"

definition i32_or :: "untyped_val \<Rightarrow> untyped_val \<Rightarrow> untyped_val" where
  "i32_or = execute_binary to_i32 of_i32 (OR)"

definition i64_or :: "untyped_val \<Rightarrow> untyped_val \<Rightarrow> untyped_val" where
  "i64_or = execute_binary to_i64 of_i64 (OR)"

definition i32_xor :: "untyped_val \<Rightarrow> untyped_val \<Rightarrow> untyped_val" where
  "i32_xor = execute_binary to_i32 of_i32 (XOR)"

definition i64_xor :: "untyped_val \<Rightarrow> untyped_val \<Rightarrow> untyped_val" where
  "i64_xor = execute_binary to_i64 of_i64 (XOR)"

definition i32_shl :: "untyped_val \<Rightarrow> untyped_val \<Rightarrow> untyped_val" where
  "i32_shl = execute_binary to_i32 of_i32 (shl_masked 0x1F)"

definition i64_shl :: "untyped_val \<Rightarrow> untyped_val \<Rightarrow> untyped_val" where
  "i64_shl = execute_binary to_i64 of_i64 (shl_masked 0x3F)"

definition i32_shr_s :: "untyped_val \<Rightarrow> untyped_val \<Rightarrow> untyped_val" where
  "i32_shr_s = execute_binary to_i32 of_i32 (shr_s_masked 0x1F)"

definition i64_shr_s :: "untyped_val \<Rightarrow> untyped_val \<Rightarrow> untyped_val" where
  "i64_shr_s = execute_binary to_i64 of_i64 (shr_s_masked 0x3F)"

definition i32_shr_u :: "untyped_val \<Rightarrow> untyped_val \<Rightarrow> untyped_val" where
  "i32_shr_u = execute_binary to_i32 of_i32 (shr_u_masked 0x1F)"

definition i64_shr_u :: "untyped_val \<Rightarrow> untyped_val \<Rightarrow> untyped_val" where
  "i64_shr_u = execute_binary to_i64 of_i64 (shr_u_masked 0x3F)"

definition i32_clz :: "untyped_val \<Rightarrow> untyped_val" where
  "i32_clz = execute_unary to_i32 of_i32 leading_zeros"

definition i64_clz :: "untyped_val \<Rightarrow> untyped_val" where
  "i64_clz = execute_unary to_i64 of_i64 leading_zeros"

definition i32_ctz :: "untyped_val \<Rightarrow> untyped_val" where
  "i32_ctz = execute_unary to_i32 of_i32 trailing_zeros"

definition i64_ctz :: "untyped_val \<Rightarrow> untyped_val" where
  "i64_ctz = execute_unary to_i64 of_i64 trailing_zeros"

definition i32_popcnt :: "untyped_val \<Rightarrow> untyped_val" where
  "i32_popcnt = execute_unary to_i32 of_i32 count_ones"

definition i64_popcnt :: "untyped_val \<Rightarrow> untyped_val" where
  "i64_popcnt = execute_unary to_i64 of_i64 count_ones"

definition i32_rotl :: "untyped_val \<Rightarrow> untyped_val \<Rightarrow> untyped_val" where
  "i32_rotl = execute_binary to_i32 of_i32 int_rotl"

definition i64_rotl :: "untyped_val \<Rightarrow> untyped_val \<Rightarrow> untyped_val" where
  "i64_rotl = execute_binary to_i64 of_i64 int_rotl"

definition i32_rotr :: "untyped_val \<Rightarrow> untyped_val \<Rightarrow> untyped_val" where
  "i32_rotr = execute_binary to_i32 of_i32 int_rotr"

definition i64_rotr :: "untyped_val \<Rightarrow> untyped_val \<Rightarrow> untyped_val" where
  "i64_rotr = execute_binary to_i64 of_i64 int_rotr"

definition i32_eqz :: "untyped_val \<Rightarrow> untyped_val" where
  "i32_eqz = execute_unary to_i32 of_boolean (\<lambda>v. v = 0)"

definition i64_eqz :: "untyped_val \<Rightarrow> untyped_val" where
  "i64_eqz = execute_unary to_i64 of_boolean (\<lambda>v. v = 0)"

definition i32_eq :: "untyped_val \<Rightarrow> untyped_val \<Rightarrow> untyped_val" where
  "i32_eq = execute_binary to_i32 of_boolean (\<lambda>l r. l = r)"

definition i64_eq :: "untyped_val \<Rightarrow> untyped_val \<Rightarrow> untyped_val" where
  "i64_eq = execute_binary to_i64 of_boolean (\<lambda>l r. l = r)"

definition i32_ne :: "untyped_val \<Rightarrow> untyped_val \<Rightarrow> untyped_val" where
  "i32_ne = execute_binary to_i32 of_boolean (\<lambda>l r. l \<noteq> r)"

definition i64_ne :: "untyped_val \<Rightarrow> untyped_val \<Rightarrow> untyped_val" where
  "i64_ne = execute_binary to_i64 of_boolean (\<lambda>l r. l \<noteq> r)"

definition i32_lt_s :: "untyped_val \<Rightarrow> untyped_val \<Rightarrow> untyped_val" where
  "i32_lt_s = execute_binary to_i32 of_boolean (\<lambda>l r. sint l < sint r)"

definition i64_lt_s :: "untyped_val \<Rightarrow> untyped_val \<Rightarrow> untyped_val" where
  "i64_lt_s = execute_binary to_i64 of_boolean (\<lambda>l r. sint l < sint r)"

definition i32_lt_u :: "untyped_val \<Rightarrow> untyped_val \<Rightarrow> untyped_val" where
  "i32_lt_u = execute_binary to_i32 of_boolean (\<lambda>l r. l < r)"

definition i64_lt_u :: "untyped_val \<Rightarrow> untyped_val \<Rightarrow> untyped_val" where
  "i64_lt_u = execute_binary to_i64 of_boolean (\<lambda>l r. l < r)"

definition i32_le_s :: "untyped_val \<Rightarrow> untyped_val \<Rightarrow> untyped_val" where
  "i32_le_s = execute_binary to_i32 of_boolean (\<lambda>l r. sint l \<le> sint r)"

definition i64_le_s :: "untyped_val \<Rightarrow> untyped_val \<Rightarrow> untyped_val" where
  "i64_le_s = execute_binary to_i64 of_boolean (\<lambda>l r. sint l \<le> sint r)"

definition i32_le_u :: "untyped_val \<Rightarrow> untyped_val \<Rightarrow> untyped_val" where
  "i32_le_u = execute_binary to_i32 of_boolean (\<lambda>l r. l \<le> r)"

definition i64_le_u :: "untyped_val \<Rightarrow> untyped_val \<Rightarrow> untyped_val" where
  "i64_le_u = execute_binary to_i64 of_boolean (\<lambda>l r. l \<le> r)"

definition i32_gt_s :: "untyped_val \<Rightarrow> untyped_val \<Rightarrow> untyped_val" where
  "i32_gt_s = execute_binary to_i32 of_boolean (\<lambda>l r. sint l > sint r)"

definition i64_gt_s :: "untyped_val \<Rightarrow> untyped_val \<Rightarrow> untyped_val" where
  "i64_gt_s = execute_binary to_i64 of_boolean (\<lambda>l r. sint l > sint r)"

definition i32_gt_u :: "untyped_val \<Rightarrow> untyped_val \<Rightarrow> untyped_val" where
  "i32_gt_u = execute_binary to_i32 of_boolean (\<lambda>l r. l > r)"

definition i64_gt_u :: "untyped_val \<Rightarrow> untyped_val \<Rightarrow> untyped_val" where
  "i64_gt_u = execute_binary to_i64 of_boolean (\<lambda>l r. l > r)"

definition i32_ge_s :: "untyped_val \<Rightarrow> untyped_val \<Rightarrow> untyped_val" where
  "i32_ge_s = execute_binary to_i32 of_boolean (\<lambda>l r. sint l \<ge> sint r)"

definition i64_ge_s :: "untyped_val \<Rightarrow> untyped_val \<Rightarrow> untyped_val" where
  "i64_ge_s = execute_binary to_i64 of_boolean (\<lambda>l r. sint l \<ge> sint r)"

definition i32_ge_u :: "untyped_val \<Rightarrow> untyped_val \<Rightarrow> untyped_val" where
  "i32_ge_u = execute_binary to_i32 of_boolean (\<lambda>l r. l \<ge> r)"

definition i64_ge_u :: "untyped_val \<Rightarrow> untyped_val \<Rightarrow> untyped_val" where
  "i64_ge_u = execute_binary to_i64 of_boolean (\<lambda>l r. l \<ge> r)"

definition i32_wrap_i64 :: "untyped_val \<Rightarrow> untyped_val" where
  "i32_wrap_i64 = execute_unary to_i64 of_i32 wrap_into"

definition i64_extend_i32_s :: "untyped_val \<Rightarrow> untyped_val" where
  "i64_extend_i32_s = execute_unary to_i32 of_i64 extend_into_s"

definition i32_extend8_s :: "untyped_val \<Rightarrow> untyped_val" where
  "i32_extend8_s = execute_unary to_i32 of_i32 (sign_extend_from TYPE(8))"

definition i32_extend16_s :: "untyped_val \<Rightarrow> untyped_val" where
  "i32_extend16_s = execute_unary to_i32 of_i32 (sign_extend_from TYPE(16))"

definition i64_extend8_s :: "untyped_val \<Rightarrow> untyped_val" where
  "i64_extend8_s = execute_unary to_i64 of_i64 (sign_extend_from TYPE(8))"

definition i64_extend16_s :: "untyped_val \<Rightarrow> untyped_val" where
  "i64_extend16_s = execute_unary to_i64 of_i64 (sign_extend_from TYPE(16))"

definition i64_extend32_s :: "untyped_val \<Rightarrow> untyped_val" where
  "i64_extend32_s = execute_unary to_i64 of_i64 (sign_extend_from TYPE(32))"


section \<open>Exactness of the integer operations\<close>

lemma of_to_i32 [simp]: "to_i32 (of_i32 x) = x"
  by (simp add: to_i32_def of_i32_def ucast_down_up)

lemma of_to_i64 [simp]: "to_i64 (of_i64 x) = x"
  by (simp add: to_i64_def of_i64_def)

lemma to_of_i64 [simp]: "of_i64 (to_i64 x) = x"
  by (simp add: to_i64_def of_i64_def)

lemma to_bool_of_boolean [simp]: "to_bool (of_boolean b) = b"
  by (simp add: to_bool_def of_boolean_def)

lemma abs_sdiv: "\<bar>x sdiv y\<bar> = \<bar>x\<bar> div \<bar>y\<bar>" for x y :: int
  by (cases "x = 0 \<or> y = 0")
    (auto simp: signed_divide_int_def abs_mult abs_sgn_eq pos_imp_zdiv_nonneg_iff)

lemma abs_sdiv_le: "\<bar>x sdiv y\<bar> \<le> \<bar>x\<bar>" for x y :: int
proof -
  have "\<bar>x\<bar> div \<bar>y\<bar> \<le> \<bar>x\<bar>"
  proof (cases "x = 0 \<or> \<bar>y\<bar> \<le> 1")
    case True
    then have "x = 0 \<or> \<bar>y\<bar> = 0 \<or> \<bar>y\<bar> = 1" by linarith
    then show ?thesis by auto
  next
    case False
    then show ?thesis using int_div_less_self [of "\<bar>x\<bar>" "\<bar>y\<bar>"] by simp
  qed
  then show ?thesis by (simp add: abs_sdiv)
qed

lemma sdiv_eq_neg_abs:
  assumes "x sdiv y = - x" "x < 0" "y \<noteq> (0::int)"
  shows "y = - 1"
proof -
  have "\<bar>x\<bar> div \<bar>y\<bar> = \<bar>x\<bar>" using assms(1) abs_sdiv [of x y] by simp
  then have "\<bar>y\<bar> = 1"
    using int_div_less_self [of "\<bar>x\<bar>" "\<bar>y\<bar>"] assms(2,3) by linarith
  then show ?thesis using assms by (auto simp: abs_if split: if_splits)
qed

lemma sint_min_signed: "sint (min_signed :: 'a::len word) = - (2 ^ (LENGTH('a) - 1))"
proof -
  let ?p = "2 ^ (LENGTH('a) - 1) :: 'a word"
  have "?p + ?p = 2 ^ Suc (LENGTH('a) - 1)" by (simp only: power_Suc mult_2)
  also have "\<dots> = 2 ^ LENGTH('a)" by (simp only: Suc_diff_1 len_gt_0)
  also have "\<dots> = 0" by (simp only: exp_eq_zero_iff)
  finally have "?p = - ?p" by (simp only: eq_neg_iff_add_eq_0)
  then have "min_signed = (word_of_int (- (2 ^ (LENGTH('a) - 1))) :: 'a word)"
    by (simp add: min_signed_def)
  then have "sint (min_signed :: 'a word) = sint (word_of_int (- (2 ^ (LENGTH('a) - 1))) :: 'a word)"
    by (simp only:)
  also have "\<dots> = - (2 ^ (LENGTH('a) - 1))" by (rule sint_of_range) simp_all
  finally show ?thesis .
qed

lemma sint_eq_0_iff: "sint (a :: 'a::len word) = 0 \<longleftrightarrow> a = 0"
  using sint_eq_iff [of a 0] by simp

lemma sint_sdiv:
  fixes x y :: "'a::len word"
  assumes "y \<noteq> 0" "\<not> (x = min_signed \<and> y = - 1)"
  shows "sint (word_of_int (sint x sdiv sint y) :: 'a word) = sint x sdiv sint y"
proof (rule sint_of_range)
  let ?m = "2 ^ (LENGTH('a) - 1) :: int"
  have "\<bar>sint x\<bar> \<le> ?m" using sint_bounds [of x] by linarith
  then have b: "\<bar>sint x sdiv sint y\<bar> \<le> ?m" using abs_sdiv_le [of "sint x" "sint y"] by linarith
  then show "- ?m \<le> sint x sdiv sint y" by linarith
  have "sint x sdiv sint y \<noteq> ?m"
  proof
    assume e: "sint x sdiv sint y = ?m"
    then have "\<bar>sint x\<bar> = ?m" using abs_sdiv_le [of "sint x" "sint y"] \<open>\<bar>sint x\<bar> \<le> ?m\<close> by linarith
    then have x: "sint x = - ?m" using sint_bounds(2) [of x] by linarith
    then have "x = min_signed" by (metis sint_min_signed sint_eq_iff)
    moreover have "sint y = - 1"
      using e x assms(1) by (intro sdiv_eq_neg_abs [of "sint x"]) (auto simp: sint_eq_0_iff)
    then have "y = - 1" by (metis sint_n1 sint_eq_iff)
    ultimately show False using assms(2) by blast
  qed
  then show "sint x sdiv sint y < ?m" using b by linarith
qed

lemma abs_smod_less: "y \<noteq> 0 \<Longrightarrow> \<bar>x smod y\<bar> < \<bar>y\<bar>" for x y :: int
  by (simp add: smod_int_alt_def abs_mult abs_sgn_eq)

lemma sint_smod:
  fixes x y :: "'a::len word"
  assumes "y \<noteq> 0"
  shows "sint (word_of_int (sint x smod sint y) :: 'a word) = sint x smod sint y"
proof (rule sint_of_range)
  have "\<bar>sint x smod sint y\<bar> < \<bar>sint y\<bar>" using assms by (intro abs_smod_less) (simp add: sint_eq_0_iff)
  then show "- (2 ^ (LENGTH('a) - 1)) \<le> sint x smod sint y"
    "sint x smod sint y < 2 ^ (LENGTH('a) - 1)"
    using sint_bounds [of y] by linarith+
qed

lemma int_div_s_exact:
  fixes x y :: "'a::len word"
  shows "int_div overflowing_div_s x y =
    (if y = 0 then Inl IntegerDivisionByZero
     else if sint x = - (2 ^ (LENGTH('a) - 1)) \<and> sint y = - 1 then Inl IntegerOverflow
     else Inr (word_of_int (sint x sdiv sint y)))"
proof -
  have "x = min_signed \<longleftrightarrow> sint x = - (2 ^ (LENGTH('a) - 1))"
    by (metis sint_min_signed sint_eq_iff)
  moreover have "y = - 1 \<longleftrightarrow> sint y = - 1"
    by (metis sint_n1 sint_eq_iff)
  ultimately show ?thesis by (simp add: int_div_def overflowing_div_s_def)
qed

text \<open>The signed quotient and remainder of one width, as one statement over both operations.\<close>

definition div_rem_contract :: "('a::len word \<Rightarrow> int) \<Rightarrow> 'a word \<Rightarrow> 'a word
    \<Rightarrow> trap_code + 'a word \<Rightarrow> trap_code + 'a word \<Rightarrow> bool" where
  "div_rem_contract val x y q m = (case (q, m) of
      (Inr q, Inr m) \<Rightarrow> val x = val q * val y + val m \<and> \<bar>val m\<bar> < \<bar>val y\<bar> \<and> 0 \<le> val m * val x
    | (Inl e, Inr m) \<Rightarrow> e = IntegerOverflow \<and> val y = - 1 \<and> val x = - (2 ^ (LENGTH('a) - 1)) \<and> val m = 0
    | (Inl e, Inl f) \<Rightarrow> e = IntegerDivisionByZero \<and> f = IntegerDivisionByZero \<and> y = 0
    | (Inr _, Inl _) \<Rightarrow> False)"

lemma div_rem_s_contract:
  "div_rem_contract sint x y (int_div overflowing_div_s x y) (int_rem wrapping_rem_s x y)"
proof (cases "y = 0")
  case True
  then show ?thesis by (simp add: div_rem_contract_def int_div_def int_rem_def)
next
  case False
  show ?thesis
  proof (cases "x = min_signed \<and> y = - 1")
    case True
    with False show ?thesis
      by (simp add: div_rem_contract_def int_div_def int_rem_def overflowing_div_s_def
          wrapping_rem_s_def sint_min_signed)
  next
    case nov: False
    have "0 < \<bar>sint y\<bar>" using False by (simp add: sint_eq_0_iff)
    then have "0 \<le> (sint x smod sint y) * sint x"
      by (simp add: smod_int_alt_def sgn_if zero_le_mult_iff)
    with False nov show ?thesis
      by (auto simp: div_rem_contract_def int_div_def int_rem_def overflowing_div_s_def
          wrapping_rem_s_def sint_sdiv sint_smod abs_smod_less sint_eq_0_iff sdiv_mult_smod_eq)
  qed
qed

lemma div_rem_u_contract:
  "div_rem_contract uint x y (int_div overflowing_div_u x y) (int_rem wrapping_rem_u x y)"
proof (cases "y = 0")
  case True
  then show ?thesis by (simp add: div_rem_contract_def int_div_def int_rem_def)
next
  case False
  then have "0 < uint y" by (metis uint_ge_0 uint_0_iff order_le_less)
  then have "0 \<le> uint x mod uint y" "uint x mod uint y < uint y" by simp_all
  with False show ?thesis
    by (simp add: div_rem_contract_def int_div_def int_rem_def overflowing_div_u_def
        wrapping_rem_u_def uint_div uint_mod)
qed

lemma length_bits_lsb [simp]: "length (bits_lsb (x :: 'a::len word)) = LENGTH('a)"
  by (simp add: bits_lsb_def)

lemma takeWhile_Not_nth:
  assumes "n = length (takeWhile Not xs)"
  shows "\<And>j. j < n \<Longrightarrow> \<not> xs ! j" "n < length xs \<Longrightarrow> xs ! n"
  using assms nth_length_takeWhile [of Not xs]
  by (auto simp flip: takeWhile_nth dest!: nth_mem set_takeWhileD)

lemma length_takeWhile_bits: "length (takeWhile P (bits_lsb (x :: 'a::len word))) \<le> LENGTH('a)"
    "length (takeWhile P (rev (bits_lsb x))) \<le> LENGTH('a)"
  by (metis length_takeWhile_le length_bits_lsb)
    (metis length_takeWhile_le length_bits_lsb length_rev)

lemma unat_of_nat_len: "n \<le> LENGTH('a) \<Longrightarrow> unat (of_nat n :: 'a::len word) = n"
  by (simp add: unat_of_nat le_less_trans [OF _ less_exp])

lemma odd_nonzero: "odd k \<Longrightarrow> k \<noteq> (0 :: int)"
  by auto

lemma leading_zeros_exact:
  fixes x :: "'a::len word"
  defines "n \<equiv> unat (leading_zeros x)"
  shows "n \<le> LENGTH('a)" "uint x < 2 ^ (LENGTH('a) - n)"
    "x \<noteq> 0 \<Longrightarrow> n < LENGTH('a) \<and> 2 ^ (LENGTH('a) - 1 - n) \<le> uint x"
proof -
  let ?L = "LENGTH('a)"
  have n: "n = length (takeWhile Not (rev (bits_lsb x)))"
    by (simp add: n_def leading_zeros_def unat_of_nat_len length_takeWhile_bits)
  show le: "n \<le> ?L" by (simp add: n length_takeWhile_bits)
  have low: "\<not> bit x j" if "?L - n \<le> j" for j
  proof (cases "j < ?L")
    case True
    then have "?L - 1 - j < n" using that le by linarith
    from takeWhile_Not_nth(1) [OF n this] True show ?thesis
      by (simp add: rev_nth bits_lsb_def)
  qed (auto dest: bit_imp_le_length)
  have "take_bit (?L - n) x = x"
    by (rule bit_word_eqI) (metis bit_take_bit_iff low not_less)
  then show "uint x < 2 ^ (?L - n)"
    by (metis unsigned_take_bit_eq take_bit_int_less_exp)
  assume "x \<noteq> 0"
  have "n < ?L"
  proof (rule ccontr)
    assume "\<not> n < ?L"
    then have "x = 0" using low by (intro bit_word_eqI) auto
    with \<open>x \<noteq> 0\<close> show False ..
  qed
  with takeWhile_Not_nth(2) [OF n] have "bit (uint x) (?L - 1 - n)"
    by (simp add: rev_nth bits_lsb_def bit_uint_iff)
  then have "odd (uint x div 2 ^ (?L - 1 - n))"
    unfolding bit_iff_odd .
  then have "uint x div 2 ^ (?L - 1 - n) \<noteq> 0"
    by (rule odd_nonzero)
  then have "2 ^ (?L - 1 - n) \<le> uint x"
    by (metis div_pos_pos_trivial linorder_not_less uint_ge_0)
  with \<open>n < ?L\<close> show "n < ?L \<and> 2 ^ (?L - 1 - n) \<le> uint x" ..
qed

lemma trailing_zeros_exact:
  fixes x :: "'a::len word"
  defines "n \<equiv> unat (trailing_zeros x)"
  shows "n \<le> LENGTH('a)" "2 ^ n dvd uint x" "x \<noteq> 0 \<Longrightarrow> n < LENGTH('a) \<and> \<not> 2 ^ Suc n dvd uint x"
proof -
  let ?L = "LENGTH('a)"
  have n: "n = length (takeWhile Not (bits_lsb x))"
    by (simp add: n_def trailing_zeros_def unat_of_nat_len length_takeWhile_bits)
  show le: "n \<le> ?L" by (simp add: n length_takeWhile_bits)
  have low: "\<not> bit x j" if "j < n" for j
    using takeWhile_Not_nth(1) [OF n that] that le by (simp add: bits_lsb_def)
  then have "take_bit n (uint x) = 0"
    by (intro bit_eqI) (auto simp: bit_take_bit_iff bit_uint_iff)
  then show "2 ^ n dvd uint x" by (simp add: take_bit_eq_0_iff)
  assume "x \<noteq> 0"
  have "n < ?L"
  proof (rule ccontr)
    assume "\<not> n < ?L"
    then have "x = 0" using low by (intro bit_word_eqI) auto
    with \<open>x \<noteq> 0\<close> show False ..
  qed
  with takeWhile_Not_nth(2) [OF n] have "bit (uint x) n"
    by (simp add: bits_lsb_def bit_uint_iff)
  then have "take_bit (Suc n) (uint x) \<noteq> 0"
    by (metis bit_0_eq bit_take_bit_iff bot_apply bot_bool_def lessI)
  with \<open>n < ?L\<close> show "n < ?L \<and> \<not> 2 ^ Suc n dvd uint x"
    by (simp only: take_bit_eq_0_iff) simp
qed


lemma zero_count_0:
  "leading_zeros (0 :: 'a::len word) = of_nat LENGTH('a)" "trailing_zeros (0 :: 'a::len word) = of_nat LENGTH('a)"
  by (simp_all add: leading_zeros_def trailing_zeros_def bits_lsb_def takeWhile_eq_all_conv [THEN iffD2] rev_map)

lemma zero_count_exact:
  fixes x :: "'a::len word"
  defines "n \<equiv> unat (leading_zeros x)" and "k \<equiv> unat (trailing_zeros x)"
  shows "if uint x = 0 then n = LENGTH('a) \<and> k = LENGTH('a)
    else n < LENGTH('a) \<and> 2 ^ (LENGTH('a) - 1 - n) \<le> uint x \<and> uint x < 2 ^ (LENGTH('a) - n) \<and>
      2 ^ k dvd uint x \<and> \<not> 2 ^ Suc k dvd uint x"
proof (cases "x = 0")
  case True
  then show ?thesis
    using unat_of_nat_len [of "LENGTH('a)", where 'a = 'a] by (simp add: n_def k_def zero_count_0)
next
  case False
  then show ?thesis
    using leading_zeros_exact [of x] trailing_zeros_exact [of x]
    by (simp add: n_def k_def unsigned_eq_0_iff)
qed


section \<open>Properties\<close>

text \<open>
  The division and remainder operations of both widths: a zero divisor traps in both, the
  signed quotient overflows just on the minimal value divided by -1 (where the remainder is zero),
  and otherwise quotient and remainder satisfy the division equation, the remainder being smaller
  than the divisor and of the sign of the dividend.
\<close>
theorem div_rem_exact:
  "div_rem_contract sint (to_i32 x) (to_i32 y) (rmap to_i32 (i32_div_s x y)) (rmap to_i32 (i32_rem_s x y)) \<and>
   div_rem_contract uint (to_i32 x) (to_i32 y) (rmap to_i32 (i32_div_u x y)) (rmap to_i32 (i32_rem_u x y)) \<and>
   div_rem_contract sint (to_i64 x) (to_i64 y) (rmap to_i64 (i64_div_s x y)) (rmap to_i64 (i64_rem_s x y)) \<and>
   div_rem_contract uint (to_i64 x) (to_i64 y) (rmap to_i64 (i64_div_u x y)) (rmap to_i64 (i64_rem_u x y))"
  by (simp add: i32_div_s_def i32_rem_s_def i32_div_u_def i32_rem_u_def i64_div_s_def i64_rem_s_def
      i64_div_u_def i64_rem_u_def try_execute_binary_def rmap_rmap o_def rmap_id
      div_rem_s_contract div_rem_u_contract)

text \<open>
  \<open>clz\<close> and \<open>ctz\<close> of both widths are exact: the width for zero, otherwise the position of the
  highest set bit counted from the top and the exponent of the largest power of two that divides
  the operand.
\<close>
theorem clz_ctz_exact:
  "(let n = unat (to_i32 (i32_clz x)); k = unat (to_i32 (i32_ctz x)); v = uint (to_i32 x)
    in if v = 0 then n = 32 \<and> k = 32
       else n < 32 \<and> 2 ^ (31 - n) \<le> v \<and> v < 2 ^ (32 - n) \<and> 2 ^ k dvd v \<and> \<not> 2 ^ Suc k dvd v) \<and>
   (let n = unat (to_i64 (i64_clz x)); k = unat (to_i64 (i64_ctz x)); v = uint (to_i64 x)
    in if v = 0 then n = 64 \<and> k = 64
       else n < 64 \<and> 2 ^ (63 - n) \<le> v \<and> v < 2 ^ (64 - n) \<and> 2 ^ k dvd v \<and> \<not> 2 ^ Suc k dvd v)"
  using zero_count_exact [of "to_i32 x"] zero_count_exact [of "to_i64 x"]
  by (simp add: i32_clz_def i32_ctz_def i64_clz_def i64_ctz_def execute_unary_def Let_def cong: if_cong)

end
