(* ===== verification/Stacks.thy ===== *)
theory Stacks
  imports Reg_Span Wasm_Num
begin

text \<open>
  The stacks of the executor: \<open>collections/src/head_vec.rs\<close>, the value stack and the call stack of
  \<open>wasmi/src/engine/executor/stack\<close>. Vectors are lists whose last element is the top. A cell that
  Rust leaves uninitialised holds \<open>uninit_cell\<close>; every operation that exposes such a cell writes
  it before it is read. A Rust panic is \<open>None\<close>.
\<close>


section \<open>HeadVec\<close>

record 'a head_vec =
  hv_head :: "'a option"
  hv_rest :: "'a list"

definition hv_default :: "'a head_vec" where
  "hv_default = \<lparr>hv_head = None, hv_rest = []\<rparr>"

definition hv_clear :: "'a head_vec \<Rightarrow> 'a head_vec" where
  "hv_clear v = v\<lparr>hv_head := None, hv_rest := []\<rparr>"

definition hv_len :: "'a head_vec \<Rightarrow> nat" where
  "hv_len v = (case hv_head v of Some _ \<Rightarrow> 1 + length (hv_rest v) | None \<Rightarrow> 0)"

definition hv_is_empty :: "'a head_vec \<Rightarrow> bool" where
  "hv_is_empty v = (hv_len v = 0)"

definition hv_last :: "'a head_vec \<Rightarrow> 'a option" where
  "hv_last v = hv_head v"

definition hv_push :: "'a \<Rightarrow> 'a head_vec \<Rightarrow> 'a head_vec" where
  "hv_push x v =
    (let v' = v\<lparr>hv_head := Some x\<rparr>
     in case hv_head v of
          Some prev_head \<Rightarrow> v'\<lparr>hv_rest := hv_rest v @ [prev_head]\<rparr>
        | None \<Rightarrow> v')"

text \<open>\<open>Vec::pop\<close> on a list.\<close>

definition vec_pop :: "'a list \<Rightarrow> 'a option \<times> 'a list" where
  "vec_pop xs = (if xs = [] then (None, []) else (Some (last xs), butlast xs))"

definition vec_last :: "'a list \<Rightarrow> 'a option" where
  "vec_last xs = (if xs = [] then None else Some (last xs))"

definition hv_pop :: "'a head_vec \<Rightarrow> 'a option \<times> 'a head_vec" where
  "hv_pop v =
    (let (new_top, rest) = vec_pop (hv_rest v)
     in (hv_head v, \<lparr>hv_head = new_top, hv_rest = rest\<rparr>))"

definition hv_list :: "'a head_vec \<Rightarrow> 'a list" where
  "hv_list v = hv_rest v @ (case hv_head v of None \<Rightarrow> [] | Some x \<Rightarrow> [x])"

definition hv_inv :: "'a head_vec \<Rightarrow> bool" where
  "hv_inv v \<longleftrightarrow> hv_head v = None \<longrightarrow> hv_rest v = []"

text \<open>
  The contract of a stack of instances: the operations act on the represented list as the ones
  of a vector do, and they keep the representation invariant.
\<close>

locale vector_stack =
  fixes empty :: 's and push :: "'a \<Rightarrow> 's \<Rightarrow> 's" and pop :: "'s \<Rightarrow> 'a option \<times> 's"
    and top :: "'s \<Rightarrow> 'a option" and items :: "'s \<Rightarrow> 'a list" and inv :: "'s \<Rightarrow> bool"
  assumes empty_inv: "inv empty" "items empty = []"
    and push_inv: "inv s \<Longrightarrow> inv (push x s)"
    and items_push: "inv s \<Longrightarrow> items (push x s) = items s @ [x]"
    and pop_inv: "inv s \<Longrightarrow> inv (snd (pop s))"
    and pop_items: "inv s \<Longrightarrow> (fst (pop s), items (snd (pop s))) = vec_pop (items s)"
    and top_items: "inv s \<Longrightarrow> top s = vec_last (items s)"
begin

lemma pop_push: "inv s \<Longrightarrow> fst (pop (push x s)) = Some x \<and> items (snd (pop (push x s))) = items s"
  using pop_items [OF push_inv, of s x] by (simp add: items_push vec_pop_def)

lemma top_push: "inv s \<Longrightarrow> top (push x s) = Some x"
  using top_items [OF push_inv, of s x] by (simp add: items_push vec_last_def)

primrec push_all :: "'a list \<Rightarrow> 's \<Rightarrow> 's" where
  "push_all [] s = s"
| "push_all (x # xs) s = push_all xs (push x s)"

lemma push_all_items: "inv s \<Longrightarrow> inv (push_all xs s) \<and> items (push_all xs s) = items s @ xs"
  by (induction xs arbitrary: s) (simp_all add: push_inv items_push)

end

lemma hv_push_list: "hv_inv v \<Longrightarrow> hv_list (hv_push x v) = hv_list v @ [x]"
  by (auto simp: hv_list_def hv_push_def hv_inv_def split: option.splits)

lemma hv_pop_list: "hv_inv v \<Longrightarrow> (fst (hv_pop v), hv_list (snd (hv_pop v))) = vec_pop (hv_list v)"
  by (cases "hv_head v")
    (auto simp: hv_list_def hv_pop_def hv_inv_def vec_pop_def butlast_append)

interpretation hv: vector_stack hv_default hv_push hv_pop hv_last hv_list hv_inv
proof
  show "hv_inv v \<Longrightarrow> hv_inv (hv_push x v)" for v :: "'a head_vec" and x
    by (auto simp: hv_inv_def hv_push_def Let_def split: option.splits)
  show "hv_inv v \<Longrightarrow> hv_inv (snd (hv_pop v))" for v :: "'a head_vec"
    by (auto simp: hv_inv_def hv_pop_def vec_pop_def)
  show "hv_inv v \<Longrightarrow> hv_last v = vec_last (hv_list v)" for v :: "'a head_vec"
    by (cases "hv_head v") (auto simp: hv_inv_def hv_last_def hv_list_def vec_last_def)
qed (simp_all add: hv_push_list hv_pop_list, simp_all add: hv_default_def hv_inv_def hv_list_def)

lemma hv_len_list: "hv_inv v \<Longrightarrow> hv_len v = length (hv_list v)"
  by (auto simp: hv_len_def hv_list_def hv_inv_def split: option.splits)


section \<open>The value stack\<close>

record value_stack =
  vs_values :: "untyped_val list"
  vs_max_len :: nat

definition uninit_cell :: untyped_val where "uninit_cell = 0"

definition vs_new :: "nat \<Rightarrow> nat \<Rightarrow> value_stack option" where
  "vs_new initial_len maximum_len =
    (if 0 < initial_len \<and> initial_len \<le> maximum_len
     then Some \<lparr>vs_values = [], vs_max_len = maximum_len\<rparr> else None)"

definition vs_empty :: value_stack where
  "vs_empty = \<lparr>vs_values = [], vs_max_len = 0\<rparr>"

definition vs_reset :: "value_stack \<Rightarrow> value_stack" where
  "vs_reset s = s\<lparr>vs_values := []\<rparr>"

definition vs_extend_by :: "nat \<Rightarrow> value_stack \<Rightarrow> trap_code + value_stack" where
  "vs_extend_by additional s =
    (if vs_max_len s - length (vs_values s) \<le> additional then Inl StackOverflow
     else Inr (s\<lparr>vs_values := vs_values s @ replicate additional uninit_cell\<rparr>))"

definition vs_drop :: "nat \<Rightarrow> value_stack \<Rightarrow> value_stack option" where
  "vs_drop amount s =
    (if amount \<le> length (vs_values s)
     then Some (s\<lparr>vs_values := take (length (vs_values s) - amount) (vs_values s)\<rparr>) else None)"

definition vs_drop_return :: "nat \<Rightarrow> value_stack \<Rightarrow> (untyped_val list \<times> value_stack) option" where
  "vs_drop_return amount s =
    (let len = length (vs_values s); dropped = drop (len - amount) (vs_values s)
     in Option.bind (vs_drop amount s) (\<lambda>s'. Some (dropped, s')))"

definition vs_truncate :: "nat \<Rightarrow> value_stack \<Rightarrow> value_stack option" where
  "vs_truncate new_len s =
    (if new_len \<le> length (vs_values s)
     then Some (s\<lparr>vs_values := take new_len (vs_values s)\<rparr>) else None)"

definition vs_drain :: "nat \<Rightarrow> nat \<Rightarrow> value_stack \<Rightarrow> (nat \<times> value_stack) option" where
  "vs_drain from_off to_off s =
    (if from_off \<le> to_off \<and> to_off \<le> length (vs_values s)
     then Some (to_off - from_off,
       s\<lparr>vs_values := take from_off (vs_values s) @ drop to_off (vs_values s)\<rparr>)
     else None)"

text \<open>The writable cells of a freshly allocated frame: the next cell and the end of the range.\<close>

record frame_params =
  fp_start :: nat
  fp_end :: nat

record stack_offsets =
  so_base :: nat
  so_frame :: nat

text \<open>
  \<open>alloc_call_frame\<close> writes the function local constants into the first cells. The zip stops at
  the shorter of the two, so a function with more constants than registers keeps the first ones.
\<close>

definition vs_alloc_call_frame :: "nat \<Rightarrow> untyped_val list \<Rightarrow> value_stack
    \<Rightarrow> trap_code + (frame_params \<times> stack_offsets \<times> value_stack)" where
  "vs_alloc_call_frame len_registers consts s =
    (let len_consts = length consts; len = length (vs_values s)
     in rbind (vs_extend_by len_registers s) (\<lambda>s1.
        let written = take len_registers consts;
            s2 = s1\<lparr>vs_values := put_range len written (vs_values s1)\<rparr>
        in Inr (\<lparr>fp_start = len + length written, fp_end = len + len_registers\<rparr>,
                \<lparr>so_base = len + len_consts, so_frame = len\<rparr>, s2)))"

definition fp_init_next :: "untyped_val \<Rightarrow> frame_params \<Rightarrow> value_stack
    \<Rightarrow> (frame_params \<times> value_stack) option" where
  "fp_init_next v p s =
    (if fp_start p < length (vs_values s)
     then Some (p\<lparr>fp_start := fp_start p + 1\<rparr>, s\<lparr>vs_values := (vs_values s)[fp_start p := v]\<rparr>)
     else None)"

text \<open>\<open>init_zeroes\<close> counts up to the end of the range, which lies in the stack.\<close>

definition fp_init_zeroes :: "frame_params \<Rightarrow> value_stack \<Rightarrow> value_stack option" where
  "fp_init_zeroes p s =
    (if fp_start p \<le> fp_end p \<and> fp_end p \<le> length (vs_values s)
     then Some (s\<lparr>vs_values := put_range (fp_start p) (replicate (fp_end p - fp_start p) 0) (vs_values s)\<rparr>)
     else None)"

text \<open>
  \<open>FrameRegisters\<close> is a raw pointer into the value stack: register \<open>r\<close> is the cell at \<open>sp + r\<close>.
  An access outside of the stack is undefined behaviour in Rust and \<open>None\<close> here.
\<close>

definition register_offset :: "nat \<Rightarrow> reg \<Rightarrow> value_stack \<Rightarrow> nat option" where
  "register_offset sp r s =
    (let i = int sp + sint r
     in if 0 \<le> i \<and> i < int (length (vs_values s)) then Some (nat i) else None)"

definition frame_get :: "nat \<Rightarrow> value_stack \<Rightarrow> reg \<Rightarrow> untyped_val option" where
  "frame_get sp s r = Option.bind (register_offset sp r s) (\<lambda>i. Some (vs_values s ! i))"

definition frame_set :: "nat \<Rightarrow> value_stack \<Rightarrow> reg \<Rightarrow> untyped_val \<Rightarrow> value_stack option" where
  "frame_set sp s r v =
    Option.bind (register_offset sp r s) (\<lambda>i. Some (s\<lparr>vs_values := (vs_values s)[i := v]\<rparr>))"

lemma register_offset_update [simp]:
  "register_offset sp r (s\<lparr>vs_values := (vs_values s)[i := v]\<rparr>) = register_offset sp r s"
  by (simp add: register_offset_def)

lemma register_offset_Some:
  "register_offset sp r s = Some i \<longleftrightarrow> int i = int sp + sint r \<and> i < length (vs_values s)"
  by (auto simp: register_offset_def Let_def)

lemma register_offset_inj:
  "register_offset sp r s = Some i \<Longrightarrow> register_offset sp q s = Some i \<longleftrightarrow> q = r"
  by (auto simp: register_offset_Some sint_eq_iff)

lemma frame_get_set:
  assumes "frame_set sp s r v = Some s'"
  shows "frame_get sp s' q = (if q = r then Some v else frame_get sp s q)"
proof -
  from assms obtain i where i: "register_offset sp r s = Some i"
    "s' = s\<lparr>vs_values := (vs_values s)[i := v]\<rparr>"
    by (auto simp: frame_set_def bind_eq_Some_conv)
  show ?thesis
  proof (cases "register_offset sp q s")
    case None
    with i show ?thesis by (auto simp: frame_get_def)
  next
    case (Some j)
    have "j = i \<longleftrightarrow> q = r"
      using register_offset_inj [OF i(1), of q] Some i(1) by auto
    moreover have "i < length (vs_values s)" using i(1) by (simp add: register_offset_Some)
    ultimately show ?thesis using Some i(2) by (cases "q = r") (auto simp: frame_get_def)
  qed
qed

interpretation regs: register_file "frame_get sp" "frame_set sp" for sp
proof
  show "frame_set sp s r v = None \<longleftrightarrow> frame_get sp s r = None" for s r v
    by (cases "register_offset sp r s") (simp_all add: frame_set_def frame_get_def)
qed (rule frame_get_set)


section \<open>The call stack\<close>

type_synonym instance_h = nat
type_synonym engine_func = nat

text \<open>
  An \<open>InstructionPtr\<close> points at an instruction of the code of one compiled function. It is the
  function and the index into its code.
\<close>

record instr_ptr =
  ip_func :: engine_func
  ip_index :: int

definition ip_offset :: "int \<Rightarrow> instr_ptr \<Rightarrow> instr_ptr" where
  "ip_offset by_n ip = ip\<lparr>ip_index := ip_index ip + by_n\<rparr>"

definition ip_add :: "nat \<Rightarrow> instr_ptr \<Rightarrow> instr_ptr" where
  "ip_add delta ip = ip\<lparr>ip_index := ip_index ip + int delta\<rparr>"

record call_frame =
  cf_func :: engine_func
  cf_instr_ptr :: instr_ptr
  cf_offsets :: stack_offsets
  cf_results :: reg_span
  cf_changed_instance :: bool

definition call_frame_new :: "engine_func \<Rightarrow> instr_ptr \<Rightarrow> stack_offsets \<Rightarrow> reg_span \<Rightarrow> call_frame" where
  "call_frame_new func ip offsets results =
    \<lparr>cf_func = func, cf_instr_ptr = ip, cf_offsets = offsets, cf_results = results,
     cf_changed_instance = False\<rparr>"

definition so_move_down :: "nat \<Rightarrow> stack_offsets \<Rightarrow> stack_offsets option" where
  "so_move_down delta o' =
    (if delta \<le> so_base o' \<and> delta \<le> so_frame o'
     then Some \<lparr>so_base = so_base o' - delta, so_frame = so_frame o' - delta\<rparr> else None)"

definition cf_move_down :: "nat \<Rightarrow> call_frame \<Rightarrow> call_frame option" where
  "cf_move_down delta f =
    Option.bind (so_move_down delta (cf_offsets f)) (\<lambda>o'. Some (f\<lparr>cf_offsets := o'\<rparr>))"

definition cf_update_instr_ptr :: "instr_ptr \<Rightarrow> call_frame \<Rightarrow> call_frame" where
  "cf_update_instr_ptr ip f = f\<lparr>cf_instr_ptr := ip\<rparr>"

definition cf_frame_offset :: "call_frame \<Rightarrow> nat" where "cf_frame_offset f = so_frame (cf_offsets f)"
definition cf_base_offset :: "call_frame \<Rightarrow> nat" where "cf_base_offset f = so_base (cf_offsets f)"

record call_stack =
  cs_frames :: "call_frame list"
  cs_instances :: "instance_h head_vec"
  cs_recursion_limit :: nat

definition cs_new :: "nat \<Rightarrow> call_stack" where
  "cs_new recursion_limit =
    \<lparr>cs_frames = [], cs_instances = hv_default, cs_recursion_limit = recursion_limit\<rparr>"

definition cs_reset :: "call_stack \<Rightarrow> call_stack" where
  "cs_reset c = c\<lparr>cs_frames := [], cs_instances := hv_clear (cs_instances c)\<rparr>"

definition cs_is_empty :: "call_stack \<Rightarrow> bool" where
  "cs_is_empty c = (length (cs_frames c) = 0)"

definition cs_instance :: "call_stack \<Rightarrow> instance_h option" where
  "cs_instance c = hv_last (cs_instances c)"

definition cs_push_instance :: "instance_h \<Rightarrow> call_stack \<Rightarrow> bool \<times> call_stack" where
  "cs_push_instance inst c =
    (case hv_last (cs_instances c) of
       Some l \<Rightarrow> if inst = l then (False, c)
                 else (True, c\<lparr>cs_instances := hv_push inst (cs_instances c)\<rparr>)
     | None \<Rightarrow> (True, c\<lparr>cs_instances := hv_push inst (cs_instances c)\<rparr>))"

definition cs_push :: "call_frame \<Rightarrow> instance_h option \<Rightarrow> call_stack \<Rightarrow> trap_code + call_stack" where
  "cs_push call inst c =
    (if length (cs_frames c) = cs_recursion_limit c then Inl StackOverflow
     else case inst of
         None \<Rightarrow> Inr (c\<lparr>cs_frames := cs_frames c @ [call]\<rparr>)
       | Some i \<Rightarrow>
           let (changed, c') = cs_push_instance i c
           in Inr (c'\<lparr>cs_frames := cs_frames c' @ [call\<lparr>cf_changed_instance := changed\<rparr>]\<rparr>))"

definition cs_pop :: "call_stack \<Rightarrow> (call_frame \<times> instance_h option) option \<times> call_stack" where
  "cs_pop c =
    (case vec_pop (cs_frames c) of
       (None, _) \<Rightarrow> (None, c)
     | (Some frame, frames) \<Rightarrow>
         let c' = c\<lparr>cs_frames := frames\<rparr>
         in if cf_changed_instance frame
            then let (i, is) = hv_pop (cs_instances c')
                 in (Some (frame, i), c'\<lparr>cs_instances := is\<rparr>)
            else (Some (frame, None), c'))"

definition cs_peek :: "call_stack \<Rightarrow> call_frame option" where
  "cs_peek c = vec_last (cs_frames c)"

definition cs_update_top :: "(call_frame \<Rightarrow> call_frame) \<Rightarrow> call_stack \<Rightarrow> call_stack option" where
  "cs_update_top f c =
    (if cs_frames c = [] then None
     else Some (c\<lparr>cs_frames := butlast (cs_frames c) @ [f (last (cs_frames c))]\<rparr>))"

definition cs_peek_2 :: "call_stack \<Rightarrow> (call_frame \<times> call_frame option) option" where
  "cs_peek_2 c =
    (if cs_frames c = [] then None
     else Some (last (cs_frames c), vec_last (butlast (cs_frames c))))"


section \<open>Both stacks\<close>

record stack_limits =
  sl_initial_value_stack_height :: nat
  sl_maximum_value_stack_height :: nat
  sl_maximum_recursion_depth :: nat

datatype limits_error = InitialValueStackExceedsMaximum

definition stack_limits_new :: "nat \<Rightarrow> nat \<Rightarrow> nat \<Rightarrow> limits_error + stack_limits" where
  "stack_limits_new initial maximum depth =
    (if maximum < initial then Inl InitialValueStackExceedsMaximum
     else Inr \<lparr>sl_initial_value_stack_height = initial,
               sl_maximum_value_stack_height = maximum,
               sl_maximum_recursion_depth = depth\<rparr>)"

text \<open>1024 bytes and 1024 * 1024 bytes of 8-byte registers.\<close>

definition stack_limits_default :: stack_limits where
  "stack_limits_default =
    \<lparr>sl_initial_value_stack_height = 1024 div 8,
     sl_maximum_value_stack_height = 1024 * 1024 div 8,
     sl_maximum_recursion_depth = 1024\<rparr>"

record stack =
  st_calls :: call_stack
  st_values :: value_stack

definition stack_new :: "stack_limits \<Rightarrow> stack option" where
  "stack_new limits =
    Option.bind (vs_new (sl_initial_value_stack_height limits) (sl_maximum_value_stack_height limits))
      (\<lambda>v. Some \<lparr>st_calls = cs_new (sl_maximum_recursion_depth limits), st_values = v\<rparr>)"

definition stack_reset :: "stack \<Rightarrow> stack" where
  "stack_reset s =
    s\<lparr>st_calls := cs_reset (st_calls s), st_values := vs_reset (st_values s)\<rparr>"

definition stack_empty :: stack where
  "stack_empty = \<lparr>st_calls = cs_new 0, st_values = vs_empty\<rparr>"

definition merge_call_frames :: "call_frame \<Rightarrow> stack
    \<Rightarrow> (instance_h option \<times> call_frame \<times> stack) option" where
  "merge_call_frames callee s =
    (case cs_pop (st_calls s) of
       (None, _) \<Rightarrow> None
     | (Some (caller, inst), calls) \<Rightarrow>
         if cf_results callee \<noteq> cf_results caller \<or> \<not> cf_base_offset caller \<le> cf_base_offset callee
         then None
         else Option.bind (vs_drain (cf_frame_offset caller) (cf_frame_offset callee) (st_values s))
           (\<lambda>(len_drained, vals).
              Option.bind (cf_move_down len_drained callee) (\<lambda>callee'.
                Some (inst, callee', \<lparr>st_calls = calls, st_values = vals\<rparr>))))"


section \<open>Stack discipline\<close>

definition cs_inv :: "call_stack \<Rightarrow> bool" where
  "cs_inv c \<longleftrightarrow> hv_inv (cs_instances c) \<and> length (cs_frames c) \<le> cs_recursion_limit c \<and>
    hv_len (cs_instances c) = length (filter cf_changed_instance (cs_frames c))"

lemma cs_inv_new: "cs_inv (cs_new n)"
  by (simp add: cs_inv_def cs_new_def hv.empty_inv hv_len_def hv_default_def hv_inv_def)

lemma hv_len_push: "hv_inv v \<Longrightarrow> hv_len (hv_push x v) = Suc (hv_len v)"
  by (simp add: hv_len_list hv.push_inv hv.items_push)

lemma hv_pop_push: "hv_inv v \<Longrightarrow> hv_pop (hv_push x v) = (Some x, v)"
  by (cases v; cases "hv_head v") (auto simp: hv_pop_def hv_push_def hv_inv_def vec_pop_def)

lemma hv_len_pop: "hv_inv v \<Longrightarrow> hv_len (snd (hv_pop v)) = hv_len v - 1"
  using hv.pop_items [of v] hv.pop_inv [of v]
  by (auto simp: hv_len_list vec_pop_def split: if_splits)

lemma cs_push_inv:
  assumes "cs_inv c" "\<not> cf_changed_instance call" "cs_push call inst c = Inr c'"
  shows "cs_inv c'"
  using assms
  by (auto simp: cs_inv_def cs_push_def cs_push_instance_def hv_len_push hv.push_inv
      split: option.splits if_splits)

lemma cs_pop_inv: "cs_inv c \<Longrightarrow> cs_inv (snd (cs_pop c))"
proof (cases "cs_frames c" rule: rev_cases)
  case Nil
  then show "cs_inv c \<Longrightarrow> cs_inv (snd (cs_pop c))" by (simp add: cs_pop_def vec_pop_def)
next
  case (snoc fs f)
  assume "cs_inv c"
  with snoc show "cs_inv (snd (cs_pop c))"
    using hv.pop_inv [of "cs_instances c"] hv_len_pop [of "cs_instances c"]
    by (auto simp: cs_pop_def vec_pop_def cs_inv_def Let_def split: prod.splits)
qed

lemma cs_push_Inr:
  assumes "cs_push call inst c = Inr c'"
  shows "length (cs_frames c) \<noteq> cs_recursion_limit c"
    and "\<exists>b. cs_frames c' = cs_frames c @ [call\<lparr>cf_changed_instance := b\<rparr>]"
  using assms
  by (auto simp: cs_push_def cs_push_instance_def split: option.splits if_splits intro: exI [of _ "cf_changed_instance call"])

text \<open>Popping undoes a push, and the instance in use before the push is in use again.\<close>

lemma cs_pop_push:
  assumes "cs_inv c" "\<not> cf_changed_instance call" "cs_push call inst c = Inr c'"
  shows "\<exists>frame i. cs_pop c' = (Some (frame, i), c) \<and> frame\<lparr>cf_changed_instance := False\<rparr> = call \<and>
    (cf_changed_instance frame \<longleftrightarrow> i \<noteq> None) \<and>
    cs_instance c' = (case inst of None \<Rightarrow> cs_instance c | Some _ \<Rightarrow> inst)"
proof (cases inst)
  case None
  with assms show ?thesis
    by (cases c; cases call) (auto simp: cs_push_def cs_pop_def vec_pop_def cs_instance_def split: if_splits)
next
  case (Some x)
  have inv: "hv_inv (cs_instances c)" using assms(1) by (simp add: cs_inv_def)
  show ?thesis
  proof (cases "hv_last (cs_instances c) = Some x")
    case True
    with assms Some show ?thesis
      by (cases c; cases call)
        (auto simp: cs_push_def cs_push_instance_def cs_pop_def vec_pop_def cs_instance_def split: if_splits)
  next
    case False
    then have "cs_push_instance x c = (True, c\<lparr>cs_instances := hv_push x (cs_instances c)\<rparr>)"
      by (auto simp: cs_push_instance_def split: option.splits)
    with assms Some inv show ?thesis
      by (cases c; cases call)
        (auto simp: cs_push_def cs_pop_def vec_pop_def cs_instance_def hv_pop_push hv.top_push
          split: if_splits)
  qed
qed

text \<open>
  The layout of a frame after \<open>alloc_call_frame\<close>, one \<open>init_next\<close> per parameter and
  \<open>init_zeroes\<close>: constants, parameters, zeroes; the cells below are kept.
\<close>

primrec fp_init_params :: "untyped_val list \<Rightarrow> frame_params \<Rightarrow> value_stack
    \<Rightarrow> (frame_params \<times> value_stack) option" where
  "fp_init_params [] p s = Some (p, s)"
| "fp_init_params (v # vs) p s =
    Option.bind (fp_init_next v p s) (\<lambda>(p', s'). fp_init_params vs p' s')"

lemma fp_init_params_eq:
  assumes "fp_start p + length vs \<le> length (vs_values s)"
  shows "fp_init_params vs p s =
    Some (p\<lparr>fp_start := fp_start p + length vs\<rparr>, s\<lparr>vs_values := put_range (fp_start p) vs (vs_values s)\<rparr>)"
  using assms
proof (induction vs arbitrary: p s)
  case Nil
  then show ?case by simp
next
  case (Cons v vs)
  have "put_range (Suc (fp_start p)) vs ((vs_values s)[fp_start p := v])
      = put_range (fp_start p) (v # vs) (vs_values s)"
    using Cons.prems by (auto simp: list_eq_iff_nth_eq nth_put_range nth_list_update nth_Cons')
  with Cons show ?case by (simp add: fp_init_next_def)
qed

lemma alloc_call_frame_layout:
  assumes "vs_alloc_call_frame n consts s = Inr (p, offs, s1)"
    and "length consts + length params \<le> n"
  shows "\<exists>p' s2. fp_init_params params p s1 = Some (p', s2) \<and>
    fp_init_zeroes p' s2 = Some (s\<lparr>vs_values :=
      vs_values s @ consts @ params @ replicate (n - length consts - length params) 0\<rparr>) \<and>
    so_frame offs = length (vs_values s) \<and> so_base offs = length (vs_values s) + length consts"
proof -
  let ?len = "length (vs_values s)"
  have t: "take n consts = consts" using assms(2) by simp
  from assms(1) have s1: "s1 = s\<lparr>vs_values := vs_values s @ consts @ replicate (n - length consts) uninit_cell\<rparr>"
    and p: "p = \<lparr>fp_start = ?len + length consts, fp_end = ?len + n\<rparr>"
    and offs: "offs = \<lparr>so_base = ?len + length consts, so_frame = ?len\<rparr>"
    by (auto simp: vs_alloc_call_frame_def vs_extend_by_def t Let_def put_range_def split: if_splits)
  let ?xs = "vs_values s @ consts @ params @ replicate (n - length consts - length params) uninit_cell"
  have "fp_init_params params p s1 =
      Some (p\<lparr>fp_start := ?len + length consts + length params\<rparr>, s\<lparr>vs_values := ?xs\<rparr>)"
    using assms(2) by (subst fp_init_params_eq) (auto simp: s1 p put_range_def)
  moreover have "fp_init_zeroes (p\<lparr>fp_start := ?len + length consts + length params\<rparr>) (s\<lparr>vs_values := ?xs\<rparr>)
      = Some (s\<lparr>vs_values := vs_values s @ consts @ params @ replicate (n - length consts - length params) 0\<rparr>)"
    using assms(2) by (auto simp: fp_init_zeroes_def p put_range_def)
  ultimately show ?thesis by (simp add: offs)
qed

text \<open>
  A tail call: the cells of the caller disappear, the registers of the callee and all cells below
  the caller keep their values.
\<close>

lemma merge_call_frames_result:
  assumes "merge_call_frames callee s = Some (inst, callee', s')"
    and caller: "cs_frames (st_calls s) = fs @ [caller]"
  defines "xs \<equiv> vs_values (st_values s)"
    and "d \<equiv> cf_frame_offset callee - cf_frame_offset caller"
  shows "cf_frame_offset callee' = cf_frame_offset caller \<and>
    cf_base_offset callee' + d = cf_base_offset callee \<and>
    cs_frames (st_calls s') = fs \<and>
    vs_values (st_values s') = take (cf_frame_offset caller) xs @ drop (cf_frame_offset callee) xs"
proof -
  from assms(1) caller obtain o' where
    ord: "cf_frame_offset caller \<le> cf_frame_offset callee" "cf_frame_offset callee \<le> length xs"
    and o': "so_move_down d (cf_offsets callee) = Some o'" "callee' = callee\<lparr>cf_offsets := o'\<rparr>"
    and s': "vs_values (st_values s') = take (cf_frame_offset caller) xs @ drop (cf_frame_offset callee) xs"
      "cs_frames (st_calls s') = fs"
    by (auto simp: merge_call_frames_def cs_pop_def vec_pop_def Let_def vs_drain_def cf_move_down_def
        xs_def d_def bind_eq_Some_conv split: if_splits prod.splits)
  have "cf_frame_offset callee' = cf_frame_offset caller" "cf_base_offset callee' + d = cf_base_offset callee"
    using o' ord by (auto simp: so_move_down_def cf_frame_offset_def cf_base_offset_def d_def split: if_splits)
  with s' show ?thesis by blast
qed


section \<open>Properties\<close>

text \<open>
  C13. Call stack discipline: a push that succeeds keeps the invariant of the call stack (the
  instance stack has one entry per frame that changed the instance, the depth is within the
  recursion limit), makes the pushed instance the one in use, and the next pop returns the frame
  and restores the call stack as it was; it reports an instance just if the frame changed it.
\<close>
theorem call_stack_push_pop:
  assumes "cs_inv c" "\<not> cf_changed_instance call" "cs_push call inst c = Inr c'"
  shows "cs_inv c' \<and>
    cs_instance c' = (case inst of None \<Rightarrow> cs_instance c | Some _ \<Rightarrow> inst) \<and>
    (\<exists>frame i. cs_pop c' = (Some (frame, i), c) \<and> frame\<lparr>cf_changed_instance := False\<rparr> = call \<and>
      (cf_changed_instance frame \<longleftrightarrow> i \<noteq> None))"
  using cs_push_inv [OF assms] cs_pop_push [OF assms] by blast

lemma call_stack_push_pop_witness:
  defines "call \<equiv> call_frame_new 3 \<lparr>ip_func = 3, ip_index = 0\<rparr> \<lparr>so_base = 0, so_frame = 0\<rparr> 1"
  shows "\<exists>c' frame i. cs_push call (Some 7) (cs_new 2) = Inr c' \<and> cs_inv c' \<and> cs_instance c' = Some 7 \<and>
    cs_pop c' = (Some (frame, i), cs_new 2)"
proof -
  have "\<exists>c'. cs_push call (Some 7) (cs_new 2) = Inr c'"
    by (simp add: cs_push_def cs_new_def cs_push_instance_def hv_last_def hv_default_def)
  then obtain c' where c': "cs_push call (Some 7) (cs_new 2) = Inr c'" ..
  have "\<not> cf_changed_instance call" by (simp add: call_def call_frame_new_def)
  from call_stack_push_pop [OF cs_inv_new this c'] c' show ?thesis by auto
qed

text \<open>
  A function call sets up its frame completely: after the allocation of the frame, the
  initialisation of the parameters and of the remaining registers, the value stack is the old one
  followed by the function local constants, the arguments and zeroes, \<open>len_registers\<close> cells
  together, and the base offset is the first cell after the constants.
\<close>
theorem call_frame_layout:
  assumes "vs_alloc_call_frame len_registers consts s = Inr (p, offs, s1)"
    and "length consts + length args \<le> len_registers"
  shows "Option.bind (fp_init_params args p s1) (\<lambda>(p', s2). fp_init_zeroes p' s2) =
      Some (s\<lparr>vs_values := vs_values s @ consts @ args @
        replicate (len_registers - length consts - length args) 0\<rparr>) \<and>
    so_frame offs = length (vs_values s) \<and> so_base offs = length (vs_values s) + length consts"
  using alloc_call_frame_layout [OF assms] by auto

lemma call_frame_layout_witness:
  "\<exists>p offs s1. vs_alloc_call_frame 4 [9] \<lparr>vs_values = [1, 2], vs_max_len = 10\<rparr> = Inr (p, offs, s1) \<and>
    Option.bind (fp_init_params [5, 6] p s1) (\<lambda>(p', s2). fp_init_zeroes p' s2) =
      Some \<lparr>vs_values = [1, 2, 9, 5, 6, 0], vs_max_len = 10\<rparr>"
proof -
  have "\<exists>p offs s1. vs_alloc_call_frame 4 [9] \<lparr>vs_values = [1, 2], vs_max_len = 10\<rparr> = Inr (p, offs, s1)"
    by (simp add: vs_alloc_call_frame_def vs_extend_by_def Let_def)
  then obtain p offs s1 where
    a: "vs_alloc_call_frame 4 [9] \<lparr>vs_values = [1, 2], vs_max_len = 10\<rparr> = Inr (p, offs, s1)" by blast
  from call_frame_layout [OF a, of "[5, 6]"] a show ?thesis by (auto simp: numeral_eq_Suc)
qed

text \<open>
  C23. A tail call replaces the frame of the caller: the callee frame moves down to the cells of
  the caller, which leaves the call stack; its registers keep their values, as do all cells below.
\<close>
theorem tail_call_replaces_frame:
  assumes "merge_call_frames callee s = Some (inst, callee', s')"
    and "cs_frames (st_calls s) = fs @ [caller]"
  shows "cs_frames (st_calls s') = fs \<and>
    cf_frame_offset callee' = cf_frame_offset caller \<and>
    cf_base_offset callee' + (cf_frame_offset callee - cf_frame_offset caller) = cf_base_offset callee \<and>
    vs_values (st_values s') =
      take (cf_frame_offset caller) (vs_values (st_values s)) @
      drop (cf_frame_offset callee) (vs_values (st_values s))"
  using merge_call_frames_result [OF assms] by blast

lemma tail_call_replaces_frame_witness:
  defines "ip \<equiv> \<lparr>ip_func = 0, ip_index = 0\<rparr>"
  defines "caller \<equiv> call_frame_new 0 ip \<lparr>so_base = 1, so_frame = 1\<rparr> 0"
  defines "callee \<equiv> call_frame_new 1 ip \<lparr>so_base = 4, so_frame = 3\<rparr> 0"
  defines "s \<equiv> \<lparr>st_calls = (cs_new 5)\<lparr>cs_frames := [caller]\<rparr>,
    st_values = \<lparr>vs_values = [1, 2, 3, 4, 5], vs_max_len = 9\<rparr>\<rparr>"
  shows "\<exists>inst callee' s'. merge_call_frames callee s = Some (inst, callee', s') \<and>
    vs_values (st_values s') = [1, 4, 5] \<and> cf_base_offset callee' = 2"
proof -
  have fs: "cs_frames (st_calls s) = [] @ [caller]" by (simp add: s_def)
  have "\<exists>inst callee' s'. merge_call_frames callee s = Some (inst, callee', s')"
    by (simp add: s_def caller_def callee_def call_frame_new_def merge_call_frames_def cs_pop_def
        vec_pop_def cs_new_def cf_base_offset_def cf_frame_offset_def vs_drain_def cf_move_down_def
        so_move_down_def)
  then obtain inst callee' s' where m: "merge_call_frames callee s = Some (inst, callee', s')" by blast
  from tail_call_replaces_frame [OF m fs] m show ?thesis
    by (auto simp: s_def caller_def callee_def call_frame_new_def cf_frame_offset_def cf_base_offset_def
        numeral_eq_Suc)
qed

end
