(* ===== verification/Ir_Primitives.thy ===== *)
theory Ir_Primitives
  imports Wasm_Num
begin

text \<open>
  Instruction parameters of \<open>ir/src/primitive.rs\<close> and \<open>ir/src/immeditate.rs\<close>: branch offsets,
  block fuel, comparators, shift amounts and the 16-bit and 32-bit encodings of constants.
  A Rust panic is \<open>None\<close> of the outer option of the operations that can panic.
\<close>

unbundle bit_operations_syntax

datatype ir_error =
    RegisterOutOfBounds
  | BranchOffsetOutOfBounds
  | ComparatorOutOfBounds
  | BlockFuelOutOfBounds


section \<open>Branch offsets and block fuel\<close>

type_synonym branch_offset16 = u16
type_synonym branch_offset = u32
type_synonym block_fuel = u32

definition branch_offset16_try_from :: "branch_offset \<Rightarrow> ir_error + branch_offset16" where
  "branch_offset16_try_from offset =
    (if - (2 ^ 15) \<le> sint offset \<and> sint offset < 2 ^ 15 then Inr (ucast offset)
     else Inl BranchOffsetOutOfBounds)"

definition branch_offset_of16 :: "branch_offset16 \<Rightarrow> branch_offset" where
  "branch_offset_of16 offset = scast offset"

definition branch_offset16_is_init :: "branch_offset16 \<Rightarrow> bool" where
  "branch_offset16_is_init offset = (offset \<noteq> 0)"

definition branch_offset_is_init :: "branch_offset \<Rightarrow> bool" where
  "branch_offset_is_init offset = (offset \<noteq> 0)"

definition branch_offset16_init ::
    "branch_offset16 \<Rightarrow> branch_offset \<Rightarrow> (ir_error + branch_offset16) option" where
  "branch_offset16_init self valid_offset =
    (if \<not> branch_offset_is_init valid_offset \<or> branch_offset16_is_init self then None
     else Some (branch_offset16_try_from valid_offset))"

definition branch_offset_init :: "branch_offset \<Rightarrow> branch_offset \<Rightarrow> branch_offset option" where
  "branch_offset_init self valid_offset =
    (if \<not> branch_offset_is_init valid_offset \<or> branch_offset_is_init self then None
     else Some valid_offset)"

text \<open>The \<open>i64\<close> subtraction of two \<open>u32\<close> values never overflows.\<close>

definition from_src_to_dst :: "u32 \<Rightarrow> u32 \<Rightarrow> ir_error + branch_offset" where
  "from_src_to_dst src dst =
    (let offset = uint dst - uint src
     in if - (2 ^ 31) \<le> offset \<and> offset < 2 ^ 31 then Inr (word_of_int offset)
        else Inl BranchOffsetOutOfBounds)"

definition block_fuel_try_from :: "u64 \<Rightarrow> ir_error + block_fuel" where
  "block_fuel_try_from index =
    (if unat index < 2 ^ 32 then Inr (ucast index) else Inl BlockFuelOutOfBounds)"

definition block_fuel_bump_by :: "block_fuel \<Rightarrow> u64 \<Rightarrow> ir_error + block_fuel" where
  "block_fuel_bump_by self amount =
    (if 2 ^ 64 \<le> unat self + unat amount then Inl BlockFuelOutOfBounds
     else block_fuel_try_from (ucast self + amount))"


section \<open>Comparators\<close>

datatype comparator =
    CmpI32Eq
  | CmpI32Ne
  | CmpI32LtS
  | CmpI32LtU
  | CmpI32LeS
  | CmpI32LeU
  | CmpI32GtS
  | CmpI32GtU
  | CmpI32GeS
  | CmpI32GeU
  | CmpI32And
  | CmpI32Or
  | CmpI32Xor
  | CmpI32AndEqz
  | CmpI32OrEqz
  | CmpI32XorEqz
  | CmpI64Eq
  | CmpI64Ne
  | CmpI64LtS
  | CmpI64LtU
  | CmpI64LeS
  | CmpI64LeU
  | CmpI64GtS
  | CmpI64GtU
  | CmpI64GeS
  | CmpI64GeU
  | CmpF32Eq
  | CmpF32Ne
  | CmpF32Lt
  | CmpF32Le
  | CmpF32Gt
  | CmpF32Ge
  | CmpF64Eq
  | CmpF64Ne
  | CmpF64Lt
  | CmpF64Le
  | CmpF64Gt
  | CmpF64Ge

definition all_comparators :: "comparator list" where
  "all_comparators = [CmpI32Eq, CmpI32Ne, CmpI32LtS, CmpI32LtU, CmpI32LeS, CmpI32LeU, CmpI32GtS, CmpI32GtU, CmpI32GeS, CmpI32GeU, CmpI32And, CmpI32Or, CmpI32Xor, CmpI32AndEqz, CmpI32OrEqz, CmpI32XorEqz, CmpI64Eq, CmpI64Ne, CmpI64LtS, CmpI64LtU, CmpI64LeS, CmpI64LeU, CmpI64GtS, CmpI64GtU, CmpI64GeS, CmpI64GeU, CmpF32Eq, CmpF32Ne, CmpF32Lt, CmpF32Le, CmpF32Gt, CmpF32Ge, CmpF64Eq, CmpF64Ne, CmpF64Lt, CmpF64Le, CmpF64Gt, CmpF64Ge]"

primrec comparator_to_u32 :: "comparator \<Rightarrow> u32" where
  "comparator_to_u32 CmpI32Eq = 0"
| "comparator_to_u32 CmpI32Ne = 1"
| "comparator_to_u32 CmpI32LtS = 2"
| "comparator_to_u32 CmpI32LtU = 3"
| "comparator_to_u32 CmpI32LeS = 4"
| "comparator_to_u32 CmpI32LeU = 5"
| "comparator_to_u32 CmpI32GtS = 6"
| "comparator_to_u32 CmpI32GtU = 7"
| "comparator_to_u32 CmpI32GeS = 8"
| "comparator_to_u32 CmpI32GeU = 9"
| "comparator_to_u32 CmpI32And = 10"
| "comparator_to_u32 CmpI32Or = 11"
| "comparator_to_u32 CmpI32Xor = 12"
| "comparator_to_u32 CmpI32AndEqz = 13"
| "comparator_to_u32 CmpI32OrEqz = 14"
| "comparator_to_u32 CmpI32XorEqz = 15"
| "comparator_to_u32 CmpI64Eq = 16"
| "comparator_to_u32 CmpI64Ne = 17"
| "comparator_to_u32 CmpI64LtS = 18"
| "comparator_to_u32 CmpI64LtU = 19"
| "comparator_to_u32 CmpI64LeS = 20"
| "comparator_to_u32 CmpI64LeU = 21"
| "comparator_to_u32 CmpI64GtS = 22"
| "comparator_to_u32 CmpI64GtU = 23"
| "comparator_to_u32 CmpI64GeS = 24"
| "comparator_to_u32 CmpI64GeU = 25"
| "comparator_to_u32 CmpF32Eq = 26"
| "comparator_to_u32 CmpF32Ne = 27"
| "comparator_to_u32 CmpF32Lt = 28"
| "comparator_to_u32 CmpF32Le = 29"
| "comparator_to_u32 CmpF32Gt = 30"
| "comparator_to_u32 CmpF32Ge = 31"
| "comparator_to_u32 CmpF64Eq = 32"
| "comparator_to_u32 CmpF64Ne = 33"
| "comparator_to_u32 CmpF64Lt = 34"
| "comparator_to_u32 CmpF64Le = 35"
| "comparator_to_u32 CmpF64Gt = 36"
| "comparator_to_u32 CmpF64Ge = 37"

definition comparator_try_from :: "u32 \<Rightarrow> ir_error + comparator" where
  "comparator_try_from value =
    ok_or ComparatorOutOfBounds (find (\<lambda>c. value = comparator_to_u32 c) all_comparators)"

record comparator_and_offset =
  co_cmp :: comparator
  co_offset :: branch_offset

definition co_from_u64 :: "u64 \<Rightarrow> comparator_and_offset option" where
  "co_from_u64 value =
    (let hi = ucast (drop_bit 32 value); lo = ucast (value AND 0xFFFFFFFF)
     in case comparator_try_from hi of
          Inl _ \<Rightarrow> None
        | Inr cmp \<Rightarrow> Some \<lparr>co_cmp = cmp, co_offset = lo\<rparr>)"

definition co_from_untyped :: "untyped_val \<Rightarrow> comparator_and_offset option" where
  "co_from_untyped value = co_from_u64 value"

text \<open>
  \<open>hi << 32 & lo\<close>: in Rust the shift binds tighter than the conjunction, and the cast of the
  \<open>i32\<close> offset to \<open>u64\<close> extends its sign.
\<close>

definition co_as_u64 :: "comparator_and_offset \<Rightarrow> u64" where
  "co_as_u64 self =
    (let hi = ucast (comparator_to_u32 (co_cmp self)); lo = scast (co_offset self)
     in (push_bit 32 hi) AND lo)"


section \<open>Constants\<close>

definition const16_of_i32 :: "u32 \<Rightarrow> u16 option" where
  "const16_of_i32 value =
    (if - (2 ^ 15) \<le> sint value \<and> sint value < 2 ^ 15 then Some (ucast value) else None)"

definition const16_of_u32 :: "u32 \<Rightarrow> u16 option" where
  "const16_of_u32 value = (if uint value < 2 ^ 16 then Some (ucast value) else None)"

definition const16_of_i64 :: "u64 \<Rightarrow> u16 option" where
  "const16_of_i64 value =
    (if - (2 ^ 15) \<le> sint value \<and> sint value < 2 ^ 15 then Some (ucast value) else None)"

definition const16_of_u64 :: "u64 \<Rightarrow> u16 option" where
  "const16_of_u64 value = (if uint value < 2 ^ 16 then Some (ucast value) else None)"

definition const32_of_i64 :: "u64 \<Rightarrow> u32 option" where
  "const32_of_i64 value =
    (if - (2 ^ 31) \<le> sint value \<and> sint value < 2 ^ 31 then Some (ucast value) else None)"

definition const32_of_u64 :: "u64 \<Rightarrow> u32 option" where
  "const32_of_u64 value = (if uint value < 2 ^ 32 then Some (ucast value) else None)"

definition i32_of_const16 :: "u16 \<Rightarrow> u32" where "i32_of_const16 c = scast c"
definition i64_of_const16 :: "u16 \<Rightarrow> u64" where "i64_of_const16 c = scast c"
definition u32_of_const16 :: "u16 \<Rightarrow> u32" where "u32_of_const16 c = ucast c"
definition u64_of_const16 :: "u16 \<Rightarrow> u64" where "u64_of_const16 c = ucast c"
definition i64_of_const32 :: "u32 \<Rightarrow> u64" where "i64_of_const32 c = scast c"
definition u64_of_const32 :: "u32 \<Rightarrow> u64" where "u64_of_const32 c = ucast c"


section \<open>Shift amounts\<close>

definition shift_amount_new :: "nat \<Rightarrow> 'a::len word \<Rightarrow> u16 option" where
  "shift_amount_new bits value =
    (let v = word_of_int (sint value smod int bits) in if v = 0 then None else Some v)"

definition i32_of_shift_amount :: "u16 \<Rightarrow> u32" where "i32_of_shift_amount s = i32_of_const16 s"
definition i64_of_shift_amount :: "u16 \<Rightarrow> u64" where "i64_of_shift_amount s = i64_of_const16 s"


section \<open>Round trips\<close>

lemma comparator_try_from_to [simp]: "comparator_try_from (comparator_to_u32 c) = Inr c"
  by (cases c) (simp_all add: comparator_try_from_def all_comparators_def)

lemma sint_nonneg_bit: "0 \<le> sint (w :: 'a::len word) \<longleftrightarrow> \<not> bit w (LENGTH('a) - 1)"
  by (simp add: bit_last_iff not_less)

lemma scast_ucast_range:
  fixes v :: "'a::len word"
  assumes "LENGTH('b::len) \<le> LENGTH('a)" "- (2 ^ (LENGTH('b) - 1)) \<le> sint v" "sint v < 2 ^ (LENGTH('b) - 1)"
  shows "scast (ucast v :: 'b word) = v"
proof -
  have "ucast v = (word_of_int (sint v) :: 'b word)"
  proof (rule bit_word_eqI)
    fix n assume "n < LENGTH('b)"
    then have "n \<le> LENGTH('a) - 1" using assms(1) by linarith
    then have "min (LENGTH('a) - 1) n = n" by simp
    then show "bit (ucast v :: 'b word) n = bit (word_of_int (sint v) :: 'b word) n"
      by (simp add: bit_ucast_iff bit_word_of_int_iff bit_signed_iff)
  qed
  then have "sint (ucast v :: 'b word) = sint (word_of_int (sint v) :: 'b word)" by (simp only:)
  also have "\<dots> = sint v" using assms(2,3) by (intro sint_of_range)
  finally have e: "sint (ucast v :: 'b word) = sint v" .
  have "scast (ucast v :: 'b word) = (word_of_int (sint (ucast v :: 'b word)) :: 'a word)" by simp
  also have "\<dots> = v" by (simp only: e) simp
  finally show ?thesis .
qed

lemma const16_of_i32_roundtrip: "const16_of_i32 v = Some c \<Longrightarrow> i32_of_const16 c = v"
  by (auto simp: const16_of_i32_def i32_of_const16_def scast_ucast_range split: if_splits)

lemma const16_of_i64_roundtrip: "const16_of_i64 v = Some c \<Longrightarrow> i64_of_const16 c = v"
  by (auto simp: const16_of_i64_def i64_of_const16_def scast_ucast_range split: if_splits)

lemma const32_of_i64_roundtrip: "const32_of_i64 v = Some c \<Longrightarrow> i64_of_const32 c = v"
  by (auto simp: const32_of_i64_def i64_of_const32_def scast_ucast_range split: if_splits)

lemma ucast_ucast_range:
  fixes v :: "'a::len word"
  assumes "uint v < 2 ^ LENGTH('b::len)"
  shows "ucast (ucast v :: 'b word) = v"
proof (rule bit_word_eqI)
  fix n assume "n < LENGTH('a)"
  have "bit v n \<Longrightarrow> n < LENGTH('b)"
  proof (rule ccontr)
    assume b: "bit v n" "\<not> n < LENGTH('b)"
    have "take_bit LENGTH('b) (uint v) = uint v" using assms by (simp add: take_bit_int_eq_self)
    moreover have "bit (uint v) n" using b(1) by (simp add: bit_uint_iff bit_imp_le_length)
    moreover have "\<not> bit (take_bit LENGTH('b) (uint v)) n" using b(2) by (simp only: bit_take_bit_iff) simp
    ultimately show False by simp
  qed
  then show "bit (ucast (ucast v :: 'b word) :: 'a word) n = bit v n"
    using \<open>n < LENGTH('a)\<close> by (auto simp: bit_ucast_iff)
qed

lemma const16_of_u32_roundtrip: "const16_of_u32 v = Some c \<Longrightarrow> u32_of_const16 c = v"
  by (auto simp: const16_of_u32_def u32_of_const16_def ucast_ucast_range split: if_splits)

lemma const16_of_u64_roundtrip: "const16_of_u64 v = Some c \<Longrightarrow> u64_of_const16 c = v"
  by (auto simp: const16_of_u64_def u64_of_const16_def ucast_ucast_range split: if_splits)

lemma const32_of_u64_roundtrip: "const32_of_u64 v = Some c \<Longrightarrow> u64_of_const32 c = v"
  by (auto simp: const32_of_u64_def u64_of_const32_def ucast_ucast_range split: if_splits)

lemma branch_offset16_roundtrip: "branch_offset16_try_from v = Inr c \<Longrightarrow> branch_offset_of16 c = v"
  by (auto simp: branch_offset16_try_from_def branch_offset_of16_def scast_ucast_range split: if_splits)

lemma co_as_u64_lossy:
  "co_from_u64 (co_as_u64 p) =
    Some \<lparr>co_cmp = (if 0 \<le> sint (co_offset p) then CmpI32Eq else co_cmp p), co_offset = 0\<rparr>"
proof -
  let ?hi = "ucast (comparator_to_u32 (co_cmp p)) :: u64"
  have lo: "ucast (co_as_u64 p AND 0xFFFFFFFF) = (0 :: u32)"
    by (rule bit_word_eqI)
      (simp add: co_as_u64_def bit_ucast_iff bit_and_iff bit_push_bit_iff)
  have hi: "ucast (drop_bit 32 (co_as_u64 p)) =
      (if 0 \<le> sint (co_offset p) then 0 else comparator_to_u32 (co_cmp p))"
  proof (rule bit_word_eqI)
    fix n assume "n < LENGTH(32)"
    then show "bit (ucast (drop_bit 32 (co_as_u64 p)) :: u32) n =
      bit (if 0 \<le> sint (co_offset p) then 0 else comparator_to_u32 (co_cmp p)) n"
      by (simp add: co_as_u64_def bit_ucast_iff bit_drop_bit_eq bit_and_iff bit_push_bit_iff
          bit_signed_iff sint_nonneg_bit)
  qed
  have z: "comparator_try_from 0 = Inr CmpI32Eq"
    using comparator_try_from_to [of CmpI32Eq] by simp
  show ?thesis by (simp add: co_from_u64_def Let_def hi lo z)
qed


section \<open>Properties\<close>

text \<open>
  The compressed encodings of constants and branch offsets are exact: a value is encoded just
  when it lies in the range of the encoding, and decoding then yields the value again, with its
  sign for signed and without it for unsigned constants.
\<close>
theorem compressed_constants_exact:
  "map_option i32_of_const16 (const16_of_i32 v) = (if - 32768 \<le> sint v \<and> sint v < 32768 then Some v else None) \<and>
   map_option u32_of_const16 (const16_of_u32 v) = (if uint v < 65536 then Some v else None) \<and>
   map_option i64_of_const16 (const16_of_i64 w) = (if - 32768 \<le> sint w \<and> sint w < 32768 then Some w else None) \<and>
   map_option u64_of_const16 (const16_of_u64 w) = (if uint w < 65536 then Some w else None) \<and>
   map_option i64_of_const32 (const32_of_i64 w) =
     (if - 2147483648 \<le> sint w \<and> sint w < 2147483648 then Some w else None) \<and>
   map_option u64_of_const32 (const32_of_u64 w) = (if uint w < 4294967296 then Some w else None) \<and>
   rmap branch_offset_of16 (branch_offset16_try_from v) =
     (if - 32768 \<le> sint v \<and> sint v < 32768 then Inr v else Inl BranchOffsetOutOfBounds)"
  by (simp add: const16_of_i32_def i32_of_const16_def const16_of_u32_def u32_of_const16_def
      const16_of_i64_def i64_of_const16_def const16_of_u64_def u64_of_const16_def
      const32_of_i64_def i64_of_const32_def const32_of_u64_def u64_of_const32_def
      branch_offset16_try_from_def branch_offset_of16_def scast_ucast_range ucast_ucast_range)

text \<open>
  The 64-bit encoding of a comparator with its branch offset does not keep the offset: because
  the two halves are combined with a conjunction, decoding the encoding yields the offset 0, and
  the comparator only if the offset is negative (otherwise the first comparator).
\<close>
theorem comparator_and_offset_not_round_trip:
  "co_from_u64 (co_as_u64 p) =
    Some \<lparr>co_cmp = (if 0 \<le> sint (co_offset p) then CmpI32Eq else co_cmp p), co_offset = 0\<rparr>"
  by (rule co_as_u64_lossy)

end
