(* ===== verification/Mem_Access.thy ===== *)
theory Mem_Access
  imports Wasm_Num
begin

text \<open>
  Loads and stores of linear memory: the little endian byte conversions and slice accesses of
  \<open>core/src/value.rs\<close> (\<open>LittleEndianConvert\<close>, \<open>LoadInto\<close>, \<open>StoreFrom\<close>) and the load and store
  operations of \<open>core/src/untyped.rs\<close>. The lemmas show that a store is read back by the load of
  the same width, that it changes the addressed bytes only, and exactly when an access traps.
\<close>

unbundle bit_operations_syntax

definition into_le_bytes :: "'a::len word \<Rightarrow> u8 list" where
  "into_le_bytes x = map (\<lambda>i. ucast (drop_bit (8 * i) x)) [0..<LENGTH('a) div 8]"

primrec from_le_bytes :: "u8 list \<Rightarrow> 'a::len word" where
  "from_le_bytes [] = 0"
| "from_le_bytes (b # bs) = ucast b OR push_bit 8 (from_le_bytes bs)"

definition load_into :: "nat \<Rightarrow> u8 list \<Rightarrow> nat \<Rightarrow> trap_code + u8 list" where
  "load_into n memory address = ok_or MemoryOutOfBounds (get_range address n memory)"

definition store_from :: "u8 list \<Rightarrow> u8 list \<Rightarrow> nat \<Rightarrow> trap_code + u8 list" where
  "store_from buffer memory address =
    (case get_range address (length buffer) memory of
       None \<Rightarrow> Inl MemoryOutOfBounds
     | Some _ \<Rightarrow> Inr (put_range address buffer memory))"

definition effective_address :: "u32 \<Rightarrow> u32 \<Rightarrow> trap_code + nat" where
  "effective_address address offset =
    (if unat offset + unat address < 2 ^ 32 then Inr (unat (offset + address))
     else Inl MemoryOutOfBounds)"

definition load_extend :: "('u::len word \<Rightarrow> 't) \<Rightarrow> ('t \<Rightarrow> untyped_val) \<Rightarrow> u8 list \<Rightarrow> untyped_val
    \<Rightarrow> u32 \<Rightarrow> trap_code + untyped_val" where
  "load_extend extend into memory address offset =
    rbind (effective_address (to_i32 address) offset) (\<lambda>addr.
    rbind (load_into (LENGTH('u) div 8) memory addr) (\<lambda>buffer.
      Inr (into (extend (from_le_bytes buffer :: 'u word)))))"

definition load :: "('t::len word \<Rightarrow> untyped_val) \<Rightarrow> u8 list \<Rightarrow> untyped_val \<Rightarrow> u32
    \<Rightarrow> trap_code + untyped_val" where
  "load = load_extend (\<lambda>x. x)"

definition store_wrap :: "(untyped_val \<Rightarrow> 't) \<Rightarrow> ('t \<Rightarrow> 'u::len word) \<Rightarrow> u8 list \<Rightarrow> untyped_val
    \<Rightarrow> u32 \<Rightarrow> untyped_val \<Rightarrow> trap_code + u8 list" where
  "store_wrap from wrap memory address offset value =
    rbind (effective_address (to_i32 address) offset) (\<lambda>addr.
      store_from (into_le_bytes (wrap (from value))) memory addr)"

definition store :: "(untyped_val \<Rightarrow> 't::len word) \<Rightarrow> u8 list \<Rightarrow> untyped_val
    \<Rightarrow> u32 \<Rightarrow> untyped_val \<Rightarrow> trap_code + u8 list" where
  "store from = store_wrap from (\<lambda>x. x)"

text \<open>An \<open>F32\<close> or \<open>F64\<close> value is its bit pattern, so its accesses are those of the integer of its width.\<close>

definition i32_load :: "u8 list \<Rightarrow> untyped_val \<Rightarrow> u32 \<Rightarrow> trap_code + untyped_val" where
  "i32_load = load of_i32"

definition i64_load :: "u8 list \<Rightarrow> untyped_val \<Rightarrow> u32 \<Rightarrow> trap_code + untyped_val" where
  "i64_load = load of_i64"

definition f32_load :: "u8 list \<Rightarrow> untyped_val \<Rightarrow> u32 \<Rightarrow> trap_code + untyped_val" where
  "f32_load = load of_i32"

definition f64_load :: "u8 list \<Rightarrow> untyped_val \<Rightarrow> u32 \<Rightarrow> trap_code + untyped_val" where
  "f64_load = load of_i64"

definition i32_load8_s :: "u8 list \<Rightarrow> untyped_val \<Rightarrow> u32 \<Rightarrow> trap_code + untyped_val" where
  "i32_load8_s = load_extend (extend_into_s :: 8 word \<Rightarrow> 32 word) of_i32"

definition i32_load8_u :: "u8 list \<Rightarrow> untyped_val \<Rightarrow> u32 \<Rightarrow> trap_code + untyped_val" where
  "i32_load8_u = load_extend (extend_into_u :: 8 word \<Rightarrow> 32 word) of_i32"

definition i32_load16_s :: "u8 list \<Rightarrow> untyped_val \<Rightarrow> u32 \<Rightarrow> trap_code + untyped_val" where
  "i32_load16_s = load_extend (extend_into_s :: 16 word \<Rightarrow> 32 word) of_i32"

definition i32_load16_u :: "u8 list \<Rightarrow> untyped_val \<Rightarrow> u32 \<Rightarrow> trap_code + untyped_val" where
  "i32_load16_u = load_extend (extend_into_u :: 16 word \<Rightarrow> 32 word) of_i32"

definition i64_load8_s :: "u8 list \<Rightarrow> untyped_val \<Rightarrow> u32 \<Rightarrow> trap_code + untyped_val" where
  "i64_load8_s = load_extend (extend_into_s :: 8 word \<Rightarrow> 64 word) of_i64"

definition i64_load8_u :: "u8 list \<Rightarrow> untyped_val \<Rightarrow> u32 \<Rightarrow> trap_code + untyped_val" where
  "i64_load8_u = load_extend (extend_into_u :: 8 word \<Rightarrow> 64 word) of_i64"

definition i64_load16_s :: "u8 list \<Rightarrow> untyped_val \<Rightarrow> u32 \<Rightarrow> trap_code + untyped_val" where
  "i64_load16_s = load_extend (extend_into_s :: 16 word \<Rightarrow> 64 word) of_i64"

definition i64_load16_u :: "u8 list \<Rightarrow> untyped_val \<Rightarrow> u32 \<Rightarrow> trap_code + untyped_val" where
  "i64_load16_u = load_extend (extend_into_u :: 16 word \<Rightarrow> 64 word) of_i64"

definition i64_load32_s :: "u8 list \<Rightarrow> untyped_val \<Rightarrow> u32 \<Rightarrow> trap_code + untyped_val" where
  "i64_load32_s = load_extend (extend_into_s :: 32 word \<Rightarrow> 64 word) of_i64"

definition i64_load32_u :: "u8 list \<Rightarrow> untyped_val \<Rightarrow> u32 \<Rightarrow> trap_code + untyped_val" where
  "i64_load32_u = load_extend (extend_into_u :: 32 word \<Rightarrow> 64 word) of_i64"

definition i32_store :: "u8 list \<Rightarrow> untyped_val \<Rightarrow> u32 \<Rightarrow> untyped_val \<Rightarrow> trap_code + u8 list" where
  "i32_store = store to_i32"

definition i64_store :: "u8 list \<Rightarrow> untyped_val \<Rightarrow> u32 \<Rightarrow> untyped_val \<Rightarrow> trap_code + u8 list" where
  "i64_store = store to_i64"

definition f32_store :: "u8 list \<Rightarrow> untyped_val \<Rightarrow> u32 \<Rightarrow> untyped_val \<Rightarrow> trap_code + u8 list" where
  "f32_store = store to_i32"

definition f64_store :: "u8 list \<Rightarrow> untyped_val \<Rightarrow> u32 \<Rightarrow> untyped_val \<Rightarrow> trap_code + u8 list" where
  "f64_store = store to_i64"

definition i32_store8 :: "u8 list \<Rightarrow> untyped_val \<Rightarrow> u32 \<Rightarrow> untyped_val \<Rightarrow> trap_code + u8 list" where
  "i32_store8 = store_wrap to_i32 (wrap_into :: 32 word \<Rightarrow> 8 word)"

definition i32_store16 :: "u8 list \<Rightarrow> untyped_val \<Rightarrow> u32 \<Rightarrow> untyped_val \<Rightarrow> trap_code + u8 list" where
  "i32_store16 = store_wrap to_i32 (wrap_into :: 32 word \<Rightarrow> 16 word)"

definition i64_store8 :: "u8 list \<Rightarrow> untyped_val \<Rightarrow> u32 \<Rightarrow> untyped_val \<Rightarrow> trap_code + u8 list" where
  "i64_store8 = store_wrap to_i64 (wrap_into :: 64 word \<Rightarrow> 8 word)"

definition i64_store16 :: "u8 list \<Rightarrow> untyped_val \<Rightarrow> u32 \<Rightarrow> untyped_val \<Rightarrow> trap_code + u8 list" where
  "i64_store16 = store_wrap to_i64 (wrap_into :: 64 word \<Rightarrow> 16 word)"

definition i64_store32 :: "u8 list \<Rightarrow> untyped_val \<Rightarrow> u32 \<Rightarrow> untyped_val \<Rightarrow> trap_code + u8 list" where
  "i64_store32 = store_wrap to_i64 (wrap_into :: 64 word \<Rightarrow> 32 word)"


section \<open>Bytes\<close>

lemma length_into_le_bytes [simp]: "length (into_le_bytes (x :: 'a::len word)) = LENGTH('a) div 8"
  by (simp add: into_le_bytes_def)

lemma bit_from_le_bytes:
  "bit (from_le_bytes bs :: 'a::len word) n \<longleftrightarrow>
    n < LENGTH('a) \<and> n div 8 < length bs \<and> bit (bs ! (n div 8)) (n mod 8)"
proof (induction bs arbitrary: n)
  case (Cons b bs)
  show ?case
  proof (cases "n < 8")
    case True
    then show ?thesis
      by (auto simp: bit_or_iff bit_push_bit_iff bit_ucast_iff dest: bit_imp_le_length)
  next
    case False
    then have *: "n div 8 = Suc ((n - 8) div 8)" "n mod 8 = (n - 8) mod 8"
      by (simp_all add: le_div_geq le_mod_geq)
    have "\<not> bit b n" using False by (auto dest: bit_imp_le_length)
    with False * show ?thesis
      by (auto simp: bit_or_iff bit_push_bit_iff bit_ucast_iff Cons.IH)
  qed
qed simp

lemma from_into_le_bytes:
  fixes x :: "'a::len word"
  assumes "8 dvd LENGTH('a)"
  shows "from_le_bytes (into_le_bytes x) = x"
proof (rule bit_word_eqI)
  fix n assume n: "n < LENGTH('a)"
  then have "n div 8 < LENGTH('a) div 8" using assms by (auto elim!: dvdE)
  moreover have "8 * (n div 8) + n mod 8 = n" by simp
  ultimately show "bit (from_le_bytes (into_le_bytes x) :: 'a word) n = bit x n"
    using n by (simp add: bit_from_le_bytes into_le_bytes_def bit_ucast_iff bit_drop_bit_eq)
qed

lemma effective_address_Inr [rsimps]:
  "effective_address a off = Inr i \<longleftrightarrow> unat off + unat a < 2 ^ 32 \<and> i = unat off + unat a"
  by (auto simp: effective_address_def unat_word_ariths)

lemma store_from_Inr [rsimps]:
  "store_from bs memory a = Inr m' \<longleftrightarrow> a + length bs \<le> length memory \<and> m' = put_range a bs memory"
  by (auto simp: store_from_def get_range_def)

text \<open>The bytes an access of \<open>n\<close> bytes touches, and whether it is in bounds.\<close>

definition access_ok :: "nat \<Rightarrow> u8 list \<Rightarrow> untyped_val \<Rightarrow> u32 \<Rightarrow> bool" where
  "access_ok n memory address offset \<longleftrightarrow>
    unat offset + unat (to_i32 address) + n \<le> length memory \<and>
    unat offset + unat (to_i32 address) < 2 ^ 32"

lemma load_extend_eq:
  fixes extend :: "'u::len word \<Rightarrow> 't"
  shows "load_extend extend into memory address offset =
    (if access_ok (LENGTH('u) div 8) memory address offset
     then Inr (into (extend (from_le_bytes
            (take (LENGTH('u) div 8) (drop (unat offset + unat (to_i32 address)) memory)))))
     else Inl MemoryOutOfBounds)"
  by (auto simp: load_extend_def access_ok_def effective_address_def load_into_def get_range_def
      unat_word_ariths)

lemma store_wrap_eq:
  fixes wrap :: "'t \<Rightarrow> 'u::len word"
  shows "store_wrap from wrap memory address offset v =
    (if access_ok (LENGTH('u) div 8) memory address offset
     then Inr (put_range (unat offset + unat (to_i32 address)) (into_le_bytes (wrap (from v))) memory)
     else Inl MemoryOutOfBounds)"
  by (auto simp: store_wrap_def access_ok_def effective_address_def store_from_def get_range_def
      unat_word_ariths)

lemma load_after_store:
  fixes wrap :: "'t \<Rightarrow> 'u::len word"
  assumes "store_wrap from wrap memory address offset v = Inr memory'" "8 dvd LENGTH('u)"
  shows "load_extend extend into memory' address offset = Inr (into (extend (wrap (from v))))"
  using assms
  by (auto simp: load_extend_eq store_wrap_eq access_ok_def put_range_def from_into_le_bytes
      split: if_splits)

lemma store_frame:
  fixes wrap :: "'t \<Rightarrow> 'u::len word"
  assumes "store_wrap from wrap memory address offset v = Inr memory'"
  shows "length memory' = length memory"
    and "i < length memory \<Longrightarrow> \<not> (unat offset + unat (to_i32 address) \<le> i \<and>
       i < unat offset + unat (to_i32 address) + LENGTH('u) div 8) \<Longrightarrow> memory' ! i = memory ! i"
  using assms by (auto simp: store_wrap_eq access_ok_def nth_put_range split: if_splits)


text \<open>A store and the load that reads its value back, with the bytes in between them.\<close>

definition reads_back :: "(u8 list \<Rightarrow> untyped_val \<Rightarrow> u32 \<Rightarrow> untyped_val \<Rightarrow> trap_code + u8 list)
    \<Rightarrow> (u8 list \<Rightarrow> untyped_val \<Rightarrow> u32 \<Rightarrow> trap_code + untyped_val) \<Rightarrow> nat \<Rightarrow> (untyped_val \<Rightarrow> untyped_val) \<Rightarrow> bool" where
  "reads_back st ld n f \<longleftrightarrow> (\<forall>memory address offset v memory'.
    st memory address offset v = Inr memory' \<longrightarrow>
      ld memory' address offset = Inr (f v) \<and> length memory' = length memory \<and>
      (\<forall>i < length memory. i < unat offset + unat (to_i32 address) \<or>
          unat offset + unat (to_i32 address) + n \<le> i \<longrightarrow> memory' ! i = memory ! i))"

lemma reads_backI:
  fixes wrap :: "'t \<Rightarrow> 'u::len word"
  assumes "8 dvd LENGTH('u)" "n = LENGTH('u) div 8" "\<And>v. f v = into (extend (wrap (from v)))"
  shows "reads_back (store_wrap from wrap) (load_extend extend into) n f"
  unfolding reads_back_def
  using load_after_store [where wrap = wrap, OF _ assms(1)] store_frame [where wrap = wrap] assms(2,3)
  by (metis not_le)

lemma narrow_values:
  "of_i32 (extend_into_u (wrap_into (to_i32 v) :: 8 word)) = take_bit 8 v"
  "of_i32 (extend_into_u (wrap_into (to_i32 v) :: 16 word)) = take_bit 16 v"
  "of_i64 (extend_into_u (wrap_into (to_i64 v) :: 8 word)) = take_bit 8 v"
  "of_i64 (extend_into_u (wrap_into (to_i64 v) :: 16 word)) = take_bit 16 v"
  "of_i64 (extend_into_u (wrap_into (to_i64 v) :: 32 word)) = take_bit 32 v"
  by (rule bit_word_eqI; auto simp: of_i32_def to_i32_def of_i64_def to_i64_def extend_into_u_def
      wrap_into_def bit_ucast_iff bit_take_bit_iff dest: bit_imp_le_length)+


section \<open>Properties\<close>

text \<open>Every store with the load of the same width and the value that the load then yields.\<close>

definition store_load_pairs :: "((u8 list \<Rightarrow> untyped_val \<Rightarrow> u32 \<Rightarrow> untyped_val \<Rightarrow> trap_code + u8 list) \<times>
    (u8 list \<Rightarrow> untyped_val \<Rightarrow> u32 \<Rightarrow> trap_code + untyped_val) \<times> nat \<times> (untyped_val \<Rightarrow> untyped_val)) list" where
  "store_load_pairs =
    [(i32_store, i32_load, 4, \<lambda>v. of_i32 (to_i32 v)), (i64_store, i64_load, 8, \<lambda>v. v),
     (f32_store, f32_load, 4, \<lambda>v. of_i32 (to_i32 v)), (f64_store, f64_load, 8, \<lambda>v. v),
     (i32_store8, i32_load8_u, 1, \<lambda>v. take_bit 8 v), (i32_store16, i32_load16_u, 2, \<lambda>v. take_bit 16 v),
     (i64_store8, i64_load8_u, 1, \<lambda>v. take_bit 8 v), (i64_store16, i64_load16_u, 2, \<lambda>v. take_bit 16 v),
     (i64_store32, i64_load32_u, 4, \<lambda>v. take_bit 32 v)]"

lemmas access_defs =
  i32_store_def i64_store_def f32_store_def f64_store_def i32_store8_def i32_store16_def
  i64_store8_def i64_store16_def i64_store32_def store_def
  i32_load_def i64_load_def f32_load_def f64_load_def load_def i32_load8_s_def i32_load8_u_def
  i32_load16_s_def i32_load16_u_def i64_load8_s_def i64_load8_u_def i64_load16_s_def
  i64_load16_u_def i64_load32_s_def i64_load32_u_def

lemma store_load_pairs_ok: "\<forall>(st, ld, n, f) \<in> set store_load_pairs. reads_back st ld n f"
  by (simp add: store_load_pairs_def access_defs, intro conjI; rule reads_backI)
    (simp_all add: narrow_values)

text \<open>
  C18. A store that does not trap writes its value: the load of the same width and address reads the
  stored value (narrow stores: its low bytes, zero extended), the length of the memory and every
  byte outside of the addressed ones are unchanged.
\<close>
theorem store_then_load:
  assumes "(st, ld, n, f) \<in> set store_load_pairs" "st memory address offset v = Inr memory'"
  shows "ld memory' address offset = Inr (f v) \<and> length memory' = length memory \<and>
    (\<forall>i < length memory. i < unat offset + unat (to_i32 address) \<or>
        unat offset + unat (to_i32 address) + n \<le> i \<longrightarrow> memory' ! i = memory ! i)"
  using store_load_pairs_ok assms by (fastforce simp: reads_back_def)

lemma store_then_load_witness:
  "i32_load8_u [1, 2, 0xCD, 4] 1 1 = Inr (take_bit 8 0xABCD)"
proof -
  have "i32_store8 [1, 2, 3, 4] 1 1 0xABCD = Inr [1, 2, 0xCD, 4]"
    by (simp add: i32_store8_def store_wrap_def effective_address_def store_from_def get_range_def
        put_range_def into_le_bytes_def to_i32_def wrap_into_def)
  with store_then_load [of i32_store8 i32_load8_u 1 "\<lambda>v. take_bit 8 v" "[1, 2, 3, 4]" 1 1 43981]
  show ?thesis by (simp add: store_load_pairs_def to_i32_def)
qed

text \<open>All loads with the number of bytes they read.\<close>

definition all_loads :: "((u8 list \<Rightarrow> untyped_val \<Rightarrow> u32 \<Rightarrow> trap_code + untyped_val) \<times> nat) list" where
  "all_loads =
    [(i32_load, 4), (i64_load, 8), (f32_load, 4), (f64_load, 8), (i32_load8_s, 1), (i32_load8_u, 1),
     (i32_load16_s, 2), (i32_load16_u, 2), (i64_load8_s, 1), (i64_load8_u, 1), (i64_load16_s, 2),
     (i64_load16_u, 2), (i64_load32_s, 4), (i64_load32_u, 4)]"

text \<open>
  C17. A load or store traps with \<open>MemoryOutOfBounds\<close>, and with no other trap, exactly when the sum
  of address and offset leaves the 32-bit address space or one of the accessed bytes is not in the
  memory.
\<close>
theorem accesses_trap_exactly:
  "list_all (\<lambda>(ld, n). (ld memory address offset = Inl t) = (t = MemoryOutOfBounds \<and>
      (2 ^ 32 \<le> unat offset + unat (to_i32 address) \<or>
       length memory < unat offset + unat (to_i32 address) + n))) all_loads \<and>
   list_all (\<lambda>(st, ld, n, f). (st memory address offset v = Inl t) = (t = MemoryOutOfBounds \<and>
      (2 ^ 32 \<le> unat offset + unat (to_i32 address) \<or>
       length memory < unat offset + unat (to_i32 address) + n))) store_load_pairs"
  by (simp add: all_loads_def store_load_pairs_def access_defs load_extend_eq store_wrap_eq
      access_ok_def not_le not_less disj_commute eq_commute [of t])

end
