(* ===== verification/Wasm_Float.thy ===== *)
theory Wasm_Float
  imports Wasm_Num
begin

text \<open>
  Floating point operations of \<open>core/src/value.rs\<close>, \<open>core/src/nan_preserving_float.rs\<close> and
  \<open>core/src/untyped.rs\<close> on bit patterns. A finite value is read exactly, as the integer number
  of smallest subnormals it is; the rounding of IEEE 754 (nearest, ties to even) is computed on
  exact fractions. The bits of a NaN that an arithmetic operation yields are not specified by
  Rust: they are a parameter, \<open>nan_env\<close>.
\<close>

unbundle bit_operations_syntax


section \<open>Reading floats\<close>

text \<open>A word of 32 bits is an \<open>f32\<close>, one of 64 bits an \<open>f64\<close>.\<close>

definition mant_bits :: "'a::len word \<Rightarrow> nat" where
  "mant_bits _ = (if LENGTH('a) = 32 then 23 else 52)"

definition exp_bits :: "'a::len word \<Rightarrow> nat" where
  "exp_bits _ = (if LENGTH('a) = 32 then 8 else 11)"

text \<open>The smallest subnormal is \<open>2 ^ - float_unit\<close>.\<close>

definition float_unit :: "'a::len word \<Rightarrow> nat" where
  "float_unit _ = (if LENGTH('a) = 32 then 149 else 1074)"

definition float_mant :: "'a::len word \<Rightarrow> nat" where
  "float_mant x = unat x mod 2 ^ mant_bits x"

definition float_exp :: "'a::len word \<Rightarrow> nat" where
  "float_exp x = unat x div 2 ^ mant_bits x mod 2 ^ exp_bits x"

definition float_neg :: "'a::len word \<Rightarrow> bool" where
  "float_neg x = bit x (LENGTH('a) - 1)"

definition float_is_nan :: "'a::len word \<Rightarrow> bool" where
  "float_is_nan x = (float_exp x = 2 ^ exp_bits x - 1 \<and> float_mant x \<noteq> 0)"

definition float_is_infinite :: "'a::len word \<Rightarrow> bool" where
  "float_is_infinite x = (float_exp x = 2 ^ exp_bits x - 1 \<and> float_mant x = 0)"

text \<open>The magnitude in units; of an infinity it is larger than that of every finite value.\<close>

definition float_mag :: "'a::len word \<Rightarrow> nat" where
  "float_mag x =
    (if float_exp x = 0 then float_mant x
     else (2 ^ mant_bits x + float_mant x) * 2 ^ (float_exp x - 1))"

definition float_val :: "'a::len word \<Rightarrow> int" where
  "float_val x = (if float_neg x then - int (float_mag x) else int (float_mag x))"

definition float_lt :: "'a::len word \<Rightarrow> 'a word \<Rightarrow> bool" where
  "float_lt x y = (\<not> float_is_nan x \<and> \<not> float_is_nan y \<and> float_val x < float_val y)"

definition float_le :: "'a::len word \<Rightarrow> 'a word \<Rightarrow> bool" where
  "float_le x y = (\<not> float_is_nan x \<and> \<not> float_is_nan y \<and> float_val x \<le> float_val y)"

definition float_eq :: "'a::len word \<Rightarrow> 'a word \<Rightarrow> bool" where
  "float_eq x y = (\<not> float_is_nan x \<and> \<not> float_is_nan y \<and> float_val x = float_val y)"


section \<open>Rounding\<close>

fun bitlen :: "nat \<Rightarrow> nat" where
  "bitlen n = (if n = 0 then 0 else Suc (bitlen (n div 2)))"

declare bitlen.simps [simp del]

text \<open>Division to the nearest natural, ties to even.\<close>

definition div_rne :: "nat \<Rightarrow> nat \<Rightarrow> nat" where
  "div_rne n d =
    (let q = n div d; r = n mod d
     in if 2 * r < d \<or> 2 * r = d \<and> even q then q else q + 1)"

definition sign_bit :: "'a::len word" where
  "sign_bit = push_bit (LENGTH('a) - 1) 1"

definition float_inf_bits :: "'a::len word \<Rightarrow> nat" where
  "float_inf_bits x = (2 ^ exp_bits x - 1) * 2 ^ mant_bits x"

definition float_pack :: "bool \<Rightarrow> nat \<Rightarrow> 'a::len word" where
  "float_pack neg bits =
    (if neg then sign_bit else 0) + of_nat (min bits (float_inf_bits (0 :: 'a word)))"

text \<open>
  The bits of the float nearest to \<open>n / d\<close> units. A significand that rounds up to the next power
  of two carries into the exponent, an overflow is an infinity.
\<close>

definition round_bits :: "nat \<Rightarrow> nat \<Rightarrow> nat \<Rightarrow> nat" where
  "round_bits m n d =
    (let k = bitlen (n div d) - (m + 1) in k * 2 ^ m + div_rne n (d * 2 ^ k))"

definition float_round :: "bool \<Rightarrow> nat \<Rightarrow> nat \<Rightarrow> 'a::len word" where
  "float_round neg n d = float_pack neg (round_bits (mant_bits (0 :: 'a word)) n d)"

definition float_infinity :: "bool \<Rightarrow> 'a::len word" where
  "float_infinity neg = float_pack neg (float_inf_bits (0 :: 'a word))"

record nan_env =
  nan32 :: "u32 list \<Rightarrow> u32"
  nan64 :: "u64 list \<Rightarrow> u64"
  nan_demote :: "u64 \<Rightarrow> u32"
  nan_promote :: "u32 \<Rightarrow> u64"


section \<open>Arithmetic\<close>

text \<open>The first argument yields the NaN of an invalid operation or of a NaN operand.\<close>

definition float_add :: "('a::len word list \<Rightarrow> 'a word) \<Rightarrow> 'a word \<Rightarrow> 'a word \<Rightarrow> 'a word" where
  "float_add nan x y =
    (if float_is_nan x \<or> float_is_nan y then nan [x, y]
     else if float_is_infinite x \<and> float_is_infinite y then
       (if float_neg x = float_neg y then x else nan [x, y])
     else if float_is_infinite x then x
     else if float_is_infinite y then y
     else let s = float_val x + float_val y
          in if s = 0 then float_pack (float_neg x \<and> float_neg y) 0
             else float_round (s < 0) (nat \<bar>s\<bar>) 1)"

definition float_negate :: "'a::len word \<Rightarrow> 'a word" where
  "float_negate x = x XOR sign_bit"

definition float_abs :: "'a::len word \<Rightarrow> 'a word" where
  "float_abs x = x AND NOT sign_bit"

definition float_copysign :: "'a::len word \<Rightarrow> 'a word \<Rightarrow> 'a word" where
  "float_copysign x y = (x AND NOT sign_bit) OR (y AND sign_bit)"

definition float_sub :: "('a::len word list \<Rightarrow> 'a word) \<Rightarrow> 'a word \<Rightarrow> 'a word \<Rightarrow> 'a word" where
  "float_sub nan x y =
    (if float_is_nan x \<or> float_is_nan y then nan [x, y]
     else float_add (\<lambda>_. nan [x, y]) x (float_negate y))"

definition float_mul :: "('a::len word list \<Rightarrow> 'a word) \<Rightarrow> 'a word \<Rightarrow> 'a word \<Rightarrow> 'a word" where
  "float_mul nan x y =
    (let neg = (float_neg x \<noteq> float_neg y)
     in if float_is_nan x \<or> float_is_nan y then nan [x, y]
        else if float_is_infinite x \<or> float_is_infinite y then
          (if float_mag x = 0 \<or> float_mag y = 0 then nan [x, y] else float_infinity neg)
        else float_round neg (float_mag x * float_mag y) (2 ^ float_unit x))"

definition float_div :: "('a::len word list \<Rightarrow> 'a word) \<Rightarrow> 'a word \<Rightarrow> 'a word \<Rightarrow> 'a word" where
  "float_div nan x y =
    (let neg = (float_neg x \<noteq> float_neg y)
     in if float_is_nan x \<or> float_is_nan y then nan [x, y]
        else if float_is_infinite x then
          (if float_is_infinite y then nan [x, y] else float_infinity neg)
        else if float_is_infinite y then float_pack neg 0
        else if float_mag y = 0 then
          (if float_mag x = 0 then nan [x, y] else float_infinity neg)
        else float_round neg (float_mag x * 2 ^ float_unit x) (float_mag y))"

text \<open>The integer square root, and the square root to the nearest.\<close>

fun isqrt :: "nat \<Rightarrow> nat" where
  "isqrt n =
    (if n < 2 then n
     else let s = 2 * isqrt (n div 4) in if (s + 1) * (s + 1) \<le> n then s + 1 else s)"

declare isqrt.simps [simp del]

definition float_sqrt :: "('a::len word list \<Rightarrow> 'a word) \<Rightarrow> 'a word \<Rightarrow> 'a word" where
  "float_sqrt nan x =
    (if float_is_nan x then nan [x]
     else if float_mag x = 0 then x
     else if float_neg x then nan [x]
     else if float_is_infinite x then x
     else let m = mant_bits x; n = float_mag x * 2 ^ float_unit x;
              k = bitlen (isqrt n) - (m + 1); t = isqrt (n div 4 ^ k);
              half = (2 * t + 1) * (2 * t + 1) * 4 ^ k;
              r = (if 4 * n < half \<or> 4 * n = half \<and> even t then t else t + 1)
          in float_pack False (k * 2 ^ m + r))"

text \<open>Rounding to an integral value keeps the sign, also of a zero result.\<close>

definition float_integral :: "(nat \<Rightarrow> nat \<Rightarrow> bool \<Rightarrow> nat) \<Rightarrow> ('a::len word list \<Rightarrow> 'a word)
    \<Rightarrow> 'a word \<Rightarrow> 'a word" where
  "float_integral rnd nan x =
    (if float_is_nan x then nan [x]
     else if float_is_infinite x then x
     else float_round (float_neg x)
       (rnd (float_mag x) (2 ^ float_unit x) (float_neg x) * 2 ^ float_unit x) 1)"

definition rnd_up :: "nat \<Rightarrow> nat \<Rightarrow> nat" where "rnd_up n d = (n + d - 1) div d"

definition float_ceil :: "('a::len word list \<Rightarrow> 'a word) \<Rightarrow> 'a word \<Rightarrow> 'a word" where
  "float_ceil = float_integral (\<lambda>n d neg. if neg then n div d else rnd_up n d)"

definition float_floor :: "('a::len word list \<Rightarrow> 'a word) \<Rightarrow> 'a word \<Rightarrow> 'a word" where
  "float_floor = float_integral (\<lambda>n d neg. if neg then rnd_up n d else n div d)"

definition float_trunc :: "('a::len word list \<Rightarrow> 'a word) \<Rightarrow> 'a word \<Rightarrow> 'a word" where
  "float_trunc = float_integral (\<lambda>n d neg. n div d)"

definition float_nearest :: "('a::len word list \<Rightarrow> 'a word) \<Rightarrow> 'a word \<Rightarrow> 'a word" where
  "float_nearest = float_integral (\<lambda>n d neg. div_rne n d)"

definition float_min :: "('a::len word list \<Rightarrow> 'a word) \<Rightarrow> 'a word \<Rightarrow> 'a word \<Rightarrow> 'a word" where
  "float_min nan self other =
    (if float_lt self other then self
     else if float_lt other self then other
     else if float_eq self other then
       (if float_neg self \<and> \<not> float_neg other then self else other)
     else float_add nan self other)"

definition float_max :: "('a::len word list \<Rightarrow> 'a word) \<Rightarrow> 'a word \<Rightarrow> 'a word \<Rightarrow> 'a word" where
  "float_max nan self other =
    (if float_lt other self then self
     else if float_lt self other then other
     else if float_eq self other then
       (if \<not> float_neg self \<and> float_neg other then self else other)
     else float_add nan self other)"


section \<open>Conversions\<close>

definition int_to_float :: "int \<Rightarrow> 'a::len word" where
  "int_to_float i =
    (if i = 0 then 0
     else float_round (i < 0) (nat \<bar>i\<bar> * 2 ^ float_unit (0 :: 'a word)) 1)"

definition float_demote :: "nan_env \<Rightarrow> u64 \<Rightarrow> u32" where
  "float_demote env x =
    (if float_is_nan x then nan_demote env x
     else if float_is_infinite x then float_infinity (float_neg x)
     else float_round (float_neg x) (float_mag x) (2 ^ (1074 - 149)))"

definition float_promote :: "nan_env \<Rightarrow> u32 \<Rightarrow> u64" where
  "float_promote env x =
    (if float_is_nan x then nan_promote env x
     else if float_is_infinite x then float_infinity (float_neg x)
     else float_round (float_neg x) (float_mag x * 2 ^ (1074 - 149)) 1)"

text \<open>The integer part of a float, and Rust's saturating cast \<open>as\<close> to an integer range.\<close>

definition float_to_int :: "'a::len word \<Rightarrow> int" where
  "float_to_int x =
    (let t = int (float_mag x div 2 ^ float_unit x) in if float_neg x then - t else t)"

definition float_as_int :: "int \<Rightarrow> int \<Rightarrow> 'a::len word \<Rightarrow> int" where
  "float_as_int lo hi x =
    (if float_is_nan x then 0 else max lo (min hi (float_to_int x)))"

text \<open>
  \<open>impl_try_truncate_into!(@primitive from, into, _, rmin, rmax)\<close>: the comparisons are those of
  the float type with the literals, both of which the float type represents exactly.
\<close>

definition try_truncate_into :: "int \<Rightarrow> int \<Rightarrow> int \<Rightarrow> int \<Rightarrow> 'f::len word \<Rightarrow> trap_code + 'i::len word" where
  "try_truncate_into rmin rmax lo hi self =
    (if float_is_nan self then Inl BadConversionToInteger
     else if float_val self \<le> rmin * 2 ^ float_unit self \<or> rmax * 2 ^ float_unit self \<le> float_val self
     then Inl IntegerOverflow
     else Inr (word_of_int (float_as_int lo hi self)))"

definition truncate_saturate_into :: "int \<Rightarrow> int \<Rightarrow> 'f::len word \<Rightarrow> 'i::len word" where
  "truncate_saturate_into lo hi self =
    (if float_is_nan self then 0
     else if float_is_infinite self \<and> \<not> float_neg self then word_of_int hi
     else if float_is_infinite self \<and> float_neg self then word_of_int lo
     else word_of_int (float_as_int lo hi self))"


section \<open>The float operations of Wasm\<close>

definition f32_eq :: "untyped_val \<Rightarrow> untyped_val \<Rightarrow> untyped_val" where
  "f32_eq = execute_binary to_i32 of_boolean (\<lambda>l r. float_eq l r)"

definition f32_ne :: "untyped_val \<Rightarrow> untyped_val \<Rightarrow> untyped_val" where
  "f32_ne = execute_binary to_i32 of_boolean (\<lambda>l r. \<not> float_eq l r)"

definition f32_lt :: "untyped_val \<Rightarrow> untyped_val \<Rightarrow> untyped_val" where
  "f32_lt = execute_binary to_i32 of_boolean (\<lambda>l r. float_lt l r)"

definition f32_le :: "untyped_val \<Rightarrow> untyped_val \<Rightarrow> untyped_val" where
  "f32_le = execute_binary to_i32 of_boolean (\<lambda>l r. float_le l r)"

definition f32_gt :: "untyped_val \<Rightarrow> untyped_val \<Rightarrow> untyped_val" where
  "f32_gt = execute_binary to_i32 of_boolean (\<lambda>l r. float_lt r l)"

definition f32_ge :: "untyped_val \<Rightarrow> untyped_val \<Rightarrow> untyped_val" where
  "f32_ge = execute_binary to_i32 of_boolean (\<lambda>l r. float_le r l)"

definition f32_abs :: "untyped_val \<Rightarrow> untyped_val" where
  "f32_abs = execute_unary to_i32 of_i32 float_abs"

definition f32_neg :: "untyped_val \<Rightarrow> untyped_val" where
  "f32_neg = execute_unary to_i32 of_i32 float_negate"

definition f32_ceil :: "nan_env \<Rightarrow> untyped_val \<Rightarrow> untyped_val" where
  "f32_ceil env = execute_unary to_i32 of_i32 (float_ceil (nan32 env))"

definition f32_floor :: "nan_env \<Rightarrow> untyped_val \<Rightarrow> untyped_val" where
  "f32_floor env = execute_unary to_i32 of_i32 (float_floor (nan32 env))"

definition f32_trunc :: "nan_env \<Rightarrow> untyped_val \<Rightarrow> untyped_val" where
  "f32_trunc env = execute_unary to_i32 of_i32 (float_trunc (nan32 env))"

definition f32_nearest :: "nan_env \<Rightarrow> untyped_val \<Rightarrow> untyped_val" where
  "f32_nearest env = execute_unary to_i32 of_i32 (float_nearest (nan32 env))"

definition f32_sqrt :: "nan_env \<Rightarrow> untyped_val \<Rightarrow> untyped_val" where
  "f32_sqrt env = execute_unary to_i32 of_i32 (float_sqrt (nan32 env))"

definition f32_add :: "nan_env \<Rightarrow> untyped_val \<Rightarrow> untyped_val \<Rightarrow> untyped_val" where
  "f32_add env = execute_binary to_i32 of_i32 (float_add (nan32 env))"

definition f32_sub :: "nan_env \<Rightarrow> untyped_val \<Rightarrow> untyped_val \<Rightarrow> untyped_val" where
  "f32_sub env = execute_binary to_i32 of_i32 (float_sub (nan32 env))"

definition f32_mul :: "nan_env \<Rightarrow> untyped_val \<Rightarrow> untyped_val \<Rightarrow> untyped_val" where
  "f32_mul env = execute_binary to_i32 of_i32 (float_mul (nan32 env))"

definition f32_div :: "nan_env \<Rightarrow> untyped_val \<Rightarrow> untyped_val \<Rightarrow> untyped_val" where
  "f32_div env = execute_binary to_i32 of_i32 (float_div (nan32 env))"

definition f32_min :: "nan_env \<Rightarrow> untyped_val \<Rightarrow> untyped_val \<Rightarrow> untyped_val" where
  "f32_min env = execute_binary to_i32 of_i32 (float_min (nan32 env))"

definition f32_max :: "nan_env \<Rightarrow> untyped_val \<Rightarrow> untyped_val \<Rightarrow> untyped_val" where
  "f32_max env = execute_binary to_i32 of_i32 (float_max (nan32 env))"

definition f32_copysign :: "untyped_val \<Rightarrow> untyped_val \<Rightarrow> untyped_val" where
  "f32_copysign = execute_binary to_i32 of_i32 float_copysign"

definition f64_eq :: "untyped_val \<Rightarrow> untyped_val \<Rightarrow> untyped_val" where
  "f64_eq = execute_binary to_i64 of_boolean (\<lambda>l r. float_eq l r)"

definition f64_ne :: "untyped_val \<Rightarrow> untyped_val \<Rightarrow> untyped_val" where
  "f64_ne = execute_binary to_i64 of_boolean (\<lambda>l r. \<not> float_eq l r)"

definition f64_lt :: "untyped_val \<Rightarrow> untyped_val \<Rightarrow> untyped_val" where
  "f64_lt = execute_binary to_i64 of_boolean (\<lambda>l r. float_lt l r)"

definition f64_le :: "untyped_val \<Rightarrow> untyped_val \<Rightarrow> untyped_val" where
  "f64_le = execute_binary to_i64 of_boolean (\<lambda>l r. float_le l r)"

definition f64_gt :: "untyped_val \<Rightarrow> untyped_val \<Rightarrow> untyped_val" where
  "f64_gt = execute_binary to_i64 of_boolean (\<lambda>l r. float_lt r l)"

definition f64_ge :: "untyped_val \<Rightarrow> untyped_val \<Rightarrow> untyped_val" where
  "f64_ge = execute_binary to_i64 of_boolean (\<lambda>l r. float_le r l)"

definition f64_abs :: "untyped_val \<Rightarrow> untyped_val" where
  "f64_abs = execute_unary to_i64 of_i64 float_abs"

definition f64_neg :: "untyped_val \<Rightarrow> untyped_val" where
  "f64_neg = execute_unary to_i64 of_i64 float_negate"

definition f64_ceil :: "nan_env \<Rightarrow> untyped_val \<Rightarrow> untyped_val" where
  "f64_ceil env = execute_unary to_i64 of_i64 (float_ceil (nan64 env))"

definition f64_floor :: "nan_env \<Rightarrow> untyped_val \<Rightarrow> untyped_val" where
  "f64_floor env = execute_unary to_i64 of_i64 (float_floor (nan64 env))"

definition f64_trunc :: "nan_env \<Rightarrow> untyped_val \<Rightarrow> untyped_val" where
  "f64_trunc env = execute_unary to_i64 of_i64 (float_trunc (nan64 env))"

definition f64_nearest :: "nan_env \<Rightarrow> untyped_val \<Rightarrow> untyped_val" where
  "f64_nearest env = execute_unary to_i64 of_i64 (float_nearest (nan64 env))"

definition f64_sqrt :: "nan_env \<Rightarrow> untyped_val \<Rightarrow> untyped_val" where
  "f64_sqrt env = execute_unary to_i64 of_i64 (float_sqrt (nan64 env))"

definition f64_add :: "nan_env \<Rightarrow> untyped_val \<Rightarrow> untyped_val \<Rightarrow> untyped_val" where
  "f64_add env = execute_binary to_i64 of_i64 (float_add (nan64 env))"

definition f64_sub :: "nan_env \<Rightarrow> untyped_val \<Rightarrow> untyped_val \<Rightarrow> untyped_val" where
  "f64_sub env = execute_binary to_i64 of_i64 (float_sub (nan64 env))"

definition f64_mul :: "nan_env \<Rightarrow> untyped_val \<Rightarrow> untyped_val \<Rightarrow> untyped_val" where
  "f64_mul env = execute_binary to_i64 of_i64 (float_mul (nan64 env))"

definition f64_div :: "nan_env \<Rightarrow> untyped_val \<Rightarrow> untyped_val \<Rightarrow> untyped_val" where
  "f64_div env = execute_binary to_i64 of_i64 (float_div (nan64 env))"

definition f64_min :: "nan_env \<Rightarrow> untyped_val \<Rightarrow> untyped_val \<Rightarrow> untyped_val" where
  "f64_min env = execute_binary to_i64 of_i64 (float_min (nan64 env))"

definition f64_max :: "nan_env \<Rightarrow> untyped_val \<Rightarrow> untyped_val \<Rightarrow> untyped_val" where
  "f64_max env = execute_binary to_i64 of_i64 (float_max (nan64 env))"

definition f64_copysign :: "untyped_val \<Rightarrow> untyped_val \<Rightarrow> untyped_val" where
  "f64_copysign = execute_binary to_i64 of_i64 float_copysign"

definition i32_trunc_f32_s :: "untyped_val \<Rightarrow> trap_code + untyped_val" where
  "i32_trunc_f32_s = try_execute_unary to_i32 of_i32
    (try_truncate_into (- 2147483904) 2147483648 (- (2 ^ 31)) (2 ^ 31 - 1))"

definition i32_trunc_f32_u :: "untyped_val \<Rightarrow> trap_code + untyped_val" where
  "i32_trunc_f32_u = try_execute_unary to_i32 of_i32
    (try_truncate_into (- 1) 4294967296 0 (2 ^ 32 - 1))"

definition i32_trunc_f64_s :: "untyped_val \<Rightarrow> trap_code + untyped_val" where
  "i32_trunc_f64_s = try_execute_unary to_i64 of_i32
    (try_truncate_into (- 2147483649) 2147483648 (- (2 ^ 31)) (2 ^ 31 - 1))"

definition i32_trunc_f64_u :: "untyped_val \<Rightarrow> trap_code + untyped_val" where
  "i32_trunc_f64_u = try_execute_unary to_i64 of_i32
    (try_truncate_into (- 1) 4294967296 0 (2 ^ 32 - 1))"

definition i64_trunc_f32_s :: "untyped_val \<Rightarrow> trap_code + untyped_val" where
  "i64_trunc_f32_s = try_execute_unary to_i32 of_i64
    (try_truncate_into (- 9223373136366403584) 9223372036854775808 (- (2 ^ 63)) (2 ^ 63 - 1))"

definition i64_trunc_f32_u :: "untyped_val \<Rightarrow> trap_code + untyped_val" where
  "i64_trunc_f32_u = try_execute_unary to_i32 of_i64
    (try_truncate_into (- 1) 18446744073709551616 0 (2 ^ 64 - 1))"

definition i64_trunc_f64_s :: "untyped_val \<Rightarrow> trap_code + untyped_val" where
  "i64_trunc_f64_s = try_execute_unary to_i64 of_i64
    (try_truncate_into (- 9223372036854777856) 9223372036854775808 (- (2 ^ 63)) (2 ^ 63 - 1))"

definition i64_trunc_f64_u :: "untyped_val \<Rightarrow> trap_code + untyped_val" where
  "i64_trunc_f64_u = try_execute_unary to_i64 of_i64
    (try_truncate_into (- 1) 18446744073709551616 0 (2 ^ 64 - 1))"

definition i32_trunc_sat_f32_s :: "untyped_val \<Rightarrow> untyped_val" where
  "i32_trunc_sat_f32_s = execute_unary to_i32 of_i32 (truncate_saturate_into (- (2 ^ 31)) (2 ^ 31 - 1))"

definition i32_trunc_sat_f32_u :: "untyped_val \<Rightarrow> untyped_val" where
  "i32_trunc_sat_f32_u = execute_unary to_i32 of_i32 (truncate_saturate_into 0 (2 ^ 32 - 1))"

definition i32_trunc_sat_f64_s :: "untyped_val \<Rightarrow> untyped_val" where
  "i32_trunc_sat_f64_s = execute_unary to_i64 of_i32 (truncate_saturate_into (- (2 ^ 31)) (2 ^ 31 - 1))"

definition i32_trunc_sat_f64_u :: "untyped_val \<Rightarrow> untyped_val" where
  "i32_trunc_sat_f64_u = execute_unary to_i64 of_i32 (truncate_saturate_into 0 (2 ^ 32 - 1))"

definition i64_trunc_sat_f32_s :: "untyped_val \<Rightarrow> untyped_val" where
  "i64_trunc_sat_f32_s = execute_unary to_i32 of_i64 (truncate_saturate_into (- (2 ^ 63)) (2 ^ 63 - 1))"

definition i64_trunc_sat_f32_u :: "untyped_val \<Rightarrow> untyped_val" where
  "i64_trunc_sat_f32_u = execute_unary to_i32 of_i64 (truncate_saturate_into 0 (2 ^ 64 - 1))"

definition i64_trunc_sat_f64_s :: "untyped_val \<Rightarrow> untyped_val" where
  "i64_trunc_sat_f64_s = execute_unary to_i64 of_i64 (truncate_saturate_into (- (2 ^ 63)) (2 ^ 63 - 1))"

definition i64_trunc_sat_f64_u :: "untyped_val \<Rightarrow> untyped_val" where
  "i64_trunc_sat_f64_u = execute_unary to_i64 of_i64 (truncate_saturate_into 0 (2 ^ 64 - 1))"

definition f32_convert_i32_s :: "untyped_val \<Rightarrow> untyped_val" where
  "f32_convert_i32_s = execute_unary to_i32 of_i32 (\<lambda>i. int_to_float (sint i))"

definition f32_convert_i32_u :: "untyped_val \<Rightarrow> untyped_val" where
  "f32_convert_i32_u = execute_unary to_i32 of_i32 (\<lambda>i. int_to_float (uint i))"

definition f32_convert_i64_s :: "untyped_val \<Rightarrow> untyped_val" where
  "f32_convert_i64_s = execute_unary to_i64 of_i32 (\<lambda>i. int_to_float (sint i))"

definition f32_convert_i64_u :: "untyped_val \<Rightarrow> untyped_val" where
  "f32_convert_i64_u = execute_unary to_i64 of_i32 (\<lambda>i. int_to_float (uint i))"

definition f64_convert_i32_s :: "untyped_val \<Rightarrow> untyped_val" where
  "f64_convert_i32_s = execute_unary to_i32 of_i64 (\<lambda>i. int_to_float (sint i))"

definition f64_convert_i32_u :: "untyped_val \<Rightarrow> untyped_val" where
  "f64_convert_i32_u = execute_unary to_i32 of_i64 (\<lambda>i. int_to_float (uint i))"

definition f64_convert_i64_s :: "untyped_val \<Rightarrow> untyped_val" where
  "f64_convert_i64_s = execute_unary to_i64 of_i64 (\<lambda>i. int_to_float (sint i))"

definition f64_convert_i64_u :: "untyped_val \<Rightarrow> untyped_val" where
  "f64_convert_i64_u = execute_unary to_i64 of_i64 (\<lambda>i. int_to_float (uint i))"

definition f32_demote_f64 :: "nan_env \<Rightarrow> untyped_val \<Rightarrow> untyped_val" where
  "f32_demote_f64 env = execute_unary to_i64 of_i32 (float_demote env)"

definition f64_promote_f32 :: "nan_env \<Rightarrow> untyped_val \<Rightarrow> untyped_val" where
  "f64_promote_f32 env = execute_unary to_i32 of_i64 (float_promote env)"

end
