(* ===== verification/Instr.thy ===== *)
theory Instr
  imports Stacks Ir_Primitives Mem_Access Wasm_Float
begin

text \<open>
  The instruction words of \<open>ir/src/for_each_op.rs\<close> and \<open>ir/src/enum.rs\<close>. The source declares one
  variant per operation and operand form in one flat enumeration; here they are grouped by the file
  of \<open>executor/instrs\<close> that executes them (\<open>param_word\<close> are the words that are parameters of the
  preceding instruction and never executed), and the variants that differ in the operation only
  share a constructor whose first field is the operation: \<open>I32ShlBy\<close> is \<open>IShiftBy I32Shl\<close>. The
  enumerations of operations are cut such that every combination is a variant of the source, but
  for \<open>IBranchCmpImm\<close>, which exists for integer comparators only. \<open>operand\<close> covers the variants that
  take either a register or a \<open>Const16<u32>\<close> (\<open>MemoryCopy\<close>, \<open>MemoryCopyTo\<close>, and so on).

  The tables give the function that the macros of \<open>executor/instrs/{unary,conversion,comparison,
  binary,load,store,branch}.rs\<close> pass for each operation.
\<close>


unbundle bit_operations_syntax


section \<open>Operations\<close>

datatype unary_op =
    I32Clz | I32Ctz | I32Popcnt | I64Clz | I64Ctz | I64Popcnt
  | F32Abs | F32Neg | F32Ceil | F32Floor | F32Trunc | F32Nearest
  | F32Sqrt | F64Abs | F64Neg | F64Ceil | F64Floor | F64Trunc
  | F64Nearest | F64Sqrt

datatype conv_op =
    I32WrapI64 | I32TruncSatF32S | I32TruncSatF32U | I32TruncSatF64S | I32TruncSatF64U | I64TruncSatF32S
  | I64TruncSatF32U | I64TruncSatF64S | I64TruncSatF64U | I32Extend8S | I32Extend16S | I64Extend8S
  | I64Extend16S | I64Extend32S | F32DemoteF64 | F64PromoteF32 | F32ConvertI32S | F32ConvertI32U
  | F32ConvertI64S | F32ConvertI64U | F64ConvertI32S | F64ConvertI32U | F64ConvertI64S | F64ConvertI64U

datatype trunc_op =
    I32TruncF32S | I32TruncF32U | I32TruncF64S | I32TruncF64U | I64TruncF32S | I64TruncF32U
  | I64TruncF64S | I64TruncF64U

datatype icmp_op =
    I32Eq | I32Ne | I32LtS | I32LtU | I32LeS | I32LeU
  | I32GtS | I32GtU | I32GeS | I32GeU | I64Eq | I64Ne
  | I64LtS | I64LtU | I64LeS | I64LeU | I64GtS | I64GtU
  | I64GeS | I64GeU

datatype fcmp_op =
    F32Eq | F32Ne | F32Lt | F32Le | F32Gt | F32Ge
  | F64Eq | F64Ne | F64Lt | F64Le | F64Gt | F64Ge

datatype comm_op =
    I32Add | I32Mul | I32And | I32AndEqz | I32Or | I32OrEqz
  | I32Xor | I32XorEqz | I64Add | I64Mul | I64And | I64Or
  | I64Xor

datatype sub_op =
    I32Sub | I64Sub

datatype shift_op =
    I32Shl | I32ShrU | I32ShrS | I32Rotl | I32Rotr | I64Shl
  | I64ShrU | I64ShrS | I64Rotl | I64Rotr

datatype fbin_op =
    F32Add | F32Sub | F32Mul | F32Div | F32Min | F32Max
  | F32Copysign | F64Add | F64Sub | F64Mul | F64Div | F64Min
  | F64Max | F64Copysign

datatype divrem_op =
    I32DivS | I32DivU | I32RemS | I32RemU | I64DivS | I64DivU
  | I64RemS | I64RemU

datatype load_op =
    I32Load | I64Load | F32Load | F64Load | I32Load8s | I32Load8u
  | I32Load16s | I32Load16u | I64Load8s | I64Load8u | I64Load16s | I64Load16u
  | I64Load32s | I64Load32u

datatype istore_op =
    I32Store | I64Store | I32Store8 | I32Store16 | I64Store8 | I64Store16
  | I64Store32

datatype fstore_op =
    F32Store | F64Store

datatype store_op = IntStore istore_op | FloatStore fstore_op

datatype float_width = Width32 | Width64

datatype operand = OpReg reg | OpConst u16

datatype byte_operand = ByteReg reg | ByteImm u8


section \<open>Instruction words\<close>

type_synonym mem_idx = nat
type_synonym table_idx = nat
type_synonym global_idx = nat
type_synonym func_idx = nat
type_synonym func_type_idx = nat
type_synonym data_idx = nat
type_synonym elem_idx = nat

text \<open>The value of a return, copy or select: a register or one of the 32-bit encodings.\<close>

datatype imm32 = AnyImm32 u32 | I64Imm32 u32 | F64Imm32 u32

datatype return_instr =
    IReturn
  | IReturnReg reg
  | IReturnReg2 reg reg
  | IReturnReg3 reg reg reg
  | IReturnImm imm32
  | IReturnSpan bounded_reg_span
  | IReturnMany reg reg reg
  | IReturnNez reg
  | IReturnNezReg reg reg
  | IReturnNezReg2 reg reg reg
  | IReturnNezImm reg imm32
  | IReturnNezSpan reg bounded_reg_span
  | IReturnNezMany reg reg reg

datatype branch_instr =
    IBranch branch_offset
  | IBranchCmpFallback reg reg reg
  | IBranchCmp comparator reg reg branch_offset16
  | IBranchCmpImm comparator reg u16 branch_offset16
  | IBranchTable0 reg u32
  | IBranchTable1 reg u32
  | IBranchTable2 reg u32
  | IBranchTable3 reg u32
  | IBranchTableSpan reg u32
  | IBranchTableMany reg u32

datatype copy_instr =
    ICopy reg reg
  | ICopy2 reg_span reg reg
  | ICopyImm reg imm32
  | ICopySpan reg_span reg_span u16
  | ICopySpanNonOverlapping reg_span reg_span u16
  | ICopyMany reg_span reg reg
  | ICopyManyNonOverlapping reg_span reg reg

datatype call_instr =
    IReturnCallInternal0 engine_func
  | IReturnCallInternal engine_func
  | IReturnCallImported0 func_idx
  | IReturnCallImported func_idx
  | IReturnCallIndirect0 func_type_idx
  | IReturnCallIndirect0Imm16 func_type_idx
  | IReturnCallIndirect func_type_idx
  | IReturnCallIndirectImm16 func_type_idx
  | ICallInternal0 reg_span engine_func
  | ICallInternal reg_span engine_func
  | ICallImported0 reg_span func_idx
  | ICallImported reg_span func_idx
  | ICallIndirect0 reg_span func_type_idx
  | ICallIndirect0Imm16 reg_span func_type_idx
  | ICallIndirect reg_span func_type_idx
  | ICallIndirectImm16 reg_span func_type_idx

datatype select_instr =
    ISelect reg reg
  | ISelectImm32Rhs reg reg
  | ISelectImm32Lhs reg u32
  | ISelectImm32 reg u32
  | ISelectI64Imm32Rhs reg reg
  | ISelectI64Imm32Lhs reg u32
  | ISelectI64Imm32 reg u32
  | ISelectF64Imm32Rhs reg reg
  | ISelectF64Imm32Lhs reg u32
  | ISelectF64Imm32 reg u32

datatype global_instr =
    IGlobalGet reg global_idx
  | IGlobalSet reg global_idx
  | IGlobalSetI32Imm16 u16 global_idx
  | IGlobalSetI64Imm16 u16 global_idx

datatype load_instr =
    ILoad load_op reg mem_idx
  | ILoadAt load_op reg u32
  | ILoadOffset16 load_op reg reg u16

datatype store_instr =
    IStore store_op reg mem_idx
  | IStoreImm istore_op reg mem_idx
  | IStoreOffset16 store_op reg u16 reg
  | IStoreOffset16Imm istore_op reg u16 u16
  | IStoreAt store_op reg u32
  | IStoreAtImm istore_op u16 u32

datatype num_instr =
    IIcmp icmp_op reg reg reg
  | IIcmpImm16 icmp_op reg reg u16
  | IFcmp fcmp_op reg reg reg
  | IUnary unary_op reg reg
  | IConv conv_op reg reg
  | ITruncTo trunc_op reg reg
  | IComm comm_op reg reg reg
  | ICommImm16 comm_op reg reg u16
  | ISub sub_op reg reg reg
  | ISubImm16Lhs sub_op reg u16 reg
  | IShift shift_op reg reg reg
  | IShiftBy shift_op reg reg u16
  | IShiftImm16 shift_op reg u16 reg
  | IFbin fbin_op reg reg reg
  | ICopysignImm float_width reg reg bool
  | IDivRem divrem_op reg reg reg
  | IDivRemImm16Rhs divrem_op reg reg u16
  | IDivRemImm16Lhs divrem_op reg u16 reg

datatype table_instr =
    ITableGet reg reg
  | ITableGetImm reg u32
  | ITableSize reg table_idx
  | ITableSet reg reg
  | ITableSetAt reg u32
  | ITableCopy operand operand operand
  | ITableInit operand operand operand
  | ITableFill operand operand reg
  | ITableGrow reg operand reg
  | IElemDrop elem_idx

datatype memory_instr =
    IDataDrop data_idx
  | IMemorySize reg mem_idx
  | IMemoryGrow reg reg
  | IMemoryGrowBy reg u32
  | IMemoryCopy operand operand operand
  | IMemoryFill operand byte_operand operand
  | IMemoryInit operand operand operand

datatype param_word =
    ITableIndex table_idx
  | IMemoryIndex mem_idx
  | IDataIndex data_idx
  | IElemIndex elem_idx
  | IConst32 u32
  | II64Const32 u32
  | IF64Const32 u32
  | IBranchTableTarget reg_span branch_offset
  | IBranchTableTargetNonOverlapping reg_span branch_offset
  | IImm16AndImm32 u16 u32
  | IRegisterAndImm32 reg u32
  | IRegisterSpan bounded_reg_span
  | IRegister reg
  | IRegister2 reg reg
  | IRegister3 reg reg reg
  | IRegisterList reg reg reg
  | ICallIndirectParams reg table_idx
  | ICallIndirectParamsImm16 u16 table_idx

datatype instruction =
    ITrap trap_code
  | IConsumeFuel block_fuel
  | IRefFunc reg func_idx
  | IRet return_instr
  | IBr branch_instr
  | ICpy copy_instr
  | ICl call_instr
  | ISel select_instr
  | IGl global_instr
  | ILd load_instr
  | ISt store_instr
  | INum num_instr
  | ITbl table_instr
  | IMem memory_instr
  | IParam param_word

text \<open>Every word carries the offset of the Wasm instruction it was compiled from.\<close>

record instr_word =
  iw_offset :: u32
  iw_instr :: instruction


section \<open>The functions of the operations\<close>

primrec unary_fn :: "unary_op \<Rightarrow> nan_env \<Rightarrow> untyped_val \<Rightarrow> untyped_val" where
  "unary_fn I32Clz env = i32_clz"
| "unary_fn I32Ctz env = i32_ctz"
| "unary_fn I32Popcnt env = i32_popcnt"
| "unary_fn I64Clz env = i64_clz"
| "unary_fn I64Ctz env = i64_ctz"
| "unary_fn I64Popcnt env = i64_popcnt"
| "unary_fn F32Abs env = f32_abs"
| "unary_fn F32Neg env = f32_neg"
| "unary_fn F32Ceil env = f32_ceil env"
| "unary_fn F32Floor env = f32_floor env"
| "unary_fn F32Trunc env = f32_trunc env"
| "unary_fn F32Nearest env = f32_nearest env"
| "unary_fn F32Sqrt env = f32_sqrt env"
| "unary_fn F64Abs env = f64_abs"
| "unary_fn F64Neg env = f64_neg"
| "unary_fn F64Ceil env = f64_ceil env"
| "unary_fn F64Floor env = f64_floor env"
| "unary_fn F64Trunc env = f64_trunc env"
| "unary_fn F64Nearest env = f64_nearest env"
| "unary_fn F64Sqrt env = f64_sqrt env"

primrec conv_fn :: "conv_op \<Rightarrow> nan_env \<Rightarrow> untyped_val \<Rightarrow> untyped_val" where
  "conv_fn I32WrapI64 env = i32_wrap_i64"
| "conv_fn I32TruncSatF32S env = i32_trunc_sat_f32_s"
| "conv_fn I32TruncSatF32U env = i32_trunc_sat_f32_u"
| "conv_fn I32TruncSatF64S env = i32_trunc_sat_f64_s"
| "conv_fn I32TruncSatF64U env = i32_trunc_sat_f64_u"
| "conv_fn I64TruncSatF32S env = i64_trunc_sat_f32_s"
| "conv_fn I64TruncSatF32U env = i64_trunc_sat_f32_u"
| "conv_fn I64TruncSatF64S env = i64_trunc_sat_f64_s"
| "conv_fn I64TruncSatF64U env = i64_trunc_sat_f64_u"
| "conv_fn I32Extend8S env = i32_extend8_s"
| "conv_fn I32Extend16S env = i32_extend16_s"
| "conv_fn I64Extend8S env = i64_extend8_s"
| "conv_fn I64Extend16S env = i64_extend16_s"
| "conv_fn I64Extend32S env = i64_extend32_s"
| "conv_fn F32DemoteF64 env = f32_demote_f64 env"
| "conv_fn F64PromoteF32 env = f64_promote_f32 env"
| "conv_fn F32ConvertI32S env = f32_convert_i32_s"
| "conv_fn F32ConvertI32U env = f32_convert_i32_u"
| "conv_fn F32ConvertI64S env = f32_convert_i64_s"
| "conv_fn F32ConvertI64U env = f32_convert_i64_u"
| "conv_fn F64ConvertI32S env = f64_convert_i32_s"
| "conv_fn F64ConvertI32U env = f64_convert_i32_u"
| "conv_fn F64ConvertI64S env = f64_convert_i64_s"
| "conv_fn F64ConvertI64U env = f64_convert_i64_u"

primrec trunc_fn :: "trunc_op \<Rightarrow> untyped_val \<Rightarrow> trap_code + untyped_val" where
  "trunc_fn I32TruncF32S = i32_trunc_f32_s"
| "trunc_fn I32TruncF32U = i32_trunc_f32_u"
| "trunc_fn I32TruncF64S = i32_trunc_f64_s"
| "trunc_fn I32TruncF64U = i32_trunc_f64_u"
| "trunc_fn I64TruncF32S = i64_trunc_f32_s"
| "trunc_fn I64TruncF32U = i64_trunc_f32_u"
| "trunc_fn I64TruncF64S = i64_trunc_f64_s"
| "trunc_fn I64TruncF64U = i64_trunc_f64_u"

primrec icmp_fn :: "icmp_op \<Rightarrow> untyped_val \<Rightarrow> untyped_val \<Rightarrow> untyped_val" where
  "icmp_fn I32Eq = i32_eq"
| "icmp_fn I32Ne = i32_ne"
| "icmp_fn I32LtS = i32_lt_s"
| "icmp_fn I32LtU = i32_lt_u"
| "icmp_fn I32LeS = i32_le_s"
| "icmp_fn I32LeU = i32_le_u"
| "icmp_fn I32GtS = i32_gt_s"
| "icmp_fn I32GtU = i32_gt_u"
| "icmp_fn I32GeS = i32_ge_s"
| "icmp_fn I32GeU = i32_ge_u"
| "icmp_fn I64Eq = i64_eq"
| "icmp_fn I64Ne = i64_ne"
| "icmp_fn I64LtS = i64_lt_s"
| "icmp_fn I64LtU = i64_lt_u"
| "icmp_fn I64LeS = i64_le_s"
| "icmp_fn I64LeU = i64_le_u"
| "icmp_fn I64GtS = i64_gt_s"
| "icmp_fn I64GtU = i64_gt_u"
| "icmp_fn I64GeS = i64_ge_s"
| "icmp_fn I64GeU = i64_ge_u"

primrec fcmp_fn :: "fcmp_op \<Rightarrow> untyped_val \<Rightarrow> untyped_val \<Rightarrow> untyped_val" where
  "fcmp_fn F32Eq = f32_eq"
| "fcmp_fn F32Ne = f32_ne"
| "fcmp_fn F32Lt = f32_lt"
| "fcmp_fn F32Le = f32_le"
| "fcmp_fn F32Gt = f32_gt"
| "fcmp_fn F32Ge = f32_ge"
| "fcmp_fn F64Eq = f64_eq"
| "fcmp_fn F64Ne = f64_ne"
| "fcmp_fn F64Lt = f64_lt"
| "fcmp_fn F64Le = f64_le"
| "fcmp_fn F64Gt = f64_gt"
| "fcmp_fn F64Ge = f64_ge"

definition i32_and_eqz :: "untyped_val \<Rightarrow> untyped_val \<Rightarrow> untyped_val" where
  "i32_and_eqz x y = of_boolean (to_i32 (i32_and x y) = 0)"

definition i32_or_eqz :: "untyped_val \<Rightarrow> untyped_val \<Rightarrow> untyped_val" where
  "i32_or_eqz x y = of_boolean (to_i32 (i32_or x y) = 0)"

definition i32_xor_eqz :: "untyped_val \<Rightarrow> untyped_val \<Rightarrow> untyped_val" where
  "i32_xor_eqz x y = of_boolean (to_i32 (i32_xor x y) = 0)"

primrec comm_fn :: "comm_op \<Rightarrow> untyped_val \<Rightarrow> untyped_val \<Rightarrow> untyped_val" where
  "comm_fn I32Add = i32_add"
| "comm_fn I32Mul = i32_mul"
| "comm_fn I32And = i32_and"
| "comm_fn I32AndEqz = i32_and_eqz"
| "comm_fn I32Or = i32_or"
| "comm_fn I32OrEqz = i32_or_eqz"
| "comm_fn I32Xor = i32_xor"
| "comm_fn I32XorEqz = i32_xor_eqz"
| "comm_fn I64Add = i64_add"
| "comm_fn I64Mul = i64_mul"
| "comm_fn I64And = i64_and"
| "comm_fn I64Or = i64_or"
| "comm_fn I64Xor = i64_xor"

primrec sub_fn :: "sub_op \<Rightarrow> untyped_val \<Rightarrow> untyped_val \<Rightarrow> untyped_val" where
  "sub_fn I32Sub = i32_sub"
| "sub_fn I64Sub = i64_sub"

primrec shift_fn :: "shift_op \<Rightarrow> untyped_val \<Rightarrow> untyped_val \<Rightarrow> untyped_val" where
  "shift_fn I32Shl = i32_shl"
| "shift_fn I32ShrU = i32_shr_u"
| "shift_fn I32ShrS = i32_shr_s"
| "shift_fn I32Rotl = i32_rotl"
| "shift_fn I32Rotr = i32_rotr"
| "shift_fn I64Shl = i64_shl"
| "shift_fn I64ShrU = i64_shr_u"
| "shift_fn I64ShrS = i64_shr_s"
| "shift_fn I64Rotl = i64_rotl"
| "shift_fn I64Rotr = i64_rotr"

primrec fbin_fn :: "fbin_op \<Rightarrow> nan_env \<Rightarrow> untyped_val \<Rightarrow> untyped_val \<Rightarrow> untyped_val" where
  "fbin_fn F32Add env = f32_add env"
| "fbin_fn F32Sub env = f32_sub env"
| "fbin_fn F32Mul env = f32_mul env"
| "fbin_fn F32Div env = f32_div env"
| "fbin_fn F32Min env = f32_min env"
| "fbin_fn F32Max env = f32_max env"
| "fbin_fn F32Copysign env = f32_copysign"
| "fbin_fn F64Add env = f64_add env"
| "fbin_fn F64Sub env = f64_sub env"
| "fbin_fn F64Mul env = f64_mul env"
| "fbin_fn F64Div env = f64_div env"
| "fbin_fn F64Min env = f64_min env"
| "fbin_fn F64Max env = f64_max env"
| "fbin_fn F64Copysign env = f64_copysign"

primrec divrem_fn :: "divrem_op \<Rightarrow> untyped_val \<Rightarrow> untyped_val \<Rightarrow> trap_code + untyped_val" where
  "divrem_fn I32DivS = i32_div_s"
| "divrem_fn I32DivU = i32_div_u"
| "divrem_fn I32RemS = i32_rem_s"
| "divrem_fn I32RemU = i32_rem_u"
| "divrem_fn I64DivS = i64_div_s"
| "divrem_fn I64DivU = i64_div_u"
| "divrem_fn I64RemS = i64_rem_s"
| "divrem_fn I64RemU = i64_rem_u"

primrec load_fn :: "load_op \<Rightarrow> u8 list \<Rightarrow> untyped_val \<Rightarrow> u32 \<Rightarrow> trap_code + untyped_val" where
  "load_fn I32Load = i32_load"
| "load_fn I64Load = i64_load"
| "load_fn F32Load = f32_load"
| "load_fn F64Load = f64_load"
| "load_fn I32Load8s = i32_load8_s"
| "load_fn I32Load8u = i32_load8_u"
| "load_fn I32Load16s = i32_load16_s"
| "load_fn I32Load16u = i32_load16_u"
| "load_fn I64Load8s = i64_load8_s"
| "load_fn I64Load8u = i64_load8_u"
| "load_fn I64Load16s = i64_load16_s"
| "load_fn I64Load16u = i64_load16_u"
| "load_fn I64Load32s = i64_load32_s"
| "load_fn I64Load32u = i64_load32_u"

primrec istore_fn :: "istore_op \<Rightarrow> u8 list \<Rightarrow> untyped_val \<Rightarrow> u32 \<Rightarrow> untyped_val \<Rightarrow> trap_code + u8 list" where
  "istore_fn I32Store = i32_store"
| "istore_fn I64Store = i64_store"
| "istore_fn I32Store8 = i32_store8"
| "istore_fn I32Store16 = i32_store16"
| "istore_fn I64Store8 = i64_store8"
| "istore_fn I64Store16 = i64_store16"
| "istore_fn I64Store32 = i64_store32"

primrec fstore_fn :: "fstore_op \<Rightarrow> u8 list \<Rightarrow> untyped_val \<Rightarrow> u32 \<Rightarrow> untyped_val \<Rightarrow> trap_code + u8 list" where
  "fstore_fn F32Store = f32_store"
| "fstore_fn F64Store = f64_store"

primrec store_fn :: "store_op \<Rightarrow> u8 list \<Rightarrow> untyped_val \<Rightarrow> u32 \<Rightarrow> untyped_val \<Rightarrow> trap_code + u8 list" where
  "store_fn (IntStore op) = istore_fn op"
| "store_fn (FloatStore op) = fstore_fn op"

text \<open>
  The 16-bit immediates: comparisons and divisions take the constant in the signedness of the
  operation, all other operations take it as signed.
\<close>

definition of_const16_s32 :: "u16 \<Rightarrow> untyped_val" where "of_const16_s32 c = of_i32 (i32_of_const16 c)"
definition of_const16_u32 :: "u16 \<Rightarrow> untyped_val" where "of_const16_u32 c = of_i32 (u32_of_const16 c)"
definition of_const16_s64 :: "u16 \<Rightarrow> untyped_val" where "of_const16_s64 c = of_i64 (i64_of_const16 c)"
definition of_const16_u64 :: "u16 \<Rightarrow> untyped_val" where "of_const16_u64 c = of_i64 (u64_of_const16 c)"

primrec icmp_imm :: "icmp_op \<Rightarrow> u16 \<Rightarrow> untyped_val" where
  "icmp_imm I32Eq = of_const16_s32"
| "icmp_imm I32Ne = of_const16_s32"
| "icmp_imm I32LtS = of_const16_s32"
| "icmp_imm I32LtU = of_const16_u32"
| "icmp_imm I32LeS = of_const16_s32"
| "icmp_imm I32LeU = of_const16_u32"
| "icmp_imm I32GtS = of_const16_s32"
| "icmp_imm I32GtU = of_const16_u32"
| "icmp_imm I32GeS = of_const16_s32"
| "icmp_imm I32GeU = of_const16_u32"
| "icmp_imm I64Eq = of_const16_s64"
| "icmp_imm I64Ne = of_const16_s64"
| "icmp_imm I64LtS = of_const16_s64"
| "icmp_imm I64LtU = of_const16_u64"
| "icmp_imm I64LeS = of_const16_s64"
| "icmp_imm I64LeU = of_const16_u64"
| "icmp_imm I64GtS = of_const16_s64"
| "icmp_imm I64GtU = of_const16_u64"
| "icmp_imm I64GeS = of_const16_s64"
| "icmp_imm I64GeU = of_const16_u64"

primrec comm_imm :: "comm_op \<Rightarrow> u16 \<Rightarrow> untyped_val" where
  "comm_imm I32Add = of_const16_s32"
| "comm_imm I32Mul = of_const16_s32"
| "comm_imm I32And = of_const16_s32"
| "comm_imm I32AndEqz = of_const16_s32"
| "comm_imm I32Or = of_const16_s32"
| "comm_imm I32OrEqz = of_const16_s32"
| "comm_imm I32Xor = of_const16_s32"
| "comm_imm I32XorEqz = of_const16_s32"
| "comm_imm I64Add = of_const16_s64"
| "comm_imm I64Mul = of_const16_s64"
| "comm_imm I64And = of_const16_s64"
| "comm_imm I64Or = of_const16_s64"
| "comm_imm I64Xor = of_const16_s64"

primrec sub_imm :: "sub_op \<Rightarrow> u16 \<Rightarrow> untyped_val" where
  "sub_imm I32Sub = of_const16_s32"
| "sub_imm I64Sub = of_const16_s64"

primrec shift_imm :: "shift_op \<Rightarrow> u16 \<Rightarrow> untyped_val" where
  "shift_imm I32Shl = of_const16_s32"
| "shift_imm I32ShrU = of_const16_s32"
| "shift_imm I32ShrS = of_const16_s32"
| "shift_imm I32Rotl = of_const16_s32"
| "shift_imm I32Rotr = of_const16_s32"
| "shift_imm I64Shl = of_const16_s64"
| "shift_imm I64ShrU = of_const16_s64"
| "shift_imm I64ShrS = of_const16_s64"
| "shift_imm I64Rotl = of_const16_s64"
| "shift_imm I64Rotr = of_const16_s64"

primrec shift_amount_val :: "shift_op \<Rightarrow> u16 \<Rightarrow> untyped_val" where
  "shift_amount_val I32Shl c = of_i32 (i32_of_shift_amount c)"
| "shift_amount_val I32ShrU c = of_i32 (i32_of_shift_amount c)"
| "shift_amount_val I32ShrS c = of_i32 (i32_of_shift_amount c)"
| "shift_amount_val I32Rotl c = of_i32 (i32_of_shift_amount c)"
| "shift_amount_val I32Rotr c = of_i32 (i32_of_shift_amount c)"
| "shift_amount_val I64Shl c = of_i64 (i64_of_shift_amount c)"
| "shift_amount_val I64ShrU c = of_i64 (i64_of_shift_amount c)"
| "shift_amount_val I64ShrS c = of_i64 (i64_of_shift_amount c)"
| "shift_amount_val I64Rotl c = of_i64 (i64_of_shift_amount c)"
| "shift_amount_val I64Rotr c = of_i64 (i64_of_shift_amount c)"

primrec divrem_imm :: "divrem_op \<Rightarrow> u16 \<Rightarrow> untyped_val" where
  "divrem_imm I32DivS = of_const16_s32"
| "divrem_imm I32DivU = of_const16_u32"
| "divrem_imm I32RemS = of_const16_s32"
| "divrem_imm I32RemU = of_const16_u32"
| "divrem_imm I64DivS = of_const16_s64"
| "divrem_imm I64DivU = of_const16_u64"
| "divrem_imm I64RemS = of_const16_s64"
| "divrem_imm I64RemU = of_const16_u64"

text \<open>
  \<open>DivRemExt\<close>: division by a non-zero constant. \<open>checked_div\<close> and \<open>checked_rem\<close> yield nothing when
  the division overflows; a zero divisor has no \<open>NonZero\<close> value.
\<close>

definition checked_div :: "'a::len word \<Rightarrow> 'a word \<Rightarrow> 'a word option" where
  "checked_div x y =
    (if y = 0 then None else let (r, overflow) = overflowing_div_s x y in if overflow then None else Some r)"

definition checked_rem :: "'a::len word \<Rightarrow> 'a word \<Rightarrow> 'a word option" where
  "checked_rem x y = (if y = 0 \<or> snd (overflowing_div_s x y) then None else Some (wrapping_rem_s x y))"

primrec divrem_ext_fn :: "divrem_op \<Rightarrow> untyped_val \<Rightarrow> u16 \<Rightarrow> trap_code + untyped_val" where
  "divrem_ext_fn I32DivS self rhs =
    ok_or IntegerOverflow (map_option of_i32 (checked_div (to_i32 self) (i32_of_const16 rhs)))"
| "divrem_ext_fn I32DivU self rhs = Inr (of_i32 (to_i32 self div u32_of_const16 rhs))"
| "divrem_ext_fn I32RemS self rhs =
    ok_or IntegerOverflow (map_option of_i32 (checked_rem (to_i32 self) (i32_of_const16 rhs)))"
| "divrem_ext_fn I32RemU self rhs = Inr (of_i32 (to_i32 self mod u32_of_const16 rhs))"
| "divrem_ext_fn I64DivS self rhs =
    ok_or IntegerOverflow (map_option of_i64 (checked_div (to_i64 self) (i64_of_const16 rhs)))"
| "divrem_ext_fn I64DivU self rhs = Inr (of_i64 (to_i64 self div u64_of_const16 rhs))"
| "divrem_ext_fn I64RemS self rhs =
    ok_or IntegerOverflow (map_option of_i64 (checked_rem (to_i64 self) (i64_of_const16 rhs)))"
| "divrem_ext_fn I64RemU self rhs = Inr (of_i64 (to_i64 self mod u64_of_const16 rhs))"

text \<open>
  The immediate of a store: \<open>i8\<close> and \<open>i16\<close> values of the narrow stores reach the store operation
  zero extended (\<open>From<i8> for UntypedVal\<close>), all others sign extended.
\<close>

primrec istore_imm :: "istore_op \<Rightarrow> u16 \<Rightarrow> untyped_val" where
  "istore_imm I32Store c = of_const16_s32 c"
| "istore_imm I64Store c = of_const16_s64 c"
| "istore_imm I32Store8 c = ucast (ucast c :: 8 word)"
| "istore_imm I32Store16 c = ucast c"
| "istore_imm I64Store8 c = ucast (ucast c :: 8 word)"
| "istore_imm I64Store16 c = ucast c"
| "istore_imm I64Store32 c = of_const16_s32 c"

text \<open>The 32-bit encodings: \<open>u32\<close> as it is, \<open>i64\<close> sign extended, \<open>f64\<close> promoted from \<open>f32\<close>.\<close>

primrec imm32_val :: "nan_env \<Rightarrow> imm32 \<Rightarrow> untyped_val" where
  "imm32_val env (AnyImm32 c) = of_i32 c"
| "imm32_val env (I64Imm32 c) = of_i64 (i64_of_const32 c)"
| "imm32_val env (F64Imm32 c) = float_promote env c"


section \<open>Comparators of fused branches\<close>

definition cmp_i32_and :: "u32 \<Rightarrow> u32 \<Rightarrow> bool" where "cmp_i32_and a b = (a AND b \<noteq> 0)"
definition cmp_i32_or :: "u32 \<Rightarrow> u32 \<Rightarrow> bool" where "cmp_i32_or a b = (a OR b \<noteq> 0)"
definition cmp_i32_xor :: "u32 \<Rightarrow> u32 \<Rightarrow> bool" where "cmp_i32_xor a b = (a XOR b \<noteq> 0)"
definition cmp_i32_and_eqz :: "u32 \<Rightarrow> u32 \<Rightarrow> bool" where "cmp_i32_and_eqz a b = (\<not> cmp_i32_and a b)"
definition cmp_i32_or_eqz :: "u32 \<Rightarrow> u32 \<Rightarrow> bool" where "cmp_i32_or_eqz a b = (\<not> cmp_i32_or a b)"
definition cmp_i32_xor_eqz :: "u32 \<Rightarrow> u32 \<Rightarrow> bool" where "cmp_i32_xor_eqz a b = (\<not> cmp_i32_xor a b)"

text \<open>What the branch with each comparator tests on its two operands.\<close>

primrec comparator_holds :: "comparator \<Rightarrow> untyped_val \<Rightarrow> untyped_val \<Rightarrow> bool" where
  "comparator_holds CmpI32Eq l r = (to_i32 l = to_i32 r)"
| "comparator_holds CmpI32Ne l r = (to_i32 l \<noteq> to_i32 r)"
| "comparator_holds CmpI32LtS l r = (sint (to_i32 l) < sint (to_i32 r))"
| "comparator_holds CmpI32LtU l r = (to_i32 l < to_i32 r)"
| "comparator_holds CmpI32LeS l r = (sint (to_i32 l) \<le> sint (to_i32 r))"
| "comparator_holds CmpI32LeU l r = (to_i32 l \<le> to_i32 r)"
| "comparator_holds CmpI32GtS l r = (sint (to_i32 r) < sint (to_i32 l))"
| "comparator_holds CmpI32GtU l r = (to_i32 r < to_i32 l)"
| "comparator_holds CmpI32GeS l r = (sint (to_i32 r) \<le> sint (to_i32 l))"
| "comparator_holds CmpI32GeU l r = (to_i32 r \<le> to_i32 l)"
| "comparator_holds CmpI32And l r = cmp_i32_and (to_i32 l) (to_i32 r)"
| "comparator_holds CmpI32Or l r = cmp_i32_or (to_i32 l) (to_i32 r)"
| "comparator_holds CmpI32Xor l r = cmp_i32_xor (to_i32 l) (to_i32 r)"
| "comparator_holds CmpI32AndEqz l r = cmp_i32_and_eqz (to_i32 l) (to_i32 r)"
| "comparator_holds CmpI32OrEqz l r = cmp_i32_or_eqz (to_i32 l) (to_i32 r)"
| "comparator_holds CmpI32XorEqz l r = cmp_i32_xor_eqz (to_i32 l) (to_i32 r)"
| "comparator_holds CmpI64Eq l r = (to_i64 l = to_i64 r)"
| "comparator_holds CmpI64Ne l r = (to_i64 l \<noteq> to_i64 r)"
| "comparator_holds CmpI64LtS l r = (sint (to_i64 l) < sint (to_i64 r))"
| "comparator_holds CmpI64LtU l r = (to_i64 l < to_i64 r)"
| "comparator_holds CmpI64LeS l r = (sint (to_i64 l) \<le> sint (to_i64 r))"
| "comparator_holds CmpI64LeU l r = (to_i64 l \<le> to_i64 r)"
| "comparator_holds CmpI64GtS l r = (sint (to_i64 r) < sint (to_i64 l))"
| "comparator_holds CmpI64GtU l r = (to_i64 r < to_i64 l)"
| "comparator_holds CmpI64GeS l r = (sint (to_i64 r) \<le> sint (to_i64 l))"
| "comparator_holds CmpI64GeU l r = (to_i64 r \<le> to_i64 l)"
| "comparator_holds CmpF32Eq l r = float_eq (to_i32 l) (to_i32 r)"
| "comparator_holds CmpF32Ne l r = (\<not> float_eq (to_i32 l) (to_i32 r))"
| "comparator_holds CmpF32Lt l r = float_lt (to_i32 l) (to_i32 r)"
| "comparator_holds CmpF32Le l r = float_le (to_i32 l) (to_i32 r)"
| "comparator_holds CmpF32Gt l r = float_lt (to_i32 r) (to_i32 l)"
| "comparator_holds CmpF32Ge l r = float_le (to_i32 r) (to_i32 l)"
| "comparator_holds CmpF64Eq l r = float_eq (to_i64 l) (to_i64 r)"
| "comparator_holds CmpF64Ne l r = (\<not> float_eq (to_i64 l) (to_i64 r))"
| "comparator_holds CmpF64Lt l r = float_lt (to_i64 l) (to_i64 r)"
| "comparator_holds CmpF64Le l r = float_le (to_i64 l) (to_i64 r)"
| "comparator_holds CmpF64Gt l r = float_lt (to_i64 r) (to_i64 l)"
| "comparator_holds CmpF64Ge l r = float_le (to_i64 r) (to_i64 l)"

text \<open>The immediate of a fused branch; there is none for the float comparators.\<close>

primrec comparator_imm :: "comparator \<Rightarrow> u16 \<Rightarrow> untyped_val option" where
  "comparator_imm CmpI32Eq k = Some (of_const16_s32 k)"
| "comparator_imm CmpI32Ne k = Some (of_const16_s32 k)"
| "comparator_imm CmpI32LtS k = Some (of_const16_s32 k)"
| "comparator_imm CmpI32LtU k = Some (of_const16_u32 k)"
| "comparator_imm CmpI32LeS k = Some (of_const16_s32 k)"
| "comparator_imm CmpI32LeU k = Some (of_const16_u32 k)"
| "comparator_imm CmpI32GtS k = Some (of_const16_s32 k)"
| "comparator_imm CmpI32GtU k = Some (of_const16_u32 k)"
| "comparator_imm CmpI32GeS k = Some (of_const16_s32 k)"
| "comparator_imm CmpI32GeU k = Some (of_const16_u32 k)"
| "comparator_imm CmpI32And k = Some (of_const16_s32 k)"
| "comparator_imm CmpI32Or k = Some (of_const16_s32 k)"
| "comparator_imm CmpI32Xor k = Some (of_const16_s32 k)"
| "comparator_imm CmpI32AndEqz k = Some (of_const16_s32 k)"
| "comparator_imm CmpI32OrEqz k = Some (of_const16_s32 k)"
| "comparator_imm CmpI32XorEqz k = Some (of_const16_s32 k)"
| "comparator_imm CmpI64Eq k = Some (of_const16_s64 k)"
| "comparator_imm CmpI64Ne k = Some (of_const16_s64 k)"
| "comparator_imm CmpI64LtS k = Some (of_const16_s64 k)"
| "comparator_imm CmpI64LtU k = Some (of_const16_u64 k)"
| "comparator_imm CmpI64LeS k = Some (of_const16_s64 k)"
| "comparator_imm CmpI64LeU k = Some (of_const16_u64 k)"
| "comparator_imm CmpI64GtS k = Some (of_const16_s64 k)"
| "comparator_imm CmpI64GtU k = Some (of_const16_u64 k)"
| "comparator_imm CmpI64GeS k = Some (of_const16_s64 k)"
| "comparator_imm CmpI64GeU k = Some (of_const16_u64 k)"
| "comparator_imm CmpF32Eq k = None"
| "comparator_imm CmpF32Ne k = None"
| "comparator_imm CmpF32Lt k = None"
| "comparator_imm CmpF32Le k = None"
| "comparator_imm CmpF32Gt k = None"
| "comparator_imm CmpF32Ge k = None"
| "comparator_imm CmpF64Eq k = None"
| "comparator_imm CmpF64Ne k = None"
| "comparator_imm CmpF64Lt k = None"
| "comparator_imm CmpF64Le k = None"
| "comparator_imm CmpF64Gt k = None"
| "comparator_imm CmpF64Ge k = None"

end
