(* ===== verification/Entities.thy ===== *)
theory Entities
  imports Mem_Access
begin

text \<open>
  The entities of the Wasm store: fuel (\<open>wasmi/src/store.rs\<close>, \<open>engine/config.rs\<close>), page counts
  (\<open>core/src/units.rs\<close>), the resource limiter (\<open>wasmi/src/limits.rs\<close>), linear memories, tables,
  globals, data and element segments. Sizes are naturals with the checks of the code written out
  (\<open>usize\<close> has 64 bits). A panic is \<open>None\<close> of an outer option.
\<close>


section \<open>Fuel\<close>

record fuel_costs =
  fc_base :: u64
  fc_copies_per_fuel :: u64
  fc_bytes_per_fuel :: u64

definition fuel_for_copies :: "u64 \<Rightarrow> fuel_costs \<Rightarrow> u64" where
  "fuel_for_copies len_copies costs = len_copies div fc_copies_per_fuel costs"

definition fuel_for_bytes :: "u64 \<Rightarrow> fuel_costs \<Rightarrow> u64" where
  "fuel_for_bytes len_bytes costs = len_bytes div fc_bytes_per_fuel costs"

definition fuel_costs_default :: fuel_costs where
  "fuel_costs_default = \<lparr>fc_base = 1, fc_copies_per_fuel = 64 div 8, fc_bytes_per_fuel = 64\<rparr>"

record fuel =
  fu_remaining :: u64
  fu_enabled :: bool
  fu_costs :: fuel_costs

datatype fuel_error = FuelMeteringDisabled | FuelOutOfFuel

definition fuel_new :: "bool \<Rightarrow> fuel_costs \<Rightarrow> fuel" where
  "fuel_new enabled costs = \<lparr>fu_remaining = 0, fu_enabled = enabled, fu_costs = costs\<rparr>"

definition set_fuel :: "u64 \<Rightarrow> fuel \<Rightarrow> fuel_error + fuel" where
  "set_fuel n f = (if \<not> fu_enabled f then Inl FuelMeteringDisabled else Inr (f\<lparr>fu_remaining := n\<rparr>))"

definition get_fuel :: "fuel \<Rightarrow> fuel_error + u64" where
  "get_fuel f = (if \<not> fu_enabled f then Inl FuelMeteringDisabled else Inr (fu_remaining f))"

definition consume_fuel_unchecked :: "u64 \<Rightarrow> fuel \<Rightarrow> trap_code + (u64 \<times> fuel)" where
  "consume_fuel_unchecked delta f =
    (if delta \<le> fu_remaining f
     then let r = fu_remaining f - delta in Inr (r, f\<lparr>fu_remaining := r\<rparr>)
     else Inl OutOfFuel)"

definition consume_fuel :: "(fuel_costs \<Rightarrow> u64) \<Rightarrow> fuel \<Rightarrow> fuel_error + (u64 \<times> fuel)" where
  "consume_fuel cost f =
    (if \<not> fu_enabled f then Inl FuelMeteringDisabled
     else case consume_fuel_unchecked (cost (fu_costs f)) f of
         Inl _ \<Rightarrow> Inl FuelOutOfFuel
       | Inr r \<Rightarrow> Inr r)"

definition consume_fuel_if :: "(fuel_costs \<Rightarrow> u64) \<Rightarrow> fuel \<Rightarrow> trap_code + fuel" where
  "consume_fuel_if cost f =
    (case consume_fuel cost f of
       Inl FuelOutOfFuel \<Rightarrow> Inl OutOfFuel
     | Inl FuelMeteringDisabled \<Rightarrow> Inr f
     | Inr (_, f') \<Rightarrow> Inr f')"


section \<open>Pages\<close>

type_synonym pages = nat

definition pages_max :: pages where "pages_max = 65536"

definition pages_new :: "nat \<Rightarrow> pages option" where
  "pages_new amount = (if pages_max < amount then None else Some amount)"

definition pages_checked_add :: "pages \<Rightarrow> nat \<Rightarrow> pages option" where
  "pages_checked_add lhs rhs = (if lhs + rhs < 2 ^ 32 then pages_new (lhs + rhs) else None)"

definition pages_checked_sub :: "pages \<Rightarrow> nat \<Rightarrow> pages option" where
  "pages_checked_sub lhs rhs = (if rhs \<le> lhs then pages_new (lhs - rhs) else None)"

definition bytes_per_page :: nat where "bytes_per_page = 65536"

definition bytes_new_impl :: "pages \<Rightarrow> nat \<Rightarrow> nat option" where
  "bytes_new_impl p max_bytes =
    (if p * bytes_per_page < 2 ^ 64 \<and> p * bytes_per_page \<le> max_bytes
     then Some (p * bytes_per_page) else None)"

text \<open>\<open>Pages::to_bytes\<close> on a 64-bit target: \<open>Bytes::new64\<close>.\<close>

definition pages_to_bytes :: "pages \<Rightarrow> nat option" where
  "pages_to_bytes p = bytes_new_impl p (2 ^ 32)"

definition unwrap_or :: "'a \<Rightarrow> 'a option \<Rightarrow> 'a" where
  "unwrap_or d x = (case x of None \<Rightarrow> d | Some y \<Rightarrow> y)"

definition usize_max :: nat where "usize_max = 2 ^ 64 - 1"
definition u32_max :: nat where "u32_max = 2 ^ 32 - 1"


section \<open>Resource limiters\<close>

record memory_type =
  mt_initial_pages :: pages
  mt_maximum_pages :: "pages option"

datatype memory_error =
    OutOfBoundsAllocation
  | OutOfBoundsGrowth
  | OutOfBoundsAccess
  | InvalidMemoryType
  | MemInvalidSubtype memory_type memory_type
  | TooManyMemories
  | InvalidStaticBufferSize

record table_type =
  tt_element :: val_type
  tt_min :: nat
  tt_max :: "nat option"

datatype table_error =
    GrowOutOfBounds nat nat nat
  | ElementTypeMismatch val_type val_type
  | AccessOutOfBounds nat nat
  | CopyOutOfBounds
  | TableInvalidSubtype table_type table_type
  | TooManyTables

datatype entity_grow_error = GrowTrapCode trap_code | InvalidGrow

text \<open>
  The trait \<open>ResourceLimiter\<close>: its methods may change the limiter's own state. A store has an
  optional limiter, the operations together with their state.
\<close>

record 'l limiter_ops =
  lo_memory_growing :: "nat \<Rightarrow> nat \<Rightarrow> nat option \<Rightarrow> 'l \<Rightarrow> (memory_error + bool) \<times> 'l"
  lo_table_growing :: "nat \<Rightarrow> nat \<Rightarrow> nat option \<Rightarrow> 'l \<Rightarrow> (table_error + bool) \<times> 'l"
  lo_memory_grow_failed :: "memory_error \<Rightarrow> 'l \<Rightarrow> 'l"
  lo_table_grow_failed :: "table_error \<Rightarrow> 'l \<Rightarrow> 'l"
  lo_instances :: "'l \<Rightarrow> nat"
  lo_tables :: "'l \<Rightarrow> nat"
  lo_memories :: "'l \<Rightarrow> nat"

type_synonym 'l limiter_ref = "('l limiter_ops \<times> 'l) option"

definition notify_memory_failed :: "memory_error \<Rightarrow> 'l limiter_ref \<Rightarrow> 'l limiter_ref" where
  "notify_memory_failed e lim =
    (case lim of None \<Rightarrow> None | Some (ops, l) \<Rightarrow> Some (ops, lo_memory_grow_failed ops e l))"

definition notify_table_failed :: "table_error \<Rightarrow> 'l limiter_ref \<Rightarrow> 'l limiter_ref" where
  "notify_table_failed e lim =
    (case lim of None \<Rightarrow> None | Some (ops, l) \<Rightarrow> Some (ops, lo_table_grow_failed ops e l))"

definition ask_memory_growing :: "nat \<Rightarrow> nat \<Rightarrow> nat option \<Rightarrow> 'l limiter_ref
    \<Rightarrow> (memory_error + bool) \<times> 'l limiter_ref" where
  "ask_memory_growing current desired maximum lim =
    (case lim of
       None \<Rightarrow> (Inr True, None)
     | Some (ops, l) \<Rightarrow>
         let (r, l') = lo_memory_growing ops current desired maximum l in (r, Some (ops, l')))"

definition ask_table_growing :: "nat \<Rightarrow> nat \<Rightarrow> nat option \<Rightarrow> 'l limiter_ref
    \<Rightarrow> (table_error + bool) \<times> 'l limiter_ref" where
  "ask_table_growing current desired maximum lim =
    (case lim of
       None \<Rightarrow> (Inr True, None)
     | Some (ops, l) \<Rightarrow>
         let (r, l') = lo_table_growing ops current desired maximum l in (r, Some (ops, l')))"

record store_limits =
  lim_memory_size :: "nat option"
  lim_table_elements :: "nat option"
  lim_instances :: nat
  lim_tables :: nat
  lim_memories :: nat
  lim_trap_on_grow_failure :: bool

definition store_limits_default :: store_limits where
  "store_limits_default =
    \<lparr>lim_memory_size = None, lim_table_elements = None, lim_instances = 10000,
     lim_tables = 10000, lim_memories = 10000, lim_trap_on_grow_failure = False\<rparr>"

definition limit_allows :: "nat option \<Rightarrow> nat \<Rightarrow> nat option \<Rightarrow> bool" where
  "limit_allows limit desired maximum =
    (case limit of
       Some l \<Rightarrow> if l < desired then False
                 else (case maximum of Some m \<Rightarrow> \<not> m < desired | None \<Rightarrow> True)
     | None \<Rightarrow> (case maximum of Some m \<Rightarrow> \<not> m < desired | None \<Rightarrow> True))"

definition limits_memory_growing :: "nat \<Rightarrow> nat \<Rightarrow> nat option \<Rightarrow> store_limits
    \<Rightarrow> (memory_error + bool) \<times> store_limits" where
  "limits_memory_growing current desired maximum self =
    (let allow = limit_allows (lim_memory_size self) desired maximum
     in (if \<not> allow \<and> lim_trap_on_grow_failure self then Inl OutOfBoundsGrowth else Inr allow, self))"

text \<open>
  In the error value \<open>desired - current\<close> cannot underflow: a growth asks for no less than the
  current size.
\<close>

definition limits_table_growing :: "nat \<Rightarrow> nat \<Rightarrow> nat option \<Rightarrow> store_limits
    \<Rightarrow> (table_error + bool) \<times> store_limits" where
  "limits_table_growing current desired maximum self =
    (let allow = limit_allows (lim_table_elements self) desired maximum
     in (if \<not> allow \<and> lim_trap_on_grow_failure self
         then Inl (GrowOutOfBounds (unwrap_or u32_max maximum) current (desired - current))
         else Inr allow, self))"

text \<open>The default methods \<open>memory_grow_failed\<close> and \<open>table_grow_failed\<close> do nothing.\<close>

definition store_limits_ops :: "store_limits limiter_ops" where
  "store_limits_ops =
    \<lparr>lo_memory_growing = limits_memory_growing, lo_table_growing = limits_table_growing,
     lo_memory_grow_failed = (\<lambda>_ l. l), lo_table_grow_failed = (\<lambda>_ l. l),
     lo_instances = lim_instances, lo_tables = lim_tables, lo_memories = lim_memories\<rparr>"


section \<open>Linear memory\<close>

definition memory_type_new :: "nat \<Rightarrow> nat option \<Rightarrow> memory_error + memory_type" where
  "memory_type_new initial maximum =
    rbind (ok_or InvalidMemoryType (pages_new initial)) (\<lambda>initial_pages.
      case maximum of
        None \<Rightarrow> Inr \<lparr>mt_initial_pages = initial_pages, mt_maximum_pages = None\<rparr>
      | Some m \<Rightarrow> rbind (ok_or InvalidMemoryType (pages_new m)) (\<lambda>maximum_pages.
          Inr \<lparr>mt_initial_pages = initial_pages, mt_maximum_pages = Some maximum_pages\<rparr>))"

definition memory_type_is_subtype_of :: "memory_type \<Rightarrow> memory_type \<Rightarrow> bool" where
  "memory_type_is_subtype_of self other =
    (if mt_initial_pages self < mt_initial_pages other then False
     else case (mt_maximum_pages self, mt_maximum_pages other) of
         (_, None) \<Rightarrow> True
       | (Some m, Some other_m) \<Rightarrow> m \<le> other_m
       | _ \<Rightarrow> False)"

definition memory_type_is_subtype_or_err :: "memory_type \<Rightarrow> memory_type \<Rightarrow> memory_error + unit" where
  "memory_type_is_subtype_or_err self other =
    (if memory_type_is_subtype_of self other then Inr () else Inl (MemInvalidSubtype self other))"

text \<open>
  A \<open>ByteBuffer\<close> is a vector, or the first \<open>len\<close> bytes of a static buffer; a static buffer keeps
  the bytes beyond \<open>len\<close> and cannot grow over its capacity.
\<close>

record byte_buffer =
  bb_bytes :: "u8 list"
  bb_static :: "u8 list option"

definition byte_buffer_new :: "nat \<Rightarrow> byte_buffer" where
  "byte_buffer_new initial_len = \<lparr>bb_bytes = replicate initial_len 0, bb_static = None\<rparr>"

definition byte_buffer_new_static :: "u8 list \<Rightarrow> nat \<Rightarrow> byte_buffer option" where
  "byte_buffer_new_static buffer initial_len =
    (if initial_len \<le> length buffer
     then Some \<lparr>bb_bytes = replicate initial_len 0, bb_static = Some (drop initial_len buffer)\<rparr>
     else None)"

definition byte_buffer_grow :: "nat \<Rightarrow> byte_buffer \<Rightarrow> byte_buffer option" where
  "byte_buffer_grow new_size b =
    (let len = length (bb_bytes b)
     in if new_size < len then None
        else case bb_static b of
            None \<Rightarrow> Some (b\<lparr>bb_bytes := bb_bytes b @ replicate (new_size - len) 0\<rparr>)
          | Some rest \<Rightarrow>
              if len + length rest < new_size then None
              else Some \<lparr>bb_bytes = bb_bytes b @ replicate (new_size - len) 0,
                         bb_static = Some (drop (new_size - len) rest)\<rparr>)"

record memory_entity =
  me_bytes :: byte_buffer
  me_type :: memory_type
  me_current_pages :: pages

definition memory_data :: "memory_entity \<Rightarrow> u8 list" where
  "memory_data m = bb_bytes (me_bytes m)"

definition memory_set_data :: "u8 list \<Rightarrow> memory_entity \<Rightarrow> memory_entity" where
  "memory_set_data d m = m\<lparr>me_bytes := (me_bytes m)\<lparr>bb_bytes := d\<rparr>\<rparr>"

definition memory_size :: "memory_entity \<Rightarrow> nat" where
  "memory_size m = me_current_pages m"

definition memory_entity_new :: "memory_type \<Rightarrow> 'l limiter_ref
    \<Rightarrow> (memory_error + memory_entity) \<times> 'l limiter_ref" where
  "memory_entity_new ty lim =
    (let initial_pages = mt_initial_pages ty;
         initial_len = pages_to_bytes initial_pages;
         maximum_pages = unwrap_or pages_max (mt_maximum_pages ty);
         maximum_len = pages_to_bytes maximum_pages
     in case ask_memory_growing 0 (unwrap_or usize_max initial_len) maximum_len lim of
          (Inl e, lim') \<Rightarrow> (Inl e, lim')
        | (Inr False, lim') \<Rightarrow> (Inl OutOfBoundsAllocation, lim')
        | (Inr True, lim') \<Rightarrow>
            (case initial_len of
               Some n \<Rightarrow> (Inr \<lparr>me_bytes = byte_buffer_new n, me_type = ty,
                               me_current_pages = initial_pages\<rparr>, lim')
             | None \<Rightarrow> (Inl OutOfBoundsAllocation, notify_memory_failed OutOfBoundsAllocation lim')))"

definition memory_entity_new_static :: "memory_type \<Rightarrow> 'l limiter_ref \<Rightarrow> u8 list
    \<Rightarrow> (memory_error + memory_entity) option \<times> 'l limiter_ref" where
  "memory_entity_new_static ty lim buf =
    (let initial_pages = mt_initial_pages ty;
         initial_len = pages_to_bytes initial_pages;
         maximum_pages = unwrap_or pages_max (mt_maximum_pages ty);
         maximum_len = pages_to_bytes maximum_pages
     in case ask_memory_growing 0 (unwrap_or usize_max initial_len) maximum_len lim of
          (Inl e, lim') \<Rightarrow> (Some (Inl e), lim')
        | (Inr False, lim') \<Rightarrow> (Some (Inl OutOfBoundsAllocation), lim')
        | (Inr True, lim') \<Rightarrow>
            (case initial_len of
               Some n \<Rightarrow>
                 (if length buf < n then Some (Inl InvalidStaticBufferSize)
                  else map_option (\<lambda>b. Inr \<lparr>me_bytes = b, me_type = ty, me_current_pages = initial_pages\<rparr>)
                    (byte_buffer_new_static buf n), lim')
             | None \<Rightarrow> (Some (Inl OutOfBoundsAllocation), notify_memory_failed OutOfBoundsAllocation lim')))"

text \<open>The type with the current size as the minimum; \<open>None\<close> is the panic on an invalid type.\<close>

definition memory_dynamic_ty :: "memory_entity \<Rightarrow> memory_type option" where
  "memory_dynamic_ty m =
    (case memory_type_new (me_current_pages m) (mt_maximum_pages (me_type m)) of
       Inl _ \<Rightarrow> None
     | Inr ty \<Rightarrow> Some ty)"

text \<open>
  \<open>MemoryEntity::grow\<close>: the result, the memory, the fuel and the limiter. The \<open>byte_buffer_grow\<close>
  at the end may panic for a static buffer.
\<close>

definition memory_grow :: "nat \<Rightarrow> fuel option \<Rightarrow> 'l limiter_ref \<Rightarrow> memory_entity
    \<Rightarrow> ((entity_grow_error + nat) \<times> memory_entity \<times> fuel option \<times> 'l limiter_ref) option" where
  "memory_grow additional fu lim m =
    (if additional = 0 then Some (Inr (memory_size m), m, fu, lim)
     else (case pages_new additional of
       None \<Rightarrow> Some (Inl InvalidGrow, m, fu, lim)
     | Some additional \<Rightarrow>
         let current_pages = me_current_pages m;
             maximum_pages = unwrap_or pages_max (mt_maximum_pages (me_type m));
             desired_pages = pages_checked_add current_pages additional;
             current_size = unwrap_or usize_max (pages_to_bytes current_pages);
             desired_size = unwrap_or usize_max (pages_to_bytes (unwrap_or pages_max desired_pages));
             maximum_size = pages_to_bytes maximum_pages
         in (case ask_memory_growing current_size desired_size maximum_size lim of
              (Inl _, lim1) \<Rightarrow> Some (Inl (GrowTrapCode GrowthOperationLimited), m, fu, lim1)
            | (Inr False, lim1) \<Rightarrow> Some (Inl InvalidGrow, m, fu, lim1)
            | (Inr True, lim1) \<Rightarrow>
                let failed = (\<lambda>e. Some (Inl e, m, fu, notify_memory_failed OutOfBoundsGrowth lim1))
                in (case desired_pages of
                     None \<Rightarrow> failed InvalidGrow
                   | Some new_pages \<Rightarrow>
                       if maximum_pages < new_pages then failed InvalidGrow
                       else (case pages_to_bytes new_pages of
                         None \<Rightarrow> failed InvalidGrow
                       | Some new_size \<Rightarrow>
                           let additional_bytes = of_nat (unwrap_or usize_max (pages_to_bytes additional));
                               paid = (case fu of
                                   None \<Rightarrow> Inr None
                                 | Some f \<Rightarrow> rmap Some (consume_fuel_if (fuel_for_bytes additional_bytes) f))
                           in (case paid of
                                Inl _ \<Rightarrow> failed (GrowTrapCode OutOfFuel)
                              | Inr fu' \<Rightarrow>
                                  Option.bind (byte_buffer_grow new_size (me_bytes m)) (\<lambda>b.
                                    Some (Inr current_pages,
                                      m\<lparr>me_bytes := b, me_current_pages := new_pages\<rparr>, fu', lim1))))))))"

definition memory_read :: "nat \<Rightarrow> nat \<Rightarrow> memory_entity \<Rightarrow> memory_error + u8 list" where
  "memory_read offset n m = ok_or OutOfBoundsAccess (get_range offset n (memory_data m))"

definition memory_write :: "nat \<Rightarrow> u8 list \<Rightarrow> memory_entity \<Rightarrow> memory_error + memory_entity" where
  "memory_write offset buffer m =
    (case get_range offset (length buffer) (memory_data m) of
       None \<Rightarrow> Inl OutOfBoundsAccess
     | Some _ \<Rightarrow> Inr (memory_set_data (put_range offset buffer (memory_data m)) m))"

record data_segment =
  ds_bytes :: "u8 list option"

definition data_segment_bytes :: "data_segment \<Rightarrow> u8 list" where
  "data_segment_bytes d = unwrap_or [] (ds_bytes d)"

definition data_segment_drop_bytes :: "data_segment \<Rightarrow> data_segment" where
  "data_segment_drop_bytes d = d\<lparr>ds_bytes := None\<rparr>"


section \<open>Tables\<close>

definition table_type_new :: "val_type \<Rightarrow> nat \<Rightarrow> nat option \<Rightarrow> table_type option" where
  "table_type_new element minimum maximum =
    (if (case maximum of Some m \<Rightarrow> m < minimum | None \<Rightarrow> False) then None
     else Some \<lparr>tt_element = element, tt_min = minimum, tt_max = maximum\<rparr>)"

definition matches_element_type :: "table_type \<Rightarrow> val_type \<Rightarrow> table_error + unit" where
  "matches_element_type t ty =
    (if ty \<noteq> tt_element t then Inl (ElementTypeMismatch (tt_element t) ty) else Inr ())"

definition table_type_is_subtype_of :: "table_type \<Rightarrow> table_type \<Rightarrow> bool" where
  "table_type_is_subtype_of self other =
    (if matches_element_type self (tt_element other) \<noteq> Inr () then False
     else if tt_min self < tt_min other then False
     else case (tt_max self, tt_max other) of
         (_, None) \<Rightarrow> True
       | (Some m, Some other_m) \<Rightarrow> m \<le> other_m
       | _ \<Rightarrow> False)"

definition table_type_is_subtype_or_err :: "table_type \<Rightarrow> table_type \<Rightarrow> table_error + unit" where
  "table_type_is_subtype_or_err self other =
    (if table_type_is_subtype_of self other then Inr () else Inl (TableInvalidSubtype self other))"

record table_entity =
  te_type :: table_type
  te_elements :: "untyped_val list"

text \<open>\<open>elements.len() as u32\<close>: the length of a table never exceeds \<open>u32::MAX\<close>.\<close>

definition table_size :: "table_entity \<Rightarrow> nat" where
  "table_size t = length (te_elements t) mod 2 ^ 32"

definition table_dynamic_ty :: "table_entity \<Rightarrow> table_type option" where
  "table_dynamic_ty t =
    table_type_new (tt_element (te_type t)) (table_size t) (tt_max (te_type t))"

definition table_entity_new :: "table_type \<Rightarrow> val_type \<times> untyped_val \<Rightarrow> 'l limiter_ref
    \<Rightarrow> (table_error + table_entity) \<times> 'l limiter_ref" where
  "table_entity_new ty init lim =
    (case matches_element_type ty (fst init) of
       Inl e \<Rightarrow> (Inl e, lim)
     | Inr _ \<Rightarrow>
        (case ask_table_growing 0 (tt_min ty) (tt_max ty) lim of
           (Inl e, lim') \<Rightarrow> (Inl e, lim')
         | (Inr False, lim') \<Rightarrow> (Inl (GrowOutOfBounds (unwrap_or u32_max (tt_max ty)) 0 (tt_min ty)), lim')
         | (Inr True, lim') \<Rightarrow>
             (Inr \<lparr>te_type = ty, te_elements = replicate (tt_min ty) (snd init)\<rparr>, lim')))"

definition table_grow_untyped :: "nat \<Rightarrow> untyped_val \<Rightarrow> fuel option \<Rightarrow> 'l limiter_ref \<Rightarrow> table_entity
    \<Rightarrow> (entity_grow_error + nat) \<times> table_entity \<times> fuel option \<times> 'l limiter_ref" where
  "table_grow_untyped delta init fu lim t =
    (let current = table_size t;
         desired = (if current + delta < 2 ^ 32 then Some (current + delta) else None);
         maximum = tt_max (te_type t)
     in (case ask_table_growing current (unwrap_or u32_max desired) maximum lim of
          (Inl _, lim1) \<Rightarrow> (Inl (GrowTrapCode GrowthOperationLimited), t, fu, lim1)
        | (Inr False, lim1) \<Rightarrow> (Inl InvalidGrow, t, fu, lim1)
        | (Inr True, lim1) \<Rightarrow>
            let maximum = unwrap_or u32_max maximum;
                failed = (Inl InvalidGrow, t, fu,
                  notify_table_failed (GrowOutOfBounds maximum current delta) lim1)
            in (case desired of
                 None \<Rightarrow> failed
               | Some desired \<Rightarrow>
                   if maximum < desired then failed
                   else let paid = (case fu of
                            None \<Rightarrow> Inr None
                          | Some f \<Rightarrow>
                              (case consume_fuel (fuel_for_copies (of_nat delta)) f of
                                 Inr (_, f') \<Rightarrow> Inr (Some f')
                               | Inl FuelMeteringDisabled \<Rightarrow> Inr (Some f)
                               | Inl FuelOutOfFuel \<Rightarrow> Inl ()))
                        in (case paid of
                             Inl _ \<Rightarrow> failed
                           | Inr fu' \<Rightarrow>
                               (Inr current,
                                t\<lparr>te_elements := take desired (te_elements t)
                                    @ replicate (desired - length (te_elements t)) init\<rparr>, fu', lim1)))))"

definition table_grow :: "nat \<Rightarrow> val_type \<times> untyped_val \<Rightarrow> fuel option \<Rightarrow> 'l limiter_ref \<Rightarrow> table_entity
    \<Rightarrow> (entity_grow_error + nat) \<times> table_entity \<times> fuel option \<times> 'l limiter_ref" where
  "table_grow delta init fu lim t =
    (case matches_element_type (te_type t) (fst init) of
       Inl _ \<Rightarrow> (Inl InvalidGrow, t, fu, lim)
     | Inr _ \<Rightarrow> table_grow_untyped delta (snd init) fu lim t)"

definition table_get_untyped :: "nat \<Rightarrow> table_entity \<Rightarrow> untyped_val option" where
  "table_get_untyped index t = get_at (te_elements t) index"

definition table_set_untyped :: "nat \<Rightarrow> untyped_val \<Rightarrow> table_entity \<Rightarrow> table_error + table_entity" where
  "table_set_untyped index v t =
    (if index < length (te_elements t)
     then Inr (t\<lparr>te_elements := (te_elements t)[index := v]\<rparr>)
     else Inl (AccessOutOfBounds (table_size t) index))"

definition table_set :: "nat \<Rightarrow> val_type \<times> untyped_val \<Rightarrow> table_entity \<Rightarrow> table_error + table_entity" where
  "table_set index v t =
    rbind (matches_element_type (te_type t) (fst v)) (\<lambda>_. table_set_untyped index (snd v) t)"

record element_segment =
  es_type :: val_type
  es_items :: "untyped_val list"

definition element_segment_drop_items :: "element_segment \<Rightarrow> element_segment" where
  "element_segment_drop_items e = e\<lparr>es_items := []\<rparr>"

definition element_segment_size :: "element_segment \<Rightarrow> nat" where
  "element_segment_size e = length (es_items e) mod 2 ^ 32"

text \<open>Fuel of a copy, if a fuel counter is given.\<close>

definition pay_copies :: "nat \<Rightarrow> fuel option \<Rightarrow> trap_code + fuel option" where
  "pay_copies n fu =
    (case fu of None \<Rightarrow> Inr None
     | Some f \<Rightarrow> rmap Some (consume_fuel_if (fuel_for_copies (of_nat n)) f))"

text \<open>The outer option is the assertion that the table holds references.\<close>

definition table_init :: "element_segment \<Rightarrow> nat \<Rightarrow> nat \<Rightarrow> nat \<Rightarrow> fuel option \<Rightarrow> table_entity
    \<Rightarrow> (trap_code + (table_entity \<times> fuel option)) option" where
  "table_init element dst_index src_index len fu t =
    (if \<not> is_ref (tt_element (te_type t)) then None
     else Some (
       if matches_element_type (te_type t) (es_type element) \<noteq> Inr () then Inl BadSignature
       else rbind (ok_or TableOutOfBounds (get_range dst_index len (te_elements t))) (\<lambda>_.
            rbind (ok_or TableOutOfBounds (get_range src_index len (es_items element))) (\<lambda>src_items.
              if len = 0 then Inr (t, fu)
              else rbind (pay_copies len fu) (\<lambda>fu'.
                Inr (t\<lparr>te_elements := put_range dst_index src_items (te_elements t)\<rparr>, fu'))))))"

definition table_copy :: "table_entity \<Rightarrow> nat \<Rightarrow> table_entity \<Rightarrow> nat \<Rightarrow> nat \<Rightarrow> fuel option
    \<Rightarrow> trap_code + (table_entity \<times> fuel option)" where
  "table_copy dst_table dst_index src_table src_index len fu =
    rbind (ok_or TableOutOfBounds (get_range dst_index len (te_elements dst_table))) (\<lambda>_.
    rbind (ok_or TableOutOfBounds (get_range src_index len (te_elements src_table))) (\<lambda>src_items.
    rbind (pay_copies len fu) (\<lambda>fu'.
      Inr (dst_table\<lparr>te_elements := put_range dst_index src_items (te_elements dst_table)\<rparr>, fu'))))"

definition table_copy_within :: "nat \<Rightarrow> nat \<Rightarrow> nat \<Rightarrow> fuel option \<Rightarrow> table_entity
    \<Rightarrow> trap_code + (table_entity \<times> fuel option)" where
  "table_copy_within dst_index src_index len fu t =
    (let max_offset = max dst_index src_index
     in if max_offset + len < 2 ^ 32 \<and> max_offset + len \<le> table_size t
        then rbind (pay_copies len fu) (\<lambda>fu'.
          Inr (t\<lparr>te_elements :=
            put_range dst_index (take len (drop src_index (te_elements t))) (te_elements t)\<rparr>, fu'))
        else Inl TableOutOfBounds)"

definition table_fill_untyped :: "nat \<Rightarrow> untyped_val \<Rightarrow> nat \<Rightarrow> fuel option \<Rightarrow> table_entity
    \<Rightarrow> trap_code + (table_entity \<times> fuel option)" where
  "table_fill_untyped dst v len fu t =
    rbind (ok_or TableOutOfBounds (get_range dst len (te_elements t))) (\<lambda>_.
    rbind (pay_copies len fu) (\<lambda>fu'.
      Inr (t\<lparr>te_elements := put_range dst (replicate len v) (te_elements t)\<rparr>, fu')))"


section \<open>Globals\<close>

datatype mutability = MutConst | MutVar

record global_type =
  gt_content :: val_type
  gt_mutability :: mutability

datatype global_error =
    ImmutableWrite
  | GlobalTypeMismatch val_type val_type
  | UnsatisfyingGlobalType global_type global_type

record global_entity =
  ge_value :: untyped_val
  ge_type :: global_type

definition global_entity_new :: "val_type \<times> untyped_val \<Rightarrow> mutability \<Rightarrow> global_entity" where
  "global_entity_new initial_value mut =
    \<lparr>ge_value = snd initial_value,
     ge_type = \<lparr>gt_content = fst initial_value, gt_mutability = mut\<rparr>\<rparr>"

definition global_set_untyped :: "untyped_val \<Rightarrow> global_entity \<Rightarrow> global_entity" where
  "global_set_untyped v g = g\<lparr>ge_value := v\<rparr>"

definition global_set :: "val_type \<times> untyped_val \<Rightarrow> global_entity \<Rightarrow> global_error + global_entity" where
  "global_set v g =
    (if gt_mutability (ge_type g) \<noteq> MutVar then Inl ImmutableWrite
     else if gt_content (ge_type g) \<noteq> fst v then Inl (GlobalTypeMismatch (gt_content (ge_type g)) (fst v))
     else Inr (global_set_untyped (snd v) g))"

definition global_get :: "global_entity \<Rightarrow> val_type \<times> untyped_val" where
  "global_get g = (gt_content (ge_type g), ge_value g)"

definition global_type_satisfies :: "global_type \<Rightarrow> global_type \<Rightarrow> global_error + unit" where
  "global_type_satisfies self required =
    (if self \<noteq> required then Inl (UnsatisfyingGlobalType self required) else Inr ())"


section \<open>Sizes stay within their bounds\<close>

definition memory_inv :: "memory_entity \<Rightarrow> bool" where
  "memory_inv m \<longleftrightarrow>
    length (memory_data m) = me_current_pages m * bytes_per_page \<and>
    me_current_pages m \<le> pages_max \<and>
    (case mt_maximum_pages (me_type m) of None \<Rightarrow> True | Some mx \<Rightarrow> me_current_pages m \<le> mx)"

lemma pages_to_bytes_eq [simp]: "p \<le> pages_max \<Longrightarrow> pages_to_bytes p = Some (p * bytes_per_page)"
  by (simp add: pages_to_bytes_def bytes_new_impl_def pages_max_def bytes_per_page_def)

lemma pages_checked_add_Some [simp]:
  "pages_checked_add a b = Some c \<longleftrightarrow> c = a + b \<and> a + b \<le> pages_max"
  by (auto simp: pages_checked_add_def pages_new_def pages_max_def)

lemma pages_new_Some [simp]: "pages_new a = Some b \<longleftrightarrow> b = a \<and> a \<le> pages_max"
  by (auto simp: pages_new_def)

lemma byte_buffer_grow_bytes:
  "byte_buffer_grow n b = Some b' \<Longrightarrow>
    n \<ge> length (bb_bytes b) \<and> bb_bytes b' = bb_bytes b @ replicate (n - length (bb_bytes b)) 0"
  by (auto simp: byte_buffer_grow_def Let_def split: if_splits option.splits)

text \<open>What a finished \<open>memory.grow\<close> has done.\<close>

lemma memory_grow_0 [simp]: "memory_grow 0 fu lim m = Some (Inr (memory_size m), m, fu, lim)"
  by (simp add: memory_grow_def)

lemma memory_grow_Inr:
  assumes "memory_grow additional fu lim m = Some (Inr old, m', fu', lim')" "additional \<noteq> 0"
  shows "\<exists>b. me_current_pages m + additional \<le> pages_max \<and>
    me_current_pages m + additional \<le> unwrap_or pages_max (mt_maximum_pages (me_type m)) \<and>
    byte_buffer_grow ((me_current_pages m + additional) * bytes_per_page) (me_bytes m) = Some b \<and>
    m' = m\<lparr>me_bytes := b, me_current_pages := me_current_pages m + additional\<rparr> \<and>
    old = me_current_pages m"
  using assms
  by (simp add: memory_grow_def Let_def bind_eq_Some_conv not_less
      split: option.split_asm sum.split_asm prod.split_asm bool.split_asm if_split_asm)
    (blast+)?

lemma memory_grow_ok:
  assumes "memory_grow additional fu lim m = Some (Inr old, m', fu', lim')" "memory_inv m"
  shows "old = memory_size m" "memory_size m' = memory_size m + additional"
    "memory_data m' = memory_data m @ replicate (additional * bytes_per_page) 0" "memory_inv m'"
    "me_type m' = me_type m"
proof -
  have "old = memory_size m \<and> memory_size m' = memory_size m + additional \<and>
    memory_data m' = memory_data m @ replicate (additional * bytes_per_page) 0 \<and> memory_inv m' \<and>
    me_type m' = me_type m"
  proof (cases "additional = 0")
    case True
    with assms show ?thesis by auto
  next
    case False
    let ?mx = "unwrap_or pages_max (mt_maximum_pages (me_type m))"
    from memory_grow_Inr [OF assms(1) False] obtain b where
      new: "me_current_pages m + additional \<le> pages_max" "me_current_pages m + additional \<le> ?mx"
      and b: "byte_buffer_grow ((me_current_pages m + additional) * bytes_per_page) (me_bytes m) = Some b"
      and m': "m' = m\<lparr>me_bytes := b, me_current_pages := me_current_pages m + additional\<rparr>"
      and old: "old = me_current_pages m"
      by blast
    from b have bb: "bb_bytes b = memory_data m @
        replicate ((me_current_pages m + additional) * bytes_per_page - length (memory_data m)) 0"
      by (auto dest: byte_buffer_grow_bytes simp: memory_data_def)
    have "length (memory_data m) = me_current_pages m * bytes_per_page"
      using assms(2) by (simp add: memory_inv_def)
    then have d: "bb_bytes b = memory_data m @ replicate (additional * bytes_per_page) 0"
      by (simp add: bb add_mult_distrib)
    have "memory_inv m'"
      using assms(2) new d
      by (auto simp: memory_inv_def m' memory_data_def unwrap_or_def add_mult_distrib split: option.splits)
    with d old show ?thesis by (simp add: m' memory_size_def memory_data_def)
  qed
  then show "old = memory_size m" "memory_size m' = memory_size m + additional"
    "memory_data m' = memory_data m @ replicate (additional * bytes_per_page) 0" "memory_inv m'"
    "me_type m' = me_type m" by auto
qed

lemma memory_grow_err:
  "memory_grow additional fu lim m = Some (Inl e, m', fu', lim') \<Longrightarrow> m' = m \<and> fu' = fu"
  by (auto simp: memory_grow_def Let_def bind_eq_Some_conv split: option.splits sum.splits
      prod.splits bool.splits if_splits)

text \<open>The limiter after a growth: not asked, asked, or asked and then told of the failure.\<close>

lemma memory_grow_limiter:
  assumes "memory_grow additional fu lim m = Some (r, m', fu', lim')"
  shows "\<exists>c d mx. lim' = lim \<or> lim' = snd (ask_memory_growing c d mx lim) \<or>
    lim' = notify_memory_failed OutOfBoundsGrowth (snd (ask_memory_growing c d mx lim))"
  using assms
  by (simp add: memory_grow_def Let_def bind_eq_Some_conv
      split: option.split_asm sum.split_asm prod.split_asm bool.split_asm if_split_asm)
    (metis snd_conv)+

text \<open>A sequence of growths under the limiter; a failed growth leaves the memory as it is.\<close>

primrec memory_grow_all :: "nat list \<Rightarrow> fuel option \<Rightarrow> 'l limiter_ref \<Rightarrow> memory_entity \<Rightarrow> memory_entity option" where
  "memory_grow_all [] fu lim m = Some m"
| "memory_grow_all (n # ns) fu lim m =
    Option.bind (memory_grow n fu lim m) (\<lambda>(_, m', fu', lim'). memory_grow_all ns fu' lim' m')"

text \<open>
  The contract of a limiter that enforces a size: a growth it permits is within the size, and its
  answers and notifications do not raise the size.
\<close>

locale size_limiter =
  fixes ops :: "'l limiter_ops" and bound :: "'l \<Rightarrow> nat option"
  assumes permits: "lo_memory_growing ops current desired maximum l = (Inr True, l') \<Longrightarrow>
      bound l = Some b \<Longrightarrow> desired \<le> b"
    and keeps: "bound (snd (lo_memory_growing ops current desired maximum l)) = bound l"
    and keeps_failed: "bound (lo_memory_grow_failed ops e l) = bound l"
begin

lemma grow_keeps_ops:
  "memory_grow additional fu (Some (ops, l)) m = Some (r, m', fu', lim') \<Longrightarrow>
    \<exists>l'. lim' = Some (ops, l') \<and> bound l' = bound l"
proof -
  assume "memory_grow additional fu (Some (ops, l)) m = Some (r, m', fu', lim')"
  from memory_grow_limiter [OF this] obtain c d mx where
    "lim' = Some (ops, l) \<or> lim' = snd (ask_memory_growing c d mx (Some (ops, l))) \<or>
     lim' = notify_memory_failed OutOfBoundsGrowth (snd (ask_memory_growing c d mx (Some (ops, l))))"
    by blast
  with keeps [of c d mx l] show ?thesis
    by (auto simp: ask_memory_growing_def notify_memory_failed_def keeps_failed split: prod.splits)
qed

lemma grow_bounded:
  assumes g: "memory_grow additional fu (Some (ops, l)) m = Some (Inr old, m', fu', lim')"
    and "memory_inv m" "additional \<noteq> 0" "bound l = Some b"
  shows "length (memory_data m') \<le> b"
proof -
  note m' = memory_grow_ok [OF g \<open>memory_inv m\<close>]
  have le: "me_current_pages m + additional \<le> pages_max"
    using memory_grow_Inr [OF g \<open>additional \<noteq> 0\<close>] by blast
  have "fst (ask_memory_growing (unwrap_or usize_max (pages_to_bytes (me_current_pages m)))
       ((me_current_pages m + additional) * bytes_per_page)
       (pages_to_bytes (unwrap_or pages_max (mt_maximum_pages (me_type m)))) (Some (ops, l))) = Inr True"
    using g \<open>additional \<noteq> 0\<close> le
    by (simp add: memory_grow_def Let_def unwrap_or_def [where x = "Some _"]
        split: option.split_asm sum.split_asm prod.split_asm bool.split_asm)
  then obtain l' where
    "lo_memory_growing ops (unwrap_or usize_max (pages_to_bytes (me_current_pages m)))
       ((me_current_pages m + additional) * bytes_per_page)
       (pages_to_bytes (unwrap_or pages_max (mt_maximum_pages (me_type m)))) l = (Inr True, l')"
    by (auto simp: ask_memory_growing_def split: prod.splits)
  with permits [OF this(1)] assms(4) have "(me_current_pages m + additional) * bytes_per_page \<le> b"
    by simp
  with m'(2,4) show ?thesis by (simp add: memory_inv_def memory_size_def)
qed

lemma grow_all_bounded:
  assumes "memory_grow_all ns fu (Some (ops, l)) m = Some m'" "memory_inv m" "bound l = Some b"
    "length (memory_data m) \<le> b"
  shows "memory_inv m' \<and> length (memory_data m') \<le> b"
  using assms
proof (induction ns arbitrary: fu l m)
  case (Cons n ns)
  from Cons.prems(1) obtain r m1 fu1 lim1 where
    g: "memory_grow n fu (Some (ops, l)) m = Some (r, m1, fu1, lim1)"
    and rest: "memory_grow_all ns fu1 lim1 m1 = Some m'"
    by (auto simp: bind_eq_Some_conv)
  from grow_keeps_ops [OF g] obtain l1 where lim1: "lim1 = Some (ops, l1)" "bound l1 = bound l" by auto
  have "memory_inv m1 \<and> length (memory_data m1) \<le> b"
  proof (cases r)
    case (Inl e)
    with g Cons.prems show ?thesis by (auto dest: memory_grow_err)
  next
    case (Inr old)
    note g' = g [unfolded Inr]
    show ?thesis
    proof (cases "n = 0")
      case True
      with memory_grow_ok [OF g'] Cons.prems show ?thesis by simp
    next
      case False
      with grow_bounded [OF g'] memory_grow_ok(4) [OF g'] Cons.prems show ?thesis by simp
    qed
  qed
  with rest lim1 Cons.prems(3) Cons.IH show ?case by auto
qed simp

end

interpretation store_lim: size_limiter store_limits_ops lim_memory_size
  by unfold_locales
    (auto simp: store_limits_ops_def limits_memory_growing_def limit_allows_def Let_def
      split: if_splits option.splits)

text \<open>Tables.\<close>

definition table_inv :: "table_entity \<Rightarrow> bool" where
  "table_inv t \<longleftrightarrow> length (te_elements t) < 2 ^ 32 \<and>
    (case tt_max (te_type t) of None \<Rightarrow> True | Some mx \<Rightarrow> length (te_elements t) \<le> mx)"

lemma table_size_inv [simp]: "table_inv t \<Longrightarrow> table_size t = length (te_elements t)"
  by (simp add: table_size_def table_inv_def)

lemma table_grow_untyped_ok:
  assumes "table_grow_untyped delta init fu lim t = (Inr old, t', fu', lim')" "table_inv t"
  shows "old = length (te_elements t)" "te_elements t' = te_elements t @ replicate delta init" "table_inv t'"
proof -
  have *: "old = length (te_elements t) \<and>
      t' = t\<lparr>te_elements := te_elements t @ replicate delta init\<rparr> \<and>
      length (te_elements t) + delta < 2 ^ 32 \<and>
      length (te_elements t) + delta \<le> unwrap_or u32_max (tt_max (te_type t))"
    using assms
    by (auto simp: table_grow_untyped_def Let_def split: option.splits sum.splits
        prod.splits bool.splits if_splits fuel_error.splits)
  then show "old = length (te_elements t)" "te_elements t' = te_elements t @ replicate delta init" by auto
  show "table_inv t'" using * by (auto simp: table_inv_def unwrap_or_def split: option.splits)
qed

lemma table_grow_untyped_err:
  "table_grow_untyped delta init fu lim t = (Inl e, t', fu', lim') \<Longrightarrow> t' = t \<and> fu' = fu"
  by (auto simp: table_grow_untyped_def Let_def split: option.splits sum.splits
      prod.splits bool.splits if_splits fuel_error.splits)

text \<open>
  The bounds check of \<open>copy_within\<close> on the larger index is the check of both ranges, and a copy
  within one table yields what the copy from a second, equal table yields.
\<close>

lemma table_copy_within_eq_copy:
  assumes "table_inv t"
  shows "table_copy_within dst src len fu t = table_copy t dst t src len fu"
proof -
  have "(max dst src + len < 2 ^ 32 \<and> max dst src + len \<le> length (te_elements t)) \<longleftrightarrow>
    (dst + len \<le> length (te_elements t) \<and> src + len \<le> length (te_elements t))"
    using assms by (auto simp: table_inv_def)
  then show ?thesis
    using assms by (auto simp: table_copy_within_def table_copy_def get_range_def Let_def)
qed


section \<open>Properties\<close>

text \<open>
  C12. Growing a memory: a success returns the old size in pages, appends zero bytes for exactly
  the requested pages, keeps all old bytes and the type, and keeps the size invariant (bytes and
  pages agree, at most 65536 pages, at most the maximum of the type); a failure changes nothing.
\<close>
theorem memory_grow_exact:
  assumes "memory_grow additional fu lim m = Some (r, m', fu', lim')" "memory_inv m"
  shows "case r of
      Inr old \<Rightarrow> old = memory_size m \<and> memory_size m' = memory_size m + additional \<and>
        memory_data m' = memory_data m @ replicate (additional * bytes_per_page) 0 \<and>
        me_type m' = me_type m \<and> memory_inv m'
    | Inl _ \<Rightarrow> m' = m \<and> fu' = fu"
proof (cases r)
  case (Inl e)
  then show ?thesis using memory_grow_err assms(1) by simp
next
  case (Inr old)
  with memory_grow_ok [of additional fu lim m old m' fu' lim'] assms show ?thesis by simp
qed

lemma memory_grow_exact_witness:
  defines "m \<equiv> \<lparr>me_bytes = byte_buffer_new 0,
    me_type = \<lparr>mt_initial_pages = 0, mt_maximum_pages = Some 2\<rparr>, me_current_pages = 0\<rparr>"
  shows "\<exists>m' fu' lim'. memory_grow 1 None (None :: store_limits limiter_ref) m = Some (Inr 0, m', fu', lim') \<and>
    memory_size m' = 1 \<and> memory_inv m'"
proof -
  have inv: "memory_inv m"
    by (simp add: m_def memory_inv_def memory_data_def byte_buffer_new_def pages_max_def)
  have "\<exists>m' fu' lim'. memory_grow 1 None (None :: store_limits limiter_ref) m = Some (Inr 0, m', fu', lim')"
    by (simp add: m_def memory_grow_def Let_def pages_new_def pages_max_def pages_checked_add_def
        ask_memory_growing_def pages_to_bytes_def bytes_new_impl_def bytes_per_page_def unwrap_or_def
        byte_buffer_new_def byte_buffer_grow_def)
  then obtain m' fu' and lim' :: "store_limits limiter_ref" where
    g: "memory_grow 1 None None m = Some (Inr 0, m', fu', lim')" by blast
  from memory_grow_exact [OF g inv] g show ?thesis by (auto simp: m_def memory_size_def)
qed

text \<open>
  A store with a memory limit: no sequence of \<open>memory.grow\<close> requests, whatever the amounts
  and whether they succeed or fail, brings a memory that fits the limit over it.
\<close>
theorem store_limit_bounds_memory:
  assumes "memory_grow_all ns fu (Some (store_limits_ops, lims)) m = Some m'"
    and "memory_inv m" "lim_memory_size lims = Some b" "length (memory_data m) \<le> b"
  shows "memory_inv m' \<and> length (memory_data m') \<le> b"
  using store_lim.grow_all_bounded [OF assms] .

lemma store_limit_bounds_memory_witness:
  defines "m \<equiv> \<lparr>me_bytes = byte_buffer_new 0,
    me_type = \<lparr>mt_initial_pages = 0, mt_maximum_pages = None\<rparr>, me_current_pages = 0\<rparr>"
  shows "\<exists>m'. memory_grow_all [1, 1, 0] None (Some (store_limits_ops,
      store_limits_default\<lparr>lim_memory_size := Some 65536\<rparr>)) m = Some m' \<and> length (memory_data m') \<le> 65536"
proof -
  let ?l = "store_limits_default\<lparr>lim_memory_size := Some 65536\<rparr>"
  have inv: "memory_inv m" "length (memory_data m) \<le> 65536"
    by (simp_all add: m_def memory_inv_def memory_data_def byte_buffer_new_def pages_max_def)
  have "\<exists>m'. memory_grow_all [1, 1, 0] None (Some (store_limits_ops, ?l)) m = Some m'"
    by (simp add: m_def memory_grow_def Let_def pages_new_def pages_max_def pages_checked_add_def
        ask_memory_growing_def pages_to_bytes_def bytes_new_impl_def bytes_per_page_def unwrap_or_def
        byte_buffer_new_def byte_buffer_grow_def store_limits_ops_def limits_memory_growing_def
        limit_allows_def store_limits_default_def)
  then obtain m' where g: "memory_grow_all [1, 1, 0] None (Some (store_limits_ops, ?l)) m = Some m'" ..
  from store_limit_bounds_memory [OF g inv(1) _ inv(2)] g show ?thesis by auto
qed

text \<open>
  Growing a table: a success returns the old length, appends exactly \<open>delta\<close> copies of the
  initial value and keeps the table within the maximum of its type and the 32-bit range; a failure
  changes neither the table nor the fuel.
\<close>
theorem table_grow_exact:
  assumes "table_grow_untyped delta init fu lim t = (r, t', fu', lim')" "table_inv t"
  shows "case r of
      Inr old \<Rightarrow> old = length (te_elements t) \<and>
        te_elements t' = te_elements t @ replicate delta init \<and> table_inv t'
    | Inl _ \<Rightarrow> t' = t \<and> fu' = fu"
proof (cases r)
  case (Inl e)
  then show ?thesis using table_grow_untyped_err assms(1) by simp
next
  case (Inr old)
  with table_grow_untyped_ok [of delta init fu lim t old t' fu' lim'] assms show ?thesis by simp
qed

lemma table_grow_exact_witness:
  defines "t \<equiv> \<lparr>te_type = \<lparr>tt_element = FuncRef, tt_min = 1, tt_max = Some 4\<rparr>, te_elements = [7]\<rparr>"
  shows "\<exists>t' fu' lim'. table_grow_untyped 2 5 None (None :: store_limits limiter_ref) t = (Inr 1, t', fu', lim') \<and>
    te_elements t' = [7, 5, 5]"
proof -
  have inv: "table_inv t" by (simp add: t_def table_inv_def)
  have "\<exists>t' fu' lim'. table_grow_untyped 2 5 None (None :: store_limits limiter_ref) t = (Inr 1, t', fu', lim')"
    by (simp add: t_def table_grow_untyped_def Let_def ask_table_growing_def table_size_def unwrap_or_def)
  then obtain t' fu' and lim' :: "store_limits limiter_ref" where
    g: "table_grow_untyped 2 5 None None t = (Inr 1, t', fu', lim')" by blast
  from table_grow_exact [OF g inv] g show ?thesis by (auto simp: t_def numeral_eq_Suc)
qed

text \<open>
  \<open>table.copy\<close> within one table: the single bounds check on the larger index is as strict as
  the two checks of the copy between two tables, and the result and the fuel are those of a copy
  from a second, equal table, for overlapping ranges as well.
\<close>
theorem table_copy_within_correct:
  assumes "table_inv t"
  shows "table_copy_within dst src len fu t = table_copy t dst t src len fu"
  by (rule table_copy_within_eq_copy [OF assms])

lemma table_copy_within_correct_witness:
  defines "t \<equiv> \<lparr>te_type = \<lparr>tt_element = FuncRef, tt_min = 1, tt_max = None\<rparr>, te_elements = [1, 2, 3, 4]\<rparr>"
  shows "table_copy_within 1 0 3 None t = Inr (t\<lparr>te_elements := [1, 1, 2, 3]\<rparr>, None)"
proof -
  have "table_inv t" by (simp add: t_def table_inv_def)
  from table_copy_within_correct [OF this, of 1 0 3 None] show ?thesis
    by (simp add: t_def table_copy_def get_range_def pay_copies_def put_range_def numeral_eq_Suc)
qed

end
