(* ===== verification/Exec_State.thy ===== *)
theory Exec_State
  imports Instr Entities
begin

text \<open>
  The state of the executor: the store with its entities, the cached instance data
  (\<open>executor/cache.rs\<close>), the \<open>Executor\<close> of \<open>executor/instrs.rs\<close> with its register and instruction
  pointer operations. In the source the store is an argument of every operation and the code map a
  field of the executor; here the store is a field of the state and the code map belongs to the
  environment \<open>exec_env\<close>, next to the behaviour of host functions and of the call hook, which are
  parameters of the model.

  An error ends the execution of the code, so a failing operation yields the error without the
  state. \<open>XPanic\<close> is a Rust panic; \<open>XUB\<close> stands for what the source excludes by
  \<open>unreachable_unchecked\<close> and for accesses through a dangling or out of bounds pointer.
\<close>

type_synonym func_h = nat
type_synonym memory_h = nat
type_synonym table_h = nat
type_synonym global_h = nat
type_synonym data_h = nat
type_synonym elem_h = nat
type_synonym func_type_h = nat

datatype 'e xerr =
    XTrap trap_code
  | XHost 'e
  | XResumableHost 'e func_h reg_span
  | XPanic
  | XUB


section \<open>The store\<close>

record wasm_func_entity =
  wf_type :: func_type_h
  wf_body :: engine_func
  wf_instance :: instance_h

record host_func_entity =
  hf_len_params :: u16
  hf_len_results :: u16
  hf_type :: func_type_h
  hf_trampoline :: nat

datatype func_entity = WasmFunc wasm_func_entity | HostFunc host_func_entity

definition func_ty_dedup :: "func_entity \<Rightarrow> func_type_h" where
  "func_ty_dedup f = (case f of WasmFunc w \<Rightarrow> wf_type w | HostFunc h \<Rightarrow> hf_type h)"

datatype extern_val = ExtGlobal global_h | ExtTable table_h | ExtMemory memory_h | ExtFunc func_h

record instance_entity =
  in_func_types :: "func_type_h list"
  in_tables :: "table_h list"
  in_funcs :: "func_h list"
  in_memories :: "memory_h list"
  in_globals :: "global_h list"
  in_data_segments :: "data_h list"
  in_elem_segments :: "elem_h list"
  in_exports :: "(string \<times> extern_val) list"
  in_initialized :: bool

text \<open>
  The user data \<open>'h\<close> of the store; the resource limiter is a view of it.
\<close>

record 'h wstore =
  ws_instances :: "instance_entity list"
  ws_memories :: "memory_entity list"
  ws_tables :: "table_entity list"
  ws_globals :: "global_entity list"
  ws_funcs :: "func_entity list"
  ws_datas :: "data_segment list"
  ws_elems :: "element_segment list"
  ws_fuel :: fuel
  ws_data :: 'h
  ws_limiter :: "'h limiter_ops option"

text \<open>A handle that does not resolve is a panic.\<close>

definition resolve :: "'a list \<Rightarrow> nat \<Rightarrow> 'e xerr + 'a" where
  "resolve xs i = ok_or XPanic (get_at xs i)"

definition limiter_ref_of :: "'h wstore \<Rightarrow> 'h limiter_ref" where
  "limiter_ref_of s = map_option (\<lambda>ops. (ops, ws_data s)) (ws_limiter s)"

definition put_limiter :: "'h limiter_ref \<Rightarrow> 'h wstore \<Rightarrow> 'h wstore" where
  "put_limiter lim s = (case lim of None \<Rightarrow> s | Some (_, d) \<Rightarrow> s\<lparr>ws_data := d\<rparr>)"

definition put_memory :: "memory_h \<Rightarrow> memory_entity \<Rightarrow> 'h wstore \<Rightarrow> 'h wstore" where
  "put_memory h m s = s\<lparr>ws_memories := (ws_memories s)[h := m]\<rparr>"

definition put_table :: "table_h \<Rightarrow> table_entity \<Rightarrow> 'h wstore \<Rightarrow> 'h wstore" where
  "put_table h t s = s\<lparr>ws_tables := (ws_tables s)[h := t]\<rparr>"

definition put_global :: "global_h \<Rightarrow> global_entity \<Rightarrow> 'h wstore \<Rightarrow> 'h wstore" where
  "put_global h g s = s\<lparr>ws_globals := (ws_globals s)[h := g]\<rparr>"

text \<open>\<open>get_pair_mut\<close> has no pair for two equal indices.\<close>

definition resolve_pair :: "'a list \<Rightarrow> nat \<Rightarrow> nat \<Rightarrow> 'e xerr + 'a \<times> 'a" where
  "resolve_pair xs i j =
    (if i \<noteq> j \<and> i < length xs \<and> j < length xs then Inr (xs ! i, xs ! j) else Inl XPanic)"


section \<open>The environment\<close>

record compiled_func =
  cm_instrs :: "instr_word list"
  cm_consts :: "untyped_val list"
  cm_len_registers :: u16

datatype call_hook = CallingWasm | ReturningFromWasm | CallingHost | ReturningFromHost

text \<open>
  \<open>env_code\<close> is the compiled code of a function and \<open>env_compile\<close> the cost of the (lazy)
  compilation at its first call; \<open>env_host\<close> is the behaviour of a trampoline on the store, the
  calling instance (none for a call from outside), the parameters and the number of results; \<open>env_hook\<close> is the call hook;
  \<open>env_funcref\<close> and \<open>env_func_bits\<close> are the memory layout of a non-null \<open>FuncRef\<close>.
\<close>

record ('h, 'e) exec_env =
  env_nan :: nan_env
  env_code :: "engine_func \<Rightarrow> compiled_func"
  env_compile :: "engine_func \<Rightarrow> fuel \<Rightarrow> 'e xerr + fuel"
  env_host :: "nat \<Rightarrow> instance_h option \<Rightarrow> untyped_val list \<Rightarrow> nat \<Rightarrow> 'h wstore
    \<Rightarrow> ('e + untyped_val list) \<times> 'h wstore"
  env_hook :: "call_hook \<Rightarrow> 'h \<Rightarrow> ('e + unit) \<times> 'h"
  env_funcref :: "u64 \<Rightarrow> func_h"
  env_func_bits :: "func_h \<Rightarrow> u64"


section \<open>The executor\<close>

text \<open>
  The cached default memory is a pointer to the bytes with their number, the cached global a
  pointer to its value: here the handles of the entities they point to.
\<close>

record cached_instance =
  ci_instance :: instance_h
  ci_memory :: "(memory_h \<times> nat) option"
  ci_global :: "global_h option"

record 'h exec =
  ex_sp :: nat
  ex_ip :: instr_ptr
  ex_cache :: cached_instance
  ex_stack :: stack
  ex_store :: "'h wstore"

definition cached_memory_new :: "'h wstore \<Rightarrow> memory_h \<Rightarrow> 'e xerr + memory_h \<times> nat" where
  "cached_memory_new s h = rbind (resolve (ws_memories s) h) (\<lambda>m. Inr (h, length (memory_data m)))"

definition load_cached_memory :: "'h wstore \<Rightarrow> instance_entity \<Rightarrow> 'e xerr + (memory_h \<times> nat) option" where
  "load_cached_memory s inst =
    (case get_at (in_memories inst) 0 of
       None \<Rightarrow> Inr None
     | Some h \<Rightarrow> rmap Some (cached_memory_new s h))"

definition load_cached_global :: "'h wstore \<Rightarrow> instance_entity \<Rightarrow> 'e xerr + global_h option" where
  "load_cached_global s inst =
    (case get_at (in_globals inst) 0 of
       None \<Rightarrow> Inr None
     | Some h \<Rightarrow> rbind (resolve (ws_globals s) h) (\<lambda>_. Inr (Some h)))"

definition load_caches :: "'h wstore \<Rightarrow> instance_h \<Rightarrow> 'e xerr + cached_instance" where
  "load_caches s i =
    rbind (resolve (ws_instances s) i) (\<lambda>inst.
    rbind (load_cached_memory s inst) (\<lambda>m.
    rbind (load_cached_global s inst) (\<lambda>g.
      Inr \<lparr>ci_instance = i, ci_memory = m, ci_global = g\<rparr>)))"

definition cache_update :: "instance_h \<Rightarrow> 'h exec \<Rightarrow> 'e xerr + 'h exec" where
  "cache_update i ex = rmap (\<lambda>c. ex\<lparr>ex_cache := c\<rparr>) (load_caches (ex_store ex) i)"

definition cache_update_memory :: "'h exec \<Rightarrow> 'e xerr + 'h exec" where
  "cache_update_memory ex =
    rbind (resolve (ws_instances (ex_store ex)) (ci_instance (ex_cache ex))) (\<lambda>inst.
      rmap (\<lambda>m. ex\<lparr>ex_cache := (ex_cache ex)\<lparr>ci_memory := m\<rparr>\<rparr>)
        (load_cached_memory (ex_store ex) inst))"

text \<open>Entities of the current instance; an index out of bounds is undefined behaviour.\<close>

definition get_entity :: "(instance_entity \<Rightarrow> nat list) \<Rightarrow> nat \<Rightarrow> 'h exec \<Rightarrow> 'e xerr + nat" where
  "get_entity field index ex =
    rbind (ok_or XUB (get_at (ws_instances (ex_store ex)) (ci_instance (ex_cache ex))))
      (\<lambda>inst. ok_or XUB (get_at (field inst) index))"

text \<open>
  The bytes behind the cached memory pointer: the memory it was taken from must still have the
  length it had, otherwise the buffer may have moved and the pointer dangles. An instance without a
  memory has the empty slice.
\<close>

definition cached_memory_data :: "'h exec \<Rightarrow> 'e xerr + u8 list" where
  "cached_memory_data ex =
    (case ci_memory (ex_cache ex) of
       None \<Rightarrow> Inr []
     | Some (h, len) \<Rightarrow>
         rbind (ok_or XUB (get_at (ws_memories (ex_store ex)) h)) (\<lambda>m.
           if length (memory_data m) = len then Inr (memory_data m) else Inl XUB))"

definition cached_memory_set_data :: "u8 list \<Rightarrow> 'h exec \<Rightarrow> 'h exec" where
  "cached_memory_set_data bs ex =
    (case ci_memory (ex_cache ex) of
       None \<Rightarrow> ex
     | Some (h, _) \<Rightarrow>
         ex\<lparr>ex_store := put_memory h (memory_set_data bs (ws_memories (ex_store ex) ! h)) (ex_store ex)\<rparr>)"

text \<open>A null pointer is read or written for an instance without globals: undefined behaviour.\<close>

definition cached_global_get :: "'h exec \<Rightarrow> 'e xerr + untyped_val" where
  "cached_global_get ex =
    rbind (ok_or XUB (ci_global (ex_cache ex))) (\<lambda>h.
    rbind (ok_or XUB (get_at (ws_globals (ex_store ex)) h)) (\<lambda>g. Inr (ge_value g)))"

definition cached_global_set :: "untyped_val \<Rightarrow> 'h exec \<Rightarrow> 'e xerr + 'h exec" where
  "cached_global_set v ex =
    rbind (ok_or XUB (ci_global (ex_cache ex))) (\<lambda>h.
    rbind (ok_or XUB (get_at (ws_globals (ex_store ex)) h)) (\<lambda>g.
      Inr (ex\<lparr>ex_store := put_global h (global_set_untyped v g) (ex_store ex)\<rparr>)))"

definition reg_get :: "'h exec \<Rightarrow> reg \<Rightarrow> untyped_val option" where
  "reg_get ex r = frame_get (ex_sp ex) (st_values (ex_stack ex)) r"

definition reg_set_at :: "nat \<Rightarrow> 'h exec \<Rightarrow> reg \<Rightarrow> untyped_val \<Rightarrow> 'h exec option" where
  "reg_set_at sp ex r v =
    map_option (\<lambda>vals. ex\<lparr>ex_stack := (ex_stack ex)\<lparr>st_values := vals\<rparr>\<rparr>)
      (frame_set sp (st_values (ex_stack ex)) r v)"

definition reg_set :: "'h exec \<Rightarrow> reg \<Rightarrow> untyped_val \<Rightarrow> 'h exec option" where
  "reg_set ex = reg_set_at (ex_sp ex) ex"

interpretation ex_regs: register_file reg_get reg_set
proof
  fix s :: "'h exec" and r v
  show "reg_set s r v = None \<longleftrightarrow> reg_get s r = None"
    using regs.rset_defined by (simp add: reg_get_def reg_set_def reg_set_at_def)
  show "reg_set s r v = Some s' \<Longrightarrow> reg_get s' q = (if q = r then Some v else reg_get s q)" for s' q
    by (auto simp: reg_get_def reg_set_def reg_set_at_def frame_get_set)
qed

definition get_register :: "'h exec \<Rightarrow> reg \<Rightarrow> 'e xerr + untyped_val" where
  "get_register ex r = ok_or XUB (reg_get ex r)"

definition get_register_u32 :: "'h exec \<Rightarrow> reg \<Rightarrow> 'e xerr + u32" where
  "get_register_u32 ex r = rmap to_i32 (get_register ex r)"

text \<open>Registers at an arbitrary stack pointer, for the frame of a caller.\<close>

definition set_register_at :: "nat \<Rightarrow> reg \<Rightarrow> untyped_val \<Rightarrow> 'h exec \<Rightarrow> 'e xerr + 'h exec" where
  "set_register_at sp r v ex = ok_or XUB (reg_set_at sp ex r v)"

definition set_register :: "reg \<Rightarrow> untyped_val \<Rightarrow> 'h exec \<Rightarrow> 'e xerr + 'h exec" where
  "set_register r v ex = set_register_at (ex_sp ex) r v ex"

text \<open>Registers one after the other, as the loops over spans and register lists read and write them.\<close>

primrec get_registers :: "'h exec \<Rightarrow> reg list \<Rightarrow> 'e xerr + untyped_val list" where
  "get_registers ex [] = Inr []"
| "get_registers ex (r # rs) =
    rbind (get_register ex r) (\<lambda>v. rmap (\<lambda>vs. v # vs) (get_registers ex rs))"

primrec set_registers_at :: "nat \<Rightarrow> (reg \<times> untyped_val) list \<Rightarrow> 'h exec \<Rightarrow> 'e xerr + 'h exec" where
  "set_registers_at sp [] ex = Inr ex"
| "set_registers_at sp (p # ps) ex =
    rbind (set_register_at sp (fst p) (snd p) ex) (set_registers_at sp ps)"

definition set_registers :: "(reg \<times> untyped_val) list \<Rightarrow> 'h exec \<Rightarrow> 'e xerr + 'h exec" where
  "set_registers ps ex = set_registers_at (ex_sp ex) ps ex"

text \<open>\<open>RegSpan::iter\<close> and \<open>RegSpan::iter_sized\<close> in a \<open>for\<close> loop.\<close>

definition span_iter :: "reg_span \<Rightarrow> u16 \<Rightarrow> 'e xerr + reg list" where
  "span_iter r len = ok_or XPanic (map_option iter_regs (iter_new_u16 r len))"

definition span_iter_sized :: "reg_span \<Rightarrow> nat \<Rightarrow> 'e xerr + reg list" where
  "span_iter_sized r len = ok_or XPanic (map_option iter_regs (iter_new r len))"

definition next_instr_at :: "nat \<Rightarrow> 'h exec \<Rightarrow> 'h exec" where
  "next_instr_at skip ex = ex\<lparr>ex_ip := ip_add skip (ex_ip ex)\<rparr>"

definition next_instr :: "'h exec \<Rightarrow> 'h exec" where
  "next_instr ex = next_instr_at 1 ex"

text \<open>\<open>InstructionPtr::get\<close>: outside of the code of its function the pointer is invalid.\<close>

definition fetch_word :: "('h, 'e) exec_env \<Rightarrow> instr_ptr \<Rightarrow> 'e xerr + instr_word" where
  "fetch_word env ip =
    (let code = cm_instrs (env_code env (ip_func ip))
     in if 0 \<le> ip_index ip \<and> ip_index ip < int (length code)
        then Inr (code ! nat (ip_index ip)) else Inl XUB)"

definition fetch_instr :: "('h, 'e) exec_env \<Rightarrow> instr_ptr \<Rightarrow> 'e xerr + instruction" where
  "fetch_instr env ip = rmap iw_instr (fetch_word env ip)"

text \<open>The parameter word at a distance from the current instruction.\<close>

definition fetch_param :: "('h, 'e) exec_env \<Rightarrow> nat \<Rightarrow> 'h exec \<Rightarrow> 'e xerr + instruction" where
  "fetch_param env offset ex = fetch_instr env (ip_add offset (ex_ip ex))"

definition init_call_frame :: "call_frame \<Rightarrow> 'h exec \<Rightarrow> 'h exec" where
  "init_call_frame frame ex = ex\<lparr>ex_sp := cf_base_offset frame, ex_ip := cf_instr_ptr frame\<rparr>"

definition executor_new :: "stack \<Rightarrow> cached_instance \<Rightarrow> 'h wstore \<Rightarrow> 'e xerr + 'h exec" where
  "executor_new st cache s =
    rbind (ok_or XPanic (cs_peek (st_calls st))) (\<lambda>frame.
      Inr \<lparr>ex_sp = cf_base_offset frame, ex_ip = cf_instr_ptr frame, ex_cache = cache,
           ex_stack = st, ex_store = s\<rparr>)"

text \<open>Traps of the entity operations become errors of the executor.\<close>

definition lift_trap :: "trap_code + 'a \<Rightarrow> 'e xerr + 'a" where
  "lift_trap r = (case r of Inl t \<Rightarrow> Inl (XTrap t) | Inr x \<Rightarrow> Inr x)"

lemma lift_trap_simps [simp, rsimps]: "lift_trap (Inl t) = Inl (XTrap t)" "lift_trap (Inr x) = Inr x"
  by (simp_all add: lift_trap_def)

lemma lift_trap_eq_Inr [rsimps]: "lift_trap r = Inr y \<longleftrightarrow> r = Inr y"
  by (cases r) auto

end
