(* ===== verification/Exec_Data.thy ===== *)
theory Exec_Data
  imports Exec_State
begin

text \<open>
  The instructions that compute on registers, globals and linear memory:
  \<open>executor/instrs/{unary,conversion,comparison,binary,copy,select,global,load,store}.rs\<close> and the
  generic operations of \<open>executor/instrs.rs\<close> they use.
\<close>


section \<open>Operations on registers\<close>

definition exec_unary :: "reg \<Rightarrow> reg \<Rightarrow> (untyped_val \<Rightarrow> untyped_val) \<Rightarrow> 'h exec \<Rightarrow> 'e xerr + 'h exec" where
  "exec_unary result input f ex =
    rbind (get_register ex input) (\<lambda>v.
    rbind (set_register result (f v) ex) (\<lambda>ex. Inr (next_instr ex)))"

definition try_exec_unary :: "reg \<Rightarrow> reg \<Rightarrow> (untyped_val \<Rightarrow> trap_code + untyped_val) \<Rightarrow> 'h exec
    \<Rightarrow> 'e xerr + 'h exec" where
  "try_exec_unary result input f ex =
    rbind (get_register ex input) (\<lambda>v.
    rbind (lift_trap (f v)) (\<lambda>x.
    rbind (set_register result x ex) (\<lambda>ex. Inr (next_instr ex))))"

definition exec_binary :: "reg \<Rightarrow> reg \<Rightarrow> reg \<Rightarrow> (untyped_val \<Rightarrow> untyped_val \<Rightarrow> untyped_val)
    \<Rightarrow> 'h exec \<Rightarrow> 'e xerr + 'h exec" where
  "exec_binary result lhs rhs f ex =
    rbind (get_register ex lhs) (\<lambda>l.
    rbind (get_register ex rhs) (\<lambda>r.
    rbind (set_register result (f l r) ex) (\<lambda>ex. Inr (next_instr ex))))"

text \<open>The immediate operand is given as the value that it converts to.\<close>

definition exec_binary_imm16 :: "reg \<Rightarrow> reg \<Rightarrow> untyped_val
    \<Rightarrow> (untyped_val \<Rightarrow> untyped_val \<Rightarrow> untyped_val) \<Rightarrow> 'h exec \<Rightarrow> 'e xerr + 'h exec" where
  "exec_binary_imm16 result lhs rhs f ex =
    rbind (get_register ex lhs) (\<lambda>l.
    rbind (set_register result (f l rhs) ex) (\<lambda>ex. Inr (next_instr ex)))"

definition exec_binary_imm16_lhs :: "reg \<Rightarrow> untyped_val \<Rightarrow> reg
    \<Rightarrow> (untyped_val \<Rightarrow> untyped_val \<Rightarrow> untyped_val) \<Rightarrow> 'h exec \<Rightarrow> 'e xerr + 'h exec" where
  "exec_binary_imm16_lhs result lhs rhs f ex =
    rbind (get_register ex rhs) (\<lambda>r.
    rbind (set_register result (f lhs r) ex) (\<lambda>ex. Inr (next_instr ex)))"

definition exec_shift_by :: "reg \<Rightarrow> reg \<Rightarrow> untyped_val
    \<Rightarrow> (untyped_val \<Rightarrow> untyped_val \<Rightarrow> untyped_val) \<Rightarrow> 'h exec \<Rightarrow> 'e xerr + 'h exec" where
  "exec_shift_by result lhs rhs f ex =
    rbind (get_register ex lhs) (\<lambda>l.
    rbind (set_register result (f l rhs) ex) (\<lambda>ex. Inr (next_instr ex)))"

definition try_exec_binary :: "reg \<Rightarrow> reg \<Rightarrow> reg
    \<Rightarrow> (untyped_val \<Rightarrow> untyped_val \<Rightarrow> trap_code + untyped_val) \<Rightarrow> 'h exec \<Rightarrow> 'e xerr + 'h exec" where
  "try_exec_binary result lhs rhs f ex =
    rbind (get_register ex lhs) (\<lambda>l.
    rbind (get_register ex rhs) (\<lambda>r.
    rbind (lift_trap (f l r)) (\<lambda>x.
    rbind (set_register result x ex) (\<lambda>ex. Inr (next_instr ex)))))"

text \<open>
  \<open>try_execute_divrem_imm16_rhs\<close> and \<open>execute_divrem_imm16_rhs\<close>: the operations of the latter do
  not fail. The constant is handed on as it is encoded.
\<close>

definition exec_divrem_imm16_rhs :: "reg \<Rightarrow> reg \<Rightarrow> u16
    \<Rightarrow> (untyped_val \<Rightarrow> u16 \<Rightarrow> trap_code + untyped_val) \<Rightarrow> 'h exec \<Rightarrow> 'e xerr + 'h exec" where
  "exec_divrem_imm16_rhs result lhs rhs f ex =
    rbind (get_register ex lhs) (\<lambda>l.
    rbind (lift_trap (f l rhs)) (\<lambda>x.
    rbind (set_register result x ex) (\<lambda>ex. Inr (next_instr ex))))"

definition try_exec_binary_imm16_lhs :: "reg \<Rightarrow> untyped_val \<Rightarrow> reg
    \<Rightarrow> (untyped_val \<Rightarrow> untyped_val \<Rightarrow> trap_code + untyped_val) \<Rightarrow> 'h exec \<Rightarrow> 'e xerr + 'h exec" where
  "try_exec_binary_imm16_lhs result lhs rhs f ex =
    rbind (get_register ex rhs) (\<lambda>r.
    rbind (lift_trap (f lhs r)) (\<lambda>x.
    rbind (set_register result x ex) (\<lambda>ex. Inr (next_instr ex))))"

text \<open>\<open>Sign\<close> converts to 1.0 or -1.0.\<close>

definition sign32 :: "bool \<Rightarrow> untyped_val" where
  "sign32 is_positive = (if is_positive then 0x3F800000 else 0xBF800000)"

definition sign64 :: "bool \<Rightarrow> untyped_val" where
  "sign64 is_positive = (if is_positive then 0x3FF0000000000000 else 0xBFF0000000000000)"

primrec exec_num :: "nan_env \<Rightarrow> num_instr \<Rightarrow> 'h exec \<Rightarrow> 'e xerr + 'h exec" where
  "exec_num env (IIcmp op result lhs rhs) = exec_binary result lhs rhs (icmp_fn op)"
| "exec_num env (IIcmpImm16 op result lhs rhs) = exec_binary_imm16 result lhs (icmp_imm op rhs) (icmp_fn op)"
| "exec_num env (IFcmp op result lhs rhs) = exec_binary result lhs rhs (fcmp_fn op)"
| "exec_num env (IUnary op result input) = exec_unary result input (unary_fn op env)"
| "exec_num env (IConv op result input) = exec_unary result input (conv_fn op env)"
| "exec_num env (ITruncTo op result input) = try_exec_unary result input (trunc_fn op)"
| "exec_num env (IComm op result lhs rhs) = exec_binary result lhs rhs (comm_fn op)"
| "exec_num env (ICommImm16 op result lhs rhs) = exec_binary_imm16 result lhs (comm_imm op rhs) (comm_fn op)"
| "exec_num env (ISub op result lhs rhs) = exec_binary result lhs rhs (sub_fn op)"
| "exec_num env (ISubImm16Lhs op result lhs rhs) = exec_binary_imm16_lhs result (sub_imm op lhs) rhs (sub_fn op)"
| "exec_num env (IShift op result lhs rhs) = exec_binary result lhs rhs (shift_fn op)"
| "exec_num env (IShiftBy op result lhs rhs) = exec_shift_by result lhs (shift_amount_val op rhs) (shift_fn op)"
| "exec_num env (IShiftImm16 op result lhs rhs) =
    exec_binary_imm16_lhs result (shift_imm op lhs) rhs (shift_fn op)"
| "exec_num env (IFbin op result lhs rhs) = exec_binary result lhs rhs (fbin_fn op env)"
| "exec_num env (ICopysignImm w result lhs rhs) = (case w of
      Width32 \<Rightarrow> exec_binary_imm16 result lhs (sign32 rhs) f32_copysign
    | Width64 \<Rightarrow> exec_binary_imm16 result lhs (sign64 rhs) f64_copysign)"
| "exec_num env (IDivRem op result lhs rhs) = try_exec_binary result lhs rhs (divrem_fn op)"
| "exec_num env (IDivRemImm16Rhs op result lhs rhs) = exec_divrem_imm16_rhs result lhs rhs (divrem_ext_fn op)"
| "exec_num env (IDivRemImm16Lhs op result lhs rhs) =
    try_exec_binary_imm16_lhs result (divrem_imm op lhs) rhs (divrem_fn op)"


section \<open>Register lists\<close>

lemma fetch_instr_index:
  "fetch_instr env ip = Inr i \<Longrightarrow> 0 \<le> ip_index ip \<and> ip_index ip < int (length (cm_instrs (env_code env (ip_func ip))))"
  by (auto simp: fetch_instr_def fetch_word_def Let_def split: if_splits)

text \<open>
  The words \<open>RegisterList\<close>* and one of \<open>Register\<close>, \<open>Register2\<close>, \<open>Register3\<close> from an instruction
  pointer on: their registers and the pointer to the last word. The loop ends because the code of a
  function is finite.
\<close>

function collect_registers :: "('h, 'e) exec_env \<Rightarrow> instr_ptr \<Rightarrow> 'e xerr + reg list \<times> instr_ptr" where
  "collect_registers env ip =
    (case fetch_instr env ip of
       Inl e \<Rightarrow> Inl e
     | Inr (IParam (IRegisterList a b c)) \<Rightarrow>
         rmap (\<lambda>(rs, ip'). (a # b # c # rs, ip')) (collect_registers env (ip_add 1 ip))
     | Inr (IParam (IRegister a)) \<Rightarrow> Inr ([a], ip)
     | Inr (IParam (IRegister2 a b)) \<Rightarrow> Inr ([a, b], ip)
     | Inr (IParam (IRegister3 a b c)) \<Rightarrow> Inr ([a, b, c], ip)
     | Inr _ \<Rightarrow> Inl XUB)"
  by auto

termination
  by (relation "measure (\<lambda>(env, ip). nat (int (length (cm_instrs (env_code env (ip_func ip)))) - ip_index ip))")
    (auto dest!: fetch_instr_index simp: ip_add_def)

declare collect_registers.simps [simp del]

text \<open>\<open>skip_register_list\<close>: past the list and its last word, whatever that word is.\<close>

function skip_register_list :: "('h, 'e) exec_env \<Rightarrow> instr_ptr \<Rightarrow> 'e xerr + instr_ptr" where
  "skip_register_list env ip =
    (case fetch_instr env ip of
       Inl e \<Rightarrow> Inl e
     | Inr (IParam (IRegisterList a b c)) \<Rightarrow> skip_register_list env (ip_add 1 ip)
     | Inr _ \<Rightarrow> Inr (ip_add 1 ip))"
  by auto
termination
  by (relation "measure (\<lambda>(env, ip). nat (int (length (cm_instrs (env_code env (ip_func ip)))) - ip_index ip))")
    (auto dest!: fetch_instr_index simp: ip_add_def)

declare skip_register_list.simps [simp del]


section \<open>Copies\<close>

definition exec_copy_impl :: "reg \<Rightarrow> untyped_val \<Rightarrow> 'h exec \<Rightarrow> 'e xerr + 'h exec" where
  "exec_copy_impl result v ex = rbind (set_register result v ex) (\<lambda>ex. Inr (next_instr ex))"

definition exec_copy :: "reg \<Rightarrow> reg \<Rightarrow> 'h exec \<Rightarrow> 'e xerr + 'h exec" where
  "exec_copy result v ex = rbind (get_register ex v) (\<lambda>x. exec_copy_impl result x ex)"

definition exec_copy_2_impl :: "reg_span \<Rightarrow> reg \<Rightarrow> reg \<Rightarrow> 'h exec \<Rightarrow> 'e xerr + 'h exec" where
  "exec_copy_2_impl results v0 v1 ex =
    (let result0 = results; result1 = reg_next result0
     in rbind (get_register ex v1) (\<lambda>tmp.
        rbind (get_register ex v0) (\<lambda>x.
        rbind (set_register result0 x ex) (\<lambda>ex. set_register result1 tmp ex))))"

definition exec_copy_span_impl :: "reg_span \<Rightarrow> reg_span \<Rightarrow> u16 \<Rightarrow> 'h exec \<Rightarrow> 'e xerr + 'h exec" where
  "exec_copy_span_impl results vals len ex =
    rbind (span_iter results len) (\<lambda>rs.
    rbind (span_iter vals len) (\<lambda>vs.
    rbind (get_registers ex vs) (\<lambda>tmp. set_registers (zip rs tmp) ex)))"

primrec copy_registers :: "(reg \<times> reg) list \<Rightarrow> 'h exec \<Rightarrow> 'e xerr + 'h exec" where
  "copy_registers [] ex = Inr ex"
| "copy_registers (p # ps) ex =
    rbind (get_register ex (snd p)) (\<lambda>v. rbind (set_register (fst p) v ex) (copy_registers ps))"

definition exec_copy_span_non_overlapping_impl :: "reg_span \<Rightarrow> reg_span \<Rightarrow> u16 \<Rightarrow> 'h exec
    \<Rightarrow> 'e xerr + 'h exec" where
  "exec_copy_span_non_overlapping_impl results vals len ex =
    rbind (span_iter results len) (\<lambda>rs.
    rbind (span_iter vals len) (\<lambda>vs. copy_registers (zip rs vs) ex))"

definition exec_copy_many_impl :: "('h, 'e) exec_env \<Rightarrow> instr_ptr \<Rightarrow> reg_span \<Rightarrow> reg list \<Rightarrow> 'h exec
    \<Rightarrow> 'e xerr + instr_ptr \<times> 'h exec" where
  "exec_copy_many_impl env ip results vals ex =
    rbind (collect_registers env ip) (\<lambda>(regs, ip').
    rbind (get_registers ex (vals @ regs)) (\<lambda>tmp.
    rbind (span_iter_sized results (length tmp)) (\<lambda>rs.
      rmap (\<lambda>ex. (ip', ex)) (set_registers (zip rs tmp) ex))))"

text \<open>Here the result register is advanced with \<open>next\<close>, without the range check of an iterator.\<close>

definition next_registers :: "reg \<Rightarrow> nat \<Rightarrow> reg list" where
  "next_registers r n = map (\<lambda>i. reg_next_n r (of_nat i)) [0..<n]"

definition exec_copy_many_non_overlapping_impl :: "('h, 'e) exec_env \<Rightarrow> instr_ptr \<Rightarrow> reg_span
    \<Rightarrow> reg list \<Rightarrow> 'h exec \<Rightarrow> 'e xerr + instr_ptr \<times> 'h exec" where
  "exec_copy_many_non_overlapping_impl env ip results vals ex =
    rbind (collect_registers env ip) (\<lambda>(regs, ip').
      rmap (\<lambda>ex. (ip', ex))
        (copy_registers (zip (next_registers results (length (vals @ regs))) (vals @ regs)) ex))"

primrec exec_copy_instr :: "('h, 'e) exec_env \<Rightarrow> copy_instr \<Rightarrow> 'h exec \<Rightarrow> 'e xerr + 'h exec" where
  "exec_copy_instr env (ICopy result v) ex = exec_copy result v ex"
| "exec_copy_instr env (ICopy2 results v0 v1) ex =
    rbind (exec_copy_2_impl results v0 v1 ex) (\<lambda>ex. Inr (next_instr ex))"
| "exec_copy_instr env (ICopyImm result v) ex = exec_copy_impl result (imm32_val (env_nan env) v) ex"
| "exec_copy_instr env (ICopySpan results vals len) ex =
    rbind (exec_copy_span_impl results vals len ex) (\<lambda>ex. Inr (next_instr ex))"
| "exec_copy_instr env (ICopySpanNonOverlapping results vals len) ex =
    rbind (exec_copy_span_non_overlapping_impl results vals len ex) (\<lambda>ex. Inr (next_instr ex))"
| "exec_copy_instr env (ICopyMany results v0 v1) ex =
    rbind (exec_copy_many_impl env (ip_add 1 (ex_ip ex)) results [v0, v1] ex) (\<lambda>(ip, ex).
      Inr (next_instr (ex\<lparr>ex_ip := ip\<rparr>)))"
| "exec_copy_instr env (ICopyManyNonOverlapping results v0 v1) ex =
    rbind (exec_copy_many_non_overlapping_impl env (ip_add 1 (ex_ip ex)) results [v0, v1] ex) (\<lambda>(ip, ex).
      Inr (next_instr (ex\<lparr>ex_ip := ip\<rparr>)))"


section \<open>Selects\<close>

definition fetch_register_2 :: "('h, 'e) exec_env \<Rightarrow> 'h exec \<Rightarrow> 'e xerr + reg \<times> reg" where
  "fetch_register_2 env ex = rbind (fetch_param env 1 ex) (\<lambda>i. case i of
      IParam (IRegister2 r0 r1) \<Rightarrow> Inr (r0, r1) | _ \<Rightarrow> Inl XUB)"

definition fetch_register_and_imm32 :: "('h, 'e) exec_env \<Rightarrow> 'h exec \<Rightarrow> 'e xerr + reg \<times> u32" where
  "fetch_register_and_imm32 env ex = rbind (fetch_param env 1 ex) (\<lambda>i. case i of
      IParam (IRegisterAndImm32 r imm) \<Rightarrow> Inr (r, imm) | _ \<Rightarrow> Inl XUB)"

text \<open>The operand that is not selected is not evaluated.\<close>

definition exec_select_impl :: "reg \<Rightarrow> reg \<Rightarrow> ('h exec \<Rightarrow> 'e xerr + untyped_val)
    \<Rightarrow> ('h exec \<Rightarrow> 'e xerr + untyped_val) \<Rightarrow> 'h exec \<Rightarrow> 'e xerr + 'h exec" where
  "exec_select_impl result condition lhs rhs ex =
    rbind (get_register ex condition) (\<lambda>c.
    rbind (if to_bool c then lhs ex else rhs ex) (\<lambda>selected.
    rbind (set_register result selected ex) (\<lambda>ex. Inr (next_instr_at 2 ex))))"

definition select_rr :: "('h, 'e) exec_env \<Rightarrow> reg \<Rightarrow> reg \<Rightarrow> 'h exec \<Rightarrow> 'e xerr + 'h exec" where
  "select_rr env result lhs ex = rbind (fetch_register_2 env ex) (\<lambda>(condition, rhs).
    exec_select_impl result condition (\<lambda>ex. get_register ex lhs) (\<lambda>ex. get_register ex rhs) ex)"

definition select_ri :: "('h, 'e) exec_env \<Rightarrow> (u32 \<Rightarrow> imm32) \<Rightarrow> reg \<Rightarrow> reg \<Rightarrow> 'h exec \<Rightarrow> 'e xerr + 'h exec" where
  "select_ri env imm result lhs ex = rbind (fetch_register_and_imm32 env ex) (\<lambda>(condition, rhs).
    exec_select_impl result condition (\<lambda>ex. get_register ex lhs)
      (\<lambda>_. Inr (imm32_val (env_nan env) (imm rhs))) ex)"

definition select_ir :: "('h, 'e) exec_env \<Rightarrow> (u32 \<Rightarrow> imm32) \<Rightarrow> reg \<Rightarrow> u32 \<Rightarrow> 'h exec \<Rightarrow> 'e xerr + 'h exec" where
  "select_ir env imm result lhs ex = rbind (fetch_register_2 env ex) (\<lambda>(condition, rhs).
    exec_select_impl result condition (\<lambda>_. Inr (imm32_val (env_nan env) (imm lhs)))
      (\<lambda>ex. get_register ex rhs) ex)"

definition select_ii :: "('h, 'e) exec_env \<Rightarrow> (u32 \<Rightarrow> imm32) \<Rightarrow> reg \<Rightarrow> u32 \<Rightarrow> 'h exec \<Rightarrow> 'e xerr + 'h exec" where
  "select_ii env imm result lhs ex = rbind (fetch_register_and_imm32 env ex) (\<lambda>(condition, rhs).
    exec_select_impl result condition (\<lambda>_. Inr (imm32_val (env_nan env) (imm lhs)))
      (\<lambda>_. Inr (imm32_val (env_nan env) (imm rhs))) ex)"

primrec exec_select :: "('h, 'e) exec_env \<Rightarrow> select_instr \<Rightarrow> 'h exec \<Rightarrow> 'e xerr + 'h exec" where
  "exec_select env (ISelect result lhs) = select_rr env result lhs"
| "exec_select env (ISelectImm32Rhs result lhs) = select_ri env AnyImm32 result lhs"
| "exec_select env (ISelectImm32Lhs result lhs) = select_ir env AnyImm32 result lhs"
| "exec_select env (ISelectImm32 result lhs) = select_ii env AnyImm32 result lhs"
| "exec_select env (ISelectI64Imm32Rhs result lhs) = select_ri env I64Imm32 result lhs"
| "exec_select env (ISelectI64Imm32Lhs result lhs) = select_ir env I64Imm32 result lhs"
| "exec_select env (ISelectI64Imm32 result lhs) = select_ii env I64Imm32 result lhs"
| "exec_select env (ISelectF64Imm32Rhs result lhs) = select_ri env F64Imm32 result lhs"
| "exec_select env (ISelectF64Imm32Lhs result lhs) = select_ir env F64Imm32 result lhs"
| "exec_select env (ISelectF64Imm32 result lhs) = select_ii env F64Imm32 result lhs"


section \<open>Globals\<close>

text \<open>The global with index 0 is read and written through the cache.\<close>

definition exec_global_get :: "reg \<Rightarrow> global_idx \<Rightarrow> 'h exec \<Rightarrow> 'e xerr + 'h exec" where
  "exec_global_get result i ex =
    rbind (if i = 0 then cached_global_get ex
           else rbind (get_entity in_globals i ex) (\<lambda>h.
                rbind (resolve (ws_globals (ex_store ex)) h) (\<lambda>g. Inr (ge_value g))))
      (\<lambda>v. rbind (set_register result v ex) (\<lambda>ex. Inr (next_instr ex)))"

definition exec_global_set_impl :: "global_idx \<Rightarrow> untyped_val \<Rightarrow> 'h exec \<Rightarrow> 'e xerr + 'h exec" where
  "exec_global_set_impl i v ex =
    rbind (if i = 0 then cached_global_set v ex
           else rbind (get_entity in_globals i ex) (\<lambda>h.
                rbind (resolve (ws_globals (ex_store ex)) h) (\<lambda>g.
                  Inr (ex\<lparr>ex_store := put_global h (global_set_untyped v g) (ex_store ex)\<rparr>))))
      (\<lambda>ex. Inr (next_instr ex))"

primrec exec_global :: "global_instr \<Rightarrow> 'h exec \<Rightarrow> 'e xerr + 'h exec" where
  "exec_global (IGlobalGet result i) ex = exec_global_get result i ex"
| "exec_global (IGlobalSet input i) ex =
    rbind (get_register ex input) (\<lambda>v. exec_global_set_impl i v ex)"
| "exec_global (IGlobalSetI32Imm16 input i) ex = exec_global_set_impl i (of_const16_s32 input) ex"
| "exec_global (IGlobalSetI64Imm16 input i) ex = exec_global_set_impl i (of_const16_s64 input) ex"


section \<open>Loads\<close>

text \<open>
  \<open>fetch_ptr_and_offset\<close> and \<open>fetch_value_and_offset\<close> are \<open>fetch_register_and_imm32\<close>. A missing
  \<open>MemoryIndex\<close> word stands for the default memory; a present one is skipped.
\<close>

definition fetch_optional_memory :: "('h, 'e) exec_env \<Rightarrow> 'h exec \<Rightarrow> 'e xerr + mem_idx \<times> 'h exec" where
  "fetch_optional_memory env ex = rbind (fetch_param env 1 ex) (\<lambda>i. case i of
      IParam (IMemoryIndex m) \<Rightarrow> Inr (m, next_instr ex) | _ \<Rightarrow> Inr (0, ex))"

definition fetch_memory_bytes :: "mem_idx \<Rightarrow> 'h exec \<Rightarrow> 'e xerr + u8 list" where
  "fetch_memory_bytes m ex =
    (if m = 0 then cached_memory_data ex
     else rbind (get_entity in_memories m ex) (\<lambda>h.
          rbind (resolve (ws_memories (ex_store ex)) h) (\<lambda>e. Inr (memory_data e))))"

definition exec_load_extend :: "mem_idx \<Rightarrow> reg \<Rightarrow> untyped_val \<Rightarrow> u32
    \<Rightarrow> (u8 list \<Rightarrow> untyped_val \<Rightarrow> u32 \<Rightarrow> trap_code + untyped_val) \<Rightarrow> 'h exec \<Rightarrow> 'e xerr + 'h exec" where
  "exec_load_extend m result address offset f ex =
    rbind (fetch_memory_bytes m ex) (\<lambda>bytes.
    rbind (lift_trap (f bytes address offset)) (\<lambda>v. set_register result v ex))"

primrec exec_load :: "('h, 'e) exec_env \<Rightarrow> load_instr \<Rightarrow> 'h exec \<Rightarrow> 'e xerr + 'h exec" where
  "exec_load env (ILoad op result m) ex =
    rbind (fetch_register_and_imm32 env ex) (\<lambda>(ptr, offset).
    rbind (get_register ex ptr) (\<lambda>address.
    rbind (exec_load_extend m result address offset (load_fn op) ex) (\<lambda>ex. Inr (next_instr_at 2 ex))))"
| "exec_load env (ILoadAt op result address) ex =
    rbind (fetch_optional_memory env ex) (\<lambda>(m, ex).
    rbind (exec_load_extend m result 0 address (load_fn op) ex) (\<lambda>ex. Inr (next_instr ex)))"
| "exec_load env (ILoadOffset16 op result ptr offset) ex =
    rbind (get_register ex ptr) (\<lambda>address.
    rbind (exec_load_extend 0 result address (u32_of_const16 offset) (load_fn op) ex) (\<lambda>ex.
      Inr (next_instr ex)))"


section \<open>Stores\<close>

definition fetch_value_and_offset_imm :: "('h, 'e) exec_env \<Rightarrow> 'h exec \<Rightarrow> 'e xerr + u16 \<times> u32" where
  "fetch_value_and_offset_imm env ex = rbind (fetch_param env 1 ex) (\<lambda>i. case i of
      IParam (IImm16AndImm32 imm16 imm32) \<Rightarrow> Inr (imm16, imm32) | _ \<Rightarrow> Inl XUB)"

definition put_memory_bytes :: "mem_idx \<Rightarrow> u8 list \<Rightarrow> 'h exec \<Rightarrow> 'e xerr + 'h exec" where
  "put_memory_bytes m bytes ex =
    (if m = 0 then Inr (cached_memory_set_data bytes ex)
     else rbind (get_entity in_memories m ex) (\<lambda>h.
          rbind (resolve (ws_memories (ex_store ex)) h) (\<lambda>e.
            Inr (ex\<lparr>ex_store := put_memory h (memory_set_data bytes e) (ex_store ex)\<rparr>))))"

definition exec_store_wrap :: "mem_idx \<Rightarrow> untyped_val \<Rightarrow> u32 \<Rightarrow> untyped_val
    \<Rightarrow> (u8 list \<Rightarrow> untyped_val \<Rightarrow> u32 \<Rightarrow> untyped_val \<Rightarrow> trap_code + u8 list) \<Rightarrow> 'h exec \<Rightarrow> 'e xerr + 'h exec" where
  "exec_store_wrap m address offset v f ex =
    rbind (fetch_memory_bytes m ex) (\<lambda>bytes.
    rbind (lift_trap (f bytes address offset v)) (\<lambda>bytes'. put_memory_bytes m bytes' ex))"

primrec exec_store :: "('h, 'e) exec_env \<Rightarrow> store_instr \<Rightarrow> 'h exec \<Rightarrow> 'e xerr + 'h exec" where
  "exec_store env (IStore op ptr m) ex =
    rbind (fetch_register_and_imm32 env ex) (\<lambda>(r, offset).
    rbind (get_register ex ptr) (\<lambda>address.
    rbind (get_register ex r) (\<lambda>v.
    rbind (exec_store_wrap m address offset v (store_fn op) ex) (\<lambda>ex. Inr (next_instr_at 2 ex)))))"
| "exec_store env (IStoreImm op ptr m) ex =
    rbind (fetch_value_and_offset_imm env ex) (\<lambda>(imm, offset).
    rbind (get_register ex ptr) (\<lambda>address.
    rbind (exec_store_wrap m address offset (istore_imm op imm) (istore_fn op) ex) (\<lambda>ex.
      Inr (next_instr_at 2 ex))))"
| "exec_store env (IStoreOffset16 op ptr offset r) ex =
    rbind (get_register ex ptr) (\<lambda>address.
    rbind (get_register ex r) (\<lambda>v.
    rbind (exec_store_wrap 0 address (u32_of_const16 offset) v (store_fn op) ex) (\<lambda>ex.
      Inr (next_instr ex))))"
| "exec_store env (IStoreOffset16Imm op ptr offset imm) ex =
    rbind (get_register ex ptr) (\<lambda>address.
    rbind (exec_store_wrap 0 address (u32_of_const16 offset) (istore_imm op imm) (istore_fn op) ex) (\<lambda>ex.
      Inr (next_instr ex)))"
| "exec_store env (IStoreAt op r address) ex =
    rbind (fetch_optional_memory env ex) (\<lambda>(m, ex).
    rbind (get_register ex r) (\<lambda>v.
    rbind (exec_store_wrap m 0 address v (store_fn op) ex) (\<lambda>ex. Inr (next_instr ex))))"
| "exec_store env (IStoreAtImm op imm address) ex =
    rbind (fetch_optional_memory env ex) (\<lambda>(m, ex).
    rbind (exec_store_wrap m 0 address (istore_imm op imm) (istore_fn op) ex) (\<lambda>ex.
      Inr (next_instr ex)))"

end
