(* ===== verification/Exec_Control.thy ===== *)
theory Exec_Control
  imports Exec_Data
begin

text \<open>
  Branches and returns: \<open>executor/instrs/branch.rs\<close> and \<open>executor/instrs/return_.rs\<close>.
\<close>


section \<open>Returns\<close>

datatype control_flow = Continue | Break

definition return_impl :: "'h exec \<Rightarrow> 'e xerr + control_flow \<times> 'h exec" where
  "return_impl ex =
    (case cs_pop (st_calls (ex_stack ex)) of
       (None, _) \<Rightarrow> Inl XPanic
     | (Some (returned, popped_instance), calls) \<Rightarrow>
         rbind (ok_or XPanic (vs_truncate (cf_frame_offset returned) (st_values (ex_stack ex)))) (\<lambda>vals.
         let ex1 = ex\<lparr>ex_stack := (ex_stack ex)\<lparr>st_calls := calls, st_values := vals\<rparr>\<rparr>;
             new_instance = Option.bind popped_instance (\<lambda>_. cs_instance calls)
         in rbind (case new_instance of None \<Rightarrow> Inr ex1 | Some i \<Rightarrow> cache_update i ex1) (\<lambda>ex2.
            case cs_peek calls of
              Some caller \<Rightarrow> Inr (Continue, init_call_frame caller ex2)
            | None \<Rightarrow> Inr (Break, ex2))))"

definition return_caller_results :: "'h exec \<Rightarrow> 'e xerr + nat \<times> reg_span" where
  "return_caller_results ex =
    rbind (ok_or XPanic (cs_peek_2 (st_calls (ex_stack ex)))) (\<lambda>(callee, caller).
      case caller of
        Some caller \<Rightarrow> Inr (cf_base_offset caller, cf_results callee)
      | None \<Rightarrow> Inr (0, 0))"

definition exec_return_value :: "('h exec \<Rightarrow> 'e xerr + untyped_val) \<Rightarrow> 'h exec
    \<Rightarrow> 'e xerr + control_flow \<times> 'h exec" where
  "exec_return_value f ex =
    rbind (return_caller_results ex) (\<lambda>(caller_sp, results).
    rbind (f ex) (\<lambda>v.
    rbind (set_register_at caller_sp results v ex) return_impl))"

text \<open>Pairs of a result register of the caller and a value register of the callee.\<close>

primrec copy_to_caller :: "nat \<Rightarrow> (reg \<times> reg) list \<Rightarrow> 'h exec \<Rightarrow> 'e xerr + 'h exec" where
  "copy_to_caller caller_sp [] ex = Inr ex"
| "copy_to_caller caller_sp (p # ps) ex =
    rbind (get_register ex (snd p)) (\<lambda>v.
    rbind (set_register_at caller_sp (fst p) v ex) (copy_to_caller caller_sp ps))"

definition exec_return_reg_n_impl :: "reg list \<Rightarrow> 'h exec \<Rightarrow> 'e xerr + control_flow \<times> 'h exec" where
  "exec_return_reg_n_impl vals ex =
    rbind (return_caller_results ex) (\<lambda>(caller_sp, results).
    rbind (span_iter results (of_nat (length vals))) (\<lambda>rs.
    rbind (copy_to_caller caller_sp (zip rs vals) ex) return_impl))"

definition exec_return_span :: "bounded_reg_span \<Rightarrow> 'h exec \<Rightarrow> 'e xerr + control_flow \<times> 'h exec" where
  "exec_return_span vals ex =
    rbind (return_caller_results ex) (\<lambda>(caller_sp, results).
    rbind (span_iter results (brs_len vals)) (\<lambda>rs.
    rbind (span_iter (brs_span vals) (brs_len vals)) (\<lambda>vs.
    rbind (copy_to_caller caller_sp (zip rs vs) ex) return_impl)))"

definition copy_many_return_values :: "('h, 'e) exec_env \<Rightarrow> instr_ptr \<Rightarrow> reg list \<Rightarrow> 'h exec
    \<Rightarrow> 'e xerr + 'h exec" where
  "copy_many_return_values env ip vals ex =
    rbind (return_caller_results ex) (\<lambda>(caller_sp, results).
    rbind (collect_registers env ip) (\<lambda>(regs, _).
      copy_to_caller caller_sp (zip (next_registers results (length (vals @ regs))) (vals @ regs)) ex))"

definition exec_return_many :: "('h, 'e) exec_env \<Rightarrow> reg list \<Rightarrow> 'h exec
    \<Rightarrow> 'e xerr + control_flow \<times> 'h exec" where
  "exec_return_many env vals ex =
    (let ex = next_instr ex in rbind (copy_many_return_values env (ex_ip ex) vals ex) return_impl)"

definition exec_return_nez_impl :: "reg \<Rightarrow> ('h exec \<Rightarrow> 'e xerr + control_flow \<times> 'h exec) \<Rightarrow> 'h exec
    \<Rightarrow> 'e xerr + control_flow \<times> 'h exec" where
  "exec_return_nez_impl condition f ex =
    rbind (get_register ex condition) (\<lambda>c.
      if to_bool c then f ex else Inr (Continue, next_instr ex))"

definition exec_return_nez_many :: "('h, 'e) exec_env \<Rightarrow> reg \<Rightarrow> reg list \<Rightarrow> 'h exec
    \<Rightarrow> 'e xerr + control_flow \<times> 'h exec" where
  "exec_return_nez_many env condition vals ex =
    rbind (get_register ex condition) (\<lambda>c.
      let ex = next_instr ex
      in if to_bool c then rbind (copy_many_return_values env (ex_ip ex) vals ex) return_impl
         else rbind (skip_register_list env (ex_ip ex)) (\<lambda>ip. Inr (Continue, ex\<lparr>ex_ip := ip\<rparr>)))"

primrec exec_return :: "('h, 'e) exec_env \<Rightarrow> return_instr \<Rightarrow> 'h exec
    \<Rightarrow> 'e xerr + control_flow \<times> 'h exec" where
  "exec_return env IReturn = return_impl"
| "exec_return env (IReturnReg v) = exec_return_value (\<lambda>ex. get_register ex v)"
| "exec_return env (IReturnReg2 v0 v1) = exec_return_reg_n_impl [v0, v1]"
| "exec_return env (IReturnReg3 v0 v1 v2) = exec_return_reg_n_impl [v0, v1, v2]"
| "exec_return env (IReturnImm v) = exec_return_value (\<lambda>_. Inr (imm32_val (env_nan env) v))"
| "exec_return env (IReturnSpan vals) = exec_return_span vals"
| "exec_return env (IReturnMany v0 v1 v2) = exec_return_many env [v0, v1, v2]"
| "exec_return env (IReturnNez c) = exec_return_nez_impl c return_impl"
| "exec_return env (IReturnNezReg c v) =
    exec_return_nez_impl c (exec_return_value (\<lambda>ex. get_register ex v))"
| "exec_return env (IReturnNezReg2 c v0 v1) = exec_return_nez_impl c (exec_return_reg_n_impl [v0, v1])"
| "exec_return env (IReturnNezImm c v) =
    exec_return_nez_impl c (exec_return_value (\<lambda>_. Inr (imm32_val (env_nan env) v)))"
| "exec_return env (IReturnNezSpan c vals) = exec_return_nez_impl c (exec_return_span vals)"
| "exec_return env (IReturnNezMany c v0 v1) = exec_return_nez_many env c [v0, v1]"


section \<open>Branches\<close>

definition branch_to :: "branch_offset \<Rightarrow> 'h exec \<Rightarrow> 'h exec" where
  "branch_to offset ex = ex\<lparr>ex_ip := ip_offset (sint offset) (ex_ip ex)\<rparr>"

definition branch_to16 :: "branch_offset16 \<Rightarrow> 'h exec \<Rightarrow> 'h exec" where
  "branch_to16 offset ex = ex\<lparr>ex_ip := ip_offset (sint offset) (ex_ip ex)\<rparr>"

text \<open>A table without targets makes the subtraction overflow.\<close>

definition fetch_branch_table_offset :: "reg \<Rightarrow> u32 \<Rightarrow> 'h exec \<Rightarrow> 'e xerr + nat" where
  "fetch_branch_table_offset index len_targets ex =
    rbind (get_register_u32 ex index) (\<lambda>i.
      if len_targets = 0 then Inl XPanic
      else Inr (min (unat i) (unat len_targets - 1) + 1))"

definition exec_branch_table_0 :: "reg \<Rightarrow> u32 \<Rightarrow> 'h exec \<Rightarrow> 'e xerr + 'h exec" where
  "exec_branch_table_0 index len_targets ex =
    rbind (fetch_branch_table_offset index len_targets ex) (\<lambda>offset. Inr (next_instr_at offset ex))"

text \<open>
  A target other than \<open>BranchTableTarget\<close> (a return, or a plain branch) is left to the next step.
\<close>

definition branch_table_jump :: "('h, 'e) exec_env \<Rightarrow> (reg_span \<Rightarrow> 'h exec \<Rightarrow> 'e xerr + 'h exec) \<Rightarrow> 'h exec
    \<Rightarrow> 'e xerr + 'h exec" where
  "branch_table_jump env copy ex =
    rbind (fetch_instr env (ex_ip ex)) (\<lambda>i. case i of
        IParam (IBranchTableTarget results offset) \<Rightarrow>
          rbind (copy results ex) (\<lambda>ex. Inr (branch_to offset ex))
      | _ \<Rightarrow> Inr ex)"

definition branch_table_1_value :: "('h, 'e) exec_env \<Rightarrow> 'h exec \<Rightarrow> 'e xerr + untyped_val" where
  "branch_table_1_value env ex =
    rbind (fetch_instr env (ex_ip ex)) (\<lambda>i. case i of
        IParam (IRegister r) \<Rightarrow> get_register ex r
      | IParam (IConst32 c) \<Rightarrow> Inr (imm32_val (env_nan env) (AnyImm32 c))
      | IParam (II64Const32 c) \<Rightarrow> Inr (imm32_val (env_nan env) (I64Imm32 c))
      | IParam (IF64Const32 c) \<Rightarrow> Inr (imm32_val (env_nan env) (F64Imm32 c))
      | _ \<Rightarrow> Inl XUB)"

definition exec_branch_table_1 :: "('h, 'e) exec_env \<Rightarrow> reg \<Rightarrow> u32 \<Rightarrow> 'h exec \<Rightarrow> 'e xerr + 'h exec" where
  "exec_branch_table_1 env index len_targets ex =
    rbind (fetch_branch_table_offset index len_targets ex) (\<lambda>offset.
    let ex = next_instr ex
    in rbind (branch_table_1_value env ex) (\<lambda>v.
       branch_table_jump env (\<lambda>results. set_register results v) (next_instr_at offset ex)))"

definition copy_values_to_span :: "reg list \<Rightarrow> reg_span \<Rightarrow> 'h exec \<Rightarrow> 'e xerr + 'h exec" where
  "copy_values_to_span regs results ex =
    rbind (get_registers ex regs) (\<lambda>vs.
    rbind (span_iter results (of_nat (length regs))) (\<lambda>rs. set_registers (zip rs vs) ex))"

definition exec_branch_table_2 :: "('h, 'e) exec_env \<Rightarrow> reg \<Rightarrow> u32 \<Rightarrow> 'h exec \<Rightarrow> 'e xerr + 'h exec" where
  "exec_branch_table_2 env index len_targets ex =
    rbind (fetch_branch_table_offset index len_targets ex) (\<lambda>offset.
    let ex = next_instr ex
    in rbind (fetch_instr env (ex_ip ex)) (\<lambda>i. case i of
         IParam (IRegister2 r0 r1) \<Rightarrow>
           branch_table_jump env (copy_values_to_span [r0, r1]) (next_instr_at offset ex)
       | _ \<Rightarrow> Inl XUB))"

definition exec_branch_table_3 :: "('h, 'e) exec_env \<Rightarrow> reg \<Rightarrow> u32 \<Rightarrow> 'h exec \<Rightarrow> 'e xerr + 'h exec" where
  "exec_branch_table_3 env index len_targets ex =
    rbind (fetch_branch_table_offset index len_targets ex) (\<lambda>offset.
    let ex = next_instr ex
    in rbind (fetch_instr env (ex_ip ex)) (\<lambda>i. case i of
         IParam (IRegister3 r0 r1 r2) \<Rightarrow>
           branch_table_jump env (copy_values_to_span [r0, r1, r2]) (next_instr_at offset ex)
       | _ \<Rightarrow> Inl XUB))"

definition exec_branch_table_span :: "('h, 'e) exec_env \<Rightarrow> reg \<Rightarrow> u32 \<Rightarrow> 'h exec \<Rightarrow> 'e xerr + 'h exec" where
  "exec_branch_table_span env index len_targets ex =
    rbind (fetch_branch_table_offset index len_targets ex) (\<lambda>offset.
    let ex = next_instr ex
    in rbind (fetch_instr env (ex_ip ex)) (\<lambda>i. case i of
         IParam (IRegisterSpan vals) \<Rightarrow>
           (let ex = next_instr_at offset ex
            in rbind (fetch_instr env (ex_ip ex)) (\<lambda>t. case t of
                 IParam (IBranchTableTarget results offset) \<Rightarrow>
                   rbind (exec_copy_span_impl results (brs_span vals) (brs_len vals) ex) (\<lambda>ex.
                     Inr (branch_to offset ex))
               | IParam (IBranchTableTargetNonOverlapping results offset) \<Rightarrow>
                   rbind (exec_copy_span_non_overlapping_impl results (brs_span vals) (brs_len vals) ex) (\<lambda>ex.
                     Inr (branch_to offset ex))
               | _ \<Rightarrow> Inr ex))
       | _ \<Rightarrow> Inl XUB))"

definition exec_branch_table_many :: "('h, 'e) exec_env \<Rightarrow> reg \<Rightarrow> u32 \<Rightarrow> 'h exec \<Rightarrow> 'e xerr + 'h exec" where
  "exec_branch_table_many env index len_targets ex =
    rbind (fetch_branch_table_offset index len_targets ex) (\<lambda>offset.
    let ip_list = ex_ip (next_instr ex)
    in rbind (skip_register_list env ip_list) (\<lambda>ip.
       let ex = ex\<lparr>ex_ip := ip_add (offset - 1) ip\<rparr>
       in rbind (fetch_instr env (ex_ip ex)) (\<lambda>t. case t of
            IParam (IBranchTableTarget results offset) \<Rightarrow>
              rbind (exec_copy_many_impl env ip_list results [] ex) (\<lambda>(_, ex). Inr (branch_to offset ex))
          | IParam (IBranchTableTargetNonOverlapping results offset) \<Rightarrow>
              rbind (exec_copy_many_non_overlapping_impl env ip_list results [] ex) (\<lambda>(_, ex).
                Inr (branch_to offset ex))
          | IRet IReturn \<Rightarrow> copy_many_return_values env ip_list [] ex
          | _ \<Rightarrow> Inl XUB)))"

definition exec_branch_binop :: "reg \<Rightarrow> reg \<Rightarrow> branch_offset \<Rightarrow> comparator \<Rightarrow> 'h exec
    \<Rightarrow> 'e xerr + 'h exec" where
  "exec_branch_binop lhs rhs offset cmp ex =
    rbind (get_register ex lhs) (\<lambda>l.
    rbind (get_register ex rhs) (\<lambda>r.
      Inr (if comparator_holds cmp l r then branch_to offset ex else next_instr ex)))"

definition exec_branch_binop_imm :: "reg \<Rightarrow> untyped_val \<Rightarrow> branch_offset16 \<Rightarrow> comparator \<Rightarrow> 'h exec
    \<Rightarrow> 'e xerr + 'h exec" where
  "exec_branch_binop_imm lhs rhs offset cmp ex =
    rbind (get_register ex lhs) (\<lambda>l.
      Inr (if comparator_holds cmp l rhs then branch_to16 offset ex else next_instr ex))"

definition exec_branch_cmp_fallback :: "reg \<Rightarrow> reg \<Rightarrow> reg \<Rightarrow> 'h exec \<Rightarrow> 'e xerr + 'h exec" where
  "exec_branch_cmp_fallback lhs rhs params ex =
    rbind (get_register ex params) (\<lambda>p.
    rbind (ok_or XPanic (co_from_untyped p)) (\<lambda>params.
      exec_branch_binop lhs rhs (co_offset params) (co_cmp params) ex))"

primrec exec_branch :: "('h, 'e) exec_env \<Rightarrow> branch_instr \<Rightarrow> 'h exec \<Rightarrow> 'e xerr + 'h exec" where
  "exec_branch env (IBranch offset) ex = Inr (branch_to offset ex)"
| "exec_branch env (IBranchCmpFallback lhs rhs params) ex = exec_branch_cmp_fallback lhs rhs params ex"
| "exec_branch env (IBranchCmp cmp lhs rhs offset) ex =
    exec_branch_binop lhs rhs (branch_offset_of16 offset) cmp ex"
| "exec_branch env (IBranchCmpImm cmp lhs rhs offset) ex =
    rbind (ok_or XUB (comparator_imm cmp rhs)) (\<lambda>r. exec_branch_binop_imm lhs r offset cmp ex)"
| "exec_branch env (IBranchTable0 index len_targets) ex = exec_branch_table_0 index len_targets ex"
| "exec_branch env (IBranchTable1 index len_targets) ex = exec_branch_table_1 env index len_targets ex"
| "exec_branch env (IBranchTable2 index len_targets) ex = exec_branch_table_2 env index len_targets ex"
| "exec_branch env (IBranchTable3 index len_targets) ex = exec_branch_table_3 env index len_targets ex"
| "exec_branch env (IBranchTableSpan index len_targets) ex = exec_branch_table_span env index len_targets ex"
| "exec_branch env (IBranchTableMany index len_targets) ex = exec_branch_table_many env index len_targets ex"

end
