(* ===== verification/Exec_Call.thy ===== *)
theory Exec_Call
  imports Exec_Data
begin

text \<open>
  Calls and tail calls of internal, imported and indirect functions:
  \<open>executor/instrs/call.rs\<close>. The marker types \<open>ReturnCall0\<close>, \<open>ReturnCall\<close>, \<open>NestedCall0\<close>, \<open>NestedCall\<close>
  are the two constants of their trait, \<open>KIND\<close> and \<open>HAS_PARAMS\<close>.
\<close>

datatype call_kind = Nested | Tail

record call_context =
  cx_kind :: call_kind
  cx_has_params :: bool

definition return_call_0 :: call_context where "return_call_0 = \<lparr>cx_kind = Tail, cx_has_params = False\<rparr>"
definition return_call :: call_context where "return_call = \<lparr>cx_kind = Tail, cx_has_params = True\<rparr>"
definition nested_call_0 :: call_context where "nested_call_0 = \<lparr>cx_kind = Nested, cx_has_params = False\<rparr>"
definition nested_call :: call_context where "nested_call = \<lparr>cx_kind = Nested, cx_has_params = True\<rparr>"

definition update_instr_ptr_at :: "nat \<Rightarrow> 'h exec \<Rightarrow> 'e xerr + 'h exec" where
  "update_instr_ptr_at offset ex =
    (let ip = ip_add offset (ex_ip ex)
     in rmap (\<lambda>calls. ex\<lparr>ex_ip := ip, ex_stack := (ex_stack ex)\<lparr>st_calls := calls\<rparr>\<rparr>)
          (ok_or XPanic (cs_update_top (cf_update_instr_ptr ip) (st_calls (ex_stack ex)))))"

text \<open>
  The parameter word that follows the indirect call: the index into the table is a register or a
  16-bit constant.
\<close>

definition pull_call_indirect_params :: "('h, 'e) exec_env \<Rightarrow> 'h exec
    \<Rightarrow> 'e xerr + (u32 \<times> table_idx) \<times> 'h exec" where
  "pull_call_indirect_params env ex =
    (let ex = next_instr ex
     in rbind (fetch_instr env (ex_ip ex)) (\<lambda>i. case i of
          IParam (ICallIndirectParams index table) \<Rightarrow>
            rmap (\<lambda>index. ((index, table), ex)) (get_register_u32 ex index)
        | _ \<Rightarrow> Inl XUB))"

definition pull_call_indirect_params_imm16 :: "('h, 'e) exec_env \<Rightarrow> 'h exec
    \<Rightarrow> 'e xerr + (u32 \<times> table_idx) \<times> 'h exec" where
  "pull_call_indirect_params_imm16 env ex =
    (let ex = next_instr ex
     in rbind (fetch_instr env (ex_ip ex)) (\<lambda>i. case i of
          IParam (ICallIndirectParamsImm16 index table) \<Rightarrow>
            Inr ((u32_of_const16 index, table), ex)
        | _ \<Rightarrow> Inl XUB))"

text \<open>\<open>copy_regs\<close>: the parameters are read in the frame of the caller, one cell after the other.\<close>

primrec copy_regs :: "reg list \<Rightarrow> frame_params \<times> 'h exec \<Rightarrow> 'e xerr + frame_params \<times> 'h exec" where
  "copy_regs [] pe = Inr pe"
| "copy_regs (r # rs) pe =
    rbind (get_register (snd pe) r) (\<lambda>v.
    rbind (ok_or XUB (fp_init_next v (fst pe) (st_values (ex_stack (snd pe))))) (\<lambda>(p, vals).
      copy_regs rs (p, (snd pe)\<lparr>ex_stack := (ex_stack (snd pe))\<lparr>st_values := vals\<rparr>\<rparr>)))"

text \<open>
  \<open>copy_call_params\<close>: the register lists and their last word; the instruction pointer is left at
  the last word. All words are collected first: they are code, which no copy changes.
\<close>

definition copy_call_params :: "('h, 'e) exec_env \<Rightarrow> frame_params \<Rightarrow> 'h exec
    \<Rightarrow> 'e xerr + frame_params \<times> 'h exec" where
  "copy_call_params env p ex =
    rbind (collect_registers env (ip_add 1 (ex_ip ex))) (\<lambda>(regs, ip).
      rmap (\<lambda>(p, ex). (p, ex\<lparr>ex_ip := ip\<rparr>)) (copy_regs regs (p, ex)))"

definition caller_frame :: "'h exec \<Rightarrow> 'e xerr + call_frame" where
  "caller_frame ex = ok_or XPanic (cs_peek (st_calls (ex_stack ex)))"

text \<open>
  The stack pointer of the caller is taken again after the allocation, which may move the value
  stack. The frame of the callee starts at the first instruction.
\<close>

definition dispatch_compiled_func :: "('h, 'e) exec_env \<Rightarrow> call_context \<Rightarrow> reg_span \<Rightarrow> engine_func
    \<Rightarrow> 'h exec \<Rightarrow> 'e xerr + call_frame \<times> 'h exec" where
  "dispatch_compiled_func env cx results func ex =
    (let code = env_code env func
     in rbind (caller_frame ex) (\<lambda>caller.
        rbind (lift_trap (vs_alloc_call_frame (unat (cm_len_registers code)) (cm_consts code)
            (st_values (ex_stack ex)))) (\<lambda>(p, offsets, vals).
        let ex1 = ex\<lparr>ex_sp := cf_base_offset caller, ex_stack := (ex_stack ex)\<lparr>st_values := vals\<rparr>\<rparr>;
            frame = call_frame_new func \<lparr>ip_func = func, ip_index = 0\<rparr> offsets results
        in rbind (if cx_has_params cx then copy_call_params env p ex1 else Inr (p, ex1)) (\<lambda>(p, ex2).
           rbind (ok_or XUB (fp_init_zeroes p (st_values (ex_stack ex2)))) (\<lambda>vals.
             Inr (frame, ex2\<lparr>ex_stack := (ex_stack ex2)\<lparr>st_values := vals\<rparr>\<rparr>))))))"

text \<open>
  A nested call stores the return address in the frame of the caller; a tail call replaces that
  frame, and the callee stays in the instance of the caller unless it comes with its own.
\<close>

definition prepare_compiled_func_call :: "('h, 'e) exec_env \<Rightarrow> call_context \<Rightarrow> reg_span \<Rightarrow> engine_func
    \<Rightarrow> instance_h option \<Rightarrow> 'h exec \<Rightarrow> 'e xerr + 'h exec" where
  "prepare_compiled_func_call env cx results func inst ex =
    rbind (env_compile env func (ws_fuel (ex_store ex))) (\<lambda>f.
    rbind (dispatch_compiled_func env cx results func (ex\<lparr>ex_store := (ex_store ex)\<lparr>ws_fuel := f\<rparr>\<rparr>))
      (\<lambda>(called, ex1).
    rbind (case cx_kind cx of
        Nested \<Rightarrow> rmap (\<lambda>ex2. (called, inst, ex2)) (update_instr_ptr_at 1 ex1)
      | Tail \<Rightarrow>
          rmap (\<lambda>(caller_instance, called', st).
              (called', (case inst of Some i \<Rightarrow> Some i | None \<Rightarrow> caller_instance), ex1\<lparr>ex_stack := st\<rparr>))
            (ok_or XPanic (merge_call_frames called (ex_stack ex1))))
      (\<lambda>(called, inst, ex2).
    let ex3 = init_call_frame called ex2
    in rbind (lift_trap (cs_push called inst (st_calls (ex_stack ex3)))) (\<lambda>calls.
         Inr (ex3\<lparr>ex_stack := (ex_stack ex3)\<lparr>st_calls := calls\<rparr>\<rparr>)))))"

text \<open>The results of the top frame: where a tail call delivers its values.\<close>

definition caller_results :: "'h exec \<Rightarrow> 'e xerr + reg_span" where
  "caller_results ex = rmap cf_results (caller_frame ex)"

definition exec_return_call_internal_impl :: "('h, 'e) exec_env \<Rightarrow> call_context \<Rightarrow> engine_func \<Rightarrow> 'h exec
    \<Rightarrow> 'e xerr + 'h exec" where
  "exec_return_call_internal_impl env cx func ex =
    rbind (caller_results ex) (\<lambda>results. prepare_compiled_func_call env cx results func None ex)"

definition store_invoke_call_hook :: "('h, 'e) exec_env \<Rightarrow> call_hook \<Rightarrow> 'h exec \<Rightarrow> 'e xerr + 'h exec" where
  "store_invoke_call_hook env hook ex =
    (case env_hook env hook (ws_data (ex_store ex)) of
       (Inl e, _) \<Rightarrow> Inl (XHost e)
     | (Inr _, d) \<Rightarrow> Inr (ex\<lparr>ex_store := (ex_store ex)\<lparr>ws_data := d\<rparr>\<rparr>))"

text \<open>
  The last cells of the value stack are the parameters of the host function and then its results,
  in place. A failing call removes them from the stack.
\<close>

definition dispatch_host_func :: "('h, 'e) exec_env \<Rightarrow> host_func_entity \<Rightarrow> instance_h option \<Rightarrow> 'h exec
    \<Rightarrow> 'e xerr + ('e + unit) \<times> 'h exec" where
  "dispatch_host_func env hf inst ex =
    (let len_params = unat (hf_len_params hf);
         len_results = unat (hf_len_results hf);
         max_inout = max len_params len_results;
         vals = vs_values (st_values (ex_stack ex))
     in if length vals < max_inout then Inl XPanic
        else let start = length vals - max_inout
             in case env_host env (hf_trampoline hf) inst (take len_params (drop start vals)) len_results
                  (ex_store ex) of
                  (Inl e, s) \<Rightarrow>
                    rmap (\<lambda>v. (Inl e, ex\<lparr>ex_store := s, ex_stack := (ex_stack ex)\<lparr>st_values := v\<rparr>\<rparr>))
                      (ok_or XPanic (vs_drop max_inout (st_values (ex_stack ex))))
                | (Inr rs, s) \<Rightarrow>
                    Inr (Inr (), ex\<lparr>ex_store := s, ex_stack := (ex_stack ex)\<lparr>st_values :=
                      (st_values (ex_stack ex))\<lparr>vs_values :=
                        take (length vals) (put_range start (take len_results rs) vals)\<rparr>\<rparr>\<rparr>))"

text \<open>The buffer of a host function call on the value stack; the caller of a tail call is popped.\<close>

definition host_func_buffer :: "call_kind \<Rightarrow> nat \<Rightarrow> 'h exec \<Rightarrow> 'e xerr + frame_params \<times> 'h exec" where
  "host_func_buffer kind max_inout ex =
    (let (caller, calls) = (case kind of
           Nested \<Rightarrow> (cs_peek (st_calls (ex_stack ex)), st_calls (ex_stack ex))
         | Tail \<Rightarrow> (let (r, calls) = cs_pop (st_calls (ex_stack ex)) in (map_option fst r, calls)))
     in rbind (ok_or XPanic caller) (\<lambda>caller.
        rbind (lift_trap (vs_extend_by max_inout (st_values (ex_stack ex)))) (\<lambda>vals.
          let start = length (vs_values (st_values (ex_stack ex)))
          in Inr (\<lparr>fp_start = start, fp_end = start + max_inout\<rparr>,
               ex\<lparr>ex_sp := cf_base_offset caller, ex_stack := \<lparr>st_calls = calls, st_values = vals\<rparr>\<rparr>))))"

definition exec_host_func :: "('h, 'e) exec_env \<Rightarrow> call_context \<Rightarrow> reg_span \<Rightarrow> func_h \<Rightarrow> host_func_entity
    \<Rightarrow> 'h exec \<Rightarrow> 'e xerr + 'h exec" where
  "exec_host_func env cx results func hf ex =
    (let max_inout = max (unat (hf_len_params hf)) (unat (hf_len_results hf))
     in rbind (ok_or XPanic (cs_instance (st_calls (ex_stack ex)))) (\<lambda>inst.
        rbind (host_func_buffer (cx_kind cx) max_inout ex) (\<lambda>(p, ex1).
        rbind (if cx_has_params cx then rmap snd (copy_call_params env p ex1) else Inr ex1) (\<lambda>ex2.
        rbind (if cx_kind cx = Nested then update_instr_ptr_at 1 ex2 else Inr ex2) (\<lambda>ex3.
        rbind (dispatch_host_func env hf (Some inst) ex3) (\<lambda>(outcome, ex4).
          case outcome of
            Inl e \<Rightarrow>
              Inl (if cs_is_empty (st_calls (ex_stack ex4)) then XHost e else XResumableHost e func results)
          | Inr _ \<Rightarrow>
              rbind (cache_update inst ex4) (\<lambda>ex5.
              rbind (span_iter results (hf_len_results hf)) (\<lambda>rs.
              rbind (ok_or XPanic (vs_drop_return max_inout (st_values (ex_stack ex5)))) (\<lambda>(returned, vals).
                set_registers (zip rs returned)
                  (ex5\<lparr>ex_stack := (ex_stack ex5)\<lparr>st_values := vals\<rparr>\<rparr>))))))))))"

definition exec_call_imported_impl :: "('h, 'e) exec_env \<Rightarrow> call_context \<Rightarrow> reg_span \<Rightarrow> func_h \<Rightarrow> 'h exec
    \<Rightarrow> 'e xerr + 'h exec" where
  "exec_call_imported_impl env cx results func ex =
    rbind (resolve (ws_funcs (ex_store ex)) func) (\<lambda>entity. case entity of
        WasmFunc w \<Rightarrow>
          rbind (prepare_compiled_func_call env cx results (wf_body w) (Some (wf_instance w)) ex)
            (cache_update (wf_instance w))
      | HostFunc hf \<Rightarrow>
          rbind (store_invoke_call_hook env CallingHost ex) (\<lambda>ex1.
          rbind (exec_host_func env cx results func hf ex1) (\<lambda>ex2.
            store_invoke_call_hook env ReturningFromHost ex2)))"

text \<open>A null reference is the zero of \<open>UntypedVal\<close>.\<close>

definition funcref_func :: "('h, 'e) exec_env \<Rightarrow> untyped_val \<Rightarrow> func_h option" where
  "funcref_func env v = (if v = 0 then None else Some (env_funcref env v))"

definition exec_call_indirect_impl :: "('h, 'e) exec_env \<Rightarrow> call_context \<Rightarrow> reg_span \<Rightarrow> func_type_idx
    \<Rightarrow> u32 \<Rightarrow> table_idx \<Rightarrow> 'h exec \<Rightarrow> 'e xerr + 'h exec" where
  "exec_call_indirect_impl env cx results func_type index table ex =
    rbind (get_entity in_tables table ex) (\<lambda>h.
    rbind (resolve (ws_tables (ex_store ex)) h) (\<lambda>t.
    rbind (ok_or (XTrap TableOutOfBounds) (table_get_untyped (unat index) t)) (\<lambda>v.
    rbind (ok_or (XTrap IndirectCallToNull) (funcref_func env v)) (\<lambda>func.
    rbind (resolve (ws_funcs (ex_store ex)) func) (\<lambda>entity.
    rbind (get_entity in_func_types func_type ex) (\<lambda>expected.
      if func_ty_dedup entity \<noteq> expected then Inl (XTrap BadSignature)
      else exec_call_imported_impl env cx results func ex))))))"

text \<open>The four variants of an indirect call and of an indirect tail call.\<close>

definition exec_call_indirect :: "('h, 'e) exec_env \<Rightarrow> call_context
    \<Rightarrow> ('h exec \<Rightarrow> 'e xerr + (u32 \<times> table_idx) \<times> 'h exec) \<Rightarrow> reg_span \<Rightarrow> func_type_idx \<Rightarrow> 'h exec
    \<Rightarrow> 'e xerr + (u32 \<times> table_idx) \<times> 'h exec" where
  "exec_call_indirect env cx pull results func_type ex =
    rbind (pull ex) (\<lambda>((index, table), ex1).
      rmap (\<lambda>ex2. ((index, table), ex2)) (exec_call_indirect_impl env cx results func_type index table ex1))"

definition exec_return_call_indirect :: "('h, 'e) exec_env \<Rightarrow> call_context
    \<Rightarrow> ('h exec \<Rightarrow> 'e xerr + (u32 \<times> table_idx) \<times> 'h exec) \<Rightarrow> func_type_idx \<Rightarrow> 'h exec
    \<Rightarrow> 'e xerr + 'h exec" where
  "exec_return_call_indirect env cx pull func_type ex =
    rbind (pull ex) (\<lambda>((index, table), ex1).
    rbind (caller_results ex1) (\<lambda>results.
      exec_call_indirect_impl env cx results func_type index table ex1))"

definition exec_call_imported :: "('h, 'e) exec_env \<Rightarrow> call_context \<Rightarrow> reg_span \<Rightarrow> func_idx \<Rightarrow> 'h exec
    \<Rightarrow> 'e xerr + 'h exec" where
  "exec_call_imported env cx results func ex =
    rbind (get_entity in_funcs func ex) (\<lambda>f. exec_call_imported_impl env cx results f ex)"

definition exec_return_call_imported_impl :: "('h, 'e) exec_env \<Rightarrow> call_context \<Rightarrow> func_idx \<Rightarrow> 'h exec
    \<Rightarrow> 'e xerr + 'h exec" where
  "exec_return_call_imported_impl env cx func ex =
    rbind (get_entity in_funcs func ex) (\<lambda>f.
    rbind (caller_results ex) (\<lambda>results. exec_call_imported_impl env cx results f ex))"

text \<open>
  Every call; the element of the table that an indirect call went through is returned for the
  bookkeeping of the debugger.
\<close>

primrec exec_call :: "('h, 'e) exec_env \<Rightarrow> call_instr \<Rightarrow> 'h exec
    \<Rightarrow> 'e xerr + (u32 \<times> table_idx) option \<times> 'h exec" where
  "exec_call env (IReturnCallInternal0 func) ex =
    rmap (Pair None) (exec_return_call_internal_impl env return_call_0 func ex)"
| "exec_call env (IReturnCallInternal func) ex =
    rmap (Pair None) (exec_return_call_internal_impl env return_call func ex)"
| "exec_call env (IReturnCallImported0 func) ex =
    rmap (Pair None) (exec_return_call_imported_impl env return_call_0 func ex)"
| "exec_call env (IReturnCallImported func) ex =
    rmap (Pair None) (exec_return_call_imported_impl env return_call func ex)"
| "exec_call env (IReturnCallIndirect0 ft) ex =
    rmap (Pair None) (exec_return_call_indirect env return_call_0 (pull_call_indirect_params env) ft ex)"
| "exec_call env (IReturnCallIndirect0Imm16 ft) ex =
    rmap (Pair None) (exec_return_call_indirect env return_call_0 (pull_call_indirect_params_imm16 env) ft ex)"
| "exec_call env (IReturnCallIndirect ft) ex =
    rmap (Pair None) (exec_return_call_indirect env return_call (pull_call_indirect_params env) ft ex)"
| "exec_call env (IReturnCallIndirectImm16 ft) ex =
    rmap (Pair None) (exec_return_call_indirect env return_call (pull_call_indirect_params_imm16 env) ft ex)"
| "exec_call env (ICallInternal0 results func) ex =
    rmap (Pair None) (prepare_compiled_func_call env nested_call_0 results func None ex)"
| "exec_call env (ICallInternal results func) ex =
    rmap (Pair None) (prepare_compiled_func_call env nested_call results func None ex)"
| "exec_call env (ICallImported0 results func) ex =
    rmap (Pair None) (exec_call_imported env nested_call_0 results func ex)"
| "exec_call env (ICallImported results func) ex =
    rmap (Pair None) (exec_call_imported env nested_call results func ex)"
| "exec_call env (ICallIndirect0 results ft) ex =
    rmap (apfst Some) (exec_call_indirect env nested_call_0 (pull_call_indirect_params env) results ft ex)"
| "exec_call env (ICallIndirect0Imm16 results ft) ex =
    rmap (apfst Some) (exec_call_indirect env nested_call_0 (pull_call_indirect_params_imm16 env) results ft ex)"
| "exec_call env (ICallIndirect results ft) ex =
    rmap (apfst Some) (exec_call_indirect env nested_call (pull_call_indirect_params env) results ft ex)"
| "exec_call env (ICallIndirectImm16 results ft) ex =
    rmap (apfst Some) (exec_call_indirect env nested_call (pull_call_indirect_params_imm16 env) results ft ex)"

end
