(* ===== verification/Exec_Memory.thy ===== *)
theory Exec_Memory
  imports Exec_State
begin

text \<open>
  The instructions on linear memories and data segments of
  \<open>executor/instrs/memory.rs\<close>. The variants \<open>*To\<close>, \<open>*From\<close>, \<open>*Exact\<close> of the source differ in which
  operands are registers and which are 16-bit constants; here one instruction has three operands
  and \<open>operand_u32\<close> reads either kind.
\<close>

definition operand_u32 :: "operand \<Rightarrow> 'h exec \<Rightarrow> 'e xerr + u32" where
  "operand_u32 x ex = (case x of OpReg r \<Rightarrow> get_register_u32 ex r | OpConst c \<Rightarrow> Inr (u32_of_const16 c))"

definition byte_operand_val :: "byte_operand \<Rightarrow> 'h exec \<Rightarrow> 'e xerr + u8" where
  "byte_operand_val x ex = (case x of ByteReg r \<Rightarrow> rmap ucast (get_register ex r) | ByteImm b \<Rightarrow> Inr b)"

text \<open>The common beginning of the instructions with three operands: read from left to right.\<close>

definition operands3 :: "operand \<Rightarrow> operand \<Rightarrow> operand \<Rightarrow> 'h exec \<Rightarrow> 'e xerr + nat \<times> nat \<times> nat" where
  "operands3 dst src len ex =
    rbind (operand_u32 dst ex) (\<lambda>d.
    rbind (operand_u32 src ex) (\<lambda>s.
    rbind (operand_u32 len ex) (\<lambda>l. Inr (unat d, unat s, unat l))))"

definition fetch_memory_index :: "('h, 'e) exec_env \<Rightarrow> nat \<Rightarrow> 'h exec \<Rightarrow> 'e xerr + mem_idx" where
  "fetch_memory_index env offset ex = rbind (fetch_param env offset ex) (\<lambda>i. case i of
      IParam (IMemoryIndex m) \<Rightarrow> Inr m | _ \<Rightarrow> Inl XUB)"

definition fetch_data_segment_index :: "('h, 'e) exec_env \<Rightarrow> nat \<Rightarrow> 'h exec \<Rightarrow> 'e xerr + data_idx" where
  "fetch_data_segment_index env offset ex = rbind (fetch_param env offset ex) (\<lambda>i. case i of
      IParam (IDataIndex d) \<Rightarrow> Inr d | _ \<Rightarrow> Inl XUB)"

text \<open>A memory of the current instance with its entity.\<close>

definition memory_of :: "mem_idx \<Rightarrow> 'h exec \<Rightarrow> 'e xerr + memory_h \<times> memory_entity" where
  "memory_of index ex =
    rbind (get_entity in_memories index ex) (\<lambda>h.
      rmap (\<lambda>m. (h, m)) (resolve (ws_memories (ex_store ex)) h))"

definition put_ex_memory :: "memory_h \<Rightarrow> memory_entity \<Rightarrow> fuel \<Rightarrow> 'h exec \<Rightarrow> 'h exec" where
  "put_ex_memory h m f ex = ex\<lparr>ex_store := (put_memory h m (ex_store ex))\<lparr>ws_fuel := f\<rparr>\<rparr>"

definition exec_data_drop :: "data_idx \<Rightarrow> 'h exec \<Rightarrow> 'e xerr + 'h exec" where
  "exec_data_drop segment ex =
    rbind (get_entity in_data_segments segment ex) (\<lambda>h.
    rbind (resolve (ws_datas (ex_store ex)) h) (\<lambda>d.
      Inr (next_instr (ex\<lparr>ex_store := (ex_store ex)
        \<lparr>ws_datas := (ws_datas (ex_store ex))[h := data_segment_drop_bytes d]\<rparr>\<rparr>))))"

definition exec_memory_size_impl :: "reg \<Rightarrow> mem_idx \<Rightarrow> 'h exec \<Rightarrow> 'e xerr + 'h exec" where
  "exec_memory_size_impl result index ex =
    rbind (memory_of index ex) (\<lambda>(_, m). set_register result (of_i32 (of_nat (memory_size m))) ex)"

definition exec_memory_size :: "reg \<Rightarrow> mem_idx \<Rightarrow> 'h exec \<Rightarrow> 'e xerr + 'h exec" where
  "exec_memory_size result index ex =
    rbind (exec_memory_size_impl result index ex) (\<lambda>ex. Inr (next_instr ex))"

text \<open>\<open>EntityGrowError::ERROR_CODE\<close>.\<close>

definition grow_error_code :: u32 where "grow_error_code = - 1"

text \<open>
  The entity grows with the fuel and the resource limiter of the store. A successful growth moves
  the bytes, so the cached memory is taken again; a refused one yields the error code.
\<close>

definition exec_memory_grow_impl :: "('h, 'e) exec_env \<Rightarrow> reg \<Rightarrow> u32 \<Rightarrow> 'h exec \<Rightarrow> 'e xerr + 'h exec" where
  "exec_memory_grow_impl env result delta ex =
    rbind (fetch_memory_index env 1 ex) (\<lambda>index.
      if delta = 0 then
        rbind (exec_memory_size_impl result index ex) (\<lambda>ex. Inr (next_instr_at 2 ex))
      else
        rbind (memory_of index ex) (\<lambda>(h, m).
        rbind (ok_or XPanic (memory_grow (unat delta) (Some (ws_fuel (ex_store ex)))
            (limiter_ref_of (ex_store ex)) m)) (\<lambda>(r, m', fu, lim).
        let ex1 = put_ex_memory h m' (unwrap_or (ws_fuel (ex_store ex)) fu) ex;
            ex2 = ex1\<lparr>ex_store := put_limiter lim (ex_store ex1)\<rparr>
        in case r of
             Inr old \<Rightarrow>
               rbind (cache_update_memory ex2) (\<lambda>ex3.
               rbind (set_register result (of_i32 (of_nat old)) ex3) (\<lambda>ex4. Inr (next_instr_at 2 ex4)))
           | Inl InvalidGrow \<Rightarrow>
               rbind (set_register result (of_i32 grow_error_code) ex2) (\<lambda>ex3. Inr (next_instr_at 2 ex3))
           | Inl (GrowTrapCode t) \<Rightarrow> Inl (XTrap t))))"

text \<open>Payment for the bytes of a bulk operation.\<close>

definition pay_bytes :: "nat \<Rightarrow> 'h exec \<Rightarrow> 'e xerr + fuel" where
  "pay_bytes len ex = lift_trap (consume_fuel_if (fuel_for_bytes (of_nat len)) (ws_fuel (ex_store ex)))"

text \<open>\<open>get(index..).and_then(get(..len))\<close> with the trap of a failed access.\<close>

definition memory_slice :: "nat \<Rightarrow> nat \<Rightarrow> u8 list \<Rightarrow> 'e xerr + u8 list" where
  "memory_slice index len bytes = ok_or (XTrap MemoryOutOfBounds) (get_range index len bytes)"

definition exec_memory_copy_within_impl :: "mem_idx \<Rightarrow> nat \<Rightarrow> nat \<Rightarrow> nat \<Rightarrow> 'h exec
    \<Rightarrow> 'e xerr + 'h exec" where
  "exec_memory_copy_within_impl memory dst_index src_index len ex =
    rbind (memory_of memory ex) (\<lambda>(h, m).
    let bytes = memory_data m
    in rbind (memory_slice src_index len bytes) (\<lambda>src.
       rbind (memory_slice dst_index len bytes) (\<lambda>_.
       rbind (pay_bytes len ex) (\<lambda>f.
         Inr (next_instr_at 3 (put_ex_memory h (memory_set_data (put_range dst_index src bytes) m) f ex))))))"

definition exec_memory_copy_impl :: "('h, 'e) exec_env \<Rightarrow> nat \<Rightarrow> nat \<Rightarrow> nat \<Rightarrow> 'h exec
    \<Rightarrow> 'e xerr + 'h exec" where
  "exec_memory_copy_impl env dst_index src_index len ex =
    rbind (fetch_memory_index env 1 ex) (\<lambda>dst_memory.
    rbind (fetch_memory_index env 2 ex) (\<lambda>src_memory.
      if src_memory = dst_memory
      then exec_memory_copy_within_impl src_memory dst_index src_index len ex
      else
        rbind (get_entity in_memories src_memory ex) (\<lambda>src_h.
        rbind (get_entity in_memories dst_memory ex) (\<lambda>dst_h.
        rbind (resolve_pair (ws_memories (ex_store ex)) src_h dst_h) (\<lambda>(src_m, dst_m).
        rbind (memory_slice src_index len (memory_data src_m)) (\<lambda>src.
        rbind (memory_slice dst_index len (memory_data dst_m)) (\<lambda>_.
        rbind (pay_bytes len ex) (\<lambda>f.
          Inr (next_instr_at 3 (put_ex_memory dst_h
            (memory_set_data (put_range dst_index src (memory_data dst_m)) dst_m) f ex)))))))))) "

definition exec_memory_fill_impl :: "('h, 'e) exec_env \<Rightarrow> nat \<Rightarrow> u8 \<Rightarrow> nat \<Rightarrow> 'h exec
    \<Rightarrow> 'e xerr + 'h exec" where
  "exec_memory_fill_impl env dst v len ex =
    rbind (fetch_memory_index env 1 ex) (\<lambda>memory.
    rbind (memory_of memory ex) (\<lambda>(h, m).
    rbind (memory_slice dst len (memory_data m)) (\<lambda>_.
    rbind (pay_bytes len ex) (\<lambda>f.
      Inr (next_instr_at 2 (put_ex_memory h
        (memory_set_data (put_range dst (replicate len v) (memory_data m)) m) f ex))))))"

definition exec_memory_init_impl :: "('h, 'e) exec_env \<Rightarrow> nat \<Rightarrow> nat \<Rightarrow> nat \<Rightarrow> 'h exec
    \<Rightarrow> 'e xerr + 'h exec" where
  "exec_memory_init_impl env dst_index src_index len ex =
    rbind (fetch_memory_index env 1 ex) (\<lambda>memory_index.
    rbind (fetch_data_segment_index env 2 ex) (\<lambda>data_index.
    rbind (get_entity in_memories memory_index ex) (\<lambda>h.
    rbind (get_entity in_data_segments data_index ex) (\<lambda>data_h.
    rbind (resolve (ws_datas (ex_store ex)) data_h) (\<lambda>data.
    rbind (resolve (ws_memories (ex_store ex)) h) (\<lambda>m.
    rbind (memory_slice dst_index len (memory_data m)) (\<lambda>_.
    rbind (memory_slice src_index len (data_segment_bytes data)) (\<lambda>src.
    rbind (pay_bytes len ex) (\<lambda>f.
      Inr (next_instr_at 3 (put_ex_memory h
        (memory_set_data (put_range dst_index src (memory_data m)) m) f ex)))))))))))"

primrec exec_memory :: "('h, 'e) exec_env \<Rightarrow> memory_instr \<Rightarrow> 'h exec \<Rightarrow> 'e xerr + 'h exec" where
  "exec_memory env (IDataDrop segment) ex = exec_data_drop segment ex"
| "exec_memory env (IMemorySize result memory) ex = exec_memory_size result memory ex"
| "exec_memory env (IMemoryGrow result delta) ex =
    rbind (get_register_u32 ex delta) (\<lambda>d. exec_memory_grow_impl env result d ex)"
| "exec_memory env (IMemoryGrowBy result delta) ex = exec_memory_grow_impl env result delta ex"
| "exec_memory env (IMemoryCopy dst src len) ex =
    rbind (operands3 dst src len ex) (\<lambda>(d, s, l). exec_memory_copy_impl env d s l ex)"
| "exec_memory env (IMemoryFill dst v len) ex =
    rbind (operand_u32 dst ex) (\<lambda>d.
    rbind (byte_operand_val v ex) (\<lambda>b.
    rbind (operand_u32 len ex) (\<lambda>l. exec_memory_fill_impl env (unat d) b (unat l) ex)))"
| "exec_memory env (IMemoryInit dst src len) ex =
    rbind (operands3 dst src len ex) (\<lambda>(d, s, l). exec_memory_init_impl env d s l ex)"

end
