(* ===== verification/Exec_Table.thy ===== *)
theory Exec_Table
  imports Exec_Memory
begin

text \<open>
  The instructions on tables and element segments of \<open>executor/instrs/table.rs\<close>. The entity
  operations of \<open>Entities\<close> pay for the copied elements.
\<close>

definition fetch_table_index :: "('h, 'e) exec_env \<Rightarrow> nat \<Rightarrow> 'h exec \<Rightarrow> 'e xerr + table_idx" where
  "fetch_table_index env offset ex = rbind (fetch_param env offset ex) (\<lambda>i. case i of
      IParam (ITableIndex t) \<Rightarrow> Inr t | _ \<Rightarrow> Inl XUB)"

definition fetch_element_segment_index :: "('h, 'e) exec_env \<Rightarrow> nat \<Rightarrow> 'h exec \<Rightarrow> 'e xerr + elem_idx" where
  "fetch_element_segment_index env offset ex = rbind (fetch_param env offset ex) (\<lambda>i. case i of
      IParam (IElemIndex e) \<Rightarrow> Inr e | _ \<Rightarrow> Inl XUB)"

definition table_of :: "table_idx \<Rightarrow> 'h exec \<Rightarrow> 'e xerr + table_h \<times> table_entity" where
  "table_of index ex =
    rbind (get_entity in_tables index ex) (\<lambda>h.
      rmap (\<lambda>t. (h, t)) (resolve (ws_tables (ex_store ex)) h))"

text \<open>The table and the fuel that an entity operation returns.\<close>

definition put_ex_table :: "table_h \<Rightarrow> table_entity \<times> fuel option \<Rightarrow> 'h exec \<Rightarrow> 'h exec" where
  "put_ex_table h r ex = ex\<lparr>ex_store := (put_table h (fst r) (ex_store ex))
    \<lparr>ws_fuel := unwrap_or (ws_fuel (ex_store ex)) (snd r)\<rparr>\<rparr>"

definition exec_table_get_impl :: "('h, 'e) exec_env \<Rightarrow> reg \<Rightarrow> u32 \<Rightarrow> 'h exec \<Rightarrow> 'e xerr + 'h exec" where
  "exec_table_get_impl env result index ex =
    rbind (fetch_table_index env 1 ex) (\<lambda>table_index.
    rbind (table_of table_index ex) (\<lambda>(_, t).
    rbind (ok_or (XTrap TableOutOfBounds) (table_get_untyped (unat index) t)) (\<lambda>v.
    rbind (set_register result v ex) (\<lambda>ex. Inr (next_instr_at 2 ex)))))"

definition exec_table_size_impl :: "reg \<Rightarrow> table_idx \<Rightarrow> 'h exec \<Rightarrow> 'e xerr + 'h exec" where
  "exec_table_size_impl result index ex =
    rbind (table_of index ex) (\<lambda>(_, t). set_register result (of_i32 (of_nat (table_size t))) ex)"

definition exec_table_size :: "reg \<Rightarrow> table_idx \<Rightarrow> 'h exec \<Rightarrow> 'e xerr + 'h exec" where
  "exec_table_size result index ex =
    rbind (exec_table_size_impl result index ex) (\<lambda>ex. Inr (next_instr ex))"

definition exec_table_set_impl :: "('h, 'e) exec_env \<Rightarrow> u32 \<Rightarrow> reg \<Rightarrow> 'h exec \<Rightarrow> 'e xerr + 'h exec" where
  "exec_table_set_impl env index v ex =
    rbind (fetch_table_index env 1 ex) (\<lambda>table_index.
    rbind (get_entity in_tables table_index ex) (\<lambda>h.
    rbind (get_register ex v) (\<lambda>x.
    rbind (resolve (ws_tables (ex_store ex)) h) (\<lambda>t.
      case table_set_untyped (unat index) x t of
        Inl _ \<Rightarrow> Inl (XTrap TableOutOfBounds)
      | Inr t' \<Rightarrow> Inr (next_instr_at 2 (ex\<lparr>ex_store := put_table h t' (ex_store ex)\<rparr>))))))"

definition exec_table_copy_impl :: "('h, 'e) exec_env \<Rightarrow> nat \<Rightarrow> nat \<Rightarrow> nat \<Rightarrow> 'h exec
    \<Rightarrow> 'e xerr + 'h exec" where
  "exec_table_copy_impl env dst_index src_index len ex =
    rbind (fetch_table_index env 1 ex) (\<lambda>dst_table_index.
    rbind (fetch_table_index env 2 ex) (\<lambda>src_table_index.
      if dst_table_index = src_table_index then
        rbind (table_of dst_table_index ex) (\<lambda>(h, t).
        rbind (lift_trap (table_copy_within dst_index src_index len (Some (ws_fuel (ex_store ex))) t)) (\<lambda>r.
          Inr (next_instr_at 3 (put_ex_table h r ex))))
      else
        rbind (get_entity in_tables dst_table_index ex) (\<lambda>dst_h.
        rbind (get_entity in_tables src_table_index ex) (\<lambda>src_h.
        rbind (resolve_pair (ws_tables (ex_store ex)) dst_h src_h) (\<lambda>(dst_t, src_t).
        rbind (lift_trap (table_copy dst_t dst_index src_t src_index len
            (Some (ws_fuel (ex_store ex))))) (\<lambda>r.
          Inr (next_instr_at 3 (put_ex_table dst_h r ex))))))))"

definition exec_table_init_impl :: "('h, 'e) exec_env \<Rightarrow> nat \<Rightarrow> nat \<Rightarrow> nat \<Rightarrow> 'h exec
    \<Rightarrow> 'e xerr + 'h exec" where
  "exec_table_init_impl env dst_index src_index len ex =
    rbind (fetch_table_index env 1 ex) (\<lambda>table_index.
    rbind (fetch_element_segment_index env 2 ex) (\<lambda>element_index.
    rbind (get_entity in_tables table_index ex) (\<lambda>h.
    rbind (get_entity in_elem_segments element_index ex) (\<lambda>elem_h.
    rbind (resolve (ws_elems (ex_store ex)) elem_h) (\<lambda>element.
    rbind (resolve (ws_tables (ex_store ex)) h) (\<lambda>t.
    rbind (ok_or XPanic (table_init element dst_index src_index len (Some (ws_fuel (ex_store ex))) t)) (\<lambda>r.
    rbind (lift_trap r) (\<lambda>r. Inr (next_instr_at 3 (put_ex_table h r ex))))))))))"

definition exec_table_fill_impl :: "('h, 'e) exec_env \<Rightarrow> nat \<Rightarrow> nat \<Rightarrow> reg \<Rightarrow> 'h exec
    \<Rightarrow> 'e xerr + 'h exec" where
  "exec_table_fill_impl env dst len v ex =
    rbind (fetch_table_index env 1 ex) (\<lambda>table_index.
    rbind (get_register ex v) (\<lambda>x.
    rbind (table_of table_index ex) (\<lambda>(h, t).
    rbind (lift_trap (table_fill_untyped dst x len (Some (ws_fuel (ex_store ex))) t)) (\<lambda>r.
      Inr (next_instr_at 2 (put_ex_table h r ex))))))"

definition exec_table_grow_impl :: "('h, 'e) exec_env \<Rightarrow> reg \<Rightarrow> u32 \<Rightarrow> reg \<Rightarrow> 'h exec
    \<Rightarrow> 'e xerr + 'h exec" where
  "exec_table_grow_impl env result delta v ex =
    rbind (fetch_table_index env 1 ex) (\<lambda>table_index.
      if delta = 0 then
        rbind (exec_table_size_impl result table_index ex) (\<lambda>ex. Inr (next_instr_at 2 ex))
      else
        rbind (get_entity in_tables table_index ex) (\<lambda>h.
        rbind (get_register ex v) (\<lambda>x.
        rbind (resolve (ws_tables (ex_store ex)) h) (\<lambda>t.
        let (r, t', fu, lim) = table_grow_untyped (unat delta) x (Some (ws_fuel (ex_store ex)))
              (limiter_ref_of (ex_store ex)) t;
            ex1 = put_ex_table h (t', fu) ex;
            ex2 = ex1\<lparr>ex_store := put_limiter lim (ex_store ex1)\<rparr>
        in case r of
             Inl (GrowTrapCode t) \<Rightarrow> Inl (XTrap t)
           | Inl InvalidGrow \<Rightarrow>
               rbind (set_register result (of_i32 grow_error_code) ex2) (\<lambda>ex3. Inr (next_instr_at 2 ex3))
           | Inr old \<Rightarrow>
               rbind (set_register result (of_i32 (of_nat old)) ex2) (\<lambda>ex3. Inr (next_instr_at 2 ex3))))))"

definition exec_element_drop :: "elem_idx \<Rightarrow> 'h exec \<Rightarrow> 'e xerr + 'h exec" where
  "exec_element_drop segment ex =
    rbind (get_entity in_elem_segments segment ex) (\<lambda>h.
    rbind (resolve (ws_elems (ex_store ex)) h) (\<lambda>e.
      Inr (next_instr (ex\<lparr>ex_store := (ex_store ex)
        \<lparr>ws_elems := (ws_elems (ex_store ex))[h := element_segment_drop_items e]\<rparr>\<rparr>))))"

primrec exec_table :: "('h, 'e) exec_env \<Rightarrow> table_instr \<Rightarrow> 'h exec \<Rightarrow> 'e xerr + 'h exec" where
  "exec_table env (ITableGet result index) ex =
    rbind (get_register_u32 ex index) (\<lambda>i. exec_table_get_impl env result i ex)"
| "exec_table env (ITableGetImm result index) ex = exec_table_get_impl env result index ex"
| "exec_table env (ITableSize result table) ex = exec_table_size result table ex"
| "exec_table env (ITableSet index v) ex =
    rbind (get_register_u32 ex index) (\<lambda>i. exec_table_set_impl env i v ex)"
| "exec_table env (ITableSetAt v index) ex = exec_table_set_impl env index v ex"
| "exec_table env (ITableCopy dst src len) ex =
    rbind (operands3 dst src len ex) (\<lambda>(d, s, l). exec_table_copy_impl env d s l ex)"
| "exec_table env (ITableInit dst src len) ex =
    rbind (operands3 dst src len ex) (\<lambda>(d, s, l). exec_table_init_impl env d s l ex)"
| "exec_table env (ITableFill dst len v) ex =
    rbind (operand_u32 dst ex) (\<lambda>d.
    rbind (operand_u32 len ex) (\<lambda>l. exec_table_fill_impl env (unat d) (unat l) v ex))"
| "exec_table env (ITableGrow result delta v) ex =
    rbind (operand_u32 delta ex) (\<lambda>d. exec_table_grow_impl env result d v ex)"
| "exec_table env (IElemDrop segment) ex = exec_element_drop segment ex"

end
