(* ===== verification/Exec_Loop.thy ===== *)
theory Exec_Loop
  imports Exec_Control Exec_Call Exec_Table
begin

text \<open>
  The two drivers of \<open>executor/instrs.rs\<close>: \<open>Executor::execute\<close>, which runs until the root function
  returns, and \<open>Executor::execute_step\<close> with \<open>execute_instr\<close>, which the debugger calls once per
  instruction. Both dispatch on the same instructions; the second one also keeps the bookkeeping of
  calls and returns for its \<open>Interceptor\<close>.
\<close>

definition exec_consume_fuel :: "block_fuel \<Rightarrow> 'h exec \<Rightarrow> 'e xerr + 'h exec" where
  "exec_consume_fuel block_fuel ex =
    rbind (lift_trap (consume_fuel_unchecked (ucast block_fuel) (ws_fuel (ex_store ex)))) (\<lambda>(_, f).
      Inr (next_instr (ex\<lparr>ex_store := (ex_store ex)\<lparr>ws_fuel := f\<rparr>\<rparr>)))"

definition exec_ref_func :: "('h, 'e) exec_env \<Rightarrow> reg \<Rightarrow> func_idx \<Rightarrow> 'h exec \<Rightarrow> 'e xerr + 'h exec" where
  "exec_ref_func env result func_index ex =
    rbind (get_entity in_funcs func_index ex) (\<lambda>f.
    rbind (set_register result (env_func_bits env f) ex) (\<lambda>ex. Inr (next_instr ex)))"

text \<open>The instructions other than returns, with the table element of an indirect call.\<close>

definition exec_plain :: "('h, 'e) exec_env \<Rightarrow> instruction \<Rightarrow> 'h exec
    \<Rightarrow> 'e xerr + (u32 \<times> table_idx) option \<times> 'h exec" where
  "exec_plain env i ex =
    (case i of
       ICl c \<Rightarrow> exec_call env c ex
     | _ \<Rightarrow> rmap (Pair None) (case i of
         ITrap t \<Rightarrow> Inl (XTrap t)
       | IConsumeFuel f \<Rightarrow> exec_consume_fuel f ex
       | IRefFunc result f \<Rightarrow> exec_ref_func env result f ex
       | IBr b \<Rightarrow> exec_branch env b ex
       | ICpy c \<Rightarrow> exec_copy_instr env c ex
       | ISel s \<Rightarrow> exec_select env s ex
       | IGl g \<Rightarrow> exec_global g ex
       | ILd l \<Rightarrow> exec_load env l ex
       | ISt s \<Rightarrow> exec_store env s ex
       | INum n \<Rightarrow> exec_num (env_nan env) n ex
       | ITbl t \<Rightarrow> exec_table env t ex
       | IMem m \<Rightarrow> exec_memory env m ex
       | _ \<Rightarrow> Inl XUB))"


section \<open>The engine\<close>

text \<open>One iteration of the loop of \<open>execute\<close>; \<open>Break\<close> is the return from the root function.\<close>

definition exec_one :: "('h, 'e) exec_env \<Rightarrow> 'h exec \<Rightarrow> 'e xerr + control_flow \<times> 'h exec" where
  "exec_one env ex =
    rbind (fetch_instr env (ex_ip ex)) (\<lambda>i. case i of
        IRet r \<Rightarrow> exec_return env r ex
      | _ \<Rightarrow> rmap (\<lambda>(_, ex'). (Continue, ex')) (exec_plain env i ex))"

text \<open>\<open>None\<close> is an execution that does not end.\<close>

partial_function (option) execute :: "('h, 'e) exec_env \<Rightarrow> 'h exec \<Rightarrow> ('e xerr + 'h exec) option" where
  "execute env ex =
    (case exec_one env ex of
       Inl e \<Rightarrow> Some (Inl e)
     | Inr (Break, ex') \<Rightarrow> Some (Inr ex')
     | Inr (Continue, ex') \<Rightarrow> execute env ex')"

definition execute_instrs :: "('h, 'e) exec_env \<Rightarrow> stack \<Rightarrow> 'h wstore \<Rightarrow> ('e xerr + 'h exec) option" where
  "execute_instrs env st s =
    (case rbind (ok_or XPanic (cs_instance (st_calls st))) (\<lambda>inst.
          rbind (load_caches s inst) (\<lambda>cache. executor_new st cache s)) of
       Inl e \<Rightarrow> Some (Inl e)
     | Inr ex \<Rightarrow> execute env ex)"


section \<open>The stepper of the debugger\<close>

datatype signal = SigNext | SigBreakpoint | SigEnd

text \<open>What \<open>execute_instr\<close> reports through its mutable arguments; \<open>-1\<close> is no call.\<close>

record instr_report =
  ir_is_pop_frame :: bool
  ir_call_idx :: int
  ir_table_idx :: "table_idx option"

definition no_report :: instr_report where
  "no_report = \<lparr>ir_is_pop_frame = False, ir_call_idx = -1, ir_table_idx = None\<rparr>"

text \<open>\<open>try_into().unwrap_or_default()\<close> from \<open>u32\<close> to \<open>i32\<close>.\<close>

definition i32_or_default :: "u32 \<Rightarrow> int" where
  "i32_or_default w = (if uint w < 2 ^ 31 then uint w else 0)"

definition add_i32 :: "int \<Rightarrow> int \<Rightarrow> 'e xerr + int" where
  "add_i32 a b = (if - (2 ^ 31) \<le> a + b \<and> a + b < 2 ^ 31 then Inr (a + b) else Inl XPanic)"

definition internal_callee :: "instruction \<Rightarrow> engine_func option" where
  "internal_callee i = (case i of ICl (ICallInternal0 _ f) \<Rightarrow> Some f | ICl (ICallInternal _ f) \<Rightarrow> Some f
    | _ \<Rightarrow> None)"

text \<open>
  The macro \<open>forward_return_dbg\<close> flags the frame as popped and ends the session on an empty call
  stack before the return is executed.
\<close>

definition forward_return_dbg :: "('h exec \<Rightarrow> 'e xerr + control_flow \<times> 'h exec) \<Rightarrow> 'h exec
    \<Rightarrow> 'e xerr + signal \<times> instr_report \<times> 'h exec" where
  "forward_return_dbg f ex =
    (let report = no_report\<lparr>ir_is_pop_frame := True\<rparr>
     in if cs_is_empty (st_calls (ex_stack ex)) then Inr (SigEnd, report, ex)
        else rmap (\<lambda>(cf, ex'). (case cf of Break \<Rightarrow> SigEnd | Continue \<Rightarrow> SigNext, report, ex')) (f ex))"

definition execute_instr :: "('h, 'e) exec_env \<Rightarrow> u32 \<Rightarrow> 'h exec
    \<Rightarrow> 'e xerr + signal \<times> instr_report \<times> 'h exec" where
  "execute_instr env import_func_len ex =
    rbind (fetch_instr env (ex_ip ex)) (\<lambda>i.
      case i of
        IRet r \<Rightarrow> forward_return_dbg (exec_return env r) ex
      | _ \<Rightarrow>
          rbind (case internal_callee i of
              None \<Rightarrow> Inr no_report
            | Some f \<Rightarrow> rmap (\<lambda>c. no_report\<lparr>ir_call_idx := c\<rparr>)
                (add_i32 (i32_or_default (of_nat f)) (sint import_func_len))) (\<lambda>report.
          rmap (\<lambda>(elem, ex').
              (SigNext,
               (case elem of
                  None \<Rightarrow> report
                | Some (index, table) \<Rightarrow>
                    report\<lparr>ir_call_idx := i32_or_default index, ir_table_idx := Some table\<rparr>),
               ex'))
            (exec_plain env i ex)))"

text \<open>
  The trait \<open>Interceptor\<close> on a state \<open>'d\<close>. Its implementation reads the store through a static
  variable, hence the store argument of \<open>ic_invoke_func\<close>, and changes an atomic flag in
  \<open>ic_execute_inst\<close>.
\<close>

record ('h, 'e, 'd) interceptor =
  ic_invoke_func :: "'h wstore \<Rightarrow> int \<Rightarrow> table_h option \<Rightarrow> 'd \<Rightarrow> 'e xerr + signal \<times> 'd"
  ic_pop_frame :: "'d \<Rightarrow> 'd"
  ic_execute_inst :: "u32 \<Rightarrow> 'd \<Rightarrow> signal \<times> 'd"
  ic_import_func_len :: "'d \<Rightarrow> 'e xerr + u32"

definition combine_signals :: "signal \<Rightarrow> signal \<Rightarrow> signal \<Rightarrow> signal" where
  "combine_signals signal_inst signal_call result =
    (case (signal_inst, signal_call, result) of
       (_, _, SigEnd) \<Rightarrow> SigEnd
     | (SigBreakpoint, _, SigNext) \<Rightarrow> SigBreakpoint
     | (_, SigBreakpoint, SigNext) \<Rightarrow> SigBreakpoint
     | (_, _, other) \<Rightarrow> other)"

text \<open>
  The table of an indirect call is looked up after the call, in the instance that the callee runs
  in.
\<close>

definition step_invoke :: "('h, 'e, 'd) interceptor \<Rightarrow> instr_report \<Rightarrow> 'h exec \<Rightarrow> 'd
    \<Rightarrow> 'e xerr + signal \<times> 'd" where
  "step_invoke ic report ex d =
    (if ir_call_idx report = -1 then Inr (SigNext, d)
     else case ir_table_idx report of
            None \<Rightarrow> ic_invoke_func ic (ex_store ex) (ir_call_idx report) None d
          | Some t \<Rightarrow>
              rbind (get_entity in_tables t ex) (\<lambda>h.
                ic_invoke_func ic (ex_store ex) (ir_call_idx report) (Some h) d))"

definition execute_step :: "('h, 'e) exec_env \<Rightarrow> ('h, 'e, 'd) interceptor \<Rightarrow> 'h exec \<times> 'd
    \<Rightarrow> 'e xerr + signal \<times> 'h exec \<times> 'd" where
  "execute_step env ic s =
    (let (ex, d) = s
     in rbind (fetch_word env (ex_ip ex)) (\<lambda>w.
        let (signal_inst, d1) = ic_execute_inst ic (iw_offset w) d
        in rbind (ic_import_func_len ic d1) (\<lambda>import_func_len.
           rbind (execute_instr env import_func_len ex) (\<lambda>(result, report, ex').
           rbind (step_invoke ic report ex' d1) (\<lambda>(signal_call, d2).
             Inr (combine_signals signal_inst signal_call result, ex',
                  if ir_is_pop_frame report then ic_pop_frame ic d2 else d2))))))"

text \<open>Steps until the end, for at most \<open>n\<close> steps, whatever signals come in between.\<close>

primrec step_run :: "nat \<Rightarrow> ('h, 'e) exec_env \<Rightarrow> ('h, 'e, 'd) interceptor \<Rightarrow> 'h exec \<times> 'd
    \<Rightarrow> ('e xerr + 'h exec \<times> 'd) option" where
  "step_run 0 env ic s = None"
| "step_run (Suc n) env ic s =
    (case execute_step env ic s of
       Inl e \<Rightarrow> Some (Inl e)
     | Inr (SigEnd, s') \<Rightarrow> Some (Inr s')
     | Inr (_, s') \<Rightarrow> step_run n env ic s')"

end
