(* ===== verification/Exec_Shape.thy ===== *)
theory Exec_Shape
  imports Exec_Loop
begin

text \<open>
  What the instructions other than calls, returns and \<open>memory.grow\<close> keep: the stack pointer, the
  cached instance data, the call stack and the part of the store that the cache depends on.
\<close>

definition store_shape :: "'h wstore \<Rightarrow> instance_entity list \<times> nat \<times> nat list" where
  "store_shape s = (ws_instances s, length (ws_globals s),
     map (\<lambda>m. length (memory_data m)) (ws_memories s))"

definition exec_shape :: "'h exec \<Rightarrow> nat \<times> cached_instance \<times> call_stack \<times>
    instance_entity list \<times> nat \<times> nat list" where
  "exec_shape ex = (ex_sp ex, ex_cache ex, st_calls (ex_stack ex), store_shape (ex_store ex))"

lemma rbind_InrE:
  assumes "rbind r f = Inr y"
  obtains x where "r = Inr x" "f x = Inr y"
  using assms by (auto simp: rsimps)

lemma rmap_InrE:
  assumes "rmap f r = Inr y"
  obtains x where "r = Inr x" "y = f x"
  using assms by (auto simp: rsimps)


section \<open>Instructions that keep the shape\<close>

lemma shape_ip [simp]: "exec_shape (ex\<lparr>ex_ip := ip\<rparr>) = exec_shape ex"
  "exec_shape (next_instr ex) = exec_shape ex" "exec_shape (next_instr_at n ex) = exec_shape ex"
  "exec_shape (branch_to off ex) = exec_shape ex" "exec_shape (branch_to16 off16 ex) = exec_shape ex"
  by (simp_all add: exec_shape_def next_instr_def next_instr_at_def branch_to_def branch_to16_def)

lemma shape_set_register_at: "set_register_at sp r v ex = Inr ex' \<Longrightarrow> exec_shape ex' = exec_shape ex"
  by (auto simp: set_register_at_def reg_set_at_def exec_shape_def rsimps)

lemma shape_set_register: "set_register r v ex = Inr ex' \<Longrightarrow> exec_shape ex' = exec_shape ex"
  unfolding set_register_def by (rule shape_set_register_at)

lemma shape_set_registers_at: "set_registers_at sp ps ex = Inr ex' \<Longrightarrow> exec_shape ex' = exec_shape ex"
  by (induction ps arbitrary: ex) (auto simp: rsimps dest!: shape_set_register_at)

lemma shape_set_registers: "set_registers ps ex = Inr ex' \<Longrightarrow> exec_shape ex' = exec_shape ex"
  unfolding set_registers_def by (rule shape_set_registers_at)

lemma shape_copy_registers: "copy_registers ps ex = Inr ex' \<Longrightarrow> exec_shape ex' = exec_shape ex"
  by (induction ps arbitrary: ex) (auto simp: rsimps dest!: shape_set_register)

lemma shape_copy_to_caller: "copy_to_caller sp ps ex = Inr ex' \<Longrightarrow> exec_shape ex' = exec_shape ex"
  by (induction ps arbitrary: ex) (auto simp: rsimps dest!: shape_set_register_at)

lemmas shape_dests = shape_set_register shape_set_register_at shape_set_registers
  shape_set_registers_at shape_copy_registers shape_copy_to_caller

lemma shape_num: "exec_num env i ex = Inr ex' \<Longrightarrow> exec_shape ex' = exec_shape ex"
  by (cases i)
    (auto simp: exec_unary_def try_exec_unary_def exec_binary_def exec_binary_imm16_def
      exec_binary_imm16_lhs_def exec_shift_by_def try_exec_binary_def exec_divrem_imm16_rhs_def
      try_exec_binary_imm16_lhs_def rsimps split: float_width.splits dest!: shape_dests)

lemma shape_copy_span: "exec_copy_span_impl rs vs len ex = Inr ex' \<Longrightarrow> exec_shape ex' = exec_shape ex"
  "exec_copy_span_non_overlapping_impl rs vs len ex = Inr ex' \<Longrightarrow> exec_shape ex' = exec_shape ex"
  by (auto simp: exec_copy_span_impl_def exec_copy_span_non_overlapping_impl_def rsimps
      dest!: shape_dests)

lemma shape_copy_many:
  "exec_copy_many_impl env ip rs vs ex = Inr (ip', ex') \<Longrightarrow> exec_shape ex' = exec_shape ex"
  "exec_copy_many_non_overlapping_impl env ip rs vs ex = Inr (ip', ex') \<Longrightarrow> exec_shape ex' = exec_shape ex"
  by (auto simp: exec_copy_many_impl_def exec_copy_many_non_overlapping_impl_def rsimps
      dest!: shape_dests)

lemma shape_copy: "exec_copy_instr env i ex = Inr ex' \<Longrightarrow> exec_shape ex' = exec_shape ex"
  by (cases i)
    (auto simp: exec_copy_def exec_copy_impl_def exec_copy_2_impl_def Let_def rsimps
      dest!: shape_dests shape_copy_span shape_copy_many)

lemma shape_select: "exec_select env i ex = Inr ex' \<Longrightarrow> exec_shape ex' = exec_shape ex"
  by (cases i)
    (auto simp: select_rr_def select_ri_def select_ir_def select_ii_def exec_select_impl_def rsimps
      dest!: shape_dests)

text \<open>Elimination of the matches on parameter words.\<close>

lemma target_word_E:
  assumes "(case i of IParam (IBranchTableTarget rs off) \<Rightarrow> f rs off | _ \<Rightarrow> d) = Inr y"
  obtains rs off where "f rs off = Inr y" | "d = Inr y"
  using assms by (cases i; simp; cases "case i of IParam p \<Rightarrow> p"; simp)

lemma register_2_word_E:
  assumes "(case i of IParam (IRegister2 a b) \<Rightarrow> f a b | _ \<Rightarrow> Inl e) = Inr y"
  obtains a b where "f a b = Inr y"
  using assms by (cases i; simp; cases "case i of IParam p \<Rightarrow> p"; simp)

lemma register_3_word_E:
  assumes "(case i of IParam (IRegister3 a b c) \<Rightarrow> f a b c | _ \<Rightarrow> Inl e) = Inr y"
  obtains a b c where "f a b c = Inr y"
  using assms by (cases i; simp; cases "case i of IParam p \<Rightarrow> p"; simp)

lemma span_word_E:
  assumes "(case i of IParam (IRegisterSpan v) \<Rightarrow> f v | _ \<Rightarrow> Inl e) = Inr y"
  obtains v where "f v = Inr y"
  using assms by (cases i; simp; cases "case i of IParam p \<Rightarrow> p"; simp)

lemma span_target_word_E:
  assumes "(case i of IParam (IBranchTableTarget rs off) \<Rightarrow> f rs off
      | IParam (IBranchTableTargetNonOverlapping rs off) \<Rightarrow> g rs off | _ \<Rightarrow> d) = Inr y"
  obtains rs off where "f rs off = Inr y" | rs off where "g rs off = Inr y" | "d = Inr y"
  using assms by (cases i; simp; cases "case i of IParam p \<Rightarrow> p"; simp)

lemma many_target_word_E:
  assumes "(case i of IParam (IBranchTableTarget rs off) \<Rightarrow> f rs off
      | IParam (IBranchTableTargetNonOverlapping rs off) \<Rightarrow> g rs off
      | IRet IReturn \<Rightarrow> h | _ \<Rightarrow> Inl e) = Inr y"
  obtains rs off where "f rs off = Inr y" | rs off where "g rs off = Inr y" | "h = Inr y"
  using assms
  by (cases i; simp; cases "case i of IParam p \<Rightarrow> p"; cases "case i of IRet r \<Rightarrow> r"; simp)

lemmas word_elims = target_word_E register_2_word_E register_3_word_E span_word_E
  span_target_word_E many_target_word_E

lemma shape_branch_table_jump:
  assumes "branch_table_jump env copy ex = Inr ex'"
    and "\<And>rs ex ex'. copy rs ex = Inr ex' \<Longrightarrow> exec_shape ex' = exec_shape ex"
  shows "exec_shape ex' = exec_shape ex"
  using assms(1)
  by (auto simp: branch_table_jump_def rsimps elim!: word_elims dest!: assms(2))

lemma shape_copy_values: "copy_values_to_span regs rs ex = Inr ex' \<Longrightarrow> exec_shape ex' = exec_shape ex"
  by (auto simp: copy_values_to_span_def rsimps dest!: shape_dests)

lemma shape_copy_many_return: "copy_many_return_values env ip vs ex = Inr ex' \<Longrightarrow> exec_shape ex' = exec_shape ex"
  by (auto simp: copy_many_return_values_def rsimps dest!: shape_dests)

lemma shape_branch_table_1: "exec_branch_table_1 env i n ex = Inr ex' \<Longrightarrow> exec_shape ex' = exec_shape ex"
  by (auto simp: exec_branch_table_1_def Let_def rsimps dest!: shape_branch_table_jump shape_set_register)

lemma shape_branch_table_2: "exec_branch_table_2 env i n ex = Inr ex' \<Longrightarrow> exec_shape ex' = exec_shape ex"
  by (auto simp: exec_branch_table_2_def Let_def rsimps elim!: word_elims dest!: shape_branch_table_jump shape_copy_values)

lemma shape_branch_table_3: "exec_branch_table_3 env i n ex = Inr ex' \<Longrightarrow> exec_shape ex' = exec_shape ex"
  by (auto simp: exec_branch_table_3_def Let_def rsimps elim!: word_elims dest!: shape_branch_table_jump shape_copy_values)

lemma shape_branch_table_span: "exec_branch_table_span env i n ex = Inr ex' \<Longrightarrow> exec_shape ex' = exec_shape ex"
  by (auto simp: exec_branch_table_span_def Let_def rsimps elim!: word_elims dest!: shape_copy_span)

lemma shape_branch_table_many: "exec_branch_table_many env i n ex = Inr ex' \<Longrightarrow> exec_shape ex' = exec_shape ex"
  by (auto simp: exec_branch_table_many_def Let_def rsimps elim!: word_elims dest!: shape_copy_many shape_copy_many_return)

lemma shape_branch: "exec_branch env i ex = Inr ex' \<Longrightarrow> exec_shape ex' = exec_shape ex"
  by (cases i)
    (auto simp: exec_branch_cmp_fallback_def exec_branch_binop_def exec_branch_binop_imm_def
      exec_branch_table_0_def rsimps dest!: shape_branch_table_1 shape_branch_table_2
      shape_branch_table_3 shape_branch_table_span shape_branch_table_many)


text \<open>Writes to the store that keep its shape.\<close>

lemma store_shape_put [simp]:
  "store_shape (put_global h g s) = store_shape s"
  "store_shape (put_table h tb s) = store_shape s"
  "store_shape (s\<lparr>ws_fuel := f\<rparr>) = store_shape s"
  "store_shape (s\<lparr>ws_data := d\<rparr>) = store_shape s"
  "store_shape (s\<lparr>ws_datas := ds\<rparr>) = store_shape s"
  "store_shape (s\<lparr>ws_elems := es\<rparr>) = store_shape s"
  "store_shape (put_limiter lim s) = store_shape s"
  by (simp_all add: store_shape_def put_global_def put_table_def put_limiter_def split: option.split)

lemma shape_store [simp]:
  "store_shape s = store_shape (ex_store ex) \<Longrightarrow> exec_shape (ex\<lparr>ex_store := s\<rparr>) = exec_shape ex"
  by (simp add: exec_shape_def)

lemma map_update_same: "(i < length xs \<Longrightarrow> f x = f (xs ! i)) \<Longrightarrow> map f (xs[i := x]) = map f xs"
  by (simp add: map_update list_update_same_conv)
    (metis list_update_beyond list_update_id map_update not_le)

lemma store_shape_put_memory:
  "(h < length (ws_memories s) \<Longrightarrow> length (memory_data m) = length (memory_data (ws_memories s ! h))) \<Longrightarrow>
   store_shape (put_memory h m s) = store_shape s"
  by (simp add: store_shape_def put_memory_def map_update_same)

lemma memory_data_set [simp]: "memory_data (memory_set_data bs m) = bs"
  by (simp add: memory_data_def memory_set_data_def)

lemma length_store_wrap: "store_wrap from wr memory address offset v = Inr bs \<Longrightarrow> length bs = length memory"
  by (auto simp: store_wrap_def rsimps)

lemma length_store: "store from memory address offset v = Inr bs \<Longrightarrow> length bs = length memory"
  by (auto simp: store_def dest: length_store_wrap)

lemma length_istore_fn: "istore_fn op memory address offset v = Inr bs \<Longrightarrow> length bs = length memory"
  by (cases op)
    (auto simp: i32_store_def i64_store_def i32_store8_def i32_store16_def i64_store8_def i64_store16_def
      i64_store32_def dest: length_store length_store_wrap)

lemma length_store_fn: "store_fn op memory address offset v = Inr bs \<Longrightarrow> length bs = length memory"
proof (cases op)
  case (FloatStore f)
  then show "store_fn op memory address offset v = Inr bs \<Longrightarrow> length bs = length memory"
    by (cases f) (auto simp: f32_store_def f64_store_def dest: length_store)
qed (auto dest: length_istore_fn)

lemma shape_put_memory_bytes:
  assumes "(put_memory_bytes m bytes ex :: 'e xerr + 'h exec) = Inr ex'"
    and "(fetch_memory_bytes m ex :: 'e xerr + u8 list) = Inr old" and "length bytes = length old"
  shows "exec_shape ex' = exec_shape ex"
  using assms
  by (auto simp: put_memory_bytes_def fetch_memory_bytes_def cached_memory_set_data_def cached_memory_data_def
      resolve_def rsimps split: if_splits option.splits intro!: shape_store store_shape_put_memory)

lemma shape_store_wrap:
  assumes "exec_store_wrap m address offset v f ex = Inr ex'"
    and "\<And>bs bs'. f bs address offset v = Inr bs' \<Longrightarrow> length bs' = length bs"
  shows "exec_shape ex' = exec_shape ex"
  using assms by (auto simp: exec_store_wrap_def rsimps intro: shape_put_memory_bytes)

lemma shape_store_wrap_fn:
  "exec_store_wrap m address offset v (store_fn op) ex = Inr ex' \<Longrightarrow> exec_shape ex' = exec_shape ex"
  "exec_store_wrap m address offset v (istore_fn iop) ex = Inr ex' \<Longrightarrow> exec_shape ex' = exec_shape ex"
  by (erule shape_store_wrap; rule length_store_fn length_istore_fn; assumption)+

lemma shape_optional_memory: "fetch_optional_memory env ex = Inr (m, ex') \<Longrightarrow> exec_shape ex' = exec_shape ex"
  by (auto simp: fetch_optional_memory_def elim!: rbind_InrE split: instruction.split_asm param_word.split_asm)

lemma shape_exec_store: "exec_store env i ex = Inr ex' \<Longrightarrow> exec_shape ex' = exec_shape ex"
  by (cases i)
    (auto simp: rsimps dest!: shape_optional_memory shape_store_wrap_fn)

lemma shape_load: "exec_load env i ex = Inr ex' \<Longrightarrow> exec_shape ex' = exec_shape ex"
  by (cases i) (auto simp: exec_load_extend_def rsimps dest!: shape_dests shape_optional_memory)

lemma shape_global: "exec_global i ex = Inr ex' \<Longrightarrow> exec_shape ex' = exec_shape ex"
  by (cases i)
    (auto simp: exec_global_get_def exec_global_set_impl_def cached_global_set_def rsimps
      split: if_splits dest!: shape_dests)

lemma shape_put_ex_memory [simp]:
  "(h < length (ws_memories (ex_store ex)) \<Longrightarrow>
     length (memory_data m) = length (memory_data (ws_memories (ex_store ex) ! h))) \<Longrightarrow>
   exec_shape (put_ex_memory h m f ex) = exec_shape ex"
  by (simp add: put_ex_memory_def store_shape_put_memory)

lemma shape_put_ex_table [simp]: "exec_shape (put_ex_table h r ex) = exec_shape ex"
  by (simp add: put_ex_table_def)

lemma shape_table_grow: "exec_table_grow_impl env r d v ex = Inr ex' \<Longrightarrow> exec_shape ex' = exec_shape ex"
  unfolding exec_table_grow_impl_def exec_table_size_impl_def Let_def
  by (auto elim!: rbind_InrE split: if_split_asm prod.split_asm sum.split_asm entity_grow_error.split_asm
      dest!: shape_dests)

lemma shape_table_set: "exec_table_set_impl env i v ex = Inr ex' \<Longrightarrow> exec_shape ex' = exec_shape ex"
  unfolding exec_table_set_impl_def by (auto elim!: rbind_InrE split: sum.split_asm)

lemma shape_table: "exec_table env i ex = Inr ex' \<Longrightarrow> exec_shape ex' = exec_shape ex"
  by (cases i)
    (auto simp: exec_table_get_impl_def exec_table_size_def exec_table_size_impl_def
      exec_table_copy_impl_def exec_table_init_impl_def exec_table_fill_impl_def exec_element_drop_def rsimps
      split: if_splits sum.splits dest!: shape_dests shape_table_grow shape_table_set)

lemma memory_of_Inr [rsimps]: "memory_of i ex = (Inr (h, m) :: 'e xerr + _) \<longleftrightarrow>
    get_entity in_memories i ex = (Inr h :: 'e xerr + _) \<and> h < length (ws_memories (ex_store ex)) \<and> m = ws_memories (ex_store ex) ! h"
  by (auto simp: memory_of_def resolve_def rsimps)

lemma memory_slice_Inr [rsimps]: "memory_slice i n bs = Inr x \<longleftrightarrow> i + n \<le> length bs \<and> x = take n (drop i bs)"
  by (auto simp: memory_slice_def rsimps range_simps)

lemma shape_memory_bulk:
  "exec_memory_copy_impl env d s l ex = Inr ex' \<Longrightarrow> exec_shape ex' = exec_shape ex"
  "exec_memory_fill_impl env d b l ex = Inr ex' \<Longrightarrow> exec_shape ex' = exec_shape ex"
  "exec_memory_init_impl env d s l ex = Inr ex' \<Longrightarrow> exec_shape ex' = exec_shape ex"
  by (auto simp: exec_memory_copy_impl_def exec_memory_copy_within_impl_def exec_memory_fill_impl_def
      exec_memory_init_impl_def resolve_pair_def resolve_def Let_def rsimps split: if_splits)

end
