(* ===== verification/Exec_Inv.thy ===== *)
theory Exec_Inv
  imports Exec_Shape
begin

text \<open>
  The invariant of the executor: the cached instance data belong to the instance of the top frame
  and are up to date. Every step keeps it, except for tail calls of host functions.
\<close>


section \<open>The cached instance data\<close>

text \<open>The cache is the one that \<open>load_caches\<close> would load now.\<close>

definition cache_coherent :: "'h wstore \<Rightarrow> cached_instance \<Rightarrow> bool" where
  "cache_coherent s c \<longleftrightarrow> load_caches s (ci_instance c) = (Inr c :: unit xerr + cached_instance)"

lemma load_caches_Inr:
  "load_caches s i = Inr c \<longleftrightarrow>
    (\<exists>inst. get_at (ws_instances s) i = Some inst \<and> ci_instance c = i \<and>
      (case get_at (in_memories inst) 0 of
         None \<Rightarrow> ci_memory c = None
       | Some h \<Rightarrow> h < length (ws_memories s) \<and> ci_memory c = Some (h, length (memory_data (ws_memories s ! h)))) \<and>
      (case get_at (in_globals inst) 0 of
         None \<Rightarrow> ci_global c = None
       | Some h \<Rightarrow> h < length (ws_globals s) \<and> ci_global c = Some h))"
  by (cases c)
    (auto simp: load_caches_def load_cached_memory_def load_cached_global_def cached_memory_new_def
      resolve_def rsimps split: option.splits)

lemma load_caches_coherent: "load_caches s i = Inr c \<Longrightarrow> cache_coherent s c \<and> ci_instance c = i"
  unfolding cache_coherent_def load_caches_Inr by auto

lemma cache_coherent_shape: "store_shape s = store_shape s' \<Longrightarrow> cache_coherent s c = cache_coherent s' c"
  unfolding cache_coherent_def load_caches_Inr
  by (auto simp: store_shape_def map_equality_iff split: option.splits)



section \<open>The invariant\<close>

text \<open>
  The top frame runs in the instance of the cache, the cache is up to date, and the stack pointer
  is the one of the top frame. The root frame carries its own instance.
\<close>

definition calls_inv :: "instance_h \<Rightarrow> 'h exec \<Rightarrow> bool" where
  "calls_inv i ex \<longleftrightarrow>
    (let calls = st_calls (ex_stack ex)
     in cs_frames calls \<noteq> [] \<and> cs_inv calls \<and> cf_changed_instance (hd (cs_frames calls)) \<and>
        cs_instance calls = Some i \<and> ex_sp ex = cf_base_offset (last (cs_frames calls)))"

definition exec_inv :: "'h exec \<Rightarrow> bool" where
  "exec_inv ex \<longleftrightarrow> calls_inv (ci_instance (ex_cache ex)) ex \<and> cache_coherent (ex_store ex) (ex_cache ex)"

lemmas inv_defs = exec_inv_def calls_inv_def Let_def

lemma exec_inv_shape: "exec_shape ex' = exec_shape ex \<Longrightarrow> exec_inv ex' = exec_inv ex"
  using cache_coherent_shape [of "ex_store ex'" "ex_store ex"]
  by (simp add: inv_defs exec_shape_def)

lemma cache_updateD:
  assumes "cache_update i ex = Inr ex'"
  shows "ex_sp ex' = ex_sp ex" "ex_stack ex' = ex_stack ex" "ex_store ex' = ex_store ex" "ex_ip ex' = ex_ip ex"
    "ci_instance (ex_cache ex') = i" "cache_coherent (ex_store ex') (ex_cache ex')"
  using assms by (auto simp: cache_update_def rsimps dest: load_caches_coherent)

lemma cs_inv_update_top:
  assumes "cs_update_top (cf_update_instr_ptr ip) c = Some c'" "cs_inv c"
  shows "cs_inv c'" "cs_instances c' = cs_instances c"
    "cs_frames c \<noteq> [] \<and> cs_frames c' = butlast (cs_frames c) @ [cf_update_instr_ptr ip (last (cs_frames c))]"
proof -
  obtain fs f where c: "cs_frames c = fs @ [f]"
    using assms(1) by (cases "cs_frames c" rule: rev_cases) (auto simp: cs_update_top_def)
  show "cs_inv c'" "cs_instances c' = cs_instances c"
    "cs_frames c \<noteq> [] \<and> cs_frames c' = butlast (cs_frames c) @ [cf_update_instr_ptr ip (last (cs_frames c))]"
    using assms c by (auto simp: cs_update_top_def cs_inv_def cf_update_instr_ptr_def)
qed

lemma calls_inv_update_ip:
  assumes "update_instr_ptr_at n ex = Inr ex'" "calls_inv i ex"
  shows "calls_inv i ex'"
proof -
  obtain calls where c: "cs_update_top (cf_update_instr_ptr (ip_add n (ex_ip ex))) (st_calls (ex_stack ex)) = Some calls"
    and ex': "ex' = ex\<lparr>ex_ip := ip_add n (ex_ip ex), ex_stack := (ex_stack ex)\<lparr>st_calls := calls\<rparr>\<rparr>"
    using assms(1) by (auto simp: update_instr_ptr_at_def Let_def rsimps)
  have inv: "cs_inv (st_calls (ex_stack ex))" using assms(2) by (simp add: calls_inv_def Let_def)
  show ?thesis
    using assms(2) cs_inv_update_top [OF c inv] ex'
    by (cases "cs_frames (st_calls (ex_stack ex))" rule: rev_cases)
      (auto simp: calls_inv_def Let_def cs_instance_def cf_update_instr_ptr_def cf_base_offset_def hd_append
        split: if_splits)
qed

text \<open>Pushing a new frame.\<close>

lemma inv_push:
  assumes "cs_push call inst calls = Inr calls'" "\<not> cf_changed_instance call" "cs_inv calls"
    and "cs_frames calls = [] \<longrightarrow> inst \<noteq> None"
    and "cs_frames calls \<noteq> [] \<longrightarrow> cf_changed_instance (hd (cs_frames calls))"
  shows "cs_frames calls' \<noteq> []" "cs_inv calls'" "cf_changed_instance (hd (cs_frames calls'))"
    "cs_instance calls' = (case inst of None \<Rightarrow> cs_instance calls | Some _ \<Rightarrow> inst)"
    "cf_base_offset (last (cs_frames calls')) = cf_base_offset call"
proof -
  show "cs_inv calls'" using cs_push_inv assms by blast
  obtain b where fr: "cs_frames calls' = cs_frames calls @ [call\<lparr>cf_changed_instance := b\<rparr>]"
    using cs_push_Inr(2) [OF assms(1)] by blast
  then show "cs_frames calls' \<noteq> []" "cf_base_offset (last (cs_frames calls')) = cf_base_offset call"
    by (simp_all add: cf_base_offset_def)
  show "cs_instance calls' = (case inst of None \<Rightarrow> cs_instance calls | Some _ \<Rightarrow> inst)"
    using cs_pop_push [OF assms(3,2,1)] by auto
  show "cf_changed_instance (hd (cs_frames calls'))"
  proof (cases "cs_frames calls")
    case Nil
    then obtain i where i: "inst = Some i" using assms(4) by auto
    have "hv_len (cs_instances calls) = 0" using assms(3) Nil by (simp add: cs_inv_def)
    then have "hv_last (cs_instances calls) = None"
      by (auto simp: hv_len_def hv_last_def split: option.splits)
    then have "cs_push_instance i calls = (True, calls\<lparr>cs_instances := hv_push i (cs_instances calls)\<rparr>)"
      by (simp add: cs_push_instance_def)
    then show ?thesis
      using assms(1) Nil i by (auto simp: cs_push_def split: if_splits)
  next
    case (Cons f fs)
    then show ?thesis using fr assms(5) by simp
  qed
qed



section \<open>Returns\<close>

lemma inv_return_impl:
  assumes "exec_inv ex" "(return_impl ex :: 'e xerr + control_flow \<times> 'h exec) = Inr (Continue, ex')"
  shows "exec_inv ex'"
proof -
  let ?c = "st_calls (ex_stack ex)"
  from assms obtain fs f where fr: "cs_frames ?c = fs @ [f]"
    by (cases "cs_frames ?c" rule: rev_cases) (auto simp: inv_defs)
  obtain popped calls where pop: "cs_pop ?c = (Some (f, popped), calls)"
    and calls: "cs_frames calls = fs" and inst: "popped = None \<Longrightarrow> cs_instances calls = cs_instances ?c"
  proof (cases "cf_changed_instance f")
    case True
    have "hv_len (cs_instances ?c) \<noteq> 0"
      using assms(1) fr True by (simp add: inv_defs cs_inv_def)
    then obtain i where "hv_head (cs_instances ?c) = Some i"
      by (auto simp: hv_len_def split: option.splits)
    then have "fst (hv_pop (cs_instances ?c)) = Some i"
      by (simp add: hv_pop_def vec_pop_def)
    with fr True show thesis
      by (intro that [of "Some i" "?c\<lparr>cs_frames := fs, cs_instances := snd (hv_pop (cs_instances ?c))\<rparr>"])
        (auto simp: cs_pop_def vec_pop_def Let_def split: prod.splits)
  next
    case False
    with fr show thesis
      by (intro that [of None "?c\<lparr>cs_frames := fs\<rparr>"]) (auto simp: cs_pop_def vec_pop_def Let_def)
  qed
  have inv: "cs_inv calls" using cs_pop_inv [of ?c] pop assms(1) by (simp add: inv_defs)
  from assms(2) pop obtain vals ex2 where
    ex2: "(case Option.bind popped (\<lambda>_. cs_instance calls) of None \<Rightarrow>
            Inr (ex\<lparr>ex_stack := (ex_stack ex)\<lparr>st_calls := calls, st_values := vals\<rparr>\<rparr>)
          | Some i \<Rightarrow> cache_update i (ex\<lparr>ex_stack := (ex_stack ex)\<lparr>st_calls := calls, st_values := vals\<rparr>\<rparr>)) =
            (Inr ex2 :: 'e xerr + 'h exec)"
    and fsne: "fs \<noteq> []" and ex': "ex' = init_call_frame (last fs) ex2"
    unfolding return_impl_def
    by (auto simp: calls cs_peek_def vec_last_def Let_def elim!: rbind_InrE split: if_split_asm)
  have hd: "cf_changed_instance (hd fs)"
    using assms(1) fsne fr by (simp add: inv_defs)
  then have "filter cf_changed_instance fs \<noteq> []"
    using fsne by (cases fs) auto
  then obtain i where i: "cs_instance calls = Some i"
    using inv calls by (cases "hv_head (cs_instances calls)")
      (auto simp: cs_inv_def hv_len_def cs_instance_def hv_last_def)
  show ?thesis
  proof (cases popped)
    case None
    then show ?thesis
      using assms(1) ex2 ex' inv fsne hd calls inst fr
      by (auto simp: inv_defs init_call_frame_def cs_instance_def)
  next
    case (Some p)
    then have "cache_update i (ex\<lparr>ex_stack := (ex_stack ex)\<lparr>st_calls := calls, st_values := vals\<rparr>\<rparr>) =
      (Inr ex2 :: 'e xerr + 'h exec)"
      using ex2 i by simp
    from cache_updateD [OF this] show ?thesis
      using ex' inv fsne hd calls i by (auto simp: inv_defs init_call_frame_def)
  qed
qed

lemma inv_return:
  assumes "exec_return env r ex = Inr (Continue, ex')" "exec_inv ex"
  shows "exec_inv ex'"
proof -
  have ret: "exec_inv ex'" if "return_impl ex1 = Inr (Continue, ex')" "exec_shape ex1 = exec_shape ex" for ex1
    using inv_return_impl that exec_inv_shape assms(2) by blast
  have value_: "exec_inv ex'" if "exec_return_value f ex = Inr (Continue, ex')" for f
    using that by (auto simp: exec_return_value_def elim!: rbind_InrE dest!: shape_dests intro: ret)
  have reg_n: "exec_inv ex'" if "exec_return_reg_n_impl vs ex = Inr (Continue, ex')" for vs
    using that by (auto simp: exec_return_reg_n_impl_def elim!: rbind_InrE dest!: shape_dests intro: ret)
  have span: "exec_inv ex'" if "exec_return_span s ex = Inr (Continue, ex')" for s
    using that by (auto simp: exec_return_span_def elim!: rbind_InrE dest!: shape_dests intro: ret)
  have many: "exec_inv ex'" if "exec_return_many env vs ex = Inr (Continue, ex')" for vs
    using that by (auto simp: exec_return_many_def Let_def elim!: rbind_InrE dest!: shape_copy_many_return intro: ret)
  have skip: "exec_inv (next_instr ex)" "exec_inv ((next_instr ex)\<lparr>ex_ip := ip\<rparr>)" for ip
    using exec_inv_shape [of "next_instr ex" ex] exec_inv_shape [of "(next_instr ex)\<lparr>ex_ip := ip\<rparr>" ex]
      assms(2) by simp_all
  have nez_many: "exec_inv ex'" if "exec_return_nez_many env c vs ex = Inr (Continue, ex')" for c vs
    using that unfolding exec_return_nez_many_def Let_def
    by (elim rbind_InrE; split if_split_asm; elim rbind_InrE)
      (auto dest!: shape_copy_many_return intro: ret skip)
  show ?thesis
    using assms(1)
    by (cases r)
      (auto simp: exec_return_nez_impl_def elim!: rbind_InrE split: if_split_asm
        intro: value_ reg_n span many nez_many skip ret)
qed



section \<open>Growing a memory\<close>

lemma cache_update_memoryD:
  assumes "cache_update_memory ex = Inr ex'" "cache_coherent s (ex_cache ex)"
    and "ws_instances (ex_store ex) = ws_instances s" "length (ws_globals (ex_store ex)) = length (ws_globals s)"
  shows "cache_coherent (ex_store ex') (ex_cache ex')" "ci_instance (ex_cache ex') = ci_instance (ex_cache ex)"
    "ex_sp ex' = ex_sp ex" "ex_stack ex' = ex_stack ex"
  using assms
  by (auto simp: cache_coherent_def load_caches_Inr cache_update_memory_def load_cached_memory_def
      cached_memory_new_def resolve_def rsimps split: option.splits)

lemma put_ex_memory_simps [simp]:
  "ex_cache (put_ex_memory h m f ex) = ex_cache ex" "ex_sp (put_ex_memory h m f ex) = ex_sp ex"
  "ex_stack (put_ex_memory h m f ex) = ex_stack ex"
  "ws_instances (ex_store (put_ex_memory h m f ex)) = ws_instances (ex_store ex)"
  "ws_globals (ex_store (put_ex_memory h m f ex)) = ws_globals (ex_store ex)"
  by (simp_all add: put_ex_memory_def put_memory_def)

lemma put_limiter_simps [simp]:
  "ws_instances (put_limiter lim s) = ws_instances s" "ws_globals (put_limiter lim s) = ws_globals s"
  by (simp_all add: put_limiter_def split: option.split)

lemma inv_memory_grow:
  fixes env :: "('h, 'e) exec_env"
  assumes "exec_memory_grow_impl env r d ex = Inr ex'" "exec_inv ex"
  shows "exec_inv ex'"
proof -
  have keep: "exec_inv ex2" if "exec_shape ex2 = exec_shape ex" for ex2
    using that exec_inv_shape assms(2) by blast
  obtain index where grow: "(if d = 0 then rbind (exec_memory_size_impl r index ex) (\<lambda>ex. Inr (next_instr_at 2 ex))
      else rbind (memory_of index ex) (\<lambda>(h, m).
        rbind (ok_or XPanic (memory_grow (unat d) (Some (ws_fuel (ex_store ex)))
            (limiter_ref_of (ex_store ex)) m)) (\<lambda>(res, m', fu, lim).
        let ex1 = put_ex_memory h m' (unwrap_or (ws_fuel (ex_store ex)) fu) ex;
            ex2 = ex1\<lparr>ex_store := put_limiter lim (ex_store ex1)\<rparr>
        in case res of
             Inr old \<Rightarrow>
               rbind (cache_update_memory ex2) (\<lambda>ex3.
               rbind (set_register r (of_i32 (of_nat old)) ex3) (\<lambda>ex4. Inr (next_instr_at 2 ex4)))
           | Inl InvalidGrow \<Rightarrow>
               rbind (set_register r (of_i32 grow_error_code) ex2) (\<lambda>ex3. Inr (next_instr_at 2 ex3))
           | Inl (GrowTrapCode t) \<Rightarrow> Inl (XTrap t)))) = (Inr ex' :: 'e xerr + 'h exec)"
    using assms(1) unfolding exec_memory_grow_impl_def by (elim rbind_InrE)
  show ?thesis
  proof (cases "d = 0")
    case True
    then show ?thesis
      using grow by (auto simp: exec_memory_size_impl_def elim!: rbind_InrE dest!: shape_set_register intro: keep)
  next
    case False
    with grow obtain h m res m' fu lim where mo: "memory_of index ex = (Inr (h, m) :: 'e xerr + _)"
      and gr: "memory_grow (unat d) (Some (ws_fuel (ex_store ex))) (limiter_ref_of (ex_store ex)) m
        = Some (res, m', fu, lim)"
      by (auto elim!: rbind_InrE simp: ok_or_eq_Inr)
    define ex1 where "ex1 = put_ex_memory h m' (unwrap_or (ws_fuel (ex_store ex)) fu) ex"
    define ex2 where "ex2 = ex1\<lparr>ex_store := put_limiter lim (ex_store ex1)\<rparr>"
    show ?thesis
    proof (cases res)
      case (Inr old)
      obtain ex3 ex4 where c: "cache_update_memory ex2 = (Inr ex3 :: 'e xerr + _)"
        and s: "set_register r (of_i32 (of_nat old)) ex3 = (Inr ex4 :: 'e xerr + _)" and e: "ex' = next_instr_at 2 ex4"
        using grow False mo gr Inr
        by (auto simp: ex1_def [symmetric] ex2_def [symmetric] Let_def elim!: rbind_InrE)
      have "exec_inv ex3"
        using cache_update_memoryD [OF c, of "ex_store ex"] assms(2)
        by (simp add: inv_defs ex2_def ex1_def)
      then show ?thesis
        using shape_set_register [OF s] e exec_inv_shape [of ex' ex3] by simp
    next
      case (Inl err)
      then have m': "m' = m" "err = InvalidGrow"
        using gr grow False mo memory_grow_err by (auto simp: Let_def split: entity_grow_error.splits) blast
      obtain ex3 where s: "set_register r (of_i32 grow_error_code) ex2 = (Inr ex3 :: 'e xerr + _)"
        and e: "ex' = next_instr_at 2 ex3"
        using grow False mo gr Inl m'
        by (auto simp: ex1_def ex2_def Let_def elim!: rbind_InrE)
      have "exec_shape ex2 = exec_shape ex"
        using mo m' by (simp add: ex2_def ex1_def rsimps)
      then show ?thesis using shape_set_register [OF s] e by (intro keep) simp
    qed
  qed
qed



section \<open>Calls\<close>

lemma shape_values [simp]:
  "exec_shape (ex\<lparr>ex_stack := (ex_stack ex)\<lparr>st_values := vs\<rparr>\<rparr>) = exec_shape ex"
  by (simp add: exec_shape_def)

lemma shape_copy_regs: "copy_regs rs (p, ex) = Inr (p', ex') \<Longrightarrow> exec_shape ex' = exec_shape ex"
proof (induction rs arbitrary: p ex)
  case (Cons r rs)
  then show ?case by (auto elim!: rbind_InrE)
qed simp

lemma shape_copy_call_params: "copy_call_params env p ex = Inr (p', ex') \<Longrightarrow> exec_shape ex' = exec_shape ex"
  by (auto simp: copy_call_params_def elim!: rbind_InrE rmap_InrE dest!: shape_copy_regs)

lemma calls_inv_shape: "exec_shape ex' = exec_shape ex \<Longrightarrow> calls_inv i ex' = calls_inv i ex"
  by (simp add: calls_inv_def exec_shape_def)

lemma caller_frame_inv:
  "calls_inv i ex \<Longrightarrow> caller_frame ex = Inr f \<Longrightarrow> cf_base_offset f = ex_sp ex"
  by (auto simp: calls_inv_def Let_def caller_frame_def cs_peek_def vec_last_def rsimps)

lemma dispatch_shape:
  fixes env :: "('h, 'e) exec_env"
  assumes "dispatch_compiled_func env cx res f ex = Inr (called, ex')" "calls_inv i ex"
  shows "exec_shape ex' = exec_shape ex" "\<not> cf_changed_instance called"
proof -
  from assms(1) obtain caller p offs vals ex2 p2 vals2 where c: "caller_frame ex = (Inr caller :: 'e xerr + _)"
    and p: "(if cx_has_params cx then copy_call_params env p (ex\<lparr>ex_sp := cf_base_offset caller,
        ex_stack := (ex_stack ex)\<lparr>st_values := vals\<rparr>\<rparr>) else Inr (p, ex\<lparr>ex_sp := cf_base_offset caller,
        ex_stack := (ex_stack ex)\<lparr>st_values := vals\<rparr>\<rparr>)) = Inr (p2, ex2)"
    and ex': "ex' = ex2\<lparr>ex_stack := (ex_stack ex2)\<lparr>st_values := vals2\<rparr>\<rparr>"
    and called: "called = call_frame_new f \<lparr>ip_func = f, ip_index = 0\<rparr> offs res"
    unfolding dispatch_compiled_func_def Let_def by (elim rbind_InrE) (auto elim!: rbind_InrE)
  have "exec_shape (ex\<lparr>ex_sp := cf_base_offset caller, ex_stack := (ex_stack ex)\<lparr>st_values := vals\<rparr>\<rparr>)
      = exec_shape ex"
    using caller_frame_inv [OF assms(2) c] by (simp add: exec_shape_def)
  with p ex' show "exec_shape ex' = exec_shape ex"
    by (auto split: if_splits dest!: shape_copy_call_params)
  show "\<not> cf_changed_instance called" by (simp add: called call_frame_new_def)
qed


lemma merge_pop:
  assumes "merge_call_frames called st = Some (inst, called', st')"
  shows "\<exists>caller. cs_pop (st_calls st) = (Some (caller, inst), st_calls st')"
    and "cf_changed_instance called' = cf_changed_instance called"
  using assms
  by (auto simp: merge_call_frames_def bind_eq_Some_conv cf_move_down_def split: prod.splits option.splits if_splits)

text \<open>Popping a frame below which there are others, or the root frame.\<close>

lemma calls_inv_pop:
  assumes "calls_inv i ex" "cs_pop (st_calls (ex_stack ex)) = (Some (f, popped), calls)"
  shows "cs_inv calls" "cs_frames calls \<noteq> [] \<longrightarrow> cf_changed_instance (hd (cs_frames calls))"
    "popped = None \<Longrightarrow> cs_instance calls = Some i \<and> cs_frames calls \<noteq> []"
    "popped \<noteq> None \<Longrightarrow> popped = Some i"
proof -
  let ?c = "st_calls (ex_stack ex)"
  from assms obtain fs g where fr: "cs_frames ?c = fs @ [g]"
    by (cases "cs_frames ?c" rule: rev_cases) (auto simp: inv_defs)
  have hv: "hv_head (cs_instances ?c) = Some i"
    using assms(1) by (simp add: inv_defs cs_instance_def hv_last_def)
  have f: "g = f" "cs_frames calls = fs"
    "if cf_changed_instance f then popped = Some i else popped = None \<and> cs_instances calls = cs_instances ?c"
    using assms(2) fr hv
    by (auto simp: cs_pop_def vec_pop_def Let_def hv_pop_def split: prod.splits if_splits)
  show "cs_inv calls" using cs_pop_inv [of ?c] assms by (simp add: inv_defs)
  show "cs_frames calls \<noteq> [] \<longrightarrow> cf_changed_instance (hd (cs_frames calls))"
    using assms(1) fr f by (auto simp: inv_defs)
  show "popped \<noteq> None \<Longrightarrow> popped = Some i" using f by (auto split: if_splits)
  show "cs_instance calls = Some i \<and> cs_frames calls \<noteq> []" if "popped = None"
    using that f fr assms(1) hv by (auto simp: inv_defs cs_instance_def hv_last_def split: if_splits)
qed

lemma inv_prepare:
  fixes env :: "('h, 'e) exec_env"
  assumes "prepare_compiled_func_call env cx res f inst ex = Inr ex'" "calls_inv i ex"
  shows "calls_inv (case inst of None \<Rightarrow> i | Some j \<Rightarrow> j) ex'" "ex_cache ex' = ex_cache ex"
    "store_shape (ex_store ex') = store_shape (ex_store ex)"
proof -
  let ?ex0 = "\<lambda>fuel. ex\<lparr>ex_store := (ex_store ex)\<lparr>ws_fuel := fuel\<rparr>\<rparr>"
  from assms(1) obtain fuel called ex1 called' inst' ex2 calls where
    d: "dispatch_compiled_func env cx res f (?ex0 fuel) = Inr (called, ex1)"
    and k: "(case cx_kind cx of
        Nested \<Rightarrow> rmap (\<lambda>ex2. (called, inst, ex2)) (update_instr_ptr_at 1 ex1)
      | Tail \<Rightarrow>
          rmap (\<lambda>(caller_instance, called', st).
              (called', (case inst of Some i \<Rightarrow> Some i | None \<Rightarrow> caller_instance), ex1\<lparr>ex_stack := st\<rparr>))
            (ok_or XPanic (merge_call_frames called (ex_stack ex1)))) =
        (Inr (called', inst', ex2) :: 'e xerr + _)"
    and push: "cs_push called' inst' (st_calls (ex_stack ex2)) = Inr calls"
    and ex': "ex' = (init_call_frame called' ex2)\<lparr>ex_stack := (ex_stack ex2)\<lparr>st_calls := calls\<rparr>\<rparr>"
    unfolding prepare_compiled_func_call_def Let_def
    by (elim rbind_InrE) (auto elim!: rbind_InrE simp: lift_trap_eq_Inr init_call_frame_def)
  have i0: "calls_inv i (?ex0 fuel)" and s0: "exec_shape (?ex0 fuel) = exec_shape ex"
    using assms(2) by (simp_all add: calls_inv_def)
  note sh = dispatch_shape [OF d i0]
  have i1: "calls_inv i ex1" using calls_inv_shape sh(1) i0 by blast
  have c: "cs_inv (st_calls (ex_stack ex2)) \<and> \<not> cf_changed_instance called' \<and>
    (cs_frames (st_calls (ex_stack ex2)) = [] \<longrightarrow> inst' \<noteq> None) \<and>
    (cs_frames (st_calls (ex_stack ex2)) \<noteq> [] \<longrightarrow> cf_changed_instance (hd (cs_frames (st_calls (ex_stack ex2))))) \<and>
    (case inst' of None \<Rightarrow> cs_instance (st_calls (ex_stack ex2)) | Some _ \<Rightarrow> inst') =
      Some (case inst of None \<Rightarrow> i | Some j \<Rightarrow> j) \<and>
    ex_cache ex2 = ex_cache ex1 \<and> ex_store ex2 = ex_store ex1"
  proof (cases "cx_kind cx")
    case Nested
    obtain cs where u: "cs_update_top (cf_update_instr_ptr (ip_add 1 (ex_ip ex1))) (st_calls (ex_stack ex1)) = Some cs"
      and "called' = called" "inst' = inst"
      and e2: "ex2 = ex1\<lparr>ex_ip := ip_add 1 (ex_ip ex1), ex_stack := (ex_stack ex1)\<lparr>st_calls := cs\<rparr>\<rparr>"
      using k Nested by (auto simp: update_instr_ptr_at_def Let_def rsimps)
    moreover have "cs_inv (st_calls (ex_stack ex1))" using i1 by (simp add: inv_defs)
    moreover have "calls_inv i ex2" 
      using calls_inv_update_ip k Nested i1 by (auto elim!: rmap_InrE)
    ultimately show ?thesis using sh(2) by (auto simp: inv_defs split: option.split)
  next
    case Tail
    then obtain ci st where m: "merge_call_frames called (ex_stack ex1) = Some (ci, called', st)"
      and "inst' = (case inst of Some i \<Rightarrow> Some i | None \<Rightarrow> ci)" and e2: "ex2 = ex1\<lparr>ex_stack := st\<rparr>"
      using k by (auto elim!: rmap_InrE simp: ok_or_eq_Inr)
    moreover obtain caller where "cs_pop (st_calls (ex_stack ex1)) = (Some (caller, ci), st_calls st)"
      using merge_pop(1) [OF m] by blast
    note calls_inv_pop [OF i1 this]
    ultimately show ?thesis using merge_pop(2) [OF m] sh(2)
      by (cases ci; cases inst) auto
  qed
  note p = inv_push [OF push]
  show "calls_inv (case inst of None \<Rightarrow> i | Some j \<Rightarrow> j) ex'"
    using c p ex' by (auto simp: calls_inv_def Let_def init_call_frame_def)
  show "ex_cache ex' = ex_cache ex" "store_shape (ex_store ex') = store_shape (ex_store ex)"
    using c sh(1) s0 ex' by (auto simp: exec_shape_def init_call_frame_def)
qed


text \<open>A nested call of a host function comes back to the caller with freshly loaded caches.\<close>

lemma host_buffer_inv:
  assumes "host_func_buffer Nested n ex = Inr (p, ex')" "calls_inv i ex"
  shows "exec_shape ex' = exec_shape ex"
  using assms
  by (auto simp: host_func_buffer_def Let_def cs_peek_def vec_last_def exec_shape_def calls_inv_def
      elim!: rbind_InrE)

lemma dispatch_host_calls:
  assumes "dispatch_host_func env hf inst ex = Inr (r, ex')" "calls_inv i ex"
  shows "calls_inv i ex'"
  using assms
  by (auto simp: dispatch_host_func_def Let_def calls_inv_def elim!: rmap_InrE
      split: if_split_asm prod.split_asm sum.split_asm)

lemma inv_host_func:
  fixes env :: "('h, 'e) exec_env"
  assumes "exec_host_func env cx res f hf ex = Inr ex'" "cx_kind cx = Nested" "calls_inv i ex"
  shows "exec_inv ex'"
proof -
  from assms(1,2) obtain j p ex1 ex2 ex3 ex4 ex5 rs returned vals where
    j: "cs_instance (st_calls (ex_stack ex)) = Some j"
    and 1: "host_func_buffer Nested (max (unat (hf_len_params hf)) (unat (hf_len_results hf))) ex
      = (Inr (p, ex1) :: 'e xerr + _)"
    and 2: "(if cx_has_params cx then rmap snd (copy_call_params env p ex1) else Inr ex1) = Inr ex2"
    and 3: "update_instr_ptr_at 1 ex2 = (Inr ex3 :: 'e xerr + _)"
    and 4: "dispatch_host_func env hf (Some j) ex3 = Inr (Inr (), ex4)"
    and 5: "cache_update j ex4 = (Inr ex5 :: 'e xerr + _)"
    and 6: "set_registers (zip rs returned) (ex5\<lparr>ex_stack := (ex_stack ex5)\<lparr>st_values := vals\<rparr>\<rparr>)
      = (Inr ex' :: 'e xerr + _)"
    unfolding exec_host_func_def Let_def
    by (elim rbind_InrE) (auto elim!: rbind_InrE split: sum.split_asm simp: ok_or_eq_Inr)
  have [simp]: "j = i" using j assms(3) by (simp add: calls_inv_def Let_def)
  have "exec_shape ex2 = exec_shape ex"
    using host_buffer_inv [OF 1 assms(3)] 2 by (auto split: if_splits elim!: rmap_InrE dest!: shape_copy_call_params)
  then have "calls_inv i ex2" using calls_inv_shape assms(3) by blast
  then have "calls_inv i ex4" using calls_inv_update_ip [OF 3] dispatch_host_calls [OF 4] by blast
  with cache_updateD [OF 5] have "exec_inv ex5" by (simp add: exec_inv_def calls_inv_def Let_def)
  then show ?thesis using exec_inv_shape [OF trans [OF shape_set_registers [OF 6] shape_values]] by blast
qed

lemma inv_hook:
  assumes "store_invoke_call_hook env k ex = Inr ex'"
  shows "exec_shape ex' = exec_shape ex"
  using assms by (auto simp: store_invoke_call_hook_def split: prod.split_asm sum.split_asm)

lemma exec_invI: "calls_inv i ex \<Longrightarrow> ex_cache ex = c \<Longrightarrow> ci_instance c = i \<Longrightarrow>
    store_shape (ex_store ex) = store_shape s \<Longrightarrow> cache_coherent s c \<Longrightarrow> exec_inv ex"
  using cache_coherent_shape [of "ex_store ex" s] by (simp add: exec_inv_def)

lemma inv_prepare_None:
  assumes "prepare_compiled_func_call env cx res f None ex = Inr ex'" "exec_inv ex"
  shows "exec_inv ex'"
  using inv_prepare [OF assms(1)] assms(2)
  by (intro exec_invI [of "ci_instance (ex_cache ex)" ex' "ex_cache ex" "ex_store ex"]) (auto simp: exec_inv_def)

lemma inv_call_imported:
  fixes env :: "('h, 'e) exec_env"
  assumes "exec_call_imported_impl env cx res f ex = Inr ex'" "exec_inv ex"
    and "cx_kind cx = Nested \<or> (\<forall>hf. ws_funcs (ex_store ex) ! f \<noteq> HostFunc hf)"
  shows "exec_inv ex'"
proof -
  obtain e where e: "f < length (ws_funcs (ex_store ex))" "ws_funcs (ex_store ex) ! f = e"
    and r: "(case e of
        WasmFunc w \<Rightarrow>
          rbind (prepare_compiled_func_call env cx res (wf_body w) (Some (wf_instance w)) ex)
            (cache_update (wf_instance w))
      | HostFunc hf \<Rightarrow>
          rbind (store_invoke_call_hook env CallingHost ex) (\<lambda>ex1.
          rbind (exec_host_func env cx res f hf ex1) (\<lambda>ex2.
            store_invoke_call_hook env ReturningFromHost ex2))) = Inr ex'"
    using assms(1) unfolding exec_call_imported_impl_def resolve_def
    by (elim rbind_InrE) (simp add: ok_or_eq_Inr)
  show ?thesis
  proof (cases e)
    case (WasmFunc w)
    with r obtain ex1 where p: "prepare_compiled_func_call env cx res (wf_body w) (Some (wf_instance w)) ex = Inr ex1"
      and u: "cache_update (wf_instance w) ex1 = (Inr ex' :: 'e xerr + _)"
      by (auto elim!: rbind_InrE)
    have "calls_inv (wf_instance w) ex1" using inv_prepare(1) [OF p, of "ci_instance (ex_cache ex)"] assms(2)
      by (simp add: exec_inv_def)
    then show ?thesis using cache_updateD [OF u] by (simp add: exec_inv_def calls_inv_def Let_def)
  next
    case (HostFunc hf)
    with r obtain ex1 ex2 where h: "store_invoke_call_hook env CallingHost ex = Inr ex1"
      "exec_host_func env cx res f hf ex1 = Inr ex2" "store_invoke_call_hook env ReturningFromHost ex2 = Inr ex'"
      by (auto elim!: rbind_InrE)
    have k: "cx_kind cx = Nested" using assms(3) HostFunc e by auto
    have "calls_inv (ci_instance (ex_cache ex)) ex1"
      using calls_inv_shape [OF inv_hook [OF h(1)]] assms(2) by (simp add: exec_inv_def)
    with inv_host_func [OF h(2) k] show ?thesis
      using exec_inv_shape [OF inv_hook [OF h(3)]] by simp
  qed
qed

text \<open>An indirect or imported tail call, the one kind of call that may hand over to a host function.\<close>

definition outer_tail_call :: "instruction \<Rightarrow> bool" where
  "outer_tail_call i = (case i of
      ICl (IReturnCallImported0 _) \<Rightarrow> True | ICl (IReturnCallImported _) \<Rightarrow> True
    | ICl (IReturnCallIndirect0 _) \<Rightarrow> True | ICl (IReturnCallIndirect0Imm16 _) \<Rightarrow> True
    | ICl (IReturnCallIndirect _) \<Rightarrow> True | ICl (IReturnCallIndirectImm16 _) \<Rightarrow> True
    | _ \<Rightarrow> False)"

lemma shape_pull:
  "pull_call_indirect_params env ex = Inr (r, ex') \<Longrightarrow> exec_shape ex' = exec_shape ex"
  "pull_call_indirect_params_imm16 env ex = Inr (r, ex') \<Longrightarrow> exec_shape ex' = exec_shape ex"
  by (auto simp: pull_call_indirect_params_def pull_call_indirect_params_imm16_def Let_def
      elim!: rbind_InrE rmap_InrE split: instruction.split_asm param_word.split_asm)

lemma inv_call_indirect:
  assumes "exec_call_indirect env cx pull res ft ex = Inr (r, ex')" "exec_inv ex" "cx_kind cx = Nested"
    and pull: "\<And>r ex ex'. pull ex = Inr (r, ex') \<Longrightarrow> exec_shape ex' = exec_shape ex"
  shows "exec_inv ex'"
proof -
  from assms(1) obtain p ex1 index table where 1: "pull ex = Inr (p, ex1)"
    and 2: "exec_call_indirect_impl env cx res ft index table ex1 = Inr ex'"
    by (auto simp: exec_call_indirect_def elim!: rbind_InrE rmap_InrE)
  have "exec_inv ex1" using exec_inv_shape [OF pull [OF 1]] assms(2) by simp
  with 2 assms(3) show ?thesis
    by (auto simp: exec_call_indirect_impl_def elim!: rbind_InrE split: if_split_asm intro: inv_call_imported)
qed

lemma inv_call:
  assumes "exec_call env c ex = Inr (r, ex')" "exec_inv ex" "\<not> outer_tail_call (ICl c)"
  shows "exec_inv ex'"
  using assms
  by (cases c)
    (auto simp: outer_tail_call_def exec_return_call_internal_impl_def exec_call_imported_def
      nested_call_def nested_call_0_def elim!: rbind_InrE rmap_InrE
      intro: inv_prepare_None inv_call_imported inv_call_indirect shape_pull)

lemma inv_plain:
  assumes "exec_plain env i ex = Inr (r, ex')" "exec_inv ex" "\<not> outer_tail_call i"
  shows "exec_inv ex'"
proof -
  have keep: "exec_inv ex2" if "exec_shape ex2 = exec_shape ex" for ex2
    using that exec_inv_shape assms(2) by blast
  have fuel: "exec_shape ex' = exec_shape ex" if "exec_consume_fuel f ex = Inr ex'" for f
    using that by (auto simp: exec_consume_fuel_def elim!: rbind_InrE)
  have ref: "exec_shape ex' = exec_shape ex" if "exec_ref_func env x f ex = Inr ex'" for x f
    using that by (auto simp: exec_ref_func_def elim!: rbind_InrE dest!: shape_dests)
  have mem: "exec_inv ex'" if "exec_memory env m ex = Inr ex'" for m
    using that assms(2)
    by (cases m) (auto simp: exec_data_drop_def exec_memory_size_def exec_memory_size_impl_def
        elim!: rbind_InrE dest!: shape_dests shape_memory_bulk intro: inv_memory_grow keep)
  show ?thesis
    using assms
    by (cases i) (auto simp: exec_plain_def elim!: rmap_InrE dest!: fuel ref intro: mem inv_call keep
        dest: shape_branch shape_copy shape_select shape_global shape_load shape_exec_store
        shape_num shape_table)
qed

lemma inv_exec_one:
  assumes "exec_one env ex = Inr (Continue, ex')" "exec_inv ex"
    and "\<And>i. fetch_instr env (ex_ip ex) = Inr i \<Longrightarrow> \<not> outer_tail_call i"
  shows "exec_inv ex'"
  using assms unfolding exec_one_def
  by (elim rbind_InrE) (auto split: instruction.split_asm elim!: rmap_InrE intro: inv_plain inv_return)



section \<open>The engine and the stepper\<close>

lemma exec_inv_memory:
  assumes "exec_inv ex"
  shows "\<exists>bytes. cached_memory_data ex = Inr bytes"
  using assms
  by (auto simp: exec_inv_def cache_coherent_def load_caches_Inr cached_memory_data_def get_at_def
      split: option.splits if_splits)

lemma not_empty: "exec_inv ex \<Longrightarrow> \<not> cs_is_empty (st_calls (ex_stack ex))"
  by (simp add: inv_defs cs_is_empty_def)

lemma execute_instr_exec_one:
  assumes "execute_instr env n ex = Inr (sig, report, ex')" "\<not> cs_is_empty (st_calls (ex_stack ex))"
  shows "exec_one env ex = Inr (if sig = SigEnd then Break else Continue, ex')" "sig \<noteq> SigBreakpoint"
proof -
  obtain i where i: "fetch_instr env (ex_ip ex) = Inr i"
    using assms(1) by (auto simp: execute_instr_def elim!: rbind_InrE)
  have "exec_one env ex = Inr (if sig = SigEnd then Break else Continue, ex') \<and> sig \<noteq> SigBreakpoint"
  proof (cases "\<exists>r. i = IRet r")
    case True
    then show ?thesis
      using assms i
      by (auto simp: execute_instr_def exec_one_def forward_return_dbg_def elim!: rmap_InrE
          split: control_flow.splits)
  next
    case False
    then have "rmap (\<lambda>(_, ex'). (Continue, ex')) (exec_plain env i ex) = Inr (Continue, ex') \<and> sig = SigNext"
      using assms i by (cases i) (auto simp: execute_instr_def rsimps)
    with False show ?thesis using i by (cases i) (auto simp: exec_one_def)
  qed
  then show "exec_one env ex = Inr (if sig = SigEnd then Break else Continue, ex')" "sig \<noteq> SigBreakpoint"
    by blast+
qed

lemma combine_signals_end: "sig \<noteq> SigBreakpoint \<Longrightarrow> combine_signals a b sig = SigEnd \<longleftrightarrow> sig = SigEnd"
  by (auto simp: combine_signals_def split: signal.splits)

lemma execute_step_exec_one:
  assumes "execute_step env ic (ex, d) = Inr (sig, ex', d')" "\<not> cs_is_empty (st_calls (ex_stack ex))"
  shows "exec_one env ex = Inr (if sig = SigEnd then Break else Continue, ex')"
proof -
  obtain n res report a b where e: "execute_instr env n ex = Inr (res, report, ex')"
    and s: "sig = combine_signals a b res"
    using assms(1) by (auto simp: execute_step_def Let_def elim!: rbind_InrE split: prod.splits)
  from execute_instr_exec_one [OF e assms(2)] s show ?thesis by (auto simp: combine_signals_end)
qed

text \<open>Code without tail calls that may leave the module.\<close>

definition no_outer_tail_calls :: "('h, 'e) exec_env \<Rightarrow> bool" where
  "no_outer_tail_calls env \<longleftrightarrow> (\<forall>f. \<forall>w\<in>set (cm_instrs (env_code env f)). \<not> outer_tail_call (iw_instr w))"

lemma fetch_no_outer: "no_outer_tail_calls env \<Longrightarrow> fetch_instr env ip = Inr i \<Longrightarrow> \<not> outer_tail_call i"
  by (auto simp: no_outer_tail_calls_def fetch_instr_def fetch_word_def Let_def rsimps split: if_splits)
    (metis nat_less_iff nth_mem)

lemma step_run_execute:
  assumes "step_run n env ic (ex, d) = Some (Inr (ex', d'))" "exec_inv ex" "no_outer_tail_calls env"
  shows "execute env ex = Some (Inr ex')"
  using assms(1,2)
proof (induction n arbitrary: ex d)
  case (Suc n)
  then obtain sig ex1 d1 where st: "execute_step env ic (ex, d) = Inr (sig, ex1, d1)"
    by (auto split: sum.splits prod.splits)
  note one = execute_step_exec_one [OF st not_empty [OF Suc.prems(2)]]
  show ?case
  proof (cases "sig = SigEnd")
    case True
    then show ?thesis using Suc.prems st one by (subst execute.simps) simp
  next
    case False
    then have "step_run n env ic (ex1, d1) = Some (Inr (ex', d'))"
      using Suc.prems st by (auto split: signal.splits)
    moreover have "exec_inv ex1"
      using inv_exec_one [of env ex ex1] one False Suc.prems(2) fetch_no_outer [OF assms(3)] by simp
    ultimately show ?thesis using Suc.IH one False by (subst execute.simps) simp
  qed
qed simp

end
