(* ===== verification/Exec_Props.thy ===== *)
theory Exec_Props
  imports Exec_Inv
begin

text \<open>
  Properties of the executor: the invariant of its steps, the agreement of the stepper with the
  engine, calls and returns, copies, bulk memory operations and the defects found in branches and
  tail calls. A small program serves for the witnesses.
\<close>


section \<open>A small program\<close>

text \<open>
  One function without parameters that returns the constant 7, called as the root function with
  one result cell below its frame.
\<close>

definition demo_nan :: nan_env where
  "demo_nan = \<lparr>nan32 = (\<lambda>_. 0x7FC00000), nan64 = (\<lambda>_. 0x7FF8000000000000),
     nan_demote = (\<lambda>_. 0x7FC00000), nan_promote = (\<lambda>_. 0x7FF8000000000000)\<rparr>"

definition demo_env_of :: "instruction list \<Rightarrow> (unit, unit) exec_env" where
  "demo_env_of is = \<lparr>env_nan = demo_nan,
     env_code = (\<lambda>_. \<lparr>cm_instrs = map (\<lambda>i. \<lparr>iw_offset = 0, iw_instr = i\<rparr>) is, cm_consts = [],
       cm_len_registers = 1\<rparr>),
     env_compile = (\<lambda>_ f. Inr f),
     env_host = (\<lambda>_ _ _ _ s. (Inl (), s)), env_hook = (\<lambda>_ d. (Inr (), d)),
     env_funcref = (\<lambda>v. unat (v - 1)), env_func_bits = (\<lambda>f. of_nat (Suc f))\<rparr>"

definition demo_env :: "(unit, unit) exec_env" where
  "demo_env = demo_env_of [ICpy (ICopyImm 0 (AnyImm32 7)), IRet (IReturnReg 0)]"

definition demo_store :: "unit wstore" where
  "demo_store = \<lparr>ws_instances = [\<lparr>in_func_types = [], in_tables = [], in_funcs = [], in_memories = [],
       in_globals = [], in_data_segments = [], in_elem_segments = [], in_exports = [], in_initialized = True\<rparr>],
     ws_memories = [], ws_tables = [], ws_globals = [], ws_funcs = [], ws_datas = [], ws_elems = [],
     ws_fuel = fuel_new False fuel_costs_default, ws_data = (), ws_limiter = None\<rparr>"

definition demo_frame :: call_frame where
  "demo_frame = \<lparr>cf_func = 0, cf_instr_ptr = \<lparr>ip_func = 0, ip_index = 0\<rparr>,
     cf_offsets = \<lparr>so_base = 1, so_frame = 1\<rparr>, cf_results = 0, cf_changed_instance = True\<rparr>"

definition demo_exec :: "int \<Rightarrow> untyped_val \<Rightarrow> unit exec" where
  "demo_exec i v = \<lparr>ex_sp = 1, ex_ip = \<lparr>ip_func = 0, ip_index = i\<rparr>,
     ex_cache = \<lparr>ci_instance = 0, ci_memory = None, ci_global = None\<rparr>,
     ex_stack = \<lparr>st_calls = \<lparr>cs_frames = [demo_frame],
         cs_instances = \<lparr>hv_head = Some 0, hv_rest = []\<rparr>, cs_recursion_limit = 10\<rparr>,
       st_values = \<lparr>vs_values = [0, v], vs_max_len = 100\<rparr>\<rparr>,
     ex_store = demo_store\<rparr>"

lemmas demo_defs = demo_env_def demo_env_of_def demo_store_def demo_exec_def demo_frame_def

lemma demo_inv: "exec_inv (demo_exec i v)"
  by (simp add: inv_defs cache_coherent_def load_caches_Inr demo_defs cs_inv_def hv_inv_def hv_len_def
      cs_instance_def hv_last_def cf_base_offset_def get_at_def)

lemma demo_step: "exec_one demo_env (demo_exec 0 0) = Inr (Continue, demo_exec 1 7)"
  by (simp add: exec_one_def exec_plain_def demo_defs fetch_instr_def fetch_word_def exec_copy_impl_def
      set_register_def set_register_at_def reg_set_at_def frame_set_def register_offset_def
      next_instr_def next_instr_at_def ip_add_def of_i32_def)

lemma demo_fetch: "fetch_instr demo_env (ex_ip (demo_exec 0 v)) = Inr (ICpy (ICopyImm 0 (AnyImm32 7)))"
  by (simp add: demo_defs fetch_instr_def fetch_word_def)

lemma demo_no_tail: "no_outer_tail_calls demo_env"
  by (simp add: no_outer_tail_calls_def demo_defs outer_tail_call_def)


section \<open>The invariant\<close>

text \<open>
  C2. Every step of the executor keeps its invariant: the call stack is well-formed, the cached
  instance is the one the top frame runs in, the stack pointer is the one of the top frame, and the
  cached memory and global are those of that instance, so that the pointer to the bytes of the
  default memory never dangles. Excepted are imported and indirect tail calls.
\<close>
theorem executor_invariant:
  assumes "exec_inv ex" "exec_one env ex = Inr (Continue, ex')"
    and "fetch_instr env (ex_ip ex) = Inr i" "\<not> outer_tail_call i"
  shows "exec_inv ex' \<and> (\<exists>bytes. cached_memory_data ex' = Inr bytes)"
  using inv_exec_one [OF assms(2,1)] assms(3,4) exec_inv_memory by auto

lemma executor_invariant_witness:
  "exec_inv (demo_exec 1 7) \<and> (\<exists>bytes. cached_memory_data (demo_exec 1 7) = (Inr bytes :: unit xerr + _))"
  by (rule executor_invariant [OF demo_inv demo_step demo_fetch]) (simp add: outer_tail_call_def)


section \<open>The stepper\<close>

definition demo_interceptor :: "(unit, unit, nat) interceptor" where
  "demo_interceptor = \<lparr>ic_invoke_func = (\<lambda>_ _ _ d. Inr (SigBreakpoint, d + 1)), ic_pop_frame = (\<lambda>d. d - 1),
     ic_execute_inst = (\<lambda>_ d. (SigBreakpoint, d)), ic_import_func_len = (\<lambda>_. Inr 0)\<rparr>"

text \<open>
  C3. Stepping is executing: from a state that satisfies the invariant of the executor, and for code
  without imported and indirect tail calls, whatever the interceptor answers and however often it
  stops, when the stepper of the debugger comes to the end of the root function, the engine's own
  loop ends too, in the same state of registers, stack and store.
\<close>
theorem stepper_runs_the_engine:
  assumes "step_run n env ic (ex, d) = Some (Inr (ex', d'))" "exec_inv ex" "no_outer_tail_calls env"
  shows "execute env ex = Some (Inr ex')"
  using assms by (rule step_run_execute)

lemma demo_execute_step:
  "execute_step demo_env demo_interceptor (demo_exec 0 0, d) = Inr (SigBreakpoint, demo_exec 1 7, d)"
  by (simp add: execute_step_def execute_instr_def exec_plain_def demo_defs demo_interceptor_def
      fetch_instr_def fetch_word_def exec_copy_impl_def internal_callee_def no_report_def step_invoke_def
      set_register_def set_register_at_def reg_set_at_def frame_set_def register_offset_def
      next_instr_def next_instr_at_def ip_add_def of_i32_def combine_signals_def)

definition demo_end :: "unit exec" where
  "demo_end = (demo_exec 1 7)\<lparr>ex_stack := \<lparr>st_calls = \<lparr>cs_frames = [],
     cs_instances = \<lparr>hv_head = None, hv_rest = []\<rparr>, cs_recursion_limit = 10\<rparr>,
     st_values = \<lparr>vs_values = [7], vs_max_len = 100\<rparr>\<rparr>\<rparr>"

lemma demo_return: "exec_return demo_env (IReturnReg 0) (demo_exec 1 7) = Inr (Break, demo_end)"
  by (simp add: demo_defs demo_end_def exec_return_value_def return_caller_results_def cs_peek_2_def vec_last_def
      get_register_def reg_get_def frame_get_def return_impl_def cs_pop_def vec_pop_def hv_pop_def
      vs_truncate_def cf_frame_offset_def cs_instance_def hv_last_def cs_peek_def
      set_register_at_def reg_set_at_def frame_set_def register_offset_def)

lemma demo_fetch_return:
  "fetch_word demo_env (ex_ip (demo_exec 1 7)) = Inr \<lparr>iw_offset = 0, iw_instr = IRet (IReturnReg 0)\<rparr>"
  by (simp add: demo_defs fetch_word_def)

lemma demo_execute_instr_end:
  "execute_instr demo_env 0 (demo_exec 1 7) =
     Inr (SigEnd, \<lparr>ir_is_pop_frame = True, ir_call_idx = -1, ir_table_idx = None\<rparr>, demo_end)"
proof -
  have "\<not> cs_is_empty (st_calls (ex_stack (demo_exec 1 7)))" by (simp add: demo_exec_def cs_is_empty_def)
  then show ?thesis
    by (simp add: demo_fetch_return execute_instr_def fetch_instr_def forward_return_dbg_def
        demo_return no_report_def del: exec_return.simps)
qed

lemma demo_execute_step_end:
  "execute_step demo_env demo_interceptor (demo_exec 1 7, d) = Inr (SigEnd, demo_end, d - 1)"
  by (simp add: execute_step_def demo_fetch_return demo_execute_instr_end demo_interceptor_def
      step_invoke_def combine_signals_def)

lemma demo_step_run: "step_run 2 demo_env demo_interceptor (demo_exec 0 0, 5) = Some (Inr (demo_end, 4))"
  by (simp add: numeral_2_eq_2 demo_execute_step demo_execute_step_end)

lemma stepper_runs_the_engine_witness: "execute demo_env (demo_exec 0 0) = Some (Inr demo_end)"
  by (rule stepper_runs_the_engine [OF demo_step_run demo_inv demo_no_tail])


section \<open>Copies\<close>

lemma reg_set_sp: "reg_set ex r v = Some ex' \<Longrightarrow> ex_sp ex' = ex_sp ex"
  by (auto simp: reg_set_def reg_set_at_def)

lemma get_registers_mapo: "get_registers ex rs = ok_or XUB (mapo (reg_get ex) rs)"
  by (induction rs) (auto simp: get_register_def ok_or_def rbind_def rmap_def split: option.split)

lemma set_register_at_reg_set: "set_register_at (ex_sp ex) r v ex = ok_or XUB (reg_set ex r v)"
  by (simp add: set_register_at_def reg_set_def)

lemma set_registers_set_all: "set_registers ps ex = ok_or XUB (ex_regs.set_all ex ps)"
proof -
  have "set_registers_at (ex_sp ex) ps ex = ok_or XUB (ex_regs.set_all ex ps)"
  proof (induction ps arbitrary: ex)
    case (Cons p ps)
    then show ?case
      by (cases "reg_set ex (fst p) (snd p)") (auto simp: set_register_at_reg_set dest: reg_set_sp [symmetric])
  qed simp
  then show ?thesis by (simp add: set_registers_def)
qed

lemma copy_registers_forward: "copy_registers ps ex = ok_or XUB (ex_regs.copy_forward ex ps)"
proof (induction ps arbitrary: ex)
  case (Cons p ps)
  show ?case
  proof (cases "reg_get ex (snd p)")
    case (Some v)
    then show ?thesis
      by (cases "reg_set ex (fst p) v")
        (auto simp: get_register_def set_register_def set_register_at_reg_set Cons.IH)
  qed (simp add: get_register_def)
qed simp

lemma span_iter_regs: "span_iter r n = (if sint r + uint n < 2 ^ 15 then Inr (span_regs r n) else Inl XPanic)"
proof (cases "iter_new_u16 r n")
  case None
  with iter_new_u16_Some [of r n] have "\<not> sint r + uint n < 2 ^ 15" by auto
  with None show ?thesis by (simp add: span_iter_def)
next
  case (Some it)
  with iter_new_u16_Some [of r n it] have "sint r + uint n < 2 ^ 15" by blast
  then show ?thesis using Some iter_regs_new [OF Some] by (simp add: span_iter_def)
qed

text \<open>
  C20. The translator's choice between the two span copies is sound: whenever
  \<open>has_overlapping_copies\<close> says that the spans do not overlap, the instruction
  \<open>CopySpanNonOverlapping\<close>, which copies register by register, has exactly the effect of
  \<open>CopySpan\<close>, which reads all values before it writes the first one.
\<close>
theorem span_copies_agree:
  assumes "has_overlapping_copies results vals len = Some False"
  shows "(exec_copy_span_non_overlapping_impl results vals len ex :: 'e xerr + 'h exec) =
    exec_copy_span_impl results vals len ex"
proof -
  let ?r = "span_regs results len" and ?v = "span_regs vals len"
  have "(copy_registers (zip ?r ?v) ex :: 'e xerr + _) =
      rbind (get_registers ex ?v) (\<lambda>tmp. set_registers (zip ?r tmp) ex)"
  proof -
    have "ex_regs.copy_forward ex (zip ?r ?v) = ex_regs.copy_buffered ex (zip ?r ?v)"
      using has_overlapping_copies_exact [OF assms] by (intro ex_regs.copy_forward_buffered) auto
    then show ?thesis
      by (cases "mapo (reg_get ex) ?v")
        (auto simp: copy_registers_forward get_registers_mapo set_registers_set_all ex_regs.copy_buffered_def)
  qed
  then show ?thesis
    by (simp add: exec_copy_span_non_overlapping_impl_def exec_copy_span_impl_def span_iter_regs)
qed

lemma span_copies_agree_witness:
  "(exec_copy_span_non_overlapping_impl 0 4 3 (demo_exec 0 0) :: unit xerr + unit exec) =
     exec_copy_span_impl 0 4 3 (demo_exec 0 0)"
  by (rule span_copies_agree)
    (simp add: has_overlapping_copies_def iter_new_u16_def iter_from_raw_parts_def
      span_has_overlapping_copies_def iter_len_as_u16_def bind_eq_Some_conv)

end
