(* ===== verification/Exec_Flow.thy ===== *)
theory Exec_Flow
  imports Exec_Props
begin

text \<open>
  Properties of single instructions of the executor: division by constants, the copy of memory
  ranges, calls with their returns, and two instructions that do not do what they mean to, the
  fallback of a compare-and-branch and the tail call of a host function.
\<close>


section \<open>Division by constants\<close>

lemma of_const16_simps [simp]:
  "to_i32 (of_const16_s32 c) = i32_of_const16 c" "to_i32 (of_const16_u32 c) = u32_of_const16 c"
  "to_i64 (of_const16_s64 c) = i64_of_const16 c" "to_i64 (of_const16_u64 c) = u64_of_const16 c"
  by (simp_all add: of_const16_s32_def of_const16_u32_def of_const16_s64_def of_const16_u64_def
      to_i32_def to_i64_def of_i32_def of_i64_def ucast_down_up)

lemma scast_eq_iff:
  assumes "LENGTH('a::len) \<le> LENGTH('b::len)"
  shows "(scast (c :: 'a word) :: 'b word) = scast d \<longleftrightarrow> c = d"
proof
  assume "(scast c :: 'b word) = scast d"
  then have "sint (scast c :: 'b word) = sint (scast d :: 'b word)" by simp
  then show "c = d" using assms by (simp add: sint_up_scast is_up sint_eq_iff)
qed simp

lemma const16_extremes [simp]:
  "i32_of_const16 c = 0 \<longleftrightarrow> c = 0" "i64_of_const16 c = 0 \<longleftrightarrow> c = 0"
  "u32_of_const16 c = 0 \<longleftrightarrow> c = 0" "u64_of_const16 c = 0 \<longleftrightarrow> c = 0"
  "i32_of_const16 c = - 1 \<longleftrightarrow> c = - 1" "i64_of_const16 c = - 1 \<longleftrightarrow> c = - 1"
proof -
  show "i32_of_const16 c = 0 \<longleftrightarrow> c = 0" "i64_of_const16 c = 0 \<longleftrightarrow> c = 0"
    "i32_of_const16 c = - 1 \<longleftrightarrow> c = - 1" "i64_of_const16 c = - 1 \<longleftrightarrow> c = - 1"
    unfolding i32_of_const16_def i64_of_const16_def
    using scast_eq_iff [where 'a = 16 and 'b = 32, of c 0] scast_eq_iff [where 'a = 16 and 'b = 64, of c 0]
      scast_eq_iff [where 'a = 16 and 'b = 32, of c "- 1"] scast_eq_iff [where 'a = 16 and 'b = 64, of c "- 1"]
    by simp_all
  show "u32_of_const16 c = 0 \<longleftrightarrow> c = 0" "u64_of_const16 c = 0 \<longleftrightarrow> c = 0"
    using uint_ucast_up [where 'a = 16 and 'b = 32, of c] uint_ucast_up [where 'a = 16 and 'b = 64, of c]
    by (simp_all add: u32_of_const16_def u64_of_const16_def word_uint_eq_iff)
qed

text \<open>The remainders that \<open>checked_rem\<close> refuses although they are defined.\<close>

definition rem_by_minus_one_overflows :: "divrem_op \<Rightarrow> untyped_val \<Rightarrow> u16 \<Rightarrow> bool" where
  "rem_by_minus_one_overflows op lhs rhs \<longleftrightarrow> rhs = - 1 \<and>
    (op = I32RemS \<and> to_i32 lhs = min_signed \<or> op = I64RemS \<and> to_i64 lhs = min_signed)"

text \<open>
  The instructions that divide by a non-zero 16-bit constant agree with the generic division of
  the encoded constant on every dividend, traps included. The one exception is the remainder of the
  least number by -1, which traps instead of yielding 0; the translator never encodes this constant.
\<close>
theorem constant_division_agrees:
  assumes "rhs \<noteq> 0"
  shows "divrem_ext_fn op lhs rhs =
    (if rem_by_minus_one_overflows op lhs rhs then Inl IntegerOverflow
     else divrem_fn op lhs (divrem_imm op rhs))"
  using assms
  by (cases op)
    (auto simp: rem_by_minus_one_overflows_def checked_div_def checked_rem_def overflowing_div_s_def
      wrapping_rem_s_def wrapping_rem_u_def overflowing_div_u_def int_div_def int_rem_def
      try_execute_binary_def i32_div_s_def i32_div_u_def i32_rem_s_def i32_rem_u_def i64_div_s_def
      i64_div_u_def i64_rem_s_def i64_rem_u_def)

lemma constant_division_agrees_witness:
  "divrem_ext_fn I32DivS (of_i32 (- 7)) 2 = divrem_fn I32DivS (of_i32 (- 7)) (divrem_imm I32DivS 2)"
  using constant_division_agrees [of 2 I32DivS "of_i32 (- 7)"]
  by (simp add: rem_by_minus_one_overflows_def)


section \<open>Copies of memory ranges\<close>

text \<open>
  C37. \<open>memory.copy\<close> within one memory copies as \<open>memmove\<close> does: it traps exactly when one of the
  ranges exceeds the memory, whatever the fuel, and otherwise, when the fuel for the bytes can be
  paid, each byte of the destination is the old byte of the source, also for overlapping ranges, and
  no other byte changes.
\<close>
theorem memory_copy_exact:
  fixes ex :: "'h exec"
  assumes "memory_of m ex = (Inr (h, mem) :: 'e xerr + _)"
  shows "(case (exec_memory_copy_within_impl m dst src len ex :: 'e xerr + _) of
      Inl e \<Rightarrow>
        (if length (memory_data mem) < src + len \<or> length (memory_data mem) < dst + len
         then e = XTrap MemoryOutOfBounds else pay_bytes len ex = Inl e)
    | Inr ex' \<Rightarrow>
        src + len \<le> length (memory_data mem) \<and> dst + len \<le> length (memory_data mem) \<and>
        length (memory_data (ws_memories (ex_store ex') ! h)) = length (memory_data mem) \<and>
        (\<forall>j < length (memory_data mem). memory_data (ws_memories (ex_store ex') ! h) ! j =
          (if dst \<le> j \<and> j < dst + len then memory_data mem ! (src + (j - dst)) else memory_data mem ! j)) \<and>
        (\<forall>k. k \<noteq> h \<longrightarrow> ws_memories (ex_store ex') ! k = ws_memories (ex_store ex) ! k))"
proof -
  have h: "h < length (ws_memories (ex_store ex))" "mem = ws_memories (ex_store ex) ! h"
    using assms by (auto simp: rsimps)
  show ?thesis
    using assms h
    by (cases "pay_bytes len ex :: 'e xerr + fuel")
      (auto simp: exec_memory_copy_within_impl_def memory_slice_def get_range_def Let_def put_ex_memory_def
        put_memory_def nth_put_range next_instr_at_def)
qed

definition demo_memory_exec :: "unit exec" where
  "demo_memory_exec = (demo_exec 0 0)\<lparr>ex_store := demo_store\<lparr>
     ws_instances := [\<lparr>in_func_types = [], in_tables = [], in_funcs = [], in_memories = [0],
       in_globals = [], in_data_segments = [], in_elem_segments = [], in_exports = [], in_initialized = True\<rparr>],
     ws_memories := [\<lparr>me_bytes = \<lparr>bb_bytes = [1, 2, 3, 4], bb_static = None\<rparr>,
       me_type = \<lparr>mt_initial_pages = 0, mt_maximum_pages = None\<rparr>, me_current_pages = 0\<rparr>]\<rparr>\<rparr>"

lemma memory_copy_exact_witness:
  "\<exists>ex'. exec_memory_copy_within_impl 0 1 0 3 demo_memory_exec = (Inr ex' :: unit xerr + _) \<and>
     memory_data (ws_memories (ex_store ex') ! 0) ! 3 = 3"
proof -
  let ?mem = "ws_memories (ex_store demo_memory_exec) ! 0"
  have m: "memory_of 0 demo_memory_exec = (Inr (0, ?mem) :: unit xerr + _)"
    by (simp add: memory_of_def get_entity_def resolve_def get_at_def demo_memory_exec_def demo_defs)
  have "pay_bytes 3 demo_memory_exec = (Inr (ws_fuel demo_store) :: unit xerr + _)"
    by (simp add: pay_bytes_def consume_fuel_if_def consume_fuel_def demo_memory_exec_def demo_defs
        fuel_new_def)
  moreover have "memory_data ?mem = [1, 2, 3, 4]" by (simp add: demo_memory_exec_def memory_data_def)
  moreover note copy = memory_copy_exact [OF m, where dst = 1 and src = 0 and len = 3]
  ultimately show ?thesis
    by (cases "exec_memory_copy_within_impl 0 1 0 3 demo_memory_exec :: unit xerr + _") auto
qed


section \<open>Calls and returns\<close>

text \<open>The last word of a call with its parameters.\<close>

definition call_end :: "('h, 'e) exec_env \<Rightarrow> call_context \<Rightarrow> instr_ptr \<Rightarrow> instr_ptr \<Rightarrow> bool" where
  "call_end env cx ip ip' \<longleftrightarrow>
    (if cx_has_params cx then \<exists>regs. collect_registers env (ip_add 1 ip) = Inr (regs, ip') else ip' = ip)"

definition set_top_ip :: "instr_ptr \<Rightarrow> call_stack \<Rightarrow> call_stack" where
  "set_top_ip ip c = c\<lparr>cs_frames := butlast (cs_frames c) @ [cf_update_instr_ptr ip (last (cs_frames c))]\<rparr>"

lemma set_top_ip_same: "cs_frames c \<noteq> [] \<Longrightarrow> set_top_ip (cf_instr_ptr (last (cs_frames c))) c = c"
  by (simp add: set_top_ip_def cf_update_instr_ptr_def)

lemma copy_regs_ip: "copy_regs rs (p, ex) = Inr (p', ex') \<Longrightarrow> ex_ip ex' = ex_ip ex"
proof (induction rs arbitrary: p ex)
  case (Cons r rs)
  then show ?case by (auto elim!: rbind_InrE)
qed simp

lemma dispatch_details:
  fixes env :: "('h, 'e) exec_env"
  assumes "dispatch_compiled_func env cx res f ex = Inr (called, ex')"
  shows "cf_frame_offset called = length (vs_values (st_values (ex_stack ex)))"
    "call_end env cx (ex_ip ex) (ex_ip ex')" "cf_results called = res"
proof -
  from assms obtain caller p offs vals ex2 p2 vals2 where
    a: "vs_alloc_call_frame (unat (cm_len_registers (env_code env f))) (cm_consts (env_code env f))
        (st_values (ex_stack ex)) = Inr (p, offs, vals)"
    and p: "(if cx_has_params cx then copy_call_params env p (ex\<lparr>ex_sp := cf_base_offset caller,
        ex_stack := (ex_stack ex)\<lparr>st_values := vals\<rparr>\<rparr>) else Inr (p, ex\<lparr>ex_sp := cf_base_offset caller,
        ex_stack := (ex_stack ex)\<lparr>st_values := vals\<rparr>\<rparr>)) = Inr (p2, ex2)"
    and ex': "ex' = ex2\<lparr>ex_stack := (ex_stack ex2)\<lparr>st_values := vals2\<rparr>\<rparr>"
    and called: "called = call_frame_new f \<lparr>ip_func = f, ip_index = 0\<rparr> offs res"
    unfolding dispatch_compiled_func_def Let_def
    by (elim rbind_InrE) (auto elim!: rbind_InrE simp: lift_trap_eq_Inr)
  show "cf_frame_offset called = length (vs_values (st_values (ex_stack ex)))"
    using a by (auto simp: called call_frame_new_def cf_frame_offset_def vs_alloc_call_frame_def Let_def rsimps
        split: if_splits)
  show "cf_results called = res" by (simp add: called call_frame_new_def)
  show "call_end env cx (ex_ip ex) (ex_ip ex')"
    using p ex' by (auto simp: call_end_def copy_call_params_def elim!: rbind_InrE rmap_InrE split: if_splits)
qed

lemma update_top_set_ip:
  assumes "cs_update_top (cf_update_instr_ptr ip) c = Some c'"
  shows "c' = set_top_ip ip c" "cs_frames c \<noteq> []"
  using assms by (auto simp: cs_update_top_def set_top_ip_def split: if_splits)

lemma prepare_nested:
  fixes env :: "('h, 'e) exec_env"
  assumes "prepare_compiled_func_call env cx res f None ex = Inr ex1" "cx_kind cx = Nested"
    and "calls_inv i ex"
  obtains called ip' where "call_end env cx (ex_ip ex) ip'"
    and "st_calls (ex_stack ex1) = (let c = set_top_ip (ip_add 1 ip') (st_calls (ex_stack ex))
      in c\<lparr>cs_frames := cs_frames c @ [called]\<rparr>)"
    and "\<not> cf_changed_instance called" "cf_results called = res"
    and "cf_frame_offset called = length (vs_values (st_values (ex_stack ex)))"
proof -
  let ?ex0 = "\<lambda>fuel. ex\<lparr>ex_store := (ex_store ex)\<lparr>ws_fuel := fuel\<rparr>\<rparr>"
  from assms(1,2) obtain fuel called ex2 ex3 calls where
    d: "dispatch_compiled_func env cx res f (?ex0 fuel) = Inr (called, ex2)"
    and u: "update_instr_ptr_at 1 ex2 = (Inr ex3 :: 'e xerr + _)"
    and push: "cs_push called None (st_calls (ex_stack ex3)) = Inr calls"
    and ex1: "ex1 = (init_call_frame called ex3)\<lparr>ex_stack := (ex_stack ex3)\<lparr>st_calls := calls\<rparr>\<rparr>"
    unfolding prepare_compiled_func_call_def Let_def
    by (elim rbind_InrE) (auto elim!: rbind_InrE rmap_InrE simp: lift_trap_eq_Inr init_call_frame_def)
  have i0: "calls_inv i (?ex0 fuel)" using assms(3) by (simp add: calls_inv_def)
  note sh = dispatch_shape [OF d i0] and det = dispatch_details [OF d]
  have "st_calls (ex_stack ex3) = set_top_ip (ip_add 1 (ex_ip ex2)) (st_calls (ex_stack ex))"
    using u update_top_set_ip(1) sh(1) by (auto simp: update_instr_ptr_at_def Let_def rsimps exec_shape_def)
  moreover from push have "calls = (st_calls (ex_stack ex3))\<lparr>cs_frames := cs_frames (st_calls (ex_stack ex3)) @ [called]\<rparr>"
    by (auto simp: cs_push_def split: if_splits)
  ultimately show thesis
    using det sh(2) by (intro that [of "ex_ip ex2" called]) (simp_all add: ex1 Let_def)
qed

lemma return_impl_nested:
  assumes "st_calls (ex_stack ex) = set_top_ip ip (c\<lparr>cs_frames := cs_frames c @ [called]\<rparr>)"
    and "cs_frames c \<noteq> []" "\<not> cf_changed_instance called"
    and "cf_frame_offset called \<le> length (vs_values (st_values (ex_stack ex)))"
  shows "return_impl ex = Inr (Continue, init_call_frame (last (cs_frames c))
    (ex\<lparr>ex_stack := \<lparr>st_calls = c, st_values = (st_values (ex_stack ex))\<lparr>vs_values :=
       take (cf_frame_offset called) (vs_values (st_values (ex_stack ex)))\<rparr>\<rparr>\<rparr>))"
proof -
  have "cs_pop (st_calls (ex_stack ex)) = (Some (cf_update_instr_ptr ip called, None), c)"
    using assms(3) by (simp add: assms(1) set_top_ip_def cs_pop_def vec_pop_def cf_update_instr_ptr_def)
  moreover have "cf_frame_offset (cf_update_instr_ptr ip called) = cf_frame_offset called"
    by (simp add: cf_update_instr_ptr_def cf_frame_offset_def)
  ultimately show ?thesis
    using assms(2,4) by (cases "ex_stack ex") (simp add: return_impl_def vs_truncate_def cs_peek_def vec_last_def)
qed

text \<open>
  C10. A nested call of an internal function and its return are transparent for the caller: whatever
  the callee does to the store and to the value stack, provided that it leaves the frames below its
  own alone, returning a value \<open>v\<close> comes back to the word after the call, with the stack pointer,
  the instances and the frames of the caller, cuts the value stack to its old length and writes
  \<open>v\<close> to the result register and nothing else.
\<close>
theorem call_then_return:
  fixes env :: "('h, 'e) exec_env"
  assumes "exec_inv ex"
    and "prepare_compiled_func_call env cx results f None ex = Inr ex1" "cx_kind cx = Nested"
    and "st_calls (ex_stack ex2) = set_top_ip ip (st_calls (ex_stack ex1))"
    and "length (vs_values (st_values (ex_stack ex))) \<le> length (vs_values (st_values (ex_stack ex2)))"
    and "register_offset (ex_sp ex) results (st_values (ex_stack ex)) = Some cell"
  shows "\<exists>ip' ex'. call_end env cx (ex_ip ex) ip' \<and>
    exec_return_value (\<lambda>_. Inr v) ex2 = (Inr (Continue, ex') :: 'e xerr + _) \<and>
    ex_sp ex' = ex_sp ex \<and> ex_ip ex' = ip_add 1 ip' \<and> ex_store ex' = ex_store ex2 \<and>
    ex_cache ex' = ex_cache ex2 \<and>
    st_calls (ex_stack ex') = set_top_ip (ip_add 1 ip') (st_calls (ex_stack ex)) \<and>
    vs_values (st_values (ex_stack ex')) =
      (take (length (vs_values (st_values (ex_stack ex)))) (vs_values (st_values (ex_stack ex2))))[cell := v]"
proof -
  let ?c = "st_calls (ex_stack ex)" and ?n = "length (vs_values (st_values (ex_stack ex)))"
  have inv: "calls_inv (ci_instance (ex_cache ex)) ex" using assms(1) by (simp add: exec_inv_def)
  obtain called ip' where e: "call_end env cx (ex_ip ex) ip'"
    and c1: "st_calls (ex_stack ex1) = (let c = set_top_ip (ip_add 1 ip') ?c in c\<lparr>cs_frames := cs_frames c @ [called]\<rparr>)"
    and called: "\<not> cf_changed_instance called" "cf_results called = results" "cf_frame_offset called = ?n"
    using prepare_nested [OF assms(2,3) inv] by metis
  define c where "c = set_top_ip (ip_add 1 ip') ?c"
  have c: "st_calls (ex_stack ex2) = set_top_ip ip (c\<lparr>cs_frames := cs_frames c @ [called]\<rparr>)" "cs_frames c \<noteq> []"
    using assms(4) c1 by (simp_all add: c_def Let_def) (simp add: set_top_ip_def)
  have top: "cf_base_offset (last (cs_frames c)) = ex_sp ex" "cf_instr_ptr (last (cs_frames c)) = ip_add 1 ip'"
    using inv by (auto simp: c_def set_top_ip_def calls_inv_def Let_def cf_update_instr_ptr_def cf_base_offset_def)
  have r: "return_caller_results ex2 = (Inr (ex_sp ex, results) :: 'e xerr + _)"
    using c called top by (simp add: return_caller_results_def cs_peek_2_def vec_last_def set_top_ip_def
        cf_update_instr_ptr_def)
  have cell: "int cell = int (ex_sp ex) + sint results" "cell < ?n"
    using assms(6) by (simp_all add: register_offset_Some)
  then have o: "register_offset (ex_sp ex) results (st_values (ex_stack ex2)) = Some cell"
    using assms(5) by (simp add: register_offset_Some)
  define ex3 where "ex3 = ex2\<lparr>ex_stack := (ex_stack ex2)\<lparr>st_values := (st_values (ex_stack ex2))\<lparr>vs_values :=
    (vs_values (st_values (ex_stack ex2)))[cell := v]\<rparr>\<rparr>\<rparr>"
  have s: "set_register_at (ex_sp ex) results v ex2 = (Inr ex3 :: 'e xerr + _)"
    using o by (simp add: set_register_at_def reg_set_at_def frame_set_def ex3_def)
  define ex4 where "ex4 = init_call_frame (last (cs_frames c))
    (ex3\<lparr>ex_stack := \<lparr>st_calls = c, st_values = (st_values (ex_stack ex3))\<lparr>vs_values :=
       take (cf_frame_offset called) (vs_values (st_values (ex_stack ex3)))\<rparr>\<rparr>\<rparr>)"
  have "return_impl ex3 = (Inr (Continue, ex4) :: 'e xerr + _)"
    using c called assms(5) unfolding ex4_def by (intro return_impl_nested) (simp_all add: ex3_def)
  then have "exec_return_value (\<lambda>_. Inr v) ex2 = (Inr (Continue, ex4) :: 'e xerr + _)"
    using r s by (simp add: exec_return_value_def)
  moreover have "ex_sp ex4 = ex_sp ex" "ex_ip ex4 = ip_add 1 ip'" "ex_store ex4 = ex_store ex2"
    "ex_cache ex4 = ex_cache ex2" "st_calls (ex_stack ex4) = c"
    "vs_values (st_values (ex_stack ex4)) = (take ?n (vs_values (st_values (ex_stack ex2))))[cell := v]"
    using top called cell by (simp_all add: ex4_def init_call_frame_def ex3_def take_update_swap)
  ultimately show ?thesis using e unfolding c_def by blast
qed

text \<open>The demo function calls itself: the frame of the callee holds one register.\<close>

definition demo_called :: "unit exec" where
  "demo_called = (case prepare_compiled_func_call demo_env nested_call_0 0 0 None (demo_exec 0 0) of
     Inr ex \<Rightarrow> ex | Inl _ \<Rightarrow> demo_end)"

lemma demo_call:
  "prepare_compiled_func_call demo_env nested_call_0 0 0 None (demo_exec 0 0) = Inr demo_called"
  "vs_values (st_values (ex_stack demo_called)) = [0, 0, 0]"
  "cs_frames (st_calls (ex_stack demo_called)) \<noteq> []"
  by (simp_all add: demo_called_def prepare_compiled_func_call_def dispatch_compiled_func_def nested_call_0_def
      caller_frame_def cs_peek_def vec_last_def vs_alloc_call_frame_def vs_extend_by_def fp_init_zeroes_def
      update_instr_ptr_at_def cs_update_top_def init_call_frame_def cs_push_def call_frame_new_def put_range_def
      demo_env_def demo_env_of_def demo_exec_def Let_def)

lemma call_then_return_witness:
  "\<exists>ex'. exec_return_value (\<lambda>_. Inr 9) demo_called = (Inr (Continue, ex') :: unit xerr + _) \<and>
     ex_sp ex' = 1 \<and> vs_values (st_values (ex_stack ex')) = [0, 9]"
proof -
  note s = set_top_ip_same [OF demo_call(3), symmetric]
  have "register_offset (ex_sp (demo_exec 0 0)) 0 (st_values (ex_stack (demo_exec 0 0))) = Some 1"
    by (simp add: register_offset_def demo_exec_def)
  from call_then_return [OF demo_inv demo_call(1) _ s _ this, of 9] show ?thesis
    by (auto simp: demo_call(2) nested_call_0_def demo_exec_def)
qed


section \<open>The fallback of compare and branch\<close>

lemma execute_stuck:
  assumes "exec_one env ex = Inr (Continue, ex)"
  shows "execute env ex = None"
proof -
  have "env = env \<longrightarrow> ex \<noteq> ex" if "execute env ex = Some r" for r
    by (rule execute.raw_induct [where P = "\<lambda>e x _. e = env \<longrightarrow> x \<noteq> ex", rotated, OF that])
      (use assms in \<open>force split: sum.splits prod.splits control_flow.splits\<close>)
  then show ?thesis by (cases "execute env ex") blast+
qed

text \<open>
  C28. A branch whose offset does not fit into its instruction takes its comparator and offset from
  a constant in a register. Because the constant is encoded with a conjunction of its halves, the
  branch is lost: when the decoded comparator holds, the instruction branches to itself and the
  execution never ends.
\<close>
theorem fallback_branch_never_ends:
  assumes "fetch_instr env (ex_ip ex) = Inr (IBr (IBranchCmpFallback lhs rhs params))"
    and "reg_get ex lhs = Some l" "reg_get ex rhs = Some r"
    and "reg_get ex params = Some (co_as_u64 \<lparr>co_cmp = cmp, co_offset = offset\<rparr>)"
    and "comparator_holds (if 0 \<le> sint offset then CmpI32Eq else cmp) l r"
  shows "execute env ex = None"
proof (rule execute_stuck)
  show "exec_one env ex = Inr (Continue, ex)"
    using assms
    by (cases "0 \<le> sint offset") (simp_all add: exec_one_def exec_plain_def exec_branch_cmp_fallback_def get_register_def
        co_from_untyped_def co_as_u64_lossy exec_branch_binop_def branch_to_def ip_offset_def)
qed

definition demo_fallback :: "(unit, unit) exec_env" where
  "demo_fallback = demo_env_of [IBr (IBranchCmpFallback 0 0 0)]"

lemma fallback_branch_never_ends_witness:
  "execute demo_fallback (demo_exec 0 (co_as_u64 \<lparr>co_cmp = CmpI32LtS, co_offset = 100000\<rparr>)) = None"
  by (rule fallback_branch_never_ends [where lhs = 0 and rhs = 0 and params = 0 and offset = 100000 and
        cmp = CmpI32LtS and l = "co_as_u64 \<lparr>co_cmp = CmpI32LtS, co_offset = 100000\<rparr>" and
        r = "co_as_u64 \<lparr>co_cmp = CmpI32LtS, co_offset = 100000\<rparr>"])
    (simp_all add: demo_fallback_def demo_env_of_def demo_exec_def fetch_instr_def fetch_word_def reg_get_def
      frame_get_def register_offset_def)


section \<open>Tail calls of host functions\<close>

lemma set_registers_at_ip: "set_registers_at sp ps ex = Inr ex' \<Longrightarrow> ex_ip ex' = ex_ip ex"
  by (induction ps arbitrary: ex) (auto simp: set_register_at_def reg_set_at_def rsimps)

text \<open>
  C29. A tail call of a host function without parameters pops the frame of its caller but does not
  leave the call instruction: the instruction pointer, which should be the one of the frame below,
  still points to the tail call, so that the next step calls the host function once more, in the
  frame below, until the call stack is empty.
\<close>
theorem host_tail_call_is_repeated:
  fixes env :: "('h, 'e) exec_env"
  assumes "exec_call_imported_impl env return_call_0 results func ex = Inr ex'"
    and "resolve (ws_funcs (ex_store ex)) func = (Inr (HostFunc hf) :: 'e xerr + _)"
  shows "ex_ip ex' = ex_ip ex \<and> fetch_instr env (ex_ip ex') = fetch_instr env (ex_ip ex) \<and>
    st_calls (ex_stack ex') = snd (cs_pop (st_calls (ex_stack ex)))"
proof -
  obtain ex1 ex2 where h: "store_invoke_call_hook env CallingHost ex = Inr ex1"
    "exec_host_func env return_call_0 results func hf ex1 = Inr ex2"
    "store_invoke_call_hook env ReturningFromHost ex2 = Inr ex'"
    using assms by (auto simp: exec_call_imported_impl_def elim!: rbind_InrE)
  have hook: "ex_ip y = ex_ip x \<and> ex_stack y = ex_stack x" if "store_invoke_call_hook env k x = Inr y" for k x y
    using that by (auto simp: store_invoke_call_hook_def split: prod.splits sum.splits)
  from h(2) obtain p ex3 ex4 ex5 inst rs returned vals where
    a: "host_func_buffer Tail (max (unat (hf_len_params hf)) (unat (hf_len_results hf))) ex1 =
      (Inr (p, ex3) :: 'e xerr + _)"
    and b: "dispatch_host_func env hf (Some inst) ex3 = Inr (Inr (), ex4)"
    and c: "cache_update inst ex4 = (Inr ex5 :: 'e xerr + _)"
    and d: "set_registers (zip rs returned) (ex5\<lparr>ex_stack := (ex_stack ex5)\<lparr>st_values := vals\<rparr>\<rparr>) =
      (Inr ex2 :: 'e xerr + _)"
    by (auto simp: exec_host_func_def return_call_0_def Let_def elim!: rbind_InrE split: sum.split_asm)
  have "ex_ip ex3 = ex_ip ex1" "st_calls (ex_stack ex3) = snd (cs_pop (st_calls (ex_stack ex1)))"
    using a by (auto simp: host_func_buffer_def Let_def elim!: rbind_InrE split: prod.splits)
  moreover have "ex_ip ex4 = ex_ip ex3" "st_calls (ex_stack ex4) = st_calls (ex_stack ex3)"
    using b by (auto simp: dispatch_host_func_def Let_def elim!: rmap_InrE
        split: if_split_asm prod.split_asm sum.split_asm)
  moreover have "ex_ip ex2 = ex_ip ex5" "st_calls (ex_stack ex2) = st_calls (ex_stack ex5)"
    using d set_registers_at_ip shape_set_registers [OF d]
    by (force simp: set_registers_def, simp add: exec_shape_def)
  ultimately show ?thesis using cache_updateD [OF c] hook [OF h(1)] hook [OF h(3)] by simp
qed

definition demo_host_env :: "(unit, unit) exec_env" where
  "demo_host_env = demo_env\<lparr>env_host := (\<lambda>_ _ _ _ s. (Inr [], s))\<rparr>"

definition demo_host_exec :: "unit exec" where
  "demo_host_exec = (demo_exec 0 0)\<lparr>ex_store := demo_store\<lparr>ws_funcs :=
     [HostFunc \<lparr>hf_len_params = 0, hf_len_results = 0, hf_type = 0, hf_trampoline = 0\<rparr>]\<rparr>\<rparr>"

lemma host_tail_call_is_repeated_witness:
  "\<exists>ex'. exec_call_imported_impl demo_host_env return_call_0 0 0 demo_host_exec = Inr ex' \<and>
     ex_ip ex' = ex_ip demo_host_exec \<and> cs_frames (st_calls (ex_stack ex')) = []"
proof -
  have r: "resolve (ws_funcs (ex_store demo_host_exec)) 0 =
      (Inr (HostFunc \<lparr>hf_len_params = 0, hf_len_results = 0, hf_type = 0, hf_trampoline = 0\<rparr>) :: unit xerr + _)"
    by (simp add: resolve_def get_at_def demo_host_exec_def)
  have "\<exists>ex'. exec_call_imported_impl demo_host_env return_call_0 0 0 demo_host_exec = Inr ex'"
    by (simp add: exec_call_imported_impl_def r)
      (simp add: store_invoke_call_hook_def exec_host_func_def
        host_func_buffer_def return_call_0_def cs_instance_def hv_last_def cs_pop_def vec_pop_def hv_pop_def
        vs_extend_by_def dispatch_host_func_def cache_update_def load_caches_def load_cached_memory_def
        load_cached_global_def get_at_def span_iter_regs span_regs_def
        vs_drop_return_def vs_drop_def set_registers_def put_range_def resolve_def demo_host_exec_def demo_host_env_def
        demo_defs Let_def)
  then obtain ex' where e: "exec_call_imported_impl demo_host_env return_call_0 0 0 demo_host_exec = Inr ex'" ..
  from host_tail_call_is_repeated [OF e r] e show ?thesis
    by (auto simp: demo_host_exec_def demo_exec_def demo_frame_def cs_pop_def vec_pop_def hv_pop_def)
qed

end
