(* ===== verification/Float_Props.thy ===== *)
theory Float_Props
  imports Wasm_Float
begin

text \<open>
  Conversions of floats to integers: they trap, or saturate, exactly where the truncated value does
  not fit. The literals of the code are the floats next to the bounds of the integer type; that no
  float lies between a bound and its literal follows from the spacing of floats.
\<close>

lemma float_mant_less: "float_mant x < 2 ^ mant_bits x"
  by (simp add: float_mant_def)

text \<open>A float of at least \<open>2 ^ k\<close> units is a multiple of \<open>2 ^ (k - mant_bits)\<close> units.\<close>

lemma float_spacing:
  assumes "2 ^ k \<le> float_mag x" "mant_bits x \<le> k"
  shows "2 ^ (k - mant_bits x) dvd float_mag x"
proof (cases "float_exp x")
  case 0
  then have "float_mag x = float_mant x" by (simp add: float_mag_def)
  with assms float_mant_less [of x] have "(2::nat) ^ k < 2 ^ mant_bits x" by linarith
  then have False using assms(2) by simp
  then show ?thesis ..
next
  case (Suc e)
  let ?m = "mant_bits x"
  have "float_mag x < 2 ^ Suc ?m * 2 ^ e"
    using Suc float_mant_less [of x] by (simp add: float_mag_def)
  then have "(2::nat) ^ k < 2 ^ Suc ?m * 2 ^ e" using assms(1) by linarith
  then have "(2::nat) ^ k < 2 ^ (Suc ?m + e)" by (simp only: power_add)
  then have "k < Suc ?m + e" by (rule power_less_imp_less_exp [rotated]) simp
  then have "k - ?m \<le> e" by simp
  then have "(2::nat) ^ (k - ?m) dvd 2 ^ e" by (rule le_imp_power_dvd)
  then show ?thesis using Suc by (simp add: float_mag_def)
qed

text \<open>No float lies strictly between \<open>- 2 ^ k\<close> and the next float below it.\<close>

lemma float_gap:
  assumes "mant_bits x \<le> k" "float_mag x < (2 ^ k + 2 ^ (k - mant_bits x)) * 2 ^ float_unit x"
  shows "float_mag x \<le> 2 ^ k * 2 ^ float_unit x"
proof (rule ccontr)
  let ?m = "mant_bits x" and ?u = "float_unit x"
  assume "\<not> float_mag x \<le> 2 ^ k * 2 ^ ?u"
  then have g: "2 ^ (k + ?u) < float_mag x" by (simp add: power_add)
  let ?d = "2 ^ (k + ?u - ?m) :: nat"
  obtain q where q: "float_mag x = ?d * q"
    using float_spacing [of "k + ?u" x] g assms(1) by (auto simp: dvd_def)
  have s: "(2::nat) ^ (k + ?u) = ?d * 2 ^ ?m" "(2::nat) ^ (k - ?m) * 2 ^ ?u = ?d"
    using assms(1) by (simp_all flip: power_add)
  have "float_mag x < ?d * (2 ^ ?m + 1)"
    using assms(2) s by (simp add: add_mult_distrib power_add)
  then have "q < 2 ^ ?m + 1" unfolding q by (simp only: mult_less_cancel1)
  moreover have "2 ^ ?m < q" using g unfolding q s(1) by (simp only: mult_less_cancel1)
  ultimately show False by simp
qed

lemma int_div_less_iff:
  assumes "0 < (u :: int)"
  shows "m div u < n \<longleftrightarrow> m < n * u"
proof -
  have e: "m = m div u * u + m mod u" "0 \<le> m mod u" "m mod u < u" using assms by simp_all
  have "m < n * u" if "m div u + 1 \<le> n"
  proof -
    have "m < (m div u + 1) * u" using e unfolding distrib_right by linarith
    also have "\<dots> \<le> n * u" using mult_right_mono [OF that, of u] assms by simp
    finally show ?thesis .
  qed
  moreover have "n * u \<le> m" if "n \<le> m div u"
  proof -
    have "n * u \<le> m div u * u" using mult_right_mono [OF that, of u] assms by simp
    also have "\<dots> \<le> m" using e by linarith
    finally show ?thesis .
  qed
  ultimately show ?thesis by linarith
qed

text \<open>What a truncation to the integers between \<open>lo\<close> and \<open>hi\<close> promises.\<close>

definition trunc_spec :: "int \<Rightarrow> int \<Rightarrow> 'f::len word \<Rightarrow> trap_code + 'i::len word" where
  "trunc_spec lo hi x =
    (if float_is_nan x then Inl BadConversionToInteger
     else if lo \<le> float_to_int x \<and> float_to_int x \<le> hi then Inr (word_of_int (float_to_int x))
     else Inl IntegerOverflow)"

definition trunc_sat_spec :: "int \<Rightarrow> int \<Rightarrow> 'f::len word \<Rightarrow> 'i::len word" where
  "trunc_sat_spec lo hi x = (if float_is_nan x then 0 else word_of_int (max lo (min hi (float_to_int x))))"

lemma try_truncate_exact:
  fixes x :: "'f::len word"
  assumes "lo \<le> 0" "0 \<le> hi" "rmax = hi + 1"
    and "rmin = lo - 1 \<or> lo = - (2 ^ k) \<and> mant_bits x \<le> k \<and> rmin = lo - 2 ^ (k - mant_bits x)"
  shows "try_truncate_into rmin rmax lo hi x = trunc_spec lo hi x"
proof -
  let ?U = "2 ^ float_unit x :: int" and ?M = "int (float_mag x)"
  have U: "0 < ?U" by simp
  have fdiv: "?M div ?U < n \<longleftrightarrow> ?M < n * ?U" for n
    by (rule int_div_less_iff) simp
  have t: "float_to_int x = (if float_neg x then - (?M div ?U) else ?M div ?U)"
    by (simp add: float_to_int_def zdiv_int)
  have nn: "0 \<le> ?M div ?U" by (simp add: pos_imp_zdiv_nonneg_iff)
  have neg: "?M < (- rmin) * ?U \<longleftrightarrow> ?M div ?U \<le> - lo"
  proof (cases "rmin = lo - 1")
    case True
    then show ?thesis using fdiv [of "- rmin"] by auto
  next
    case False
    with assms(4) have k: "lo = - (2 ^ k)" "mant_bits x \<le> k" "rmin = lo - 2 ^ (k - mant_bits x)" by auto
    show ?thesis
    proof
      assume "?M < - rmin * ?U"
      then have "int (float_mag x) < int ((2 ^ k + 2 ^ (k - mant_bits x)) * 2 ^ float_unit x)"
        using k by (simp add: add.commute)
      then have "float_mag x \<le> 2 ^ k * 2 ^ float_unit x"
        using float_gap [OF k(2)] by (simp only: of_nat_less_iff)
      then have "int (float_mag x) \<le> int (2 ^ k * 2 ^ float_unit x)" by (simp only: of_nat_le_iff)
      then have "?M < (2 ^ k + 1) * ?U" using U by (simp only: distrib_right of_nat_mult of_nat_power of_nat_numeral mult_1)
      then show "?M div ?U \<le> - lo" using fdiv [of "2 ^ k + 1"] k(1) by simp
    next
      assume "?M div ?U \<le> - lo"
      moreover have "0 < (2::int) ^ (k - mant_bits x)" by simp
      ultimately have "?M div ?U < - rmin" using k by linarith
      then show "?M < - rmin * ?U" by (simp only: fdiv)
    qed
  qed
  have rmin: "rmin < 0"
    using assms(1,4) zero_less_power [of "2::int" "k - mant_bits x"] by linarith
  have "float_val x \<le> rmin * ?U \<or> rmax * ?U \<le> float_val x \<longleftrightarrow>
    \<not> (lo \<le> float_to_int x \<and> float_to_int x \<le> hi)"
  proof (cases "float_neg x")
    case True
    have "\<not> rmax * ?U \<le> - ?M" using assms(2,3) U by (smt (verit) of_nat_0_le_iff mult_pos_pos)
    moreover have "- ?M \<le> rmin * ?U \<longleftrightarrow> \<not> ?M < - rmin * ?U" by linarith
    ultimately show ?thesis using True neg t nn assms(2) by (auto simp: float_val_def)
  next
    case False
    have "\<not> ?M \<le> rmin * ?U" using rmin U by (smt (verit) of_nat_0_le_iff mult_neg_pos)
    then show ?thesis using False t nn assms(1,3) fdiv [of rmax] by (auto simp: float_val_def not_le)
  qed
  then show ?thesis by (auto simp: try_truncate_into_def trunc_spec_def float_as_int_def)
qed

lemma float_infinite_to_int:
  fixes x :: "'f::len word"
  assumes "float_is_infinite x" "LENGTH('f) = 32 \<or> LENGTH('f) = 64"
  shows "float_to_int x = (if float_neg x then - 1 else 1) * 2 ^ (if LENGTH('f) = 32 then 128 else 1024)"
proof -
  define m e u where "m = mant_bits x" and "e = float_exp x" and "u = float_unit x"
  have e: "e \<noteq> 0" "u \<le> m + (e - 1)" "m + (e - 1) - u = (if LENGTH('f) = 32 then 128 else 1024)"
    using assms by (auto simp: m_def e_def u_def float_is_infinite_def exp_bits_def mant_bits_def float_unit_def)
  have "float_mag x = 2 ^ (m + (e - 1))"
    using assms(1) e(1) unfolding float_is_infinite_def power_add m_def e_def by (simp add: float_mag_def)
  then have "float_mag x div 2 ^ u = 2 ^ (m + (e - 1) - u)" using e(2) by (simp add: power_diff)
  then show ?thesis using e(3) by (auto simp: float_to_int_def u_def Let_def simp del: power_numeral)
qed

lemma truncate_saturate_exact:
  fixes x :: "'f::len word"
  assumes "LENGTH('f) = 32 \<or> LENGTH('f) = 64" "- (2 ^ 64) \<le> lo" "lo \<le> 0" "0 \<le> hi" "hi \<le> 2 ^ 64"
  shows "truncate_saturate_into lo hi x = trunc_sat_spec lo hi x"
proof (cases "float_is_infinite x")
  case True
  have "(2::int) ^ 64 \<le> 2 ^ (if LENGTH('f) = 32 then 128 else 1024)" by (intro power_increasing) auto
  then show ?thesis
    using float_infinite_to_int [OF True assms(1)] assms
    by (auto simp: truncate_saturate_into_def trunc_sat_spec_def float_as_int_def max_def min_def)
next
  case False
  then show ?thesis by (simp add: truncate_saturate_into_def trunc_sat_spec_def float_as_int_def)
qed

lemma to_of_int [simp]: "to_i32 (of_i32 x) = x" "to_i64 (of_i64 y) = y"
  by (simp_all add: to_i32_def of_i32_def to_i64_def of_i64_def ucast_down_up)

text \<open>
  C38. The sixteen conversions of floats to integers are exact: the truncating ones yield the integer
  part whenever it lies in the range of the integer type, trap with an overflow otherwise and with a
  bad conversion on a NaN; the saturating ones clamp the integer part to the range and yield 0 on a
  NaN.
\<close>
theorem float_to_int_exact:
  "rmap to_i32 (i32_trunc_f32_s v) = trunc_spec (- (2 ^ 31)) (2 ^ 31 - 1) (to_i32 v) \<and>
   rmap to_i32 (i32_trunc_f32_u v) = trunc_spec 0 (2 ^ 32 - 1) (to_i32 v) \<and>
   rmap to_i32 (i32_trunc_f64_s v) = trunc_spec (- (2 ^ 31)) (2 ^ 31 - 1) (to_i64 v) \<and>
   rmap to_i32 (i32_trunc_f64_u v) = trunc_spec 0 (2 ^ 32 - 1) (to_i64 v) \<and>
   rmap to_i64 (i64_trunc_f32_s v) = trunc_spec (- (2 ^ 63)) (2 ^ 63 - 1) (to_i32 v) \<and>
   rmap to_i64 (i64_trunc_f32_u v) = trunc_spec 0 (2 ^ 64 - 1) (to_i32 v) \<and>
   rmap to_i64 (i64_trunc_f64_s v) = trunc_spec (- (2 ^ 63)) (2 ^ 63 - 1) (to_i64 v) \<and>
   rmap to_i64 (i64_trunc_f64_u v) = trunc_spec 0 (2 ^ 64 - 1) (to_i64 v) \<and>
   to_i32 (i32_trunc_sat_f32_s v) = trunc_sat_spec (- (2 ^ 31)) (2 ^ 31 - 1) (to_i32 v) \<and>
   to_i32 (i32_trunc_sat_f32_u v) = trunc_sat_spec 0 (2 ^ 32 - 1) (to_i32 v) \<and>
   to_i32 (i32_trunc_sat_f64_s v) = trunc_sat_spec (- (2 ^ 31)) (2 ^ 31 - 1) (to_i64 v) \<and>
   to_i32 (i32_trunc_sat_f64_u v) = trunc_sat_spec 0 (2 ^ 32 - 1) (to_i64 v) \<and>
   to_i64 (i64_trunc_sat_f32_s v) = trunc_sat_spec (- (2 ^ 63)) (2 ^ 63 - 1) (to_i32 v) \<and>
   to_i64 (i64_trunc_sat_f32_u v) = trunc_sat_spec 0 (2 ^ 64 - 1) (to_i32 v) \<and>
   to_i64 (i64_trunc_sat_f64_s v) = trunc_sat_spec (- (2 ^ 63)) (2 ^ 63 - 1) (to_i64 v) \<and>
   to_i64 (i64_trunc_sat_f64_u v) = trunc_sat_spec 0 (2 ^ 64 - 1) (to_i64 v)"
proof -
  note t = try_execute_unary_def rmap_rmap o_def rmap_id and u = execute_unary_def
  have "rmap to_i32 (i32_trunc_f32_s v) = trunc_spec (- (2 ^ 31)) (2 ^ 31 - 1) (to_i32 v)"
    using try_truncate_exact [of "- (2 ^ 31)" "2 ^ 31 - 1" "2 ^ 31" "- 2147483904" 31 "to_i32 v"]
    by (simp add: i32_trunc_f32_s_def t mant_bits_def)
  moreover have "rmap to_i32 (i32_trunc_f32_u v) = trunc_spec 0 (2 ^ 32 - 1) (to_i32 v)"
    using try_truncate_exact [of 0 "2 ^ 32 - 1" "2 ^ 32" "- 1" 0 "to_i32 v"]
    by (simp add: i32_trunc_f32_u_def t)
  moreover have "rmap to_i32 (i32_trunc_f64_s v) = trunc_spec (- (2 ^ 31)) (2 ^ 31 - 1) (to_i64 v)"
    using try_truncate_exact [of "- (2 ^ 31)" "2 ^ 31 - 1" "2 ^ 31" "- 2147483649" 31 "to_i64 v"]
    by (simp add: i32_trunc_f64_s_def t)
  moreover have "rmap to_i32 (i32_trunc_f64_u v) = trunc_spec 0 (2 ^ 32 - 1) (to_i64 v)"
    using try_truncate_exact [of 0 "2 ^ 32 - 1" "2 ^ 32" "- 1" 0 "to_i64 v"]
    by (simp add: i32_trunc_f64_u_def t)
  moreover have "rmap to_i64 (i64_trunc_f32_s v) = trunc_spec (- (2 ^ 63)) (2 ^ 63 - 1) (to_i32 v)"
    using try_truncate_exact [of "- (2 ^ 63)" "2 ^ 63 - 1" "2 ^ 63" "- 9223373136366403584" 63 "to_i32 v"]
    by (simp add: i64_trunc_f32_s_def t mant_bits_def)
  moreover have "rmap to_i64 (i64_trunc_f32_u v) = trunc_spec 0 (2 ^ 64 - 1) (to_i32 v)"
    using try_truncate_exact [of 0 "2 ^ 64 - 1" "2 ^ 64" "- 1" 0 "to_i32 v"]
    by (simp add: i64_trunc_f32_u_def t)
  moreover have "rmap to_i64 (i64_trunc_f64_s v) = trunc_spec (- (2 ^ 63)) (2 ^ 63 - 1) (to_i64 v)"
    using try_truncate_exact [of "- (2 ^ 63)" "2 ^ 63 - 1" "2 ^ 63" "- 9223372036854777856" 63 "to_i64 v"]
    by (simp add: i64_trunc_f64_s_def t mant_bits_def)
  moreover have "rmap to_i64 (i64_trunc_f64_u v) = trunc_spec 0 (2 ^ 64 - 1) (to_i64 v)"
    using try_truncate_exact [of 0 "2 ^ 64 - 1" "2 ^ 64" "- 1" 0 "to_i64 v"]
    by (simp add: i64_trunc_f64_u_def t)
  ultimately show ?thesis
    by (simp add: i32_trunc_sat_f32_s_def i32_trunc_sat_f32_u_def i32_trunc_sat_f64_s_def
        i32_trunc_sat_f64_u_def i64_trunc_sat_f32_s_def i64_trunc_sat_f32_u_def i64_trunc_sat_f64_s_def
        i64_trunc_sat_f64_u_def u truncate_saturate_exact)
qed

end
