(* ===== verification/Collections.thy ===== *)
theory Collections
  imports Prelude
begin

text \<open>
  The collections crate: arenas (\<open>collections/src/arena\<close>) and the string interner
  (\<open>collections/src/string_interner/detail.rs\<close>). An arena is the list of its entities, its indices
  have 32 bits. \<open>Map\<close> is a hash map or a B-tree map by a feature of the crate; what the code uses
  of it, lookup and insertion, is that of a function.

  The deduplicating arena and the interner make the same promise, the locale \<open>interning\<close>: a key
  keeps its symbol for ever and two keys never share one, so that comparing symbols is comparing
  keys. The executor relies on this when it compares the types of functions in an indirect call.
\<close>


section \<open>Arenas\<close>

text \<open>\<open>from_usize\<close> of the index types panics beyond 32 bits.\<close>

definition index_from_usize :: "nat \<Rightarrow> nat option" where
  "index_from_usize n = (if n < 2 ^ 32 then Some n else None)"

type_synonym 'a arena = "'a list"

definition arena_next_index :: "'a arena \<Rightarrow> nat option" where
  "arena_next_index a = index_from_usize (length a)"

definition arena_alloc :: "'a \<Rightarrow> 'a arena \<Rightarrow> (nat \<times> 'a arena) option" where
  "arena_alloc entity a = map_option (\<lambda>i. (i, a @ [entity])) (arena_next_index a)"

definition arena_alloc_many :: "'a \<Rightarrow> nat \<Rightarrow> 'a arena \<Rightarrow> ((nat \<times> nat) \<times> 'a arena) option" where
  "arena_alloc_many dflt amount a =
    Option.bind (arena_next_index a) (\<lambda>start.
    let a' = a @ replicate amount dflt
    in Option.bind (arena_next_index a') (\<lambda>end_index. Some ((start, end_index), a')))"

definition arena_get :: "nat \<Rightarrow> 'a arena \<Rightarrow> 'a option" where
  "arena_get i a = get_at a i"

text \<open>
  \<open>get_pair_mut\<close>: the outer option is the panic of \<open>split_at_mut\<close>, the inner one the result.
\<close>

function arena_get_pair :: "nat \<Rightarrow> nat \<Rightarrow> 'a arena \<Rightarrow> ('a \<times> 'a) option option" where
  "arena_get_pair fst_index snd_index a =
    (if fst_index = snd_index then Some None
     else if snd_index < fst_index then
       map_option (map_option (\<lambda>(x, y). (y, x))) (arena_get_pair snd_index fst_index a)
     else if length a < snd_index then None
     else Some (Option.bind (get_at (take snd_index a) fst_index) (\<lambda>x.
            Option.bind (get_at (drop snd_index a) 0) (\<lambda>y. Some (x, y)))))"
  by auto
termination
  by (relation "measure (\<lambda>(i, j, a). if j < i then 1 else 0)") auto

declare arena_get_pair.simps [simp del]

lemma arena_alloc_get:
  assumes "arena_alloc x a = Some (i, a')"
  shows "arena_get i a' = Some x" "j \<noteq> i \<Longrightarrow> arena_get j a' = arena_get j a" "arena_get i a = None"
  using assms
  by (auto simp: arena_alloc_def arena_next_index_def index_from_usize_def arena_get_def get_at_def nth_append
      split: if_splits)

text \<open>Two different entities, in the order of the indices.\<close>

lemma arena_get_pair_eq:
  assumes "i \<noteq> j" "i < length a" "j < length a"
  shows "arena_get_pair i j a = Some (Some (a ! i, a ! j))"
proof -
  have "arena_get_pair i j a = Some (Some (a ! i, a ! j))" if "i < j" "j < length a" for i j
    using that by (subst arena_get_pair.simps) (simp add: get_at_def)
  with assms show ?thesis
    by (cases "i < j") (simp, subst arena_get_pair.simps, simp)
qed


section \<open>Components of entities\<close>

type_synonym 'a component_vec = "'a option list"

definition cv_set :: "nat \<Rightarrow> 'a \<Rightarrow> 'a component_vec \<Rightarrow> 'a option \<times> 'a component_vec" where
  "cv_set index component cv =
    (let cv' = (if length cv \<le> index then cv @ replicate (index + 1 - length cv) None else cv)
     in (cv' ! index, cv'[index := Some component]))"

definition cv_unset :: "nat \<Rightarrow> 'a component_vec \<Rightarrow> 'a option \<times> 'a component_vec" where
  "cv_unset index cv = (if index < length cv then (cv ! index, cv[index := None]) else (None, cv))"

definition cv_get :: "nat \<Rightarrow> 'a component_vec \<Rightarrow> 'a option" where
  "cv_get index cv = Option.bind (get_at cv index) (\<lambda>c. c)"

text \<open>A component vector is a map from indices to components.\<close>

lemma cv_get_set: "cv_get j (snd (cv_set i c cv)) = (if j = i then Some c else cv_get j cv)"
  "fst (cv_set i c cv) = cv_get i cv"
  by (auto simp: cv_set_def cv_get_def get_at_def nth_append nth_list_update Let_def)

lemma cv_get_unset: "cv_get j (snd (cv_unset i cv)) = (if j = i then None else cv_get j cv)"
  "fst (cv_unset i cv) = cv_get i cv"
  by (auto simp: cv_unset_def cv_get_def get_at_def)


section \<open>Interning\<close>

text \<open>
  The interface: \<open>intern\<close> yields the symbol of a key, or panics when there are no symbols left, and
  \<open>key_of\<close> the key of a symbol.
\<close>

locale interning =
  fixes intern :: "'k \<Rightarrow> 's \<Rightarrow> (nat \<times> 's) option"
    and key_of :: "'s \<Rightarrow> nat \<Rightarrow> 'k option"
    and inv :: "'s \<Rightarrow> bool"
  assumes intern_inv: "inv s \<Longrightarrow> intern k s = Some (i, s') \<Longrightarrow> inv s'"
    and intern_key: "inv s \<Longrightarrow> intern k s = Some (i, s') \<Longrightarrow> key_of s' i = Some k"
    and intern_keeps: "inv s \<Longrightarrow> intern k s = Some (i, s') \<Longrightarrow> key_of s j = Some x \<Longrightarrow> key_of s' j = Some x"
    and key_inj: "inv s \<Longrightarrow> key_of s i = Some k \<Longrightarrow> key_of s j = Some k \<Longrightarrow> i = j"
begin

primrec intern_all :: "'k list \<Rightarrow> 's \<Rightarrow> (nat list \<times> 's) option" where
  "intern_all [] s = Some ([], s)"
| "intern_all (k # ks) s =
    Option.bind (intern k s) (\<lambda>(i, s1). map_option (\<lambda>(is, s2). (i # is, s2)) (intern_all ks s1))"

lemma intern_all_keys:
  assumes "inv s" "intern_all ks s = Some (is, s')"
  shows "inv s'" "length is = length ks" "map (key_of s') is = map Some ks"
    "key_of s j = Some x \<Longrightarrow> key_of s' j = Some x"
proof -
  have "inv s' \<and> map (key_of s') is = map Some ks \<and> (\<forall>j x. key_of s j = Some x \<longrightarrow> key_of s' j = Some x)"
    using assms
  proof (induction ks arbitrary: s "is")
    case (Cons k ks)
    then obtain i s1 is1 where i: "intern k s = Some (i, s1)" and is1: "intern_all ks s1 = Some (is1, s')"
      and "is = i # is1"
      by (auto simp: bind_eq_Some_conv)
    with Cons.IH [OF intern_inv [OF Cons.prems(1) i] is1] show ?case
      using intern_key [OF Cons.prems(1) i] intern_keeps [OF Cons.prems(1) i] by auto
  qed simp
  then show "inv s'" "map (key_of s') is = map Some ks" "key_of s j = Some x \<Longrightarrow> key_of s' j = Some x"
    by blast+
  then show "length is = length ks" by (metis length_map)
qed

text \<open>Symbols are equal just when the keys are, whatever is interned before, between and after.\<close>

lemma symbols_identify_keys:
  assumes "inv s" "intern_all ks s = Some (is, s')" "m < length ks" "n < length ks"
  shows "is ! m = is ! n \<longleftrightarrow> ks ! m = ks ! n"
proof -
  note keys = intern_all_keys [OF assms(1,2)]
  have k: "key_of s' (is ! l) = Some (ks ! l)" if "l < length ks" for l
    using keys(2,3) that by (metis nth_map)
  from k [OF assms(3)] k [OF assms(4)] show ?thesis
    using key_inj [OF keys(1)] by (metis option.inject)
qed

end


section \<open>The deduplicating arena\<close>

record 'a dedup_arena =
  da_entity2idx :: "'a \<Rightarrow> nat option"
  da_entities :: "'a arena"

definition dedup_new :: "'a dedup_arena" where
  "dedup_new = \<lparr>da_entity2idx = Map.empty, da_entities = []\<rparr>"

definition dedup_alloc :: "'a \<Rightarrow> 'a dedup_arena \<Rightarrow> (nat \<times> 'a dedup_arena) option" where
  "dedup_alloc entity a =
    (case da_entity2idx a entity of
       Some i \<Rightarrow> Some (i, a)
     | None \<Rightarrow>
         map_option (\<lambda>(i, es). (i, a\<lparr>da_entity2idx := (da_entity2idx a)(entity \<mapsto> i), da_entities := es\<rparr>))
           (arena_alloc entity (da_entities a)))"

definition dedup_get :: "'a dedup_arena \<Rightarrow> nat \<Rightarrow> 'a option" where
  "dedup_get a i = arena_get i (da_entities a)"

definition dedup_inv :: "'a dedup_arena \<Rightarrow> bool" where
  "dedup_inv a \<longleftrightarrow> (\<forall>x i. da_entity2idx a x = Some i \<longleftrightarrow> arena_get i (da_entities a) = Some x)"

lemma dedup_new_inv: "dedup_inv dedup_new"
  by (simp add: dedup_inv_def dedup_new_def arena_get_def)

lemma dedup_alloc_inv:
  assumes "dedup_inv a" "dedup_alloc x a = Some (i, a')"
  shows "dedup_inv a'"
proof (cases "da_entity2idx a x")
  case None
  then obtain es where es: "arena_alloc x (da_entities a) = Some (i, es)"
    and a': "a' = a\<lparr>da_entity2idx := (da_entity2idx a)(x \<mapsto> i), da_entities := es\<rparr>"
    using assms(2) by (auto simp: dedup_alloc_def)
  note g = arena_alloc_get [OF es]
  have "(if y = x then Some i else da_entity2idx a y) = Some j \<longleftrightarrow> arena_get j es = Some y" for y j
  proof -
    have e: "arena_get j (da_entities a) = Some y \<longleftrightarrow> da_entity2idx a y = Some j"
      using assms(1) by (simp add: dedup_inv_def)
    show ?thesis
    proof (cases "j = i")
      case True
      with e g(3) have "da_entity2idx a y \<noteq> Some i" by simp
      with True g(1) show ?thesis by auto
    next
      case False
      with g(2) e None show ?thesis by auto
    qed
  qed
  then show ?thesis by (simp add: dedup_inv_def a')
qed (use assms in \<open>simp add: dedup_alloc_def\<close>)

interpretation dedup: interning dedup_alloc dedup_get dedup_inv
proof
  fix s s' :: "'a dedup_arena" and k x i j
  assume inv: "dedup_inv s"
  {
    assume a: "dedup_alloc k s = Some (i, s')"
    show inv': "dedup_inv s'" by (rule dedup_alloc_inv [OF inv a])
    show "dedup_get s' i = Some k"
      using a inv arena_alloc_get(1) by (auto simp: dedup_alloc_def dedup_get_def dedup_inv_def split: option.splits)
    assume j: "dedup_get s j = Some x"
    show "dedup_get s' j = Some x"
    proof (cases "da_entity2idx s k")
      case None
      then obtain es where es: "arena_alloc k (da_entities s) = Some (i, es)" "da_entities s' = es"
        using a by (auto simp: dedup_alloc_def)
      with arena_alloc_get(3) [OF es(1)] j have "j \<noteq> i" by (auto simp: dedup_get_def)
      with arena_alloc_get(2) [OF es(1)] es(2) j show ?thesis by (simp add: dedup_get_def)
    qed (use a j in \<open>simp add: dedup_alloc_def\<close>)
  }
  show "dedup_get s i = Some k \<Longrightarrow> dedup_get s j = Some k \<Longrightarrow> i = j"
    using inv by (metis dedup_get_def dedup_inv_def option.inject)
qed



section \<open>The string interner\<close>

text \<open>
  The order of \<open>LenOrder\<close>: by length, then by bytes. Strings of less than eight bytes are compared
  with a loop of their own.
\<close>

datatype ordering = Less | Equal | Greater

definition cmp_nat :: "nat \<Rightarrow> nat \<Rightarrow> ordering" where
  "cmp_nat a b = (if a < b then Less else if a = b then Equal else Greater)"

primrec cmp_zip :: "(u8 \<times> u8) list \<Rightarrow> ordering" where
  "cmp_zip [] = Equal"
| "cmp_zip (p # ps) =
    (case cmp_nat (unat (fst p)) (unat (snd p)) of Equal \<Rightarrow> cmp_zip ps | c \<Rightarrow> c)"

text \<open>The comparison of slices: lexicographic, a proper prefix is less.\<close>

fun cmp_slice :: "u8 list \<Rightarrow> u8 list \<Rightarrow> ordering" where
  "cmp_slice [] [] = Equal"
| "cmp_slice [] (_ # _) = Less"
| "cmp_slice (_ # _) [] = Greater"
| "cmp_slice (l # ls) (r # rs) =
    (case cmp_nat (unat l) (unat r) of Equal \<Rightarrow> cmp_slice ls rs | c \<Rightarrow> c)"

datatype len_order = LenOrder (len_order_bytes: "u8 list")

definition len_order_cmp :: "len_order \<Rightarrow> len_order \<Rightarrow> ordering" where
  "len_order_cmp self other =
    (let lhs = len_order_bytes self; rhs = len_order_bytes other
     in case cmp_nat (length lhs) (length rhs) of
          Equal \<Rightarrow> if length lhs < 8 then cmp_zip (zip lhs rhs) else cmp_slice lhs rhs
        | c \<Rightarrow> c)"

lemma cmp_nat_simps [simp]: "cmp_nat a b = Equal \<longleftrightarrow> a = b" "cmp_nat a b = Less \<longleftrightarrow> a < b"
  "cmp_nat a b = Greater \<longleftrightarrow> b < a"
  by (auto simp: cmp_nat_def)

lemma cmp_zip_slice: "length ls = length rs \<Longrightarrow> cmp_zip (zip ls rs) = cmp_slice ls rs"
  by (induction ls rs rule: list_induct2) (auto split: ordering.split)

text \<open>Both comparisons order lists of equal length lexicographically.\<close>

lemma cmp_slice_lexord:
  "length ls = length rs \<Longrightarrow> cmp_slice ls rs =
    (if ls = rs then Equal else if (ls, rs) \<in> lexord {(a, b). a < b} then Less else Greater)"
  by (induction ls rs rule: list_induct2)
    (auto simp: unat_lt_iff_uint word_unat_eq_iff [symmetric] split: ordering.splits dest: less_not_sym)

lemma len_order_cmp_eq:
  "len_order_cmp (LenOrder ls) (LenOrder rs) =
    (if ls = rs then Equal
     else if length ls < length rs \<or> length ls = length rs \<and> (ls, rs) \<in> lexord {(a, b). a < b} then Less
     else Greater)"
  by (auto simp: len_order_cmp_def Let_def cmp_zip_slice cmp_slice_lexord split: ordering.splits)

instantiation len_order :: linorder
begin

definition less_eq_len_order :: "len_order \<Rightarrow> len_order \<Rightarrow> bool" where
  "less_eq_len_order a b \<longleftrightarrow> len_order_cmp a b \<noteq> Greater"

definition less_len_order :: "len_order \<Rightarrow> len_order \<Rightarrow> bool" where
  "less_len_order a b \<longleftrightarrow> len_order_cmp a b = Less"

instance
proof
  let ?r = "lexord {(a :: u8, b). a < b}"
  have lin: "(xs, ys) \<in> ?r \<or> xs = ys \<or> (ys, xs) \<in> ?r" for xs ys
    by (rule lexord_linear) auto
  have asym: "(xs, ys) \<in> ?r \<Longrightarrow> (ys, xs) \<notin> ?r" for xs ys
    by (rule lexord_asymmetric) (auto intro: asymI)
  have trans: "(xs, ys) \<in> ?r \<Longrightarrow> (ys, zs) \<in> ?r \<Longrightarrow> (xs, zs) \<in> ?r" for xs ys zs
    by (rule lexord_trans) (auto intro: transI)
  fix x y z :: len_order
  obtain xs ys zs where [simp]: "x = LenOrder xs" "y = LenOrder ys" "z = LenOrder zs"
    by (metis len_order.exhaust)
  note defs = less_eq_len_order_def less_len_order_def len_order_cmp_eq
  show "x < y \<longleftrightarrow> x \<le> y \<and> \<not> y \<le> x" using lin [of xs ys] asym by (auto simp: defs)
  show "x \<le> x" by (simp add: defs)
  show "x \<le> y \<Longrightarrow> y \<le> x \<Longrightarrow> x = y" using asym by (auto simp: defs split: if_splits)
  show "x \<le> y \<or> y \<le> x" using lin [of xs ys] asym by (auto simp: defs)
  show "x \<le> y \<Longrightarrow> y \<le> z \<Longrightarrow> x \<le> z"
    using trans [of xs ys zs] by (auto simp: defs split: if_splits)
qed

end

datatype intern_hint = HintNone | HintLikelyExists | HintLikelyNew

record string_interner =
  si_string2symbol :: "len_order \<Rightarrow> nat option"
  si_strings :: "u8 list list"

definition string_interner_new :: string_interner where
  "string_interner_new = \<lparr>si_string2symbol = Map.empty, si_strings = []\<rparr>"

definition get_or_intern_hint_new :: "u8 list \<Rightarrow> string_interner \<Rightarrow> (nat \<times> string_interner) option" where
  "get_or_intern_hint_new string s =
    (case si_string2symbol s (LenOrder string) of
       None \<Rightarrow>
         Option.bind (index_from_usize (length (si_strings s))) (\<lambda>symbol.
           Some (symbol, \<lparr>si_string2symbol = (si_string2symbol s)(LenOrder string \<mapsto> symbol),
             si_strings = si_strings s @ [string]\<rparr>))
     | Some symbol \<Rightarrow> Some (symbol, s))"

text \<open>\<open>intern\<close> asserts that the string is new, after the insertion.\<close>

definition intern_string :: "u8 list \<Rightarrow> string_interner \<Rightarrow> (nat \<times> string_interner) option" where
  "intern_string string s =
    Option.bind (index_from_usize (length (si_strings s))) (\<lambda>symbol.
      if si_string2symbol s (LenOrder string) = None
      then Some (symbol, \<lparr>si_string2symbol = (si_string2symbol s)(LenOrder string \<mapsto> symbol),
        si_strings = si_strings s @ [string]\<rparr>)
      else None)"

definition get_or_intern_hint_existing :: "u8 list \<Rightarrow> string_interner \<Rightarrow> (nat \<times> string_interner) option" where
  "get_or_intern_hint_existing string s =
    (case si_string2symbol s (LenOrder string) of
       Some symbol \<Rightarrow> Some (symbol, s)
     | None \<Rightarrow> intern_string string s)"

definition get_or_intern_with_hint :: "intern_hint \<Rightarrow> u8 list \<Rightarrow> string_interner
    \<Rightarrow> (nat \<times> string_interner) option" where
  "get_or_intern_with_hint hint string s =
    (case hint of
       HintLikelyExists \<Rightarrow> get_or_intern_hint_existing string s
     | _ \<Rightarrow> get_or_intern_hint_new string s)"

definition string_interner_get :: "u8 list \<Rightarrow> string_interner \<Rightarrow> nat option" where
  "string_interner_get string s = si_string2symbol s (LenOrder string)"

definition string_interner_resolve :: "string_interner \<Rightarrow> nat \<Rightarrow> u8 list option" where
  "string_interner_resolve s symbol = get_at (si_strings s) symbol"

text \<open>The interner is a deduplicating arena of strings, whichever hint is given.\<close>

definition interner_arena :: "string_interner \<Rightarrow> u8 list dedup_arena" where
  "interner_arena s = \<lparr>da_entity2idx = (\<lambda>x. si_string2symbol s (LenOrder x)), da_entities = si_strings s\<rparr>"

lemma interner_arena_upd:
  "(\<lambda>x. ((si_string2symbol s)(LenOrder string \<mapsto> i)) (LenOrder x)) =
    (\<lambda>x. si_string2symbol s (LenOrder x))(string \<mapsto> i)"
  by auto

lemma intern_dedup:
  "map_option (map_prod id interner_arena) (get_or_intern_with_hint hint string s) =
    dedup_alloc string (interner_arena s)"
  by (auto simp: get_or_intern_with_hint_def get_or_intern_hint_existing_def get_or_intern_hint_new_def
      intern_string_def dedup_alloc_def arena_alloc_def arena_next_index_def interner_arena_def
      interner_arena_upd index_from_usize_def split: intern_hint.split option.splits)

lemma intern_dedup_Some:
  "get_or_intern_with_hint hint string s = Some (i, s') \<Longrightarrow>
    dedup_alloc string (interner_arena s) = Some (i, interner_arena s')"
  using intern_dedup [of hint string s] by simp

interpretation strings: interning "get_or_intern_with_hint hint" string_interner_resolve
  "\<lambda>s. dedup_inv (interner_arena s)" for hint
proof
  have r: "string_interner_resolve s = dedup_get (interner_arena s)" for s
    by (auto simp: string_interner_resolve_def dedup_get_def arena_get_def interner_arena_def)
  fix s s' :: string_interner and k x i j
  assume inv: "dedup_inv (interner_arena s)"
  {
    assume "get_or_intern_with_hint hint k s = Some (i, s')"
    note a = intern_dedup_Some [OF this]
    show "dedup_inv (interner_arena s')" by (rule dedup.intern_inv [OF inv a])
    show "string_interner_resolve s' i = Some k" using dedup.intern_key [OF inv a] by (simp add: r)
    show "string_interner_resolve s j = Some x \<Longrightarrow> string_interner_resolve s' j = Some x"
      using dedup.intern_keeps [OF inv a] by (simp add: r)
  }
  show "string_interner_resolve s i = Some k \<Longrightarrow> string_interner_resolve s j = Some k \<Longrightarrow> i = j"
    using dedup.key_inj [OF inv] by (simp add: r)
qed



section \<open>Properties\<close>

primrec dedup_alloc_all :: "'a list \<Rightarrow> 'a dedup_arena \<Rightarrow> (nat list \<times> 'a dedup_arena) option" where
  "dedup_alloc_all [] a = Some ([], a)"
| "dedup_alloc_all (x # xs) a =
    Option.bind (dedup_alloc x a) (\<lambda>(i, a1). map_option (\<lambda>(is, a2). (i # is, a2)) (dedup_alloc_all xs a1))"

lemma dedup_alloc_all_eq: "dedup_alloc_all xs a = dedup.intern_all xs a"
  by (induction xs arbitrary: a) simp_all

text \<open>
  Comparing the handles of deduplicated entities is comparing the entities: when entities are
  allocated in a deduplicating arena, one after the other, two of the indices are equal just when
  the entities are, and every index still resolves to its entity at the end. The signature check of
  indirect calls compares such handles.
\<close>
theorem dedup_handles_identify_entities:
  assumes "dedup_alloc_all xs dedup_new = Some (is, a)" "m < length xs" "n < length xs"
  shows "(is ! m = is ! n \<longleftrightarrow> xs ! m = xs ! n) \<and> dedup_get a (is ! m) = Some (xs ! m)"
proof -
  note all = assms(1) [unfolded dedup_alloc_all_eq]
  show ?thesis
    using dedup.symbols_identify_keys [OF dedup_new_inv all assms(2,3)] assms(2)
      dedup.intern_all_keys(2,3) [OF dedup_new_inv all] by (metis nth_map)
qed

lemma dedup_handles_identify_entities_witness:
  "\<exists>a. dedup_alloc_all [7, 8, 7 :: nat] dedup_new = Some ([0, 1, 0], a) \<and> dedup_get a 0 = Some 7"
proof -
  have "\<exists>a. dedup_alloc_all [7, 8, 7 :: nat] dedup_new = Some ([0, 1, 0], a)"
    by (simp add: dedup_alloc_def dedup_new_def arena_alloc_def arena_next_index_def index_from_usize_def)
  then obtain a where a: "dedup_alloc_all [7, 8, 7 :: nat] dedup_new = Some ([0, 1, 0], a)" ..
  from dedup_handles_identify_entities [OF a, of 0 2] a show ?thesis by simp
qed

lemma string_interner_new_inv: "dedup_inv (interner_arena string_interner_new)"
  by (simp add: dedup_inv_def interner_arena_def string_interner_new_def arena_get_def)

text \<open>
  Interning strings refines the deduplicating arena, with the same symbols, whichever hint is
  given, and the assertion that a string with the hint of an existing one is interned only once
  never fails: interning fails only when there are no symbols left.
\<close>
theorem interner_refines_dedup_arena:
  "map_option (map_prod id interner_arena) (get_or_intern_with_hint hint string s) =
     dedup_alloc string (interner_arena s) \<and>
   (get_or_intern_with_hint hint string s = None \<longleftrightarrow>
     string_interner_get string s = None \<and> 2 ^ 32 \<le> length (si_strings s))"
  by (auto simp: intern_dedup, auto simp: get_or_intern_with_hint_def get_or_intern_hint_existing_def
      get_or_intern_hint_new_def intern_string_def string_interner_get_def index_from_usize_def bind_eq_None_conv
      split: intern_hint.splits option.splits if_splits)

end
