(* ===== verification/Func_Types.thy ===== *)
theory Func_Types
  imports Wasm_Num Collections
begin

text \<open>
  Typed values (\<open>wasmi/src/value.rs\<close>), function types (\<open>wasmi/src/func/func_type.rs\<close>) with their
  two representations, and the registry that deduplicates them (\<open>wasmi/src/engine/func_types.rs\<close>).
\<close>


section \<open>Typed values\<close>

text \<open>Floats are their bits; a reference is the bits of its \<open>UntypedVal\<close>, null is 0.\<close>

datatype wasm_val =
    ValI32 u32
  | ValI64 u64
  | ValF32 u32
  | ValF64 u64
  | ValFuncRef u64
  | ValExternRef u64

definition val_with_type :: "untyped_val \<Rightarrow> val_type \<Rightarrow> wasm_val" where
  "val_with_type v ty =
    (case ty of
       I32 \<Rightarrow> ValI32 (to_i32 v)
     | I64 \<Rightarrow> ValI64 (to_i64 v)
     | F32 \<Rightarrow> ValF32 (to_i32 v)
     | F64 \<Rightarrow> ValF64 (to_i64 v)
     | FuncRef \<Rightarrow> ValFuncRef v
     | ExternRef \<Rightarrow> ValExternRef v)"

primrec untyped_of_val :: "wasm_val \<Rightarrow> untyped_val" where
  "untyped_of_val (ValI32 v) = of_i32 v"
| "untyped_of_val (ValI64 v) = of_i64 v"
| "untyped_of_val (ValF32 v) = of_i32 v"
| "untyped_of_val (ValF64 v) = of_i64 v"
| "untyped_of_val (ValFuncRef v) = v"
| "untyped_of_val (ValExternRef v) = v"

definition val_default :: "val_type \<Rightarrow> wasm_val" where
  "val_default ty =
    (case ty of
       I32 \<Rightarrow> ValI32 0
     | I64 \<Rightarrow> ValI64 0
     | F32 \<Rightarrow> ValF32 0
     | F64 \<Rightarrow> ValF64 0
     | FuncRef \<Rightarrow> ValFuncRef 0
     | ExternRef \<Rightarrow> ValExternRef 0)"

primrec val_ty :: "wasm_val \<Rightarrow> val_type" where
  "val_ty (ValI32 _) = I32"
| "val_ty (ValI64 _) = I64"
| "val_ty (ValF32 _) = F32"
| "val_ty (ValF64 _) = F64"
| "val_ty (ValFuncRef _) = FuncRef"
| "val_ty (ValExternRef _) = ExternRef"

lemma val_with_type_untyped: "val_with_type (untyped_of_val v) (val_ty v) = v"
  by (cases v) (simp_all add: val_with_type_def to_i32_def to_i64_def of_i32_def of_i64_def ucast_down_up)

lemma val_ty_with_type [simp]: "val_ty (val_with_type v ty) = ty"
  by (simp add: val_with_type_def split: val_type.split)

lemma val_ty_default [simp]: "val_ty (val_default ty) = ty"
  by (simp add: val_default_def split: val_type.split)

lemma val_default_zero: "val_default ty = val_with_type 0 ty"
  by (simp add: val_default_def val_with_type_def to_i32_def to_i64_def split: val_type.split)


section \<open>Function types\<close>

datatype func_type =
    FtInline u8 u8 "val_type list"
  | FtBig u16 "val_type list"

text \<open>The buffer size of 64-bit platforms.\<close>

definition inline_size :: nat where "inline_size = 21"
definition max_len_params :: nat where "max_len_params = 1000"
definition max_len_results :: nat where "max_len_results = 1000"

definition func_type_try_new_small :: "val_type list \<Rightarrow> val_type list \<Rightarrow> func_type option" where
  "func_type_try_new_small params results =
    (if inline_size < length params + length results then None
     else let cells = replicate inline_size I32;
              written = zip cells (params @ results)
          in Some (FtInline (of_nat (length params)) (of_nat (length results))
               (map snd written @ drop (length written) cells)))"

text \<open>\<open>None\<close> is the panic on too many parameters or results.\<close>

definition func_type_new :: "val_type list \<Rightarrow> val_type list \<Rightarrow> func_type option" where
  "func_type_new params results =
    (case func_type_try_new_small params results of
       Some small \<Rightarrow> Some small
     | None \<Rightarrow>
         if length params \<le> max_len_params \<and> length results \<le> max_len_results
         then Some (FtBig (of_nat (length params)) (params @ results))
         else None)"

primrec func_type_params :: "func_type \<Rightarrow> val_type list" where
  "func_type_params (FtInline len_params _ params_results) = take (unat len_params) params_results"
| "func_type_params (FtBig len_params params_results) = take (unat len_params) params_results"

primrec func_type_results :: "func_type \<Rightarrow> val_type list" where
  "func_type_results (FtInline len_params len_results params_results) =
    (let start_results = unat len_params; end_results = start_results + unat len_results
     in drop start_results (take end_results params_results))"
| "func_type_results (FtBig len_params params_results) = drop (unat len_params) params_results"

primrec func_type_len_params :: "func_type \<Rightarrow> u16" where
  "func_type_len_params (FtInline len_params _ _) = ucast len_params"
| "func_type_len_params (FtBig len_params _) = len_params"

primrec func_type_len_results :: "func_type \<Rightarrow> u16" where
  "func_type_len_results (FtInline _ len_results _) = ucast len_results"
| "func_type_len_results (FtBig len_params params_results) =
    of_nat (length params_results) - len_params"

primrec func_type_params_results :: "func_type \<Rightarrow> val_type list \<times> val_type list" where
  "func_type_params_results (FtInline len_params len_results params_results) =
    (let pr = take (unat len_params + unat len_results) params_results
     in (take (unat len_params) pr, drop (unat len_params) pr))"
| "func_type_params_results (FtBig len_params params_results) =
    (take (unat len_params) params_results, drop (unat len_params) params_results)"

datatype func_error =
    ExportedFuncNotFound
  | MismatchingParameterType
  | MismatchingParameterLen
  | MismatchingResultType
  | MismatchingResultLen

definition match_params :: "func_type \<Rightarrow> val_type list \<Rightarrow> func_error + unit" where
  "match_params ft params =
    (if length (func_type_params ft) \<noteq> length params then Inl MismatchingParameterLen
     else if func_type_params ft \<noteq> params then Inl MismatchingParameterType
     else Inr ())"

definition match_results :: "func_type \<Rightarrow> val_type list \<Rightarrow> bool \<Rightarrow> func_error + unit" where
  "match_results ft results check_type =
    (if length (func_type_results ft) \<noteq> length results then Inl MismatchingResultLen
     else if check_type \<and> func_type_results ft \<noteq> results then Inl MismatchingResultType
     else Inr ())"

text \<open>\<open>None\<close> is the failure of the assertion.\<close>

definition prepare_outputs :: "func_type \<Rightarrow> wasm_val list \<Rightarrow> wasm_val list option" where
  "prepare_outputs ft outputs =
    (if length (func_type_results ft) \<noteq> length outputs then None
     else Some (map val_default (func_type_results ft)))"

lemma func_type_new_inline:
  assumes "length params + length results \<le> inline_size"
  shows "func_type_new params results = Some (FtInline (of_nat (length params)) (of_nat (length results))
    (params @ results @ replicate (inline_size - (length params + length results)) I32))"
  using assms by (simp add: func_type_new_def func_type_try_new_small_def Let_def map_snd_zip_take min_def) linarith

lemma func_type_new_big:
  assumes "\<not> length params + length results \<le> inline_size"
  shows "func_type_new params results =
    (if length params \<le> max_len_params \<and> length results \<le> max_len_results
     then Some (FtBig (of_nat (length params)) (params @ results)) else None)"
  using assms by (simp add: func_type_new_def func_type_try_new_small_def)

lemma func_type_new_parts:
  assumes "func_type_new params results = Some ft"
  shows "func_type_params ft = params" "func_type_results ft = results"
    "func_type_params_results ft = (params, results)"
    "unat (func_type_len_params ft) = length params" "unat (func_type_len_results ft) = length results"
proof -
  have "func_type_params ft = params \<and> func_type_results ft = results \<and>
    func_type_params_results ft = (params, results) \<and>
    unat (func_type_len_params ft) = length params \<and> unat (func_type_len_results ft) = length results"
  proof (cases "length params + length results \<le> inline_size")
    case True
    then have "length params \<le> 21" "length results \<le> 21" by (simp_all add: inline_size_def)
    then have len: "unat (of_nat (length params) :: u8) = length params"
      "unat (of_nat (length results) :: u8) = length results"
      by (simp_all add: unat_of_nat)
    have "unat (ucast w :: u16) = unat w" for w :: u8
    proof -
      have "uint (ucast w :: u16) = uint w" by (rule uint_ucast_up) simp
      then show ?thesis by (metis nat_uint_eq)
    qed
    with len have *: "unat (of_nat (length params) :: u8) = length params"
      "unat (of_nat (length results) :: u8) = length results"
      "\<And>w :: u8. unat (ucast w :: u16) = unat w" by blast+
    have ft: "ft = FtInline (of_nat (length params)) (of_nat (length results))
      (params @ results @ replicate (inline_size - (length params + length results)) I32)"
      using assms func_type_new_inline [OF True] by simp
    show ?thesis unfolding ft by (simp add: * Let_def del: unsigned_of_nat)
  next
    case False
    from assms func_type_new_big [OF False] have l: "length params \<le> 1000" "length results \<le> 1000"
      and ft: "ft = FtBig (of_nat (length params)) (params @ results)"
      by (auto simp: max_len_params_def max_len_results_def split: if_splits)
    from l have "unat (of_nat (length params) :: u16) = length params"
      "unat (of_nat (length results) :: u16) = length results"
      by (simp_all add: unat_of_nat)
    with ft show ?thesis by simp
  qed
  then show "func_type_params ft = params" "func_type_results ft = results"
    "func_type_params_results ft = (params, results)"
    "unat (func_type_len_params ft) = length params" "unat (func_type_len_results ft) = length results"
    by blast+
qed


section \<open>The registry\<close>

text \<open>The guard of a handle, the index of its engine, is left out: there is one engine.\<close>

definition registry_alloc_func_type :: "func_type \<Rightarrow> func_type dedup_arena \<Rightarrow> (nat \<times> func_type dedup_arena) option" where
  "registry_alloc_func_type = dedup_alloc"

definition registry_resolve_func_type :: "func_type dedup_arena \<Rightarrow> nat \<Rightarrow> func_type option" where
  "registry_resolve_func_type = dedup_get"


section \<open>Properties\<close>

text \<open>
  Both representations of a function type keep the parameters and the results: a type with at
  most 1000 of each is built, every other one panics, and its accessors return what it was built
  from, with lengths that do not wrap around.
\<close>
theorem func_type_exact:
  "case func_type_new params results of
     None \<Rightarrow> 1000 < length params \<or> 1000 < length results
   | Some ft \<Rightarrow> length params \<le> 1000 \<and> length results \<le> 1000 \<and>
       func_type_params ft = params \<and> func_type_results ft = results \<and>
       func_type_params_results ft = (params, results) \<and>
       unat (func_type_len_params ft) = length params \<and> unat (func_type_len_results ft) = length results"
proof (cases "func_type_new params results")
  case None
  then show ?thesis
    using func_type_new_inline func_type_new_big
    by (cases "length params + length results \<le> inline_size")
      (auto simp: max_len_params_def max_len_results_def split: if_splits)
next
  case (Some ft)
  then have "length params \<le> 1000 \<and> length results \<le> 1000"
    using func_type_new_big by (cases "length params + length results \<le> inline_size")
      (auto simp: inline_size_def max_len_params_def max_len_results_def split: if_splits)
  with Some func_type_new_parts [OF Some] show ?thesis by simp
qed

text \<open>
  The signature check of an indirect call, which compares the handles of two function types,
  is exact: after any allocations in the registry, two handles are equal just when the types have
  the same parameters and the same results, although the types have two representations.
\<close>
theorem signature_check_exact:
  assumes "dedup_alloc_all fts dedup_new = Some (handles, registry)"
    and "i < length fts" "j < length fts"
    and "func_type_new params results = Some (fts ! i)" "func_type_new params' results' = Some (fts ! j)"
  shows "(handles ! i = handles ! j \<longleftrightarrow> params = params' \<and> results = results') \<and>
    registry_resolve_func_type registry (handles ! i) = Some (fts ! i)"
proof -
  note all = assms(1) [unfolded dedup_alloc_all_eq]
  have "handles ! i = handles ! j \<longleftrightarrow> fts ! i = fts ! j"
    by (rule dedup.symbols_identify_keys [OF dedup_new_inv all assms(2,3)])
  moreover have "fts ! i = fts ! j \<longleftrightarrow> params = params' \<and> results = results'"
    using func_type_new_parts(3) [OF assms(4)] func_type_new_parts(3) [OF assms(5)] assms(4,5) by auto
  moreover have "dedup_get registry (handles ! i) = Some (fts ! i)"
    using dedup.intern_all_keys(2,3) [OF dedup_new_inv all] assms(2) by (metis nth_map)
  ultimately show ?thesis by (simp add: registry_resolve_func_type_def)
qed

lemma signature_check_exact_witness:
  "\<exists>a b c r. dedup_alloc_all [a, b, a] dedup_new = Some ([0, 1, 0], r) \<and>
     func_type_new [I32] [] = Some a \<and> func_type_new [] [I32] = Some b \<and>
     registry_resolve_func_type r 0 = Some a"
proof -
  obtain a b where ab: "func_type_new [I32] [] = Some a" "func_type_new [] [I32] = Some b"
    by (simp add: func_type_new_inline inline_size_def)
  with func_type_new_parts(1) [OF ab(1)] func_type_new_parts(1) [OF ab(2)] have "a \<noteq> b" by auto
  then have "\<exists>r. dedup_alloc_all [a, b, a] dedup_new = Some ([0, 1, 0], r)"
    by (simp add: dedup_alloc_def dedup_new_def arena_alloc_def arena_next_index_def index_from_usize_def)
  then obtain r where r: "dedup_alloc_all [a, b, a] dedup_new = Some ([0, 1, 0], r)" ..
  from signature_check_exact [OF r, of 0 2 "[I32]" "[]" "[I32]" "[]"] ab r show ?thesis by auto
qed

end
