(* ===== verification/Engine.thy ===== *)
theory Engine
  imports Exec_Props Func_Types
begin

text \<open>
  Calls from outside of the engine: \<open>wasmi/src/engine/executor/mod.rs\<close>, \<open>Func::call\<close> with its
  type checks (\<open>wasmi/src/func/mod.rs\<close>), the lookup of functions and globals of an instance
  (\<open>wasmi/src/instance/mod.rs\<close>) and the pool of stacks. The function types are those of the
  registry, an argument of the operations. \<open>None\<close> is a call that does not return.
\<close>


section \<open>Instances\<close>

definition instance_get_func_by_index :: "'h wstore \<Rightarrow> instance_h \<Rightarrow> u32 \<Rightarrow> 'e xerr + func_h option" where
  "instance_get_func_by_index s i index =
    rbind (resolve (ws_instances s) i) (\<lambda>inst. Inr (get_at (in_funcs inst) (unat index)))"

definition instance_get_export :: "'h wstore \<Rightarrow> instance_h \<Rightarrow> string \<Rightarrow> 'e xerr + extern_val option" where
  "instance_get_export s i name =
    rbind (resolve (ws_instances s) i) (\<lambda>inst. Inr (map_of (in_exports inst) name))"

definition extern_into_func :: "extern_val \<Rightarrow> func_h option" where
  "extern_into_func e = (case e of ExtFunc f \<Rightarrow> Some f | _ \<Rightarrow> None)"

definition extern_into_global :: "extern_val \<Rightarrow> global_h option" where
  "extern_into_global e = (case e of ExtGlobal g \<Rightarrow> Some g | _ \<Rightarrow> None)"

definition instance_get_func :: "'h wstore \<Rightarrow> instance_h \<Rightarrow> string \<Rightarrow> 'e xerr + func_h option" where
  "instance_get_func s i name =
    rmap (\<lambda>e. Option.bind e extern_into_func) (instance_get_export s i name)"

definition instance_get_global :: "'h wstore \<Rightarrow> instance_h \<Rightarrow> string \<Rightarrow> 'e xerr + global_h option" where
  "instance_get_global s i name =
    rmap (\<lambda>e. Option.bind e extern_into_global) (instance_get_export s i name)"


section \<open>The types of functions\<close>

definition func_ty :: "func_type dedup_arena \<Rightarrow> 'h wstore \<Rightarrow> func_h \<Rightarrow> 'e xerr + func_type" where
  "func_ty reg s func =
    rbind (resolve (ws_funcs s) func) (\<lambda>entity.
      ok_or XPanic (registry_resolve_func_type reg (func_ty_dedup entity)))"

datatype 'e call_error = CallFunc func_error | CallExec "'e xerr"

definition lift_func :: "func_error + 'a \<Rightarrow> 'e call_error + 'a" where
  "lift_func r = (case r of Inl e \<Rightarrow> Inl (CallFunc e) | Inr x \<Rightarrow> Inr x)"

definition lift_exec :: "'e xerr + 'a \<Rightarrow> 'e call_error + 'a" where
  "lift_exec r = (case r of Inl e \<Rightarrow> Inl (CallExec e) | Inr x \<Rightarrow> Inr x)"

lemma lift_simps [simp, rsimps]:
  "lift_func (Inl e) = Inl (CallFunc e)" "lift_func (Inr x) = Inr x"
  "lift_exec (Inl e') = Inl (CallExec e')" "lift_exec (Inr x) = Inr x"
  by (simp_all add: lift_func_def lift_exec_def)

lemma lift_eq_Inr [rsimps]: "lift_func r = Inr x \<longleftrightarrow> r = Inr x" "lift_exec r' = Inr x \<longleftrightarrow> r' = Inr x"
  by (cases r, simp_all) (cases r', simp_all)

definition verify_and_prepare_inputs :: "func_type dedup_arena \<Rightarrow> 'h wstore \<Rightarrow> func_h \<Rightarrow> wasm_val list
    \<Rightarrow> 'e call_error + unit" where
  "verify_and_prepare_inputs reg s func inputs =
    rbind (lift_exec (func_ty reg s func)) (\<lambda>ft. lift_func (match_params ft (map val_ty inputs)))"

definition verify_and_prepare_inputs_outputs :: "func_type dedup_arena \<Rightarrow> 'h wstore \<Rightarrow> func_h
    \<Rightarrow> wasm_val list \<Rightarrow> wasm_val list \<Rightarrow> 'e call_error + wasm_val list" where
  "verify_and_prepare_inputs_outputs reg s func inputs outputs =
    rbind (lift_exec (func_ty reg s func)) (\<lambda>ft.
    rbind (lift_func (match_params ft (map val_ty inputs))) (\<lambda>_.
    rbind (lift_func (match_results ft (map val_ty outputs) False)) (\<lambda>_.
      ok_or (CallExec XPanic) (prepare_outputs ft outputs))))"


section \<open>The pool of stacks\<close>

record engine_stacks =
  es_stacks :: "stack list"
  es_limits :: stack_limits
  es_keep :: nat

text \<open>The capacity of a stack, the size of its allocation, is an argument.\<close>

definition reuse_or_new :: "engine_stacks \<Rightarrow> (stack \<times> engine_stacks) option" where
  "reuse_or_new es =
    (case vec_pop (es_stacks es) of
       (Some st, rest) \<Rightarrow> Some (st, es\<lparr>es_stacks := rest\<rparr>)
     | (None, _) \<Rightarrow> map_option (\<lambda>st. (st, es)) (stack_new (es_limits es)))"

definition recycle :: "(stack \<Rightarrow> nat) \<Rightarrow> stack \<Rightarrow> engine_stacks \<Rightarrow> engine_stacks" where
  "recycle capacity st es =
    (if 0 < capacity st \<and> length (es_stacks es) < es_keep es
     then es\<lparr>es_stacks := es_stacks es @ [st]\<rparr> else es)"


section \<open>Root calls\<close>

text \<open>
  The frame of the root function, from \<open>alloc_call_frame\<close> to the push of the frame: its registers
  are the constants, the parameters and zeroes, its results go to the cells at the bottom of the
  value stack.
\<close>

definition init_root_frame :: "('h, 'e) exec_env \<Rightarrow> engine_func \<Rightarrow> instance_h \<Rightarrow> untyped_val list \<Rightarrow> stack
    \<Rightarrow> 'e xerr + stack" where
  "init_root_frame env func inst params st =
    (let code = env_code env func
     in rbind (lift_trap (vs_alloc_call_frame (unat (cm_len_registers code)) (cm_consts code) (st_values st)))
          (\<lambda>(p, offsets, vals).
        rbind (ok_or XUB (Option.bind (fp_init_params params p vals) (\<lambda>(p, vals). fp_init_zeroes p vals))) (\<lambda>vals.
        rbind (lift_trap (cs_push (call_frame_new func \<lparr>ip_func = func, ip_index = 0\<rparr> offsets 0) (Some inst)
            (st_calls st))) (\<lambda>calls. Inr \<lparr>st_calls = calls, st_values = vals\<rparr>))))"

definition invoke_call_hook :: "('h, 'e) exec_env \<Rightarrow> call_hook \<Rightarrow> 'h wstore \<Rightarrow> 'e xerr + 'h wstore" where
  "invoke_call_hook env hook s =
    (case env_hook env hook (ws_data s) of
       (Inl e, _) \<Rightarrow> Inl (XHost e)
     | (Inr _, d) \<Rightarrow> Inr (s\<lparr>ws_data := d\<rparr>))"

text \<open>\<open>as_slice()[..len_results]\<close>\<close>

definition write_results_back :: "nat \<Rightarrow> stack \<Rightarrow> 'e xerr + untyped_val list" where
  "write_results_back len_results st =
    ok_or XPanic (get_range 0 len_results (vs_values (st_values st)))"

text \<open>The part of a root call of a Wasm function before the execution of its code.\<close>

definition prepare_root_wasm :: "('h, 'e) exec_env \<Rightarrow> wasm_func_entity \<Rightarrow> untyped_val list \<Rightarrow> nat \<Rightarrow> stack
    \<Rightarrow> 'h wstore \<Rightarrow> 'e xerr + stack \<times> 'h wstore" where
  "prepare_root_wasm env w params len_results st s =
    rbind (lift_trap (vs_extend_by len_results (st_values st))) (\<lambda>vals.
    rbind (env_compile env (wf_body w) (ws_fuel s)) (\<lambda>fuel.
    rbind (init_root_frame env (wf_body w) (wf_instance w) params (st\<lparr>st_values := vals\<rparr>)) (\<lambda>st.
    rbind (invoke_call_hook env CallingWasm (s\<lparr>ws_fuel := fuel\<rparr>)) (\<lambda>s. Inr (st, s)))))"

text \<open>
  A root call of a host function has no call frame: the registers and the cached instance of
  \<open>root_host_exec\<close> are not used.
\<close>

definition root_host_exec :: "stack \<Rightarrow> 'h wstore \<Rightarrow> 'h exec" where
  "root_host_exec st s = \<lparr>ex_sp = 0, ex_ip = \<lparr>ip_func = 0, ip_index = 0\<rparr>,
     ex_cache = \<lparr>ci_instance = 0, ci_memory = None, ci_global = None\<rparr>, ex_stack = st, ex_store = s\<rparr>"

definition execute_root_host :: "('h, 'e) exec_env \<Rightarrow> host_func_entity \<Rightarrow> untyped_val list \<Rightarrow> stack
    \<Rightarrow> 'h wstore \<Rightarrow> 'e xerr + stack \<times> 'h wstore" where
  "execute_root_host env hf params st s =
    (let max_inout = max (unat (hf_len_params hf)) (unat (hf_len_results hf));
         start = length (vs_values (st_values st))
     in rbind (lift_trap (vs_extend_by max_inout (st_values st))) (\<lambda>vals.
        let vals = vals\<lparr>vs_values := put_range start (take max_inout params) (vs_values vals)\<rparr>
        in rbind (dispatch_host_func env hf None (root_host_exec (st\<lparr>st_values := vals\<rparr>) s)) (\<lambda>(outcome, ex).
           case outcome of
             Inl e \<Rightarrow> Inl (XHost e)
           | Inr _ \<Rightarrow> Inr (ex_stack ex, ex_store ex))))"

definition execute_root_func :: "('h, 'e) exec_env \<Rightarrow> func_h \<Rightarrow> untyped_val list \<Rightarrow> nat \<Rightarrow> stack \<Rightarrow> 'h wstore
    \<Rightarrow> ('e xerr + untyped_val list \<times> stack \<times> 'h wstore) option" where
  "execute_root_func env func params len_results st s =
    (let st = stack_reset st
     in case resolve (ws_funcs s) func of
          Inl e \<Rightarrow> Some (Inl e)
        | Inr (HostFunc hf) \<Rightarrow>
            Some (rbind (execute_root_host env hf params st s) (\<lambda>(st, s).
              rmap (\<lambda>rs. (rs, st, s)) (write_results_back len_results st)))
        | Inr (WasmFunc w) \<Rightarrow>
            (case prepare_root_wasm env w params len_results st s of
               Inl e \<Rightarrow> Some (Inl e)
             | Inr (st, s) \<Rightarrow>
                 map_option (\<lambda>r.
                   rbind r (\<lambda>ex.
                   rbind (invoke_call_hook env ReturningFromWasm (ex_store ex)) (\<lambda>s.
                     rmap (\<lambda>rs. (rs, ex_stack ex, s)) (write_results_back len_results (ex_stack ex)))))
                 (execute_instrs env st s)))"

text \<open>\<open>EngineInner::execute_func\<close>: an error from a host function loses its resumption.\<close>

definition engine_execute_func :: "('h, 'e) exec_env \<Rightarrow> func_h \<Rightarrow> untyped_val list \<Rightarrow> nat \<Rightarrow> stack \<Rightarrow> 'h wstore
    \<Rightarrow> ('e xerr + untyped_val list \<times> stack \<times> 'h wstore) option" where
  "engine_execute_func env func params len_results st s =
    map_option (\<lambda>r. case r of Inl (XResumableHost e _ _) \<Rightarrow> Inl (XHost e) | _ \<Rightarrow> r)
      (execute_root_func env func params len_results st s)"

text \<open>\<open>Func::call\<close>: the results get the types that the outputs were prepared with.\<close>

definition func_call :: "('h, 'e) exec_env \<Rightarrow> func_type dedup_arena \<Rightarrow> func_h \<Rightarrow> wasm_val list \<Rightarrow> wasm_val list
    \<Rightarrow> stack \<Rightarrow> 'h wstore \<Rightarrow> ('e call_error + wasm_val list \<times> stack \<times> 'h wstore) option" where
  "func_call env reg func inputs outputs st s =
    (case verify_and_prepare_inputs_outputs reg s func inputs outputs of
       Inl e \<Rightarrow> Some (Inl e)
     | Inr outputs \<Rightarrow>
         map_option (\<lambda>r. rbind (lift_exec r) (\<lambda>(rs, st, s).
             Inr (map (\<lambda>(v, ty). val_with_type v ty) (zip rs (map val_ty outputs)), st, s)))
           (engine_execute_func env func (map untyped_of_val inputs) (length outputs) st s))"

text \<open>\<open>resume_func\<close>, on the stack that the failed call left.\<close>

primrec set_frame_values :: "nat \<Rightarrow> (reg \<times> untyped_val) list \<Rightarrow> value_stack \<Rightarrow> value_stack option" where
  "set_frame_values sp [] vals = Some vals"
| "set_frame_values sp (p # ps) vals =
    Option.bind (frame_set sp vals (fst p) (snd p)) (set_frame_values sp ps)"

definition resume_func :: "('h, 'e) exec_env \<Rightarrow> untyped_val list \<Rightarrow> reg_span \<Rightarrow> nat \<Rightarrow> stack \<Rightarrow> 'h wstore
    \<Rightarrow> ('e xerr + untyped_val list \<times> stack \<times> 'h wstore) option" where
  "resume_func env params results_span len_results st s =
    (case rbind (ok_or XPanic (cs_peek (st_calls st))) (\<lambda>caller.
          rbind (span_iter_sized results_span (length params)) (\<lambda>rs.
            ok_or XUB (set_frame_values (cf_base_offset caller) (zip rs params) (st_values st)))) of
       Inl e \<Rightarrow> Some (Inl e)
     | Inr vals \<Rightarrow>
         map_option (\<lambda>r. rbind r (\<lambda>ex.
             rmap (\<lambda>rs. (rs, ex_stack ex, ex_store ex)) (write_results_back len_results (ex_stack ex))))
           (execute_instrs env (st\<lparr>st_values := vals\<rparr>) s))"


section \<open>Properties\<close>

lemma cs_inv_reset: "cs_inv (cs_reset c)"
  by (simp add: cs_inv_def cs_reset_def hv_len_def hv_clear_def hv_inv_def hv.empty_inv)

lemma reset_simps [simp]:
  "cs_frames (cs_reset c) = []" "st_calls (stack_reset st) = cs_reset (st_calls st)"
  "vs_values (st_values (stack_reset st)) = []"
  by (simp_all add: cs_reset_def stack_reset_def vs_reset_def)

lemma lift_trap_Inr [rsimps]: "lift_trap r = Inr x \<longleftrightarrow> r = Inr x"
  by (cases r) (simp_all add: lift_trap_def)

text \<open>The frame of a root call on a stack whose call stack is empty.\<close>

lemma init_root_frame_inv:
  assumes "init_root_frame env func inst params st = Inr st'"
    and "cs_frames (st_calls st) = []" "cs_inv (st_calls st)"
  shows "cs_frames (st_calls st') \<noteq> []" "cs_inv (st_calls st')" "cf_changed_instance (hd (cs_frames (st_calls st')))"
    and "cs_instance (st_calls st') = Some inst"
proof -
  obtain offs calls where
    c: "cs_push (call_frame_new func \<lparr>ip_func = func, ip_index = 0\<rparr> offs 0) (Some inst) (st_calls st) = Inr calls"
    and st': "st_calls st' = calls"
    using assms(1) by (auto simp: init_root_frame_def Let_def rsimps)
  have n: "\<not> cf_changed_instance (call_frame_new func \<lparr>ip_func = func, ip_index = 0\<rparr> offs 0)"
    by (simp add: call_frame_new_def)
  show "cs_frames (st_calls st') \<noteq> []" "cs_inv (st_calls st')" "cf_changed_instance (hd (cs_frames (st_calls st')))"
    "cs_instance (st_calls st') = Some inst"
    using inv_push [OF c n assms(3)] assms(2) st' by auto
qed

lemma init_root_frame_values:
  assumes "init_root_frame env func inst params st = Inr st'"
    and "length (cm_consts (env_code env func)) + length params \<le> unat (cm_len_registers (env_code env func))"
  shows "vs_values (st_values st') = vs_values (st_values st) @ cm_consts (env_code env func) @ params @
      replicate (unat (cm_len_registers (env_code env func)) - length (cm_consts (env_code env func)) - length params) 0"
proof -
  let ?code = "env_code env func"
  obtain p offs vals p' vals' vals'' where
    a: "vs_alloc_call_frame (unat (cm_len_registers ?code)) (cm_consts ?code) (st_values st) = Inr (p, offs, vals)"
    and b: "fp_init_params params p vals = Some (p', vals')" "fp_init_zeroes p' vals' = Some vals''"
    and st': "st_values st' = vals''"
    using assms(1) by (auto simp: init_root_frame_def Let_def rsimps bind_eq_Some_conv)
  then show ?thesis using alloc_call_frame_layout [OF a assms(2)] b st' by auto
qed

text \<open>The executor made of such a stack.\<close>

lemma root_executor_inv:
  assumes "init_root_frame env func inst params st = Inr st'"
    and "cs_frames (st_calls st) = []" "cs_inv (st_calls st)"
    and "load_caches s inst = (Inr cache :: 'e xerr + _)" "(executor_new st' cache s :: 'e xerr + _) = Inr ex"
  shows "exec_inv ex" "ex_stack ex = st'" "ex_store ex = s"
proof -
  note r = init_root_frame_inv [OF assms(1-3)]
  have "ex_sp ex = cf_base_offset (last (cs_frames (st_calls st')))" "ex_cache ex = cache"
    and st: "ex_stack ex = st'" "ex_store ex = s"
    using assms(5) r(1) by (auto simp: executor_new_def rsimps cs_peek_def vec_last_def split: if_splits)
  then show "exec_inv ex"
    using r load_caches_coherent [OF assms(4)] by (auto simp: exec_inv_def calls_inv_def Let_def)
  show "ex_stack ex = st'" "ex_store ex = s" by (fact st)+
qed

lemma prepare_root_wasm_result:
  assumes "prepare_root_wasm env w params len_results st s = Inr (st', s')"
  obtains vals st1 fuel where "vs_extend_by len_results (st_values st) = Inr vals"
    "init_root_frame env (wf_body w) (wf_instance w) params (st\<lparr>st_values := vals\<rparr>) = Inr st'"
  using assms by (auto simp: prepare_root_wasm_def rsimps)

text \<open>
  C24. A root call starts right: the cells for the results come first, then the constants, the
  arguments and zeroes as the registers of the only frame, and the executor that \<open>execute_instrs\<close>
  makes of it satisfies the invariant of its steps.
\<close>
theorem root_call_starts_well:
  assumes "prepare_root_wasm env w params len_results (stack_reset st) s = Inr (st', s')"
    and "code = env_code env (wf_body w)"
    and "length (cm_consts code) + length params \<le> unat (cm_len_registers code)"
    and "load_caches s' (wf_instance w) = (Inr cache :: 'e xerr + _)"
    and "(executor_new st' cache s' :: 'e xerr + _) = Inr ex"
  shows "vs_values (st_values st') = replicate len_results 0 @ cm_consts code @ params @
      replicate (unat (cm_len_registers code) - length (cm_consts code) - length params) 0 \<and>
    exec_inv ex"
proof -
  obtain vals where v: "vs_extend_by len_results (st_values (stack_reset st)) = Inr vals"
    and i: "init_root_frame env (wf_body w) (wf_instance w) params ((stack_reset st)\<lparr>st_values := vals\<rparr>) = Inr st'"
    using prepare_root_wasm_result [OF assms(1)] by metis
  have vals: "vs_values vals = replicate len_results 0"
    using v by (auto simp: vs_extend_by_def uninit_cell_def split: if_splits)
  have s: "cs_frames (st_calls ((stack_reset st)\<lparr>st_values := vals\<rparr>)) = []"
    "cs_inv (st_calls ((stack_reset st)\<lparr>st_values := vals\<rparr>))"
    by (simp_all add: cs_inv_reset)
  show ?thesis
    using init_root_frame_values [OF i] root_executor_inv(1) [OF i s assms(4,5)] vals assms(2,3) by simp
qed

lemma root_call_starts_well_witness:
  defines "w \<equiv> \<lparr>wf_type = 0, wf_body = 0, wf_instance = 0\<rparr>"
  defines "st \<equiv> \<lparr>st_calls = cs_new 10, st_values = \<lparr>vs_values = [], vs_max_len = 100\<rparr>\<rparr>"
  shows "\<exists>st' s' cache ex. prepare_root_wasm demo_env w [] 1 (stack_reset st) demo_store = Inr (st', s') \<and>
    vs_values (st_values st') = [0, 0] \<and> ex = \<lparr>ex_sp = 1, ex_ip = \<lparr>ip_func = 0, ip_index = 0\<rparr>, ex_cache = cache,
      ex_stack = st', ex_store = s'\<rparr> \<and> exec_inv ex"
proof -
  let ?cache = "\<lparr>ci_instance = 0, ci_memory = None, ci_global = None\<rparr>"
  obtain st' where p: "prepare_root_wasm demo_env w [] 1 (stack_reset st) demo_store = Inr (st', demo_store)"
    and top: "vec_last (cs_frames (st_calls st')) = Some (demo_frame)"
    by (simp add: prepare_root_wasm_def init_root_frame_def invoke_call_hook_def demo_defs w_def st_def
        stack_reset_def vs_reset_def vs_extend_by_def vs_alloc_call_frame_def cs_reset_def cs_push_def
        cs_push_instance_def cs_new_def hv_clear_def hv_default_def hv_last_def hv_push_def lift_trap_def
        fp_init_zeroes_def call_frame_new_def vec_last_def Let_def)
  have c: "load_caches demo_store (wf_instance w) = (Inr ?cache :: unit xerr + _)"
    by (simp add: load_caches_Inr w_def demo_store_def get_at_def)
  have e: "(executor_new st' ?cache demo_store :: unit xerr + _) =
      Inr \<lparr>ex_sp = 1, ex_ip = \<lparr>ip_func = 0, ip_index = 0\<rparr>, ex_cache = ?cache, ex_stack = st', ex_store = demo_store\<rparr>"
    using top by (simp add: executor_new_def cs_peek_def demo_frame_def cf_base_offset_def)
  have "vs_values (st_values st') = [0, 0]" "exec_inv \<lparr>ex_sp = 1, ex_ip = \<lparr>ip_func = 0, ip_index = 0\<rparr>,
      ex_cache = ?cache, ex_stack = st', ex_store = demo_store\<rparr>"
    using root_call_starts_well [OF p refl _ c e] by (simp_all add: demo_defs w_def)
  then show ?thesis using p by blast
qed

end
