(* ===== verification/Text.thy ===== *)
theory Text
  imports Prelude "HOL-Library.Sublist"
begin

text \<open>
  The operations of Rust's \<open>str\<close> and integer parsing that the debugger uses. A string is the list of
  its characters.
\<close>


section \<open>Searching and replacing\<close>

primrec str_contains :: "string \<Rightarrow> string \<Rightarrow> bool" where
  "str_contains [] k = (k = [])"
| "str_contains (c # s) k = (prefix k (c # s) \<or> str_contains s k)"

lemma str_contains_sublist: "str_contains s k = sublist k s"
  by (induction s) (auto simp: sublist_Cons_right)

text \<open>\<open>str::replace\<close> replaces the occurrences from left to right.\<close>

function str_replace :: "string \<Rightarrow> string \<Rightarrow> string \<Rightarrow> string" where
  "str_replace pat new [] = (if pat = [] then new else [])"
| "str_replace pat new (c # s) =
    (if pat = [] then new @ c # str_replace pat new s
     else if prefix pat (c # s) then new @ str_replace pat new (drop (length pat) (c # s))
     else c # str_replace pat new s)"
  by pat_completeness auto
termination by (relation "measure (\<lambda>(_, _, s). length s)") auto

lemma str_replace_id:
  assumes "pat \<noteq> []" "\<not> str_contains s pat"
  shows "str_replace pat new s = s"
  using assms by (induction s) auto

definition str_starts_with :: "string \<Rightarrow> string \<Rightarrow> bool" where
  "str_starts_with s k = prefix k s"

text \<open>\<open>trim_start_matches\<close> removes the pattern as often as it occurs.\<close>

function trim_start_matches :: "string \<Rightarrow> string \<Rightarrow> string" where
  "trim_start_matches pat s =
    (if pat \<noteq> [] \<and> prefix pat s then trim_start_matches pat (drop (length pat) s) else s)"
  by pat_completeness auto
termination by (relation "measure (\<lambda>(_, s). length s)") (auto simp: prefix_def)

declare trim_start_matches.simps [simp del]

definition is_whitespace :: "char \<Rightarrow> bool" where
  "is_whitespace c = (of_char c \<in> {9, 10, 11, 12, 13, 32, 0x85, 0xA0 :: nat})"

definition str_trim :: "string \<Rightarrow> string" where
  "str_trim s = rev (dropWhile is_whitespace (rev (dropWhile is_whitespace s)))"

function split_whitespace :: "string \<Rightarrow> string list" where
  "split_whitespace s =
    (case dropWhile is_whitespace s of
       [] \<Rightarrow> []
     | c # r \<Rightarrow> takeWhile (\<lambda>x. \<not> is_whitespace x) (c # r) #
                split_whitespace (dropWhile (\<lambda>x. \<not> is_whitespace x) (c # r)))"
  by pat_completeness auto
termination
proof (relation "measure length")
  fix s :: string and c r
  assume a: "dropWhile is_whitespace s = c # r"
  then have "\<not> is_whitespace c" using hd_dropWhile [of is_whitespace s] by auto
  moreover have "length (c # r) \<le> length s" using length_dropWhile_le [of is_whitespace s] a by simp
  moreover have "length (dropWhile (\<lambda>x. \<not> is_whitespace x) r) \<le> length r" by (rule length_dropWhile_le)
  ultimately show "(dropWhile (\<lambda>x. \<not> is_whitespace x) (c # r), s) \<in> measure length" by simp
qed simp

declare split_whitespace.simps [simp del]

text \<open>\<open>join\<close> of a slice of strings.\<close>

fun str_join :: "string \<Rightarrow> string list \<Rightarrow> string" where
  "str_join sep [] = []"
| "str_join sep [s] = s"
| "str_join sep (s # ss) = s @ sep @ str_join sep ss"


section \<open>Numbers\<close>

definition digit_val :: "nat \<Rightarrow> char \<Rightarrow> nat option" where
  "digit_val radix c =
    (let n = of_char c :: nat;
         d = if 48 \<le> n \<and> n \<le> 57 then n - 48
             else if 97 \<le> n \<and> n \<le> 122 then n - 87
             else if 65 \<le> n \<and> n \<le> 90 then n - 55 else 36
     in if d < radix then Some d else None)"

text \<open>Digits are read from the left into \<open>acc\<close>; every intermediate value must be in range.\<close>

primrec parse_digits :: "nat \<Rightarrow> nat \<Rightarrow> nat \<Rightarrow> string \<Rightarrow> nat option" where
  "parse_digits radix max_val acc [] = Some acc"
| "parse_digits radix max_val acc (c # s) =
    Option.bind (digit_val radix c) (\<lambda>d.
      if acc * radix + d \<le> max_val then parse_digits radix max_val (acc * radix + d) s else None)"

text \<open>\<open>from_str_radix\<close> of an unsigned type: a sign needs digits after it, and only plus is allowed.\<close>

definition from_str_radix :: "nat \<Rightarrow> nat \<Rightarrow> string \<Rightarrow> nat option" where
  "from_str_radix radix max_val s =
    (case s of
       [] \<Rightarrow> None
     | c # r \<Rightarrow> if c = CHR ''+'' then (if r = [] then None else parse_digits radix max_val 0 r)
                else parse_digits radix max_val 0 s)"

definition parse_u32 :: "string \<Rightarrow> u32 option" where
  "parse_u32 s = map_option of_nat (from_str_radix 10 (2 ^ 32 - 1) s)"

definition parse_usize :: "string \<Rightarrow> nat option" where
  "parse_usize s = from_str_radix 10 (2 ^ 64 - 1) s"

text \<open>A signed type also takes a minus.\<close>

definition parse_signed :: "nat \<Rightarrow> string \<Rightarrow> int option" where
  "parse_signed bits s =
    (case s of
       [] \<Rightarrow> None
     | c # r \<Rightarrow>
         if c = CHR ''-'' then
           (if r = [] then None else map_option (\<lambda>n. - int n) (parse_digits 10 (2 ^ (bits - 1)) 0 r))
         else map_option int (from_str_radix 10 (2 ^ (bits - 1) - 1) s))"

text \<open>\<open>Display\<close> of an unsigned integer.\<close>

function show_nat :: "nat \<Rightarrow> string" where
  "show_nat n = (if n < 10 then [char_of (48 + n)] else show_nat (n div 10) @ [char_of (48 + n mod 10)])"
  by pat_completeness auto
termination by (relation "measure id") auto

declare show_nat.simps [simp del]

lemma digit_val_char: "d < 10 \<Longrightarrow> digit_val 10 (char_of (48 + d)) = Some d"
  by (simp add: digit_val_def Let_def of_char_of)

lemma parse_digits_append:
  "parse_digits r m a (xs @ ys) = Option.bind (parse_digits r m a xs) (\<lambda>b. parse_digits r m b ys)"
  by (induction xs arbitrary: a) (auto split: Option.bind_split)

lemma parse_show_nat: "n \<le> m \<Longrightarrow> parse_digits 10 m 0 (show_nat n) = Some n"
proof (induction n rule: show_nat.induct)
  case (1 n)
  show ?case
  proof (cases "n < 10")
    case True
    then show ?thesis using 1(2) by (simp add: show_nat.simps [of n] digit_val_char)
  next
    case False
    then have "parse_digits 10 m 0 (show_nat (n div 10)) = Some (n div 10)" using 1 by auto
    moreover have "n div 10 * 10 + n mod 10 = n" by simp
    ultimately show ?thesis
      using False 1(2) by (simp add: show_nat.simps [of n] parse_digits_append digit_val_char)
  qed
qed

lemma show_nat_Cons: "\<exists>(d :: nat) r. show_nat n = char_of (48 + d) # r \<and> d < 10"
proof (induction n rule: show_nat.induct)
  case (1 n)
  show ?case
  proof (cases "n < 10")
    case True
    then have "show_nat n = char_of (48 + n) # []" by (simp add: show_nat.simps [of n])
    then show ?thesis using True by blast
  next
    case False
    then obtain d :: nat and r where "show_nat (n div 10) = char_of (48 + d) # r" "d < 10" using 1 by blast
    then have "show_nat n = char_of (48 + d) # (r @ [char_of (48 + n mod 10)])"
      using False by (simp add: show_nat.simps [of n])
    then show ?thesis using \<open>d < 10\<close> by blast
  qed
qed

lemma char_of_digit_sign: "d < 10 \<Longrightarrow> char_of (48 + d) \<noteq> CHR ''+''" for d :: nat
proof
  assume "d < 10" and "char_of (48 + d) = CHR ''+''"
  then have "of_char (char_of (48 + d)) = (of_char (CHR ''+'') :: nat)" by simp
  then show False using \<open>d < 10\<close> by (simp add: of_char_of)
qed

lemma from_str_radix_show: "n \<le> m \<Longrightarrow> from_str_radix 10 m (show_nat n) = Some n"
proof -
  assume n: "n \<le> m"
  obtain d :: nat and r where s: "show_nat n = char_of (48 + d) # r" and "d < 10" using show_nat_Cons by blast
  then have "char_of (48 + d) \<noteq> CHR ''+''" using char_of_digit_sign by blast
  then show ?thesis using parse_show_nat [OF n] s by (simp only: from_str_radix_def list.case if_False)
qed

lemma parse_usize_show: "n < 2 ^ 64 \<Longrightarrow> parse_usize (show_nat n) = Some n"
  by (simp add: parse_usize_def from_str_radix_show)

lemma parse_u32_show: "parse_u32 (show_nat (unat w)) = Some w"
proof -
  have "unat w \<le> 2 ^ 32 - 1" using unsigned_less [of w, where ?'a = nat] by simp
  then show ?thesis by (simp only: parse_u32_def from_str_radix_show option.map) simp
qed

end
