(* ===== verification/Breakpoints.thy ===== *)
theory Breakpoints
  imports Text
begin

text \<open>
  Breakpoints: \<open>debugger/src/breakpoint.rs\<close>. A \<open>HashMap\<close> is the list of its entries in the order
  of iteration. Which order that is after an insertion is up to the hash function: \<open>reorder\<close>, an
  argument of the insertion, gives it.
\<close>


section \<open>Hash maps\<close>

type_synonym ('k, 'v) hash_map = "('k \<times> 'v) list"

definition hm_inv :: "('k, 'v) hash_map \<Rightarrow> bool" where
  "hm_inv m = distinct (map fst m)"

primrec hm_put :: "'k \<Rightarrow> 'v \<Rightarrow> ('k, 'v) hash_map \<Rightarrow> ('k, 'v) hash_map" where
  "hm_put k v [] = [(k, v)]"
| "hm_put k v (e # m) = (if fst e = k then (k, v) # m else e # hm_put k v m)"

definition hm_insert :: "(('k, 'v) hash_map \<Rightarrow> ('k, 'v) hash_map) \<Rightarrow> 'k \<Rightarrow> 'v \<Rightarrow> ('k, 'v) hash_map
    \<Rightarrow> ('k, 'v) hash_map" where
  "hm_insert reorder k v m = (if k \<in> fst ` set m then hm_put k v m else reorder (hm_put k v m))"

definition hm_remove :: "'k \<Rightarrow> ('k, 'v) hash_map \<Rightarrow> ('k, 'v) hash_map" where
  "hm_remove k m = filter (\<lambda>e. fst e \<noteq> k) m"

definition permutes_entries :: "(('k, 'v) hash_map \<Rightarrow> ('k, 'v) hash_map) \<Rightarrow> bool" where
  "permutes_entries f \<longleftrightarrow> (\<forall>m. mset (f m) = mset m)"

lemma permutes_entriesD:
  assumes "permutes_entries f"
  shows "set (f m) = set m" "length (f m) = length m" "hm_inv (f m) = hm_inv m"
proof -
  have m: "mset (f m) = mset m" using assms by (simp add: permutes_entries_def)
  show "set (f m) = set m" "length (f m) = length m" using m mset_eq_setD mset_eq_length by blast+
  have "mset (map fst (f m)) = mset (map fst m)" using m by simp
  then show "hm_inv (f m) = hm_inv m" unfolding hm_inv_def using mset_eq_imp_distinct_iff by blast
qed

lemma permutes_entries_id: "permutes_entries (\<lambda>m. m)"
  by (simp add: permutes_entries_def)

lemma hm_put_keys: "fst ` set (hm_put k v m) = insert k (fst ` set m)"
  by (induction m) auto

lemma hm_put_inv: "hm_inv m \<Longrightarrow> hm_inv (hm_put k v m)"
proof (induction m)
  case (Cons e m)
  have "set (map fst (hm_put k v m)) = insert k (set (map fst m))" using hm_put_keys [of k v m] by simp
  with Cons show ?case by (auto simp: hm_inv_def)
qed (simp add: hm_inv_def)

lemma hm_put_set: "hm_inv m \<Longrightarrow> set (hm_put k v m) = insert (k, v) {e \<in> set m. fst e \<noteq> k}"
proof (induction m)
  case (Cons e m)
  then have "hm_inv m" "fst e \<notin> fst ` set m" by (auto simp: hm_inv_def)
  with Cons.IH show ?case by (cases e) (auto simp: rev_image_eqI)
qed simp

lemma hm_insert_inv: "permutes_entries f \<Longrightarrow> hm_inv m \<Longrightarrow> hm_inv (hm_insert f k v m)"
  by (simp add: hm_insert_def permutes_entriesD hm_put_inv)

lemma hm_insert_set:
  "permutes_entries f \<Longrightarrow> hm_inv m \<Longrightarrow> set (hm_insert f k v m) = insert (k, v) {e \<in> set m. fst e \<noteq> k}"
  by (simp add: hm_insert_def permutes_entriesD hm_put_set)

lemma hm_remove_inv: "hm_inv m \<Longrightarrow> hm_inv (hm_remove k m)"
  unfolding hm_inv_def hm_remove_def by (induction m) auto

lemma hm_remove_nth: "hm_inv m \<Longrightarrow> i < length m \<Longrightarrow> hm_remove (fst (m ! i)) m = take i m @ drop (Suc i) m"
proof (induction m arbitrary: i)
  case (Cons e m)
  then have e: "fst e \<notin> fst ` set m" and m: "hm_inv m" by (auto simp: hm_inv_def)
  show ?case
  proof (cases i)
    case 0
    have "filter (\<lambda>x. fst x \<noteq> fst e) m = m" using e by (intro filter_True) (metis image_eqI)
    then show ?thesis using 0 by (simp add: hm_remove_def)
  next
    case (Suc j)
    then have "m ! j \<in> set m" using Cons.prems by simp
    then have "fst e \<noteq> fst (m ! j)" using e by (metis image_eqI)
    then show ?thesis using Suc Cons.IH [OF m, of j] Cons.prems by (simp add: hm_remove_def)
  qed
qed simp


section \<open>Breakpoints\<close>

datatype breakpoint = BpFunction string | BpInstruction nat

record breakpoints =
  bp_function_map :: "(string, breakpoint) hash_map"
  bp_inst_map :: "(nat, breakpoint) hash_map"
  bp_inst_in_file_0 :: "u64 list"

definition breakpoints_default :: breakpoints where
  "breakpoints_default = \<lparr>bp_function_map = [], bp_inst_map = [], bp_inst_in_file_0 = []\<rparr>"

definition should_break_func :: "breakpoints \<Rightarrow> string \<Rightarrow> bool" where
  "should_break_func b name = list_ex (\<lambda>k. str_contains name k) (map fst (bp_function_map b))"

text \<open>The orders of the two maps after an insertion.\<close>

record bp_order =
  order_functions :: "(string, breakpoint) hash_map \<Rightarrow> (string, breakpoint) hash_map"
  order_insts :: "(nat, breakpoint) hash_map \<Rightarrow> (nat, breakpoint) hash_map"

definition bp_insert :: "bp_order \<Rightarrow> breakpoint \<Rightarrow> breakpoints \<Rightarrow> breakpoints" where
  "bp_insert ord bp b =
    (case bp of
       BpFunction name \<Rightarrow>
         b\<lparr>bp_function_map := hm_insert (order_functions ord) name bp (bp_function_map b)\<rparr>
     | BpInstruction inst_offset \<Rightarrow>
         b\<lparr>bp_inst_map := hm_insert (order_insts ord) inst_offset bp (bp_inst_map b)\<rparr>)"

text \<open>\<open>None\<close> is the error \<open>Invalid breakpoint id\<close>.\<close>

definition bp_delete :: "nat \<Rightarrow> breakpoints \<Rightarrow> breakpoints option" where
  "bp_delete bid b =
    (let functions = bp_function_map b; insts = bp_inst_map b
     in if bid \<ge> length functions + length insts then None
        else if bid < length functions
        then Some (b\<lparr>bp_function_map := hm_remove (fst (functions ! bid)) functions\<rparr>)
        else let bid = bid - length functions
             in if bid < length insts
                then Some (b\<lparr>bp_inst_map := hm_remove (fst (insts ! bid)) insts\<rparr>)
                else Some b)"

definition list_breakpoints :: "breakpoints \<Rightarrow> breakpoint list" where
  "list_breakpoints b = map snd (bp_function_map b)"


section \<open>Properties\<close>

definition bp_inv :: "breakpoints \<Rightarrow> bool" where
  "bp_inv b \<longleftrightarrow> hm_inv (bp_function_map b) \<and> hm_inv (bp_inst_map b) \<and>
    list_all (\<lambda>e. snd e = BpFunction (fst e)) (bp_function_map b) \<and>
    list_all (\<lambda>e. snd e = BpInstruction (fst e)) (bp_inst_map b)"

definition bp_order_ok :: "bp_order \<Rightarrow> bool" where
  "bp_order_ok ord \<longleftrightarrow> permutes_entries (order_functions ord) \<and> permutes_entries (order_insts ord)"

lemma bp_inv_default: "bp_inv breakpoints_default"
  by (simp add: bp_inv_def breakpoints_default_def hm_inv_def)

lemma bp_inv_insert: "bp_order_ok ord \<Longrightarrow> bp_inv b \<Longrightarrow> bp_inv (bp_insert ord bp b)"
  by (cases bp)
    (auto simp: bp_inv_def bp_insert_def bp_order_ok_def hm_insert_inv hm_insert_set list_all_iff)

lemma bp_inv_delete: "bp_delete bid b = Some b' \<Longrightarrow> bp_inv b \<Longrightarrow> bp_inv b'"
  using hm_remove_inv [of "bp_function_map b"] hm_remove_inv [of "bp_inst_map b"]
  by (auto simp: bp_inv_def bp_delete_def Let_def list_all_iff hm_remove_def split: if_splits)

lemma should_break_func_iff:
  "should_break_func b name = (\<exists>k \<in> fst ` set (bp_function_map b). sublist k name)"
  by (auto simp: should_break_func_def list_ex_iff str_contains_sublist)

lemma list_breakpoints_names:
  assumes "bp_inv b"
  shows "BpFunction k \<in> set (list_breakpoints b) \<longleftrightarrow> k \<in> fst ` set (bp_function_map b)"
  using assms by (auto simp: bp_inv_def list_breakpoints_def list_all_iff image_iff)

text \<open>
  Breakpoints on functions: after an insertion the debugger stops in the functions it stopped in
  before and in those whose name contains the new one, however the hash map orders its entries;
  what it stops for is what it lists.
\<close>
theorem breakpoint_insert_exact:
  assumes "bp_inv b" "bp_order_ok ord"
  shows "should_break_func (bp_insert ord (BpFunction k) b) name = (should_break_func b name \<or> sublist k name) \<and>
    should_break_func b name = (\<exists>k'. BpFunction k' \<in> set (list_breakpoints b) \<and> sublist k' name) \<and>
    should_break_func (bp_insert ord (BpInstruction n) b) name = should_break_func b name"
proof -
  have "fst ` set (bp_function_map (bp_insert ord (BpFunction k) b)) = insert k (fst ` set (bp_function_map b))"
    using assms by (auto simp: bp_insert_def bp_order_ok_def bp_inv_def hm_insert_set rev_image_eqI)
  then show ?thesis
    using list_breakpoints_names [OF assms(1)] by (auto simp: should_break_func_iff bp_insert_def)
qed

lemma breakpoint_insert_exact_witness:
  "should_break_func (bp_insert \<lparr>order_functions = rev, order_insts = rev\<rparr> (BpFunction ''fac'') breakpoints_default)
     ''factorial''"
proof -
  have "bp_order_ok \<lparr>order_functions = rev, order_insts = rev\<rparr>"
    by (simp add: bp_order_ok_def permutes_entries_def)
  then show ?thesis
    using breakpoint_insert_exact [OF bp_inv_default, of "\<lparr>order_functions = rev, order_insts = rev\<rparr>" "''fac''" "''factorial''"]
    by (simp add: sublist_code)
qed

text \<open>
  C34. Deleting a breakpoint removes the one with the given number, counted in the order of the
  listing and then of the instruction breakpoints, and nothing else; it fails exactly for a number
  that no breakpoint has.
\<close>
theorem breakpoint_delete_exact:
  assumes "bp_inv b"
  shows "bp_delete i b =
    (if i < length (list_breakpoints b)
     then Some (b\<lparr>bp_function_map := take i (bp_function_map b) @ drop (Suc i) (bp_function_map b)\<rparr>)
     else if i < length (list_breakpoints b) + length (bp_inst_map b)
     then let j = i - length (list_breakpoints b)
          in Some (b\<lparr>bp_inst_map := take j (bp_inst_map b) @ drop (Suc j) (bp_inst_map b)\<rparr>)
     else None)"
  using assms by (auto simp: bp_delete_def Let_def bp_inv_def list_breakpoints_def hm_remove_nth)

lemma breakpoint_delete_exact_witness:
  "bp_delete 1 (breakpoints_default\<lparr>bp_function_map := [(''f'', BpFunction ''f''), (''g'', BpFunction ''g'')]\<rparr>) =
    Some (breakpoints_default\<lparr>bp_function_map := [(''f'', BpFunction ''f'')]\<rparr>)"
  by (subst breakpoint_delete_exact)
    (simp_all add: bp_inv_def hm_inv_def breakpoints_default_def list_breakpoints_def)

end
