(* ===== verification/Source_Map.thy ===== *)
theory Source_Map
  imports Breakpoints Ir_Primitives
begin

text \<open>
  From instructions to source lines: the line tables of \<open>debugger/src/dwarf/mod.rs\<close> behind the trait
  \<open>SourceMap\<close> of \<open>commands/sourcemap.rs\<close>. The rows and the header of a line program are what
  \<open>gimli\<close> has decoded, with all strings read. Paths are those of Unix. \<open>None\<close> is a panic.
\<close>


section \<open>Ordered maps\<close>

text \<open>A \<open>BTreeMap\<close> is the sorted list of its entries.\<close>

primrec bt_insert :: "'k :: linorder \<Rightarrow> 'v \<Rightarrow> ('k \<times> 'v) list \<Rightarrow> ('k \<times> 'v) list" where
  "bt_insert k v [] = [(k, v)]"
| "bt_insert k v (e # m) =
    (if k < fst e then (k, v) # e # m else if k = fst e then (k, v) # m else e # bt_insert k v m)"

definition bt_from :: "('k :: linorder \<times> 'v) list \<Rightarrow> ('k \<times> 'v) list" where
  "bt_from xs = fold (\<lambda>(k, v). bt_insert k v) xs []"

definition bt_inv :: "('k :: linorder \<times> 'v) list \<Rightarrow> bool" where
  "bt_inv m = sorted_wrt (<) (map fst m)"

lemma bt_insert_keys: "fst ` set (bt_insert k v m) = insert k (fst ` set m)"
  by (induction m) auto

lemma bt_insert_inv: "bt_inv m \<Longrightarrow> bt_inv (bt_insert k v m)"
proof (induction m)
  case (Cons e m)
  have "set (map fst (bt_insert k v m)) = insert k (set (map fst m))" using bt_insert_keys [of k v m] by simp
  with Cons show ?case by (auto simp: bt_inv_def)
qed (simp add: bt_inv_def)

lemma bt_insert_map_of: "bt_inv m \<Longrightarrow> map_of (bt_insert k v m) = (map_of m)(k \<mapsto> v)"
proof (induction m)
  case (Cons e m)
  then have "bt_inv m" "\<forall>x \<in> set m. fst e < fst x" by (auto simp: bt_inv_def)
  with Cons.IH show ?case by (cases e) (auto simp: fun_eq_iff)
qed simp

lemma bt_from_snoc: "bt_from (xs @ [(k, v)]) = bt_insert k v (bt_from xs)"
  by (simp add: bt_from_def)

lemma bt_from_inv: "bt_inv (bt_from xs)"
proof (induction xs rule: rev_induct)
  case (snoc x xs)
  then show ?case by (cases x) (simp add: bt_from_snoc bt_insert_inv)
qed (simp add: bt_from_def bt_inv_def)

lemma bt_from_map_of: "map_of (bt_from xs) = map_of (rev xs)"
proof (induction xs rule: rev_induct)
  case (snoc x xs)
  then show ?case by (cases x) (simp add: bt_from_snoc bt_insert_map_of bt_from_inv)
qed (simp add: bt_from_def)

text \<open>
  \<open>binary_search_by_key\<close> on a slice with ascending keys: the index of the key (\<open>Inr\<close>) or the one
  where it would be inserted (\<open>Inl\<close>).
\<close>

definition binary_search_by_key :: "'k :: linorder \<Rightarrow> ('k \<times> 'v) list \<Rightarrow> nat + nat" where
  "binary_search_by_key k xs =
    (let i = length (takeWhile (\<lambda>e. fst e < k) xs)
     in if i < length xs \<and> fst (xs ! i) = k then Inr i else Inl i)"


section \<open>Line tables\<close>

datatype column_type = LeftEdge | Column u64

definition u64_of_column :: "column_type \<Rightarrow> u64" where
  "u64_of_column c = (case c of Column c \<Rightarrow> c | LeftEdge \<Rightarrow> 0)"

record line_info =
  li_filepath :: string
  li_line :: "u64 option"
  li_column :: column_type

text \<open>A row of \<open>gimli\<close>.\<close>

record line_row =
  lr_address :: u64
  lr_file_index :: u64
  lr_line :: "u64 option"
  lr_column :: column_type

record line_header =
  lh_version :: nat
  lh_include_directories :: "string list"
  lh_file_names :: "(nat \<times> string) list"

record unit_source_map =
  us_address_sorted_rows :: "(u64 \<times> line_row) list"
  us_paths :: "string list"
  us_sequence_base_index :: nat

definition path_is_absolute :: "string \<Rightarrow> bool" where
  "path_is_absolute p = str_starts_with p ''/''"

definition path_join :: "string \<Rightarrow> string \<Rightarrow> string" where
  "path_join dir p =
    (if path_is_absolute p \<or> dir = [] then p
     else if last dir = CHR ''/'' then dir @ p else dir @ CHR ''/'' # p)"

definition base_and_dirs :: "line_header \<Rightarrow> nat \<times> string list" where
  "base_and_dirs header =
    (if lh_version header \<le> 4 then (1, ''./'' # lh_include_directories header)
     else (0, lh_include_directories header))"

definition file_path :: "string option \<Rightarrow> string list \<Rightarrow> nat \<times> string \<Rightarrow> string option" where
  "file_path comp_dir dirs entry =
    map_option (\<lambda>dir.
      let path = path_join dir (snd entry)
      in if path_is_absolute path then path
         else case comp_dir of None \<Rightarrow> path | Some c \<Rightarrow> path_join c path)
    (get_at dirs (fst entry))"

text \<open>\<open>transform_debug_line\<close>, once the line program of the unit has been found.\<close>

definition transform_debug_line :: "string option \<Rightarrow> line_header \<Rightarrow> line_row list \<Rightarrow> unit_source_map option" where
  "transform_debug_line comp_dir header rows =
    (let (base, dirs) = base_and_dirs header
     in map_option (\<lambda>files.
          \<lparr>us_address_sorted_rows = bt_from (map (\<lambda>row. (lr_address row, row)) rows),
           us_paths = files, us_sequence_base_index = base\<rparr>)
        (those (map (file_path comp_dir dirs) (lh_file_names header))))"

definition transform_debug_line_without_debug_info :: "line_header \<Rightarrow> line_row list \<Rightarrow> unit_source_map option" where
  "transform_debug_line_without_debug_info header rows =
    (let (base, dirs) = base_and_dirs header
     in map_option (\<lambda>files.
          \<lparr>us_address_sorted_rows = bt_from (map (\<lambda>row. (lr_address row, row)) (filter (\<lambda>row. lr_line row \<noteq> None) rows)),
           us_paths = files, us_sequence_base_index = base\<rparr>)
        (those (map (\<lambda>entry. map_option (\<lambda>dir. path_join dir (snd entry)) (get_at dirs (fst entry)))
          (lh_file_names header))))"

definition transform_lineinfo :: "unit_source_map \<Rightarrow> line_row \<Rightarrow> line_info option" where
  "transform_lineinfo u row =
    (if unat (lr_file_index row) < us_sequence_base_index u then None
     else map_option (\<lambda>filepath. \<lparr>li_filepath = filepath, li_line = lr_line row, li_column = lr_column row\<rparr>)
       (get_at (us_paths u) (unat (lr_file_index row) - us_sequence_base_index u)))"

record dwarf_source_map =
  dm_address_sorted_rows :: "(u64 \<times> line_info) list"
  dm_inst_in_file_0 :: "u64 list"
  dm_directory_map :: "(string, string) hash_map"

text \<open>The two nested loops of \<open>DwarfSourceMap::new\<close>.\<close>

primrec add_unit_rows :: "unit_source_map \<Rightarrow> (u64 \<times> line_row) list \<Rightarrow> (u64 \<times> line_info) list \<times> u64 list
    \<Rightarrow> ((u64 \<times> line_info) list \<times> u64 list) option" where
  "add_unit_rows u [] acc = Some acc"
| "add_unit_rows u (r # rs) acc =
    Option.bind (transform_lineinfo u (snd r)) (\<lambda>line_info.
      add_unit_rows u rs
        (bt_insert (fst r) line_info (fst acc),
         if lr_file_index (snd r) = 0 then snd acc @ [fst r] else snd acc))"

primrec add_units :: "unit_source_map list \<Rightarrow> (u64 \<times> line_info) list \<times> u64 list
    \<Rightarrow> ((u64 \<times> line_info) list \<times> u64 list) option" where
  "add_units [] acc = Some acc"
| "add_units (u # us) acc = Option.bind (add_unit_rows u (us_address_sorted_rows u) acc) (add_units us)"

definition dwarf_source_map_new :: "unit_source_map list \<Rightarrow> dwarf_source_map option" where
  "dwarf_source_map_new units =
    map_option (\<lambda>(rows, insts). \<lparr>dm_address_sorted_rows = rows, dm_inst_in_file_0 = insts, dm_directory_map = []\<rparr>)
      (add_units units ([], []))"


section \<open>The trait SourceMap\<close>

definition set_directory_map :: "((string, string) hash_map \<Rightarrow> (string, string) hash_map) \<Rightarrow> string \<Rightarrow> string
    \<Rightarrow> dwarf_source_map \<Rightarrow> dwarf_source_map" where
  "set_directory_map reorder from_dir to_dir m =
    m\<lparr>dm_directory_map := hm_insert reorder from_dir to_dir (dm_directory_map m)\<rparr>"

definition map_directories :: "(string, string) hash_map \<Rightarrow> string \<Rightarrow> string" where
  "map_directories dirs p = fold (\<lambda>(from_dir, to_dir) p. str_replace from_dir to_dir p) dirs p"

definition find_line_info :: "dwarf_source_map \<Rightarrow> u64 \<Rightarrow> line_info option" where
  "find_line_info m offset =
    map_option (\<lambda>line_info. line_info\<lparr>li_filepath := map_directories (dm_directory_map m) (li_filepath line_info)\<rparr>)
      (case binary_search_by_key offset (dm_address_sorted_rows m) of
         Inr i \<Rightarrow> map_option snd (get_at (dm_address_sorted_rows m) i)
       | Inl i \<Rightarrow> if i > 0 then map_option snd (get_at (dm_address_sorted_rows m) (i - 1)) else None)"

definition empty_find_line_info :: "unit \<Rightarrow> u64 \<Rightarrow> line_info option" where
  "empty_find_line_info m offset = None"

definition empty_set_directory_map :: "string \<Rightarrow> string \<Rightarrow> unit \<Rightarrow> unit" where
  "empty_set_directory_map from_dir to_dir m = m"

definition empty_inst_in_file_0 :: "unit \<Rightarrow> u64 list" where
  "empty_inst_in_file_0 m = []"

text \<open>
  What the commands rely on: the directory map changes how a file is named, and neither the lines
  nor the addresses of the first file.
\<close>

locale source_map =
  fixes find_info :: "'m \<Rightarrow> u64 \<Rightarrow> line_info option"
    and set_dirs :: "string \<Rightarrow> string \<Rightarrow> 'm \<Rightarrow> 'm"
    and insts_0 :: "'m \<Rightarrow> u64 list"
  assumes lines_kept: "map_option (\<lambda>l. (li_line l, li_column l)) (find_info (set_dirs a b m) offset) =
      map_option (\<lambda>l. (li_line l, li_column l)) (find_info m offset)"
    and insts_kept: "insts_0 (set_dirs a b m) = insts_0 m"
begin

text \<open>Any number of directory maps.\<close>

definition set_all_dirs :: "(string \<times> string) list \<Rightarrow> 'm \<Rightarrow> 'm" where
  "set_all_dirs ds m = fold (\<lambda>(a, b). set_dirs a b) ds m"

lemma lines_all_kept:
  "map_option (\<lambda>l. (li_line l, li_column l)) (find_info (set_all_dirs ds m) offset) =
    map_option (\<lambda>l. (li_line l, li_column l)) (find_info m offset)"
  by (induction ds arbitrary: m) (auto simp: set_all_dirs_def lines_kept)

lemma insts_all_kept: "insts_0 (set_all_dirs ds m) = insts_0 m"
  by (induction ds arbitrary: m) (auto simp: set_all_dirs_def insts_kept)

end

interpretation dwarf_map: source_map find_line_info "set_directory_map reorder" dm_inst_in_file_0
  by unfold_locales
    (auto simp: find_line_info_def set_directory_map_def option.map_comp comp_def split: sum.splits)

interpretation empty_map: source_map empty_find_line_info empty_set_directory_map empty_inst_in_file_0
  by unfold_locales (auto simp: empty_find_line_info_def empty_set_directory_map_def)


section \<open>Properties\<close>

text \<open>The rows of all units in the order of the loops, and the row nearest to an offset.\<close>

definition unit_entries :: "unit_source_map list \<Rightarrow> (u64 \<times> line_info) list" where
  "unit_entries units =
    concat (map (\<lambda>u. map (\<lambda>r. (fst r, the (transform_lineinfo u (snd r)))) (us_address_sorted_rows u)) units)"

definition nearest_line :: "('k :: linorder \<times> 'v) list \<Rightarrow> 'k \<Rightarrow> 'v option" where
  "nearest_line rows offset =
    (let below = filter (\<lambda>r. fst r \<le> offset) rows
     in if below = [] then None else map_of (rev below) (Max (fst ` set below)))"

definition file_0_entries :: "unit_source_map \<Rightarrow> u64 list" where
  "file_0_entries u = map fst (filter (\<lambda>r. lr_file_index (snd r) = 0) (us_address_sorted_rows u))"

lemma add_unit_rows_result:
  "add_unit_rows u rs acc = Some acc' \<Longrightarrow>
    fst acc' = fold (\<lambda>(k, v). bt_insert k v) (map (\<lambda>r. (fst r, the (transform_lineinfo u (snd r)))) rs) (fst acc) \<and>
    snd acc' = snd acc @ map fst (filter (\<lambda>r. lr_file_index (snd r) = 0) rs) \<and>
    (\<forall>r \<in> set rs. transform_lineinfo u (snd r) \<noteq> None)"
  by (induction rs arbitrary: acc) (auto simp: bind_eq_Some_conv)

lemma add_units_result:
  "add_units us acc = Some acc' \<Longrightarrow>
    fst acc' = fold (\<lambda>(k, v). bt_insert k v) (unit_entries us) (fst acc) \<and>
    snd acc' = snd acc @ concat (map file_0_entries us) \<and>
    (\<forall>u \<in> set us. \<forall>r \<in> set (us_address_sorted_rows u). transform_lineinfo u (snd r) \<noteq> None)"
proof (induction us arbitrary: acc)
  case (Cons u us)
  then obtain acc1 where a: "add_unit_rows u (us_address_sorted_rows u) acc = Some acc1" "add_units us acc1 = Some acc'"
    by (auto simp: bind_eq_Some_conv)
  show ?case
    using add_unit_rows_result [OF a(1)] Cons.IH [OF a(2)] by (simp add: unit_entries_def file_0_entries_def)
qed (simp add: unit_entries_def)

lemma sorted_below_split:
  assumes "bt_inv xs"
  shows "filter (\<lambda>r. fst r \<le> k) xs = (case binary_search_by_key k xs of
      Inr i \<Rightarrow> take (Suc i) xs | Inl i \<Rightarrow> take i xs) \<and>
    (case binary_search_by_key k xs of Inr i \<Rightarrow> i < length xs | Inl i \<Rightarrow> i \<le> length xs)"
  using assms
proof (induction xs)
  case (Cons e xs)
  then have xs: "bt_inv xs" and e: "\<forall>x \<in> set xs. fst e < fst x" by (auto simp: bt_inv_def)
  consider "fst e < k" | "fst e = k" | "k < fst e" by fastforce
  then show ?case
  proof cases
    case 1
    have "binary_search_by_key k (e # xs) = map_sum Suc Suc (binary_search_by_key k xs)"
      using 1 by (simp add: binary_search_by_key_def Let_def)
    then show ?thesis using Cons.IH [OF xs] 1 by (auto split: sum.splits)
  next
    case 2
    then have "filter (\<lambda>r. fst r \<le> k) xs = []" using e by (auto simp: filter_empty_conv)
    then show ?thesis using 2 by (simp add: binary_search_by_key_def)
  next
    case 3
    then have "filter (\<lambda>r. fst r \<le> k) xs = []" using e by (fastforce simp: filter_empty_conv)
    moreover have "\<not> fst e < k" "\<not> fst e \<le> k" "fst e \<noteq> k" using 3 by auto
    ultimately show ?thesis by (simp add: binary_search_by_key_def)
  qed
qed (simp add: binary_search_by_key_def)

lemma find_line_info_last:
  assumes "bt_inv (dm_address_sorted_rows m)" "dm_directory_map m = []"
  shows "find_line_info m k =
    (case filter (\<lambda>r. fst r \<le> k) (dm_address_sorted_rows m) of [] \<Rightarrow> None | b # bs \<Rightarrow> Some (snd (last (b # bs))))"
proof -
  let ?xs = "dm_address_sorted_rows m"
  have last_take: "n \<le> length ?xs \<Longrightarrow> n > 0 \<Longrightarrow> last (take n ?xs) = ?xs ! (n - 1)" for n
    by (subst last_conv_nth) auto
  have split: "(case xs of [] \<Rightarrow> None | b # bs \<Rightarrow> Some (snd (last (b # bs)))) =
      (if xs = [] then None else Some (snd (last xs)))" for xs :: "(u64 \<times> line_info) list"
    by (cases xs) auto
  have upd: "map_option (\<lambda>l. l\<lparr>li_filepath := map_directories (dm_directory_map m) (li_filepath l)\<rparr>) o' = o'" for o'
    by (cases o') (simp_all add: assms(2) map_directories_def)
  show ?thesis
    unfolding find_line_info_def upd split using sorted_below_split [OF assms(1), of k]
    by (cases "binary_search_by_key k ?xs")
      (auto simp: last_take get_at_def intro: prod.collapse [symmetric])
qed

lemma keys_filter: "fst ` set (filter (\<lambda>r. P (fst r)) xs) = {a \<in> fst ` set xs. P a}"
  by (induction xs) auto

lemma map_of_filter_key: "P a \<Longrightarrow> map_of (filter (\<lambda>r. P (fst r)) xs) a = map_of xs a"
  by (induction xs) auto

lemma last_below_nearest:
  assumes "bt_inv m" "map_of m = map_of (rev xs)"
  shows "(case filter (\<lambda>r. fst r \<le> k) m of [] \<Rightarrow> None | b # bs \<Rightarrow> Some (snd (last (b # bs)))) = nearest_line xs k"
proof -
  let ?m = "filter (\<lambda>r. fst r \<le> k) m" and ?x = "filter (\<lambda>r. fst r \<le> k) xs"
  have dom: "fst ` set m = fst ` set xs" using assms(2) by (metis dom_map_of_conv_image_fst set_rev)
  then have keys: "fst ` set ?m = fst ` set ?x" by (simp only: keys_filter [where P = "\<lambda>a. a \<le> k"])
  show ?thesis
  proof (cases "?m = []")
    case True
    then have "?x = []" using keys by (metis image_is_empty set_empty)
    then show ?thesis using True by (simp add: nearest_line_def)
  next
    case False
    let ?a = "fst (last ?m)"
    have inv: "bt_inv ?m" using assms(1) by (simp add: bt_inv_def sorted_wrt_map sorted_wrt_filter)
    obtain ys where ys: "?m = ys @ [last ?m]" using False by (metis append_butlast_last_id)
    have "\<forall>y \<in> fst ` set ?m. y \<le> ?a"
      using inv by (subst (asm) ys, subst ys) (auto simp: bt_inv_def sorted_wrt_append intro: less_imp_le)
    moreover have "?a \<in> fst ` set ?m" using False last_in_set by blast
    ultimately have max: "Max (fst ` set ?x) = ?a" using keys by (metis Max_eqI List.finite_set finite_imageI)
    have "last ?m \<in> set m" "?a \<le> k" using last_in_set [OF False] by auto
    then have "map_of m ?a = Some (snd (last ?m))"
      using assms(1) by (intro map_of_is_SomeI) (auto simp: bt_inv_def strict_sorted_iff)
    moreover have "map_of (rev ?x) ?a = map_of (rev xs) ?a"
      unfolding rev_filter by (rule map_of_filter_key) (rule \<open>?a \<le> k\<close>)
    moreover have "?x \<noteq> []" using False keys by (metis image_is_empty set_empty)
    ultimately show ?thesis using False max assms(2) by (cases ?m) (simp_all add: nearest_line_def)
  qed
qed

text \<open>
  C30. The source line of an instruction is that of the row with the greatest address not above its
  offset, the last one inserted where several units have a row for that address; there is none
  exactly for an offset below all rows.
\<close>
theorem line_lookup_exact:
  assumes "dwarf_source_map_new units = Some m"
  shows "find_line_info m offset = nearest_line (unit_entries units) offset"
proof -
  obtain acc where a: "add_units units ([], []) = Some acc"
    and m: "m = \<lparr>dm_address_sorted_rows = fst acc, dm_inst_in_file_0 = snd acc, dm_directory_map = []\<rparr>"
    using assms by (auto simp: dwarf_source_map_new_def)
  have rows: "fst acc = bt_from (unit_entries units)" using add_units_result [OF a] by (simp add: bt_from_def)
  show ?thesis
    using last_below_nearest [OF bt_from_inv bt_from_map_of, of offset "unit_entries units"]
    by (subst find_line_info_last) (simp_all add: m rows bt_from_inv)
qed

definition demo_row :: "u64 \<Rightarrow> u64 \<Rightarrow> line_row" where
  "demo_row a l = \<lparr>lr_address = a, lr_file_index = 0, lr_line = Some l, lr_column = LeftEdge\<rparr>"

definition demo_unit :: unit_source_map where
  "demo_unit = \<lparr>us_address_sorted_rows = [(4, demo_row 4 1), (9, demo_row 9 2)], us_paths = [''a.mo''],
     us_sequence_base_index = 0\<rparr>"

lemma demo_map: "\<exists>m. dwarf_source_map_new [demo_unit] = Some m"
  by (simp add: dwarf_source_map_new_def demo_unit_def demo_row_def transform_lineinfo_def get_at_def)

lemma line_lookup_exact_witness:
  "\<exists>m. dwarf_source_map_new [demo_unit] = Some m \<and> find_line_info m 3 = None \<and>
    map_option li_line (find_line_info m 8) = Some (Some 1)"
proof -
  obtain m where m: "dwarf_source_map_new [demo_unit] = Some m" using demo_map by blast
  have "find_line_info m 3 = None" "map_option li_line (find_line_info m 8) = Some (Some 1)"
    by (simp_all add: line_lookup_exact [OF m] nearest_line_def unit_entries_def demo_unit_def demo_row_def
        transform_lineinfo_def get_at_def)
  with m show ?thesis by blast
qed

text \<open>
  The addresses at which a run is first interrupted are those of the rows of file 0 in units with
  a zero base, that is of DWARF 5: in a unit of an older version a row of file 0 makes the
  construction of the map panic.
\<close>
theorem interruption_addresses_exact:
  assumes "dwarf_source_map_new units = Some m"
  shows "dm_inst_in_file_0 m = concat (map file_0_entries units) \<and>
    (\<forall>u \<in> set units. us_sequence_base_index u > 0 \<longrightarrow> file_0_entries u = [])"
proof -
  obtain acc where a: "add_units units ([], []) = Some acc" and m: "dm_inst_in_file_0 m = snd acc"
    using assms by (auto simp: dwarf_source_map_new_def)
  have "transform_lineinfo u row = None" if "us_sequence_base_index u > 0" "lr_file_index row = 0" for u row
    using that by (simp add: transform_lineinfo_def)
  then have "us_sequence_base_index u > 0 \<longrightarrow> file_0_entries u = []" if "u \<in> set units" for u
    using add_units_result [OF a] that by (fastforce simp: file_0_entries_def filter_empty_conv)
  then show ?thesis using add_units_result [OF a] m by simp
qed

lemma interruption_addresses_exact_witness:
  "\<exists>m. dwarf_source_map_new [demo_unit] = Some m \<and> dm_inst_in_file_0 m = [4, 9]"
proof -
  obtain m where m: "dwarf_source_map_new [demo_unit] = Some m" using demo_map by blast
  have "dm_inst_in_file_0 m = [4, 9]"
    using interruption_addresses_exact [OF m] by (simp add: file_0_entries_def demo_unit_def demo_row_def)
  with m show ?thesis by blast
qed

end
