(* ===== verification/Dwarf_Info.thy ===== *)
theory Dwarf_Info
  imports Source_Map Mem_Access
begin

text \<open>
  Subroutines, variables and types of the debug information: \<open>debugger/src/dwarf/mod.rs\<close>,
  \<open>types.rs\<close> and \<open>format.rs\<close>. The entries of a unit are the tree that \<open>gimli\<close> has parsed, with the
  attribute values it distinguishes; strings, LEB128 numbers, location expressions and the lookup of
  an entry by its offset are those of \<open>gimli\<close>, collected in a record.
\<close>


section \<open>Entries\<close>

datatype attr_value =
    AtAddr u64 | AtUdata u64 | AtSdata u64 | AtExprloc "u8 list" | AtUnitRef nat | AtBlock "u8 list"
  | AtData1 u8 | AtData2 u16 | AtData4 u32 | AtData8 u64 | AtString "u8 list" | AtFlag bool
  | AtEncoding nat | AtLocationListsRef nat | AtOther nat

datatype dw_at =
    DwAtName | DwAtLowPc | DwAtHighPc | DwAtFrameBase | DwAtLocation | DwAtConstValue | DwAtType
  | DwAtByteSize | DwAtEncoding | DwAtDeclaration | DwAtDataMemberLocation

datatype modifier_kind =
    Atomic | Const | Immutable | Packed | Pointer | Reference | Restrict | RvalueReference | Shared | Volatile

datatype dw_tag =
    TagSubprogram | TagLexicalBlock | TagVariable | TagFormalParameter | TagBaseType | TagClassType
  | TagStructureType | TagEnumerationType | TagTypedef | TagModifier modifier_kind | TagMember
  | TagEnumerator | TagOther nat

datatype die = Die (die_offset: nat) (die_tag: dw_tag) (die_attrs: "(dw_at \<times> attr_value) list")
  (die_children: "die list")

definition attr_of :: "die \<Rightarrow> dw_at \<Rightarrow> attr_value option" where
  "attr_of d a = map_of (die_attrs d) a"

text \<open>Errors of \<open>Result\<close> and panics.\<close>

datatype dw_error = DwError | DwPanic

text \<open>The evaluation of a location expression, which may ask for the frame base.\<close>

datatype piece = PieceAddress u64 | PieceOther

datatype evaluation = EvComplete "piece list" | EvRequiresFrameBase "u64 \<Rightarrow> evaluation" | EvOther | EvError

record gimli =
  gi_string :: "attr_value \<Rightarrow> dw_error + string"
  gi_uleb128 :: "u8 list \<Rightarrow> u64 option"
  gi_u32 :: "u8 list \<Rightarrow> u32 option"
  gi_udata :: "attr_value \<Rightarrow> u64 option"
  gi_sdata :: "attr_value \<Rightarrow> u64 option"
  gi_evaluate :: "u64 option \<Rightarrow> u8 list \<Rightarrow> evaluation"

record dwarf_unit =
  du_offset :: nat
  du_root :: die
  du_entry :: "nat \<Rightarrow> die option"

definition opt_string :: "gimli \<Rightarrow> die \<Rightarrow> dw_error + string option" where
  "opt_string gi d =
    (case attr_of d DwAtName of None \<Rightarrow> Inr None | Some a \<Rightarrow> rmap Some (gi_string gi a))"


section \<open>Subroutines\<close>

datatype wasm_loc = WasmLocal u64 | WasmGlobal u64 | WasmStack u64

record subroutine =
  sr_low_pc :: u64
  sr_high_pc :: u64
  sr_entry_offset :: nat
  sr_unit_offset :: nat
  sr_frame_base :: "wasm_loc option"

text \<open>\<open>DW_OP_WASM_location\<close> is \<open>0xed\<close>.\<close>

definition read_wasm_location :: "gimli \<Rightarrow> attr_value \<Rightarrow> dw_error + wasm_loc" where
  "read_wasm_location gi attr =
    (case attr of
       AtExprloc bytes \<Rightarrow>
         (case bytes of
            magic # wasm_op # rest \<Rightarrow>
              if magic \<noteq> 0xED then Inl DwError
              else if wasm_op = 0 then rmap WasmLocal (ok_or DwError (gi_uleb128 gi rest))
              else if wasm_op = 1 then rmap WasmGlobal (ok_or DwError (gi_uleb128 gi rest))
              else if wasm_op = 2 then rmap WasmStack (ok_or DwError (gi_uleb128 gi rest))
              else if wasm_op = 3 then rmap (\<lambda>w. WasmGlobal (ucast w)) (ok_or DwError (gi_u32 gi rest))
              else Inl DwError
          | _ \<Rightarrow> Inl DwError)
     | _ \<Rightarrow> Inl DwError)"

definition add_u64 :: "u64 \<Rightarrow> u64 \<Rightarrow> dw_error + u64" where
  "add_u64 a b = (if uint a + uint b < 2 ^ 64 then Inr (a + b) else Inl DwPanic)"

definition read_subprogram_header :: "gimli \<Rightarrow> nat \<Rightarrow> die \<Rightarrow> dw_error + subroutine option" where
  "read_subprogram_header gi unit_offset d =
    (if die_tag d \<noteq> TagSubprogram \<and> die_tag d \<noteq> TagLexicalBlock then Inr None
     else rbind (opt_string gi d) (\<lambda>_.
       case attr_of d DwAtLowPc of
         Some (AtAddr low_pc) \<Rightarrow>
           (case attr_of d DwAtHighPc of
              None \<Rightarrow> Inr None
            | Some a \<Rightarrow>
                rbind (case a of AtUdata n \<Rightarrow> add_u64 low_pc n | AtAddr high_pc \<Rightarrow> Inr high_pc
                         | _ \<Rightarrow> Inl DwPanic) (\<lambda>high_pc.
                rbind (case attr_of d DwAtFrameBase of
                         None \<Rightarrow> Inr None | Some a \<Rightarrow> rmap Some (read_wasm_location gi a)) (\<lambda>frame_base.
                  Inr (Some \<lparr>sr_low_pc = low_pc, sr_high_pc = high_pc, sr_entry_offset = die_offset d,
                    sr_unit_offset = unit_offset, sr_frame_base = frame_base\<rparr>))))
       | _ \<Rightarrow> Inr None))"

text \<open>The inner subroutines come before the outer ones.\<close>

fun transform_subprogram_rec :: "gimli \<Rightarrow> nat \<Rightarrow> die \<Rightarrow> dw_error + subroutine list"
and transform_subprogram_children :: "gimli \<Rightarrow> nat \<Rightarrow> die list \<Rightarrow> dw_error + subroutine list" where
  "transform_subprogram_rec gi unit_offset (Die off tag attrs children) =
    rbind (read_subprogram_header gi unit_offset (Die off tag attrs children)) (\<lambda>s.
    rbind (transform_subprogram_children gi unit_offset children) (\<lambda>subs.
      Inr (subs @ (case s of None \<Rightarrow> [] | Some s \<Rightarrow> [s]))))"
| "transform_subprogram_children gi unit_offset [] = Inr []"
| "transform_subprogram_children gi unit_offset (c # cs) =
    (if die_tag c = TagVariable \<or> die_tag c = TagFormalParameter
     then transform_subprogram_children gi unit_offset cs
     else rbind (transform_subprogram_rec gi unit_offset c) (\<lambda>xs.
          rmap (\<lambda>ys. xs @ ys) (transform_subprogram_children gi unit_offset cs)))"

definition transform_subprogram :: "gimli \<Rightarrow> dwarf_unit \<Rightarrow> dw_error + subroutine list" where
  "transform_subprogram gi u = transform_subprogram_rec gi (du_offset u) (du_root u)"

primrec transform_subprograms :: "gimli \<Rightarrow> dwarf_unit list \<Rightarrow> dw_error + subroutine list" where
  "transform_subprograms gi [] = Inr []"
| "transform_subprograms gi (u # us) =
    rbind (transform_subprogram gi u) (\<lambda>xs. rmap (\<lambda>ys. xs @ ys) (transform_subprograms gi us))"

definition pc_contains :: "subroutine \<Rightarrow> u64 \<Rightarrow> bool" where
  "pc_contains s offset = (sr_low_pc s \<le> offset \<and> offset < sr_high_pc s)"

definition find_subroutine :: "subroutine list \<Rightarrow> u64 \<Rightarrow> dw_error + subroutine" where
  "find_subroutine subs offset = ok_or DwError (List.find (\<lambda>s. pc_contains s offset) subs)"

definition get_frame_base :: "subroutine list \<Rightarrow> u64 \<Rightarrow> dw_error + wasm_loc option" where
  "get_frame_base subs offset = rmap sr_frame_base (find_subroutine subs offset)"


section \<open>Variables\<close>

datatype variable_content = VarLocation attr_value | VarConstValue "u8 list" | VarUnknown

record symbol_variable =
  sv_name :: "string option"
  sv_content :: variable_content
  sv_ty_offset :: "nat option"

definition const_bytes :: "attr_value \<Rightarrow> dw_error + u8 list" where
  "const_bytes a =
    (case a of
       AtBlock block \<Rightarrow> Inr block
     | AtData1 b \<Rightarrow> Inr [b]
     | AtData2 b \<Rightarrow> Inr (into_le_bytes b)
     | AtData4 b \<Rightarrow> Inr (into_le_bytes b)
     | AtData8 b \<Rightarrow> Inr (into_le_bytes b)
     | AtSdata b \<Rightarrow> Inr (into_le_bytes b)
     | AtUdata b \<Rightarrow> Inr (into_le_bytes b)
     | AtString b \<Rightarrow> Inr b
     | _ \<Rightarrow> Inl DwPanic)"

definition unit_ref :: "die \<Rightarrow> nat option" where
  "unit_ref d = (case attr_of d DwAtType of Some (AtUnitRef offset) \<Rightarrow> Some offset | _ \<Rightarrow> None)"

definition transform_variable :: "gimli \<Rightarrow> die \<Rightarrow> dw_error + symbol_variable" where
  "transform_variable gi d =
    rbind (case attr_of d DwAtConstValue of
        None \<Rightarrow> Inr (case attr_of d DwAtLocation of None \<Rightarrow> VarUnknown | Some l \<Rightarrow> VarLocation l)
      | Some c \<Rightarrow> (case attr_of d DwAtLocation of
            None \<Rightarrow> rmap VarConstValue (const_bytes c)
          | Some l \<Rightarrow> Inr (VarLocation l))) (\<lambda>content.
    rbind (opt_string gi d) (\<lambda>name.
      Inr \<lparr>sv_name = name, sv_content = content, sv_ty_offset = unit_ref d\<rparr>))"

primrec transform_variables :: "gimli \<Rightarrow> die list \<Rightarrow> dw_error + symbol_variable list" where
  "transform_variables gi [] = Inr []"
| "transform_variables gi (c # cs) =
    (if die_tag c = TagVariable \<or> die_tag c = TagFormalParameter
     then rbind (transform_variable gi c) (\<lambda>v. rmap (\<lambda>vs. v # vs) (transform_variables gi cs))
     else transform_variables gi cs)"

definition subroutine_variables :: "gimli \<Rightarrow> dwarf_unit \<Rightarrow> subroutine \<Rightarrow> dw_error + symbol_variable list" where
  "subroutine_variables gi u s =
    rbind (ok_or DwError (du_entry u (sr_entry_offset s))) (\<lambda>d. transform_variables gi (die_children d))"

definition unit_type_name :: "gimli \<Rightarrow> dwarf_unit \<Rightarrow> nat option \<Rightarrow> dw_error + string" where
  "unit_type_name gi u type_offset =
    (case type_offset of
       None \<Rightarrow> Inr ''void''
     | Some offset \<Rightarrow>
         rbind (ok_or DwError (du_entry u offset)) (\<lambda>d.
           case attr_of d DwAtName of Some a \<Rightarrow> gi_string gi a | None \<Rightarrow> Inl DwError))"

definition header_from_offset :: "dwarf_unit list \<Rightarrow> nat \<Rightarrow> dwarf_unit option" where
  "header_from_offset units offset = List.find (\<lambda>u. du_offset u = offset) units"

text \<open>Name and type name of the variables at an offset; a type without a name stays unparsed.\<close>

definition not_parsed :: string where
  "not_parsed = ''<<not parsed yet>>''"

definition variable_name_list :: "gimli \<Rightarrow> dwarf_unit list \<Rightarrow> subroutine list \<Rightarrow> u64
    \<Rightarrow> dw_error + (string \<times> string) list" where
  "variable_name_list gi units subs code_offset =
    rbind (find_subroutine subs code_offset) (\<lambda>s.
      case header_from_offset units (sr_unit_offset s) of
        None \<Rightarrow> Inr []
      | Some u \<Rightarrow>
          rmap (map (\<lambda>var.
              (case sv_name var of Some n \<Rightarrow> n | None \<Rightarrow> not_parsed,
               case unit_type_name gi u (sv_ty_offset var) of Inr n \<Rightarrow> n | Inl _ \<Rightarrow> not_parsed)))
            (subroutine_variables gi u s))"

datatype frame_base = WasmFrameBase u64 | Rbp u64

primrec evaluation_result :: "frame_base \<Rightarrow> evaluation \<Rightarrow> dw_error + piece list" where
  "evaluation_result base (EvComplete pieces) = Inr pieces"
| "evaluation_result base (EvRequiresFrameBase k) =
    (case base of WasmFrameBase b \<Rightarrow> evaluation_result base (k b) | Rbp _ \<Rightarrow> Inl DwError)"
| "evaluation_result base EvOther = Inl DwError"
| "evaluation_result base EvError = Inl DwError"

definition evaluate_variable_location :: "gimli \<Rightarrow> frame_base \<Rightarrow> u8 list \<Rightarrow> dw_error + piece list" where
  "evaluate_variable_location gi base expr =
    evaluation_result base
      (gi_evaluate gi (case base of Rbp b \<Rightarrow> Some b | WasmFrameBase _ \<Rightarrow> None) expr)"


section \<open>Printing of objects\<close>

primrec nat_of_bytes_le :: "u8 list \<Rightarrow> nat" where
  "nat_of_bytes_le [] = 0"
| "nat_of_bytes_le (b # bs) = unat b + 256 * nat_of_bytes_le bs"

definition from_signed_bytes_le :: "u8 list \<Rightarrow> int option" where
  "from_signed_bytes_le bytes =
    (if bytes = [] then None
     else let is_negate = (drop_bit 7 (last bytes) = 1);
              v = int (nat_of_bytes_le (map not bytes))
          in Some (if is_negate then - v - 1 else v + 1))"

definition show_int :: "int \<Rightarrow> string" where
  "show_int i = (if i < 0 then CHR ''-'' # show_nat (nat (- i)) else show_nat (nat i))"

definition name_or :: "string \<Rightarrow> gimli \<Rightarrow> die \<Rightarrow> dw_error + string" where
  "name_or default_name gi d =
    (case attr_of d DwAtName of Some a \<Rightarrow> gi_string gi a | None \<Rightarrow> Inr default_name)"

primrec member_names :: "gimli \<Rightarrow> die list \<Rightarrow> dw_error + string list" where
  "member_names gi [] = Inr []"
| "member_names gi (c # cs) =
    (if die_tag c = TagMember
     then rbind (name_or ''<no member name>'' gi c) (\<lambda>n. rmap (\<lambda>ns. n # ns) (member_names gi cs))
     else member_names gi cs)"

text \<open>The encodings \<open>DW_ATE_signed\<close> and \<open>DW_ATE_unsigned\<close>.\<close>

definition format_object :: "gimli \<Rightarrow> u8 list \<Rightarrow> die \<Rightarrow> dw_error + string" where
  "format_object gi memory d =
    (if die_tag d = TagBaseType then
       rbind (name_or ''<no type name>'' gi d) (\<lambda>name.
       rbind (ok_or DwError (Option.bind (attr_of d DwAtByteSize) (gi_udata gi))) (\<lambda>byte_size.
       rbind (case attr_of d DwAtEncoding of Some (AtEncoding e) \<Rightarrow> Inr e | _ \<Rightarrow> Inl DwError) (\<lambda>encoding.
       rbind (ok_or DwPanic (get_range 0 (unat byte_size) memory)) (\<lambda>bytes.
         let shown = (\<lambda>v. name @ ''('' @ v @ '')'')
         in if encoding = 5 then rmap (\<lambda>v. shown (show_int v)) (ok_or DwPanic (from_signed_bytes_le bytes))
            else if encoding = 7 then Inr (shown (show_nat (nat_of_bytes_le bytes)))
            else Inl DwPanic))))
     else if die_tag d = TagClassType \<or> die_tag d = TagStructureType then
       rbind (name_or ''<no type name>'' gi d) (\<lambda>name.
       rmap (\<lambda>members. name @ '' {'' @ [CHR 0x0A] @ str_join ('','' @ [CHR 0x0A]) members @ [CHR 0x0A] @ ''}'')
         (member_names gi (die_children d)))
     else Inl DwError)"

text \<open>The line that \<open>display_variable\<close> prints.\<close>

definition display_variable :: "gimli \<Rightarrow> dwarf_unit list \<Rightarrow> subroutine list \<Rightarrow> u64 \<Rightarrow> frame_base \<Rightarrow> u8 list
    \<Rightarrow> string \<Rightarrow> dw_error + string option" where
  "display_variable gi units subs code_offset base memory name =
    rbind (find_subroutine subs code_offset) (\<lambda>s.
      case header_from_offset units (sr_unit_offset s) of
        None \<Rightarrow> Inr None
      | Some u \<Rightarrow>
          rbind (subroutine_variables gi u s) (\<lambda>variables.
          rbind (ok_or DwError (List.find (\<lambda>v. sv_name v = Some name) variables)) (\<lambda>var.
          rbind (case sv_content var of
              VarLocation (AtExprloc expr) \<Rightarrow> evaluate_variable_location gi base expr
            | _ \<Rightarrow> Inl DwPanic) (\<lambda>pieces.
            case pieces of
              [] \<Rightarrow> Inr (Some ''failed to get piece of variable'')
            | p # _ \<Rightarrow>
                (case sv_ty_offset var of
                   None \<Rightarrow> Inr (Some ''no explicit type'')
                 | Some offset \<Rightarrow>
                     (case p of
                        PieceOther \<Rightarrow> Inl DwPanic
                      | PieceAddress address \<Rightarrow>
                          rbind (ok_or DwError (du_entry u offset)) (\<lambda>d.
                            if unat address \<le> length memory
                            then rmap Some (format_object gi (drop (unat address) memory) d)
                            else Inl DwPanic)))))))"


section \<open>Types\<close>

datatype member_location = LocationDescription "u8 list" | ConstOffset u64

record member_info =
  mi_name :: "string option"
  mi_ty :: nat
  mi_location :: member_location

record struct_info =
  si_name :: "string option"
  si_members :: "member_info list"
  si_byte_size :: u64
  si_declaration :: bool

record enumerator_info =
  en_name :: "string option"
  en_value :: "u64 option"

datatype type_info =
    BaseType string u64
  | ModifiedType "nat option" modifier_kind
  | StructType struct_info
  | TypeDef "string option" "nat option"
  | EnumerationType "string option" "nat option" "enumerator_info list"

definition parse_base_type :: "gimli \<Rightarrow> die \<Rightarrow> dw_error + type_info" where
  "parse_base_type gi d =
    rbind (name_or ''<null>'' gi d) (\<lambda>name.
      Inr (BaseType name (case Option.bind (attr_of d DwAtByteSize) (gi_udata gi) of None \<Rightarrow> 0 | Some n \<Rightarrow> n)))"

definition parse_modified_type :: "modifier_kind \<Rightarrow> die \<Rightarrow> dw_error + type_info" where
  "parse_modified_type kind d = Inr (ModifiedType (unit_ref d) kind)"

definition parse_partial_struct_type :: "gimli \<Rightarrow> die \<Rightarrow> dw_error + struct_info" where
  "parse_partial_struct_type gi d =
    rbind (opt_string gi d) (\<lambda>name.
      Inr \<lparr>si_name = name, si_members = [],
           si_byte_size = (case Option.bind (attr_of d DwAtByteSize) (gi_udata gi) of None \<Rightarrow> 0 | Some n \<Rightarrow> n),
           si_declaration = (case attr_of d DwAtDeclaration of Some (AtFlag f) \<Rightarrow> f | _ \<Rightarrow> False)\<rparr>)"

definition parse_member :: "gimli \<Rightarrow> die \<Rightarrow> dw_error + member_info" where
  "parse_member gi d =
    rbind (opt_string gi d) (\<lambda>name.
    rbind (ok_or DwError (unit_ref d)) (\<lambda>ty.
    rbind (case attr_of d DwAtDataMemberLocation of
        None \<Rightarrow> Inr (ConstOffset 0)
      | Some (AtUdata offset) \<Rightarrow> Inr (ConstOffset offset)
      | Some (AtExprloc expr) \<Rightarrow> Inr (LocationDescription expr)
      | Some _ \<Rightarrow> Inl DwPanic) (\<lambda>location.
      Inr \<lparr>mi_name = name, mi_ty = ty, mi_location = location\<rparr>)))"

definition parse_typedef :: "gimli \<Rightarrow> die \<Rightarrow> dw_error + type_info" where
  "parse_typedef gi d = rbind (opt_string gi d) (\<lambda>name. Inr (TypeDef name (unit_ref d)))"

definition parse_partial_enum_type :: "gimli \<Rightarrow> die \<Rightarrow> dw_error + type_info" where
  "parse_partial_enum_type gi d = rbind (opt_string gi d) (\<lambda>name. Inr (EnumerationType name (unit_ref d) []))"

definition parse_enumerator :: "gimli \<Rightarrow> die \<Rightarrow> dw_error + enumerator_info" where
  "parse_enumerator gi d =
    rbind (opt_string gi d) (\<lambda>name.
      Inr \<lparr>en_name = name, en_value = Option.bind (attr_of d DwAtConstValue) (gi_sdata gi)\<rparr>)"

definition parse_own_type :: "gimli \<Rightarrow> die \<Rightarrow> dw_error + type_info option" where
  "parse_own_type gi d =
    (case die_tag d of
       TagBaseType \<Rightarrow> rmap Some (parse_base_type gi d)
     | TagClassType \<Rightarrow> rmap (\<lambda>s. Some (StructType s)) (parse_partial_struct_type gi d)
     | TagStructureType \<Rightarrow> rmap (\<lambda>s. Some (StructType s)) (parse_partial_struct_type gi d)
     | TagEnumerationType \<Rightarrow> rmap Some (parse_partial_enum_type gi d)
     | TagTypedef \<Rightarrow> rmap Some (parse_typedef gi d)
     | TagModifier kind \<Rightarrow> rmap Some (parse_modified_type kind d)
     | TagMember \<Rightarrow> Inl DwPanic
     | _ \<Rightarrow> Inr None)"

definition add_components :: "member_info list \<Rightarrow> enumerator_info list \<Rightarrow> type_info \<Rightarrow> type_info" where
  "add_components members enumerators ty =
    (case ty of
       StructType s \<Rightarrow> StructType (s\<lparr>si_members := si_members s @ members\<rparr>)
     | EnumerationType n t es \<Rightarrow> EnumerationType n t (es @ enumerators)
     | _ \<Rightarrow> ty)"

text \<open>The types by their offset; the types inside of an entry are entered before its own.\<close>

type_synonym type_hash = "nat \<rightharpoonup> type_info"

fun parse_types_rec :: "gimli \<Rightarrow> die \<Rightarrow> type_hash \<Rightarrow> dw_error + type_hash"
and parse_type_children :: "gimli \<Rightarrow> die list \<Rightarrow> type_hash
    \<Rightarrow> dw_error + member_info list \<times> enumerator_info list \<times> type_hash" where
  "parse_types_rec gi (Die off tag attrs children) types =
    rbind (parse_own_type gi (Die off tag attrs children)) (\<lambda>ty.
    rbind (parse_type_children gi children types) (\<lambda>(members, enumerators, types).
      Inr (case ty of None \<Rightarrow> types | Some ty \<Rightarrow> types(off \<mapsto> add_components members enumerators ty))))"
| "parse_type_children gi [] types = Inr ([], [], types)"
| "parse_type_children gi (c # cs) types =
    (if die_tag c = TagMember then
       rbind (parse_member gi c) (\<lambda>m.
         rmap (\<lambda>(ms, es, types). (m # ms, es, types)) (parse_type_children gi cs types))
     else if die_tag c = TagEnumerator then
       rbind (parse_enumerator gi c) (\<lambda>e.
         rmap (\<lambda>(ms, es, types). (ms, e # es, types)) (parse_type_children gi cs types))
     else
       rbind (parse_types_rec gi c types) (\<lambda>types. parse_type_children gi cs types))"

definition get_types :: "gimli \<Rightarrow> dwarf_unit \<Rightarrow> type_hash \<Rightarrow> dw_error + type_hash" where
  "get_types gi u types = parse_types_rec gi (du_root u) types"


section \<open>Properties\<close>

definition inside :: "subroutine \<Rightarrow> subroutine \<Rightarrow> bool" where
  "inside s t \<longleftrightarrow> (\<forall>pc. pc_contains s pc \<longrightarrow> pc_contains t pc)"

text \<open>
  Lexical scoping: the ranges of the entries below an entry are inside of its own, and those of two
  children of an entry have no address in common.
\<close>

fun scoped :: "gimli \<Rightarrow> nat \<Rightarrow> die \<Rightarrow> bool" and scoped_children :: "gimli \<Rightarrow> nat \<Rightarrow> die list \<Rightarrow> bool" where
  "scoped gi n (Die off tag attrs children) =
    (scoped_children gi n children \<and>
     (case (read_subprogram_header gi n (Die off tag attrs children), transform_subprogram_children gi n children) of
        (Inr (Some s), Inr subs) \<Rightarrow> list_all (\<lambda>t. inside t s) subs
      | _ \<Rightarrow> True))"
| "scoped_children gi n [] = True"
| "scoped_children gi n (c # cs) =
    (if die_tag c = TagVariable \<or> die_tag c = TagFormalParameter then scoped_children gi n cs
     else scoped gi n c \<and> scoped_children gi n cs \<and>
       (case (transform_subprogram_rec gi n c, transform_subprogram_children gi n cs) of
          (Inr xs, Inr ys) \<Rightarrow> list_all (\<lambda>x. list_all (\<lambda>y. \<forall>pc. \<not> (pc_contains x pc \<and> pc_contains y pc)) ys) xs
        | _ \<Rightarrow> True))"

definition innermost_first :: "subroutine list \<Rightarrow> bool" where
  "innermost_first subs \<longleftrightarrow>
    (\<forall>pc s t. List.find (\<lambda>s. pc_contains s pc) subs = Some s \<longrightarrow> t \<in> set subs \<longrightarrow> pc_contains t pc \<longrightarrow> inside s t)"

lemma find_append: "List.find P (xs @ ys) = (case List.find P xs of None \<Rightarrow> List.find P ys | Some x \<Rightarrow> Some x)"
  by (induction xs) auto

lemma find_Some_D: "List.find P xs = Some x \<Longrightarrow> P x \<and> x \<in> set xs"
  by (induction xs) (auto split: if_splits)

lemma find_None_D: "List.find P xs = None \<Longrightarrow> x \<in> set xs \<Longrightarrow> \<not> P x"
  by (induction xs) (auto split: if_splits)

lemma inside_refl: "inside s s"
  by (simp add: inside_def)

lemma innermost_first_snoc:
  assumes "innermost_first subs" "\<forall>t \<in> set subs. inside t s"
  shows "innermost_first (subs @ [s])"
  using assms
  by (fastforce simp: innermost_first_def find_append inside_refl
      dest: find_None_D find_Some_D split: option.splits if_splits)

lemma innermost_first_append:
  assumes "innermost_first xs" "innermost_first ys" "\<forall>x \<in> set xs. \<forall>y \<in> set ys. \<forall>pc. \<not> (pc_contains x pc \<and> pc_contains y pc)"
  shows "innermost_first (xs @ ys)"
  using assms
  by (fastforce simp: innermost_first_def find_append dest: find_None_D find_Some_D split: option.splits)

lemma scoped_innermost_first:
  "transform_subprogram_rec gi n d = Inr subs \<Longrightarrow> scoped gi n d \<Longrightarrow> innermost_first subs"
  "transform_subprogram_children gi n cs = Inr subs' \<Longrightarrow> scoped_children gi n cs \<Longrightarrow> innermost_first subs'"
proof (induction gi n d and gi n cs arbitrary: subs and subs' rule: transform_subprogram_rec_transform_subprogram_children.induct)
  case (1 gi n off tag attrs children)
  then show ?case
    by (auto simp: rsimps list_all_iff innermost_first_snoc split: option.splits)
next
  case (2 gi n)
  then show ?case by (simp add: innermost_first_def)
next
  case (3 gi n c cs)
  then show ?case
    by (auto simp: rsimps list_all_iff intro!: innermost_first_append split: if_splits)
qed

text \<open>
  The variables listed for an offset are those of the innermost scope: when the ranges are nested
  like the entries, the subroutine or block that is found lies inside of every other one that
  contains the offset.
\<close>
theorem innermost_scope_found:
  assumes "transform_subprogram gi u = Inr subs" "scoped gi (du_offset u) (du_root u)"
    and "find_subroutine subs offset = Inr s" "t \<in> set subs" "pc_contains t offset"
  shows "pc_contains s offset \<and> inside s t"
proof -
  have "innermost_first subs" using scoped_innermost_first(1) assms(1,2) by (simp add: transform_subprogram_def)
  moreover have f: "List.find (\<lambda>s. pc_contains s offset) subs = Some s"
    using assms(3) by (simp add: find_subroutine_def rsimps)
  ultimately show ?thesis using assms(4,5) find_Some_D [OF f] by (auto simp: innermost_first_def)
qed

definition demo_gimli :: gimli where
  "demo_gimli = \<lparr>gi_string = (\<lambda>_. Inl DwError), gi_uleb128 = (\<lambda>_. None), gi_u32 = (\<lambda>_. None),
     gi_udata = (\<lambda>_. None), gi_sdata = (\<lambda>_. None), gi_evaluate = (\<lambda>_ _. EvOther)\<rparr>"

definition demo_dwarf :: dwarf_unit where
  "demo_dwarf = \<lparr>du_offset = 0,
     du_root = Die 1 TagSubprogram [(DwAtLowPc, AtAddr 0), (DwAtHighPc, AtUdata 10)]
       [Die 2 TagVariable [] [], Die 3 TagLexicalBlock [(DwAtLowPc, AtAddr 2), (DwAtHighPc, AtAddr 5)] []],
     du_entry = (\<lambda>_. None)\<rparr>"

definition demo_scope :: "u64 \<Rightarrow> u64 \<Rightarrow> nat \<Rightarrow> subroutine" where
  "demo_scope a b n = \<lparr>sr_low_pc = a, sr_high_pc = b, sr_entry_offset = n, sr_unit_offset = 0, sr_frame_base = None\<rparr>"

lemma innermost_scope_found_witness:
  "transform_subprogram demo_gimli demo_dwarf = Inr [demo_scope 2 5 3, demo_scope 0 10 1] \<and>
   find_subroutine [demo_scope 2 5 3, demo_scope 0 10 1] 3 = Inr (demo_scope 2 5 3) \<and>
   inside (demo_scope 2 5 3) (demo_scope 0 10 1)"
proof -
  let ?subs = "[demo_scope 2 5 3, demo_scope 0 10 1]"
  have h: "read_subprogram_header demo_gimli 0 (du_root demo_dwarf) = Inr (Some (demo_scope 0 10 1))"
    "read_subprogram_header demo_gimli 0 (Die 3 TagLexicalBlock [(DwAtLowPc, AtAddr 2), (DwAtHighPc, AtAddr 5)] []) =
      Inr (Some (demo_scope 2 5 3))"
    by (simp_all add: read_subprogram_header_def demo_dwarf_def opt_string_def attr_of_def add_u64_def demo_scope_def)
  have t: "transform_subprogram demo_gimli demo_dwarf = Inr ?subs"
    using h by (simp add: transform_subprogram_def demo_dwarf_def)
  have "inside (demo_scope 2 5 3) (demo_scope 0 10 1)"
    by (auto simp: inside_def pc_contains_def demo_scope_def intro: order_trans less_trans)
  then have s: "scoped demo_gimli (du_offset demo_dwarf) (du_root demo_dwarf)"
    using h by (simp add: demo_dwarf_def)
  have f: "find_subroutine ?subs 3 = Inr (demo_scope 2 5 3)"
    by (simp add: find_subroutine_def pc_contains_def demo_scope_def)
  show ?thesis
    using innermost_scope_found [OF t s f, of "demo_scope 0 10 1"] t f by (simp add: pc_contains_def demo_scope_def)
qed

lemma nat_of_bytes_not: "int (nat_of_bytes_le (map not bs)) = 2 ^ (8 * length bs) - 1 - int (nat_of_bytes_le bs)"
proof (induction bs)
  case (Cons b bs)
  have "uint (not b) = 255 - uint b"
  proof -
    have "b \<le> - 1" by simp
    then have "uint (- 1 - b) = uint (- 1 :: u8) - uint b" by (rule iffD1 [OF uint_minus_simple_alt])
    moreover have "not b = - 1 - b" by (simp add: not_eq_complement algebra_simps)
    moreover have "uint (- 1 :: u8) = 255" by (simp add: mask_eq_exp_minus_1 uint_word_arith_bintrs)
    ultimately show ?thesis by simp
  qed
  then have "int (unat (not b)) = 255 - int (unat b)" by simp
  then show ?case using Cons by (simp add: power_add algebra_simps)
qed simp

text \<open>
  Signed numbers are printed right only when negative: for the bytes of a number that is not
  negative, \<open>from_signed_bytes_le\<close> yields the distance to the next power of 256.
\<close>
theorem signed_bytes_exact:
  assumes "bytes \<noteq> []"
  shows "from_signed_bytes_le bytes = Some
    (if drop_bit 7 (last bytes) = 1 then int (nat_of_bytes_le bytes) - 2 ^ (8 * length bytes)
     else 2 ^ (8 * length bytes) - int (nat_of_bytes_le bytes))"
  using assms by (simp add: from_signed_bytes_le_def Let_def nat_of_bytes_not)

lemma signed_bytes_exact_witness:
  "from_signed_bytes_le [0xFE] = Some (-2) \<and> from_signed_bytes_le [5] = Some 251"
  using signed_bytes_exact [of "[0xFE]"] signed_bytes_exact [of "[5]"] by simp

end
