(* ===== verification/Heap_Display.thy ===== *)
theory Heap_Display
  imports Engine Text
begin

text \<open>
  Motoko values in the heap of a program: \<open>debugger/src/heap.rs\<close>. Objects start with a tag word; the
  display of an object may descend into others, and for big integers it calls functions of the
  debugged program, an argument here. \<open>None\<close> is a display that is out of fuel: the program has no
  such limit and recurses until the host stack overflows. Floats are printed by an argument.
\<close>


section \<open>Printing\<close>

record printers =
  pr_f32 :: "u32 \<Rightarrow> string"
  pr_f64 :: "u64 \<Rightarrow> string"
  pr_f32_debug :: "u32 \<Rightarrow> string"
  pr_f64_debug :: "u64 \<Rightarrow> string"
  pr_ref_debug :: "u64 \<Rightarrow> string"

definition show_sint :: "'a :: len word \<Rightarrow> string" where
  "show_sint w = (if 0 \<le> sint w then show_nat (nat (sint w)) else CHR ''-'' # show_nat (nat (- sint w)))"

definition debug_untyped :: "untyped_val \<Rightarrow> string" where
  "debug_untyped v = ''UntypedVal { bits: '' @ show_nat (unat v) @ '' }''"

primrec debug_val :: "printers \<Rightarrow> wasm_val \<Rightarrow> string" where
  "debug_val pr (ValI32 w) = ''I32('' @ show_sint w @ '')''"
| "debug_val pr (ValI64 w) = ''I64('' @ show_sint w @ '')''"
| "debug_val pr (ValF32 w) = ''F32('' @ pr_f32_debug pr w @ '')''"
| "debug_val pr (ValF64 w) = ''F64('' @ pr_f64_debug pr w @ '')''"
| "debug_val pr (ValFuncRef w) = ''FuncRef('' @ pr_ref_debug pr w @ '')''"
| "debug_val pr (ValExternRef w) = ''ExternRef('' @ pr_ref_debug pr w @ '')''"

primrec debug_val_type :: "val_type \<Rightarrow> string" where
  "debug_val_type I32 = ''I32''"
| "debug_val_type I64 = ''I64''"
| "debug_val_type F32 = ''F32''"
| "debug_val_type F64 = ''F64''"
| "debug_val_type FuncRef = ''FuncRef''"
| "debug_val_type ExternRef = ''ExternRef''"


section \<open>Tags\<close>

datatype tagged =
    TgObject | TgArrayT | TgArrayVarT | TgArrayTuple | TgArrayShared | TgBits64Signed | TgBits64Unsigned
  | TgBits64Float | TgMutBox | TgClosure | TgSome | TgVariant | TgBlobBlob | TgBlobText | TgBlobPrincipal
  | TgBlobActor | TgIndirection | TgBigInt | TgConcat | TgRegion | TgBits32Signed | TgBits32Unsigned
  | TgBits32Float | TgNull | TgOneWordFiller | TgFreeSpace | TgArraySliceMinimum | TgCoercionFailure
  | TgStableSeen

definition tag_table :: "(u64 \<times> tagged \<times> string) list" where
  "tag_table =
    [(1, TgObject, ''Object''), (3, TgArrayT, ''ArrayT''), (5, TgArrayVarT, ''ArrayVarT''),
     (7, TgArrayTuple, ''ArrayTuple''), (9, TgArrayShared, ''ArrayShared''),
     (11, TgBits64Signed, ''Bits64Signed''), (13, TgBits64Unsigned, ''Bits64Unsigned''),
     (15, TgBits64Float, ''Bits64Float''), (17, TgMutBox, ''MutBox''), (19, TgClosure, ''Closure''),
     (21, TgSome, ''Some''), (23, TgVariant, ''Variant''), (25, TgBlobBlob, ''BlobBlob''),
     (27, TgBlobText, ''BlobText''), (29, TgBlobPrincipal, ''BlobPrincipal''),
     (31, TgBlobActor, ''BlobActor''), (33, TgIndirection, ''Indirection''), (35, TgBigInt, ''BigInt''),
     (37, TgConcat, ''Concat''), (39, TgRegion, ''Region''), (41, TgBits32Signed, ''Bits32Signed''),
     (43, TgBits32Unsigned, ''Bits32Unsigned''), (45, TgBits32Float, ''Bits32Float''),
     (47, TgNull, ''Null''), (49, TgOneWordFiller, ''OneWordFiller''), (51, TgFreeSpace, ''FreeSpace''),
     (52, TgArraySliceMinimum, ''ArraySliceMinimum''), (0xFFFFFFFE, TgCoercionFailure, ''CoercionFailure''),
     (0xFFFFFFFF, TgStableSeen, ''StableSeen'')]"

definition tagged_from_u64 :: "u64 \<Rightarrow> (tagged \<times> string) option" where
  "tagged_from_u64 v = map_of tag_table v"


section \<open>Loads\<close>

text \<open>Errors of \<open>Result\<close> and panics.\<close>

datatype heap_error = HeapError | HeapPanic

definition heap_load :: "trap_code + untyped_val \<Rightarrow> heap_error + untyped_val" where
  "heap_load r = (case r of Inl _ \<Rightarrow> Inl HeapError | Inr v \<Rightarrow> Inr v)"

definition load_i32_from_heap :: "u8 list \<Rightarrow> u64 \<Rightarrow> u32 \<Rightarrow> heap_error + untyped_val" where
  "load_i32_from_heap memory address offset = heap_load (i32_load memory address offset)"

definition load_i64_from_heap :: "u8 list \<Rightarrow> u64 \<Rightarrow> u32 \<Rightarrow> heap_error + untyped_val" where
  "load_i64_from_heap memory address offset = heap_load (i64_load memory address offset)"

definition load_f32_from_heap :: "u8 list \<Rightarrow> u64 \<Rightarrow> u32 \<Rightarrow> heap_error + untyped_val" where
  "load_f32_from_heap memory address offset = heap_load (f32_load memory address offset)"

definition load_f64_from_heap :: "u8 list \<Rightarrow> u64 \<Rightarrow> u32 \<Rightarrow> heap_error + untyped_val" where
  "load_f64_from_heap memory address offset = heap_load (f64_load memory address offset)"

definition load_from_heap :: "u8 list \<Rightarrow> u64 \<Rightarrow> u32 \<Rightarrow> val_type \<Rightarrow> heap_error + untyped_val" where
  "load_from_heap memory address offset ty =
    (case ty of
       I32 \<Rightarrow> load_i32_from_heap memory address offset
     | I64 \<Rightarrow> load_i64_from_heap memory address offset
     | F32 \<Rightarrow> load_f32_from_heap memory address offset
     | F64 \<Rightarrow> load_f64_from_heap memory address offset
     | _ \<Rightarrow> Inl HeapError)"

definition get_heap_type_size :: "val_type \<Rightarrow> heap_error + nat" where
  "get_heap_type_size ty =
    (case ty of I32 \<Rightarrow> Inr 4 | I64 \<Rightarrow> Inr 8 | F32 \<Rightarrow> Inr 4 | F64 \<Rightarrow> Inr 8 | _ \<Rightarrow> Inl HeapPanic)"

text \<open>An offset that does not fit into 32 bits panics.\<close>

definition u32_offset :: "nat \<Rightarrow> heap_error + u32" where
  "u32_offset n = (if n < 2 ^ 32 then Inr (of_nat n) else Inl HeapPanic)"


section \<open>Objects without others in them\<close>

definition handle_mut_box :: "u8 list \<Rightarrow> u64 \<Rightarrow> heap_error + string" where
  "handle_mut_box memory address = rmap debug_untyped (load_i32_from_heap memory address 5)"

definition handle_f64 :: "printers \<Rightarrow> u8 list \<Rightarrow> u64 \<Rightarrow> heap_error + string" where
  "handle_f64 pr memory address = rmap (pr_f64_debug pr) (load_f64_from_heap memory address 5)"

definition handle_f32 :: "printers \<Rightarrow> u8 list \<Rightarrow> u64 \<Rightarrow> heap_error + string" where
  "handle_f32 pr memory address = rmap (\<lambda>v. pr_f32_debug pr (ucast v)) (load_f32_from_heap memory address 5)"

definition handle_variant :: "u8 list \<Rightarrow> u64 \<Rightarrow> heap_error + string" where
  "handle_variant memory address =
    rmap (\<lambda>v. ''variant tag: '' @ debug_untyped v @ '', value not supported yet'') (load_i32_from_heap memory address 5)"

text \<open>The \<open>n\<close> bytes from index \<open>i\<close> on, each as one character.\<close>

primrec load_chars :: "u8 list \<Rightarrow> u64 \<Rightarrow> nat \<Rightarrow> nat \<Rightarrow> heap_error + string" where
  "load_chars memory address i 0 = Inr []"
| "load_chars memory address i (Suc n) =
    rbind (u32_offset (9 + i)) (\<lambda>offset.
    rbind (heap_load (i32_load8_u memory address offset)) (\<lambda>c.
      rmap (\<lambda>s. char_of (unat (ucast c :: u8)) # s) (load_chars memory address (Suc i) n)))"

definition handle_blob_text :: "u8 list \<Rightarrow> u64 \<Rightarrow> heap_error + string" where
  "handle_blob_text memory address =
    rbind (load_i32_from_heap memory address 5) (\<lambda>len. load_chars memory address 0 (unat len))"


section \<open>Computations on the store\<close>

text \<open>
  A computation on the store that fails or not, and keeps the changed store in both cases.
\<close>

type_synonym ('s, 'a) heap_comp = "'s \<Rightarrow> ((heap_error + 'a) \<times> 's) option"

definition hret :: "heap_error + 'a \<Rightarrow> ('s, 'a) heap_comp" where
  "hret r s = Some (r, s)"

definition hbind :: "('s, 'a) heap_comp \<Rightarrow> ('a \<Rightarrow> ('s, 'b) heap_comp) \<Rightarrow> ('s, 'b) heap_comp" where
  "hbind m f s = (case m s of None \<Rightarrow> None | Some (Inl e, s') \<Rightarrow> Some (Inl e, s') | Some (Inr x, s') \<Rightarrow> f x s')"

lemma hbind_hret [simp]: "hbind (hret (Inr x)) f = f x" "hbind (hret (Inl e)) f = hret (Inl e)"
  by (simp_all add: hbind_def hret_def fun_eq_iff)

text \<open>
  The three functions of the program that convert a big integer, if it has them, and how a function is
  called: the results (or the error) and the store afterwards.
\<close>

record 's heap_env =
  he_pr :: printers
  he_call :: "func_h \<Rightarrow> wasm_val list \<Rightarrow> wasm_val list \<Rightarrow> ('s, wasm_val list) heap_comp"
  he_memory :: "'s \<Rightarrow> u8 list"

record bigint_funcs =
  bigint_to_float64 :: "func_h option"
  bigint_to_word64_wrap :: "func_h option"
  bigint_to_word32_wrap :: "func_h option"

definition no_bigint_funcs :: bigint_funcs where
  "no_bigint_funcs = \<lparr>bigint_to_float64 = None, bigint_to_word64_wrap = None, bigint_to_word32_wrap = None\<rparr>"

definition call_bigint :: "'s heap_env \<Rightarrow> func_h option \<Rightarrow> wasm_val list \<Rightarrow> val_type \<Rightarrow> ('s, string) heap_comp" where
  "call_bigint he f args ty =
    (case f of
       None \<Rightarrow> hret (Inl HeapPanic)
     | Some f \<Rightarrow> hbind (he_call he f args [val_default ty]) (\<lambda>rs.
         hret (rmap (debug_val (he_pr he)) (ok_or HeapPanic (get_at rs 0)))))"

definition handle_bigint :: "'s heap_env \<Rightarrow> bigint_funcs \<Rightarrow> u64 \<Rightarrow> val_type \<Rightarrow> ('s, string) heap_comp" where
  "handle_bigint he fs address ty =
    (case ty of
       F64 \<Rightarrow> call_bigint he (bigint_to_float64 fs) [ValF64 address] ty
     | I32 \<Rightarrow> call_bigint he (bigint_to_word32_wrap fs) [ValI32 (ucast address), ValI32 2097319] ty
     | I64 \<Rightarrow> call_bigint he (bigint_to_word64_wrap fs) [ValI64 address] ty
     | _ \<Rightarrow> hret (Inl HeapError))"


section \<open>Objects with others in them\<close>

text \<open>
  \<open>d\<close> is the display of other objects. A value with a cleared lowest bit is a small number; the
  shift is one of unsigned bits.
\<close>

definition display_small :: "printers \<Rightarrow> untyped_val \<Rightarrow> val_type \<Rightarrow> heap_error + string" where
  "display_small pr v ty =
    (let v = drop_bit 1 v
     in case ty of
          I32 \<Rightarrow> Inr (show_sint (to_i32 v))
        | I64 \<Rightarrow> Inr (show_sint (to_i64 v))
        | F32 \<Rightarrow> Inr (pr_f32 pr (to_i32 v))
        | F64 \<Rightarrow> Inr (pr_f64 pr (to_i64 v))
        | _ \<Rightarrow> Inl HeapPanic)"

definition display_wasm_val :: "(bigint_funcs \<Rightarrow> u64 \<Rightarrow> val_type \<Rightarrow> ('s, string) heap_comp) \<Rightarrow> printers
    \<Rightarrow> bigint_funcs \<Rightarrow> untyped_val \<Rightarrow> val_type \<Rightarrow> bool \<Rightarrow> ('s, string) heap_comp" where
  "display_wasm_val d pr fs v ty as_float s =
    (if v AND 1 = 0 \<and> \<not> as_float then hret (display_small pr v ty) s
     else case d fs v ty s of
            Some (Inl HeapError, s') \<Rightarrow> Some (Inr (pr_f64 pr v), s')
          | r \<Rightarrow> r)"

primrec display_elements :: "(bigint_funcs \<Rightarrow> u64 \<Rightarrow> val_type \<Rightarrow> ('s, string) heap_comp) \<Rightarrow> printers
    \<Rightarrow> bigint_funcs \<Rightarrow> u8 list \<Rightarrow> u64 \<Rightarrow> val_type \<Rightarrow> nat \<Rightarrow> nat \<Rightarrow> ('s, string) heap_comp" where
  "display_elements d pr fs memory address ty i 0 = hret (Inr [])"
| "display_elements d pr fs memory address ty i (Suc n) =
    hbind (hret (rbind (get_heap_type_size ty) (\<lambda>sz.
                 rbind (u32_offset (9 + i * sz)) (\<lambda>offset.
                   load_from_heap memory address offset ty)))) (\<lambda>v.
    hbind (display_wasm_val d pr fs v ty (is_float ty)) (\<lambda>shown.
    hbind (display_elements d pr fs memory address ty (Suc i) n) (\<lambda>rest.
      hret (Inr (shown @ '', '' @ rest)))))"

definition handle_array_var_t :: "(bigint_funcs \<Rightarrow> u64 \<Rightarrow> val_type \<Rightarrow> ('s, string) heap_comp) \<Rightarrow> printers
    \<Rightarrow> bigint_funcs \<Rightarrow> u8 list \<Rightarrow> u64 \<Rightarrow> val_type \<Rightarrow> ('s, string) heap_comp" where
  "handle_array_var_t d pr fs memory address ty =
    hbind (hret (load_i32_from_heap memory address 5)) (\<lambda>len.
    hbind (display_elements d pr fs memory address ty 0 (unat (ucast len :: u32))) (\<lambda>elems.
      hret (Inr (''['' @ elems @ '']''))))"

definition handle_concat :: "(bigint_funcs \<Rightarrow> u64 \<Rightarrow> val_type \<Rightarrow> ('s, string) heap_comp) \<Rightarrow> u8 list \<Rightarrow> u64
    \<Rightarrow> ('s, string) heap_comp" where
  "handle_concat d memory address =
    hbind (hret (load_i32_from_heap memory address 5)) (\<lambda>_.
    hbind (hret (load_i32_from_heap memory address 9)) (\<lambda>text1.
    hbind (hret (load_i32_from_heap memory address 13)) (\<lambda>text2.
    hbind (d no_bigint_funcs text1 I32) (\<lambda>s1.
    hbind (d no_bigint_funcs text2 I32) (\<lambda>s2.
      hret (Inr (s1 @ s2)))))))"

primrec display_local_in_heap :: "nat \<Rightarrow> 's heap_env \<Rightarrow> bigint_funcs \<Rightarrow> u64 \<Rightarrow> val_type \<Rightarrow> ('s, string) heap_comp" where
  "display_local_in_heap 0 he fs address ty s = None"
| "display_local_in_heap (Suc n) he fs address ty s =
    (let memory = he_memory he s; pr = he_pr he; d = display_local_in_heap n he
     in hbind (hret (load_i32_from_heap memory address 1)) (\<lambda>v.
        hbind (hret (ok_or HeapError (tagged_from_u64 v))) (\<lambda>(tag, name).
          case tag of
            TgArrayVarT \<Rightarrow> handle_array_var_t d pr fs memory address ty
          | TgArrayT \<Rightarrow> handle_array_var_t d pr fs memory address ty
          | TgMutBox \<Rightarrow> hret (handle_mut_box memory address)
          | TgBigInt \<Rightarrow> handle_bigint he fs address ty
          | TgBits64Float \<Rightarrow> hret (handle_f64 pr memory address)
          | TgBits32Float \<Rightarrow> hret (handle_f32 pr memory address)
          | TgBlobText \<Rightarrow> hret (handle_blob_text memory address)
          | TgConcat \<Rightarrow> handle_concat d memory address
          | TgVariant \<Rightarrow> hret (handle_variant memory address)
          | _ \<Rightarrow> hret (Inr (''HeapAddress: '' @ show_nat (unat address) @ '', tagged: '' @ name @ '', '' @
                   debug_val_type ty)))) s)"


section \<open>Texts\<close>

text \<open>
  What the compiler puts into the heap: words and bytes behind the object header. A Motoko text is a
  list of code points, which the heap holds in UTF-8.
\<close>

definition word_at :: "u8 list \<Rightarrow> u64 \<Rightarrow> nat \<Rightarrow> u32 \<Rightarrow> bool" where
  "word_at memory a k w \<longleftrightarrow> unat (to_i32 a) + k < 2 ^ 32 \<and>
    get_range (unat (to_i32 a) + k) 4 memory = Some (into_le_bytes w)"

definition bytes_at :: "u8 list \<Rightarrow> u64 \<Rightarrow> nat \<Rightarrow> u8 list \<Rightarrow> bool" where
  "bytes_at memory a k bs \<longleftrightarrow> unat (to_i32 a) + k + length bs < 2 ^ 32 \<and>
    get_range (unat (to_i32 a) + k) (length bs) memory = Some bs"

definition utf8_char :: "nat \<Rightarrow> u8 list" where
  "utf8_char c = map of_nat
    (if c < 0x80 then [c]
     else if c < 0x800 then [0xC0 + c div 64, 0x80 + c mod 64]
     else if c < 0x10000 then [0xE0 + c div 4096, 0x80 + c div 64 mod 64, 0x80 + c mod 64]
     else [0xF0 + c div 262144, 0x80 + c div 4096 mod 64, 0x80 + c div 64 mod 64, 0x80 + c mod 64])"

definition utf8 :: "nat list \<Rightarrow> u8 list" where
  "utf8 cs = concat (map utf8_char cs)"

text \<open>A text is a blob or the concatenation of two texts.\<close>

inductive text_at :: "u8 list \<Rightarrow> u64 \<Rightarrow> nat list \<Rightarrow> bool" where
  blob: "word_at memory a 1 27 \<Longrightarrow> word_at memory a 5 (of_nat (length (utf8 cs))) \<Longrightarrow> length (utf8 cs) < 2 ^ 31 \<Longrightarrow>
    bytes_at memory a 9 (utf8 cs) \<Longrightarrow> text_at memory a cs"
| concat: "word_at memory a 1 37 \<Longrightarrow> word_at memory a 5 hash \<Longrightarrow> word_at memory a 9 a1 \<Longrightarrow>
    word_at memory a 13 a2 \<Longrightarrow> text_at memory (of_i32 a1) cs1 \<Longrightarrow> text_at memory (of_i32 a2) cs2 \<Longrightarrow>
    text_at memory a (cs1 @ cs2)"

text \<open>Every byte becomes a character.\<close>

definition latin1 :: "u8 list \<Rightarrow> string" where
  "latin1 bs = map (\<lambda>b. char_of (unat b)) bs"

lemma utf8_append [simp]: "utf8 (cs1 @ cs2) = utf8 cs1 @ utf8 cs2"
  by (simp add: utf8_def)

lemma latin1_append [simp]: "latin1 (bs1 @ bs2) = latin1 bs1 @ latin1 bs2"
  by (simp add: latin1_def)

lemma latin1_code_points: "map of_char (latin1 bs) = map unat bs"
proof -
  have "unat b < 2 ^ LENGTH(8)" for b :: u8 by (rule unsigned_less)
  then have "of_char (char_of (unat b)) = unat b" for b :: u8 by (simp add: take_bit_nat_eq_self)
  then show ?thesis by (simp add: latin1_def)
qed

lemma utf8_ascii: "\<forall>c \<in> set cs. c < 128 \<Longrightarrow> map unat (utf8 cs) = cs"
  by (induction cs) (simp_all add: utf8_def utf8_char_def unat_of_nat take_bit_nat_eq_self)

lemma utf8_longer: "length cs \<le> length (utf8 cs) \<and> ((\<exists>c \<in> set cs. \<not> c < 128) \<longrightarrow> length cs < length (utf8 cs))"
  by (induction cs) (auto simp: utf8_def utf8_char_def)

lemma utf8_eq_code_points: "map unat (utf8 cs) = cs \<longleftrightarrow> (\<forall>c \<in> set cs. c < 128)"
proof
  assume e: "map unat (utf8 cs) = cs"
  have "length (utf8 cs) = length cs" using arg_cong [OF e, of length] by simp
  then show "\<forall>c \<in> set cs. c < 128" using utf8_longer [of cs] by auto
qed (rule utf8_ascii)

lemma load_word_at:
  assumes "word_at memory a k w" "unat off = k"
  shows "load_i32_from_heap memory a off = Inr (of_i32 w)"
proof -
  have r: "unat off + unat (to_i32 a) + 4 \<le> length memory"
    "take 4 (drop (unat off + unat (to_i32 a)) memory) = into_le_bytes w" "unat off + unat (to_i32 a) < 2 ^ 32"
    using assms by (auto simp: word_at_def get_range_def add.commute split: if_splits)
  then show ?thesis
    by (simp add: load_i32_from_heap_def heap_load_def i32_load_def load_def load_extend_eq access_ok_def
        from_into_le_bytes)
qed

lemma byte_through_registers: "(ucast (of_i32 (ucast (b :: u8))) :: u8) = b"
  by (rule bit_word_eqI) (auto simp: of_i32_def bit_ucast_iff dest: bit_imp_le_length)

lemma from_le_byte: "from_le_bytes [b] = (b :: u8)"
  using from_into_le_bytes [of b] by (simp add: into_le_bytes_def)

lemma load_byte_at:
  assumes "bytes_at memory a k (b # bs)" "unat off = k"
  shows "i32_load8_u memory a off = Inr (of_i32 (ucast b))"
proof -
  have "unat off + unat (to_i32 a) + 1 \<le> length memory" "unat off + unat (to_i32 a) < 2 ^ 32"
    "take 1 (drop (unat off + unat (to_i32 a)) memory) = [b]"
    using assms by (auto simp: bytes_at_def get_range_def add.commute take_Suc split: if_splits)
  then show ?thesis
    by (simp add: i32_load8_u_def load_extend_eq access_ok_def extend_into_u_def from_le_byte)
qed

lemma bytes_at_tl: "bytes_at memory a k (b # bs) \<Longrightarrow> bytes_at memory a (Suc k) bs"
  by (auto simp: bytes_at_def get_range_def drop_Suc tl_drop take_Suc split: if_splits)

lemma load_chars_at:
  "bytes_at memory a (9 + i) bs \<Longrightarrow> load_chars memory a i (length bs) = Inr (latin1 bs)"
proof (induction bs arbitrary: i)
  case (Cons b bs)
  have "9 + i < 2 ^ 32" using Cons.prems by (simp add: bytes_at_def)
  then have o: "u32_offset (9 + i) = Inr (of_nat (9 + i))" "unat (of_nat (9 + i) :: u32) = 9 + i"
    by (simp_all only: u32_offset_def if_True unat_of_nat) (simp_all add: take_bit_nat_eq_self)
  have "load_chars memory a (Suc i) (length bs) = Inr (latin1 bs)"
    using Cons.IH bytes_at_tl [OF Cons.prems] by simp
  then show ?case
    using o load_byte_at [OF Cons.prems o(2)]
    by (simp add: heap_load_def byte_through_registers latin1_def)
qed (simp add: latin1_def)


lemma tag_at:
  assumes "word_at memory a 1 w"
  shows "load_i32_from_heap memory a 1 = Inr (of_i32 w)"
  using load_word_at [OF assms, of 1] by simp

lemma unat_of_i32: "unat (of_i32 w) = unat w"
proof -
  have "uint (of_i32 w) = uint w" by (simp add: of_i32_def uint_ucast_up)
  then show ?thesis by (simp flip: nat_uint_eq)
qed

lemma blob_displayed:
  assumes "word_at memory a 5 (of_nat (length bs))" "length bs < 2 ^ 31" "bytes_at memory a 9 bs"
  shows "handle_blob_text memory a = Inr (latin1 bs)"
proof -
  have "unat (of_i32 (of_nat (length bs))) = length bs"
    using assms(2) by (simp add: unat_of_i32 unat_of_nat take_bit_nat_eq_self)
  then show ?thesis
    using load_word_at [OF assms(1), of 5] load_chars_at [of memory a 0 bs] assms(3)
    by (simp add: handle_blob_text_def)
qed

lemma text_displayed:
  assumes "text_at memory a cs"
  shows "\<exists>n. \<forall>k \<ge> n. \<forall>fs s. he_memory he s = memory \<longrightarrow> display_local_in_heap k he fs a I32 s = Some (Inr (latin1 (utf8 cs)), s)"
  using assms
proof induction
  case (blob memory a cs)
  have "display_local_in_heap k he fs a I32 s = Some (Inr (latin1 (utf8 cs)), s)" if "k \<ge> 1" "he_memory he s = memory" for k fs s
    using that blob_displayed [OF blob(2,3,4)] tag_at [OF blob(1)]
    by (cases k) (simp_all add: tagged_from_u64_def tag_table_def of_i32_def hret_def)
  then show ?case by blast
next
  case (concat memory a hash a1 a2 cs1 cs2)
  obtain n1 where n1: "\<forall>k \<ge> n1. \<forall>fs s. he_memory he s = memory \<longrightarrow>
      display_local_in_heap k he fs (of_i32 a1) I32 s = Some (Inr (latin1 (utf8 cs1)), s)" using concat by blast
  obtain n2 where n2: "\<forall>k \<ge> n2. \<forall>fs s. he_memory he s = memory \<longrightarrow>
      display_local_in_heap k he fs (of_i32 a2) I32 s = Some (Inr (latin1 (utf8 cs2)), s)" using concat by blast
  have w: "load_i32_from_heap memory a 5 = Inr (of_i32 hash)" "load_i32_from_heap memory a 9 = Inr (of_i32 a1)"
    "load_i32_from_heap memory a 13 = Inr (of_i32 a2)"
    using load_word_at [OF concat(2), of 5] load_word_at [OF concat(3), of 9] load_word_at [OF concat(4), of 13]
    by simp_all
  have "display_local_in_heap k he fs a I32 s = Some (Inr (latin1 (utf8 (cs1 @ cs2))), s)"
    if le: "k \<ge> Suc (max n1 n2)" and m: "he_memory he s = memory" for k fs s
  proof -
    obtain k' where k: "k = Suc k'" using le Suc_le_D by blast
    then have "k' \<ge> n1" "k' \<ge> n2" using le by auto
    then show ?thesis
      using k n1 n2 m w tag_at [OF concat(1)]
      by (simp add: tagged_from_u64_def tag_table_def of_i32_def [of 37] handle_concat_def hbind_def hret_def)
  qed
  then show ?case by blast
qed

text \<open>
  C39. A text is displayed byte by byte, however it has been concatenated: for a tree of
  concatenations with blobs as leaves the display ends, and shows one character for each byte of the
  UTF-8 form of the text, from the leaves from left to right, and leaves the store alone. This is the
  text itself exactly when all its characters are ASCII: any other text is displayed wrongly.
\<close>
theorem text_display_exact:
  assumes "text_at (he_memory he s) a cs"
  shows "\<exists>shown. (\<exists>n. \<forall>k \<ge> n. display_local_in_heap k he fs a I32 s = Some (Inr shown, s)) \<and>
    map of_char shown = map unat (utf8 cs) \<and> (map of_char shown = cs \<longleftrightarrow> (\<forall>c \<in> set cs. c < 128))"
proof (intro exI [of _ "latin1 (utf8 cs)"] conjI)
  show "\<exists>n. \<forall>k \<ge> n. display_local_in_heap k he fs a I32 s = Some (Inr (latin1 (utf8 cs)), s)"
    using text_displayed [OF assms, of he] by blast
qed (simp_all add: latin1_code_points utf8_eq_code_points)

text \<open>The concatenation with itself of a blob with the letter h and e with an acute accent.\<close>

definition demo_text :: "u8 list" where
  "demo_text = [0] @ into_le_bytes (37 :: u32) @ into_le_bytes (0 :: u32) @ into_le_bytes (16 :: u32) @
     into_le_bytes (16 :: u32) @ into_le_bytes (27 :: u32) @ into_le_bytes (3 :: u32) @ [0x68, 0xC3, 0xA9]"

definition demo_heap_env :: "u8 list heap_env" where
  "demo_heap_env = \<lparr>he_pr = \<lparr>pr_f32 = (\<lambda>_. []), pr_f64 = (\<lambda>_. []), pr_f32_debug = (\<lambda>_. []),
       pr_f64_debug = (\<lambda>_. []), pr_ref_debug = (\<lambda>_. [])\<rparr>,
     he_call = (\<lambda>_ _ _ s. Some (Inl HeapError, s)), he_memory = (\<lambda>s. s)\<rparr>"

lemma text_display_exact_witness:
  "\<exists>n shown. display_local_in_heap n demo_heap_env no_bigint_funcs 0 I32 demo_text = Some (Inr shown, demo_text) \<and>
    map of_char shown = [0x68, 0xC3, 0xA9, 0x68, 0xC3, 0xA9 :: nat] \<and> map of_char shown \<noteq> [0x68, 0xE9, 0x68, 0xE9 :: nat]"
proof -
  have u: "utf8 [0x68, 0xE9] = [0x68, 0xC3, 0xA9]" "utf8 [0x68, 0xE9, 0x68, 0xE9] = [0x68, 0xC3, 0xA9, 0x68, 0xC3, 0xA9]"
    by (simp_all add: utf8_def utf8_char_def)
  have leaf: "text_at demo_text (of_i32 16) [0x68, 0xE9]"
    by (rule text_at.blob, unfold u)
      (simp_all add: word_at_def bytes_at_def demo_text_def into_le_bytes_def get_range_def of_i32_def to_i32_def)
  have "text_at demo_text 0 ([0x68, 0xE9] @ [0x68, 0xE9])"
    by (rule text_at.concat [of _ _ 0 16 16])
      (simp_all add: leaf, simp_all add: word_at_def demo_text_def into_le_bytes_def get_range_def to_i32_def)
  then have "text_at (he_memory demo_heap_env demo_text) 0 ([0x68, 0xE9] @ [0x68, 0xE9])" by (simp add: demo_heap_env_def)
  from text_display_exact [OF this, of no_bigint_funcs] obtain shown n where
    "\<forall>k \<ge> n. display_local_in_heap k demo_heap_env no_bigint_funcs 0 I32 demo_text = Some (Inr shown, demo_text)"
    "map of_char shown = map unat (utf8 ([0x68, 0xE9] @ [0x68, 0xE9]))" by blast
  then show ?thesis by (intro exI [of _ n] exI [of _ shown]) (simp add: u)
qed

text \<open>
  The display does not end on concatenations whose first halves lead back to them: on a cell of a
  set of concatenations such that the first half of each is again in the set, no fuel is enough, so
  that the debugger overflows its stack. A concatenation whose first half is itself is the smallest
  such set.
\<close>
theorem cyclic_text_never_displayed:
  assumes cells: "\<forall>a \<in> S. \<exists>hash a1 a2. word_at (he_memory he s) (of_i32 a) 1 37 \<and> word_at (he_memory he s) (of_i32 a) 5 hash \<and>
      word_at (he_memory he s) (of_i32 a) 9 a1 \<and> word_at (he_memory he s) (of_i32 a) 13 a2 \<and> a1 \<in> S"
    and a: "a \<in> S"
  shows "display_local_in_heap n he fs (of_i32 a) I32 s = None"
  using a
proof (induction n arbitrary: a fs)
  case (Suc n)
  from cells Suc.prems obtain hash a1 a2 where c: "word_at (he_memory he s) (of_i32 a) 1 37"
    "word_at (he_memory he s) (of_i32 a) 5 hash" "word_at (he_memory he s) (of_i32 a) 9 a1"
    "word_at (he_memory he s) (of_i32 a) 13 a2" and a1: "a1 \<in> S" by blast
  show ?case
    using Suc.IH [OF a1] tag_at [OF c(1)] load_word_at [OF c(2), of 5] load_word_at [OF c(3), of 9]
      load_word_at [OF c(4), of 13]
    by (simp add: tagged_from_u64_def tag_table_def of_i32_def [of 37] handle_concat_def hbind_def hret_def)
qed simp

text \<open>Two concatenations, each the first half of the other.\<close>

definition demo_cycle :: "u8 list" where
  "demo_cycle = [0] @ into_le_bytes (37 :: u32) @ into_le_bytes (0 :: u32) @ into_le_bytes (16 :: u32) @ into_le_bytes (0 :: u32) @
     into_le_bytes (37 :: u32) @ into_le_bytes (0 :: u32) @ into_le_bytes (0 :: u32) @ into_le_bytes (0 :: u32)"

lemma cyclic_text_never_displayed_witness:
  "\<forall>n. display_local_in_heap n demo_heap_env no_bigint_funcs (of_i32 16) I32 demo_cycle = None"
proof -
  have "word_at demo_cycle (of_i32 0) 1 37 \<and> word_at demo_cycle (of_i32 0) 5 0 \<and> word_at demo_cycle (of_i32 0) 9 16 \<and>
      word_at demo_cycle (of_i32 0) 13 0 \<and> word_at demo_cycle (of_i32 16) 1 37 \<and> word_at demo_cycle (of_i32 16) 5 0 \<and>
      word_at demo_cycle (of_i32 16) 9 0 \<and> word_at demo_cycle (of_i32 16) 13 0"
    by (simp add: word_at_def demo_cycle_def into_le_bytes_def get_range_def to_i32_def of_i32_def)
  then have "\<forall>a \<in> {0, 16}. \<exists>hash a1 a2. word_at (he_memory demo_heap_env demo_cycle) (of_i32 a) 1 37 \<and>
      word_at (he_memory demo_heap_env demo_cycle) (of_i32 a) 5 hash \<and> word_at (he_memory demo_heap_env demo_cycle) (of_i32 a) 9 a1 \<and>
      word_at (he_memory demo_heap_env demo_cycle) (of_i32 a) 13 a2 \<and> a1 \<in> {0, 16}"
    by (auto simp: demo_heap_env_def)
  from cyclic_text_never_displayed [OF this] show ?thesis by simp
qed

lemma even_word:
  assumes "uint (v :: u64) = 2 * q"
  shows "v AND 1 = 0" "uint (drop_bit 1 v) = q"
proof -
  have "\<not> bit (uint v) 0" using assms by (simp add: bit_0)
  then have "\<not> bit v 0" by (subst (asm) bit_uint_iff) simp
  then have "even v" by (simp only: bit_0 not_not)
  then show "v AND 1 = 0" by (simp only: and_one_eq even_iff_mod_2_eq_zero)
  show "uint (drop_bit 1 v) = q" using assms by (simp add: drop_bit_eq_div uint_div_distrib)
qed

lemma mod_eq_by_range: "0 \<le> b \<Longrightarrow> b < c \<Longrightarrow> a = b \<or> a + c = b \<Longrightarrow> a mod c = b" for a b c :: int
proof -
  assume b: "0 \<le> b" "b < c" and "a = b \<or> a + c = b"
  then consider "a = b" | "a + c = b" by blast
  then have "a mod c = b mod c"
  proof cases
    case 2
    show ?thesis unfolding 2 [symmetric] by simp
  qed simp
  also have "\<dots> = b" using b by (rule mod_pos_pos_trivial)
  finally show ?thesis .
qed

lemma sint_small: "uint w = q \<Longrightarrow> q < 2 ^ (LENGTH('a) - 1) \<Longrightarrow> sint w = q" for w :: "'a :: len word"
proof -
  assume q: "uint w = q" "q < 2 ^ (LENGTH('a) - 1)"
  have "- (2 ^ (LENGTH('a) - 1)) \<le> (0 :: int)" by simp
  also have "0 \<le> q" using q(1) uint_ge_0 [of w] by simp
  finally have "signed_take_bit (LENGTH('a) - 1) q = q" using q(2) by (rule signed_take_bit_int_eq_self)
  then show ?thesis using q(1) by (simp add: sint_uint)
qed

lemma uint_of_word_of_int:
  "uint (of_i32 (word_of_int x)) = x mod 2 ^ 32" "uint (of_i64 (word_of_int x)) = x mod 2 ^ 64"
  by (simp_all add: of_i32_def of_i64_def uint_ucast_up uint_word_of_int)

lemma uint_ucast_down: "uint (v :: u64) < 2 ^ 32 \<Longrightarrow> uint (ucast v :: u32) = uint v"
  by (simp add: unsigned_ucast_eq take_bit_int_eq_self)

text \<open>
  Small numbers, which Motoko keeps doubled, are displayed right exactly when they are not
  negative: for a negative number the shift of the unsigned bits leaves a number that is too large by
  half the range.
\<close>
theorem small_number_display_exact:
  assumes "- (2 ^ 30) \<le> m" "m < (2 ^ 30 :: int)" "- (2 ^ 62) \<le> n" "n < (2 ^ 62 :: int)"
  shows "display_wasm_val d pr fs (of_i32 (word_of_int (2 * m))) I32 False s =
      Some (Inr (show_nat (nat (if 0 \<le> m then m else m + 2 ^ 31))), s) \<and>
    display_wasm_val d pr fs (of_i64 (word_of_int (2 * n))) I64 False s =
      Some (Inr (show_nat (nat (if 0 \<le> n then n else n + 2 ^ 63))), s)"
proof -
  let ?a = "if 0 \<le> m then m else m + 2 ^ 31" and ?b = "if 0 \<le> n then n else n + 2 ^ 63"
  have a: "uint (of_i32 (word_of_int (2 * m))) = 2 * ?a"
  proof -
    have "uint (of_i32 (word_of_int (2 * m))) = (2 * m) mod 2 ^ 32"
      by (rule uint_of_word_of_int)
    also have "\<dots> = 2 * ?a" using assms(1,2) by (intro mod_eq_by_range) auto
    finally show ?thesis .
  qed
  have b: "uint (of_i64 (word_of_int (2 * n))) = 2 * ?b"
  proof -
    have "uint (of_i64 (word_of_int (2 * n))) = (2 * n) mod 2 ^ 64"
      by (rule uint_of_word_of_int)
    also have "\<dots> = 2 * ?b" using assms(3,4) by (intro mod_eq_by_range) auto
    finally show ?thesis .
  qed
  have "sint (to_i32 (drop_bit 1 (of_i32 (word_of_int (2 * m))))) = ?a"
    using even_word [OF a] assms(1,2) by (intro sint_small) (simp_all add: to_i32_def uint_ucast_down)
  moreover have "sint (to_i64 (drop_bit 1 (of_i64 (word_of_int (2 * n))))) = ?b"
    using even_word [OF b] assms(3,4) by (intro sint_small) (simp_all add: to_i64_def)
  moreover have "0 \<le> ?a" "0 \<le> ?b" using assms by auto
  ultimately show ?thesis
    using even_word(1) [OF a] even_word(1) [OF b]
    by (simp only: display_wasm_val_def display_small_def Let_def val_type.case show_sint_def hret_def
        if_True HOL.simp_thms)
qed

lemma small_number_display_exact_witness:
  "display_wasm_val (\<lambda>_ _ _ _. None) (he_pr demo_heap_env) no_bigint_funcs (of_i32 (word_of_int (2 * (-1)))) I32 False () =
     Some (Inr (show_nat 2147483647), ())"
  using small_number_display_exact [of "-1" 0 "\<lambda>_ _ _ _. None" "he_pr demo_heap_env" no_bigint_funcs "()"] by simp

end
