(* ===== verification/Debugger.thy ===== *)
theory Debugger
  imports Heap_Display Breakpoints
begin

text \<open>
  The debugger proper: \<open>debugger/src/debugger.rs\<close>. The static variables for the store and the stack
  are fields of its state; the executor keeps its registers beside the stack and works on both. The
  errors of Rust's \<open>Result\<close> and panics are values; what the debugger would do after one of them is
  not modelled. Results with \<open>None\<close> are computations that do not return.
\<close>


section \<open>State\<close>

record instance_with_name =
  iw_inner :: instance_h
  iw_import_func_len :: u32
  iw_func_names :: "(u32, string) hash_map"
  iw_global_names :: "(u32, string) hash_map"
  iw_local_names :: "(u32, (u32 \<times> string) list) hash_map"
  iw_local_dep_names :: "(u32, (u32 \<times> string) list) hash_map"

text \<open>The registers of \<open>Executor\<close>.\<close>

record exec_regs =
  er_sp :: nat
  er_ip :: instr_ptr
  er_cache :: cached_instance

record 'h debugger =
  dg_store :: "'h wstore option"
  dg_stack :: "stack option"
  dg_instance :: "instance_with_name option"
  dg_start_fn_idx :: "u32 option"
  dg_run_func :: "func_h option"
  dg_invoked_func_index :: "u32 list"
  dg_executor :: "exec_regs option"
  dg_main_module :: "(u8 list \<times> string) option"
  dg_watch_memory :: bool
  dg_breakpoints :: breakpoints
  dg_is_interrupted :: bool

text \<open>
  What is outside of the debugger: the engine, its function types, \<open>CodeMap::get\<close> without fuel, the
  types of the local variables of compiled functions, and calls into the program for its display.
\<close>

record ('h, 'e) debug_env =
  de_env :: "('h, 'e) exec_env"
  de_registry :: "func_type dedup_arena"
  de_code_get :: "engine_func \<Rightarrow> 'e xerr + unit"
  de_value_types :: "engine_func \<Rightarrow> val_type list"
  de_call :: "func_h \<Rightarrow> wasm_val list \<Rightarrow> wasm_val list \<Rightarrow> ('h wstore, wasm_val list) heap_comp"
  de_printers :: printers

datatype 'e dbg_error = DbgMessage | DbgPanic | DbgCall "'e call_error"

definition lift_call :: "'e call_error + 'a \<Rightarrow> 'e dbg_error + 'a" where
  "lift_call r = (case r of Inl e \<Rightarrow> Inl (DbgCall e) | Inr x \<Rightarrow> Inr x)"

definition lift_x :: "'e xerr + 'a \<Rightarrow> 'e dbg_error + 'a" where
  "lift_x r = lift_call (lift_exec r)"

lemma lift_call_simps [simp, rsimps]:
  "lift_call (Inl e) = Inl (DbgCall e)" "lift_call (Inr x) = Inr x"
  "lift_x (Inl e') = Inl (DbgCall (CallExec e'))" "lift_x (Inr x) = Inr x"
  by (simp_all add: lift_call_def lift_x_def)

lemma lift_call_Inr [rsimps]: "lift_call r = Inr x \<longleftrightarrow> r = Inr x" "lift_x r' = Inr x \<longleftrightarrow> r' = Inr x"
  by (cases r, simp_all) (cases r', simp_all)

definition debugger_new :: "'h debugger" where
  "debugger_new = \<lparr>dg_store = None, dg_stack = None, dg_instance = None, dg_start_fn_idx = None,
     dg_run_func = None, dg_invoked_func_index = [], dg_executor = None, dg_main_module = None,
     dg_watch_memory = False, dg_breakpoints = breakpoints_default, dg_is_interrupted = True\<rparr>"

definition get_store :: "'h debugger \<Rightarrow> 'e dbg_error + 'h wstore" where
  "get_store d = ok_or DbgPanic (dg_store d)"

definition get_stack :: "'h debugger \<Rightarrow> 'e dbg_error + stack" where
  "get_stack d = ok_or DbgPanic (dg_stack d)"

definition running_func :: "'h debugger \<Rightarrow> 'e dbg_error + func_h" where
  "running_func d = ok_or DbgMessage (dg_run_func d)"

text \<open>\<open>executor()\<close>: the registers with the stack and the store they belong to.\<close>

definition executor :: "'h debugger \<Rightarrow> 'e dbg_error + 'h exec" where
  "executor d =
    rbind (ok_or DbgMessage (dg_executor d)) (\<lambda>r.
    rbind (get_stack d) (\<lambda>st.
    rbind (get_store d) (\<lambda>s.
      Inr \<lparr>ex_sp = er_sp r, ex_ip = er_ip r, ex_cache = er_cache r, ex_stack = st, ex_store = s\<rparr>)))"

definition put_executor :: "'h exec \<Rightarrow> 'h debugger \<Rightarrow> 'h debugger" where
  "put_executor ex d = d\<lparr>dg_executor := Some \<lparr>er_sp = ex_sp ex, er_ip = ex_ip ex, er_cache = ex_cache ex\<rparr>,
     dg_stack := Some (ex_stack ex), dg_store := Some (ex_store ex)\<rparr>"

lemma executor_put [simp]: "executor (put_executor ex d) = Inr ex"
  by (cases ex) (simp add: executor_def put_executor_def get_stack_def get_store_def)

definition is_running :: "'h debugger \<Rightarrow> bool" where
  "is_running d = (dg_executor d \<noteq> None)"

definition load_main_module :: "(u8 list \<Rightarrow> bool) \<Rightarrow> u8 list \<Rightarrow> string \<Rightarrow> 'h debugger
    \<Rightarrow> 'e dbg_error + 'h debugger" where
  "load_main_module validates module name d =
    (if validates module then Inr (d\<lparr>dg_main_module := Some (module, name)\<rparr>) else Inl DbgMessage)"

text \<open>
  \<open>setup\<close> stands for the linking and the start of the module, which is the engine's; the executor
  and the list of invoked functions of an earlier run stay.
\<close>

definition instantiate :: "(u8 list \<Rightarrow> 'e dbg_error + instance_with_name \<times> 'h wstore \<times> stack) \<Rightarrow> u64 list
    \<Rightarrow> 'h debugger \<Rightarrow> 'e dbg_error + 'h debugger" where
  "instantiate setup inst_in_file_0 d =
    rbind (ok_or DbgMessage (dg_main_module d)) (\<lambda>(module, _).
    rbind (setup module) (\<lambda>(inst, s, st).
      Inr (d\<lparr>dg_breakpoints := (dg_breakpoints d)\<lparr>bp_inst_in_file_0 := inst_in_file_0\<rparr>,
             dg_instance := Some inst, dg_stack := Some st, dg_store := Some s\<rparr>)))"


section \<open>Looking up functions\<close>

definition get_func_name_by_idx :: "'h debugger \<Rightarrow> u32 \<Rightarrow> string option" where
  "get_func_name_by_idx d idx = Option.bind (dg_instance d) (\<lambda>i. map_of (iw_func_names i) idx)"

definition lookup_func_by_name :: "'h debugger \<Rightarrow> string \<Rightarrow> 'e dbg_error + func_h option" where
  "lookup_func_by_name d name =
    rbind (get_store d) (\<lambda>s.
      case dg_instance d of
        None \<Rightarrow> Inr None
      | Some i \<Rightarrow>
          rbind (lift_x (instance_get_func s (iw_inner i) name)) (\<lambda>f.
            case f of
              Some f \<Rightarrow> Inr (Some f)
            | None \<Rightarrow>
                (case List.find (\<lambda>e. snd e = name) (iw_func_names i) of
                   None \<Rightarrow> Inr None
                 | Some e \<Rightarrow>
                     rbind (lift_x (instance_get_func_by_index s (iw_inner i) (fst e))) (\<lambda>f.
                       rmap Some (ok_or DbgPanic f)))))"

definition lookup_func_by_index :: "'h debugger \<Rightarrow> u32 \<Rightarrow> 'e dbg_error + func_h option" where
  "lookup_func_by_index d idx =
    rbind (get_store d) (\<lambda>s.
      case dg_instance d of
        None \<Rightarrow> Inr None
      | Some i \<Rightarrow> lift_x (instance_get_func_by_index s (iw_inner i) idx))"

definition lookup_start_func :: "'h debugger \<Rightarrow> 'e dbg_error + func_h option" where
  "lookup_start_func d =
    (case dg_instance d of
       None \<Rightarrow> Inr None
     | Some i \<Rightarrow>
         rbind (get_store d) (\<lambda>s.
           case dg_start_fn_idx d of
             None \<Rightarrow> Inr None
           | Some idx \<Rightarrow> lift_x (instance_get_func_by_index s (iw_inner i) idx)))"

definition lookup_func :: "'h debugger \<Rightarrow> string option \<Rightarrow> 'e dbg_error + func_h option" where
  "lookup_func d name =
    (case name of
       None \<Rightarrow> lookup_start_func d
     | Some name \<Rightarrow>
         (case parse_u32 name of
            Some idx \<Rightarrow> lookup_func_by_index d idx
          | None \<Rightarrow> lookup_func_by_name d name))"


section \<open>The interceptor\<close>

definition get_import_func_len :: "'h debugger \<Rightarrow> 'e xerr + u32" where
  "get_import_func_len d = rmap iw_import_func_len (ok_or XPanic (dg_instance d))"

text \<open>The function of a table element, a null reference panics.\<close>

definition table_func_index :: "('h, 'e) debug_env \<Rightarrow> 'h wstore \<Rightarrow> u32 \<Rightarrow> table_h \<Rightarrow> 'e xerr + u32" where
  "table_func_index de s idx table =
    rbind (resolve (ws_tables s) table) (\<lambda>t.
    rbind (ok_or XPanic (table_get_untyped (unat idx) t)) (\<lambda>v.
    rmap of_nat (ok_or XPanic (funcref_func (de_env de) v))))"

definition invoke_func :: "('h, 'e) debug_env \<Rightarrow> 'h wstore \<Rightarrow> int \<Rightarrow> table_h option \<Rightarrow> 'h debugger
    \<Rightarrow> 'e xerr + signal \<times> 'h debugger" where
  "invoke_func de s func_idx table d =
    rbind (case table of
        None \<Rightarrow> Inr (word_of_int func_idx)
      | Some t \<Rightarrow> table_func_index de s (word_of_int func_idx) t) (\<lambda>idx.
      Inr (case get_func_name_by_idx d idx of
             Some name \<Rightarrow> if should_break_func (dg_breakpoints d) name then SigBreakpoint else SigNext
           | None \<Rightarrow> SigNext,
           d\<lparr>dg_invoked_func_index := dg_invoked_func_index d @ [idx]\<rparr>))"

definition pop_frame :: "'h debugger \<Rightarrow> 'h debugger" where
  "pop_frame d = d\<lparr>dg_invoked_func_index := butlast (dg_invoked_func_index d)\<rparr>"

definition execute_inst :: "u32 \<Rightarrow> 'h debugger \<Rightarrow> signal \<times> 'h debugger" where
  "execute_inst offset d =
    (if dg_is_interrupted d \<and> ucast offset \<in> set (bp_inst_in_file_0 (dg_breakpoints d))
     then (SigBreakpoint, d\<lparr>dg_is_interrupted := False\<rparr>) else (SigNext, d))"

definition debugger_interceptor :: "('h, 'e) debug_env \<Rightarrow> ('h, 'e, 'h debugger) interceptor" where
  "debugger_interceptor de = \<lparr>ic_invoke_func = invoke_func de, ic_pop_frame = pop_frame,
     ic_execute_inst = execute_inst, ic_import_func_len = get_import_func_len\<rparr>"


section \<open>Starting a function\<close>

definition execute_func :: "('h, 'e) debug_env \<Rightarrow> func_h \<Rightarrow> wasm_val list \<Rightarrow> 'h debugger
    \<Rightarrow> 'e dbg_error + 'h debugger" where
  "execute_func de func params d =
    rbind (get_store d) (\<lambda>s.
    rbind (get_stack d) (\<lambda>st.
    rbind (lift_x (func_ty (de_registry de) s func)) (\<lambda>ft.
    rbind (lift_call (verify_and_prepare_inputs (de_registry de) s func params)) (\<lambda>_.
    rbind (lift_x (resolve (ws_funcs s) func)) (\<lambda>entity.
      case entity of
        HostFunc _ \<Rightarrow> Inl DbgMessage
      | WasmFunc w \<Rightarrow>
          rbind (lift_x (lift_trap (vs_extend_by (unat (func_type_len_results ft)) (st_values st)))) (\<lambda>vals.
          rbind (lift_x (de_code_get de (wf_body w))) (\<lambda>_.
          rbind (lift_x (init_root_frame (de_env de) (wf_body w) (wf_instance w) (map untyped_of_val params)
              (st\<lparr>st_values := vals\<rparr>))) (\<lambda>st.
          rbind (ok_or DbgPanic (cs_instance (st_calls st))) (\<lambda>inst.
          rbind (lift_x (load_caches s inst)) (\<lambda>cache.
          rbind (lift_x (executor_new st cache s)) (\<lambda>ex.
          rbind (lift_x (get_import_func_len d)) (\<lambda>import_func_len.
            if unat import_func_len + wf_body w < 2 ^ 32
            then Inr ((put_executor ex d)\<lparr>dg_invoked_func_index :=
                   dg_invoked_func_index d @ [of_nat (wf_body w) + import_func_len]\<rparr>)
            else Inl DbgPanic))))))))))))"

definition start_func :: "('h, 'e) debug_env \<Rightarrow> string option \<Rightarrow> wasm_val list \<Rightarrow> 'h debugger
    \<Rightarrow> 'e dbg_error + 'h debugger" where
  "start_func de name args d =
    rbind (lookup_func d name) (\<lambda>f.
      case f of
        None \<Rightarrow> Inl DbgMessage
      | Some func \<Rightarrow> execute_func de func args (d\<lparr>dg_run_func := Some func\<rparr>))"

definition run_step :: "('h, 'e) debug_env \<Rightarrow> string option \<Rightarrow> wasm_val list \<Rightarrow> 'h debugger
    \<Rightarrow> 'e dbg_error + 'h debugger" where
  "run_step de name args d = start_func de name args d"

text \<open>The results are read from the bottom of the value stack.\<close>

definition get_finish_result :: "('h, 'e) debug_env \<Rightarrow> 'h debugger \<Rightarrow> 'e dbg_error + wasm_val list" where
  "get_finish_result de d =
    rbind (get_stack d) (\<lambda>st.
    rbind (running_func d) (\<lambda>func.
    rbind (get_store d) (\<lambda>s.
    rbind (lift_x (func_ty (de_registry de) s func)) (\<lambda>ft.
      let results = map val_default (func_type_results ft)
      in rmap (\<lambda>rs. map (\<lambda>(v, ty). val_with_type v ty) (zip rs (map val_ty results)))
           (ok_or DbgPanic (get_range 0 (length results) (vs_values (st_values st))))))))"


section \<open>Stepping\<close>

datatype run_result = RunFinish "wasm_val list" | RunBreakpoint | RunNext

datatype step_style = InstIn | InstOver | StepOut

definition frame_depth :: "'h exec \<Rightarrow> nat" where
  "frame_depth ex = length (cs_frames (st_calls (ex_stack ex)))"

definition exec_step :: "('h, 'e) debug_env \<Rightarrow> 'h debugger \<Rightarrow> 'e dbg_error + signal \<times> 'h debugger" where
  "exec_step de d =
    rbind (executor d) (\<lambda>ex.
      rmap (\<lambda>(sig, ex', d'). (sig, put_executor ex' d'))
        (lift_x (execute_step (de_env de) (debugger_interceptor de) (ex, d))))"

definition finish :: "('h, 'e) debug_env \<Rightarrow> 'h debugger \<Rightarrow> 'e dbg_error + run_result \<times> 'h debugger" where
  "finish de d = rmap (\<lambda>rs. (RunFinish rs, d)) (get_finish_result de d)"

text \<open>The loops of \<open>step\<close>: as long as the depth satisfies \<open>deep\<close>.\<close>

partial_function (option) step_while :: "('h, 'e) debug_env \<Rightarrow> (nat \<Rightarrow> bool) \<Rightarrow> 'h debugger
    \<Rightarrow> ('e dbg_error + run_result \<times> 'h debugger) option" where
  "step_while de deep d =
    (case executor d of
       Inl e \<Rightarrow> Some (Inl e)
     | Inr ex \<Rightarrow>
         if \<not> deep (frame_depth ex) then Some (Inr (RunNext, d))
         else (case exec_step de d of
                 Inl e \<Rightarrow> Some (Inl e)
               | Inr (SigNext, d') \<Rightarrow> step_while de deep d'
               | Inr (SigBreakpoint, d') \<Rightarrow> Some (Inr (RunBreakpoint, d'))
               | Inr (SigEnd, d') \<Rightarrow> Some (finish de d')))"

definition dbg_step :: "('h, 'e) debug_env \<Rightarrow> step_style \<Rightarrow> 'h debugger
    \<Rightarrow> ('e dbg_error + run_result \<times> 'h debugger) option" where
  "dbg_step de style d =
    (case get_store d of
       Inl e \<Rightarrow> Some (Inl e)
     | Inr _ \<Rightarrow>
    (case executor d of
       Inl e \<Rightarrow> Some (Inl e)
     | Inr ex \<Rightarrow>
    (case exec_step de d of
       Inl e \<Rightarrow> Some (Inl e)
     | Inr (sig, d') \<Rightarrow>
         (case style of
            InstIn \<Rightarrow>
              (case sig of
                 SigBreakpoint \<Rightarrow> Some (Inr (RunBreakpoint, d'))
               | SigEnd \<Rightarrow> Some (finish de d')
               | SigNext \<Rightarrow> Some (Inr (RunNext, d')))
          | InstOver \<Rightarrow>
              (case sig of
                 SigBreakpoint \<Rightarrow> Some (Inr (RunBreakpoint, d'))
               | SigEnd \<Rightarrow> Some (finish de d')
               | SigNext \<Rightarrow> step_while de (\<lambda>depth. frame_depth ex < depth) d')
          | StepOut \<Rightarrow> step_while de (\<lambda>depth. frame_depth ex \<le> depth) d'))))"

partial_function (option) process_loop :: "('h, 'e) debug_env \<Rightarrow> 'h debugger
    \<Rightarrow> ('e dbg_error + run_result \<times> 'h debugger) option" where
  "process_loop de d =
    (case exec_step de d of
       Inl e \<Rightarrow> Some (Inl e)
     | Inr (SigNext, d') \<Rightarrow> process_loop de d'
     | Inr (SigBreakpoint, d') \<Rightarrow> Some (Inr (RunBreakpoint, d'))
     | Inr (SigEnd, d') \<Rightarrow> Some (finish de d'))"

definition dbg_process :: "('h, 'e) debug_env \<Rightarrow> 'h debugger
    \<Rightarrow> ('e dbg_error + run_result \<times> 'h debugger) option" where
  "dbg_process de d =
    (case get_store d of
       Inl e \<Rightarrow> Some (Inl e)
     | Inr _ \<Rightarrow> (case executor d of Inl e \<Rightarrow> Some (Inl e) | Inr _ \<Rightarrow> process_loop de d))"

definition dbg_run :: "('h, 'e) debug_env \<Rightarrow> string option \<Rightarrow> wasm_val list \<Rightarrow> 'h debugger
    \<Rightarrow> ('e dbg_error + run_result \<times> 'h debugger) option" where
  "dbg_run de name args d =
    (case start_func de name args (d\<lparr>dg_is_interrupted := True\<rparr>) of
       Inl e \<Rightarrow> Some (Inl e)
     | Inr d' \<Rightarrow> dbg_process de d')"

end
