(* ===== verification/Inspect.thy ===== *)
theory Inspect
  imports Debugger
begin

text \<open>
  What the debugger shows of a stopped program: local variables, globals, the backtrace, the cells of
  the value stack and the position (\<open>debugger/src/debugger.rs\<close>). Values with a set lowest bit are
  pointers into the heap of the program.
\<close>


section \<open>Positions and stacks\<close>

definition selected_instr_offset :: "('h, 'e) debug_env \<Rightarrow> 'h debugger \<Rightarrow> 'e dbg_error + nat option" where
  "selected_instr_offset de d =
    rbind (executor d) (\<lambda>ex.
      rmap (\<lambda>w. Some (unat (iw_offset w))) (lift_x (fetch_word (de_env de) (ex_ip ex))))"

definition stack_values :: "'h debugger \<Rightarrow> untyped_val list" where
  "stack_values d =
    (case (dg_executor d, dg_stack d) of (Some _, Some st) \<Rightarrow> vs_values (st_values st) | _ \<Rightarrow> [])"

definition backtrace :: "'h debugger \<Rightarrow> string list" where
  "backtrace d =
    map (\<lambda>idx. case get_func_name_by_idx d idx of Some name \<Rightarrow> name | None \<Rightarrow> ''unknown func'')
      (dg_invoked_func_index d)"

definition dbg_global :: "'h debugger \<Rightarrow> string \<Rightarrow> 'e dbg_error + wasm_val option" where
  "dbg_global d name =
    (case dg_instance d of
       None \<Rightarrow> Inr None
     | Some i \<Rightarrow>
         rbind (get_store d) (\<lambda>s.
         rbind (lift_x (instance_get_global s (iw_inner i) name)) (\<lambda>g.
           case g of
             None \<Rightarrow> Inr None
           | Some g \<Rightarrow> rmap (\<lambda>e. Some (val_with_type (snd (global_get e)) (fst (global_get e))))
               (lift_x (resolve (ws_globals s) g)))))"


section \<open>Local variables\<close>

definition get_params_locals_types :: "('h, 'e) debug_env \<Rightarrow> 'h debugger \<Rightarrow> u32 \<Rightarrow> 'e dbg_error + val_type list" where
  "get_params_locals_types de d func_idx =
    rbind (get_store d) (\<lambda>s.
    rbind (ok_or DbgMessage (dg_instance d)) (\<lambda>i.
    rbind (lift_x (instance_get_func_by_index s (iw_inner i) func_idx)) (\<lambda>f.
    rbind (ok_or DbgMessage f) (\<lambda>func.
    rbind (lift_x (resolve (ws_funcs s) func)) (\<lambda>entity.
      case entity of
        HostFunc _ \<Rightarrow> Inl DbgMessage
      | WasmFunc w \<Rightarrow>
          rbind (lift_x (func_ty (de_registry de) s func)) (\<lambda>ft.
          rbind (executor d) (\<lambda>_.
          rbind (lift_x (de_code_get de (wf_body w))) (\<lambda>_.
            Inr (func_type_params ft @ de_value_types de (wf_body w))))))))))"

definition get_display_locals :: "(u32 \<times> string) list \<Rightarrow> val_type list \<Rightarrow> (u32 \<times> string \<times> val_type) list" where
  "get_display_locals local_names types = map (\<lambda>((idx, name), ty). (idx, name, ty)) (zip local_names types)"

definition unsupported_type :: "val_type \<Rightarrow> string" where
  "unsupported_type ty = ''Unsupported type '' @ debug_val_type ty"

definition display_val_in_stack :: "printers \<Rightarrow> val_type \<Rightarrow> untyped_val \<Rightarrow> nat \<Rightarrow> string" where
  "display_val_in_stack pr ty value shr =
    (let divided = drop_bit shr value
     in case ty of
          I32 \<Rightarrow> debug_val pr (ValI32 (to_i32 divided))
        | I64 \<Rightarrow> debug_val pr (ValI64 (to_i64 divided))
        | F32 \<Rightarrow> debug_val pr (ValF32 (to_i32 value))
        | F64 \<Rightarrow> debug_val pr (ValF64 (to_i64 value))
        | _ \<Rightarrow> unsupported_type ty)"

text \<open>The memory that a display reads is the cached one of the executor, on the changed store.\<close>

definition display_env :: "('h, 'e) debug_env \<Rightarrow> 'h exec \<Rightarrow> 'h wstore heap_env" where
  "display_env de ex = \<lparr>he_pr = de_printers de, he_call = de_call de,
     he_memory = (\<lambda>s. case (cached_memory_data (ex\<lparr>ex_store := s\<rparr>) :: unit xerr + _) of
       Inr bytes \<Rightarrow> bytes | Inl _ \<Rightarrow> [])\<rparr>"

definition find_bigint_funcs :: "'h debugger \<Rightarrow> 'e dbg_error + bigint_funcs" where
  "find_bigint_funcs d =
    rbind (lookup_func_by_name d ''bigint_to_float64'') (\<lambda>f.
    rbind (lookup_func_by_name d ''bigint_to_word64_wrap'') (\<lambda>w64.
    rbind (lookup_func_by_name d ''bigint_to_word32_trap_with'') (\<lambda>w32.
      Inr \<lparr>bigint_to_float64 = f, bigint_to_word64_wrap = w64, bigint_to_word32_wrap = w32\<rparr>)))"

text \<open>\<open>n\<close> is the fuel of the display of heap objects.\<close>

definition display_valtype_with_value :: "nat \<Rightarrow> ('h, 'e) debug_env \<Rightarrow> 'h debugger \<Rightarrow> val_type \<Rightarrow> untyped_val
    \<Rightarrow> ('e dbg_error + string \<times> 'h debugger) option" where
  "display_valtype_with_value n de d ty value =
    (if value AND 1 = 0 then Some (Inr (display_val_in_stack (de_printers de) ty value 1, d))
     else if is_num ty then
       (case rbind (executor d) (\<lambda>ex. rmap (Pair ex) (find_bigint_funcs d)) of
          Inl e \<Rightarrow> Some (Inl e)
        | Inr (ex, fs) \<Rightarrow>
            (case display_local_in_heap n (display_env de ex) fs value ty (ex_store ex) of
               None \<Rightarrow> None
             | Some (r, s) \<Rightarrow>
                 Some (let d = d\<lparr>dg_store := Some s\<rparr>
                       in case r of
                            Inr shown \<Rightarrow> Inr (shown, d)
                          | Inl HeapError \<Rightarrow> Inr (display_val_in_stack (de_printers de) ty value 0, d)
                          | Inl HeapPanic \<Rightarrow> Inl DbgPanic)))
     else Some (Inr (unsupported_type ty, d)))"

definition local_register :: "u32 \<Rightarrow> 'e dbg_error + reg" where
  "local_register idx = (if unat idx < 2 ^ 15 then Inr (ucast idx) else Inl DbgMessage)"

primrec display_locals :: "nat \<Rightarrow> ('h, 'e) debug_env \<Rightarrow> (u32 \<times> string \<times> val_type) list \<Rightarrow> 'h debugger
    \<Rightarrow> ('e dbg_error + (u32 \<times> string \<times> string) list \<times> 'h debugger) option" where
  "display_locals n de [] d = Some (Inr ([], d))"
| "display_locals n de (l # ls) d =
    (case l of (idx, name, ty) \<Rightarrow>
      (case rbind (local_register idx) (\<lambda>r. rbind (executor d) (\<lambda>ex. lift_x (get_register ex r))) of
         Inl e \<Rightarrow> Some (Inl e)
       | Inr value \<Rightarrow>
           (case display_valtype_with_value n de d ty value of
              None \<Rightarrow> None
            | Some (Inl e) \<Rightarrow> Some (Inl e)
            | Some (Inr (shown, d)) \<Rightarrow>
                map_option (rmap (\<lambda>(rest, d). ((idx, name, shown) # rest, d))) (display_locals n de ls d))))"

definition locals_of_frame :: "('h, 'e) debug_env \<Rightarrow> 'h debugger
    \<Rightarrow> 'e dbg_error + u32 \<times> string \<times> (u32 \<times> string \<times> val_type) list" where
  "locals_of_frame de d =
    rbind (executor d) (\<lambda>_.
    rbind (ok_or DbgMessage (vec_last (dg_invoked_func_index d))) (\<lambda>func_idx.
    rbind (ok_or DbgMessage (dg_instance d)) (\<lambda>i.
    rbind (ok_or DbgMessage (map_of (iw_local_names i) func_idx)) (\<lambda>local_names.
    rbind (get_params_locals_types de d func_idx) (\<lambda>types.
      Inr (func_idx, case get_func_name_by_idx d func_idx of Some name \<Rightarrow> name | None \<Rightarrow> [],
           get_display_locals local_names types))))))"

definition dbg_locals :: "nat \<Rightarrow> ('h, 'e) debug_env \<Rightarrow> 'h debugger
    \<Rightarrow> ('e dbg_error + (u32 \<times> string \<times> (u32 \<times> string \<times> string) list) \<times> 'h debugger) option" where
  "dbg_locals n de d =
    (case locals_of_frame de d of
       Inl e \<Rightarrow> Some (Inl e)
     | Inr (func_idx, func_name, ls) \<Rightarrow>
         map_option (rmap (\<lambda>(shown, d). ((func_idx, func_name, sort_key fst shown), d)))
           (display_locals n de ls d))"

end
