(* ===== verification/Commands.thy ===== *)
theory Commands
  imports Inspect Source_Map
begin

text \<open>
  The commands of the debugger and their dispatch: \<open>debugger/src/commands\<close> and \<open>process.rs\<close>. The
  splitting of a line into words, the parsing of options, the contents of files and the answers of
  the user are arguments. An error message is not part of the model, but where the session is known
  after an error it goes on with it; an error inside the engine, a panic and a line that cannot be
  split end the model of the session.
\<close>


section \<open>Formats\<close>

definition pad_right :: "nat \<Rightarrow> string \<Rightarrow> string" where
  "pad_right n s = s @ replicate (n - length s) CHR '' ''"

definition debug_list :: "string list \<Rightarrow> string" where
  "debug_list xs = ''['' @ str_join '', '' xs @ '']''"

definition hex_digit :: "nat \<Rightarrow> char" where
  "hex_digit d = (if d < 10 then char_of (48 + d) else char_of (87 + d))"

text \<open>\<open>Debug\<close> of a string; characters that do not print are escaped.\<close>

definition escape_char :: "char \<Rightarrow> string" where
  "escape_char c =
    (let n = of_char c :: nat
     in if n = 0 then [CHR 0x5C, CHR ''0'']
        else if n = 9 then [CHR 0x5C, CHR ''t'']
        else if n = 10 then [CHR 0x5C, CHR ''n'']
        else if n = 13 then [CHR 0x5C, CHR ''r'']
        else if n = 34 \<or> n = 92 then [CHR 0x5C, c]
        else if n < 32 \<or> 127 \<le> n \<and> n \<le> 160 \<or> n = 0xAD
        then [CHR 0x5C] @ ''u{'' @ (if n < 16 then [] else [hex_digit (n div 16)]) @ [hex_digit (n mod 16)] @ ''}''
        else [c])"

definition debug_string :: "string \<Rightarrow> string" where
  "debug_string s = [CHR 0x22] @ concat (map escape_char s) @ [CHR 0x22]"


section \<open>The session\<close>

datatype any_source_map = EmptySourceMap | DwarfMap dwarf_source_map

record 'h session =
  ss_debugger :: "'h debugger"
  ss_source_map :: any_source_map
  ss_printed :: "string list"

datatype command_result = ProcessFinish "wasm_val list" | Exit

type_synonym ('h, 'e) command_outcome = "('e dbg_error + command_result option \<times> 'h session) option"

datatype thread_opts = ThInfo | ThBacktrace | ThStepIn | ThStepOver | ThStepOut | ThStepInstIn | ThStepInstOver

datatype process_opts = PrContinue | PrLaunch "string option" "string list"

datatype breakpoint_opts = BpSet "string option" "string option" | BpList | BpDelete nat

datatype frame_opts = FrVariable | FrSelect nat

record ('h, 'e) cli =
  cl_split :: "string \<Rightarrow> string list option"
  cl_thread :: "string list \<Rightarrow> thread_opts option"
  cl_process :: "string list \<Rightarrow> process_opts option"
  cl_breakpoint :: "string list \<Rightarrow> breakpoint_opts option"
  cl_frame :: "string list \<Rightarrow> frame_opts option"
  cl_local :: "string list \<Rightarrow> string option option"
  cl_global :: "string list \<Rightarrow> string option option"
  cl_settings :: "string list \<Rightarrow> (string \<times> string \<times> string) option"
  cl_file :: "string \<Rightarrow> string list option"
  cl_parse_f32 :: "string \<Rightarrow> u32 option"
  cl_parse_f64 :: "string \<Rightarrow> u64 option"
  cl_answer :: string
  cl_setup :: "u8 list \<Rightarrow> 'e dbg_error + instance_with_name \<times> 'h wstore \<times> stack"
  cl_bp_order :: bp_order
  cl_dirs_order :: "(string, string) hash_map \<Rightarrow> (string, string) hash_map"
  cl_fuel :: nat

definition print_line :: "string \<Rightarrow> 'h session \<Rightarrow> 'h session" where
  "print_line s ss = ss\<lparr>ss_printed := ss_printed ss @ [s]\<rparr>"

definition find_line :: "any_source_map \<Rightarrow> nat \<Rightarrow> line_info option" where
  "find_line m offset =
    (case m of EmptySourceMap \<Rightarrow> empty_find_line_info () (of_nat offset)
     | DwarfMap m \<Rightarrow> find_line_info m (of_nat offset))"

definition map_inst_in_file_0 :: "any_source_map \<Rightarrow> u64 list" where
  "map_inst_in_file_0 m = (case m of EmptySourceMap \<Rightarrow> empty_inst_in_file_0 () | DwarfMap m \<Rightarrow> dm_inst_in_file_0 m)"


section \<open>Source lines\<close>

definition next_line_info :: "('h, 'e) debug_env \<Rightarrow> any_source_map \<Rightarrow> 'h debugger
    \<Rightarrow> 'e dbg_error + line_info option" where
  "next_line_info de m d =
    rmap (\<lambda>offset. Option.bind offset (find_line m)) (selected_instr_offset de d)"

definition display_range :: "u64 \<Rightarrow> 'e dbg_error + nat \<times> nat" where
  "display_range l =
    (if unat l + 20 \<ge> 2 ^ 64 then Inl DbgPanic
     else if l < 20 then Inr (0, unat l + 20) else Inr (unat l - 20, unat l + 20))"

text \<open>The column of the position is underlined by terminal codes.\<close>

definition mark_column :: "u64 \<Rightarrow> string \<Rightarrow> string" where
  "mark_column col line =
    concat (map (\<lambda>(i, c). if i + 1 = unat col then [CHR 0x1B] @ ''[4m'' @ [c] @ [CHR 0x1B] @ ''[0m'' else [c])
      (enumerate 0 line))"

definition source_line :: "line_info \<Rightarrow> nat \<Rightarrow> string \<Rightarrow> string" where
  "source_line info index line =
    (if Some index = map_option unat (li_line info)
     then ''-> '' @ pad_right 4 (show_nat index) @ '' '' @
       (case li_column info of Column col \<Rightarrow> mark_column col line | LeftEdge \<Rightarrow> line)
     else ''   '' @ pad_right 4 (show_nat index) @ '' '' @ line)"

definition display_source :: "('h, 'e) cli \<Rightarrow> line_info \<Rightarrow> 'e dbg_error + string list" where
  "display_source cl info =
    rbind (ok_or DbgMessage (cl_file cl (li_filepath info))) (\<lambda>ls.
      case li_line info of
        None \<Rightarrow> Inr []
      | Some l \<Rightarrow>
          if ls = [] then rmap (\<lambda>_. []) (display_range l)
          else rmap (\<lambda>(a, b).
              map (\<lambda>(i, line). source_line info i line) (filter (\<lambda>(i, _). a \<le> i \<and> i < b) (enumerate 1 ls)))
            (display_range l))"

definition list_command :: "('h, 'e) debug_env \<Rightarrow> ('h, 'e) cli \<Rightarrow> 'h session
    \<Rightarrow> 'e dbg_error + 'h session" where
  "list_command de cl ss =
    rbind (next_line_info de (ss_source_map ss) (ss_debugger ss)) (\<lambda>info.
      case info of
        None \<Rightarrow> Inr ss
      | Some info \<Rightarrow> rmap (\<lambda>out. ss\<lparr>ss_printed := ss_printed ss @ out\<rparr>) (display_source cl info))"


section \<open>Errors of commands\<close>

text \<open>
  The error message of a command that has not touched the session, such as options it cannot parse,
  is printed and the session goes on.
\<close>

definition recover :: "'h session \<Rightarrow> 'e dbg_error + command_result option \<times> 'h session
    \<Rightarrow> 'e dbg_error + command_result option \<times> 'h session" where
  "recover ss r = (case r of Inl DbgMessage \<Rightarrow> Inr (None, ss) | _ \<Rightarrow> r)"

definition silently :: "'h session \<Rightarrow> 'e dbg_error + 'h session \<Rightarrow> ('h, 'e) command_outcome" where
  "silently ss r = Some (recover ss (rmap (Pair None) r))"

definition with_opts :: "'o option \<Rightarrow> 'h session \<Rightarrow> ('o \<Rightarrow> ('h, 'e) command_outcome)
    \<Rightarrow> ('h, 'e) command_outcome" where
  "with_opts opts ss f = (case opts of None \<Rightarrow> Some (Inr (None, ss)) | Some x \<Rightarrow> f x)"


section \<open>thread\<close>

definition same_line :: "line_info \<Rightarrow> line_info option \<Rightarrow> bool" where
  "same_line initial info =
    (case info of None \<Rightarrow> True
     | Some info \<Rightarrow> li_filepath initial = li_filepath info \<and> li_line initial = li_line info)"

text \<open>The loop of the source-level steps, which ends on another line or at the end of the program.\<close>

partial_function (option) step_lines :: "('h, 'e) debug_env \<Rightarrow> any_source_map \<Rightarrow> step_style \<Rightarrow> line_info
    \<Rightarrow> 'h debugger \<Rightarrow> ('e dbg_error + run_result \<times> 'h debugger) option" where
  "step_lines de m style initial d =
    (case dbg_step de style d of
       None \<Rightarrow> None
     | Some (Inl e) \<Rightarrow> Some (Inl e)
     | Some (Inr (RunFinish rs, d')) \<Rightarrow> Some (Inr (RunFinish rs, d'))
     | Some (Inr (r, d')) \<Rightarrow>
         (case next_line_info de m d' of
            Inl e \<Rightarrow> Some (Inl e)
          | Inr info \<Rightarrow> if same_line initial info then step_lines de m style initial d' else Some (Inr (r, d'))))"

definition initial_line :: "('h, 'e) debug_env \<Rightarrow> any_source_map \<Rightarrow> 'h debugger \<Rightarrow> 'e dbg_error + line_info" where
  "initial_line de m d =
    rmap (\<lambda>info. case info of Some i \<Rightarrow> i | None \<Rightarrow> \<lparr>li_filepath = [], li_line = None, li_column = LeftEdge\<rparr>)
      (next_line_info de m d)"

definition show_vals :: "('h, 'e) debug_env \<Rightarrow> wasm_val list \<Rightarrow> string" where
  "show_vals de vs = debug_list (map (debug_val (de_printers de)) vs)"

text \<open>What follows a step: the results, or the source at the new position (\<open>show\<close>) and a note.\<close>

definition after_step :: "('h, 'e) debug_env \<Rightarrow> ('h, 'e) cli \<Rightarrow> bool \<Rightarrow> 'h session
    \<Rightarrow> 'e dbg_error + run_result \<times> 'h debugger \<Rightarrow> 'e dbg_error + command_result option \<times> 'h session" where
  "after_step de cl show_source ss r =
    rbind r (\<lambda>(result, d).
      let ss = ss\<lparr>ss_debugger := d\<rparr>
      in case result of
           RunFinish rs \<Rightarrow> Inr (Some (ProcessFinish rs), print_line (''Finish: '' @ show_vals de rs) ss)
         | _ \<Rightarrow>
             recover ss
               (rmap (\<lambda>ss. (None, if result = RunBreakpoint then print_line ''Hit breakpoint'' ss else ss))
                 (if show_source then list_command de cl ss else Inr ss)))"

definition thread_command :: "('h, 'e) debug_env \<Rightarrow> ('h, 'e) cli \<Rightarrow> thread_opts \<Rightarrow> 'h session
    \<Rightarrow> ('h, 'e) command_outcome" where
  "thread_command de cl opts ss =
    (let d = ss_debugger ss; m = ss_source_map ss;
         lines = (\<lambda>style. case initial_line de m d of
             Inl e \<Rightarrow> Some (Inl e)
           | Inr initial \<Rightarrow> map_option (after_step de cl True ss) (step_lines de m style initial d))
     in case opts of
          ThInfo \<Rightarrow> Some (Inr (None, ss))
        | ThBacktrace \<Rightarrow>
            Some (Inr (None, fold (\<lambda>(i, frame). print_line (show_nat i @ '': '' @ frame))
              (enumerate 0 (rev (backtrace d))) ss))
        | ThStepIn \<Rightarrow> lines InstIn
        | ThStepOver \<Rightarrow> lines InstOver
        | ThStepOut \<Rightarrow> map_option (after_step de cl True ss) (dbg_step de StepOut d)
        | ThStepInstIn \<Rightarrow> map_option (after_step de cl False ss) (dbg_step de InstIn d)
        | ThStepInstOver \<Rightarrow> map_option (after_step de cl False ss) (dbg_step de InstOver d))"


section \<open>process\<close>

text \<open>A number is an \<open>i32\<close> if it can be one, then an \<open>f32\<close>, an \<open>i64\<close> and an \<open>f64\<close>.\<close>

definition convert_arg :: "('h, 'e) cli \<Rightarrow> string \<Rightarrow> 'e dbg_error + wasm_val" where
  "convert_arg cl s =
    (case parse_signed 32 s of
       Some v \<Rightarrow> Inr (ValI32 (word_of_int v))
     | None \<Rightarrow>
         (case cl_parse_f32 cl s of
            Some v \<Rightarrow> Inr (ValF32 v)
          | None \<Rightarrow>
              (case parse_signed 64 s of
                 Some v \<Rightarrow> Inr (ValI64 (word_of_int v))
               | None \<Rightarrow> rmap ValF64 (ok_or DbgMessage (cl_parse_f64 cl s)))))"

primrec convert_to_val :: "('h, 'e) cli \<Rightarrow> string list \<Rightarrow> 'e dbg_error + wasm_val list" where
  "convert_to_val cl [] = Inr []"
| "convert_to_val cl (s # ss) = rbind (convert_arg cl s) (\<lambda>v. rmap (\<lambda>vs. v # vs) (convert_to_val cl ss))"

text \<open>A running program is only replaced on the answer \<open>y\<close>; it is run again in any case.\<close>

definition start_debugger :: "('h, 'e) debug_env \<Rightarrow> ('h, 'e) cli \<Rightarrow> string option \<Rightarrow> string list \<Rightarrow> 'h session
    \<Rightarrow> ('h, 'e) command_outcome" where
  "start_debugger de cl start wasi_args ss =
    (let d = ss_debugger ss;
         newline = [CHR 0x0A];
         fresh = (if is_running d then cl_answer cl = ''Y'' @ newline \<or> cl_answer cl = ''y'' @ newline else True)
     in case if fresh then instantiate (cl_setup cl) (map_inst_in_file_0 (ss_source_map ss)) d else Inr d of
          Inl e \<Rightarrow> Some (Inl e)
        | Inr d \<Rightarrow>
     (case convert_to_val cl wasi_args of
          Inl e \<Rightarrow> Some (recover (ss\<lparr>ss_debugger := d\<rparr>) (Inl e))
        | Inr args \<Rightarrow>
            map_option (\<lambda>r. rbind r (\<lambda>(result, d).
                let ss = ss\<lparr>ss_debugger := d\<rparr>
                in Inr (case result of
                          RunFinish rs \<Rightarrow> (Some (ProcessFinish rs), print_line (''finish: '' @ show_vals de rs) ss)
                        | RunBreakpoint \<Rightarrow> (None, print_line (newline @ ''Hit breakpoint'') ss)
                        | RunNext \<Rightarrow> (None, ss))))
              (dbg_run de start args d)))"

definition process_command :: "('h, 'e) debug_env \<Rightarrow> ('h, 'e) cli \<Rightarrow> process_opts \<Rightarrow> 'h session
    \<Rightarrow> ('h, 'e) command_outcome" where
  "process_command de cl opts ss =
    (case opts of
       PrContinue \<Rightarrow>
         map_option (\<lambda>r. rbind r (\<lambda>(result, d).
             let ss = ss\<lparr>ss_debugger := d\<rparr>
             in Inr (case result of
                       RunFinish rs \<Rightarrow> (Some (ProcessFinish rs), print_line (show_vals de rs) ss)
                     | RunBreakpoint \<Rightarrow> (None, print_line ''Hit breakpoint'' ss)
                     | RunNext \<Rightarrow> (None, ss))))
           (dbg_process de (ss_debugger ss))
     | PrLaunch start args \<Rightarrow> start_debugger de cl start args ss)"


section \<open>breakpoint, local, global, stack, settings and frame\<close>

definition parse_address :: "string \<Rightarrow> nat option" where
  "parse_address address =
    (if str_starts_with address ''0x'' then from_str_radix 16 (2 ^ 64 - 1) (trim_start_matches ''0x'' address)
     else parse_usize address)"

text \<open>A name takes precedence over an address.\<close>

definition set_opts_breakpoint :: "string option \<Rightarrow> string option \<Rightarrow> 'e dbg_error + breakpoint" where
  "set_opts_breakpoint name address =
    (case name of
       Some name \<Rightarrow> Inr (BpFunction name)
     | None \<Rightarrow>
         (case address of
            Some a \<Rightarrow> rmap BpInstruction (ok_or DbgMessage (parse_address a))
          | None \<Rightarrow> Inl DbgMessage))"

definition set_breakpoint :: "bp_order \<Rightarrow> breakpoint \<Rightarrow> 'h debugger \<Rightarrow> 'h debugger" where
  "set_breakpoint ord bp d = d\<lparr>dg_breakpoints := bp_insert ord bp (dg_breakpoints d)\<rparr>"

definition delete_breakpoint :: "nat \<Rightarrow> 'h debugger \<Rightarrow> 'e dbg_error + 'h debugger" where
  "delete_breakpoint bid d =
    rmap (\<lambda>b. d\<lparr>dg_breakpoints := b\<rparr>) (ok_or DbgMessage (bp_delete bid (dg_breakpoints d)))"

definition breakpoint_command :: "('h, 'e) cli \<Rightarrow> breakpoint_opts \<Rightarrow> 'h session \<Rightarrow> 'e dbg_error + 'h session" where
  "breakpoint_command cl opts ss =
    (case opts of
       BpSet name address \<Rightarrow>
         rmap (\<lambda>bp. ss\<lparr>ss_debugger := set_breakpoint (cl_bp_order cl) bp (ss_debugger ss)\<rparr>)
           (set_opts_breakpoint name address)
     | BpList \<Rightarrow>
         Inr (fold (\<lambda>(i, bp) ss. case bp of
               BpFunction name \<Rightarrow> print_line (pad_right 2 (show_nat i) @ ''. function('' @ name @ '')'') ss
             | BpInstruction _ \<Rightarrow> ss)
           (enumerate 0 (list_breakpoints (dg_breakpoints (ss_debugger ss)))) ss)
     | BpDelete bid \<Rightarrow> rmap (\<lambda>d. ss\<lparr>ss_debugger := d\<rparr>) (delete_breakpoint bid (ss_debugger ss)))"

definition local_line :: "u32 \<times> string \<times> string \<Rightarrow> string" where
  "local_line l = (case l of (idx, name, value) \<Rightarrow>
    pad_right 3 (show_nat (unat idx)) @ ''. '' @ pad_right 10 name @ '': '' @ debug_string value)"

definition print_locals :: "string option \<Rightarrow> u32 \<times> string \<times> (u32 \<times> string \<times> string) list \<Rightarrow> 'h session \<Rightarrow> 'h session" where
  "print_locals name r ss =
    (case r of (func_idx, func_name, ls) \<Rightarrow>
      (case name of
         None \<Rightarrow>
           fold (\<lambda>l. print_line (local_line l)) ls
             (print_line (show_nat (unat func_idx) @ ''. function name: '' @ func_name) ss)
       | Some n \<Rightarrow>
           (let found = filter (\<lambda>(_, m, _). m = n) ls
            in if found = []
               then print_line (''No local variable with name '' @ debug_string n @ '' in function '' @ debug_string func_name) ss
               else print_line (local_line (last found)) ss)))"

definition local_command :: "('h, 'e) debug_env \<Rightarrow> ('h, 'e) cli \<Rightarrow> string option \<Rightarrow> 'h session
    \<Rightarrow> ('h, 'e) command_outcome" where
  "local_command de cl name ss =
    map_option (rmap (\<lambda>(r, d). (None, print_locals name r (ss\<lparr>ss_debugger := d\<rparr>))))
      (dbg_locals (cl_fuel cl) de (ss_debugger ss))"

definition global_command :: "('h, 'e) debug_env \<Rightarrow> string option \<Rightarrow> 'h session \<Rightarrow> 'e dbg_error + 'h session" where
  "global_command de name ss =
    (case name of
       None \<Rightarrow> Inr ss
     | Some n \<Rightarrow>
         rmap (\<lambda>g. print_line (case g of
               Some v \<Rightarrow> n @ '': '' @ debug_val (de_printers de) v
             | None \<Rightarrow> ''Global '' @ n @ '' not found'') ss)
           (dbg_global (ss_debugger ss) n))"

definition stack_command :: "'h session \<Rightarrow> 'h session" where
  "stack_command ss =
    fold (\<lambda>(i, v). print_line (show_nat i @ '': '' @ debug_list (map (\<lambda>b. show_nat (unat b)) (into_le_bytes v))))
      (enumerate 0 (stack_values (ss_debugger ss))) ss"

definition settings_command :: "('h, 'e) cli \<Rightarrow> string \<times> string \<times> string \<Rightarrow> 'h session \<Rightarrow> 'h session" where
  "settings_command cl opts ss =
    (case opts of (key, operand1, operand2) \<Rightarrow>
      if key = ''directory.map''
      then (case ss_source_map ss of
              EmptySourceMap \<Rightarrow> ss
            | DwarfMap m \<Rightarrow> ss\<lparr>ss_source_map := DwarfMap (set_directory_map (cl_dirs_order cl) operand1 operand2 m)\<rparr>)
      else print_line ([CHR 0x27] @ key @ [CHR 0x27] @ '' is not valid key'') ss)"


section \<open>Dispatch\<close>

definition extract_command_name :: "string \<Rightarrow> string" where
  "extract_command_name s = takeWhile (\<lambda>c. \<not> is_whitespace c) (str_trim s)"

text \<open>The commands of \<open>start_debugger\<close> in \<open>lib.rs\<close>, and \<open>None\<close> for another name.\<close>

definition run_command :: "('h, 'e) debug_env \<Rightarrow> ('h, 'e) cli \<Rightarrow> string \<Rightarrow> string list \<Rightarrow> 'h session
    \<Rightarrow> ('h, 'e) command_outcome option" where
  "run_command de cl name args ss =
    (if name = ''thread'' then Some (with_opts (cl_thread cl args) ss (\<lambda>o1. thread_command de cl o1 ss))
     else if name = ''list'' then Some (silently ss (list_command de cl ss))
     else if name = ''stack'' then Some (silently ss (Inr (stack_command ss)))
     else if name = ''breakpoint'' then Some (with_opts (cl_breakpoint cl args) ss (\<lambda>o1. silently ss (breakpoint_command cl o1 ss)))
     else if name = ''local'' then Some (with_opts (cl_local cl args) ss (\<lambda>o1. local_command de cl o1 ss))
     else if name = ''frame'' then Some (with_opts (cl_frame cl args) ss (\<lambda>_. silently ss (Inr ss)))
     else if name = ''settings'' then Some (with_opts (cl_settings cl args) ss (\<lambda>o1. silently ss (Inr (settings_command cl o1 ss))))
     else if name = ''global'' then Some (with_opts (cl_global cl args) ss (\<lambda>o1. silently ss (global_command de o1 ss)))
     else if name = ''process'' then Some (with_opts (cl_process cl args) ss (\<lambda>o1. process_command de cl o1 ss))
     else None)"

text \<open>The aliases \<open>run\<close>, \<open>bt\<close> and \<open>bp\<close>: the line they stand for; \<open>args[1..]\<close> of no words panics.\<close>

definition run_alias :: "string \<Rightarrow> string list \<Rightarrow> ('e dbg_error + string) option" where
  "run_alias name args =
    (if name = ''run'' then
       Some (if length args = 1 then Inr ''process launch init''
             else if args = [] then Inl DbgPanic else Inr (''process launch '' @ str_join '' '' (tl args)))
     else if name = ''bt'' then Some (Inr ''thread backtrace'')
     else if name = ''bp'' then
       Some (if args = [] then Inl DbgPanic else Inr (''breakpoint '' @ str_join '' '' (tl args)))
     else None)"

partial_function (option) dispatch_command :: "('h, 'e) debug_env \<Rightarrow> ('h, 'e) cli \<Rightarrow> string \<Rightarrow> 'h session
    \<Rightarrow> ('h, 'e) command_outcome" where
  "dispatch_command de cl line ss =
    (let name = extract_command_name line
     in if name = ''exit'' \<or> name = ''quit'' then Some (Inr (Some Exit, ss))
        else (case cl_split cl line of
                None \<Rightarrow> Some (Inl DbgMessage)
              | Some args \<Rightarrow>
                  (case run_command de cl name args ss of
                     Some outcome \<Rightarrow> outcome
                   | None \<Rightarrow>
                       (case run_alias name args of
                          Some (Inl e) \<Rightarrow> Some (Inl e)
                        | Some (Inr line') \<Rightarrow> dispatch_command de cl line' ss
                        | None \<Rightarrow> Some (Inr (None, ss))))))"


section \<open>The interactive loop\<close>

text \<open>What the line editor returns: a line, the end of the input or a signal, or nothing in time.\<close>

datatype read_result = ReadInput string | ReadOther

definition interactive_step :: "('h, 'e) debug_env \<Rightarrow> ('h, 'e) cli \<Rightarrow> read_result option \<Rightarrow> string option
    \<Rightarrow> 'h session \<Rightarrow> ('e dbg_error + command_result option \<times> string option \<times> 'h session) option" where
  "interactive_step de cl r last_line ss =
    (case r of
       None \<Rightarrow> Some (Inr (None, last_line, ss))
     | Some ReadOther \<Rightarrow> Some (Inr (Some Exit, last_line, ss))
     | Some (ReadInput line) \<Rightarrow>
         (let typed = str_trim line \<noteq> [];
              last_line = (if typed then Some line else last_line)
          in case last_line of
               None \<Rightarrow> Some (Inr (None, last_line, ss))
             | Some line \<Rightarrow>
                 map_option (rmap (\<lambda>(result, ss). (result, last_line, ss))) (dispatch_command de cl line ss)))"

text \<open>
  The inner loop ends with a result of a command, the outer one with \<open>Exit\<close>; each inner loop
  forgets the last line. When the given inputs are used up the session goes on, as in \<open>None\<close>.
\<close>

fun interactive_loop :: "('h, 'e) debug_env \<Rightarrow> ('h, 'e) cli \<Rightarrow> read_result option list \<Rightarrow> string option
    \<Rightarrow> 'h session \<Rightarrow> ('e dbg_error + 'h session) option" where
  "interactive_loop de cl [] last_line ss = None"
| "interactive_loop de cl (r # rs) last_line ss =
    (case interactive_step de cl r last_line ss of
       None \<Rightarrow> None
     | Some (Inl e) \<Rightarrow> Some (Inl e)
     | Some (Inr (None, last_line, ss)) \<Rightarrow> interactive_loop de cl rs last_line ss
     | Some (Inr (Some (ProcessFinish _), _, ss)) \<Rightarrow> interactive_loop de cl rs None ss
     | Some (Inr (Some Exit, _, ss)) \<Rightarrow> Some (Inr ss))"

end
