(* ===== verification/Debug_Props.thy ===== *)
theory Debug_Props
  imports Commands
begin

text \<open>
  Properties of the debugger: a debugged call computes what the engine computes, steps stop at the
  right depth, breakpoints stop for a reason, and what the commands make of it.
\<close>


section \<open>The debugger follows the engine\<close>

definition hooks_idle :: "('h, 'e) exec_env \<Rightarrow> bool" where
  "hooks_idle env \<longleftrightarrow> (\<forall>h d. env_hook env h d = (Inr (), d))"

text \<open>Eager compilation: the code is there and costs nothing.\<close>

definition compiled_ahead :: "('h, 'e) exec_env \<Rightarrow> bool" where
  "compiled_ahead env \<longleftrightarrow> (\<forall>f fuel. env_compile env f fuel = Inr fuel)"

text \<open>The executor of the debugger has come from \<open>ex0\<close> by steps of the engine.\<close>

definition on_course :: "('h, 'e) debug_env \<Rightarrow> func_h option \<Rightarrow> 'h exec \<Rightarrow> 'h debugger \<Rightarrow> bool" where
  "on_course de func ex0 d \<longleftrightarrow> dg_run_func d = func \<and>
    (\<exists>ex. executor d = (Inr ex :: 'e dbg_error + _) \<and> exec_inv ex \<and> execute (de_env de) ex = execute (de_env de) ex0)"

definition at_end :: "('h, 'e) debug_env \<Rightarrow> func_h option \<Rightarrow> 'h exec \<Rightarrow> 'h debugger \<Rightarrow> bool" where
  "at_end de func ex0 d \<longleftrightarrow> dg_run_func d = func \<and>
    (\<exists>ex. executor d = (Inr ex :: 'e dbg_error + _) \<and> execute (de_env de) ex0 = Some (Inr ex))"

lemma invoke_func_keeps: "invoke_func de s i t d = Inr (sig, d') \<Longrightarrow> dg_run_func d' = dg_run_func d"
  by (auto simp: invoke_func_def rsimps)

lemma step_invoke_keeps:
  "step_invoke (debugger_interceptor de) report ex d = Inr (sig, d') \<Longrightarrow> dg_run_func d' = dg_run_func d"
  by (auto simp: step_invoke_def debugger_interceptor_def rsimps split: if_splits option.splits
      dest: invoke_func_keeps)

text \<open>The parts of a step of the debugger.\<close>

lemma execute_step_parts:
  assumes "execute_step env ic (ex, d) = Inr (sig, ex', d')"
  obtains w n res report call d2 where "fetch_word env (ex_ip ex) = Inr w"
    "ic_import_func_len ic (snd (ic_execute_inst ic (iw_offset w) d)) = Inr n"
    "execute_instr env n ex = Inr (res, report, ex')"
    "step_invoke ic report ex' (snd (ic_execute_inst ic (iw_offset w) d)) = Inr (call, d2)"
    "sig = combine_signals (fst (ic_execute_inst ic (iw_offset w) d)) call res"
    "d' = (if ir_is_pop_frame report then ic_pop_frame ic d2 else d2)"
  using assms by (auto simp: execute_step_def Let_def split_beta rsimps)

lemma interceptor_keeps_run_func:
  assumes "execute_step env (debugger_interceptor de) (ex, d) = Inr (sig, ex', d')"
  shows "dg_run_func d' = dg_run_func d"
  using assms
proof (rule execute_step_parts)
  fix w n res report call d2
  let ?ic = "debugger_interceptor de"
  assume s: "step_invoke ?ic report ex' (snd (ic_execute_inst ?ic (iw_offset w) d)) = Inr (call, d2)"
    and d': "d' = (if ir_is_pop_frame report then ic_pop_frame ?ic d2 else d2)"
  have "dg_run_func (snd (ic_execute_inst ?ic (iw_offset w) d)) = dg_run_func d"
    by (simp add: debugger_interceptor_def execute_inst_def)
  then show ?thesis
    using step_invoke_keeps [OF s] d' by (simp add: debugger_interceptor_def pop_frame_def)
qed

lemma exec_step_follows:
  fixes de :: "('h, 'e) debug_env"
  assumes "exec_step de d = Inr (sig, d')" "on_course de func ex0 d" "no_outer_tail_calls (de_env de)"
  shows "if sig = SigEnd then at_end de func ex0 d' else on_course de func ex0 d'"
proof -
  obtain ex where ex: "executor d = (Inr ex :: 'e dbg_error + _)" "exec_inv ex" and f: "dg_run_func d = func"
    and eq: "execute (de_env de) ex = execute (de_env de) ex0"
    using assms(2) by (auto simp: on_course_def)
  obtain ex' d1 where st: "execute_step (de_env de) (debugger_interceptor de) (ex, d) = Inr (sig, ex', d1)"
    and d': "d' = put_executor ex' d1"
    using assms(1) ex(1) by (auto simp: exec_step_def rsimps)
  have f': "dg_run_func d' = func"
    using interceptor_keeps_run_func [OF st] f d' by (simp add: put_executor_def)
  note one = execute_step_exec_one [OF st not_empty [OF ex(2)]]
  show ?thesis
  proof (cases "sig = SigEnd")
    case True
    then have "execute (de_env de) ex = Some (Inr ex')" using one by (subst execute.simps) simp
    then show ?thesis using True f' d' eq by (simp add: at_end_def)
  next
    case False
    then have "execute (de_env de) ex' = execute (de_env de) ex" using one by (subst (2) execute.simps) simp
    moreover have "exec_inv ex'"
      using inv_exec_one [of "de_env de" ex ex'] one False ex(2) fetch_no_outer [OF assms(3)] by simp
    ultimately show ?thesis using False f' d' eq by (simp add: on_course_def)
  qed
qed

text \<open>What a command leaves: the end of the call with its results, or a state on the way.\<close>

definition followed :: "('h, 'e) debug_env \<Rightarrow> func_h option \<Rightarrow> 'h exec
    \<Rightarrow> 'e dbg_error + run_result \<times> 'h debugger \<Rightarrow> bool" where
  "followed de func ex0 r \<longleftrightarrow>
    (case r of
       Inl _ \<Rightarrow> True
     | Inr (RunFinish rs, d) \<Rightarrow> at_end de func ex0 d \<and> get_finish_result de d = Inr rs
     | Inr (_, d) \<Rightarrow> on_course de func ex0 d)"

lemma finish_follows: "at_end de func ex0 d \<Longrightarrow> followed de func ex0 (finish de d)"
  by (auto simp: followed_def finish_def rmap_def split: sum.splits)

text \<open>One step of the loops, which go on after a normal signal only.\<close>

definition after_signal :: "('h, 'e) debug_env \<Rightarrow> ('h debugger \<Rightarrow> ('e dbg_error + run_result \<times> 'h debugger) option)
    \<Rightarrow> 'h debugger \<Rightarrow> ('e dbg_error + run_result \<times> 'h debugger) option" where
  "after_signal de go_on d =
    (case exec_step de d of
       Inl e \<Rightarrow> Some (Inl e)
     | Inr (SigNext, d') \<Rightarrow> go_on d'
     | Inr (SigBreakpoint, d') \<Rightarrow> Some (Inr (RunBreakpoint, d'))
     | Inr (SigEnd, d') \<Rightarrow> Some (finish de d'))"

lemma after_signal_follows:
  assumes "after_signal de go_on d = Some r" "on_course de func ex0 d" "no_outer_tail_calls (de_env de)"
    and "\<And>d' r. go_on d' = Some r \<Longrightarrow> on_course de func ex0 d' \<Longrightarrow> followed de func ex0 r"
  shows "followed de func ex0 r"
proof (cases "exec_step de d")
  case (Inl e)
  then show ?thesis using assms(1) by (auto simp: after_signal_def followed_def)
next
  case (Inr p)
  then obtain sig d' where s: "exec_step de d = Inr (sig, d')" by (cases p) auto
  then show ?thesis
    using assms(1,4) exec_step_follows [OF s assms(2,3)] finish_follows
    by (cases sig) (auto simp: after_signal_def followed_def)
qed

lemma step_while_follows:
  fixes de :: "('h, 'e) debug_env"
  assumes "step_while de deep d = Some r" "on_course de func ex0 d" "no_outer_tail_calls (de_env de)"
  shows "followed de func ex0 r"
proof -
  have "on_course de func ex0 d \<longrightarrow> no_outer_tail_calls (de_env de) \<longrightarrow> followed de func ex0 r"
  proof (rule step_while.raw_induct [where P = "\<lambda>de deep d r. on_course de func ex0 d \<longrightarrow>
        no_outer_tail_calls (de_env de) \<longrightarrow> followed de func ex0 r", OF _ assms(1)], intro impI)
    fix go_on :: "('h, 'e) debug_env \<Rightarrow> (nat \<Rightarrow> bool) \<Rightarrow> 'h debugger \<Rightarrow> ('e dbg_error + run_result \<times> 'h debugger) option"
      and de :: "('h, 'e) debug_env" and deep :: "nat \<Rightarrow> bool" and d r
    assume IH: "\<And>de deep d r. go_on de deep d = Some r \<Longrightarrow> on_course de func ex0 d \<longrightarrow>
        no_outer_tail_calls (de_env de) \<longrightarrow> followed de func ex0 r"
      and c: "on_course de func ex0 d" "no_outer_tail_calls (de_env de)"
      and eq: "(case executor d of Inl e \<Rightarrow> Some (Inl e)
        | Inr ex \<Rightarrow> if \<not> deep (frame_depth ex) then Some (Inr (RunNext, d))
            else (case exec_step de d of Inl e \<Rightarrow> Some (Inl e)
                | Inr (SigNext, d') \<Rightarrow> go_on de deep d'
                | Inr (SigBreakpoint, d') \<Rightarrow> Some (Inr (RunBreakpoint, d'))
                | Inr (SigEnd, d') \<Rightarrow> Some (finish de d'))) = Some r"
    have "(\<exists>e. r = Inl e) \<or> r = Inr (RunNext, d) \<or> after_signal de (go_on de deep) d = Some r"
    proof (cases "executor d :: 'e dbg_error + 'h exec")
      case (Inl e)
      then have "r = Inl e" using eq by simp
      then show ?thesis by blast
    next
      case (Inr ex)
      then show ?thesis using eq by (cases "deep (frame_depth ex)") (simp_all add: after_signal_def)
    qed
    then consider e where "r = Inl e" | "r = Inr (RunNext, d)" | "after_signal de (go_on de deep) d = Some r"
      by blast
    then show "followed de func ex0 r"
    proof cases
      case 3
      show ?thesis
        by (rule after_signal_follows [OF 3 c]) (use IH c(2) in blast)
    qed (use c in \<open>simp_all add: followed_def\<close>)
  qed
  then show ?thesis using assms(2,3) by blast
qed

lemma process_loop_follows:
  assumes "process_loop de d = Some r" "on_course de func ex0 d" "no_outer_tail_calls (de_env de)"
  shows "followed de func ex0 r"
proof -
  have "on_course de func ex0 d \<longrightarrow> no_outer_tail_calls (de_env de) \<longrightarrow> followed de func ex0 r"
    by (rule process_loop.raw_induct [where P = "\<lambda>de d r. on_course de func ex0 d \<longrightarrow>
          no_outer_tail_calls (de_env de) \<longrightarrow> followed de func ex0 r", OF _ assms(1)])
      (auto simp flip: after_signal_def dest!: after_signal_follows)
  then show ?thesis using assms(2,3) by blast
qed


text \<open>A session: commands until the call has finished.\<close>

datatype debug_cmd = CmdStep step_style | CmdContinue

definition run_cmd :: "('h, 'e) debug_env \<Rightarrow> debug_cmd \<Rightarrow> 'h debugger
    \<Rightarrow> ('e dbg_error + run_result \<times> 'h debugger) option" where
  "run_cmd de c d = (case c of CmdStep style \<Rightarrow> dbg_step de style d | CmdContinue \<Rightarrow> dbg_process de d)"

primrec run_cmds :: "('h, 'e) debug_env \<Rightarrow> debug_cmd list \<Rightarrow> 'h debugger
    \<Rightarrow> ('e dbg_error + run_result \<times> 'h debugger) option" where
  "run_cmds de [] d = Some (Inr (RunNext, d))"
| "run_cmds de (c # cs) d =
    (case run_cmd de c d of
       None \<Rightarrow> None
     | Some (Inl e) \<Rightarrow> Some (Inl e)
     | Some (Inr (RunFinish rs, d')) \<Rightarrow> Some (Inr (RunFinish rs, d'))
     | Some (Inr (_, d')) \<Rightarrow> run_cmds de cs d')"

lemma dbg_step_follows:
  fixes de :: "('h, 'e) debug_env"
  assumes "dbg_step de style d = Some r" "style \<noteq> StepOut" "on_course de func ex0 d"
    and "no_outer_tail_calls (de_env de)"
  shows "followed de func ex0 r"
proof -
  obtain ex where ex: "executor d = (Inr ex :: 'e dbg_error + _)" using assms(3) by (auto simp: on_course_def)
  then have g: "get_store d = (Inr (ex_store ex) :: 'e dbg_error + _)"
    by (auto simp: executor_def rsimps get_store_def ok_or_def split: option.splits)
  show ?thesis
  proof (cases style)
    case InstIn
    then have "after_signal de (\<lambda>d'. Some (Inr (RunNext, d'))) d = Some r"
      using assms(1) ex g by (simp add: dbg_step_def after_signal_def split: sum.splits signal.splits prod.splits)
    then show ?thesis
      by (rule after_signal_follows [OF _ assms(3,4)]) (auto simp: followed_def)
  next
    case InstOver
    then have "after_signal de (step_while de (\<lambda>depth. frame_depth ex < depth)) d = Some r"
      using assms(1) ex g by (simp add: dbg_step_def after_signal_def split: sum.splits signal.splits prod.splits)
    then show ?thesis
      by (rule after_signal_follows [OF _ assms(3,4)]) (rule step_while_follows [OF _ _ assms(4)])
  qed (use assms(2) in simp)
qed

lemma run_cmd_follows:
  fixes de :: "('h, 'e) debug_env"
  assumes "run_cmd de c d = Some r" "c \<noteq> CmdStep StepOut" "on_course de func ex0 d" "no_outer_tail_calls (de_env de)"
  shows "followed de func ex0 r"
proof (cases c)
  case (CmdStep style)
  then show ?thesis using assms dbg_step_follows by (auto simp: run_cmd_def)
next
  case CmdContinue
  obtain ex where ex: "executor d = (Inr ex :: 'e dbg_error + _)" using assms(3) by (auto simp: on_course_def)
  then have "get_store d = (Inr (ex_store ex) :: 'e dbg_error + _)"
    by (auto simp: executor_def rsimps get_store_def ok_or_def split: option.splits)
  then have "process_loop de d = Some r" using assms(1) CmdContinue ex by (simp add: run_cmd_def dbg_process_def)
  then show ?thesis using process_loop_follows assms(3,4) by blast
qed

lemma run_cmds_follows:
  assumes "run_cmds de cs d = Some (Inr (RunFinish rs, d'))" "CmdStep StepOut \<notin> set cs"
    and "on_course de func ex0 d" "no_outer_tail_calls (de_env de)"
  shows "at_end de func ex0 d' \<and> get_finish_result de d' = Inr rs"
  using assms(1-3)
proof (induction cs arbitrary: d)
  case (Cons c cs)
  obtain r d1 where r: "run_cmd de c d = Some (Inr (r, d1))"
    using Cons.prems(1) by (auto split: option.splits sum.splits)
  then have f: "followed de func ex0 (Inr (r, d1))"
    using run_cmd_follows [OF r _ Cons.prems(3) assms(4)] Cons.prems(2) by auto
  show ?case
  proof (cases "\<exists>rs'. r = RunFinish rs'")
    case True
    then show ?thesis using Cons.prems(1) r f by (auto simp: followed_def)
  next
    case False
    then have "run_cmds de cs d1 = Some (Inr (RunFinish rs, d'))" "on_course de func ex0 d1"
      using Cons.prems(1) r f by (auto simp: followed_def split: run_result.splits)
    then show ?thesis using Cons.IH Cons.prems(2) by simp
  qed
qed simp

text \<open>The start of a call in the debugger and in the engine.\<close>

lemma start_func_on_course:
  fixes de :: "('h, 'e) debug_env"
  assumes "start_func de name args d = Inr d1"
    and "dg_stack d = Some (stack_reset st)" "dg_store d = Some s"
  obtains func w ft vals st1 cache ex where
    "lookup_func d name = (Inr (Some func) :: 'e dbg_error + _)"
    "resolve (ws_funcs s) func = (Inr (WasmFunc w) :: 'e xerr + _)"
    "func_ty (de_registry de) s func = (Inr ft :: 'e xerr + _)"
    "match_params ft (map val_ty args) = Inr ()"
    "vs_extend_by (unat (func_type_len_results ft)) (st_values (stack_reset st)) = Inr vals"
    "init_root_frame (de_env de) (wf_body w) (wf_instance w) (map untyped_of_val args)
       ((stack_reset st)\<lparr>st_values := vals\<rparr>) = Inr st1"
    "load_caches s (wf_instance w) = (Inr cache :: 'e xerr + _)"
    "executor_new st1 cache s = (Inr ex :: 'e xerr + _)"
    "on_course de (Some func) ex d1"
proof -
  obtain func where l: "lookup_func d name = (Inr (Some func) :: 'e dbg_error + _)"
    and e: "execute_func de func args (d\<lparr>dg_run_func := Some func\<rparr>) = Inr d1"
    using assms(1) by (auto simp: start_func_def rsimps split: option.splits)
  obtain ft entity where ft: "func_ty (de_registry de) s func = (Inr ft :: 'e xerr + _)"
    and m: "match_params ft (map val_ty args) = Inr ()"
    and r: "resolve (ws_funcs s) func = (Inr entity :: 'e xerr + _)"
    using e assms(2,3)
    by (auto simp: execute_func_def get_store_def get_stack_def verify_and_prepare_inputs_def rsimps)
  obtain w where w: "entity = WasmFunc w"
    using e r ft assms(2,3) by (cases entity) (auto simp: execute_func_def get_store_def get_stack_def rsimps)
  obtain vals st1 inst cache ex len where
    v: "vs_extend_by (unat (func_type_len_results ft)) (st_values (stack_reset st)) = Inr vals"
    and i: "init_root_frame (de_env de) (wf_body w) (wf_instance w) (map untyped_of_val args)
       ((stack_reset st)\<lparr>st_values := vals\<rparr>) = Inr st1"
    and inst: "cs_instance (st_calls st1) = Some inst"
    and c: "load_caches s inst = (Inr cache :: 'e xerr + _)"
    and ex: "executor_new st1 cache s = (Inr ex :: 'e xerr + _)"
    and d1: "d1 = (put_executor ex (d\<lparr>dg_run_func := Some func\<rparr>))\<lparr>dg_invoked_func_index := len\<rparr>"
    using e r ft w assms(2,3)
    by (auto simp: execute_func_def get_store_def get_stack_def rsimps split: if_splits)
  have st: "cs_frames (st_calls ((stack_reset st)\<lparr>st_values := vals\<rparr>)) = []"
    "cs_inv (st_calls ((stack_reset st)\<lparr>st_values := vals\<rparr>))"
    by (simp_all add: cs_inv_reset)
  have inst': "inst = wf_instance w" using init_root_frame_inv(4) [OF i st] inst by simp
  note inv = root_executor_inv [OF i st c [unfolded inst'] ex]
  have "executor d1 = (Inr ex :: 'e dbg_error + _)"
    by (cases ex) (simp add: d1 put_executor_def executor_def get_stack_def get_store_def)
  then have "on_course de (Some func) ex d1" using inv(1) by (simp add: on_course_def d1 put_executor_def)
  with that l r w ft m v i c inst' ex show ?thesis by blast
qed


lemma execute_root_wasm:
  fixes env :: "('h, 'e) exec_env"
  assumes "resolve (ws_funcs s) func = (Inr (WasmFunc w) :: 'e xerr + _)"
    and "vs_extend_by len (st_values (stack_reset st)) = Inr vals"
    and "init_root_frame env (wf_body w) (wf_instance w) params ((stack_reset st)\<lparr>st_values := vals\<rparr>) = Inr st1"
    and "load_caches s (wf_instance w) = (Inr cache :: 'e xerr + _)"
    and "executor_new st1 cache s = (Inr ex :: 'e xerr + _)" "execute env ex = Some (Inr ex')"
    and "hooks_idle env" "compiled_ahead env" "get_range 0 len (vs_values (st_values (ex_stack ex'))) = Some raw"
  shows "engine_execute_func env func params len st s = Some (Inr (raw, ex_stack ex', ex_store ex'))"
proof -
  have hook: "invoke_call_hook env h x = Inr x" for h x
    using assms(7) by (simp add: invoke_call_hook_def hooks_idle_def)
  have st: "cs_frames (st_calls ((stack_reset st)\<lparr>st_values := vals\<rparr>)) = []"
    "cs_inv (st_calls ((stack_reset st)\<lparr>st_values := vals\<rparr>))"
    by (simp_all add: cs_inv_reset)
  have "prepare_root_wasm env w params len (stack_reset st) s = Inr (st1, s)"
    using assms(2,3,8) by (simp add: prepare_root_wasm_def hook compiled_ahead_def lift_trap_def)
  moreover have "execute_instrs env st1 s = Some (Inr ex')"
    using init_root_frame_inv(4) [OF assms(3) st] assms(4-6) by (simp add: execute_instrs_def)
  ultimately show ?thesis
    using assms(1,9)
    by (simp add: engine_execute_func_def execute_root_func_def Let_def hook write_results_back_def)
qed

text \<open>
  C4. Debugging computes the call: however a call is stepped (into, over, continued, with or without
  breakpoints), when the debugger reports its results, \<open>Func::call\<close> with the same arguments returns
  the same results and leaves the same store. For code that is compiled ahead and whose tail calls
  stay in the module, with call hooks that do nothing, on the empty stack of a fresh debugger.
\<close>
theorem debugged_call_computes_call:
  fixes de :: "('h, 'e) debug_env"
  assumes "start_func de name args d = Inr d1"
    and "dg_stack d = Some (stack_reset st)" "dg_store d = Some s"
    and "run_cmds de cmds d1 = Some (Inr (RunFinish rs, d2))" "CmdStep StepOut \<notin> set cmds"
    and "no_outer_tail_calls (de_env de)" "hooks_idle (de_env de)" "compiled_ahead (de_env de)"
    and "dg_run_func d2 = Some func" "dg_store d2 = Some s2"
    and "func_ty (de_registry de) s func = (Inr ft :: 'e xerr + _)"
    and "func_ty (de_registry de) s2 func = (Inr ft :: 'e xerr + _)"
    and "func_type_new ps ts = Some ft" "length outputs = length ts"
  shows "\<exists>st'. func_call (de_env de) (de_registry de) func args outputs st s = Some (Inr (rs, st', s2))"
proof -
  obtain func' w ft' vals st1 cache ex where
    w: "resolve (ws_funcs s) func' = (Inr (WasmFunc w) :: 'e xerr + _)"
    and ft': "func_ty (de_registry de) s func' = (Inr ft' :: 'e xerr + _)"
    and m: "match_params ft' (map val_ty args) = Inr ()"
    and v: "vs_extend_by (unat (func_type_len_results ft')) (st_values (stack_reset st)) = Inr vals"
    and i: "init_root_frame (de_env de) (wf_body w) (wf_instance w) (map untyped_of_val args)
       ((stack_reset st)\<lparr>st_values := vals\<rparr>) = Inr st1"
    and c: "load_caches s (wf_instance w) = (Inr cache :: 'e xerr + _)"
    and ex: "executor_new st1 cache s = (Inr ex :: 'e xerr + _)"
    and oc: "on_course de (Some func') ex d1"
    using start_func_on_course [OF assms(1-3)] by metis
  have e: "at_end de (Some func') ex d2" and g: "get_finish_result de d2 = Inr rs"
    using run_cmds_follows [OF assms(4,5) oc assms(6)] by auto
  then obtain ex' where ex': "executor d2 = (Inr ex' :: 'e dbg_error + _)" "execute (de_env de) ex = Some (Inr ex')"
    and f: "func' = func" using assms(9) by (auto simp: at_end_def)
  have ft: "ft' = ft" using ft' f assms(11) by simp
  have len: "unat (func_type_len_results ft) = length ts" "func_type_results ft = ts"
    using func_type_new_parts [OF assms(13)] by simp_all
  have stack: "dg_stack d2 = Some (ex_stack ex')" "s2 = ex_store ex'"
    using ex'(1) assms(10) by (auto simp: executor_def rsimps get_stack_def get_store_def)
  obtain raw where raw: "get_range 0 (length ts) (vs_values (st_values (ex_stack ex'))) = Some raw"
    and rs: "rs = map (\<lambda>(v, ty). val_with_type v ty) (zip raw ts)"
    using g assms(9,10,12) stack len(2)
    by (auto simp: get_finish_result_def get_stack_def get_store_def running_func_def Let_def rsimps comp_def)
  have "engine_execute_func (de_env de) func (map untyped_of_val args) (length ts) st s =
      Some (Inr (raw, ex_stack ex', s2))"
    using execute_root_wasm [OF w _ i c ex ex'(2) assms(7,8) raw] v f ft len stack(2) by simp
  then show ?thesis
    using m ft f assms(11,14) len(2) rs
    by (auto simp: func_call_def verify_and_prepare_inputs_outputs_def match_results_def prepare_outputs_def comp_def)
qed


definition demo_wasm_store :: "unit wstore" where
  "demo_wasm_store = demo_store\<lparr>ws_instances := [(hd (ws_instances demo_store))\<lparr>in_funcs := [0]\<rparr>],
     ws_funcs := [WasmFunc \<lparr>wf_type = 0, wf_body = 0, wf_instance = 0\<rparr>]\<rparr>"

definition demo_registry :: "func_type dedup_arena" where
  "demo_registry = snd (the (dedup_alloc (the (func_type_new [] [I32])) dedup_new))"

definition demo_debug_env :: "(unit, unit) debug_env" where
  "demo_debug_env = \<lparr>de_env = demo_env, de_registry = demo_registry, de_code_get = (\<lambda>_. Inr ()),
     de_value_types = (\<lambda>_. []), de_call = (\<lambda>_ _ _ s. Some (Inl HeapError, s)),
     de_printers = he_pr demo_heap_env\<rparr>"

definition demo_stack :: stack where
  "demo_stack = \<lparr>st_calls = cs_new 10, st_values = \<lparr>vs_values = [], vs_max_len = 100\<rparr>\<rparr>"

definition demo_debugger :: "unit debugger" where
  "demo_debugger = debugger_new\<lparr>dg_store := Some demo_wasm_store, dg_stack := Some demo_stack,
     dg_instance := Some \<lparr>iw_inner = 0, iw_import_func_len = 0, iw_func_names = [(0, ''main'')],
       iw_global_names = [], iw_local_names = [], iw_local_dep_names = []\<rparr>\<rparr>"

definition demo_type :: func_type where
  "demo_type = FtInline 0 1 (replicate 21 I32)"

lemma demo_type_new: "func_type_new [] [I32] = Some demo_type"
  by (simp add: func_type_new_def func_type_try_new_small_def inline_size_def demo_type_def numeral_eq_Suc)

lemma demo_func_ty: "func_ty demo_registry demo_wasm_store 0 = (Inr demo_type :: unit xerr + _)"
  by (simp add: func_ty_def demo_wasm_store_def resolve_def func_ty_dedup_def registry_resolve_func_type_def
      demo_registry_def demo_type_new dedup_get_def dedup_alloc_def dedup_new_def arena_alloc_def
      arena_next_index_def index_from_usize_def arena_get_def get_at_def)

lemma demo_func: "resolve (ws_funcs demo_wasm_store) 0 =
    (Inr (WasmFunc \<lparr>wf_type = 0, wf_body = 0, wf_instance = 0\<rparr>) :: unit xerr + _)"
  by (simp add: demo_wasm_store_def resolve_def get_at_def)

definition demo_running :: "int \<Rightarrow> untyped_val \<Rightarrow> unit debugger" where
  "demo_running i v = (put_executor ((demo_exec i v)\<lparr>ex_store := demo_wasm_store\<rparr>) demo_debugger)
     \<lparr>dg_run_func := Some 0, dg_invoked_func_index := [0]\<rparr>"

lemma demo_lookup: "lookup_func demo_debugger (Some ''main'') = (Inr (Some 0) :: unit dbg_error + _)"
proof -
  have "parse_u32 ''main'' = None" by (simp add: parse_u32_def from_str_radix_def digit_val_def)
  then show ?thesis
    by (simp add: lookup_func_def lookup_func_by_name_def demo_debugger_def debugger_new_def get_store_def
        instance_get_func_def instance_get_func_by_index_def instance_get_export_def resolve_def
        demo_wasm_store_def demo_store_def get_at_def)
qed

lemma demo_match: "verify_and_prepare_inputs demo_registry demo_wasm_store 0 [] = (Inr () :: unit call_error + _)"
  by (simp add: verify_and_prepare_inputs_def demo_func_ty match_params_def demo_type_def)

lemma demo_frame_init:
  "init_root_frame demo_env 0 0 [] (demo_stack\<lparr>st_values := (st_values demo_stack)\<lparr>vs_values := [0]\<rparr>\<rparr>) =
     (Inr (ex_stack (demo_exec 0 0)) :: unit xerr + _)"
  by (simp add: init_root_frame_def demo_defs demo_stack_def vs_extend_by_def vs_alloc_call_frame_def
      cs_push_def cs_push_instance_def cs_new_def hv_default_def hv_last_def hv_push_def lift_trap_def
      fp_init_zeroes_def call_frame_new_def vec_last_def Let_def put_range_def uninit_cell_def)

lemma demo_caches: "load_caches demo_wasm_store 0 =
    (Inr \<lparr>ci_instance = 0, ci_memory = None, ci_global = None\<rparr> :: unit xerr + _)"
  by (simp add: load_caches_Inr demo_wasm_store_def demo_store_def get_at_def)

lemma demo_start: "start_func demo_debug_env (Some ''main'') [] demo_debugger = Inr (demo_running 0 0)"
proof -
  have e: "vs_extend_by 1 (st_values demo_stack) = Inr ((st_values demo_stack)\<lparr>vs_values := [0]\<rparr>)"
    by (simp add: vs_extend_by_def demo_stack_def uninit_cell_def)
  have n: "executor_new (ex_stack (demo_exec 0 0)) \<lparr>ci_instance = 0, ci_memory = None, ci_global = None\<rparr> demo_wasm_store
      = (Inr ((demo_exec 0 0)\<lparr>ex_store := demo_wasm_store\<rparr>) :: unit xerr + _)"
    by (simp add: executor_new_def cs_peek_def vec_last_def demo_exec_def demo_frame_def cf_base_offset_def)
  have c: "cs_instance (st_calls (ex_stack (demo_exec 0 0))) = Some 0"
    by (simp add: cs_instance_def hv_last_def demo_exec_def)
  have "execute_func demo_debug_env 0 [] (demo_debugger\<lparr>dg_run_func := Some 0\<rparr>) = Inr (demo_running 0 0)"
    using e demo_frame_init n c
    by (simp add: execute_func_def get_store_def get_stack_def demo_debugger_def demo_debug_env_def debugger_new_def
        demo_func_ty demo_match demo_func demo_type_def lift_trap_def demo_caches get_import_func_len_def
        demo_running_def put_executor_def)
  then show ?thesis using demo_lookup by (simp add: start_func_def)
qed

definition demo_end_exec :: "unit exec" where
  "demo_end_exec = (demo_exec 1 7)\<lparr>ex_store := demo_wasm_store,
     ex_stack := \<lparr>st_calls = cs_new 10, st_values = \<lparr>vs_values = [7], vs_max_len = 100\<rparr>\<rparr>\<rparr>"

definition demo_ended :: "unit debugger" where
  "demo_ended = (put_executor demo_end_exec demo_debugger)\<lparr>dg_run_func := Some 0\<rparr>"

lemma demo_executor: "executor (demo_running i v) = (Inr ((demo_exec i v)\<lparr>ex_store := demo_wasm_store\<rparr>) :: unit dbg_error + _)"
  by (simp add: demo_running_def executor_def put_executor_def get_stack_def get_store_def demo_exec_def)

lemma demo_words:
  "fetch_word demo_env \<lparr>ip_func = 0, ip_index = 0\<rparr> =
    (Inr \<lparr>iw_offset = 0, iw_instr = ICpy (ICopyImm 0 (AnyImm32 7))\<rparr> :: unit xerr + _)"
  "fetch_word demo_env \<lparr>ip_func = 0, ip_index = 1\<rparr> = (Inr \<lparr>iw_offset = 0, iw_instr = IRet (IReturnReg 0)\<rparr> :: unit xerr + _)"
  by (simp_all add: fetch_word_def demo_env_def demo_env_of_def)

lemma demo_steps:
  "exec_step demo_debug_env (demo_running 0 0) = Inr (SigNext, demo_running 1 7)"
  "exec_step demo_debug_env (demo_running 1 7) = Inr (SigEnd, demo_ended)"
proof -
  let ?ic = "debugger_interceptor demo_debug_env"
  have inst: "ic_execute_inst ?ic 0 (demo_running i v) = (SigNext, demo_running i v)" for i v
    by (simp add: debugger_interceptor_def execute_inst_def demo_running_def put_executor_def demo_debugger_def
        debugger_new_def breakpoints_default_def)
  have imp: "ic_import_func_len ?ic (demo_running i v) = Inr 0" for i v
    by (simp add: debugger_interceptor_def get_import_func_len_def demo_running_def put_executor_def demo_debugger_def
        debugger_new_def)
  have ip: "ex_ip (demo_exec i v) = \<lparr>ip_func = 0, ip_index = i\<rparr>" for i v by (simp add: demo_exec_def)
  have copy: "exec_plain demo_env (ICpy (ICopyImm 0 (AnyImm32 7))) ((demo_exec 0 0)\<lparr>ex_store := demo_wasm_store\<rparr>) =
      (Inr (None, (demo_exec 1 7)\<lparr>ex_store := demo_wasm_store\<rparr>) :: unit xerr + _)"
    by (simp add: exec_plain_def demo_exec_def demo_env_def demo_env_of_def exec_copy_impl_def set_register_def
        set_register_at_def reg_set_at_def frame_set_def register_offset_def next_instr_def next_instr_at_def
        ip_add_def of_i32_def)
  have ret: "exec_return demo_env (IReturnReg 0) ((demo_exec 1 7)\<lparr>ex_store := demo_wasm_store\<rparr>) =
      (Inr (Break, demo_end_exec) :: unit xerr + _)"
    by (simp add: exec_return_value_def return_caller_results_def return_impl_def cs_peek_2_def cs_pop_def cs_peek_def
        vec_last_def vec_pop_def demo_exec_def demo_frame_def demo_end_exec_def get_register_def reg_get_def frame_get_def
        register_offset_def set_register_at_def reg_set_at_def frame_set_def vs_truncate_def cs_new_def
        hv_pop_def hv_default_def cs_instance_def hv_last_def cf_frame_offset_def)
  show "exec_step demo_debug_env (demo_running 0 0) = Inr (SigNext, demo_running 1 7)"
    using inst [of 0 0] imp [of 0 0] copy
    by (simp add: exec_step_def demo_executor execute_step_def execute_instr_def fetch_instr_def demo_debug_env_def
        ip demo_words internal_callee_def no_report_def step_invoke_def combine_signals_def)
      (simp add: demo_running_def put_executor_def demo_exec_def)
  show "exec_step demo_debug_env (demo_running 1 7) = Inr (SigEnd, demo_ended)"
    using inst [of 1 7] imp [of 1 7] ret
    by (simp add: exec_step_def demo_executor execute_step_def execute_instr_def fetch_instr_def demo_debug_env_def
        ip demo_words forward_return_dbg_def no_report_def step_invoke_def combine_signals_def)
      (simp add: demo_running_def demo_ended_def put_executor_def demo_exec_def demo_end_exec_def
        debugger_interceptor_def pop_frame_def cs_is_empty_def demo_debugger_def debugger_new_def)
qed

lemma demo_results: "get_finish_result demo_debug_env demo_ended = (Inr [ValI32 7] :: unit dbg_error + _)"
  by (simp add: get_finish_result_def demo_ended_def put_executor_def get_stack_def get_store_def running_func_def
      demo_debug_env_def demo_end_exec_def demo_func_ty demo_type_def get_range_def val_with_type_def to_i32_def)

lemma debugged_call_computes_call_witness:
  "\<exists>st'. func_call demo_env demo_registry 0 [] [ValI32 0] demo_stack demo_wasm_store =
    Some (Inr ([ValI32 7], st', demo_wasm_store))"
proof -
  have p: "process_loop demo_debug_env (demo_running 0 0) = Some (Inr (RunFinish [ValI32 7], demo_ended))"
    using demo_steps demo_results
    by (subst process_loop.simps, simp) (subst process_loop.simps, simp add: finish_def)
  have r: "run_cmds demo_debug_env [CmdContinue] (demo_running 0 0) = Some (Inr (RunFinish [ValI32 7], demo_ended))"
  proof -
    have "get_store (demo_running 0 0) = (Inr demo_wasm_store :: unit dbg_error + _)"
      by (simp add: get_store_def demo_running_def put_executor_def)
    then show ?thesis using p by (simp add: run_cmd_def dbg_process_def demo_executor)
  qed
  have st: "dg_stack demo_debugger = Some (stack_reset demo_stack)"
    by (simp add: demo_debugger_def demo_stack_def stack_reset_def cs_reset_def cs_new_def hv_clear_def hv_default_def
        vs_reset_def)
  have s: "dg_store demo_debugger = Some demo_wasm_store" by (simp add: demo_debugger_def)
  have e: "dg_run_func demo_ended = Some 0" "dg_store demo_ended = Some demo_wasm_store"
    by (simp_all add: demo_ended_def put_executor_def demo_end_exec_def)
  have env: "no_outer_tail_calls (de_env demo_debug_env)" "hooks_idle (de_env demo_debug_env)"
      "compiled_ahead (de_env demo_debug_env)" "func_ty (de_registry demo_debug_env) demo_wasm_store 0 = (Inr demo_type :: unit xerr + _)"
    by (simp_all add: demo_debug_env_def demo_no_tail demo_func_ty)
      (simp_all add: hooks_idle_def compiled_ahead_def demo_env_def demo_env_of_def)
  from debugged_call_computes_call [OF demo_start st s r _ env(1-3) e env(4,4) demo_type_new, of "[ValI32 0]"]
  show ?thesis by (simp add: demo_debug_env_def)
qed


section \<open>Steps\<close>

text \<open>Steps with a normal signal, from states whose depth satisfies \<open>deep\<close>.\<close>

inductive next_steps :: "('h, 'e) debug_env \<Rightarrow> (nat \<Rightarrow> bool) \<Rightarrow> 'h debugger \<Rightarrow> 'h debugger \<Rightarrow> bool"
  for de deep where
  here: "next_steps de deep d d"
| more: "executor d = (Inr ex :: 'e dbg_error + _) \<Longrightarrow> deep (frame_depth ex) \<Longrightarrow>
    exec_step de d = Inr (SigNext, d1) \<Longrightarrow> next_steps de deep d1 d2 \<Longrightarrow> next_steps de deep d d2"

lemma next_steps_while:
  assumes "next_steps de deep d d'"
  shows "step_while de deep d = step_while de deep d'"
  using assms
proof induction
  case (more d ex d1 d2)
  then show ?case by (subst step_while.simps) simp
qed simp

lemma step_while_stops:
  "executor d = (Inr ex :: 'e dbg_error + _) \<Longrightarrow> \<not> deep (frame_depth ex) \<Longrightarrow>
    step_while (de :: ('h, 'e) debug_env) deep d = Some (Inr (RunNext, d))"
  by (subst step_while.simps) simp

lemma step_while_next_aux:
  fixes de :: "('h, 'e) debug_env"
  assumes "step_while de deep d = Some r"
  shows "\<forall>d'. r = Inr (RunNext, d') \<longrightarrow> next_steps de deep d d' \<and>
    (\<exists>ex. executor d' = (Inr ex :: 'e dbg_error + _) \<and> \<not> deep (frame_depth ex))"
proof (rule step_while.raw_induct [where P = "\<lambda>de deep d r. \<forall>d'. r = Inr (RunNext, d') \<longrightarrow>
      next_steps de deep d d' \<and> (\<exists>ex. executor d' = (Inr ex :: 'e dbg_error + _) \<and> \<not> deep (frame_depth ex))",
      OF _ assms], intro allI impI)
  fix go_on :: "('h, 'e) debug_env \<Rightarrow> (nat \<Rightarrow> bool) \<Rightarrow> 'h debugger \<Rightarrow> ('e dbg_error + run_result \<times> 'h debugger) option"
    and de :: "('h, 'e) debug_env" and deep :: "nat \<Rightarrow> bool" and d r d'
  assume IH: "\<And>de deep d r. go_on de deep d = Some r \<Longrightarrow> \<forall>d'. r = Inr (RunNext, d') \<longrightarrow>
      next_steps de deep d d' \<and> (\<exists>ex. executor d' = (Inr ex :: 'e dbg_error + _) \<and> \<not> deep (frame_depth ex))"
    and r: "r = Inr (RunNext, d')"
    and eq: "(case executor d of Inl e \<Rightarrow> Some (Inl e)
      | Inr ex \<Rightarrow> if \<not> deep (frame_depth ex) then Some (Inr (RunNext, d))
          else (case exec_step de d of Inl e \<Rightarrow> Some (Inl e)
              | Inr (SigNext, d') \<Rightarrow> go_on de deep d'
              | Inr (SigBreakpoint, d') \<Rightarrow> Some (Inr (RunBreakpoint, d'))
              | Inr (SigEnd, d') \<Rightarrow> Some (finish de d'))) = Some r"
  obtain ex where ex: "executor d = (Inr ex :: 'e dbg_error + _)"
    using eq r by (cases "executor d :: 'e dbg_error + 'h exec") auto
  show "next_steps de deep d d' \<and> (\<exists>ex. executor d' = (Inr ex :: 'e dbg_error + _) \<and> \<not> deep (frame_depth ex))"
  proof (cases "deep (frame_depth ex)")
    case True
    then obtain sig d1 where s: "exec_step de d = Inr (sig, d1)"
      using eq r ex by (cases "exec_step de d") auto
    have "sig = SigNext"
      using eq r ex True s by (cases sig) (auto simp: finish_def rmap_def split: sum.splits)
    then have "go_on de deep d1 = Some (Inr (RunNext, d'))" using eq r ex True s by simp
    from IH [OF this] show ?thesis using next_steps.more [of d ex deep de, OF ex True] s \<open>sig = SigNext\<close> by blast
  next
    case False
    then have "d' = d" using eq r ex by simp
    then show ?thesis using next_steps.here ex False by blast
  qed
qed

lemma step_while_next_iff:
  fixes de :: "('h, 'e) debug_env"
  shows "step_while de deep d = Some (Inr (RunNext, d')) \<longleftrightarrow>
    next_steps de deep d d' \<and> (\<exists>ex. executor d' = (Inr ex :: 'e dbg_error + _) \<and> \<not> deep (frame_depth ex))"
  using step_while_next_aux [of de deep d] next_steps_while [of de deep d d'] step_while_stops [of d' _ deep de] by auto

text \<open>
  C7. Stepping over an instruction ends exactly when all deeper frames have returned, after normal
  signals only. Stepping out ends when the frame itself has returned, but whatever its first
  instruction signals, a breakpoint or the end of the program, is lost.
\<close>
theorem steps_end_at_depth:
  fixes de :: "('h, 'e) debug_env"
  assumes "executor d = (Inr ex :: 'e dbg_error + _)"
  shows "(dbg_step de InstOver d = Some (Inr (RunNext, d')) \<longleftrightarrow>
      (\<exists>d1 ex'. exec_step de d = Inr (SigNext, d1) \<and> next_steps de (\<lambda>k. frame_depth ex < k) d1 d' \<and>
        executor d' = (Inr ex' :: 'e dbg_error + _) \<and> frame_depth ex' \<le> frame_depth ex)) \<and>
    (dbg_step de StepOut d = Some (Inr (RunNext, d')) \<longleftrightarrow>
      (\<exists>sig d1 ex'. exec_step de d = Inr (sig, d1) \<and> next_steps de (\<lambda>k. frame_depth ex \<le> k) d1 d' \<and>
        executor d' = (Inr ex' :: 'e dbg_error + _) \<and> frame_depth ex' < frame_depth ex))"
proof -
  have g: "get_store d = (Inr (ex_store ex) :: 'e dbg_error + _)"
    using assms by (auto simp: executor_def rsimps get_store_def ok_or_def split: option.splits)
  have fin: "finish de d1 \<noteq> Inr (RunNext, d')" for d1 by (auto simp: finish_def rsimps)
  show ?thesis
  proof (cases "exec_step de d")
    case (Inl e)
    then show ?thesis using assms g by (simp add: dbg_step_def)
  next
    case (Inr p)
    then obtain sig d1 where s: "exec_step de d = Inr (sig, d1)" by (cases p) auto
    have "dbg_step de InstOver d = Some (Inr (RunNext, d')) \<longleftrightarrow>
        sig = SigNext \<and> step_while de (\<lambda>k. frame_depth ex < k) d1 = Some (Inr (RunNext, d'))"
      using assms g s fin by (cases sig) (auto simp: dbg_step_def)
    moreover have "dbg_step de StepOut d = step_while de (\<lambda>k. frame_depth ex \<le> k) d1"
      using assms g s by (simp add: dbg_step_def)
    ultimately show ?thesis using s by (auto simp: step_while_next_iff not_less not_le)
  qed
qed

lemma steps_end_at_depth_witness:
  "\<not> (\<exists>d'. dbg_step demo_debug_env InstOver (demo_running 1 7) = Some (Inr (RunNext, d'))) \<and>
   dbg_step demo_debug_env StepOut (demo_running 1 7) = Some (Inr (RunNext, demo_ended))"
proof -
  have e: "executor demo_ended = (Inr demo_end_exec :: unit dbg_error + _)"
    by (simp add: demo_ended_def executor_def put_executor_def get_stack_def get_store_def demo_end_exec_def demo_exec_def)
  have d: "frame_depth demo_end_exec = 0" "frame_depth ((demo_exec 1 7)\<lparr>ex_store := demo_wasm_store\<rparr>) = 1"
    by (simp_all add: frame_depth_def demo_end_exec_def cs_new_def demo_exec_def)
  have "next_steps demo_debug_env deep demo_ended demo_ended" for deep by (rule next_steps.here)
  then show ?thesis
    using steps_end_at_depth [OF demo_executor [of 1 7], of demo_debug_env] demo_steps(2) e d by auto
qed



section \<open>Signals\<close>

definition breaks_at :: "'h debugger \<Rightarrow> u32 \<Rightarrow> bool" where
  "breaks_at d i = (case get_func_name_by_idx d i of
     None \<Rightarrow> False | Some name \<Rightarrow> should_break_func (dg_breakpoints d) name)"

definition interrupts_at :: "'h debugger \<Rightarrow> u32 \<Rightarrow> bool" where
  "interrupts_at d offset = (dg_is_interrupted d \<and> ucast offset \<in> set (bp_inst_in_file_0 (dg_breakpoints d)))"

lemma execute_instr_report:
  fixes env :: "('h, 'e) exec_env"
  assumes "execute_instr env n ex = Inr (res, report, ex')"
  shows "res \<noteq> SigBreakpoint \<and> (ir_is_pop_frame report \<longrightarrow> ir_call_idx report = -1)"
proof -
  obtain i where i: "execute_instr env n ex = Inr (res, report, ex')" "fetch_instr env (ex_ip ex) = Inr i"
    using assms by (auto simp: execute_instr_def rsimps)
  show ?thesis
  proof (cases "\<exists>r. i = IRet r")
    case True
    then obtain r where r: "i = IRet r" by blast
    show ?thesis
    proof (cases "cs_is_empty (st_calls (ex_stack ex))")
      case True
      then show ?thesis
        using i r by (auto simp: execute_instr_def forward_return_dbg_def Let_def no_report_def rsimps)
    next
      case False
      then obtain flow where f: "exec_return env r ex = Inr (flow, ex')"
        and *: "report = no_report\<lparr>ir_is_pop_frame := True\<rparr>" "res = (case flow of Break \<Rightarrow> SigEnd | Continue \<Rightarrow> SigNext)"
        using i r by (auto simp: execute_instr_def forward_return_dbg_def Let_def rsimps)
      then show ?thesis by (cases flow) (auto simp: no_report_def)
    qed
  next
    case False
    then have e: "execute_instr env n ex = rbind (case internal_callee i of
          None \<Rightarrow> Inr no_report
        | Some f \<Rightarrow> rmap (\<lambda>c. no_report\<lparr>ir_call_idx := c\<rparr>) (add_i32 (i32_or_default (of_nat f)) (sint n))) (\<lambda>report.
      rmap (\<lambda>(elem, ex'). (SigNext, (case elem of None \<Rightarrow> report
          | Some (index, table) \<Rightarrow> report\<lparr>ir_call_idx := i32_or_default index, ir_table_idx := Some table\<rparr>), ex'))
        (exec_plain env i ex))"
      using i(2) by (cases i) (simp_all add: execute_instr_def)
    from i(1) [unfolded e] obtain report0 elem where "(case internal_callee i of
          None \<Rightarrow> Inr no_report
        | Some f \<Rightarrow> rmap (\<lambda>c. no_report\<lparr>ir_call_idx := c\<rparr>) (add_i32 (i32_or_default (of_nat f)) (sint n))) =
          (Inr report0 :: 'e xerr + _)"
      "res = SigNext" "report = (case elem of None \<Rightarrow> report0
          | Some (index, table) \<Rightarrow> report0\<lparr>ir_call_idx := i32_or_default index, ir_table_idx := Some table\<rparr>)"
      by (elim rbind_InrE rmap_InrE) (auto split: prod.splits)
    then show ?thesis
      by (auto simp: no_report_def elim!: rmap_InrE split: option.splits)
  qed
qed

lemma debugger_interceptor_simps [simp]:
  "ic_invoke_func (debugger_interceptor de) = invoke_func de"
  "ic_pop_frame (debugger_interceptor de) = pop_frame"
  "ic_execute_inst (debugger_interceptor de) = execute_inst"
  "ic_import_func_len (debugger_interceptor de) = get_import_func_len"
  by (simp_all add: debugger_interceptor_def)

lemma step_invoke_cases:
  assumes "step_invoke (debugger_interceptor de) report ex d = Inr (call, d2)"
  shows "(ir_call_idx report = -1 \<and> call = SigNext \<and> d2 = d) \<or>
    (ir_call_idx report \<noteq> -1 \<and> (\<exists>i. d2 = d\<lparr>dg_invoked_func_index := dg_invoked_func_index d @ [i]\<rparr> \<and>
      call = (if breaks_at d i then SigBreakpoint else SigNext)))"
  using assms
  by (auto simp: step_invoke_def invoke_func_def breaks_at_def
      elim!: rbind_InrE split: if_splits option.splits)

definition is_return :: "instruction \<Rightarrow> bool" where
  "is_return i = (case i of IRet r \<Rightarrow> True | _ \<Rightarrow> False)"

text \<open>The calls that a step records: those of a function of the module, and indirect ones that return.\<close>

definition records_call :: "instruction \<Rightarrow> bool" where
  "records_call i = (case i of
      ICl (ICallInternal0 _ _) \<Rightarrow> True | ICl (ICallInternal _ _) \<Rightarrow> True
    | ICl (ICallIndirect0 _ _) \<Rightarrow> True | ICl (ICallIndirect0Imm16 _ _) \<Rightarrow> True
    | ICl (ICallIndirect _ _) \<Rightarrow> True | ICl (ICallIndirectImm16 _ _) \<Rightarrow> True
    | _ \<Rightarrow> False)"

lemma exec_plain_element:
  assumes "exec_plain env i ex = Inr (elem, ex')"
  shows "(internal_callee i \<noteq> None \<longrightarrow> elem = None) \<and> (records_call i \<longleftrightarrow> internal_callee i \<noteq> None \<or> elem \<noteq> None)"
proof (cases "\<exists>c. i = ICl c")
  case True
  then obtain c where "i = ICl c" by blast
  then show ?thesis using assms
    by (cases c) (auto simp: exec_plain_def internal_callee_def records_call_def rsimps)
next
  case False
  then have "elem = None \<and> internal_callee i = None \<and> \<not> records_call i" using assms
    by (cases i) (auto simp: exec_plain_def internal_callee_def records_call_def rsimps)
  then show ?thesis by simp
qed

lemma execute_instr_call:
  fixes env :: "('h, 'e) exec_env"
  assumes e: "execute_instr env n ex = Inr (res, report, ex')" and i: "fetch_instr env (ex_ip ex) = (Inr i :: 'e xerr + _)"
    and n: "0 \<le> sint n"
  shows "(ir_call_idx report \<noteq> -1 \<longleftrightarrow> records_call i) \<and>
    (\<forall>f. internal_callee i = Some f \<and> f < 2 ^ 31 \<longrightarrow>
      ir_call_idx report = int f + sint n \<and> ir_table_idx report = None)"
proof (cases "is_return i")
  case True
  then obtain r where r: "i = IRet r" by (auto simp: is_return_def split: instruction.splits)
  then show ?thesis using e i
    by (cases "cs_is_empty (st_calls (ex_stack ex))")
      (auto simp: execute_instr_def forward_return_dbg_def Let_def no_report_def records_call_def internal_callee_def rsimps)
next
  case False
  then have "execute_instr env n ex = rbind (case internal_callee i of
        None \<Rightarrow> Inr no_report
      | Some f \<Rightarrow> rmap (\<lambda>c. no_report\<lparr>ir_call_idx := c\<rparr>) (add_i32 (i32_or_default (of_nat f)) (sint n))) (\<lambda>report.
    rmap (\<lambda>(elem, ex'). (SigNext, (case elem of None \<Rightarrow> report
        | Some (index, table) \<Rightarrow> report\<lparr>ir_call_idx := i32_or_default index, ir_table_idx := Some table\<rparr>), ex'))
      (exec_plain env i ex))"
    using i by (cases i) (simp_all add: execute_instr_def is_return_def)
  with e obtain report0 elem where r0: "(case internal_callee i of
        None \<Rightarrow> Inr no_report
      | Some f \<Rightarrow> rmap (\<lambda>c. no_report\<lparr>ir_call_idx := c\<rparr>) (add_i32 (i32_or_default (of_nat f)) (sint n))) =
        (Inr report0 :: 'e xerr + _)"
    and x: "exec_plain env i ex = Inr (elem, ex')"
    and r: "report = (case elem of None \<Rightarrow> report0
        | Some (index, table) \<Rightarrow> report0\<lparr>ir_call_idx := i32_or_default index, ir_table_idx := Some table\<rparr>)"
    by (auto elim!: rbind_InrE rmap_InrE)
  have pos: "0 \<le> i32_or_default v" for v by (simp add: i32_or_default_def)
  then have ne: "i32_or_default v \<noteq> -1" for v by (smt (verit))
  have add: "add_i32 a b = (Inr c :: 'e xerr + _) \<Longrightarrow> c = a + b" for a b c
    by (auto simp: add_i32_def split: if_splits)
  have small: "f < 2 ^ 31 \<Longrightarrow> i32_or_default (of_nat f) = int f" for f
    by (simp add: i32_or_default_def uint_nat unat_of_nat take_bit_nat_eq_self)
  note el = exec_plain_element [OF x]
  show ?thesis
  proof (cases "internal_callee i")
    case None
    then show ?thesis using r0 r el ne by (cases elem) (auto simp: no_report_def)
  next
    case (Some f)
    then have "elem = None" using el by simp
    then have "ir_call_idx report = i32_or_default (of_nat f) + sint n" "ir_table_idx report = None"
      using r r0 Some add by (auto simp: no_report_def elim!: rmap_InrE)
    then show ?thesis using Some el pos [of "of_nat f"] n small [of f] by auto
  qed
qed

lemma step_invoke_direct:
  assumes "step_invoke (debugger_interceptor de) report ex d = Inr (call, d2)"
    "ir_call_idx report \<noteq> -1" "ir_table_idx report = None"
  shows "dg_invoked_func_index d2 = dg_invoked_func_index d @ [word_of_int (ir_call_idx report)]"
  using assms by (auto simp: step_invoke_def invoke_func_def rsimps)

text \<open>
  C5. A step stops at a breakpoint exactly when it does not end the program and either interrupts it
  at an instruction of the first file, which happens once, or records a function that has a breakpoint
  in the list of invoked functions. As long as the number of imported functions fits into 31 bits, the
  calls that are recorded are those of a function of the module and indirect ones; calls of imported
  functions and tail calls are not recorded and stop at no breakpoint. A direct call is recorded under
  the number of its function behind the imported ones.
\<close>
theorem breakpoint_signal_exact:
  fixes de :: "('h, 'e) debug_env"
  assumes "exec_step de d = Inr (sig, d')" "executor d = (Inr ex :: 'e dbg_error + _)"
    and "fetch_word (de_env de) (ex_ip ex) = (Inr w :: 'e xerr + _)"
    and "dg_instance d = Some inst"
  shows "(sig = SigBreakpoint \<longleftrightarrow> sig \<noteq> SigEnd \<and> (interrupts_at d (iw_offset w) \<or>
      (\<exists>i. dg_invoked_func_index d' = dg_invoked_func_index d @ [i] \<and> breaks_at d i))) \<and>
    dg_is_interrupted d' = (dg_is_interrupted d \<and> \<not> interrupts_at d (iw_offset w)) \<and>
    (0 \<le> sint (iw_import_func_len inst) \<longrightarrow>
      ((\<exists>i. dg_invoked_func_index d' = dg_invoked_func_index d @ [i]) \<longleftrightarrow> records_call (iw_instr w)) \<and>
      (\<forall>f. internal_callee (iw_instr w) = Some f \<and> f < 2 ^ 31 \<longrightarrow>
        dg_invoked_func_index d' = dg_invoked_func_index d @ [of_nat f + iw_import_func_len inst]))"
proof -
  let ?ic = "debugger_interceptor de"
  obtain ex' d1 where st: "execute_step (de_env de) ?ic (ex, d) = Inr (sig, ex', d1)"
    and d': "d' = put_executor ex' d1"
    using assms(1,2) by (auto simp: exec_step_def rsimps)
  have n: "get_import_func_len (snd (execute_inst v d)) = (Inr (iw_import_func_len inst) :: 'e xerr + _)" for v
    using assms(4) by (simp add: get_import_func_len_def execute_inst_def)
  obtain res report call d2 where
    e: "execute_instr (de_env de) (iw_import_func_len inst) ex = Inr (res, report, ex')"
    and s: "step_invoke ?ic report ex' (snd (execute_inst (iw_offset w) d)) = Inr (call, d2)"
    and sig: "sig = combine_signals (fst (execute_inst (iw_offset w) d)) call res"
    and "d1 = (if ir_is_pop_frame report then ic_pop_frame ?ic d2 else d2)"
    using assms(3) n by (rule_tac execute_step_parts [OF st]) (auto split: prod.splits)
  then have d1: "d1 = (if ir_is_pop_frame report then pop_frame d2 else d2)" by (cases "ir_is_pop_frame report") auto
  note r = execute_instr_report [OF e]
  have i: "execute_inst (iw_offset w) d =
      (if interrupts_at d (iw_offset w) then (SigBreakpoint, d\<lparr>dg_is_interrupted := False\<rparr>) else (SigNext, d))"
    by (simp add: execute_inst_def interrupts_at_def)
  have b: "breaks_at (snd (execute_inst (iw_offset w) d)) j = breaks_at d j" for j
    by (cases "interrupts_at d (iw_offset w)") (simp_all add: i breaks_at_def get_func_name_by_idx_def split: option.split)
  have inv: "dg_invoked_func_index (snd (execute_inst (iw_offset w) d)) = dg_invoked_func_index d"
    "dg_is_interrupted (snd (execute_inst (iw_offset w) d)) = (dg_is_interrupted d \<and> \<not> interrupts_at d (iw_offset w))"
    by (auto simp: execute_inst_def interrupts_at_def)
  have butlast: "butlast xs \<noteq> xs @ [j]" for xs :: "u32 list" and j
  proof
    assume "butlast xs = xs @ [j]"
    then have "length (butlast xs) = length (xs @ [j])" by simp
    then show False by simp
  qed
  have flag: "dg_is_interrupted d' = (dg_is_interrupted d \<and> \<not> interrupts_at d (iw_offset w))"
    using step_invoke_cases [OF s] d1 d' inv(2) by (auto simp: put_executor_def pop_frame_def)
  have c: "sig = SigBreakpoint \<longleftrightarrow> sig \<noteq> SigEnd \<and> (interrupts_at d (iw_offset w) \<or> call = SigBreakpoint)"
    using r sig i by (cases res; cases call) (auto simp: combine_signals_def)
  have "call = SigBreakpoint \<longleftrightarrow> (\<exists>i. dg_invoked_func_index d' = dg_invoked_func_index d @ [i] \<and> breaks_at d i)"
    using step_invoke_cases [OF s] r d1 d' inv(1) b butlast
    by (auto simp: put_executor_def pop_frame_def split: if_splits)
  moreover have i: "fetch_instr (de_env de) (ex_ip ex) = (Inr (iw_instr w) :: 'e xerr + _)"
    using assms(3) by (simp add: fetch_instr_def)
  note call = execute_instr_call [OF e i]
  have "(\<exists>i. dg_invoked_func_index d' = dg_invoked_func_index d @ [i]) \<longleftrightarrow> records_call (iw_instr w)"
    if "0 \<le> sint (iw_import_func_len inst)"
    using call [OF that] step_invoke_cases [OF s] r d1 d' inv(1) butlast
    by (auto simp: put_executor_def pop_frame_def split: if_splits)
  moreover have "dg_invoked_func_index d' = dg_invoked_func_index d @ [of_nat f + iw_import_func_len inst]"
    if n: "0 \<le> sint (iw_import_func_len inst)" and f: "internal_callee (iw_instr w) = Some f" "f < 2 ^ 31" for f
  proof -
    have idx: "ir_call_idx report = int f + sint (iw_import_func_len inst)" "ir_table_idx report = None"
      using call [OF n] f by blast+
    then have ne: "ir_call_idx report \<noteq> -1" using n by simp
    have "\<not> ir_is_pop_frame report" using ne r by blast
    then show ?thesis using step_invoke_direct [OF s ne idx(2)] idx(1) d1 d' inv(1)
      by (simp add: put_executor_def)
  qed
  ultimately show ?thesis using c flag by blast
qed

definition demo_interrupted :: "bool \<Rightarrow> unit debugger \<Rightarrow> unit debugger" where
  "demo_interrupted b d = d\<lparr>dg_is_interrupted := b,
     dg_breakpoints := (dg_breakpoints d)\<lparr>bp_inst_in_file_0 := [0]\<rparr>\<rparr>"

lemma demo_interrupted_executor: "executor (demo_interrupted b (demo_running i v)) =
    (Inr ((demo_exec i v)\<lparr>ex_store := demo_wasm_store\<rparr>) :: unit dbg_error + _)"
  by (simp add: demo_interrupted_def demo_running_def executor_def put_executor_def get_stack_def get_store_def
      demo_exec_def)

lemma demo_interrupted_step:
  "exec_step demo_debug_env (demo_interrupted True (demo_running 0 0)) =
    Inr (SigBreakpoint, demo_interrupted False (demo_running 1 7))"
proof -
  have inst: "execute_inst 0 (demo_interrupted True (demo_running 0 0)) =
      (SigBreakpoint, demo_interrupted False (demo_running 0 0))"
    by (simp add: execute_inst_def demo_interrupted_def)
  have imp: "get_import_func_len (demo_interrupted False (demo_running 0 0)) = (Inr 0 :: unit xerr + _)"
    by (simp add: get_import_func_len_def demo_running_def put_executor_def demo_debugger_def debugger_new_def
        demo_interrupted_def)
  have copy: "exec_plain demo_env (ICpy (ICopyImm 0 (AnyImm32 7))) ((demo_exec 0 0)\<lparr>ex_store := demo_wasm_store\<rparr>) =
      (Inr (None, (demo_exec 1 7)\<lparr>ex_store := demo_wasm_store\<rparr>) :: unit xerr + _)"
    by (simp add: exec_plain_def demo_exec_def demo_env_def demo_env_of_def exec_copy_impl_def set_register_def
        set_register_at_def reg_set_at_def frame_set_def register_offset_def next_instr_def next_instr_at_def
        ip_add_def of_i32_def)
  have ip: "ex_ip (demo_exec 0 0) = \<lparr>ip_func = 0, ip_index = 0\<rparr>" by (simp add: demo_exec_def)
  have env: "de_env demo_debug_env = demo_env" by (simp add: demo_debug_env_def)
  show ?thesis
    using inst imp copy
    by (simp add: exec_step_def demo_interrupted_executor execute_step_def execute_instr_def fetch_instr_def env
        ip demo_words internal_callee_def no_report_def step_invoke_def combine_signals_def)
      (simp add: demo_interrupted_def demo_running_def put_executor_def demo_exec_def)
qed

lemma breakpoint_signal_exact_witness:
  "interrupts_at (demo_interrupted True (demo_running 0 0)) 0 \<and>
    \<not> dg_is_interrupted (demo_interrupted False (demo_running 1 7))"
proof -
  have ip: "ex_ip ((demo_exec 0 0)\<lparr>ex_store := demo_wasm_store\<rparr>) = \<lparr>ip_func = 0, ip_index = 0\<rparr>"
    by (simp add: demo_exec_def)
  have w: "fetch_word (de_env demo_debug_env) (ex_ip ((demo_exec 0 0)\<lparr>ex_store := demo_wasm_store\<rparr>)) =
      (Inr \<lparr>iw_offset = 0, iw_instr = ICpy (ICopyImm 0 (AnyImm32 7))\<rparr> :: unit xerr + _)"
    unfolding ip by (simp add: demo_words demo_debug_env_def)
  have "dg_invoked_func_index (demo_interrupted False (demo_running 1 7)) =
      dg_invoked_func_index (demo_interrupted True (demo_running 0 0))"
    by (simp add: demo_interrupted_def demo_running_def)
  moreover obtain inst where "dg_instance (demo_interrupted True (demo_running 0 0)) = Some inst"
    by (simp add: demo_interrupted_def demo_running_def put_executor_def demo_debugger_def)
  ultimately show ?thesis
    using breakpoint_signal_exact [OF demo_interrupted_step demo_interrupted_executor w] by auto
qed


section \<open>The list of invoked functions\<close>

lemma execute_instr_pops:
  fixes env :: "('h, 'e) exec_env"
  assumes "execute_instr env n ex = Inr (res, report, ex')" "fetch_instr env (ex_ip ex) = (Inr i :: 'e xerr + _)"
  shows "ir_is_pop_frame report = is_return i"
proof (cases "is_return i")
  case True
  then obtain r where r: "i = IRet r" by (auto simp: is_return_def split: instruction.splits)
  show ?thesis
    using assms True r by (cases "cs_is_empty (st_calls (ex_stack ex))")
      (auto simp: execute_instr_def forward_return_dbg_def Let_def no_report_def rsimps)
next
  case False
  then have e: "execute_instr env n ex = rbind (case internal_callee i of
        None \<Rightarrow> Inr no_report
      | Some f \<Rightarrow> rmap (\<lambda>c. no_report\<lparr>ir_call_idx := c\<rparr>) (add_i32 (i32_or_default (of_nat f)) (sint n))) (\<lambda>report.
    rmap (\<lambda>(elem, ex'). (SigNext, (case elem of None \<Rightarrow> report
        | Some (index, table) \<Rightarrow> report\<lparr>ir_call_idx := i32_or_default index, ir_table_idx := Some table\<rparr>), ex'))
      (exec_plain env i ex))"
    using assms(2) by (cases i) (simp_all add: execute_instr_def is_return_def)
  show ?thesis
    using assms(1) [unfolded e] False
    by (auto simp: no_report_def elim!: rbind_InrE rmap_InrE split: option.splits)
qed

text \<open>The condition of a conditional return.\<close>

definition return_condition :: "return_instr \<Rightarrow> reg option" where
  "return_condition r = (case r of
      IReturnNez c \<Rightarrow> Some c | IReturnNezReg c _ \<Rightarrow> Some c | IReturnNezReg2 c _ _ \<Rightarrow> Some c
    | IReturnNezImm c _ \<Rightarrow> Some c | IReturnNezSpan c _ \<Rightarrow> Some c | IReturnNezMany c _ _ \<Rightarrow> Some c
    | _ \<Rightarrow> None)"

lemma return_not_taken:
  fixes env :: "('h, 'e) exec_env"
  assumes "exec_return env r ex = Inr (flow, ex')" "return_condition r = Some c"
    "get_register ex c = (Inr v :: 'e xerr + _)" "\<not> to_bool v"
  shows "flow = Continue \<and> ex_stack ex' = ex_stack ex"
  using assms
  by (cases r) (auto simp: return_condition_def exec_return_nez_impl_def exec_return_nez_many_def Let_def
      next_instr_def next_instr_at_def rsimps)

text \<open>
  C36. Only the invoked-function list of a return instruction shrinks: a step of any other instruction
  leaves the list or appends one function. Each of the six conditional return instructions shortens
  it even when its condition is false, where all frames stay on the call stack.
\<close>
theorem invoked_functions_after_step:
  fixes de :: "('h, 'e) debug_env"
  assumes "exec_step de d = Inr (sig, d')" "executor d = (Inr ex :: 'e dbg_error + _)"
    and "fetch_instr (de_env de) (ex_ip ex) = (Inr i :: 'e xerr + _)"
  shows "(if is_return i then dg_invoked_func_index d' = butlast (dg_invoked_func_index d)
      else dg_invoked_func_index d' = dg_invoked_func_index d \<or>
        (\<exists>j. dg_invoked_func_index d' = dg_invoked_func_index d @ [j])) \<and>
    (\<forall>r c v. i = IRet r \<and> return_condition r = Some c \<and> get_register ex c = (Inr v :: 'e xerr + _) \<and> \<not> to_bool v \<longrightarrow>
      (\<exists>ex'. executor d' = (Inr ex' :: 'e dbg_error + _) \<and> ex_stack ex' = ex_stack ex))"
proof -
  let ?ic = "debugger_interceptor de"
  obtain ex' d1 where st: "execute_step (de_env de) ?ic (ex, d) = Inr (sig, ex', d1)"
    and d': "d' = put_executor ex' d1"
    using assms(1,2) by (auto simp: exec_step_def rsimps)
  obtain w n res report call d2 where
    e: "execute_instr (de_env de) n ex = Inr (res, report, ex')"
    and s: "step_invoke ?ic report ex' (snd (execute_inst w d)) = Inr (call, d2)"
    and "d1 = (if ir_is_pop_frame report then ic_pop_frame ?ic d2 else d2)"
    by (rule execute_step_parts [OF st]) auto
  then have d1: "d1 = (if is_return i then pop_frame d2 else d2)"
    using execute_instr_pops [OF e assms(3)] by (cases "ir_is_pop_frame report") auto
  have inv: "dg_invoked_func_index (snd (execute_inst w d)) = dg_invoked_func_index d"
    by (simp add: execute_inst_def)
  have list: "if is_return i then dg_invoked_func_index d' = butlast (dg_invoked_func_index d)
      else dg_invoked_func_index d' = dg_invoked_func_index d \<or>
        (\<exists>j. dg_invoked_func_index d' = dg_invoked_func_index d @ [j])"
    using step_invoke_cases [OF s] execute_instr_report [OF e] execute_instr_pops [OF e assms(3)] inv d1 d'
    by (cases "is_return i") (auto simp: put_executor_def pop_frame_def)
  have "ex_stack ex' = ex_stack ex"
    if "i = IRet r" "return_condition r = Some c" "get_register ex c = (Inr v :: 'e xerr + _)" "\<not> to_bool v" for r c v
    using that(1) e assms(3) return_not_taken [OF _ that(2-4)]
    by (auto simp: execute_instr_def forward_return_dbg_def Let_def rsimps split: if_splits)
  moreover have "executor d' = (Inr ex' :: 'e dbg_error + _)"
    by (simp add: d' executor_def put_executor_def get_stack_def get_store_def)
  ultimately show ?thesis using list by blast
qed

text \<open>A function whose first instruction is a conditional return, on a register that holds zero.\<close>

definition demo_return_env :: "(unit, unit) debug_env" where
  "demo_return_env = demo_debug_env\<lparr>de_env := demo_env_of [IRet (IReturnNezReg 0 0), IRet (IReturnReg 0)]\<rparr>"

definition demo_not_returned :: "unit debugger" where
  "demo_not_returned = (demo_running 1 0)\<lparr>dg_invoked_func_index := []\<rparr>"

lemma demo_return_fetch:
  "fetch_word (de_env demo_return_env) (ex_ip ((demo_exec 0 0)\<lparr>ex_store := demo_wasm_store\<rparr>)) =
    (Inr \<lparr>iw_offset = 0, iw_instr = IRet (IReturnNezReg 0 0)\<rparr> :: unit xerr + _)"
  by (simp add: demo_exec_def fetch_word_def demo_return_env_def demo_env_of_def)

lemma demo_return_condition:
  "get_register ((demo_exec 0 0)\<lparr>ex_store := demo_wasm_store\<rparr>) 0 = (Inr 0 :: unit xerr + _)" "\<not> to_bool 0"
  by (simp_all add: demo_exec_def demo_frame_def get_register_def reg_get_def frame_get_def register_offset_def to_bool_def)

lemma demo_return_step: "exec_step demo_return_env (demo_running 0 0) = Inr (SigNext, demo_not_returned)"
proof -
  have inst: "execute_inst 0 (demo_running 0 0) = (SigNext, demo_running 0 0)"
    by (simp add: execute_inst_def demo_running_def put_executor_def demo_debugger_def debugger_new_def breakpoints_default_def)
  have imp: "get_import_func_len (demo_running 0 0) = (Inr 0 :: unit xerr + _)"
    by (simp add: get_import_func_len_def demo_running_def put_executor_def demo_debugger_def debugger_new_def)
  have ne: "\<not> cs_is_empty (st_calls (ex_stack ((demo_exec 0 0)\<lparr>ex_store := demo_wasm_store\<rparr>)))"
    by (simp add: cs_is_empty_def demo_exec_def)
  have ret: "exec_return (de_env demo_return_env) (IReturnNezReg 0 0) ((demo_exec 0 0)\<lparr>ex_store := demo_wasm_store\<rparr>) =
      (Inr (Continue, (demo_exec 1 0)\<lparr>ex_store := demo_wasm_store\<rparr>) :: unit xerr + _)"
    using demo_return_condition
    by (simp add: exec_return_nez_impl_def) (simp add: next_instr_def next_instr_at_def ip_add_def demo_exec_def)
  show ?thesis
    using inst imp ret ne demo_return_fetch
    by (simp add: exec_step_def demo_executor execute_step_def execute_instr_def fetch_instr_def
        forward_return_dbg_def no_report_def step_invoke_def combine_signals_def)
      (simp add: demo_running_def demo_not_returned_def put_executor_def demo_exec_def pop_frame_def)
qed

lemma invoked_functions_after_step_witness:
  "dg_invoked_func_index (demo_running 0 0) = [0] \<and> dg_invoked_func_index demo_not_returned = [] \<and>
    (\<exists>ex'. executor demo_not_returned = (Inr ex' :: unit dbg_error + _) \<and> ex_stack ex' = ex_stack (demo_exec 0 0))"
proof -
  have w: "fetch_instr (de_env demo_return_env) (ex_ip ((demo_exec 0 0)\<lparr>ex_store := demo_wasm_store\<rparr>)) =
      (Inr (IRet (IReturnNezReg 0 0)) :: unit xerr + _)"
    using demo_return_fetch by (simp add: fetch_instr_def)
  have "dg_invoked_func_index (demo_running 0 0) = [0]" by (simp add: demo_running_def)
  then show ?thesis
    using invoked_functions_after_step [OF demo_return_step demo_executor w] demo_return_condition
    by (simp add: is_return_def return_condition_def)
qed


section \<open>Steps of source lines\<close>

text \<open>Where the debugger stands, by the source map: on a line, on another one, or on none that is known.\<close>

definition on_other_line :: "('h, 'e) debug_env \<Rightarrow> any_source_map \<Rightarrow> line_info \<Rightarrow> 'h debugger \<Rightarrow> bool" where
  "on_other_line de m l d \<longleftrightarrow> (\<exists>offset k. selected_instr_offset de d = (Inr (Some offset) :: 'e dbg_error + _) \<and>
    find_line m offset = Some k \<and> (li_filepath k \<noteq> li_filepath l \<or> li_line k \<noteq> li_line l))"

definition on_line_or_none :: "('h, 'e) debug_env \<Rightarrow> any_source_map \<Rightarrow> line_info \<Rightarrow> 'h debugger \<Rightarrow> bool" where
  "on_line_or_none de m l d \<longleftrightarrow> (\<exists>offset. selected_instr_offset de d = (Inr offset :: 'e dbg_error + _) \<and>
    (\<forall>a k. offset = Some a \<and> find_line m a = Some k \<longrightarrow> li_filepath k = li_filepath l \<and> li_line k = li_line l))"

text \<open>A run of the debugger: the results and the states of successive instruction steps.\<close>

primrec dbg_run :: "('h, 'e) debug_env \<Rightarrow> step_style \<Rightarrow> 'h debugger \<Rightarrow> (run_result \<times> 'h debugger) list \<Rightarrow> bool" where
  "dbg_run de style d [] = True"
| "dbg_run de style d (x # run) = (dbg_step de style d = Some (Inr x) \<and> dbg_run de style (snd x) run)"

definition is_finish :: "run_result \<Rightarrow> bool" where
  "is_finish r = (case r of RunFinish _ \<Rightarrow> True | _ \<Rightarrow> False)"

text \<open>A run that leaves a line, or the program, with its last step.\<close>

definition leaving_run :: "('h, 'e) debug_env \<Rightarrow> any_source_map \<Rightarrow> step_style \<Rightarrow> line_info \<Rightarrow> 'h debugger
    \<Rightarrow> (run_result \<times> 'h debugger) list \<Rightarrow> bool" where
  "leaving_run de m style l d run \<longleftrightarrow> run \<noteq> [] \<and> dbg_run de style d run \<and>
    list_all (\<lambda>(r, d). \<not> is_finish r \<and> on_line_or_none de m l d) (butlast run) \<and>
    (is_finish (fst (last run)) \<or> on_other_line de m l (snd (last run)))"

lemma line_after_step:
  fixes de :: "('h, 'e) debug_env"
  shows "on_line_or_none de m l d \<longleftrightarrow> (\<exists>info. next_line_info de m d = (Inr info :: 'e dbg_error + _) \<and> same_line l info)"
    "on_other_line de m l d \<longleftrightarrow> (\<exists>info. next_line_info de m d = (Inr info :: 'e dbg_error + _) \<and> \<not> same_line l info)"
  by (cases "selected_instr_offset de d :: 'e dbg_error + _";
      auto simp: on_line_or_none_def on_other_line_def next_line_info_def same_line_def split: option.splits Option.bind_splits)+

lemma step_lines_unfold:
  "step_lines de m style l d =
    (case dbg_step de style d of
       None \<Rightarrow> None
     | Some (Inl e) \<Rightarrow> Some (Inl e)
     | Some (Inr (r, d')) \<Rightarrow>
         if is_finish r then Some (Inr (r, d'))
         else (case next_line_info de m d' of
            Inl e \<Rightarrow> Some (Inl e)
          | Inr info \<Rightarrow> if same_line l info then step_lines de m style l d' else Some (Inr (r, d'))))"
  by (subst step_lines.simps) (auto simp: is_finish_def split: option.splits sum.splits run_result.splits)

lemma step_lines_of_run:
  "leaving_run de m style l d run \<Longrightarrow> step_lines de m style l d = Some (Inr (last run))"
proof (induction run arbitrary: d)
  case (Cons x run)
  obtain r d1 where x: "x = (r, d1)" by force
  have st: "dbg_step de style d = Some (Inr (r, d1))" using Cons.prems x by (simp add: leaving_run_def)
  show ?case
  proof (cases "run = []")
    case True
    then show ?thesis using Cons.prems x st line_after_step(2) [of de m l d1]
      by (subst step_lines_unfold) (auto simp: leaving_run_def)
  next
    case False
    then have "leaving_run de m style l d1 run" "\<not> is_finish r" "on_line_or_none de m l d1"
      using Cons.prems x by (auto simp: leaving_run_def)
    then show ?thesis using Cons.IH [of d1] x st False line_after_step(1) [of de m l d1]
      by (subst step_lines_unfold) auto
  qed
qed (simp add: leaving_run_def)

lemma run_of_step_lines:
  fixes de :: "('h, 'e) debug_env"
  assumes "step_lines de m style l d = Some res"
  shows "\<forall>x. res = Inr x \<longrightarrow> (\<exists>run. leaving_run de m style l d run \<and> last run = x)"
proof (rule step_lines.raw_induct [where P = "\<lambda>de m style l d res. \<forall>x. res = Inr x \<longrightarrow>
      (\<exists>run. leaving_run de m style l d run \<and> last run = x)", OF _ assms], intro allI impI)
  fix go_on :: "('h, 'e) debug_env \<Rightarrow> any_source_map \<Rightarrow> step_style \<Rightarrow> line_info \<Rightarrow> 'h debugger
      \<Rightarrow> ('e dbg_error + run_result \<times> 'h debugger) option"
    and de :: "('h, 'e) debug_env" and m style l d res x
  assume IH: "\<And>de m style l d res. go_on de m style l d = Some res \<Longrightarrow>
      \<forall>x. res = Inr x \<longrightarrow> (\<exists>run. leaving_run de m style l d run \<and> last run = x)"
    and res: "res = Inr x"
    and eq: "(case dbg_step de style d of
       None \<Rightarrow> None
     | Some (Inl e) \<Rightarrow> Some (Inl e)
     | Some (Inr (RunFinish rs, d')) \<Rightarrow> Some (Inr (RunFinish rs, d'))
     | Some (Inr (r, d')) \<Rightarrow>
         (case next_line_info de m d' of
            Inl e \<Rightarrow> Some (Inl e)
          | Inr info \<Rightarrow> if same_line l info then go_on de m style l d' else Some (Inr (r, d')))) = Some res"
  obtain r1 d1 where s: "dbg_step de style d = Some (Inr (r1, d1))"
    using eq res by (auto split: option.splits sum.splits)
  show "\<exists>run. leaving_run de m style l d run \<and> last run = x"
  proof (cases "is_finish r1 \<or> on_other_line de m l d1")
    case True
    then have "x = (r1, d1)" using eq res s line_after_step(2) [of de m l d1]
      by (cases r1) (auto simp: is_finish_def)
    then have "leaving_run de m style l d [x]" using True s by (simp add: leaving_run_def)
    then show ?thesis by (intro exI [of _ "[x]"]) simp
  next
    case False
    then obtain info where i: "next_line_info de m d1 = Inr info" "same_line l info" "\<not> is_finish r1"
      using eq res s line_after_step(2) [of de m l d1]
      by (cases r1; cases "next_line_info de m d1") (auto simp: is_finish_def)
    then have "go_on de m style l d1 = Some (Inr x)" using eq res s by (cases r1) (auto simp: is_finish_def)
    then obtain run where run: "leaving_run de m style l d1 run" "last run = x" using IH by blast
    have "leaving_run de m style l d ((r1, d1) # run)"
      using run s i line_after_step(1) [of de m l d1] by (auto simp: leaving_run_def)
    then show ?thesis using run by (intro exI [of _ "(r1, d1) # run"]) (auto simp: leaving_run_def)
  qed
qed

text \<open>
  C35. A source-level step makes the shortest run of instruction steps, at least one, after which the
  program has finished or the source map gives for the current instruction another file or another
  line than those of the beginning. Places without a line count as the same line. The step ends with
  the result of the last instruction step; what the steps before it reported, such as a breakpoint
  that was hit, is dropped.
\<close>
theorem source_step_exact:
  fixes de :: "('h, 'e) debug_env"
  shows "step_lines de m style l d = Some (Inr x) \<longleftrightarrow>
    (\<exists>run. run \<noteq> [] \<and> last run = x \<and> dbg_run de style d run \<and>
      (\<forall>(r, d1) \<in> set (butlast run). \<not> is_finish r \<and> on_line_or_none de m l d1) \<and>
      (is_finish (fst x) \<or> on_other_line de m l (snd x)))"
proof -
  have "step_lines de m style l d = Some (Inr x) \<longleftrightarrow> (\<exists>run. leaving_run de m style l d run \<and> last run = x)"
    using run_of_step_lines [of de m style l d "Inr x"] step_lines_of_run [of de m style l d] by fastforce
  then show ?thesis by (auto simp: leaving_run_def list_all_iff)
qed

text \<open>
  A line table with one row. From its line, the step runs to the end of the program; from the same line
  of another file, it stops after one instruction.
\<close>

definition demo_line :: "string \<Rightarrow> line_info" where
  "demo_line file = \<lparr>li_filepath = file, li_line = Some 1, li_column = LeftEdge\<rparr>"

definition demo_lines :: any_source_map where
  "demo_lines = DwarfMap \<lparr>dm_address_sorted_rows = [(0, demo_line ''main.mo'')], dm_inst_in_file_0 = [],
     dm_directory_map = []\<rparr>"

lemma demo_find_line: "find_line demo_lines 0 = Some (demo_line ''main.mo'')"
  by (simp add: find_line_def demo_lines_def find_line_info_def binary_search_by_key_def
      get_at_def map_directories_def demo_line_def)

lemma source_step_exact_witness:
  "step_lines demo_debug_env demo_lines InstIn (demo_line ''main.mo'') (demo_running 0 0) =
      Some (Inr (RunFinish [ValI32 7], demo_ended)) \<and>
    step_lines demo_debug_env demo_lines InstIn (demo_line ''other.mo'') (demo_running 0 0) =
      Some (Inr (RunNext, demo_running 1 7))"
proof -
  have store: "get_store (demo_running i v) = (Inr demo_wasm_store :: unit dbg_error + _)" for i v
    by (simp add: get_store_def demo_running_def put_executor_def)
  have s: "dbg_step demo_debug_env InstIn (demo_running 0 0) = Some (Inr (RunNext, demo_running 1 7))"
    "dbg_step demo_debug_env InstIn (demo_running 1 7) = Some (Inr (RunFinish [ValI32 7], demo_ended))"
    using demo_steps demo_results by (simp_all add: dbg_step_def store demo_executor finish_def)
  have "ex_ip ((demo_exec 1 7)\<lparr>ex_store := demo_wasm_store\<rparr>) = \<lparr>ip_func = 0, ip_index = 1\<rparr>" by (simp add: demo_exec_def)
  then have o: "selected_instr_offset demo_debug_env (demo_running 1 7) = (Inr (Some 0) :: unit dbg_error + _)"
    using demo_words(2) by (simp add: selected_instr_offset_def demo_executor demo_debug_env_def lift_x_def)
  have l: "on_line_or_none demo_debug_env demo_lines (demo_line ''main.mo'') (demo_running 1 7)"
    "on_other_line demo_debug_env demo_lines (demo_line ''other.mo'') (demo_running 1 7)"
    using o demo_find_line by (simp_all add: on_line_or_none_def on_other_line_def) (simp add: demo_line_def)
  have "\<exists>run. run \<noteq> [] \<and> last run = (RunFinish [ValI32 7], demo_ended) \<and> dbg_run demo_debug_env InstIn (demo_running 0 0) run \<and>
      (\<forall>(r, d1) \<in> set (butlast run). \<not> is_finish r \<and> on_line_or_none demo_debug_env demo_lines (demo_line ''main.mo'') d1) \<and>
      (is_finish (fst (RunFinish [ValI32 7], demo_ended)) \<or>
        on_other_line demo_debug_env demo_lines (demo_line ''main.mo'') (snd (RunFinish [ValI32 7], demo_ended)))"
    using s l(1)
    by (intro exI [of _ "[(RunNext, demo_running 1 7), (RunFinish [ValI32 7], demo_ended)]"]) (simp add: is_finish_def)
  moreover have "\<exists>run. run \<noteq> [] \<and> last run = (RunNext, demo_running 1 7) \<and> dbg_run demo_debug_env InstIn (demo_running 0 0) run \<and>
      (\<forall>(r, d1) \<in> set (butlast run). \<not> is_finish r \<and> on_line_or_none demo_debug_env demo_lines (demo_line ''other.mo'') d1) \<and>
      (is_finish (fst (RunNext, demo_running 1 7)) \<or>
        on_other_line demo_debug_env demo_lines (demo_line ''other.mo'') (snd (RunNext, demo_running 1 7)))"
    using s l(2) by (intro exI [of _ "[(RunNext, demo_running 1 7)]"]) simp
  ultimately show ?thesis unfolding source_step_exact by blast
qed


section \<open>Aliases\<close>

definition command_word :: "string \<Rightarrow> bool" where
  "command_word w = (w \<noteq> [] \<and> (\<forall>c\<in>set w. \<not> is_whitespace c))"

lemma extract_command_name_word:
  assumes "command_word w"
  shows "extract_command_name (w @ '' '' @ s) = w" "extract_command_name w = w"
proof -
  have ws: "is_whitespace CHR '' ''" by (simp add: is_whitespace_def)
  have rev: "dropWhile is_whitespace (rev w) = rev w"
    using assms by (auto simp: command_word_def dropWhile_eq_self_iff hd_rev)
  have front: "dropWhile is_whitespace (w @ x) = w @ x" for x
    using assms by (cases w) (auto simp: command_word_def)
  have take: "takeWhile (\<lambda>c. \<not> is_whitespace c) (w @ x) = w" if "x = [] \<or> is_whitespace (hd x)" for x
    using assms that by (cases x) (auto simp: command_word_def takeWhile_append)
  show "extract_command_name w = w"
    using front [of "[]"] take [of "[]"] rev by (simp add: extract_command_name_def str_trim_def)
  have "dropWhile is_whitespace (rev s @ '' '' @ rev w) = (if \<forall>c\<in>set s. is_whitespace c then rev w
      else dropWhile is_whitespace (rev s) @ '' '' @ rev w)"
    using rev ws by (auto simp: dropWhile_append)
  then have "str_trim (w @ '' '' @ s) = w @ (if \<forall>c\<in>set s. is_whitespace c then []
      else '' '' @ rev (dropWhile is_whitespace (rev s)))"
    using front [of "'' '' @ s"] by (simp add: str_trim_def)
  then show "extract_command_name (w @ '' '' @ s) = w"
    using take ws by (simp add: extract_command_name_def)
qed

lemma command_names:
  "extract_command_name (''process launch '' @ s) = ''process''"
  "extract_command_name (''breakpoint '' @ s) = ''breakpoint''"
  "extract_command_name ''process launch init'' = ''process''"
  "extract_command_name ''thread backtrace'' = ''thread''"
  using extract_command_name_word(1) [of "''process''" "''launch '' @ s"]
    extract_command_name_word(1) [of "''breakpoint''" s]
    extract_command_name_word(1) [of "''process''" "''launch init''"]
    extract_command_name_word(1) [of "''thread''" "''backtrace''"]
  by (simp_all add: command_word_def is_whitespace_def)

lemma run_command_alias:
  "run_command de cl ''run'' args ss = None"
  "run_command de cl ''bt'' args ss = None"
  "run_command de cl ''bp'' args ss = None"
  "run_command de cl ''process'' args ss = Some (with_opts (cl_process cl args) ss (\<lambda>o1. process_command de cl o1 ss))"
  "run_command de cl ''thread'' args ss = Some (with_opts (cl_thread cl args) ss (\<lambda>o1. thread_command de cl o1 ss))"
  "run_command de cl ''breakpoint'' args ss =
    Some (with_opts (cl_breakpoint cl args) ss (\<lambda>o1. silently ss (breakpoint_command cl o1 ss)))"
  by (simp_all add: run_command_def)

text \<open>
  An alias runs the command it stands for and nothing else, after one expansion: \<open>run\<close> launches
  a process, by default with the function named \<open>init\<close>, \<open>bt\<close> shows the backtrace and \<open>bp\<close> is
  \<open>breakpoint\<close>.
\<close>
theorem aliases_run_commands:
  fixes de :: "('h, 'e) debug_env"
  assumes "cl_split cl line = Some args" "args \<noteq> []"
  shows "(extract_command_name line = ''run'' \<longrightarrow> dispatch_command de cl line ss =
      (case cl_split cl (if length args = 1 then ''process launch init''
          else ''process launch '' @ str_join '' '' (tl args)) of
         None \<Rightarrow> Some (Inl DbgMessage)
       | Some args' \<Rightarrow> with_opts (cl_process cl args') ss (\<lambda>o1. process_command de cl o1 ss))) \<and>
    (extract_command_name line = ''bt'' \<longrightarrow> dispatch_command de cl line ss =
      (case cl_split cl ''thread backtrace'' of
         None \<Rightarrow> Some (Inl DbgMessage)
       | Some args' \<Rightarrow> with_opts (cl_thread cl args') ss (\<lambda>o1. thread_command de cl o1 ss))) \<and>
    (extract_command_name line = ''bp'' \<longrightarrow> dispatch_command de cl line ss =
      (case cl_split cl (''breakpoint '' @ str_join '' '' (tl args)) of
         None \<Rightarrow> Some (Inl DbgMessage)
       | Some args' \<Rightarrow> with_opts (cl_breakpoint cl args') ss (\<lambda>o1. silently ss (breakpoint_command cl o1 ss))))"
proof -
  have once: "dispatch_command de cl line ss = dispatch_command de cl line' ss"
    if "extract_command_name line \<in> {''run'', ''bt'', ''bp''}"
      "run_alias (extract_command_name line) args = Some (Inr line' :: 'e dbg_error + _)" for line'
    using that assms by (subst dispatch_command.simps) (auto simp: run_command_alias Let_def)
  have direct: "dispatch_command de cl l ss = (case cl_split cl l of None \<Rightarrow> Some (Inl DbgMessage)
      | Some args \<Rightarrow> the (run_command de cl (extract_command_name l) args ss))"
    if "extract_command_name l \<in> {''process'', ''thread'', ''breakpoint''}" for l
    using that by (subst dispatch_command.simps) (auto simp: run_command_alias Let_def split: option.splits)
  have "dispatch_command de cl line ss = dispatch_command de cl (if length args = 1 then ''process launch init''
      else ''process launch '' @ str_join '' '' (tl args)) ss" if "extract_command_name line = ''run''"
    using once that assms(2) by (simp add: run_alias_def)
  moreover have "dispatch_command de cl line ss = dispatch_command de cl ''thread backtrace'' ss"
    if "extract_command_name line = ''bt''"
    using once that assms(2) by (simp add: run_alias_def)
  moreover have "dispatch_command de cl line ss = dispatch_command de cl (''breakpoint '' @ str_join '' '' (tl args)) ss"
    if "extract_command_name line = ''bp''"
    using once that assms(2) by (simp add: run_alias_def)
  ultimately show ?thesis
    by (intro conjI impI) (simp_all only: direct command_names run_command_alias insert_iff simp_thms option.sel if_distrib
      [of extract_command_name] if_cancel)
qed

definition demo_cli :: "(unit, unit) cli" where
  "demo_cli = \<lparr>cl_split = (\<lambda>line. Some (split_whitespace line)),
     cl_thread = (\<lambda>args. if args = [''thread'', ''backtrace''] then Some ThBacktrace else None),
     cl_process = (\<lambda>_. None), cl_breakpoint = (\<lambda>_. None), cl_frame = (\<lambda>_. None), cl_local = (\<lambda>_. None),
     cl_global = (\<lambda>_. None), cl_settings = (\<lambda>_. None), cl_file = (\<lambda>_. None), cl_parse_f32 = (\<lambda>_. None),
     cl_parse_f64 = (\<lambda>_. None), cl_answer = ''y'', cl_setup = (\<lambda>_. Inl DbgMessage), cl_bp_order = \<lparr>order_functions = (\<lambda>m. m), order_insts = (\<lambda>m. m)\<rparr>,
     cl_dirs_order = (\<lambda>m. m), cl_fuel = 0\<rparr>"

definition demo_session :: "unit session" where
  "demo_session = \<lparr>ss_debugger = demo_running 0 0, ss_source_map = EmptySourceMap, ss_printed = []\<rparr>"

lemma aliases_run_commands_witness:
  "dispatch_command demo_debug_env demo_cli ''bt now'' demo_session =
    Some (Inr (None, print_line ''0: main'' demo_session))"
proof -
  have s: "cl_split demo_cli ''bt now'' = Some [''bt'', ''now'']" "cl_split demo_cli ''thread backtrace'' = Some [''thread'', ''backtrace'']"
    by (simp_all add: demo_cli_def) (simp_all add: split_whitespace.simps [of "_ # _"] split_whitespace.simps [of "[]"] is_whitespace_def)
  have n: "extract_command_name ''bt now'' = ''bt''"
    using extract_command_name_word(1) [of "''bt''" "''now''"] by (simp add: command_word_def is_whitespace_def)
  have b: "backtrace (demo_running 0 0) = [''main'']"
    by (simp add: backtrace_def demo_running_def put_executor_def demo_debugger_def get_func_name_by_idx_def)
  have show_zero: "show_nat 0 = ''0''" by code_simp
  have "thread_command demo_debug_env demo_cli ThBacktrace demo_session =
      Some (Inr (None, print_line ''0: main'' demo_session))"
    using show_zero by (simp add: thread_command_def demo_session_def b)
  then show ?thesis
    using aliases_run_commands [OF s(1), of demo_debug_env demo_session] s n
    by (simp add: with_opts_def demo_cli_def)
qed

end
