(* ===== verification/Tr_Slots.thy ===== *)
theory Tr_Slots
  imports Ir_Primitives Reg_Span
begin

text \<open>
  The first parts of the translator from Wasm to the register code
  (\<open>wasmi/src/engine/translator\<close>): its errors, the pool of function local constants
  (\<open>stack/consts.rs\<close>) and the index \<open>LocalRefs\<close> of the positions of local variables on the
  emulated value stack (\<open>stack/locals.rs\<close>). A failed assertion or index is \<open>TPanic\<close>; assertions that
  only debug builds check are left out. An operation that mutates its object returns the new object;
  a failed translation is dropped as a whole, so an error carries no state.

  \<open>LocalRefs\<close> keeps one linked list per local variable in one vector, with a free list through the
  vacant entries. The lemmas of the second section show that it is a map from locals to the stack
  of their positions.
\<close>

named_theorems tr_simps \<open>unfolding of the translator's elementary operations\<close>

datatype translation_error =
    UnsupportedBlockType
  | UnsupportedValueType
  | BranchTableTargetsOutOfBounds
  | TrBranchOffsetOutOfBounds
  | TrBlockFuelOutOfBounds
  | AllocatedTooManyRegisters
  | TrRegisterOutOfBounds
  | EmulatedValueStackOverflow
  | ProviderSliceOverflow
  | TooManyFuncLocalConstValues
  | TooManyFunctionResults
  | TooManyFunctionParams
  | LazyCompilationFailed

datatype tr_error = TErr translation_error | TIr ir_error | TPanic


section \<open>Function local constants\<close>

text \<open>
  Constants have the registers \<open>-1\<close>, \<open>-2\<close> and so on. The map \<open>const2idx\<close> is only looked up.
\<close>

record func_local_consts =
  fc_const2idx :: "untyped_val \<Rightarrow> reg option"
  fc_idx2const :: "untyped_val list"
  fc_next_idx :: reg

definition consts_first_index :: reg where "consts_first_index = - 1"
definition consts_last_index :: reg where "consts_last_index = 0x8000"

definition consts_reset :: "func_local_consts \<Rightarrow> func_local_consts" where
  "consts_reset c = c\<lparr>fc_const2idx := (\<lambda>_. None), fc_idx2const := [], fc_next_idx := consts_first_index\<rparr>"

definition consts_len :: "func_local_consts \<Rightarrow> u16" where
  "consts_len c = word_of_int \<bar>sint (fc_next_idx c) - sint consts_first_index\<bar>"

definition consts_alloc :: "untyped_val \<Rightarrow> func_local_consts \<Rightarrow> tr_error + (reg \<times> func_local_consts)" where
  "consts_alloc value c =
    (if fc_next_idx c = consts_last_index then Inl (TErr TooManyFuncLocalConstValues)
     else case fc_const2idx c value of
       Some register \<Rightarrow> Inr (register, c)
     | None \<Rightarrow>
         let register = fc_next_idx c
         in Inr (register, c\<lparr>fc_next_idx := fc_next_idx c - 1,
                             fc_const2idx := (fc_const2idx c)(value \<mapsto> register),
                             fc_idx2const := fc_idx2const c @ [value]\<rparr>))"

definition consts_get :: "reg \<Rightarrow> func_local_consts \<Rightarrow> untyped_val option" where
  "consts_get register c =
    (if \<not> reg_is_const register then None
     else get_at (fc_idx2const c) (nat \<bar>sint (register + 1)\<bar>))"

definition consts_iter :: "func_local_consts \<Rightarrow> untyped_val list" where
  "consts_iter c = rev (fc_idx2const c)"

definition const_reg :: "nat \<Rightarrow> reg" where "const_reg i = - 1 - of_nat i"

definition consts_inv :: "func_local_consts \<Rightarrow> bool" where
  "consts_inv c \<longleftrightarrow>
    length (fc_idx2const c) < 2 ^ 15 \<and> distinct (fc_idx2const c) \<and>
    fc_next_idx c = const_reg (length (fc_idx2const c)) \<and>
    (\<forall>v r. fc_const2idx c v = Some r \<longleftrightarrow> (\<exists>i < length (fc_idx2const c). fc_idx2const c ! i = v \<and> r = const_reg i))"

lemma sint_const_reg: "i < 2 ^ 15 \<Longrightarrow> sint (const_reg i) = - 1 - int i"
proof -
  assume "i < 2 ^ 15"
  moreover have "const_reg i = word_of_int (- 1 - int i)" by (simp add: const_reg_def)
  ultimately show ?thesis
    using sint_of_range [where 'a = 16, of "- 1 - int i"] by simp
qed

lemma consts_inv_reset: "consts_inv (consts_reset c)"
  by (simp add: consts_inv_def consts_reset_def consts_first_index_def const_reg_def)

lemma consts_get_reg: "i < 2 ^ 15 \<Longrightarrow> consts_get (const_reg i) c = get_at (fc_idx2const c) i"
proof -
  assume i: "i < 2 ^ 15"
  have "sint (const_reg i + 1) = - int i"
  proof (cases i)
    case 0
    then show ?thesis by (simp add: const_reg_def)
  next
    case (Suc j)
    then have "const_reg i + 1 = const_reg j" by (simp add: const_reg_def)
    then show ?thesis using Suc i sint_const_reg [of j] by simp
  qed
  then show ?thesis using sint_const_reg [OF i] by (simp add: consts_get_def reg_is_const_def)
qed

lemma consts_get_Some:
  assumes "consts_inv c" "consts_get r c = Some v"
  shows "\<exists>i < length (fc_idx2const c). r = const_reg i \<and> fc_idx2const c ! i = v"
proof -
  from assms have neg: "sint r < 0" and i: "nat \<bar>sint (r + 1)\<bar> < length (fc_idx2const c)"
      "fc_idx2const c ! nat \<bar>sint (r + 1)\<bar> = v"
    by (auto simp: consts_get_def reg_is_const_def split: if_splits)
  have "r + 1 = word_of_int (sint r + 1)" by simp
  then have s: "sint (r + 1) = sint r + 1"
    using sint_of_range [where 'a = 16, of "sint r + 1"] neg sint_bounds(1) [of r] by simp
  then have n: "nat \<bar>sint (r + 1)\<bar> = nat (- 1 - sint r)" using neg by simp
  have "const_reg (nat (- 1 - sint r)) = word_of_int (- 1 - int (nat (- 1 - sint r)))"
    by (simp add: const_reg_def)
  also have "\<dots> = r" using neg by simp
  finally show ?thesis using i n by metis
qed

lemma consts_alloc_inv:
  assumes inv: "consts_inv c" and al: "consts_alloc v c = Inr (r, c')"
  shows "consts_inv c'" "consts_get r c' = Some v"
    "consts_get q c = Some x \<Longrightarrow> consts_get q c' = Some x"
    "prefix (fc_idx2const c) (fc_idx2const c')"
proof -
  let ?n = "length (fc_idx2const c)"
  have n: "?n < 2 ^ 15" using inv by (simp add: consts_inv_def)
  have "fc_next_idx c \<noteq> consts_last_index" using al by (auto simp: consts_alloc_def)
  moreover have "const_reg (2 ^ 15 - 1) = consts_last_index"
    by (simp add: const_reg_def consts_last_index_def)
  ultimately have n': "?n < 2 ^ 15 - 1" using inv n by (cases "?n = 2 ^ 15 - 1") (auto simp: consts_inv_def)
  show *: "consts_inv c'" "consts_get r c' = Some v" "prefix (fc_idx2const c) (fc_idx2const c')"
  proof (atomize (full), cases "fc_const2idx c v")
    case (Some r0)
    then have "c' = c" "r = r0" using al by (auto simp: consts_alloc_def split: if_splits)
    moreover from Some inv obtain i where "i < ?n" "fc_idx2const c ! i = v" "r0 = const_reg i"
      by (auto simp: consts_inv_def)
    ultimately show "consts_inv c' \<and> consts_get r c' = Some v \<and> prefix (fc_idx2const c) (fc_idx2const c')"
      using inv n by (simp add: consts_get_reg)
  next
    case None
    then have c': "c' = c\<lparr>fc_next_idx := fc_next_idx c - 1, fc_const2idx := (fc_const2idx c)(v \<mapsto> r),
        fc_idx2const := fc_idx2const c @ [v]\<rparr>" and r: "r = const_reg ?n"
      using al inv by (auto simp: consts_alloc_def consts_inv_def Let_def split: if_splits)
    have fresh: "v \<notin> set (fc_idx2const c)"
    proof
      assume "v \<in> set (fc_idx2const c)"
      then obtain i where "i < ?n" "fc_idx2const c ! i = v" by (auto simp: in_set_conv_nth)
      then have "fc_const2idx c v = Some (const_reg i)" using inv by (auto simp: consts_inv_def)
      with None show False by simp
    qed
    have "fc_next_idx c - 1 = const_reg (Suc ?n)" using inv by (simp add: consts_inv_def const_reg_def)
    then have "consts_inv c'"
      using inv n' fresh r unfolding c'
      by (auto simp: consts_inv_def nth_append less_Suc_eq in_set_conv_nth)
    then show "consts_inv c' \<and> consts_get r c' = Some v \<and> prefix (fc_idx2const c) (fc_idx2const c')"
      using n by (simp add: r c' consts_get_reg)
  qed
  show "consts_get q c = Some x \<Longrightarrow> consts_get q c' = Some x"
  proof -
    assume "consts_get q c = Some x"
    then obtain i where "i < ?n" "q = const_reg i" "fc_idx2const c ! i = x"
      using consts_get_Some [OF inv] by blast
    with *(3) n show ?thesis by (auto simp: consts_get_reg prefix_def nth_append)
  qed
qed



section \<open>Positions of local variables\<close>

text \<open>A \<open>BTreeMap\<close> with registers as keys is the list of its entries in ascending order.\<close>

definition rt_sorted :: "(reg \<times> 'v) list \<Rightarrow> bool" where
  "rt_sorted ps = sorted_wrt (\<lambda>p q. sint (fst p) < sint (fst q)) ps"

primrec rt_insert :: "reg \<Rightarrow> 'v \<Rightarrow> (reg \<times> 'v) list \<Rightarrow> (reg \<times> 'v) list" where
  "rt_insert k v [] = [(k, v)]"
| "rt_insert k v (p # ps) =
    (if sint k < sint (fst p) then (k, v) # p # ps
     else if k = fst p then (k, v) # ps
     else p # rt_insert k v ps)"

definition rt_remove :: "reg \<Rightarrow> (reg \<times> 'v) list \<Rightarrow> (reg \<times> 'v) list" where
  "rt_remove k ps = filter (\<lambda>p. fst p \<noteq> k) ps"

lemma map_of_rt_insert [simp]: "map_of (rt_insert k v ps) = (map_of ps)(k \<mapsto> v)"
  by (induction ps) (auto simp: fun_eq_iff)

lemma map_of_rt_remove [simp]: "map_of (rt_remove k ps) = (map_of ps)(k := None)"
  by (induction ps) (auto simp: fun_eq_iff rt_remove_def)

lemma rt_insert_keys: "fst ` set (rt_insert k v ps) = insert k (fst ` set ps)"
  by (induction ps) auto

lemma sorted_rt_insert:
  "rt_sorted ps \<Longrightarrow> rt_sorted (rt_insert k v ps)"
  unfolding rt_sorted_def
proof (induction ps)
  case (Cons p ps)
  have "sint (fst p) < sint k" if "\<not> sint k < sint (fst p)" "k \<noteq> fst p"
    using that sint_eq_iff [of k "fst p"] by linarith
  moreover have "\<forall>q \<in> set (rt_insert k v ps). sint (fst p) < sint (fst q)" if "sint (fst p) < sint k"
  proof
    fix q assume "q \<in> set (rt_insert k v ps)"
    then have "fst q \<in> insert k (fst ` set ps)" using rt_insert_keys [of k v ps] by blast
    then show "sint (fst p) < sint (fst q)" using Cons.prems that by auto
  qed
  ultimately show ?case using Cons by auto
qed simp

lemma sorted_rt_remove: "rt_sorted ps \<Longrightarrow> rt_sorted (rt_remove k ps)"
  by (simp add: rt_sorted_def rt_remove_def sorted_wrt_filter)

lemma rt_sorted_distinct: "rt_sorted ps \<Longrightarrow> distinct (map fst ps)"
  unfolding rt_sorted_def by (induction ps) auto

datatype local_ref_entry =
    LVacant "nat option"
  | LOccupied nat "nat option"

record local_refs_entries =
  le_next_free :: "nat option"
  le_entries :: "local_ref_entry list"

record local_refs =
  lr_locals_last :: "(reg \<times> nat) list"
  lr_entries :: local_refs_entries

definition le_reset :: "local_refs_entries \<Rightarrow> local_refs_entries" where
  "le_reset es = es\<lparr>le_next_free := None, le_entries := []\<rparr>"

definition le_next_index :: "local_refs_entries \<Rightarrow> nat" where
  "le_next_index es = length (le_entries es)"

definition push_occupied :: "nat \<Rightarrow> nat option \<Rightarrow> local_refs_entries \<Rightarrow> local_refs_entries" where
  "push_occupied slot prev es = es\<lparr>le_entries := le_entries es @ [LOccupied slot prev]\<rparr>"

definition reuse_vacant ::
  "nat \<Rightarrow> nat \<Rightarrow> nat option \<Rightarrow> local_refs_entries \<Rightarrow> tr_error + local_refs_entries" where
  "reuse_vacant index slot prev es =
    (if length (le_entries es) \<le> index then Inl TPanic
     else case le_entries es ! index of
       LVacant next_free \<Rightarrow>
         Inr (es\<lparr>le_entries := (le_entries es)[index := LOccupied slot prev], le_next_free := next_free\<rparr>)
     | LOccupied _ _ \<Rightarrow> Inl TPanic)"

definition remove_entry ::
  "nat \<Rightarrow> local_refs_entries \<Rightarrow> tr_error + ((nat option \<times> nat) \<times> local_refs_entries)" where
  "remove_entry index es =
    (if length (le_entries es) \<le> index then Inl TPanic
     else case le_entries es ! index of
       LOccupied slot prev \<Rightarrow>
         Inr ((prev, slot), es\<lparr>le_entries := (le_entries es)[index := LVacant (le_next_free es)],
                              le_next_free := Some index\<rparr>)
     | LVacant _ \<Rightarrow> Inl TPanic)"

definition lr_reset :: "local_refs \<Rightarrow> local_refs" where
  "lr_reset lr = lr\<lparr>lr_locals_last := [], lr_entries := le_reset (lr_entries lr)\<rparr>"

definition update_last :: "nat \<Rightarrow> reg \<Rightarrow> local_refs \<Rightarrow> nat option \<times> local_refs" where
  "update_last index l lr =
    (map_of (lr_locals_last lr) l, lr\<lparr>lr_locals_last := rt_insert l index (lr_locals_last lr)\<rparr>)"

definition lr_push_at :: "reg \<Rightarrow> nat \<Rightarrow> local_refs \<Rightarrow> tr_error + local_refs" where
  "lr_push_at l slot lr =
    (case le_next_free (lr_entries lr) of
       Some index \<Rightarrow>
         let (prev, lr') = update_last index l lr
         in rmap (\<lambda>es. lr'\<lparr>lr_entries := es\<rparr>) (reuse_vacant index slot prev (lr_entries lr'))
     | None \<Rightarrow>
         let index = le_next_index (lr_entries lr); (prev, lr') = update_last index l lr
         in Inr (lr'\<lparr>lr_entries := push_occupied slot prev (lr_entries lr')\<rparr>))"

definition reset_if_empty :: "local_refs \<Rightarrow> local_refs" where
  "reset_if_empty lr =
    (if lr_locals_last lr = [] then lr\<lparr>lr_entries := le_reset (lr_entries lr)\<rparr> else lr)"

definition lr_pop_at :: "reg \<Rightarrow> local_refs \<Rightarrow> tr_error + (nat \<times> local_refs)" where
  "lr_pop_at l lr =
    (case map_of (lr_locals_last lr) l of
       None \<Rightarrow> Inl TPanic
     | Some index \<Rightarrow>
         rbind (remove_entry index (lr_entries lr)) (\<lambda>((prev, slot), es).
         let last = lr_locals_last lr;
             last' = (case prev of Some p \<Rightarrow> rt_insert l p last | None \<Rightarrow> rt_remove l last)
         in Inr (slot, reset_if_empty (lr\<lparr>lr_entries := es, lr_locals_last := last'\<rparr>))))"

text \<open>
  The callbacks of \<open>drain_at\<close> and \<open>drain_all\<close> mutate what they have captured, which is a state
  here. The loop ends because every turn frees an entry.
\<close>

definition is_occupied :: "local_ref_entry \<Rightarrow> bool" where
  "is_occupied e = (case e of LOccupied _ _ \<Rightarrow> True | LVacant _ \<Rightarrow> False)"

definition occupied_entries :: "local_refs_entries \<Rightarrow> nat" where
  "occupied_entries es = length (filter is_occupied (le_entries es))"

lemma remove_entry_Inr:
  "remove_entry i es = Inr ((prev, slot), es') \<longleftrightarrow>
    i < length (le_entries es) \<and> le_entries es ! i = LOccupied slot prev \<and>
    es' = es\<lparr>le_entries := (le_entries es)[i := LVacant (le_next_free es)], le_next_free := Some i\<rparr>"
  by (auto simp: remove_entry_def split: local_ref_entry.splits if_splits)

lemma length_filter_update:
  "i < length xs \<Longrightarrow> P (xs ! i) \<Longrightarrow> \<not> P y \<Longrightarrow> length (filter P (xs[i := y])) < length (filter P xs)"
  by (induction xs arbitrary: i) (auto split: nat.splits simp: nth_Cons')

lemma remove_entry_occupied:
  "remove_entry i es = Inr ((prev, slot), es') \<Longrightarrow> occupied_entries es' < occupied_entries es"
  by (auto simp: remove_entry_Inr occupied_entries_def is_occupied_def intro!: length_filter_update)

function drain_list_at ::
  "nat option \<Rightarrow> (nat \<Rightarrow> 's \<Rightarrow> tr_error + 's) \<Rightarrow> local_refs_entries \<Rightarrow> 's \<Rightarrow>
    tr_error + (local_refs_entries \<times> 's)" where
  "drain_list_at None f es s = Inr (es, s)"
| "drain_list_at (Some index) f es s =
    (case remove_entry index es of
       Inl e \<Rightarrow> Inl e
     | Inr ((prev, slot), es') \<Rightarrow>
         (case f slot s of Inl e \<Rightarrow> Inl e | Inr s' \<Rightarrow> drain_list_at prev f es' s'))"
  by pat_completeness auto
termination
  by (relation "measure (\<lambda>(last, f, es, s). occupied_entries es)") (auto dest: remove_entry_occupied)

definition lr_drain_at ::
  "reg \<Rightarrow> (nat \<Rightarrow> 's \<Rightarrow> tr_error + 's) \<Rightarrow> local_refs \<Rightarrow> 's \<Rightarrow> tr_error + (local_refs \<times> 's)" where
  "lr_drain_at l f lr s =
    (case map_of (lr_locals_last lr) l of
       None \<Rightarrow> Inr (lr, s)
     | Some index \<Rightarrow>
         rmap (\<lambda>(es, s'). (reset_if_empty (lr\<lparr>lr_locals_last := rt_remove l (lr_locals_last lr),
                                             lr_entries := es\<rparr>), s'))
           (drain_list_at (Some index) f (lr_entries lr) s))"

primrec drain_lists ::
  "(reg \<times> nat) list \<Rightarrow> (reg \<Rightarrow> nat \<Rightarrow> 's \<Rightarrow> tr_error + 's) \<Rightarrow> local_refs_entries \<Rightarrow> 's \<Rightarrow>
    tr_error + (local_refs_entries \<times> 's)" where
  "drain_lists [] f es s = Inr (es, s)"
| "drain_lists (p # ps) f es s =
    rbind (drain_list_at (Some (snd p)) (f (fst p)) es s) (\<lambda>(es', s'). drain_lists ps f es' s')"

definition lr_drain_all ::
  "(reg \<Rightarrow> nat \<Rightarrow> 's \<Rightarrow> tr_error + 's) \<Rightarrow> local_refs \<Rightarrow> 's \<Rightarrow> tr_error + (local_refs \<times> 's)" where
  "lr_drain_all f lr s =
    rmap (\<lambda>(es, s'). (lr\<lparr>lr_locals_last := [], lr_entries := le_reset es\<rparr>, s'))
      (drain_lists (lr_locals_last lr) f (lr_entries lr) s)"


text \<open>
  The abstraction: \<open>A l\<close> is the stack of the positions of the local \<open>l\<close>, the latest first.
\<close>

primrec chain :: "local_ref_entry list \<Rightarrow> nat option \<Rightarrow> (nat \<times> nat) list \<Rightarrow> bool" where
  "chain es l [] \<longleftrightarrow> l = None"
| "chain es l (p # ps) \<longleftrightarrow> l = Some (fst p) \<and> fst p < length es \<and>
    (\<exists>prev. es ! fst p = LOccupied (snd p) prev \<and> chain es prev ps)"

primrec free_chain :: "local_ref_entry list \<Rightarrow> nat option \<Rightarrow> nat list \<Rightarrow> bool" where
  "free_chain es l [] \<longleftrightarrow> l = None"
| "free_chain es l (i # is) \<longleftrightarrow> l = Some i \<and> i < length es \<and>
    (\<exists>next. es ! i = LVacant next \<and> free_chain es next is)"

definition lr_chains :: "local_refs \<Rightarrow> (reg \<Rightarrow> (nat \<times> nat) list) \<Rightarrow> nat list \<Rightarrow> bool" where
  "lr_chains lr C fs \<longleftrightarrow> rt_sorted (lr_locals_last lr) \<and>
    (\<forall>l. chain (le_entries (lr_entries lr)) (map_of (lr_locals_last lr) l) (C l) \<and> distinct (map fst (C l))) \<and>
    (\<forall>l l'. l \<noteq> l' \<longrightarrow> fst ` set (C l) \<inter> fst ` set (C l') = {}) \<and>
    free_chain (le_entries (lr_entries lr)) (le_next_free (lr_entries lr)) fs \<and> distinct fs"

definition lr_rep :: "local_refs \<Rightarrow> (reg \<Rightarrow> nat list) \<Rightarrow> bool" where
  "lr_rep lr A \<longleftrightarrow> (\<exists>C fs. lr_chains lr C fs \<and> (\<forall>l. A l = map snd (C l)))"

lemma chain_occupied: "chain es l ps \<Longrightarrow> i \<in> fst ` set ps \<Longrightarrow> i < length es \<and> is_occupied (es ! i)"
  by (induction ps arbitrary: l) (auto simp: is_occupied_def)

lemma free_chain_vacant: "free_chain es l is \<Longrightarrow> i \<in> set is \<Longrightarrow> i < length es \<and> \<not> is_occupied (es ! i)"
  by (induction "is" arbitrary: l) (auto simp: is_occupied_def)

lemma chain_update: "i \<notin> fst ` set ps \<Longrightarrow> chain (es[i := x]) l ps = chain es l ps"
  by (induction ps arbitrary: l) auto

lemma free_chain_update: "i \<notin> set is \<Longrightarrow> free_chain (es[i := x]) l is = free_chain es l is"
  by (induction "is" arbitrary: l) auto

lemma chain_append: "chain es l ps \<Longrightarrow> chain (es @ [x]) l ps"
  by (induction ps arbitrary: l) (auto simp: nth_append)

lemma lr_rep_reset: "lr_rep (lr_reset lr) (\<lambda>_. [])"
  unfolding lr_rep_def lr_chains_def
  by (intro exI [of _ "\<lambda>_. []"] exI [of _ "[]"]) (simp add: lr_reset_def le_reset_def rt_sorted_def)

lemma chains_empty: "lr_chains lr C fs \<Longrightarrow> map_of (lr_locals_last lr) l = None \<longleftrightarrow> C l = []"
  by (cases "C l") (auto simp: lr_chains_def dest: spec [of _ l])

lemma chains_reset_if_empty:
  assumes "lr_chains lr C fs"
  shows "\<exists>fs'. lr_chains (reset_if_empty lr) C fs'"
proof (cases "lr_locals_last lr = []")
  case True
  then have "C l = []" for l using chains_empty [OF assms, of l] by simp
  then show ?thesis
    using True by (intro exI [of _ "[]"]) (simp add: reset_if_empty_def lr_chains_def le_reset_def rt_sorted_def)
qed (use assms in \<open>auto simp: reset_if_empty_def\<close>)

text \<open>The entries that a new position may take.\<close>

lemma lr_push_at_chains:
  assumes "lr_chains lr C fs"
  shows "\<exists>lr' i fs'. lr_push_at l slot lr = Inr lr' \<and> lr_chains lr' (C(l := (i, slot) # C l)) fs'"
proof (cases fs)
  case Nil
  let ?es = "le_entries (lr_entries lr)" and ?i = "length (le_entries (lr_entries lr))"
  have none: "le_next_free (lr_entries lr) = None" using assms Nil by (simp add: lr_chains_def)
  have fresh: "?i \<notin> fst ` set (C l')" for l'
    using assms chain_occupied [of ?es _ "C l'" ?i] by (auto simp: lr_chains_def)
  let ?C = "C(l := (?i, slot) # C l)"
  obtain lr' where lr': "lr_push_at l slot lr = Inr lr'" by (simp add: lr_push_at_def none Let_def update_last_def)
  then have eqs: "le_entries (lr_entries lr') = ?es @ [LOccupied slot (map_of (lr_locals_last lr) l)]"
      "le_next_free (lr_entries lr') = None"
      "map_of (lr_locals_last lr') = (map_of (lr_locals_last lr))(l \<mapsto> ?i)"
      "rt_sorted (lr_locals_last lr) \<Longrightarrow> rt_sorted (lr_locals_last lr')"
    by (auto simp: lr_push_at_def none Let_def update_last_def push_occupied_def le_next_index_def sorted_rt_insert)
  have "lr_chains lr' ?C []"
    using assms fresh by (auto simp: lr_chains_def eqs chain_append nth_append)
  with lr' show ?thesis by blast
next
  case (Cons i fs')
  let ?es = "le_entries (lr_entries lr)"
  from assms Cons obtain nf where i: "le_next_free (lr_entries lr) = Some i" "i < length ?es" "?es ! i = LVacant nf"
      "free_chain ?es nf fs'" "i \<notin> set fs'" "distinct fs'"
    by (auto simp: lr_chains_def)
  have fresh: "i \<notin> fst ` set (C l')" for l'
    using assms chain_occupied [of ?es _ "C l'" i] i by (auto simp: lr_chains_def is_occupied_def)
  let ?C = "C(l := (i, slot) # C l)"
  obtain lr' where lr': "lr_push_at l slot lr = Inr lr'"
    using i by (simp add: lr_push_at_def Let_def update_last_def reuse_vacant_def)
  then have eqs: "le_entries (lr_entries lr') = ?es[i := LOccupied slot (map_of (lr_locals_last lr) l)]"
      "le_next_free (lr_entries lr') = nf"
      "map_of (lr_locals_last lr') = (map_of (lr_locals_last lr))(l \<mapsto> i)"
      "rt_sorted (lr_locals_last lr) \<Longrightarrow> rt_sorted (lr_locals_last lr')"
    using i by (auto simp: lr_push_at_def Let_def update_last_def reuse_vacant_def sorted_rt_insert)
  have "lr_chains lr' ?C fs'"
    using assms fresh i by (auto simp: lr_chains_def eqs chain_update free_chain_update)
  with lr' show ?thesis by blast
qed

lemma lr_push_at_rep:
  "lr_rep lr A \<Longrightarrow> \<exists>lr'. lr_push_at l slot lr = Inr lr' \<and> lr_rep lr' (A(l := slot # A l))"
  unfolding lr_rep_def using lr_push_at_chains [of lr _ _ l slot] by fastforce


text \<open>Removing a list of entries puts them on the free list.\<close>

primrec free_entries :: "(nat \<times> nat) list \<Rightarrow> local_refs_entries \<Rightarrow> local_refs_entries" where
  "free_entries [] es = es"
| "free_entries (p # ps) es =
    free_entries ps (es\<lparr>le_entries := (le_entries es)[fst p := LVacant (le_next_free es)], le_next_free := Some (fst p)\<rparr>)"

lemma free_entries_chain:
  "fst ` set ps \<inter> fst ` set qs = {} \<Longrightarrow>
    chain (le_entries (free_entries ps es)) l qs = chain (le_entries es) l qs"
  by (induction ps arbitrary: es) (auto simp: chain_update)

lemma free_entries_free:
  assumes "free_chain (le_entries es) (le_next_free es) fs" "distinct fs" "distinct (map fst ps)"
    "fst ` set ps \<inter> set fs = {}" "\<forall>p \<in> set ps. fst p < length (le_entries es)"
  shows "\<exists>fs'. free_chain (le_entries (free_entries ps es)) (le_next_free (free_entries ps es)) fs' \<and>
    distinct fs' \<and> set fs' = set fs \<union> fst ` set ps"
  using assms
proof (induction ps arbitrary: es fs)
  case (Cons p ps)
  let ?es = "es\<lparr>le_entries := (le_entries es)[fst p := LVacant (le_next_free es)], le_next_free := Some (fst p)\<rparr>"
  have "\<exists>fs'. free_chain (le_entries (free_entries ps ?es)) (le_next_free (free_entries ps ?es)) fs' \<and>
      distinct fs' \<and> set fs' = set (fst p # fs) \<union> fst ` set ps"
    using Cons.prems by (intro Cons.IH) (auto simp: free_chain_update)
  then show ?case by simp
qed auto

primrec tr_fold :: "('a \<Rightarrow> 's \<Rightarrow> 'e + 's) \<Rightarrow> 'a list \<Rightarrow> 's \<Rightarrow> 'e + 's" where
  "tr_fold f [] s = Inr s"
| "tr_fold f (x # xs) s = rbind (f x s) (tr_fold f xs)"

lemma drain_list_at_chain:
  "chain (le_entries es) l ps \<Longrightarrow> distinct (map fst ps) \<Longrightarrow>
    drain_list_at l f es s = rmap (Pair (free_entries ps es)) (tr_fold f (map snd ps) s)"
proof (induction ps arbitrary: l es s)
  case (Cons p ps)
  then obtain prev where p: "l = Some (fst p)" "fst p < length (le_entries es)"
      "le_entries es ! fst p = LOccupied (snd p) prev" "chain (le_entries es) prev ps" by auto
  let ?es = "es\<lparr>le_entries := (le_entries es)[fst p := LVacant (le_next_free es)], le_next_free := Some (fst p)\<rparr>"
  have rem: "remove_entry (fst p) es = Inr ((prev, snd p), ?es)" using p by (simp add: remove_entry_Inr)
  have "chain (le_entries ?es) prev ps" using Cons.prems p by (simp add: chain_update)
  with Cons rem p(1) show ?case by (auto simp: rbind_def split: sum.split)
qed simp


lemma chain_drop: "chain es l (ps @ qs) \<Longrightarrow> chain es (map_option fst (case qs of [] \<Rightarrow> None | q # _ \<Rightarrow> Some q)) qs"
  by (induction ps arbitrary: l) (cases qs; auto)+

lemma chains_free:
  assumes ch: "lr_chains lr C fs" and split: "C l = ps @ qs"
    and last: "map_of last' = (map_of (lr_locals_last lr))(l := map_option fst (case qs of [] \<Rightarrow> None | q # _ \<Rightarrow> Some q))"
    and sorted: "rt_sorted last'"
  shows "\<exists>fs'. lr_chains (lr\<lparr>lr_entries := free_entries ps (lr_entries lr), lr_locals_last := last'\<rparr>) (C(l := qs)) fs'"
proof -
  let ?es = "le_entries (lr_entries lr)"
  have chl: "chain ?es (map_of (lr_locals_last lr) l) (ps @ qs)" "distinct (map fst (ps @ qs))"
    using ch unfolding lr_chains_def split [symmetric] by blast+
  have disj: "fst ` set ps \<inter> fst ` set (C l') = {}" if "l' \<noteq> l" for l'
  proof -
    have "fst ` set (C l) \<inter> fst ` set (C l') = {}" using ch that unfolding lr_chains_def by metis
    then show ?thesis unfolding split by auto
  qed
  have occ: "i < length ?es \<and> is_occupied (?es ! i)" if "i \<in> fst ` set ps" for i
    using chain_occupied [OF chl(1), of i] that by auto
  have fc: "free_chain ?es (le_next_free (lr_entries lr)) fs" and d: "distinct fs" "distinct (map fst ps)"
    using ch chl(2) by (simp_all add: lr_chains_def)
  have vac: "fst ` set ps \<inter> set fs = {}" using occ free_chain_vacant [OF fc] by blast
  obtain fs' where fs': "free_chain (le_entries (free_entries ps (lr_entries lr)))
      (le_next_free (free_entries ps (lr_entries lr))) fs'" "distinct fs'"
    using free_entries_free [OF fc d vac] occ by fastforce
  have "chain (le_entries (free_entries ps (lr_entries lr))) (map_of last' l') ((C(l := qs)) l')" for l'
  proof (cases "l' = l")
    case True
    have "fst ` set ps \<inter> fst ` set qs = {}" using chl(2) by (metis distinct_append map_append set_map)
    then show ?thesis using True chain_drop [OF chl(1)] by (simp add: last free_entries_chain)
  next
    case False
    then show ?thesis using ch disj by (simp add: last free_entries_chain lr_chains_def)
  qed
  moreover have "distinct (map fst ((C(l := qs)) l'))" for l'
    using ch chl(2) by (simp add: lr_chains_def)
  moreover have "fst ` set ((C(l := qs)) l1) \<inter> fst ` set ((C(l := qs)) l2) = {}" if "l1 \<noteq> l2" for l1 l2
  proof -
    have sub: "fst ` set ((C(l := qs)) l') \<subseteq> fst ` set (C l')" for l' using split by auto
    have "fst ` set (C l1) \<inter> fst ` set (C l2) = {}" using ch that by (auto simp: lr_chains_def)
    with sub show ?thesis by blast
  qed
  ultimately show ?thesis using fs' sorted unfolding lr_chains_def
    by (intro exI [of _ fs']) (simp del: fun_upd_apply)
qed

lemma lr_pop_at_rep:
  assumes "lr_rep lr A" "A l = slot # rest"
  shows "\<exists>lr'. lr_pop_at l lr = Inr (slot, lr') \<and> lr_rep lr' (A(l := rest))"
proof -
  obtain C fs where C: "lr_chains lr C fs" "\<forall>l. A l = map snd (C l)" using assms(1) by (auto simp: lr_rep_def)
  obtain i qs where i: "C l = (i, slot) # qs" "map snd qs = rest" using C(2) assms(2) by (cases "C l") auto
  have "chain (le_entries (lr_entries lr)) (map_of (lr_locals_last lr) l) (C l)"
    using C(1) by (simp add: lr_chains_def)
  with i obtain prev where p: "map_of (lr_locals_last lr) l = Some i" "i < length (le_entries (lr_entries lr))"
      "le_entries (lr_entries lr) ! i = LOccupied slot prev" "chain (le_entries (lr_entries lr)) prev qs"
    by auto
  have prev: "prev = map_option fst (case qs of [] \<Rightarrow> None | q # _ \<Rightarrow> Some q)" using p(4) by (cases qs) auto
  let ?last = "case prev of Some p \<Rightarrow> rt_insert l p (lr_locals_last lr) | None \<Rightarrow> rt_remove l (lr_locals_last lr)"
  let ?lr = "lr\<lparr>lr_entries := free_entries [(i, slot)] (lr_entries lr), lr_locals_last := ?last\<rparr>"
  have "\<exists>fs'. lr_chains ?lr (C(l := qs)) fs'"
    using C(1) prev sorted_rt_insert sorted_rt_remove
    by (intro chains_free [where ps = "[(i, slot)]" and fs = fs])
      (auto simp: i lr_chains_def split: option.splits list.splits)
  then obtain fs' where "lr_chains (reset_if_empty ?lr) (C(l := qs)) fs'"
    using chains_reset_if_empty by blast
  moreover have "lr_pop_at l lr = Inr (slot, reset_if_empty ?lr)"
    using p by (simp add: lr_pop_at_def remove_entry_def Let_def)
  ultimately show ?thesis using C(2) i(2) unfolding lr_rep_def
    by (intro exI [of _ "reset_if_empty ?lr"] conjI) auto
qed

lemma lr_drain_at_rep:
  assumes "lr_rep lr A"
  shows "\<exists>lr'. lr_drain_at l f lr s = rmap (Pair lr') (tr_fold f (A l) s) \<and> lr_rep lr' (A(l := []))"
proof -
  obtain C fs where C: "lr_chains lr C fs" "\<forall>l. A l = map snd (C l)" using assms by (auto simp: lr_rep_def)
  have ch: "chain (le_entries (lr_entries lr)) (map_of (lr_locals_last lr) l) (C l)" "distinct (map fst (C l))"
    using C(1) by (auto simp: lr_chains_def)
  show ?thesis
  proof (cases "map_of (lr_locals_last lr) l")
    case None
    then have "C l = []" using chains_empty [OF C(1)] by simp
    then have "A l = []" using C(2) by simp
    then show ?thesis using None assms by (intro exI [of _ lr]) (auto simp: lr_drain_at_def fun_upd_idem)
  next
    case (Some index)
    let ?lr = "lr\<lparr>lr_entries := free_entries (C l) (lr_entries lr), lr_locals_last := rt_remove l (lr_locals_last lr)\<rparr>"
    have "\<exists>fs'. lr_chains ?lr (C(l := [])) fs'"
      using C(1) sorted_rt_remove by (intro chains_free [where fs = fs]) (auto simp: lr_chains_def)
    then obtain fs' where rep: "lr_chains (reset_if_empty ?lr) (C(l := [])) fs'"
      using chains_reset_if_empty by blast
    have eq: "?lr = lr\<lparr>lr_locals_last := rt_remove l (lr_locals_last lr), lr_entries := free_entries (C l) (lr_entries lr)\<rparr>"
      by simp
    have "lr_drain_at l f lr s = rmap (Pair (reset_if_empty ?lr)) (tr_fold f (A l) s)"
      using drain_list_at_chain [of "lr_entries lr" _ "C l" f s] ch Some C(2) unfolding eq
      by (simp add: lr_drain_at_def rmap_rmap comp_def del: drain_list_at.simps)
    moreover have "lr_rep (reset_if_empty ?lr) (A(l := []))"
      using rep C(2) unfolding lr_rep_def by (intro exI [of _ "C(l := [])"]) auto
    ultimately show ?thesis by blast
  qed
qed

text \<open>\<open>drain_all\<close> visits the locals in ascending order, each with its latest position first.\<close>

definition positions :: "reg list \<Rightarrow> (reg \<Rightarrow> nat list) \<Rightarrow> (reg \<times> nat) list" where
  "positions ls A = concat (map (\<lambda>l. map (Pair l) (A l)) ls)"

lemma tr_fold_append: "tr_fold f (xs @ ys) s = rbind (tr_fold f xs s) (tr_fold f ys)"
  by (induction xs arbitrary: s) (simp_all add: rbind_def split: sum.split)

lemma tr_fold_map: "tr_fold f (map g xs) s = tr_fold (\<lambda>x. f (g x)) xs s"
  by (induction xs arbitrary: s) (simp_all add: rbind_def split: sum.splits)

lemma drain_lists_chains:
  assumes "distinct (map fst ps)"
    "\<forall>p \<in> set ps. chain (le_entries es) (Some (snd p)) (C (fst p)) \<and> distinct (map fst (C (fst p)))"
    "\<forall>l l'. l \<noteq> l' \<longrightarrow> fst ` set (C l) \<inter> fst ` set (C l') = {}"
  shows "\<exists>es'. drain_lists ps f es s =
    rmap (Pair es') (tr_fold (\<lambda>p. f (fst p) (snd p)) (positions (map fst ps) (\<lambda>l. map snd (C l))) s)"
  using assms
proof (induction ps arbitrary: es s)
  case (Cons p ps)
  let ?es = "free_entries (C (fst p)) es"
  have "\<forall>q \<in> set ps. chain (le_entries ?es) (Some (snd q)) (C (fst q)) \<and> distinct (map fst (C (fst q)))"
  proof
    fix q assume q: "q \<in> set ps"
    then have "fst p \<noteq> fst q" using Cons.prems(1) by auto
    then have "fst ` set (C (fst p)) \<inter> fst ` set (C (fst q)) = {}" using Cons.prems(3) by blast
    then show "chain (le_entries ?es) (Some (snd q)) (C (fst q)) \<and> distinct (map fst (C (fst q)))"
      using Cons.prems(2) q by (simp add: free_entries_chain)
  qed
  then have "\<forall>s. \<exists>es'. drain_lists ps f ?es s =
      rmap (Pair es') (tr_fold (\<lambda>p. f (fst p) (snd p)) (positions (map fst ps) (\<lambda>l. map snd (C l))) s)"
    using Cons.prems Cons.IH by simp
  moreover have "drain_list_at (Some (snd p)) (f (fst p)) es s =
      rmap (Pair ?es) (tr_fold (f (fst p)) (map snd (C (fst p))) s)"
    using Cons.prems by (intro drain_list_at_chain) auto
  ultimately show ?case
    by (cases "tr_fold (f (fst p)) (map snd (C (fst p))) s")
      (auto simp: positions_def tr_fold_append tr_fold_map)
qed (auto simp: positions_def)

lemma lr_drain_all_rep:
  assumes "lr_rep lr A"
  shows "\<exists>lr' ls. lr_drain_all f lr s =
      rmap (Pair lr') (tr_fold (\<lambda>p. f (fst p) (snd p)) (positions ls A) s) \<and>
    lr_rep lr' (\<lambda>_. []) \<and> sorted_wrt (\<lambda>l l'. sint l < sint l') ls \<and> set ls = {l. A l \<noteq> []}"
proof -
  obtain C fs where C: "lr_chains lr C fs" "\<forall>l. A l = map snd (C l)" using assms by (auto simp: lr_rep_def)
  let ?last = "lr_locals_last lr"
  have d: "distinct (map fst ?last)" using C(1) by (simp add: lr_chains_def rt_sorted_distinct)
  have A: "A = (\<lambda>l. map snd (C l))" using C(2) by auto
  have "\<forall>p \<in> set ?last. chain (le_entries (lr_entries lr)) (Some (snd p)) (C (fst p)) \<and> distinct (map fst (C (fst p)))"
  proof
    fix p assume "p \<in> set ?last"
    then have "map_of ?last (fst p) = Some (snd p)" using d by simp
    then show "chain (le_entries (lr_entries lr)) (Some (snd p)) (C (fst p)) \<and> distinct (map fst (C (fst p)))"
      using C(1) by (metis lr_chains_def)
  qed
  then obtain es' where "drain_lists ?last f (lr_entries lr) s =
      rmap (Pair es') (tr_fold (\<lambda>p. f (fst p) (snd p)) (positions (map fst ?last) A) s)"
    using drain_lists_chains [of ?last "lr_entries lr" C f s] d C(1) A unfolding lr_chains_def by auto
  then have "lr_drain_all f lr s =
      rmap (Pair (lr\<lparr>lr_locals_last := [], lr_entries := le_reset es'\<rparr>))
        (tr_fold (\<lambda>p. f (fst p) (snd p)) (positions (map fst ?last) A) s)"
    by (simp add: lr_drain_all_def rmap_rmap comp_def)
  moreover have "lr_rep (lr\<lparr>lr_locals_last := [], lr_entries := le_reset es'\<rparr>) (\<lambda>_. [])"
    using lr_rep_reset [of "lr\<lparr>lr_entries := es'\<rparr>"] by (simp add: lr_reset_def)
  moreover have "sorted_wrt (\<lambda>l l'. sint l < sint l') (map fst ?last)"
    using C(1) by (simp add: lr_chains_def rt_sorted_def sorted_wrt_map)
  moreover have "set (map fst ?last) = {l. A l \<noteq> []}"
    using chains_empty [OF C(1)] by (auto simp: A map_of_eq_None_iff)
  ultimately show ?thesis by blast
qed

end
