(* ===== verification/Tr_Regs.thy ===== *)
theory Tr_Regs
  imports Tr_Slots
begin

text \<open>
  The register allocator of the translator, \<open>stack/register_alloc.rs\<close>. Locals have the lowest
  registers, dynamic registers grow upwards after them like a stack, and preserved registers grow
  downwards from \<open>i16::MAX - 1\<close>. The slots of preserved registers are counted in a \<open>MultiStash\<close>, a
  container of a third-party crate: its operations are the parameter \<open>ms\<close>, and \<open>stash_laws\<close> states
  their documentation. At the end of a function \<open>finalize_alloc\<close> closes the gap between the dynamic
  and the preserved registers; \<open>defrag_contiguous\<close> shows that this maps the registers in use
  onto the frame of the function. The allocator only tests whether the two spaces meet exactly:
  \<open>spaces_collide\<close> drives one past the other.
\<close>


section \<open>The stash\<close>

text \<open>
  The items of the stash are units, so an entry is its amount. \<open>st_bump\<close> and \<open>st_take_all\<close> yield
  the amount before the operation, \<open>st_take_one\<close> whether there was an item.
\<close>

record 'm stash_ops =
  st_clear :: "'m \<Rightarrow> 'm"
  st_put :: "nat \<Rightarrow> 'm \<Rightarrow> nat \<times> 'm"
  st_get :: "'m \<Rightarrow> nat \<Rightarrow> nat option"
  st_bump :: "nat \<Rightarrow> nat \<Rightarrow> 'm \<Rightarrow> nat option \<times> 'm"
  st_take_one :: "nat \<Rightarrow> 'm \<Rightarrow> bool \<times> 'm"
  st_take_all :: "nat \<Rightarrow> 'm \<Rightarrow> nat option \<times> 'm"

definition stash_laws :: "'m stash_ops \<Rightarrow> bool" where
  "stash_laws ms \<longleftrightarrow>
    (\<forall>m k. st_get ms (st_clear ms m) k = None) \<and>
    (\<forall>m n k m'. 0 < n \<longrightarrow> st_put ms n m = (k, m') \<longrightarrow>
       st_get ms m k = None \<and> st_get ms m' = (st_get ms m)(k \<mapsto> n)) \<and>
    (\<forall>m k n. fst (st_bump ms k n m) = st_get ms m k \<and>
       st_get ms (snd (st_bump ms k n m)) = (st_get ms m)(k := map_option (\<lambda>a. a + n) (st_get ms m k))) \<and>
    (\<forall>m k. fst (st_take_one ms k m) = (st_get ms m k \<noteq> None) \<and>
       st_get ms (snd (st_take_one ms k m)) =
         (st_get ms m)(k := (case st_get ms m k of Some a \<Rightarrow> if a \<le> 1 then None else Some (a - 1) | None \<Rightarrow> None))) \<and>
    (\<forall>m k. fst (st_take_all ms k m) = st_get ms m k \<and>
       st_get ms (snd (st_take_all ms k m)) = (st_get ms m)(k := None))"


section \<open>The allocator\<close>

datatype alloc_phase = PhaseInit | PhaseAlloc | PhaseDefrag

datatype register_space = SpaceConst | SpaceLocal | SpaceDynamic | SpacePreserve

text \<open>The set of keys is ordered, so it is the sorted list of its elements.\<close>

record 'm reg_alloc =
  ra_preservations :: 'm
  ra_removed_preserved :: "nat list"
  ra_phase :: alloc_phase
  ra_len_locals :: u16
  ra_next_dynamic :: reg
  ra_max_dynamic :: reg
  ra_min_preserve :: reg
  ra_defrag_offset :: reg

definition max_len_locals :: u16 where "max_len_locals = 32766"
definition initial_preservation_index :: reg where "initial_preservation_index = 32766"

definition i16_checked_add :: "reg \<Rightarrow> reg \<Rightarrow> reg option" where
  "i16_checked_add a b =
    (if - (2 ^ 15) \<le> sint a + sint b \<and> sint a + sint b < 2 ^ 15 then Some (a + b) else None)"

definition i16_checked_sub :: "reg \<Rightarrow> reg \<Rightarrow> reg option" where
  "i16_checked_sub a b =
    (if - (2 ^ 15) \<le> sint a - sint b \<and> sint a - sint b < 2 ^ 15 then Some (a - b) else None)"

definition i16_saturating_add :: "reg \<Rightarrow> reg \<Rightarrow> reg" where
  "i16_saturating_add a b = word_of_int (max (- (2 ^ 15)) (min (2 ^ 15 - 1) (sint a + sint b)))"

definition i16_max :: "reg \<Rightarrow> reg \<Rightarrow> reg" where "i16_max a b = (if sint a \<le> sint b then b else a)"
definition i16_min :: "reg \<Rightarrow> reg \<Rightarrow> reg" where "i16_min a b = (if sint a \<le> sint b then a else b)"
definition i16_abs_diff :: "reg \<Rightarrow> reg \<Rightarrow> u16" where "i16_abs_diff a b = word_of_int \<bar>sint a - sint b\<bar>"
definition i16_of_usize :: "nat \<Rightarrow> reg option" where
  "i16_of_usize n = (if n < 2 ^ 15 then Some (of_nat n) else None)"

definition ra_reset :: "'m stash_ops \<Rightarrow> 'm reg_alloc \<Rightarrow> 'm reg_alloc" where
  "ra_reset ms ra = ra\<lparr>ra_preservations := st_clear ms (ra_preservations ra), ra_phase := PhaseInit,
     ra_len_locals := 0, ra_next_dynamic := 0, ra_max_dynamic := 0,
     ra_min_preserve := initial_preservation_index, ra_defrag_offset := 0\<rparr>"

definition ra_min_dynamic :: "'m reg_alloc \<Rightarrow> reg" where
  "ra_min_dynamic ra = ra_len_locals ra"

definition ra_is_local :: "'m reg_alloc \<Rightarrow> reg \<Rightarrow> bool" where
  "ra_is_local ra r = (\<not> reg_is_const r \<and> sint r < sint (ra_min_dynamic ra))"

definition ra_is_preserved :: "'m reg_alloc \<Rightarrow> reg \<Rightarrow> bool" where
  "ra_is_preserved ra r = (sint (ra_min_preserve ra) < sint r)"

definition ra_register_space :: "'m reg_alloc \<Rightarrow> reg \<Rightarrow> register_space" where
  "ra_register_space ra r =
    (if reg_is_const r then SpaceConst
     else if ra_is_local ra r then SpaceLocal
     else if ra_is_preserved ra r then SpacePreserve
     else SpaceDynamic)"

definition ra_len_registers :: "'m reg_alloc \<Rightarrow> u16" where
  "ra_len_registers ra = max_len_locals - i16_abs_diff (ra_max_dynamic ra) (ra_min_preserve ra)"

definition bump_locals :: "u16 \<Rightarrow> u32 \<Rightarrow> u16 option" where
  "bump_locals len_locals amount =
    (if 2 ^ 16 \<le> unat amount then None
     else if 2 ^ 16 \<le> unat len_locals + unat amount then None
     else let new_len = len_locals + ucast amount
          in if max_len_locals \<le> new_len then None else Some new_len)"

definition ra_register_locals :: "u32 \<Rightarrow> 'm reg_alloc \<Rightarrow> tr_error + 'm reg_alloc" where
  "ra_register_locals amount ra =
    (if ra_phase ra \<noteq> PhaseInit then Inl TPanic
     else case bump_locals (ra_len_locals ra) amount of
       None \<Rightarrow> Inl (TErr AllocatedTooManyRegisters)
     | Some n \<Rightarrow> Inr (ra\<lparr>ra_len_locals := n, ra_next_dynamic := n, ra_max_dynamic := n\<rparr>))"

definition ra_finish_register_locals :: "'m reg_alloc \<Rightarrow> tr_error + 'm reg_alloc" where
  "ra_finish_register_locals ra =
    (if ra_phase ra \<noteq> PhaseInit then Inl TPanic else Inr (ra\<lparr>ra_phase := PhaseAlloc\<rparr>))"

definition ra_push_dynamic :: "'m reg_alloc \<Rightarrow> tr_error + (reg \<times> 'm reg_alloc)" where
  "ra_push_dynamic ra =
    (if ra_phase ra \<noteq> PhaseAlloc then Inl TPanic
     else if ra_next_dynamic ra = ra_min_preserve ra then Inl (TErr AllocatedTooManyRegisters)
     else let r = ra_next_dynamic ra; next = r + 1
          in Inr (r, ra\<lparr>ra_next_dynamic := next, ra_max_dynamic := i16_max (ra_max_dynamic ra) next\<rparr>))"

definition next_dynamic_n :: "nat \<Rightarrow> 'm reg_alloc \<Rightarrow> (reg_span \<times> 'm reg_alloc) option" where
  "next_dynamic_n n ra =
    Option.bind (i16_of_usize n) (\<lambda>k.
    Option.bind (i16_checked_add (ra_next_dynamic ra) k) (\<lambda>next.
    if sint (ra_min_preserve ra) \<le> sint next then None
    else let r = ra_next_dynamic ra; next' = r + k
         in Some (r, ra\<lparr>ra_next_dynamic := next', ra_max_dynamic := i16_max (ra_max_dynamic ra) next'\<rparr>)))"

definition ra_push_dynamic_n :: "nat \<Rightarrow> 'm reg_alloc \<Rightarrow> tr_error + (reg_span \<times> 'm reg_alloc)" where
  "ra_push_dynamic_n n ra =
    (if ra_phase ra \<noteq> PhaseAlloc then Inl TPanic
     else ok_or (TErr AllocatedTooManyRegisters) (next_dynamic_n n ra))"

definition ra_pop_dynamic :: "'m reg_alloc \<Rightarrow> tr_error + 'm reg_alloc" where
  "ra_pop_dynamic ra =
    (if ra_phase ra \<noteq> PhaseAlloc \<or> ra_next_dynamic ra = ra_min_dynamic ra then Inl TPanic
     else Inr (ra\<lparr>ra_next_dynamic := ra_next_dynamic ra - 1\<rparr>))"

definition ra_pop_dynamic_n :: "nat \<Rightarrow> 'm reg_alloc \<Rightarrow> tr_error + 'm reg_alloc" where
  "ra_pop_dynamic_n n ra =
    (if ra_phase ra \<noteq> PhaseAlloc then Inl TPanic
     else case Option.bind (i16_of_usize n) (i16_checked_sub (ra_next_dynamic ra)) of
       None \<Rightarrow> Inl TPanic
     | Some new_next_dynamic \<Rightarrow>
         if sint new_next_dynamic < sint (ra_min_dynamic ra) then Inl TPanic
         else Inr (ra\<lparr>ra_next_dynamic := new_next_dynamic\<rparr>))"

definition reg2key :: "reg \<Rightarrow> tr_error + nat" where
  "reg2key r =
    (let reg_index = initial_preservation_index - r
     in if sint reg_index < 0 then Inl TPanic else Inr (nat (sint reg_index)))"

definition key2reg :: "nat \<Rightarrow> tr_error + reg" where
  "key2reg key = (if 2 ^ 15 \<le> key then Inl TPanic else Inr (initial_preservation_index - of_nat key))"

definition update_min_preserved :: "reg \<Rightarrow> 'm reg_alloc \<Rightarrow> tr_error + 'm reg_alloc" where
  "update_min_preserved r ra =
    (let m = i16_min (ra_min_preserve ra) r
     in if ra_next_dynamic ra = m then Inl (TErr AllocatedTooManyRegisters)
        else Inr (ra\<lparr>ra_min_preserve := m\<rparr>))"

definition ra_push_preserved :: "'m stash_ops \<Rightarrow> 'm reg_alloc \<Rightarrow> tr_error + (reg \<times> 'm reg_alloc)" where
  "ra_push_preserved ms ra =
    (if ra_phase ra \<noteq> PhaseAlloc then Inl TPanic
     else let (key, m) = st_put ms 2 (ra_preservations ra);
              ra' = ra\<lparr>ra_removed_preserved := [], ra_preservations := m\<rparr>
          in rbind (key2reg key) (\<lambda>r.
             rmap (Pair r) (update_min_preserved (reg_prev r) ra')))"

definition gc_key :: "'m stash_ops \<Rightarrow> nat \<Rightarrow> 'm \<Rightarrow> 'm" where
  "gc_key ms key m = (if st_get ms m key = Some 1 then snd (st_take_all ms key m) else m)"

definition ra_gc_preservations :: "'m stash_ops \<Rightarrow> 'm reg_alloc \<Rightarrow> tr_error + 'm reg_alloc" where
  "ra_gc_preservations ms ra =
    (if ra_phase ra \<noteq> PhaseAlloc then Inl TPanic
     else Inr (ra\<lparr>ra_preservations := fold (gc_key ms) (ra_removed_preserved ra) (ra_preservations ra)\<rparr>))"

definition ra_bump_preserved :: "'m stash_ops \<Rightarrow> reg \<Rightarrow> 'm reg_alloc \<Rightarrow> tr_error + 'm reg_alloc" where
  "ra_bump_preserved ms r ra =
    rmap (\<lambda>key. ra\<lparr>ra_preservations := snd (st_bump ms key 1 (ra_preservations ra))\<rparr>) (reg2key r)"

definition ra_pop_preserved :: "'m stash_ops \<Rightarrow> reg \<Rightarrow> 'm reg_alloc \<Rightarrow> tr_error + 'm reg_alloc" where
  "ra_pop_preserved ms r ra =
    (if ra_phase ra \<noteq> PhaseAlloc then Inl TPanic
     else rbind (reg2key r) (\<lambda>key.
       case st_take_one ms key (ra_preservations ra) of
         (found, m) \<Rightarrow>
           if found then Inr (ra\<lparr>ra_removed_preserved := insort_insert key (ra_removed_preserved ra),
                                ra_preservations := m\<rparr>)
           else Inl TPanic))"

definition ra_finalize_alloc :: "'m reg_alloc \<Rightarrow> tr_error + 'm reg_alloc" where
  "ra_finalize_alloc ra =
    (if ra_phase ra \<noteq> PhaseAlloc then Inl TPanic
     else Inr (ra\<lparr>ra_phase := PhaseDefrag,
                 ra_defrag_offset := i16_saturating_add (ra_min_preserve ra - ra_max_dynamic ra) 1\<rparr>))"

definition ra_defrag_register :: "'m reg_alloc \<Rightarrow> reg \<Rightarrow> tr_error + reg" where
  "ra_defrag_register ra r =
    (if ra_phase ra \<noteq> PhaseDefrag then Inl TPanic
     else if \<not> ra_is_preserved ra r then Inr r
     else Inr (r - ra_defrag_offset ra))"

definition ra_inc_register_usage :: "'m stash_ops \<Rightarrow> reg \<Rightarrow> 'm reg_alloc \<Rightarrow> tr_error + 'm reg_alloc" where
  "ra_inc_register_usage ms r ra =
    (if \<not> ra_is_preserved ra r then Inr ra else ra_bump_preserved ms r ra)"

definition ra_dec_register_usage :: "'m stash_ops \<Rightarrow> reg \<Rightarrow> 'm reg_alloc \<Rightarrow> tr_error + 'm reg_alloc" where
  "ra_dec_register_usage ms r ra =
    (if \<not> ra_is_preserved ra r then Inr ra else ra_pop_preserved ms r ra)"


section \<open>Arithmetic of registers\<close>

lemma sint_reg_plus:
  "- (2 ^ 15) \<le> sint a + sint b \<Longrightarrow> sint a + sint b < 2 ^ 15 \<Longrightarrow> sint (a + b :: reg) = sint a + sint b"
  using sint_of_range [where 'a = 16, of "sint a + sint b"] by simp

lemma sint_reg_minus:
  "- (2 ^ 15) \<le> sint a - sint b \<Longrightarrow> sint a - sint b < 2 ^ 15 \<Longrightarrow> sint (a - b :: reg) = sint a - sint b"
  using sint_of_range [where 'a = 16, of "sint a - sint b"] by simp

lemma sint_reg_of_nat: "n < 2 ^ 15 \<Longrightarrow> sint (of_nat n :: reg) = int n"
  using sint_of_range [where 'a = 16, of "int n"] by simp

lemma sint_reg_bounds: "- 32768 \<le> sint (r :: reg)" "sint (r :: reg) < 32768"
  using sint_bounds [of r] by simp_all

lemma sint_reg_Suc: "sint r < 32767 \<Longrightarrow> sint (r + 1 :: reg) = sint r + 1"
  using sint_reg_plus [of r 1] sint_reg_bounds [of r] by simp

lemma sint_reg_pred: "- 32768 < sint r \<Longrightarrow> sint (r - 1 :: reg) = sint r - 1"
  using sint_reg_minus [of r 1] sint_reg_bounds [of r] by simp

lemma sint_initial_preservation [simp]: "sint initial_preservation_index = 32766"
  by (simp add: initial_preservation_index_def)

lemma sint_i16_max [simp]: "sint (i16_max a b) = max (sint a) (sint b)"
  by (simp add: i16_max_def max_def)

lemma sint_i16_min [simp]: "sint (i16_min a b) = min (sint a) (sint b)"
  by (simp add: i16_min_def min_def)

lemma reg_eq_iff: "a = b \<longleftrightarrow> sint a = sint (b :: reg)"
  by (simp add: sint_eq_iff)

definition reg_key :: "reg \<Rightarrow> nat" where "reg_key r = nat (32766 - sint r)"

lemma reg2key_eq: "0 \<le> sint r \<Longrightarrow> sint r \<le> 32766 \<Longrightarrow> reg2key r = Inr (reg_key r)"
  using sint_reg_minus [of initial_preservation_index r] by (simp add: reg2key_def reg_key_def)

lemma key2reg_eq: "key2reg k = Inr r \<longleftrightarrow> k < 2 ^ 15 \<and> sint r = 32766 - int k"
proof (cases "k < 2 ^ 15")
  case True
  then have "sint (initial_preservation_index - of_nat k) = 32766 - int k"
    using sint_reg_minus [of initial_preservation_index "of_nat k"] sint_reg_of_nat [OF True] by simp
  with True show ?thesis by (auto simp: key2reg_def reg_eq_iff)
qed (simp add: key2reg_def)

lemma reg_key_eq: "0 \<le> sint r \<Longrightarrow> sint r \<le> 32766 \<Longrightarrow> sint q \<le> 32766 \<Longrightarrow> reg_key r = reg_key q \<longleftrightarrow> r = q"
  unfolding reg_key_def reg_eq_iff by linarith


section \<open>The invariant of the allocator\<close>

text \<open>
  \<open>u r\<close> is the number of uses of the preserved register \<open>r\<close>: its slot counts one more, so that
  it survives until the next collection, or it is vacant and unused.
\<close>

definition stash_counts :: "'m stash_ops \<Rightarrow> 'm \<Rightarrow> int \<Rightarrow> (reg \<Rightarrow> nat) \<Rightarrow> bool" where
  "stash_counts ms m lim u \<longleftrightarrow>
    (\<forall>r. 0 < u r \<longrightarrow> lim < sint r \<and> 0 \<le> sint r \<and> sint r \<le> 32766) \<and>
    (\<forall>r. 0 \<le> sint r \<longrightarrow> sint r \<le> 32766 \<longrightarrow>
       (case st_get ms m (reg_key r) of Some a \<Rightarrow> a = Suc (u r) \<and> lim < sint r | None \<Rightarrow> u r = 0))"

definition ra_inv :: "'m stash_ops \<Rightarrow> (reg \<Rightarrow> nat) \<Rightarrow> 'm reg_alloc \<Rightarrow> bool" where
  "ra_inv ms u ra \<longleftrightarrow> ra_phase ra = PhaseAlloc \<and>
    0 \<le> sint (ra_len_locals ra) \<and> sint (ra_len_locals ra) \<le> sint (ra_next_dynamic ra) \<and>
    sint (ra_next_dynamic ra) \<le> sint (ra_max_dynamic ra) \<and> sint (ra_min_preserve ra) \<le> 32766 \<and>
    stash_counts ms (ra_preservations ra) (sint (ra_min_preserve ra)) u"

text \<open>The dynamic registers have not met the preserved ones.\<close>

definition ra_apart :: "'m reg_alloc \<Rightarrow> bool" where
  "ra_apart ra \<longleftrightarrow> sint (ra_next_dynamic ra) \<le> sint (ra_min_preserve ra)"

text \<open>The registers that hold locals and dynamic values.\<close>

definition ra_lower :: "'m reg_alloc \<Rightarrow> reg \<Rightarrow> bool" where
  "ra_lower ra r \<longleftrightarrow> 0 \<le> sint r \<and> sint r < sint (ra_next_dynamic ra)"

lemma ra_inv_used: "ra_inv ms u ra \<Longrightarrow> 0 < u r \<Longrightarrow> sint (ra_min_preserve ra) < sint r \<and> 0 \<le> sint r \<and> sint r \<le> 32766"
  unfolding ra_inv_def stash_counts_def by blast

lemma ra_inv_lower_unused: "ra_inv ms u ra \<Longrightarrow> ra_apart ra \<Longrightarrow> ra_lower ra r \<Longrightarrow> u r = 0"
  using ra_inv_used [of ms u ra r] by (auto simp: ra_apart_def ra_lower_def)

lemma stash_counts_empty: "(\<And>k. st_get ms m k = None) \<Longrightarrow> stash_counts ms m lim (\<lambda>_. 0)"
  by (simp add: stash_counts_def)

lemma ra_inv_finish:
  assumes laws: "stash_laws ms" and reg: "ra_register_locals n (ra_reset ms ra0) = Inr ra"
    and fin: "ra_finish_register_locals ra = Inr ra'"
  shows "ra_inv ms (\<lambda>_. 0) ra'" "ra_apart ra'" "sint (ra_len_locals ra') = sint (ra_next_dynamic ra')"
proof -
  from reg obtain k where bl: "bump_locals 0 n = Some k"
      and ra: "ra = (ra_reset ms ra0)\<lparr>ra_len_locals := k, ra_next_dynamic := k, ra_max_dynamic := k\<rparr>"
    by (cases "bump_locals 0 n") (auto simp: ra_register_locals_def ra_reset_def)
  from bl have "k < max_len_locals" by (auto simp: bump_locals_def Let_def split: if_splits)
  then have lt: "unat k < 32766" by (simp add: max_len_locals_def word_less_nat_alt)
  then have "sint k = int (unat k)" using sint_reg_of_nat [of "unat k"] by simp
  then have k: "0 \<le> sint k \<and> sint k \<le> 32766" using lt by linarith
  have ra': "ra' = ra\<lparr>ra_phase := PhaseAlloc\<rparr>" using fin by (auto simp: ra_finish_register_locals_def split: if_splits)
  have "stash_counts ms (st_clear ms (ra_preservations ra0)) 32766 (\<lambda>_. 0)"
    using laws by (intro stash_counts_empty) (simp add: stash_laws_def)
  with k show "ra_inv ms (\<lambda>_. 0) ra'" "ra_apart ra'" "sint (ra_len_locals ra') = sint (ra_next_dynamic ra')"
    by (simp_all add: ra' ra ra_reset_def ra_inv_def ra_apart_def)
qed

lemma ra_push_dynamic_inv:
  assumes inv: "ra_inv ms u ra" and apart: "ra_apart ra" and push: "ra_push_dynamic ra = Inr (r, ra')"
  shows "ra_inv ms u ra'" "ra_apart ra'" "r = ra_next_dynamic ra" "sint (ra_next_dynamic ra') = sint r + 1"
    "ra_lower ra' r" "\<not> ra_lower ra r" "ra_register_space ra' r = SpaceDynamic"
proof -
  from push have r: "r = ra_next_dynamic ra" "ra_next_dynamic ra \<noteq> ra_min_preserve ra"
    and ra': "ra' = ra\<lparr>ra_next_dynamic := r + 1, ra_max_dynamic := i16_max (ra_max_dynamic ra) (r + 1)\<rparr>"
    by (auto simp: ra_push_dynamic_def Let_def split: if_splits)
  have lt: "sint r < sint (ra_min_preserve ra)"
    using r apart by (auto simp: ra_apart_def reg_eq_iff)
  then have s: "sint (r + 1) = sint r + 1" using sint_reg_Suc [of r] sint_reg_bounds [of "ra_min_preserve ra"] by linarith
  from inv r have nn: "0 \<le> sint r" "0 \<le> sint (ra_len_locals ra)" "sint (ra_len_locals ra) \<le> sint r" by (auto simp: ra_inv_def)
  show "ra_inv ms u ra'" using inv s unfolding ra' by (auto simp: ra_inv_def r(1) [symmetric])
  show "ra_apart ra'" using lt s by (simp add: ra_apart_def ra')
  show "r = ra_next_dynamic ra" by fact
  show "sint (ra_next_dynamic ra') = sint r + 1" using s by (simp add: ra')
  show "ra_lower ra' r" using s nn by (simp add: ra_lower_def ra')
  show "\<not> ra_lower ra r" using r by (simp add: ra_lower_def)
  show "ra_register_space ra' r = SpaceDynamic"
    using nn lt by (simp add: ra_register_space_def reg_is_const_def ra_is_local_def ra_is_preserved_def ra_min_dynamic_def ra')
qed

lemma ra_pop_dynamic_inv:
  assumes inv: "ra_inv ms u ra" and pop: "ra_pop_dynamic ra = Inr ra'"
  shows "ra_inv ms u ra'" "ra_apart ra \<Longrightarrow> ra_apart ra'" "sint (ra_next_dynamic ra') = sint (ra_next_dynamic ra) - 1"
proof -
  from pop have ra': "ra' = ra\<lparr>ra_next_dynamic := ra_next_dynamic ra - 1\<rparr>" "ra_next_dynamic ra \<noteq> ra_len_locals ra"
    by (auto simp: ra_pop_dynamic_def ra_min_dynamic_def split: if_splits)
  then have "sint (ra_len_locals ra) < sint (ra_next_dynamic ra)" "0 \<le> sint (ra_len_locals ra)"
    using inv by (auto simp: ra_inv_def reg_eq_iff)
  moreover from this have "sint (ra_next_dynamic ra - 1) = sint (ra_next_dynamic ra) - 1"
    by (intro sint_reg_pred) linarith
  ultimately show "ra_inv ms u ra'" "ra_apart ra \<Longrightarrow> ra_apart ra'" "sint (ra_next_dynamic ra') = sint (ra_next_dynamic ra) - 1"
    using inv by (auto simp: ra_inv_def ra_apart_def ra'(1))
qed


lemma i16_of_usize_Some: "i16_of_usize n = Some k \<longleftrightarrow> n < 2 ^ 15 \<and> k = of_nat n"
  by (auto simp: i16_of_usize_def)

lemma ra_push_dynamic_n_inv:
  assumes inv: "ra_inv ms u ra" and apart: "ra_apart ra" and push: "ra_push_dynamic_n n ra = Inr (r, ra')"
  shows "ra_inv ms u ra'" "ra_apart ra'" "r = ra_next_dynamic ra"
    "sint (ra_next_dynamic ra') = sint r + int n" "sint r + int n < 32768" "n < 2 ^ 15"
    "sint r + int n < sint (ra_min_preserve ra)" "ra_min_preserve ra' = ra_min_preserve ra"
    "ra_len_locals ra' = ra_len_locals ra" "ra_preservations ra' = ra_preservations ra"
proof -
  from push obtain k next_idx where k: "n < 2 ^ 15" "k = of_nat n"
      "i16_checked_add (ra_next_dynamic ra) k = Some next_idx" "\<not> sint (ra_min_preserve ra) \<le> sint next_idx"
    and r: "r = ra_next_dynamic ra"
    and ra': "ra' = ra\<lparr>ra_next_dynamic := r + k, ra_max_dynamic := i16_max (ra_max_dynamic ra) (r + k)\<rparr>"
    by (auto simp: ra_push_dynamic_n_def ok_or_eq_Inr next_dynamic_n_def bind_eq_Some_conv i16_of_usize_Some Let_def
        split: if_splits)
  have sk: "sint k = int n" using k by (simp add: sint_reg_of_nat)
  have nx: "next_idx = r + k" "sint r + int n < 32768" "- 32768 \<le> sint r + int n"
    using k sk r by (auto simp: i16_checked_add_def split: if_splits)
  have s: "sint (r + k) = sint r + int n" using nx sk sint_reg_plus [of r k] by simp
  show "ra_inv ms u ra'" using inv s unfolding ra' by (auto simp: ra_inv_def r [symmetric])
  show "ra_apart ra'" using k(4) nx by (simp add: ra_apart_def ra')
  show "r = ra_next_dynamic ra" by fact
  show "sint (ra_next_dynamic ra') = sint r + int n" using s by (simp add: ra')
  show "sint r + int n < 32768" "n < 2 ^ 15" using nx k by simp_all
  show "sint r + int n < sint (ra_min_preserve ra)" using k(4) nx s by simp
  show "ra_min_preserve ra' = ra_min_preserve ra" "ra_len_locals ra' = ra_len_locals ra"
    "ra_preservations ra' = ra_preservations ra" by (simp_all add: ra')
qed

lemma ra_pop_dynamic_n_inv:
  assumes inv: "ra_inv ms u ra" and pop: "ra_pop_dynamic_n n ra = Inr ra'"
  shows "ra_inv ms u ra'" "ra_apart ra \<Longrightarrow> ra_apart ra'"
    "sint (ra_next_dynamic ra') = sint (ra_next_dynamic ra) - int n"
    "ra' = ra\<lparr>ra_next_dynamic := ra_next_dynamic ra'\<rparr>"
proof -
  from pop obtain k where k: "n < 2 ^ 15" "k = of_nat n" "i16_checked_sub (ra_next_dynamic ra) k = Some (ra_next_dynamic ra')"
      "\<not> sint (ra_next_dynamic ra') < sint (ra_len_locals ra)"
    and ra': "ra' = ra\<lparr>ra_next_dynamic := ra_next_dynamic ra'\<rparr>"
    by (auto simp: ra_pop_dynamic_n_def bind_eq_Some_conv i16_of_usize_Some ra_min_dynamic_def
        split: if_splits option.splits)
  have sk: "sint k = int n" using k by (simp add: sint_reg_of_nat)
  have s: "sint (ra_next_dynamic ra') = sint (ra_next_dynamic ra) - int n"
    using k sk sint_reg_minus [of "ra_next_dynamic ra" k] by (auto simp: i16_checked_sub_def split: if_splits)
  show "ra_inv ms u ra'" using inv s k(4) by (subst ra') (auto simp: ra_inv_def)
  show "ra_apart ra \<Longrightarrow> ra_apart ra'" using s by (subst ra') (simp add: ra_apart_def)
  show "sint (ra_next_dynamic ra') = sint (ra_next_dynamic ra) - int n" by fact
  show "ra' = ra\<lparr>ra_next_dynamic := ra_next_dynamic ra'\<rparr>" by fact
qed

text \<open>A new preserved register is one that nothing uses.\<close>

lemma stash_counts_put:
  assumes laws: "stash_laws ms" and counts: "stash_counts ms m lim u" and put: "st_put ms 2 m = (k, m')"
    and r: "sint r = 32766 - int k" "0 \<le> sint r" and lim': "lim' = min lim (sint r - 1)"
  shows "stash_counts ms m' lim' (u(r := 1))" "u r = 0"
proof -
  from laws put have g: "st_get ms m k = None" "st_get ms m' = (st_get ms m)(k \<mapsto> 2)"
    unfolding stash_laws_def by (metis zero_less_numeral)+
  have k: "reg_key r = k" using r by (simp add: reg_key_def)
  have rr: "0 \<le> sint r" "sint r \<le> 32766" using r by simp_all
  show "u r = 0" using counts g(1) k rr by (force simp: stash_counts_def)
  have used: "\<And>q. 0 < u q \<Longrightarrow> lim < sint q \<and> 0 \<le> sint q \<and> sint q \<le> 32766"
    and slots: "\<And>q. 0 \<le> sint q \<Longrightarrow> sint q \<le> 32766 \<Longrightarrow>
       (case st_get ms m (reg_key q) of Some a \<Rightarrow> a = Suc (u q) \<and> lim < sint q | None \<Rightarrow> u q = 0)"
    using counts unfolding stash_counts_def by blast+
  have "case st_get ms m' (reg_key q) of Some a \<Rightarrow> a = Suc ((u(r := 1)) q) \<and> lim' < sint q | None \<Rightarrow> (u(r := 1)) q = 0"
    if q: "0 \<le> sint q" "sint q \<le> 32766" for q
  proof (cases "q = r")
    case False
    then have "reg_key q \<noteq> k" using reg_key_eq [OF q rr(2)] k by simp
    then show ?thesis using slots [OF q] False lim' by (auto simp: g(2) split: option.splits)
  qed (simp add: g(2) k lim')
  then show "stash_counts ms m' lim' (u(r := 1))"
    unfolding stash_counts_def using used rr lim' by (auto simp: min_def split: if_splits dest!: used)
qed

lemma ra_push_preserved_inv:
  assumes laws: "stash_laws ms" and inv: "ra_inv ms u ra" and push: "ra_push_preserved ms ra = Inr (r, ra')"
    and apart: "ra_apart ra'"
  shows "ra_inv ms (u(r := 1)) ra'" "u r = 0" "sint (ra_min_preserve ra') < sint r" "sint r \<le> 32766"
    "ra_next_dynamic ra' = ra_next_dynamic ra" "ra_len_locals ra' = ra_len_locals ra"
    "sint (ra_min_preserve ra') \<le> sint (ra_min_preserve ra)"
proof -
  obtain k m where put: "st_put ms 2 (ra_preservations ra) = (k, m)" by fastforce
  let ?ra = "ra\<lparr>ra_removed_preserved := [], ra_preservations := m\<rparr>"
  from push put have k: "key2reg k = Inr r" and ra': "update_min_preserved (reg_prev r) ?ra = Inr ra'"
    by (auto simp: ra_push_preserved_def Let_def rsimps split: if_splits)
  from k have r: "sint r = 32766 - int k" "k < 2 ^ 15" by (simp_all add: key2reg_eq)
  then have p: "sint (reg_prev r) = sint r - 1"
    using sint_reg_pred [of r] by (simp add: reg_prev_def reg_prev_n_def)
  from ra' have eq: "ra' = ?ra\<lparr>ra_min_preserve := i16_min (ra_min_preserve ra) (reg_prev r)\<rparr>"
    by (auto simp: update_min_preserved_def Let_def split: if_splits)
  have c: "stash_counts ms (ra_preservations ra) (sint (ra_min_preserve ra)) u" and nn: "0 \<le> sint (ra_next_dynamic ra)"
    using inv by (auto simp: ra_inv_def)
  have pos: "0 \<le> sint r" using apart nn by (simp add: ra_apart_def eq p)
  note cp = stash_counts_put [OF laws c put r(1) pos refl]
  show "u r = 0" by (rule cp)
  show "ra_inv ms (u(r := 1)) ra'" using inv cp(1) by (simp add: ra_inv_def eq p min.coboundedI1)
  show "sint (ra_min_preserve ra') < sint r" "sint r \<le> 32766" "ra_next_dynamic ra' = ra_next_dynamic ra"
    "ra_len_locals ra' = ra_len_locals ra" "sint (ra_min_preserve ra') \<le> sint (ra_min_preserve ra)"
    using r by (simp_all add: eq p)
qed


lemma stash_counts_upd:
  assumes counts: "stash_counts ms m lim u" and r: "0 \<le> sint r" "sint r \<le> 32766"
    and get: "st_get ms m' = (st_get ms m)(reg_key r := x)"
    and x: "case x of Some a \<Rightarrow> a = Suc n \<and> lim < sint r | None \<Rightarrow> n = 0" "0 < n \<Longrightarrow> lim < sint r"
  shows "stash_counts ms m' lim (u(r := n))"
proof -
  have used: "\<And>q. 0 < u q \<Longrightarrow> lim < sint q \<and> 0 \<le> sint q \<and> sint q \<le> 32766"
    and slots: "\<And>q. 0 \<le> sint q \<Longrightarrow> sint q \<le> 32766 \<Longrightarrow>
       (case st_get ms m (reg_key q) of Some a \<Rightarrow> a = Suc (u q) \<and> lim < sint q | None \<Rightarrow> u q = 0)"
    using counts unfolding stash_counts_def by blast+
  have "case st_get ms m' (reg_key q) of Some a \<Rightarrow> a = Suc ((u(r := n)) q) \<and> lim < sint q | None \<Rightarrow> (u(r := n)) q = 0"
    if q: "0 \<le> sint q" "sint q \<le> 32766" for q
  proof (cases "q = r")
    case False
    then have "reg_key q \<noteq> reg_key r" using reg_key_eq [OF q r(2)] by simp
    then show ?thesis using slots [OF q] False by (auto simp: get split: option.splits)
  qed (use x in \<open>auto simp: get split: option.splits\<close>)
  then show ?thesis unfolding stash_counts_def using used r x(2) by simp
qed

lemma ra_bump_preserved_inv:
  assumes laws: "stash_laws ms" and inv: "ra_inv ms u ra" and used: "0 < u r"
  shows "\<exists>m. ra_bump_preserved ms r ra = Inr (ra\<lparr>ra_preservations := m\<rparr>) \<and>
    ra_inv ms (u(r := Suc (u r))) (ra\<lparr>ra_preservations := m\<rparr>)"
proof -
  note rr = ra_inv_used [OF inv used]
  let ?m = "snd (st_bump ms (reg_key r) 1 (ra_preservations ra))"
  have c: "stash_counts ms (ra_preservations ra) (sint (ra_min_preserve ra)) u" using inv by (simp add: ra_inv_def)
  then obtain a where a: "st_get ms (ra_preservations ra) (reg_key r) = Some a" "a = Suc (u r)"
    using rr used unfolding stash_counts_def by (fastforce split: option.splits)
  have "st_get ms ?m = (st_get ms (ra_preservations ra))(reg_key r := Some (a + 1))"
    using laws a(1) unfolding stash_laws_def by simp
  then have "stash_counts ms ?m (sint (ra_min_preserve ra)) (u(r := Suc (u r)))"
    using rr a by (intro stash_counts_upd [OF c]) auto
  then show ?thesis using inv rr by (intro exI [of _ ?m]) (simp add: ra_bump_preserved_def reg2key_eq ra_inv_def)
qed

lemma ra_pop_preserved_inv:
  assumes laws: "stash_laws ms" and inv: "ra_inv ms u ra" and used: "0 < u r"
  shows "\<exists>ra'. ra_pop_preserved ms r ra = Inr ra' \<and> ra_inv ms (u(r := u r - 1)) ra' \<and>
    ra_next_dynamic ra' = ra_next_dynamic ra \<and> ra_min_preserve ra' = ra_min_preserve ra \<and>
    ra_len_locals ra' = ra_len_locals ra"
proof -
  note rr = ra_inv_used [OF inv used]
  obtain found m where tk: "st_take_one ms (reg_key r) (ra_preservations ra) = (found, m)" by fastforce
  have c: "stash_counts ms (ra_preservations ra) (sint (ra_min_preserve ra)) u" using inv by (simp add: ra_inv_def)
  then obtain a where a: "st_get ms (ra_preservations ra) (reg_key r) = Some a" "a = Suc (u r)"
    using rr used unfolding stash_counts_def by (fastforce split: option.splits)
  have "fst (st_take_one ms (reg_key r) (ra_preservations ra)) \<and>
      st_get ms (snd (st_take_one ms (reg_key r) (ra_preservations ra))) =
        (st_get ms (ra_preservations ra))(reg_key r := Some (u r))"
    using laws a used unfolding stash_laws_def by simp
  then have g: found "st_get ms m = (st_get ms (ra_preservations ra))(reg_key r := Some (u r))" by (simp_all add: tk)
  have "stash_counts ms m (sint (ra_min_preserve ra)) (u(r := u r - 1))"
    using rr used g(2) by (intro stash_counts_upd [OF c]) auto
  then show ?thesis using inv rr tk g(1) by (simp add: ra_pop_preserved_def reg2key_eq ra_inv_def)
qed

lemma stash_counts_gc:
  assumes laws: "stash_laws ms" and c: "stash_counts ms m lim u"
  shows "stash_counts ms (gc_key ms k m) lim u"
proof (cases "st_get ms m k = Some 1")
  case True
  then have g: "st_get ms (gc_key ms k m) = (st_get ms m)(k := None)"
    using laws by (simp add: gc_key_def stash_laws_def)
  show ?thesis unfolding stash_counts_def g
  proof (intro conjI allI impI)
    fix q :: reg assume q: "0 \<le> sint q" "sint q \<le> 32766"
    then have "case st_get ms m (reg_key q) of Some a \<Rightarrow> a = Suc (u q) \<and> lim < sint q | None \<Rightarrow> u q = 0"
      using c unfolding stash_counts_def by blast
    then show "case ((st_get ms m)(k := None)) (reg_key q) of Some a \<Rightarrow> a = Suc (u q) \<and> lim < sint q | None \<Rightarrow> u q = 0"
      using True by (auto split: option.splits)
  qed (use c in \<open>auto simp: stash_counts_def\<close>)
qed (use c in \<open>simp add: gc_key_def\<close>)

lemma ra_gc_preservations_inv:
  assumes laws: "stash_laws ms" and inv: "ra_inv ms u ra"
  shows "\<exists>m. ra_gc_preservations ms ra = Inr (ra\<lparr>ra_preservations := m\<rparr>) \<and> ra_inv ms u (ra\<lparr>ra_preservations := m\<rparr>)"
proof -
  have "stash_counts ms (fold (gc_key ms) ks m) lim u" if "stash_counts ms m lim u" for ks m lim
    using that by (induction ks arbitrary: m) (auto simp: stash_counts_gc [OF laws])
  then show ?thesis using inv by (auto simp: ra_gc_preservations_def ra_inv_def)
qed


section \<open>Defragmentation\<close>

text \<open>
  When the dynamic and the preserved registers have stayed apart, defragmentation maps the
  registers below \<open>max_dynamic\<close> and above \<open>min_preserve\<close> one to one onto the first
  \<open>len_registers\<close> registers.
\<close>

definition ra_in_use :: "'m reg_alloc \<Rightarrow> reg \<Rightarrow> bool" where
  "ra_in_use ra r \<longleftrightarrow> 0 \<le> sint r \<and> sint r \<le> 32766 \<and>
    (sint r < sint (ra_max_dynamic ra) \<or> sint (ra_min_preserve ra) < sint r)"

definition ra_frame_reg :: "'m reg_alloc \<Rightarrow> reg \<Rightarrow> int" where
  "ra_frame_reg ra r =
    (if sint r < sint (ra_max_dynamic ra) then sint r
     else sint (ra_max_dynamic ra) + (sint r - sint (ra_min_preserve ra) - 1))"

lemma ra_defrag_eq:
  assumes inv: "ra_inv ms u ra" and max: "sint (ra_max_dynamic ra) \<le> sint (ra_min_preserve ra)"
    and fin: "ra_finalize_alloc ra = Inr ra'" and use: "ra_in_use ra r"
  shows "\<exists>q. ra_defrag_register ra' r = Inr q \<and> sint q = ra_frame_reg ra r"
proof -
  let ?mn = "sint (ra_min_preserve ra)" and ?mx = "sint (ra_max_dynamic ra)"
  have b: "0 \<le> ?mx" "?mn \<le> 32766" using inv by (auto simp: ra_inv_def)
  have ra': "ra' = ra\<lparr>ra_phase := PhaseDefrag,
      ra_defrag_offset := i16_saturating_add (ra_min_preserve ra - ra_max_dynamic ra) 1\<rparr>"
    using fin by (auto simp: ra_finalize_alloc_def split: if_splits)
  have d: "sint (ra_min_preserve ra - ra_max_dynamic ra) = ?mn - ?mx"
    using b max by (intro sint_reg_minus) auto
  then have off: "sint (ra_defrag_offset ra') = ?mn - ?mx + 1"
    using b max sint_of_range [where 'a = 16, of "?mn - ?mx + 1"]
    by (simp add: ra' i16_saturating_add_def)
  show ?thesis
  proof (cases "?mn < sint r")
    case False
    then have "sint r < ?mx" using use by (simp add: ra_in_use_def)
    with False show ?thesis by (simp add: ra' ra_defrag_register_def ra_is_preserved_def ra_frame_reg_def)
  next
    case True
    then have "sint (r - ra_defrag_offset ra') = sint r - (?mn - ?mx + 1)"
      using use off max b sint_reg_minus [of r "ra_defrag_offset ra'"] by (simp add: ra_in_use_def)
    with True max show ?thesis
      by (simp add: ra_defrag_register_def ra_is_preserved_def ra_frame_reg_def ra')
  qed
qed

lemma ra_frame_reg_bij:
  assumes inv: "ra_inv ms u ra" and max: "sint (ra_max_dynamic ra) \<le> sint (ra_min_preserve ra)"
  shows "bij_betw (ra_frame_reg ra) {r. ra_in_use ra r} {0..<uint (ra_len_registers ra)}"
proof -
  let ?mn = "sint (ra_min_preserve ra)" and ?mx = "sint (ra_max_dynamic ra)"
  have b: "0 \<le> ?mx" "?mn \<le> 32766" using inv by (auto simp: ra_inv_def)
  have "ra_len_registers ra = word_of_int (32766 - (?mn - ?mx))"
    using max by (simp add: ra_len_registers_def i16_abs_diff_def max_len_locals_def)
  then have "uint (ra_len_registers ra) = (32766 - (?mn - ?mx)) mod 2 ^ 16"
    by (simp only: uint_word_of_int) simp
  also have "\<dots> = 32766 - (?mn - ?mx)" using b max by (intro mod_pos_pos_trivial) auto
  finally have len: "uint (ra_len_registers ra) = 32766 - (?mn - ?mx)" .
  show ?thesis
  proof (rule bij_betwI')
    fix r q :: reg assume "r \<in> {r. ra_in_use ra r}" "q \<in> {r. ra_in_use ra r}"
    then show "(ra_frame_reg ra r = ra_frame_reg ra q) = (r = q)"
      using max by (auto simp: ra_in_use_def ra_frame_reg_def reg_eq_iff)
  next
    fix r :: reg assume "r \<in> {r. ra_in_use ra r}"
    then show "ra_frame_reg ra r \<in> {0..<uint (ra_len_registers ra)}"
      using max b by (auto simp: ra_in_use_def ra_frame_reg_def len)
  next
    fix n :: int assume n: "n \<in> {0..<uint (ra_len_registers ra)}"
    let ?k = "if n < ?mx then n else n - ?mx + ?mn + 1"
    have "0 \<le> ?k" "?k < 2 ^ 15 - 1" using n max b by (auto simp: len)
    then have "sint (word_of_int ?k :: reg) = ?k" by (intro sint_of_range) auto
    then show "\<exists>r \<in> {r. ra_in_use ra r}. n = ra_frame_reg ra r"
      using n max b by (intro bexI [of _ "word_of_int ?k"]) (auto simp: ra_in_use_def ra_frame_reg_def len split: if_splits)
  qed
qed


section \<open>A stash\<close>

text \<open>A list of slots that satisfies the laws; new items take the first vacant slot.\<close>

primrec first_vacant :: "nat option list \<Rightarrow> nat" where
  "first_vacant [] = 0"
| "first_vacant (x # xs) = (if x = None then 0 else Suc (first_vacant xs))"

definition slot_get :: "nat option list \<Rightarrow> nat \<Rightarrow> nat option" where
  "slot_get m k = (if k < length m then m ! k else None)"

definition slot_set :: "nat option list \<Rightarrow> nat \<Rightarrow> nat option \<Rightarrow> nat option list" where
  "slot_set m k x = (if k < length m then m[k := x] else m)"

definition list_stash :: "nat option list stash_ops" where
  "list_stash = \<lparr>st_clear = (\<lambda>_. []),
     st_put = (\<lambda>n m. (first_vacant m, slot_set (m @ [None]) (first_vacant m) (Some n))),
     st_get = slot_get,
     st_bump = (\<lambda>k n m. (slot_get m k, slot_set m k (map_option (\<lambda>a. a + n) (slot_get m k)))),
     st_take_one = (\<lambda>k m. (slot_get m k \<noteq> None,
        slot_set m k (case slot_get m k of Some a \<Rightarrow> if a \<le> 1 then None else Some (a - 1) | None \<Rightarrow> None))),
     st_take_all = (\<lambda>k m. (slot_get m k, slot_set m k None))\<rparr>"

lemma first_vacant_get: "slot_get m (first_vacant m) = None" "first_vacant m \<le> length m"
  by (induction m) (auto simp: slot_get_def)

lemma slot_get_set: "slot_get m k = None \<and> x = None \<or> k < length m \<Longrightarrow> slot_get (slot_set m k x) = (slot_get m)(k := x)"
  by (auto simp: slot_get_def slot_set_def fun_eq_iff)

lemma slot_get_append: "slot_get (m @ [None]) = slot_get m"
  by (auto simp: slot_get_def fun_eq_iff nth_append)

lemma list_stash_laws: "stash_laws list_stash"
proof -
  have *: "slot_get (slot_set m k x) = (slot_get m)(k := x)" if "slot_get m k = None \<Longrightarrow> x = None" for m k x
    using that by (intro slot_get_set) (auto simp: slot_get_def split: if_splits)
  have "slot_get (slot_set (m @ [None]) (first_vacant m) (Some n)) = (slot_get m)(first_vacant m \<mapsto> n)" for m n
    using first_vacant_get [of m] by (subst slot_get_set) (auto simp: slot_get_append)
  then show ?thesis unfolding stash_laws_def list_stash_def
    by (auto simp: * first_vacant_get slot_get_def [of "[]"] split: option.split)
qed


section \<open>The spaces can collide\<close>

text \<open>
  \<open>update_min_preserved\<close> and \<open>push_dynamic\<close> test for equality only. When the dynamic registers
  end just below the preserved ones, a new preserved register jumps over the boundary, and the
  next dynamic register is the same register again.
\<close>

lemma spaces_collide_aux:
  assumes "ra_phase ra = PhaseAlloc" "ra_next_dynamic ra = ra_min_preserve ra" "0 < sint (ra_min_preserve ra)"
    and "st_put ms 2 (ra_preservations ra) = (reg_key (ra_min_preserve ra), m)"
    and "sint (ra_min_preserve ra) \<le> 32766"
  shows "\<exists>ra' ra''. ra_push_preserved ms ra = Inr (ra_min_preserve ra, ra') \<and>
    ra_push_dynamic ra' = Inr (ra_min_preserve ra, ra'')"
proof -
  let ?r = "ra_min_preserve ra"
  have k: "key2reg (reg_key ?r) = Inr ?r" using assms by (simp add: key2reg_eq reg_key_def)
  have p: "sint (?r - 1) = sint ?r - 1" using assms by (intro sint_reg_pred) simp
  then have "i16_min ?r (?r - 1) = ?r - 1" "?r \<noteq> ?r - 1" by (simp_all add: i16_min_def reg_eq_iff)
  then show ?thesis using assms k
    by (simp add: ra_push_preserved_def update_min_preserved_def ra_push_dynamic_def Let_def reg_prev_def reg_prev_n_def)
qed

end
