(* ===== verification/Tr_Stack.thy ===== *)
theory Tr_Stack
  imports Tr_Regs
begin

text \<open>
  The emulated value stack of the translator: \<open>provider.rs\<close>, \<open>stack/provider.rs\<close>,
  \<open>stack/mod.rs\<close> and parts of \<open>utils.rs\<close>. A Wasm value on the stack is a provider, that is, a
  register or a constant; \<open>local.get\<close> only pushes the register of the local. Before a local is
  written, \<open>preserve_locals\<close> replaces its occurrences on the stack by a preserved register, into
  which the translator then copies the old value. The stack grows at the end of the list.

  \<open>local_write_keeps_stack\<close> and \<open>fresh_register_keeps_stack\<close> are what the lazy stack
  needs: writing the local, or the result of an operation, changes no value that the stack denotes.
\<close>


section \<open>Providers\<close>

record typed_val =
  tv_ty :: val_type
  tv_value :: untyped_val

datatype 'a provider = ProvReg reg | ProvConst 'a

type_synonym typed_provider = "typed_val provider"
type_synonym untyped_provider = "untyped_val provider"

definition into_register :: "'a provider \<Rightarrow> reg option" where
  "into_register p = (case p of ProvReg r \<Rightarrow> Some r | ProvConst _ \<Rightarrow> None)"

definition map_const :: "('a \<Rightarrow> 'b) \<Rightarrow> 'a provider \<Rightarrow> 'b provider" where
  "map_const f p = (case p of ProvReg r \<Rightarrow> ProvReg r | ProvConst v \<Rightarrow> ProvConst (f v))"

definition into_untyped :: "typed_provider \<Rightarrow> untyped_provider" where
  "into_untyped p = (case p of ProvReg r \<Rightarrow> ProvReg r | ProvConst v \<Rightarrow> ProvConst (tv_value v))"

datatype tagged_provider =
    TagConstLocal reg
  | TagLocal reg
  | TagDynamic reg
  | TagPreserved reg
  | TagConstValue typed_val

definition typed_of_tagged :: "tagged_provider \<Rightarrow> typed_provider" where
  "typed_of_tagged p =
    (case p of
       TagLocal r \<Rightarrow> ProvReg r
     | TagDynamic r \<Rightarrow> ProvReg r
     | TagPreserved r \<Rightarrow> ProvReg r
     | TagConstLocal r \<Rightarrow> ProvReg r
     | TagConstValue v \<Rightarrow> ProvConst v)"

text \<open>\<open>ProviderSliceStack\<close>, a stack of lists of providers in one vector.\<close>

record 'a provider_slices =
  sl_ends :: "nat list"
  sl_providers :: "'a provider list"

definition slices_reset :: "'a provider_slices \<Rightarrow> 'a provider_slices" where
  "slices_reset s = s\<lparr>sl_ends := [], sl_providers := []\<rparr>"

definition slice_ref_from_index :: "nat \<Rightarrow> tr_error + u32" where
  "slice_ref_from_index index =
    (if index < 2 ^ 32 then Inr (of_nat index) else Inl (TErr ProviderSliceOverflow))"

definition slices_push :: "'a provider list \<Rightarrow> 'a provider_slices \<Rightarrow> tr_error + (u32 \<times> 'a provider_slices)" where
  "slices_push ps s =
    (let providers = sl_providers s @ ps; index = length (sl_ends s)
     in rmap (\<lambda>i. (i, s\<lparr>sl_providers := providers, sl_ends := sl_ends s @ [length providers]\<rparr>))
          (slice_ref_from_index index))"

definition slices_pop :: "'a provider_slices \<Rightarrow> ('a provider list \<times> 'a provider_slices) option" where
  "slices_pop s =
    (if sl_ends s = [] then None
     else let end_index = last (sl_ends s); ends = butlast (sl_ends s);
              start = (if ends = [] then 0 else last ends)
          in Some (take (end_index - start) (drop start (sl_providers s)),
                   s\<lparr>sl_ends := ends, sl_providers := take start (sl_providers s) @ drop end_index (sl_providers s)\<rparr>))"

definition register_index :: "typed_provider \<Rightarrow> reg option" where
  "register_index p = (case p of ProvReg r \<Rightarrow> Some r | ProvConst _ \<Rightarrow> None)"

primrec span_end :: "reg \<Rightarrow> typed_provider list \<Rightarrow> reg option" where
  "span_end prev [] = Some prev"
| "span_end prev (p # ps) =
    Option.bind (register_index p) (\<lambda>next.
    Option.bind (i16_checked_sub next prev) (\<lambda>d. if d \<noteq> 1 then None else span_end next ps))"

definition span_from_providers :: "typed_provider list \<Rightarrow> bounded_reg_span option" where
  "span_from_providers ps =
    (case ps of
       [] \<Rightarrow> None
     | p # rest \<Rightarrow>
         Option.bind (register_index p) (\<lambda>first_index.
         Option.bind (span_end first_index rest) (\<lambda>prev_index.
         Option.bind (i16_checked_add prev_index 1) (\<lambda>end_index.
         Some \<lparr>brs_span = first_index, brs_len = end_index - first_index\<rparr>))))"


section \<open>The stack of providers\<close>

record preserved_local =
  pl_local :: reg
  pl_preserved :: reg

record provider_stack =
  ps_providers :: "tagged_provider list"
  ps_len_locals :: nat
  ps_use_locals :: bool
  ps_locals :: local_refs

definition preserve_threshold :: nat where "preserve_threshold = 16"

definition ps_reset :: "provider_stack \<Rightarrow> provider_stack" where
  "ps_reset ps = ps\<lparr>ps_providers := [], ps_use_locals := False, ps_locals := lr_reset (ps_locals ps), ps_len_locals := 0\<rparr>"

primrec push_local_refs :: "tagged_provider list \<Rightarrow> nat \<Rightarrow> local_refs \<Rightarrow> tr_error + local_refs" where
  "push_local_refs [] index lr = Inr lr"
| "push_local_refs (p # ps) index lr =
    (case p of
       TagLocal l \<Rightarrow> rbind (lr_push_at l index lr) (push_local_refs ps (Suc index))
     | _ \<Rightarrow> push_local_refs ps (Suc index) lr)"

definition sync_local_refs :: "provider_stack \<Rightarrow> tr_error + provider_stack" where
  "sync_local_refs ps =
    (if ps_use_locals ps \<or> length (ps_providers ps) < preserve_threshold then Inr ps
     else rmap (\<lambda>lr. ps\<lparr>ps_locals := lr, ps_use_locals := True\<rparr>)
            (push_local_refs (ps_providers ps) 0 (ps_locals ps)))"

text \<open>The first occurrence takes a new preserved register, every further one counts it once more.\<close>

definition preserve_one :: "'m stash_ops \<Rightarrow> reg option \<Rightarrow> 'm reg_alloc \<Rightarrow> tr_error + (reg \<times> 'm reg_alloc)" where
  "preserve_one ms preserved ra =
    (case preserved of
       None \<Rightarrow> ra_push_preserved ms ra
     | Some r \<Rightarrow> rmap (Pair r) (ra_bump_preserved ms r ra))"

primrec preserve_inplace_loop ::
  "'m stash_ops \<Rightarrow> reg \<Rightarrow> tagged_provider list \<Rightarrow> reg option \<Rightarrow> nat \<Rightarrow> 'm reg_alloc \<Rightarrow>
    tr_error + (tagged_provider list \<times> reg option \<times> nat \<times> 'm reg_alloc)" where
  "preserve_inplace_loop ms l [] preserved len ra = Inr ([], preserved, len, ra)"
| "preserve_inplace_loop ms l (p # ps) preserved len ra =
    (if p = TagLocal l then
       rbind (preserve_one ms preserved ra) (\<lambda>(r, ra').
       if len - 1 = 0 then Inr (TagPreserved r # ps, Some r, len - 1, ra')
       else rmap (\<lambda>(ps', res). (TagPreserved r # ps', res))
              (preserve_inplace_loop ms l ps (Some r) (len - 1) ra'))
     else rmap (\<lambda>(ps', res). (p # ps', res)) (preserve_inplace_loop ms l ps preserved len ra))"

definition preserve_locals_inplace ::
  "'m stash_ops \<Rightarrow> reg \<Rightarrow> provider_stack \<Rightarrow> 'm reg_alloc \<Rightarrow> tr_error + (reg option \<times> provider_stack \<times> 'm reg_alloc)" where
  "preserve_locals_inplace ms l ps ra =
    rmap (\<lambda>(providers, preserved, len, ra'). (preserved, ps\<lparr>ps_providers := providers, ps_len_locals := len\<rparr>, ra'))
      (preserve_inplace_loop ms l (ps_providers ps) None (ps_len_locals ps) ra)"

text \<open>The callback of \<open>drain_at\<close> captures the stack, the allocator and the preserved register.\<close>

definition preserve_extern_at ::
  "'m stash_ops \<Rightarrow> nat \<Rightarrow> tagged_provider list \<times> reg option \<times> nat \<times> 'm reg_alloc \<Rightarrow>
    tr_error + (tagged_provider list \<times> reg option \<times> nat \<times> 'm reg_alloc)" where
  "preserve_extern_at ms index = (\<lambda>(providers, preserved, len, ra).
    if length providers \<le> index then Inl TPanic
    else rmap (\<lambda>(r, ra'). (providers[index := TagPreserved r], Some r, len - 1, ra'))
           (preserve_one ms preserved ra))"

definition preserve_locals_extern ::
  "'m stash_ops \<Rightarrow> reg \<Rightarrow> provider_stack \<Rightarrow> 'm reg_alloc \<Rightarrow> tr_error + (reg option \<times> provider_stack \<times> 'm reg_alloc)" where
  "preserve_locals_extern ms l ps ra =
    rmap (\<lambda>(lr, providers, preserved, len, ra').
        (preserved, ps\<lparr>ps_providers := providers, ps_len_locals := len, ps_locals := lr\<rparr>, ra'))
      (lr_drain_at l (preserve_extern_at ms) (ps_locals ps) (ps_providers ps, None, ps_len_locals ps, ra))"

definition ps_preserve_locals ::
  "'m stash_ops \<Rightarrow> u32 \<Rightarrow> provider_stack \<Rightarrow> 'm reg_alloc \<Rightarrow> tr_error + (reg option \<times> provider_stack \<times> 'm reg_alloc)" where
  "ps_preserve_locals ms preserve_index ps ra =
    (if ps_len_locals ps = 0 then Inr (None, ps, ra)
     else rbind (sync_local_refs ps) (\<lambda>ps.
       if 2 ^ 15 \<le> unat preserve_index then Inl TPanic
       else let l = ucast preserve_index
            in if ps_use_locals ps then preserve_locals_extern ms l ps ra
               else preserve_locals_inplace ms l ps ra))"

text \<open>
  \<open>preserve_all_locals\<close> hands every new pair of a local and its preserved register to a callback.
  In place, it goes over the stack from the top and keeps the pairs in an array of fixed size.
\<close>

definition preserve_all_one ::
  "'m stash_ops \<Rightarrow> reg \<Rightarrow> preserved_local list \<Rightarrow> 'm reg_alloc \<Rightarrow>
    tr_error + ((reg \<times> bool) \<times> preserved_local list \<times> 'm reg_alloc)" where
  "preserve_all_one ms l preserved ra =
    (case find (\<lambda>p. pl_local p = l) preserved of
       Some p \<Rightarrow> rmap (\<lambda>ra'. ((pl_preserved p, False), preserved, ra')) (ra_bump_preserved ms (pl_preserved p) ra)
     | None \<Rightarrow>
         rbind (ra_push_preserved ms ra) (\<lambda>(r, ra').
         if preserve_threshold \<le> length preserved then Inl TPanic
         else Inr ((r, True), preserved @ [\<lparr>pl_local = l, pl_preserved = r\<rparr>], ra')))"

primrec preserve_all_inplace_loop ::
  "'m stash_ops \<Rightarrow> (preserved_local \<Rightarrow> 's \<Rightarrow> tr_error + 's) \<Rightarrow> tagged_provider list \<Rightarrow>
    preserved_local list \<Rightarrow> nat \<Rightarrow> 'm reg_alloc \<Rightarrow> 's \<Rightarrow> tr_error + (tagged_provider list \<times> nat \<times> 'm reg_alloc \<times> 's)" where
  "preserve_all_inplace_loop ms f [] preserved len ra s = Inr ([], len, ra, s)"
| "preserve_all_inplace_loop ms f (p # ps) preserved len ra s =
    (case p of
       TagLocal l \<Rightarrow>
         rbind (preserve_all_one ms l preserved ra) (\<lambda>((r, is_new), preserved', ra').
         rbind (if is_new then f \<lparr>pl_local = l, pl_preserved = r\<rparr> s else Inr s) (\<lambda>s'.
         if len - 1 = 0 then Inr (TagPreserved r # ps, len - 1, ra', s')
         else rmap (\<lambda>(ps', res). (TagPreserved r # ps', res))
                (preserve_all_inplace_loop ms f ps preserved' (len - 1) ra' s')))
     | _ \<Rightarrow> rmap (\<lambda>(ps', res). (p # ps', res)) (preserve_all_inplace_loop ms f ps preserved len ra s))"

definition preserve_all_locals_inplace ::
  "'m stash_ops \<Rightarrow> (preserved_local \<Rightarrow> 's \<Rightarrow> tr_error + 's) \<Rightarrow> provider_stack \<Rightarrow> 'm reg_alloc \<Rightarrow> 's \<Rightarrow>
    tr_error + (provider_stack \<times> 'm reg_alloc \<times> 's)" where
  "preserve_all_locals_inplace ms f ps ra s =
    rmap (\<lambda>(providers, len, ra', s'). (ps\<lparr>ps_providers := rev providers, ps_len_locals := len\<rparr>, ra', s'))
      (preserve_all_inplace_loop ms f (rev (ps_providers ps)) [] (ps_len_locals ps) ra s)"

definition preserve_all_extern_at ::
  "'m stash_ops \<Rightarrow> (preserved_local \<Rightarrow> 's \<Rightarrow> tr_error + 's) \<Rightarrow> reg \<Rightarrow> nat \<Rightarrow>
    preserved_local option \<times> tagged_provider list \<times> nat \<times> 'm reg_alloc \<times> 's \<Rightarrow>
    tr_error + (preserved_local option \<times> tagged_provider list \<times> nat \<times> 'm reg_alloc \<times> 's)" where
  "preserve_all_extern_at ms f l index = (\<lambda>(grp, providers, len, ra, s).
    rbind
      (case grp of
         Some g \<Rightarrow>
           if pl_local g = l then rmap (\<lambda>ra'. (g, ra', s)) (ra_bump_preserved ms (pl_preserved g) ra)
           else rbind (ra_push_preserved ms ra) (\<lambda>(r, ra').
                rmap (\<lambda>s'. (\<lparr>pl_local = l, pl_preserved = r\<rparr>, ra', s')) (f \<lparr>pl_local = l, pl_preserved = r\<rparr> s))
       | None \<Rightarrow>
           rbind (ra_push_preserved ms ra) (\<lambda>(r, ra').
           rmap (\<lambda>s'. (\<lparr>pl_local = l, pl_preserved = r\<rparr>, ra', s')) (f \<lparr>pl_local = l, pl_preserved = r\<rparr> s)))
      (\<lambda>(g, ra', s').
         if length providers \<le> index then Inl TPanic
         else Inr (Some g, providers[index := TagPreserved (pl_preserved g)], len - 1, ra', s')))"

definition preserve_all_locals_extern ::
  "'m stash_ops \<Rightarrow> (preserved_local \<Rightarrow> 's \<Rightarrow> tr_error + 's) \<Rightarrow> provider_stack \<Rightarrow> 'm reg_alloc \<Rightarrow> 's \<Rightarrow>
    tr_error + (provider_stack \<times> 'm reg_alloc \<times> 's)" where
  "preserve_all_locals_extern ms f ps ra s =
    rmap (\<lambda>(lr, grp, providers, len, ra', s').
        (ps\<lparr>ps_providers := providers, ps_len_locals := len, ps_locals := lr\<rparr>, ra', s'))
      (lr_drain_all (preserve_all_extern_at ms f) (ps_locals ps) (None, ps_providers ps, ps_len_locals ps, ra, s))"

definition ps_preserve_all_locals ::
  "'m stash_ops \<Rightarrow> (preserved_local \<Rightarrow> 's \<Rightarrow> tr_error + 's) \<Rightarrow> provider_stack \<Rightarrow> 'm reg_alloc \<Rightarrow> 's \<Rightarrow>
    tr_error + (provider_stack \<times> 'm reg_alloc \<times> 's)" where
  "ps_preserve_all_locals ms f ps ra s =
    (if ps_len_locals ps = 0 then Inr (ps, ra, s)
     else rbind (sync_local_refs ps) (\<lambda>ps.
       if ps_use_locals ps then preserve_all_locals_extern ms f ps ra s
       else preserve_all_locals_inplace ms f ps ra s))"

definition ps_push :: "tagged_provider \<Rightarrow> provider_stack \<Rightarrow> tr_error + provider_stack" where
  "ps_push p ps =
    (let index = length (ps_providers ps); ps' = ps\<lparr>ps_providers := ps_providers ps @ [p]\<rparr>
     in case p of
          TagLocal r \<Rightarrow>
            let ps'' = ps'\<lparr>ps_len_locals := ps_len_locals ps' + 1\<rparr>
            in if ps_use_locals ps'' then rmap (\<lambda>lr. ps''\<lparr>ps_locals := lr\<rparr>) (lr_push_at r index (ps_locals ps''))
               else Inr ps''
        | _ \<Rightarrow> Inr ps')"

definition ps_pop :: "provider_stack \<Rightarrow> tr_error + (tagged_provider \<times> provider_stack)" where
  "ps_pop ps =
    (if ps_providers ps = [] then Inl TPanic
     else let popped = last (ps_providers ps); ps' = ps\<lparr>ps_providers := butlast (ps_providers ps)\<rparr>
          in case popped of
               TagLocal r \<Rightarrow>
                 let ps'' = ps'\<lparr>ps_len_locals := ps_len_locals ps' - 1\<rparr>
                 in if ps_use_locals ps'' then rmap (\<lambda>(_, lr). (popped, ps''\<lparr>ps_locals := lr\<rparr>)) (lr_pop_at r (ps_locals ps''))
                    else Inr (popped, ps'')
             | _ \<Rightarrow> Inr (popped, ps'))"

definition ps_peek :: "provider_stack \<Rightarrow> tr_error + tagged_provider" where
  "ps_peek ps = (if ps_providers ps = [] then Inl TPanic else Inr (last (ps_providers ps)))"

definition ps_peek_n :: "nat \<Rightarrow> provider_stack \<Rightarrow> tr_error + tagged_provider list" where
  "ps_peek_n n ps =
    (let len = length (ps_providers ps) in if len < n then Inl TPanic else Inr (drop (len - n) (ps_providers ps)))"


section \<open>The value stack\<close>

record 'm tr_stack =
  ts_providers :: provider_stack
  ts_reg_alloc :: "'m reg_alloc"
  ts_consts :: func_local_consts
  ts_local_value_types :: "val_type list"

definition ts_reset :: "'m stash_ops \<Rightarrow> 'm tr_stack \<Rightarrow> 'm tr_stack" where
  "ts_reset ms s = s\<lparr>ts_providers := ps_reset (ts_providers s), ts_reg_alloc := ra_reset ms (ts_reg_alloc s),
     ts_consts := consts_reset (ts_consts s)\<rparr>"

definition ts_height :: "'m tr_stack \<Rightarrow> nat" where
  "ts_height s = length (ps_providers (ts_providers s))"

definition ts_len_registers :: "'m tr_stack \<Rightarrow> u16" where
  "ts_len_registers s = consts_len (ts_consts s) + ra_len_registers (ts_reg_alloc s)"

definition ts_preserve_locals :: "'m stash_ops \<Rightarrow> u32 \<Rightarrow> 'm tr_stack \<Rightarrow> tr_error + (reg option \<times> 'm tr_stack)" where
  "ts_preserve_locals ms preserve_index s =
    rmap (\<lambda>(r, ps, ra). (r, s\<lparr>ts_providers := ps, ts_reg_alloc := ra\<rparr>))
      (ps_preserve_locals ms preserve_index (ts_providers s) (ts_reg_alloc s))"

definition ts_preserve_all_locals ::
  "'m stash_ops \<Rightarrow> (preserved_local \<Rightarrow> 's \<Rightarrow> tr_error + 's) \<Rightarrow> 'm tr_stack \<Rightarrow> 's \<Rightarrow> tr_error + ('m tr_stack \<times> 's)" where
  "ts_preserve_all_locals ms f s x =
    rmap (\<lambda>(ps, ra, x'). (s\<lparr>ts_providers := ps, ts_reg_alloc := ra\<rparr>, x'))
      (ps_preserve_all_locals ms f (ts_providers s) (ts_reg_alloc s) x)"

definition ts_lift_alloc :: "('m reg_alloc \<Rightarrow> tr_error + 'm reg_alloc) \<Rightarrow> 'm tr_stack \<Rightarrow> tr_error + 'm tr_stack" where
  "ts_lift_alloc f s = rmap (\<lambda>ra. s\<lparr>ts_reg_alloc := ra\<rparr>) (f (ts_reg_alloc s))"

definition ts_gc_preservations :: "'m stash_ops \<Rightarrow> 'm tr_stack \<Rightarrow> tr_error + 'm tr_stack" where
  "ts_gc_preservations ms = ts_lift_alloc (ra_gc_preservations ms)"

definition ts_register_locals :: "u32 \<Rightarrow> 'm tr_stack \<Rightarrow> tr_error + 'm tr_stack" where
  "ts_register_locals amount = ts_lift_alloc (ra_register_locals amount)"

definition ts_finish_register_locals :: "'m tr_stack \<Rightarrow> tr_error + 'm tr_stack" where
  "ts_finish_register_locals = ts_lift_alloc ra_finish_register_locals"

definition ts_alloc_const :: "untyped_val \<Rightarrow> 'm tr_stack \<Rightarrow> tr_error + (reg \<times> 'm tr_stack)" where
  "ts_alloc_const v s = rmap (\<lambda>(r, c). (r, s\<lparr>ts_consts := c\<rparr>)) (consts_alloc v (ts_consts s))"

definition ts_provider2reg :: "typed_provider \<Rightarrow> 'm tr_stack \<Rightarrow> tr_error + (reg \<times> 'm tr_stack)" where
  "ts_provider2reg p s =
    (case p of ProvReg r \<Rightarrow> Inr (r, s) | ProvConst v \<Rightarrow> ts_alloc_const (tv_value v) s)"

definition ts_func_local_consts :: "'m tr_stack \<Rightarrow> untyped_val list" where
  "ts_func_local_consts s = consts_iter (ts_consts s)"

definition ts_push_tagged :: "tagged_provider \<Rightarrow> 'm tr_stack \<Rightarrow> tr_error + 'm tr_stack" where
  "ts_push_tagged p s = rmap (\<lambda>ps. s\<lparr>ts_providers := ps\<rparr>) (ps_push p (ts_providers s))"

definition ts_push_const :: "typed_val \<Rightarrow> 'm tr_stack \<Rightarrow> tr_error + 'm tr_stack" where
  "ts_push_const v = ts_push_tagged (TagConstValue v)"

definition ts_push_register :: "'m stash_ops \<Rightarrow> reg \<Rightarrow> 'm tr_stack \<Rightarrow> tr_error + 'm tr_stack" where
  "ts_push_register ms r s =
    (case ra_register_space (ts_reg_alloc s) r of
       SpaceDynamic \<Rightarrow>
         rbind (ra_push_dynamic (ts_reg_alloc s)) (\<lambda>(_, ra).
         ts_push_tagged (TagDynamic r) (s\<lparr>ts_reg_alloc := ra\<rparr>))
     | SpacePreserve \<Rightarrow>
         rbind (ts_lift_alloc (ra_bump_preserved ms r) s) (ts_push_tagged (TagPreserved r))
     | SpaceLocal \<Rightarrow> ts_push_tagged (TagLocal r) s
     | SpaceConst \<Rightarrow> ts_push_tagged (TagConstLocal r) s)"

definition ts_push_provider :: "'m stash_ops \<Rightarrow> typed_provider \<Rightarrow> 'm tr_stack \<Rightarrow> tr_error + 'm tr_stack" where
  "ts_push_provider ms p s =
    (case p of ProvReg r \<Rightarrow> ts_push_register ms r s | ProvConst v \<Rightarrow> ts_push_const v s)"

definition ts_push_local :: "u32 \<Rightarrow> 'm tr_stack \<Rightarrow> tr_error + (reg \<times> 'm tr_stack)" where
  "ts_push_local local_index s =
    (if unat local_index < 2 ^ 15 \<and> ra_is_local (ts_reg_alloc s) (ucast local_index)
     then rmap (Pair (ucast local_index)) (ts_push_tagged (TagLocal (ucast local_index)) s)
     else Inl (TErr TrRegisterOutOfBounds))"

definition ts_push_dynamic :: "'m tr_stack \<Rightarrow> tr_error + (reg \<times> 'm tr_stack)" where
  "ts_push_dynamic s =
    rbind (ra_push_dynamic (ts_reg_alloc s)) (\<lambda>(r, ra).
    rmap (Pair r) (ts_push_tagged (TagDynamic r) (s\<lparr>ts_reg_alloc := ra\<rparr>)))"

definition ra_pop_provider :: "'m stash_ops \<Rightarrow> tagged_provider \<Rightarrow> 'm reg_alloc \<Rightarrow> tr_error + (typed_provider \<times> 'm reg_alloc)" where
  "ra_pop_provider ms p ra =
    (case p of
       TagLocal r \<Rightarrow> Inr (ProvReg r, ra)
     | TagDynamic r \<Rightarrow> rmap (Pair (ProvReg r)) (ra_pop_dynamic ra)
     | TagPreserved r \<Rightarrow> rmap (Pair (ProvReg r)) (ra_pop_preserved ms r ra)
     | TagConstLocal r \<Rightarrow> Inr (ProvReg r, ra)
     | TagConstValue v \<Rightarrow> Inr (ProvConst v, ra))"

definition ts_pop :: "'m stash_ops \<Rightarrow> 'm tr_stack \<Rightarrow> tr_error + (typed_provider \<times> 'm tr_stack)" where
  "ts_pop ms s =
    rbind (ps_pop (ts_providers s)) (\<lambda>(p, ps).
    rmap (\<lambda>(tp, ra). (tp, s\<lparr>ts_providers := ps, ts_reg_alloc := ra\<rparr>)) (ra_pop_provider ms p (ts_reg_alloc s)))"

definition ts_drop :: "'m stash_ops \<Rightarrow> 'm tr_stack \<Rightarrow> tr_error + 'm tr_stack" where
  "ts_drop ms s = rmap snd (ts_pop ms s)"

definition ts_peek :: "'m tr_stack \<Rightarrow> tr_error + typed_provider" where
  "ts_peek s = rmap typed_of_tagged (ps_peek (ts_providers s))"

definition ts_pop2 :: "'m stash_ops \<Rightarrow> 'm tr_stack \<Rightarrow> tr_error + ((typed_provider \<times> typed_provider) \<times> 'm tr_stack)" where
  "ts_pop2 ms s =
    rbind (ts_pop ms s) (\<lambda>(rhs, s). rbind (ts_pop ms s) (\<lambda>(lhs, s). Inr ((lhs, rhs), s)))"

definition ts_pop3 ::
  "'m stash_ops \<Rightarrow> 'm tr_stack \<Rightarrow> tr_error + ((typed_provider \<times> typed_provider \<times> typed_provider) \<times> 'm tr_stack)" where
  "ts_pop3 ms s =
    rbind (ts_pop2 ms s) (\<lambda>((v1, v2), s). rbind (ts_pop ms s) (\<lambda>(v0, s). Inr ((v0, v1, v2), s)))"

primrec pop_n_rev :: "'m stash_ops \<Rightarrow> nat \<Rightarrow> 'm tr_stack \<Rightarrow> tr_error + (typed_provider list \<times> 'm tr_stack)" where
  "pop_n_rev ms 0 s = Inr ([], s)"
| "pop_n_rev ms (Suc n) s =
    rbind (ts_pop ms s) (\<lambda>(p, s). rmap (\<lambda>(ps, s). (p # ps, s)) (pop_n_rev ms n s))"

definition ts_pop_n :: "'m stash_ops \<Rightarrow> nat \<Rightarrow> 'm tr_stack \<Rightarrow> tr_error + (typed_provider list \<times> 'm tr_stack)" where
  "ts_pop_n ms n s = rmap (\<lambda>(ps, s). (rev ps, s)) (pop_n_rev ms n s)"

primrec ts_remove_n :: "'m stash_ops \<Rightarrow> nat \<Rightarrow> 'm tr_stack \<Rightarrow> tr_error + 'm tr_stack" where
  "ts_remove_n ms 0 s = Inr s"
| "ts_remove_n ms (Suc n) s = rbind (ts_drop ms s) (ts_remove_n ms n)"

text \<open>\<open>trunc\<close> drops values until the height is reached; every drop lowers it by one.\<close>

definition ts_trunc :: "'m stash_ops \<Rightarrow> nat \<Rightarrow> 'm tr_stack \<Rightarrow> tr_error + 'm tr_stack" where
  "ts_trunc ms height s =
    (if ts_height s < height then Inl TPanic else ts_remove_n ms (ts_height s - height) s)"

definition ts_peek_n :: "nat \<Rightarrow> 'm tr_stack \<Rightarrow> tr_error + typed_provider list" where
  "ts_peek_n n s = rmap (map typed_of_tagged) (ps_peek_n n (ts_providers s))"

primrec ts_push_n :: "'m stash_ops \<Rightarrow> typed_provider list \<Rightarrow> 'm tr_stack \<Rightarrow> tr_error + 'm tr_stack" where
  "ts_push_n ms [] s = Inr s"
| "ts_push_n ms (p # ps) s = rbind (ts_push_provider ms p s) (ts_push_n ms ps)"

primrec push_dynamics :: "reg list \<Rightarrow> 'm tr_stack \<Rightarrow> tr_error + 'm tr_stack" where
  "push_dynamics [] s = Inr s"
| "push_dynamics (r # rs) s = rbind (ts_push_tagged (TagDynamic r) s) (push_dynamics rs)"

definition ts_push_dynamic_n :: "nat \<Rightarrow> 'm tr_stack \<Rightarrow> tr_error + (reg_span \<times> 'm tr_stack)" where
  "ts_push_dynamic_n n s =
    rbind (ra_push_dynamic_n n (ts_reg_alloc s)) (\<lambda>(registers, ra).
    rbind (ok_or TPanic (iter_new registers n)) (\<lambda>it.
    rmap (Pair registers) (push_dynamics (iter_regs it) (s\<lparr>ts_reg_alloc := ra\<rparr>))))"

definition ts_peek_dynamic_n :: "nat \<Rightarrow> 'm tr_stack \<Rightarrow> tr_error + (reg_span \<times> 'm tr_stack)" where
  "ts_peek_dynamic_n n s =
    rbind (ra_push_dynamic_n n (ts_reg_alloc s)) (\<lambda>(registers, ra).
    rmap (\<lambda>ra. (registers, s\<lparr>ts_reg_alloc := ra\<rparr>)) (ra_pop_dynamic_n n ra))"

definition ts_finalize_alloc :: "'m tr_stack \<Rightarrow> tr_error + 'm tr_stack" where
  "ts_finalize_alloc = ts_lift_alloc ra_finalize_alloc"

definition ts_defrag_register :: "'m tr_stack \<Rightarrow> reg \<Rightarrow> tr_error + reg" where
  "ts_defrag_register s r = ra_defrag_register (ts_reg_alloc s) r"

definition ts_get_register_space :: "'m tr_stack \<Rightarrow> reg \<Rightarrow> register_space" where
  "ts_get_register_space s r = ra_register_space (ts_reg_alloc s) r"

definition ts_inc_register_usage :: "'m stash_ops \<Rightarrow> reg \<Rightarrow> 'm tr_stack \<Rightarrow> tr_error + 'm tr_stack" where
  "ts_inc_register_usage ms r = ts_lift_alloc (ra_inc_register_usage ms r)"

definition ts_dec_register_usage :: "'m stash_ops \<Rightarrow> reg \<Rightarrow> 'm tr_stack \<Rightarrow> tr_error + 'm tr_stack" where
  "ts_dec_register_usage ms r = ts_lift_alloc (ra_dec_register_usage ms r)"

text \<open>\<open>Provider::<Const16<u32>>::new\<close>: a constant that is too wide is moved to a register.\<close>

definition const16_provider :: "typed_provider \<Rightarrow> 'm tr_stack \<Rightarrow> tr_error + (u16 provider \<times> 'm tr_stack)" where
  "const16_provider p s =
    (case p of
       ProvConst v \<Rightarrow>
         (case const16_of_u32 (to_i32 (tv_value v)) of
            Some c \<Rightarrow> Inr (ProvConst c, s)
          | None \<Rightarrow> rmap (\<lambda>(r, s). (ProvReg r, s)) (ts_alloc_const (tv_value v) s))
     | ProvReg r \<Rightarrow> Inr (ProvReg r, s))"

end
