(* ===== verification/Tr_Stack_Inv.thy ===== *)
theory Tr_Stack_Inv
  imports Tr_Stack
begin

text \<open>
  The invariant of the emulated value stack and its preservation: every use of a preserved register
  is counted, dynamic registers on the stack lie below the next one, and the index of the locals
  holds their positions on the stack. The two ways to preserve a local, in place and through the
  index, compute the same; the meaning of a provider under an assignment of values to registers
  then gives the two theorems about the lazy stack.
\<close>


section \<open>Occurrences of a local on the stack\<close>

primrec tag_positions :: "reg \<Rightarrow> tagged_provider list \<Rightarrow> nat \<Rightarrow> nat list" where
  "tag_positions l [] i = []"
| "tag_positions l (p # ps) i = (if p = TagLocal l then i # tag_positions l ps (Suc i) else tag_positions l ps (Suc i))"

definition local_positions :: "tagged_provider list \<Rightarrow> reg \<Rightarrow> nat list" where
  "local_positions P l = rev (tag_positions l P 0)"

lemma tag_positions_append: "tag_positions l (P @ Q) i = tag_positions l P i @ tag_positions l Q (i + length P)"
  by (induction P arbitrary: i) auto

lemma tag_positions_bounds: "j \<in> set (tag_positions l P i) \<Longrightarrow> i \<le> j \<and> j < i + length P \<and> P ! (j - i) = TagLocal l"
proof (induction P arbitrary: i)
  case (Cons p P)
  show ?case
  proof (cases "j = i \<and> p = TagLocal l")
    case False
    then have "j \<in> set (tag_positions l P (Suc i))" using Cons.prems by (auto split: if_splits)
    then have *: "Suc i \<le> j \<and> j < Suc i + length P \<and> P ! (j - Suc i) = TagLocal l" by (rule Cons.IH)
    then obtain k where "j = Suc i + k" using le_Suc_ex by blast
    with * show ?thesis by simp
  qed simp
qed simp

lemma tag_positions_in: "j < length P \<Longrightarrow> P ! j = TagLocal l \<Longrightarrow> i + j \<in> set (tag_positions l P i)"
proof (induction P arbitrary: i j)
  case (Cons p P)
  then show ?case using Cons.IH [of "j - 1" "Suc i"] by (cases j) auto
qed simp

lemma distinct_tag_positions: "distinct (tag_positions l P i)"
  by (induction P arbitrary: i) (auto dest: tag_positions_bounds)

lemma length_tag_positions: "length (tag_positions l P i) = count_list P (TagLocal l)"
  by (induction P arbitrary: i) auto

lemma tag_positions_local: "j \<in> set (local_positions P l) \<longleftrightarrow> j < length P \<and> P ! j = TagLocal l"
  using tag_positions_bounds [of j l P 0] tag_positions_in [of j P l 0] by (auto simp: local_positions_def)

lemma distinct_local_positions: "distinct (local_positions P l)"
  by (simp add: local_positions_def distinct_tag_positions)

lemma length_local_positions: "length (local_positions P l) = count_list P (TagLocal l)"
  by (simp add: local_positions_def length_tag_positions)

lemma local_positions_push: "local_positions (P @ [p]) l = (if p = TagLocal l then length P # local_positions P l else local_positions P l)"
  by (simp add: local_positions_def tag_positions_append)

text \<open>Filling the index.\<close>

lemma push_local_refs_rep:
  "lr_rep lr A \<Longrightarrow> \<exists>lr'. push_local_refs P i lr = Inr lr' \<and> lr_rep lr' (\<lambda>l. rev (tag_positions l P i) @ A l)"
proof (induction P arbitrary: i lr A)
  case (Cons p P)
  show ?case
  proof (cases "\<exists>l. p = TagLocal l")
    case True
    then obtain l where p: "p = TagLocal l" by blast
    obtain lr1 where lr1: "lr_push_at l i lr = Inr lr1" "lr_rep lr1 (A(l := i # A l))"
      using lr_push_at_rep [OF Cons.prems] by blast
    obtain lr2 where lr2: "push_local_refs P (Suc i) lr1 = Inr lr2"
        "lr_rep lr2 (\<lambda>l'. rev (tag_positions l' P (Suc i)) @ (A(l := i # A l)) l')"
      using Cons.IH [OF lr1(2)] by blast
    have "(\<lambda>l'. rev (tag_positions l' P (Suc i)) @ (A(l := i # A l)) l') = (\<lambda>l'. rev (tag_positions l' (p # P) i) @ A l')"
      by (auto simp: p fun_eq_iff)
    with lr1 lr2 p show ?thesis by auto
  next
    case False
    then have "push_local_refs (p # P) i lr = push_local_refs P (Suc i) lr"
      "\<And>l. tag_positions l (p # P) i = tag_positions l P (Suc i)"
      by (auto split: tagged_provider.splits)
    with Cons show ?thesis by simp
  qed
qed auto


section \<open>Preserving a local\<close>

definition replace_local :: "reg \<Rightarrow> reg \<Rightarrow> tagged_provider \<Rightarrow> tagged_provider" where
  "replace_local l r p = (if p = TagLocal l then TagPreserved r else p)"

primrec preserve_times ::
  "'m stash_ops \<Rightarrow> nat \<Rightarrow> reg option \<Rightarrow> 'm reg_alloc \<Rightarrow> tr_error + (reg option \<times> 'm reg_alloc)" where
  "preserve_times ms 0 pr ra = Inr (pr, ra)"
| "preserve_times ms (Suc n) pr ra =
    rbind (preserve_one ms pr ra) (\<lambda>(r, ra'). preserve_times ms n (Some r) ra')"

lemma preserve_one_Some: "preserve_one ms (Some r) ra = Inr (q, ra') \<Longrightarrow> q = r"
  by (auto simp: preserve_one_def rsimps)

lemma preserve_times_Some: "preserve_times ms n (Some r) ra = Inr (pr, ra') \<Longrightarrow> pr = Some r"
  by (induction n arbitrary: ra) (auto simp: rsimps dest: preserve_one_Some)

definition replaced :: "reg \<Rightarrow> reg option \<Rightarrow> tagged_provider list \<Rightarrow> tagged_provider list" where
  "replaced l pr P = (case pr of None \<Rightarrow> P | Some r \<Rightarrow> map (replace_local l r) P)"

lemma replaced_none: "TagLocal l \<notin> set P \<Longrightarrow> replaced l pr P = P"
  by (auto simp: replaced_def replace_local_def split: option.split intro!: map_idI)

lemma rmap_cong_Inr: "(\<And>x. r = Inr x \<Longrightarrow> f x = g x) \<Longrightarrow> rmap f r = rmap g r"
  by (cases r) auto

lemma rbind_cong_Inr: "(\<And>x. r = Inr x \<Longrightarrow> f x = g x) \<Longrightarrow> rbind r f = rbind r g"
  by (cases r) auto

lemma preserve_inplace_loop_eq:
  "count_list P (TagLocal l) \<le> len \<Longrightarrow>
    preserve_inplace_loop ms l P pr len ra =
      rmap (\<lambda>(pr', ra'). (replaced l pr' P, pr', len - count_list P (TagLocal l), ra'))
        (preserve_times ms (count_list P (TagLocal l)) pr ra)"
proof (induction P arbitrary: pr len ra)
  case Nil
  then show ?case by (cases pr) (simp_all add: replaced_def)
next
  case (Cons p P)
  show ?case
  proof (cases "p = TagLocal l")
    case True
    let ?n = "count_list P (TagLocal l)"
    have "?n \<le> len - 1" using Cons.prems True by simp
    note IH = Cons.IH [OF this]
    have "preserve_inplace_loop ms l (p # P) pr len ra =
        rbind (preserve_one ms pr ra) (\<lambda>(r, ra'). rmap (\<lambda>(pr', ra'').
          (TagPreserved r # replaced l pr' P, pr', len - 1 - ?n, ra'')) (preserve_times ms ?n (Some r) ra'))"
    proof -
      have "(if len - 1 = 0 then Inr (TagPreserved r # P, Some r, len - 1, ra')
            else rmap (\<lambda>(ps', res). (TagPreserved r # ps', res)) (preserve_inplace_loop ms l P (Some r) (len - 1) ra')) =
          rmap (\<lambda>(pr', ra''). (TagPreserved r # replaced l pr' P, pr', len - 1 - ?n, ra'')) (preserve_times ms ?n (Some r) ra')"
        for r ra'
      proof (cases "len - 1 = 0")
        case True
        then have "?n = 0" using \<open>?n \<le> len - 1\<close> by simp
        moreover from this have "TagLocal l \<notin> set P" by (simp add: count_list_0_iff)
        ultimately show ?thesis using True by (simp add: replaced_none)
      qed (simp add: IH [unfolded One_nat_def] rmap_rmap comp_def case_prod_unfold)
      then show ?thesis using True by (simp add: case_prod_beta)
    qed
    also have "\<dots> = rmap (\<lambda>(pr', ra'). (replaced l pr' (p # P), pr', len - count_list (p # P) (TagLocal l), ra'))
        (preserve_times ms (count_list (p # P) (TagLocal l)) pr ra)"
    proof (cases "preserve_one ms pr ra")
      case (Inr x)
      obtain r ra' where x: "x = (r, ra')" by fastforce
      have "rmap (\<lambda>(pr', ra''). (TagPreserved r # replaced l pr' P, pr', len - 1 - ?n, ra'')) (preserve_times ms ?n (Some r) ra') =
          rmap (\<lambda>(pr', ra'). (replaced l pr' (p # P), pr', len - Suc ?n, ra')) (preserve_times ms ?n (Some r) ra')"
        using True by (intro rmap_cong_Inr) (auto dest!: preserve_times_Some simp: replaced_def replace_local_def)
      with Inr x True show ?thesis by simp
    qed (simp add: True)
    finally show ?thesis .
  next
    case False
    then have "\<And>pr'. replaced l pr' (p # P) = p # replaced l pr' P"
      by (simp add: replaced_def replace_local_def split: option.split)
    with False Cons show ?thesis by (simp add: rmap_rmap comp_def case_prod_beta)
  qed
qed

definition update_all :: "nat list \<Rightarrow> 'a \<Rightarrow> 'a list \<Rightarrow> 'a list" where
  "update_all is x xs = fold (\<lambda>i xs. xs[i := x]) is xs"

lemma length_update_all [simp]: "length (update_all is x xs) = length xs"
  unfolding update_all_def by (induction "is" arbitrary: xs) auto

lemma nth_update_all: "j < length xs \<Longrightarrow> update_all is x xs ! j = (if j \<in> set is then x else xs ! j)"
  unfolding update_all_def by (induction "is" arbitrary: xs) (auto simp: nth_list_update)

lemma update_all_replaced: "update_all (local_positions P l) (TagPreserved r) P = map (replace_local l r) P"
  by (rule nth_equalityI) (auto simp: nth_update_all replace_local_def tag_positions_local)

lemma preserve_extern_fold:
  "\<forall>i \<in> set is. i < length P \<Longrightarrow>
    tr_fold (preserve_extern_at ms) is (P, pr, len, ra) =
      rmap (\<lambda>(pr', ra'). (case pr' of None \<Rightarrow> P | Some r \<Rightarrow> update_all is (TagPreserved r) P, pr', len - length is, ra'))
        (preserve_times ms (length is) pr ra)"
proof (induction "is" arbitrary: P pr len ra)
  case Nil
  then show ?case by (cases pr) (simp_all add: update_all_def)
next
  case (Cons i "is")
  show ?case
  proof (cases "preserve_one ms pr ra")
    case (Inr x)
    obtain r ra' where x: "x = (r, ra')" by fastforce
    have "preserve_extern_at ms i (P, pr, len, ra) = Inr (P[i := TagPreserved r], Some r, len - 1, ra')"
      using Cons.prems Inr x by (simp add: preserve_extern_at_def)
    moreover have "tr_fold (preserve_extern_at ms) is (P[i := TagPreserved r], Some r, len - 1, ra') =
      rmap (\<lambda>(pr', ra'). (case pr' of None \<Rightarrow> P[i := TagPreserved r] | Some q \<Rightarrow> update_all is (TagPreserved q) (P[i := TagPreserved r]), pr',
          len - 1 - length is, ra')) (preserve_times ms (length is) (Some r) ra')"
      using Cons.prems by (intro Cons.IH) simp
    moreover have "\<dots> = rmap (\<lambda>(pr', ra'). (case pr' of None \<Rightarrow> P | Some q \<Rightarrow> update_all (i # is) (TagPreserved q) P, pr',
          len - length (i # is), ra')) (preserve_times ms (length is) (Some r) ra')"
      by (intro rmap_cong_Inr) (auto dest!: preserve_times_Some simp: update_all_def)
    ultimately show ?thesis using Inr x by simp
  qed (use Cons.prems in \<open>simp add: preserve_extern_at_def\<close>)
qed


section \<open>The invariant\<close>

definition is_local_tag :: "tagged_provider \<Rightarrow> bool" where
  "is_local_tag p = (case p of TagLocal _ \<Rightarrow> True | _ \<Rightarrow> False)"

primrec dynamic_regs :: "tagged_provider list \<Rightarrow> reg list" where
  "dynamic_regs [] = []"
| "dynamic_regs (p # ps) = (case p of TagDynamic r \<Rightarrow> r # dynamic_regs ps | _ \<Rightarrow> dynamic_regs ps)"

definition ps_inv :: "provider_stack \<Rightarrow> bool" where
  "ps_inv ps \<longleftrightarrow>
    ps_len_locals ps = length (filter is_local_tag (ps_providers ps)) \<and>
    lr_rep (ps_locals ps) (if ps_use_locals ps then local_positions (ps_providers ps) else (\<lambda>_. []))"

definition tag_ok :: "'m reg_alloc \<Rightarrow> tagged_provider \<Rightarrow> bool" where
  "tag_ok ra p = (case p of TagLocal r \<Rightarrow> ra_is_local ra r | TagConstLocal r \<Rightarrow> reg_is_const r | _ \<Rightarrow> True)"

text \<open>The \<open>k\<close>-th dynamic value on the stack is not above the \<open>k\<close>-th dynamic register.\<close>

definition dynamics_ok :: "'m reg_alloc \<Rightarrow> tagged_provider list \<Rightarrow> bool" where
  "dynamics_ok ra P \<longleftrightarrow>
    sint (ra_next_dynamic ra) = sint (ra_len_locals ra) + int (length (dynamic_regs P)) \<and>
    (\<forall>k < length (dynamic_regs P). sint (ra_len_locals ra) \<le> sint (dynamic_regs P ! k) \<and>
       sint (dynamic_regs P ! k) \<le> sint (ra_len_locals ra) + int k)"

text \<open>\<open>x\<close> counts the uses of preserved registers outside of the stack.\<close>

definition ts_inv :: "'m stash_ops \<Rightarrow> (reg \<Rightarrow> nat) \<Rightarrow> 'm tr_stack \<Rightarrow> bool" where
  "ts_inv ms x s \<longleftrightarrow>
    ra_inv ms (\<lambda>r. count_list (ps_providers (ts_providers s)) (TagPreserved r) + x r) (ts_reg_alloc s) \<and>
    ra_apart (ts_reg_alloc s) \<and> ps_inv (ts_providers s) \<and>
    (\<forall>p \<in> set (ps_providers (ts_providers s)). tag_ok (ts_reg_alloc s) p) \<and>
    dynamics_ok (ts_reg_alloc s) (ps_providers (ts_providers s))"

lemma dynamic_regs_append: "dynamic_regs (P @ Q) = dynamic_regs P @ dynamic_regs Q"
  by (induction P) (auto split: tagged_provider.splits)

lemma dynamic_regs_set: "r \<in> set (dynamic_regs P) \<longleftrightarrow> TagDynamic r \<in> set P"
  by (induction P) (auto split: tagged_provider.splits)

lemma dynamic_regs_replace: "dynamic_regs (map (replace_local l r) P) = dynamic_regs P"
  by (induction P) (auto simp: replace_local_def split: tagged_provider.splits)

lemma count_replace_local:
  "count_list (map (replace_local l r) P) (TagPreserved q) =
    count_list P (TagPreserved q) + (if q = r then count_list P (TagLocal l) else 0)"
  by (induction P) (auto simp: replace_local_def)

lemma local_positions_replace:
  "local_positions (map (replace_local l r) P) = (local_positions P)(l := [])"
proof
  fix l'
  have "tag_positions l' (map (replace_local l r) P) i = (if l' = l then [] else tag_positions l' P i)" for i
    by (induction P arbitrary: i) (auto simp: replace_local_def)
  then show "local_positions (map (replace_local l r) P) l' = ((local_positions P)(l := [])) l'"
    by (simp add: local_positions_def)
qed

lemma length_local_replace:
  "length (filter is_local_tag (map (replace_local l r) P)) = length (filter is_local_tag P) - count_list P (TagLocal l)"
  "count_list P (TagLocal l) \<le> length (filter is_local_tag P)"
  "length (filter (is_local_tag \<circ> replace_local l r) P) = length (filter is_local_tag P) - count_list P (TagLocal l)"
  by (induction P) (auto simp: replace_local_def is_local_tag_def)

lemma sync_local_refs_inv:
  assumes "ps_inv ps"
  shows "\<exists>lr use. sync_local_refs ps = Inr (ps\<lparr>ps_locals := lr, ps_use_locals := use\<rparr>) \<and>
    ps_inv (ps\<lparr>ps_locals := lr, ps_use_locals := use\<rparr>)"
proof (cases "ps_use_locals ps \<or> length (ps_providers ps) < preserve_threshold")
  case True
  then show ?thesis using assms
    by (intro exI [of _ "ps_locals ps"] exI [of _ "ps_use_locals ps"]) (auto simp: sync_local_refs_def)
next
  case False
  then obtain lr where "push_local_refs (ps_providers ps) 0 (ps_locals ps) = Inr lr"
      "lr_rep lr (\<lambda>l. rev (tag_positions l (ps_providers ps) 0) @ [])"
    using push_local_refs_rep [of "ps_locals ps" "\<lambda>_. []" "ps_providers ps" 0] assms by (auto simp: ps_inv_def)
  with False assms show ?thesis
    by (intro exI [of _ lr] exI [of _ True]) (simp add: sync_local_refs_def ps_inv_def local_positions_def [abs_def])
qed

lemma no_local_count: "ps_inv ps \<Longrightarrow> ps_len_locals ps = 0 \<Longrightarrow> count_list (ps_providers ps) (TagLocal l) = 0"
  using length_local_replace(2) [of "ps_providers ps" l] by (simp add: ps_inv_def)

lemma preserve_times_zero: "preserve_times ms n None ra = Inr (pr, ra') \<Longrightarrow> pr = None \<longleftrightarrow> n = 0"
  by (cases n) (auto simp: rsimps dest: preserve_times_Some)

text \<open>Both ways compute the same stack, register and allocation.\<close>

lemma preserve_inplace_result:
  assumes "ps_inv ps"
  shows "preserve_locals_inplace ms l ps ra = rmap (\<lambda>(pr, ra'). (pr,
      ps\<lparr>ps_providers := replaced l pr (ps_providers ps),
         ps_len_locals := ps_len_locals ps - count_list (ps_providers ps) (TagLocal l)\<rparr>, ra'))
    (preserve_times ms (count_list (ps_providers ps) (TagLocal l)) None ra)"
  using assms length_local_replace(2) [of "ps_providers ps" l]
  by (simp add: preserve_locals_inplace_def preserve_inplace_loop_eq ps_inv_def rmap_rmap comp_def case_prod_unfold)

lemma preserve_extern_result:
  assumes "ps_inv ps" "ps_use_locals ps"
  shows "\<exists>lr. preserve_locals_extern ms l ps ra = rmap (\<lambda>(pr, ra'). (pr,
      ps\<lparr>ps_providers := replaced l pr (ps_providers ps),
         ps_len_locals := ps_len_locals ps - count_list (ps_providers ps) (TagLocal l), ps_locals := lr\<rparr>, ra'))
    (preserve_times ms (count_list (ps_providers ps) (TagLocal l)) None ra) \<and>
    lr_rep lr ((local_positions (ps_providers ps))(l := []))"
proof -
  let ?P = "ps_providers ps"
  obtain lr where lr: "lr_drain_at l (preserve_extern_at ms) (ps_locals ps) (?P, None, ps_len_locals ps, ra) =
      rmap (Pair lr) (tr_fold (preserve_extern_at ms) (local_positions ?P l) (?P, None, ps_len_locals ps, ra))"
      "lr_rep lr ((local_positions ?P)(l := []))"
    using lr_drain_at_rep [of "ps_locals ps" "local_positions ?P" l "preserve_extern_at ms" "(?P, None, ps_len_locals ps, ra)"]
      assms by (auto simp: ps_inv_def)
  have "(case pr of None \<Rightarrow> ?P | Some r \<Rightarrow> update_all (local_positions ?P l) (TagPreserved r) ?P) = replaced l pr ?P" for pr
    by (simp add: replaced_def update_all_replaced split: option.split)
  then have "preserve_locals_extern ms l ps ra = rmap (\<lambda>(pr, ra'). (pr,
      ps\<lparr>ps_providers := replaced l pr ?P,
         ps_len_locals := ps_len_locals ps - count_list ?P (TagLocal l), ps_locals := lr\<rparr>, ra'))
    (preserve_times ms (count_list ?P (TagLocal l)) None ra)"
    by (simp add: preserve_locals_extern_def lr(1) preserve_extern_fold tag_positions_local length_local_positions
        rmap_rmap comp_def case_prod_unfold)
  with lr(2) show ?thesis by blast
qed

lemma ps_preserve_locals_Inr:
  assumes inv: "ps_inv ps" and res: "ps_preserve_locals ms idx ps ra = Inr (pr, ps', ra')"
  shows "preserve_times ms (count_list (ps_providers ps) (TagLocal (ucast idx))) None ra = Inr (pr, ra') \<and>
    ps_providers ps' = replaced (ucast idx) pr (ps_providers ps) \<and> ps_inv ps'"
proof (cases "ps_len_locals ps = 0")
  case True
  with res inv no_local_count [OF inv True] show ?thesis
    by (auto simp: ps_preserve_locals_def replaced_def)
next
  case False
  let ?l = "ucast idx :: reg" and ?n = "count_list (ps_providers ps) (TagLocal (ucast idx))"
  obtain lr use where sync: "sync_local_refs ps = Inr (ps\<lparr>ps_locals := lr, ps_use_locals := use\<rparr>)"
      "ps_inv (ps\<lparr>ps_locals := lr, ps_use_locals := use\<rparr>)"
    using sync_local_refs_inv [OF inv] by blast
  let ?ps = "ps\<lparr>ps_locals := lr, ps_use_locals := use\<rparr>"
  have inv': "ps_inv (?ps\<lparr>ps_providers := replaced ?l pr (ps_providers ps), ps_len_locals := ps_len_locals ps - ?n, ps_locals := lr'\<rparr>)"
    if "preserve_times ms ?n None ra = Inr (pr, ra')" "lr_rep lr' (if use then (local_positions (ps_providers ps))(?l := []) else (\<lambda>_. []))" for lr'
  proof (cases pr)
    case None
    then have "?n = 0" using preserve_times_zero [OF that(1)] by simp
    moreover from this have "local_positions (ps_providers ps) ?l = []" by (simp flip: length_local_positions)
    then have "(local_positions (ps_providers ps))(?l := []) = local_positions (ps_providers ps)" by (metis fun_upd_triv)
    ultimately show ?thesis using None that(2) inv by (cases use) (simp_all add: ps_inv_def replaced_def)
  next
    case (Some r)
    then show ?thesis using that(2) inv
      by (cases use) (simp_all add: ps_inv_def replaced_def length_local_replace local_positions_replace)
  qed
  show ?thesis
  proof (cases use)
    case True
    obtain lr' where *: "preserve_locals_extern ms ?l ?ps ra = rmap (\<lambda>(pr, ra'). (pr,
        ?ps\<lparr>ps_providers := replaced ?l pr (ps_providers ps), ps_len_locals := ps_len_locals ps - ?n, ps_locals := lr'\<rparr>, ra'))
        (preserve_times ms ?n None ra)" "lr_rep lr' ((local_positions (ps_providers ps))(?l := []))"
      using preserve_extern_result [OF sync(2), of ms ?l ra] True by auto
    from res False sync(1) True have "preserve_locals_extern ms ?l ?ps ra = Inr (pr, ps', ra')"
      by (simp add: ps_preserve_locals_def Let_def split: if_splits)
    from this [unfolded *(1)] have "preserve_times ms ?n None ra = Inr (pr, ra')"
        "ps' = ?ps\<lparr>ps_providers := replaced ?l pr (ps_providers ps), ps_len_locals := ps_len_locals ps - ?n, ps_locals := lr'\<rparr>"
      by (auto simp: rmap_eq_Inr)
    with inv' [of lr'] *(2) True show ?thesis by simp
  next
    case use: False
    from res False sync(1) use have "preserve_locals_inplace ms ?l ?ps ra = Inr (pr, ps', ra')"
      by (simp add: ps_preserve_locals_def Let_def split: if_splits)
    then have *: "preserve_times ms ?n None ra = Inr (pr, ra')"
        "ps' = ?ps\<lparr>ps_providers := replaced ?l pr (ps_providers ps), ps_len_locals := ps_len_locals ps - ?n, ps_locals := lr\<rparr>"
      using preserve_inplace_result [OF sync(2), of ms ?l ra] by (auto simp: rmap_eq_Inr)
    moreover have "lr_rep lr (\<lambda>_. [])" using sync(2) use by (simp add: ps_inv_def)
    ultimately show ?thesis using inv' [of lr] use by simp
  qed
qed


lemma preserve_times_bumps:
  assumes laws: "stash_laws ms"
  shows "ra_inv ms u ra \<Longrightarrow> 0 < u r \<Longrightarrow> preserve_times ms n (Some r) ra = Inr (pr, ra') \<Longrightarrow>
    ra_inv ms (u(r := u r + n)) ra' \<and> (\<exists>m. ra' = ra\<lparr>ra_preservations := m\<rparr>)"
proof (induction n arbitrary: u ra)
  case 0
  then show ?case by (auto intro: exI [of _ "ra_preservations ra'"])
next
  case (Suc n)
  from Suc.prems obtain m where m: "ra_bump_preserved ms r ra = Inr (ra\<lparr>ra_preservations := m\<rparr>)"
      "ra_inv ms (u(r := Suc (u r))) (ra\<lparr>ra_preservations := m\<rparr>)"
    using ra_bump_preserved_inv [OF laws] by blast
  with Suc.prems(3) have "preserve_times ms n (Some r) (ra\<lparr>ra_preservations := m\<rparr>) = Inr (pr, ra')"
    by (simp add: preserve_one_def)
  note IH = Suc.IH [OF m(2) _ this]
  have "(u(r := Suc (u r)))(r := (u(r := Suc (u r))) r + n) = u(r := u r + Suc n)" by simp
  with IH have "ra_inv ms (u(r := u r + Suc n)) ra' \<and> (\<exists>m'. ra' = (ra\<lparr>ra_preservations := m\<rparr>)\<lparr>ra_preservations := m'\<rparr>)"
    by (metis fun_upd_same zero_less_Suc)
  then show ?case by (auto simp del: fun_upd_apply)
qed

lemma preserve_times_inv:
  assumes laws: "stash_laws ms" and inv: "ra_inv ms u ra" and apart: "ra_apart ra'"
    and run: "preserve_times ms (Suc n) None ra = Inr (pr, ra')"
  shows "\<exists>r. pr = Some r \<and> u r = 0 \<and> ra_inv ms (u(r := Suc n)) ra' \<and> sint (ra_min_preserve ra') < sint r \<and>
    ra_next_dynamic ra' = ra_next_dynamic ra \<and> ra_len_locals ra' = ra_len_locals ra"
proof -
  from run obtain r ra1 where push: "ra_push_preserved ms ra = Inr (r, ra1)"
      and rest: "preserve_times ms n (Some r) ra1 = Inr (pr, ra')"
    by (auto simp: preserve_one_def rsimps)
  have "ra_min_preserve ra' = ra_min_preserve ra1 \<and> ra_next_dynamic ra' = ra_next_dynamic ra1"
    using rest
  proof (induction n arbitrary: ra1)
    case (Suc n)
    then obtain ra2 where "ra_bump_preserved ms r ra1 = Inr ra2" "preserve_times ms n (Some r) ra2 = Inr (pr, ra')"
      by (auto simp: preserve_one_def rsimps)
    then show ?case using Suc.IH [of ra2] by (auto simp: ra_bump_preserved_def rsimps)
  qed simp
  then have apart1: "ra_apart ra1" using apart by (simp add: ra_apart_def)
  note p = ra_push_preserved_inv [OF laws inv push apart1]
  have "ra_inv ms ((u(r := 1))(r := (u(r := 1)) r + n)) ra' \<and> (\<exists>m. ra' = ra1\<lparr>ra_preservations := m\<rparr>)"
    by (rule preserve_times_bumps [OF laws p(1) _ rest]) simp
  then show ?thesis using p preserve_times_Some [OF rest] by auto
qed

text \<open>The meaning of the stack under an assignment of values to registers.\<close>

definition provider_value :: "(reg \<Rightarrow> untyped_val) \<Rightarrow> tagged_provider \<Rightarrow> untyped_val" where
  "provider_value rf p =
    (case typed_of_tagged p of ProvReg r \<Rightarrow> rf r | ProvConst v \<Rightarrow> tv_value v)"

definition stack_values :: "(reg \<Rightarrow> untyped_val) \<Rightarrow> 'm tr_stack \<Rightarrow> untyped_val list" where
  "stack_values rf s = map (provider_value rf) (ps_providers (ts_providers s))"

text \<open>A register that no provider on the stack refers to.\<close>

definition ts_unused :: "reg \<Rightarrow> 'm tr_stack \<Rightarrow> bool" where
  "ts_unused r s = (\<forall>p \<in> set (ps_providers (ts_providers s)). typed_of_tagged p \<noteq> ProvReg r)"

lemma stack_values_unused: "ts_unused r s \<Longrightarrow> stack_values (rf(r := v)) s = stack_values rf s"
  by (auto simp: stack_values_def ts_unused_def provider_value_def split: provider.split)

lemma dynamics_ok_lower: "dynamics_ok ra P \<Longrightarrow> TagDynamic r \<in> set P \<Longrightarrow>
    sint (ra_len_locals ra) \<le> sint r \<and> sint r < sint (ra_next_dynamic ra)"
proof -
  assume d: "dynamics_ok ra P" and "TagDynamic r \<in> set P"
  then have "r \<in> set (dynamic_regs P)" by (simp add: dynamic_regs_set)
  then obtain k where "k < length (dynamic_regs P)" "dynamic_regs P ! k = r" by (auto simp: in_set_conv_nth)
  with d show ?thesis by (auto simp: dynamics_ok_def)
qed

lemma ts_inv_dynamic: "ts_inv ms x s \<Longrightarrow> TagDynamic r \<in> set (ps_providers (ts_providers s)) \<Longrightarrow>
    sint (ra_len_locals (ts_reg_alloc s)) \<le> sint r \<and> sint r < sint (ra_next_dynamic (ts_reg_alloc s))"
  by (auto simp: ts_inv_def dest: dynamics_ok_lower)

lemma ts_inv_preserved: "ts_inv ms x s \<Longrightarrow> TagPreserved r \<in> set (ps_providers (ts_providers s)) \<Longrightarrow>
    sint (ra_min_preserve (ts_reg_alloc s)) < sint r"
proof -
  assume "ts_inv ms x s" "TagPreserved r \<in> set (ps_providers (ts_providers s))"
  then have "ra_inv ms (\<lambda>r. count_list (ps_providers (ts_providers s)) (TagPreserved r) + x r) (ts_reg_alloc s)"
      "0 < count_list (ps_providers (ts_providers s)) (TagPreserved r)"
    by (auto simp: ts_inv_def count_list_0_iff intro: gr0I)
  then show ?thesis using ra_inv_used [of ms _ "ts_reg_alloc s" r] by fastforce
qed

lemma ts_preserve_locals_inv:
  assumes laws: "stash_laws ms" and inv: "ts_inv ms x s" and apart: "ra_apart (ts_reg_alloc s')"
    and run: "ts_preserve_locals ms idx s = Inr (pr, s')"
  shows "ts_inv ms x s'"
    "ps_providers (ts_providers s') = replaced (ucast idx) pr (ps_providers (ts_providers s))"
    "pr = None \<longleftrightarrow> TagLocal (ucast idx) \<notin> set (ps_providers (ts_providers s))"
    "pr = Some r \<Longrightarrow> ts_unused r s \<and> \<not> ra_is_local (ts_reg_alloc s) r"
    "ra_len_locals (ts_reg_alloc s') = ra_len_locals (ts_reg_alloc s)"
    "ra_next_dynamic (ts_reg_alloc s') = ra_next_dynamic (ts_reg_alloc s)"
proof -
  let ?P = "ps_providers (ts_providers s)" and ?l = "ucast idx :: reg"
  let ?n = "count_list ?P (TagLocal ?l)" and ?u = "\<lambda>r. count_list ?P (TagPreserved r) + x r"
  from run obtain ps ra' where ps: "ps_preserve_locals ms idx (ts_providers s) (ts_reg_alloc s) = Inr (pr, ps, ra')"
      and s': "s' = s\<lparr>ts_providers := ps, ts_reg_alloc := ra'\<rparr>"
    by (auto simp: ts_preserve_locals_def rsimps)
  have ra: "ra_inv ms ?u (ts_reg_alloc s)" and psi: "ps_inv (ts_providers s)"
    and tags: "\<forall>p \<in> set ?P. tag_ok (ts_reg_alloc s) p" and dyn: "dynamics_ok (ts_reg_alloc s) ?P"
    using inv by (auto simp: ts_inv_def)
  note r = ps_preserve_locals_Inr [OF psi ps]
  have none: "pr = None \<longleftrightarrow> ?n = 0" using preserve_times_zero r by blast
  show "pr = None \<longleftrightarrow> TagLocal ?l \<notin> set ?P" using none by (simp add: count_list_0_iff)
  show P': "ps_providers (ts_providers s') = replaced ?l pr ?P" using r by (simp add: s')
  have main: "ts_inv ms x s' \<and> (pr = Some r \<longrightarrow> ts_unused r s \<and> \<not> ra_is_local (ts_reg_alloc s) r) \<and>
      ra_len_locals ra' = ra_len_locals (ts_reg_alloc s) \<and> ra_next_dynamic ra' = ra_next_dynamic (ts_reg_alloc s)"
  proof (cases "?n")
    case 0
    then have "ra' = ts_reg_alloc s" "pr = None" using r none by auto
    then show ?thesis using inv r P' by (simp add: ts_inv_def s' replaced_def)
  next
    case (Suc n)
    obtain q where q: "pr = Some q" "?u q = 0" "ra_inv ms (?u(q := ?n)) ra'" "sint (ra_min_preserve ra') < sint q"
        and eqs: "ra_next_dynamic ra' = ra_next_dynamic (ts_reg_alloc s)" "ra_len_locals ra' = ra_len_locals (ts_reg_alloc s)"
      using preserve_times_inv [OF laws ra, of ra' n pr] apart r Suc by (auto simp: s')
    have low: "sint (ra_next_dynamic (ts_reg_alloc s)) < sint q"
        "sint (ra_len_locals (ts_reg_alloc s)) \<le> sint (ra_next_dynamic (ts_reg_alloc s))" "0 \<le> sint (ra_next_dynamic (ts_reg_alloc s))"
      using q(4) apart eqs ra by (auto simp: s' ra_apart_def ra_inv_def)
    have "typed_of_tagged p \<noteq> ProvReg q" if p: "p \<in> set ?P" for p
    proof (cases p)
      case (TagPreserved r')
      with p have "0 < count_list ?P (TagPreserved r')" by (auto simp: count_list_0_iff intro: gr0I)
      with q(2) TagPreserved show ?thesis by (auto simp: typed_of_tagged_def)
    next
      case (TagDynamic r')
      with p dynamics_ok_lower [OF dyn] low show ?thesis by (fastforce simp: typed_of_tagged_def)
    next
      case (TagLocal r')
      with p tags low show ?thesis by (fastforce simp: typed_of_tagged_def tag_ok_def ra_is_local_def ra_min_dynamic_def)
    next
      case (TagConstLocal r')
      with p tags low show ?thesis by (fastforce simp: typed_of_tagged_def tag_ok_def reg_is_const_def)
    qed (simp add: typed_of_tagged_def)
    moreover have "\<not> ra_is_local (ts_reg_alloc s) q" using low by (simp add: ra_is_local_def ra_min_dynamic_def)
    moreover have "(\<lambda>r. count_list (replaced ?l pr ?P) (TagPreserved r) + x r) = ?u(q := ?n)"
      using q(1,2) by (auto simp: fun_eq_iff replaced_def count_replace_local)
    moreover have "\<forall>p \<in> set (replaced ?l pr ?P). tag_ok ra' p"
      using tags eqs by (auto simp: replaced_def q(1) replace_local_def tag_ok_def ra_is_local_def ra_min_dynamic_def
          split: tagged_provider.splits)
    moreover have "dynamics_ok ra' (replaced ?l pr ?P)"
      using dyn eqs by (simp add: dynamics_ok_def replaced_def q(1) dynamic_regs_replace)
    ultimately show ?thesis using q r eqs apart
      by (auto simp: ts_inv_def s' ts_unused_def)
  qed
  then show "ts_inv ms x s'" "pr = Some r \<Longrightarrow> ts_unused r s \<and> \<not> ra_is_local (ts_reg_alloc s) r"
    "ra_len_locals (ts_reg_alloc s') = ra_len_locals (ts_reg_alloc s)"
    "ra_next_dynamic (ts_reg_alloc s') = ra_next_dynamic (ts_reg_alloc s)"
    by (auto simp: s')
qed


lemma ps_push_inv:
  assumes inv: "ps_inv ps"
  shows "\<exists>ps'. ps_push p ps = Inr ps' \<and> ps_providers ps' = ps_providers ps @ [p] \<and> ps_inv ps'"
proof (cases "\<exists>l. p = TagLocal l \<and> ps_use_locals ps")
  case True
  then obtain l where p: "p = TagLocal l" "ps_use_locals ps" by blast
  let ?P = "ps_providers ps"
  obtain lr where "lr_push_at l (length ?P) (ps_locals ps) = Inr lr"
      "lr_rep lr ((local_positions ?P)(l := length ?P # local_positions ?P l))"
    using lr_push_at_rep [of "ps_locals ps" "local_positions ?P" l "length ?P"] inv p by (auto simp: ps_inv_def)
  moreover have "(local_positions ?P)(l := length ?P # local_positions ?P l) = local_positions (?P @ [p])"
    by (auto simp: fun_eq_iff local_positions_push p)
  ultimately show ?thesis using inv p by (auto simp: ps_push_def ps_inv_def is_local_tag_def Let_def)
next
  case False
  then have "ps_use_locals ps \<Longrightarrow> local_positions (ps_providers ps @ [p]) = local_positions (ps_providers ps)"
    by (auto simp: fun_eq_iff local_positions_push)
  with False inv show ?thesis
    by (cases p; cases "ps_use_locals ps") (simp_all add: ps_push_def ps_inv_def is_local_tag_def Let_def)
qed

lemma ps_pop_inv:
  assumes inv: "ps_inv ps" and P: "ps_providers ps = P @ [p]"
  shows "\<exists>ps'. ps_pop ps = Inr (p, ps') \<and> ps_providers ps' = P \<and> ps_inv ps'"
proof (cases "\<exists>l. p = TagLocal l \<and> ps_use_locals ps")
  case True
  then obtain l where p: "p = TagLocal l" "ps_use_locals ps" by blast
  obtain lr where "lr_pop_at l (ps_locals ps) = Inr (length P, lr)"
      "lr_rep lr ((local_positions (P @ [p]))(l := local_positions P l))"
    using lr_pop_at_rep [of "ps_locals ps" "local_positions (P @ [p])" l "length P" "local_positions P l"] inv p P
    by (auto simp: ps_inv_def local_positions_push)
  moreover have "(local_positions (P @ [p]))(l := local_positions P l) = local_positions P"
    by (auto simp: fun_eq_iff local_positions_push p)
  ultimately show ?thesis using inv p P by (auto simp: ps_pop_def ps_inv_def is_local_tag_def Let_def)
next
  case False
  then have "ps_use_locals ps \<Longrightarrow> local_positions (P @ [p]) = local_positions P"
    by (auto simp: fun_eq_iff local_positions_push)
  with False inv P show ?thesis
    by (cases p; cases "ps_use_locals ps") (simp_all add: ps_pop_def ps_inv_def is_local_tag_def Let_def)
qed

text \<open>Pushing a provider that refers to an existing register or to a constant.\<close>

lemma ts_push_tagged_inv:
  assumes inv: "ts_inv ms x s" and push: "ts_push_tagged p s = Inr s'"
    and p: "tag_ok (ts_reg_alloc s) p" "\<forall>r. p \<noteq> TagDynamic r" "\<forall>r. p \<noteq> TagPreserved r"
  shows "ts_inv ms x s'" "stack_values rf s' = stack_values rf s @ [provider_value rf p]" "ts_reg_alloc s' = ts_reg_alloc s"
proof -
  obtain ps' where ps': "ps_push p (ts_providers s) = Inr ps'" "ps_providers ps' = ps_providers (ts_providers s) @ [p]" "ps_inv ps'"
    using ps_push_inv [of "ts_providers s" p] inv by (auto simp: ts_inv_def)
  then have s': "s' = s\<lparr>ts_providers := ps'\<rparr>" using push by (auto simp: ts_push_tagged_def)
  have "dynamic_regs (ps_providers ps') = dynamic_regs (ps_providers (ts_providers s))"
    using p(2) by (auto simp: ps' dynamic_regs_append split: tagged_provider.splits)
  then show "ts_inv ms x s'" using inv ps' p by (simp add: ts_inv_def s' dynamics_ok_def)
  show "stack_values rf s' = stack_values rf s @ [provider_value rf p]" using ps' by (simp add: stack_values_def s')
  show "ts_reg_alloc s' = ts_reg_alloc s" by (simp add: s')
qed

lemma ts_push_dynamic_inv:
  assumes inv: "ts_inv ms x s" and push: "ts_push_dynamic s = Inr (r, s')"
  shows "ts_inv ms x s'" "ts_unused r s" "stack_values rf s' = stack_values rf s @ [rf r]"
proof -
  let ?P = "ps_providers (ts_providers s)" and ?ra = "ts_reg_alloc s"
  from push obtain ra' where ra': "ra_push_dynamic ?ra = Inr (r, ra')"
      and rest: "ts_push_tagged (TagDynamic r) (s\<lparr>ts_reg_alloc := ra'\<rparr>) = Inr s'"
    by (auto simp: ts_push_dynamic_def rsimps)
  have rinv: "ra_inv ms (\<lambda>r. count_list ?P (TagPreserved r) + x r) ?ra" "ra_apart ?ra" "ps_inv (ts_providers s)"
      "dynamics_ok ?ra ?P" "\<forall>p \<in> set ?P. tag_ok ?ra p"
    using inv by (auto simp: ts_inv_def)
  note d = ra_push_dynamic_inv [OF rinv(1,2) ra']
  from ra' have len: "ra_len_locals ra' = ra_len_locals ?ra"
    by (auto simp: ra_push_dynamic_def Let_def split: if_splits)
  obtain ps' where ps': "ps_push (TagDynamic r) (ts_providers s) = Inr ps'" "ps_providers ps' = ?P @ [TagDynamic r]" "ps_inv ps'"
    using ps_push_inv [OF rinv(3)] by blast
  then have s': "s' = s\<lparr>ts_reg_alloc := ra', ts_providers := ps'\<rparr>" using rest by (auto simp: ts_push_tagged_def)
  have dyn: "dynamics_ok ra' (?P @ [TagDynamic r])"
    using rinv(4) d(3,4) len by (auto simp: dynamics_ok_def dynamic_regs_append nth_append less_Suc_eq)
  have "\<forall>p \<in> set (?P @ [TagDynamic r]). tag_ok ra' p"
    using rinv(5) len by (auto simp: tag_ok_def ra_is_local_def ra_min_dynamic_def split: tagged_provider.splits)
  with d dyn ps' show "ts_inv ms x s'" by (simp add: ts_inv_def s')
  show "stack_values rf s' = stack_values rf s @ [rf r]"
    using ps' by (simp add: stack_values_def s' provider_value_def typed_of_tagged_def)
  have lower: "0 \<le> sint (ra_len_locals ?ra)" "sint (ra_len_locals ?ra) \<le> sint r" "sint r \<le> sint (ra_min_preserve ?ra)"
    using rinv(1,2) d(3) by (auto simp: ra_inv_def ra_apart_def)
  have "typed_of_tagged p \<noteq> ProvReg r" if p: "p \<in> set ?P" for p
  proof (cases p)
    case (TagPreserved q)
    then show ?thesis using ts_inv_preserved [OF inv] p lower by (fastforce simp: typed_of_tagged_def)
  next
    case (TagDynamic q)
    then show ?thesis using ts_inv_dynamic [OF inv] p d(3) by (fastforce simp: typed_of_tagged_def)
  next
    case (TagLocal q)
    then show ?thesis using rinv(5) p lower by (fastforce simp: typed_of_tagged_def tag_ok_def ra_is_local_def ra_min_dynamic_def)
  next
    case (TagConstLocal q)
    then show ?thesis using rinv(5) p lower by (fastforce simp: typed_of_tagged_def tag_ok_def reg_is_const_def)
  qed (simp add: typed_of_tagged_def)
  then show "ts_unused r s" by (simp add: ts_unused_def)
qed

lemma ts_pop_inv:
  assumes laws: "stash_laws ms" and inv: "ts_inv ms x s" and ne: "ts_height s \<noteq> 0"
  shows "\<exists>p s'. ts_pop ms s = Inr (typed_of_tagged p, s') \<and> ts_inv ms x s' \<and>
    ps_providers (ts_providers s) = ps_providers (ts_providers s') @ [p]"
proof -
  let ?ra = "ts_reg_alloc s"
  from ne obtain P p where P: "ps_providers (ts_providers s) = P @ [p]"
    by (metis length_0_conv rev_exhaust ts_height_def)
  have rinv: "ra_inv ms (\<lambda>r. count_list (P @ [p]) (TagPreserved r) + x r) ?ra" "ra_apart ?ra" "ps_inv (ts_providers s)"
      "dynamics_ok ?ra (P @ [p])" "\<forall>q \<in> set (P @ [p]). tag_ok ?ra q"
    using inv by (auto simp: ts_inv_def P)
  obtain ps' where ps': "ps_pop (ts_providers s) = Inr (p, ps')" "ps_providers ps' = P" "ps_inv ps'"
    using ps_pop_inv [OF rinv(3) P] by blast
  have "\<exists>ra'. ra_pop_provider ms p ?ra = Inr (typed_of_tagged p, ra') \<and>
      ra_inv ms (\<lambda>r. count_list P (TagPreserved r) + x r) ra' \<and> ra_apart ra' \<and> dynamics_ok ra' P \<and>
      ra_len_locals ra' = ra_len_locals ?ra"
  proof (cases p)
    case (TagPreserved r)
    let ?u = "\<lambda>q. count_list (P @ [p]) (TagPreserved q) + x q"
    obtain ra' where "ra_pop_preserved ms r ?ra = Inr ra'" "ra_inv ms (?u(r := ?u r - 1)) ra'"
        "ra_next_dynamic ra' = ra_next_dynamic ?ra" "ra_min_preserve ra' = ra_min_preserve ?ra" "ra_len_locals ra' = ra_len_locals ?ra"
      using ra_pop_preserved_inv [OF laws rinv(1), of r] TagPreserved by auto
    moreover have "?u(r := ?u r - 1) = (\<lambda>q. count_list P (TagPreserved q) + x q)" using TagPreserved by (auto simp: fun_eq_iff)
    ultimately show ?thesis using TagPreserved rinv
      by (auto simp: ra_pop_provider_def typed_of_tagged_def ra_apart_def dynamics_ok_def dynamic_regs_append)
  next
    case (TagDynamic r)
    have next': "sint (ra_next_dynamic ?ra) = sint (ra_len_locals ?ra) + 1 + int (length (dynamic_regs P))"
      using rinv(4) TagDynamic by (simp add: dynamics_ok_def dynamic_regs_append)
    then have "ra_next_dynamic ?ra \<noteq> ra_len_locals ?ra" by auto
    then obtain ra' where pop: "ra_pop_dynamic ?ra = Inr ra'" "ra_len_locals ra' = ra_len_locals ?ra"
      using rinv(1) by (auto simp: ra_pop_dynamic_def ra_min_dynamic_def ra_inv_def)
    note d = ra_pop_dynamic_inv [OF rinv(1) pop(1)]
    have "dynamics_ok ra' P" using rinv(4) TagDynamic pop d(3)
      by (auto simp: dynamics_ok_def dynamic_regs_append nth_append split: if_splits)
    then show ?thesis using TagDynamic pop d rinv(2) by (auto simp: ra_pop_provider_def typed_of_tagged_def)
  qed (use rinv in \<open>auto simp: ra_pop_provider_def typed_of_tagged_def dynamics_ok_def dynamic_regs_append\<close>)
  then obtain ra' where ra': "ra_pop_provider ms p ?ra = Inr (typed_of_tagged p, ra')"
      "ra_inv ms (\<lambda>r. count_list P (TagPreserved r) + x r) ra'" "ra_apart ra'" "dynamics_ok ra' P" "ra_len_locals ra' = ra_len_locals ?ra"
    by blast
  have "\<forall>q \<in> set P. tag_ok ra' q"
    using rinv(5) ra'(5) by (auto simp: tag_ok_def ra_is_local_def ra_min_dynamic_def split: tagged_provider.splits)
  with ra' ps' P have "ts_inv ms x (s\<lparr>ts_providers := ps', ts_reg_alloc := ra'\<rparr>)" by (simp add: ts_inv_def)
  with ra' ps' P show ?thesis by (auto simp: ts_pop_def)
qed

end
