(* ===== verification/Tr_Control.thy ===== *)
theory Tr_Control
  imports Tr_Stack Func_Types
begin

text \<open>
  Labels and control frames of the translator: \<open>labels.rs\<close>, \<open>block_type.rs\<close>,
  \<open>control_frame.rs\<close> and \<open>control_stack.rs\<close>. An \<open>Instr\<close> and a \<open>LabelRef\<close> are indices, whose
  conversions check that they have 32 bits. A branch to a label that is not pinned yet is recorded
  as a user of the label, its offset is zero until the users are resolved at the end.
\<close>


section \<open>Labels\<close>

type_synonym instr_ref = nat
type_synonym label_ref = nat

datatype label = Pinned instr_ref | Unpinned

record label_user =
  lu_label :: label_ref
  lu_user :: instr_ref

record label_registry =
  lb_labels :: "label list"
  lb_users :: "label_user list"

datatype label_error =
    AlreadyPinned label_ref instr_ref
  | LabelUnpinned label_ref

definition labels_reset :: "label_registry \<Rightarrow> label_registry" where
  "labels_reset lb = lb\<lparr>lb_labels := [], lb_users := []\<rparr>"

definition new_label :: "label_registry \<Rightarrow> tr_error + (label_ref \<times> label_registry)" where
  "new_label lb =
    (let index = length (lb_labels lb)
     in if 2 ^ 32 \<le> index then Inl TPanic
        else Inr (index, lb\<lparr>lb_labels := lb_labels lb @ [Unpinned]\<rparr>))"

definition get_label :: "label_ref \<Rightarrow> label_registry \<Rightarrow> tr_error + label" where
  "get_label l lb = ok_or TPanic (get_at (lb_labels lb) l)"

definition pin_label :: "label_ref \<Rightarrow> instr_ref \<Rightarrow> label_registry \<Rightarrow> tr_error + (label_error + label_registry)" where
  "pin_label l instr lb =
    rmap (\<lambda>lab. case lab of
        Pinned pinned \<Rightarrow> Inl (AlreadyPinned l pinned)
      | Unpinned \<Rightarrow> Inr (lb\<lparr>lb_labels := (lb_labels lb)[l := Pinned instr]\<rparr>))
      (get_label l lb)"

definition try_pin_label :: "label_ref \<Rightarrow> instr_ref \<Rightarrow> label_registry \<Rightarrow> tr_error + label_registry" where
  "try_pin_label l instr lb =
    rmap (\<lambda>lab. case lab of
        Unpinned \<Rightarrow> lb\<lparr>lb_labels := (lb_labels lb)[l := Pinned instr]\<rparr>
      | Pinned _ \<Rightarrow> lb)
      (get_label l lb)"

definition tr_of_ir :: "ir_error + 'a \<Rightarrow> tr_error + 'a" where
  "tr_of_ir r = (case r of Inl e \<Rightarrow> Inl (TIr e) | Inr x \<Rightarrow> Inr x)"

definition instr_offset_between :: "instr_ref \<Rightarrow> instr_ref \<Rightarrow> tr_error + branch_offset" where
  "instr_offset_between src dst = tr_of_ir (from_src_to_dst (of_nat src) (of_nat dst))"

text \<open>The uninitialised offset is zero.\<close>

definition try_resolve_label ::
  "label_ref \<Rightarrow> instr_ref \<Rightarrow> label_registry \<Rightarrow> tr_error + (branch_offset \<times> label_registry)" where
  "try_resolve_label l user lb =
    rbind (get_label l lb) (\<lambda>lab.
    case lab of
      Pinned target \<Rightarrow> rmap (\<lambda>offset. (offset, lb)) (instr_offset_between user target)
    | Unpinned \<Rightarrow> Inr (0, lb\<lparr>lb_users := lb_users lb @ [\<lparr>lu_label = l, lu_user = user\<rparr>]\<rparr>))"

definition resolve_label :: "label_ref \<Rightarrow> label_registry \<Rightarrow> tr_error + (label_error + instr_ref)" where
  "resolve_label l lb =
    rmap (\<lambda>lab. case lab of Pinned instr \<Rightarrow> Inr instr | Unpinned \<Rightarrow> Inl (LabelUnpinned l)) (get_label l lb)"

text \<open>
  What the iterator \<open>resolved_users\<close> yields for one user; an unpinned label is a panic, an offset
  that is out of bounds an error value.
\<close>

definition resolved_user :: "label_registry \<Rightarrow> label_user \<Rightarrow> tr_error + (instr_ref \<times> (tr_error + branch_offset))" where
  "resolved_user lb u =
    rbind (resolve_label (lu_label u) lb) (\<lambda>r.
    case r of
      Inl _ \<Rightarrow> Inl TPanic
    | Inr dst \<Rightarrow> Inr (lu_user u, instr_offset_between (lu_user u) dst))"


section \<open>Block types\<close>

text \<open>A function type is the handle of a deduplicated type, resolved through the engine.\<close>

datatype block_type = BtEmpty | BtReturns | BtFuncType nat

datatype wasm_block_type = WasmBtEmpty | WasmBtType val_type | WasmBtFuncType u32

definition block_type_new :: "(u32 \<Rightarrow> nat) \<Rightarrow> wasm_block_type \<Rightarrow> block_type" where
  "block_type_new module_func_type bt =
    (case bt of
       WasmBtEmpty \<Rightarrow> BtEmpty
     | WasmBtType _ \<Rightarrow> BtReturns
     | WasmBtFuncType i \<Rightarrow> BtFuncType (module_func_type i))"

definition bt_len_params :: "(nat \<Rightarrow> func_type) \<Rightarrow> block_type \<Rightarrow> u16" where
  "bt_len_params types bt = (case bt of BtFuncType t \<Rightarrow> func_type_len_params (types t) | _ \<Rightarrow> 0)"

definition bt_len_results :: "(nat \<Rightarrow> func_type) \<Rightarrow> block_type \<Rightarrow> u16" where
  "bt_len_results types bt =
    (case bt of BtEmpty \<Rightarrow> 0 | BtReturns \<Rightarrow> 1 | BtFuncType t \<Rightarrow> func_type_len_results (types t))"


section \<open>Control frames\<close>

type_synonym block_height = u16

definition block_height_new :: "(nat \<Rightarrow> func_type) \<Rightarrow> nat \<Rightarrow> block_type \<Rightarrow> tr_error + block_height" where
  "block_height_new types height bt =
    (let len_params = bt_len_params types bt
     in if height < 2 ^ 16 \<and> unat len_params \<le> height then Inr (of_nat height - len_params)
        else Inl (TErr EmulatedValueStackOverflow))"

record block_frame =
  bf_block_type :: block_type
  bf_len_branches :: nat
  bf_stack_height :: block_height
  bf_end_label :: label_ref
  bf_branch_params :: reg_span
  bf_consume_fuel :: "instr_ref option"

record loop_frame =
  lf_block_type :: block_type
  lf_len_branches :: nat
  lf_stack_height :: block_height
  lf_head_label :: label_ref
  lf_branch_params :: reg_span
  lf_consume_fuel :: "instr_ref option"

datatype if_reachability =
    IfBoth label_ref
  | IfOnlyThen
  | IfOnlyElse

record if_frame =
  if_block_type :: block_type
  if_len_branches :: nat
  if_stack_height :: block_height
  if_end_label :: label_ref
  if_branch_params :: reg_span
  if_consume_fuel :: "instr_ref option"
  if_end_of_then_is_reachable :: "bool option"
  if_reachability :: if_reachability
  if_visited_else :: bool

datatype control_frame_kind = KindBlock | KindLoop | KindIf

record unreachable_frame =
  uf_block_type :: block_type
  uf_kind :: control_frame_kind

datatype control_frame =
    BlockFrame block_frame
  | LoopFrame loop_frame
  | IfFrame if_frame
  | UnreachableFrame unreachable_frame

definition block_frame_new ::
  "block_type \<Rightarrow> label_ref \<Rightarrow> reg_span \<Rightarrow> block_height \<Rightarrow> instr_ref option \<Rightarrow> block_frame" where
  "block_frame_new bt end_label branch_params stack_height consume_fuel =
    \<lparr>bf_block_type = bt, bf_len_branches = 0, bf_stack_height = stack_height, bf_end_label = end_label,
     bf_branch_params = branch_params, bf_consume_fuel = consume_fuel\<rparr>"

definition loop_frame_new ::
  "block_type \<Rightarrow> label_ref \<Rightarrow> block_height \<Rightarrow> reg_span \<Rightarrow> instr_ref option \<Rightarrow> loop_frame" where
  "loop_frame_new bt head_label stack_height branch_params consume_fuel =
    \<lparr>lf_block_type = bt, lf_len_branches = 0, lf_stack_height = stack_height, lf_head_label = head_label,
     lf_branch_params = branch_params, lf_consume_fuel = consume_fuel\<rparr>"

definition if_frame_new ::
  "block_type \<Rightarrow> label_ref \<Rightarrow> reg_span \<Rightarrow> block_height \<Rightarrow> instr_ref option \<Rightarrow> if_reachability \<Rightarrow> tr_error + if_frame" where
  "if_frame_new bt end_label branch_params stack_height consume_fuel reachability =
    (if reachability = IfBoth end_label then Inl TPanic
     else Inr \<lparr>if_block_type = bt, if_len_branches = 0, if_stack_height = stack_height,
       if_end_label = end_label, if_branch_params = branch_params, if_consume_fuel = consume_fuel,
       if_end_of_then_is_reachable =
         (case reachability of IfBoth _ \<Rightarrow> None | IfOnlyThen \<Rightarrow> None | IfOnlyElse \<Rightarrow> Some False),
       if_reachability = reachability, if_visited_else = False\<rparr>)"

definition if_else_label :: "if_frame \<Rightarrow> label_ref option" where
  "if_else_label f = (case if_reachability f of IfBoth l \<Rightarrow> Some l | _ \<Rightarrow> None)"

definition is_then_reachable :: "if_frame \<Rightarrow> bool" where
  "is_then_reachable f = (case if_reachability f of IfBoth _ \<Rightarrow> True | IfOnlyThen \<Rightarrow> True | IfOnlyElse \<Rightarrow> False)"

definition is_else_reachable :: "if_frame \<Rightarrow> bool" where
  "is_else_reachable f = (case if_reachability f of IfBoth _ \<Rightarrow> True | IfOnlyElse \<Rightarrow> True | IfOnlyThen \<Rightarrow> False)"

definition update_end_of_then_reachability :: "bool \<Rightarrow> if_frame \<Rightarrow> tr_error + if_frame" where
  "update_end_of_then_reachability reachable f =
    (if if_end_of_then_is_reachable f \<noteq> None then Inl TPanic
     else Inr (f\<lparr>if_end_of_then_is_reachable := Some reachable\<rparr>))"

definition if_update_consume_fuel_instr :: "instr_ref \<Rightarrow> if_frame \<Rightarrow> tr_error + if_frame" where
  "if_update_consume_fuel_instr instr f =
    (if if_consume_fuel f = None then Inl TPanic else Inr (f\<lparr>if_consume_fuel := Some instr\<rparr>))"

definition frame_kind :: "control_frame \<Rightarrow> control_frame_kind" where
  "frame_kind c =
    (case c of BlockFrame _ \<Rightarrow> KindBlock | LoopFrame _ \<Rightarrow> KindLoop | IfFrame _ \<Rightarrow> KindIf
     | UnreachableFrame f \<Rightarrow> uf_kind f)"

definition frame_block_type :: "control_frame \<Rightarrow> block_type" where
  "frame_block_type c =
    (case c of BlockFrame f \<Rightarrow> bf_block_type f | LoopFrame f \<Rightarrow> lf_block_type f | IfFrame f \<Rightarrow> if_block_type f
     | UnreachableFrame f \<Rightarrow> uf_block_type f)"

text \<open>A branch to a loop passes the parameters of its type, any other branch its results.\<close>

definition frame_branch_params :: "(nat \<Rightarrow> func_type) \<Rightarrow> control_frame \<Rightarrow> tr_error + bounded_reg_span" where
  "frame_branch_params types c =
    (case c of
       BlockFrame f \<Rightarrow> Inr \<lparr>brs_span = bf_branch_params f, brs_len = bt_len_results types (bf_block_type f)\<rparr>
     | LoopFrame f \<Rightarrow> Inr \<lparr>brs_span = lf_branch_params f, brs_len = bt_len_params types (lf_block_type f)\<rparr>
     | IfFrame f \<Rightarrow> Inr \<lparr>brs_span = if_branch_params f, brs_len = bt_len_results types (if_block_type f)\<rparr>
     | UnreachableFrame _ \<Rightarrow> Inl TPanic)"

definition frame_branch_destination :: "control_frame \<Rightarrow> tr_error + label_ref" where
  "frame_branch_destination c =
    (case c of BlockFrame f \<Rightarrow> Inr (bf_end_label f) | LoopFrame f \<Rightarrow> Inr (lf_head_label f)
     | IfFrame f \<Rightarrow> Inr (if_end_label f) | UnreachableFrame _ \<Rightarrow> Inl TPanic)"

definition frame_is_branched_to :: "control_frame \<Rightarrow> tr_error + bool" where
  "frame_is_branched_to c =
    (case c of BlockFrame f \<Rightarrow> Inr (1 \<le> bf_len_branches f) | LoopFrame f \<Rightarrow> Inr (1 \<le> lf_len_branches f)
     | IfFrame f \<Rightarrow> Inr (1 \<le> if_len_branches f) | UnreachableFrame _ \<Rightarrow> Inl TPanic)"

definition frame_bump_branches :: "control_frame \<Rightarrow> tr_error + control_frame" where
  "frame_bump_branches c =
    (case c of
       BlockFrame f \<Rightarrow> Inr (BlockFrame (f\<lparr>bf_len_branches := bf_len_branches f + 1\<rparr>))
     | LoopFrame f \<Rightarrow> Inr (LoopFrame (f\<lparr>lf_len_branches := lf_len_branches f + 1\<rparr>))
     | IfFrame f \<Rightarrow> Inr (IfFrame (f\<lparr>if_len_branches := if_len_branches f + 1\<rparr>))
     | UnreachableFrame _ \<Rightarrow> Inl TPanic)"

definition frame_end_label :: "control_frame \<Rightarrow> label_ref option" where
  "frame_end_label c =
    (case c of BlockFrame f \<Rightarrow> Some (bf_end_label f) | IfFrame f \<Rightarrow> Some (if_end_label f)
     | LoopFrame _ \<Rightarrow> None | UnreachableFrame _ \<Rightarrow> None)"

definition frame_block_height :: "control_frame \<Rightarrow> block_height option" where
  "frame_block_height c =
    (case c of BlockFrame f \<Rightarrow> Some (bf_stack_height f) | LoopFrame f \<Rightarrow> Some (lf_stack_height f)
     | IfFrame f \<Rightarrow> Some (if_stack_height f) | UnreachableFrame _ \<Rightarrow> None)"

definition frame_is_reachable :: "control_frame \<Rightarrow> bool" where
  "frame_is_reachable c = (case c of UnreachableFrame _ \<Rightarrow> False | _ \<Rightarrow> True)"

definition frame_consume_fuel_instr :: "control_frame \<Rightarrow> instr_ref option" where
  "frame_consume_fuel_instr c =
    (case c of BlockFrame f \<Rightarrow> bf_consume_fuel f | LoopFrame f \<Rightarrow> lf_consume_fuel f
     | IfFrame f \<Rightarrow> if_consume_fuel f | UnreachableFrame _ \<Rightarrow> None)"


section \<open>The control stack\<close>

record control_stack =
  ct_frames :: "control_frame list"
  ct_else_providers :: "typed_val provider_slices"

text \<open>An acquired target names the frame by its position in the stack.\<close>

datatype acquired_target = TargetReturn nat | TargetBranch nat

definition control_reset :: "control_stack \<Rightarrow> control_stack" where
  "control_reset c = c\<lparr>ct_frames := [], ct_else_providers := slices_reset (ct_else_providers c)\<rparr>"

definition control_is_root :: "nat \<Rightarrow> control_stack \<Rightarrow> bool" where
  "control_is_root relative_depth c = (relative_depth = length (ct_frames c) - 1)"

definition push_frame :: "control_frame \<Rightarrow> control_stack \<Rightarrow> control_stack" where
  "push_frame f c = c\<lparr>ct_frames := ct_frames c @ [f]\<rparr>"

definition pop_frame :: "control_stack \<Rightarrow> tr_error + (control_frame \<times> control_stack)" where
  "pop_frame c =
    (if ct_frames c = [] then Inl TPanic
     else Inr (last (ct_frames c), c\<lparr>ct_frames := butlast (ct_frames c)\<rparr>))"

definition push_else_providers :: "typed_provider list \<Rightarrow> control_stack \<Rightarrow> tr_error + control_stack" where
  "push_else_providers ps c =
    rmap (\<lambda>(_, s). c\<lparr>ct_else_providers := s\<rparr>) (slices_push ps (ct_else_providers c))"

definition pop_else_providers :: "control_stack \<Rightarrow> tr_error + (typed_provider list \<times> control_stack)" where
  "pop_else_providers c =
    rmap (\<lambda>(ps, s). (ps, c\<lparr>ct_else_providers := s\<rparr>)) (ok_or TPanic (slices_pop (ct_else_providers c)))"

definition control_last :: "control_stack \<Rightarrow> tr_error + control_frame" where
  "control_last c = (if ct_frames c = [] then Inl TPanic else Inr (last (ct_frames c)))"

definition nth_back_index :: "nat \<Rightarrow> control_stack \<Rightarrow> tr_error + nat" where
  "nth_back_index depth c =
    (let len = length (ct_frames c) in if depth < len then Inr (len - 1 - depth) else Inl TPanic)"

definition acquire_target :: "nat \<Rightarrow> control_stack \<Rightarrow> tr_error + acquired_target" where
  "acquire_target depth c =
    rmap (\<lambda>i. if control_is_root depth c then TargetReturn i else TargetBranch i) (nth_back_index depth c)"

definition update_frame ::
  "nat \<Rightarrow> (control_frame \<Rightarrow> tr_error + control_frame) \<Rightarrow> control_stack \<Rightarrow> tr_error + control_stack" where
  "update_frame i f c = rmap (\<lambda>x. c\<lparr>ct_frames := (ct_frames c)[i := x]\<rparr>) (f (ct_frames c ! i))"

end
