(* ===== verification/Tr_Instr.thy ===== *)
theory Tr_Instr
  imports Tr_Control Instr Entities
begin

text \<open>
  What the translator knows of instructions: \<open>comparator.rs\<close>, \<open>relink_result.rs\<close>,
  \<open>visit_register.rs\<close> with \<open>ir/src/visit_regs.rs\<close>, and the header of the module
  (\<open>module/mod.rs\<close>). The input registers of an instruction are those of its fields that are not
  marked as results in \<open>ir/src/for_each_op.rs\<close>; a span is visited by its first register.
\<close>


section \<open>The module header\<close>

text \<open>
  The translator sees the initial value of a global only through \<open>ConstExpr::eval_const\<close> and
  \<open>ConstExpr::funcref\<close>. A deduplicated function type is a handle that the engine resolves.
\<close>

record const_expr =
  ce_eval_const :: "untyped_val option"
  ce_funcref :: "u32 option"

record module_header =
  mh_func_types :: "nat list"
  mh_funcs :: "nat list"
  mh_len_imported_funcs :: nat
  mh_len_imported_globals :: nat
  mh_globals :: "global_type list"
  mh_globals_init :: "const_expr list"
  mh_engine_funcs_start :: nat
  mh_engine_funcs_end :: nat

definition get_func_type :: "module_header \<Rightarrow> nat \<Rightarrow> tr_error + nat" where
  "get_func_type m i = ok_or TPanic (get_at (mh_func_types m) i)"

definition get_type_of_func :: "module_header \<Rightarrow> nat \<Rightarrow> tr_error + nat" where
  "get_type_of_func m i = ok_or TPanic (get_at (mh_funcs m) i)"

definition func_span_get :: "module_header \<Rightarrow> nat \<Rightarrow> engine_func option" where
  "func_span_get m n =
    (if mh_engine_funcs_end m - mh_engine_funcs_start m \<le> n then None else Some (mh_engine_funcs_start m + n))"

definition func_span_position :: "module_header \<Rightarrow> engine_func \<Rightarrow> nat option" where
  "func_span_position m f =
    (if f < mh_engine_funcs_start m \<or> mh_engine_funcs_end m \<le> f then None else Some (f - mh_engine_funcs_start m))"

definition get_engine_func :: "module_header \<Rightarrow> nat \<Rightarrow> tr_error + engine_func option" where
  "get_engine_func m i =
    (if i < mh_len_imported_funcs m then Inr None
     else rmap Some (ok_or TPanic (func_span_get m (i - mh_len_imported_funcs m))))"

definition get_func_index :: "module_header \<Rightarrow> engine_func \<Rightarrow> nat option" where
  "get_func_index m f = map_option (\<lambda>p. p + mh_len_imported_funcs m) (func_span_position m f)"

definition get_global :: "module_header \<Rightarrow> nat \<Rightarrow> tr_error + (global_type \<times> const_expr option)" where
  "get_global m i =
    rbind (ok_or TPanic (get_at (mh_globals m) i)) (\<lambda>gt.
    if i < mh_len_imported_globals m then Inr (gt, None)
    else rmap (\<lambda>e. (gt, Some e)) (ok_or TPanic (get_at (mh_globals_init m) (i - mh_len_imported_globals m))))"

text \<open>A function of the module and the index of its compiled code correspond.\<close>

lemma get_func_index_engine_func:
  assumes "get_engine_func m i = Inr (Some f)"
  shows "get_func_index m f = Some i"
  using assms
  by (auto simp: get_engine_func_def get_func_index_def func_span_get_def func_span_position_def rsimps
      split: if_splits)


section \<open>Comparators\<close>

primrec cmp_of_comm :: "comm_op \<Rightarrow> comparator option" where
  "cmp_of_comm I32And = Some CmpI32And"
| "cmp_of_comm I32Or = Some CmpI32Or"
| "cmp_of_comm I32Xor = Some CmpI32Xor"
| "cmp_of_comm I32AndEqz = Some CmpI32AndEqz"
| "cmp_of_comm I32OrEqz = Some CmpI32OrEqz"
| "cmp_of_comm I32XorEqz = Some CmpI32XorEqz"
| "cmp_of_comm I32Add = None"
| "cmp_of_comm I32Mul = None"
| "cmp_of_comm I64Add = None"
| "cmp_of_comm I64Mul = None"
| "cmp_of_comm I64And = None"
| "cmp_of_comm I64Or = None"
| "cmp_of_comm I64Xor = None"

primrec cmp_of_icmp :: "icmp_op \<Rightarrow> comparator" where
  "cmp_of_icmp I32Eq = CmpI32Eq"
| "cmp_of_icmp I32Ne = CmpI32Ne"
| "cmp_of_icmp I32LtS = CmpI32LtS"
| "cmp_of_icmp I32LtU = CmpI32LtU"
| "cmp_of_icmp I32LeS = CmpI32LeS"
| "cmp_of_icmp I32LeU = CmpI32LeU"
| "cmp_of_icmp I32GtS = CmpI32GtS"
| "cmp_of_icmp I32GtU = CmpI32GtU"
| "cmp_of_icmp I32GeS = CmpI32GeS"
| "cmp_of_icmp I32GeU = CmpI32GeU"
| "cmp_of_icmp I64Eq = CmpI64Eq"
| "cmp_of_icmp I64Ne = CmpI64Ne"
| "cmp_of_icmp I64LtS = CmpI64LtS"
| "cmp_of_icmp I64LtU = CmpI64LtU"
| "cmp_of_icmp I64LeS = CmpI64LeS"
| "cmp_of_icmp I64LeU = CmpI64LeU"
| "cmp_of_icmp I64GtS = CmpI64GtS"
| "cmp_of_icmp I64GtU = CmpI64GtU"
| "cmp_of_icmp I64GeS = CmpI64GeS"
| "cmp_of_icmp I64GeU = CmpI64GeU"

primrec cmp_of_fcmp :: "fcmp_op \<Rightarrow> comparator" where
  "cmp_of_fcmp F32Eq = CmpF32Eq"
| "cmp_of_fcmp F32Ne = CmpF32Ne"
| "cmp_of_fcmp F32Lt = CmpF32Lt"
| "cmp_of_fcmp F32Le = CmpF32Le"
| "cmp_of_fcmp F32Gt = CmpF32Gt"
| "cmp_of_fcmp F32Ge = CmpF32Ge"
| "cmp_of_fcmp F64Eq = CmpF64Eq"
| "cmp_of_fcmp F64Ne = CmpF64Ne"
| "cmp_of_fcmp F64Lt = CmpF64Lt"
| "cmp_of_fcmp F64Le = CmpF64Le"
| "cmp_of_fcmp F64Gt = CmpF64Gt"
| "cmp_of_fcmp F64Ge = CmpF64Ge"

definition from_cmp_instruction :: "instruction \<Rightarrow> comparator option" where
  "from_cmp_instruction i =
    (case i of
       INum (IComm op _ _ _) \<Rightarrow> cmp_of_comm op
     | INum (ICommImm16 op _ _ _) \<Rightarrow> cmp_of_comm op
     | INum (IIcmp op _ _ _) \<Rightarrow> Some (cmp_of_icmp op)
     | INum (IIcmpImm16 op _ _ _) \<Rightarrow> Some (cmp_of_icmp op)
     | INum (IFcmp op _ _ _) \<Rightarrow> Some (cmp_of_fcmp op)
     | _ \<Rightarrow> None)"

definition from_cmp_branch_instruction :: "instruction \<Rightarrow> comparator option" where
  "from_cmp_branch_instruction i =
    (case i of
       IBr (IBranchCmp c _ _ _) \<Rightarrow> Some c
     | IBr (IBranchCmpImm c _ _ _) \<Rightarrow> Some c
     | _ \<Rightarrow> None)"

primrec cmp_negate :: "comparator \<Rightarrow> comparator option" where
  "cmp_negate CmpI32And = Some CmpI32AndEqz"
| "cmp_negate CmpI32Or = Some CmpI32OrEqz"
| "cmp_negate CmpI32Xor = Some CmpI32XorEqz"
| "cmp_negate CmpI32AndEqz = Some CmpI32And"
| "cmp_negate CmpI32OrEqz = Some CmpI32Or"
| "cmp_negate CmpI32XorEqz = Some CmpI32Xor"
| "cmp_negate CmpI32Eq = Some CmpI32Ne"
| "cmp_negate CmpI32Ne = Some CmpI32Eq"
| "cmp_negate CmpI32LtS = Some CmpI32GeS"
| "cmp_negate CmpI32LtU = Some CmpI32GeU"
| "cmp_negate CmpI32LeS = Some CmpI32GtS"
| "cmp_negate CmpI32LeU = Some CmpI32GtU"
| "cmp_negate CmpI32GtS = Some CmpI32LeS"
| "cmp_negate CmpI32GtU = Some CmpI32LeU"
| "cmp_negate CmpI32GeS = Some CmpI32LtS"
| "cmp_negate CmpI32GeU = Some CmpI32LtU"
| "cmp_negate CmpI64Eq = Some CmpI64Ne"
| "cmp_negate CmpI64Ne = Some CmpI64Eq"
| "cmp_negate CmpI64LtS = Some CmpI64GeS"
| "cmp_negate CmpI64LtU = Some CmpI64GeU"
| "cmp_negate CmpI64LeS = Some CmpI64GtS"
| "cmp_negate CmpI64LeU = Some CmpI64GtU"
| "cmp_negate CmpI64GtS = Some CmpI64LeS"
| "cmp_negate CmpI64GtU = Some CmpI64LeU"
| "cmp_negate CmpI64GeS = Some CmpI64LtS"
| "cmp_negate CmpI64GeU = Some CmpI64LtU"
| "cmp_negate CmpF32Eq = Some CmpF32Ne"
| "cmp_negate CmpF32Ne = Some CmpF32Eq"
| "cmp_negate CmpF64Eq = Some CmpF64Ne"
| "cmp_negate CmpF64Ne = Some CmpF64Eq"
| "cmp_negate CmpF32Lt = None"
| "cmp_negate CmpF32Le = None"
| "cmp_negate CmpF32Gt = None"
| "cmp_negate CmpF32Ge = None"
| "cmp_negate CmpF64Lt = None"
| "cmp_negate CmpF64Le = None"
| "cmp_negate CmpF64Gt = None"
| "cmp_negate CmpF64Ge = None"

text \<open>The variants for the comparators share a constructor, which is the constructor function.\<close>

definition branch_cmp_instr :: "comparator \<Rightarrow> reg \<Rightarrow> reg \<Rightarrow> branch_offset16 \<Rightarrow> instruction" where
  "branch_cmp_instr c lhs rhs offset = IBr (IBranchCmp c lhs rhs offset)"

text \<open>The implementations of \<open>ComparatorExtImm\<close> for the four integer types.\<close>

datatype int_ty = TyI32 | TyU32 | TyI64 | TyU64

primrec imm_comparators :: "int_ty \<Rightarrow> comparator list" where
  "imm_comparators TyI32 =
    [CmpI32And, CmpI32Or, CmpI32Xor, CmpI32AndEqz, CmpI32OrEqz, CmpI32XorEqz, CmpI32Eq, CmpI32Ne,
     CmpI32LtS, CmpI32LeS, CmpI32GtS, CmpI32GeS]"
| "imm_comparators TyU32 = [CmpI32LtU, CmpI32LeU, CmpI32GtU, CmpI32GeU]"
| "imm_comparators TyI64 = [CmpI64Eq, CmpI64Ne, CmpI64LtS, CmpI64LeS, CmpI64GtS, CmpI64GeS]"
| "imm_comparators TyU64 = [CmpI64LtU, CmpI64LeU, CmpI64GtU, CmpI64GeU]"

definition branch_cmp_instr_imm ::
  "int_ty \<Rightarrow> comparator \<Rightarrow> (reg \<Rightarrow> u16 \<Rightarrow> branch_offset16 \<Rightarrow> instruction) option" where
  "branch_cmp_instr_imm ty c =
    (if c \<in> set (imm_comparators ty) then Some (\<lambda>lhs rhs offset. IBr (IBranchCmpImm c lhs rhs offset)) else None)"

text \<open>The value of a 16-bit constant of an integer type.\<close>

primrec const16_val :: "int_ty \<Rightarrow> u16 \<Rightarrow> untyped_val" where
  "const16_val TyI32 = of_const16_s32"
| "const16_val TyU32 = of_const16_u32"
| "const16_val TyI64 = of_const16_s64"
| "const16_val TyU64 = of_const16_u64"

lemma comparator_imm_const16:
  "branch_cmp_instr_imm ty c = Some mk \<Longrightarrow> comparator_imm c k = Some (const16_val ty k)"
  by (cases ty) (auto simp: branch_cmp_instr_imm_def split: if_splits)

lemma cmp_negate_exact: "cmp_negate c = Some c' \<Longrightarrow> comparator_holds c' l r \<longleftrightarrow> \<not> comparator_holds c l r"
  by (cases c) (auto simp: cmp_i32_and_eqz_def cmp_i32_or_eqz_def cmp_i32_xor_eqz_def)


section \<open>Registers of instructions\<close>

text \<open>
  A visitor has the four operations of the trait \<open>VisitRegs\<close> and a state. \<open>vap\<close> visits one field
  and hands it to the constructor; the fields are visited in the order of their declaration.
\<close>

record 's visitor =
  vr_result :: "reg \<Rightarrow> 's \<Rightarrow> reg \<times> 's"
  vr_results :: "reg_span \<Rightarrow> 's \<Rightarrow> reg_span \<times> 's"
  vr_input :: "reg \<Rightarrow> 's \<Rightarrow> reg \<times> 's"
  vr_inputs :: "reg_span \<Rightarrow> 's \<Rightarrow> reg_span \<times> 's"

definition vpure :: "'c \<Rightarrow> 's \<Rightarrow> 'c \<times> 's" where "vpure c s = (c, s)"

definition vap :: "('s \<Rightarrow> ('r \<Rightarrow> 'c) \<times> 's) \<Rightarrow> ('r \<Rightarrow> 's \<Rightarrow> 'r \<times> 's) \<Rightarrow> 'r \<Rightarrow> 's \<Rightarrow> 'c \<times> 's" where
  "vap m f r s = (case m s of (g, s) \<Rightarrow> case f r s of (r, s) \<Rightarrow> (g r, s))"

definition vmap :: "('a \<Rightarrow> 'b) \<Rightarrow> 'a \<times> 's \<Rightarrow> 'b \<times> 's" where "vmap f = (\<lambda>(x, s). (f x, s))"

definition visit_bounded :: "'s visitor \<Rightarrow> bounded_reg_span \<Rightarrow> 's \<Rightarrow> bounded_reg_span \<times> 's" where
  "visit_bounded v b s = vmap (\<lambda>r. b\<lparr>brs_span := r\<rparr>) (vr_inputs v (brs_span b) s)"

primrec visit_operand :: "'s visitor \<Rightarrow> operand \<Rightarrow> 's \<Rightarrow> operand \<times> 's" where
  "visit_operand v (OpReg r) = vap (vpure OpReg) (vr_input v) r"
| "visit_operand v (OpConst c) = vpure (OpConst c)"

primrec visit_byte_operand :: "'s visitor \<Rightarrow> byte_operand \<Rightarrow> 's \<Rightarrow> byte_operand \<times> 's" where
  "visit_byte_operand v (ByteReg r) = vap (vpure ByteReg) (vr_input v) r"
| "visit_byte_operand v (ByteImm c) = vpure (ByteImm c)"

primrec visit_ret :: "'s visitor \<Rightarrow> return_instr \<Rightarrow> 's \<Rightarrow> return_instr \<times> 's" where
  "visit_ret v IReturn = vpure IReturn"
| "visit_ret v (IReturnReg a) = vap (vpure IReturnReg) (vr_input v) a"
| "visit_ret v (IReturnReg2 a b) = vap (vap (vpure IReturnReg2) (vr_input v) a) (vr_input v) b"
| "visit_ret v (IReturnReg3 a b c) =
    vap (vap (vap (vpure IReturnReg3) (vr_input v) a) (vr_input v) b) (vr_input v) c"
| "visit_ret v (IReturnImm a) = vpure (IReturnImm a)"
| "visit_ret v (IReturnSpan a) = vap (vpure IReturnSpan) (visit_bounded v) a"
| "visit_ret v (IReturnMany a b c) =
    vap (vap (vap (vpure IReturnMany) (vr_input v) a) (vr_input v) b) (vr_input v) c"
| "visit_ret v (IReturnNez a) = vap (vpure IReturnNez) (vr_input v) a"
| "visit_ret v (IReturnNezReg a b) = vap (vap (vpure IReturnNezReg) (vr_input v) a) (vr_input v) b"
| "visit_ret v (IReturnNezReg2 a b c) =
    vap (vap (vap (vpure IReturnNezReg2) (vr_input v) a) (vr_input v) b) (vr_input v) c"
| "visit_ret v (IReturnNezImm a b) = vap (vpure (\<lambda>a. IReturnNezImm a b)) (vr_input v) a"
| "visit_ret v (IReturnNezSpan a b) = vap (vap (vpure IReturnNezSpan) (vr_input v) a) (visit_bounded v) b"
| "visit_ret v (IReturnNezMany a b c) =
    vap (vap (vap (vpure IReturnNezMany) (vr_input v) a) (vr_input v) b) (vr_input v) c"

primrec visit_branch :: "'s visitor \<Rightarrow> branch_instr \<Rightarrow> 's \<Rightarrow> branch_instr \<times> 's" where
  "visit_branch v (IBranch a) = vpure (IBranch a)"
| "visit_branch v (IBranchCmpFallback a b c) =
    vap (vap (vap (vpure IBranchCmpFallback) (vr_input v) a) (vr_input v) b) (vr_input v) c"
| "visit_branch v (IBranchCmp a b c d) =
    vap (vap (vpure (\<lambda>b c. IBranchCmp a b c d)) (vr_input v) b) (vr_input v) c"
| "visit_branch v (IBranchCmpImm a b c d) = vap (vpure (\<lambda>b. IBranchCmpImm a b c d)) (vr_input v) b"
| "visit_branch v (IBranchTable0 a b) = vap (vpure (\<lambda>a. IBranchTable0 a b)) (vr_input v) a"
| "visit_branch v (IBranchTable1 a b) = vap (vpure (\<lambda>a. IBranchTable1 a b)) (vr_input v) a"
| "visit_branch v (IBranchTable2 a b) = vap (vpure (\<lambda>a. IBranchTable2 a b)) (vr_input v) a"
| "visit_branch v (IBranchTable3 a b) = vap (vpure (\<lambda>a. IBranchTable3 a b)) (vr_input v) a"
| "visit_branch v (IBranchTableSpan a b) = vap (vpure (\<lambda>a. IBranchTableSpan a b)) (vr_input v) a"
| "visit_branch v (IBranchTableMany a b) = vap (vpure (\<lambda>a. IBranchTableMany a b)) (vr_input v) a"

primrec visit_copy :: "'s visitor \<Rightarrow> copy_instr \<Rightarrow> 's \<Rightarrow> copy_instr \<times> 's" where
  "visit_copy v (ICopy a b) = vap (vap (vpure ICopy) (vr_result v) a) (vr_input v) b"
| "visit_copy v (ICopy2 a b c) =
    vap (vap (vap (vpure ICopy2) (vr_results v) a) (vr_input v) b) (vr_input v) c"
| "visit_copy v (ICopyImm a b) = vap (vpure (\<lambda>a. ICopyImm a b)) (vr_result v) a"
| "visit_copy v (ICopySpan a b c) =
    vap (vap (vpure (\<lambda>a b. ICopySpan a b c)) (vr_results v) a) (vr_inputs v) b"
| "visit_copy v (ICopySpanNonOverlapping a b c) =
    vap (vap (vpure (\<lambda>a b. ICopySpanNonOverlapping a b c)) (vr_results v) a) (vr_inputs v) b"
| "visit_copy v (ICopyMany a b c) =
    vap (vap (vap (vpure ICopyMany) (vr_results v) a) (vr_input v) b) (vr_input v) c"
| "visit_copy v (ICopyManyNonOverlapping a b c) =
    vap (vap (vap (vpure ICopyManyNonOverlapping) (vr_results v) a) (vr_input v) b) (vr_input v) c"

primrec visit_call :: "'s visitor \<Rightarrow> call_instr \<Rightarrow> 's \<Rightarrow> call_instr \<times> 's" where
  "visit_call v (IReturnCallInternal0 a) = vpure (IReturnCallInternal0 a)"
| "visit_call v (IReturnCallInternal a) = vpure (IReturnCallInternal a)"
| "visit_call v (IReturnCallImported0 a) = vpure (IReturnCallImported0 a)"
| "visit_call v (IReturnCallImported a) = vpure (IReturnCallImported a)"
| "visit_call v (IReturnCallIndirect0 a) = vpure (IReturnCallIndirect0 a)"
| "visit_call v (IReturnCallIndirect0Imm16 a) = vpure (IReturnCallIndirect0Imm16 a)"
| "visit_call v (IReturnCallIndirect a) = vpure (IReturnCallIndirect a)"
| "visit_call v (IReturnCallIndirectImm16 a) = vpure (IReturnCallIndirectImm16 a)"
| "visit_call v (ICallInternal0 a b) = vap (vpure (\<lambda>a. ICallInternal0 a b)) (vr_results v) a"
| "visit_call v (ICallInternal a b) = vap (vpure (\<lambda>a. ICallInternal a b)) (vr_results v) a"
| "visit_call v (ICallImported0 a b) = vap (vpure (\<lambda>a. ICallImported0 a b)) (vr_results v) a"
| "visit_call v (ICallImported a b) = vap (vpure (\<lambda>a. ICallImported a b)) (vr_results v) a"
| "visit_call v (ICallIndirect0 a b) = vap (vpure (\<lambda>a. ICallIndirect0 a b)) (vr_results v) a"
| "visit_call v (ICallIndirect0Imm16 a b) =
    vap (vpure (\<lambda>a. ICallIndirect0Imm16 a b)) (vr_results v) a"
| "visit_call v (ICallIndirect a b) = vap (vpure (\<lambda>a. ICallIndirect a b)) (vr_results v) a"
| "visit_call v (ICallIndirectImm16 a b) = vap (vpure (\<lambda>a. ICallIndirectImm16 a b)) (vr_results v) a"

primrec visit_select :: "'s visitor \<Rightarrow> select_instr \<Rightarrow> 's \<Rightarrow> select_instr \<times> 's" where
  "visit_select v (ISelect a b) = vap (vap (vpure ISelect) (vr_result v) a) (vr_input v) b"
| "visit_select v (ISelectImm32Rhs a b) = vap (vap (vpure ISelectImm32Rhs) (vr_result v) a) (vr_input v) b"
| "visit_select v (ISelectImm32Lhs a b) = vap (vpure (\<lambda>a. ISelectImm32Lhs a b)) (vr_result v) a"
| "visit_select v (ISelectImm32 a b) = vap (vpure (\<lambda>a. ISelectImm32 a b)) (vr_result v) a"
| "visit_select v (ISelectI64Imm32Rhs a b) =
    vap (vap (vpure ISelectI64Imm32Rhs) (vr_result v) a) (vr_input v) b"
| "visit_select v (ISelectI64Imm32Lhs a b) = vap (vpure (\<lambda>a. ISelectI64Imm32Lhs a b)) (vr_result v) a"
| "visit_select v (ISelectI64Imm32 a b) = vap (vpure (\<lambda>a. ISelectI64Imm32 a b)) (vr_result v) a"
| "visit_select v (ISelectF64Imm32Rhs a b) =
    vap (vap (vpure ISelectF64Imm32Rhs) (vr_result v) a) (vr_input v) b"
| "visit_select v (ISelectF64Imm32Lhs a b) = vap (vpure (\<lambda>a. ISelectF64Imm32Lhs a b)) (vr_result v) a"
| "visit_select v (ISelectF64Imm32 a b) = vap (vpure (\<lambda>a. ISelectF64Imm32 a b)) (vr_result v) a"

primrec visit_global :: "'s visitor \<Rightarrow> global_instr \<Rightarrow> 's \<Rightarrow> global_instr \<times> 's" where
  "visit_global v (IGlobalGet a b) = vap (vpure (\<lambda>a. IGlobalGet a b)) (vr_result v) a"
| "visit_global v (IGlobalSet a b) = vap (vpure (\<lambda>a. IGlobalSet a b)) (vr_input v) a"
| "visit_global v (IGlobalSetI32Imm16 a b) = vpure (IGlobalSetI32Imm16 a b)"
| "visit_global v (IGlobalSetI64Imm16 a b) = vpure (IGlobalSetI64Imm16 a b)"

primrec visit_load :: "'s visitor \<Rightarrow> load_instr \<Rightarrow> 's \<Rightarrow> load_instr \<times> 's" where
  "visit_load v (ILoad a b c) = vap (vpure (\<lambda>b. ILoad a b c)) (vr_result v) b"
| "visit_load v (ILoadAt a b c) = vap (vpure (\<lambda>b. ILoadAt a b c)) (vr_result v) b"
| "visit_load v (ILoadOffset16 a b c d) =
    vap (vap (vpure (\<lambda>b c. ILoadOffset16 a b c d)) (vr_result v) b) (vr_input v) c"

primrec visit_store :: "'s visitor \<Rightarrow> store_instr \<Rightarrow> 's \<Rightarrow> store_instr \<times> 's" where
  "visit_store v (IStore a b c) = vap (vpure (\<lambda>b. IStore a b c)) (vr_input v) b"
| "visit_store v (IStoreImm a b c) = vap (vpure (\<lambda>b. IStoreImm a b c)) (vr_input v) b"
| "visit_store v (IStoreOffset16 a b c d) =
    vap (vap (vpure (\<lambda>b d. IStoreOffset16 a b c d)) (vr_input v) b) (vr_input v) d"
| "visit_store v (IStoreOffset16Imm a b c d) =
    vap (vpure (\<lambda>b. IStoreOffset16Imm a b c d)) (vr_input v) b"
| "visit_store v (IStoreAt a b c) = vap (vpure (\<lambda>b. IStoreAt a b c)) (vr_input v) b"
| "visit_store v (IStoreAtImm a b c) = vpure (IStoreAtImm a b c)"

primrec visit_num :: "'s visitor \<Rightarrow> num_instr \<Rightarrow> 's \<Rightarrow> num_instr \<times> 's" where
  "visit_num v (IIcmp a b c d) =
    vap (vap (vap (vpure (IIcmp a)) (vr_result v) b) (vr_input v) c) (vr_input v) d"
| "visit_num v (IIcmpImm16 a b c d) =
    vap (vap (vpure (\<lambda>b c. IIcmpImm16 a b c d)) (vr_result v) b) (vr_input v) c"
| "visit_num v (IFcmp a b c d) =
    vap (vap (vap (vpure (IFcmp a)) (vr_result v) b) (vr_input v) c) (vr_input v) d"
| "visit_num v (IUnary a b c) = vap (vap (vpure (IUnary a)) (vr_result v) b) (vr_input v) c"
| "visit_num v (IConv a b c) = vap (vap (vpure (IConv a)) (vr_result v) b) (vr_input v) c"
| "visit_num v (ITruncTo a b c) = vap (vap (vpure (ITruncTo a)) (vr_result v) b) (vr_input v) c"
| "visit_num v (IComm a b c d) =
    vap (vap (vap (vpure (IComm a)) (vr_result v) b) (vr_input v) c) (vr_input v) d"
| "visit_num v (ICommImm16 a b c d) =
    vap (vap (vpure (\<lambda>b c. ICommImm16 a b c d)) (vr_result v) b) (vr_input v) c"
| "visit_num v (ISub a b c d) =
    vap (vap (vap (vpure (ISub a)) (vr_result v) b) (vr_input v) c) (vr_input v) d"
| "visit_num v (ISubImm16Lhs a b c d) =
    vap (vap (vpure (\<lambda>b d. ISubImm16Lhs a b c d)) (vr_result v) b) (vr_input v) d"
| "visit_num v (IShift a b c d) =
    vap (vap (vap (vpure (IShift a)) (vr_result v) b) (vr_input v) c) (vr_input v) d"
| "visit_num v (IShiftBy a b c d) =
    vap (vap (vpure (\<lambda>b c. IShiftBy a b c d)) (vr_result v) b) (vr_input v) c"
| "visit_num v (IShiftImm16 a b c d) =
    vap (vap (vpure (\<lambda>b d. IShiftImm16 a b c d)) (vr_result v) b) (vr_input v) d"
| "visit_num v (IFbin a b c d) =
    vap (vap (vap (vpure (IFbin a)) (vr_result v) b) (vr_input v) c) (vr_input v) d"
| "visit_num v (ICopysignImm a b c d) =
    vap (vap (vpure (\<lambda>b c. ICopysignImm a b c d)) (vr_result v) b) (vr_input v) c"
| "visit_num v (IDivRem a b c d) =
    vap (vap (vap (vpure (IDivRem a)) (vr_result v) b) (vr_input v) c) (vr_input v) d"
| "visit_num v (IDivRemImm16Rhs a b c d) =
    vap (vap (vpure (\<lambda>b c. IDivRemImm16Rhs a b c d)) (vr_result v) b) (vr_input v) c"
| "visit_num v (IDivRemImm16Lhs a b c d) =
    vap (vap (vpure (\<lambda>b d. IDivRemImm16Lhs a b c d)) (vr_result v) b) (vr_input v) d"

primrec visit_table :: "'s visitor \<Rightarrow> table_instr \<Rightarrow> 's \<Rightarrow> table_instr \<times> 's" where
  "visit_table v (ITableGet a b) = vap (vap (vpure ITableGet) (vr_result v) a) (vr_input v) b"
| "visit_table v (ITableGetImm a b) = vap (vpure (\<lambda>a. ITableGetImm a b)) (vr_result v) a"
| "visit_table v (ITableSize a b) = vap (vpure (\<lambda>a. ITableSize a b)) (vr_result v) a"
| "visit_table v (ITableSet a b) = vap (vap (vpure ITableSet) (vr_input v) a) (vr_input v) b"
| "visit_table v (ITableSetAt a b) = vap (vpure (\<lambda>a. ITableSetAt a b)) (vr_input v) a"
| "visit_table v (ITableCopy a b c) =
    vap (vap (vap (vpure ITableCopy) (visit_operand v) a) (visit_operand v) b) (visit_operand v) c"
| "visit_table v (ITableInit a b c) =
    vap (vap (vap (vpure ITableInit) (visit_operand v) a) (visit_operand v) b) (visit_operand v) c"
| "visit_table v (ITableFill a b c) =
    vap (vap (vap (vpure ITableFill) (visit_operand v) a) (visit_operand v) b) (vr_input v) c"
| "visit_table v (ITableGrow a b c) =
    vap (vap (vap (vpure ITableGrow) (vr_result v) a) (visit_operand v) b) (vr_input v) c"
| "visit_table v (IElemDrop a) = vpure (IElemDrop a)"

primrec visit_memory :: "'s visitor \<Rightarrow> memory_instr \<Rightarrow> 's \<Rightarrow> memory_instr \<times> 's" where
  "visit_memory v (IDataDrop a) = vpure (IDataDrop a)"
| "visit_memory v (IMemorySize a b) = vap (vpure (\<lambda>a. IMemorySize a b)) (vr_result v) a"
| "visit_memory v (IMemoryGrow a b) = vap (vap (vpure IMemoryGrow) (vr_result v) a) (vr_input v) b"
| "visit_memory v (IMemoryGrowBy a b) = vap (vpure (\<lambda>a. IMemoryGrowBy a b)) (vr_result v) a"
| "visit_memory v (IMemoryCopy a b c) =
    vap (vap (vap (vpure IMemoryCopy) (visit_operand v) a) (visit_operand v) b) (visit_operand v) c"
| "visit_memory v (IMemoryFill a b c) =
    vap (vap (vap (vpure IMemoryFill) (visit_operand v) a) (visit_byte_operand v) b) (visit_operand v) c"
| "visit_memory v (IMemoryInit a b c) =
    vap (vap (vap (vpure IMemoryInit) (visit_operand v) a) (visit_operand v) b) (visit_operand v) c"

primrec visit_param :: "'s visitor \<Rightarrow> param_word \<Rightarrow> 's \<Rightarrow> param_word \<times> 's" where
  "visit_param v (ITableIndex a) = vpure (ITableIndex a)"
| "visit_param v (IMemoryIndex a) = vpure (IMemoryIndex a)"
| "visit_param v (IDataIndex a) = vpure (IDataIndex a)"
| "visit_param v (IElemIndex a) = vpure (IElemIndex a)"
| "visit_param v (IConst32 a) = vpure (IConst32 a)"
| "visit_param v (II64Const32 a) = vpure (II64Const32 a)"
| "visit_param v (IF64Const32 a) = vpure (IF64Const32 a)"
| "visit_param v (IBranchTableTarget a b) = vap (vpure (\<lambda>a. IBranchTableTarget a b)) (vr_inputs v) a"
| "visit_param v (IBranchTableTargetNonOverlapping a b) =
    vap (vpure (\<lambda>a. IBranchTableTargetNonOverlapping a b)) (vr_inputs v) a"
| "visit_param v (IImm16AndImm32 a b) = vpure (IImm16AndImm32 a b)"
| "visit_param v (IRegisterAndImm32 a b) = vap (vpure (\<lambda>a. IRegisterAndImm32 a b)) (vr_input v) a"
| "visit_param v (IRegisterSpan a) = vap (vpure IRegisterSpan) (visit_bounded v) a"
| "visit_param v (IRegister a) = vap (vpure IRegister) (vr_input v) a"
| "visit_param v (IRegister2 a b) = vap (vap (vpure IRegister2) (vr_input v) a) (vr_input v) b"
| "visit_param v (IRegister3 a b c) =
    vap (vap (vap (vpure IRegister3) (vr_input v) a) (vr_input v) b) (vr_input v) c"
| "visit_param v (IRegisterList a b c) =
    vap (vap (vap (vpure IRegisterList) (vr_input v) a) (vr_input v) b) (vr_input v) c"
| "visit_param v (ICallIndirectParams a b) = vap (vpure (\<lambda>a. ICallIndirectParams a b)) (vr_input v) a"
| "visit_param v (ICallIndirectParamsImm16 a b) = vpure (ICallIndirectParamsImm16 a b)"

primrec visit_regs :: "'s visitor \<Rightarrow> instruction \<Rightarrow> 's \<Rightarrow> instruction \<times> 's" where
  "visit_regs v (ITrap c) = vpure (ITrap c)"
| "visit_regs v (IConsumeFuel f) = vpure (IConsumeFuel f)"
| "visit_regs v (IRefFunc r f) = vap (vpure (\<lambda>r. IRefFunc r f)) (vr_result v) r"
| "visit_regs v (IRet i) = vap (vpure IRet) (visit_ret v) i"
| "visit_regs v (IBr i) = vap (vpure IBr) (visit_branch v) i"
| "visit_regs v (ICpy i) = vap (vpure ICpy) (visit_copy v) i"
| "visit_regs v (ICl i) = vap (vpure ICl) (visit_call v) i"
| "visit_regs v (ISel i) = vap (vpure ISel) (visit_select v) i"
| "visit_regs v (IGl i) = vap (vpure IGl) (visit_global v) i"
| "visit_regs v (ILd i) = vap (vpure ILd) (visit_load v) i"
| "visit_regs v (ISt i) = vap (vpure ISt) (visit_store v) i"
| "visit_regs v (INum i) = vap (vpure INum) (visit_num v) i"
| "visit_regs v (ITbl i) = vap (vpure ITbl) (visit_table v) i"
| "visit_regs v (IMem i) = vap (vpure IMem) (visit_memory v) i"
| "visit_regs v (IParam i) = vap (vpure IParam) (visit_param v) i"

text \<open>\<open>visit_input_registers\<close> visits the result of a copy first, and the inputs of every instruction.\<close>

definition input_visitor :: "(reg \<Rightarrow> 's \<Rightarrow> reg \<times> 's) \<Rightarrow> 's visitor" where
  "input_visitor f = \<lparr>vr_result = (\<lambda>r s. (r, s)), vr_results = (\<lambda>r s. (r, s)), vr_input = f, vr_inputs = f\<rparr>"

definition visit_copy_result :: "(reg \<Rightarrow> 's \<Rightarrow> reg \<times> 's) \<Rightarrow> instruction \<Rightarrow> 's \<Rightarrow> instruction \<times> 's" where
  "visit_copy_result f i s =
    (case i of
       ICpy (ICopy result x) \<Rightarrow> vmap (\<lambda>r. ICpy (ICopy r x)) (f result s)
     | ICpy (ICopy2 results x y) \<Rightarrow> vmap (\<lambda>r. ICpy (ICopy2 r x y)) (f results s)
     | ICpy (ICopySpan results x n) \<Rightarrow> vmap (\<lambda>r. ICpy (ICopySpan r x n)) (f results s)
     | ICpy (ICopySpanNonOverlapping results x n) \<Rightarrow> vmap (\<lambda>r. ICpy (ICopySpanNonOverlapping r x n)) (f results s)
     | ICpy (ICopyMany results x y) \<Rightarrow> vmap (\<lambda>r. ICpy (ICopyMany r x y)) (f results s)
     | ICpy (ICopyManyNonOverlapping results x y) \<Rightarrow> vmap (\<lambda>r. ICpy (ICopyManyNonOverlapping r x y)) (f results s)
     | _ \<Rightarrow> (i, s))"

definition visit_input_registers :: "(reg \<Rightarrow> 's \<Rightarrow> reg \<times> 's) \<Rightarrow> instruction \<Rightarrow> 's \<Rightarrow> instruction \<times> 's" where
  "visit_input_registers f i s = (case visit_copy_result f i s of (i, s) \<Rightarrow> visit_regs (input_visitor f) i s)"


section \<open>Relinking the result of an instruction\<close>

definition relink_simple :: "reg \<Rightarrow> reg \<Rightarrow> reg \<Rightarrow> reg \<times> bool" where
  "relink_simple result new_result old_result =
    (if result \<noteq> old_result then (result, False) else (new_result, True))"

text \<open>
  The state of the visitor is \<open>replaced\<close>; every visited result overwrites it. No instruction has
  more than one result register.
\<close>

definition relink_visitor :: "reg \<Rightarrow> reg \<Rightarrow> bool visitor" where
  "relink_visitor new_result old_result =
    \<lparr>vr_result = (\<lambda>r _. relink_simple r new_result old_result), vr_results = (\<lambda>r s. (r, s)),
     vr_input = (\<lambda>r s. (r, s)), vr_inputs = (\<lambda>r s. (r, s))\<rparr>"

definition relink_call ::
  "(nat \<Rightarrow> func_type) \<Rightarrow> (reg_span \<Rightarrow> call_instr) \<Rightarrow> reg_span \<Rightarrow> reg \<Rightarrow> reg \<Rightarrow> nat \<Rightarrow> instruction \<times> bool" where
  "relink_call types mk results new_result old_result func_type =
    (if func_type_len_results (types func_type) \<noteq> 1 then (ICl (mk results), False)
     else vmap (\<lambda>r. ICl (mk r)) (relink_simple results new_result old_result))"

definition relink_call_internal where
  "relink_call_internal types m mk results func new_result old_result =
    (case get_func_index m func of
       None \<Rightarrow> Inl TPanic
     | Some f \<Rightarrow> rmap (relink_call types mk results new_result old_result) (get_type_of_func m f))"

definition relink_call_imported where
  "relink_call_imported types m mk results func new_result old_result =
    rmap (relink_call types mk results new_result old_result) (get_type_of_func m func)"

definition relink_call_indirect where
  "relink_call_indirect types m mk results func_type new_result old_result =
    rmap (relink_call types mk results new_result old_result) (get_func_type m func_type)"

definition relink_result ::
  "(nat \<Rightarrow> func_type) \<Rightarrow> module_header \<Rightarrow> reg \<Rightarrow> reg \<Rightarrow> instruction \<Rightarrow> tr_error + (instruction \<times> bool)" where
  "relink_result types m new_result old_result i =
    (case i of
       ICl (ICallInternal0 results f) \<Rightarrow> relink_call_internal types m (\<lambda>r. ICallInternal0 r f) results f new_result old_result
     | ICl (ICallInternal results f) \<Rightarrow> relink_call_internal types m (\<lambda>r. ICallInternal r f) results f new_result old_result
     | ICl (ICallImported0 results f) \<Rightarrow> relink_call_imported types m (\<lambda>r. ICallImported0 r f) results f new_result old_result
     | ICl (ICallImported results f) \<Rightarrow> relink_call_imported types m (\<lambda>r. ICallImported r f) results f new_result old_result
     | ICl (ICallIndirect0 results t) \<Rightarrow> relink_call_indirect types m (\<lambda>r. ICallIndirect0 r t) results t new_result old_result
     | ICl (ICallIndirect0Imm16 results t) \<Rightarrow>
         relink_call_indirect types m (\<lambda>r. ICallIndirect0Imm16 r t) results t new_result old_result
     | ICl (ICallIndirect results t) \<Rightarrow> relink_call_indirect types m (\<lambda>r. ICallIndirect r t) results t new_result old_result
     | ICl (ICallIndirectImm16 results t) \<Rightarrow>
         relink_call_indirect types m (\<lambda>r. ICallIndirectImm16 r t) results t new_result old_result
     | _ \<Rightarrow> Inr (visit_regs (relink_visitor new_result old_result) i False))"

end
