(* ===== verification/Tr_Encoder.thy ===== *)
theory Tr_Encoder
  imports Tr_Instr
begin

text \<open>
  The instruction encoder of the translator, \<open>instr_encoder.rs\<close>: the sequence of instruction words
  under construction, its labels, the last instruction as the candidate for fusion, and the
  operations that merge copies, encode copies, returns and branches, set locals and finally
  resolve labels and defragment registers.

  Operations that change the emulated stack and the encoder are state transformers with errors,
  in the state \<open>codegen\<close> that the translator of functions extends. \<open>tr_env\<close> holds what is not
  under construction: the header of the module, the types of the engine, and the parameters for
  the stash of preserved registers and the NaNs of conversions.
\<close>


section \<open>State and errors\<close>

type_synonym ('s, 'a) tr = "'s \<Rightarrow> tr_error + ('a \<times> 's)"

definition tret :: "'a \<Rightarrow> ('s, 'a) tr" where "tret x s = Inr (x, s)"
definition tfail :: "tr_error \<Rightarrow> ('s, 'a) tr" where "tfail e s = Inl e"
definition tbind :: "('s, 'a) tr \<Rightarrow> ('a \<Rightarrow> ('s, 'b) tr) \<Rightarrow> ('s, 'b) tr" where
  "tbind m f s = rbind (m s) (\<lambda>(x, s'). f x s')"
definition tseq :: "('s, 'a) tr \<Rightarrow> ('s, 'b) tr \<Rightarrow> ('s, 'b) tr" where "tseq m k = tbind m (\<lambda>_. k)"
definition tget :: "('s \<Rightarrow> 'a) \<Rightarrow> ('s, 'a) tr" where "tget f s = Inr (f s, s)"
definition tlift :: "tr_error + 'a \<Rightarrow> ('s, 'a) tr" where "tlift r s = rmap (\<lambda>x. (x, s)) r"
definition tmodify :: "('s \<Rightarrow> 's) \<Rightarrow> ('s, unit) tr" where "tmodify f s = Inr ((), f s)"

lemmas tr_defs [tr_simps] = tret_def tfail_def tbind_def tseq_def tget_def tlift_def tmodify_def

record 'm tr_env =
  te_stash :: "'m stash_ops"
  te_nan :: nan_env
  te_types :: "nat \<Rightarrow> func_type"
  te_module :: module_header

datatype fuel_info = FuelNone | FuelSome fuel_costs instr_ref

record instr_encoder =
  ie_instrs :: "instr_word list"
  ie_labels :: label_registry
  ie_last_instr :: "instr_ref option"
  ie_notified_preservation :: "instr_ref option"

record 'm codegen =
  cg_stack :: "'m tr_stack"
  cg_enc :: instr_encoder

type_synonym ('m, 'z, 'a) cg = "(('m, 'z) codegen_scheme, 'a) tr"

definition on_stack :: "('m tr_stack \<Rightarrow> tr_error + ('a \<times> 'm tr_stack)) \<Rightarrow> ('m, 'z, 'a) cg" where
  "on_stack f s = rmap (\<lambda>(x, st). (x, s\<lparr>cg_stack := st\<rparr>)) (f (cg_stack s))"

definition upd_stack :: "('m tr_stack \<Rightarrow> tr_error + 'm tr_stack) \<Rightarrow> ('m, 'z, unit) cg" where
  "upd_stack f s = rmap (\<lambda>st. ((), s\<lparr>cg_stack := st\<rparr>)) (f (cg_stack s))"

definition on_enc :: "(instr_encoder \<Rightarrow> tr_error + ('a \<times> instr_encoder)) \<Rightarrow> ('m, 'z, 'a) cg" where
  "on_enc f s = rmap (\<lambda>(x, e). (x, s\<lparr>cg_enc := e\<rparr>)) (f (cg_enc s))"

definition upd_enc :: "(instr_encoder \<Rightarrow> tr_error + instr_encoder) \<Rightarrow> ('m, 'z, unit) cg" where
  "upd_enc f s = rmap (\<lambda>e. ((), s\<lparr>cg_enc := e\<rparr>)) (f (cg_enc s))"

lemmas cg_defs [tr_simps] = on_stack_def upd_stack_def on_enc_def upd_enc_def


section \<open>The instruction sequence\<close>

definition iw :: "u32 \<Rightarrow> instruction \<Rightarrow> instr_word" where
  "iw offset i = \<lparr>iw_offset = offset, iw_instr = i\<rparr>"

definition seq_next_instr :: "instr_word list \<Rightarrow> tr_error + instr_ref" where
  "seq_next_instr ws = (if length ws < 2 ^ 32 then Inr (length ws) else Inl TPanic)"

definition seq_push :: "instr_word \<Rightarrow> instr_word list \<Rightarrow> tr_error + (instr_ref \<times> instr_word list)" where
  "seq_push w ws = rmap (\<lambda>i. (i, ws @ [w])) (seq_next_instr ws)"

definition seq_push_before :: "instr_ref \<Rightarrow> instr_word \<Rightarrow> instr_word list \<Rightarrow> tr_error + (instr_ref \<times> instr_word list)" where
  "seq_push_before i w ws =
    (if length ws < i \<or> 2 ^ 32 \<le> i + 1 then Inl TPanic else Inr (i + 1, take i ws @ w # drop i ws))"

definition seq_get :: "instr_ref \<Rightarrow> instr_word list \<Rightarrow> tr_error + instr_word" where
  "seq_get i ws = ok_or TPanic (get_at ws i)"

definition seq_update ::
  "instr_ref \<Rightarrow> (instr_word \<Rightarrow> tr_error + (instr_word \<times> 'a)) \<Rightarrow> instr_word list \<Rightarrow> tr_error + ('a \<times> instr_word list)" where
  "seq_update i f ws = rbind (seq_get i ws) (\<lambda>w. rmap (\<lambda>(w', x). (x, ws[i := w'])) (f w))"

definition instr_distance :: "instr_ref \<Rightarrow> instr_ref \<Rightarrow> nat" where
  "instr_distance a b = (a - b) + (b - a)"


section \<open>The encoder\<close>

definition enc_reset :: "instr_encoder \<Rightarrow> instr_encoder" where
  "enc_reset e = e\<lparr>ie_instrs := [], ie_labels := labels_reset (ie_labels e), ie_last_instr := None,
     ie_notified_preservation := None\<rparr>"

definition reset_last_instr :: "('m, 'z, unit) cg" where
  "reset_last_instr = upd_enc (\<lambda>e. Inr (e\<lparr>ie_last_instr := None\<rparr>))"

definition enc_new_label :: "('m, 'z, label_ref) cg" where
  "enc_new_label = on_enc (\<lambda>e. rmap (\<lambda>(l, lb). (l, e\<lparr>ie_labels := lb\<rparr>)) (new_label (ie_labels e)))"

definition enc_next_instr :: "('m, 'z, instr_ref) cg" where
  "enc_next_instr = on_enc (\<lambda>e. rmap (\<lambda>i. (i, e)) (seq_next_instr (ie_instrs e)))"

definition pin_label_if_unpinned :: "label_ref \<Rightarrow> ('m, 'z, unit) cg" where
  "pin_label_if_unpinned l = upd_enc (\<lambda>e.
    rbind (seq_next_instr (ie_instrs e)) (\<lambda>i. rmap (\<lambda>lb. e\<lparr>ie_labels := lb\<rparr>) (try_pin_label l i (ie_labels e))))"

definition enc_pin_label :: "label_ref \<Rightarrow> ('m, 'z, unit) cg" where
  "enc_pin_label l = upd_enc (\<lambda>e.
    rbind (seq_next_instr (ie_instrs e)) (\<lambda>i.
    rbind (pin_label l i (ie_labels e)) (\<lambda>r.
    case r of Inl _ \<Rightarrow> Inl TPanic | Inr lb \<Rightarrow> Inr (e\<lparr>ie_labels := lb\<rparr>))))"

definition try_resolve_label_for :: "label_ref \<Rightarrow> instr_ref \<Rightarrow> ('m, 'z, branch_offset) cg" where
  "try_resolve_label_for l i = on_enc (\<lambda>e.
    rmap (\<lambda>(offset, lb). (offset, e\<lparr>ie_labels := lb\<rparr>)) (try_resolve_label l i (ie_labels e)))"

definition enc_try_resolve_label :: "label_ref \<Rightarrow> ('m, 'z, branch_offset) cg" where
  "enc_try_resolve_label l = tbind enc_next_instr (try_resolve_label_for l)"

definition append_instr :: "u32 \<Rightarrow> instruction \<Rightarrow> ('m, 'z, instr_ref) cg" where
  "append_instr offset i = on_enc (\<lambda>e.
    rmap (\<lambda>(r, ws). (r, e\<lparr>ie_instrs := ws\<rparr>)) (seq_push (iw offset i) (ie_instrs e)))"

definition push_instr :: "u32 \<Rightarrow> instruction \<Rightarrow> ('m, 'z, instr_ref) cg" where
  "push_instr offset i =
    tbind (append_instr offset i) (\<lambda>r.
    tseq (upd_enc (\<lambda>e. Inr (e\<lparr>ie_last_instr := Some r\<rparr>))) (tret r))"

definition update_instr :: "instr_ref \<Rightarrow> (instr_word \<Rightarrow> tr_error + (instr_word \<times> 'a)) \<Rightarrow> ('m, 'z, 'a) cg" where
  "update_instr i f = on_enc (\<lambda>e. rmap (\<lambda>(x, ws). (x, e\<lparr>ie_instrs := ws\<rparr>)) (seq_update i f (ie_instrs e)))"

definition get_instr :: "instr_ref \<Rightarrow> ('m, 'z, instr_word) cg" where
  "get_instr i = on_enc (\<lambda>e. rmap (\<lambda>w. (w, e)) (seq_get i (ie_instrs e)))"

definition set_instr :: "instr_ref \<Rightarrow> instr_word \<Rightarrow> ('m, 'z, unit) cg" where
  "set_instr i w = update_instr i (\<lambda>_. Inr (w, ()))"

text \<open>Fuel is added to the \<open>ConsumeFuel\<close> instruction of the block; any other instruction panics.\<close>

definition instr_bump_fuel :: "u64 \<Rightarrow> instr_word \<Rightarrow> tr_error + (instr_word \<times> unit)" where
  "instr_bump_fuel delta w =
    (case iw_instr w of
       IConsumeFuel f \<Rightarrow> tr_of_ir (rmap (\<lambda>f'. (w\<lparr>iw_instr := IConsumeFuel f'\<rparr>, ())) (block_fuel_bump_by f delta))
     | _ \<Rightarrow> Inl TPanic)"

definition bump_fuel_consumption :: "fuel_info \<Rightarrow> (fuel_costs \<Rightarrow> u64) \<Rightarrow> ('m, 'z, unit) cg" where
  "bump_fuel_consumption fi f =
    (case fi of FuelNone \<Rightarrow> tret () | FuelSome costs i \<Rightarrow> update_instr i (instr_bump_fuel (f costs)))"

definition push_fueled_instr :: "u32 \<Rightarrow> instruction \<Rightarrow> fuel_info \<Rightarrow> (fuel_costs \<Rightarrow> u64) \<Rightarrow> ('m, 'z, instr_ref) cg" where
  "push_fueled_instr offset i fi f = tseq (bump_fuel_consumption fi f) (push_instr offset i)"


section \<open>Copies\<close>

text \<open>A constant that a narrower float represents exactly (\<open>ir/src/immeditate.rs\<close>).\<close>

definition const32_of_f64 :: "nan_env \<Rightarrow> u64 \<Rightarrow> u32 option" where
  "const32_of_f64 env v =
    (let truncated = to_i32 (f32_demote_f64 env v)
     in if v \<noteq> float_promote env truncated then None else Some truncated)"

definition copy2_ext :: "reg_span \<Rightarrow> reg \<Rightarrow> reg \<Rightarrow> tr_error + instruction" where
  "copy2_ext results value0 value1 =
    rmap (\<lambda>_. ICpy (ICopy2 results value0 value1)) (ok_or TPanic (fixed_new 2 results))"

text \<open>\<open>merge_copy_instrs\<close>: what the merged instruction is, when the last one is \<open>last_word\<close>.\<close>

definition merged_copy :: "reg \<Rightarrow> reg \<Rightarrow> instr_word \<Rightarrow> (tr_error + instr_word) option" where
  "merged_copy result v last_word =
    (case iw_instr last_word of
       ICpy (ICopy last_result last_value) \<Rightarrow>
         if \<not> (result = reg_next last_result \<or> result = reg_prev last_result) then None
         else let v = (if v = last_result then last_value else v);
                  (merged_result, value0, value1) =
                    (if sint last_result < sint result then (last_result, last_value, v) else (result, v, last_value))
              in Some (rmap (iw (iw_offset last_word)) (copy2_ext merged_result value0 value1))
     | _ \<Rightarrow> None)"

definition merge_copy_instrs :: "reg \<Rightarrow> typed_provider \<Rightarrow> ('m, 'z, instr_ref option) cg" where
  "merge_copy_instrs result p =
    (case p of
       ProvConst _ \<Rightarrow> tret None
     | ProvReg v \<Rightarrow>
         tbind (tget (\<lambda>s. ie_last_instr (cg_enc s))) (\<lambda>last_instr.
         case last_instr of
           None \<Rightarrow> tret None
         | Some last_instr \<Rightarrow>
             tbind (get_instr last_instr) (\<lambda>w.
             case merged_copy result v w of
               None \<Rightarrow> tret None
             | Some r \<Rightarrow> tbind (tlift r) (\<lambda>merged. tseq (set_instr last_instr merged) (tret (Some last_instr))))))"

definition copy_const :: "nan_env \<Rightarrow> reg \<Rightarrow> typed_val \<Rightarrow> ('m, 'z, instruction) cg" where
  "copy_const env result v =
    (let copy_imm = tbind (on_stack (ts_alloc_const (tv_value v))) (\<lambda>cref. tret (ICpy (ICopy result cref)))
     in case tv_ty v of
          I32 \<Rightarrow> tret (ICpy (ICopyImm result (AnyImm32 (to_i32 (tv_value v)))))
        | F32 \<Rightarrow> tret (ICpy (ICopyImm result (AnyImm32 (to_i32 (tv_value v)))))
        | I64 \<Rightarrow> (case const32_of_i64 (to_i64 (tv_value v)) of
                   Some c \<Rightarrow> tret (ICpy (ICopyImm result (I64Imm32 c))) | None \<Rightarrow> copy_imm)
        | F64 \<Rightarrow> (case const32_of_f64 env (to_i64 (tv_value v)) of
                   Some c \<Rightarrow> tret (ICpy (ICopyImm result (F64Imm32 c))) | None \<Rightarrow> copy_imm)
        | FuncRef \<Rightarrow> copy_imm
        | ExternRef \<Rightarrow> copy_imm)"

definition push_based :: "u32 \<Rightarrow> fuel_info \<Rightarrow> instruction \<Rightarrow> ('m, 'z, instr_ref option) cg" where
  "push_based offset fi i =
    tseq (bump_fuel_consumption fi fc_base) (tbind (push_instr offset i) (\<lambda>r. tret (Some r)))"

definition encode_copy ::
  "nan_env \<Rightarrow> u32 \<Rightarrow> reg \<Rightarrow> typed_provider \<Rightarrow> fuel_info \<Rightarrow> ('m, 'z, instr_ref option) cg" where
  "encode_copy env offset result p fi =
    tbind (merge_copy_instrs result p) (\<lambda>merged.
    case merged of
      Some i \<Rightarrow> tret (Some i)
    | None \<Rightarrow>
        (case p of
           ProvReg v \<Rightarrow> if result = v then tret None else push_based offset fi (ICpy (ICopy result v))
         | ProvConst v \<Rightarrow> tbind (copy_const env result v) (push_based offset fi)))"

definition provider2reg :: "typed_provider \<Rightarrow> ('m, 'z, reg) cg" where
  "provider2reg p = on_stack (ts_provider2reg p)"

fun encode_register_list :: "u32 \<Rightarrow> typed_provider list \<Rightarrow> ('m, 'z, unit) cg" where
  "encode_register_list offset [] = tret ()"
| "encode_register_list offset [v0] =
    tbind (provider2reg v0) (\<lambda>r0. tseq (append_instr offset (IParam (IRegister r0))) (tret ()))"
| "encode_register_list offset [v0, v1] =
    tbind (provider2reg v0) (\<lambda>r0. tbind (provider2reg v1) (\<lambda>r1.
    tseq (append_instr offset (IParam (IRegister2 r0 r1))) (tret ())))"
| "encode_register_list offset [v0, v1, v2] =
    tbind (provider2reg v0) (\<lambda>r0. tbind (provider2reg v1) (\<lambda>r1. tbind (provider2reg v2) (\<lambda>r2.
    tseq (append_instr offset (IParam (IRegister3 r0 r1 r2))) (tret ()))))"
| "encode_register_list offset (v0 # v1 # v2 # v3 # rest) =
    tbind (provider2reg v0) (\<lambda>r0. tbind (provider2reg v1) (\<lambda>r1. tbind (provider2reg v2) (\<lambda>r2.
    tseq (append_instr offset (IParam (IRegisterList r0 r1 r2))) (encode_register_list offset (v3 # rest)))))"

definition providers_overlap :: "bounded_reg_span \<Rightarrow> typed_provider list \<Rightarrow> tr_error + bool" where
  "providers_overlap results vals =
    (if brs_len results = 0 then Inr False
     else rmap (\<lambda>it. list_ex (\<lambda>(result, p). case p of
            ProvReg v \<Rightarrow> sint (brs_span results) \<le> sint v \<and> sint v < sint result
          | ProvConst _ \<Rightarrow> False) (zip (iter_regs it) vals))
       (ok_or TPanic (iter_new_u16 (brs_span results) (brs_len results))))"

text \<open>The values of three and more copies, after the first one that is in its place already.\<close>

definition encode_copies_many ::
  "u32 \<Rightarrow> bounded_reg_span \<Rightarrow> typed_provider \<Rightarrow> typed_provider \<Rightarrow> typed_provider list \<Rightarrow> fuel_info \<Rightarrow>
    ('m, 'z, instr_ref option) cg" where
  "encode_copies_many offset results v0 v1 rest fi =
    (let span = brs_span results; vals = v0 # v1 # rest
     in tseq (bump_fuel_consumption fi fc_base)
       (tseq (bump_fuel_consumption fi (fuel_for_copies (of_nat (length rest) + 3)))
       (case span_from_providers vals of
          Some vs \<Rightarrow>
            tbind (tlift (ok_or TPanic (has_overlapping_copies span (brs_span vs) (brs_len vs)))) (\<lambda>overlap.
            tbind (push_instr offset (ICpy
                (if overlap then ICopySpan span (brs_span vs) (brs_len vs)
                 else ICopySpanNonOverlapping span (brs_span vs) (brs_len vs)))) (\<lambda>i. tret (Some i)))
        | None \<Rightarrow>
            tbind (tlift (providers_overlap results vals)) (\<lambda>overlap.
            tbind (provider2reg v0) (\<lambda>r0.
            tbind (provider2reg v1) (\<lambda>r1.
            tbind (push_instr offset (ICpy
                (if overlap then ICopyMany span r0 r1 else ICopyManyNonOverlapping span r0 r1))) (\<lambda>i.
            tseq (encode_register_list offset rest) (tret (Some i)))))))))"

fun encode_copies ::
  "nan_env \<Rightarrow> u32 \<Rightarrow> bounded_reg_span \<Rightarrow> typed_provider list \<Rightarrow> fuel_info \<Rightarrow> ('m, 'z, instr_ref option) cg" where
  "encode_copies env offset results vals fi =
    (let result = brs_span results
     in if unat (brs_len results) \<noteq> length vals then tfail TPanic
        else case vals of
          [] \<Rightarrow> tret None
        | v0 # rest \<Rightarrow>
            if v0 = ProvReg result then
              encode_copies env offset \<lparr>brs_span = reg_next result, brs_len = brs_len results - 1\<rparr> rest fi
            else (case rest of
                [] \<Rightarrow> encode_copy env offset result v0 fi
              | [v1] \<Rightarrow>
                  if v1 = ProvReg (reg_next result) then encode_copy env offset result v0 fi
                  else tbind (provider2reg v0) (\<lambda>r0.
                       tbind (provider2reg v1) (\<lambda>r1.
                       tseq (bump_fuel_consumption fi fc_base)
                       (tbind (tlift (copy2_ext result r0 r1)) (\<lambda>i.
                        tbind (push_instr offset i) (\<lambda>r. tret (Some r))))))
              | v1 # v2 # rest' \<Rightarrow> encode_copies_many offset results v0 v1 (v2 # rest') fi))"

declare encode_copies.simps [simp del]

end
