(* ===== verification/Tr_Fusion.thy ===== *)
theory Tr_Fusion
  imports Tr_Encoder
begin

text \<open>
  The second part of \<open>instr_encoder.rs\<close>: returns, the assignment of locals, defragmentation, and the
  fusion of instructions: \<open>i32.eqz\<close> into a bitwise operation, a comparison into the conditional
  branch that follows it. A fused branch with a target that is not known yet gets its offset
  in \<open>update_branch_offset\<close>, which falls back to a longer encoding when 16 bits do not suffice.
\<close>


section \<open>Returns\<close>

text \<open>
  The single value of a return: a register, or a constant in the widest encoding that fits. The
  return without values has the code offset zero.
\<close>

definition return_const :: "nan_env \<Rightarrow> (reg \<Rightarrow> return_instr) \<Rightarrow> (imm32 \<Rightarrow> return_instr) \<Rightarrow> typed_val \<Rightarrow> ('m, 'z, return_instr) cg" where
  "return_const env mk_reg mk_imm v =
    (let in_reg = tbind (on_stack (ts_alloc_const (tv_value v))) (\<lambda>r. tret (mk_reg r))
     in case tv_ty v of
          I32 \<Rightarrow> tret (mk_imm (AnyImm32 (to_i32 (tv_value v))))
        | I64 \<Rightarrow> (case const32_of_i64 (to_i64 (tv_value v)) of
                   Some c \<Rightarrow> tret (mk_imm (I64Imm32 c)) | None \<Rightarrow> in_reg)
        | F32 \<Rightarrow> tret (mk_imm (AnyImm32 (to_i32 (tv_value v))))
        | F64 \<Rightarrow> (case const32_of_f64 env (to_i64 (tv_value v)) of
                   Some c \<Rightarrow> tret (mk_imm (F64Imm32 c)) | None \<Rightarrow> in_reg)
        | FuncRef \<Rightarrow> in_reg
        | ExternRef \<Rightarrow> in_reg)"

definition push_return :: "u32 \<Rightarrow> fuel_info \<Rightarrow> return_instr \<Rightarrow> ('m, 'z, unit) cg" where
  "push_return offset fi i =
    tseq (bump_fuel_consumption fi fc_base) (tseq (push_instr offset (IRet i)) (tret ()))"

definition bump_for_values :: "fuel_info \<Rightarrow> nat \<Rightarrow> ('m, 'z, unit) cg" where
  "bump_for_values fi n =
    tseq (bump_fuel_consumption fi fc_base) (bump_fuel_consumption fi (fuel_for_copies (of_nat n + 3)))"

definition encode_return :: "nan_env \<Rightarrow> u32 \<Rightarrow> typed_provider list \<Rightarrow> fuel_info \<Rightarrow> ('m, 'z, unit) cg" where
  "encode_return env offset vals fi =
    (case vals of
       [] \<Rightarrow> push_return 0 fi IReturn
     | [ProvReg r] \<Rightarrow> push_return offset fi (IReturnReg r)
     | [ProvConst v] \<Rightarrow> tbind (return_const env IReturnReg IReturnImm v) (push_return offset fi)
     | [v0, v1] \<Rightarrow>
         tbind (provider2reg v0) (\<lambda>r0. tbind (provider2reg v1) (\<lambda>r1.
         push_return offset fi (IReturnReg2 r0 r1)))
     | [v0, v1, v2] \<Rightarrow>
         tbind (provider2reg v0) (\<lambda>r0. tbind (provider2reg v1) (\<lambda>r1. tbind (provider2reg v2) (\<lambda>r2.
         push_return offset fi (IReturnReg3 r0 r1 r2))))
     | v0 # v1 # v2 # rest \<Rightarrow>
         tseq (bump_for_values fi (length rest))
         (case span_from_providers vals of
            Some span \<Rightarrow> tseq (push_instr offset (IRet (IReturnSpan span))) (tret ())
          | None \<Rightarrow>
              tbind (provider2reg v0) (\<lambda>r0. tbind (provider2reg v1) (\<lambda>r1. tbind (provider2reg v2) (\<lambda>r2.
              tseq (push_instr offset (IRet (IReturnMany r0 r1 r2)))
              (encode_register_list offset rest))))))"

definition encode_return_nez :: "nan_env \<Rightarrow> u32 \<Rightarrow> reg \<Rightarrow> typed_provider list \<Rightarrow> fuel_info \<Rightarrow> ('m, 'z, unit) cg" where
  "encode_return_nez env offset condition vals fi =
    (case vals of
       [] \<Rightarrow> push_return offset fi (IReturnNez condition)
     | [ProvReg r] \<Rightarrow> push_return offset fi (IReturnNezReg condition r)
     | [ProvConst v] \<Rightarrow>
         tbind (return_const env (IReturnNezReg condition) (IReturnNezImm condition) v) (push_return offset fi)
     | [v0, v1] \<Rightarrow>
         tbind (provider2reg v0) (\<lambda>r0. tbind (provider2reg v1) (\<lambda>r1.
         push_return offset fi (IReturnNezReg2 condition r0 r1)))
     | v0 # v1 # rest \<Rightarrow>
         tseq (bump_for_values fi (length rest))
         (case span_from_providers vals of
            Some span \<Rightarrow> tseq (push_instr offset (IRet (IReturnNezSpan condition span))) (tret ())
          | None \<Rightarrow>
              tbind (provider2reg v0) (\<lambda>r0. tbind (provider2reg v1) (\<lambda>r1.
              tseq (push_instr offset (IRet (IReturnNezMany condition r0 r1)))
              (encode_register_list offset rest)))))"


section \<open>Locals\<close>

definition notify_preserved_register :: "instr_ref \<Rightarrow> ('m, 'z, unit) cg" where
  "notify_preserved_register i = upd_enc (\<lambda>e. rmap (\<lambda>_.
    if ie_notified_preservation e = None then e\<lparr>ie_notified_preservation := Some i\<rparr> else e) (seq_get i (ie_instrs e)))"

definition local_set_fallback ::
  "nan_env \<Rightarrow> u32 \<Rightarrow> reg \<Rightarrow> typed_provider \<Rightarrow> reg option \<Rightarrow> fuel_info \<Rightarrow> ('m, 'z, unit) cg" where
  "local_set_fallback env offset l p preserved fi =
    tseq
      (case preserved of
         None \<Rightarrow> tret ()
       | Some r \<Rightarrow>
           tseq (bump_fuel_consumption fi fc_base)
           (tbind (push_instr offset (ICpy (ICopy r l))) notify_preserved_register))
      (tseq (encode_copy env offset l p fi) (tret ()))"

text \<open>Whether an instruction uses a register as an input, or as the result of a copy.\<close>

definition uses_register :: "reg \<Rightarrow> instruction \<Rightarrow> bool" where
  "uses_register r i = snd (visit_input_registers (\<lambda>q s. (q, s \<or> q = r)) i False)"

definition encode_local_set ::
  "('m, 'e) tr_env_scheme \<Rightarrow> u32 \<Rightarrow> reg \<Rightarrow> typed_provider \<Rightarrow> reg option \<Rightarrow> fuel_info \<Rightarrow> ('m, 'z, unit) cg" where
  "encode_local_set te offset l p preserved fi =
    (let fallback = local_set_fallback (te_nan te) offset l p preserved fi
     in case p of
       ProvConst _ \<Rightarrow> fallback
     | ProvReg returned \<Rightarrow>
         tbind (tget (\<lambda>s. (ts_get_register_space (cg_stack s) returned, cg_enc s))) (\<lambda>(space, e).
         if space = SpaceLocal \<or> space = SpacePreserve then fallback
         else case ie_last_instr e of
           None \<Rightarrow> fallback
         | Some last_instr \<Rightarrow>
             tbind enc_next_instr (\<lambda>next_instr.
             if preserved \<noteq> None \<and> 4 \<le> instr_distance last_instr next_instr then fallback
             else if (case preserved of
                   None \<Rightarrow> False
                 | Some r \<Rightarrow> list_ex (\<lambda>w. uses_register r (iw_instr w)) (drop last_instr (ie_instrs e)))
               then fallback
             else
               tbind (update_instr last_instr (\<lambda>w.
                   rmap (\<lambda>(i, replaced). (w\<lparr>iw_instr := i\<rparr>, replaced))
                     (relink_result (te_types te) (te_module te) l returned (iw_instr w)))) (\<lambda>replaced.
               if \<not> replaced then fallback
               else case preserved of
                 None \<Rightarrow> tret ()
               | Some r \<Rightarrow>
                   tseq (bump_fuel_consumption fi fc_base)
                   (tbind (on_enc (\<lambda>e. rmap (\<lambda>(i, ws). (i, e\<lparr>ie_instrs := ws\<rparr>))
                       (seq_push_before last_instr (iw offset (ICpy (ICopy r l))) (ie_instrs e)))) (\<lambda>shifted.
                    tseq (notify_preserved_register last_instr)
                    (upd_enc (\<lambda>e. Inr (e\<lparr>ie_last_instr := Some shifted\<rparr>)))))))))"

definition defrag_instr :: "('m tr_stack) \<Rightarrow> instr_word \<Rightarrow> tr_error + instr_word" where
  "defrag_instr st w =
    (case visit_input_registers (\<lambda>r s. (case ts_defrag_register st r of Inr q \<Rightarrow> (q, s) | Inl e \<Rightarrow> (r, Some e))) (iw_instr w) None of
       (i, None) \<Rightarrow> Inr (w\<lparr>iw_instr := i\<rparr>)
     | (_, Some e) \<Rightarrow> Inl e)"

primrec tr_map :: "('a \<Rightarrow> 'e + 'b) \<Rightarrow> 'a list \<Rightarrow> 'e + 'b list" where
  "tr_map f [] = Inr []"
| "tr_map f (x # xs) = rbind (f x) (\<lambda>y. rmap (Cons y) (tr_map f xs))"

definition defrag_registers :: "('m, 'z, unit) cg" where
  "defrag_registers =
    tseq (upd_stack ts_finalize_alloc)
    (tbind (tget cg_stack) (\<lambda>st. upd_enc (\<lambda>e.
      case ie_notified_preservation e of
        None \<Rightarrow> Inr e
      | Some notified \<Rightarrow>
          rmap (\<lambda>ws. e\<lparr>ie_instrs := take notified (ie_instrs e) @ ws\<rparr>)
            (if length (ie_instrs e) < notified then Inl TPanic
             else tr_map (defrag_instr st) (drop notified (ie_instrs e))))))"


section \<open>Fusion of i32.eqz\<close>

definition eqz_op :: "comm_op \<Rightarrow> comm_op option" where
  "eqz_op op = (case op of I32And \<Rightarrow> Some I32AndEqz | I32Or \<Rightarrow> Some I32OrEqz | I32Xor \<Rightarrow> Some I32XorEqz | _ \<Rightarrow> None)"

definition fused_eqz :: "('m tr_stack) \<Rightarrow> reg \<Rightarrow> instruction \<Rightarrow> instruction option" where
  "fused_eqz st input i =
    (case i of
       INum (IComm op result lhs rhs) \<Rightarrow>
         if ts_get_register_space st result = SpaceLocal \<or> result \<noteq> input then None
         else map_option (\<lambda>op'. INum (IComm op' result lhs rhs)) (eqz_op op)
     | INum (ICommImm16 op result lhs rhs) \<Rightarrow>
         if ts_get_register_space st result = SpaceLocal \<or> result \<noteq> input then None
         else map_option (\<lambda>op'. INum (ICommImm16 op' result lhs rhs)) (eqz_op op)
     | _ \<Rightarrow> None)"

definition fuse_i32_eqz :: "('m, 'z, bool) cg" where
  "fuse_i32_eqz =
    tbind (tget cg_stack) (\<lambda>st.
    tbind (tlift (ts_peek st)) (\<lambda>p.
    case p of
      ProvConst _ \<Rightarrow> tret False
    | ProvReg input \<Rightarrow>
        tbind (tget (\<lambda>s. ie_last_instr (cg_enc s))) (\<lambda>last_instr.
        case last_instr of
          None \<Rightarrow> tret False
        | Some last_instr \<Rightarrow>
            tbind (get_instr last_instr) (\<lambda>w.
            case fused_eqz st input (iw_instr w) of
              None \<Rightarrow> tret False
            | Some i \<Rightarrow> tseq (set_instr last_instr (w\<lparr>iw_instr := i\<rparr>)) (tret True)))))"


section \<open>Compare and branch\<close>

definition branch_cmp_fallback :: "comparator \<Rightarrow> reg \<Rightarrow> reg \<Rightarrow> branch_offset \<Rightarrow> ('m, 'z, instruction) cg" where
  "branch_cmp_fallback cmp lhs rhs offset =
    tbind (on_stack (ts_alloc_const (co_as_u64 \<lparr>co_cmp = cmp, co_offset = offset\<rparr>))) (\<lambda>params.
    tret (IBr (IBranchCmpFallback lhs rhs params)))"

definition try_fuse_branch_cmp ::
  "instr_ref \<Rightarrow> reg \<Rightarrow> reg \<Rightarrow> reg \<Rightarrow> reg \<Rightarrow> label_ref \<Rightarrow> comparator \<Rightarrow> ('m, 'z, instruction option) cg" where
  "try_fuse_branch_cmp last_instr condition result lhs rhs l cmp =
    tbind (tget (\<lambda>s. ts_get_register_space (cg_stack s) result)) (\<lambda>space.
    if space = SpaceLocal \<or> result \<noteq> condition then tret None
    else tbind (try_resolve_label_for l last_instr) (\<lambda>offset.
      tbind (case branch_offset16_try_from offset of
               Inr offset16 \<Rightarrow> tret (branch_cmp_instr cmp lhs rhs offset16)
             | Inl _ \<Rightarrow> branch_cmp_fallback cmp lhs rhs offset) (\<lambda>i. tret (Some i))))"

definition try_fuse_branch_cmp_imm ::
  "int_ty \<Rightarrow> instr_ref \<Rightarrow> reg \<Rightarrow> reg \<Rightarrow> reg \<Rightarrow> u16 \<Rightarrow> label_ref \<Rightarrow> comparator \<Rightarrow> ('m, 'z, instruction option) cg" where
  "try_fuse_branch_cmp_imm ty last_instr condition result lhs rhs l cmp =
    tbind (tget (\<lambda>s. ts_get_register_space (cg_stack s) result)) (\<lambda>space.
    if space = SpaceLocal \<or> result \<noteq> condition then tret None
    else case branch_cmp_instr_imm ty cmp of
      None \<Rightarrow> tfail TPanic
    | Some make_instr \<Rightarrow>
        tbind (try_resolve_label_for l last_instr) (\<lambda>offset.
        tbind (case branch_offset16_try_from offset of
                 Inr offset16 \<Rightarrow> tret (make_instr lhs rhs offset16)
               | Inl _ \<Rightarrow>
                   tbind (on_stack (ts_alloc_const (const16_val ty rhs))) (\<lambda>r.
                   branch_cmp_fallback cmp lhs r offset)) (\<lambda>i. tret (Some i))))"

text \<open>The integer type in which the source declares the constant of an instruction.\<close>

primrec icmp_int_ty :: "icmp_op \<Rightarrow> int_ty" where
  "icmp_int_ty I32Eq = TyI32"
| "icmp_int_ty I32Ne = TyI32"
| "icmp_int_ty I32LtS = TyI32"
| "icmp_int_ty I32LtU = TyU32"
| "icmp_int_ty I32LeS = TyI32"
| "icmp_int_ty I32LeU = TyU32"
| "icmp_int_ty I32GtS = TyI32"
| "icmp_int_ty I32GtU = TyU32"
| "icmp_int_ty I32GeS = TyI32"
| "icmp_int_ty I32GeU = TyU32"
| "icmp_int_ty I64Eq = TyI64"
| "icmp_int_ty I64Ne = TyI64"
| "icmp_int_ty I64LtS = TyI64"
| "icmp_int_ty I64LtU = TyU64"
| "icmp_int_ty I64LeS = TyI64"
| "icmp_int_ty I64LeU = TyU64"
| "icmp_int_ty I64GtS = TyI64"
| "icmp_int_ty I64GtU = TyU64"
| "icmp_int_ty I64GeS = TyI64"
| "icmp_int_ty I64GeU = TyU64"

definition try_fuse_branch_cmp_for_instr ::
  "instr_ref \<Rightarrow> reg \<Rightarrow> label_ref \<Rightarrow> comparator \<Rightarrow> ('m, 'z, instr_word option) cg" where
  "try_fuse_branch_cmp_for_instr i condition l cmp =
    tbind (get_instr i) (\<lambda>w.
    tbind (case iw_instr w of
        INum (IComm op result lhs rhs) \<Rightarrow>
          if cmp_of_comm op = None then tret None else try_fuse_branch_cmp i condition result lhs rhs l cmp
      | INum (IIcmp op result lhs rhs) \<Rightarrow> try_fuse_branch_cmp i condition result lhs rhs l cmp
      | INum (IFcmp op result lhs rhs) \<Rightarrow> try_fuse_branch_cmp i condition result lhs rhs l cmp
      | INum (ICommImm16 op result lhs rhs) \<Rightarrow>
          if cmp_of_comm op = None then tret None else try_fuse_branch_cmp_imm TyI32 i condition result lhs rhs l cmp
      | INum (IIcmpImm16 op result lhs rhs) \<Rightarrow>
          try_fuse_branch_cmp_imm (icmp_int_ty op) i condition result lhs rhs l cmp
      | _ \<Rightarrow> tret None) (\<lambda>fused. tret (map_option (\<lambda>i. w\<lparr>iw_instr := i\<rparr>) fused)))"

text \<open>A conditional branch on the register \<open>condition\<close> being zero, or not zero.\<close>

definition encode_branch_unopt :: "comparator \<Rightarrow> u32 \<Rightarrow> reg \<Rightarrow> label_ref \<Rightarrow> ('m, 'z, unit) cg" where
  "encode_branch_unopt cmp instr_offset condition l =
    tbind (enc_try_resolve_label l) (\<lambda>offset.
    tbind (case branch_offset16_try_from offset of
             Inr offset16 \<Rightarrow> tret (IBr (IBranchCmpImm cmp condition 0 offset16))
           | Inl _ \<Rightarrow>
               tbind (on_stack (ts_alloc_const 0)) (\<lambda>zero. branch_cmp_fallback cmp condition zero offset)) (\<lambda>i.
    tseq (push_instr instr_offset i) (tret ())))"

definition encode_branch_eqz_unopt :: "u32 \<Rightarrow> reg \<Rightarrow> label_ref \<Rightarrow> ('m, 'z, unit) cg" where
  "encode_branch_eqz_unopt = encode_branch_unopt CmpI32Eq"

definition encode_branch_nez_unopt :: "u32 \<Rightarrow> reg \<Rightarrow> label_ref \<Rightarrow> ('m, 'z, unit) cg" where
  "encode_branch_nez_unopt = encode_branch_unopt CmpI32Ne"

definition encode_branch_fused ::
  "(comparator \<Rightarrow> comparator option) \<Rightarrow> ('m, 'z, unit) cg \<Rightarrow> reg \<Rightarrow> label_ref \<Rightarrow> ('m, 'z, unit) cg" where
  "encode_branch_fused adjust unopt condition l =
    tbind (tget (\<lambda>s. ie_last_instr (cg_enc s))) (\<lambda>last_instr.
    case last_instr of
      None \<Rightarrow> unopt
    | Some last_instr \<Rightarrow>
        tbind (get_instr last_instr) (\<lambda>w.
        case Option.bind (from_cmp_instruction (iw_instr w)) adjust of
          None \<Rightarrow> unopt
        | Some cmp \<Rightarrow>
            tbind (try_fuse_branch_cmp_for_instr last_instr condition l cmp) (\<lambda>fused.
            case fused of None \<Rightarrow> unopt | Some fused \<Rightarrow> set_instr last_instr fused)))"

definition encode_branch_eqz :: "u32 \<Rightarrow> reg \<Rightarrow> label_ref \<Rightarrow> ('m, 'z, unit) cg" where
  "encode_branch_eqz offset condition l =
    encode_branch_fused cmp_negate (encode_branch_eqz_unopt offset condition l) condition l"

definition encode_branch_nez :: "u32 \<Rightarrow> reg \<Rightarrow> label_ref \<Rightarrow> ('m, 'z, unit) cg" where
  "encode_branch_nez offset condition l =
    encode_branch_fused Some (encode_branch_nez_unopt offset condition l) condition l"


section \<open>Resolving branch offsets\<close>

text \<open>\<open>init_offset_imm\<close> and its version without immediate: a panic of \<open>init\<close> is \<open>TPanic\<close>.\<close>

definition comparator_int_ty :: "comparator \<Rightarrow> int_ty option" where
  "comparator_int_ty c = find (\<lambda>ty. c \<in> set (imm_comparators ty)) [TyI32, TyU32, TyI64, TyU64]"

definition update_branch_offset :: "branch_offset \<Rightarrow> instruction \<Rightarrow> ('m, 'z, instruction) cg" where
  "update_branch_offset new_offset i =
    (let init = (\<lambda>mk offset. case branch_offset_init offset new_offset of
                   None \<Rightarrow> tfail TPanic | Some o' \<Rightarrow> tret (mk o'))
     in case i of
       IBr (IBranch offset) \<Rightarrow> init (\<lambda>o'. IBr (IBranch o')) offset
     | IParam (IBranchTableTarget results offset) \<Rightarrow> init (\<lambda>o'. IParam (IBranchTableTarget results o')) offset
     | IParam (IBranchTableTargetNonOverlapping results offset) \<Rightarrow>
         init (\<lambda>o'. IParam (IBranchTableTargetNonOverlapping results o')) offset
     | IBr (IBranchCmp cmp lhs rhs offset) \<Rightarrow>
         (case branch_offset16_init offset new_offset of
            None \<Rightarrow> tfail TPanic
          | Some (Inr offset') \<Rightarrow> tret (IBr (IBranchCmp cmp lhs rhs offset'))
          | Some (Inl _) \<Rightarrow> branch_cmp_fallback cmp lhs rhs new_offset)
     | IBr (IBranchCmpImm cmp lhs rhs offset) \<Rightarrow>
         (case comparator_int_ty cmp of
            None \<Rightarrow> tfail TPanic
          | Some ty \<Rightarrow>
              (case branch_offset16_init offset new_offset of
                 None \<Rightarrow> tfail TPanic
               | Some (Inr offset') \<Rightarrow> tret (IBr (IBranchCmpImm cmp lhs rhs offset'))
               | Some (Inl _) \<Rightarrow>
                   tbind (on_stack (ts_alloc_const (const16_val ty rhs))) (\<lambda>r.
                   branch_cmp_fallback cmp lhs r new_offset)))
     | _ \<Rightarrow> tfail TPanic)"

primrec update_users :: "label_user list \<Rightarrow> ('m, 'z, unit) cg" where
  "update_users [] = tret ()"
| "update_users (u # us) =
    tbind (tget (\<lambda>s. ie_labels (cg_enc s))) (\<lambda>lb.
    tbind (tlift (resolved_user lb u)) (\<lambda>(user, offset).
    tbind (get_instr user) (\<lambda>w.
    tbind (tlift offset) (\<lambda>offset.
    tbind (update_branch_offset offset (iw_instr w)) (\<lambda>i.
    tseq (set_instr user (w\<lparr>iw_instr := i\<rparr>)) (update_users us))))))"

definition update_branch_offsets :: "('m, 'z, unit) cg" where
  "update_branch_offsets = tbind (tget (\<lambda>s. lb_users (ie_labels (cg_enc s)))) update_users"

end
