(* ===== verification/Tr_Props.thy ===== *)
theory Tr_Props
  imports Tr_Stack_Inv Tr_Fusion Exec_Props
begin

text \<open>
  Properties of the bookkeeping of the translator: constants, positions of locals, the emulated
  stack against a register file, and the register allocator.
\<close>


section \<open>Constants and positions of locals\<close>

text \<open>
  The pool of function local constants: an allocated constant reads back from its register, which
  no other constant has; registers of earlier constants keep their values.
\<close>

theorem const_pool_exact:
  assumes inv: "consts_inv c" and al: "consts_alloc v c = Inr (r, c')"
  shows "consts_inv c' \<and> reg_is_const r \<and> consts_get r c' = Some v \<and>
    (\<forall>q x. consts_get q c = Some x \<longrightarrow> consts_get q c' = Some x) \<and>
    (\<forall>q. consts_get q c' = Some v \<longrightarrow> q = r)"
proof -
  note a = consts_alloc_inv [OF inv al]
  have "q = r" if q: "consts_get q c' = Some v" for q
  proof -
    obtain i j where "i < length (fc_idx2const c')" "j < length (fc_idx2const c')"
        "q = const_reg i" "r = const_reg j" "fc_idx2const c' ! i = v" "fc_idx2const c' ! j = v"
      using consts_get_Some [OF a(1) q] consts_get_Some [OF a(1) a(2)] by blast
    then show ?thesis using a(1) nth_eq_iff_index_eq [of "fc_idx2const c'" i j] by (auto simp: consts_inv_def)
  qed
  moreover have "reg_is_const r" using a(2) by (auto simp: consts_get_def split: if_splits)
  ultimately show ?thesis using a by blast
qed

lemma const_pool_exact_witness:
  defines "c \<equiv> consts_reset \<lparr>fc_const2idx = Map.empty, fc_idx2const = [], fc_next_idx = 0\<rparr>"
  shows "consts_alloc 7 c = Inr (-1, snd (projr (consts_alloc 7 c))) \<and>
    consts_get (-1) (snd (projr (consts_alloc 7 c))) = Some 7"
proof -
  have al: "consts_alloc 7 c = Inr (-1, snd (projr (consts_alloc 7 c)))"
    by (simp add: c_def consts_alloc_def consts_reset_def consts_first_index_def consts_last_index_def Let_def)
  show ?thesis using const_pool_exact [OF consts_inv_reset al [unfolded c_def]] al by (simp add: c_def)
qed

text \<open>
  C33. The index of the positions of locals on the stack refines a map from locals to lists of
  positions: pushing adds a position to the front, popping takes the front, draining visits and
  removes all positions of a local.
\<close>

theorem local_refs_refine:
  assumes "lr_rep lr A"
  shows "(\<exists>lr'. lr_push_at l slot lr = Inr lr' \<and> lr_rep lr' (A(l := slot # A l))) \<and>
    (\<forall>s rest. A l = s # rest \<longrightarrow> (\<exists>lr'. lr_pop_at l lr = Inr (s, lr') \<and> lr_rep lr' (A(l := rest)))) \<and>
    (\<exists>lr'. lr_drain_at l f lr t = rmap (Pair lr') (tr_fold f (A l) t) \<and> lr_rep lr' (A(l := [])))"
  using lr_push_at_rep [OF assms, of l slot] lr_pop_at_rep [OF assms, of l] lr_drain_at_rep [OF assms, of l f t] by blast

lemma local_refs_refine_witness:
  "\<exists>lr'. lr_push_at 2 5 (lr_reset \<lparr>lr_locals_last = [], lr_entries = \<lparr>le_next_free = None, le_entries = []\<rparr>\<rparr>) = Inr lr' \<and>
    lr_rep lr' ((\<lambda>_. [])(2 := [5]))"
  by (rule conjunct1 [OF local_refs_refine [OF lr_rep_reset]])


section \<open>The emulated stack\<close>

text \<open>
  C26. Preserving a local by walking the stack and preserving it through the index of positions give the
  same register, the same providers and the same allocation, and the same error when one fails.
\<close>

theorem preserve_ways_agree:
  assumes "ps_inv ps" "ps_use_locals ps"
  shows "rmap (\<lambda>(pr, ps', ra'). (pr, ps_providers ps', ps_len_locals ps', ra')) (preserve_locals_inplace ms l ps ra) =
    rmap (\<lambda>(pr, ps', ra'). (pr, ps_providers ps', ps_len_locals ps', ra')) (preserve_locals_extern ms l ps ra)"
  using preserve_extern_result [OF assms, of ms l ra] preserve_inplace_result [OF assms(1), of ms l ra]
  by (auto simp: rmap_rmap comp_def case_prod_unfold)

text \<open>A stack with a local, for the examples.\<close>

definition demo_stack_of :: "tagged_provider list \<Rightarrow> nat option list tr_stack" where
  "demo_stack_of P = \<lparr>ts_providers = \<lparr>ps_providers = P, ps_len_locals = length (filter is_local_tag P), ps_use_locals = False,
       ps_locals = lr_reset \<lparr>lr_locals_last = [], lr_entries = \<lparr>le_next_free = None, le_entries = []\<rparr>\<rparr>\<rparr>,
     ts_reg_alloc = \<lparr>ra_preservations = [], ra_removed_preserved = [], ra_phase = PhaseAlloc, ra_len_locals = 1,
       ra_next_dynamic = 1, ra_max_dynamic = 1, ra_min_preserve = 32766, ra_defrag_offset = 0\<rparr>,
     ts_consts = \<lparr>fc_const2idx = Map.empty, fc_idx2const = [], fc_next_idx = - 1\<rparr>, ts_local_value_types = []\<rparr>"

lemma preserve_ways_agree_witness:
  defines "ra \<equiv> ts_reg_alloc (demo_stack_of [])"
  shows "\<exists>lr. let ps = \<lparr>ps_providers = [TagLocal 0, TagDynamic 4, TagLocal 0], ps_len_locals = 2, ps_use_locals = True, ps_locals = lr\<rparr>
     in rmap (\<lambda>(pr, ps', ra'). (pr, ps_providers ps', ps_len_locals ps', ra')) (preserve_locals_inplace list_stash 0 ps ra) =
      rmap (\<lambda>(pr, ps', ra'). (pr, ps_providers ps', ps_len_locals ps', ra')) (preserve_locals_extern list_stash 0 ps ra)"
proof -
  let ?P = "[TagLocal 0, TagDynamic 4, TagLocal 0]"
  have "lr_rep (lr_reset \<lparr>lr_locals_last = [], lr_entries = \<lparr>le_next_free = None, le_entries = []\<rparr>\<rparr>) (\<lambda>_. [])" by (rule lr_rep_reset)
  from push_local_refs_rep [OF this, of ?P 0] obtain lr where lr: "lr_rep lr (\<lambda>l. rev (tag_positions l ?P 0) @ [])" by blast
  have "(\<lambda>l. rev (tag_positions l ?P 0) @ []) = local_positions ?P" by (rule ext) (simp only: local_positions_def append_Nil2)
  with lr have "lr_rep lr (local_positions ?P)" by (simp only:)
  then have inv: "ps_inv \<lparr>ps_providers = ?P, ps_len_locals = 2, ps_use_locals = True, ps_locals = lr\<rparr>"
    by (simp add: ps_inv_def is_local_tag_def)
  show ?thesis unfolding Let_def by (intro exI [of _ lr] preserve_ways_agree [OF inv]) simp
qed

text \<open>
  C11. \<open>local.set\<close> on a stack that refers to the local: after \<open>preserve_locals\<close>, copying the local to
  the register that it returns and then writing the local leaves all values on the emulated
  stack as they were. This is under the invariant of the stack and as long as the spaces of dynamic
  and of preserved registers have not met, before and after.
\<close>

theorem local_write_keeps_stack:
  assumes laws: "stash_laws ms" and inv: "ts_inv ms x s" and run: "ts_preserve_locals ms idx s = Inr (pr, s')"
    and apart: "ra_apart (ts_reg_alloc s')" and l: "ra_is_local (ts_reg_alloc s) (ucast idx)"
  shows "ts_inv ms x s' \<and>
    stack_values ((case pr of None \<Rightarrow> rf | Some r \<Rightarrow> rf(r := rf (ucast idx)))(ucast idx := v)) s' = stack_values rf s"
proof -
  let ?l = "ucast idx :: reg" and ?P = "ps_providers (ts_providers s)"
  note p = ts_preserve_locals_inv [OF laws inv apart run]
  have ok: "\<forall>q \<in> set ?P. tag_ok (ts_reg_alloc s) q" using inv by (simp add: ts_inv_def)
  have lb: "0 \<le> sint ?l" "sint ?l < sint (ra_len_locals (ts_reg_alloc s))"
    using l by (simp_all add: ra_is_local_def reg_is_const_def ra_min_dynamic_def)
  have other: "typed_of_tagged q \<noteq> ProvReg ?l" if q: "q \<in> set ?P" "q \<noteq> TagLocal ?l" for q
  proof (cases q)
    case (TagConstLocal r)
    then show ?thesis using ok q lb by (auto simp: tag_ok_def typed_of_tagged_def reg_is_const_def)
  next
    case (TagDynamic r)
    then show ?thesis using ts_inv_dynamic [OF inv, of r] q lb by (auto simp: typed_of_tagged_def)
  next
    case (TagPreserved r)
    then show ?thesis using ts_inv_preserved [OF inv, of r] q lb inv
      by (fastforce simp: typed_of_tagged_def ts_inv_def ra_apart_def ra_inv_def)
  qed (use q in \<open>auto simp: typed_of_tagged_def\<close>)
  show ?thesis
  proof (cases pr)
    case None
    then have "TagLocal ?l \<notin> set ?P" using p(3) by simp
    then have "ts_unused ?l s" using other by (auto simp: ts_unused_def)
    then show ?thesis using p(1,2) None stack_values_unused [of ?l s rf v]
      by (simp add: stack_values_def replaced_def)
  next
    case (Some r)
    have r: "ts_unused r s" "r \<noteq> ?l" using p(4) [OF Some] l by auto
    have "provider_value ((rf(r := rf ?l))(?l := v)) (replace_local ?l r q) = provider_value rf q" if q: "q \<in> set ?P" for q
    proof (cases "q = TagLocal ?l")
      case True
      then show ?thesis using r(2) by (simp add: replace_local_def provider_value_def typed_of_tagged_def)
    next
      case False
      have "typed_of_tagged q \<noteq> ProvReg r" using r(1) q by (simp add: ts_unused_def)
      then show ?thesis using other [OF q False] False
        by (auto simp: replace_local_def provider_value_def split: provider.splits)
    qed
    then show ?thesis using p(1,2) Some by (simp add: stack_values_def replaced_def)
  qed
qed

text \<open>
  C25. The result register of an instruction is fresh: no value on the emulated stack is kept in the
  register that \<open>push_dynamic\<close> hands out, so that writing it leaves all of them as they were and
  puts the new value on the top. The stack satisfies its invariant, a part of which is that the
  spaces of dynamic and of preserved registers have not met.
\<close>
theorem fresh_register_keeps_stack:
  assumes inv: "ts_inv ms x s" and push: "ts_push_dynamic s = Inr (r, s')"
  shows "ts_inv ms x s' \<and> stack_values (rf(r := v)) s' = stack_values rf s @ [v]"
  using ts_push_dynamic_inv [OF inv push] stack_values_unused [of r s rf v] by simp

lemma demo_stack_inv:
  assumes "P = [] \<or> P = [TagLocal 0]"
  shows "ts_inv list_stash (\<lambda>_. 0) (demo_stack_of P)"
proof -
  have "st_get list_stash [] k = None" for k by (simp add: list_stash_def slot_get_def)
  then have "stash_counts list_stash [] 32766 (\<lambda>_. 0)" by (rule stash_counts_empty)
  then show ?thesis using assms
    by (auto simp: ts_inv_def demo_stack_of_def ra_inv_def ra_apart_def ps_inv_def lr_rep_reset dynamics_ok_def tag_ok_def
        ra_is_local_def ra_min_dynamic_def reg_is_const_def)
qed

lemma fresh_register_keeps_stack_witness:
  "\<exists>s'. ts_push_dynamic (demo_stack_of [TagLocal 0]) = Inr (1, s') \<and> stack_values ((\<lambda>_. 5)(1 := 7)) s' = [5, 7]"
proof -
  have "\<exists>s'. ts_push_dynamic (demo_stack_of [TagLocal 0]) = Inr (1, s')"
    by (simp add: ts_push_dynamic_def ra_push_dynamic_def demo_stack_of_def ts_push_tagged_def ps_push_def rsimps)
  then obtain s' where s': "ts_push_dynamic (demo_stack_of [TagLocal 0]) = Inr (1, s')" ..
  have "stack_values (\<lambda>_. 5) (demo_stack_of [TagLocal 0]) = [5]"
    by (simp add: stack_values_def provider_value_def typed_of_tagged_def demo_stack_of_def)
  with fresh_register_keeps_stack [OF demo_stack_inv s', of "\<lambda>_. 5" 7] s' show ?thesis by simp
qed

lemmas demo_preserve_defs = ra_push_preserved_def list_stash_def slot_set_def slot_get_def key2reg_def update_min_preserved_def
  initial_preservation_index_def reg_prev_def reg_prev_n_def i16_min_def demo_stack_of_def ra_apart_def is_local_tag_def

lemma local_write_keeps_stack_witness:
  "\<exists>r s'. ts_preserve_locals list_stash 0 (demo_stack_of [TagLocal 0]) = Inr (Some r, s') \<and>
    stack_values (((\<lambda>_. 5)(r := 5))(0 := 7)) s' = [5]"
proof -
  let ?s = "demo_stack_of [TagLocal 0]"
  have "\<exists>r s'. ts_preserve_locals list_stash 0 ?s = Inr (Some r, s') \<and> ra_apart (ts_reg_alloc s')"
    by (simp add: ts_preserve_locals_def ps_preserve_locals_def sync_local_refs_def preserve_threshold_def preserve_locals_inplace_def
        preserve_one_def demo_preserve_defs)
  then obtain r s' where s': "ts_preserve_locals list_stash 0 ?s = Inr (Some r, s')" "ra_apart (ts_reg_alloc s')" by blast
  have l: "ra_is_local (ts_reg_alloc ?s) (ucast (0 :: u32))"
    by (simp add: demo_stack_of_def ra_is_local_def ra_min_dynamic_def reg_is_const_def)
  have "stack_values (\<lambda>_. 5) ?s = [5]"
    by (simp add: stack_values_def provider_value_def typed_of_tagged_def demo_stack_of_def)
  with local_write_keeps_stack [OF list_stash_laws demo_stack_inv s' l, of "\<lambda>_. 5" 7] s' show ?thesis by auto
qed


section \<open>The register allocator\<close>

text \<open>
  C31. Frames are compact: after \<open>finalize_alloc\<close>, \<open>defrag_register\<close> maps the registers in use
  (locals, dynamic and preserved ones) one to one onto the first \<open>len_registers\<close> registers. The
  allocator satisfies its invariant, and the spaces of dynamic and of preserved registers have not
  met: \<open>max_dynamic\<close>, the first register that was never a dynamic one, is at most \<open>min_preserve\<close>,
  the last free place below the preserved ones.
\<close>
theorem defrag_contiguous:
  assumes inv: "ra_inv ms u ra" and max: "sint (ra_max_dynamic ra) \<le> sint (ra_min_preserve ra)"
    and fin: "ra_finalize_alloc ra = Inr ra'"
  shows "bij_betw (\<lambda>r. case ra_defrag_register ra' r of Inr q \<Rightarrow> sint q | Inl _ \<Rightarrow> - 1) {r. ra_in_use ra r}
    {0..<uint (ra_len_registers ra)}"
proof -
  have "(case ra_defrag_register ra' r of Inr q \<Rightarrow> sint q | Inl _ \<Rightarrow> - 1) = ra_frame_reg ra r" if "ra_in_use ra r" for r
    using ra_defrag_eq [OF inv max fin that] by auto
  then have "bij_betw (\<lambda>r. case ra_defrag_register ra' r of Inr q \<Rightarrow> sint q | Inl _ \<Rightarrow> - 1) {r. ra_in_use ra r}
      {0..<uint (ra_len_registers ra)} = bij_betw (ra_frame_reg ra) {r. ra_in_use ra r} {0..<uint (ra_len_registers ra)}"
    by (intro bij_betw_cong) simp
  then show ?thesis using ra_frame_reg_bij [OF inv max] by simp
qed

lemma defrag_contiguous_witness:
  "\<exists>ra'. ra_finalize_alloc (ts_reg_alloc (demo_stack_of [])) = Inr ra' \<and>
    bij_betw (\<lambda>r. case ra_defrag_register ra' r of Inr q \<Rightarrow> sint q | Inl _ \<Rightarrow> - 1)
      {r. ra_in_use (ts_reg_alloc (demo_stack_of [])) r} {0..<1}"
proof -
  let ?ra = "ts_reg_alloc (demo_stack_of [])"
  obtain ra' where fin: "ra_finalize_alloc ?ra = Inr ra'" by (simp add: ra_finalize_alloc_def demo_stack_of_def)
  have "ra_inv list_stash (\<lambda>r. count_list (ps_providers (ts_providers (demo_stack_of []))) (TagPreserved r) + 0) ?ra"
    using demo_stack_inv [of "[]"] by (simp add: ts_inv_def)
  moreover have "sint (ra_max_dynamic ?ra) \<le> sint (ra_min_preserve ?ra)" "uint (ra_len_registers ?ra) = 1"
    by (simp_all add: demo_stack_of_def ra_len_registers_def i16_abs_diff_def max_len_locals_def)
  ultimately show ?thesis using defrag_contiguous [OF _ _ fin] fin by metis
qed

text \<open>What preserving a local does to the bounds of the allocator, whether or not the spaces have met.\<close>

lemma preserve_times_bounds:
  assumes "preserve_times ms n None ra = Inr (Some r, ra')"
  shows "ra_phase ra' = PhaseAlloc \<and> ra_next_dynamic ra' = ra_next_dynamic ra \<and>
    ra_min_preserve ra' = i16_min (ra_min_preserve ra) (reg_prev r)"
proof (cases n)
  case (Suc m)
  with assms obtain q ra1 where push: "ra_push_preserved ms ra = Inr (q, ra1)"
    and rest: "preserve_times ms m (Some q) ra1 = Inr (Some r, ra')"
    by (auto simp: preserve_one_def rsimps)
  have "ra_phase ra' = ra_phase ra1 \<and> ra_min_preserve ra' = ra_min_preserve ra1 \<and> ra_next_dynamic ra' = ra_next_dynamic ra1"
    using rest
  proof (induction m arbitrary: ra1)
    case (Suc m)
    then obtain ra2 where "ra_bump_preserved ms q ra1 = Inr ra2" "preserve_times ms m (Some q) ra2 = Inr (Some r, ra')"
      by (auto simp: preserve_one_def rsimps)
    then show ?case using Suc.IH [of ra2] by (auto simp: ra_bump_preserved_def rsimps)
  qed simp
  moreover have "q = r" using preserve_times_Some [OF rest] by simp
  ultimately show ?thesis using push
    by (auto simp: ra_push_preserved_def update_min_preserved_def Let_def rsimps split: if_splits prod.splits)
qed (use assms in simp)

text \<open>
  C32. The spaces of the allocator collide, because its checks are for equality only: on a stack whose
  dynamic registers end just below the preserved ones, so that no register is left, let a local be
  preserved in the next register below the preserved ones. That is the register of a dynamic value to
  come: \<open>push_dynamic\<close>, which would have failed before, succeeds and hands out the same register
  again, and writing the new value there changes every value of the local on the stack to it.
\<close>
theorem spaces_collide:
  assumes inv: "ts_inv ms x s" and full: "ra_next_dynamic (ts_reg_alloc s) = ra_min_preserve (ts_reg_alloc s)"
    and run: "ts_preserve_locals ms idx s = Inr (Some r, s1)" and new: "r = ra_min_preserve (ts_reg_alloc s)"
  shows "ts_push_dynamic s = Inl (TErr AllocatedTooManyRegisters) \<and> (\<exists>s2. ts_push_dynamic s1 = Inr (r, s2) \<and>
    (\<forall>i < ts_height s. ps_providers (ts_providers s) ! i = TagLocal (ucast idx) \<longrightarrow> stack_values (rf(r := v)) s2 ! i = v))"
proof -
  let ?P = "ps_providers (ts_providers s)" and ?l = "ucast idx :: reg"
  from inv have psi: "ps_inv (ts_providers s)" and ra: "ra_phase (ts_reg_alloc s) = PhaseAlloc"
    and nn: "0 \<le> sint (ra_next_dynamic (ts_reg_alloc s))"
    by (auto simp: ts_inv_def ra_inv_def)
  from run obtain ps ra' where ps: "ps_preserve_locals ms idx (ts_providers s) (ts_reg_alloc s) = Inr (Some r, ps, ra')"
    and s1: "s1 = s\<lparr>ts_providers := ps, ts_reg_alloc := ra'\<rparr>"
    by (auto simp: ts_preserve_locals_def rsimps)
  note p = ps_preserve_locals_Inr [OF psi ps]
  note b = preserve_times_bounds [OF conjunct1 [OF p]]
  have "sint (reg_prev r) = sint r - 1"
    using nn full new sint_reg_pred [of r] by (simp add: reg_prev_def reg_prev_n_def)
  then have "ra_min_preserve ra' \<noteq> r" using b new by (auto simp: i16_min_def reg_eq_iff)
  then obtain ra2 where push: "ra_push_dynamic ra' = Inr (r, ra2)"
    using b full new by (auto simp: ra_push_dynamic_def Let_def)
  obtain ps2 where ps2: "ps_push (TagDynamic r) ps = Inr ps2" "ps_providers ps2 = ps_providers ps @ [TagDynamic r]"
    using ps_push_inv [of ps "TagDynamic r"] p by blast
  let ?s2 = "s1\<lparr>ts_reg_alloc := ra2, ts_providers := ps2\<rparr>"
  have "ts_push_dynamic s1 = Inr (r, ?s2)"
    using push ps2 by (simp add: ts_push_dynamic_def ts_push_tagged_def s1)
  moreover have "stack_values (rf(r := v)) ?s2 ! i = v" if "i < ts_height s" "?P ! i = TagLocal ?l" for i
    using that p ps2
    by (simp add: stack_values_def nth_append replaced_def replace_local_def provider_value_def typed_of_tagged_def
        ts_height_def)
  moreover have "ts_push_dynamic s = Inl (TErr AllocatedTooManyRegisters)"
    using ra full by (simp add: ts_push_dynamic_def ra_push_dynamic_def)
  ultimately show ?thesis by blast
qed

text \<open>The state is reached: 32765 locals, one of which is on the stack below a result.\<close>

definition demo_full :: "nat option list tr_stack" where
  "demo_full = (demo_stack_of [TagLocal 0, TagDynamic 32765])\<lparr>
     ts_reg_alloc := \<lparr>ra_preservations = [], ra_removed_preserved = [], ra_phase = PhaseAlloc, ra_len_locals = 32765,
       ra_next_dynamic = 32766, ra_max_dynamic = 32766, ra_min_preserve = 32766, ra_defrag_offset = 0\<rparr>\<rparr>"

lemma spaces_collide_witness:
  "\<exists>ra1 ra2 s1 s2. ra_register_locals 32765 (ra_reset list_stash (ts_reg_alloc demo_full)) = Inr ra1 \<and>
    ra_finish_register_locals ra1 = Inr ra2 \<and> ra_push_dynamic ra2 = Inr (32765, ts_reg_alloc demo_full) \<and>
    ts_preserve_locals list_stash 0 demo_full = Inr (Some 32766, s1) \<and> ts_push_dynamic s1 = Inr (32766, s2) \<and>
    stack_values ((\<lambda>_. 5)(32766 := 7)) s2 ! 0 = 7"
proof -
  have "st_get list_stash [] k = None" for k by (simp add: list_stash_def slot_get_def)
  then have "stash_counts list_stash [] 32766 (\<lambda>_. 0)" by (rule stash_counts_empty)
  then have inv: "ts_inv list_stash (\<lambda>_. 0) demo_full"
    by (simp add: ts_inv_def demo_full_def demo_stack_of_def ra_inv_def ra_apart_def ps_inv_def lr_rep_reset dynamics_ok_def
        tag_ok_def ra_is_local_def ra_min_dynamic_def reg_is_const_def is_local_tag_def)
  have r: "ra_next_dynamic (ts_reg_alloc demo_full) = ra_min_preserve (ts_reg_alloc demo_full)"
    "32766 = ra_min_preserve (ts_reg_alloc demo_full)" by (simp_all add: demo_full_def)
  have "\<exists>s1. ts_preserve_locals list_stash 0 demo_full = Inr (Some 32766, s1)"
    by (simp add: ts_preserve_locals_def ps_preserve_locals_def sync_local_refs_def preserve_threshold_def preserve_locals_inplace_def
        preserve_one_def demo_preserve_defs demo_full_def)
  then obtain s1 where s1: "ts_preserve_locals list_stash 0 demo_full = Inr (Some 32766, s1)" ..
  have "ts_height demo_full = 2" "ps_providers (ts_providers demo_full) ! 0 = TagLocal (ucast (0 :: u32))"
    by (simp_all add: demo_full_def demo_stack_of_def ts_height_def)
  then obtain s2 where "ts_push_dynamic s1 = Inr (32766, s2)" "stack_values ((\<lambda>_. 5)(32766 := 7)) s2 ! 0 = 7"
    using spaces_collide [OF inv r(1) s1 r(2), of "\<lambda>_. 5" 7] by auto
  moreover have "\<exists>ra1 ra2. ra_register_locals 32765 (ra_reset list_stash (ts_reg_alloc demo_full)) = Inr ra1 \<and>
      ra_finish_register_locals ra1 = Inr ra2 \<and> ra_push_dynamic ra2 = Inr (32765, ts_reg_alloc demo_full)"
    by (simp add: ra_register_locals_def ra_reset_def bump_locals_def max_len_locals_def ra_finish_register_locals_def
        ra_push_dynamic_def i16_max_def demo_preserve_defs demo_full_def Let_def rsimps word_less_nat_alt word_le_nat_alt)
  ultimately show ?thesis using s1 by blast
qed

end
