(* ===== verification/Tr_Func.thy ===== *)
theory Tr_Func
  imports Tr_Fusion
begin

text \<open>
  The translator of a function, the first part of \<open>translator/mod.rs\<close>: its state, fuel, the entry of
  a function, the preservation of locals before a block, the copies of branch parameters, and the
  ends of blocks. \<open>tl_env\<close> is what a translation is for: the function, and the fuel costs when
  metering is on. The buffers of the translator are cleared before every use, so they are local
  values here.
\<close>


section \<open>State\<close>

record 'm tl_env = "'m tr_env" +
  tle_func :: nat
  tle_fuel_costs :: "fuel_costs option"

record 'm translator = "'m codegen" +
  tl_reachable :: bool
  tl_control :: control_stack
  tl_visit_pos :: u32

type_synonym ('m, 'a) tl = "('m translator, 'a) tr"

definition tskip :: "('s, unit) tr" where "tskip = tret ()"

definition tvoid :: "('s, 'a) tr \<Rightarrow> ('s, unit) tr" where "tvoid m = tseq m tskip"

primrec tfor :: "('a \<Rightarrow> ('s, unit) tr) \<Rightarrow> 'a list \<Rightarrow> ('s, unit) tr" where
  "tfor f [] = tskip"
| "tfor f (x # xs) = tseq (f x) (tfor f xs)"

definition tl_pos :: "('m, u32) tl" where "tl_pos = tget tl_visit_pos"

definition set_reachable :: "bool \<Rightarrow> ('m, unit) tl" where
  "set_reachable b = tmodify (\<lambda>s. s\<lparr>tl_reachable := b\<rparr>)"

definition bail_unreachable :: "('m, unit) tl \<Rightarrow> ('m, unit) tl" where
  "bail_unreachable m = tbind (tget tl_reachable) (\<lambda>r. if \<not> r then tskip else m)"

definition on_control :: "(control_stack \<Rightarrow> tr_error + ('a \<times> control_stack)) \<Rightarrow> ('m, 'a) tl" where
  "on_control f s = rmap (\<lambda>(x, c). (x, s\<lparr>tl_control := c\<rparr>)) (f (tl_control s))"

definition tl_push_frame :: "control_frame \<Rightarrow> ('m, unit) tl" where
  "tl_push_frame f = tmodify (\<lambda>s. s\<lparr>tl_control := push_frame f (tl_control s)\<rparr>)"

definition tl_pop_frame :: "('m, control_frame) tl" where
  "tl_pop_frame = on_control pop_frame"

lemmas tl_defs [tr_simps] = tskip_def tvoid_def tl_pos_def set_reachable_def on_control_def
  tl_push_frame_def tl_pop_frame_def


section \<open>Fuel\<close>

definition fuel_instr :: "('m, instr_ref option) tl" where
  "fuel_instr = tbind (tget tl_control) (\<lambda>c. tbind (tlift (control_last c)) (\<lambda>f. tret (frame_consume_fuel_instr f)))"

definition fuel_info_of :: "('m, 'e) tl_env_scheme \<Rightarrow> ('m, fuel_info) tl" where
  "fuel_info_of te =
    (case tle_fuel_costs te of
       None \<Rightarrow> tret FuelNone
     | Some costs \<Rightarrow>
         tbind fuel_instr (\<lambda>i. case i of None \<Rightarrow> tfail TPanic | Some i \<Rightarrow> tret (FuelSome costs i)))"

definition make_fuel_instr :: "('m, 'e) tl_env_scheme \<Rightarrow> ('m, instr_ref option) tl" where
  "make_fuel_instr te =
    (case tle_fuel_costs te of
       None \<Rightarrow> tret None
     | Some costs \<Rightarrow>
         if 2 ^ 32 \<le> unat (fc_base costs) then tfail TPanic
         else tbind tl_pos (\<lambda>pos. tbind (push_instr pos (IConsumeFuel (ucast (fc_base costs)))) (\<lambda>i. tret (Some i))))"

definition tl_bump_fuel :: "('m, 'e) tl_env_scheme \<Rightarrow> (fuel_costs \<Rightarrow> u64) \<Rightarrow> ('m, unit) tl" where
  "tl_bump_fuel te f = tbind (fuel_info_of te) (\<lambda>fi. bump_fuel_consumption fi f)"

definition push_fueled :: "('m, 'e) tl_env_scheme \<Rightarrow> instruction \<Rightarrow> (fuel_costs \<Rightarrow> u64) \<Rightarrow> ('m, instr_ref) tl" where
  "push_fueled te i f = tseq (tl_bump_fuel te f) (tbind tl_pos (\<lambda>pos. push_instr pos i))"

definition push_base_instr :: "('m, 'e) tl_env_scheme \<Rightarrow> instruction \<Rightarrow> ('m, instr_ref) tl" where
  "push_base_instr te i = push_fueled te i fc_base"

text \<open>An instruction with base costs, and a word appended to the last instruction.\<close>

definition emit :: "('m, 'e) tl_env_scheme \<Rightarrow> instruction \<Rightarrow> ('m, unit) tl" where
  "emit te i = tvoid (push_base_instr te i)"

definition emit_cost :: "('m, 'e) tl_env_scheme \<Rightarrow> (fuel_costs \<Rightarrow> u64) \<Rightarrow> instruction \<Rightarrow> ('m, unit) tl" where
  "emit_cost te f i = tvoid (push_fueled te i f)"

definition append_word :: "param_word \<Rightarrow> ('m, unit) tl" where
  "append_word p = tbind tl_pos (\<lambda>pos. tvoid (append_instr pos (IParam p)))"


section \<open>The stack of the translator\<close>

definition tl_pop :: "('m, 'e) tl_env_scheme \<Rightarrow> ('m, typed_provider) tl" where
  "tl_pop te = on_stack (ts_pop (te_stash te))"

definition tl_pop2 :: "('m, 'e) tl_env_scheme \<Rightarrow> ('m, typed_provider \<times> typed_provider) tl" where
  "tl_pop2 te = on_stack (ts_pop2 (te_stash te))"

definition tl_pop3 :: "('m, 'e) tl_env_scheme \<Rightarrow> ('m, typed_provider \<times> typed_provider \<times> typed_provider) tl" where
  "tl_pop3 te = on_stack (ts_pop3 (te_stash te))"

definition tl_pop_n :: "('m, 'e) tl_env_scheme \<Rightarrow> nat \<Rightarrow> ('m, typed_provider list) tl" where
  "tl_pop_n te n = on_stack (ts_pop_n (te_stash te) n)"

definition tl_peek :: "('m, typed_provider) tl" where
  "tl_peek = tbind (tget cg_stack) (\<lambda>st. tlift (ts_peek st))"

definition tl_peek_n :: "nat \<Rightarrow> ('m, typed_provider list) tl" where
  "tl_peek_n n = tbind (tget cg_stack) (\<lambda>st. tlift (ts_peek_n n st))"

definition tl_push_dynamic :: "('m, reg) tl" where "tl_push_dynamic = on_stack ts_push_dynamic"

definition tl_push_const :: "typed_val \<Rightarrow> ('m, unit) tl" where "tl_push_const v = upd_stack (ts_push_const v)"

definition tl_push_register :: "('m, 'e) tl_env_scheme \<Rightarrow> reg \<Rightarrow> ('m, unit) tl" where
  "tl_push_register te r = upd_stack (ts_push_register (te_stash te) r)"

definition tl_push_provider :: "('m, 'e) tl_env_scheme \<Rightarrow> typed_provider \<Rightarrow> ('m, unit) tl" where
  "tl_push_provider te p = upd_stack (ts_push_provider (te_stash te) p)"

definition tl_alloc_const :: "untyped_val \<Rightarrow> ('m, reg) tl" where "tl_alloc_const v = on_stack (ts_alloc_const v)"

definition tl_trunc :: "('m, 'e) tl_env_scheme \<Rightarrow> nat \<Rightarrow> ('m, unit) tl" where
  "tl_trunc te n = upd_stack (ts_trunc (te_stash te) n)"

lemmas tl_stack_defs [tr_simps] = tl_pop_def tl_pop2_def tl_pop3_def tl_pop_n_def tl_peek_def tl_peek_n_def
  tl_push_dynamic_def tl_push_const_def tl_push_register_def tl_push_provider_def tl_alloc_const_def tl_trunc_def


section \<open>Entry of a function\<close>

text \<open>The frame of the function body has a dummy span, since branches to it are returns.\<close>

definition init_func_body_block :: "('m, 'e) tl_env_scheme \<Rightarrow> ('m, unit) tl" where
  "init_func_body_block te =
    tbind (tlift (get_type_of_func (te_module te) (tle_func te))) (\<lambda>t.
    tbind enc_new_label (\<lambda>end_label.
    tbind (make_fuel_instr te) (\<lambda>consume_fuel.
    tl_push_frame (BlockFrame (block_frame_new (BtFuncType t) end_label 0 0 consume_fuel)))))"

definition tl_func_type :: "('m, 'e) tl_env_scheme \<Rightarrow> nat \<Rightarrow> tr_error + func_type" where
  "tl_func_type te f = rmap (te_types te) (get_type_of_func (te_module te) f)"

definition tl_func_type_at :: "('m, 'e) tl_env_scheme \<Rightarrow> nat \<Rightarrow> tr_error + func_type" where
  "tl_func_type_at te i = rmap (te_types te) (get_func_type (te_module te) i)"

definition init_func_params :: "('m, 'e) tl_env_scheme \<Rightarrow> ('m, unit) tl" where
  "init_func_params te =
    tbind (tlift (tl_func_type te (tle_func te))) (\<lambda>t.
    tfor (\<lambda>_. upd_stack (ts_register_locals 1)) (func_type_params t))"

definition translator_reset :: "('m, 'e) tl_env_scheme \<Rightarrow> 'm translator \<Rightarrow> 'm translator" where
  "translator_reset te s = s\<lparr>cg_stack := ts_reset (te_stash te) (cg_stack s), cg_enc := enc_reset (cg_enc s),
     tl_control := control_reset (tl_control s)\<rparr>"

text \<open>\<open>FuncTranslator::new\<close> on allocations that an earlier translation may have used.\<close>

definition translator_new :: "('m, 'e) tl_env_scheme \<Rightarrow> 'm translator \<Rightarrow> tr_error + 'm translator" where
  "translator_new te alloc =
    rmap snd (tseq (init_func_body_block te) (init_func_params te)
      ((translator_reset te alloc)\<lparr>tl_reachable := True, tl_visit_pos := 0\<rparr>))"

definition tl_translate_locals :: "u32 \<Rightarrow> ('m, unit) tl" where
  "tl_translate_locals amount = upd_stack (ts_register_locals amount)"

definition tl_finish_translate_locals :: "('m, unit) tl" where
  "tl_finish_translate_locals = upd_stack ts_finish_register_locals"

definition update_visit_pos :: "u32 \<Rightarrow> ('m, unit) tl" where
  "update_visit_pos pos = tmodify (\<lambda>s. s\<lparr>tl_visit_pos := pos\<rparr>)"


section \<open>Preservation of locals and copies\<close>

text \<open>Neighbours whose preserved registers follow each other are copied together.\<close>

fun copy_groups :: "preserved_local list \<Rightarrow> preserved_local list list" where
  "copy_groups [] = []"
| "copy_groups [p] = [[p]]"
| "copy_groups (p # q # ps) =
    (if sint (pl_preserved q) - sint (pl_preserved p) = 1
     then (case copy_groups (q # ps) of g # gs \<Rightarrow> (p # g) # gs | [] \<Rightarrow> [[p]])
     else [p] # copy_groups (q # ps))"

definition copy_group :: "('m, 'e) tl_env_scheme \<Rightarrow> fuel_info \<Rightarrow> preserved_local list \<Rightarrow> ('m, unit) tl" where
  "copy_group te fi grp =
    (if 2 ^ 16 \<le> length grp then tfail TPanic
     else tbind tl_pos (\<lambda>pos.
       tbind (encode_copies (te_nan te) pos
           \<lparr>brs_span = pl_preserved (hd grp), brs_len = of_nat (length grp)\<rparr>
           (map (\<lambda>p. ProvReg (pl_local p)) grp) fi) (\<lambda>i.
       case i of None \<Rightarrow> tskip | Some i \<Rightarrow> notify_preserved_register i)))"

definition preserve_locals :: "('m, 'e) tl_env_scheme \<Rightarrow> ('m, unit) tl" where
  "preserve_locals te =
    tbind (fuel_info_of te) (\<lambda>fi.
    tbind (on_stack (\<lambda>st. rmap (\<lambda>(st', preserved). (preserved, st'))
        (ts_preserve_all_locals (te_stash te) (\<lambda>p preserved. Inr (preserved @ [p])) st []))) (\<lambda>preserved.
    tfor (copy_group te fi) (copy_groups (rev preserved))))"

definition translate_copy_branch_params :: "('m, 'e) tl_env_scheme \<Rightarrow> bounded_reg_span \<Rightarrow> ('m, unit) tl" where
  "translate_copy_branch_params te params =
    (if brs_len params = 0 then tskip
     else tbind (fuel_info_of te) (\<lambda>fi.
       tbind (tl_pop_n te (unat (brs_len params))) (\<lambda>vals.
       tbind tl_pos (\<lambda>pos. tvoid (encode_copies (te_nan te) pos params vals fi)))))"

definition alloc_branch_params :: "('m, 'e) tl_env_scheme \<Rightarrow> u16 \<Rightarrow> u16 \<Rightarrow> ('m, reg_span) tl" where
  "alloc_branch_params te len_block_params len_branch_params =
    tbind (tl_pop_n te (unat len_block_params)) (\<lambda>params.
    tbind (on_stack (ts_peek_dynamic_n (unat len_branch_params))) (\<lambda>branch_params.
    tseq (upd_stack (ts_push_n (te_stash te) params)) (tret branch_params)))"

text \<open>The registers of a span; iterating a span that leaves the registers panics.\<close>

definition params_regs :: "bounded_reg_span \<Rightarrow> tr_error + reg list" where
  "params_regs params = rmap iter_regs (ok_or TPanic (iter_new_u16 (brs_span params) (brs_len params)))"

definition push_results :: "('m, 'e) tl_env_scheme \<Rightarrow> nat \<Rightarrow> bounded_reg_span \<Rightarrow> ('m, unit) tl" where
  "push_results te height params =
    tseq (tl_trunc te height)
    (tbind (tlift (params_regs params)) (tfor (tl_push_register te)))"

section \<open>Ends of blocks\<close>

definition translate_return_with :: "('m, 'e) tl_env_scheme \<Rightarrow> fuel_info \<Rightarrow> ('m, unit) tl" where
  "translate_return_with te fi =
    tbind (tlift (tl_func_type te (tle_func te))) (\<lambda>t.
    tbind (tl_pop_n te (length (func_type_results t))) (\<lambda>vals.
    tbind tl_pos (\<lambda>pos.
    tseq (encode_return (te_nan te) pos vals fi) (set_reachable False))))"

definition translate_return :: "('m, 'e) tl_env_scheme \<Rightarrow> ('m, unit) tl" where
  "translate_return te = tbind (fuel_info_of te) (translate_return_with te)"

definition translate_return_if :: "('m, 'e) tl_env_scheme \<Rightarrow> reg \<Rightarrow> ('m, unit) tl" where
  "translate_return_if te condition = bail_unreachable (
    tbind (tlift (tl_func_type te (tle_func te))) (\<lambda>t.
    tbind (fuel_info_of te) (\<lambda>fi.
    tbind (tl_peek_n (length (func_type_results t))) (\<lambda>vals.
    tbind tl_pos (\<lambda>pos. encode_return_nez (te_nan te) pos condition vals fi)))))"

text \<open>
  The end of the outermost block is the return of the function. The end of any other block copies the
  results to the registers of the block when branches rely on them.
\<close>

definition end_of_function :: "('m, 'e) tl_env_scheme \<Rightarrow> block_frame \<Rightarrow> ('m, unit) tl" where
  "end_of_function te frame = bail_unreachable (
    case tle_fuel_costs te of
      None \<Rightarrow> translate_return_with te FuelNone
    | Some costs \<Rightarrow>
        (case bf_consume_fuel frame of
           None \<Rightarrow> tfail TPanic
         | Some i \<Rightarrow> translate_return_with te (FuelSome costs i)))"

definition seal_block :: "('m, 'e) tl_env_scheme \<Rightarrow> bool \<Rightarrow> bool \<Rightarrow> bounded_reg_span \<Rightarrow> label_ref \<Rightarrow> nat \<Rightarrow> ('m, unit) tl" where
  "seal_block te end_reachable branched_to params end_label height =
    tseq (if end_reachable \<and> branched_to then translate_copy_branch_params te params else tskip)
    (tseq (enc_pin_label end_label)
    (tseq (if branched_to then push_results te height params else tskip)
    (set_reachable (end_reachable \<or> branched_to))))"

definition translate_end_block :: "('m, 'e) tl_env_scheme \<Rightarrow> block_frame \<Rightarrow> ('m, unit) tl" where
  "translate_end_block te frame =
    tbind (tget (\<lambda>s. (ct_frames (tl_control s) = [], tl_reachable s))) (\<lambda>(is_last, reachable).
    if is_last then end_of_function te frame
    else
      tbind (tlift (frame_branch_params (te_types te) (BlockFrame frame))) (\<lambda>params.
      seal_block te reachable (1 \<le> bf_len_branches frame) params (bf_end_label frame) (unat (bf_stack_height frame))))"

definition translate_end_loop :: "loop_frame \<Rightarrow> ('m, unit) tl" where
  "translate_end_loop frame = tskip"

definition if_params :: "('m, 'e) tl_env_scheme \<Rightarrow> if_frame \<Rightarrow> bounded_reg_span" where
  "if_params te frame =
    \<lparr>brs_span = if_branch_params frame, brs_len = bt_len_results (te_types te) (if_block_type frame)\<rparr>"

definition translate_end_if_then_or_else_only :: "('m, 'e) tl_env_scheme \<Rightarrow> if_frame \<Rightarrow> bool \<Rightarrow> ('m, unit) tl" where
  "translate_end_if_then_or_else_only te frame end_is_reachable =
    seal_block te end_is_reachable (1 \<le> if_len_branches frame) (if_params te frame) (if_end_label frame)
      (unat (if_stack_height frame))"

definition translate_end_if_then_only :: "('m, 'e) tl_env_scheme \<Rightarrow> if_frame \<Rightarrow> ('m, unit) tl" where
  "translate_end_if_then_only te frame =
    tbind (tget tl_reachable) (\<lambda>reachable.
    translate_end_if_then_or_else_only te frame
      (case if_end_of_then_is_reachable frame of Some b \<Rightarrow> b | None \<Rightarrow> reachable))"

definition translate_end_if_else_only :: "('m, 'e) tl_env_scheme \<Rightarrow> if_frame \<Rightarrow> ('m, unit) tl" where
  "translate_end_if_else_only te frame =
    tbind (tget tl_reachable) (\<lambda>reachable.
    translate_end_if_then_or_else_only te frame (reachable \<or> \<not> if_visited_else frame))"

definition translate_end_if_then_with_else :: "('m, 'e) tl_env_scheme \<Rightarrow> if_frame \<Rightarrow> ('m, unit) tl" where
  "translate_end_if_then_with_else te frame =
    (case if_end_of_then_is_reachable frame of
       None \<Rightarrow> tfail TPanic
     | Some end_of_then_reachable \<Rightarrow>
         tbind (tget tl_reachable) (\<lambda>end_of_else_reachable.
         (let reachable = (end_of_then_reachable \<or> end_of_else_reachable \<or> 1 \<le> if_len_branches frame)
          in case if_else_label frame of
               None \<Rightarrow> tfail TPanic
             | Some else_label \<Rightarrow>
                 tseq (pin_label_if_unpinned else_label)
                 (tseq (if end_of_else_reachable then translate_copy_branch_params te (if_params te frame) else tskip)
                 (tseq (enc_pin_label (if_end_label frame))
                 (tseq (if reachable then push_results te (unat (if_stack_height frame)) (if_params te frame) else tskip)
                 (set_reachable reachable)))))))"

text \<open>The providers of the \<open>else\<close> branch go back on the stack, which then counts their uses itself.\<close>

definition restore_else_provider :: "('m, 'e) tl_env_scheme \<Rightarrow> typed_provider \<Rightarrow> ('m, unit) tl" where
  "restore_else_provider te p =
    tseq (tl_push_provider te p)
    (case p of
       ProvReg r \<Rightarrow> upd_stack (ts_dec_register_usage (te_stash te) r)
     | ProvConst _ \<Rightarrow> tskip)"

definition translate_end_if_then_missing_else :: "('m, 'e) tl_env_scheme \<Rightarrow> if_frame \<Rightarrow> ('m, unit) tl" where
  "translate_end_if_then_missing_else te frame =
    (let has_results = 1 \<le> unat (bt_len_results (te_types te) (if_block_type frame));
         height = unat (if_stack_height frame); params = if_params te frame
     in tbind (tget tl_reachable) (\<lambda>end_of_then_reachable.
       tseq
         (if end_of_then_reachable \<and> has_results
          then tseq (translate_copy_branch_params te params)
            (tbind (enc_try_resolve_label (if_end_label frame)) (\<lambda>end_offset.
             tbind tl_pos (\<lambda>pos. tvoid (push_instr pos (IBr (IBranch end_offset))))))
          else tskip)
       (case if_else_label frame of
          None \<Rightarrow> tfail TPanic
        | Some else_label \<Rightarrow>
            tseq (pin_label_if_unpinned else_label)
            (tbind (on_control pop_else_providers) (\<lambda>else_providers.
             tseq
               (if has_results
                then tseq (tl_trunc te height)
                  (tseq (tfor (restore_else_provider te) else_providers)
                        (translate_copy_branch_params te params))
                else tskip)
             (tseq (enc_pin_label (if_end_label frame))
             (tseq (push_results te height params)
                   (set_reachable True))))))))"

definition translate_end_if :: "('m, 'e) tl_env_scheme \<Rightarrow> if_frame \<Rightarrow> ('m, unit) tl" where
  "translate_end_if te frame =
    (if is_then_reachable frame \<and> is_else_reachable frame then
       if if_visited_else frame then translate_end_if_then_with_else te frame
       else translate_end_if_then_missing_else te frame
     else if is_then_reachable frame then translate_end_if_then_only te frame
     else if is_else_reachable frame then translate_end_if_else_only te frame
     else tfail TPanic)"

text \<open>\<open>visit_end\<close>: the next instruction is never fused with one of the block.\<close>

definition visit_end :: "('m, 'e) tl_env_scheme \<Rightarrow> ('m, unit) tl" where
  "visit_end te =
    tseq (tbind tl_pop_frame (\<lambda>frame.
      case frame of
        BlockFrame f \<Rightarrow> translate_end_block te f
      | LoopFrame f \<Rightarrow> translate_end_loop f
      | IfFrame f \<Rightarrow> translate_end_if te f
      | UnreachableFrame _ \<Rightarrow> tskip))
    reset_last_instr"

end
