(* ===== verification/Tr_Ops.thy ===== *)
theory Tr_Ops
  imports Tr_Func
begin

text \<open>
  The translation of unary and binary operators, the second part of \<open>translator/mod.rs\<close>: an operator
  on constants is evaluated, one on registers and constants becomes an instruction with a
  16-bit constant when that fits and with a function local constant otherwise, and special cases
  that the operator supplies come first. A constructor of instructions takes the result and the
  operands; the offset of the Wasm instruction is added when it is pushed. A constant of type \<open>T\<close>
  is its untyped value, read through the conversion of \<open>T\<close>.
\<close>


section \<open>Values\<close>

definition tv_bool :: "bool \<Rightarrow> typed_val" where "tv_bool b = \<lparr>tv_ty = I32, tv_value = of_boolean b\<rparr>"
definition tv_i32 :: "u32 \<Rightarrow> typed_val" where "tv_i32 v = \<lparr>tv_ty = I32, tv_value = of_i32 v\<rparr>"
definition tv_i64 :: "u64 \<Rightarrow> typed_val" where "tv_i64 v = \<lparr>tv_ty = I64, tv_value = of_i64 v\<rparr>"
definition tv_f32 :: "u32 \<Rightarrow> typed_val" where "tv_f32 v = \<lparr>tv_ty = F32, tv_value = of_i32 v\<rparr>"
definition tv_f64 :: "u64 \<Rightarrow> typed_val" where "tv_f64 v = \<lparr>tv_ty = F64, tv_value = of_i64 v\<rparr>"

text \<open>The methods of \<open>TypedVal\<close> forward to those of \<open>UntypedVal\<close>; the result has the type of the operation.\<close>

definition typed_binary ::
  "val_type \<Rightarrow> (untyped_val \<Rightarrow> untyped_val \<Rightarrow> untyped_val) \<Rightarrow> typed_val \<Rightarrow> typed_val \<Rightarrow> typed_val" where
  "typed_binary ty f lhs rhs = \<lparr>tv_ty = ty, tv_value = f (tv_value lhs) (tv_value rhs)\<rparr>"

definition typed_try_binary ::
  "val_type \<Rightarrow> (untyped_val \<Rightarrow> untyped_val \<Rightarrow> trap_code + untyped_val) \<Rightarrow> typed_val \<Rightarrow> typed_val \<Rightarrow>
    trap_code + typed_val" where
  "typed_try_binary ty f lhs rhs = rmap (\<lambda>v. \<lparr>tv_ty = ty, tv_value = v\<rparr>) (f (tv_value lhs) (tv_value rhs))"

definition typed_unary :: "val_type \<Rightarrow> (untyped_val \<Rightarrow> untyped_val) \<Rightarrow> typed_val \<Rightarrow> typed_val" where
  "typed_unary ty f input = \<lparr>tv_ty = ty, tv_value = f (tv_value input)\<rparr>"

definition typed_try_unary ::
  "val_type \<Rightarrow> (untyped_val \<Rightarrow> trap_code + untyped_val) \<Rightarrow> typed_val \<Rightarrow> trap_code + typed_val" where
  "typed_try_unary ty f input = rmap (\<lambda>v. \<lparr>tv_ty = ty, tv_value = v\<rparr>) (f (tv_value input))"

definition reinterpret :: "val_type \<Rightarrow> typed_val \<Rightarrow> typed_val" where
  "reinterpret ty v = v\<lparr>tv_ty := ty\<rparr>"

text \<open>\<open>T::try_into::<Const16<T>>\<close> and \<open>WasmInteger::eq_zero\<close>, by the integer type.\<close>

primrec const16_try :: "int_ty \<Rightarrow> untyped_val \<Rightarrow> u16 option" where
  "const16_try TyI32 v = const16_of_i32 (to_i32 v)"
| "const16_try TyU32 v = const16_of_u32 (to_i32 v)"
| "const16_try TyI64 v = const16_of_i64 (to_i64 v)"
| "const16_try TyU64 v = const16_of_u64 (to_i64 v)"

primrec eq_zero :: "int_ty \<Rightarrow> untyped_val \<Rightarrow> bool" where
  "eq_zero TyI32 v = (to_i32 v = 0)"
| "eq_zero TyU32 v = (to_i32 v = 0)"
| "eq_zero TyI64 v = (to_i64 v = 0)"
| "eq_zero TyU64 v = (to_i64 v = 0)"

primrec into_shift_amount :: "int_ty \<Rightarrow> untyped_val \<Rightarrow> u16 option" where
  "into_shift_amount TyI32 v = shift_amount_new 32 (to_i32 v)"
| "into_shift_amount TyU32 v = shift_amount_new 32 (to_i32 v)"
| "into_shift_amount TyI64 v = shift_amount_new 64 (to_i64 v)"
| "into_shift_amount TyU64 v = shift_amount_new 64 (to_i64 v)"

primrec is_nan_val :: "float_width \<Rightarrow> untyped_val \<Rightarrow> bool" where
  "is_nan_val Width32 v = float_is_nan (to_i32 v)"
| "is_nan_val Width64 v = float_is_nan (to_i64 v)"

text \<open>\<open>WasmFloat::sign\<close> is whether the sign bit is clear, also of a NaN.\<close>

primrec sign_val :: "float_width \<Rightarrow> untyped_val \<Rightarrow> bool" where
  "sign_val Width32 v = (\<not> float_neg (to_i32 v))"
| "sign_val Width64 v = (\<not> float_neg (to_i64 v))"


section \<open>Pushing instructions\<close>

type_synonym mk_binary = "reg \<Rightarrow> reg \<Rightarrow> reg \<Rightarrow> instruction"
type_synonym mk_imm16 = "reg \<Rightarrow> reg \<Rightarrow> u16 \<Rightarrow> instruction"
type_synonym mk_imm16_rev = "reg \<Rightarrow> u16 \<Rightarrow> reg \<Rightarrow> instruction"

definition push_binary_instr :: "('m, 'e) tl_env_scheme \<Rightarrow> reg \<Rightarrow> reg \<Rightarrow> mk_binary \<Rightarrow> ('m, unit) tl" where
  "push_binary_instr te lhs rhs mk = tbind tl_push_dynamic (\<lambda>result. emit te (mk result lhs rhs))"

definition try_push_binary_instr_imm16 ::
  "('m, 'e) tl_env_scheme \<Rightarrow> int_ty \<Rightarrow> reg \<Rightarrow> untyped_val \<Rightarrow> mk_imm16 \<Rightarrow> ('m, bool) tl" where
  "try_push_binary_instr_imm16 te ty lhs rhs mk16 =
    (case const16_try ty rhs of
       Some c \<Rightarrow> tbind tl_push_dynamic (\<lambda>result. tseq (emit te (mk16 result lhs c)) (tret True))
     | None \<Rightarrow> tret False)"

definition try_push_binary_instr_imm16_rev ::
  "('m, 'e) tl_env_scheme \<Rightarrow> int_ty \<Rightarrow> untyped_val \<Rightarrow> reg \<Rightarrow> mk_imm16_rev \<Rightarrow> ('m, bool) tl" where
  "try_push_binary_instr_imm16_rev te ty lhs rhs mk16 =
    (case const16_try ty lhs of
       Some c \<Rightarrow> tbind tl_push_dynamic (\<lambda>result. tseq (emit te (mk16 result c rhs)) (tret True))
     | None \<Rightarrow> tret False)"

definition push_binary_consteval ::
  "typed_val \<Rightarrow> typed_val \<Rightarrow> (typed_val \<Rightarrow> typed_val \<Rightarrow> typed_val) \<Rightarrow> ('m, unit) tl" where
  "push_binary_consteval lhs rhs consteval = tl_push_const (consteval lhs rhs)"

definition push_binary_instr_imm ::
  "('m, 'e) tl_env_scheme \<Rightarrow> reg \<Rightarrow> untyped_val \<Rightarrow> mk_binary \<Rightarrow> ('m, unit) tl" where
  "push_binary_instr_imm te lhs rhs mk =
    tbind tl_push_dynamic (\<lambda>result. tbind (tl_alloc_const rhs) (\<lambda>rhs. emit te (mk result lhs rhs)))"

definition push_binary_instr_imm_rev ::
  "('m, 'e) tl_env_scheme \<Rightarrow> untyped_val \<Rightarrow> reg \<Rightarrow> mk_binary \<Rightarrow> ('m, unit) tl" where
  "push_binary_instr_imm_rev te lhs rhs mk =
    tbind tl_push_dynamic (\<lambda>result. tbind (tl_alloc_const lhs) (\<lambda>lhs. emit te (mk result lhs rhs)))"

definition translate_trap :: "('m, 'e) tl_env_scheme \<Rightarrow> trap_code \<Rightarrow> ('m, unit) tl" where
  "translate_trap te code = bail_unreachable (tseq (emit te (ITrap code)) (set_reachable False))"

text \<open>An optimisation that yields \<open>True\<close> when it applied; otherwise the next one is tried.\<close>

definition or_else :: "('m, bool) tl \<Rightarrow> ('m, unit) tl \<Rightarrow> ('m, unit) tl" where
  "or_else opt m = tbind opt (\<lambda>applied. if applied then tskip else m)"

definition no_custom_opt :: "'a \<Rightarrow> 'b \<Rightarrow> ('m, bool) tl" where
  "no_custom_opt lhs rhs = tret False"

definition opt_when :: "bool \<Rightarrow> ('m, unit) tl \<Rightarrow> ('m, bool) tl" where
  "opt_when b m = (if b then tseq m (tret True) else tret False)"


section \<open>Operators\<close>

definition translate_binary ::
  "('m, 'e) tl_env_scheme \<Rightarrow> int_ty \<Rightarrow> mk_binary \<Rightarrow> mk_imm16 option \<Rightarrow> mk_imm16_rev \<Rightarrow>
    (typed_val \<Rightarrow> typed_val \<Rightarrow> typed_val) \<Rightarrow> (reg \<Rightarrow> reg \<Rightarrow> ('m, bool) tl) \<Rightarrow>
    (reg \<Rightarrow> untyped_val \<Rightarrow> ('m, bool) tl) \<Rightarrow> (untyped_val \<Rightarrow> reg \<Rightarrow> ('m, bool) tl) \<Rightarrow> ('m, unit) tl" where
  "translate_binary te ty mk mk16 mk16_rev consteval opt reg_imm_opt imm_reg_opt = bail_unreachable (
    tbind (tl_pop2 te) (\<lambda>operands.
    case operands of
      (ProvReg lhs, ProvReg rhs) \<Rightarrow> or_else (opt lhs rhs) (push_binary_instr te lhs rhs mk)
    | (ProvReg lhs, ProvConst rhs) \<Rightarrow>
        or_else (reg_imm_opt lhs (tv_value rhs))
          (or_else
            (case mk16 of
               Some mk16 \<Rightarrow> try_push_binary_instr_imm16 te ty lhs (tv_value rhs) mk16
             | None \<Rightarrow> if const16_try ty (tv_value rhs) = None then tret False else tfail TPanic)
            (push_binary_instr_imm te lhs (tv_value rhs) mk))
    | (ProvConst lhs, ProvReg rhs) \<Rightarrow>
        or_else (imm_reg_opt (tv_value lhs) rhs)
          (or_else (try_push_binary_instr_imm16_rev te ty (tv_value lhs) rhs mk16_rev)
            (push_binary_instr_imm_rev te (tv_value lhs) rhs mk))
    | (ProvConst lhs, ProvConst rhs) \<Rightarrow> push_binary_consteval lhs rhs consteval))"

definition translate_fbinary ::
  "('m, 'e) tl_env_scheme \<Rightarrow> float_width \<Rightarrow> mk_binary \<Rightarrow> (typed_val \<Rightarrow> typed_val \<Rightarrow> typed_val) \<Rightarrow>
    (reg \<Rightarrow> reg \<Rightarrow> ('m, bool) tl) \<Rightarrow> (reg \<Rightarrow> untyped_val \<Rightarrow> ('m, bool) tl) \<Rightarrow>
    (untyped_val \<Rightarrow> reg \<Rightarrow> ('m, bool) tl) \<Rightarrow> ('m, unit) tl" where
  "translate_fbinary te w mk consteval opt reg_imm_opt imm_reg_opt = bail_unreachable (
    tbind (tl_pop2 te) (\<lambda>operands.
    case operands of
      (ProvReg lhs, ProvReg rhs) \<Rightarrow> or_else (opt lhs rhs) (push_binary_instr te lhs rhs mk)
    | (ProvReg lhs, ProvConst rhs) \<Rightarrow>
        or_else (reg_imm_opt lhs (tv_value rhs))
          (or_else (opt_when (is_nan_val w (tv_value rhs)) (tl_push_const rhs))
            (push_binary_instr_imm te lhs (tv_value rhs) mk))
    | (ProvConst lhs, ProvReg rhs) \<Rightarrow>
        or_else (imm_reg_opt (tv_value lhs) rhs)
          (or_else (opt_when (is_nan_val w (tv_value lhs)) (tl_push_const lhs))
            (push_binary_instr_imm_rev te (tv_value lhs) rhs mk))
    | (ProvConst lhs, ProvConst rhs) \<Rightarrow> push_binary_consteval lhs rhs consteval))"

definition translate_fcopysign ::
  "('m, 'e) tl_env_scheme \<Rightarrow> float_width \<Rightarrow> mk_binary \<Rightarrow> (reg \<Rightarrow> reg \<Rightarrow> bool \<Rightarrow> instruction) \<Rightarrow>
    (typed_val \<Rightarrow> typed_val \<Rightarrow> typed_val) \<Rightarrow> ('m, unit) tl" where
  "translate_fcopysign te w mk mk_imm consteval = bail_unreachable (
    tbind (tl_pop2 te) (\<lambda>operands.
    case operands of
      (ProvReg lhs, ProvReg rhs) \<Rightarrow>
        if lhs = rhs then tl_push_register te lhs else push_binary_instr te lhs rhs mk
    | (ProvReg lhs, ProvConst rhs) \<Rightarrow>
        tbind tl_push_dynamic (\<lambda>result. tbind tl_pos (\<lambda>pos.
        tvoid (push_instr pos (mk_imm result lhs (sign_val w (tv_value rhs))))))
    | (ProvConst lhs, ProvReg rhs) \<Rightarrow> push_binary_instr_imm_rev te (tv_value lhs) rhs mk
    | (ProvConst lhs, ProvConst rhs) \<Rightarrow> push_binary_consteval lhs rhs consteval))"

definition binary_commutative_imm ::
  "('m, 'e) tl_env_scheme \<Rightarrow> int_ty \<Rightarrow> mk_binary \<Rightarrow> mk_imm16 \<Rightarrow> (reg \<Rightarrow> untyped_val \<Rightarrow> ('m, bool) tl) \<Rightarrow>
    reg \<Rightarrow> typed_val \<Rightarrow> ('m, unit) tl" where
  "binary_commutative_imm te ty mk mk16 imm_opt reg_in imm_in =
    or_else (imm_opt reg_in (tv_value imm_in))
      (or_else (try_push_binary_instr_imm16 te ty reg_in (tv_value imm_in) mk16)
        (push_binary_instr_imm te reg_in (tv_value imm_in) mk))"

definition translate_binary_commutative ::
  "('m, 'e) tl_env_scheme \<Rightarrow> int_ty \<Rightarrow> mk_binary \<Rightarrow> mk_imm16 \<Rightarrow> (typed_val \<Rightarrow> typed_val \<Rightarrow> typed_val) \<Rightarrow>
    (reg \<Rightarrow> reg \<Rightarrow> ('m, bool) tl) \<Rightarrow> (reg \<Rightarrow> untyped_val \<Rightarrow> ('m, bool) tl) \<Rightarrow> ('m, unit) tl" where
  "translate_binary_commutative te ty mk mk16 consteval opt imm_opt = bail_unreachable (
    tbind (tl_pop2 te) (\<lambda>operands.
    case operands of
      (ProvReg lhs, ProvReg rhs) \<Rightarrow> or_else (opt lhs rhs) (push_binary_instr te lhs rhs mk)
    | (ProvReg reg_in, ProvConst imm_in) \<Rightarrow> binary_commutative_imm te ty mk mk16 imm_opt reg_in imm_in
    | (ProvConst imm_in, ProvReg reg_in) \<Rightarrow> binary_commutative_imm te ty mk mk16 imm_opt reg_in imm_in
    | (ProvConst lhs, ProvConst rhs) \<Rightarrow> push_binary_consteval lhs rhs consteval))"

text \<open>The NaN is pushed through \<open>T\<close>, hence with the type of the operands.\<close>

definition fbinary_commutative_imm ::
  "('m, 'e) tl_env_scheme \<Rightarrow> float_width \<Rightarrow> mk_binary \<Rightarrow> (reg \<Rightarrow> untyped_val \<Rightarrow> ('m, bool) tl) \<Rightarrow>
    reg \<Rightarrow> typed_val \<Rightarrow> ('m, unit) tl" where
  "fbinary_commutative_imm te w mk imm_opt reg_in imm_in =
    or_else (imm_opt reg_in (tv_value imm_in))
      (or_else (opt_when (is_nan_val w (tv_value imm_in))
          (tl_push_const (case w of Width32 \<Rightarrow> tv_f32 (to_i32 (tv_value imm_in)) | Width64 \<Rightarrow> tv_f64 (to_i64 (tv_value imm_in)))))
        (push_binary_instr_imm te reg_in (tv_value imm_in) mk))"

definition translate_fbinary_commutative ::
  "('m, 'e) tl_env_scheme \<Rightarrow> float_width \<Rightarrow> mk_binary \<Rightarrow> (typed_val \<Rightarrow> typed_val \<Rightarrow> typed_val) \<Rightarrow>
    (reg \<Rightarrow> reg \<Rightarrow> ('m, bool) tl) \<Rightarrow> (reg \<Rightarrow> untyped_val \<Rightarrow> ('m, bool) tl) \<Rightarrow> ('m, unit) tl" where
  "translate_fbinary_commutative te w mk consteval opt imm_opt = bail_unreachable (
    tbind (tl_pop2 te) (\<lambda>operands.
    case operands of
      (ProvReg lhs, ProvReg rhs) \<Rightarrow> or_else (opt lhs rhs) (push_binary_instr te lhs rhs mk)
    | (ProvReg reg_in, ProvConst imm_in) \<Rightarrow> fbinary_commutative_imm te w mk imm_opt reg_in imm_in
    | (ProvConst imm_in, ProvReg reg_in) \<Rightarrow> fbinary_commutative_imm te w mk imm_opt reg_in imm_in
    | (ProvConst lhs, ProvConst rhs) \<Rightarrow> push_binary_consteval lhs rhs consteval))"

definition translate_shift ::
  "('m, 'e) tl_env_scheme \<Rightarrow> int_ty \<Rightarrow> mk_binary \<Rightarrow> mk_imm16 \<Rightarrow> mk_imm16_rev \<Rightarrow>
    (typed_val \<Rightarrow> typed_val \<Rightarrow> typed_val) \<Rightarrow> (untyped_val \<Rightarrow> reg \<Rightarrow> ('m, bool) tl) \<Rightarrow> ('m, unit) tl" where
  "translate_shift te ty mk mk_by mk16 consteval imm_reg_opt = bail_unreachable (
    tbind (tl_pop2 te) (\<lambda>operands.
    case operands of
      (ProvReg lhs, ProvReg rhs) \<Rightarrow> push_binary_instr te lhs rhs mk
    | (ProvReg lhs, ProvConst rhs) \<Rightarrow>
        (case into_shift_amount ty (tv_value rhs) of
           None \<Rightarrow> tl_push_register te lhs
         | Some amount \<Rightarrow> tbind tl_push_dynamic (\<lambda>result. emit te (mk_by result lhs amount)))
    | (ProvConst lhs, ProvReg rhs) \<Rightarrow>
        or_else (imm_reg_opt (tv_value lhs) rhs)
          (or_else (opt_when (eq_zero ty (tv_value lhs)) (tl_push_const lhs))
            (or_else (try_push_binary_instr_imm16_rev te ty (tv_value lhs) rhs mk16)
              (push_binary_instr_imm_rev te (tv_value lhs) rhs mk)))
    | (ProvConst lhs, ProvConst rhs) \<Rightarrow> push_binary_consteval lhs rhs consteval))"

definition push_or_trap :: "('m, 'e) tl_env_scheme \<Rightarrow> trap_code + typed_val \<Rightarrow> ('m, unit) tl" where
  "push_or_trap te r = (case r of Inr result \<Rightarrow> tl_push_const result | Inl code \<Rightarrow> translate_trap te code)"

definition translate_divrem ::
  "('m, 'e) tl_env_scheme \<Rightarrow> int_ty \<Rightarrow> mk_binary \<Rightarrow> mk_imm16 \<Rightarrow> mk_imm16_rev \<Rightarrow>
    (typed_val \<Rightarrow> typed_val \<Rightarrow> trap_code + typed_val) \<Rightarrow> (reg \<Rightarrow> reg \<Rightarrow> ('m, bool) tl) \<Rightarrow>
    (reg \<Rightarrow> untyped_val \<Rightarrow> ('m, bool) tl) \<Rightarrow> ('m, unit) tl" where
  "translate_divrem te ty mk mk16 mk16_rev consteval opt reg_imm_opt = bail_unreachable (
    tbind (tl_pop2 te) (\<lambda>operands.
    case operands of
      (ProvReg lhs, ProvReg rhs) \<Rightarrow> or_else (opt lhs rhs) (push_binary_instr te lhs rhs mk)
    | (ProvReg lhs, ProvConst rhs) \<Rightarrow>
        if eq_zero ty (tv_value rhs) then translate_trap te IntegerDivisionByZero
        else or_else (reg_imm_opt lhs (tv_value rhs))
          (or_else (try_push_binary_instr_imm16 te ty lhs (tv_value rhs) mk16)
            (push_binary_instr_imm te lhs (tv_value rhs) mk))
    | (ProvConst lhs, ProvReg rhs) \<Rightarrow>
        or_else (try_push_binary_instr_imm16_rev te ty (tv_value lhs) rhs mk16_rev)
          (push_binary_instr_imm_rev te (tv_value lhs) rhs mk)
    | (ProvConst lhs, ProvConst rhs) \<Rightarrow> push_or_trap te (consteval lhs rhs)))"

definition push_unary_instr :: "('m, 'e) tl_env_scheme \<Rightarrow> (reg \<Rightarrow> reg \<Rightarrow> instruction) \<Rightarrow> reg \<Rightarrow> ('m, unit) tl" where
  "push_unary_instr te mk input = tbind tl_push_dynamic (\<lambda>result. emit te (mk result input))"

definition translate_unary ::
  "('m, 'e) tl_env_scheme \<Rightarrow> (reg \<Rightarrow> reg \<Rightarrow> instruction) \<Rightarrow> (typed_val \<Rightarrow> typed_val) \<Rightarrow> ('m, unit) tl" where
  "translate_unary te mk consteval = bail_unreachable (
    tbind (tl_pop te) (\<lambda>input.
    case input of
      ProvReg input \<Rightarrow> push_unary_instr te mk input
    | ProvConst input \<Rightarrow> tl_push_const (consteval input)))"

definition translate_unary_fallible ::
  "('m, 'e) tl_env_scheme \<Rightarrow> (reg \<Rightarrow> reg \<Rightarrow> instruction) \<Rightarrow> (typed_val \<Rightarrow> trap_code + typed_val) \<Rightarrow> ('m, unit) tl" where
  "translate_unary_fallible te mk consteval = bail_unreachable (
    tbind (tl_pop te) (\<lambda>input.
    case input of
      ProvReg input \<Rightarrow> push_unary_instr te mk input
    | ProvConst input \<Rightarrow> push_or_trap te (consteval input)))"

definition replace_const :: "('m, 'e) tl_env_scheme \<Rightarrow> (typed_val \<Rightarrow> typed_val) \<Rightarrow> ('m, unit) tl" where
  "replace_const te f = bail_unreachable (
    tbind tl_peek (\<lambda>p.
    case p of
      ProvReg _ \<Rightarrow> tskip
    | ProvConst _ \<Rightarrow>
        tbind (tl_pop te) (\<lambda>p. case p of ProvConst v \<Rightarrow> tl_push_const (f v) | ProvReg _ \<Rightarrow> tfail TPanic)))"

definition translate_reinterpret :: "('m, 'e) tl_env_scheme \<Rightarrow> val_type \<Rightarrow> ('m, unit) tl" where
  "translate_reinterpret te ty = replace_const te (reinterpret ty)"

definition translate_i64_extend_i32_u :: "('m, 'e) tl_env_scheme \<Rightarrow> ('m, unit) tl" where
  "translate_i64_extend_i32_u te = replace_const te (\<lambda>v. tv_i64 (ucast (to_i32 (tv_value v))))"

end
