(* ===== verification/Tr_Visit_Num.thy ===== *)
theory Tr_Visit_Num
  imports Tr_Ops
begin

text \<open>
  The numeric operators of \<open>translator/visit.rs\<close>: every operator names its instructions, its
  evaluation on constants and its special cases, for equal registers and for single constants.
\<close>


section \<open>Instructions and special cases\<close>

definition icmp :: "icmp_op \<Rightarrow> mk_binary" where "icmp op r a b = INum (IIcmp op r a b)"
definition icmp16 :: "icmp_op \<Rightarrow> mk_imm16" where "icmp16 op r a c = INum (IIcmpImm16 op r a c)"

text \<open>\<open>swap_ops!\<close>: the constant is the left operand, so the comparison is the mirrored one.\<close>

definition swap_ops :: "icmp_op \<Rightarrow> mk_imm16_rev" where "swap_ops op r c b = INum (IIcmpImm16 op r b c)"

definition fcmp :: "fcmp_op \<Rightarrow> mk_binary" where "fcmp op r a b = INum (IFcmp op r a b)"
definition comm :: "comm_op \<Rightarrow> mk_binary" where "comm op r a b = INum (IComm op r a b)"
definition comm16 :: "comm_op \<Rightarrow> mk_imm16" where "comm16 op r a c = INum (ICommImm16 op r a c)"
definition sub_instr :: "sub_op \<Rightarrow> mk_binary" where "sub_instr op r a b = INum (ISub op r a b)"
definition sub16_lhs :: "sub_op \<Rightarrow> mk_imm16_rev" where "sub16_lhs op r c b = INum (ISubImm16Lhs op r c b)"
definition shift_instr :: "shift_op \<Rightarrow> mk_binary" where "shift_instr op r a b = INum (IShift op r a b)"
definition shift_by :: "shift_op \<Rightarrow> mk_imm16" where "shift_by op r a c = INum (IShiftBy op r a c)"
definition shift16 :: "shift_op \<Rightarrow> mk_imm16_rev" where "shift16 op r c b = INum (IShiftImm16 op r c b)"
definition divrem :: "divrem_op \<Rightarrow> mk_binary" where "divrem op r a b = INum (IDivRem op r a b)"
definition divrem16_rhs :: "divrem_op \<Rightarrow> mk_imm16" where "divrem16_rhs op r a c = INum (IDivRemImm16Rhs op r a c)"
definition divrem16_lhs :: "divrem_op \<Rightarrow> mk_imm16_rev" where "divrem16_lhs op r c b = INum (IDivRemImm16Lhs op r c b)"
definition fbin :: "fbin_op \<Rightarrow> mk_binary" where "fbin op r a b = INum (IFbin op r a b)"

lemmas mk_defs = icmp_def icmp16_def swap_ops_def fcmp_def comm_def comm16_def sub_instr_def sub16_lhs_def
  shift_instr_def shift_by_def shift16_def divrem_def divrem16_rhs_def divrem16_lhs_def fbin_def

definition i32_min :: u32 where "i32_min = 0x80000000"
definition i32_max :: u32 where "i32_max = 0x7FFFFFFF"
definition i64_min :: u64 where "i64_min = 0x8000000000000000"
definition i64_max :: u64 where "i64_max = 0x7FFFFFFFFFFFFFFF"

definition same_reg :: "('m, unit) tl \<Rightarrow> reg \<Rightarrow> reg \<Rightarrow> ('m, bool) tl" where
  "same_reg m lhs rhs = opt_when (lhs = rhs) m"

definition push_bool :: "bool \<Rightarrow> ('m, unit) tl" where "push_bool b = tl_push_const (tv_bool b)"

definition rhs_is :: "(untyped_val \<Rightarrow> bool) \<Rightarrow> bool \<Rightarrow> reg \<Rightarrow> untyped_val \<Rightarrow> ('m, bool) tl" where
  "rhs_is P b lhs rhs = opt_when (P rhs) (push_bool b)"

definition lhs_is :: "(untyped_val \<Rightarrow> bool) \<Rightarrow> bool \<Rightarrow> untyped_val \<Rightarrow> reg \<Rightarrow> ('m, bool) tl" where
  "lhs_is P b lhs rhs = opt_when (P lhs) (push_bool b)"

text \<open>A constant for which the result is the other operand, or a fixed value.\<close>

definition imm_is :: "(untyped_val \<Rightarrow> bool) \<Rightarrow> (reg \<Rightarrow> ('m, unit) tl) \<Rightarrow> reg \<Rightarrow> untyped_val \<Rightarrow> ('m, bool) tl" where
  "imm_is P m r v = opt_when (P v) (m r)"

definition try_opts :: "('m, bool) tl \<Rightarrow> ('m, bool) tl \<Rightarrow> ('m, bool) tl" where
  "try_opts a b = tbind a (\<lambda>applied. if applied then tret True else b)"


section \<open>Comparisons of i32\<close>

definition visit_i32_eq :: "('m, 'e) tl_env_scheme \<Rightarrow> ('m, unit) tl" where
  "visit_i32_eq te =
    translate_binary_commutative te TyI32 (icmp I32Eq) (icmp16 I32Eq) (typed_binary I32 (icmp_fn I32Eq))
      (same_reg (push_bool True)) no_custom_opt"

definition visit_i32_ne :: "('m, 'e) tl_env_scheme \<Rightarrow> ('m, unit) tl" where
  "visit_i32_ne te =
    translate_binary_commutative te TyI32 (icmp I32Ne) (icmp16 I32Ne) (typed_binary I32 (icmp_fn I32Ne))
      (same_reg (push_bool False)) no_custom_opt"

definition visit_i32_lt_s :: "('m, 'e) tl_env_scheme \<Rightarrow> ('m, unit) tl" where
  "visit_i32_lt_s te =
    translate_binary te TyI32 (icmp I32LtS) (Some (icmp16 I32LtS)) (swap_ops I32GtS)
      (typed_binary I32 (icmp_fn I32LtS)) (same_reg (push_bool False))
      (rhs_is (\<lambda>v. to_i32 v = i32_min) False) (lhs_is (\<lambda>v. to_i32 v = i32_max) False)"

definition visit_i32_lt_u :: "('m, 'e) tl_env_scheme \<Rightarrow> ('m, unit) tl" where
  "visit_i32_lt_u te =
    translate_binary te TyU32 (icmp I32LtU) (Some (icmp16 I32LtU)) (swap_ops I32GtU)
      (typed_binary I32 (icmp_fn I32LtU)) (same_reg (push_bool False))
      (rhs_is (\<lambda>v. to_i32 v = 0) False) (lhs_is (\<lambda>v. to_i32 v = - 1) False)"

definition visit_i32_gt_s :: "('m, 'e) tl_env_scheme \<Rightarrow> ('m, unit) tl" where
  "visit_i32_gt_s te =
    translate_binary te TyI32 (icmp I32GtS) (Some (icmp16 I32GtS)) (swap_ops I32LtS)
      (typed_binary I32 (icmp_fn I32GtS)) (same_reg (push_bool False))
      (rhs_is (\<lambda>v. to_i32 v = i32_max) False) (lhs_is (\<lambda>v. to_i32 v = i32_min) False)"

definition visit_i32_gt_u :: "('m, 'e) tl_env_scheme \<Rightarrow> ('m, unit) tl" where
  "visit_i32_gt_u te =
    translate_binary te TyU32 (icmp I32GtU) (Some (icmp16 I32GtU)) (swap_ops I32LtU)
      (typed_binary I32 (icmp_fn I32GtU)) (same_reg (push_bool False))
      (rhs_is (\<lambda>v. to_i32 v = - 1) False) (lhs_is (\<lambda>v. to_i32 v = 0) False)"

definition visit_i32_le_s :: "('m, 'e) tl_env_scheme \<Rightarrow> ('m, unit) tl" where
  "visit_i32_le_s te =
    translate_binary te TyI32 (icmp I32LeS) (Some (icmp16 I32LeS)) (swap_ops I32GeS)
      (typed_binary I32 (icmp_fn I32LeS)) (same_reg (push_bool True))
      (rhs_is (\<lambda>v. to_i32 v = i32_max) True) (lhs_is (\<lambda>v. to_i32 v = i32_min) True)"

definition visit_i32_le_u :: "('m, 'e) tl_env_scheme \<Rightarrow> ('m, unit) tl" where
  "visit_i32_le_u te =
    translate_binary te TyU32 (icmp I32LeU) (Some (icmp16 I32LeU)) (swap_ops I32GeU)
      (typed_binary I32 (icmp_fn I32LeU)) (same_reg (push_bool True))
      (rhs_is (\<lambda>v. to_i32 v = - 1) True) (lhs_is (\<lambda>v. to_i32 v = 0) True)"

definition visit_i32_ge_s :: "('m, 'e) tl_env_scheme \<Rightarrow> ('m, unit) tl" where
  "visit_i32_ge_s te =
    translate_binary te TyI32 (icmp I32GeS) (Some (icmp16 I32GeS)) (swap_ops I32LeS)
      (typed_binary I32 (icmp_fn I32GeS)) (same_reg (push_bool True))
      (rhs_is (\<lambda>v. to_i32 v = i32_min) True) (lhs_is (\<lambda>v. to_i32 v = i32_max) True)"

definition visit_i32_ge_u :: "('m, 'e) tl_env_scheme \<Rightarrow> ('m, unit) tl" where
  "visit_i32_ge_u te =
    translate_binary te TyU32 (icmp I32GeU) (Some (icmp16 I32GeU)) (swap_ops I32LeU)
      (typed_binary I32 (icmp_fn I32GeU)) (same_reg (push_bool True))
      (rhs_is (\<lambda>v. to_i32 v = 0) True) (lhs_is (\<lambda>v. to_i32 v = - 1) True)"

text \<open>\<open>i32.eqz\<close> is fused into the last instruction, or is \<open>i32.eq\<close> with zero.\<close>

definition visit_i32_eqz :: "('m, 'e) tl_env_scheme \<Rightarrow> ('m, unit) tl" where
  "visit_i32_eqz te =
    bail_unreachable (tbind fuse_i32_eqz (\<lambda>fused.
      if fused then tskip else tseq (tl_push_const (tv_i32 0)) (visit_i32_eq te)))"


section \<open>Comparisons of i64\<close>

definition visit_i64_eq :: "('m, 'e) tl_env_scheme \<Rightarrow> ('m, unit) tl" where
  "visit_i64_eq te =
    translate_binary_commutative te TyI64 (icmp I64Eq) (icmp16 I64Eq) (typed_binary I32 (icmp_fn I64Eq))
      (same_reg (push_bool True)) no_custom_opt"

definition visit_i64_ne :: "('m, 'e) tl_env_scheme \<Rightarrow> ('m, unit) tl" where
  "visit_i64_ne te =
    translate_binary_commutative te TyI64 (icmp I64Ne) (icmp16 I64Ne) (typed_binary I32 (icmp_fn I64Ne))
      (same_reg (push_bool False)) no_custom_opt"

definition visit_i64_lt_s :: "('m, 'e) tl_env_scheme \<Rightarrow> ('m, unit) tl" where
  "visit_i64_lt_s te =
    translate_binary te TyI64 (icmp I64LtS) (Some (icmp16 I64LtS)) (swap_ops I64GtS)
      (typed_binary I32 (icmp_fn I64LtS)) (same_reg (push_bool False))
      (rhs_is (\<lambda>v. to_i64 v = i64_min) False) (lhs_is (\<lambda>v. to_i64 v = i64_max) False)"

definition visit_i64_lt_u :: "('m, 'e) tl_env_scheme \<Rightarrow> ('m, unit) tl" where
  "visit_i64_lt_u te =
    translate_binary te TyU64 (icmp I64LtU) (Some (icmp16 I64LtU)) (swap_ops I64GtU)
      (typed_binary I32 (icmp_fn I64LtU)) (same_reg (push_bool False))
      (rhs_is (\<lambda>v. to_i64 v = 0) False) (lhs_is (\<lambda>v. to_i64 v = - 1) False)"

definition visit_i64_gt_s :: "('m, 'e) tl_env_scheme \<Rightarrow> ('m, unit) tl" where
  "visit_i64_gt_s te =
    translate_binary te TyI64 (icmp I64GtS) (Some (icmp16 I64GtS)) (swap_ops I64LtS)
      (typed_binary I32 (icmp_fn I64GtS)) (same_reg (push_bool False))
      (rhs_is (\<lambda>v. to_i64 v = i64_max) False) (lhs_is (\<lambda>v. to_i64 v = i64_min) False)"

definition visit_i64_gt_u :: "('m, 'e) tl_env_scheme \<Rightarrow> ('m, unit) tl" where
  "visit_i64_gt_u te =
    translate_binary te TyU64 (icmp I64GtU) (Some (icmp16 I64GtU)) (swap_ops I64LtU)
      (typed_binary I32 (icmp_fn I64GtU)) (same_reg (push_bool False))
      (rhs_is (\<lambda>v. to_i64 v = - 1) False) (lhs_is (\<lambda>v. to_i64 v = 0) False)"

definition visit_i64_le_s :: "('m, 'e) tl_env_scheme \<Rightarrow> ('m, unit) tl" where
  "visit_i64_le_s te =
    translate_binary te TyI64 (icmp I64LeS) (Some (icmp16 I64LeS)) (swap_ops I64GeS)
      (typed_binary I32 (icmp_fn I64LeS)) (same_reg (push_bool True))
      (rhs_is (\<lambda>v. to_i64 v = i64_max) True) (lhs_is (\<lambda>v. to_i64 v = i64_min) True)"

definition visit_i64_le_u :: "('m, 'e) tl_env_scheme \<Rightarrow> ('m, unit) tl" where
  "visit_i64_le_u te =
    translate_binary te TyU64 (icmp I64LeU) (Some (icmp16 I64LeU)) (swap_ops I64GeU)
      (typed_binary I32 (icmp_fn I64LeU)) (same_reg (push_bool True))
      (rhs_is (\<lambda>v. to_i64 v = - 1) True) (lhs_is (\<lambda>v. to_i64 v = 0) True)"

definition visit_i64_ge_s :: "('m, 'e) tl_env_scheme \<Rightarrow> ('m, unit) tl" where
  "visit_i64_ge_s te =
    translate_binary te TyI64 (icmp I64GeS) (Some (icmp16 I64GeS)) (swap_ops I64LeS)
      (typed_binary I32 (icmp_fn I64GeS)) (same_reg (push_bool True))
      (rhs_is (\<lambda>v. to_i64 v = i64_min) True) (lhs_is (\<lambda>v. to_i64 v = i64_max) True)"

definition visit_i64_ge_u :: "('m, 'e) tl_env_scheme \<Rightarrow> ('m, unit) tl" where
  "visit_i64_ge_u te =
    translate_binary te TyU64 (icmp I64GeU) (Some (icmp16 I64GeU)) (swap_ops I64LeU)
      (typed_binary I32 (icmp_fn I64GeU)) (same_reg (push_bool True))
      (rhs_is (\<lambda>v. to_i64 v = 0) True) (lhs_is (\<lambda>v. to_i64 v = - 1) True)"

definition visit_i64_eqz :: "('m, 'e) tl_env_scheme \<Rightarrow> ('m, unit) tl" where
  "visit_i64_eqz te =
    bail_unreachable (tseq (tl_push_const (tv_i64 0)) (visit_i64_eq te))"


section \<open>Comparisons of f32\<close>

definition visit_f32_eq :: "('m, 'e) tl_env_scheme \<Rightarrow> ('m, unit) tl" where
  "visit_f32_eq te =
    translate_fbinary_commutative te Width32 (fcmp F32Eq) (typed_binary I32 (fcmp_fn F32Eq))
      no_custom_opt (imm_is (is_nan_val Width32) (\<lambda>_. push_bool False))"

definition visit_f32_ne :: "('m, 'e) tl_env_scheme \<Rightarrow> ('m, unit) tl" where
  "visit_f32_ne te =
    translate_fbinary_commutative te Width32 (fcmp F32Ne) (typed_binary I32 (fcmp_fn F32Ne))
      no_custom_opt (imm_is (is_nan_val Width32) (\<lambda>_. push_bool True))"

definition visit_f32_lt :: "('m, 'e) tl_env_scheme \<Rightarrow> ('m, unit) tl" where
  "visit_f32_lt te =
    translate_fbinary te Width32 (fcmp F32Lt) (typed_binary I32 (fcmp_fn F32Lt)) (same_reg (push_bool False))
      (rhs_is (\<lambda>v. is_nan_val Width32 v \<or> float_is_infinite (to_i32 v) \<and> float_neg (to_i32 v)) False)
      (lhs_is (\<lambda>v. is_nan_val Width32 v \<or> float_is_infinite (to_i32 v) \<and> \<not> float_neg (to_i32 v)) False)"

definition visit_f32_gt :: "('m, 'e) tl_env_scheme \<Rightarrow> ('m, unit) tl" where
  "visit_f32_gt te =
    translate_fbinary te Width32 (fcmp F32Gt) (typed_binary I32 (fcmp_fn F32Gt)) (same_reg (push_bool False))
      (rhs_is (\<lambda>v. is_nan_val Width32 v \<or> float_is_infinite (to_i32 v) \<and> \<not> float_neg (to_i32 v)) False)
      (lhs_is (\<lambda>v. is_nan_val Width32 v \<or> float_is_infinite (to_i32 v) \<and> float_neg (to_i32 v)) False)"

definition visit_f32_le :: "('m, 'e) tl_env_scheme \<Rightarrow> ('m, unit) tl" where
  "visit_f32_le te =
    translate_fbinary te Width32 (fcmp F32Le) (typed_binary I32 (fcmp_fn F32Le)) no_custom_opt
      (rhs_is (is_nan_val Width32) False) (lhs_is (is_nan_val Width32) False)"

definition visit_f32_ge :: "('m, 'e) tl_env_scheme \<Rightarrow> ('m, unit) tl" where
  "visit_f32_ge te =
    translate_fbinary te Width32 (fcmp F32Ge) (typed_binary I32 (fcmp_fn F32Ge)) no_custom_opt
      (rhs_is (is_nan_val Width32) False) (lhs_is (is_nan_val Width32) False)"


section \<open>Comparisons of f64\<close>

definition visit_f64_eq :: "('m, 'e) tl_env_scheme \<Rightarrow> ('m, unit) tl" where
  "visit_f64_eq te =
    translate_fbinary_commutative te Width64 (fcmp F64Eq) (typed_binary I32 (fcmp_fn F64Eq))
      no_custom_opt (imm_is (is_nan_val Width64) (\<lambda>_. push_bool False))"

definition visit_f64_ne :: "('m, 'e) tl_env_scheme \<Rightarrow> ('m, unit) tl" where
  "visit_f64_ne te =
    translate_fbinary_commutative te Width64 (fcmp F64Ne) (typed_binary I32 (fcmp_fn F64Ne))
      no_custom_opt (imm_is (is_nan_val Width64) (\<lambda>_. push_bool True))"

definition visit_f64_lt :: "('m, 'e) tl_env_scheme \<Rightarrow> ('m, unit) tl" where
  "visit_f64_lt te =
    translate_fbinary te Width64 (fcmp F64Lt) (typed_binary I32 (fcmp_fn F64Lt)) (same_reg (push_bool False))
      (rhs_is (\<lambda>v. is_nan_val Width64 v \<or> float_is_infinite (to_i64 v) \<and> float_neg (to_i64 v)) False)
      (lhs_is (\<lambda>v. is_nan_val Width64 v \<or> float_is_infinite (to_i64 v) \<and> \<not> float_neg (to_i64 v)) False)"

definition visit_f64_gt :: "('m, 'e) tl_env_scheme \<Rightarrow> ('m, unit) tl" where
  "visit_f64_gt te =
    translate_fbinary te Width64 (fcmp F64Gt) (typed_binary I32 (fcmp_fn F64Gt)) (same_reg (push_bool False))
      (rhs_is (\<lambda>v. is_nan_val Width64 v \<or> float_is_infinite (to_i64 v) \<and> \<not> float_neg (to_i64 v)) False)
      (lhs_is (\<lambda>v. is_nan_val Width64 v \<or> float_is_infinite (to_i64 v) \<and> float_neg (to_i64 v)) False)"

definition visit_f64_le :: "('m, 'e) tl_env_scheme \<Rightarrow> ('m, unit) tl" where
  "visit_f64_le te =
    translate_fbinary te Width64 (fcmp F64Le) (typed_binary I32 (fcmp_fn F64Le)) no_custom_opt
      (rhs_is (is_nan_val Width64) False) (lhs_is (is_nan_val Width64) False)"

definition visit_f64_ge :: "('m, 'e) tl_env_scheme \<Rightarrow> ('m, unit) tl" where
  "visit_f64_ge te =
    translate_fbinary te Width64 (fcmp F64Ge) (typed_binary I32 (fcmp_fn F64Ge)) no_custom_opt
      (rhs_is (is_nan_val Width64) False) (lhs_is (is_nan_val Width64) False)"


section \<open>Arithmetic of i32\<close>

definition visit_i32_add :: "('m, 'e) tl_env_scheme \<Rightarrow> ('m, unit) tl" where
  "visit_i32_add te =
    translate_binary_commutative te TyI32 (comm I32Add) (comm16 I32Add) (typed_binary I32 (comm_fn I32Add))
      no_custom_opt
      (imm_is (\<lambda>v. to_i32 v = 0) (tl_push_register te))"

text \<open>\<open>i32.sub r c\<close> is \<open>i32.add r -c\<close>, so the instruction with a constant on the right is never asked for.\<close>

definition visit_i32_sub :: "('m, 'e) tl_env_scheme \<Rightarrow> ('m, unit) tl" where
  "visit_i32_sub te =
    translate_binary te TyI32 (sub_instr I32Sub) None (sub16_lhs I32Sub) (typed_binary I32 (sub_fn I32Sub))
      (same_reg (tl_push_const (tv_i32 0)))
      (\<lambda>lhs rhs.
        try_opts (opt_when (to_i32 rhs = 0) (tl_push_register te lhs))
          (try_opts (try_push_binary_instr_imm16 te TyI32 lhs (of_i32 (- to_i32 rhs)) (comm16 I32Add))
            (tseq (push_binary_instr_imm te lhs (of_i32 (- to_i32 rhs)) (comm I32Add)) (tret True))))
      no_custom_opt"

definition visit_i32_mul :: "('m, 'e) tl_env_scheme \<Rightarrow> ('m, unit) tl" where
  "visit_i32_mul te =
    translate_binary_commutative te TyI32 (comm I32Mul) (comm16 I32Mul) (typed_binary I32 (comm_fn I32Mul))
      no_custom_opt
      (\<lambda>r v. try_opts (imm_is (\<lambda>v. to_i32 v = 0) (\<lambda>_. tl_push_const (tv_i32 0)) r v)
        (imm_is (\<lambda>v. to_i32 v = 1) (tl_push_register te) r v))"

definition visit_i32_div_s :: "('m, 'e) tl_env_scheme \<Rightarrow> ('m, unit) tl" where
  "visit_i32_div_s te =
    translate_divrem te TyI32 (divrem I32DivS) (divrem16_rhs I32DivS) (divrem16_lhs I32DivS)
      (typed_try_binary I32 (divrem_fn I32DivS)) no_custom_opt
      (imm_is (\<lambda>v. to_i32 v = 1) (tl_push_register te))"

definition visit_i32_div_u :: "('m, 'e) tl_env_scheme \<Rightarrow> ('m, unit) tl" where
  "visit_i32_div_u te =
    translate_divrem te TyU32 (divrem I32DivU) (divrem16_rhs I32DivU) (divrem16_lhs I32DivU)
      (typed_try_binary I32 (divrem_fn I32DivU)) no_custom_opt
      (imm_is (\<lambda>v. to_i32 v = 1) (tl_push_register te))"

definition visit_i32_rem_s :: "('m, 'e) tl_env_scheme \<Rightarrow> ('m, unit) tl" where
  "visit_i32_rem_s te =
    translate_divrem te TyI32 (divrem I32RemS) (divrem16_rhs I32RemS) (divrem16_lhs I32RemS)
      (typed_try_binary I32 (divrem_fn I32RemS)) no_custom_opt
      (imm_is (\<lambda>v. to_i32 v = 1 \<or> to_i32 v = - 1) (\<lambda>_. tl_push_const (tv_i32 0)))"

definition visit_i32_rem_u :: "('m, 'e) tl_env_scheme \<Rightarrow> ('m, unit) tl" where
  "visit_i32_rem_u te =
    translate_divrem te TyU32 (divrem I32RemU) (divrem16_rhs I32RemU) (divrem16_lhs I32RemU)
      (typed_try_binary I32 (divrem_fn I32RemU)) no_custom_opt
      (imm_is (\<lambda>v. to_i32 v = 1) (\<lambda>_. tl_push_const (tv_i32 0)))"

definition visit_i32_and :: "('m, 'e) tl_env_scheme \<Rightarrow> ('m, unit) tl" where
  "visit_i32_and te =
    translate_binary_commutative te TyI32 (comm I32And) (comm16 I32And) (typed_binary I32 (comm_fn I32And))
      (\<lambda>lhs rhs. same_reg (tl_push_register te lhs) lhs rhs)
      (\<lambda>r v. try_opts (imm_is (\<lambda>v. to_i32 v = - 1) (tl_push_register te) r v) (imm_is (\<lambda>v. to_i32 v = 0) (\<lambda>_. tl_push_const (tv_i32 0)) r v))"

definition visit_i32_or :: "('m, 'e) tl_env_scheme \<Rightarrow> ('m, unit) tl" where
  "visit_i32_or te =
    translate_binary_commutative te TyI32 (comm I32Or) (comm16 I32Or) (typed_binary I32 (comm_fn I32Or))
      (\<lambda>lhs rhs. same_reg (tl_push_register te lhs) lhs rhs)
      (\<lambda>r v. try_opts (imm_is (\<lambda>v. to_i32 v = - 1) (\<lambda>_. tl_push_const (tv_i32 (- 1))) r v) (imm_is (\<lambda>v. to_i32 v = 0) (tl_push_register te) r v))"

definition visit_i32_xor :: "('m, 'e) tl_env_scheme \<Rightarrow> ('m, unit) tl" where
  "visit_i32_xor te =
    translate_binary_commutative te TyI32 (comm I32Xor) (comm16 I32Xor) (typed_binary I32 (comm_fn I32Xor))
      (same_reg (tl_push_const (tv_i32 0)))
      (imm_is (\<lambda>v. to_i32 v = 0) (tl_push_register te))"

definition visit_i32_shl :: "('m, 'e) tl_env_scheme \<Rightarrow> ('m, unit) tl" where
  "visit_i32_shl te =
    translate_shift te TyI32 (shift_instr I32Shl) (shift_by I32Shl) (shift16 I32Shl) (typed_binary I32 (shift_fn I32Shl))
      no_custom_opt"

definition visit_i32_shr_s :: "('m, 'e) tl_env_scheme \<Rightarrow> ('m, unit) tl" where
  "visit_i32_shr_s te =
    translate_shift te TyI32 (shift_instr I32ShrS) (shift_by I32ShrS) (shift16 I32ShrS) (typed_binary I32 (shift_fn I32ShrS))
      (\<lambda>lhs _. opt_when (to_i32 lhs = - 1) (tl_push_const (tv_i32 (to_i32 lhs))))"

definition visit_i32_shr_u :: "('m, 'e) tl_env_scheme \<Rightarrow> ('m, unit) tl" where
  "visit_i32_shr_u te =
    translate_shift te TyI32 (shift_instr I32ShrU) (shift_by I32ShrU) (shift16 I32ShrU) (typed_binary I32 (shift_fn I32ShrU))
      no_custom_opt"

definition visit_i32_rotl :: "('m, 'e) tl_env_scheme \<Rightarrow> ('m, unit) tl" where
  "visit_i32_rotl te =
    translate_shift te TyI32 (shift_instr I32Rotl) (shift_by I32Rotl) (shift16 I32Rotl) (typed_binary I32 (shift_fn I32Rotl))
      (\<lambda>lhs _. opt_when (to_i32 lhs = - 1) (tl_push_const (tv_i32 (to_i32 lhs))))"

definition visit_i32_rotr :: "('m, 'e) tl_env_scheme \<Rightarrow> ('m, unit) tl" where
  "visit_i32_rotr te =
    translate_shift te TyI32 (shift_instr I32Rotr) (shift_by I32Rotr) (shift16 I32Rotr) (typed_binary I32 (shift_fn I32Rotr))
      (\<lambda>lhs _. opt_when (to_i32 lhs = - 1) (tl_push_const (tv_i32 (to_i32 lhs))))"


section \<open>Arithmetic of i64\<close>

definition visit_i64_add :: "('m, 'e) tl_env_scheme \<Rightarrow> ('m, unit) tl" where
  "visit_i64_add te =
    translate_binary_commutative te TyI64 (comm I64Add) (comm16 I64Add) (typed_binary I64 (comm_fn I64Add))
      no_custom_opt
      (imm_is (\<lambda>v. to_i64 v = 0) (tl_push_register te))"

text \<open>\<open>i64.sub r c\<close> is \<open>i64.add r -c\<close>, so the instruction with a constant on the right is never asked for.\<close>

definition visit_i64_sub :: "('m, 'e) tl_env_scheme \<Rightarrow> ('m, unit) tl" where
  "visit_i64_sub te =
    translate_binary te TyI64 (sub_instr I64Sub) None (sub16_lhs I64Sub) (typed_binary I64 (sub_fn I64Sub))
      (same_reg (tl_push_const (tv_i64 0)))
      (\<lambda>lhs rhs.
        try_opts (opt_when (to_i64 rhs = 0) (tl_push_register te lhs))
          (try_opts (try_push_binary_instr_imm16 te TyI64 lhs (of_i64 (- to_i64 rhs)) (comm16 I64Add))
            (tseq (push_binary_instr_imm te lhs (of_i64 (- to_i64 rhs)) (comm I64Add)) (tret True))))
      no_custom_opt"

definition visit_i64_mul :: "('m, 'e) tl_env_scheme \<Rightarrow> ('m, unit) tl" where
  "visit_i64_mul te =
    translate_binary_commutative te TyI64 (comm I64Mul) (comm16 I64Mul) (typed_binary I64 (comm_fn I64Mul))
      no_custom_opt
      (\<lambda>r v. try_opts (imm_is (\<lambda>v. to_i64 v = 0) (\<lambda>_. tl_push_const (tv_i64 0)) r v)
        (imm_is (\<lambda>v. to_i64 v = 1) (tl_push_register te) r v))"

definition visit_i64_div_s :: "('m, 'e) tl_env_scheme \<Rightarrow> ('m, unit) tl" where
  "visit_i64_div_s te =
    translate_divrem te TyI64 (divrem I64DivS) (divrem16_rhs I64DivS) (divrem16_lhs I64DivS)
      (typed_try_binary I64 (divrem_fn I64DivS)) no_custom_opt
      (imm_is (\<lambda>v. to_i64 v = 1) (tl_push_register te))"

definition visit_i64_div_u :: "('m, 'e) tl_env_scheme \<Rightarrow> ('m, unit) tl" where
  "visit_i64_div_u te =
    translate_divrem te TyU64 (divrem I64DivU) (divrem16_rhs I64DivU) (divrem16_lhs I64DivU)
      (typed_try_binary I64 (divrem_fn I64DivU)) no_custom_opt
      (imm_is (\<lambda>v. to_i64 v = 1) (tl_push_register te))"

definition visit_i64_rem_s :: "('m, 'e) tl_env_scheme \<Rightarrow> ('m, unit) tl" where
  "visit_i64_rem_s te =
    translate_divrem te TyI64 (divrem I64RemS) (divrem16_rhs I64RemS) (divrem16_lhs I64RemS)
      (typed_try_binary I64 (divrem_fn I64RemS)) no_custom_opt
      (imm_is (\<lambda>v. to_i64 v = 1 \<or> to_i64 v = - 1) (\<lambda>_. tl_push_const (tv_i64 0)))"

definition visit_i64_rem_u :: "('m, 'e) tl_env_scheme \<Rightarrow> ('m, unit) tl" where
  "visit_i64_rem_u te =
    translate_divrem te TyU64 (divrem I64RemU) (divrem16_rhs I64RemU) (divrem16_lhs I64RemU)
      (typed_try_binary I64 (divrem_fn I64RemU)) no_custom_opt
      (imm_is (\<lambda>v. to_i64 v = 1) (\<lambda>_. tl_push_const (tv_i64 0)))"

definition visit_i64_and :: "('m, 'e) tl_env_scheme \<Rightarrow> ('m, unit) tl" where
  "visit_i64_and te =
    translate_binary_commutative te TyI64 (comm I64And) (comm16 I64And) (typed_binary I64 (comm_fn I64And))
      (\<lambda>lhs rhs. same_reg (tl_push_register te lhs) lhs rhs)
      (\<lambda>r v. try_opts (imm_is (\<lambda>v. to_i64 v = - 1) (tl_push_register te) r v) (imm_is (\<lambda>v. to_i64 v = 0) (\<lambda>_. tl_push_const (tv_i64 0)) r v))"

definition visit_i64_or :: "('m, 'e) tl_env_scheme \<Rightarrow> ('m, unit) tl" where
  "visit_i64_or te =
    translate_binary_commutative te TyI64 (comm I64Or) (comm16 I64Or) (typed_binary I64 (comm_fn I64Or))
      (\<lambda>lhs rhs. same_reg (tl_push_register te lhs) lhs rhs)
      (\<lambda>r v. try_opts (imm_is (\<lambda>v. to_i64 v = - 1) (\<lambda>_. tl_push_const (tv_i64 (- 1))) r v) (imm_is (\<lambda>v. to_i64 v = 0) (tl_push_register te) r v))"

definition visit_i64_xor :: "('m, 'e) tl_env_scheme \<Rightarrow> ('m, unit) tl" where
  "visit_i64_xor te =
    translate_binary_commutative te TyI64 (comm I64Xor) (comm16 I64Xor) (typed_binary I64 (comm_fn I64Xor))
      (same_reg (tl_push_const (tv_i64 0)))
      (imm_is (\<lambda>v. to_i64 v = 0) (tl_push_register te))"

definition visit_i64_shl :: "('m, 'e) tl_env_scheme \<Rightarrow> ('m, unit) tl" where
  "visit_i64_shl te =
    translate_shift te TyI64 (shift_instr I64Shl) (shift_by I64Shl) (shift16 I64Shl) (typed_binary I64 (shift_fn I64Shl))
      no_custom_opt"

definition visit_i64_shr_s :: "('m, 'e) tl_env_scheme \<Rightarrow> ('m, unit) tl" where
  "visit_i64_shr_s te =
    translate_shift te TyI64 (shift_instr I64ShrS) (shift_by I64ShrS) (shift16 I64ShrS) (typed_binary I64 (shift_fn I64ShrS))
      (\<lambda>lhs _. opt_when (to_i64 lhs = - 1) (tl_push_const (tv_i64 (to_i64 lhs))))"

definition visit_i64_shr_u :: "('m, 'e) tl_env_scheme \<Rightarrow> ('m, unit) tl" where
  "visit_i64_shr_u te =
    translate_shift te TyI64 (shift_instr I64ShrU) (shift_by I64ShrU) (shift16 I64ShrU) (typed_binary I64 (shift_fn I64ShrU))
      no_custom_opt"

definition visit_i64_rotl :: "('m, 'e) tl_env_scheme \<Rightarrow> ('m, unit) tl" where
  "visit_i64_rotl te =
    translate_shift te TyI64 (shift_instr I64Rotl) (shift_by I64Rotl) (shift16 I64Rotl) (typed_binary I64 (shift_fn I64Rotl))
      (\<lambda>lhs _. opt_when (to_i64 lhs = - 1) (tl_push_const (tv_i64 (to_i64 lhs))))"

definition visit_i64_rotr :: "('m, 'e) tl_env_scheme \<Rightarrow> ('m, unit) tl" where
  "visit_i64_rotr te =
    translate_shift te TyI64 (shift_instr I64Rotr) (shift_by I64Rotr) (shift16 I64Rotr) (typed_binary I64 (shift_fn I64Rotr))
      (\<lambda>lhs _. opt_when (to_i64 lhs = - 1) (tl_push_const (tv_i64 (to_i64 lhs))))"


section \<open>Arithmetic of f32\<close>

definition visit_f32_add :: "('m, 'e) tl_env_scheme \<Rightarrow> ('m, unit) tl" where
  "visit_f32_add te =
    translate_fbinary_commutative te Width32 (fbin F32Add) (typed_binary F32 (fbin_fn F32Add (te_nan te)))
      no_custom_opt no_custom_opt"

definition visit_f32_sub :: "('m, 'e) tl_env_scheme \<Rightarrow> ('m, unit) tl" where
  "visit_f32_sub te =
    translate_fbinary te Width32 (fbin F32Sub) (typed_binary F32 (fbin_fn F32Sub (te_nan te)))
      no_custom_opt no_custom_opt no_custom_opt"

definition visit_f32_mul :: "('m, 'e) tl_env_scheme \<Rightarrow> ('m, unit) tl" where
  "visit_f32_mul te =
    translate_fbinary_commutative te Width32 (fbin F32Mul) (typed_binary F32 (fbin_fn F32Mul (te_nan te)))
      no_custom_opt no_custom_opt"

definition visit_f32_div :: "('m, 'e) tl_env_scheme \<Rightarrow> ('m, unit) tl" where
  "visit_f32_div te =
    translate_fbinary te Width32 (fbin F32Div) (typed_binary F32 (fbin_fn F32Div (te_nan te)))
      no_custom_opt no_custom_opt no_custom_opt"

definition visit_f32_min :: "('m, 'e) tl_env_scheme \<Rightarrow> ('m, unit) tl" where
  "visit_f32_min te =
    translate_fbinary_commutative te Width32 (fbin F32Min) (typed_binary F32 (fbin_fn F32Min (te_nan te)))
      no_custom_opt (imm_is (\<lambda>v. float_is_infinite (to_i32 v) \<and> \<not> float_neg (to_i32 v)) (tl_push_register te))"

definition visit_f32_max :: "('m, 'e) tl_env_scheme \<Rightarrow> ('m, unit) tl" where
  "visit_f32_max te =
    translate_fbinary_commutative te Width32 (fbin F32Max) (typed_binary F32 (fbin_fn F32Max (te_nan te)))
      no_custom_opt (imm_is (\<lambda>v. float_is_infinite (to_i32 v) \<and> float_neg (to_i32 v)) (tl_push_register te))"

definition visit_f32_copysign :: "('m, 'e) tl_env_scheme \<Rightarrow> ('m, unit) tl" where
  "visit_f32_copysign te =
    translate_fcopysign te Width32 (fbin F32Copysign) (\<lambda>r a neg. INum (ICopysignImm Width32 r a neg)) (typed_binary F32 (fbin_fn F32Copysign (te_nan te)))"


section \<open>Arithmetic of f64\<close>

definition visit_f64_add :: "('m, 'e) tl_env_scheme \<Rightarrow> ('m, unit) tl" where
  "visit_f64_add te =
    translate_fbinary_commutative te Width64 (fbin F64Add) (typed_binary F64 (fbin_fn F64Add (te_nan te)))
      no_custom_opt no_custom_opt"

definition visit_f64_sub :: "('m, 'e) tl_env_scheme \<Rightarrow> ('m, unit) tl" where
  "visit_f64_sub te =
    translate_fbinary te Width64 (fbin F64Sub) (typed_binary F64 (fbin_fn F64Sub (te_nan te)))
      no_custom_opt no_custom_opt no_custom_opt"

definition visit_f64_mul :: "('m, 'e) tl_env_scheme \<Rightarrow> ('m, unit) tl" where
  "visit_f64_mul te =
    translate_fbinary_commutative te Width64 (fbin F64Mul) (typed_binary F64 (fbin_fn F64Mul (te_nan te)))
      no_custom_opt no_custom_opt"

definition visit_f64_div :: "('m, 'e) tl_env_scheme \<Rightarrow> ('m, unit) tl" where
  "visit_f64_div te =
    translate_fbinary te Width64 (fbin F64Div) (typed_binary F64 (fbin_fn F64Div (te_nan te)))
      no_custom_opt no_custom_opt no_custom_opt"

definition visit_f64_min :: "('m, 'e) tl_env_scheme \<Rightarrow> ('m, unit) tl" where
  "visit_f64_min te =
    translate_fbinary_commutative te Width64 (fbin F64Min) (typed_binary F64 (fbin_fn F64Min (te_nan te)))
      no_custom_opt (imm_is (\<lambda>v. float_is_infinite (to_i64 v) \<and> \<not> float_neg (to_i64 v)) (tl_push_register te))"

definition visit_f64_max :: "('m, 'e) tl_env_scheme \<Rightarrow> ('m, unit) tl" where
  "visit_f64_max te =
    translate_fbinary_commutative te Width64 (fbin F64Max) (typed_binary F64 (fbin_fn F64Max (te_nan te)))
      no_custom_opt (imm_is (\<lambda>v. float_is_infinite (to_i64 v) \<and> float_neg (to_i64 v)) (tl_push_register te))"

definition visit_f64_copysign :: "('m, 'e) tl_env_scheme \<Rightarrow> ('m, unit) tl" where
  "visit_f64_copysign te =
    translate_fcopysign te Width64 (fbin F64Copysign) (\<lambda>r a neg. INum (ICopysignImm Width64 r a neg)) (typed_binary F64 (fbin_fn F64Copysign (te_nan te)))"


section \<open>Unary operators and conversions\<close>

primrec unary_result :: "unary_op \<Rightarrow> val_type" where
  "unary_result I32Clz = I32"
| "unary_result I32Ctz = I32"
| "unary_result I32Popcnt = I32"
| "unary_result I64Clz = I64"
| "unary_result I64Ctz = I64"
| "unary_result I64Popcnt = I64"
| "unary_result F32Abs = F32"
| "unary_result F32Neg = F32"
| "unary_result F32Ceil = F32"
| "unary_result F32Floor = F32"
| "unary_result F32Trunc = F32"
| "unary_result F32Nearest = F32"
| "unary_result F32Sqrt = F32"
| "unary_result F64Abs = F64"
| "unary_result F64Neg = F64"
| "unary_result F64Ceil = F64"
| "unary_result F64Floor = F64"
| "unary_result F64Trunc = F64"
| "unary_result F64Nearest = F64"
| "unary_result F64Sqrt = F64"

primrec conv_result :: "conv_op \<Rightarrow> val_type" where
  "conv_result I32WrapI64 = I32"
| "conv_result I32TruncSatF32S = I32"
| "conv_result I32TruncSatF32U = I32"
| "conv_result I32TruncSatF64S = I32"
| "conv_result I32TruncSatF64U = I32"
| "conv_result I64TruncSatF32S = I64"
| "conv_result I64TruncSatF32U = I64"
| "conv_result I64TruncSatF64S = I64"
| "conv_result I64TruncSatF64U = I64"
| "conv_result I32Extend8S = I32"
| "conv_result I32Extend16S = I32"
| "conv_result I64Extend8S = I64"
| "conv_result I64Extend16S = I64"
| "conv_result I64Extend32S = I64"
| "conv_result F32DemoteF64 = F32"
| "conv_result F64PromoteF32 = F64"
| "conv_result F32ConvertI32S = F32"
| "conv_result F32ConvertI32U = F32"
| "conv_result F32ConvertI64S = F32"
| "conv_result F32ConvertI64U = F32"
| "conv_result F64ConvertI32S = F64"
| "conv_result F64ConvertI32U = F64"
| "conv_result F64ConvertI64S = F64"
| "conv_result F64ConvertI64U = F64"

primrec trunc_result :: "trunc_op \<Rightarrow> val_type" where
  "trunc_result I32TruncF32S = I32"
| "trunc_result I32TruncF32U = I32"
| "trunc_result I32TruncF64S = I32"
| "trunc_result I32TruncF64U = I32"
| "trunc_result I64TruncF32S = I64"
| "trunc_result I64TruncF32U = I64"
| "trunc_result I64TruncF64S = I64"
| "trunc_result I64TruncF64U = I64"

definition visit_unary :: "('m, 'e) tl_env_scheme \<Rightarrow> unary_op \<Rightarrow> ('m, unit) tl" where
  "visit_unary te op =
    translate_unary te (\<lambda>r a. INum (IUnary op r a)) (typed_unary (unary_result op) (unary_fn op (te_nan te)))"

definition visit_conv :: "('m, 'e) tl_env_scheme \<Rightarrow> conv_op \<Rightarrow> ('m, unit) tl" where
  "visit_conv te op =
    translate_unary te (\<lambda>r a. INum (IConv op r a)) (typed_unary (conv_result op) (conv_fn op (te_nan te)))"

definition visit_trunc :: "('m, 'e) tl_env_scheme \<Rightarrow> trunc_op \<Rightarrow> ('m, unit) tl" where
  "visit_trunc te op =
    translate_unary_fallible te (\<lambda>r a. INum (ITruncTo op r a)) (typed_try_unary (trunc_result op) (trunc_fn op))"

text \<open>A register is extended by the instruction for the low 32 bits.\<close>

definition visit_i64_extend_i32_s :: "('m, 'e) tl_env_scheme \<Rightarrow> ('m, unit) tl" where
  "visit_i64_extend_i32_s te =
    translate_unary te (\<lambda>r a. INum (IConv I64Extend32S r a)) (typed_unary I64 i64_extend_i32_s)"

definition visit_i64_extend_i32_u :: "('m, 'e) tl_env_scheme \<Rightarrow> ('m, unit) tl" where
  "visit_i64_extend_i32_u te = translate_i64_extend_i32_u te"

definition visit_i32_reinterpret_f32 :: "('m, 'e) tl_env_scheme \<Rightarrow> ('m, unit) tl" where
  "visit_i32_reinterpret_f32 te = translate_reinterpret te I32"

definition visit_i64_reinterpret_f64 :: "('m, 'e) tl_env_scheme \<Rightarrow> ('m, unit) tl" where
  "visit_i64_reinterpret_f64 te = translate_reinterpret te I64"

definition visit_f32_reinterpret_i32 :: "('m, 'e) tl_env_scheme \<Rightarrow> ('m, unit) tl" where
  "visit_f32_reinterpret_i32 te = translate_reinterpret te F32"

definition visit_f64_reinterpret_i64 :: "('m, 'e) tl_env_scheme \<Rightarrow> ('m, unit) tl" where
  "visit_f64_reinterpret_i64 te = translate_reinterpret te F64"

end
