(* ===== verification/Tr_Visit.thy ===== *)
theory Tr_Visit
  imports Tr_Visit_Num
begin

text \<open>
  The operators of \<open>translator/visit.rs\<close> that are not numeric, with what they use of
  \<open>translator/mod.rs\<close>: memory accesses, select, locals and globals, blocks and branches, calls,
  memories and tables. The costs of loads, stores, entities and calls are all the base costs
  (\<open>engine/config.rs\<close>).
\<close>


section \<open>Loads and stores\<close>

record memarg =
  ma_memory :: nat
  ma_offset :: u64

definition decode_memarg :: "memarg \<Rightarrow> tr_error + (nat \<times> u32)" where
  "decode_memarg m = (if 2 ^ 32 \<le> unat (ma_offset m) then Inl TPanic else Inr (ma_memory m, ucast (ma_offset m)))"

definition tl_effective_address :: "u32 \<Rightarrow> u32 \<Rightarrow> u32 option" where
  "tl_effective_address ptr offset = (if 2 ^ 32 \<le> unat ptr + unat offset then None else Some (ptr + offset))"

definition append_memory_index :: "nat \<Rightarrow> ('m, unit) tl" where
  "append_memory_index memory = (if memory = 0 then tskip else append_word (IMemoryIndex memory))"

definition translate_load :: "('m, 'e) tl_env_scheme \<Rightarrow> load_op \<Rightarrow> memarg \<Rightarrow> ('m, unit) tl" where
  "translate_load te op m = bail_unreachable (
    tbind (tlift (decode_memarg m)) (\<lambda>(memory, offset).
    tbind (tl_pop te) (\<lambda>ptr.
    case ptr of
      ProvConst ptr \<Rightarrow>
        (case tl_effective_address (to_i32 (tv_value ptr)) offset of
           None \<Rightarrow> translate_trap te MemoryOutOfBounds
         | Some address \<Rightarrow>
             tbind tl_push_dynamic (\<lambda>result.
             tseq (emit te (ILd (ILoadAt op result address))) (append_memory_index memory)))
    | ProvReg ptr \<Rightarrow>
        tbind tl_push_dynamic (\<lambda>result.
        case (if memory = 0 then const16_of_u32 offset else None) of
          Some offset \<Rightarrow> emit te (ILd (ILoadOffset16 op result ptr offset))
        | None \<Rightarrow>
            tseq (emit te (ILd (ILoad op result memory))) (append_word (IRegisterAndImm32 ptr offset))))))"

definition visit_load_op :: "('m, 'e) tl_env_scheme \<Rightarrow> load_op \<Rightarrow> memarg \<Rightarrow> ('m, unit) tl" where
  "visit_load_op te op m = translate_load te op m"

text \<open>\<open>Field::try_from(Src::from(value).wrap())\<close> of the store instruction, as the bits of a 16-bit constant.\<close>

primrec store_field :: "istore_op \<Rightarrow> untyped_val \<Rightarrow> u16 option" where
  "store_field I32Store v = const16_of_i32 (to_i32 v)"
| "store_field I64Store v = const16_of_i64 (to_i64 v)"
| "store_field I32Store8 v = Some (scast (ucast (to_i32 v) :: 8 word))"
| "store_field I32Store16 v = Some (ucast (to_i32 v))"
| "store_field I64Store8 v = Some (scast (ucast (to_i64 v) :: 8 word))"
| "store_field I64Store16 v = Some (ucast (to_i64 v))"
| "store_field I64Store32 v = const16_of_i32 (ucast (to_i64 v))"

definition translate_istore_wrap_at ::
  "('m, 'e) tl_env_scheme \<Rightarrow> istore_op \<Rightarrow> nat \<Rightarrow> u32 \<Rightarrow> u32 \<Rightarrow> typed_provider \<Rightarrow> ('m, unit) tl" where
  "translate_istore_wrap_at te op memory ptr offset v =
    (case tl_effective_address ptr offset of
       None \<Rightarrow> translate_trap te MemoryOutOfBounds
     | Some address \<Rightarrow>
         tseq
           (case v of
              ProvReg r \<Rightarrow> emit te (ISt (IStoreAt (IntStore op) r address))
            | ProvConst v \<Rightarrow>
                (case store_field op (tv_value v) of
                   Some c \<Rightarrow> emit te (ISt (IStoreAtImm op c address))
                 | None \<Rightarrow>
                     tbind (tl_alloc_const (tv_value v)) (\<lambda>r. emit te (ISt (IStoreAt (IntStore op) r address)))))
           (append_memory_index memory))"

definition translate_istore_wrap_mem0 ::
  "('m, 'e) tl_env_scheme \<Rightarrow> istore_op \<Rightarrow> reg \<Rightarrow> u16 \<Rightarrow> typed_provider \<Rightarrow> ('m, unit) tl" where
  "translate_istore_wrap_mem0 te op ptr offset16 v =
    (case v of
       ProvReg r \<Rightarrow> emit te (ISt (IStoreOffset16 (IntStore op) ptr offset16 r))
     | ProvConst v \<Rightarrow>
         (case store_field op (tv_value v) of
            Some c \<Rightarrow> emit te (ISt (IStoreOffset16Imm op ptr offset16 c))
          | None \<Rightarrow>
              tbind (tl_alloc_const (tv_value v)) (\<lambda>r. emit te (ISt (IStoreOffset16 (IntStore op) ptr offset16 r)))))"

definition translate_istore_wrap :: "('m, 'e) tl_env_scheme \<Rightarrow> istore_op \<Rightarrow> memarg \<Rightarrow> ('m, unit) tl" where
  "translate_istore_wrap te op m = bail_unreachable (
    tbind (tlift (decode_memarg m)) (\<lambda>(memory, offset).
    tbind (tl_pop2 te) (\<lambda>(ptr, v).
    case ptr of
      ProvConst ptr \<Rightarrow> translate_istore_wrap_at te op memory (to_i32 (tv_value ptr)) offset v
    | ProvReg ptr \<Rightarrow>
        (case (if memory = 0 then const16_of_u32 offset else None) of
           Some offset16 \<Rightarrow> translate_istore_wrap_mem0 te op ptr offset16 v
         | None \<Rightarrow>
             tbind
               (case v of
                  ProvReg r \<Rightarrow> tret (IStore (IntStore op) ptr memory, IRegisterAndImm32 r offset)
                | ProvConst v \<Rightarrow>
                    (case store_field op (tv_value v) of
                       Some c \<Rightarrow> tret (IStoreImm op ptr memory, IImm16AndImm32 c offset)
                     | None \<Rightarrow>
                         tbind (tl_alloc_const (tv_value v)) (\<lambda>r.
                         tret (IStore (IntStore op) ptr memory, IRegisterAndImm32 r offset))))
               (\<lambda>(instr, param). tseq (emit te (ISt instr)) (append_word param))))))"

definition visit_istore :: "('m, 'e) tl_env_scheme \<Rightarrow> istore_op \<Rightarrow> memarg \<Rightarrow> ('m, unit) tl" where
  "visit_istore te op m = translate_istore_wrap te op m"

definition tl_provider2reg :: "typed_provider \<Rightarrow> ('m, reg) tl" where
  "tl_provider2reg p = provider2reg p"

definition translate_fstore_at ::
  "('m, 'e) tl_env_scheme \<Rightarrow> fstore_op \<Rightarrow> nat \<Rightarrow> u32 \<Rightarrow> u32 \<Rightarrow> typed_provider \<Rightarrow> ('m, unit) tl" where
  "translate_fstore_at te op memory ptr offset v =
    (case tl_effective_address ptr offset of
       None \<Rightarrow> translate_trap te MemoryOutOfBounds
     | Some address \<Rightarrow>
         tbind (tl_provider2reg v) (\<lambda>r.
         tseq (emit te (ISt (IStoreAt (FloatStore op) r address))) (append_memory_index memory)))"

definition translate_fstore :: "('m, 'e) tl_env_scheme \<Rightarrow> fstore_op \<Rightarrow> memarg \<Rightarrow> ('m, unit) tl" where
  "translate_fstore te op m = bail_unreachable (
    tbind (tlift (decode_memarg m)) (\<lambda>(memory, offset).
    tbind (tl_pop2 te) (\<lambda>(ptr, v).
    case ptr of
      ProvConst ptr \<Rightarrow> translate_fstore_at te op memory (to_i32 (tv_value ptr)) offset v
    | ProvReg ptr \<Rightarrow>
        tbind (tl_provider2reg v) (\<lambda>r.
        case (if memory = 0 then const16_of_u32 offset else None) of
          Some offset16 \<Rightarrow> emit te (ISt (IStoreOffset16 (FloatStore op) ptr offset16 r))
        | None \<Rightarrow>
            tseq (emit te (ISt (IStore (FloatStore op) ptr memory))) (append_word (IRegisterAndImm32 r offset))))))"

definition visit_fstore :: "('m, 'e) tl_env_scheme \<Rightarrow> fstore_op \<Rightarrow> memarg \<Rightarrow> ('m, unit) tl" where
  "visit_fstore te op m = translate_fstore te op m"


section \<open>Select\<close>

definition translate_select_regs :: "('m, 'e) tl_env_scheme \<Rightarrow> reg \<Rightarrow> reg \<Rightarrow> reg \<Rightarrow> reg \<Rightarrow> ('m, unit) tl" where
  "translate_select_regs te result condition lhs rhs =
    tseq (emit te (ISel (ISelect result lhs))) (append_word (IRegister2 condition rhs))"

definition translate_select_32 ::
  "('m, 'e) tl_env_scheme \<Rightarrow> reg \<Rightarrow> reg \<Rightarrow> typed_provider \<Rightarrow> typed_provider \<Rightarrow> ('m, unit) tl" where
  "translate_select_32 te result condition lhs rhs =
    (case (lhs, rhs) of
       (ProvReg _, ProvReg _) \<Rightarrow> tfail TPanic
     | (ProvReg lhs, ProvConst rhs) \<Rightarrow>
         tseq (emit te (ISel (ISelectImm32Rhs result lhs))) (append_word (IRegisterAndImm32 condition (to_i32 (tv_value rhs))))
     | (ProvConst lhs, ProvReg rhs) \<Rightarrow>
         tseq (emit te (ISel (ISelectImm32Lhs result (to_i32 (tv_value lhs))))) (append_word (IRegister2 condition rhs))
     | (ProvConst lhs, ProvConst rhs) \<Rightarrow>
         tseq (emit te (ISel (ISelectImm32 result (to_i32 (tv_value lhs)))))
           (append_word (IRegisterAndImm32 condition (to_i32 (tv_value rhs)))))"

text \<open>A 64-bit constant that has no 32-bit encoding becomes a register first.\<close>

definition select_const32 :: "(u64 \<Rightarrow> u32 option) \<Rightarrow> typed_provider \<Rightarrow> ('m, u32 provider) tl" where
  "select_const32 enc p =
    (case p of
       ProvReg r \<Rightarrow> tret (ProvReg r)
     | ProvConst v \<Rightarrow>
         (case enc (to_i64 (tv_value v)) of
            Some c \<Rightarrow> tret (ProvConst c)
          | None \<Rightarrow> tbind (tl_alloc_const (tv_value v)) (\<lambda>r. tret (ProvReg r))))"

definition translate_select_i64 ::
  "('m, 'e) tl_env_scheme \<Rightarrow> reg \<Rightarrow> reg \<Rightarrow> typed_provider \<Rightarrow> typed_provider \<Rightarrow> ('m, unit) tl" where
  "translate_select_i64 te result condition lhs rhs =
    tbind (select_const32 const32_of_i64 lhs) (\<lambda>lhs.
    tbind (select_const32 const32_of_i64 rhs) (\<lambda>rhs.
    case (lhs, rhs) of
      (ProvReg lhs, ProvReg rhs) \<Rightarrow> translate_select_regs te result condition lhs rhs
    | (ProvReg lhs, ProvConst rhs) \<Rightarrow>
        tseq (emit te (ISel (ISelectI64Imm32Rhs result lhs))) (append_word (IRegisterAndImm32 condition rhs))
    | (ProvConst lhs, ProvReg rhs) \<Rightarrow>
        tseq (emit te (ISel (ISelectI64Imm32Lhs result lhs))) (append_word (IRegister2 condition rhs))
    | (ProvConst lhs, ProvConst rhs) \<Rightarrow>
        tseq (emit te (ISel (ISelectI64Imm32 result lhs))) (append_word (IRegisterAndImm32 condition rhs))))"

definition translate_select_f64 ::
  "('m, 'e) tl_env_scheme \<Rightarrow> reg \<Rightarrow> reg \<Rightarrow> typed_provider \<Rightarrow> typed_provider \<Rightarrow> ('m, unit) tl" where
  "translate_select_f64 te result condition lhs rhs =
    tbind (select_const32 (const32_of_f64 (te_nan te)) lhs) (\<lambda>lhs.
    tbind (select_const32 (const32_of_f64 (te_nan te)) rhs) (\<lambda>rhs.
    case (lhs, rhs) of
      (ProvReg lhs, ProvReg rhs) \<Rightarrow> translate_select_regs te result condition lhs rhs
    | (ProvReg lhs, ProvConst rhs) \<Rightarrow>
        tseq (emit te (ISel (ISelectF64Imm32Rhs result lhs))) (append_word (IRegisterAndImm32 condition rhs))
    | (ProvConst lhs, ProvReg rhs) \<Rightarrow>
        tseq (emit te (ISel (ISelectF64Imm32Lhs result lhs))) (append_word (IRegister2 condition rhs))
    | (ProvConst lhs, ProvConst rhs) \<Rightarrow>
        tseq (emit te (ISel (ISelectF64Imm32 result lhs))) (append_word (IRegisterAndImm32 condition rhs))))"

definition translate_select_reftype ::
  "('m, 'e) tl_env_scheme \<Rightarrow> reg \<Rightarrow> reg \<Rightarrow> typed_provider \<Rightarrow> typed_provider \<Rightarrow> ('m, unit) tl" where
  "translate_select_reftype te result condition lhs rhs =
    tbind (tl_provider2reg lhs) (\<lambda>lhs. tbind (tl_provider2reg rhs) (\<lambda>rhs.
    translate_select_regs te result condition lhs rhs))"

text \<open>
  With a constant condition the selected value is pushed, or copied when its register is dynamic or
  preserved and could be overwritten.
\<close>

definition select_const_condition :: "('m, 'e) tl_env_scheme \<Rightarrow> typed_provider \<Rightarrow> ('m, unit) tl" where
  "select_const_condition te selected =
    tbind (tget cg_stack) (\<lambda>st.
    case selected of
      ProvReg r \<Rightarrow>
        if ts_get_register_space st r = SpaceDynamic \<or> ts_get_register_space st r = SpacePreserve then
          tbind tl_push_dynamic (\<lambda>result.
          tbind (fuel_info_of te) (\<lambda>fi. tbind tl_pos (\<lambda>pos.
          tvoid (encode_copy (te_nan te) pos result selected fi))))
        else tl_push_provider te selected
    | ProvConst _ \<Rightarrow> tl_push_provider te selected)"

definition select_type :: "typed_provider \<Rightarrow> typed_provider \<Rightarrow> val_type option" where
  "select_type lhs rhs =
    (case (lhs, rhs) of
       (ProvReg _, ProvReg _) \<Rightarrow> None
     | (ProvReg _, ProvConst rhs) \<Rightarrow> Some (tv_ty rhs)
     | (ProvConst lhs, _) \<Rightarrow> Some (tv_ty lhs))"

definition translate_select :: "('m, 'e) tl_env_scheme \<Rightarrow> val_type option \<Rightarrow> ('m, unit) tl" where
  "translate_select te type_hint = bail_unreachable (
    tbind (tl_pop3 te) (\<lambda>(lhs, rhs, condition).
    case condition of
      ProvConst condition \<Rightarrow> select_const_condition te (if to_i32 (tv_value condition) \<noteq> 0 then lhs else rhs)
    | ProvReg condition \<Rightarrow>
        if lhs = rhs then tl_push_provider te lhs
        else case (lhs, rhs) of
          (ProvReg lhs, ProvReg rhs) \<Rightarrow>
            tbind tl_push_dynamic (\<lambda>result. translate_select_regs te result condition lhs rhs)
        | _ \<Rightarrow>
            (case select_type lhs rhs of
               None \<Rightarrow> tfail TPanic
             | Some ty \<Rightarrow>
                 if type_hint \<noteq> None \<and> type_hint \<noteq> Some ty then tfail TPanic
                 else tbind tl_push_dynamic (\<lambda>result.
                   case ty of
                     I32 \<Rightarrow> translate_select_32 te result condition lhs rhs
                   | F32 \<Rightarrow> translate_select_32 te result condition lhs rhs
                   | I64 \<Rightarrow> translate_select_i64 te result condition lhs rhs
                   | F64 \<Rightarrow> translate_select_f64 te result condition lhs rhs
                   | FuncRef \<Rightarrow> translate_select_reftype te result condition lhs rhs
                   | ExternRef \<Rightarrow> translate_select_reftype te result condition lhs rhs))))"

definition visit_drop :: "('m, 'e) tl_env_scheme \<Rightarrow> ('m, unit) tl" where
  "visit_drop te = bail_unreachable (upd_stack (ts_drop (te_stash te)))"

end
