(* ===== verification/Tr_Blocks.thy ===== *)
theory Tr_Blocks
  imports Tr_Visit
begin

text \<open>
  Blocks, branches, calls, locals and globals of \<open>translator/visit.rs\<close>, with the branch tables of
  \<open>translator/mod.rs\<close>. A branch to the outermost block is a return.
\<close>


section \<open>Entering blocks\<close>

text \<open>A block type with an index names a type of the module.\<close>

definition resolve_block_type :: "('m, 'e) tl_env_scheme \<Rightarrow> wasm_block_type \<Rightarrow> ('m, block_type) tl" where
  "resolve_block_type te bt =
    (case bt of
       WasmBtFuncType i \<Rightarrow>
         tlift (rmap (\<lambda>t. block_type_new (\<lambda>_. t) bt) (get_func_type (te_module te) (unat i)))
     | _ \<Rightarrow> tret (block_type_new (\<lambda>_. 0) bt))"

text \<open>In unreachable code only the kind of the block is recorded.\<close>

definition enter_block ::
  "('m, 'e) tl_env_scheme \<Rightarrow> control_frame_kind \<Rightarrow> wasm_block_type \<Rightarrow> (block_type \<Rightarrow> ('m, unit) tl) \<Rightarrow> ('m, unit) tl" where
  "enter_block te kind bt m =
    tbind (resolve_block_type te bt) (\<lambda>bt.
    tbind (tget tl_reachable) (\<lambda>reachable.
    if \<not> reachable then tl_push_frame (UnreachableFrame \<lparr>uf_block_type = bt, uf_kind = kind\<rparr>)
    else m bt))"

definition new_block_height :: "('m, 'e) tl_env_scheme \<Rightarrow> block_type \<Rightarrow> ('m, block_height) tl" where
  "new_block_height te bt =
    tbind (tget (\<lambda>s. ts_height (cg_stack s))) (\<lambda>h. tlift (block_height_new (te_types te) h bt))"

definition visit_block :: "('m, 'e) tl_env_scheme \<Rightarrow> wasm_block_type \<Rightarrow> ('m, unit) tl" where
  "visit_block te bt = enter_block te KindBlock bt (\<lambda>bt.
    tseq (preserve_locals te)
    (tbind fuel_instr (\<lambda>fuel_instr.
    tbind (new_block_height te bt) (\<lambda>stack_height.
    tbind enc_new_label (\<lambda>end_label.
    tbind (alloc_branch_params te (bt_len_params (te_types te) bt) (bt_len_results (te_types te) bt)) (\<lambda>branch_params.
    tl_push_frame (BlockFrame (block_frame_new bt end_label branch_params stack_height fuel_instr))))))))"

definition visit_loop :: "('m, 'e) tl_env_scheme \<Rightarrow> wasm_block_type \<Rightarrow> ('m, unit) tl" where
  "visit_loop te bt = enter_block te KindLoop bt (\<lambda>bt.
    let len_block_params = bt_len_params (te_types te) bt
    in tseq (preserve_locals te)
    (tbind (tl_pop_n te (unat len_block_params)) (\<lambda>params.
    tbind (on_stack (ts_push_dynamic_n (unat len_block_params))) (\<lambda>branch_params.
    tbind (fuel_info_of te) (\<lambda>fi.
    tbind tl_pos (\<lambda>pos.
    tseq (encode_copies (te_nan te) pos \<lparr>brs_span = branch_params, brs_len = len_block_params\<rparr> params fi)
    (tseq reset_last_instr
    (tbind (new_block_height te bt) (\<lambda>stack_height.
    tbind enc_new_label (\<lambda>header.
    tseq (enc_pin_label header)
    (tbind (make_fuel_instr te) (\<lambda>consume_fuel.
    tl_push_frame (LoopFrame (loop_frame_new bt header stack_height branch_params consume_fuel))))))))))))))"

text \<open>
  The condition of an \<open>if\<close>: a constant leaves one branch, a register becomes a conditional branch to
  the \<open>else\<close> label, and the parameters are kept for the \<open>else\<close> branch.
\<close>

definition if_condition ::
  "('m, 'e) tl_env_scheme \<Rightarrow> typed_provider \<Rightarrow> u16 \<Rightarrow> ('m, if_reachability \<times> instr_ref option) tl" where
  "if_condition te condition len_block_params =
    (case condition of
       ProvConst condition \<Rightarrow>
         tseq (if to_i32 (tv_value condition) \<noteq> 0 then tskip else set_reachable False)
         (tbind fuel_instr (\<lambda>fuel_instr.
          tret (if to_i32 (tv_value condition) \<noteq> 0 then IfOnlyThen else IfOnlyElse, fuel_instr)))
     | ProvReg condition \<Rightarrow>
         tbind (tl_peek_n (unat len_block_params)) (\<lambda>providers.
         tseq (on_control (\<lambda>c. rmap (Pair ()) (push_else_providers providers c)))
         (tseq (tfor (\<lambda>r. upd_stack (ts_inc_register_usage (te_stash te) r)) (List.map_filter into_register providers))
         (tbind enc_new_label (\<lambda>else_label.
         tbind tl_pos (\<lambda>pos.
         tseq (encode_branch_eqz pos condition else_label)
         (tbind (make_fuel_instr te) (\<lambda>fuel_instr. tret (IfBoth else_label, fuel_instr)))))))))"

definition visit_if :: "('m, 'e) tl_env_scheme \<Rightarrow> wasm_block_type \<Rightarrow> ('m, unit) tl" where
  "visit_if te bt = enter_block te KindIf bt (\<lambda>bt.
    tbind (tl_pop te) (\<lambda>condition.
    tbind (new_block_height te bt) (\<lambda>stack_height.
    tseq (preserve_locals te)
    (tbind enc_new_label (\<lambda>end_label.
    tbind (alloc_branch_params te (bt_len_params (te_types te) bt) (bt_len_results (te_types te) bt)) (\<lambda>branch_params.
    tbind (if_condition te condition (bt_len_params (te_types te) bt)) (\<lambda>(reachability, fuel_instr).
    tbind (tlift (if_frame_new bt end_label branch_params stack_height fuel_instr reachability)) (\<lambda>frame.
    tl_push_frame (IfFrame frame)))))))))"

text \<open>The end of the \<open>then\<close> branch of an \<open>if\<close> whose branches are both reachable.\<close>

definition else_of_both :: "('m, 'e) tl_env_scheme \<Rightarrow> label_ref \<Rightarrow> if_frame \<Rightarrow> ('m, if_frame) tl" where
  "else_of_both te else_label frame =
    tbind (tget tl_reachable) (\<lambda>reachable.
    tbind
      (if reachable
       then tseq (translate_copy_branch_params te (if_params te frame))
         (tbind (enc_try_resolve_label (if_end_label frame)) (\<lambda>end_offset.
          tseq (emit te (IBr (IBranch end_offset)))
            (tret (frame\<lparr>if_len_branches := if_len_branches frame + 1\<rparr>))))
       else tret frame) (\<lambda>frame.
    tseq (set_reachable True)
    (tseq (enc_pin_label else_label)
    (tbind (make_fuel_instr te) (\<lambda>fuel_instr.
    tbind (case fuel_instr of None \<Rightarrow> tret frame | Some i \<Rightarrow> tlift (if_update_consume_fuel_instr i frame)) (\<lambda>frame.
    tseq (tl_trunc te (unat (if_stack_height frame)))
    (tbind (on_control pop_else_providers) (\<lambda>else_providers.
    tseq (tfor (restore_else_provider te) else_providers) (tret frame)))))))))"

definition else_of_if :: "('m, 'e) tl_env_scheme \<Rightarrow> if_frame \<Rightarrow> ('m, unit) tl" where
  "else_of_if te frame =
    tbind (tget tl_reachable) (\<lambda>reachable.
    tbind (tlift (if is_then_reachable frame
                  then update_end_of_then_reachability reachable (frame\<lparr>if_visited_else := True\<rparr>)
                  else Inr (frame\<lparr>if_visited_else := True\<rparr>))) (\<lambda>frame.
    tbind (case if_else_label frame of None \<Rightarrow> tret frame | Some l \<Rightarrow> else_of_both te l frame) (\<lambda>frame.
    tseq
      (case (is_then_reachable frame, is_else_reachable frame) of
         (True, False) \<Rightarrow> set_reachable False
       | (False, True) \<Rightarrow> set_reachable True
       | (False, False) \<Rightarrow> tfail TPanic
       | (True, True) \<Rightarrow> tskip)
    (tl_push_frame (IfFrame frame)))))"

definition visit_else :: "('m, 'e) tl_env_scheme \<Rightarrow> ('m, unit) tl" where
  "visit_else te =
    tbind tl_pop_frame (\<lambda>frame.
    case frame of
      IfFrame f \<Rightarrow> else_of_if te f
    | UnreachableFrame f \<Rightarrow> if uf_kind f = KindIf then tl_push_frame (UnreachableFrame f) else tfail TPanic
    | _ \<Rightarrow> tfail TPanic)"


section \<open>Branches\<close>

definition visit_unreachable :: "('m, 'e) tl_env_scheme \<Rightarrow> ('m, unit) tl" where
  "visit_unreachable te = bail_unreachable (tseq (emit te (ITrap UnreachableCodeReached)) (set_reachable False))"

definition visit_nop :: "('m, unit) tl" where "visit_nop = tskip"

definition tl_acquire_target :: "nat \<Rightarrow> ('m, acquired_target) tl" where
  "tl_acquire_target depth = tbind (tget tl_control) (\<lambda>c. tlift (acquire_target depth c))"

text \<open>A branch to a frame: counted, with the label and the parameters of the frame.\<close>

definition bump_target :: "('m, 'e) tl_env_scheme \<Rightarrow> nat \<Rightarrow> ('m, label_ref \<times> bounded_reg_span) tl" where
  "bump_target te i =
    tseq (on_control (\<lambda>c. rmap (Pair ()) (update_frame i frame_bump_branches c)))
    (tbind (tget (\<lambda>s. ct_frames (tl_control s) ! i)) (\<lambda>frame.
     tbind (tlift (frame_branch_destination frame)) (\<lambda>dst.
     tbind (tlift (frame_branch_params (te_types te) frame)) (\<lambda>params. tret (dst, params)))))"

definition translate_br :: "('m, 'e) tl_env_scheme \<Rightarrow> nat \<Rightarrow> ('m, unit) tl" where
  "translate_br te relative_depth =
    tbind (tl_acquire_target relative_depth) (\<lambda>target.
    case target of
      TargetReturn _ \<Rightarrow> translate_return te
    | TargetBranch i \<Rightarrow>
        tbind (bump_target te i) (\<lambda>(branch_dst, branch_params).
        tseq (translate_copy_branch_params te branch_params)
        (tbind (enc_try_resolve_label branch_dst) (\<lambda>branch_offset.
        tseq (emit te (IBr (IBranch branch_offset))) (set_reachable False)))))"

definition visit_br :: "('m, 'e) tl_env_scheme \<Rightarrow> nat \<Rightarrow> ('m, unit) tl" where
  "visit_br te relative_depth = bail_unreachable (translate_br te relative_depth)"

text \<open>
  A conditional branch whose values are in their places already is one instruction; otherwise the
  negated branch skips the copies and the branch.
\<close>

definition br_if_with_copies ::
  "('m, 'e) tl_env_scheme \<Rightarrow> reg \<Rightarrow> label_ref \<Rightarrow> bounded_reg_span \<Rightarrow> typed_provider list \<Rightarrow> fuel_info \<Rightarrow> ('m, unit) tl" where
  "br_if_with_copies te condition branch_dst branch_params providers fi =
    tbind tl_pos (\<lambda>pos.
    tbind enc_new_label (\<lambda>skip_label.
    tseq (encode_branch_eqz pos condition skip_label)
    (tseq (encode_copies (te_nan te) pos branch_params providers fi)
    (tbind (enc_try_resolve_label branch_dst) (\<lambda>branch_offset.
    tseq (emit te (IBr (IBranch branch_offset))) (enc_pin_label skip_label))))))"

definition br_if_register :: "('m, 'e) tl_env_scheme \<Rightarrow> reg \<Rightarrow> nat \<Rightarrow> ('m, unit) tl" where
  "br_if_register te condition relative_depth =
    tbind (fuel_info_of te) (\<lambda>fi.
    tbind (tl_acquire_target relative_depth) (\<lambda>target.
    case target of
      TargetReturn _ \<Rightarrow> translate_return_if te condition
    | TargetBranch i \<Rightarrow>
        tbind (bump_target te i) (\<lambda>(branch_dst, branch_params).
        tbind tl_pos (\<lambda>pos.
        if brs_len branch_params = 0 then encode_branch_nez pos condition branch_dst
        else
          tbind (tl_peek_n (unat (brs_len branch_params))) (\<lambda>providers.
          tbind (tlift (params_regs branch_params)) (\<lambda>regs.
          if providers = map ProvReg regs then encode_branch_nez pos condition branch_dst
          else br_if_with_copies te condition branch_dst branch_params providers fi))))))"

definition visit_br_if :: "('m, 'e) tl_env_scheme \<Rightarrow> nat \<Rightarrow> ('m, unit) tl" where
  "visit_br_if te relative_depth = bail_unreachable (
    tbind (tl_pop te) (\<lambda>condition.
    case condition of
      ProvConst condition \<Rightarrow>
        if to_i32 (tv_value condition) \<noteq> 0 then translate_br te relative_depth else tskip
    | ProvReg condition \<Rightarrow> br_if_register te condition relative_depth))"

definition visit_return :: "('m, 'e) tl_env_scheme \<Rightarrow> ('m, unit) tl" where
  "visit_return te = bail_unreachable (translate_return te)"


section \<open>Branch tables\<close>

definition br_table_target ::
  "('m, 'e) tl_env_scheme \<Rightarrow> fuel_info \<Rightarrow> typed_provider list \<Rightarrow>
    (bounded_reg_span \<Rightarrow> branch_offset \<Rightarrow> tr_error + param_word) \<Rightarrow> nat \<Rightarrow> ('m, unit) tl" where
  "br_table_target te fi vals make_target target =
    tbind tl_pos (\<lambda>pos.
    tbind (tl_acquire_target target) (\<lambda>t.
    case t of
      TargetReturn _ \<Rightarrow> encode_return (te_nan te) pos vals fi
    | TargetBranch i \<Rightarrow>
        tbind (bump_target te i) (\<lambda>(branch_dst, branch_params).
        tbind (enc_try_resolve_label branch_dst) (\<lambda>branch_offset.
        let n = unat (brs_len branch_params)
        in if n = 0 then tvoid (append_instr pos (IBr (IBranch branch_offset)))
           else if n \<le> 3 then append_word (IBranchTableTarget (brs_span branch_params) branch_offset)
           else tbind (tlift (make_target branch_params branch_offset)) append_word))))"

definition translate_br_table_targets ::
  "('m, 'e) tl_env_scheme \<Rightarrow> typed_provider list \<Rightarrow>
    (bounded_reg_span \<Rightarrow> branch_offset \<Rightarrow> tr_error + param_word) \<Rightarrow> nat list \<Rightarrow> ('m, unit) tl" where
  "translate_br_table_targets te vals make_target targets =
    tbind (fuel_info_of te) (\<lambda>fi. tfor (br_table_target te fi vals make_target) targets)"

definition translate_br_table_targets_simple ::
  "('m, 'e) tl_env_scheme \<Rightarrow> typed_provider list \<Rightarrow> nat list \<Rightarrow> ('m, unit) tl" where
  "translate_br_table_targets_simple te vals = translate_br_table_targets te vals (\<lambda>_ _. Inl TPanic)"

definition translate_br_table_0 :: "('m, 'e) tl_env_scheme \<Rightarrow> nat list \<Rightarrow> reg \<Rightarrow> ('m, unit) tl" where
  "translate_br_table_0 te targets index =
    tseq (emit te (IBr (IBranchTable0 index (of_nat (length targets)))))
    (tseq (translate_br_table_targets_simple te [] targets) (set_reachable False))"

definition table_value :: "('m, 'e) tl_env_scheme \<Rightarrow> typed_provider \<Rightarrow> ('m, param_word) tl" where
  "table_value te p =
    (let in_reg = tbind (tl_provider2reg p) (\<lambda>r. tret (IRegister r))
     in case p of
          ProvReg r \<Rightarrow> tret (IRegister r)
        | ProvConst v \<Rightarrow>
            (case tv_ty v of
               I32 \<Rightarrow> tret (IConst32 (to_i32 (tv_value v)))
             | F32 \<Rightarrow> tret (IConst32 (to_i32 (tv_value v)))
             | I64 \<Rightarrow> (case const32_of_i64 (to_i64 (tv_value v)) of Some c \<Rightarrow> tret (II64Const32 c) | None \<Rightarrow> in_reg)
             | F64 \<Rightarrow> (case const32_of_f64 (te_nan te) (to_i64 (tv_value v)) of
                        Some c \<Rightarrow> tret (IF64Const32 c) | None \<Rightarrow> in_reg)
             | ExternRef \<Rightarrow> in_reg
             | FuncRef \<Rightarrow> in_reg))"

definition translate_br_table_1 :: "('m, 'e) tl_env_scheme \<Rightarrow> nat list \<Rightarrow> reg \<Rightarrow> ('m, unit) tl" where
  "translate_br_table_1 te targets index =
    tseq (emit te (IBr (IBranchTable1 index (of_nat (length targets)))))
    (tbind (tl_pop te) (\<lambda>v.
     tbind (table_value te v) (\<lambda>param.
     tseq (append_word param)
     (tseq (translate_br_table_targets_simple te [v] targets) (set_reachable False)))))"

definition translate_br_table_2 :: "('m, 'e) tl_env_scheme \<Rightarrow> nat list \<Rightarrow> reg \<Rightarrow> ('m, unit) tl" where
  "translate_br_table_2 te targets index =
    tseq (emit te (IBr (IBranchTable2 index (of_nat (length targets)))))
    (tbind (tl_pop2 te) (\<lambda>(v0, v1).
     tbind (tl_provider2reg v0) (\<lambda>r0. tbind (tl_provider2reg v1) (\<lambda>r1.
     tseq (append_word (IRegister2 r0 r1))
     (tseq (translate_br_table_targets_simple te [v0, v1] targets) (set_reachable False))))))"

definition translate_br_table_3 :: "('m, 'e) tl_env_scheme \<Rightarrow> nat list \<Rightarrow> reg \<Rightarrow> ('m, unit) tl" where
  "translate_br_table_3 te targets index =
    tseq (emit te (IBr (IBranchTable3 index (of_nat (length targets)))))
    (tbind (tl_pop3 te) (\<lambda>(v0, v1, v2).
     tbind (tl_provider2reg v0) (\<lambda>r0. tbind (tl_provider2reg v1) (\<lambda>r1. tbind (tl_provider2reg v2) (\<lambda>r2.
     tseq (append_word (IRegister3 r0 r1 r2))
     (tseq (translate_br_table_targets_simple te [v0, v1, v2] targets) (set_reachable False)))))))"

definition table_target_word :: "bool \<Rightarrow> reg_span \<Rightarrow> branch_offset \<Rightarrow> param_word" where
  "table_target_word overlap =
    (if overlap then IBranchTableTarget else IBranchTableTargetNonOverlapping)"

definition translate_br_table_span ::
  "('m, 'e) tl_env_scheme \<Rightarrow> nat list \<Rightarrow> reg \<Rightarrow> typed_provider list \<Rightarrow> bounded_reg_span \<Rightarrow> ('m, unit) tl" where
  "translate_br_table_span te targets index vals span =
    tseq (emit te (IBr (IBranchTableSpan index (of_nat (length targets)))))
    (tseq (append_word (IRegisterSpan span))
    (tseq (translate_br_table_targets te vals (\<lambda>params offset.
        rmap (\<lambda>overlap. table_target_word overlap (brs_span params) offset)
          (ok_or TPanic (has_overlapping_copies (brs_span params) (brs_span span) (brs_len span)))) targets)
     (set_reachable False)))"

text \<open>Here the targets that return are given no values.\<close>

definition translate_br_table_many ::
  "('m, 'e) tl_env_scheme \<Rightarrow> nat list \<Rightarrow> reg \<Rightarrow> typed_provider list \<Rightarrow> ('m, unit) tl" where
  "translate_br_table_many te targets index vals =
    tseq (emit te (IBr (IBranchTableMany index (of_nat (length targets)))))
    (tbind tl_pos (\<lambda>pos.
     tseq (encode_register_list pos vals)
     (tseq (translate_br_table_targets te [] (\<lambda>params offset.
         rmap (\<lambda>overlap. table_target_word overlap (brs_span params) offset) (providers_overlap params vals)) targets)
      (set_reachable False))))"

definition translate_br_table_n :: "('m, 'e) tl_env_scheme \<Rightarrow> nat list \<Rightarrow> reg \<Rightarrow> u16 \<Rightarrow> ('m, unit) tl" where
  "translate_br_table_n te targets index len_values =
    tbind (tl_pop_n te (unat len_values)) (\<lambda>vals.
    case span_from_providers vals of
      Some span \<Rightarrow> translate_br_table_span te targets index vals span
    | None \<Rightarrow> translate_br_table_many te targets index vals)"

definition br_table_register :: "('m, 'e) tl_env_scheme \<Rightarrow> nat list \<Rightarrow> nat \<Rightarrow> reg \<Rightarrow> ('m, unit) tl" where
  "br_table_register te targets default_target index =
    tbind (tl_acquire_target default_target) (\<lambda>t.
    tbind (tget (\<lambda>s. ct_frames (tl_control s) ! (case t of TargetReturn i \<Rightarrow> i | TargetBranch i \<Rightarrow> i))) (\<lambda>frame.
    tbind (tlift (frame_branch_params (te_types te) frame)) (\<lambda>params.
    let n = unat (brs_len params)
    in if n = 0 then translate_br_table_0 te targets index
       else if n = 1 then translate_br_table_1 te targets index
       else if n = 2 then translate_br_table_2 te targets index
       else if n = 3 then translate_br_table_3 te targets index
       else translate_br_table_n te targets index (brs_len params))))"

definition translate_br_table :: "('m, 'e) tl_env_scheme \<Rightarrow> nat list \<Rightarrow> nat \<Rightarrow> ('m, unit) tl" where
  "translate_br_table te targets default_target =
    tbind (tl_pop te) (\<lambda>index.
    if targets = [] then translate_br te default_target
    else case index of
      ProvConst index \<Rightarrow>
        translate_br te (case get_at targets (unat (to_i32 (tv_value index))) of Some t \<Rightarrow> t | None \<Rightarrow> default_target)
    | ProvReg index \<Rightarrow>
        if list_all (\<lambda>t. t = default_target) (targets @ [default_target]) then translate_br te default_target
        else br_table_register te (targets @ [default_target]) default_target index)"

definition visit_br_table :: "('m, 'e) tl_env_scheme \<Rightarrow> nat list \<Rightarrow> nat \<Rightarrow> ('m, unit) tl" where
  "visit_br_table te targets default_target = bail_unreachable (translate_br_table te targets default_target)"

end
