(* ===== verification/Tr_Translate.thy ===== *)
theory Tr_Translate
  imports Tr_Blocks
begin

text \<open>
  The remaining operators of \<open>translator/visit.rs\<close>, and the translation of a whole function:
  \<open>driver.rs\<close> with \<open>FuncTranslator::finish\<close>. The operators are those that the Wasm parser, a
  third-party crate, decodes from the body of a function; validation is done by that crate too.
\<close>


section \<open>Calls\<close>

definition push_call :: "('m, 'e) tl_env_scheme \<Rightarrow> call_instr \<Rightarrow> param_word option \<Rightarrow> typed_provider list \<Rightarrow> ('m, unit) tl" where
  "push_call te instr indirect_params provider_params =
    tbind tl_pos (\<lambda>pos.
    tseq (push_instr pos (ICl instr))
    (tseq (case indirect_params of None \<Rightarrow> tskip | Some p \<Rightarrow> append_word p)
          (encode_register_list pos provider_params)))"

definition call_instr_of :: "bool \<Rightarrow> engine_func option \<Rightarrow> nat \<Rightarrow> reg_span \<Rightarrow> call_instr" where
  "call_instr_of no_params engine_func function_index results =
    (case engine_func of
       Some f \<Rightarrow> if no_params then ICallInternal0 results f else ICallInternal results f
     | None \<Rightarrow> if no_params then ICallImported0 results function_index else ICallImported results function_index)"

definition visit_call :: "('m, 'e) tl_env_scheme \<Rightarrow> nat \<Rightarrow> ('m, unit) tl" where
  "visit_call te function_index = bail_unreachable (
    tseq (tl_bump_fuel te fc_base)
    (tbind (tlift (tl_func_type te function_index)) (\<lambda>t.
     tbind (tl_pop_n te (length (func_type_params t))) (\<lambda>provider_params.
     tbind (on_stack (ts_push_dynamic_n (length (func_type_results t)))) (\<lambda>results.
     tbind (tlift (get_engine_func (te_module te) function_index)) (\<lambda>engine_func.
     push_call te (call_instr_of (func_type_params t = []) engine_func function_index results) None
       provider_params))))))"

definition call_indirect_params :: "typed_provider \<Rightarrow> nat \<Rightarrow> ('m, param_word) tl" where
  "call_indirect_params index table_index =
    (case index of
       ProvConst v \<Rightarrow>
         (case const16_of_u32 (to_i32 (tv_value v)) of
            Some c \<Rightarrow> tret (ICallIndirectParamsImm16 c table_index)
          | None \<Rightarrow> tbind (tl_alloc_const (tv_value v)) (\<lambda>r. tret (ICallIndirectParams r table_index)))
     | ProvReg r \<Rightarrow> tret (ICallIndirectParams r table_index))"

definition is_imm16_params :: "param_word \<Rightarrow> bool" where
  "is_imm16_params p = (case p of ICallIndirectParamsImm16 _ _ \<Rightarrow> True | _ \<Rightarrow> False)"

definition call_indirect_instr_of :: "bool \<Rightarrow> bool \<Rightarrow> nat \<Rightarrow> reg_span \<Rightarrow> call_instr" where
  "call_indirect_instr_of no_params imm16 type_index results =
    (if no_params then
       if imm16 then ICallIndirect0Imm16 results type_index else ICallIndirect0 results type_index
     else if imm16 then ICallIndirectImm16 results type_index else ICallIndirect results type_index)"

definition visit_call_indirect :: "('m, 'e) tl_env_scheme \<Rightarrow> nat \<Rightarrow> nat \<Rightarrow> ('m, unit) tl" where
  "visit_call_indirect te type_index table_index = bail_unreachable (
    tseq (tl_bump_fuel te fc_base)
    (tbind (tlift (tl_func_type_at te type_index)) (\<lambda>t.
     tbind (tl_pop te) (\<lambda>index.
     tbind (call_indirect_params index table_index) (\<lambda>indirect_params.
     tbind (tl_pop_n te (length (func_type_params t))) (\<lambda>provider_params.
     tbind (on_stack (ts_push_dynamic_n (length (func_type_results t)))) (\<lambda>results.
     push_call te (call_indirect_instr_of (func_type_params t = []) (is_imm16_params indirect_params) type_index results)
       (Some indirect_params) provider_params)))))))"

definition return_call_instr_of :: "bool \<Rightarrow> engine_func option \<Rightarrow> nat \<Rightarrow> call_instr" where
  "return_call_instr_of no_params engine_func function_index =
    (case engine_func of
       Some f \<Rightarrow> if no_params then IReturnCallInternal0 f else IReturnCallInternal f
     | None \<Rightarrow> if no_params then IReturnCallImported0 function_index else IReturnCallImported function_index)"

definition visit_return_call :: "('m, 'e) tl_env_scheme \<Rightarrow> nat \<Rightarrow> ('m, unit) tl" where
  "visit_return_call te function_index = bail_unreachable (
    tseq (tl_bump_fuel te fc_base)
    (tbind (tlift (tl_func_type te function_index)) (\<lambda>t.
     tbind (tl_pop_n te (length (func_type_params t))) (\<lambda>provider_params.
     tbind (tlift (get_engine_func (te_module te) function_index)) (\<lambda>engine_func.
     tseq (push_call te (return_call_instr_of (func_type_params t = []) engine_func function_index) None provider_params)
       (set_reachable False))))))"

definition return_call_indirect_instr_of :: "bool \<Rightarrow> bool \<Rightarrow> nat \<Rightarrow> call_instr" where
  "return_call_indirect_instr_of no_params imm16 type_index =
    (if no_params then
       if imm16 then IReturnCallIndirect0Imm16 type_index else IReturnCallIndirect0 type_index
     else if imm16 then IReturnCallIndirectImm16 type_index else IReturnCallIndirect type_index)"

definition visit_return_call_indirect :: "('m, 'e) tl_env_scheme \<Rightarrow> nat \<Rightarrow> nat \<Rightarrow> ('m, unit) tl" where
  "visit_return_call_indirect te type_index table_index = bail_unreachable (
    tseq (tl_bump_fuel te fc_base)
    (tbind (tlift (tl_func_type_at te type_index)) (\<lambda>t.
     tbind (tl_pop te) (\<lambda>index.
     tbind (call_indirect_params index table_index) (\<lambda>indirect_params.
     tbind (tl_pop_n te (length (func_type_params t))) (\<lambda>provider_params.
     tseq (push_call te (return_call_indirect_instr_of (func_type_params t = []) (is_imm16_params indirect_params) type_index)
         (Some indirect_params) provider_params)
       (set_reachable False)))))))"


section \<open>Locals and globals\<close>

definition visit_local_get :: "u32 \<Rightarrow> ('m, unit) tl" where
  "visit_local_get local_index = bail_unreachable (tvoid (on_stack (ts_push_local local_index)))"

definition local_set :: "('m, 'e) tl_env_scheme \<Rightarrow> u32 \<Rightarrow> ('m, unit) tl" where
  "local_set te local_index =
    tseq (upd_stack (ts_gc_preservations (te_stash te)))
    (tbind (tl_pop te) (\<lambda>v.
     case reg_try_from local_index of
       None \<Rightarrow> tfail (TErr TrRegisterOutOfBounds)
     | Some l \<Rightarrow>
         if v = ProvReg l then tskip
         else
           tbind (on_stack (ts_preserve_locals (te_stash te) local_index)) (\<lambda>preserved.
           tbind (fuel_info_of te) (\<lambda>fi.
           tbind tl_pos (\<lambda>pos. encode_local_set te pos l v preserved fi)))))"

definition visit_local_set :: "('m, 'e) tl_env_scheme \<Rightarrow> u32 \<Rightarrow> ('m, unit) tl" where
  "visit_local_set te local_index = bail_unreachable (local_set te local_index)"

definition visit_local_tee :: "('m, 'e) tl_env_scheme \<Rightarrow> u32 \<Rightarrow> ('m, unit) tl" where
  "visit_local_tee te local_index = bail_unreachable (
    tbind tl_peek (\<lambda>input.
    tseq (visit_local_set te local_index)
    (case input of
       ProvReg _ \<Rightarrow> tvoid (on_stack (ts_push_local local_index))
     | ProvConst v \<Rightarrow> tl_push_const v)))"

definition visit_ref_func :: "('m, 'e) tl_env_scheme \<Rightarrow> nat \<Rightarrow> ('m, unit) tl" where
  "visit_ref_func te function_index = bail_unreachable (
    tbind tl_push_dynamic (\<lambda>result. emit te (IRefFunc result function_index)))"

text \<open>An immutable global of the module is replaced by its initial value.\<close>

definition global_get :: "('m, 'e) tl_env_scheme \<Rightarrow> nat \<Rightarrow> ('m, unit) tl" where
  "global_get te global_index =
    tbind tl_push_dynamic (\<lambda>result. emit te (IGl (IGlobalGet result global_index)))"

definition visit_global_get :: "('m, 'e) tl_env_scheme \<Rightarrow> nat \<Rightarrow> ('m, unit) tl" where
  "visit_global_get te global_index = bail_unreachable (
    tbind (tlift (get_global (te_module te) global_index)) (\<lambda>(global_type, init_value).
    case (gt_mutability global_type, init_value) of
      (MutConst, Some init_expr) \<Rightarrow>
        (case ce_eval_const init_expr of
           Some v \<Rightarrow> tl_push_const \<lparr>tv_ty = gt_content global_type, tv_value = v\<rparr>
         | None \<Rightarrow>
             (case ce_funcref init_expr of
                Some func_index \<Rightarrow> visit_ref_func te (unat func_index)
              | None \<Rightarrow> global_get te global_index))
    | _ \<Rightarrow> global_get te global_index))"

definition global_set_imm16 :: "val_type \<Rightarrow> untyped_val \<Rightarrow> (nat \<Rightarrow> global_instr) option" where
  "global_set_imm16 ty v =
    (case ty of
       I32 \<Rightarrow> map_option IGlobalSetI32Imm16 (const16_of_i32 (to_i32 v))
     | I64 \<Rightarrow> map_option IGlobalSetI64Imm16 (const16_of_i64 (to_i64 v))
     | _ \<Rightarrow> None)"

definition visit_global_set :: "('m, 'e) tl_env_scheme \<Rightarrow> nat \<Rightarrow> ('m, unit) tl" where
  "visit_global_set te global_index = bail_unreachable (
    tbind (tl_pop te) (\<lambda>input.
    case input of
      ProvReg r \<Rightarrow> emit te (IGl (IGlobalSet r global_index))
    | ProvConst v \<Rightarrow>
        tbind (tlift (get_global (te_module te) global_index)) (\<lambda>(global_type, _).
        case global_set_imm16 (gt_content global_type) (tv_value v) of
          Some mk \<Rightarrow> emit te (IGl (mk global_index))
        | None \<Rightarrow> tbind (tl_alloc_const (tv_value v)) (\<lambda>cref. emit te (IGl (IGlobalSet cref global_index))))))"


section \<open>Constants and references\<close>

definition push_const_op :: "typed_val \<Rightarrow> ('m, unit) tl" where
  "push_const_op v = bail_unreachable (tl_push_const v)"

definition visit_i32_const :: "u32 \<Rightarrow> ('m, unit) tl" where "visit_i32_const v = push_const_op (tv_i32 v)"
definition visit_i64_const :: "u64 \<Rightarrow> ('m, unit) tl" where "visit_i64_const v = push_const_op (tv_i64 v)"
definition visit_f32_const :: "u32 \<Rightarrow> ('m, unit) tl" where "visit_f32_const bits = push_const_op (tv_f32 bits)"
definition visit_f64_const :: "u64 \<Rightarrow> ('m, unit) tl" where "visit_f64_const bits = push_const_op (tv_f64 bits)"

definition visit_ref_null :: "val_type \<Rightarrow> ('m, unit) tl" where
  "visit_ref_null ty = bail_unreachable (
    if is_ref ty then tl_push_const \<lparr>tv_ty = ty, tv_value = 0\<rparr> else tfail TPanic)"

text \<open>A reference constant is null, which is the untyped zero.\<close>

definition visit_ref_is_null :: "('m, 'e) tl_env_scheme \<Rightarrow> ('m, unit) tl" where
  "visit_ref_is_null te = bail_unreachable (
    tbind tl_peek (\<lambda>input.
    case input of
      ProvConst v \<Rightarrow>
        tseq (upd_stack (ts_drop (te_stash te)))
        (if is_ref (tv_ty v) then tl_push_const (tv_bool (tv_value v = 0)) else tfail TPanic)
    | ProvReg _ \<Rightarrow> visit_i64_eqz te))"


section \<open>Memories and tables\<close>

definition visit_memory_size :: "('m, 'e) tl_env_scheme \<Rightarrow> nat \<Rightarrow> ('m, unit) tl" where
  "visit_memory_size te memory = bail_unreachable (
    tbind tl_push_dynamic (\<lambda>result. emit te (IMem (IMemorySize result memory))))"

definition visit_memory_grow :: "('m, 'e) tl_env_scheme \<Rightarrow> nat \<Rightarrow> ('m, unit) tl" where
  "visit_memory_grow te memory = bail_unreachable (
    tbind (tl_pop te) (\<lambda>p. let delta = map_const (\<lambda>v. to_i32 (tv_value v)) p in
    tbind tl_push_dynamic (\<lambda>result.
    if delta = ProvConst 0 then emit te (IMem (IMemorySize result memory))
    else tseq (emit te (IMem (case delta of ProvConst d \<Rightarrow> IMemoryGrowBy result d | ProvReg r \<Rightarrow> IMemoryGrow result r)))
      (append_word (IMemoryIndex memory)))))"

definition operand_of :: "u16 provider \<Rightarrow> operand" where
  "operand_of p = (case p of ProvReg r \<Rightarrow> OpReg r | ProvConst c \<Rightarrow> OpConst c)"

definition tl_operand :: "typed_provider \<Rightarrow> ('m, operand) tl" where
  "tl_operand p = tbind (on_stack (const16_provider p)) (\<lambda>p. tret (operand_of p))"

definition pop3_operands :: "('m, 'e) tl_env_scheme \<Rightarrow> ('m, operand \<times> operand \<times> operand) tl" where
  "pop3_operands te =
    tbind (tl_pop3 te) (\<lambda>(dst, src, len).
    tbind (tl_operand dst) (\<lambda>dst. tbind (tl_operand src) (\<lambda>src. tbind (tl_operand len) (\<lambda>len.
    tret (dst, src, len)))))"

definition visit_memory_init :: "('m, 'e) tl_env_scheme \<Rightarrow> nat \<Rightarrow> nat \<Rightarrow> ('m, unit) tl" where
  "visit_memory_init te data_index memory = bail_unreachable (
    tbind (pop3_operands te) (\<lambda>(dst, src, len).
    tseq (emit te (IMem (IMemoryInit dst src len)))
    (tseq (append_word (IMemoryIndex memory)) (append_word (IDataIndex data_index)))))"

definition visit_data_drop :: "('m, 'e) tl_env_scheme \<Rightarrow> nat \<Rightarrow> ('m, unit) tl" where
  "visit_data_drop te data_index = bail_unreachable (emit te (IMem (IDataDrop data_index)))"

definition visit_memory_copy :: "('m, 'e) tl_env_scheme \<Rightarrow> nat \<Rightarrow> nat \<Rightarrow> ('m, unit) tl" where
  "visit_memory_copy te dst_memory src_memory = bail_unreachable (
    tbind (pop3_operands te) (\<lambda>(dst, src, len).
    tseq (emit te (IMem (IMemoryCopy dst src len)))
    (tseq (append_word (IMemoryIndex dst_memory)) (append_word (IMemoryIndex src_memory)))))"

definition byte_operand_of :: "typed_provider \<Rightarrow> byte_operand" where
  "byte_operand_of p = (case p of ProvReg r \<Rightarrow> ByteReg r | ProvConst v \<Rightarrow> ByteImm (ucast (to_i32 (tv_value v))))"

definition visit_memory_fill :: "('m, 'e) tl_env_scheme \<Rightarrow> nat \<Rightarrow> ('m, unit) tl" where
  "visit_memory_fill te memory = bail_unreachable (
    tbind (tl_pop3 te) (\<lambda>(dst, v, len).
    tbind (tl_operand dst) (\<lambda>dst. tbind (tl_operand len) (\<lambda>len.
    tseq (emit te (IMem (IMemoryFill dst (byte_operand_of v) len))) (append_word (IMemoryIndex memory))))))"

definition visit_table_init :: "('m, 'e) tl_env_scheme \<Rightarrow> nat \<Rightarrow> nat \<Rightarrow> ('m, unit) tl" where
  "visit_table_init te elem_index tbl = bail_unreachable (
    tbind (pop3_operands te) (\<lambda>(dst, src, len).
    tseq (emit te (ITbl (ITableInit dst src len)))
    (tseq (append_word (ITableIndex tbl)) (append_word (IElemIndex elem_index)))))"

definition visit_elem_drop :: "('m, 'e) tl_env_scheme \<Rightarrow> nat \<Rightarrow> ('m, unit) tl" where
  "visit_elem_drop te elem_index = bail_unreachable (emit te (ITbl (IElemDrop elem_index)))"

definition visit_table_copy :: "('m, 'e) tl_env_scheme \<Rightarrow> nat \<Rightarrow> nat \<Rightarrow> ('m, unit) tl" where
  "visit_table_copy te dst_table src_table = bail_unreachable (
    tbind (pop3_operands te) (\<lambda>(dst, src, len).
    tseq (emit te (ITbl (ITableCopy dst src len)))
    (tseq (append_word (ITableIndex dst_table)) (append_word (ITableIndex src_table)))))"

definition visit_table_fill :: "('m, 'e) tl_env_scheme \<Rightarrow> nat \<Rightarrow> ('m, unit) tl" where
  "visit_table_fill te tbl = bail_unreachable (
    tbind (tl_pop3 te) (\<lambda>(dst, v, len).
    tbind (tl_operand dst) (\<lambda>dst. tbind (tl_operand len) (\<lambda>len.
    tbind (tl_provider2reg v) (\<lambda>r.
    tseq (emit te (ITbl (ITableFill dst len r))) (append_word (ITableIndex tbl)))))))"

definition visit_table_get :: "('m, 'e) tl_env_scheme \<Rightarrow> nat \<Rightarrow> ('m, unit) tl" where
  "visit_table_get te tbl = bail_unreachable (
    tbind (tl_pop te) (\<lambda>index.
    tbind tl_push_dynamic (\<lambda>result.
    tseq (emit te (ITbl (case index of ProvReg r \<Rightarrow> ITableGet result r | ProvConst v \<Rightarrow> ITableGetImm result (to_i32 (tv_value v)))))
      (append_word (ITableIndex tbl)))))"

definition visit_table_set :: "('m, 'e) tl_env_scheme \<Rightarrow> nat \<Rightarrow> ('m, unit) tl" where
  "visit_table_set te tbl = bail_unreachable (
    tbind (tl_pop2 te) (\<lambda>(index, v).
    tbind (tl_provider2reg v) (\<lambda>r.
    tseq (emit te (ITbl (case index of ProvReg i \<Rightarrow> ITableSet i r | ProvConst i \<Rightarrow> ITableSetAt r (to_i32 (tv_value i)))))
      (append_word (ITableIndex tbl)))))"

definition visit_table_size :: "('m, 'e) tl_env_scheme \<Rightarrow> nat \<Rightarrow> ('m, unit) tl" where
  "visit_table_size te tbl = bail_unreachable (
    tbind tl_push_dynamic (\<lambda>result. emit te (ITbl (ITableSize result tbl))))"

definition visit_table_grow :: "('m, 'e) tl_env_scheme \<Rightarrow> nat \<Rightarrow> ('m, unit) tl" where
  "visit_table_grow te tbl = bail_unreachable (
    tbind (tl_pop2 te) (\<lambda>(v, delta).
    if map_const (\<lambda>d. to_i32 (tv_value d)) delta = ProvConst 0
    then tbind tl_push_dynamic (\<lambda>result. emit te (ITbl (ITableSize result tbl)))
    else
      tbind (tl_operand delta) (\<lambda>delta.
      tbind (tl_provider2reg v) (\<lambda>r.
      tbind tl_push_dynamic (\<lambda>result.
      tseq (emit te (ITbl (ITableGrow result delta r))) (append_word (ITableIndex tbl)))))))"

end
