(* ===== verification/Tr_Driver.thy ===== *)
theory Tr_Driver
  imports Tr_Translate Exec_State
begin

text \<open>
  The translation of a function body: \<open>driver.rs\<close> hands every operator with its position to the
  translator, and \<open>FuncTranslator::finish\<close> yields the compiled function. A lazy translator
  (\<open>LazyFuncTranslator\<close>) keeps the body for its first call and translates nothing.
\<close>


section \<open>Operators\<close>

text \<open>The operators that the translator supports; any other operator is a panic in the source.\<close>

datatype control_op =
    OpUnreachable | OpNop | OpBlock wasm_block_type | OpLoop wasm_block_type | OpIf wasm_block_type
  | OpElse | OpEnd | OpBr nat | OpBrIf nat | OpBrTable "nat list" nat | OpReturn
  | OpCall nat | OpCallIndirect nat nat | OpReturnCall nat | OpReturnCallIndirect nat nat

datatype variable_op =
    OpDrop | OpSelect | OpTypedSelect val_type
  | OpLocalGet u32 | OpLocalSet u32 | OpLocalTee u32 | OpGlobalGet nat | OpGlobalSet nat
  | OpI32Const u32 | OpI64Const u64 | OpF32Const u32 | OpF64Const u64
  | OpRefNull val_type | OpRefIsNull | OpRefFunc nat

datatype memory_op =
    OpLoad load_op memarg | OpIStore istore_op memarg | OpFStore fstore_op memarg
  | OpMemorySize nat | OpMemoryGrow nat
  | OpMemoryInit nat nat | OpDataDrop nat | OpMemoryCopy nat nat | OpMemoryFill nat

datatype table_op =
    OpTableInit nat nat | OpElemDrop nat | OpTableCopy nat nat | OpTableFill nat
  | OpTableGet nat | OpTableSet nat | OpTableGrow nat | OpTableSize nat

datatype numeric_op =
    OpI32Eqz | OpI64Eqz | OpIcmp icmp_op | OpFcmp fcmp_op
  | OpUnary unary_op | OpConv conv_op | OpTrunc trunc_op
  | OpI64ExtendI32S | OpI64ExtendI32U
  | OpI32ReinterpretF32 | OpI64ReinterpretF64 | OpF32ReinterpretI32 | OpF64ReinterpretI64
  | OpComm comm_op | OpSub sub_op | OpDivRem divrem_op | OpShift shift_op | OpFbin fbin_op

datatype wasm_op =
    OpControl control_op | OpVariable variable_op | OpMemory memory_op | OpTable table_op | OpNumeric numeric_op

primrec visit_icmp :: "('m, 'e) tl_env_scheme \<Rightarrow> icmp_op \<Rightarrow> ('m, unit) tl" where
  "visit_icmp te I32Eq = visit_i32_eq te"
| "visit_icmp te I32Ne = visit_i32_ne te"
| "visit_icmp te I32LtS = visit_i32_lt_s te"
| "visit_icmp te I32LtU = visit_i32_lt_u te"
| "visit_icmp te I32LeS = visit_i32_le_s te"
| "visit_icmp te I32LeU = visit_i32_le_u te"
| "visit_icmp te I32GtS = visit_i32_gt_s te"
| "visit_icmp te I32GtU = visit_i32_gt_u te"
| "visit_icmp te I32GeS = visit_i32_ge_s te"
| "visit_icmp te I32GeU = visit_i32_ge_u te"
| "visit_icmp te I64Eq = visit_i64_eq te"
| "visit_icmp te I64Ne = visit_i64_ne te"
| "visit_icmp te I64LtS = visit_i64_lt_s te"
| "visit_icmp te I64LtU = visit_i64_lt_u te"
| "visit_icmp te I64LeS = visit_i64_le_s te"
| "visit_icmp te I64LeU = visit_i64_le_u te"
| "visit_icmp te I64GtS = visit_i64_gt_s te"
| "visit_icmp te I64GtU = visit_i64_gt_u te"
| "visit_icmp te I64GeS = visit_i64_ge_s te"
| "visit_icmp te I64GeU = visit_i64_ge_u te"

primrec visit_fcmp :: "('m, 'e) tl_env_scheme \<Rightarrow> fcmp_op \<Rightarrow> ('m, unit) tl" where
  "visit_fcmp te F32Eq = visit_f32_eq te"
| "visit_fcmp te F32Ne = visit_f32_ne te"
| "visit_fcmp te F32Lt = visit_f32_lt te"
| "visit_fcmp te F32Le = visit_f32_le te"
| "visit_fcmp te F32Gt = visit_f32_gt te"
| "visit_fcmp te F32Ge = visit_f32_ge te"
| "visit_fcmp te F64Eq = visit_f64_eq te"
| "visit_fcmp te F64Ne = visit_f64_ne te"
| "visit_fcmp te F64Lt = visit_f64_lt te"
| "visit_fcmp te F64Le = visit_f64_le te"
| "visit_fcmp te F64Gt = visit_f64_gt te"
| "visit_fcmp te F64Ge = visit_f64_ge te"

text \<open>The operations that only fusion yields are no operators of Wasm.\<close>

primrec visit_comm :: "('m, 'e) tl_env_scheme \<Rightarrow> comm_op \<Rightarrow> ('m, unit) tl" where
  "visit_comm te I32Add = visit_i32_add te"
| "visit_comm te I32Mul = visit_i32_mul te"
| "visit_comm te I32And = visit_i32_and te"
| "visit_comm te I32AndEqz = tfail TPanic"
| "visit_comm te I32Or = visit_i32_or te"
| "visit_comm te I32OrEqz = tfail TPanic"
| "visit_comm te I32Xor = visit_i32_xor te"
| "visit_comm te I32XorEqz = tfail TPanic"
| "visit_comm te I64Add = visit_i64_add te"
| "visit_comm te I64Mul = visit_i64_mul te"
| "visit_comm te I64And = visit_i64_and te"
| "visit_comm te I64Or = visit_i64_or te"
| "visit_comm te I64Xor = visit_i64_xor te"

primrec visit_sub :: "('m, 'e) tl_env_scheme \<Rightarrow> sub_op \<Rightarrow> ('m, unit) tl" where
  "visit_sub te I32Sub = visit_i32_sub te"
| "visit_sub te I64Sub = visit_i64_sub te"

primrec visit_divrem :: "('m, 'e) tl_env_scheme \<Rightarrow> divrem_op \<Rightarrow> ('m, unit) tl" where
  "visit_divrem te I32DivS = visit_i32_div_s te"
| "visit_divrem te I32DivU = visit_i32_div_u te"
| "visit_divrem te I32RemS = visit_i32_rem_s te"
| "visit_divrem te I32RemU = visit_i32_rem_u te"
| "visit_divrem te I64DivS = visit_i64_div_s te"
| "visit_divrem te I64DivU = visit_i64_div_u te"
| "visit_divrem te I64RemS = visit_i64_rem_s te"
| "visit_divrem te I64RemU = visit_i64_rem_u te"

primrec visit_shift :: "('m, 'e) tl_env_scheme \<Rightarrow> shift_op \<Rightarrow> ('m, unit) tl" where
  "visit_shift te I32Shl = visit_i32_shl te"
| "visit_shift te I32ShrU = visit_i32_shr_u te"
| "visit_shift te I32ShrS = visit_i32_shr_s te"
| "visit_shift te I32Rotl = visit_i32_rotl te"
| "visit_shift te I32Rotr = visit_i32_rotr te"
| "visit_shift te I64Shl = visit_i64_shl te"
| "visit_shift te I64ShrU = visit_i64_shr_u te"
| "visit_shift te I64ShrS = visit_i64_shr_s te"
| "visit_shift te I64Rotl = visit_i64_rotl te"
| "visit_shift te I64Rotr = visit_i64_rotr te"

primrec visit_fbin :: "('m, 'e) tl_env_scheme \<Rightarrow> fbin_op \<Rightarrow> ('m, unit) tl" where
  "visit_fbin te F32Add = visit_f32_add te"
| "visit_fbin te F32Sub = visit_f32_sub te"
| "visit_fbin te F32Mul = visit_f32_mul te"
| "visit_fbin te F32Div = visit_f32_div te"
| "visit_fbin te F32Min = visit_f32_min te"
| "visit_fbin te F32Max = visit_f32_max te"
| "visit_fbin te F32Copysign = visit_f32_copysign te"
| "visit_fbin te F64Add = visit_f64_add te"
| "visit_fbin te F64Sub = visit_f64_sub te"
| "visit_fbin te F64Mul = visit_f64_mul te"
| "visit_fbin te F64Div = visit_f64_div te"
| "visit_fbin te F64Min = visit_f64_min te"
| "visit_fbin te F64Max = visit_f64_max te"
| "visit_fbin te F64Copysign = visit_f64_copysign te"

primrec visit_control_op :: "('m, 'e) tl_env_scheme \<Rightarrow> control_op \<Rightarrow> ('m, unit) tl" where
  "visit_control_op te OpUnreachable = visit_unreachable te"
| "visit_control_op te OpNop = visit_nop"
| "visit_control_op te (OpBlock bt) = visit_block te bt"
| "visit_control_op te (OpLoop bt) = visit_loop te bt"
| "visit_control_op te (OpIf bt) = visit_if te bt"
| "visit_control_op te OpElse = visit_else te"
| "visit_control_op te OpEnd = visit_end te"
| "visit_control_op te (OpBr d) = visit_br te d"
| "visit_control_op te (OpBrIf d) = visit_br_if te d"
| "visit_control_op te (OpBrTable ts d) = visit_br_table te ts d"
| "visit_control_op te OpReturn = visit_return te"
| "visit_control_op te (OpCall f) = visit_call te f"
| "visit_control_op te (OpCallIndirect ty tbl) = visit_call_indirect te ty tbl"
| "visit_control_op te (OpReturnCall f) = visit_return_call te f"
| "visit_control_op te (OpReturnCallIndirect ty tbl) = visit_return_call_indirect te ty tbl"

primrec visit_variable_op :: "('m, 'e) tl_env_scheme \<Rightarrow> variable_op \<Rightarrow> ('m, unit) tl" where
  "visit_variable_op te OpDrop = visit_drop te"
| "visit_variable_op te OpSelect = translate_select te None"
| "visit_variable_op te (OpTypedSelect ty) = translate_select te (Some ty)"
| "visit_variable_op te (OpLocalGet l) = visit_local_get l"
| "visit_variable_op te (OpLocalSet l) = visit_local_set te l"
| "visit_variable_op te (OpLocalTee l) = visit_local_tee te l"
| "visit_variable_op te (OpGlobalGet g) = visit_global_get te g"
| "visit_variable_op te (OpGlobalSet g) = visit_global_set te g"
| "visit_variable_op te (OpI32Const v) = visit_i32_const v"
| "visit_variable_op te (OpI64Const v) = visit_i64_const v"
| "visit_variable_op te (OpF32Const v) = visit_f32_const v"
| "visit_variable_op te (OpF64Const v) = visit_f64_const v"
| "visit_variable_op te (OpRefNull ty) = visit_ref_null ty"
| "visit_variable_op te OpRefIsNull = visit_ref_is_null te"
| "visit_variable_op te (OpRefFunc f) = visit_ref_func te f"

primrec visit_memory_op :: "('m, 'e) tl_env_scheme \<Rightarrow> memory_op \<Rightarrow> ('m, unit) tl" where
  "visit_memory_op te (OpLoad op m) = visit_load_op te op m"
| "visit_memory_op te (OpIStore op m) = visit_istore te op m"
| "visit_memory_op te (OpFStore op m) = visit_fstore te op m"
| "visit_memory_op te (OpMemorySize m) = visit_memory_size te m"
| "visit_memory_op te (OpMemoryGrow m) = visit_memory_grow te m"
| "visit_memory_op te (OpMemoryInit d m) = visit_memory_init te d m"
| "visit_memory_op te (OpDataDrop d) = visit_data_drop te d"
| "visit_memory_op te (OpMemoryCopy a b) = visit_memory_copy te a b"
| "visit_memory_op te (OpMemoryFill m) = visit_memory_fill te m"

primrec visit_table_op :: "('m, 'e) tl_env_scheme \<Rightarrow> table_op \<Rightarrow> ('m, unit) tl" where
  "visit_table_op te (OpTableInit e tbl) = visit_table_init te e tbl"
| "visit_table_op te (OpElemDrop e) = visit_elem_drop te e"
| "visit_table_op te (OpTableCopy a b) = visit_table_copy te a b"
| "visit_table_op te (OpTableFill tbl) = visit_table_fill te tbl"
| "visit_table_op te (OpTableGet tbl) = visit_table_get te tbl"
| "visit_table_op te (OpTableSet tbl) = visit_table_set te tbl"
| "visit_table_op te (OpTableGrow tbl) = visit_table_grow te tbl"
| "visit_table_op te (OpTableSize tbl) = visit_table_size te tbl"

primrec visit_numeric_op :: "('m, 'e) tl_env_scheme \<Rightarrow> numeric_op \<Rightarrow> ('m, unit) tl" where
  "visit_numeric_op te OpI32Eqz = visit_i32_eqz te"
| "visit_numeric_op te OpI64Eqz = visit_i64_eqz te"
| "visit_numeric_op te (OpIcmp op) = visit_icmp te op"
| "visit_numeric_op te (OpFcmp op) = visit_fcmp te op"
| "visit_numeric_op te (OpUnary op) = visit_unary te op"
| "visit_numeric_op te (OpConv op) = visit_conv te op"
| "visit_numeric_op te (OpTrunc op) = visit_trunc te op"
| "visit_numeric_op te OpI64ExtendI32S = visit_i64_extend_i32_s te"
| "visit_numeric_op te OpI64ExtendI32U = visit_i64_extend_i32_u te"
| "visit_numeric_op te OpI32ReinterpretF32 = visit_i32_reinterpret_f32 te"
| "visit_numeric_op te OpI64ReinterpretF64 = visit_i64_reinterpret_f64 te"
| "visit_numeric_op te OpF32ReinterpretI32 = visit_f32_reinterpret_i32 te"
| "visit_numeric_op te OpF64ReinterpretI64 = visit_f64_reinterpret_i64 te"
| "visit_numeric_op te (OpComm op) = visit_comm te op"
| "visit_numeric_op te (OpSub op) = visit_sub te op"
| "visit_numeric_op te (OpDivRem op) = visit_divrem te op"
| "visit_numeric_op te (OpShift op) = visit_shift te op"
| "visit_numeric_op te (OpFbin op) = visit_fbin te op"

primrec visit_operator :: "('m, 'e) tl_env_scheme \<Rightarrow> wasm_op \<Rightarrow> ('m, unit) tl" where
  "visit_operator te (OpControl op) = visit_control_op te op"
| "visit_operator te (OpVariable op) = visit_variable_op te op"
| "visit_operator te (OpMemory op) = visit_memory_op te op"
| "visit_operator te (OpTable op) = visit_table_op te op"
| "visit_operator te (OpNumeric op) = visit_numeric_op te op"


section \<open>The function\<close>

definition tl_finish :: "('m, 'e) tl_env_scheme \<Rightarrow> ('m, compiled_func) tl" where
  "tl_finish te =
    tseq defrag_registers
    (tseq update_branch_offsets
    (tbind (tget (\<lambda>s. ts_len_registers (cg_stack s))) (\<lambda>len_registers.
     tseq (case tle_fuel_costs te of
             None \<Rightarrow> tskip
           | Some costs \<Rightarrow> bump_fuel_consumption (FuelSome costs 0) (fuel_for_copies (ucast len_registers)))
     (tget (\<lambda>s. \<lparr>cm_instrs = ie_instrs (cg_enc s), cm_consts = ts_func_local_consts (cg_stack s),
        cm_len_registers = len_registers\<rparr>)))))"

text \<open>\<open>base_offset\<close> is the offset of the code section; positions before it make the subtraction panic.\<close>

definition translate_operator :: "('m, 'e) tl_env_scheme \<Rightarrow> nat \<Rightarrow> nat \<times> wasm_op \<Rightarrow> ('m, unit) tl" where
  "translate_operator te base_offset = (\<lambda>(pos, op).
    if pos < base_offset then tfail TPanic
    else tseq (update_visit_pos (of_nat (pos - base_offset))) (visit_operator te op))"

definition translate_operators :: "('m, 'e) tl_env_scheme \<Rightarrow> nat \<Rightarrow> (nat \<times> wasm_op) list \<Rightarrow> ('m, unit) tl" where
  "translate_operators te base_offset ops = tfor (translate_operator te base_offset) ops"

definition driver_translate_locals :: "(u32 \<times> val_type) list \<Rightarrow> ('m, unit) tl" where
  "driver_translate_locals ls =
    tseq (tfor (\<lambda>(amount, ty). tl_translate_locals amount) ls)
    (tseq (tmodify (\<lambda>s. s\<lparr>cg_stack := (cg_stack s)\<lparr>ts_local_value_types :=
        concat (map (\<lambda>(amount, ty). replicate (unat amount) ty) ls)\<rparr>\<rparr>))
      tl_finish_translate_locals)"

definition translate_function ::
  "('m, 'e) tl_env_scheme \<Rightarrow> 'm translator \<Rightarrow> nat \<Rightarrow> (u32 \<times> val_type) list \<Rightarrow> (nat \<times> wasm_op) list \<Rightarrow>
    tr_error + compiled_func" where
  "translate_function te alloc base_offset ls ops =
    rbind (translator_new te alloc) (\<lambda>s.
    rmap fst (tseq (driver_translate_locals ls) (tseq (translate_operators te base_offset ops) (tl_finish te)) s))"

end
