(* ===== verification/Tr_Sim.thy ===== *)
theory Tr_Sim
  imports Tr_Stack_Inv Tr_Driver Exec_Props
begin

text \<open>
  The translation of operators against the executor: what a translated operator leaves on the
  emulated stack, with what the instruction that it pushed computes, is what the operator means.
  Fuel metering is off here.
\<close>


section \<open>Reading the emulated stack\<close>

abbreviation providers :: "'m translator \<Rightarrow> tagged_provider list" where
  "providers s \<equiv> ps_providers (ts_providers (cg_stack s))"

abbreviation consts_of :: "'m translator \<Rightarrow> func_local_consts" where
  "consts_of s \<equiv> ts_consts (cg_stack s)"

abbreviation code_of :: "'m translator \<Rightarrow> instr_word list" where
  "code_of s \<equiv> ie_instrs (cg_enc s)"

definition operand_reads :: "'h exec \<Rightarrow> typed_provider \<Rightarrow> untyped_val \<Rightarrow> bool" where
  "operand_reads ex p v = (case p of ProvReg r \<Rightarrow> reg_get ex r = Some v | ProvConst c \<Rightarrow> tv_value c = v)"

definition stack_reads :: "'h exec \<Rightarrow> 'm translator \<Rightarrow> untyped_val list \<Rightarrow> bool" where
  "stack_reads ex s vs = list_all2 (\<lambda>p. operand_reads ex (typed_of_tagged p)) (providers s) vs"

text \<open>The constants that the translation has allocated so far are in their registers.\<close>

definition consts_read :: "'h exec \<Rightarrow> 'm translator \<Rightarrow> bool" where
  "consts_read ex s \<longleftrightarrow> (\<forall>r v. consts_get r (consts_of s) = Some v \<longrightarrow> reg_get ex r = Some v)"

definition tl_inv :: "('m, 'e) tl_env_scheme \<Rightarrow> (reg \<Rightarrow> nat) \<Rightarrow> 'm translator \<Rightarrow> bool" where
  "tl_inv te x s \<longleftrightarrow> ts_inv (te_stash te) x (cg_stack s) \<and> consts_inv (consts_of s)"

text \<open>What later steps of the translation keep.\<close>

definition tl_extends :: "'m translator \<Rightarrow> 'm translator \<Rightarrow> bool" where
  "tl_extends s s' \<longleftrightarrow>
    (\<forall>r v. consts_get r (consts_of s) = Some v \<longrightarrow> consts_get r (consts_of s') = Some v) \<and>
    ra_len_locals (ts_reg_alloc (cg_stack s')) = ra_len_locals (ts_reg_alloc (cg_stack s)) \<and>
    tl_control s' = tl_control s"

lemma tl_extends_refl [simp]: "tl_extends s s"
  by (simp add: tl_extends_def)

lemma tl_extends_trans: "tl_extends s s' \<Longrightarrow> tl_extends s' s'' \<Longrightarrow> tl_extends s s''"
  by (simp add: tl_extends_def)

lemma consts_read_extends: "tl_extends s s' \<Longrightarrow> consts_read ex s' \<Longrightarrow> consts_read ex s"
  by (simp add: tl_extends_def consts_read_def)


section \<open>Steps of the translation\<close>

lemma tl_bump_fuel_None: "tle_fuel_costs te = None \<Longrightarrow> tl_bump_fuel te f s = Inr ((), s)"
  by (simp add: tl_bump_fuel_def fuel_info_of_def bump_fuel_consumption_def tr_simps)

definition pushed_code :: "instruction \<Rightarrow> 'm translator \<Rightarrow> 'm translator" where
  "pushed_code i s = s\<lparr>cg_enc := (cg_enc s)\<lparr>ie_instrs := code_of s @ [iw (tl_visit_pos s) i],
     ie_last_instr := Some (length (code_of s))\<rparr>\<rparr>"

lemma push_instr_pos: "push_instr (tl_visit_pos s) i s = Inr (r, s') \<Longrightarrow> s' = pushed_code i s"
  by (auto simp: push_instr_def append_instr_def seq_push_def seq_next_instr_def pushed_code_def tr_simps rsimps
      split: if_splits)

lemma emit_Inr:
  assumes "tle_fuel_costs te = None" "emit te i s = Inr (u, s')"
  shows "s' = pushed_code i s"
proof -
  from assms obtain r where "push_instr (tl_visit_pos s) i s = Inr (r, s')"
    by (auto simp: emit_def push_base_instr_def push_fueled_def tl_bump_fuel_None tr_simps rsimps)
  then show ?thesis by (rule push_instr_pos)
qed

lemma pushed_code_simps [simp]:
  "cg_stack (pushed_code i s) = cg_stack s" "code_of (pushed_code i s) = code_of s @ [iw (tl_visit_pos s) i]"
  "tl_reachable (pushed_code i s) = tl_reachable s" "tl_control (pushed_code i s) = tl_control s"
  by (simp_all add: pushed_code_def)

lemma tl_push_dynamic_Inr:
  assumes inv: "tl_inv te x s" and push: "tl_push_dynamic s = Inr (r, s')"
  shows "tl_inv te x s'" "ts_unused r (cg_stack s)" "providers s' = providers s @ [TagDynamic r]"
    "tl_extends s s'" "consts_of s' = consts_of s" "cg_enc s' = cg_enc s" "tl_reachable s' = tl_reachable s"
    "sint (ra_len_locals (ts_reg_alloc (cg_stack s))) \<le> sint r"
    "0 \<le> sint (ra_len_locals (ts_reg_alloc (cg_stack s)))"
    "ra_in_use (ts_reg_alloc (cg_stack s')) r" "tl_visit_pos s' = tl_visit_pos s"
proof -
  from push obtain st where st: "ts_push_dynamic (cg_stack s) = Inr (r, st)" and s': "s' = s\<lparr>cg_stack := st\<rparr>"
    by (auto simp: tl_push_dynamic_def on_stack_def rsimps)
  have inv': "ts_inv (te_stash te) x (cg_stack s)" using inv by (simp add: tl_inv_def)
  note d = ts_push_dynamic_inv [OF inv' st]
  from st obtain ra where ra: "ra_push_dynamic (ts_reg_alloc (cg_stack s)) = Inr (r, ra)"
      and push': "ts_push_tagged (TagDynamic r) ((cg_stack s)\<lparr>ts_reg_alloc := ra\<rparr>) = Inr st"
    by (auto simp: ts_push_dynamic_def rsimps)
  from push' have c: "ts_consts st = consts_of s" "ts_reg_alloc st = ra" by (auto simp: ts_push_tagged_def rsimps)
  show "tl_inv te x s'" using d(1) inv c by (simp add: tl_inv_def s')
  show "ts_unused r (cg_stack s)" by (rule d(2))
  have psi: "ps_inv (ts_providers (cg_stack s))" using inv' by (simp add: ts_inv_def)
  show "providers s' = providers s @ [TagDynamic r]"
    using push' ps_push_inv [OF psi, of "TagDynamic r"] by (auto simp: ts_push_tagged_def rsimps s')
  have len: "ra_len_locals ra = ra_len_locals (ts_reg_alloc (cg_stack s))"
    using ra by (auto simp: ra_push_dynamic_def Let_def split: if_splits)
  then show "tl_extends s s'" by (simp add: tl_extends_def s' c)
  show "consts_of s' = consts_of s" "cg_enc s' = cg_enc s" "tl_reachable s' = tl_reachable s" "tl_visit_pos s' = tl_visit_pos s"
    by (simp_all add: s' c)
  have rinv: "ra_inv (te_stash te) (\<lambda>r. count_list (providers s) (TagPreserved r) + x r) (ts_reg_alloc (cg_stack s))"
      "ra_apart (ts_reg_alloc (cg_stack s))"
    using inv' by (auto simp: ts_inv_def)
  note p = ra_push_dynamic_inv [OF rinv ra]
  show "0 \<le> sint (ra_len_locals (ts_reg_alloc (cg_stack s)))" using rinv(1) by (simp add: ra_inv_def)
  show "sint (ra_len_locals (ts_reg_alloc (cg_stack s))) \<le> sint r" using rinv(1) p(3) by (simp add: ra_inv_def)
  show "ra_in_use (ts_reg_alloc (cg_stack s')) r"
    using p(1,4,5) c sint_reg_bounds(2) [of "ra_max_dynamic ra"] by (simp add: s' ra_in_use_def ra_inv_def ra_lower_def)
qed


lemma tl_alloc_const_Inr:
  assumes inv: "tl_inv te x s" and al: "tl_alloc_const v s = Inr (r, s')"
  shows "tl_inv te x s'" "consts_get r (consts_of s') = Some v" "providers s' = providers s" "tl_extends s s'"
    "cg_enc s' = cg_enc s" "tl_reachable s' = tl_reachable s" "ts_reg_alloc (cg_stack s') = ts_reg_alloc (cg_stack s)"
    "tl_visit_pos s' = tl_visit_pos s"
proof -
  from al obtain c where c: "consts_alloc v (consts_of s) = Inr (r, c)"
      and s': "s' = s\<lparr>cg_stack := (cg_stack s)\<lparr>ts_consts := c\<rparr>\<rparr>"
    by (auto simp: tl_alloc_const_def on_stack_def ts_alloc_const_def rsimps)
  have ci: "consts_inv (consts_of s)" using inv by (simp add: tl_inv_def)
  note a = consts_alloc_inv [OF ci c]
  show "tl_inv te x s'" using inv a by (simp add: tl_inv_def ts_inv_def s')
  show "consts_get r (consts_of s') = Some v" using a by (simp add: s')
  show "tl_extends s s'" using a(3) by (simp add: tl_extends_def s')
qed (use al in \<open>auto simp: tl_alloc_const_def on_stack_def ts_alloc_const_def rsimps\<close>)

lemma tl_push_const_Inr:
  assumes inv: "tl_inv te x s" and push: "tl_push_const v s = Inr (u, s')"
  shows "tl_inv te x s'" "providers s' = providers s @ [TagConstValue v]" "tl_extends s s'"
    "cg_enc s' = cg_enc s" "tl_reachable s' = tl_reachable s" "consts_of s' = consts_of s"
proof -
  from push obtain st where st: "ts_push_tagged (TagConstValue v) (cg_stack s) = Inr st" and s': "s' = s\<lparr>cg_stack := st\<rparr>"
    by (auto simp: tl_push_const_def upd_stack_def ts_push_const_def rsimps)
  have inv': "ts_inv (te_stash te) x (cg_stack s)" using inv by (simp add: tl_inv_def)
  note p = ts_push_tagged_inv [OF inv' st]
  have c: "ts_consts st = consts_of s" using st by (auto simp: ts_push_tagged_def rsimps)
  have "ts_inv (te_stash te) x st" "ts_reg_alloc st = ts_reg_alloc (cg_stack s)" using p by (simp_all add: tag_ok_def)
  then show "tl_inv te x s'" "tl_extends s s'" using inv by (simp_all add: tl_inv_def tl_extends_def s' c)
  have psi: "ps_inv (ts_providers (cg_stack s))" using inv' by (simp add: ts_inv_def)
  show "providers s' = providers s @ [TagConstValue v]"
    using st ps_push_inv [OF psi, of "TagConstValue v"] by (auto simp: ts_push_tagged_def rsimps s')
  show "cg_enc s' = cg_enc s" "tl_reachable s' = tl_reachable s" "consts_of s' = consts_of s" by (simp_all add: s' c)
qed


section \<open>Pushing a register that has just been popped\<close>

lemma ra_bump_slot:
  assumes laws: "stash_laws ms" and inv: "ra_inv ms u ra" and slot: "st_get ms (ra_preservations ra) (reg_key r) \<noteq> None"
    and r: "0 \<le> sint r" "sint r \<le> 32766"
  shows "\<exists>m. ra_bump_preserved ms r ra = Inr (ra\<lparr>ra_preservations := m\<rparr>) \<and>
    ra_inv ms (u(r := Suc (u r))) (ra\<lparr>ra_preservations := m\<rparr>)"
proof -
  let ?m = "snd (st_bump ms (reg_key r) 1 (ra_preservations ra))"
  have c: "stash_counts ms (ra_preservations ra) (sint (ra_min_preserve ra)) u" using inv by (simp add: ra_inv_def)
  then obtain a where a: "st_get ms (ra_preservations ra) (reg_key r) = Some a" "a = Suc (u r)" "sint (ra_min_preserve ra) < sint r"
    using r slot unfolding stash_counts_def by (fastforce split: option.splits)
  have "st_get ms ?m = (st_get ms (ra_preservations ra))(reg_key r := Some (a + 1))"
    using laws a(1) unfolding stash_laws_def by simp
  then have "stash_counts ms ?m (sint (ra_min_preserve ra)) (u(r := Suc (u r)))"
    using r a by (intro stash_counts_upd [OF c]) auto
  then show ?thesis using inv r by (intro exI [of _ ?m]) (simp add: ra_bump_preserved_def reg2key_eq ra_inv_def)
qed

lemma ra_pop_preserved_slot:
  assumes laws: "stash_laws ms" and inv: "ra_inv ms u ra" and used: "0 < u r" and pop: "ra_pop_preserved ms r ra = Inr ra'"
  shows "st_get ms (ra_preservations ra') (reg_key r) \<noteq> None"
proof -
  note rr = ra_inv_used [OF inv used]
  have c: "stash_counts ms (ra_preservations ra) (sint (ra_min_preserve ra)) u" using inv by (simp add: ra_inv_def)
  then have a: "st_get ms (ra_preservations ra) (reg_key r) = Some (Suc (u r))"
    using rr used unfolding stash_counts_def by (fastforce split: option.splits)
  have "st_get ms (snd (st_take_one ms (reg_key r) (ra_preservations ra))) =
        (st_get ms (ra_preservations ra))(reg_key r := Some (u r))"
    using laws a used unfolding stash_laws_def by simp
  then show ?thesis using pop rr
    by (auto simp: ra_pop_preserved_def reg2key_eq rsimps split: prod.splits if_splits)
qed

text \<open>\<open>ra\<close> is the allocator before the provider \<open>p\<close> above \<open>P\<close> was popped.\<close>

lemma ts_repush_inv:
  assumes laws: "stash_laws ms" and inv: "ts_inv ms x s"
    and ra: "ra_inv ms (\<lambda>r. count_list (P @ [p]) (TagPreserved r) + x r) ra" "ra_apart ra"
      "dynamics_ok ra (P @ [p])" "tag_ok ra p"
    and pop: "ra_pop_provider ms p ra = Inr (ProvReg r, ts_reg_alloc s)"
    and same: "\<And>q. count_list (ps_providers (ts_providers s)) (TagPreserved q) = count_list P (TagPreserved q)"
      "dynamic_regs (ps_providers (ts_providers s)) = dynamic_regs P"
    and push: "ts_push_register ms r s = Inr s'"
  shows "ts_inv ms x s' \<and> ps_providers (ts_providers s') = ps_providers (ts_providers s) @ [p] \<and>
    typed_of_tagged p = ProvReg r \<and> ts_consts s' = ts_consts s \<and>
    ra_len_locals (ts_reg_alloc s') = ra_len_locals (ts_reg_alloc s)"
proof -
  let ?Q = "ps_providers (ts_providers s)" and ?rs = "ts_reg_alloc s"
  have psi: "ps_inv (ts_providers s)" using inv by (simp add: ts_inv_def)
  have rs: "ra_inv ms (\<lambda>r. count_list ?Q (TagPreserved r) + x r) ?rs" "ra_apart ?rs" "dynamics_ok ?rs ?Q"
      "\<forall>q \<in> set ?Q. tag_ok ?rs q"
    using inv by (auto simp: ts_inv_def)
  have push_tag: "ts_inv ms x s' \<and> ps_providers (ts_providers s') = ?Q @ [p] \<and> ts_consts s' = ts_consts s \<and>
      ra_len_locals (ts_reg_alloc s') = ra_len_locals ?rs"
    if tag: "ts_push_tagged p (s\<lparr>ts_reg_alloc := ra2\<rparr>) = Inr s'"
      and inv2: "ra_inv ms (\<lambda>r. count_list (?Q @ [p]) (TagPreserved r) + x r) ra2" "ra_apart ra2"
      "dynamics_ok ra2 (?Q @ [p])" "tag_ok ra2 p" "ra_len_locals ra2 = ra_len_locals ?rs" for ra2
  proof -
    obtain ps' where ps': "ps_push p (ts_providers s) = Inr ps'" "ps_providers ps' = ?Q @ [p]" "ps_inv ps'"
      using ps_push_inv [OF psi] by blast
    have s': "s' = s\<lparr>ts_reg_alloc := ra2, ts_providers := ps'\<rparr>" using tag ps'(1) by (simp add: ts_push_tagged_def)
    have "\<forall>q \<in> set ?Q. tag_ok ra2 q"
      using rs(4) inv2(5) by (auto simp: tag_ok_def ra_is_local_def ra_min_dynamic_def split: tagged_provider.splits)
    then show ?thesis using ps' inv2 by (simp add: ts_inv_def s')
  qed
  show ?thesis
  proof (cases p)
    case (TagLocal l)
    then have "ra = ?rs" "l = r" using pop by (simp_all add: ra_pop_provider_def)
    moreover from this have "ra_register_space ?rs r = SpaceLocal"
      using ra(4) TagLocal by (simp add: tag_ok_def ra_register_space_def ra_is_local_def)
    moreover have "s\<lparr>ts_reg_alloc := ?rs\<rparr> = s" by simp
    ultimately show ?thesis using push rs push_tag [of ?rs] ra(4) TagLocal
      by (simp add: ts_push_register_def typed_of_tagged_def dynamics_ok_def dynamic_regs_append)
  next
    case (TagConstLocal l)
    then have "ra = ?rs" "l = r" using pop by (simp_all add: ra_pop_provider_def)
    moreover from this have "ra_register_space ?rs r = SpaceConst"
      using ra(4) TagConstLocal by (simp add: tag_ok_def ra_register_space_def)
    moreover have "s\<lparr>ts_reg_alloc := ?rs\<rparr> = s" by simp
    ultimately show ?thesis using push rs push_tag [of ?rs] ra(4) TagConstLocal
      by (simp add: ts_push_register_def typed_of_tagged_def dynamics_ok_def dynamic_regs_append)
  next
    case (TagConstValue v)
    then show ?thesis using pop by (simp add: ra_pop_provider_def)
  next
    case (TagDynamic d)
    then have p1: "ra_pop_dynamic ra = Inr ?rs" "d = r" using pop by (auto simp: ra_pop_provider_def rsimps)
    note pd = ra_pop_dynamic_inv [OF ra(1) p1(1)]
    have len: "ra_len_locals ?rs = ra_len_locals ra" "ra_min_preserve ?rs = ra_min_preserve ra"
      using p1(1) by (auto simp: ra_pop_dynamic_def dest: sym split: if_splits)
    have r: "sint (ra_len_locals ra) \<le> sint r" "sint r \<le> sint (ra_len_locals ra) + int (length (dynamic_regs P))"
        "sint (ra_next_dynamic ra) = sint (ra_len_locals ra) + int (length (dynamic_regs P)) + 1"
      using ra(3) TagDynamic p1(2) by (auto simp: dynamics_ok_def dynamic_regs_append nth_append)
    have "0 \<le> sint (ra_len_locals ra)" using ra(1) by (simp add: ra_inv_def)
    then have "ra_register_space ?rs r = SpaceDynamic"
      using r len ra(2) by (simp add: ra_register_space_def reg_is_const_def ra_is_local_def ra_is_preserved_def
          ra_min_dynamic_def ra_apart_def)
    then obtain q ra2 where q: "ra_push_dynamic ?rs = Inr (q, ra2)" "ts_push_tagged p (s\<lparr>ts_reg_alloc := ra2\<rparr>) = Inr s'"
      using push TagDynamic p1(2) by (auto simp: ts_push_register_def rsimps)
    note pu = ra_push_dynamic_inv [OF rs(1,2) q(1)]
    have len2: "ra_len_locals ra2 = ra_len_locals ?rs"
      using q(1) by (auto simp: ra_push_dynamic_def Let_def split: if_splits)
    have "dynamics_ok ra2 (?Q @ [p])"
      using rs(3) pu(3,4) r len len2 TagDynamic p1(2) same(2)
      by (auto simp: dynamics_ok_def dynamic_regs_append nth_append less_Suc_eq)
    then show ?thesis using push_tag [OF q(2)] pu(1,2) len2 TagDynamic p1(2) by (simp add: tag_ok_def typed_of_tagged_def)
  next
    case (TagPreserved d)
    then have p1: "ra_pop_preserved ms r ra = Inr ?rs" "d = r" using pop by (auto simp: ra_pop_provider_def rsimps)
    let ?u = "\<lambda>q. count_list (P @ [p]) (TagPreserved q) + x q"
    have used: "0 < ?u r" using TagPreserved p1(2) by simp
    note rr = ra_inv_used [OF ra(1) used] and slot = ra_pop_preserved_slot [OF laws ra(1) used p1(1)]
    have mp: "ra_min_preserve ?rs = ra_min_preserve ra" "ra_next_dynamic ?rs = ra_next_dynamic ra" "ra_len_locals ?rs = ra_len_locals ra"
      using ra_pop_preserved_inv [OF laws ra(1) used] p1(1) by auto
    have "0 \<le> sint r" "sint r \<le> 32766" using rr by auto
    from ra_bump_slot [OF laws rs(1) slot this] obtain m where
      m: "ra_bump_preserved ms r ?rs = Inr (?rs\<lparr>ra_preservations := m\<rparr>)"
        "ra_inv ms ((\<lambda>r. count_list ?Q (TagPreserved r) + x r)(r := Suc (count_list ?Q (TagPreserved r) + x r)))
          (?rs\<lparr>ra_preservations := m\<rparr>)" by blast
    have "(\<lambda>r. count_list ?Q (TagPreserved r) + x r)(r := Suc (count_list ?Q (TagPreserved r) + x r)) =
        (\<lambda>r. count_list (?Q @ [p]) (TagPreserved r) + x r)"
      using TagPreserved p1(2) by (auto simp: fun_eq_iff)
    with m(2) have inv2: "ra_inv ms (\<lambda>r. count_list (?Q @ [p]) (TagPreserved r) + x r) (?rs\<lparr>ra_preservations := m\<rparr>)" by simp
    have "sint (ra_len_locals ?rs) \<le> sint r" using rs(1,2) rr mp by (simp add: ra_inv_def ra_apart_def)
    then have "ra_register_space ?rs r = SpacePreserve"
      using rr mp by (simp add: ra_register_space_def reg_is_const_def ra_is_local_def ra_is_preserved_def ra_min_dynamic_def)
    then have "ts_push_tagged p (s\<lparr>ts_reg_alloc := ?rs\<lparr>ra_preservations := m\<rparr>\<rparr>) = Inr s'"
      using push m(1) TagPreserved p1(2) by (simp add: ts_push_register_def ts_lift_alloc_def)
    from push_tag [OF this inv2] show ?thesis using rs TagPreserved p1(2)
      by (simp add: ra_apart_def dynamics_ok_def dynamic_regs_append tag_ok_def typed_of_tagged_def)
  qed
qed


text \<open>Pushing \<open>r\<close> keeps the invariant and adds a provider for it, whatever space it is in.\<close>

definition may_repush :: "('m, 'e) tl_env_scheme \<Rightarrow> (reg \<Rightarrow> nat) \<Rightarrow> 'm translator \<Rightarrow> reg \<Rightarrow> bool" where
  "may_repush te x s r \<longleftrightarrow> (\<forall>u s'. tl_push_register te r s = Inr (u, s') \<longrightarrow>
    tl_inv te x s' \<and> (\<exists>p. providers s' = providers s @ [p] \<and> typed_of_tagged p = ProvReg r) \<and>
    tl_extends s s' \<and> cg_enc s' = cg_enc s \<and> tl_reachable s' = tl_reachable s)"

lemma ra_pop_provider_len: "ra_pop_provider ms p ra = Inr (tp, ra') \<Longrightarrow> ra_len_locals ra' = ra_len_locals ra"
  by (cases p) (auto simp: ra_pop_provider_def ra_pop_dynamic_def ra_pop_preserved_def rsimps case_prod_beta split: if_splits)

lemma ts_pop_Inr:
  assumes laws: "stash_laws ms" and inv: "ts_inv ms x s" and pop: "ts_pop ms s = Inr (tp, s')"
  shows "\<exists>p. tp = typed_of_tagged p \<and> ps_providers (ts_providers s) = ps_providers (ts_providers s') @ [p] \<and>
    ra_pop_provider ms p (ts_reg_alloc s) = Inr (tp, ts_reg_alloc s')"
    "ts_inv ms x s'" "ts_consts s' = ts_consts s" "ra_len_locals (ts_reg_alloc s') = ra_len_locals (ts_reg_alloc s)"
proof -
  have ne: "ts_height s \<noteq> 0" using pop by (auto simp: ts_pop_def ps_pop_def ts_height_def rsimps split: if_splits)
  obtain p where p: "tp = typed_of_tagged p" "ts_inv ms x s'" "ps_providers (ts_providers s) = ps_providers (ts_providers s') @ [p]"
    using ts_pop_inv [OF laws inv ne] pop by auto
  have psi: "ps_inv (ts_providers s)" using inv by (simp add: ts_inv_def)
  obtain ps' where "ps_pop (ts_providers s) = Inr (p, ps')" using ps_pop_inv [OF psi p(3)] by blast
  then have q: "ra_pop_provider ms p (ts_reg_alloc s) = Inr (tp, ts_reg_alloc s') \<and> ts_consts s' = ts_consts s"
    using pop by (auto simp: ts_pop_def rsimps)
  with p show "\<exists>p. tp = typed_of_tagged p \<and> ps_providers (ts_providers s) = ps_providers (ts_providers s') @ [p] \<and>
    ra_pop_provider ms p (ts_reg_alloc s) = Inr (tp, ts_reg_alloc s')" "ts_inv ms x s'" "ts_consts s' = ts_consts s" by auto
  show "ra_len_locals (ts_reg_alloc s') = ra_len_locals (ts_reg_alloc s)"
    using q ra_pop_provider_len by blast
qed

lemma tl_pop_Inr:
  assumes laws: "stash_laws (te_stash te)" and inv: "tl_inv te x s" and pop: "tl_pop te s = Inr (tp, s')"
  shows "\<exists>p. tp = typed_of_tagged p \<and> providers s = providers s' @ [p] \<and>
      ra_pop_provider (te_stash te) p (ts_reg_alloc (cg_stack s)) = Inr (tp, ts_reg_alloc (cg_stack s'))"
    "tl_inv te x s'" "tl_extends s s'" "cg_enc s' = cg_enc s" "tl_reachable s' = tl_reachable s" "consts_of s' = consts_of s"
    "tl_visit_pos s' = tl_visit_pos s"
proof -
  from pop obtain st where st: "ts_pop (te_stash te) (cg_stack s) = Inr (tp, st)" and s': "s' = s\<lparr>cg_stack := st\<rparr>"
    by (auto simp: tl_pop_def on_stack_def rsimps)
  have "ts_inv (te_stash te) x (cg_stack s)" using inv by (simp add: tl_inv_def)
  note p = ts_pop_Inr [OF laws this st]
  show "\<exists>p. tp = typed_of_tagged p \<and> providers s = providers s' @ [p] \<and>
      ra_pop_provider (te_stash te) p (ts_reg_alloc (cg_stack s)) = Inr (tp, ts_reg_alloc (cg_stack s'))"
    using p(1) by (simp add: s')
  show "tl_inv te x s'" "tl_extends s s'" using p inv by (simp_all add: tl_inv_def tl_extends_def s')
qed (use pop in \<open>auto simp: tl_pop_def on_stack_def ts_pop_def rsimps\<close>)

lemma may_repushI:
  assumes laws: "stash_laws (te_stash te)" and inv: "tl_inv te x s" and before: "tl_inv te x s0" "providers s0 = P @ [p]"
    and pop: "ra_pop_provider (te_stash te) p (ts_reg_alloc (cg_stack s0)) = Inr (ProvReg r, ts_reg_alloc (cg_stack s))"
    and same: "\<And>q. count_list (providers s) (TagPreserved q) = count_list P (TagPreserved q)"
      "dynamic_regs (providers s) = dynamic_regs P"
  shows "may_repush te x s r"
  unfolding may_repush_def
proof (intro allI impI)
  fix u s' assume "tl_push_register te r s = Inr (u, s')"
  then obtain st where st: "ts_push_register (te_stash te) r (cg_stack s) = Inr st" and s': "s' = s\<lparr>cg_stack := st\<rparr>"
    by (auto simp: tl_push_register_def upd_stack_def rsimps)
  have b: "ts_inv (te_stash te) x (cg_stack s)" "ts_inv (te_stash te) x (cg_stack s0)" using inv before(1) by (simp_all add: tl_inv_def)
  have "ra_inv (te_stash te) (\<lambda>r. count_list (P @ [p]) (TagPreserved r) + x r) (ts_reg_alloc (cg_stack s0))"
      "ra_apart (ts_reg_alloc (cg_stack s0))" "dynamics_ok (ts_reg_alloc (cg_stack s0)) (P @ [p])" "tag_ok (ts_reg_alloc (cg_stack s0)) p"
    using b(2) by (auto simp: ts_inv_def before(2))
  from ts_repush_inv [OF laws b(1) this pop same st] inv
  show "tl_inv te x s' \<and> (\<exists>p. providers s' = providers s @ [p] \<and> typed_of_tagged p = ProvReg r) \<and>
    tl_extends s s' \<and> cg_enc s' = cg_enc s \<and> tl_reachable s' = tl_reachable s"
    by (auto simp: tl_inv_def tl_extends_def s')
qed

lemma tl_pop_repush:
  assumes laws: "stash_laws (te_stash te)" and inv: "tl_inv te x s" and pop: "tl_pop te s = Inr (ProvReg r, s')"
  shows "may_repush te x s' r"
proof -
  note p = tl_pop_Inr [OF laws inv pop]
  from p(1) obtain q where q: "providers s = providers s' @ [q]"
      "ra_pop_provider (te_stash te) q (ts_reg_alloc (cg_stack s)) = Inr (ProvReg r, ts_reg_alloc (cg_stack s'))" by blast
  show ?thesis by (rule may_repushI [OF laws p(2) inv q(1) q(2)]) simp_all
qed

lemma tl_pop2_Inr:
  assumes laws: "stash_laws (te_stash te)" and inv: "tl_inv te x s" and pop: "tl_pop2 te s = Inr ((lhs, rhs), s')"
  shows "\<exists>p q. lhs = typed_of_tagged p \<and> rhs = typed_of_tagged q \<and> providers s = providers s' @ [p, q]"
    "tl_inv te x s'" "tl_extends s s'" "cg_enc s' = cg_enc s" "tl_reachable s' = tl_reachable s"
    "lhs = ProvReg r \<Longrightarrow> may_repush te x s' r" "rhs = ProvReg r \<Longrightarrow> lhs = ProvConst c \<Longrightarrow> may_repush te x s' r"
proof -
  from pop obtain st1 st2 where "ts_pop (te_stash te) (cg_stack s) = Inr (rhs, st1)" "ts_pop (te_stash te) st1 = Inr (lhs, st2)"
      "s' = s\<lparr>cg_stack := st2\<rparr>"
    by (auto simp: tl_pop2_def on_stack_def ts_pop2_def rsimps)
  then have pops: "tl_pop te s = Inr (rhs, s\<lparr>cg_stack := st1\<rparr>)" "tl_pop te (s\<lparr>cg_stack := st1\<rparr>) = Inr (lhs, s')"
    by (simp_all add: tl_pop_def on_stack_def)
  let ?s1 = "s\<lparr>cg_stack := st1\<rparr>"
  note a = tl_pop_Inr [OF laws inv pops(1)]
  note b = tl_pop_Inr [OF laws a(2) pops(2)]
  from a(1) obtain q where q: "rhs = typed_of_tagged q" "providers s = providers ?s1 @ [q]"
      "ra_pop_provider (te_stash te) q (ts_reg_alloc (cg_stack s)) = Inr (rhs, ts_reg_alloc (cg_stack ?s1))" by blast
  from b(1) obtain p where p: "lhs = typed_of_tagged p" "providers ?s1 = providers s' @ [p]"
      "ra_pop_provider (te_stash te) p (ts_reg_alloc (cg_stack ?s1)) = Inr (lhs, ts_reg_alloc (cg_stack s'))" by blast
  show "\<exists>p q. lhs = typed_of_tagged p \<and> rhs = typed_of_tagged q \<and> providers s = providers s' @ [p, q]"
    using p q by auto
  show "tl_inv te x s'" "cg_enc s' = cg_enc s" "tl_reachable s' = tl_reachable s" using a b by simp_all
  show "tl_extends s s'" by (rule tl_extends_trans [OF a(3) b(3)])
  show "may_repush te x s' r" if "lhs = ProvReg r"
    using tl_pop_repush [OF laws a(2), of r s'] pops(2) that by simp
  show "may_repush te x s' r" if "rhs = ProvReg r" "lhs = ProvConst c"
  proof -
    have pc: "\<exists>v. p = TagConstValue v" using that(2) p(1) by (cases p) (auto simp: typed_of_tagged_def)
    then have "ts_reg_alloc (cg_stack ?s1) = ts_reg_alloc (cg_stack s')" using p(3) by (auto simp: ra_pop_provider_def)
    then show ?thesis using may_repushI [OF laws b(2) inv q(2)] q(3) that(1) p(2) pc
      by (auto simp: dynamic_regs_append)
  qed
qed


section \<open>What translated code computes\<close>

text \<open>The instruction writes the value \<open>v\<close> to the register \<open>r\<close>, or traps.\<close>

definition computes :: "('h, 'e) exec_env \<Rightarrow> 'h exec \<Rightarrow> num_instr \<Rightarrow> reg \<Rightarrow> trap_code + untyped_val \<Rightarrow> bool" where
  "computes env ex i r v \<longleftrightarrow> (exec_num (env_nan env) i ex :: 'e xerr + 'h exec) =
    rbind (lift_trap v) (\<lambda>w. rbind (set_register r w ex) (\<lambda>ex. Inr (next_instr ex)))"

text \<open>
  From \<open>s\<close> to \<open>s'\<close> the translation has put \<open>v\<close> on the emulated stack: as a provider that has this value
  already, through one instruction that computes it into a fresh register, or as a trap.
\<close>

definition delivers :: "('h, 'e) exec_env \<Rightarrow> ('m, 'z) tl_env_scheme \<Rightarrow> (reg \<Rightarrow> nat) \<Rightarrow> 'm translator \<Rightarrow>
    'm translator \<Rightarrow> 'h exec \<Rightarrow> trap_code + untyped_val \<Rightarrow> bool" where
  "delivers env te x s s' ex v \<longleftrightarrow> tl_inv te x s' \<and> tl_extends s s' \<and>
    ((\<exists>p w. v = Inr w \<and> code_of s' = code_of s \<and> providers s' = providers s @ [p] \<and>
        operand_reads ex (typed_of_tagged p) w \<and> tl_reachable s') \<or>
     (\<exists>r i pos. code_of s' = code_of s @ [iw pos (INum i)] \<and> providers s' = providers s @ [TagDynamic r] \<and>
        ts_unused r (cg_stack s) \<and> 0 \<le> sint (ra_len_locals (ts_reg_alloc (cg_stack s))) \<and>
        sint (ra_len_locals (ts_reg_alloc (cg_stack s))) \<le> sint r \<and> ra_in_use (ts_reg_alloc (cg_stack s')) r \<and>
        tl_reachable s' \<and> computes env ex i r v) \<or>
     (\<exists>code pos. v = Inl code \<and> code_of s' = code_of s @ [iw pos (ITrap code)] \<and> providers s' = providers s \<and>
        \<not> tl_reachable s'))"

definition ready :: "('h, 'e) exec_env \<Rightarrow> ('m, 'z) tl_env_scheme \<Rightarrow> (reg \<Rightarrow> nat) \<Rightarrow> 'm translator \<Rightarrow> bool" where
  "ready env te x s \<longleftrightarrow> stash_laws (te_stash te) \<and> tle_fuel_costs te = None \<and> env_nan env = te_nan te \<and>
    tl_inv te x s \<and> tl_reachable s"

definition gives :: "('h, 'e) exec_env \<Rightarrow> ('m, 'z) tl_env_scheme \<Rightarrow> (reg \<Rightarrow> nat) \<Rightarrow> ('m, unit) tl \<Rightarrow>
    'm translator \<Rightarrow> 'h exec \<Rightarrow> trap_code + untyped_val \<Rightarrow> bool" where
  "gives env te x m s ex v \<longleftrightarrow> (\<forall>s'. m s = Inr ((), s') \<longrightarrow> consts_read ex s' \<longrightarrow> delivers env te x s s' ex v)"

text \<open>An optimisation either does nothing or yields the value.\<close>

definition sound :: "('h, 'e) exec_env \<Rightarrow> ('m, 'z) tl_env_scheme \<Rightarrow> (reg \<Rightarrow> nat) \<Rightarrow> ('m, bool) tl \<Rightarrow>
    'm translator \<Rightarrow> 'h exec \<Rightarrow> trap_code + untyped_val \<Rightarrow> bool" where
  "sound env te x m s ex v \<longleftrightarrow> (\<forall>b s'. m s = Inr (b, s') \<longrightarrow>
    (if b then consts_read ex s' \<longrightarrow> delivers env te x s s' ex v else s' = s))"

lemma soundD: "sound env te x m s ex v \<Longrightarrow> m s = Inr (b, s') \<Longrightarrow>
    (if b then consts_read ex s' \<longrightarrow> delivers env te x s s' ex v else s' = s)"
  unfolding sound_def by blast

lemma gives_or_else:
  assumes "sound env te x opt s ex v" "gives env te x m s ex v"
  shows "gives env te x (or_else opt m) s ex v"
  unfolding gives_def
proof (intro allI impI)
  fix s' assume run: "or_else opt m s = Inr ((), s')" and c: "consts_read ex s'"
  then obtain b s1 where b: "opt s = Inr (b, s1)" "(if b then tskip else m) s1 = Inr ((), s')"
    by (auto simp: or_else_def tr_simps rsimps)
  from soundD [OF assms(1) b(1)] b(2) c assms(2) show "delivers env te x s s' ex v"
    by (cases b) (simp_all add: gives_def tr_simps tl_defs)
qed

lemma sound_none: "sound env te x (no_custom_opt a b) s ex v"
  by (simp add: sound_def no_custom_opt_def tr_simps)

lemma sound_skip: "sound env te x (tret False) s ex v"
  by (simp add: sound_def tr_simps)

lemma sound_when: "(b \<Longrightarrow> gives env te x m s ex v) \<Longrightarrow> sound env te x (opt_when b m) s ex v"
  by (auto simp: gives_def sound_def opt_when_def tr_simps rsimps)

lemma sound_applied: "gives env te x m s ex v \<Longrightarrow> sound env te x (tseq m (tret True)) s ex v"
  by (auto simp: gives_def sound_def tr_simps rsimps)

lemma sound_try:
  assumes "sound env te x a s ex v" "sound env te x b s ex v"
  shows "sound env te x (try_opts a b) s ex v"
  unfolding sound_def
proof (intro allI impI)
  fix r s' assume "try_opts a b s = Inr (r, s')"
  then obtain q s1 where q: "a s = Inr (q, s1)" "(if q then tret True else b) s1 = Inr (r, s')"
    by (auto simp: try_opts_def tr_simps rsimps)
  from soundD [OF assms(1) q(1)] q(2) soundD [OF assms(2), of r s']
  show "if r then consts_read ex s' \<longrightarrow> delivers env te x s s' ex v else s' = s"
    by (cases q) (simp_all add: tr_simps)
qed

lemma gives_push_const:
  assumes "ready env te x s" "v = Inr (tv_value c)"
  shows "gives env te x (tl_push_const c) s ex v"
  unfolding gives_def
proof (intro allI impI)
  fix s' assume "tl_push_const c s = Inr ((), s')"
  from tl_push_const_Inr [OF _ this, of te x] assms show "delivers env te x s s' ex v"
    by (auto simp: ready_def delivers_def operand_reads_def typed_of_tagged_def)
qed

lemma gives_push_register:
  assumes "ready env te x s" "may_repush te x s r" "reg_get ex r = Some w" "v = Inr w"
  shows "gives env te x (tl_push_register te r) s ex v"
  unfolding gives_def
proof (intro allI impI)
  fix s' assume "tl_push_register te r s = Inr ((), s')"
  then show "delivers env te x s s' ex v"
    using assms by (fastforce simp: may_repush_def ready_def delivers_def operand_reads_def)
qed

lemma gives_trap:
  assumes "ready env te x s" "v = Inl code"
  shows "gives env te x (translate_trap te code) s ex v"
  unfolding gives_def
proof (intro allI impI)
  fix s' assume run: "translate_trap te code s = Inr ((), s')"
  have r: "tl_reachable s" "tle_fuel_costs te = None" "tl_inv te x s" using assms(1) by (simp_all add: ready_def)
  from run r(1) obtain s1 where s1: "emit te (ITrap code) s = Inr ((), s1)" "s' = s1\<lparr>tl_reachable := False\<rparr>"
    by (auto simp: translate_trap_def bail_unreachable_def tr_simps tl_defs rsimps)
  have s': "s' = (pushed_code (ITrap code) s)\<lparr>tl_reachable := False\<rparr>" using emit_Inr [OF r(2) s1(1)] s1(2) by simp
  have "tl_inv te x s'" "tl_extends s s'" using r(3) by (simp_all add: s' tl_inv_def tl_extends_def)
  moreover have "code_of s' = code_of s @ [iw (tl_visit_pos s) (ITrap code)]" "providers s' = providers s" "\<not> tl_reachable s'"
    by (simp_all add: s')
  ultimately show "delivers env te x s s' ex v" unfolding delivers_def using assms(2) by blast
qed

lemma delivers_instr:
  assumes ready: "ready env te x s" and push: "tl_push_dynamic s = Inr (r, s1)" and code: "s' = pushed_code (INum i) s2"
    and s2: "tl_inv te x s2" "providers s2 = providers s1" "cg_enc s2 = cg_enc s1" "tl_extends s1 s2" "tl_reachable s2"
      "ts_reg_alloc (cg_stack s2) = ts_reg_alloc (cg_stack s1)"
    and comp: "computes env ex i r v"
  shows "delivers env te x s s' ex v"
proof -
  have inv: "tl_inv te x s" using ready by (simp add: ready_def)
  note d = tl_push_dynamic_Inr [OF inv push]
  have "tl_inv te x s'" using s2(1) by (simp add: code tl_inv_def)
  moreover have "tl_extends s s'" using tl_extends_trans [OF d(4) s2(4)] by (simp add: code tl_extends_def)
  moreover have "code_of s' = code_of s @ [iw (tl_visit_pos s2) (INum i)]" using s2(3) d(6) by (simp add: code)
  moreover have "providers s' = providers s @ [TagDynamic r]" using d(3) s2(2) by (simp add: code)
  moreover have "ra_in_use (ts_reg_alloc (cg_stack s')) r" "tl_reachable s'" using d(10) s2(5,6) by (simp_all add: code)
  ultimately show ?thesis unfolding delivers_def using d(2,8,9) comp by blast
qed


section \<open>Instructions of an operator\<close>

text \<open>
  \<open>F\<close> is the operator. \<open>mk\<close> makes the instruction on registers, \<open>mk16\<close> and \<open>mk16_rev\<close> the ones with a
  constant that \<open>imm\<close> expands.
\<close>

definition mk_ok :: "('h, 'e) exec_env \<Rightarrow> mk_binary \<Rightarrow> (untyped_val \<Rightarrow> untyped_val \<Rightarrow> trap_code + untyped_val) \<Rightarrow> bool" where
  "mk_ok env mk F \<longleftrightarrow> (\<forall>r lhs rhs. \<exists>i. mk r lhs rhs = INum i \<and> (\<forall>ex a b. reg_get ex lhs = Some a \<longrightarrow>
    reg_get ex rhs = Some b \<longrightarrow> computes env ex i r (F a b)))"

definition mk16_ok ::
  "('h, 'e) exec_env \<Rightarrow> mk_imm16 \<Rightarrow> (u16 \<Rightarrow> untyped_val) \<Rightarrow> (untyped_val \<Rightarrow> bool) \<Rightarrow>
    (untyped_val \<Rightarrow> untyped_val \<Rightarrow> trap_code + untyped_val) \<Rightarrow> bool" where
  "mk16_ok env mk16 imm ok F \<longleftrightarrow> (\<forall>r lhs c. \<exists>i. mk16 r lhs c = INum i \<and> (\<forall>ex a. reg_get ex lhs = Some a \<longrightarrow>
    ok (imm c) \<longrightarrow> computes env ex i r (F a (imm c))))"

definition mk16_rev_ok ::
  "('h, 'e) exec_env \<Rightarrow> mk_imm16_rev \<Rightarrow> (u16 \<Rightarrow> untyped_val) \<Rightarrow>
    (untyped_val \<Rightarrow> untyped_val \<Rightarrow> trap_code + untyped_val) \<Rightarrow> bool" where
  "mk16_rev_ok env mk16 imm F \<longleftrightarrow> (\<forall>r c rhs. \<exists>i. mk16 r c rhs = INum i \<and> (\<forall>ex b. reg_get ex rhs = Some b \<longrightarrow>
    computes env ex i r (F (imm c) b)))"

lemma mk_okD: "mk_ok env mk F \<Longrightarrow> reg_get ex lhs = Some a \<Longrightarrow> reg_get ex rhs = Some b \<Longrightarrow>
    \<exists>i. mk r lhs rhs = INum i \<and> computes env ex i r (F a b)"
  unfolding mk_ok_def by meson

lemma mk16_okD: "mk16_ok env mk16 imm ok F \<Longrightarrow> reg_get ex lhs = Some a \<Longrightarrow> ok (imm c) \<Longrightarrow>
    \<exists>i. mk16 r lhs c = INum i \<and> computes env ex i r (F a (imm c))"
  unfolding mk16_ok_def by meson

lemma mk16_rev_okD: "mk16_rev_ok env mk16 imm F \<Longrightarrow> reg_get ex rhs = Some b \<Longrightarrow>
    \<exists>i. mk16 r c rhs = INum i \<and> computes env ex i r (F (imm c) b)"
  unfolding mk16_rev_ok_def by meson

lemma get_register_Some: "reg_get ex r = Some v \<Longrightarrow> get_register ex r = Inr v"
  by (simp add: get_register_def)

lemma gives_dynamic:
  assumes ready: "ready env te x s" and mk: "\<And>r. \<exists>i. mk r = INum i \<and> computes env ex i r v"
  shows "gives env te x (tbind tl_push_dynamic (\<lambda>r. emit te (mk r))) s ex v"
  unfolding gives_def
proof (intro allI impI)
  fix s' assume "tbind tl_push_dynamic (\<lambda>r. emit te (mk r)) s = Inr ((), s')"
  then obtain r s1 where s1: "tl_push_dynamic s = Inr (r, s1)" "emit te (mk r) s1 = Inr ((), s')"
    by (auto simp: tr_defs rsimps)
  from mk obtain i where i: "mk r = INum i" "computes env ex i r v" by blast
  have r: "tle_fuel_costs te = None" "tl_inv te x s" "tl_reachable s" using ready by (simp_all add: ready_def)
  note d = tl_push_dynamic_Inr [OF r(2) s1(1)]
  show "delivers env te x s s' ex v"
    using emit_Inr [OF r(1) s1(2)] i r d by (intro delivers_instr [OF ready s1(1), of s' i s1]) simp_all
qed

lemma gives_dynamic_const:
  assumes ready: "ready env te x s"
    and mk: "\<And>r q. reg_get ex q = Some c \<Longrightarrow> \<exists>i. mk r q = INum i \<and> computes env ex i r v"
  shows "gives env te x (tbind tl_push_dynamic (\<lambda>r. tbind (tl_alloc_const c) (\<lambda>q. emit te (mk r q)))) s ex v"
  unfolding gives_def
proof (intro allI impI)
  fix s' assume "tbind tl_push_dynamic (\<lambda>r. tbind (tl_alloc_const c) (\<lambda>q. emit te (mk r q))) s = Inr ((), s')"
    and c: "consts_read ex s'"
  then obtain r s1 q s2 where s: "tl_push_dynamic s = Inr (r, s1)" "tl_alloc_const c s1 = Inr (q, s2)"
      "emit te (mk r q) s2 = Inr ((), s')"
    by (auto simp: tr_defs rsimps)
  have r: "tle_fuel_costs te = None" "tl_inv te x s" "tl_reachable s" using ready by (simp_all add: ready_def)
  note d = tl_push_dynamic_Inr [OF r(2) s(1)]
  note a = tl_alloc_const_Inr [OF d(1) s(2)] and e = emit_Inr [OF r(1) s(3)]
  have "consts_get q (consts_of s') = Some c" using a(2) e by simp
  with c have "reg_get ex q = Some c" by (simp add: consts_read_def)
  from mk [OF this] obtain i where i: "mk r q = INum i" "computes env ex i r v" by blast
  show "delivers env te x s s' ex v"
    using e i a d r by (intro delivers_instr [OF ready s(1), of s' i s2]) simp_all
qed

lemma gives_binary:
  assumes "ready env te x s" "mk_ok env mk F" "reg_get ex lhs = Some a" "reg_get ex rhs = Some b" "v = F a b"
  shows "gives env te x (push_binary_instr te lhs rhs mk) s ex v"
  unfolding push_binary_instr_def using assms by (intro gives_dynamic) (auto intro: mk_okD)

lemma gives_binary_imm:
  assumes "ready env te x s" "mk_ok env mk F" "reg_get ex lhs = Some a" "v = F a c"
  shows "gives env te x (push_binary_instr_imm te lhs c mk) s ex v"
  unfolding push_binary_instr_imm_def using assms by (intro gives_dynamic_const) (auto intro: mk_okD)

lemma gives_binary_imm_rev:
  assumes "ready env te x s" "mk_ok env mk F" "reg_get ex rhs = Some b" "v = F c b"
  shows "gives env te x (push_binary_instr_imm_rev te c rhs mk) s ex v"
  unfolding push_binary_instr_imm_rev_def using assms by (intro gives_dynamic_const) (auto intro: mk_okD)

lemma gives_then: "gives env te x (tbind tl_push_dynamic (\<lambda>r. emit te (mk r))) s ex v \<Longrightarrow>
    sound env te x (tbind tl_push_dynamic (\<lambda>r. tseq (emit te (mk r)) (tret True))) s ex v"
  unfolding gives_def sound_def by (auto simp: tr_defs rsimps)


text \<open>A constant of the type of an operator, as validation guarantees it.\<close>

primrec canon :: "int_ty \<Rightarrow> untyped_val \<Rightarrow> bool" where
  "canon TyI32 v = (of_i32 (to_i32 v) = v)"
| "canon TyU32 v = (of_i32 (to_i32 v) = v)"
| "canon TyI64 v = True"
| "canon TyU64 v = True"

primrec imm_of :: "int_ty \<Rightarrow> u16 \<Rightarrow> untyped_val" where
  "imm_of TyI32 = of_const16_s32"
| "imm_of TyU32 = of_const16_u32"
| "imm_of TyI64 = of_const16_s64"
| "imm_of TyU64 = of_const16_u64"

lemma const16_try_exact: "const16_try ty v = Some c \<Longrightarrow> canon ty v \<Longrightarrow> imm_of ty c = v"
  by (cases ty) (auto simp: of_const16_s32_def of_const16_u32_def of_const16_s64_def of_const16_u64_def
      dest!: const16_of_i32_roundtrip const16_of_u32_roundtrip const16_of_i64_roundtrip const16_of_u64_roundtrip)

lemma sound_imm16:
  assumes "ready env te x s" "mk16_ok env mk16 (imm_of ty) ok F" "reg_get ex lhs = Some a" "canon ty c" "ok c" "v = F a c"
  shows "sound env te x (try_push_binary_instr_imm16 te ty lhs c mk16) s ex v"
proof (cases "const16_try ty c")
  case None
  then show ?thesis by (simp add: try_push_binary_instr_imm16_def sound_skip)
next
  case (Some d)
  then have d: "imm_of ty d = c" using assms(4) by (rule const16_try_exact)
  have "gives env te x (tbind tl_push_dynamic (\<lambda>r. emit te (mk16 r lhs d))) s ex v"
    using mk16_okD [OF assms(2,3), of d] assms(5,6) d by (intro gives_dynamic [OF assms(1)]) simp
  then show ?thesis using Some by (simp add: try_push_binary_instr_imm16_def gives_then)
qed

lemma sound_imm16_rev:
  assumes "ready env te x s" "mk16_rev_ok env mk16 (imm_of ty) F" "reg_get ex rhs = Some b" "canon ty c" "v = F c b"
  shows "sound env te x (try_push_binary_instr_imm16_rev te ty c rhs mk16) s ex v"
proof (cases "const16_try ty c")
  case None
  then show ?thesis by (simp add: try_push_binary_instr_imm16_rev_def sound_skip)
next
  case (Some d)
  then have d: "imm_of ty d = c" using assms(4) by (rule const16_try_exact)
  have "gives env te x (tbind tl_push_dynamic (\<lambda>r. emit te (mk16 r d rhs))) s ex v"
    using mk16_rev_okD [OF assms(2,3), of _ d] assms(5) d by (intro gives_dynamic [OF assms(1)]) simp
  then show ?thesis using Some by (simp add: try_push_binary_instr_imm16_rev_def gives_then)
qed


section \<open>Operators with two operands\<close>

definition op2_correct :: "('h, 'e) exec_env \<Rightarrow> ('m, 'z) tl_env_scheme \<Rightarrow> (reg \<Rightarrow> nat) \<Rightarrow> ('m, unit) tl \<Rightarrow>
    (untyped_val \<Rightarrow> untyped_val \<Rightarrow> bool) \<Rightarrow> (untyped_val \<Rightarrow> untyped_val \<Rightarrow> trap_code + untyped_val) \<Rightarrow> bool" where
  "op2_correct env te x m cond F \<longleftrightarrow> (\<forall>s s'. ready env te x s \<longrightarrow> m s = Inr ((), s') \<longrightarrow>
    (\<exists>s1 p q. providers s = providers s1 @ [p, q] \<and> tl_extends s s1 \<and> code_of s1 = code_of s \<and>
       (\<forall>ex a b. consts_read ex s' \<longrightarrow> operand_reads ex (typed_of_tagged p) a \<longrightarrow>
          operand_reads ex (typed_of_tagged q) b \<longrightarrow> cond a b \<longrightarrow> delivers env te x s1 s' ex (F a b))))"

text \<open>What the code after the two pops may rely on.\<close>

definition popped2 :: "('m, 'z) tl_env_scheme \<Rightarrow> (reg \<Rightarrow> nat) \<Rightarrow> 'm translator \<Rightarrow> typed_provider \<Rightarrow> typed_provider \<Rightarrow> bool" where
  "popped2 te x s lhs rhs \<longleftrightarrow> (\<forall>r. lhs = ProvReg r \<longrightarrow> may_repush te x s r) \<and>
    (\<forall>r c. rhs = ProvReg r \<longrightarrow> lhs = ProvConst c \<longrightarrow> may_repush te x s r)"

lemma op2_correctI:
  assumes k: "\<And>s lhs rhs ex a b. ready env te x s \<Longrightarrow> popped2 te x s lhs rhs \<Longrightarrow> operand_reads ex lhs a \<Longrightarrow>
      operand_reads ex rhs b \<Longrightarrow> cond a b \<Longrightarrow> gives env te x (k (lhs, rhs)) s ex (F a b)"
  shows "op2_correct env te x (bail_unreachable (tbind (tl_pop2 te) k)) cond F"
  unfolding op2_correct_def
proof (intro allI impI)
  fix s s' assume r: "ready env te x s" and run: "bail_unreachable (tbind (tl_pop2 te) k) s = Inr ((), s')"
  have rr: "stash_laws (te_stash te)" "tl_inv te x s" "tl_reachable s" using r by (simp_all add: ready_def)
  from run rr(3) obtain lhs rhs s1 where s1: "tl_pop2 te s = Inr ((lhs, rhs), s1)" "k (lhs, rhs) s1 = Inr ((), s')"
    by (auto simp: bail_unreachable_def tr_defs rsimps)
  note p = tl_pop2_Inr [OF rr(1,2) s1(1)]
  from p(1) obtain p q where pq: "lhs = typed_of_tagged p" "rhs = typed_of_tagged q" "providers s = providers s1 @ [p, q]" by blast
  have "ready env te x s1" using r p by (simp add: ready_def)
  moreover have "popped2 te x s1 lhs rhs" using p(6,7) by (simp add: popped2_def)
  ultimately have "delivers env te x s1 s' ex (F a b)"
    if "consts_read ex s'" "operand_reads ex lhs a" "operand_reads ex rhs b" "cond a b" for ex a b
    using k that s1(2) unfolding gives_def by blast
  then show "\<exists>s1 p q. providers s = providers s1 @ [p, q] \<and> tl_extends s s1 \<and> code_of s1 = code_of s \<and>
       (\<forall>ex a b. consts_read ex s' \<longrightarrow> operand_reads ex (typed_of_tagged p) a \<longrightarrow>
          operand_reads ex (typed_of_tagged q) b \<longrightarrow> cond a b \<longrightarrow> delivers env te x s1 s' ex (F a b))"
    using pq p(3,4) by (intro exI [of _ s1] exI [of _ p] exI [of _ q]) simp
qed

lemma op2_correct_mono: "op2_correct env te x m cond F \<Longrightarrow> (\<And>a b. cond' a b \<Longrightarrow> cond a b) \<Longrightarrow>
    (\<And>a b. cond' a b \<Longrightarrow> F' a b = F a b) \<Longrightarrow> op2_correct env te x m cond' F'"
  unfolding op2_correct_def by metis

lemma gives_consteval: "ready env te x s \<Longrightarrow> v = Inr (tv_value (ce l r)) \<Longrightarrow>
    gives env te x (push_binary_consteval l r ce) s ex v"
  unfolding push_binary_consteval_def by (rule gives_push_const)

lemma translate_binary_correct:
  fixes env :: "('h, 'f) exec_env"
  assumes mk: "mk_ok env mk F"
    and mk16: "case mk16 of Some m \<Rightarrow> mk16_ok env m (imm_of ty) (\<lambda>_. True) F
      | None \<Rightarrow> True"
    and rev: "mk16_rev_ok env mk16_rev (imm_of ty) F"
    and ce: "\<And>l r. F (tv_value l) (tv_value r) = Inr (tv_value (ce l r))"
    and o1: "\<And>s ex l r a b. ready env te x s \<Longrightarrow> may_repush te x s l \<Longrightarrow> reg_get ex l = Some a \<Longrightarrow>
      reg_get ex r = Some b \<Longrightarrow> cond a b \<Longrightarrow> sound env te x (opt l r) s ex (F a b)"
    and o2: "\<And>s ex l a b. ready env te x s \<Longrightarrow> may_repush te x s l \<Longrightarrow> reg_get ex l = Some a \<Longrightarrow>
      cond a b \<Longrightarrow> sound env te x (opt_ri l b) s ex (F a b)"
    and o3: "\<And>s ex r a b. ready env te x s \<Longrightarrow> may_repush te x s r \<Longrightarrow> reg_get ex r = Some b \<Longrightarrow>
      cond a b \<Longrightarrow> sound env te x (opt_ir a r) s ex (F a b)"
    and cond: "\<And>a b. cond a b \<Longrightarrow> canon ty a \<and> canon ty b"
  shows "op2_correct env te x (translate_binary te ty mk mk16 mk16_rev ce opt opt_ri opt_ir) cond F"
  unfolding translate_binary_def
proof (rule op2_correctI)
  fix s lhs rhs a b and ex :: "'h exec"
  assume r: "ready env te x s" and p: "popped2 te x s lhs rhs" and o: "operand_reads ex lhs a" "operand_reads ex rhs b"
    and c: "cond a b"
  note cc = cond [OF c]
  have f: "sound env te x (tfail TPanic) s ex v" for v :: "trap_code + untyped_val" by (simp add: sound_def tr_simps)
  show "gives env te x (case (lhs, rhs) of
      (ProvReg lhs, ProvReg rhs) \<Rightarrow> or_else (opt lhs rhs) (push_binary_instr te lhs rhs mk)
    | (ProvReg lhs, ProvConst rhs) \<Rightarrow>
        or_else (opt_ri lhs (tv_value rhs))
          (or_else
            (case mk16 of
               Some mk16 \<Rightarrow> try_push_binary_instr_imm16 te ty lhs (tv_value rhs) mk16
             | None \<Rightarrow> if const16_try ty (tv_value rhs) = None then tret False else tfail TPanic)
            (push_binary_instr_imm te lhs (tv_value rhs) mk))
    | (ProvConst lhs, ProvReg rhs) \<Rightarrow>
        or_else (opt_ir (tv_value lhs) rhs)
          (or_else (try_push_binary_instr_imm16_rev te ty (tv_value lhs) rhs mk16_rev)
            (push_binary_instr_imm_rev te (tv_value lhs) rhs mk))
    | (ProvConst lhs, ProvConst rhs) \<Rightarrow> push_binary_consteval lhs rhs ce) s ex (F a b)"
  proof (cases lhs; cases rhs)
    fix l q assume *: "lhs = ProvReg l" "rhs = ProvReg q"
    with o p have "reg_get ex l = Some a" "reg_get ex q = Some b" "may_repush te x s l"
      by (auto simp: operand_reads_def popped2_def)
    then show ?thesis using * r c by (auto intro!: gives_or_else o1 gives_binary [OF _ mk])
  next
    fix l q assume *: "lhs = ProvReg l" "rhs = ProvConst q"
    with o p have "reg_get ex l = Some a" "tv_value q = b" "may_repush te x s l"
      by (auto simp: operand_reads_def popped2_def)
    then show ?thesis using * r c cc mk16
      by (cases mk16) (auto intro!: gives_or_else o2 gives_binary_imm [OF _ mk] sound_imm16 sound_skip f)
  next
    fix l q assume *: "lhs = ProvConst l" "rhs = ProvReg q"
    with o p have "tv_value l = a" "reg_get ex q = Some b" "may_repush te x s q"
      by (auto simp: operand_reads_def popped2_def)
    then show ?thesis using * r c cc
      by (auto intro!: gives_or_else o3 gives_binary_imm_rev [OF _ mk] sound_imm16_rev [OF _ rev])
  next
    fix l q assume *: "lhs = ProvConst l" "rhs = ProvConst q"
    with o have "tv_value l = a" "tv_value q = b" by (auto simp: operand_reads_def)
    then show ?thesis using * ce [of l q] r by (auto intro!: gives_consteval)
  qed
qed


lemma translate_binary_commutative_correct:
  fixes env :: "('h, 'f) exec_env"
  assumes mk: "mk_ok env mk F" and mk16: "mk16_ok env mk16 (imm_of ty) (\<lambda>_. True) F"
    and comm: "\<And>a b. F a b = F b a"
    and ce: "\<And>l r. F (tv_value l) (tv_value r) = Inr (tv_value (ce l r))"
    and o1: "\<And>s ex l r a b. ready env te x s \<Longrightarrow> may_repush te x s l \<Longrightarrow> reg_get ex l = Some a \<Longrightarrow>
      reg_get ex r = Some b \<Longrightarrow> cond a b \<Longrightarrow> sound env te x (opt l r) s ex (F a b)"
    and o2: "\<And>s ex l a b. ready env te x s \<Longrightarrow> may_repush te x s l \<Longrightarrow> reg_get ex l = Some a \<Longrightarrow>
      cond a b \<or> cond b a \<Longrightarrow> sound env te x (opt_imm l b) s ex (F a b)"
    and cond: "\<And>a b. cond a b \<Longrightarrow> canon ty a \<and> canon ty b"
  shows "op2_correct env te x (translate_binary_commutative te ty mk mk16 ce opt opt_imm) cond F"
  unfolding translate_binary_commutative_def
proof (rule op2_correctI)
  fix s lhs rhs a b and ex :: "'h exec"
  assume r: "ready env te x s" and p: "popped2 te x s lhs rhs" and o: "operand_reads ex lhs a" "operand_reads ex rhs b"
    and c: "cond a b"
  note cc = cond [OF c]
  have imm: "gives env te x (binary_commutative_imm te ty mk mk16 opt_imm q c') s ex (F a' (tv_value c'))"
    if "may_repush te x s q" "reg_get ex q = Some a'" "cond a' (tv_value c') \<or> cond (tv_value c') a'" "canon ty (tv_value c')"
    for q a' c'
    unfolding binary_commutative_imm_def using that r
    by (auto intro!: gives_or_else gives_binary_imm [OF _ mk] sound_imm16 [OF _ mk16] o2)
  show "gives env te x (case (lhs, rhs) of
      (ProvReg lhs, ProvReg rhs) \<Rightarrow> or_else (opt lhs rhs) (push_binary_instr te lhs rhs mk)
    | (ProvReg reg_in, ProvConst imm_in) \<Rightarrow> binary_commutative_imm te ty mk mk16 opt_imm reg_in imm_in
    | (ProvConst imm_in, ProvReg reg_in) \<Rightarrow> binary_commutative_imm te ty mk mk16 opt_imm reg_in imm_in
    | (ProvConst lhs, ProvConst rhs) \<Rightarrow> push_binary_consteval lhs rhs ce) s ex (F a b)"
  proof (cases lhs; cases rhs)
    fix l q assume *: "lhs = ProvReg l" "rhs = ProvReg q"
    with o p have "reg_get ex l = Some a" "reg_get ex q = Some b" "may_repush te x s l"
      by (auto simp: operand_reads_def popped2_def)
    then show ?thesis using * r c by (auto intro!: gives_or_else o1 gives_binary [OF _ mk])
  next
    fix l q assume *: "lhs = ProvReg l" "rhs = ProvConst q"
    with o p have "reg_get ex l = Some a" "tv_value q = b" "may_repush te x s l"
      by (auto simp: operand_reads_def popped2_def)
    then show ?thesis using * c cc imm by auto
  next
    fix l q assume *: "lhs = ProvConst l" "rhs = ProvReg q"
    with o p have **: "tv_value l = a" "reg_get ex q = Some b" "may_repush te x s q"
      by (auto simp: operand_reads_def popped2_def)
    show ?thesis using * ** c cc imm [of q b l] comm [of a b] by simp
  next
    fix l q assume *: "lhs = ProvConst l" "rhs = ProvConst q"
    with o have "tv_value l = a" "tv_value q = b" by (auto simp: operand_reads_def)
    then show ?thesis using * ce [of l q] r by (auto intro!: gives_consteval)
  qed
qed

text \<open>The second choice may use that the optimisation did not apply.\<close>

lemma gives_or:
  assumes "sound env te x opt s ex v" "\<And>s'. opt s = Inr (False, s') \<Longrightarrow> gives env te x m s ex v"
  shows "gives env te x (or_else opt m) s ex v"
proof (cases "\<exists>s'. opt s = Inr (False, s')")
  case True
  then show ?thesis using assms by (blast intro: gives_or_else)
next
  case False
  then have "or_else opt m s = or_else opt (tfail TPanic) s"
    by (auto simp: or_else_def tr_defs split: sum.splits intro!: rbind_cong_Inr)
  moreover have "gives env te x (or_else opt (tfail TPanic)) s ex v"
    using assms(1) by (rule gives_or_else) (simp add: gives_def tr_defs)
  ultimately show ?thesis by (simp add: gives_def)
qed

text \<open>Floating point operators have no constants in instructions, and propagate a constant NaN.\<close>

lemma translate_fbinary_correct:
  fixes env :: "('h, 'f) exec_env"
  assumes mk: "mk_ok env mk F"
    and ce: "\<And>l r. F (tv_value l) (tv_value r) = Inr (tv_value (ce l r))"
    and o1: "\<And>s ex l r a b. ready env te x s \<Longrightarrow> may_repush te x s l \<Longrightarrow> reg_get ex l = Some a \<Longrightarrow>
      reg_get ex r = Some b \<Longrightarrow> cond a b \<Longrightarrow> sound env te x (opt l r) s ex (F a b)"
    and o2: "\<And>s ex l a b. ready env te x s \<Longrightarrow> may_repush te x s l \<Longrightarrow> reg_get ex l = Some a \<Longrightarrow>
      cond a b \<Longrightarrow> sound env te x (opt_ri l b) s ex (F a b)"
    and o3: "\<And>s ex r a b. ready env te x s \<Longrightarrow> may_repush te x s r \<Longrightarrow> reg_get ex r = Some b \<Longrightarrow>
      cond a b \<Longrightarrow> sound env te x (opt_ir a r) s ex (F a b)"
    and nan: "\<And>a b s l s'. cond a b \<Longrightarrow> is_nan_val w b \<Longrightarrow> opt_ri l b s = Inr (False, s') \<Longrightarrow> F a b = Inr b"
      "\<And>a b s r s'. cond a b \<Longrightarrow> is_nan_val w a \<Longrightarrow> opt_ir a r s = Inr (False, s') \<Longrightarrow> F a b = Inr a"
  shows "op2_correct env te x (translate_fbinary te w mk ce opt opt_ri opt_ir) cond F"
  unfolding translate_fbinary_def
proof (rule op2_correctI)
  fix s lhs rhs a b and ex :: "'h exec"
  assume r: "ready env te x s" and p: "popped2 te x s lhs rhs" and o: "operand_reads ex lhs a" "operand_reads ex rhs b"
    and c: "cond a b"
  show "gives env te x (case (lhs, rhs) of
      (ProvReg lhs, ProvReg rhs) \<Rightarrow> or_else (opt lhs rhs) (push_binary_instr te lhs rhs mk)
    | (ProvReg lhs, ProvConst rhs) \<Rightarrow>
        or_else (opt_ri lhs (tv_value rhs))
          (or_else (opt_when (is_nan_val w (tv_value rhs)) (tl_push_const rhs))
            (push_binary_instr_imm te lhs (tv_value rhs) mk))
    | (ProvConst lhs, ProvReg rhs) \<Rightarrow>
        or_else (opt_ir (tv_value lhs) rhs)
          (or_else (opt_when (is_nan_val w (tv_value lhs)) (tl_push_const lhs))
            (push_binary_instr_imm_rev te (tv_value lhs) rhs mk))
    | (ProvConst lhs, ProvConst rhs) \<Rightarrow> push_binary_consteval lhs rhs ce) s ex (F a b)"
  proof (cases lhs; cases rhs)
    fix l q assume *: "lhs = ProvReg l" "rhs = ProvReg q"
    with o p have "reg_get ex l = Some a" "reg_get ex q = Some b" "may_repush te x s l"
      by (auto simp: operand_reads_def popped2_def)
    then show ?thesis using * r c by (auto intro!: gives_or_else o1 gives_binary [OF _ mk])
  next
    fix l q assume *: "lhs = ProvReg l" "rhs = ProvConst q"
    with o p have "reg_get ex l = Some a" "tv_value q = b" "may_repush te x s l"
      by (auto simp: operand_reads_def popped2_def)
    then show ?thesis using * r c nan(1) [OF c]
      by (auto intro!: gives_or o2 gives_binary_imm [OF _ mk] sound_when gives_push_const)
  next
    fix l q assume *: "lhs = ProvConst l" "rhs = ProvReg q"
    with o p have "tv_value l = a" "reg_get ex q = Some b" "may_repush te x s q"
      by (auto simp: operand_reads_def popped2_def)
    then show ?thesis using * r c nan(2) [OF c]
      by (auto intro!: gives_or o3 gives_binary_imm_rev [OF _ mk] sound_when gives_push_const)
  next
    fix l q assume *: "lhs = ProvConst l" "rhs = ProvConst q"
    with o have "tv_value l = a" "tv_value q = b" by (auto simp: operand_reads_def)
    then show ?thesis using * ce [of l q] r by (auto intro!: gives_consteval)
  qed
qed


lemma translate_fbinary_commutative_correct:
  fixes env :: "('h, 'f) exec_env"
  assumes mk: "mk_ok env mk F"
    and comm: "\<And>a b. cond a b \<Longrightarrow> F b a = F a b" "\<And>a b. cond a b \<Longrightarrow> cond b a"
    and ce: "\<And>l r. F (tv_value l) (tv_value r) = Inr (tv_value (ce l r))"
    and o1: "\<And>s ex l r a b. ready env te x s \<Longrightarrow> may_repush te x s l \<Longrightarrow> reg_get ex l = Some a \<Longrightarrow>
      reg_get ex r = Some b \<Longrightarrow> cond a b \<Longrightarrow> sound env te x (opt l r) s ex (F a b)"
    and o2: "\<And>s ex l a b. ready env te x s \<Longrightarrow> may_repush te x s l \<Longrightarrow> reg_get ex l = Some a \<Longrightarrow>
      cond a b \<Longrightarrow> sound env te x (opt_imm l b) s ex (F a b)"
    and nan: "\<And>a b s l s'. cond a b \<Longrightarrow> is_nan_val w b \<Longrightarrow> opt_imm l b s = Inr (False, s') \<Longrightarrow>
      F a b = Inr (tv_value (case w of Width32 \<Rightarrow> tv_f32 (to_i32 b) | Width64 \<Rightarrow> tv_f64 (to_i64 b)))"
  shows "op2_correct env te x (translate_fbinary_commutative te w mk ce opt opt_imm) cond F"
  unfolding translate_fbinary_commutative_def
proof (rule op2_correctI)
  fix s lhs rhs a b and ex :: "'h exec"
  assume r: "ready env te x s" and p: "popped2 te x s lhs rhs" and o: "operand_reads ex lhs a" "operand_reads ex rhs b"
    and c: "cond a b"
  have imm: "gives env te x (fbinary_commutative_imm te w mk opt_imm q c') s ex (F a' (tv_value c'))"
    if "may_repush te x s q" "reg_get ex q = Some a'" "cond a' (tv_value c')" for q a' c'
    unfolding fbinary_commutative_imm_def using that r nan [OF that(3)]
    by (auto intro!: gives_or gives_binary_imm [OF _ mk] o2 sound_when gives_push_const)
  show "gives env te x (case (lhs, rhs) of
      (ProvReg lhs, ProvReg rhs) \<Rightarrow> or_else (opt lhs rhs) (push_binary_instr te lhs rhs mk)
    | (ProvReg reg_in, ProvConst imm_in) \<Rightarrow> fbinary_commutative_imm te w mk opt_imm reg_in imm_in
    | (ProvConst imm_in, ProvReg reg_in) \<Rightarrow> fbinary_commutative_imm te w mk opt_imm reg_in imm_in
    | (ProvConst lhs, ProvConst rhs) \<Rightarrow> push_binary_consteval lhs rhs ce) s ex (F a b)"
  proof (cases lhs; cases rhs)
    fix l q assume *: "lhs = ProvReg l" "rhs = ProvReg q"
    with o p have "reg_get ex l = Some a" "reg_get ex q = Some b" "may_repush te x s l"
      by (auto simp: operand_reads_def popped2_def)
    then show ?thesis using * r c by (auto intro!: gives_or_else o1 gives_binary [OF _ mk])
  next
    fix l q assume *: "lhs = ProvReg l" "rhs = ProvConst q"
    with o p have "reg_get ex l = Some a" "tv_value q = b" "may_repush te x s l"
      by (auto simp: operand_reads_def popped2_def)
    then show ?thesis using * c imm by auto
  next
    fix l q assume *: "lhs = ProvConst l" "rhs = ProvReg q"
    with o p have **: "tv_value l = a" "reg_get ex q = Some b" "may_repush te x s q"
      by (auto simp: operand_reads_def popped2_def)
    show ?thesis using * ** comm [OF c] imm [of q b l] by simp
  next
    fix l q assume *: "lhs = ProvConst l" "rhs = ProvConst q"
    with o have "tv_value l = a" "tv_value q = b" by (auto simp: operand_reads_def)
    then show ?thesis using * ce [of l q] r by (auto intro!: gives_consteval)
  qed
qed

lemma translate_shift_correct:
  fixes env :: "('h, 'f) exec_env"
  assumes mk: "mk_ok env mk F"
    and by_imm: "\<And>r lhs d b ex a. into_shift_amount ty b = Some d \<Longrightarrow> reg_get ex lhs = Some a \<Longrightarrow>
      \<exists>i. mk_by r lhs d = INum i \<and> computes env ex i r (F a b)"
    and rev: "mk16_rev_ok env mk16 (imm_of ty) F"
    and ce: "\<And>l r. F (tv_value l) (tv_value r) = Inr (tv_value (ce l r))"
    and zero: "\<And>a b. cond a b \<Longrightarrow> into_shift_amount ty b = None \<Longrightarrow> F a b = Inr a"
      "\<And>a b. cond a b \<Longrightarrow> eq_zero ty a \<Longrightarrow> F a b = Inr a"
    and o1: "\<And>s ex r a b. ready env te x s \<Longrightarrow> may_repush te x s r \<Longrightarrow> reg_get ex r = Some b \<Longrightarrow>
      cond a b \<Longrightarrow> sound env te x (opt a r) s ex (F a b)"
    and cond: "\<And>a b. cond a b \<Longrightarrow> canon ty a"
  shows "op2_correct env te x (translate_shift te ty mk mk_by mk16 ce opt) cond F"
  unfolding translate_shift_def
proof (rule op2_correctI)
  fix s lhs rhs a b and ex :: "'h exec"
  assume r: "ready env te x s" and p: "popped2 te x s lhs rhs" and o: "operand_reads ex lhs a" "operand_reads ex rhs b"
    and c: "cond a b"
  show "gives env te x (case (lhs, rhs) of
      (ProvReg lhs, ProvReg rhs) \<Rightarrow> push_binary_instr te lhs rhs mk
    | (ProvReg lhs, ProvConst rhs) \<Rightarrow>
        (case into_shift_amount ty (tv_value rhs) of
           None \<Rightarrow> tl_push_register te lhs
         | Some amount \<Rightarrow> tbind tl_push_dynamic (\<lambda>result. emit te (mk_by result lhs amount)))
    | (ProvConst lhs, ProvReg rhs) \<Rightarrow>
        or_else (opt (tv_value lhs) rhs)
          (or_else (opt_when (eq_zero ty (tv_value lhs)) (tl_push_const lhs))
            (or_else (try_push_binary_instr_imm16_rev te ty (tv_value lhs) rhs mk16)
              (push_binary_instr_imm_rev te (tv_value lhs) rhs mk)))
    | (ProvConst lhs, ProvConst rhs) \<Rightarrow> push_binary_consteval lhs rhs ce) s ex (F a b)"
  proof (cases lhs; cases rhs)
    fix l q assume *: "lhs = ProvReg l" "rhs = ProvReg q"
    with o p have "reg_get ex l = Some a" "reg_get ex q = Some b"
      by (auto simp: operand_reads_def popped2_def)
    then show ?thesis using * r c by (auto intro!: gives_binary [OF _ mk])
  next
    fix l q assume *: "lhs = ProvReg l" "rhs = ProvConst q"
    with o p have "reg_get ex l = Some a" "tv_value q = b" "may_repush te x s l"
      by (auto simp: operand_reads_def popped2_def)
    then show ?thesis using * r c by_imm zero(1) [OF c]
      by (cases "into_shift_amount ty b") (auto intro!: gives_push_register gives_dynamic)
  next
    fix l q assume *: "lhs = ProvConst l" "rhs = ProvReg q"
    with o p have "tv_value l = a" "reg_get ex q = Some b" "may_repush te x s q"
      by (auto simp: operand_reads_def popped2_def)
    then show ?thesis using * r c cond [OF c] zero(2) [OF c]
      by (auto intro!: gives_or_else o1 gives_binary_imm_rev [OF _ mk] sound_when gives_push_const sound_imm16_rev [OF _ rev])
  next
    fix l q assume *: "lhs = ProvConst l" "rhs = ProvConst q"
    with o have "tv_value l = a" "tv_value q = b" by (auto simp: operand_reads_def)
    then show ?thesis using * ce [of l q] r by (auto intro!: gives_consteval)
  qed
qed

lemma gives_push_or_trap:
  "ready env te x s \<Longrightarrow> v = rmap tv_value r \<Longrightarrow> gives env te x (push_or_trap te r) s ex v"
  unfolding push_or_trap_def by (cases r) (auto intro: gives_push_const gives_trap)

lemma translate_divrem_correct:
  fixes env :: "('h, 'f) exec_env"
  assumes mk: "mk_ok env mk F"
    and mk16: "mk16_ok env mk16 (imm_of ty) ok F"
    and rev: "mk16_rev_ok env mk16_rev (imm_of ty) F"
    and ce: "\<And>l r. F (tv_value l) (tv_value r) = rmap tv_value (ce l r)"
    and zero: "\<And>a b. eq_zero ty b \<Longrightarrow> F a b = Inl IntegerDivisionByZero"
    and o1: "\<And>s ex l r a b. ready env te x s \<Longrightarrow> may_repush te x s l \<Longrightarrow> reg_get ex l = Some a \<Longrightarrow>
      reg_get ex r = Some b \<Longrightarrow> cond a b \<Longrightarrow> sound env te x (opt l r) s ex (F a b)"
    and o2: "\<And>s ex l a b. ready env te x s \<Longrightarrow> may_repush te x s l \<Longrightarrow> reg_get ex l = Some a \<Longrightarrow>
      cond a b \<Longrightarrow> sound env te x (opt_ri l b) s ex (F a b)"
    and ok: "\<And>a b s l s'. cond a b \<Longrightarrow> \<not> eq_zero ty b \<Longrightarrow> opt_ri l b s = Inr (False, s') \<Longrightarrow> ok b"
    and cond: "\<And>a b. cond a b \<Longrightarrow> canon ty a \<and> canon ty b"
  shows "op2_correct env te x (translate_divrem te ty mk mk16 mk16_rev ce opt opt_ri) cond F"
  unfolding translate_divrem_def
proof (rule op2_correctI)
  fix s lhs rhs a b and ex :: "'h exec"
  assume r: "ready env te x s" and p: "popped2 te x s lhs rhs" and o: "operand_reads ex lhs a" "operand_reads ex rhs b"
    and c: "cond a b"
  note cc = cond [OF c]
  show "gives env te x (case (lhs, rhs) of
      (ProvReg lhs, ProvReg rhs) \<Rightarrow> or_else (opt lhs rhs) (push_binary_instr te lhs rhs mk)
    | (ProvReg lhs, ProvConst rhs) \<Rightarrow>
        if eq_zero ty (tv_value rhs) then translate_trap te IntegerDivisionByZero
        else or_else (opt_ri lhs (tv_value rhs))
          (or_else (try_push_binary_instr_imm16 te ty lhs (tv_value rhs) mk16)
            (push_binary_instr_imm te lhs (tv_value rhs) mk))
    | (ProvConst lhs, ProvReg rhs) \<Rightarrow>
        or_else (try_push_binary_instr_imm16_rev te ty (tv_value lhs) rhs mk16_rev)
          (push_binary_instr_imm_rev te (tv_value lhs) rhs mk)
    | (ProvConst lhs, ProvConst rhs) \<Rightarrow> push_or_trap te (ce lhs rhs)) s ex (F a b)"
  proof (cases lhs; cases rhs)
    fix l q assume *: "lhs = ProvReg l" "rhs = ProvReg q"
    with o p have "reg_get ex l = Some a" "reg_get ex q = Some b" "may_repush te x s l"
      by (auto simp: operand_reads_def popped2_def)
    then show ?thesis using * r c by (auto intro!: gives_or_else o1 gives_binary [OF _ mk])
  next
    fix l q assume *: "lhs = ProvReg l" "rhs = ProvConst q"
    with o p have pr: "may_repush te x s l" "reg_get ex l = Some a" "tv_value q = b"
      by (auto simp: operand_reads_def popped2_def)
    have "gives env te x (or_else (opt_ri l b) (or_else (try_push_binary_instr_imm16 te ty l b mk16)
        (push_binary_instr_imm te l b mk))) s ex (F a b)" if "\<not> eq_zero ty b"
    proof (rule gives_or [OF o2 [OF r pr(1,2) c]])
      fix s' assume "opt_ri l b s = Inr (False, s')"
      then have "ok b" by (rule ok [OF c that])
      then show "gives env te x (or_else (try_push_binary_instr_imm16 te ty l b mk16)
          (push_binary_instr_imm te l b mk)) s ex (F a b)"
        using r cc pr(2)
        by (auto intro!: gives_or_else gives_binary_imm [OF _ mk] sound_imm16 [OF _ mk16])
    qed
    then show ?thesis using * r zero pr(3) by (auto intro!: gives_trap)
  next
    fix l q assume *: "lhs = ProvConst l" "rhs = ProvReg q"
    with o p have "tv_value l = a" "reg_get ex q = Some b"
      by (auto simp: operand_reads_def popped2_def)
    then show ?thesis using * r c cc
      by (auto intro!: gives_or_else gives_binary_imm_rev [OF _ mk] sound_imm16_rev [OF _ rev])
  next
    fix l q assume *: "lhs = ProvConst l" "rhs = ProvConst q"
    with o have "tv_value l = a" "tv_value q = b" by (auto simp: operand_reads_def)
    then show ?thesis using * ce [of l q] r by (auto intro!: gives_push_or_trap)
  qed
qed


section \<open>Operators with one operand\<close>

definition op1_correct :: "('h, 'e) exec_env \<Rightarrow> ('m, 'z) tl_env_scheme \<Rightarrow> (reg \<Rightarrow> nat) \<Rightarrow> ('m, unit) tl \<Rightarrow>
    (untyped_val \<Rightarrow> bool) \<Rightarrow> (untyped_val \<Rightarrow> trap_code + untyped_val) \<Rightarrow> bool" where
  "op1_correct env te x m cond F \<longleftrightarrow> (\<forall>s s'. ready env te x s \<longrightarrow> m s = Inr ((), s') \<longrightarrow>
    (\<exists>s1 p. providers s = providers s1 @ [p] \<and> tl_extends s s1 \<and> code_of s1 = code_of s \<and>
       (\<forall>ex a. consts_read ex s' \<longrightarrow> operand_reads ex (typed_of_tagged p) a \<longrightarrow> cond a \<longrightarrow> delivers env te x s1 s' ex (F a))))"

lemma op1_correctI:
  assumes k: "\<And>s p ex a. ready env te x s \<Longrightarrow> operand_reads ex p a \<Longrightarrow> cond a \<Longrightarrow> gives env te x (k p) s ex (F a)"
  shows "op1_correct env te x (bail_unreachable (tbind (tl_pop te) k)) cond F"
  unfolding op1_correct_def
proof (intro allI impI)
  fix s s' assume r: "ready env te x s" and run: "bail_unreachable (tbind (tl_pop te) k) s = Inr ((), s')"
  have rr: "stash_laws (te_stash te)" "tl_inv te x s" "tl_reachable s" using r by (simp_all add: ready_def)
  from run rr(3) obtain q s1 where s1: "tl_pop te s = Inr (q, s1)" "k q s1 = Inr ((), s')"
    by (auto simp: bail_unreachable_def tr_defs rsimps)
  note p = tl_pop_Inr [OF rr(1,2) s1(1)]
  from p(1) obtain p' where p': "q = typed_of_tagged p'" "providers s = providers s1 @ [p']" by blast
  have "ready env te x s1" using r p by (simp add: ready_def)
  then have "delivers env te x s1 s' ex (F a)"
    if "consts_read ex s'" "operand_reads ex q a" "cond a" for ex a
    using k that s1(2) unfolding gives_def by blast
  then show "\<exists>s1 p. providers s = providers s1 @ [p] \<and> tl_extends s s1 \<and> code_of s1 = code_of s \<and>
       (\<forall>ex a. consts_read ex s' \<longrightarrow> operand_reads ex (typed_of_tagged p) a \<longrightarrow> cond a \<longrightarrow> delivers env te x s1 s' ex (F a))"
    using p' p(3,4) by (intro exI [of _ s1] exI [of _ p']) simp
qed

definition mk1_ok :: "('h, 'e) exec_env \<Rightarrow> (reg \<Rightarrow> reg \<Rightarrow> instruction) \<Rightarrow> (untyped_val \<Rightarrow> trap_code + untyped_val) \<Rightarrow> bool" where
  "mk1_ok env mk F \<longleftrightarrow> (\<forall>r q. \<exists>i. mk r q = INum i \<and> (\<forall>ex a. reg_get ex q = Some a \<longrightarrow> computes env ex i r (F a)))"

lemma gives_unary:
  assumes "ready env te x s" "mk1_ok env mk F" "reg_get ex q = Some a" "v = F a"
  shows "gives env te x (push_unary_instr te mk q) s ex v"
proof -
  have "\<exists>i. mk r q = INum i \<and> computes env ex i r v" for r
    using assms(2-4) unfolding mk1_ok_def by meson
  then show ?thesis unfolding push_unary_instr_def by (intro gives_dynamic [OF assms(1)])
qed

lemma translate_unary_correct:
  assumes "mk1_ok env mk F" "\<And>c. F (tv_value c) = Inr (tv_value (ce c))"
  shows "op1_correct env te x (translate_unary te mk ce) (\<lambda>_. True) F"
  unfolding translate_unary_def using assms
  by (intro op1_correctI) (auto simp: operand_reads_def split: provider.split intro!: gives_unary gives_push_const)

lemma translate_unary_fallible_correct:
  assumes "mk1_ok env mk F" "\<And>c. F (tv_value c) = rmap tv_value (ce c)"
  shows "op1_correct env te x (translate_unary_fallible te mk ce) (\<lambda>_. True) F"
  unfolding translate_unary_fallible_def using assms
  by (intro op1_correctI) (auto simp: operand_reads_def split: provider.split intro!: gives_unary gives_push_or_trap)


section \<open>The instructions\<close>

lemmas exec_defs = exec_binary_def exec_binary_imm16_def exec_binary_imm16_lhs_def exec_shift_by_def
  try_exec_binary_def exec_divrem_imm16_rhs_def try_exec_binary_imm16_lhs_def exec_unary_def try_exec_unary_def

lemma mk_ok_instrs:
  "mk_ok env (icmp op) (\<lambda>a b. Inr (icmp_fn op a b))"
  "mk_ok env (fcmp fop) (\<lambda>a b. Inr (fcmp_fn fop a b))"
  "mk_ok env (comm cop) (\<lambda>a b. Inr (comm_fn cop a b))"
  "mk_ok env (sub_instr sop) (\<lambda>a b. Inr (sub_fn sop a b))"
  "mk_ok env (shift_instr hop) (\<lambda>a b. Inr (shift_fn hop a b))"
  "mk_ok env (divrem dop) (divrem_fn dop)"
  "mk_ok env (fbin bop) (\<lambda>a b. Inr (fbin_fn bop (env_nan env) a b))"
  by (simp_all add: mk_ok_def mk_defs computes_def exec_defs get_register_Some)

lemma mk_rev_ok_instrs:
  "mk16_rev_ok env (sub16_lhs sop) (sub_imm sop) (\<lambda>a b. Inr (sub_fn sop a b))"
  "mk16_rev_ok env (shift16 hop) (shift_imm hop) (\<lambda>a b. Inr (shift_fn hop a b))"
  "mk16_rev_ok env (divrem16_lhs dop) (divrem_imm dop) (divrem_fn dop)"
  by (simp_all add: mk16_rev_ok_def mk_defs computes_def exec_defs get_register_Some)

lemma mk16_ok_instrs:
  "mk16_ok env (icmp16 op) (icmp_imm op) (\<lambda>_. True) (\<lambda>a b. Inr (icmp_fn op a b))"
  "mk16_ok env (comm16 cop) (comm_imm cop) (\<lambda>_. True) (\<lambda>a b. Inr (comm_fn cop a b))"
  by (simp_all add: mk16_ok_def mk_defs computes_def exec_defs get_register_Some)

lemma mk1_ok_instrs:
  "mk1_ok env (\<lambda>r a. INum (IUnary uop r a)) (\<lambda>a. Inr (unary_fn uop (env_nan env) a))"
  "mk1_ok env (\<lambda>r a. INum (IConv vop r a)) (\<lambda>a. Inr (conv_fn vop (env_nan env) a))"
  "mk1_ok env (\<lambda>r a. INum (ITruncTo tp r a)) (trunc_fn tp)"
  by (simp_all add: mk1_ok_def computes_def exec_defs get_register_Some)

end
