(* ===== verification/Tr_Sim_Ops.thy ===== *)
theory Tr_Sim_Ops
  imports Tr_Sim
begin

text \<open>
  The integer operators, comparisons, conversions and truncations of the translator against their
  meaning: every special case of \<open>translator/visit.rs\<close> is exact on operands of the right type.
\<close>


section \<open>Integer comparisons\<close>

lemmas icmp_defs = i32_eq_def i32_ne_def i32_lt_s_def i32_lt_u_def i32_le_s_def i32_le_u_def i32_gt_s_def i32_gt_u_def
  i32_ge_s_def i32_ge_u_def i64_eq_def i64_ne_def i64_lt_s_def i64_lt_u_def i64_le_s_def i64_le_u_def i64_gt_s_def
  i64_gt_u_def i64_ge_s_def i64_ge_u_def execute_binary_def

primrec icmp_ty :: "icmp_op \<Rightarrow> int_ty" where
  "icmp_ty I32Eq = TyI32" | "icmp_ty I32Ne = TyI32" | "icmp_ty I32LtS = TyI32" | "icmp_ty I32LtU = TyU32"
| "icmp_ty I32LeS = TyI32" | "icmp_ty I32LeU = TyU32" | "icmp_ty I32GtS = TyI32" | "icmp_ty I32GtU = TyU32"
| "icmp_ty I32GeS = TyI32" | "icmp_ty I32GeU = TyU32" | "icmp_ty I64Eq = TyI64" | "icmp_ty I64Ne = TyI64"
| "icmp_ty I64LtS = TyI64" | "icmp_ty I64LtU = TyU64" | "icmp_ty I64LeS = TyI64" | "icmp_ty I64LeU = TyU64"
| "icmp_ty I64GtS = TyI64" | "icmp_ty I64GtU = TyU64" | "icmp_ty I64GeS = TyI64" | "icmp_ty I64GeU = TyU64"

text \<open>The comparison with the operands exchanged.\<close>

primrec icmp_swap :: "icmp_op \<Rightarrow> icmp_op" where
  "icmp_swap I32Eq = I32Eq" | "icmp_swap I32Ne = I32Ne" | "icmp_swap I32LtS = I32GtS" | "icmp_swap I32LtU = I32GtU"
| "icmp_swap I32LeS = I32GeS" | "icmp_swap I32LeU = I32GeU" | "icmp_swap I32GtS = I32LtS" | "icmp_swap I32GtU = I32LtU"
| "icmp_swap I32GeS = I32LeS" | "icmp_swap I32GeU = I32LeU" | "icmp_swap I64Eq = I64Eq" | "icmp_swap I64Ne = I64Ne"
| "icmp_swap I64LtS = I64GtS" | "icmp_swap I64LtU = I64GtU" | "icmp_swap I64LeS = I64GeS" | "icmp_swap I64LeU = I64GeU"
| "icmp_swap I64GtS = I64LtS" | "icmp_swap I64GtU = I64LtU" | "icmp_swap I64GeS = I64LeS" | "icmp_swap I64GeU = I64LeU"

lemma icmp_imm_ty: "icmp_imm op = imm_of (icmp_ty op)"
  by (cases op) simp_all

lemma icmp_swap_fn: "icmp_fn (icmp_swap op) b a = icmp_fn op a b"
  by (cases op) (auto simp: icmp_defs intro: arg_cong [where f = of_boolean])

lemma icmp_swap_ty: "icmp_ty (icmp_swap op) = icmp_ty op"
  by (cases op) simp_all

lemma swap_ops_ok: "mk16_rev_ok env (swap_ops (icmp_swap op)) (imm_of (icmp_ty op)) (\<lambda>a b. Inr (icmp_fn op a b))"
  by (simp add: mk16_rev_ok_def mk_defs computes_def exec_defs get_register_Some icmp_swap_fn icmp_imm_ty icmp_swap_ty)

lemma icmp16_ok: "mk16_ok env (icmp16 op) (imm_of (icmp_ty op)) (\<lambda>_. True) (\<lambda>a b. Inr (icmp_fn op a b))"
  using mk16_ok_instrs(1) [of env op] by (simp add: icmp_imm_ty)

lemma sound_same_reg:
  assumes "l = r \<Longrightarrow> gives env te x m s ex v"
  shows "sound env te x (same_reg m l r) s ex v"
  unfolding same_reg_def using assms by (rule sound_when)

lemma gives_push_bool: "ready env te x s \<Longrightarrow> v = Inr (of_boolean b) \<Longrightarrow> gives env te x (push_bool b) s ex v"
  unfolding push_bool_def by (rule gives_push_const) (simp_all add: tv_bool_def)

lemma sound_rhs_is:
  "ready env te x s \<Longrightarrow> (P c \<Longrightarrow> v = Inr (of_boolean b)) \<Longrightarrow> sound env te x (rhs_is P b l c) s ex v"
  unfolding rhs_is_def by (intro sound_when gives_push_bool)

lemma sound_lhs_is:
  "ready env te x s \<Longrightarrow> (P c \<Longrightarrow> v = Inr (of_boolean b)) \<Longrightarrow> sound env te x (lhs_is P b c r) s ex v"
  unfolding lhs_is_def by (intro sound_when gives_push_bool)

lemma sound_imm_is:
  "(P c \<Longrightarrow> gives env te x (m r) s ex v) \<Longrightarrow> sound env te x (imm_is P m r c) s ex v"
  unfolding imm_is_def by (rule sound_when)

lemma int_limits:
  fixes a :: u32 and b :: u64
  shows "\<not> sint a < sint i32_min" "\<not> sint i32_max < sint a" "sint i32_min \<le> sint a" "sint a \<le> sint i32_max"
    "\<not> sint b < sint i64_min" "\<not> sint i64_max < sint b" "sint i64_min \<le> sint b" "sint b \<le> sint i64_max"
  using sint_bounds [of a] sint_bounds [of b] by (simp_all add: i32_min_def i32_max_def i64_min_def i64_max_def)

lemma icmp_scheme:
  fixes env :: "('h, 'f) exec_env"
  assumes "\<And>a. icmp_fn op a a = of_boolean e"
    and "\<And>a b. P b \<Longrightarrow> icmp_fn op a b = of_boolean e" "\<And>a b. Q a \<Longrightarrow> icmp_fn op a b = of_boolean e"
  shows "op2_correct env te x (translate_binary te (icmp_ty op) (icmp op) (Some (icmp16 op)) (swap_ops (icmp_swap op))
      (typed_binary I32 (icmp_fn op)) (same_reg (push_bool e)) (rhs_is P e) (lhs_is Q e))
    (\<lambda>a b. canon (icmp_ty op) a \<and> canon (icmp_ty op) b) (\<lambda>a b. Inr (icmp_fn op a b))"
  by (rule translate_binary_correct [OF mk_ok_instrs(1) _ swap_ops_ok])
    (use assms in \<open>auto simp: icmp16_ok typed_binary_def intro!: sound_same_reg gives_push_bool sound_rhs_is sound_lhs_is\<close>)

lemma icmp_comm_scheme:
  fixes env :: "('h, 'f) exec_env"
  assumes "\<And>a. icmp_fn op a a = of_boolean e" "\<And>a b. icmp_fn op a b = icmp_fn op b a"
  shows "op2_correct env te x (translate_binary_commutative te (icmp_ty op) (icmp op) (icmp16 op)
      (typed_binary I32 (icmp_fn op)) (same_reg (push_bool e)) no_custom_opt)
    (\<lambda>a b. canon (icmp_ty op) a \<and> canon (icmp_ty op) b) (\<lambda>a b. Inr (icmp_fn op a b))"
  by (rule translate_binary_commutative_correct [OF mk_ok_instrs(1) icmp16_ok])
    (use assms in \<open>auto simp: typed_binary_def intro!: sound_same_reg gives_push_bool sound_none\<close>)

lemmas visit_icmp_defs = visit_i32_eq_def visit_i32_ne_def visit_i32_lt_s_def visit_i32_lt_u_def visit_i32_le_s_def
  visit_i32_le_u_def visit_i32_gt_s_def visit_i32_gt_u_def visit_i32_ge_s_def visit_i32_ge_u_def
  visit_i64_eq_def visit_i64_ne_def visit_i64_lt_s_def visit_i64_lt_u_def visit_i64_le_s_def
  visit_i64_le_u_def visit_i64_gt_s_def visit_i64_gt_u_def visit_i64_ge_s_def visit_i64_ge_u_def


text \<open>Every comparison is an instance of one of the two schemes.\<close>

lemma visit_icmp_correct:
  "op2_correct env te x (visit_icmp te op) (\<lambda>a b. canon (icmp_ty op) a \<and> canon (icmp_ty op) b)
    (\<lambda>a b. Inr (icmp_fn op a b))"
proof (cases op)
  case I32Eq
  show ?thesis unfolding I32Eq visit_icmp.simps visit_icmp_defs icmp_ty.simps
    by (rule icmp_comm_scheme [where op = I32Eq, unfolded icmp_ty.simps icmp_swap.simps]) (auto simp: icmp_defs int_limits intro: arg_cong [where f = of_boolean])
next
  case I32Ne
  show ?thesis unfolding I32Ne visit_icmp.simps visit_icmp_defs icmp_ty.simps
    by (rule icmp_comm_scheme [where op = I32Ne, unfolded icmp_ty.simps icmp_swap.simps]) (auto simp: icmp_defs int_limits intro: arg_cong [where f = of_boolean])
next
  case I32LtS
  show ?thesis unfolding I32LtS visit_icmp.simps visit_icmp_defs icmp_ty.simps
    by (rule icmp_scheme [where op = I32LtS, unfolded icmp_ty.simps icmp_swap.simps]) (auto simp: icmp_defs int_limits intro: arg_cong [where f = of_boolean])
next
  case I32LtU
  show ?thesis unfolding I32LtU visit_icmp.simps visit_icmp_defs icmp_ty.simps
    by (rule icmp_scheme [where op = I32LtU, unfolded icmp_ty.simps icmp_swap.simps]) (auto simp: icmp_defs int_limits intro: arg_cong [where f = of_boolean])
next
  case I32LeS
  show ?thesis unfolding I32LeS visit_icmp.simps visit_icmp_defs icmp_ty.simps
    by (rule icmp_scheme [where op = I32LeS, unfolded icmp_ty.simps icmp_swap.simps]) (auto simp: icmp_defs int_limits intro: arg_cong [where f = of_boolean])
next
  case I32LeU
  show ?thesis unfolding I32LeU visit_icmp.simps visit_icmp_defs icmp_ty.simps
    by (rule icmp_scheme [where op = I32LeU, unfolded icmp_ty.simps icmp_swap.simps]) (auto simp: icmp_defs int_limits intro: arg_cong [where f = of_boolean])
next
  case I32GtS
  show ?thesis unfolding I32GtS visit_icmp.simps visit_icmp_defs icmp_ty.simps
    by (rule icmp_scheme [where op = I32GtS, unfolded icmp_ty.simps icmp_swap.simps]) (auto simp: icmp_defs int_limits intro: arg_cong [where f = of_boolean])
next
  case I32GtU
  show ?thesis unfolding I32GtU visit_icmp.simps visit_icmp_defs icmp_ty.simps
    by (rule icmp_scheme [where op = I32GtU, unfolded icmp_ty.simps icmp_swap.simps]) (auto simp: icmp_defs int_limits intro: arg_cong [where f = of_boolean])
next
  case I32GeS
  show ?thesis unfolding I32GeS visit_icmp.simps visit_icmp_defs icmp_ty.simps
    by (rule icmp_scheme [where op = I32GeS, unfolded icmp_ty.simps icmp_swap.simps]) (auto simp: icmp_defs int_limits intro: arg_cong [where f = of_boolean])
next
  case I32GeU
  show ?thesis unfolding I32GeU visit_icmp.simps visit_icmp_defs icmp_ty.simps
    by (rule icmp_scheme [where op = I32GeU, unfolded icmp_ty.simps icmp_swap.simps]) (auto simp: icmp_defs int_limits intro: arg_cong [where f = of_boolean])
next
  case I64Eq
  show ?thesis unfolding I64Eq visit_icmp.simps visit_icmp_defs icmp_ty.simps
    by (rule icmp_comm_scheme [where op = I64Eq, unfolded icmp_ty.simps icmp_swap.simps]) (auto simp: icmp_defs int_limits intro: arg_cong [where f = of_boolean])
next
  case I64Ne
  show ?thesis unfolding I64Ne visit_icmp.simps visit_icmp_defs icmp_ty.simps
    by (rule icmp_comm_scheme [where op = I64Ne, unfolded icmp_ty.simps icmp_swap.simps]) (auto simp: icmp_defs int_limits intro: arg_cong [where f = of_boolean])
next
  case I64LtS
  show ?thesis unfolding I64LtS visit_icmp.simps visit_icmp_defs icmp_ty.simps
    by (rule icmp_scheme [where op = I64LtS, unfolded icmp_ty.simps icmp_swap.simps]) (auto simp: icmp_defs int_limits intro: arg_cong [where f = of_boolean])
next
  case I64LtU
  show ?thesis unfolding I64LtU visit_icmp.simps visit_icmp_defs icmp_ty.simps
    by (rule icmp_scheme [where op = I64LtU, unfolded icmp_ty.simps icmp_swap.simps]) (auto simp: icmp_defs int_limits intro: arg_cong [where f = of_boolean])
next
  case I64LeS
  show ?thesis unfolding I64LeS visit_icmp.simps visit_icmp_defs icmp_ty.simps
    by (rule icmp_scheme [where op = I64LeS, unfolded icmp_ty.simps icmp_swap.simps]) (auto simp: icmp_defs int_limits intro: arg_cong [where f = of_boolean])
next
  case I64LeU
  show ?thesis unfolding I64LeU visit_icmp.simps visit_icmp_defs icmp_ty.simps
    by (rule icmp_scheme [where op = I64LeU, unfolded icmp_ty.simps icmp_swap.simps]) (auto simp: icmp_defs int_limits intro: arg_cong [where f = of_boolean])
next
  case I64GtS
  show ?thesis unfolding I64GtS visit_icmp.simps visit_icmp_defs icmp_ty.simps
    by (rule icmp_scheme [where op = I64GtS, unfolded icmp_ty.simps icmp_swap.simps]) (auto simp: icmp_defs int_limits intro: arg_cong [where f = of_boolean])
next
  case I64GtU
  show ?thesis unfolding I64GtU visit_icmp.simps visit_icmp_defs icmp_ty.simps
    by (rule icmp_scheme [where op = I64GtU, unfolded icmp_ty.simps icmp_swap.simps]) (auto simp: icmp_defs int_limits intro: arg_cong [where f = of_boolean])
next
  case I64GeS
  show ?thesis unfolding I64GeS visit_icmp.simps visit_icmp_defs icmp_ty.simps
    by (rule icmp_scheme [where op = I64GeS, unfolded icmp_ty.simps icmp_swap.simps]) (auto simp: icmp_defs int_limits intro: arg_cong [where f = of_boolean])
next
  case I64GeU
  show ?thesis unfolding I64GeU visit_icmp.simps visit_icmp_defs icmp_ty.simps
    by (rule icmp_scheme [where op = I64GeU, unfolded icmp_ty.simps icmp_swap.simps]) (auto simp: icmp_defs int_limits intro: arg_cong [where f = of_boolean])
qed


section \<open>Commutative operators\<close>

primrec comm_ty :: "comm_op \<Rightarrow> int_ty" where
  "comm_ty I32Add = TyI32" | "comm_ty I32Mul = TyI32" | "comm_ty I32And = TyI32" | "comm_ty I32AndEqz = TyI32"
| "comm_ty I32Or = TyI32" | "comm_ty I32OrEqz = TyI32" | "comm_ty I32Xor = TyI32" | "comm_ty I32XorEqz = TyI32"
| "comm_ty I64Add = TyI64" | "comm_ty I64Mul = TyI64" | "comm_ty I64And = TyI64" | "comm_ty I64Or = TyI64"
| "comm_ty I64Xor = TyI64"

lemmas comm_defs = i32_add_def i32_mul_def i32_and_def i32_or_def i32_xor_def i64_add_def i64_mul_def i64_and_def
  i64_or_def i64_xor_def i32_and_eqz_def i32_or_eqz_def i32_xor_eqz_def execute_binary_def arith_add_def arith_mul_def

lemma comm_imm_ty: "comm_imm op = imm_of (comm_ty op)"
  by (cases op) simp_all

lemma comm16_ok: "mk16_ok env (comm16 op) (imm_of (comm_ty op)) (\<lambda>_. True) (\<lambda>a b. Inr (comm_fn op a b))"
  using mk16_ok_instrs(2) [of env op] by (simp add: comm_imm_ty)

lemma comm_fn_comm: "comm_fn op a b = comm_fn op b a"
  by (cases op) (simp_all add: comm_defs ac_simps)

lemma comm_scheme:
  fixes env :: "('h, 'f) exec_env"
  assumes "\<And>s ex l r a. ready env te x s \<Longrightarrow> may_repush te x s l \<Longrightarrow> reg_get ex l = Some a \<Longrightarrow> l = r \<Longrightarrow>
      canon (comm_ty op) a \<Longrightarrow> sound env te x (opt l r) s ex (Inr (comm_fn op a a))"
    and "\<And>l r. l \<noteq> r \<Longrightarrow> opt l r = tret False"
    and "\<And>s ex l a b. ready env te x s \<Longrightarrow> may_repush te x s l \<Longrightarrow> reg_get ex l = Some a \<Longrightarrow>
      canon (comm_ty op) a \<Longrightarrow> canon (comm_ty op) b \<Longrightarrow> sound env te x (opt_imm l b) s ex (Inr (comm_fn op a b))"
  shows "op2_correct env te x (translate_binary_commutative te (comm_ty op) (comm op) (comm16 op)
      (typed_binary ty (comm_fn op)) opt opt_imm)
    (\<lambda>a b. canon (comm_ty op) a \<and> canon (comm_ty op) b) (\<lambda>a b. Inr (comm_fn op a b))"
proof (rule translate_binary_commutative_correct [OF mk_ok_instrs(3) comm16_ok])
  fix s l r a b and ex :: "'h exec"
  assume "ready env te x s" "may_repush te x s l" "reg_get ex l = Some a" "reg_get ex r = Some b"
    "canon (comm_ty op) a \<and> canon (comm_ty op) b"
  then show "sound env te x (opt l r) s ex (Inr (comm_fn op a b))"
    using assms(1) [of s l ex a r] assms(2) [of l r] by (cases "l = r") (auto simp: sound_skip)
qed (use assms(3) in \<open>auto simp: typed_binary_def comm_fn_comm\<close>)

lemmas visit_comm_defs = visit_i32_add_def visit_i32_mul_def visit_i32_and_def visit_i32_or_def visit_i32_xor_def
  visit_i64_add_def visit_i64_mul_def visit_i64_and_def visit_i64_or_def visit_i64_xor_def

lemmas opt_intros = sound_try sound_imm_is sound_same_reg sound_none gives_push_register gives_push_const

lemma op2_correct_fail: "op2_correct env te x (tfail e) cond F"
  by (simp add: op2_correct_def tr_simps)

lemma visit_comm_correct:
  "op2_correct env te x (visit_comm te op) (\<lambda>a b. canon (comm_ty op) a \<and> canon (comm_ty op) b)
    (\<lambda>a b. Inr (comm_fn op a b))"
proof (cases op)
  case I32Add
  show ?thesis unfolding I32Add visit_comm.simps visit_comm_defs comm_ty.simps
    by (rule comm_scheme [where op = I32Add, unfolded comm_ty.simps])
      (auto simp: comm_defs tv_i32_def tv_i64_def no_custom_opt_def sound_skip same_reg_def opt_when_def intro!: opt_intros sound_applied)
next
  case I32Mul
  show ?thesis unfolding I32Mul visit_comm.simps visit_comm_defs comm_ty.simps
    by (rule comm_scheme [where op = I32Mul, unfolded comm_ty.simps])
      (auto simp: comm_defs tv_i32_def tv_i64_def no_custom_opt_def sound_skip same_reg_def opt_when_def intro!: opt_intros sound_applied)
next
  case I32And
  show ?thesis unfolding I32And visit_comm.simps visit_comm_defs comm_ty.simps
    by (rule comm_scheme [where op = I32And, unfolded comm_ty.simps])
      (auto simp: comm_defs tv_i32_def tv_i64_def no_custom_opt_def sound_skip same_reg_def opt_when_def intro!: opt_intros sound_applied)
next
  case I32AndEqz
  show ?thesis by (simp add: I32AndEqz op2_correct_fail)
next
  case I32Or
  show ?thesis unfolding I32Or visit_comm.simps visit_comm_defs comm_ty.simps
    by (rule comm_scheme [where op = I32Or, unfolded comm_ty.simps])
      (auto simp: comm_defs tv_i32_def tv_i64_def no_custom_opt_def sound_skip same_reg_def opt_when_def intro!: opt_intros sound_applied)
next
  case I32OrEqz
  show ?thesis by (simp add: I32OrEqz op2_correct_fail)
next
  case I32Xor
  show ?thesis unfolding I32Xor visit_comm.simps visit_comm_defs comm_ty.simps
    by (rule comm_scheme [where op = I32Xor, unfolded comm_ty.simps])
      (auto simp: comm_defs tv_i32_def tv_i64_def no_custom_opt_def sound_skip same_reg_def opt_when_def intro!: opt_intros sound_applied)
next
  case I32XorEqz
  show ?thesis by (simp add: I32XorEqz op2_correct_fail)
next
  case I64Add
  show ?thesis unfolding I64Add visit_comm.simps visit_comm_defs comm_ty.simps
    by (rule comm_scheme [where op = I64Add, unfolded comm_ty.simps])
      (auto simp: comm_defs tv_i32_def tv_i64_def no_custom_opt_def sound_skip same_reg_def opt_when_def intro!: opt_intros sound_applied)
next
  case I64Mul
  show ?thesis unfolding I64Mul visit_comm.simps visit_comm_defs comm_ty.simps
    by (rule comm_scheme [where op = I64Mul, unfolded comm_ty.simps])
      (auto simp: comm_defs tv_i32_def tv_i64_def no_custom_opt_def sound_skip same_reg_def opt_when_def intro!: opt_intros sound_applied)
next
  case I64And
  show ?thesis unfolding I64And visit_comm.simps visit_comm_defs comm_ty.simps
    by (rule comm_scheme [where op = I64And, unfolded comm_ty.simps])
      (auto simp: comm_defs tv_i32_def tv_i64_def no_custom_opt_def sound_skip same_reg_def opt_when_def intro!: opt_intros sound_applied)
next
  case I64Or
  show ?thesis unfolding I64Or visit_comm.simps visit_comm_defs comm_ty.simps
    by (rule comm_scheme [where op = I64Or, unfolded comm_ty.simps])
      (auto simp: comm_defs tv_i32_def tv_i64_def no_custom_opt_def sound_skip same_reg_def opt_when_def intro!: opt_intros sound_applied)
next
  case I64Xor
  show ?thesis unfolding I64Xor visit_comm.simps visit_comm_defs comm_ty.simps
    by (rule comm_scheme [where op = I64Xor, unfolded comm_ty.simps])
      (auto simp: comm_defs tv_i32_def tv_i64_def no_custom_opt_def sound_skip same_reg_def opt_when_def intro!: opt_intros sound_applied)
qed

end
