(* ===== verification/Tr_Sim_Num.thy ===== *)
theory Tr_Sim_Num
  imports Tr_Sim_Ops
begin

text \<open>
  Subtraction, division, shifts, floating point comparisons and the operators with one operand of the
  translator against their meaning.
\<close>


section \<open>Subtraction\<close>

primrec sub_ty :: "sub_op \<Rightarrow> int_ty" where
  "sub_ty I32Sub = TyI32" | "sub_ty I64Sub = TyI64"

lemmas sub_defs = i32_sub_def i64_sub_def execute_binary_def arith_sub_def arith_add_def i32_add_def i64_add_def

lemma sub16_ok: "mk16_rev_ok env (sub16_lhs op) (imm_of (sub_ty op)) (\<lambda>a b. Inr (sub_fn op a b))"
  using mk_rev_ok_instrs(1) [of env op] by (cases op) simp_all

text \<open>The constant on the right becomes an addition of its negation.\<close>

lemma sub_as_add: "sub_fn I32Sub a b = comm_fn I32Add a (of_i32 (- to_i32 b))"
    "sub_fn I64Sub a b = comm_fn I64Add a (of_i64 (- to_i64 b))"
  by (simp_all add: sub_defs)

lemma sub_scheme:
  fixes env :: "('h, 'f) exec_env"
  assumes "\<And>a. sub_fn op a a = tv_value zero"
    and "\<And>s ex l a b. ready env te x s \<Longrightarrow> may_repush te x s l \<Longrightarrow> reg_get ex l = Some a \<Longrightarrow>
      canon (sub_ty op) a \<Longrightarrow> sound env te x (opt_ri l b) s ex (Inr (sub_fn op a b))"
  shows "op2_correct env te x (translate_binary te (sub_ty op) (sub_instr op) None (sub16_lhs op)
      (typed_binary ty (sub_fn op)) (same_reg (tl_push_const zero)) opt_ri no_custom_opt)
    (\<lambda>a b. canon (sub_ty op) a \<and> canon (sub_ty op) b) (\<lambda>a b. Inr (sub_fn op a b))"
  by (rule translate_binary_correct [OF mk_ok_instrs(4) _ sub16_ok])
    (use assms in \<open>auto simp: typed_binary_def intro!: sound_same_reg gives_push_const sound_none\<close>)

lemma visit_sub_correct:
  "op2_correct env te x (visit_sub te op) (\<lambda>a b. canon (sub_ty op) a \<and> canon (sub_ty op) b)
    (\<lambda>a b. Inr (sub_fn op a b))"
proof (cases op)
  case I32Sub
  show ?thesis unfolding I32Sub visit_sub.simps visit_i32_sub_def sub_ty.simps
    by (rule sub_scheme [where op = I32Sub, unfolded sub_ty.simps])
      (auto simp: sub_as_add(1) tv_i32_def intro!: sound_try sound_when gives_push_register sound_applied
        sound_imm16 [OF _ comm16_ok [of _ I32Add, unfolded comm_ty.simps]] gives_binary_imm [OF _ mk_ok_instrs(3)],
        auto simp: sub_defs comm_defs)
next
  case I64Sub
  show ?thesis unfolding I64Sub visit_sub.simps visit_i64_sub_def sub_ty.simps
    by (rule sub_scheme [where op = I64Sub, unfolded sub_ty.simps])
      (auto simp: sub_as_add(2) tv_i64_def intro!: sound_try sound_when gives_push_register sound_applied
        sound_imm16 [OF _ comm16_ok [of _ I64Add, unfolded comm_ty.simps]] gives_binary_imm [OF _ mk_ok_instrs(3)],
        auto simp: sub_defs comm_defs)
qed


section \<open>Division and remainder\<close>

primrec divrem_ty :: "divrem_op \<Rightarrow> int_ty" where
  "divrem_ty I32DivS = TyI32" | "divrem_ty I32DivU = TyU32" | "divrem_ty I32RemS = TyI32" | "divrem_ty I32RemU = TyU32"
| "divrem_ty I64DivS = TyI64" | "divrem_ty I64DivU = TyU64" | "divrem_ty I64RemS = TyI64" | "divrem_ty I64RemU = TyU64"

lemma divrem_imm_ty: "divrem_imm op = imm_of (divrem_ty op)"
  by (cases op) simp_all

lemma divrem16_lhs_ok: "mk16_rev_ok env (divrem16_lhs op) (imm_of (divrem_ty op)) (divrem_fn op)"
  using mk_rev_ok_instrs(3) [of env op] by (simp add: divrem_imm_ty)

text \<open>
  The divisors of the instructions with a constant: not zero, and not -1 for a signed remainder, for
  which the instruction would trap on the least number.
\<close>

primrec divisor_ok :: "divrem_op \<Rightarrow> untyped_val \<Rightarrow> bool" where
  "divisor_ok I32DivS v = (to_i32 v \<noteq> 0)"
| "divisor_ok I32DivU v = (to_i32 v \<noteq> 0)"
| "divisor_ok I32RemS v = (to_i32 v \<noteq> 0 \<and> to_i32 v \<noteq> - 1)"
| "divisor_ok I32RemU v = (to_i32 v \<noteq> 0)"
| "divisor_ok I64DivS v = (to_i64 v \<noteq> 0)"
| "divisor_ok I64DivU v = (to_i64 v \<noteq> 0)"
| "divisor_ok I64RemS v = (to_i64 v \<noteq> 0 \<and> to_i64 v \<noteq> - 1)"
| "divisor_ok I64RemU v = (to_i64 v \<noteq> 0)"

lemma divisor_ok_instr: "divisor_ok op (imm_of (divrem_ty op) c) \<Longrightarrow>
    divrem_ext_fn op a c = divrem_fn op a (imm_of (divrem_ty op) c)"
  by (cases op; cases "c = 0"; cases "c = - 1")
    (auto simp: checked_div_def checked_rem_def overflowing_div_s_def wrapping_rem_s_def wrapping_rem_u_def
      overflowing_div_u_def int_div_def int_rem_def try_execute_binary_def i32_div_s_def i32_div_u_def
      i32_rem_s_def i32_rem_u_def i64_div_s_def i64_div_u_def i64_rem_s_def i64_rem_u_def of_const16_s32_def of_const16_u32_def of_const16_s64_def of_const16_u64_def)


lemma divrem16_ok: "mk16_ok env (divrem16_rhs op) (imm_of (divrem_ty op)) (divisor_ok op) (divrem_fn op)"
  by (simp add: mk16_ok_def mk_defs computes_def exec_defs get_register_Some divisor_ok_instr)

lemma rmap_same: "rmap (\<lambda>x. x) r = r"
  by (cases r) simp_all

lemma divrem_scheme:
  fixes env :: "('h, 'f) exec_env"
  assumes "\<And>a b. eq_zero (divrem_ty op) b \<Longrightarrow> divrem_fn op a b = Inl IntegerDivisionByZero"
    and "\<And>s ex l a b. ready env te x s \<Longrightarrow> may_repush te x s l \<Longrightarrow> reg_get ex l = Some a \<Longrightarrow>
      canon (divrem_ty op) a \<Longrightarrow> P b \<Longrightarrow> gives env te x (m l) s ex (divrem_fn op a b)"
    and "\<And>b. \<not> eq_zero (divrem_ty op) b \<Longrightarrow> \<not> P b \<Longrightarrow> divisor_ok op b"
  shows "op2_correct env te x (translate_divrem te (divrem_ty op) (divrem op) (divrem16_rhs op) (divrem16_lhs op)
      (typed_try_binary ty (divrem_fn op)) no_custom_opt (imm_is P m))
    (\<lambda>a b. canon (divrem_ty op) a \<and> canon (divrem_ty op) b) (divrem_fn op)"
proof (rule translate_divrem_correct [OF mk_ok_instrs(6) divrem16_ok divrem16_lhs_ok])
  fix b s s' l assume "\<not> eq_zero (divrem_ty op) b" "imm_is P m l b s = Inr (False, s')"
  then show "divisor_ok op b" using assms(3) [of b] by (auto simp: imm_is_def opt_when_def tr_simps rsimps split: if_splits)
qed (use assms(1,2) in \<open>auto simp: typed_try_binary_def rmap_rmap comp_def rmap_same sound_none intro!: sound_imm_is\<close>)

lemmas visit_divrem_defs = visit_i32_div_s_def visit_i32_div_u_def visit_i32_rem_s_def visit_i32_rem_u_def
  visit_i64_div_s_def visit_i64_div_u_def visit_i64_rem_s_def visit_i64_rem_u_def

lemmas divrem_fn_defs = i32_div_s_def i32_div_u_def i32_rem_s_def i32_rem_u_def i64_div_s_def i64_div_u_def
  i64_rem_s_def i64_rem_u_def try_execute_binary_def checked_div_def checked_rem_def overflowing_div_s_def
  wrapping_rem_s_def wrapping_rem_u_def overflowing_div_u_def int_div_def int_rem_def

lemma smod_one: "(i::int) smod 1 = 0"
  by (simp add: signed_modulo_int_def signed_divide_int_def)

lemma visit_divrem_correct:
  "op2_correct env te x (visit_divrem te op) (\<lambda>a b. canon (divrem_ty op) a \<and> canon (divrem_ty op) b) (divrem_fn op)"
proof (cases op)
  case I32DivS
  show ?thesis unfolding I32DivS visit_divrem.simps visit_divrem_defs divrem_ty.simps
    by (rule divrem_scheme [where op = I32DivS, unfolded divrem_ty.simps])
      (auto simp: divrem_fn_defs smod_one tv_i32_def intro!: gives_push_register gives_push_const)
next
  case I32DivU
  show ?thesis unfolding I32DivU visit_divrem.simps visit_divrem_defs divrem_ty.simps
    by (rule divrem_scheme [where op = I32DivU, unfolded divrem_ty.simps])
      (auto simp: divrem_fn_defs smod_one tv_i32_def intro!: gives_push_register gives_push_const)
next
  case I32RemS
  show ?thesis unfolding I32RemS visit_divrem.simps visit_divrem_defs divrem_ty.simps
    by (rule divrem_scheme [where op = I32RemS, unfolded divrem_ty.simps])
      (auto simp: divrem_fn_defs smod_one tv_i32_def intro!: gives_push_register gives_push_const)
next
  case I32RemU
  show ?thesis unfolding I32RemU visit_divrem.simps visit_divrem_defs divrem_ty.simps
    by (rule divrem_scheme [where op = I32RemU, unfolded divrem_ty.simps])
      (auto simp: divrem_fn_defs smod_one tv_i32_def intro!: gives_push_register gives_push_const)
next
  case I64DivS
  show ?thesis unfolding I64DivS visit_divrem.simps visit_divrem_defs divrem_ty.simps
    by (rule divrem_scheme [where op = I64DivS, unfolded divrem_ty.simps])
      (auto simp: divrem_fn_defs smod_one tv_i64_def intro!: gives_push_register gives_push_const)
next
  case I64DivU
  show ?thesis unfolding I64DivU visit_divrem.simps visit_divrem_defs divrem_ty.simps
    by (rule divrem_scheme [where op = I64DivU, unfolded divrem_ty.simps])
      (auto simp: divrem_fn_defs smod_one tv_i64_def intro!: gives_push_register gives_push_const)
next
  case I64RemS
  show ?thesis unfolding I64RemS visit_divrem.simps visit_divrem_defs divrem_ty.simps
    by (rule divrem_scheme [where op = I64RemS, unfolded divrem_ty.simps])
      (auto simp: divrem_fn_defs smod_one tv_i64_def intro!: gives_push_register gives_push_const)
next
  case I64RemU
  show ?thesis unfolding I64RemU visit_divrem.simps visit_divrem_defs divrem_ty.simps
    by (rule divrem_scheme [where op = I64RemU, unfolded divrem_ty.simps])
      (auto simp: divrem_fn_defs smod_one tv_i64_def intro!: gives_push_register gives_push_const)
qed


section \<open>Shifts and rotations\<close>

primrec shift_ty :: "shift_op \<Rightarrow> int_ty" where
  "shift_ty I32Shl = TyI32" | "shift_ty I32ShrU = TyI32" | "shift_ty I32ShrS = TyI32" | "shift_ty I32Rotl = TyI32"
| "shift_ty I32Rotr = TyI32" | "shift_ty I64Shl = TyI64" | "shift_ty I64ShrU = TyI64" | "shift_ty I64ShrS = TyI64"
| "shift_ty I64Rotl = TyI64" | "shift_ty I64Rotr = TyI64"

text \<open>A shift depends on its amount modulo the width only, which the constant of the instruction keeps.\<close>

lemma word_mod_of_sint:
  fixes b :: "'a::len word"
  assumes "n dvd 2 ^ LENGTH('a)"
  shows "int (unat b mod n) = sint b mod int n"
proof -
  have "int n dvd 2 ^ LENGTH('a)" using assms by (metis of_nat_dvd_iff of_nat_numeral of_nat_power)
  moreover have "uint b = sint b mod 2 ^ LENGTH('a)" by (simp add: uint_sint take_bit_eq_mod)
  ultimately have "uint b mod int n = sint b mod int n" by (simp add: mod_mod_cancel)
  then show ?thesis by (simp add: zmod_int)
qed

lemma smod_mod: "0 < n \<Longrightarrow> (i smod n) mod n = i mod (n::int)"
  by (cases i "0::int" rule: linorder_cases) (simp_all add: signed_modulo_int_def signed_divide_int_def mod_minus_eq)

lemma smod_less: "0 < n \<Longrightarrow> \<bar>i smod n\<bar> < (n::int)"
  by (cases i "0::int" rule: linorder_cases) (simp_all add: signed_modulo_int_def signed_divide_int_def)

lemma shift_amount_mod:
  fixes b :: "'a::len word"
  assumes "n dvd 2 ^ LENGTH('a)" "0 < n" "n \<le> 64" "16 \<le> LENGTH('a)" "shift_amount_new n b = Some d"
  shows "unat (scast d :: 'a word) mod n = unat b mod n"
proof -
  have d: "d = word_of_int (sint b smod int n)" using assms(5) by (auto simp: shift_amount_new_def Let_def split: if_splits)
  have "\<bar>sint b smod int n\<bar> < int n" using assms(2) by (simp add: smod_less)
  then have "sint d = sint b smod int n" using assms(3) unfolding d by (intro sint_of_range) auto
  moreover have "sint (scast d :: 'a word) = sint d"
  proof -
    have "(2::int) ^ 15 \<le> 2 ^ (LENGTH('a) - 1)" using assms(4) by (intro power_increasing) auto
    then show ?thesis using sint_bounds [of d] unfolding scast_eq by (intro sint_of_range) auto
  qed
  ultimately have "int (unat (scast d :: 'a word) mod n) = int (unat b mod n)"
    using assms(1,2) by (simp only: word_mod_of_sint smod_mod)
  then show ?thesis by simp
qed

lemma shift_amount_none:
  fixes b :: "'a::len word"
  assumes "n dvd 2 ^ LENGTH('a)" "0 < n" "n \<le> 64" "shift_amount_new n b = None"
  shows "unat b mod n = 0"
proof -
  have "(word_of_int (sint b smod int n) :: u16) = 0" using assms(4) by (auto simp: shift_amount_new_def Let_def split: if_splits)
  moreover have "\<bar>sint b smod int n\<bar> < int n" using assms(2) by (simp add: smod_less)
  then have "sint (word_of_int (sint b smod int n) :: u16) = sint b smod int n" using assms(3) by (intro sint_of_range) auto
  ultimately have "sint b smod int n = 0" by simp
  then have "int (unat b mod n) = 0" using assms(1,2) smod_mod [of "int n" "sint b"] by (simp only: word_mod_of_sint) simp
  then show ?thesis by simp
qed


lemma unat_and_mask:
  fixes y :: "'a::len word"
  shows "unat (y AND mask n) = unat y mod 2 ^ n"
  by (simp flip: take_bit_eq_mask take_bit_eq_mod add: unsigned_take_bit_eq)

lemma unat_and_widths: "unat ((y::u32) AND 0x1F) = unat y mod 32" "unat ((z::u64) AND 0x3F) = unat z mod 64"
  using unat_and_mask [of y 5] unat_and_mask [of z 6] by (simp_all add: mask_eq_exp_minus_1)

lemma word_rot_mod: "word_rotr (n mod LENGTH('a)) = (word_rotr n :: 'a::len word \<Rightarrow> _)"
    "word_rotl (n mod LENGTH('a)) = (word_rotl n :: 'a::len word \<Rightarrow> _)"
  by (rule ext, transfer, simp)+

lemma unat_ucast_mod: "unat (ucast (y::u64) :: u32) mod 64 = unat y mod 64"
  by (simp add: unsigned_ucast_eq take_bit_eq_mod mod_mod_cancel)

lemma word_rot_cong:
  fixes v :: "'a::len word"
  assumes "n mod LENGTH('a) = m mod LENGTH('a)"
  shows "word_rotr n v = word_rotr m v" "word_rotl n v = word_rotl m v"
  using assms word_rot_mod [where 'a = 'a] by metis+

lemma shift_fn_mod: "(case shift_ty op of TyI32 \<Rightarrow> unat (to_i32 b) mod 32 = unat (to_i32 b') mod 32
      | _ \<Rightarrow> unat (to_i64 b) mod 64 = unat (to_i64 b') mod 64) \<Longrightarrow> shift_fn op a b = shift_fn op a b'"
  by (cases op) (auto simp: i32_shl_def i32_shr_u_def i32_shr_s_def i32_rotl_def i32_rotr_def i64_shl_def i64_shr_u_def i64_shr_s_def
    i64_rotl_def i64_rotr_def execute_binary_def shl_masked_def shr_s_masked_def shr_u_masked_def int_rotl_def int_rotr_def
    unat_and_widths unat_ucast_mod intro!: arg_cong [where f = of_i32] arg_cong [where f = of_i64] word_rot_cong)


lemma shift_by_constant:
  assumes "into_shift_amount (shift_ty op) b = Some d"
  shows "shift_fn op a (shift_amount_val op d) = shift_fn op a b"
  using assms shift_amount_mod [of 32 "to_i32 b" d] shift_amount_mod [of 64 "to_i64 b" d]
  by (intro shift_fn_mod) (cases op; simp add: i32_of_shift_amount_def i64_of_shift_amount_def i32_of_const16_def i64_of_const16_def)

lemmas shift_fn_defs = i32_shl_def i32_shr_u_def i32_shr_s_def i32_rotl_def i32_rotr_def i64_shl_def i64_shr_u_def
  i64_shr_s_def i64_rotl_def i64_rotr_def execute_binary_def shl_masked_def shr_s_masked_def shr_u_masked_def
  int_rotl_def int_rotr_def

lemma to_zero: "to_i32 0 = 0" "to_i64 0 = 0"
  by (simp_all add: to_i32_def to_i64_def)

lemma word_rot_0: "word_rotr 0 v = v" "word_rotl 0 v = (v :: 'a::len word)"
  by (transfer, simp)+

lemma shift_by_zero: "canon (shift_ty op) a \<Longrightarrow> shift_fn op a 0 = a"
  by (cases op) (simp_all add: shift_fn_defs to_zero word_rot_0)

lemma shift_by_none:
  assumes "into_shift_amount (shift_ty op) b = None" "canon (shift_ty op) a"
  shows "shift_fn op a b = a"
proof -
  have "shift_fn op a b = shift_fn op a 0"
    using assms(1) shift_amount_none [of 32 "to_i32 b"] shift_amount_none [of 64 "to_i64 b"]
    by (intro shift_fn_mod) (cases op; simp add: to_zero)
  then show ?thesis using assms(2) by (simp add: shift_by_zero)
qed

lemma to_i64_eq_iff: "to_i64 a = c \<longleftrightarrow> a = of_i64 c"
  by (auto simp: to_i64_def of_i64_def)

lemma shift_of_zero: "eq_zero (shift_ty op) a \<Longrightarrow> canon (shift_ty op) a \<Longrightarrow> shift_fn op a b = a"
  by (cases op) (auto simp: shift_fn_defs to_i64_eq_iff)

lemma word_rot_minus_1: "word_rotr n (- 1 :: 'a::len word) = - 1" "word_rotl n (- 1 :: 'a::len word) = - 1"
  by (rule bit_word_eqI, simp add: bit_word_rotr_iff bit_word_rotl_iff)+

lemma shift_scheme:
  fixes env :: "('h, 'f) exec_env"
  assumes "\<And>s ex r a b. ready env te x s \<Longrightarrow> canon (shift_ty op) a \<Longrightarrow>
      sound env te x (opt a r) s ex (Inr (shift_fn op a b))"
  shows "op2_correct env te x (translate_shift te (shift_ty op) (shift_instr op) (shift_by op) (shift16 op)
      (typed_binary ty (shift_fn op)) opt)
    (\<lambda>a b. canon (shift_ty op) a \<and> canon (shift_ty op) b) (\<lambda>a b. Inr (shift_fn op a b))"
proof (rule translate_shift_correct [OF mk_ok_instrs(5)])
  have "shift_imm op = imm_of (shift_ty op)" by (cases op) simp_all
  then show "mk16_rev_ok env (shift16 op) (imm_of (shift_ty op)) (\<lambda>a b. Inr (shift_fn op a b))"
    using mk_rev_ok_instrs(2) [of env op] by simp
  fix r lhs d a b and ex :: "'h exec"
  assume "into_shift_amount (shift_ty op) b = Some d" "reg_get ex lhs = Some a"
  then show "\<exists>i. shift_by op r lhs d = INum i \<and> computes env ex i r (Inr (shift_fn op a b))"
    by (simp add: mk_defs computes_def exec_defs get_register_Some shift_by_constant)
qed (use assms in \<open>auto simp: typed_binary_def shift_by_none shift_of_zero\<close>)

lemmas visit_shift_defs = visit_i32_shl_def visit_i32_shr_u_def visit_i32_shr_s_def visit_i32_rotl_def visit_i32_rotr_def
  visit_i64_shl_def visit_i64_shr_u_def visit_i64_shr_s_def visit_i64_rotl_def visit_i64_rotr_def

lemma visit_shift_correct:
  "op2_correct env te x (visit_shift te op) (\<lambda>a b. canon (shift_ty op) a \<and> canon (shift_ty op) b)
    (\<lambda>a b. Inr (shift_fn op a b))"
proof (cases op)
  case I32Shl
  show ?thesis unfolding I32Shl visit_shift.simps visit_shift_defs shift_ty.simps
    by (rule shift_scheme [where op = I32Shl, unfolded shift_ty.simps])
      (auto simp: shift_fn_defs tv_i32_def word_rot_minus_1 intro!: sound_none sound_when gives_push_const)
next
  case I32ShrU
  show ?thesis unfolding I32ShrU visit_shift.simps visit_shift_defs shift_ty.simps
    by (rule shift_scheme [where op = I32ShrU, unfolded shift_ty.simps])
      (auto simp: shift_fn_defs tv_i32_def word_rot_minus_1 intro!: sound_none sound_when gives_push_const)
next
  case I32ShrS
  show ?thesis unfolding I32ShrS visit_shift.simps visit_shift_defs shift_ty.simps
    by (rule shift_scheme [where op = I32ShrS, unfolded shift_ty.simps])
      (auto simp: shift_fn_defs tv_i32_def word_rot_minus_1 intro!: sound_none sound_when gives_push_const)
next
  case I32Rotl
  show ?thesis unfolding I32Rotl visit_shift.simps visit_shift_defs shift_ty.simps
    by (rule shift_scheme [where op = I32Rotl, unfolded shift_ty.simps])
      (auto simp: shift_fn_defs tv_i32_def word_rot_minus_1 intro!: sound_none sound_when gives_push_const)
next
  case I32Rotr
  show ?thesis unfolding I32Rotr visit_shift.simps visit_shift_defs shift_ty.simps
    by (rule shift_scheme [where op = I32Rotr, unfolded shift_ty.simps])
      (auto simp: shift_fn_defs tv_i32_def word_rot_minus_1 intro!: sound_none sound_when gives_push_const)
next
  case I64Shl
  show ?thesis unfolding I64Shl visit_shift.simps visit_shift_defs shift_ty.simps
    by (rule shift_scheme [where op = I64Shl, unfolded shift_ty.simps])
      (auto simp: shift_fn_defs tv_i64_def word_rot_minus_1 to_i64_eq_iff intro!: sound_none sound_when gives_push_const)
next
  case I64ShrU
  show ?thesis unfolding I64ShrU visit_shift.simps visit_shift_defs shift_ty.simps
    by (rule shift_scheme [where op = I64ShrU, unfolded shift_ty.simps])
      (auto simp: shift_fn_defs tv_i64_def word_rot_minus_1 to_i64_eq_iff intro!: sound_none sound_when gives_push_const)
next
  case I64ShrS
  show ?thesis unfolding I64ShrS visit_shift.simps visit_shift_defs shift_ty.simps
    by (rule shift_scheme [where op = I64ShrS, unfolded shift_ty.simps])
      (auto simp: shift_fn_defs tv_i64_def word_rot_minus_1 to_i64_eq_iff intro!: sound_none sound_when gives_push_const)
next
  case I64Rotl
  show ?thesis unfolding I64Rotl visit_shift.simps visit_shift_defs shift_ty.simps
    by (rule shift_scheme [where op = I64Rotl, unfolded shift_ty.simps])
      (auto simp: shift_fn_defs tv_i64_def word_rot_minus_1 to_i64_eq_iff intro!: sound_none sound_when gives_push_const)
next
  case I64Rotr
  show ?thesis unfolding I64Rotr visit_shift.simps visit_shift_defs shift_ty.simps
    by (rule shift_scheme [where op = I64Rotr, unfolded shift_ty.simps])
      (auto simp: shift_fn_defs tv_i64_def word_rot_minus_1 to_i64_eq_iff intro!: sound_none sound_when gives_push_const)
qed


section \<open>Comparisons of floats\<close>

text \<open>No number is larger than an infinity.\<close>

lemma float_mag_le_inf:
  assumes "\<not> float_is_nan x" "float_is_infinite (y :: 'a::len word)"
  shows "float_mag (x :: 'a word) \<le> float_mag y"
proof -
  let ?m = "mant_bits x" and ?E = "2 ^ exp_bits x - 1 :: nat"
  have c: "mant_bits y = ?m" "exp_bits y = exp_bits x" by (simp_all add: mant_bits_def exp_bits_def)
  have e: "2 \<le> exp_bits x" by (simp add: exp_bits_def)
  have big: "2 ^ 2 \<le> (2::nat) ^ exp_bits x" using e by (intro power_increasing) auto
  have y: "float_mag y = 2 ^ ?m * 2 ^ (?E - 1)"
    using assms(2) big by (simp add: float_is_infinite_def float_mag_def c)
  have "float_exp x < 2 ^ exp_bits x" by (simp add: float_exp_def)
  then have le: "float_exp x \<le> ?E" by simp
  have mant: "float_mant x < 2 ^ ?m" by (simp add: float_mant_def)
  show ?thesis
  proof (cases "float_exp x = ?E")
    case True
    then show ?thesis using assms(1) big y by (simp add: float_is_nan_def float_mag_def)
  next
    case False
    then have lt: "Suc (float_exp x - 1) \<le> ?E - 1" if "float_exp x \<noteq> 0" using le that by simp
    have "(2 ^ ?m + float_mant x) * 2 ^ (float_exp x - 1) \<le> 2 ^ Suc ?m * 2 ^ (float_exp x - 1)"
      using mant by (intro mult_right_mono) auto
    also have "\<dots> = 2 ^ ?m * 2 ^ Suc (float_exp x - 1)" by simp
    finally have pow: "(2 ^ ?m + float_mant x) * 2 ^ (float_exp x - 1) \<le> 2 ^ ?m * 2 ^ Suc (float_exp x - 1)" .
    have "2 ^ Suc (float_exp x - 1) \<le> (2::nat) ^ (?E - 1)" if "float_exp x \<noteq> 0" using lt [OF that] by (intro power_increasing) auto
    then have "float_mag x \<le> 2 ^ ?m * 2 ^ (?E - 1)" if "float_exp x \<noteq> 0"
      using that pow order.trans [OF pow mult_left_mono, of "2 ^ (?E - 1)"] by (simp add: float_mag_def)
    moreover have "float_mag x \<le> 2 ^ ?m * 2 ^ (?E - 1)" if "float_exp x = 0"
      using that mant order.trans [of "float_mant x" "2 ^ ?m" "2 ^ ?m * 2 ^ (?E - 1)"] by (simp add: float_mag_def)
    ultimately show ?thesis using y by (cases "float_exp x = 0") simp_all
  qed
qed

lemma float_lt_inf: "float_is_infinite y \<Longrightarrow> \<not> float_neg y \<Longrightarrow> \<not> float_lt y x"
    "float_is_infinite y \<Longrightarrow> float_neg y \<Longrightarrow> \<not> float_lt x y"
  using float_mag_le_inf [of x y] by (auto simp: float_lt_def float_val_def)

lemmas fcmp_defs = f32_eq_def f32_ne_def f32_lt_def f32_le_def f32_gt_def f32_ge_def f64_eq_def f64_ne_def f64_lt_def
  f64_le_def f64_gt_def f64_ge_def execute_binary_def

lemma imm_is_False: "imm_is P m r v s = Inr (False, s') \<Longrightarrow> \<not> P v"
    "rhs_is P b r v s = Inr (False, s') \<Longrightarrow> \<not> P v"
    "lhs_is P b v r s = Inr (False, s') \<Longrightarrow> \<not> P v"
  by (auto simp: imm_is_def rhs_is_def lhs_is_def opt_when_def tr_simps rsimps split: if_splits)

lemma fcmp_comm_scheme:
  fixes env :: "('h, 'f) exec_env"
  assumes "\<And>a b. fcmp_fn op b a = fcmp_fn op a b" "\<And>a b. is_nan_val w b \<Longrightarrow> fcmp_fn op a b = of_boolean e"
  shows "op2_correct env te x (translate_fbinary_commutative te w (fcmp op) (typed_binary I32 (fcmp_fn op))
      no_custom_opt (imm_is (is_nan_val w) (\<lambda>_. push_bool e))) (\<lambda>_ _. True) (\<lambda>a b. Inr (fcmp_fn op a b))"
  by (rule translate_fbinary_commutative_correct [OF mk_ok_instrs(2)])
    (auto simp: typed_binary_def assms(2) intro!: assms(1) sound_none sound_imm_is gives_push_bool dest: imm_is_False)

lemma fcmp_scheme:
  fixes env :: "('h, 'f) exec_env"
  assumes "\<And>s ex l r a b. ready env te x s \<Longrightarrow> reg_get ex l = Some a \<Longrightarrow> reg_get ex r = Some b \<Longrightarrow>
      sound env te x (opt l r) s ex (Inr (fcmp_fn op a b))"
    and "\<And>a b. P b \<Longrightarrow> fcmp_fn op a b = of_boolean False" "\<And>a b. Q a \<Longrightarrow> fcmp_fn op a b = of_boolean False"
    and "\<And>b. is_nan_val w b \<Longrightarrow> P b \<and> Q b"
  shows "op2_correct env te x (translate_fbinary te w (fcmp op) (typed_binary I32 (fcmp_fn op)) opt
      (rhs_is P False) (lhs_is Q False)) (\<lambda>_ _. True) (\<lambda>a b. Inr (fcmp_fn op a b))"
  by (rule translate_fbinary_correct [OF mk_ok_instrs(2)])
    (use assms in \<open>auto simp: typed_binary_def intro!: sound_none sound_rhs_is sound_lhs_is dest!: imm_is_False\<close>)

lemmas visit_fcmp_defs = visit_f32_eq_def visit_f32_ne_def visit_f32_lt_def visit_f32_le_def visit_f32_gt_def
  visit_f32_ge_def visit_f64_eq_def visit_f64_ne_def visit_f64_lt_def visit_f64_le_def visit_f64_gt_def visit_f64_ge_def

lemma float_less: "\<not> float_lt x x"
    "float_is_nan x \<Longrightarrow> \<not> float_lt x y" "float_is_nan y \<Longrightarrow> \<not> float_lt x y"
    "float_is_nan x \<Longrightarrow> \<not> float_le x y" "float_is_nan y \<Longrightarrow> \<not> float_le x y"
  by (simp_all add: float_lt_def float_le_def)

lemma visit_fcmp_correct:
  "op2_correct env te x (visit_fcmp te op) (\<lambda>_ _. True) (\<lambda>a b. Inr (fcmp_fn op a b))"
proof (cases op)
  case F32Eq
  show ?thesis unfolding F32Eq visit_fcmp.simps visit_fcmp_defs
    by (rule fcmp_comm_scheme [where op = F32Eq]) (auto simp: fcmp_defs float_eq_def intro: arg_cong [where f = of_boolean])
next
  case F32Ne
  show ?thesis unfolding F32Ne visit_fcmp.simps visit_fcmp_defs
    by (rule fcmp_comm_scheme [where op = F32Ne]) (auto simp: fcmp_defs float_eq_def intro: arg_cong [where f = of_boolean])
next
  case F32Lt
  show ?thesis unfolding F32Lt visit_fcmp.simps visit_fcmp_defs
    by (rule fcmp_scheme [where op = F32Lt])
      (auto simp: fcmp_defs float_less float_lt_inf intro!: sound_none sound_same_reg gives_push_bool
        arg_cong [where f = of_boolean])
next
  case F32Le
  show ?thesis unfolding F32Le visit_fcmp.simps visit_fcmp_defs
    by (rule fcmp_scheme [where op = F32Le])
      (auto simp: fcmp_defs float_less float_lt_inf intro!: sound_none sound_same_reg gives_push_bool
        arg_cong [where f = of_boolean])
next
  case F32Gt
  show ?thesis unfolding F32Gt visit_fcmp.simps visit_fcmp_defs
    by (rule fcmp_scheme [where op = F32Gt])
      (auto simp: fcmp_defs float_less float_lt_inf intro!: sound_none sound_same_reg gives_push_bool
        arg_cong [where f = of_boolean])
next
  case F32Ge
  show ?thesis unfolding F32Ge visit_fcmp.simps visit_fcmp_defs
    by (rule fcmp_scheme [where op = F32Ge])
      (auto simp: fcmp_defs float_less float_lt_inf intro!: sound_none sound_same_reg gives_push_bool
        arg_cong [where f = of_boolean])
next
  case F64Eq
  show ?thesis unfolding F64Eq visit_fcmp.simps visit_fcmp_defs
    by (rule fcmp_comm_scheme [where op = F64Eq]) (auto simp: fcmp_defs float_eq_def intro: arg_cong [where f = of_boolean])
next
  case F64Ne
  show ?thesis unfolding F64Ne visit_fcmp.simps visit_fcmp_defs
    by (rule fcmp_comm_scheme [where op = F64Ne]) (auto simp: fcmp_defs float_eq_def intro: arg_cong [where f = of_boolean])
next
  case F64Lt
  show ?thesis unfolding F64Lt visit_fcmp.simps visit_fcmp_defs
    by (rule fcmp_scheme [where op = F64Lt])
      (auto simp: fcmp_defs float_less float_lt_inf intro!: sound_none sound_same_reg gives_push_bool
        arg_cong [where f = of_boolean])
next
  case F64Le
  show ?thesis unfolding F64Le visit_fcmp.simps visit_fcmp_defs
    by (rule fcmp_scheme [where op = F64Le])
      (auto simp: fcmp_defs float_less float_lt_inf intro!: sound_none sound_same_reg gives_push_bool
        arg_cong [where f = of_boolean])
next
  case F64Gt
  show ?thesis unfolding F64Gt visit_fcmp.simps visit_fcmp_defs
    by (rule fcmp_scheme [where op = F64Gt])
      (auto simp: fcmp_defs float_less float_lt_inf intro!: sound_none sound_same_reg gives_push_bool
        arg_cong [where f = of_boolean])
next
  case F64Ge
  show ?thesis unfolding F64Ge visit_fcmp.simps visit_fcmp_defs
    by (rule fcmp_scheme [where op = F64Ge])
      (auto simp: fcmp_defs float_less float_lt_inf intro!: sound_none sound_same_reg gives_push_bool
        arg_cong [where f = of_boolean])
qed


section \<open>Operators with one operand\<close>

lemma visit_unary_correct:
  assumes "env_nan env = te_nan te"
  shows "op1_correct env te x (visit_unary te op) (\<lambda>_. True) (\<lambda>a. Inr (unary_fn op (te_nan te) a))"
  unfolding visit_unary_def
  by (rule translate_unary_correct) (use mk1_ok_instrs(1) [of env op] assms in \<open>simp_all add: typed_unary_def\<close>)

lemma visit_conv_correct:
  assumes "env_nan env = te_nan te"
  shows "op1_correct env te x (visit_conv te op) (\<lambda>_. True) (\<lambda>a. Inr (conv_fn op (te_nan te) a))"
  unfolding visit_conv_def
  by (rule translate_unary_correct) (use mk1_ok_instrs(2) [of env op] assms in \<open>simp_all add: typed_unary_def\<close>)

lemma visit_trunc_correct: "op1_correct env te x (visit_trunc te op) (\<lambda>_. True) (trunc_fn op)"
  unfolding visit_trunc_def
  by (rule translate_unary_fallible_correct [OF mk1_ok_instrs(3)])
    (simp add: typed_try_unary_def rmap_rmap comp_def rmap_same)

lemma visit_i64_extend_i32_s_correct:
  "op1_correct env te x (visit_i64_extend_i32_s te) (\<lambda>_. True) (\<lambda>a. Inr (i64_extend_i32_s a))"
  unfolding visit_i64_extend_i32_s_def
proof (rule translate_unary_correct)
  have "conv_fn I64Extend32S n a = i64_extend_i32_s a" for n a
    by (simp add: i64_extend32_s_def i64_extend_i32_s_def execute_unary_def sign_extend_from_def extend_into_s_def
        to_i32_def to_i64_def)
  then show "mk1_ok env (\<lambda>r a. INum (IConv I64Extend32S r a)) (\<lambda>a. Inr (i64_extend_i32_s a))"
    using mk1_ok_instrs(2) [of env I64Extend32S] by simp
qed (simp add: typed_unary_def)

text \<open>A test for zero compares with the constant zero.\<close>

lemma push_const_then:
  assumes "op2_correct env te x m cond F" "\<And>a. cond' a \<Longrightarrow> cond a (tv_value c)"
  shows "op1_correct env te x (bail_unreachable (tseq (tl_push_const c) m)) cond' (\<lambda>a. F a (tv_value c))"
  unfolding op1_correct_def
proof (intro allI impI)
  fix s s' assume r: "ready env te x s" and run: "bail_unreachable (tseq (tl_push_const c) m) s = Inr ((), s')"
  then obtain s0 where s0: "tl_push_const c s = Inr ((), s0)" "m s0 = Inr ((), s')"
    by (auto simp: bail_unreachable_def tr_defs rsimps ready_def)
  have "tl_inv te x s" using r by (simp add: ready_def)
  note p = tl_push_const_Inr [OF this s0(1)]
  have "ready env te x s0" using r p by (simp add: ready_def)
  then obtain s1 a q where s1: "providers s0 = providers s1 @ [a, q]" "tl_extends s0 s1" "code_of s1 = code_of s0"
      "\<And>ex v w. consts_read ex s' \<Longrightarrow> operand_reads ex (typed_of_tagged a) v \<Longrightarrow> operand_reads ex (typed_of_tagged q) w \<Longrightarrow>
        cond v w \<Longrightarrow> delivers env te x s1 s' ex (F v w)"
    using assms(1) s0(2) unfolding op2_correct_def by blast
  have q: "q = TagConstValue c" "providers s = providers s1 @ [a]" using s1(1) p(2) by auto
  have "operand_reads ex (typed_of_tagged q) (tv_value c)" for ex by (simp add: q operand_reads_def typed_of_tagged_def)
  then have "delivers env te x s1 s' ex (F v (tv_value c))"
    if "consts_read ex s'" "operand_reads ex (typed_of_tagged a) v" "cond' v" for ex v
    using s1(4) that assms(2) by blast
  then show "\<exists>s1 p. providers s = providers s1 @ [p] \<and> tl_extends s s1 \<and> code_of s1 = code_of s \<and>
       (\<forall>ex a. consts_read ex s' \<longrightarrow> operand_reads ex (typed_of_tagged p) a \<longrightarrow> cond' a \<longrightarrow>
         delivers env te x s1 s' ex (F a (tv_value c)))"
    using q s1(2,3) p tl_extends_trans [OF p(3) s1(2)] by (intro exI [of _ s1] exI [of _ a]) simp
qed

lemma visit_i64_eqz_correct:
  "op1_correct env te x (visit_i64_eqz te) (\<lambda>_. True) (\<lambda>a. Inr (i64_eq a 0))"
proof -
  have "op2_correct env te x (visit_i64_eq te) (\<lambda>_ _. True) (\<lambda>a b. Inr (i64_eq a b))"
    using visit_icmp_correct [of env te x I64Eq] by simp
  from push_const_then [OF this, of "\<lambda>_. True" "tv_i64 0"]
  show ?thesis by (simp add: visit_i64_eqz_def tv_i64_def of_i64_def)
qed

text \<open>Operators that have the same untyped result.\<close>

lemma replace_const_correct:
  assumes "\<And>c. cond (tv_value c) \<Longrightarrow> tv_value (f c) = tv_value c"
  shows "op1_correct env te x (replace_const te f) cond Inr"
  unfolding op1_correct_def
proof (intro allI impI)
  fix s s' assume r: "ready env te x s" and run: "replace_const te f s = Inr ((), s')"
  have rr: "stash_laws (te_stash te)" "tl_inv te x s" "tl_reachable s" using r by (simp_all add: ready_def)
  from run rr(3) obtain tp s0 where pk: "tl_peek s = Inr (tp, s0)"
      and k: "(case tp of ProvReg _ \<Rightarrow> tskip | ProvConst _ \<Rightarrow>
        tbind (tl_pop te) (\<lambda>p. case p of ProvConst v \<Rightarrow> tl_push_const (f v) | ProvReg _ \<Rightarrow> tfail TPanic)) s0 = Inr ((), s')"
    by (auto simp: replace_const_def bail_unreachable_def tr_defs rsimps)
  from pk have ne: "providers s \<noteq> []" and s0: "s0 = s" and tp: "tp = typed_of_tagged (List.last (providers s))"
    by (auto simp: tl_peek_def tr_simps rsimps ts_peek_def ps_peek_def split: if_splits)
  show "\<exists>s1 p. providers s = providers s1 @ [p] \<and> tl_extends s s1 \<and> code_of s1 = code_of s \<and>
       (\<forall>ex a. consts_read ex s' \<longrightarrow> operand_reads ex (typed_of_tagged p) a \<longrightarrow> cond a \<longrightarrow>
         delivers env te x s1 s' ex (Inr a))"
  proof (cases tp)
    case (ProvReg q)
    then have s': "s' = s" using k s0 by (simp add: tr_simps)
    let ?p = "List.last (providers s)" and ?st = "cg_stack s"
    let ?s1 = "s\<lparr>cg_stack := ?st\<lparr>ts_providers := (ts_providers ?st)\<lparr>ps_providers := butlast (providers s)\<rparr>\<rparr>\<rparr>"
    have "delivers env te x ?s1 s' ex (Inr a)" if "operand_reads ex (typed_of_tagged ?p) a" for ex a
    proof -
      have "providers s' = providers ?s1 @ [?p]" using ne by (simp add: s')
      then show ?thesis unfolding delivers_def using rr that by (simp add: s' tl_extends_def) blast
    qed
    then show ?thesis using ne by (intro exI [of _ ?s1] exI [of _ ?p]) (simp add: tl_extends_def)
  next
    case (ProvConst c)
    with k s0 obtain tq s1 where s1: "tl_pop te s = Inr (tq, s1)"
        "(case tq of ProvConst v \<Rightarrow> tl_push_const (f v) | ProvReg _ \<Rightarrow> tfail TPanic) s1 = Inr ((), s')"
      by (auto simp: tr_defs rsimps)
    note p = tl_pop_Inr [OF rr(1,2) s1(1)]
    from p(1) obtain p' where p': "tq = typed_of_tagged p'" "providers s = providers s1 @ [p']" by blast
    then have tq: "tq = ProvConst c" using tp ProvConst by simp
    then have push: "tl_push_const (f c) s1 = Inr ((), s')" using s1(2) by simp
    have ready1: "ready env te x s1" using r p by (simp add: ready_def)
    have "delivers env te x s1 s' ex (Inr a)"
      if "consts_read ex s'" "operand_reads ex tq a" "cond a" for ex a
    proof -
      have "a = tv_value c" using that(2) tq by (simp add: operand_reads_def)
      then show ?thesis using gives_push_const [OF ready1, of "Inr a" "f c"] assms that push by (simp add: gives_def)
    qed
    then show ?thesis using p p' by (intro exI [of _ s1] exI [of _ p']) simp
  qed
qed

lemma visit_i64_extend_i32_u_correct:
  "op1_correct env te x (visit_i64_extend_i32_u te) (canon TyI32) (\<lambda>a. Inr (of_i64 (ucast (to_i32 a))))"
proof -
  have same: "of_i64 (ucast (to_i32 a)) = a" if "canon TyI32 a" for a
    using that by (simp add: of_i64_def of_i32_def)
  have "op1_correct env te x (visit_i64_extend_i32_u te) (canon TyI32) Inr"
    unfolding visit_i64_extend_i32_u_def translate_i64_extend_i32_u_def
    by (rule replace_const_correct) (auto simp: tv_i64_def of_i64_def of_i32_def)
  with same show ?thesis unfolding op1_correct_def by simp
qed

lemma visit_reinterpret_correct:
  "op1_correct env te x (translate_reinterpret te ty) (\<lambda>_. True) Inr"
  unfolding translate_reinterpret_def by (rule replace_const_correct) (simp add: reinterpret_def)

end
