(* ===== verification/Tr_Grow.thy ===== *)
theory Tr_Grow
  imports Tr_Sim_Num
begin

text \<open>
  The translator without fuel metering only appends code: earlier words, earlier constants and the
  registers in use stay when further numeric operators are translated, whatever their operands are.
\<close>


section \<open>What grows\<close>

text \<open>Preserved registers are not used; without them the dynamic ones end below 32766.\<close>

definition more_registers :: "'m reg_alloc \<Rightarrow> 'm reg_alloc \<Rightarrow> bool" where
  "more_registers ra ra' \<longleftrightarrow> sint (ra_max_dynamic ra) \<le> sint (ra_max_dynamic ra') \<and>
    ra_min_preserve ra' = ra_min_preserve ra \<and>
    (ra_min_preserve ra = 32766 \<longrightarrow> sint (ra_max_dynamic ra) \<le> 32766 \<longrightarrow> sint (ra_max_dynamic ra') \<le> 32766)"

lemma more_registers_refl [simp]: "more_registers ra ra"
  by (simp add: more_registers_def)

lemma more_registers_same: "ra_max_dynamic ra' = ra_max_dynamic ra \<Longrightarrow> ra_min_preserve ra' = ra_min_preserve ra \<Longrightarrow>
    more_registers ra ra'"
  by (simp add: more_registers_def)

lemma more_registers_trans: "more_registers ra1 ra2 \<Longrightarrow> more_registers ra2 ra3 \<Longrightarrow> more_registers ra1 ra3"
  by (auto simp: more_registers_def)

lemma more_registers_push:
  assumes "ra_push_dynamic ra = Inr (r, ra')"
  shows "more_registers ra ra'"
proof -
  have ne: "ra_next_dynamic ra \<noteq> ra_min_preserve ra" and ra': "ra' = ra\<lparr>ra_next_dynamic := ra_next_dynamic ra + 1,
      ra_max_dynamic := i16_max (ra_max_dynamic ra) (ra_next_dynamic ra + 1)\<rparr>"
    using assms by (auto simp: ra_push_dynamic_def Let_def split: if_splits)
  have "sint (ra_next_dynamic ra + 1) \<le> 32766" if "ra_min_preserve ra = 32766"
  proof (cases "ra_next_dynamic ra = 32767")
    case False
    have "sint (ra_next_dynamic ra) \<noteq> 32766" "sint (ra_next_dynamic ra) \<noteq> 32767"
      using ne that False by (auto simp: reg_eq_iff)
    then have "sint (ra_next_dynamic ra) < 32766" using sint_reg_bounds(2) [of "ra_next_dynamic ra"] by simp
    then show ?thesis using sint_reg_plus [of "ra_next_dynamic ra" 1] sint_reg_bounds(1) [of "ra_next_dynamic ra"] by simp
  qed simp
  then show ?thesis by (simp add: more_registers_def ra' i16_max_def)
qed

definition grown :: "'m translator \<Rightarrow> 'm translator \<Rightarrow> bool" where
  "grown s s' \<longleftrightarrow> consts_inv (consts_of s') \<and> (\<exists>ws. code_of s' = code_of s @ ws) \<and>
    (\<forall>r v. consts_get r (consts_of s) = Some v \<longrightarrow> consts_get r (consts_of s') = Some v) \<and>
    more_registers (ts_reg_alloc (cg_stack s)) (ts_reg_alloc (cg_stack s')) \<and>
    tl_control s' = tl_control s \<and> ie_labels (cg_enc s') = ie_labels (cg_enc s) \<and>
    ie_notified_preservation (cg_enc s') = ie_notified_preservation (cg_enc s)"

definition grows :: "('m, 'a) tl \<Rightarrow> bool" where
  "grows m \<longleftrightarrow> (\<forall>s x s'. consts_inv (consts_of s) \<longrightarrow> m s = Inr (x, s') \<longrightarrow> grown s s')"

lemma grown_refl: "consts_inv (consts_of s) \<Longrightarrow> grown s s"
  by (simp add: grown_def)

lemma grown_trans: "grown s s' \<Longrightarrow> grown s' s'' \<Longrightarrow> grown s s''"
  unfolding grown_def using more_registers_trans by fastforce

lemma grown_in_use: "grown s s' \<Longrightarrow> ra_in_use (ts_reg_alloc (cg_stack s)) r \<Longrightarrow> ra_in_use (ts_reg_alloc (cg_stack s')) r"
  by (auto simp: grown_def more_registers_def ra_in_use_def)

lemma growsD: "grows m \<Longrightarrow> consts_inv (consts_of s) \<Longrightarrow> m s = Inr (x, s') \<Longrightarrow> grown s s'"
  by (simp add: grows_def)

named_theorems grow_intros \<open>operations of the translator that grow\<close>

lemma grows_bind [grow_intros]: "grows m \<Longrightarrow> (\<And>x. grows (k x)) \<Longrightarrow> grows (tbind m k)"
  unfolding grows_def
proof (intro allI impI)
  fix s x s'
  assume g: "\<forall>s x s'. consts_inv (consts_of s) \<longrightarrow> m s = Inr (x, s') \<longrightarrow> grown s s'"
    "\<And>x. \<forall>s y s'. consts_inv (consts_of s) \<longrightarrow> k x s = Inr (y, s') \<longrightarrow> grown s s'"
    and c: "consts_inv (consts_of s)" and run: "tbind m k s = Inr (x, s')"
  then obtain y s1 where s1: "m s = Inr (y, s1)" "k y s1 = Inr (x, s')" by (auto simp: tr_defs rsimps)
  then have "grown s s1" using g(1) c by blast
  moreover from this have "consts_inv (consts_of s1)" by (simp add: grown_def)
  then have "grown s1 s'" using g(2) s1(2) by blast
  ultimately show "grown s s'" by (rule grown_trans)
qed

lemma grows_seq [grow_intros]: "grows m \<Longrightarrow> grows k \<Longrightarrow> grows (tseq m k)"
  using grows_bind [of m "\<lambda>_. k"] by (simp add: tseq_def)

lemma grows_ret [grow_intros]: "grows (tret x)" "grows tskip" "grows (tfail e)"
  by (simp_all add: grows_def tr_simps grown_refl)

lemma grows_tget [grow_intros]: "grows (tget f)"
  by (auto simp: grows_def tr_simps grown_refl)

lemma grows_if [grow_intros]: "(b \<Longrightarrow> grows m) \<Longrightarrow> (\<not> b \<Longrightarrow> grows k) \<Longrightarrow> grows (if b then m else k)"
  by simp

lemma grows_provider [grow_intros]: "(\<And>r. grows (f r)) \<Longrightarrow> (\<And>c. grows (g c)) \<Longrightarrow>
    grows (case p of ProvReg r \<Rightarrow> f r | ProvConst c \<Rightarrow> g c)"
  by (cases p) simp_all

lemma grows_option [grow_intros]: "grows m \<Longrightarrow> (\<And>x. grows (k x)) \<Longrightarrow> grows (case p of None \<Rightarrow> m | Some x \<Rightarrow> k x)"
  by (cases p) simp_all

lemma grows_sum [grow_intros]: "(\<And>x. grows (f x)) \<Longrightarrow> (\<And>x. grows (g x)) \<Longrightarrow> grows (case p of Inl x \<Rightarrow> f x | Inr x \<Rightarrow> g x)"
  by (cases p) simp_all

lemma grows_pair [grow_intros]: "(\<And>x y. grows (f x y)) \<Longrightarrow> grows (case p of (x, y) \<Rightarrow> f x y)"
  by (cases p) simp_all

lemma grows_void [grow_intros]: "grows m \<Longrightarrow> grows (tvoid m)"
  unfolding tvoid_def by (intro grow_intros)

lemma grows_opts [grow_intros]:
  "grows m \<Longrightarrow> grows (bail_unreachable m)" "grows m \<Longrightarrow> grows (opt_when b m)" "grows (no_custom_opt l r)"
  "grows o1 \<Longrightarrow> grows m \<Longrightarrow> grows (or_else o1 m)" "grows o1 \<Longrightarrow> grows o2 \<Longrightarrow> grows (try_opts o1 o2)"
  by (auto simp: bail_unreachable_def opt_when_def no_custom_opt_def or_else_def try_opts_def intro!: grow_intros)

lemma growsI_stack:
  assumes "\<And>s x s'. m s = Inr (x, s') \<Longrightarrow> cg_enc s' = cg_enc s \<and> tl_control s' = tl_control s \<and> consts_of s' = consts_of s \<and>
    more_registers (ts_reg_alloc (cg_stack s)) (ts_reg_alloc (cg_stack s'))"
  shows "grows m"
  unfolding grows_def grown_def using assms by fastforce

lemma ra_pop_provider_bounds: "ra_pop_provider ms p ra = Inr (tp, ra') \<Longrightarrow> more_registers ra ra'"
  by (cases p) (auto intro!: more_registers_same simp: ra_pop_provider_def ra_pop_dynamic_def ra_pop_preserved_def rsimps case_prod_beta split: if_splits)

lemma ts_pop_bounds:
  assumes "ts_pop ms s = Inr (tp, s')"
  shows "ts_consts s' = ts_consts s \<and> more_registers (ts_reg_alloc s) (ts_reg_alloc s')"
proof -
  obtain p where "ra_pop_provider ms p (ts_reg_alloc s) = Inr (tp, ts_reg_alloc s')" "ts_consts s' = ts_consts s"
    using assms by (auto simp: ts_pop_def rsimps)
  with ra_pop_provider_bounds show ?thesis by blast
qed

lemma grows_pop [grow_intros]: "grows (tl_pop te)"
  by (rule growsI_stack) (auto simp: tl_pop_def on_stack_def rsimps dest: ts_pop_bounds)

lemma grows_pop2 [grow_intros]: "grows (tl_pop2 te)"
proof -
  have "tl_pop2 te = tbind (tl_pop te) (\<lambda>rhs. tbind (tl_pop te) (\<lambda>lhs. tret (lhs, rhs)))"
    by (rule ext) (auto simp: tl_pop2_def tl_pop_def on_stack_def ts_pop2_def tr_defs rsimps rmap_def rbind_def
        split: sum.splits prod.splits)
  then show ?thesis by (auto intro!: grow_intros)
qed

lemma grows_peek [grow_intros]: "grows tl_peek"
  by (rule growsI_stack) (auto simp: tl_peek_def tr_simps rsimps)

lemma grows_push_const [grow_intros]: "grows (tl_push_const c)"
  by (rule growsI_stack) (auto simp: tl_push_const_def upd_stack_def ts_push_const_def ts_push_tagged_def rsimps)

lemma grows_push_dynamic [grow_intros]: "grows tl_push_dynamic"
  by (rule growsI_stack) (auto simp: tl_push_dynamic_def on_stack_def ts_push_dynamic_def ts_push_tagged_def rsimps
      dest: more_registers_push)

lemma grows_push_register [grow_intros]: "grows (tl_push_register te r)"
  by (rule growsI_stack) (auto simp: tl_push_register_def upd_stack_def ts_push_register_def ts_push_tagged_def ts_lift_alloc_def
      ra_bump_preserved_def more_registers_same rsimps
      dest!: more_registers_push split: if_splits register_space.splits)

lemma grows_alloc_const [grow_intros]: "grows (tl_alloc_const v)"
  unfolding grows_def
proof (intro allI impI)
  fix s r s' assume ci: "consts_inv (consts_of s)" and al: "tl_alloc_const v s = Inr (r, s')"
  from al obtain c where c: "consts_alloc v (consts_of s) = Inr (r, c)"
      and s': "s' = s\<lparr>cg_stack := (cg_stack s)\<lparr>ts_consts := c\<rparr>\<rparr>"
    by (auto simp: tl_alloc_const_def on_stack_def ts_alloc_const_def rsimps)
  from consts_alloc_inv [OF ci c] show "grown s s'" by (simp add: grown_def s')
qed

lemma grows_emit:
  assumes "tle_fuel_costs te = None"
  shows "grows (emit te i)"
  unfolding grows_def
proof (intro allI impI)
  fix s x s' assume "consts_inv (consts_of s)" "emit te i s = Inr (x, s')"
  then show "grown s s'" using emit_Inr [OF assms, of i s x s'] by (simp add: grown_def pushed_code_def)
qed

lemma grows_unreachable [grow_intros]: "grows (set_reachable b)" "grows (update_visit_pos p)"
  by (rule growsI_stack, auto simp: set_reachable_def update_visit_pos_def tr_simps)+

lemma grows_push_instr [grow_intros]: "grows (push_instr pos i)"
  unfolding grows_def
  by (auto simp: grown_def push_instr_def append_instr_def seq_push_def seq_next_instr_def tr_simps rsimps split: if_splits)

lemma grows_pos [grow_intros]: "grows tl_pos"
  by (simp add: tl_pos_def grows_tget)


section \<open>Numeric operators\<close>

lemmas push_defs = push_binary_instr_def push_binary_instr_imm_def push_binary_instr_imm_rev_def push_unary_instr_def
  try_push_binary_instr_imm16_def try_push_binary_instr_imm16_rev_def push_binary_consteval_def push_or_trap_def
  translate_trap_def binary_commutative_imm_def fbinary_commutative_imm_def

lemma grows_pushes [grow_intros]:
  assumes "tle_fuel_costs te = None"
  shows "grows (emit te i)" "grows (push_binary_instr te l r mk)" "grows (push_binary_instr_imm te l c mk)"
    "grows (push_binary_instr_imm_rev te c r mk)" "grows (push_unary_instr te mk1 r)"
    "grows (try_push_binary_instr_imm16 te ty l c mk16)" "grows (try_push_binary_instr_imm16_rev te ty c r mk16)"
    "grows (push_binary_consteval x y ce)" "grows (push_or_trap te v)" "grows (translate_trap te code)"
  unfolding push_defs using assms by (auto intro!: grow_intros grows_emit split: sum.split)

lemma grows_translates [grow_intros]:
  assumes "tle_fuel_costs te = None"
  shows "(\<And>a b. grows (o1 a b)) \<Longrightarrow> (\<And>a b. grows (o2 a b)) \<Longrightarrow> (\<And>a b. grows (o3 a b)) \<Longrightarrow>
      grows (translate_binary te ty mk mk16o mk16_rev ce o1 o2 o3)"
    "(\<And>a b. grows (o1 a b)) \<Longrightarrow> (\<And>a b. grows (o2 a b)) \<Longrightarrow>
      grows (translate_binary_commutative te ty mk mk16 ce o1 o2)"
    "(\<And>a b. grows (o1 a b)) \<Longrightarrow> (\<And>a b. grows (o2 a b)) \<Longrightarrow> (\<And>a b. grows (o3 a b)) \<Longrightarrow>
      grows (translate_fbinary te w mk ce o1 o2 o3)"
    "(\<And>a b. grows (o1 a b)) \<Longrightarrow> (\<And>a b. grows (o2 a b)) \<Longrightarrow>
      grows (translate_fbinary_commutative te w mk ce o1 o2)"
    "(\<And>a b. grows (o3 a b)) \<Longrightarrow> grows (translate_shift te ty mk mk_by mk16_rev ce o3)"
    "(\<And>a b. grows (o1 a b)) \<Longrightarrow> (\<And>a b. grows (o2 a b)) \<Longrightarrow>
      grows (translate_divrem te ty mk mk16 mk16_rev tce o1 o2)"
    "grows (translate_fcopysign te w mk mk_neg ce)" "grows (replace_const te f)"
    "grows (translate_unary te mk1 ce1)" "grows (translate_unary_fallible te mk1 tce1)"
  using assms
  by (auto simp: translate_binary_def translate_binary_commutative_def translate_fbinary_def translate_fbinary_commutative_def
      translate_shift_def translate_divrem_def translate_fcopysign_def replace_const_def translate_unary_def
      translate_unary_fallible_def binary_commutative_imm_def fbinary_commutative_imm_def intro!: grow_intros)

lemma grows_special [grow_intros]: "grows m \<Longrightarrow> grows (same_reg m l r)" "grows (push_bool b)"
    "grows (rhs_is P b l c)" "grows (lhs_is P b c r)" "(\<And>r. grows (f r)) \<Longrightarrow> grows (imm_is P f r c)"
  by (auto simp: same_reg_def push_bool_def rhs_is_def lhs_is_def imm_is_def intro!: grow_intros)

lemma grows_visit_icmp: "tle_fuel_costs te = None \<Longrightarrow> grows (visit_icmp te op)"
  by (cases op) (auto simp: visit_icmp_defs intro!: grow_intros)

lemma grows_visit_fcmp: "tle_fuel_costs te = None \<Longrightarrow> grows (visit_fcmp te op)"
  by (cases op) (auto simp: visit_fcmp_defs intro!: grow_intros)

lemma grows_visit_comm: "tle_fuel_costs te = None \<Longrightarrow> grows (visit_comm te op)"
  by (cases op) (auto simp: visit_comm_defs intro!: grow_intros)

lemma grows_visit_sub: "tle_fuel_costs te = None \<Longrightarrow> grows (visit_sub te op)"
  by (cases op) (auto simp: visit_i32_sub_def visit_i64_sub_def intro!: grow_intros)

lemma grows_visit_divrem: "tle_fuel_costs te = None \<Longrightarrow> grows (visit_divrem te op)"
  by (cases op) (auto simp: visit_divrem_defs intro!: grow_intros)

lemma grows_visit_shift: "tle_fuel_costs te = None \<Longrightarrow> grows (visit_shift te op)"
  by (cases op) (auto simp: visit_shift_defs intro!: grow_intros)

lemmas visit_fbin_defs = visit_f32_add_def visit_f32_sub_def visit_f32_mul_def visit_f32_div_def visit_f32_min_def
  visit_f32_max_def visit_f32_copysign_def visit_f64_add_def visit_f64_sub_def visit_f64_mul_def visit_f64_div_def
  visit_f64_min_def visit_f64_max_def visit_f64_copysign_def

lemma grows_visit_fbin: "tle_fuel_costs te = None \<Longrightarrow> grows (visit_fbin te op)"
  by (cases op) (auto simp: visit_fbin_defs intro!: grow_intros)

text \<open>All but \<open>i32.eqz\<close>, which may change the last instruction.\<close>

lemma grows_visit_numeric:
  assumes "tle_fuel_costs te = None" "op \<noteq> OpI32Eqz"
  shows "grows (visit_numeric_op te op)"
  using assms
  by (cases op) (auto simp: visit_i64_eqz_def visit_unary_def visit_conv_def visit_trunc_def visit_i64_extend_i32_s_def
      visit_i64_extend_i32_u_def translate_i64_extend_i32_u_def visit_i32_reinterpret_f32_def visit_i64_reinterpret_f64_def
      visit_f32_reinterpret_i32_def visit_f64_reinterpret_i64_def translate_reinterpret_def
      intro!: grow_intros grows_visit_icmp grows_visit_fcmp grows_visit_comm grows_visit_sub grows_visit_divrem
        grows_visit_shift grows_visit_fbin grows_visit_icmp [where op = I64Eq, simplified])

end
