(* ===== verification/Tr_Expr.thy ===== *)
theory Tr_Expr
  imports Tr_Grow
begin

text \<open>
  Straight-line code: the meaning of a list of numeric operators on a stack of typed values, and
  the execution of the code that the translator appends for it.
\<close>


section \<open>The meaning of operators\<close>

text \<open>
  Values of validated code have their types; a 32-bit value leaves the upper half of its cell zero.
  \<open>None\<close> stands for code that is not validated or has operators which are not treated here.
\<close>

definition canonical :: "typed_val \<Rightarrow> bool" where
  "canonical v \<longleftrightarrow> (tv_ty v = I32 \<or> tv_ty v = F32 \<longrightarrow> of_i32 (to_i32 (tv_value v)) = tv_value v)"

primrec int_val_type :: "int_ty \<Rightarrow> val_type" where
  "int_val_type TyI32 = I32" | "int_val_type TyU32 = I32" | "int_val_type TyI64 = I64" | "int_val_type TyU64 = I64"

primrec fcmp_operand :: "fcmp_op \<Rightarrow> val_type" where
  "fcmp_operand F32Eq = F32" | "fcmp_operand F32Ne = F32" | "fcmp_operand F32Lt = F32" | "fcmp_operand F32Le = F32"
| "fcmp_operand F32Gt = F32" | "fcmp_operand F32Ge = F32" | "fcmp_operand F64Eq = F64" | "fcmp_operand F64Ne = F64"
| "fcmp_operand F64Lt = F64" | "fcmp_operand F64Le = F64" | "fcmp_operand F64Gt = F64" | "fcmp_operand F64Ge = F64"

primrec conv_operand :: "conv_op \<Rightarrow> val_type" where
  "conv_operand I32WrapI64 = I64" | "conv_operand I32TruncSatF32S = F32" | "conv_operand I32TruncSatF32U = F32"
| "conv_operand I32TruncSatF64S = F64" | "conv_operand I32TruncSatF64U = F64" | "conv_operand I64TruncSatF32S = F32"
| "conv_operand I64TruncSatF32U = F32" | "conv_operand I64TruncSatF64S = F64" | "conv_operand I64TruncSatF64U = F64"
| "conv_operand I32Extend8S = I32" | "conv_operand I32Extend16S = I32" | "conv_operand I64Extend8S = I64"
| "conv_operand I64Extend16S = I64" | "conv_operand I64Extend32S = I64" | "conv_operand F32DemoteF64 = F64"
| "conv_operand F64PromoteF32 = F32" | "conv_operand F32ConvertI32S = I32" | "conv_operand F32ConvertI32U = I32"
| "conv_operand F32ConvertI64S = I64" | "conv_operand F32ConvertI64U = I64" | "conv_operand F64ConvertI32S = I32"
| "conv_operand F64ConvertI32U = I32" | "conv_operand F64ConvertI64S = I64" | "conv_operand F64ConvertI64U = I64"

primrec trunc_operand :: "trunc_op \<Rightarrow> val_type" where
  "trunc_operand I32TruncF32S = F32" | "trunc_operand I32TruncF32U = F32" | "trunc_operand I32TruncF64S = F64"
| "trunc_operand I32TruncF64U = F64" | "trunc_operand I64TruncF32S = F32" | "trunc_operand I64TruncF32U = F32"
| "trunc_operand I64TruncF64S = F64" | "trunc_operand I64TruncF64U = F64"

text \<open>The operators with the type of their operands, the type of the result and their function.\<close>

type_synonym fn2 = "untyped_val \<Rightarrow> untyped_val \<Rightarrow> trap_code + untyped_val"
type_synonym fn1 = "untyped_val \<Rightarrow> trap_code + untyped_val"

primrec wasm_fn2 :: "numeric_op \<Rightarrow> (val_type \<times> val_type \<times> fn2) option" where
  "wasm_fn2 OpI32Eqz = None"
| "wasm_fn2 OpI64Eqz = None"
| "wasm_fn2 (OpIcmp op) = Some (int_val_type (icmp_ty op), I32, \<lambda>a b. Inr (icmp_fn op a b))"
| "wasm_fn2 (OpFcmp op) = Some (fcmp_operand op, I32, \<lambda>a b. Inr (fcmp_fn op a b))"
| "wasm_fn2 (OpUnary op) = None"
| "wasm_fn2 (OpConv op) = None"
| "wasm_fn2 (OpTrunc op) = None"
| "wasm_fn2 OpI64ExtendI32S = None"
| "wasm_fn2 OpI64ExtendI32U = None"
| "wasm_fn2 OpI32ReinterpretF32 = None"
| "wasm_fn2 OpI64ReinterpretF64 = None"
| "wasm_fn2 OpF32ReinterpretI32 = None"
| "wasm_fn2 OpF64ReinterpretI64 = None"
| "wasm_fn2 (OpComm op) = Some (int_val_type (comm_ty op), int_val_type (comm_ty op), \<lambda>a b. Inr (comm_fn op a b))"
| "wasm_fn2 (OpSub op) = Some (int_val_type (sub_ty op), int_val_type (sub_ty op), \<lambda>a b. Inr (sub_fn op a b))"
| "wasm_fn2 (OpDivRem op) = Some (int_val_type (divrem_ty op), int_val_type (divrem_ty op), divrem_fn op)"
| "wasm_fn2 (OpShift op) = Some (int_val_type (shift_ty op), int_val_type (shift_ty op), \<lambda>a b. Inr (shift_fn op a b))"
| "wasm_fn2 (OpFbin op) = None"

primrec wasm_fn1 :: "nan_env \<Rightarrow> numeric_op \<Rightarrow> (val_type \<times> val_type \<times> fn1) option" where
  "wasm_fn1 nan OpI32Eqz = None"
| "wasm_fn1 nan OpI64Eqz = Some (I64, I32, \<lambda>a. Inr (i64_eq a 0))"
| "wasm_fn1 nan (OpIcmp op) = None"
| "wasm_fn1 nan (OpFcmp op) = None"
| "wasm_fn1 nan (OpUnary op) = Some (unary_result op, unary_result op, \<lambda>a. Inr (unary_fn op nan a))"
| "wasm_fn1 nan (OpConv op) = Some (conv_operand op, conv_result op, \<lambda>a. Inr (conv_fn op nan a))"
| "wasm_fn1 nan (OpTrunc op) = Some (trunc_operand op, trunc_result op, trunc_fn op)"
| "wasm_fn1 nan OpI64ExtendI32S = Some (I32, I64, \<lambda>a. Inr (i64_extend_i32_s a))"
| "wasm_fn1 nan OpI64ExtendI32U = Some (I32, I64, \<lambda>a. Inr (of_i64 (ucast (to_i32 a))))"
| "wasm_fn1 nan OpI32ReinterpretF32 = Some (F32, I32, Inr)"
| "wasm_fn1 nan OpI64ReinterpretF64 = Some (F64, I64, Inr)"
| "wasm_fn1 nan OpF32ReinterpretI32 = Some (I32, F32, Inr)"
| "wasm_fn1 nan OpF64ReinterpretI64 = Some (I64, F64, Inr)"
| "wasm_fn1 nan (OpComm op) = None"
| "wasm_fn1 nan (OpSub op) = None"
| "wasm_fn1 nan (OpDivRem op) = None"
| "wasm_fn1 nan (OpShift op) = None"
| "wasm_fn1 nan (OpFbin op) = None"

definition typed_as :: "val_type \<Rightarrow> untyped_val \<Rightarrow> typed_val" where
  "typed_as ty v = \<lparr>tv_ty = ty, tv_value = v\<rparr>"

text \<open>The first element of the stack is its top.\<close>

fun wasm_numeric :: "nan_env \<Rightarrow> numeric_op \<Rightarrow> typed_val list \<Rightarrow> (trap_code + typed_val list) option" where
  "wasm_numeric nan op (b # a # vs) =
    (case (wasm_fn2 op, wasm_fn1 nan op) of
       (Some (t, r, f), _) \<Rightarrow>
         if tv_ty a = t \<and> tv_ty b = t then Some (rmap (\<lambda>v. typed_as r v # vs) (f (tv_value a) (tv_value b))) else None
     | (None, Some (t, r, f)) \<Rightarrow>
         if tv_ty b = t then Some (rmap (\<lambda>v. typed_as r v # a # vs) (f (tv_value b))) else None
     | _ \<Rightarrow> None)"
| "wasm_numeric nan op [b] =
    (case wasm_fn1 nan op of
       Some (t, r, f) \<Rightarrow> if tv_ty b = t then Some (rmap (\<lambda>v. [typed_as r v]) (f (tv_value b))) else None
     | None \<Rightarrow> None)"
| "wasm_numeric nan op [] = None"

fun wasm_variable :: "typed_val list \<Rightarrow> variable_op \<Rightarrow> typed_val list \<Rightarrow> (trap_code + typed_val list) option" where
  "wasm_variable ls (OpLocalGet l) vs = (if unat l < length ls then Some (Inr (ls ! unat l # vs)) else None)"
| "wasm_variable ls (OpI32Const c) vs = Some (Inr (tv_i32 c # vs))"
| "wasm_variable ls (OpI64Const c) vs = Some (Inr (tv_i64 c # vs))"
| "wasm_variable ls (OpF32Const c) vs = Some (Inr (tv_f32 c # vs))"
| "wasm_variable ls (OpF64Const c) vs = Some (Inr (tv_f64 c # vs))"
| "wasm_variable ls OpDrop (v # vs) = Some (Inr vs)"
| "wasm_variable ls _ vs = None"

fun wasm_op_step :: "nan_env \<Rightarrow> typed_val list \<Rightarrow> wasm_op \<Rightarrow> typed_val list \<Rightarrow> (trap_code + typed_val list) option" where
  "wasm_op_step nan ls (OpNumeric op) vs = wasm_numeric nan op vs"
| "wasm_op_step nan ls (OpVariable op) vs = wasm_variable ls op vs"
| "wasm_op_step nan ls _ vs = None"

fun wasm_eval :: "nan_env \<Rightarrow> typed_val list \<Rightarrow> wasm_op list \<Rightarrow> typed_val list \<Rightarrow> (trap_code + typed_val list) option" where
  "wasm_eval nan ls [] vs = Some (Inr vs)"
| "wasm_eval nan ls (op # ops) vs =
    (case wasm_op_step nan ls op vs of
       None \<Rightarrow> None
     | Some (Inl t) \<Rightarrow> Some (Inl t)
     | Some (Inr vs') \<Rightarrow> wasm_eval nan ls ops vs')"

text \<open>
  The operators that the theorems on straight-line bodies cover. Two numeric ones are left out: \<open>i32.eqz\<close>,
  which the translator fuses with the instruction before it, and the binary operators on floats, some
  of which it replaces by an operand, where the operation may give another NaN.
\<close>

primrec straight_op :: "wasm_op \<Rightarrow> bool" where
  "straight_op (OpNumeric op) = (case op of OpI32Eqz \<Rightarrow> False | OpFbin _ \<Rightarrow> False | _ \<Rightarrow> True)"
| "straight_op (OpVariable op) = (case op of OpLocalGet _ \<Rightarrow> True | OpI32Const _ \<Rightarrow> True | OpI64Const _ \<Rightarrow> True
    | OpF32Const _ \<Rightarrow> True | OpF64Const _ \<Rightarrow> True | OpDrop \<Rightarrow> True | _ \<Rightarrow> False)"
| "straight_op (OpControl op) = False"
| "straight_op (OpMemory op) = False"
| "straight_op (OpTable op) = False"



section \<open>Results have their types\<close>

lemma canonical_of [simp]:
  "canonical (typed_as ty (of_i32 w))" "canonical (tv_i32 w)" "canonical (tv_f32 w)" "canonical (tv_i64 z)"
  "canonical (tv_f64 z)"
  by (simp_all add: canonical_def typed_as_def tv_i32_def tv_f32_def tv_i64_def tv_f64_def)

lemma canonical_boolean [simp]: "canonical (typed_as ty (of_boolean b))"
proof -
  have "of_boolean b = of_i32 (if b then 1 else 0)" by (simp add: of_boolean_def of_i32_def)
  then show ?thesis by simp
qed

lemma canonical_64 [simp]: "canonical (typed_as I64 v)" "canonical (typed_as F64 v)"
  by (auto simp: canonical_def typed_as_def)

lemma canonical_canon: "canonical (typed_as (int_val_type ty) a) \<Longrightarrow> canon ty a"
  by (cases ty) (auto simp: canonical_def typed_as_def)

lemma fn2_canonical:
  assumes "wasm_fn2 op = Some (t, r, f)" "f a b = Inr v"
  shows "canonical (typed_as r v)"
proof -
  have "canonical (typed_as (int_val_type (comm_ty c)) (comm_fn c a b))" for c
    by (cases c) (simp_all add: comm_defs)
  moreover have "canonical (typed_as (int_val_type (sub_ty c)) (sub_fn c a b))" for c
    by (cases c) (simp_all add: sub_defs)
  moreover have "canonical (typed_as (int_val_type (shift_ty c)) (shift_fn c a b))" for c
    by (cases c) (simp_all add: shift_fn_defs)
  moreover have "canonical (typed_as I32 (icmp_fn c a b))" for c
    by (cases c) (simp_all add: icmp_defs)
  moreover have "canonical (typed_as I32 (fcmp_fn c a b))" for c
    by (cases c) (simp_all add: fcmp_defs)
  moreover have "divrem_fn c a b = Inr v \<Longrightarrow> canonical (typed_as (int_val_type (divrem_ty c)) v)" for c
    by (cases c) (auto simp: i32_div_s_def i32_div_u_def i32_rem_s_def i32_rem_u_def try_execute_binary_def rsimps)
  ultimately show ?thesis using assms by (cases op) auto
qed


lemma canonical_reinterpret: "canonical (typed_as I32 v) \<longleftrightarrow> canonical (typed_as F32 v)"
  by (simp add: canonical_def typed_as_def)

lemma unary_canonical: "canonical (typed_as (unary_result c) (unary_fn c nan a))"
  by (cases c) (simp_all add: i32_clz_def i32_ctz_def i32_popcnt_def f32_abs_def f32_neg_def f32_ceil_def
      f32_floor_def f32_trunc_def f32_nearest_def f32_sqrt_def execute_unary_def)

lemma conv_canonical: "canonical (typed_as (conv_result c) (conv_fn c nan a))"
  by (cases c) (simp_all add: i32_wrap_i64_def i32_trunc_sat_f32_s_def i32_trunc_sat_f32_u_def i32_trunc_sat_f64_s_def
      i32_trunc_sat_f64_u_def i32_extend8_s_def i32_extend16_s_def f32_demote_f64_def f32_convert_i32_s_def
      f32_convert_i32_u_def f32_convert_i64_s_def f32_convert_i64_u_def execute_unary_def)

lemma trunc_canonical: "trunc_fn c a = Inr v \<Longrightarrow> canonical (typed_as (trunc_result c) v)"
  by (cases c) (auto simp: i32_trunc_f32_s_def i32_trunc_f32_u_def i32_trunc_f64_s_def i32_trunc_f64_u_def
      try_execute_unary_def rsimps)

lemma fn1_canonical:
  assumes "wasm_fn1 nan op = Some (t, r, f)" "f (tv_value a) = Inr v" "canonical a" "tv_ty a = t"
  shows "canonical (typed_as r v)"
  using assms unary_canonical conv_canonical trunc_canonical
  by (cases op) (auto simp: i64_eq_def execute_binary_def, auto simp: canonical_def typed_as_def)


section \<open>One operator\<close>

definition values_of :: "typed_val list \<Rightarrow> untyped_val list" where
  "values_of vs = map tv_value (rev vs)"

definition all_canonical :: "typed_val list \<Rightarrow> bool" where
  "all_canonical vs = (\<forall>v \<in> set vs. canonical v)"

text \<open>
  The translation of the operator from \<open>s\<close> to \<open>s'\<close> has left \<open>res\<close>: some operands are popped, which leaves
  \<open>s1\<close>, and a value is delivered, or nothing but a provider is popped.
\<close>

definition lands :: "('h, 'e) exec_env \<Rightarrow> ('m, 'z) tl_env_scheme \<Rightarrow> 'm translator \<Rightarrow> 'm translator \<Rightarrow> 'h exec \<Rightarrow>
    trap_code + typed_val list \<Rightarrow> bool" where
  "lands env te s s' ex res \<longleftrightarrow>
    (\<exists>s1 vs v r. tl_extends s s1 \<and> code_of s1 = code_of s \<and> stack_reads ex s1 (values_of vs) \<and> all_canonical vs \<and>
       delivers env te (\<lambda>_. 0) s1 s' ex v \<and> res = rmap (\<lambda>w. typed_as r w # vs) v \<and>
       (\<forall>w. v = Inr w \<longrightarrow> canonical (typed_as r w))) \<or>
    (\<exists>vs. res = Inr vs \<and> tl_inv te (\<lambda>_. 0) s' \<and> tl_extends s s' \<and> code_of s' = code_of s \<and> tl_reachable s' \<and>
       stack_reads ex s' (values_of vs) \<and> all_canonical vs)"

lemma fn2_correct:
  assumes "wasm_fn2 op = Some (t, r, f)" "env_nan env = te_nan te"
  shows "op2_correct env te x (visit_numeric_op te op) (\<lambda>a b. canonical (typed_as t a) \<and> canonical (typed_as t b)) f"
  using assms
  by (cases op)
    (auto intro: op2_correct_mono [OF visit_icmp_correct] op2_correct_mono [OF visit_fcmp_correct]
      op2_correct_mono [OF visit_comm_correct] op2_correct_mono [OF visit_sub_correct]
      op2_correct_mono [OF visit_divrem_correct] op2_correct_mono [OF visit_shift_correct] dest: canonical_canon)

lemma op1_correct_mono: "op1_correct env te x m cond F \<Longrightarrow> (\<And>a. cond' a \<Longrightarrow> cond a) \<Longrightarrow>
    (\<And>a. cond' a \<Longrightarrow> F' a = F a) \<Longrightarrow> op1_correct env te x m cond' F'"
  unfolding op1_correct_def by metis

lemma fn1_correct:
  assumes "wasm_fn1 (te_nan te) op = Some (t, r, f)" "env_nan env = te_nan te"
  shows "op1_correct env te x (visit_numeric_op te op) (\<lambda>a. canonical (typed_as t a)) f"
  using assms
  by (cases op)
    (auto simp: visit_i32_reinterpret_f32_def visit_i64_reinterpret_f64_def visit_f32_reinterpret_i32_def
      visit_f64_reinterpret_i64_def
      intro: op1_correct_mono [OF visit_i64_eqz_correct] op1_correct_mono [OF visit_unary_correct]
      op1_correct_mono [OF visit_conv_correct] op1_correct_mono [OF visit_trunc_correct]
      op1_correct_mono [OF visit_i64_extend_i32_s_correct] op1_correct_mono [OF visit_i64_extend_i32_u_correct]
      op1_correct_mono [OF visit_reinterpret_correct] dest: canonical_canon [where ty = TyI32, unfolded int_val_type.simps])


lemma wasm_numeric_cases:
  assumes "wasm_numeric nan op vs = Some res"
  obtains (Two) b a ws t r f where "vs = b # a # ws" "wasm_fn2 op = Some (t, r, f)" "tv_ty a = t" "tv_ty b = t"
      "res = rmap (\<lambda>v. typed_as r v # ws) (f (tv_value a) (tv_value b))"
  | (One) b ws t r f where "vs = b # ws" "wasm_fn1 nan op = Some (t, r, f)" "tv_ty b = t"
      "res = rmap (\<lambda>v. typed_as r v # ws) (f (tv_value b))"
  using assms by (cases "(nan, op, vs)" rule: wasm_numeric.cases)
    (auto split: option.splits prod.splits if_splits)

lemma typed_as_id [simp]: "typed_as (tv_ty v) (tv_value v) = v"
  by (simp add: typed_as_def)

lemma list_all2_snoc: "list_all2 R (P @ [q]) (Q @ [b]) \<longleftrightarrow> list_all2 R P Q \<and> R q b"
  using list_all2_rev [of R "P @ [q]" "Q @ [b]"] by auto

lemma list_all2_snoc2: "list_all2 R (P @ [p, q]) (Q @ [a, b]) \<longleftrightarrow> list_all2 R P Q \<and> R p a \<and> R q b"
  using list_all2_snoc [of R "P @ [p]" q "Q @ [a]" b] by (simp add: list_all2_snoc)

lemma values_of_Cons [simp]: "values_of (v # vs) = values_of vs @ [tv_value v]"
  by (simp add: values_of_def)

lemma op2_correctD:
  assumes "op2_correct env te x m cond F" "ready env te x s" "m s = Inr ((), s')" "consts_read ex s'"
  shows "\<exists>s1 p q. providers s = providers s1 @ [p, q] \<and> tl_extends s s1 \<and> code_of s1 = code_of s \<and>
    (\<forall>a b. operand_reads ex (typed_of_tagged p) a \<longrightarrow> operand_reads ex (typed_of_tagged q) b \<longrightarrow>
       cond a b \<longrightarrow> delivers env te x s1 s' ex (F a b))"
  using assms unfolding op2_correct_def by meson

lemma op1_correctD:
  assumes "op1_correct env te x m cond F" "ready env te x s" "m s = Inr ((), s')" "consts_read ex s'"
  shows "\<exists>s1 p. providers s = providers s1 @ [p] \<and> tl_extends s s1 \<and> code_of s1 = code_of s \<and>
    (\<forall>a. operand_reads ex (typed_of_tagged p) a \<longrightarrow> cond a \<longrightarrow> delivers env te x s1 s' ex (F a))"
  using assms unfolding op1_correct_def by meson

lemma lands_numeric:
  assumes ready: "ready env te (\<lambda>_. 0) s" and run: "visit_numeric_op te op s = Inr ((), s')"
    and sem: "wasm_numeric (te_nan te) op vs = Some res"
    and reads: "stack_reads ex s (values_of vs)" "all_canonical vs" and c: "consts_read ex s'"
  shows "lands env te s s' ex res"
  using sem
proof (cases rule: wasm_numeric_cases)
  case (Two b a ws t r f)
  have nan: "env_nan env = te_nan te" using ready by (simp add: ready_def)
  from op2_correctD [OF fn2_correct [OF Two(2) nan] ready run c] obtain s1 p q where
    s1: "providers s = providers s1 @ [p, q]" "tl_extends s s1" "code_of s1 = code_of s"
      "\<And>a b. operand_reads ex (typed_of_tagged p) a \<Longrightarrow> operand_reads ex (typed_of_tagged q) b \<Longrightarrow>
        canonical (typed_as t a) \<and> canonical (typed_as t b) \<Longrightarrow> delivers env te (\<lambda>_. 0) s1 s' ex (f a b)"
    by blast
  have p: "operand_reads ex (typed_of_tagged p) (tv_value a)" "operand_reads ex (typed_of_tagged q) (tv_value b)"
      "stack_reads ex s1 (values_of ws)"
    using reads(1) s1(1) Two(1) by (simp_all add: stack_reads_def list_all2_snoc2)
  have can: "canonical a" "canonical b" "all_canonical ws" using reads(2) Two(1) by (simp_all add: all_canonical_def)
  have "delivers env te (\<lambda>_. 0) s1 s' ex (f (tv_value a) (tv_value b))"
    using s1(4) [OF p(1,2)] can Two(3,4) typed_as_id [of a] typed_as_id [of b] by simp
  then show ?thesis
    using s1(2,3) p(3) can(3) Two(5) fn2_canonical [OF Two(2)] unfolding lands_def by blast
next
  case (One b ws t r f)
  have nan: "env_nan env = te_nan te" using ready by (simp add: ready_def)
  from op1_correctD [OF fn1_correct [OF One(2) nan] ready run c] obtain s1 q where
    s1: "providers s = providers s1 @ [q]" "tl_extends s s1" "code_of s1 = code_of s"
      "\<And>b. operand_reads ex (typed_of_tagged q) b \<Longrightarrow> canonical (typed_as t b) \<Longrightarrow>
        delivers env te (\<lambda>_. 0) s1 s' ex (f b)"
    by blast
  have q: "operand_reads ex (typed_of_tagged q) (tv_value b)" "stack_reads ex s1 (values_of ws)"
    using reads(1) s1(1) One(1) by (simp_all add: stack_reads_def list_all2_snoc)
  have can: "canonical b" "all_canonical ws" using reads(2) One(1) by (simp_all add: all_canonical_def)
  have "delivers env te (\<lambda>_. 0) s1 s' ex (f (tv_value b))"
    using s1(4) [OF q(1)] can One(3) typed_as_id [of b] by simp
  then show ?thesis
    using s1(2,3) q(2) can One(3,4) fn1_canonical [OF One(2) _ can(1)] unfolding lands_def by blast
qed


lemma lands_push:
  assumes ready: "ready env te (\<lambda>_. 0) s" and reads: "stack_reads ex s (values_of vs)" "all_canonical vs"
    and push: "delivers env te (\<lambda>_. 0) s s' ex (Inr (tv_value v))" "canonical v"
  shows "lands env te s s' ex (Inr (v # vs))"
proof -
  have "Inr (v # vs) = rmap (\<lambda>w. typed_as (tv_ty v) w # vs) (Inr (tv_value v))"
    "\<forall>w. Inr (tv_value v) = Inr w \<longrightarrow> canonical (typed_as (tv_ty v) w)"
    using push(2) by auto
  then show ?thesis unfolding lands_def using reads push(1) tl_extends_refl by metis
qed

lemma delivers_local:
  assumes ready: "ready env te x s" and run: "visit_local_get l s = Inr ((), s')"
    and read: "reg_get ex (ucast l) = Some w"
  shows "delivers env te x s s' ex (Inr w)"
proof -
  have r: "tl_inv te x s" "tl_reachable s" using ready by (simp_all add: ready_def)
  from run r(2) obtain q st where "ts_push_local l (cg_stack s) = Inr (q, st)" and s': "s' = s\<lparr>cg_stack := st\<rparr>"
    by (auto simp: visit_local_get_def bail_unreachable_def tr_defs tl_defs cg_defs rsimps)
  then have st: "ts_push_tagged (TagLocal (ucast l)) (cg_stack s) = Inr st"
      and loc: "ra_is_local (ts_reg_alloc (cg_stack s)) (ucast l)"
    by (auto simp: ts_push_local_def rsimps split: if_splits)
  have inv: "ts_inv (te_stash te) x (cg_stack s)" using r(1) by (simp add: tl_inv_def)
  note p = ts_push_tagged_inv [OF inv st]
  have c: "ts_consts st = consts_of s" "ts_reg_alloc st = ts_reg_alloc (cg_stack s)" using st by (auto simp: ts_push_tagged_def rsimps)
  have psi: "ps_inv (ts_providers (cg_stack s))" using inv by (simp add: ts_inv_def)
  have prov: "providers s' = providers s @ [TagLocal (ucast l)]"
    using st ps_push_inv [OF psi, of "TagLocal (ucast l)"] by (auto simp: ts_push_tagged_def rsimps s')
  have "tl_inv te x s'" "tl_extends s s'" using r(1) p c loc by (simp_all add: tl_inv_def tl_extends_def s' tag_ok_def)
  moreover have "operand_reads ex (typed_of_tagged (TagLocal (ucast l))) w"
    using read by (simp add: operand_reads_def typed_of_tagged_def)
  moreover have "code_of s' = code_of s" "tl_reachable s'" using r(2) by (simp_all add: s')
  ultimately show ?thesis using prov unfolding delivers_def by blast
qed

lemma lands_drop:
  assumes ready: "ready env te (\<lambda>_. 0) s" and run: "visit_drop te s = Inr ((), s')"
    and reads: "stack_reads ex s (values_of (v # vs))" "all_canonical (v # vs)"
  shows "lands env te s s' ex (Inr vs)"
proof -
  have r: "stash_laws (te_stash te)" "tl_inv te (\<lambda>_. 0) s" "tl_reachable s" using ready by (simp_all add: ready_def)
  from run r(3) obtain tp where pop: "tl_pop te s = Inr (tp, s')"
    by (auto simp: visit_drop_def bail_unreachable_def tr_defs tl_defs cg_defs rsimps ts_drop_def tl_pop_def)
  note p = tl_pop_Inr [OF r(1,2) pop]
  then have "stack_reads ex s' (values_of vs)" using reads(1) by (auto simp: stack_reads_def list_all2_snoc)
  then show ?thesis using p reads(2) r(3) unfolding lands_def by (auto simp: all_canonical_def)
qed


text \<open>The locals are in their registers.\<close>

definition locals_read :: "'h exec \<Rightarrow> typed_val list \<Rightarrow> bool" where
  "locals_read ex ls \<longleftrightarrow> (\<forall>i < length ls. reg_get ex (of_nat i) = Some (tv_value (ls ! i)))"

lemma lands_operator:
  assumes ready: "ready env te (\<lambda>_. 0) s" and run: "visit_operator te op s = Inr ((), s')"
    and sem: "wasm_op_step (te_nan te) ls op vs = Some res"
    and reads: "stack_reads ex s (values_of vs)" "all_canonical vs" and c: "consts_read ex s'"
    and locals: "locals_read ex ls" "all_canonical ls"
  shows "lands env te s s' ex res"
  using sem
proof (cases op)
  case (OpNumeric n)
  then show ?thesis using lands_numeric [OF ready _ _ reads c] run sem by simp
next
  case (OpVariable v)
  have const: "lands env te s s' ex (Inr (k # vs))" if "push_const_op k s = Inr ((), s')" "canonical k" for k
  proof -
    have "tl_push_const k s = Inr ((), s')" using that(1) ready
      by (auto simp: push_const_op_def bail_unreachable_def tr_defs rsimps ready_def)
    then have "delivers env te (\<lambda>_. 0) s s' ex (Inr (tv_value k))"
      using gives_push_const [OF ready, of _ k] c by (simp add: gives_def)
    then show ?thesis by (rule lands_push [OF ready reads _ that(2)])
  qed
  show ?thesis
  proof (cases v)
    case OpDrop
    then obtain b ws where vs: "vs = b # ws" "res = Inr ws" using sem OpVariable by (cases vs) auto
    then show ?thesis using lands_drop [OF ready] reads run OpVariable OpDrop by simp
  next
    case (OpLocalGet l)
    then have l: "unat l < length ls" "res = Inr (ls ! unat l # vs)" using sem OpVariable by (auto split: if_splits)
    then have "reg_get ex (of_nat (unat l)) = Some (tv_value (ls ! unat l))" "canonical (ls ! unat l)"
      using locals by (auto simp: locals_read_def all_canonical_def)
    moreover have "of_nat (unat l) = (ucast l :: reg)" by (simp add: unsigned_ucast_eq of_nat_unat)
    ultimately show ?thesis using lands_push [OF ready reads delivers_local [OF ready]] run OpVariable OpLocalGet l(2) by simp
  next
    case (OpI32Const k)
    then show ?thesis using const [of "tv_i32 k"] run sem OpVariable by (simp add: visit_i32_const_def)
  next
    case (OpI64Const k)
    then show ?thesis using const [of "tv_i64 k"] run sem OpVariable by (simp add: visit_i64_const_def)
  next
    case (OpF32Const k)
    then show ?thesis using const [of "tv_f32 k"] run sem OpVariable by (simp add: visit_f32_const_def)
  next
    case (OpF64Const k)
    then show ?thesis using const [of "tv_f64 k"] run sem OpVariable by (simp add: visit_f64_const_def)
  qed (use sem OpVariable in simp_all)
qed simp_all


section \<open>Executing appended code\<close>

inductive exec_steps :: "('h, 'e) exec_env \<Rightarrow> 'h exec \<Rightarrow> 'h exec \<Rightarrow> bool" for env where
  steps_refl: "exec_steps env ex ex"
| steps_step: "exec_one env ex = Inr (Continue, ex1) \<Longrightarrow> exec_steps env ex1 ex2 \<Longrightarrow> exec_steps env ex ex2"

lemma exec_steps_trans: "exec_steps env ex ex1 \<Longrightarrow> exec_steps env ex1 ex2 \<Longrightarrow> exec_steps env ex ex2"
  by (induction rule: exec_steps.induct) (auto intro: exec_steps.intros)

lemma exec_steps_execute: "exec_steps env ex ex1 \<Longrightarrow> execute env ex = execute env ex1"
  by (induction rule: exec_steps.induct) (simp_all add: execute.simps [of env])

text \<open>
  The words of \<open>s\<close> are in the code of the function that runs, and the frame has the registers and
  the constants of \<open>s\<close>.
\<close>

definition runs_code :: "('h, 'e) exec_env \<Rightarrow> 'h exec \<Rightarrow> 'm translator \<Rightarrow> bool" where
  "runs_code env ex s \<longleftrightarrow> (\<exists>ws. cm_instrs (env_code env (ip_func (ex_ip ex))) = code_of s @ ws) \<and>
    consts_read ex s \<and> (\<forall>r. ra_in_use (ts_reg_alloc (cg_stack s)) r \<longrightarrow> reg_get ex r \<noteq> None)"

lemma runs_code_grown: "runs_code env ex s' \<Longrightarrow> grown s s' \<Longrightarrow> runs_code env ex s"
  unfolding runs_code_def using grown_in_use [of s s'] by (auto simp: grown_def consts_read_def)

definition at_end :: "'h exec \<Rightarrow> 'm translator \<Rightarrow> bool" where
  "at_end ex s \<longleftrightarrow> ip_index (ex_ip ex) = int (length (code_of s))"

lemma fetch_next:
  assumes "runs_code env ex s'" "at_end ex s" "code_of s' = code_of s @ w # ws"
  shows "fetch_instr env (ex_ip ex) = Inr (iw_instr w)"
proof -
  obtain us where "cm_instrs (env_code env (ip_func (ex_ip ex))) = code_of s @ w # ws @ us"
    using assms by (auto simp: runs_code_def)
  then show ?thesis using assms(2) by (simp add: fetch_instr_def fetch_word_def Let_def at_end_def)
qed


text \<open>What the code leaves alone: all but the registers of its own frame.\<close>

definition frame_kept :: "'h exec \<Rightarrow> 'h exec \<Rightarrow> bool" where
  "frame_kept ex ex' \<longleftrightarrow> ex_sp ex' = ex_sp ex \<and> ex_cache ex' = ex_cache ex \<and> ex_store ex' = ex_store ex \<and>
    st_calls (ex_stack ex') = st_calls (ex_stack ex) \<and> ip_func (ex_ip ex') = ip_func (ex_ip ex) \<and>
    length (vs_values (st_values (ex_stack ex'))) = length (vs_values (st_values (ex_stack ex))) \<and>
    take (ex_sp ex) (vs_values (st_values (ex_stack ex'))) = take (ex_sp ex) (vs_values (st_values (ex_stack ex)))"

lemma frame_kept_refl [simp]: "frame_kept ex ex"
  by (simp add: frame_kept_def)

lemma frame_kept_trans: "frame_kept ex ex1 \<Longrightarrow> frame_kept ex1 ex2 \<Longrightarrow> frame_kept ex ex2"
  by (simp add: frame_kept_def)

text \<open>Writing a register changes no other one, and the instruction pointer advances.\<close>

lemma exec_write:
  assumes "reg_get ex r \<noteq> None" "0 \<le> sint r"
  shows "\<exists>ex'. rbind (set_register r w ex) (\<lambda>ex. Inr (next_instr ex)) = (Inr ex' :: 'e xerr + 'h exec) \<and>
    (\<forall>q. reg_get ex' q = (if q = r then Some w else reg_get ex q)) \<and> ex_ip ex' = ip_add 1 (ex_ip ex) \<and>
    frame_kept ex ex'"
proof -
  obtain ex1 where ex1: "reg_set ex r w = Some ex1" using assms(1) ex_regs.rset_defined [of ex r w] by auto
  have "ex_ip ex1 = ex_ip ex" using ex1 by (auto simp: reg_set_def reg_set_at_def)
  moreover have "reg_get (next_instr ex1) q = reg_get ex1 q" for q
    by (simp add: next_instr_def next_instr_at_def reg_get_def)
  moreover have "rbind (set_register r w ex) (\<lambda>ex. Inr (next_instr ex)) = (Inr (next_instr ex1) :: 'e xerr + 'h exec)"
    using ex1 by (simp add: set_register_def set_register_at_reg_set)
  moreover have "frame_kept ex (next_instr ex1)"
    using ex1 assms(2) by (auto simp: frame_kept_def next_instr_def next_instr_at_def ip_add_def reg_set_def reg_set_at_def
        frame_set_def bind_eq_Some_conv register_offset_Some)
  ultimately show ?thesis using ex_regs.rget_rset [OF ex1]
    by (intro exI [of _ "next_instr ex1"]) (simp add: next_instr_def next_instr_at_def)
qed

lemma stack_reads_other:
  assumes "list_all2 (\<lambda>p. operand_reads ex (typed_of_tagged p)) P vs" "\<forall>p \<in> set P. typed_of_tagged p \<noteq> ProvReg r"
    and "\<forall>q. q \<noteq> r \<longrightarrow> reg_get ex' q = reg_get ex q"
  shows "list_all2 (\<lambda>p. operand_reads ex' (typed_of_tagged p)) P vs"
  using assms(1)
proof (rule list.rel_mono_strong)
  fix p v assume "p \<in> set P" "operand_reads ex (typed_of_tagged p) v"
  then show "operand_reads ex' (typed_of_tagged p) v"
    using assms(2,3) by (cases "typed_of_tagged p") (auto simp: operand_reads_def)
qed

text \<open>The state between two operators; \<open>fin\<close> is the translation at the end of the straight-line code.\<close>

definition in_step :: "('h, 'e) exec_env \<Rightarrow> ('m, 'z) tl_env_scheme \<Rightarrow> 'm translator \<Rightarrow> 'h exec \<Rightarrow> typed_val list \<Rightarrow>
    'h exec \<Rightarrow> 'm translator \<Rightarrow> typed_val list \<Rightarrow> bool" where
  "in_step env te fin ex0 ls ex s vs \<longleftrightarrow> ready env te (\<lambda>_. 0) s \<and> stack_reads ex s (values_of vs) \<and> all_canonical vs \<and>
    locals_read ex ls \<and> all_canonical ls \<and> int (length ls) \<le> sint (ra_len_locals (ts_reg_alloc (cg_stack s))) \<and>
    runs_code env ex fin \<and> at_end ex s \<and> frame_kept ex0 ex"

lemma exec_one_plain: "fetch_instr env (ex_ip ex) = Inr (INum i) \<Longrightarrow>
    exec_one env ex = rmap (Pair Continue) (exec_num (env_nan env) i ex)"
    "fetch_instr env (ex_ip ex) = Inr (ITrap t) \<Longrightarrow> exec_one env ex = Inl (XTrap t)"
  by (simp_all add: exec_one_def exec_plain_def rmap_rmap comp_def)

lemma in_step_write:
  fixes env :: "('h, 'e) exec_env"
  assumes step: "in_step env te fin ex0 ls ex s vs" and ext: "tl_extends s s1" "code_of s1 = code_of s"
    and reads: "stack_reads ex s1 (values_of ws)" "all_canonical ws"
    and new: "tl_inv te (\<lambda>_. 0) s'" "tl_extends s1 s'" "code_of s' = code_of s1 @ [iw pos (INum i)]"
      "providers s' = providers s1 @ [TagDynamic r]" "ts_unused r (cg_stack s1)" "tl_reachable s'"
      "sint (ra_len_locals (ts_reg_alloc (cg_stack s1))) \<le> sint r" "ra_in_use (ts_reg_alloc (cg_stack s')) r"
    and comp: "computes env ex i r (Inr w)" and grown: "grown s' fin" and can: "canonical (typed_as ty w)"
  shows "\<exists>ex'. exec_steps env ex ex' \<and> in_step env te fin ex0 ls ex' s' (typed_as ty w # ws)"
proof -
  have "reg_get ex r \<noteq> None" using step grown_in_use [OF grown new(8)] by (auto simp: in_step_def runs_code_def)
  moreover have "0 \<le> sint r" using new(8) by (simp add: ra_in_use_def)
  ultimately obtain ex' where
    "rbind (set_register r w ex) (\<lambda>ex. Inr (next_instr ex)) = (Inr ex' :: 'e xerr + 'h exec)"
    and ex': "ex_ip ex' = ip_add 1 (ex_ip ex)" "\<And>q. reg_get ex' q = (if q = r then Some w else reg_get ex q)" "frame_kept ex ex'"
    using exec_write [of ex r w, where 'e = 'e] by blast
  then have num: "exec_num (env_nan env) i ex = (Inr ex' :: 'e xerr + 'h exec)" using comp by (simp add: computes_def)
  have fin: "\<exists>us. code_of fin = code_of s @ iw pos (INum i) # us" using grown new(3) ext(2) by (auto simp: grown_def)
  then have "fetch_instr env (ex_ip ex) = Inr (INum i)"
    using fetch_next [of env ex fin s] step by (auto simp: in_step_def iw_def)
  then have "exec_one env ex = Inr (Continue, ex')" using num by (simp add: exec_one_plain)
  then have steps: "exec_steps env ex ex'" by (blast intro: exec_steps.intros)
  have len: "ra_len_locals (ts_reg_alloc (cg_stack s')) = ra_len_locals (ts_reg_alloc (cg_stack s))"
      "ra_len_locals (ts_reg_alloc (cg_stack s1)) = ra_len_locals (ts_reg_alloc (cg_stack s))"
    using ext(1) new(2) by (simp_all add: tl_extends_def)
  have "\<forall>p \<in> set (providers s1). typed_of_tagged p \<noteq> ProvReg r" using new(5) by (simp add: ts_unused_def)
  then have "stack_reads ex' s' (values_of (typed_as ty w # ws))"
    using stack_reads_other [of ex "providers s1" "values_of ws" r ex'] reads(1) ex'(2) new(4)
    by (simp add: stack_reads_def list_all2_snoc operand_reads_def typed_of_tagged_def typed_as_def)
  moreover have "locals_read ex' ls"
    unfolding locals_read_def
  proof (intro allI impI)
    fix j assume j: "j < length ls"
    have "int j < 2 ^ 15" using j step sint_reg_bounds(2) [of "ra_len_locals (ts_reg_alloc (cg_stack s))"] by (simp add: in_step_def)
    then have "sint (of_nat j :: reg) = int j" by (intro sint_reg_of_nat) simp
    then have "of_nat j \<noteq> r" using j step new(7) len by (auto simp: in_step_def)
    then show "reg_get ex' (of_nat j) = Some (tv_value (ls ! j))" using j step ex'(2) by (simp add: in_step_def locals_read_def)
  qed
  moreover have "runs_code env ex' fin"
  proof -
    have "q \<noteq> r" if "consts_get q (consts_of fin) = Some v" for q v
      using that new(8) by (auto simp: consts_get_def reg_is_const_def ra_in_use_def split: if_splits)
    then show ?thesis using step ex'(1,2) unfolding in_step_def runs_code_def consts_read_def by (auto simp: ip_add_def)
  qed
  moreover have "at_end ex' s'" using step ex'(1) new(3) ext(2) by (simp add: in_step_def at_end_def ip_add_def)
  moreover have "ready env te (\<lambda>_. 0) s'" using step new(1,6) by (simp add: in_step_def ready_def)
  moreover have "frame_kept ex0 ex'" using step ex'(3) frame_kept_trans by (auto simp: in_step_def)
  ultimately show ?thesis using steps step reads(2) can len unfolding in_step_def all_canonical_def by auto
qed

lemma exec_lands:
  assumes step: "in_step env te fin ex0 ls ex s vs" and lands: "lands env te s s' ex res" and grown: "grown s' fin"
  shows "case res of Inl t \<Rightarrow> exec_one env ex = Inl (XTrap t)
    | Inr vs' \<Rightarrow> \<exists>ex'. exec_steps env ex ex' \<and> in_step env te fin ex0 ls ex' s' vs'"
  using lands unfolding lands_def
proof (elim disjE exE conjE)
  fix ws assume *: "res = Inr ws" "tl_inv te (\<lambda>_. 0) s'" "tl_extends s s'" "code_of s' = code_of s" "tl_reachable s'"
    "stack_reads ex s' (values_of ws)" "all_canonical ws"
  then have "in_step env te fin ex0 ls ex s' ws" using step by (simp add: in_step_def ready_def tl_extends_def at_end_def)
  then show ?thesis using *(1) steps_refl by auto
next
  fix s1 ws v ty assume s1: "tl_extends s s1" "code_of s1 = code_of s" "stack_reads ex s1 (values_of ws)" "all_canonical ws"
    and d: "delivers env te (\<lambda>_. 0) s1 s' ex v" and res: "res = rmap (\<lambda>w. typed_as ty w # ws) v"
    and can: "\<forall>w. v = Inr w \<longrightarrow> canonical (typed_as ty w)"
  have ext: "tl_inv te (\<lambda>_. 0) s'" "tl_extends s1 s'" using d by (auto simp: delivers_def)
  from d show ?thesis unfolding delivers_def
  proof (elim conjE disjE exE)
    fix p w assume *: "v = Inr w" "code_of s' = code_of s1" "providers s' = providers s1 @ [p]"
      "operand_reads ex (typed_of_tagged p) w" "tl_reachable s'"
    have "in_step env te fin ex0 ls ex s' (typed_as ty w # ws)"
      using step s1 * ext can
      by (simp add: in_step_def ready_def tl_extends_def at_end_def stack_reads_def list_all2_snoc all_canonical_def typed_as_def)
    then show ?thesis using *(1) res steps_refl by auto
  next
    fix r i pos assume *: "code_of s' = code_of s1 @ [iw pos (INum i)]" "providers s' = providers s1 @ [TagDynamic r]"
      "ts_unused r (cg_stack s1)" "sint (ra_len_locals (ts_reg_alloc (cg_stack s1))) \<le> sint r"
      "ra_in_use (ts_reg_alloc (cg_stack s')) r" "tl_reachable s'" "computes env ex i r v"
    show ?thesis
    proof (cases v)
      case (Inr w)
      then show ?thesis
        using in_step_write [OF step s1 ext * (1,2,3,6,4,5)] *(7) grown can res by simp
    next
      case (Inl t)
      have "\<exists>us. code_of fin = code_of s @ iw pos (INum i) # us" using grown *(1) s1(2) by (auto simp: grown_def)
      then have "fetch_instr env (ex_ip ex) = Inr (INum i)"
        using fetch_next [of env ex fin s] step by (auto simp: in_step_def iw_def)
      then show ?thesis using *(7) Inl res by (simp add: exec_one_plain computes_def)
    qed
  next
    fix code pos assume *: "v = Inl code" "code_of s' = code_of s1 @ [iw pos (ITrap code)]"
    have "\<exists>us. code_of fin = code_of s @ iw pos (ITrap code) # us" using grown *(2) s1(2) by (auto simp: grown_def)
    then have "fetch_instr env (ex_ip ex) = Inr (ITrap code)"
      using fetch_next [of env ex fin s] step by (auto simp: in_step_def iw_def)
    then show ?thesis using *(1) res by (simp add: exec_one_plain)
  qed
qed



section \<open>Straight-line code\<close>

lemma grows_local_get: "grows (visit_local_get l)"
  unfolding visit_local_get_def
  by (intro grow_intros, rule growsI_stack)
    (auto simp: on_stack_def ts_push_local_def ts_push_tagged_def rsimps split: if_splits)

lemma grows_drop: "grows (visit_drop te)"
  unfolding visit_drop_def
  by (intro grow_intros, rule growsI_stack) (auto simp: upd_stack_def ts_drop_def rsimps dest: ts_pop_bounds)

lemma grows_straight:
  assumes "tle_fuel_costs te = None" "straight_op op"
  shows "grows (visit_operator te op)"
proof (cases op)
  case (OpNumeric n)
  then show ?thesis using assms grows_visit_numeric [of te n] by (cases n) auto
next
  case (OpVariable v)
  have "grows (push_const_op c)" for c unfolding push_const_op_def by (intro grow_intros)
  then show ?thesis using assms OpVariable grows_local_get grows_drop
    by (cases v) (auto simp: visit_i32_const_def visit_i64_const_def visit_f32_const_def visit_f64_const_def)
qed (use assms in simp_all)

lemma grows_operator:
  assumes "tle_fuel_costs te = None" "straight_op (snd p)"
  shows "grows (translate_operator te base p)"
  unfolding translate_operator_def using grows_straight [OF assms]
  by (cases p) (auto intro!: grow_intros)

lemma grows_operators:
  assumes "tle_fuel_costs te = None" "\<forall>p \<in> set ops. straight_op (snd p)"
  shows "grows (translate_operators te base ops)"
  using assms(2) unfolding translate_operators_def
  by (induction ops) (auto intro!: grow_intros grows_operator [OF assms(1)])

lemma in_step_pos: "in_step env te fin ex0 ls ex (s\<lparr>tl_visit_pos := p\<rparr>) vs = in_step env te fin ex0 ls ex s vs"
  by (simp add: in_step_def ready_def tl_inv_def stack_reads_def at_end_def)

lemma translate_operator_Inr: "translate_operator te base p s = Inr (u, s') \<Longrightarrow>
    \<exists>pos. visit_operator te (snd p) (s\<lparr>tl_visit_pos := pos\<rparr>) = Inr ((), s')"
  by (cases p) (auto simp: translate_operator_def tr_defs update_visit_pos_def rsimps split: if_splits)

end
