(* ===== verification/Tr_Types.thy ===== *)
theory Tr_Types
  imports Tr_Expr
begin

text \<open>
  Types of the constants on the emulated stack: an operator that is applied to constants of its
  operand type leaves a constant of its result type, or a register.
\<close>


section \<open>Typed providers\<close>

definition const_ok :: "val_type \<Rightarrow> tagged_provider \<Rightarrow> bool" where
  "const_ok t p \<longleftrightarrow> (\<forall>c. p = TagConstValue c \<longrightarrow> tv_ty c = t \<and> canonical c)"

definition provider_ok :: "val_type \<Rightarrow> typed_provider \<Rightarrow> bool" where
  "provider_ok t p \<longleftrightarrow> (\<forall>c. p = ProvConst c \<longrightarrow> tv_ty c = t \<and> canonical c)"

lemma provider_ok_simps [simp]: "provider_ok t (ProvReg r)" "provider_ok t (ProvConst c) \<longleftrightarrow> tv_ty c = t \<and> canonical c"
  by (simp_all add: provider_ok_def)

lemma provider_ok_typed: "const_ok t p \<Longrightarrow> provider_ok t (typed_of_tagged p)"
  by (cases p) (simp_all add: const_ok_def provider_ok_def typed_of_tagged_def)

lemma const_ok_simps [simp]: "const_ok t (TagConstValue c) \<longleftrightarrow> tv_ty c = t \<and> canonical c" "const_ok t (TagLocal r)"
    "const_ok t (TagDynamic r)" "const_ok t (TagPreserved r)" "const_ok t (TagConstLocal r)"
  by (simp_all add: const_ok_def)

text \<open>
  \<open>puts t m\<close>: if \<open>m\<close> does not end the reachable code, it pushes one provider of the type \<open>t\<close>.
  \<open>may_put\<close> is the same for an optimisation, which may also do nothing.
\<close>

definition put :: "val_type \<Rightarrow> 'm translator \<Rightarrow> 'm translator \<Rightarrow> bool" where
  "put t s s' \<longleftrightarrow> (tl_reachable s' \<longrightarrow> (\<exists>p. providers s' = providers s @ [p] \<and> const_ok t p))"

definition puts :: "val_type \<Rightarrow> ('m, unit) tl \<Rightarrow> bool" where
  "puts t m \<longleftrightarrow> (\<forall>s u s'. m s = Inr (u, s') \<longrightarrow> put t s s')"

definition may_put :: "val_type \<Rightarrow> ('m, bool) tl \<Rightarrow> bool" where
  "may_put t m \<longleftrightarrow> (\<forall>s b s'. m s = Inr (b, s') \<longrightarrow> (if b then put t s s' else s' = s))"

text \<open>Operations that leave the providers alone.\<close>

definition keeps :: "('m, 'a) tl \<Rightarrow> bool" where
  "keeps m \<longleftrightarrow> (\<forall>s x s'. m s = Inr (x, s') \<longrightarrow> providers s' = providers s)"

named_theorems put_intros \<open>operations that put one provider\<close>

lemma ps_push_providers: "ps_push p ps = Inr ps' \<Longrightarrow> ps_providers ps' = ps_providers ps @ [p]"
  by (auto simp: ps_push_def rsimps Let_def split: if_splits tagged_provider.splits)

lemma ts_push_tagged_providers: "ts_push_tagged p st = Inr st' \<Longrightarrow>
    ps_providers (ts_providers st') = ps_providers (ts_providers st) @ [p]"
  by (auto simp: ts_push_tagged_def rsimps dest: ps_push_providers)

lemma puts_push_const [put_intros]: "tv_ty c = t \<Longrightarrow> canonical c \<Longrightarrow> puts t (tl_push_const c)"
  by (auto simp: puts_def put_def tl_push_const_def upd_stack_def ts_push_const_def rsimps dest!: ts_push_tagged_providers)

lemma puts_push_register [put_intros]: "puts t (tl_push_register te r)"
  by (auto simp: puts_def put_def tl_push_register_def upd_stack_def ts_push_register_def ts_lift_alloc_def rsimps
      dest!: ts_push_tagged_providers split: register_space.splits)

lemma puts_dynamic [put_intros]:
  assumes "\<And>r. keeps (k r)"
  shows "puts t (tbind tl_push_dynamic k)"
  unfolding puts_def put_def
proof (intro allI impI)
  fix s u s' assume "tbind tl_push_dynamic k s = Inr (u, s')"
  then obtain r s1 where s1: "tl_push_dynamic s = Inr (r, s1)" "k r s1 = Inr (u, s')" by (auto simp: tr_defs rsimps)
  have "providers s1 = providers s @ [TagDynamic r]"
    using s1(1) by (auto simp: tl_push_dynamic_def on_stack_def ts_push_dynamic_def rsimps dest!: ts_push_tagged_providers)
  moreover have "providers s' = providers s1" using assms s1(2) by (simp add: keeps_def)
  ultimately show "\<exists>p. providers s' = providers s @ [p] \<and> const_ok t p" by simp
qed

lemma keeps_bind [put_intros]: "keeps m \<Longrightarrow> (\<And>x. keeps (k x)) \<Longrightarrow> keeps (tbind m k)"
  unfolding keeps_def tr_defs by (auto simp: rsimps)

lemma keeps_basic [put_intros]: "keeps (tret x)" "keeps tl_pos" "keeps (tl_alloc_const v)" "keeps (push_instr pos i)"
    "keeps m \<Longrightarrow> keeps (tvoid m)"
  by (auto simp: keeps_def tr_simps rsimps tl_alloc_const_def on_stack_def ts_alloc_const_def push_instr_def
      append_instr_def seq_push_def seq_next_instr_def tl_pos_def split: if_splits)

lemma keeps_emit [put_intros]: "tle_fuel_costs te = None \<Longrightarrow> keeps (emit te i)"
  unfolding keeps_def by (auto dest!: emit_Inr)

lemma may_put_simps [put_intros]: "may_put t (tret False)" "may_put t (no_custom_opt a b)"
  by (simp_all add: may_put_def no_custom_opt_def tr_simps)

lemma may_put_if [put_intros]: "may_put t (tfail e)" "may_put t m \<Longrightarrow> may_put t k \<Longrightarrow> may_put t (if b then m else k)"
  by (simp_all add: may_put_def tr_simps)

lemma may_put_applied [put_intros]: "puts t m \<Longrightarrow> may_put t (tseq m (tret True))"
  by (auto simp: may_put_def puts_def tr_simps rsimps)

lemma may_put_when [put_intros]: "(b \<Longrightarrow> puts t m) \<Longrightarrow> may_put t (opt_when b m)"
  by (auto simp: may_put_def puts_def opt_when_def tr_simps rsimps)

lemma may_put_try [put_intros]: "may_put t a \<Longrightarrow> may_put t b \<Longrightarrow> may_put t (try_opts a b)"
  unfolding may_put_def try_opts_def by (fastforce simp: tr_defs rsimps split: if_splits)

lemma may_put_dynamic [put_intros]:
  fixes k :: "reg \<Rightarrow> ('m, unit) tl"
  assumes "\<And>r. keeps (k r)"
  shows "may_put t (tbind tl_push_dynamic (\<lambda>r. tseq (k r) (tret True)))"
proof -
  have "tbind tl_push_dynamic (\<lambda>r. tseq (k r) (tret True)) = tseq (tbind tl_push_dynamic k) (tret True)"
    by (rule ext) (simp add: tr_defs rbind_assoc case_prod_unfold)
  then show ?thesis using may_put_applied [OF puts_dynamic [of k t, OF assms]] by simp
qed

lemma puts_or_else [put_intros]: "may_put t opt \<Longrightarrow> puts t m \<Longrightarrow> puts t (or_else opt m)"
  unfolding may_put_def puts_def or_else_def by (fastforce simp: tr_defs rsimps tl_defs split: if_splits)

lemma puts_cases [put_intros]: "(\<And>x. p = None \<Longrightarrow> puts t m) \<Longrightarrow> (\<And>x. p = Some x \<Longrightarrow> puts t (k x)) \<Longrightarrow>
    puts t (case p of None \<Rightarrow> m | Some x \<Rightarrow> k x)"
  by (cases p) simp_all

lemma may_put_cases [put_intros]: "may_put t m \<Longrightarrow> (\<And>x. may_put t (k x)) \<Longrightarrow>
    may_put t (case p of None \<Rightarrow> m | Some x \<Rightarrow> k x)"
  by (cases p) simp_all

lemma puts_trap [put_intros]: "puts t (translate_trap te code)"
  unfolding puts_def put_def
proof (intro allI impI)
  fix s u s' assume "translate_trap te code s = Inr (u, s')" "tl_reachable s'"
  then show "\<exists>p. providers s' = providers s @ [p] \<and> const_ok t p"
    by (auto simp: translate_trap_def bail_unreachable_def tr_defs tl_defs rsimps split: if_splits)
qed

lemma puts_pushes [put_intros]:
  assumes "tle_fuel_costs te = None"
  shows "puts t (push_binary_instr te l r mk)" "puts t (push_binary_instr_imm te l c mk)"
    "puts t (push_binary_instr_imm_rev te c r mk)" "puts t (push_unary_instr te mk1 r)"
    "may_put t (try_push_binary_instr_imm16 te ty l c mk16)" "may_put t (try_push_binary_instr_imm16_rev te ty c r mk16)"
  unfolding push_defs using assms by (auto intro!: put_intros)



section \<open>Operators\<close>

lemma ps_pop_providers:
  assumes "ps_pop ps = Inr (p, ps')"
  shows "ps_providers ps = ps_providers ps' @ [p]"
proof -
  have "ps_providers ps \<noteq> []" "p = List.last (ps_providers ps)" "ps_providers ps' = butlast (ps_providers ps)"
    using assms by (auto simp: ps_pop_def rsimps Let_def split: if_splits tagged_provider.splits)
  then show ?thesis by simp
qed

lemma ra_pop_provider_typed: "ra_pop_provider ms p ra = Inr (tp, ra') \<Longrightarrow> tp = typed_of_tagged p"
  by (cases p) (auto simp: ra_pop_provider_def typed_of_tagged_def rsimps)

lemma ts_pop_providers:
  assumes "ts_pop ms st = Inr (tp, st')"
  shows "\<exists>p. tp = typed_of_tagged p \<and> ps_providers (ts_providers st) = ps_providers (ts_providers st') @ [p]"
proof -
  obtain p ps' where "ps_pop (ts_providers st) = Inr (p, ps')" "ra_pop_provider ms p (ts_reg_alloc st) = Inr (tp, ts_reg_alloc st')"
      "ts_providers st' = ps'"
    using assms by (auto simp: ts_pop_def rsimps)
  then show ?thesis using ps_pop_providers ra_pop_provider_typed by blast
qed

lemma tl_pop_providers: "tl_pop te s = Inr (tp, s') \<Longrightarrow>
    \<exists>p. tp = typed_of_tagged p \<and> providers s = providers s' @ [p]"
  by (auto simp: tl_pop_def on_stack_def rsimps dest!: ts_pop_providers)

lemma tl_pop2_providers: "tl_pop2 te s = Inr ((lhs, rhs), s') \<Longrightarrow>
    \<exists>p q. lhs = typed_of_tagged p \<and> rhs = typed_of_tagged q \<and> providers s = providers s' @ [p, q]"
  by (fastforce simp: tl_pop2_def on_stack_def ts_pop2_def rsimps dest!: ts_pop_providers)

definition retypes2 :: "val_type \<Rightarrow> val_type \<Rightarrow> ('m, unit) tl \<Rightarrow> bool" where
  "retypes2 t r m \<longleftrightarrow> (\<forall>s u s' P p q. tl_reachable s \<longrightarrow> m s = Inr (u, s') \<longrightarrow> providers s = P @ [p, q] \<longrightarrow>
    const_ok t p \<longrightarrow> const_ok t q \<longrightarrow> tl_reachable s' \<longrightarrow> (\<exists>p'. providers s' = P @ [p'] \<and> const_ok r p'))"

definition retypes1 :: "val_type \<Rightarrow> val_type \<Rightarrow> ('m, unit) tl \<Rightarrow> bool" where
  "retypes1 t r m \<longleftrightarrow> (\<forall>s u s' P p. tl_reachable s \<longrightarrow> m s = Inr (u, s') \<longrightarrow> providers s = P @ [p] \<longrightarrow>
    const_ok t p \<longrightarrow> tl_reachable s' \<longrightarrow> (\<exists>p'. providers s' = P @ [p'] \<and> const_ok r p'))"

lemma retypes2I:
  assumes "\<And>lhs rhs. provider_ok t lhs \<Longrightarrow> provider_ok t rhs \<Longrightarrow> puts r (k (lhs, rhs))"
  shows "retypes2 t r (bail_unreachable (tbind (tl_pop2 te) k))"
  unfolding retypes2_def
proof (intro allI impI)
  fix s u s' P p q assume *: "tl_reachable s" "bail_unreachable (tbind (tl_pop2 te) k) s = Inr (u, s')"
    "providers s = P @ [p, q]" "const_ok t p" "const_ok t q" "tl_reachable s'"
  then obtain lhs rhs s1 where s1: "tl_pop2 te s = Inr ((lhs, rhs), s1)" "k (lhs, rhs) s1 = Inr (u, s')"
    by (auto simp: bail_unreachable_def tr_defs rsimps)
  from tl_pop2_providers [OF s1(1)] *(3) have l: "lhs = typed_of_tagged p" "rhs = typed_of_tagged q" "providers s1 = P" by auto
  have "puts r (k (lhs, rhs))" using assms provider_ok_typed *(4,5) l by blast
  then show "\<exists>p'. providers s' = P @ [p'] \<and> const_ok r p'" using s1(2) *(6) l(3) by (auto simp: puts_def put_def)
qed

lemma retypes1I:
  assumes "\<And>p. provider_ok t p \<Longrightarrow> puts r (k p)"
  shows "retypes1 t r (bail_unreachable (tbind (tl_pop te) k))"
  unfolding retypes1_def
proof (intro allI impI)
  fix s u s' P p assume *: "tl_reachable s" "bail_unreachable (tbind (tl_pop te) k) s = Inr (u, s')"
    "providers s = P @ [p]" "const_ok t p" "tl_reachable s'"
  then obtain tp s1 where s1: "tl_pop te s = Inr (tp, s1)" "k tp s1 = Inr (u, s')"
    by (auto simp: bail_unreachable_def tr_defs rsimps)
  from tl_pop_providers [OF s1(1)] *(3) have l: "tp = typed_of_tagged p" "providers s1 = P" by auto
  have "puts r (k tp)" using assms provider_ok_typed *(4) l by blast
  then show "\<exists>p'. providers s' = P @ [p'] \<and> const_ok r p'" using s1(2) *(5) l(2) by (auto simp: puts_def put_def)
qed

text \<open>Evaluation on constants yields constants of the type \<open>r\<close>.\<close>

definition consteval_ok :: "val_type \<Rightarrow> (typed_val \<Rightarrow> typed_val \<Rightarrow> typed_val) \<Rightarrow> bool" where
  "consteval_ok r ce \<longleftrightarrow> (\<forall>a b. tv_ty (ce a b) = r \<and> canonical (ce a b))"

lemma puts_consteval [put_intros]: "consteval_ok t ce \<Longrightarrow> puts t (push_binary_consteval l r ce)"
  unfolding push_binary_consteval_def by (auto simp: consteval_ok_def intro!: put_intros)

lemma binary_types:
  assumes "tle_fuel_costs te = None" "consteval_ok r ce"
    "\<And>a b. may_put r (o1 a b)" "\<And>a b. may_put r (o2 a b)" "\<And>a b. may_put r (o3 a b)"
  shows "retypes2 t r (translate_binary te ty mk mk16 mk16_rev ce o1 o2 o3)"
  unfolding translate_binary_def
  by (rule retypes2I) (use assms in \<open>auto split: provider.split intro!: put_intros\<close>)


lemma binary_commutative_types:
  assumes "tle_fuel_costs te = None" "consteval_ok r ce" "\<And>a b. may_put r (o1 a b)" "\<And>a b. may_put r (o2 a b)"
  shows "retypes2 t r (translate_binary_commutative te ty mk mk16 ce o1 o2)"
  unfolding translate_binary_commutative_def binary_commutative_imm_def
  by (rule retypes2I) (use assms in \<open>auto split: provider.split intro!: put_intros\<close>)

lemma shift_types:
  assumes "tle_fuel_costs te = None" "consteval_ok t ce" "\<And>a b. may_put t (o3 a b)"
  shows "retypes2 t t (translate_shift te ty mk mk_by mk16_rev ce o3)"
  unfolding translate_shift_def
  by (rule retypes2I) (use assms in \<open>auto split: provider.split intro!: put_intros\<close>)

lemma puts_push_or_trap [put_intros]: "(\<And>c. v = Inr c \<Longrightarrow> tv_ty c = t \<and> canonical c) \<Longrightarrow> puts t (push_or_trap te v)"
  unfolding push_or_trap_def by (cases v) (auto intro!: put_intros)

lemma divrem_types:
  assumes "tle_fuel_costs te = None" "\<And>a b c. ce a b = Inr c \<Longrightarrow> tv_ty c = r \<and> canonical c"
    "\<And>a b. may_put r (o1 a b)" "\<And>a b. may_put r (o2 a b)"
  shows "retypes2 t r (translate_divrem te ty mk mk16 mk16_rev ce o1 o2)"
  unfolding translate_divrem_def
  by (rule retypes2I) (use assms in \<open>auto split: provider.split intro!: put_intros\<close>)

text \<open>
  A comparison of floats with a constant NaN is decided before the NaN itself is pushed.
\<close>

lemma unary_types:
  assumes "tle_fuel_costs te = None" "\<And>a. tv_ty (ce a) = r \<and> canonical (ce a)"
  shows "retypes1 t r (translate_unary te mk ce)"
  unfolding translate_unary_def
  by (rule retypes1I) (use assms in \<open>auto split: provider.split intro!: put_intros\<close>)

lemma unary_fallible_types:
  assumes "tle_fuel_costs te = None" "\<And>a c. ce a = Inr c \<Longrightarrow> tv_ty c = r \<and> canonical c"
  shows "retypes1 t r (translate_unary_fallible te mk ce)"
  unfolding translate_unary_fallible_def
  by (rule retypes1I) (use assms in \<open>auto split: provider.split intro!: put_intros\<close>)

lemma special_puts [put_intros]: "puts t m \<Longrightarrow> may_put t (same_reg m l r)" "puts I32 (push_bool b)"
    "may_put I32 (rhs_is P b l c)" "may_put I32 (lhs_is P b c r)" "(\<And>r. puts t (f r)) \<Longrightarrow> may_put t (imm_is P f r c)"
  by (auto simp: same_reg_def push_bool_def rhs_is_def lhs_is_def imm_is_def tv_bool_def canonical_boolean [unfolded typed_as_def]
      intro!: put_intros)


lemma or_else_dead: "(n \<longrightarrow> b) \<Longrightarrow> or_else (opt_when b k) (or_else (opt_when n k') m) = or_else (opt_when b k) m"
  by (cases b; cases n) (simp_all add: or_else_def opt_when_def tr_defs tl_defs fun_eq_iff rbind_assoc case_prod_unfold)

lemma fcmp_types:
  assumes "tle_fuel_costs te = None" "consteval_ok I32 ce" "\<And>a b. may_put I32 (o1 a b)"
    "\<And>v. is_nan_val w v \<Longrightarrow> P v \<and> Q v"
  shows "retypes2 t I32 (translate_fbinary te w mk ce o1 (rhs_is P b) (lhs_is Q c))"
  unfolding translate_fbinary_def
  by (rule retypes2I)
    (use assms in \<open>auto simp: rhs_is_def lhs_is_def or_else_dead special_puts(2) split: provider.split intro!: put_intros\<close>)

lemma fcmp_comm_types:
  assumes "tle_fuel_costs te = None" "consteval_ok I32 ce"
  shows "retypes2 t I32 (translate_fbinary_commutative te w mk ce no_custom_opt
    (imm_is (is_nan_val w) (\<lambda>_. push_bool b)))"
  unfolding translate_fbinary_commutative_def fbinary_commutative_imm_def
  by (rule retypes2I)
    (use assms in \<open>auto simp: imm_is_def or_else_dead split: provider.split intro!: put_intros\<close>)


section \<open>Every operator\<close>

lemma consteval_typed: "(\<And>a b. canonical (typed_as t (f a b))) \<Longrightarrow> consteval_ok t (typed_binary t f)"
  by (simp add: consteval_ok_def typed_binary_def typed_as_def)

lemma int_canonical:
  "canonical (typed_as (int_val_type (comm_ty c)) (comm_fn c a b))"
  "canonical (typed_as (int_val_type (sub_ty d)) (sub_fn d a b))"
  "canonical (typed_as (int_val_type (shift_ty e)) (shift_fn e a b))"
  using fn2_canonical [of "OpComm c"] fn2_canonical [of "OpSub d"] fn2_canonical [of "OpShift e"] by simp_all

lemma cmp_canonical: "canonical (typed_as I32 (icmp_fn c a b))" "canonical (typed_as I32 (fcmp_fn d a b))"
  using fn2_canonical [of "OpIcmp c"] fn2_canonical [of "OpFcmp d"] by simp_all

lemma icmp_op_types: "tle_fuel_costs te = None \<Longrightarrow> retypes2 t I32 (visit_icmp te op)"
  using consteval_typed [OF cmp_canonical(1) [of op]]
  by (cases op) (auto simp: visit_icmp_defs intro!: binary_types binary_commutative_types put_intros)

lemma fcmp_op_types: "tle_fuel_costs te = None \<Longrightarrow> retypes2 t I32 (visit_fcmp te op)"
  using consteval_typed [OF cmp_canonical(2) [of op]]
  by (cases op) (auto simp: visit_fcmp_defs intro!: fcmp_types fcmp_comm_types put_intros)

lemma tv_types [simp]: "tv_ty (tv_i32 a) = I32" "tv_ty (tv_i64 b) = I64" "tv_ty (tv_f32 a) = F32" "tv_ty (tv_f64 b) = F64"
  by (simp_all add: tv_i32_def tv_i64_def tv_f32_def tv_f64_def)

lemma retypes2_fail: "retypes2 t r (tfail e)"
  by (simp add: retypes2_def tr_simps)

lemma comm_op_types: "tle_fuel_costs te = None \<Longrightarrow> retypes2 (int_val_type (comm_ty op)) (int_val_type (comm_ty op)) (visit_comm te op)"
  using consteval_typed [OF int_canonical(1) [of op]]
  by (cases op) (auto simp: visit_comm_defs intro!: retypes2_fail binary_commutative_types put_intros)

lemma sub_op_types: "tle_fuel_costs te = None \<Longrightarrow> retypes2 (int_val_type (sub_ty op)) (int_val_type (sub_ty op)) (visit_sub te op)"
  using consteval_typed [OF int_canonical(2) [of op]]
  by (cases op) (auto simp: visit_i32_sub_def visit_i64_sub_def intro!: binary_types put_intros)

lemma shift_op_types: "tle_fuel_costs te = None \<Longrightarrow> retypes2 (int_val_type (shift_ty op)) (int_val_type (shift_ty op)) (visit_shift te op)"
  using consteval_typed [OF int_canonical(3) [of op]]
  by (cases op) (auto simp: visit_shift_defs intro!: shift_types put_intros)

lemma divrem_op_types:
  assumes "tle_fuel_costs te = None"
  shows "retypes2 (int_val_type (divrem_ty op)) (int_val_type (divrem_ty op)) (visit_divrem te op)"
proof -
  have "typed_try_binary (int_val_type (divrem_ty op)) (divrem_fn op) a b = Inr c \<Longrightarrow>
      tv_ty c = int_val_type (divrem_ty op) \<and> canonical c" for a b c
    using fn2_canonical [of "OpDivRem op"] by (auto simp: typed_try_binary_def typed_as_def rsimps)
  with assms show ?thesis by (cases op) (auto simp: visit_divrem_defs intro!: divrem_types put_intros)
qed


lemma fn2_types:
  assumes "wasm_fn2 op = Some (t, r, f)" "tle_fuel_costs te = None"
  shows "retypes2 t r (visit_numeric_op te op)"
  using assms icmp_op_types fcmp_op_types comm_op_types sub_op_types shift_op_types divrem_op_types
  by (cases op) auto

text \<open>An operator with one operand may leave it where it is.\<close>

lemma replace_const_types:
  assumes "\<And>c. tv_ty c = t \<Longrightarrow> canonical c \<Longrightarrow> tv_ty (f c) = r \<and> canonical (f c)"
  shows "retypes1 t r (replace_const te f)"
  unfolding retypes1_def
proof (intro allI impI)
  fix s u s' P p assume *: "tl_reachable s" "replace_const te f s = Inr (u, s')" "providers s = P @ [p]" "const_ok t p"
  then obtain tp s0 where pk: "tl_peek s = Inr (tp, s0)"
      and k: "(case tp of ProvReg _ \<Rightarrow> tskip | ProvConst _ \<Rightarrow>
        tbind (tl_pop te) (\<lambda>p. case p of ProvConst v \<Rightarrow> tl_push_const (f v) | ProvReg _ \<Rightarrow> tfail TPanic)) s0 = Inr (u, s')"
    by (auto simp: replace_const_def bail_unreachable_def tr_defs rsimps)
  from pk *(3) have s0: "s0 = s" "tp = typed_of_tagged p"
    by (auto simp: tl_peek_def tr_simps rsimps ts_peek_def ps_peek_def split: if_splits)
  show "\<exists>p'. providers s' = P @ [p'] \<and> const_ok r p'"
  proof (cases tp)
    case (ProvReg q)
    then have "s' = s" using k s0(1) by (simp add: tr_simps)
    moreover have "\<forall>c. p \<noteq> TagConstValue c" using s0(2) ProvReg by (auto simp: typed_of_tagged_def)
    ultimately show ?thesis using *(3) by (simp add: const_ok_def)
  next
    case (ProvConst c)
    with k s0(1) obtain tq s1 where s1: "tl_pop te s = Inr (tq, s1)"
        "(case tq of ProvConst v \<Rightarrow> tl_push_const (f v) | ProvReg _ \<Rightarrow> tfail TPanic) s1 = Inr (u, s')"
      by (auto simp: tr_defs rsimps)
    from tl_pop_providers [OF s1(1)] *(3) have q: "tq = ProvConst c" "providers s1 = P" using s0 ProvConst by auto
    have "tv_ty (f c) = r \<and> canonical (f c)"
      using assms provider_ok_typed [OF *(4)] by (simp flip: s0(2) add: ProvConst)
    then show ?thesis using s1(2) q
      by (auto simp: tl_push_const_def upd_stack_def ts_push_const_def rsimps dest!: ts_push_tagged_providers)
  qed
qed

lemma push_const_types:
  assumes "retypes2 t r m" "tv_ty c = t" "canonical c"
  shows "retypes1 t r (bail_unreachable (tseq (tl_push_const c) m))"
  unfolding retypes1_def
proof (intro allI impI)
  fix s u s' P p assume *: "tl_reachable s" "bail_unreachable (tseq (tl_push_const c) m) s = Inr (u, s')"
    "providers s = P @ [p]" "const_ok t p" "tl_reachable s'"
  then obtain s1 where s1: "tl_push_const c s = Inr ((), s1)" "m s1 = Inr (u, s')"
    by (auto simp: bail_unreachable_def tr_defs rsimps)
  then have "providers s1 = P @ [p, TagConstValue c]" "tl_reachable s1"
    using *(1,3) by (auto simp: tl_push_const_def upd_stack_def ts_push_const_def rsimps dest!: ts_push_tagged_providers)
  then show "\<exists>p'. providers s' = P @ [p'] \<and> const_ok r p'"
    using assms *(4,5) s1(2) unfolding retypes2_def by (metis const_ok_simps(1))
qed

lemma fn1_types:
  assumes "wasm_fn1 nan op = Some (t, r, f)" "tle_fuel_costs te = None"
  shows "retypes1 t r (visit_numeric_op te op)"
proof -
  have "tv_ty (reinterpret ty c) = ty" "canonical c \<Longrightarrow> tv_ty c = I32 \<Longrightarrow> canonical (reinterpret F32 c)"
    "canonical c \<Longrightarrow> tv_ty c = F32 \<Longrightarrow> canonical (reinterpret I32 c)"
    "canonical (reinterpret I64 c)" "canonical (reinterpret F64 c)" for c ty
    by (auto simp: reinterpret_def canonical_def)
  moreover have "tv_ty (typed_unary (unary_result c) (unary_fn c n) a) = unary_result c \<and>
      canonical (typed_unary (unary_result c) (unary_fn c n) a)" for c n a
    using unary_canonical [of c n "tv_value a"] by (simp add: typed_unary_def typed_as_def)
  moreover have "tv_ty (typed_unary (conv_result c) (conv_fn c n) a) = conv_result c \<and>
      canonical (typed_unary (conv_result c) (conv_fn c n) a)" for c n a
    using conv_canonical [of c n "tv_value a"] by (simp add: typed_unary_def typed_as_def)
  moreover have "typed_try_unary (trunc_result c) (trunc_fn c) a = Inr v \<Longrightarrow>
      tv_ty v = trunc_result c \<and> canonical v" for c a v
    using trunc_canonical [of c "tv_value a"] by (auto simp: typed_try_unary_def typed_as_def rsimps)
  moreover have "tv_ty (typed_unary I64 g a) = I64 \<and> canonical (typed_unary I64 g a)" for g a
    using canonical_64(1) [of "g (tv_value a)"] by (simp add: typed_unary_def typed_as_def)
  ultimately show ?thesis using assms icmp_op_types [of te I64 I64Eq]
    by (cases op) (auto simp: visit_i64_eqz_def visit_unary_def visit_conv_def visit_trunc_def visit_i64_extend_i32_s_def
      visit_i64_extend_i32_u_def translate_i64_extend_i32_u_def visit_i32_reinterpret_f32_def visit_i64_reinterpret_f64_def
      visit_f32_reinterpret_i32_def visit_f64_reinterpret_i64_def translate_reinterpret_def
      intro!: unary_types unary_fallible_types replace_const_types push_const_types)
qed



section \<open>Types along straight-line code\<close>

text \<open>The typing of straight-line code; the first element of the stack is its top.\<close>

fun check_numeric :: "nan_env \<Rightarrow> numeric_op \<Rightarrow> val_type list \<Rightarrow> val_type list option" where
  "check_numeric nan op (b # a # ts) =
    (case (wasm_fn2 op, wasm_fn1 nan op) of
       (Some (t, r, _), _) \<Rightarrow> if a = t \<and> b = t then Some (r # ts) else None
     | (None, Some (t, r, _)) \<Rightarrow> if b = t then Some (r # a # ts) else None
     | _ \<Rightarrow> None)"
| "check_numeric nan op [b] =
    (case wasm_fn1 nan op of Some (t, r, _) \<Rightarrow> if b = t then Some [r] else None | None \<Rightarrow> None)"
| "check_numeric nan op [] = None"

fun check_op :: "nan_env \<Rightarrow> val_type list \<Rightarrow> wasm_op \<Rightarrow> val_type list \<Rightarrow> val_type list option" where
  "check_op nan ls (OpNumeric op) ts = check_numeric nan op ts"
| "check_op nan ls (OpVariable (OpLocalGet l)) ts = (if unat l < length ls then Some (ls ! unat l # ts) else None)"
| "check_op nan ls (OpVariable (OpI32Const c)) ts = Some (I32 # ts)"
| "check_op nan ls (OpVariable (OpI64Const c)) ts = Some (I64 # ts)"
| "check_op nan ls (OpVariable (OpF32Const c)) ts = Some (F32 # ts)"
| "check_op nan ls (OpVariable (OpF64Const c)) ts = Some (F64 # ts)"
| "check_op nan ls (OpVariable OpDrop) (t # ts) = Some ts"
| "check_op nan ls _ ts = None"

primrec check_ops :: "nan_env \<Rightarrow> val_type list \<Rightarrow> wasm_op list \<Rightarrow> val_type list \<Rightarrow> val_type list option" where
  "check_ops nan ls [] ts = Some ts"
| "check_ops nan ls (op # ops) ts = Option.bind (check_op nan ls op ts) (check_ops nan ls ops)"

lemma tv_ty_simps [simp]: "tv_ty (typed_as t v) = t" "tv_ty (tv_i32 a) = I32" "tv_ty (tv_i64 b) = I64"
    "tv_ty (tv_f32 a) = F32" "tv_ty (tv_f64 b) = F64"
  by (simp_all add: typed_as_def tv_i32_def tv_i64_def tv_f32_def tv_f64_def)

text \<open>The constants on the emulated stack have the types \<open>ts\<close>.\<close>

definition provider_types :: "'m translator \<Rightarrow> val_type list \<Rightarrow> bool" where
  "provider_types s ts \<longleftrightarrow> list_all2 (\<lambda>p t. const_ok t p) (providers s) (rev ts)"

lemma tl_push_const_types: "tl_push_const c s = Inr ((), s') \<Longrightarrow> canonical c \<Longrightarrow> provider_types s ts \<Longrightarrow>
    provider_types s' (tv_ty c # ts)"
  by (auto simp: provider_types_def list_all2_snoc tl_push_const_def upd_stack_def ts_push_const_def rsimps
      dest!: ts_push_tagged_providers)

lemma check_numeric_cases:
  assumes "check_numeric nan op ts = Some ts'"
  obtains (Two) us t r f where "ts = t # t # us" "wasm_fn2 op = Some (t, r, f)" "ts' = r # us"
  | (One) us t r f where "ts = t # us" "wasm_fn1 nan op = Some (t, r, f)" "ts' = r # us"
proof (cases ts)
  case Nil
  then show thesis using assms by simp
next
  case (Cons b vs)
  show thesis
  proof (cases "vs = [] \<or> wasm_fn2 op = None")
    case True
    then have "case wasm_fn1 nan op of Some (t, r, _) \<Rightarrow> b = t \<and> ts' = r # vs | None \<Rightarrow> False"
      using assms Cons by (cases vs) (auto split: option.splits if_splits)
    then show thesis using One Cons by (auto split: option.splits)
  next
    case False
    then obtain a us t r f where *: "vs = a # us" "wasm_fn2 op = Some (t, r, f)" by (cases vs) auto
    then have "a = t \<and> b = t" "ts' = r # us" using assms Cons by (simp_all split: if_splits)
    then show thesis using Two [of t us r f] Cons * by simp
  qed
qed

lemma provider_types_numeric:
  assumes fuel: "tle_fuel_costs te = None" and reach: "tl_reachable s" and run: "visit_numeric_op te op s = Inr ((), s')"
    and check: "check_numeric nan op ts = Some ts'" and types: "provider_types s ts" and reach': "tl_reachable s'"
  shows "provider_types s' ts'"
  using check
proof (cases rule: check_numeric_cases)
  case (Two us t r f)
  then obtain P p q where pq: "providers s = P @ [p, q]" "list_all2 (\<lambda>p t. const_ok t p) P (rev us)"
      "const_ok t p" "const_ok t q"
    using types by (auto simp: provider_types_def list_all2_append2 list_all2_Cons2)
  then show ?thesis using fn2_types [OF Two(2) fuel] run reach reach' Two(3)
    unfolding retypes2_def by (fastforce simp: provider_types_def list_all2_snoc)
next
  case (One us t r f)
  then obtain P p where pq: "providers s = P @ [p]" "list_all2 (\<lambda>p t. const_ok t p) P (rev us)" "const_ok t p"
    using types by (auto simp: provider_types_def list_all2_append2 list_all2_Cons2)
  then show ?thesis using fn1_types [OF One(2) fuel] run reach reach' One(3)
    unfolding retypes1_def by (fastforce simp: provider_types_def list_all2_snoc)
qed

lemma provider_types_operator:
  assumes fuel: "tle_fuel_costs te = None" and reach: "tl_reachable s" and run: "visit_operator te op s = Inr ((), s')"
    and check: "check_op nan ls op ts = Some ts'" and types: "provider_types s ts" and reach': "tl_reachable s'"
  shows "provider_types s' ts'"
proof (cases op)
  case (OpNumeric n)
  then show ?thesis using provider_types_numeric [OF fuel reach _ _ types reach'] run check by simp
next
  case (OpVariable v)
  have const: "provider_types s' (tv_ty k # ts)" if "push_const_op k s = Inr ((), s')" "canonical k" for k
    using tl_push_const_types [of k s s' ts] that types reach
    by (auto simp: push_const_op_def bail_unreachable_def tr_defs rsimps)
  show ?thesis
  proof (cases v)
    case OpDrop
    then obtain b where ts: "ts = b # ts'" using check OpVariable by (cases ts) auto
    have "tl_pop te s = Inr (tp, s') \<Longrightarrow> provider_types s' ts'" for tp
      using types ts by (auto simp: provider_types_def list_all2_snoc dest!: tl_pop_providers)
    then show ?thesis using run OpVariable OpDrop reach
      by (auto simp: visit_drop_def bail_unreachable_def tr_defs tl_defs cg_defs rsimps ts_drop_def tl_pop_def)
  next
    case (OpLocalGet l)
    then show ?thesis using run OpVariable reach check types
      by (auto simp: visit_local_get_def bail_unreachable_def tr_defs tl_defs cg_defs rsimps ts_push_local_def
        provider_types_def list_all2_snoc dest!: ts_push_tagged_providers split: if_splits)
  next
    case (OpI32Const k)
    then show ?thesis using const [of "tv_i32 k"] run check OpVariable by (simp add: visit_i32_const_def)
  next
    case (OpI64Const k)
    then show ?thesis using const [of "tv_i64 k"] run check OpVariable by (simp add: visit_i64_const_def)
  next
    case (OpF32Const k)
    then show ?thesis using const [of "tv_f32 k"] run check OpVariable by (simp add: visit_f32_const_def)
  next
    case (OpF64Const k)
    then show ?thesis using const [of "tv_f64 k"] run check OpVariable by (simp add: visit_f64_const_def)
  qed (use check OpVariable in simp_all)
qed (use check in simp_all)

text \<open>In unreachable code operators do nothing.\<close>

lemma bail_skips: "\<not> tl_reachable s \<Longrightarrow> bail_unreachable m s = Inr ((), s)"
  by (simp add: bail_unreachable_def tr_simps rsimps)

lemmas translate_bails = translate_binary_def translate_binary_commutative_def translate_divrem_def translate_shift_def
  translate_fbinary_def translate_fbinary_commutative_def translate_unary_def translate_unary_fallible_def
  translate_reinterpret_def replace_const_def

lemma unreachable_operator:
  assumes "visit_operator te op s = Inr ((), s')" "straight_op op" "\<not> tl_reachable s"
  shows "s' = s"
proof (cases op)
  case (OpNumeric n)
  have "visit_icmp te i s = Inr ((), s)" for i using bail_skips [OF assms(3)] by (cases i) (simp_all add: visit_icmp_defs translate_bails)
  moreover have "visit_fcmp te i s = Inr ((), s)" for i
    using bail_skips [OF assms(3)] by (cases i) (simp_all add: visit_fcmp_defs translate_bails)
  moreover have "visit_comm te i s = Inr ((), s') \<Longrightarrow> s' = s" for i
    using bail_skips [OF assms(3)] by (cases i) (simp_all add: visit_comm_defs translate_bails tfail_def)
  moreover have "visit_sub te i s = Inr ((), s)" for i
    using bail_skips [OF assms(3)] by (cases i) (simp_all add: visit_i32_sub_def visit_i64_sub_def translate_bails)
  moreover have "visit_divrem te i s = Inr ((), s)" for i
    using bail_skips [OF assms(3)] by (cases i) (simp_all add: visit_divrem_defs translate_bails)
  moreover have "visit_shift te i s = Inr ((), s)" for i
    using bail_skips [OF assms(3)] by (cases i) (simp_all add: visit_shift_defs translate_bails)
  ultimately show ?thesis
    using assms(1,2) OpNumeric bail_skips [OF assms(3)]
    by (cases n) (simp_all add: visit_i64_eqz_def visit_unary_def visit_conv_def visit_trunc_def visit_i64_extend_i32_s_def
      visit_i64_extend_i32_u_def translate_i64_extend_i32_u_def visit_i32_reinterpret_f32_def visit_i64_reinterpret_f64_def
      visit_f32_reinterpret_i32_def visit_f64_reinterpret_i64_def translate_bails)
next
  case (OpVariable v)
  then show ?thesis using assms bail_skips [OF assms(3)]
    by (cases v) (auto simp: visit_drop_def visit_local_get_def visit_i32_const_def visit_i64_const_def visit_f32_const_def
      visit_f64_const_def push_const_op_def)
qed (use assms(2) in simp_all)

lemma provider_types_operators:
  assumes fuel: "tle_fuel_costs te = None" and ops: "\<forall>p \<in> set ops. straight_op (snd p)"
    and run: "translate_operators te base ops s = Inr ((), s')" and check: "check_ops nan ls (map snd ops) ts = Some ts'"
    and types: "tl_reachable s \<longrightarrow> provider_types s ts" and reach: "tl_reachable s'"
  shows "provider_types s' ts'"
  using ops run check types
proof (induction ops arbitrary: s ts)
  case Nil
  then show ?case using reach by (simp add: translate_operators_def tr_simps)
next
  case (Cons p ops)
  then obtain s1 us where op: "translate_operator te base p s = Inr ((), s1)" and rest: "translate_operators te base ops s1 = Inr ((), s')"
      and c: "check_op nan ls (snd p) ts = Some us" "check_ops nan ls (map snd ops) us = Some ts'"
    by (auto simp: translate_operators_def tr_defs rsimps bind_eq_Some_conv)
  obtain pos where run: "visit_operator te (snd p) (s\<lparr>tl_visit_pos := pos\<rparr>) = Inr ((), s1)"
    using translate_operator_Inr [OF op] by blast
  have "provider_types s1 us" if r1: "tl_reachable s1"
  proof (cases "tl_reachable s")
    case True
    then show ?thesis using provider_types_operator [OF fuel _ run c(1) _ r1] Cons.prems(4) by (simp add: provider_types_def)
  next
    case False
    then have "s1 = s\<lparr>tl_visit_pos := pos\<rparr>" using unreachable_operator [OF run] Cons.prems(1) by simp
    then show ?thesis using False r1 by simp
  qed
  then show ?case using Cons.IH [OF _ rest c(2)] Cons.prems(1) by simp
qed

text \<open>The same along an evaluation.\<close>

definition const_types :: "'m translator \<Rightarrow> typed_val list \<Rightarrow> bool" where
  "const_types s vs = provider_types s (map tv_ty vs)"

lemma step_check: "wasm_op_step nan ls op vs = Some (Inr vs') \<Longrightarrow>
    check_op nan (map tv_ty ls) op (map tv_ty vs) = Some (map tv_ty vs')"
proof (cases op)
  case (OpNumeric n)
  assume "wasm_op_step nan ls op vs = Some (Inr vs')"
  then have "wasm_numeric nan n vs = Some (Inr vs')" using OpNumeric by simp
  then have "check_numeric nan n (map tv_ty vs) = Some (map tv_ty vs')"
  proof (cases rule: wasm_numeric_cases)
    case (Two b a ws t r f)
    then show ?thesis by (auto simp: rsimps dest!: sym [of "Inr vs'"])
  next
    case (One b ws t r f)
    moreover from this have "wasm_fn2 n = None" by (cases n) auto
    ultimately show ?thesis by (cases ws) (auto simp: rsimps dest!: sym [of "Inr vs'"])
  qed
  then show ?thesis using OpNumeric by simp
next
  case (OpVariable v)
  then show "wasm_op_step nan ls op vs = Some (Inr vs') \<Longrightarrow> ?thesis"
    by (cases v; cases vs) (auto split: if_splits)
qed simp_all

lemma const_types_operator:
  assumes "tle_fuel_costs te = None" "tl_reachable s" "visit_operator te op s = Inr ((), s')"
    and "wasm_op_step nan ls op vs = Some (Inr vs')" "const_types s vs" "tl_reachable s'"
  shows "const_types s' vs'"
  using provider_types_operator [OF assms(1-3) step_check [OF assms(4)]] assms(5,6) by (simp add: const_types_def)

end
