(* ===== verification/Tr_Whole.thy ===== *)
theory Tr_Whole
  imports Tr_Types
begin

text \<open>
  Functions with a straight-line body: the compiled function, entered on a frame with its constants
  and locals, returns what the body evaluates to.
\<close>


section \<open>Straight-line code\<close>

lemma straight_code:
  assumes "translate_operators te base ops s = Inr (u, s')" "grown s' fin" "\<forall>p \<in> set ops. straight_op (snd p)"
    and "in_step env te fin ex0 ls ex s vs" "wasm_eval (te_nan te) ls (map snd ops) vs = Some res"
    and "const_types s vs"
  shows "case res of
      Inl t \<Rightarrow> \<exists>ex1. exec_steps env ex ex1 \<and> exec_one env ex1 = Inl (XTrap t)
    | Inr vs' \<Rightarrow> \<exists>ex'. exec_steps env ex ex' \<and> in_step env te fin ex0 ls ex' s' vs' \<and> const_types s' vs'"
  using assms
proof (induction ops arbitrary: s ex vs)
  case Nil
  then have "s = s'" "res = Inr vs" by (auto simp: translate_operators_def tr_simps)
  then show ?case using Nil.prems(4,6) steps_refl by auto
next
  case (Cons p ops)
  from Cons.prems(1) obtain s1 where op: "translate_operator te base p s = Inr ((), s1)"
      and rest: "translate_operators te base ops s1 = Inr (u, s')"
    by (auto simp: translate_operators_def tr_defs rsimps)
  from translate_operator_Inr [OF op] obtain pos where run: "visit_operator te (snd p) (s\<lparr>tl_visit_pos := pos\<rparr>) = Inr ((), s1)" by blast
  let ?s = "s\<lparr>tl_visit_pos := pos\<rparr>"
  have step: "in_step env te fin ex0 ls ex ?s vs" using Cons.prems(4) by (simp add: in_step_pos)
  have ready: "ready env te (\<lambda>_. 0) ?s" using step by (simp add: in_step_def)
  then have fuel: "tle_fuel_costs te = None" and ci: "consts_inv (consts_of ?s)" by (simp_all add: ready_def tl_inv_def)
  have g1: "grown ?s s1" using growsD [OF grows_straight [OF fuel] ci run] Cons.prems(3) by simp
  then have "grown s1 s'"
    using growsD [OF grows_operators [OF fuel] _ rest] Cons.prems(3) by (simp add: grown_def)
  from grown_trans [OF this Cons.prems(2)] have g2: "grown s1 fin" .
  have "runs_code env ex fin" using step by (simp add: in_step_def)
  from runs_code_grown [OF this g2] have c1: "consts_read ex s1" by (simp add: runs_code_def)
  obtain r where r: "wasm_op_step (te_nan te) ls (snd p) vs = Some r" using Cons.prems(5) by (auto split: option.splits)
  have "lands env te ?s s1 ex r"
    using lands_operator [OF ready run r] step c1 by (simp add: in_step_def)
  note ex = exec_lands [OF step this g2]
  show ?case
  proof (cases r)
    case (Inl t)
    then have "res = Inl t" using Cons.prems(5) r by simp
    then show ?thesis using ex Inl steps_refl by auto
  next
    case (Inr ws)
    then obtain ex' where ex': "exec_steps env ex ex'" "in_step env te fin ex0 ls ex' s1 ws" using ex by auto
    have eval: "wasm_eval (te_nan te) ls (map snd ops) ws = Some res" using Cons.prems(5) r Inr by simp
    have "const_types s1 ws"
      using const_types_operator [OF fuel _ run, of "te_nan te" ls vs ws] ready r Inr ex'(2) Cons.prems(6)
      by (simp add: ready_def in_step_def const_types_def provider_types_def)
    from Cons.IH [OF rest Cons.prems(2) _ ex'(2) eval this] Cons.prems(3) ex'(1)
    show ?thesis by (cases res) (auto intro: exec_steps_trans)
  qed
qed


section \<open>The start of a translation\<close>

text \<open>Registers for \<open>n\<close> locals and nothing else.\<close>

definition ra_fresh :: "'m stash_ops \<Rightarrow> nat \<Rightarrow> 'm reg_alloc \<Rightarrow> bool" where
  "ra_fresh ms n ra \<longleftrightarrow> n < 32766 \<and> ra_len_locals ra = of_nat n \<and> ra_next_dynamic ra = of_nat n \<and>
    ra_max_dynamic ra = of_nat n \<and> ra_min_preserve ra = 32766 \<and> (\<forall>k. st_get ms (ra_preservations ra) k = None)"

lemma ra_fresh_reset: "stash_laws ms \<Longrightarrow> ra_fresh ms 0 (ra_reset ms ra)"
  by (simp add: ra_fresh_def ra_reset_def initial_preservation_index_def stash_laws_def)

lemma ra_fresh_register:
  assumes "ra_fresh ms n ra" "ra_register_locals a ra = Inr ra'"
  shows "ra_fresh ms (n + unat a) ra' \<and> ra_phase ra' = ra_phase ra"
proof -
  obtain k where bl: "bump_locals (of_nat n) a = Some k" and ra': "ra' = ra\<lparr>ra_len_locals := k, ra_next_dynamic := k, ra_max_dynamic := k\<rparr>"
    using assms by (auto simp: ra_register_locals_def ra_fresh_def split: if_splits option.splits)
  have n: "n < 2 ^ 16" using assms(1) by (simp add: ra_fresh_def)
  then have un: "unat (of_nat n :: u16) = n" by (simp add: unsigned_of_nat take_bit_nat_eq_self)
  have lt: "n + unat a < 2 ^ 16" and k: "k = of_nat n + ucast a" "k < max_len_locals"
    using bl by (auto simp: bump_locals_def Let_def un split: if_splits)
  have k': "k = of_nat (n + unat a)" using k(1) by (simp add: of_nat_unat)
  have "unat k = n + unat a" unfolding k' using lt by (subst unsigned_of_nat) (simp add: take_bit_nat_eq_self)
  with k' show ?thesis using assms(1) k(2) by (simp add: ra_fresh_def ra' max_len_locals_def word_less_nat_alt)
qed

lemma ra_fresh_inv:
  assumes "ra_fresh ms n ra" "ra_phase ra = PhaseAlloc"
  shows "ra_inv ms (\<lambda>_. 0) ra" "ra_apart ra" "sint (ra_len_locals ra) = int n"
proof -
  have "sint (of_nat n :: reg) = int n" using assms(1) by (intro sint_reg_of_nat) (simp add: ra_fresh_def)
  then show "ra_inv ms (\<lambda>_. 0) ra" "ra_apart ra" "sint (ra_len_locals ra) = int n"
    using assms by (auto simp: ra_fresh_def ra_inv_def ra_apart_def intro: stash_counts_empty)
qed

text \<open>The state of the translator before the first operator.\<close>

definition fresh :: "('m, 'e) tl_env_scheme \<Rightarrow> nat \<Rightarrow> 'm translator \<Rightarrow> bool" where
  "fresh te n s \<longleftrightarrow> ra_fresh (te_stash te) n (ts_reg_alloc (cg_stack s)) \<and> providers s = [] \<and>
    ps_inv (ts_providers (cg_stack s)) \<and> consts_inv (consts_of s) \<and> fc_idx2const (consts_of s) = [] \<and>
    code_of s = [] \<and> lb_users (ie_labels (cg_enc s)) = [] \<and> ie_notified_preservation (cg_enc s) = None \<and>
    tl_reachable s \<and> (\<exists>f. ct_frames (tl_control s) = [BlockFrame f])"

lemma tfor_induct:
  assumes "tfor f xs s = Inr ((), s')" "P 0 s"
    and "\<And>x n s s'. x \<in> set xs \<Longrightarrow> f x s = Inr ((), s') \<Longrightarrow> P n s \<Longrightarrow> P (n + g x) s'"
  shows "P (sum_list (map g xs)) s'"
proof -
  have "P (n + sum_list (map g xs)) s'" if "P n s" for n
    using assms(1,3) that
  proof (induction xs arbitrary: n s)
    case (Cons x xs)
    from Cons.prems(1) obtain s1 where s1: "f x s = Inr ((), s1)" "tfor f xs s1 = Inr ((), s')"
      by (auto simp: tr_defs rsimps)
    then have "P (n + g x) s1" using Cons.prems by simp
    from Cons.IH [OF s1(2) _ this] Cons.prems(2) show ?case by (simp add: add.assoc)
  qed (simp add: tr_simps)
  then show ?thesis using assms(2) by fastforce
qed

lemma fresh_register: "fresh te n s \<Longrightarrow> upd_stack (ts_register_locals a) s = Inr ((), s') \<Longrightarrow> fresh te (n + unat a) s'"
  using ra_fresh_register [of "te_stash te" n "ts_reg_alloc (cg_stack s)" a]
  by (auto simp: fresh_def upd_stack_def ts_register_locals_def ts_lift_alloc_def rsimps)

lemma fresh_params:
  assumes "init_func_params te s = Inr ((), s')" "fresh te 0 s" "tl_func_type te (tle_func te) = Inr t"
  shows "fresh te (length (func_type_params t)) s'"
proof -
  have "tfor (\<lambda>_. upd_stack (ts_register_locals 1)) (func_type_params t) s = Inr ((), s')"
    using assms(1,3) by (simp add: init_func_params_def tr_simps rsimps)
  from tfor_induct [OF this, of "fresh te" "\<lambda>_. 1"] assms(2) fresh_register [of te _ _ 1]
  show ?thesis by (simp add: sum_list_triv)
qed

lemma fresh_new:
  assumes "stash_laws (te_stash te)" "tle_fuel_costs te = None" "translator_new te alloc = Inr s"
    and "tl_func_type te (tle_func te) = Inr t"
  shows "fresh te (length (func_type_params t)) s"
proof -
  let ?s0 = "(translator_reset te alloc)\<lparr>tl_reachable := True, tl_visit_pos := 0\<rparr>"
  obtain s1 where s1: "init_func_body_block te ?s0 = Inr ((), s1)" "init_func_params te s1 = Inr ((), s)"
    using assms(3) by (auto simp: translator_new_def tr_defs rsimps)
  have "fresh te 0 s1"
    using s1(1) assms(1,2) ra_fresh_reset [of "te_stash te"] consts_inv_reset
    by (auto simp: init_func_body_block_def make_fuel_instr_def enc_new_label_def new_label_def tr_simps rsimps
        fresh_def translator_reset_def ts_reset_def enc_reset_def control_reset_def labels_reset_def push_frame_def
        ps_reset_def ps_inv_def lr_rep_reset consts_reset_def split: if_splits)
  from fresh_params [OF s1(2) this assms(4)] show ?thesis .
qed

lemma fresh_locals:
  assumes "driver_translate_locals lts s = Inr ((), s')" "fresh te n s"
  shows "fresh te (n + sum_list (map (unat \<circ> fst) lts)) s'" "ra_phase (ts_reg_alloc (cg_stack s')) = PhaseAlloc"
proof -
  obtain s1 where s1: "tfor (\<lambda>(amount, ty). tl_translate_locals amount) lts s = Inr ((), s1)"
    and fin: "tl_finish_translate_locals (s1\<lparr>cg_stack := (cg_stack s1)\<lparr>ts_local_value_types :=
        concat (map (\<lambda>(amount, ty). replicate (unat amount) ty) lts)\<rparr>\<rparr>) = Inr ((), s')"
    using assms(1) by (auto simp: driver_translate_locals_def tr_simps rsimps)
  have "fresh te (n + sum_list (map (unat \<circ> fst) lts)) s1"
    by (rule tfor_induct [OF s1, of "\<lambda>k. fresh te (n + k)"])
      (auto simp: assms(2) tl_translate_locals_def add.assoc [symmetric] intro: fresh_register)
  then show "fresh te (n + sum_list (map (unat \<circ> fst) lts)) s'" "ra_phase (ts_reg_alloc (cg_stack s')) = PhaseAlloc"
    using fin by (auto simp: tl_finish_translate_locals_def upd_stack_def ts_finish_register_locals_def ts_lift_alloc_def
        ra_finish_register_locals_def ra_fresh_def fresh_def rsimps split: if_splits)
qed

lemma fresh_ready:
  fixes env :: "('h, 'e) exec_env"
  assumes "fresh te n s" "ra_phase (ts_reg_alloc (cg_stack s)) = PhaseAlloc" "stash_laws (te_stash te)"
    and "tle_fuel_costs te = None" "env_nan env = te_nan te"
  shows "ready env te (\<lambda>_. 0) s" "sint (ra_len_locals (ts_reg_alloc (cg_stack s))) = int n"
proof -
  note r = ra_fresh_inv [OF _ assms(2), of "te_stash te" n]
  have "dynamics_ok (ts_reg_alloc (cg_stack s)) []" using assms(1) by (simp add: dynamics_ok_def fresh_def ra_fresh_def)
  then show "ready env te (\<lambda>_. 0) s" "sint (ra_len_locals (ts_reg_alloc (cg_stack s))) = int n"
    using assms r by (simp_all add: fresh_def ready_def tl_inv_def ts_inv_def)
qed


section \<open>The end of a function\<close>

lemma grows_tlift [grow_intros]: "grows (tlift r)"
  by (auto simp: grows_def tlift_def rsimps grown_refl)

lemma pop_n_rev_bounds:
  assumes "pop_n_rev ms n s = Inr (ps, s')"
  shows "ts_consts s' = ts_consts s \<and> more_registers (ts_reg_alloc s) (ts_reg_alloc s')"
  using assms by (induction n arbitrary: s ps) (auto simp: rsimps dest!: ts_pop_bounds intro: more_registers_trans)

lemma grows_pop_n [grow_intros]: "grows (tl_pop_n te n)"
  by (rule growsI_stack) (auto simp: tl_pop_n_def on_stack_def ts_pop_n_def rsimps dest!: pop_n_rev_bounds)

lemma grows_ts_alloc_const [grow_intros]: "grows (on_stack (ts_alloc_const v))"
  using grows_alloc_const [of v] unfolding tl_alloc_const_def .

lemma grows_provider2reg [grow_intros]: "grows (provider2reg p :: ('m, reg) tl)"
proof (cases p)
  case (ProvReg r)
  then have "(provider2reg p :: ('m, reg) tl) = tret r" by (intro ext) (simp add: provider2reg_def on_stack_def ts_provider2reg_def tr_simps rsimps)
  then show ?thesis by (auto intro: grow_intros)
next
  case (ProvConst c)
  then have "(provider2reg p :: ('m, reg) tl) = on_stack (ts_alloc_const (tv_value c))"
    by (intro ext) (simp add: provider2reg_def on_stack_def ts_provider2reg_def)
  then show ?thesis by (auto intro: grow_intros)
qed

lemma grows_append_instr [grow_intros]: "grows (append_instr pos i)"
  unfolding grows_def
  by (auto simp: grown_def append_instr_def seq_push_def seq_next_instr_def tr_simps rsimps split: if_splits)

lemma grows_reset_last [grow_intros]: "grows reset_last_instr"
  by (auto simp: grows_def grown_def reset_last_instr_def upd_enc_def rsimps)

lemma grows_register_list [grow_intros]: "grows (encode_register_list pos ps)"
  by (induction pos ps rule: encode_register_list.induct) (auto intro!: grow_intros)

lemma grows_push_return [grow_intros]: "grows (push_return pos FuelNone i)"
  by (auto simp: push_return_def bump_fuel_consumption_def intro!: grow_intros)

lemma grows_return_const [grow_intros]: "grows (return_const nan mk_reg mk_imm c)"
  by (cases "tv_ty c") (auto simp: return_const_def Let_def intro!: grow_intros)

lemma grows_encode_return: "grows (encode_return nan pos vals FuelNone)"
  unfolding encode_return_def
  by (auto split: list.split provider.split
      simp: bump_for_values_def bump_fuel_consumption_def intro!: grow_intros)

lemma grows_end_of_function:
  assumes "tle_fuel_costs te = None"
  shows "grows (tseq (end_of_function te f) reset_last_instr)"
  using assms by (auto simp: end_of_function_def translate_return_with_def intro!: grow_intros grows_encode_return)


text \<open>The return of at most one value.\<close>

definition leave_with :: "untyped_val list \<Rightarrow> 'h exec \<Rightarrow> 'e xerr + control_flow \<times> 'h exec" where
  "leave_with vs = (case vs of [] \<Rightarrow> return_impl | v # _ \<Rightarrow> exec_return_value (\<lambda>_. Inr v))"

lemma exec_return_register: "reg_get ex r = Some v \<Longrightarrow> exec_return env (IReturnReg r) ex = leave_with [v] ex"
  by (simp add: exec_return_value_def leave_with_def get_register_def)

lemma leave_with_imm: "imm32_val (env_nan env) c = v \<Longrightarrow> exec_return env (IReturnImm c) ex = leave_with [v] ex"
  by (simp add: leave_with_def)

lemma pushed_return:
  assumes "push_return (tl_visit_pos s) FuelNone i s = Inr ((), s')"
  shows "s' = pushed_code (IRet i) s"
  using assms push_instr_pos by (auto simp: push_return_def bump_fuel_consumption_def tr_simps rsimps)

lemma return_const_code:
  assumes run: "tbind (return_const nan IReturnReg IReturnImm c) (push_return (tl_visit_pos s) FuelNone) s = Inr ((), s')"
    and ci: "consts_inv (consts_of s)" and reads: "consts_read ex s'" and can: "canonical c" and nan: "env_nan env = nan"
  shows "\<exists>i. code_of s' = code_of s @ [iw (tl_visit_pos s) (IRet i)] \<and> exec_return env i ex = leave_with [tv_value c] ex"
proof -
  have in_reg: ?thesis
    if al: "on_stack (ts_alloc_const (tv_value c)) s = Inr (r, s1)" and pu: "push_return (tl_visit_pos s) FuelNone (IReturnReg r) s1 = Inr ((), s')" for r s1
  proof -
    obtain c' where al': "consts_alloc (tv_value c) (consts_of s) = Inr (r, c')" and s1: "s1 = s\<lparr>cg_stack := (cg_stack s)\<lparr>ts_consts := c'\<rparr>\<rparr>"
      using al by (auto simp: on_stack_def ts_alloc_const_def rsimps)
    have s': "s' = pushed_code (IRet (IReturnReg r)) s1" using pushed_return [of s1 "IReturnReg r" s'] pu s1 by simp
    then have "reg_get ex r = Some (tv_value c)" using reads consts_alloc_inv [OF ci al'] by (simp add: consts_read_def s1)
    then show ?thesis using s' s1 exec_return_register [of ex r "tv_value c" env] by (intro exI [of _ "IReturnReg r"]) simp
  qed
  have imm: ?thesis if "push_return (tl_visit_pos s) FuelNone (IReturnImm k) s = Inr ((), s')" "imm32_val nan k = tv_value c" for k
    using pushed_return [OF that(1)] leave_with_imm [of env k "tv_value c" ex] that(2) nan
    by (intro exI [of _ "IReturnImm k"]) simp
  show ?thesis
  proof (cases "tv_ty c")
    case I32
    then show ?thesis using run imm [of "AnyImm32 (to_i32 (tv_value c))"] can by (simp add: return_const_def canonical_def tr_simps rsimps)
  next
    case F32
    then show ?thesis using run imm [of "AnyImm32 (to_i32 (tv_value c))"] can by (simp add: return_const_def canonical_def tr_simps rsimps)
  next
    case I64
    show ?thesis
    proof (cases "const32_of_i64 (to_i64 (tv_value c))")
      case None
      then show ?thesis using run I64 in_reg by (auto simp: return_const_def tr_simps rsimps)
    next
      case (Some k)
      then show ?thesis using run I64 imm [of "I64Imm32 k"] const32_of_i64_roundtrip [OF Some]
        by (simp add: return_const_def tr_simps rsimps)
    qed
  next
    case F64
    show ?thesis
    proof (cases "const32_of_f64 nan (to_i64 (tv_value c))")
      case None
      then show ?thesis using run F64 in_reg by (auto simp: return_const_def tr_simps rsimps)
    next
      case (Some k)
      then show ?thesis using run F64 imm [of "F64Imm32 k"]
        by (auto simp: return_const_def tr_simps rsimps const32_of_f64_def to_i64_def Let_def split: if_splits)
    qed
  qed (use run in_reg in \<open>auto simp: return_const_def tr_simps rsimps\<close>)
qed

lemma tl_pop_n_1: "tl_pop_n te (Suc 0) s = rmap (\<lambda>(p, s'). ([p], s')) (tl_pop te s)"
  by (cases "ts_pop (te_stash te) (cg_stack s)")
    (auto simp: tl_pop_n_def tl_pop_def on_stack_def ts_pop_n_def rsimps)

lemma return_code:
  assumes ready: "ready env te (\<lambda>_. 0) s" and t: "tl_func_type te (tle_func te) = Inr t"
    and n: "length (func_type_results t) \<le> 1"
    and run: "translate_return_with te FuelNone s = Inr ((), s')" and reads: "stack_reads ex s (values_of vs)"
    and types: "const_types s vs" and can: "all_canonical vs" and c: "consts_read ex s'"
  shows "\<exists>pos i. code_of s' = code_of s @ [iw pos (IRet i)] \<and> length (func_type_results t) \<le> length vs \<and>
    exec_return env i ex = leave_with (map tv_value (take (length (func_type_results t)) vs)) ex"
proof (cases "func_type_results t")
  case Nil
  have "tl_pop_n te 0 s = Inr ([], s)" by (simp add: tl_pop_n_def on_stack_def ts_pop_n_def rsimps)
  then obtain s1 r where "push_instr 0 (IRet IReturn) s = Inr (r, s1)" "s' = s1\<lparr>tl_reachable := False\<rparr>"
    using run t Nil by (auto simp: translate_return_with_def encode_return_def push_return_def bump_fuel_consumption_def
        tr_defs tl_defs rsimps)
  then have "code_of s' = code_of s @ [iw 0 (IRet IReturn)]"
    by (auto simp: push_instr_def append_instr_def seq_push_def seq_next_instr_def tr_simps rsimps split: if_splits)
  then show ?thesis using Nil by (intro exI [of _ 0] exI [of _ IReturn]) (simp add: leave_with_def)
next
  case (Cons ty tys)
  then have l: "length (func_type_results t) = 1" using n by simp
  from run t l obtain tp s1 s2 where pop: "tl_pop te s = Inr (tp, s1)"
      and en: "encode_return (te_nan te) (tl_visit_pos s1) [tp] FuelNone s1 = Inr ((), s2)" and s': "s' = s2\<lparr>tl_reachable := False\<rparr>"
    by (auto simp: translate_return_with_def tl_pop_n_1 tr_defs tl_defs rsimps)
  have laws: "stash_laws (te_stash te)" "tl_inv te (\<lambda>_. 0) s" "env_nan env = te_nan te" using ready by (simp_all add: ready_def)
  note p = tl_pop_Inr [OF laws(1,2) pop]
  obtain q where q: "tp = typed_of_tagged q" "providers s = providers s1 @ [q]" using p(1) by blast
  obtain v ws where vs: "vs = v # ws" using reads q(2) by (cases vs) (auto simp: stack_reads_def values_of_def)
  have read: "operand_reads ex tp (tv_value v)" using reads q vs by (simp add: stack_reads_def list_all2_snoc)
  have prov: "provider_ok (tv_ty v) tp"
    using types q vs by (auto simp: const_types_def provider_types_def rev_map list_all2_snoc intro: provider_ok_typed)
  have c2: "consts_read ex s2" using c by (simp add: s' consts_read_def)
  have "\<exists>i. code_of s2 = code_of s1 @ [iw (tl_visit_pos s1) (IRet i)] \<and> exec_return env i ex = leave_with [tv_value v] ex"
  proof (cases tp)
    case (ProvReg r)
    then have "s2 = pushed_code (IRet (IReturnReg r)) s1" using en pushed_return by (simp add: encode_return_def)
    then show ?thesis using read ProvReg exec_return_register [of ex r "tv_value v" env]
      by (intro exI [of _ "IReturnReg r"]) (simp add: operand_reads_def)
  next
    case (ProvConst k)
    have "consts_inv (consts_of s1)" using p(2) by (simp add: tl_inv_def)
    then show ?thesis
      using return_const_code [OF _ _ c2, of "te_nan te" k s1 env] en prov read ProvConst laws(3)
      by (simp add: encode_return_def operand_reads_def)
  qed
  then show ?thesis using vs l p(4) by (auto simp: s')
qed


section \<open>Function bodies\<close>

lemma update_users_none: "lb_users (ie_labels (cg_enc s)) = [] \<Longrightarrow> update_branch_offsets s = Inr ((), s)"
  by (simp add: update_branch_offsets_def tr_simps rsimps)

lemma finish_code:
  assumes "tl_finish te s = Inr (cf, s')" "tle_fuel_costs te = None"
    and "ie_notified_preservation (cg_enc s) = None" "lb_users (ie_labels (cg_enc s)) = []"
  shows "cm_instrs cf = code_of s" "cm_consts cf = rev (fc_idx2const (consts_of s))"
    "cm_len_registers cf = consts_len (consts_of s) + ra_len_registers (ts_reg_alloc (cg_stack s))"
proof -
  obtain st where st: "ts_finalize_alloc (cg_stack s) = Inr st" and cf: "cf = \<lparr>cm_instrs = code_of s,
      cm_consts = ts_func_local_consts st, cm_len_registers = ts_len_registers st\<rparr>"
    using assms update_users_none [of "s\<lparr>cg_stack := _\<rparr>"]
    by (auto simp: tl_finish_def defrag_registers_def tr_simps rsimps split: if_splits)
  have "ts_consts st = consts_of s" "ra_len_registers (ts_reg_alloc st) = ra_len_registers (ts_reg_alloc (cg_stack s))"
    using st by (auto simp: ts_finalize_alloc_def ts_lift_alloc_def ra_finalize_alloc_def ra_len_registers_def rsimps split: if_splits)
  then show "cm_instrs cf = code_of s" "cm_consts cf = rev (fc_idx2const (consts_of s))"
    "cm_len_registers cf = consts_len (consts_of s) + ra_len_registers (ts_reg_alloc (cg_stack s))"
    by (simp_all add: cf ts_func_local_consts_def consts_iter_def ts_len_registers_def)
qed

text \<open>Without preserved registers, the frame has the constants and the registers below the highest dynamic one.\<close>

lemma frame_size:
  assumes "consts_inv c" "ra_min_preserve ra = 32766" "0 \<le> sint (ra_max_dynamic ra)" "sint (ra_max_dynamic ra) \<le> 32766"
  shows "uint (consts_len c + ra_len_registers ra) = int (length (fc_idx2const c)) + sint (ra_max_dynamic ra)"
proof -
  let ?n = "length (fc_idx2const c)" and ?mx = "sint (ra_max_dynamic ra)"
  have n: "?n < 2 ^ 15" "fc_next_idx c = const_reg ?n" using assms(1) by (simp_all add: consts_inv_def)
  then have "consts_len c = word_of_int (int ?n)"
    using sint_const_reg [of ?n] by (simp add: consts_len_def consts_first_index_def)
  moreover have "ra_len_registers ra = word_of_int ?mx"
    using assms(2-4) by (simp add: ra_len_registers_def i16_abs_diff_def max_len_locals_def)
  ultimately have "consts_len c + ra_len_registers ra = word_of_int (int ?n + ?mx)" by simp
  then show ?thesis using n(1) assms(3,4) uint_word_of_int [where 'a = 16, of "int ?n + ?mx"] by simp
qed

text \<open>
  The execution is at the start of the function \<open>f\<close>: its constants are in the registers below zero,
  the locals in the first ones, and the frame has all registers of the function.
\<close>

definition entered :: "('h, 'e) exec_env \<Rightarrow> engine_func \<Rightarrow> compiled_func \<Rightarrow> typed_val list \<Rightarrow> 'h exec \<Rightarrow> bool" where
  "entered env f cf ls ex \<longleftrightarrow> env_code env f = cf \<and> ex_ip ex = \<lparr>ip_func = f, ip_index = 0\<rparr> \<and> locals_read ex ls \<and>
    (\<forall>i < length (cm_consts cf). reg_get ex (const_reg i) = Some (rev (cm_consts cf) ! i)) \<and>
    (\<forall>r. 0 \<le> sint r \<longrightarrow> sint r < uint (cm_len_registers cf) - int (length (cm_consts cf)) \<longrightarrow> reg_get ex r \<noteq> None)"

lemma entered_runs:
  assumes ent: "entered env f cf ls ex" and ci: "consts_inv (consts_of s)"
    and cf: "cm_instrs cf = code_of s" "cm_consts cf = rev (fc_idx2const (consts_of s))"
      "cm_len_registers cf = consts_len (consts_of s) + ra_len_registers (ts_reg_alloc (cg_stack s))"
    and ra: "ra_min_preserve (ts_reg_alloc (cg_stack s)) = 32766" "0 \<le> sint (ra_max_dynamic (ts_reg_alloc (cg_stack s)))"
      "sint (ra_max_dynamic (ts_reg_alloc (cg_stack s))) \<le> 32766"
  shows "runs_code env ex s"
proof -
  have "consts_read ex s"
    unfolding consts_read_def
  proof (intro allI impI)
    fix r v assume "consts_get r (consts_of s) = Some v"
    then obtain i where "i < length (fc_idx2const (consts_of s))" "r = const_reg i" "fc_idx2const (consts_of s) ! i = v"
      using consts_get_Some [OF ci] by blast
    then show "reg_get ex r = Some v" using ent cf(2) by (auto simp: entered_def)
  qed
  moreover have "reg_get ex r \<noteq> None" if "ra_in_use (ts_reg_alloc (cg_stack s)) r" for r
  proof -
    have "0 \<le> sint r" "sint r < sint (ra_max_dynamic (ts_reg_alloc (cg_stack s)))"
      using that ra(1) by (auto simp: ra_in_use_def)
    then show ?thesis using ent cf frame_size [OF ci ra] by (simp add: entered_def)
  qed
  moreover have "cm_instrs (env_code env (ip_func (ex_ip ex))) = code_of s @ []" using ent cf(1) by (simp add: entered_def)
  ultimately show ?thesis unfolding runs_code_def by blast
qed

lemma tfor_append: "tfor f (xs @ ys) s = tseq (tfor f xs) (tfor f ys) s"
  by (induction xs arbitrary: s) (auto simp: tr_simps rsimps rbind_def split: sum.splits)

text \<open>The parts of the translation of a body of straight-line code.\<close>

lemma translate_function_parts:
  assumes "translate_function te alloc base lts (ops @ [(p, OpControl OpEnd)]) = Inr cf"
  obtains s0 s1 s2 pos s3 s4 where "translator_new te alloc = Inr s0" "driver_translate_locals lts s0 = Inr ((), s1)"
    "translate_operators te base ops s1 = Inr ((), s2)" "visit_end te (s2\<lparr>tl_visit_pos := pos\<rparr>) = Inr ((), s3)"
    "tl_finish te s3 = Inr (cf, s4)"
proof -
  from assms obtain s0 s1 s2' s4 where a: "translator_new te alloc = Inr s0" "driver_translate_locals lts s0 = Inr ((), s1)"
    "translate_operators te base (ops @ [(p, OpControl OpEnd)]) s1 = Inr ((), s2')" "tl_finish te s2' = Inr (cf, s4)"
    by (auto simp: translate_function_def tr_defs rsimps)
  then obtain s2 where b: "translate_operators te base ops s1 = Inr ((), s2)"
      "translate_operator te base (p, OpControl OpEnd) s2 = Inr ((), s2')"
    by (auto simp: translate_operators_def tfor_append tr_defs tl_defs rsimps)
  from translate_operator_Inr [OF b(2)] obtain pos where "visit_end te (s2\<lparr>tl_visit_pos := pos\<rparr>) = Inr ((), s2')" by auto
  then show thesis using a(1,2,4) b(1) that by blast
qed


lemma visit_end_last:
  assumes "ct_frames (tl_control s) = [BlockFrame f]" "visit_end te s = Inr ((), s')"
  obtains c where "tseq (end_of_function te f) reset_last_instr (s\<lparr>tl_control := c\<rparr>) = Inr ((), s')"
proof -
  have "tseq (end_of_function te f) reset_last_instr (s\<lparr>tl_control := (tl_control s)\<lparr>ct_frames := []\<rparr>\<rparr>) = Inr ((), s')"
    using assms by (auto simp: visit_end_def translate_end_block_def pop_frame_def tr_defs tl_defs rsimps)
  then show thesis by (rule that)
qed

lemma reset_last_same: "reset_last_instr s = Inr ((), s') \<Longrightarrow>
    code_of s' = code_of s \<and> consts_of s' = consts_of s \<and> cg_stack s' = cg_stack s"
  by (auto simp: reset_last_instr_def upd_enc_def rsimps)

text \<open>What a translation of straight-line code consists of; \<open>s3\<close> is its state after the last operator.\<close>

definition frame_regs :: "'m translator \<Rightarrow> reg" where
  "frame_regs s = ra_max_dynamic (ts_reg_alloc (cg_stack s))"

definition translated :: "('m, 'e) tl_env_scheme \<Rightarrow> nat \<Rightarrow> nat \<Rightarrow> (nat \<times> wasm_op) list \<Rightarrow> compiled_func \<Rightarrow>
    'm translator \<Rightarrow> 'm translator \<Rightarrow> 'm translator \<Rightarrow> 'm translator \<Rightarrow> block_frame \<Rightarrow> bool" where
  "translated te base n ops cf s1 s2 s2c s3 fr \<longleftrightarrow>
    fresh te n s1 \<and> ra_phase (ts_reg_alloc (cg_stack s1)) = PhaseAlloc \<and> translate_operators te base ops s1 = Inr ((), s2) \<and>
    (\<exists>pos c. s2c = s2\<lparr>tl_visit_pos := pos, tl_control := c\<rparr>) \<and>
    tseq (end_of_function te fr) reset_last_instr s2c = Inr ((), s3) \<and> grown s1 s2 \<and> grown s2c s3 \<and>
    cm_instrs cf = code_of s3 \<and> cm_consts cf = rev (fc_idx2const (consts_of s3)) \<and>
    cm_len_registers cf = consts_len (consts_of s3) + ra_len_registers (ts_reg_alloc (cg_stack s3)) \<and>
    ra_min_preserve (ts_reg_alloc (cg_stack s3)) = 32766 \<and> int n \<le> sint (frame_regs s3) \<and> sint (frame_regs s3) \<le> 32766"

lemma translation_facts:
  assumes laws: "stash_laws (te_stash te)" and fuel: "tle_fuel_costs te = None"
    and tr: "translate_function te alloc base lts (ops @ [(p, OpControl OpEnd)]) = Inr cf"
    and ops: "\<forall>p \<in> set ops. straight_op (snd p)" and t: "tl_func_type te (tle_func te) = Inr t"
  obtains s1 s2 s2c s3 fr where
    "translated te base (length (func_type_params t) + sum_list (map (unat \<circ> fst) lts)) ops cf s1 s2 s2c s3 fr"
proof -
  let ?n = "length (func_type_params t) + sum_list (map (unat \<circ> fst) lts)"
  obtain s0 s1 s2 pos s3 s4 where parts: "translator_new te alloc = Inr s0" "driver_translate_locals lts s0 = Inr ((), s1)"
    "translate_operators te base ops s1 = Inr ((), s2)" "visit_end te (s2\<lparr>tl_visit_pos := pos\<rparr>) = Inr ((), s3)"
    "tl_finish te s3 = Inr (cf, s4)"
    using translate_function_parts [OF tr] by metis
  have fresh: "fresh te ?n s1" and phase: "ra_phase (ts_reg_alloc (cg_stack s1)) = PhaseAlloc"
    using fresh_locals [OF parts(2) fresh_new [OF laws fuel parts(1) t]] by simp_all
  have g12: "grown s1 s2" using growsD [OF grows_operators [OF fuel ops] _ parts(3)] fresh by (simp add: fresh_def)
  obtain fr where fr: "ct_frames (tl_control s1) = [BlockFrame fr]" using fresh by (auto simp: fresh_def)
  let ?s2 = "s2\<lparr>tl_visit_pos := pos\<rparr>"
  have frs: "ct_frames (tl_control ?s2) = [BlockFrame fr]" using fr g12 by (simp add: grown_def)
  obtain c where end_run: "tseq (end_of_function te fr) reset_last_instr (?s2\<lparr>tl_control := c\<rparr>) = Inr ((), s3)"
    using visit_end_last [OF frs parts(4)] by blast
  have "consts_inv (consts_of s2)" using g12 by (simp add: grown_def)
  then have g23: "grown (?s2\<lparr>tl_control := c\<rparr>) s3"
    using growsD [OF grows_end_of_function [OF fuel] _ end_run] by simp
  have enc3: "ie_notified_preservation (cg_enc s3) = None" "lb_users (ie_labels (cg_enc s3)) = []"
    using fresh g12 g23 by (simp_all add: fresh_def grown_def)
  have "sint (ra_max_dynamic (ts_reg_alloc (cg_stack s1))) = int ?n" "?n < 32766"
    "ra_min_preserve (ts_reg_alloc (cg_stack s1)) = 32766"
    using fresh ra_fresh_inv [OF _ phase, of "te_stash te" ?n] by (simp_all add: fresh_def ra_fresh_def)
  then have regs: "ra_min_preserve (ts_reg_alloc (cg_stack s3)) = 32766" "int ?n \<le> sint (frame_regs s3)" "sint (frame_regs s3) \<le> 32766"
    using g12 g23 by (auto simp: grown_def more_registers_def frame_regs_def)
  have s2c: "\<exists>pos' c'. ?s2\<lparr>tl_control := c\<rparr> = s2\<lparr>tl_visit_pos := pos', tl_control := c'\<rparr>" by blast
  have "translated te base ?n ops cf s1 s2 (?s2\<lparr>tl_control := c\<rparr>) s3 fr"
    unfolding translated_def
    by (intro conjI fresh phase parts(3) s2c end_run g12 g23 finish_code [OF parts(5) fuel enc3] regs)
  then show thesis by (rule that)
qed

text \<open>The frame has room for the constants, the parameters and the locals.\<close>

lemma translated_frame:
  assumes "translated te base n ops cf s1 s2 s2c s3 fr"
  shows "length (cm_consts cf) + n \<le> unat (cm_len_registers cf)"
proof -
  have "grown s2c s3" and cf: "cm_consts cf = rev (fc_idx2const (consts_of s3))"
    "cm_len_registers cf = consts_len (consts_of s3) + ra_len_registers (ts_reg_alloc (cg_stack s3))"
    "ra_min_preserve (ts_reg_alloc (cg_stack s3)) = 32766" "int n \<le> sint (frame_regs s3)" "sint (frame_regs s3) \<le> 32766"
    using assms unfolding translated_def by blast+
  then have "consts_inv (consts_of s3)" by (simp add: grown_def)
  from frame_size [OF this cf(3)] cf
  have "uint (cm_len_registers cf) = int (length (cm_consts cf)) + sint (frame_regs s3)"
    by (simp add: frame_regs_def)
  then have "int (length (cm_consts cf) + n) \<le> uint (cm_len_registers cf)" using cf(4) by simp
  then show ?thesis unfolding uint_nat by (simp only: of_nat_le_iff)
qed

text \<open>
  The body is executed: either an instruction traps, or the return instruction is reached with the
  values that the body evaluates to.
\<close>

lemma translated_body:
  fixes env :: "('h, 'e) exec_env"
  assumes laws: "stash_laws (te_stash te)" and fuel: "tle_fuel_costs te = None" and nan: "env_nan env = te_nan te"
    and tr: "translated te base (length ls) ops cf s1 s2 s2c s3 fr" and ops: "\<forall>p \<in> set ops. straight_op (snd p)"
    and t: "tl_func_type te (tle_func te) = Inr t" "length (func_type_results t) \<le> 1" and ls: "all_canonical ls"
    and ent: "entered env f cf ls ex" and eval: "wasm_eval (te_nan te) ls (map snd ops) [] = Some res"
  shows "\<exists>ex1. exec_steps env ex ex1 \<and>
    (case res of
       Inl trap \<Rightarrow> exec_one env ex1 = Inl (XTrap trap)
     | Inr vs \<Rightarrow> frame_kept ex ex1 \<and> length (func_type_results t) \<le> length vs \<and>
         exec_one env ex1 = leave_with (map tv_value (take (length (func_type_results t)) vs)) ex1)"
proof -
  have fresh: "fresh te (length ls) s1" and phase: "ra_phase (ts_reg_alloc (cg_stack s1)) = PhaseAlloc"
    and run2: "translate_operators te base ops s1 = Inr ((), s2)"
    and end_run: "tseq (end_of_function te fr) reset_last_instr s2c = Inr ((), s3)"
    and g12: "grown s1 s2" and g23: "grown s2c s3" using tr by (simp_all add: translated_def)
  obtain pos c where s2c: "s2c = s2\<lparr>tl_visit_pos := pos, tl_control := c\<rparr>" using tr by (auto simp: translated_def)
  have "consts_inv (consts_of s3)" using g23 by (simp add: grown_def)
  then have run3: "runs_code env ex s3"
    using entered_runs [OF ent, of s3] tr by (simp add: translated_def frame_regs_def)
  note r1 = fresh_ready [OF fresh phase laws fuel nan]
  let ?fin = "s3\<lparr>tl_control := tl_control s2\<rparr>"
  have gfin: "grown s2 ?fin" using g23 by (simp add: grown_def s2c)
  have "runs_code env ex ?fin" using run3 by (simp add: runs_code_def consts_read_def)
  then have step: "in_step env te ?fin ex ls ex s1 []"
    using r1 ls ent fresh
    by (auto simp: in_step_def stack_reads_def values_of_def all_canonical_def entered_def at_end_def fresh_def)
  have types: "const_types s1 []" using fresh by (simp add: const_types_def provider_types_def fresh_def)
  note code = straight_code [OF run2 gfin ops step eval types]
  show ?thesis
  proof (cases res)
    case (Inl trap)
    then show ?thesis using code by auto
  next
    case (Inr vs)
    then obtain ex1 where ex1: "exec_steps env ex ex1" "in_step env te ?fin ex ls ex1 s2 vs" "const_types s2 vs"
      using code by auto
    have ready: "ready env te (\<lambda>_. 0) s2c" and reads: "stack_reads ex1 s2c (values_of vs)" "all_canonical vs"
      using ex1(2) by (simp_all add: in_step_def ready_def tl_inv_def stack_reads_def s2c)
    then have "tl_reachable s2c" by (simp add: ready_def)
    then obtain s3' where ret: "translate_return_with te FuelNone s2c = Inr ((), s3')" "reset_last_instr s3' = Inr ((), s3)"
      using end_run fuel by (auto simp: end_of_function_def bail_unreachable_def tr_defs rsimps)
    note same = reset_last_same [OF ret(2)]
    have run: "runs_code env ex1 s3" using ex1(2) by (simp add: in_step_def runs_code_def consts_read_def)
    then have "consts_read ex1 s3'" using same by (simp add: runs_code_def consts_read_def)
    from return_code [OF ready t ret(1) reads(1) _ reads(2) this] ex1(3) same
    obtain pos i where i: "code_of s3 = code_of s2 @ [iw pos (IRet i)]" "length (func_type_results t) \<le> length vs"
        "exec_return env i ex1 = leave_with (map tv_value (take (length (func_type_results t)) vs)) ex1"
      by (auto simp: const_types_def provider_types_def s2c)
    have "fetch_instr env (ex_ip ex1) = Inr (IRet i)"
      using fetch_next [OF run, of s2 "iw pos (IRet i)"] i(1) ex1(2) by (simp add: in_step_def iw_def)
    then have "exec_one env ex1 = exec_return env i ex1" by (simp add: exec_one_def)
    then show ?thesis using ex1(1,2) i(2,3) Inr by (auto simp: in_step_def)
  qed
qed

end
