(* ===== verification/Tr_Call.thy ===== *)
theory Tr_Call
  imports Tr_Whole Engine
begin

text \<open>
  Calls of translated functions from outside: the frame that a root call sets up is the one that the
  translator lays out, so the call returns what the body of the Wasm function evaluates to.
\<close>


section \<open>The frame of a root call\<close>

lemma root_frame:
  assumes "init_root_frame env func inst params st = Inr st'" "st_calls st = cs_reset c"
    and "length (cm_consts (env_code env func)) + length params \<le> unat (cm_len_registers (env_code env func))"
  shows "st_calls st' = c\<lparr>cs_instances := \<lparr>hv_head = Some inst, hv_rest = []\<rparr>,
      cs_frames := [\<lparr>cf_func = func, cf_instr_ptr = \<lparr>ip_func = func, ip_index = 0\<rparr>,
        cf_offsets = \<lparr>so_base = length (vs_values (st_values st)) + length (cm_consts (env_code env func)),
          so_frame = length (vs_values (st_values st))\<rparr>, cf_results = 0, cf_changed_instance = True\<rparr>]\<rparr>"
proof -
  let ?code = "env_code env func"
  obtain p offs vals where a: "vs_alloc_call_frame (unat (cm_len_registers ?code)) (cm_consts ?code) (st_values st) = Inr (p, offs, vals)"
    and c: "cs_push (call_frame_new func \<lparr>ip_func = func, ip_index = 0\<rparr> offs 0) (Some inst) (cs_reset c) = Inr (st_calls st')"
    using assms(1,2) by (auto simp: init_root_frame_def Let_def rsimps)
  from alloc_call_frame_layout [OF a assms(3)]
  have "offs = \<lparr>so_base = length (vs_values (st_values st)) + length (cm_consts ?code), so_frame = length (vs_values (st_values st))\<rparr>"
    by auto
  then show ?thesis using c
    by (cases "cs_instances c") (auto simp: cs_push_def cs_reset_def cs_push_instance_def hv_clear_def hv_last_def hv_push_def call_frame_new_def
        split: if_splits)
qed

lemma frame_get_at: "0 \<le> int sp + sint r \<Longrightarrow> int sp + sint r < int (length (vs_values s)) \<Longrightarrow>
    frame_get sp s r = Some (vs_values s ! nat (int sp + sint r))"
  by (simp add: frame_get_def register_offset_def)

text \<open>The constants of the function are below the stack pointer, in the order of their registers.\<close>

lemma root_entered:
  assumes ex: "ex_sp ex = n + length (cm_consts cf)" "ex_ip ex = \<lparr>ip_func = f, ip_index = 0\<rparr>" "env_code env f = cf"
    and vals: "vs_values (st_values (ex_stack ex)) = replicate n 0 @ cm_consts cf @ map tv_value ls @ zs"
    and len: "uint (cm_len_registers cf) = int (length (cm_consts cf) + length ls + length zs)" "length (cm_consts cf) < 2 ^ 15" "length ls < 2 ^ 15"
  shows "entered env f cf ls ex"
proof -
  let ?k = "length (cm_consts cf)" and ?vs = "vs_values (st_values (ex_stack ex))"
  have l: "int (length ?vs) = int n + uint (cm_len_registers cf)"
    using len(1) by (simp add: vals)
  have get: "reg_get ex r = Some (?vs ! nat (int (n + ?k) + sint r))"
    if "0 \<le> int (n + ?k) + sint r" "int ?k + sint r < uint (cm_len_registers cf)" for r
    using that frame_get_at [of "ex_sp ex" r "st_values (ex_stack ex)"] l by (simp add: reg_get_def ex(1))
  have "reg_get ex (const_reg i) = Some (rev (cm_consts cf) ! i)" if i: "i < ?k" for i
  proof -
    have s: "sint (const_reg i) = - 1 - int i" using i len(2) by (intro sint_const_reg) simp
    have "?vs ! nat (int (n + ?k) + sint (const_reg i)) = cm_consts cf ! (?k - Suc i)"
    proof -
      obtain j where j: "?k = i + Suc j" using i less_imp_Suc_add by fastforce
      then have "nat (int (n + ?k) + sint (const_reg i)) = n + j" "?k - Suc i = j" using s by simp_all
      then show ?thesis using j by (simp add: vals nth_append)
    qed
    moreover have "int ?k + sint (const_reg i) < uint (cm_len_registers cf)" using s len(1) by simp
    ultimately show ?thesis using get [of "const_reg i"] i s by (simp add: rev_nth)
  qed
  moreover have "locals_read ex ls"
    unfolding locals_read_def
  proof (intro allI impI)
    fix i assume i: "i < length ls"
    have s: "sint (of_nat i :: reg) = int i" using i len(3) by (intro sint_reg_of_nat) simp
    have "nat (int (n + ?k) + int i) = n + (?k + i)" by simp
    moreover have "int ?k + int i < uint (cm_len_registers cf)" using i len(1) by simp
    ultimately show "reg_get ex (of_nat i) = Some (tv_value (ls ! i))"
      using get [of "of_nat i"] i s by (simp add: vals nth_append)
  qed
  moreover have "reg_get ex r \<noteq> None" if "0 \<le> sint r" "sint r < uint (cm_len_registers cf) - int ?k" for r
    using get [of r] that by simp
  ultimately show ?thesis using ex by (simp add: entered_def)
qed

text \<open>The return from the root frame: the value goes to the first cell, and the frame is dropped.\<close>

lemma leave_root:
  assumes calls: "st_calls (ex_stack ex) = c\<lparr>cs_instances := \<lparr>hv_head = Some inst, hv_rest = []\<rparr>, cs_frames := [fr]\<rparr>"
    and fr: "cf_results fr = 0" "cf_changed_instance fr" "so_frame (cf_offsets fr) = length vs"
    and vals: "length vs \<le> length (vs_values (st_values (ex_stack ex)))" "length vs \<le> 1"
  shows "\<exists>ex'. leave_with vs ex = (Inr (Break, ex') :: 'e xerr + _) \<and> ex_store ex' = ex_store ex \<and>
    vs_values (st_values (ex_stack ex')) = vs"
proof -
  have ret: "\<exists>ex'. return_impl x = (Inr (Break, ex') :: 'e xerr + _) \<and> ex_store ex' = ex_store x \<and>
      vs_values (st_values (ex_stack ex')) = take (length vs) (vs_values (st_values (ex_stack x)))"
    if "st_calls (ex_stack x) = st_calls (ex_stack ex)" "length vs \<le> length (vs_values (st_values (ex_stack x)))" for x :: "'a exec"
    using that calls fr(2,3)
    by (simp add: return_impl_def cs_pop_def vec_pop_def vs_truncate_def cf_frame_offset_def hv_pop_def cs_instance_def
        hv_last_def cs_peek_def vec_last_def Let_def)
  show ?thesis
  proof (cases vs)
    case Nil
    then show ?thesis using ret [of ex] by (simp add: leave_with_def)
  next
    case (Cons v ws)
    then have vs: "vs = [v]" using vals(2) by simp
    then have "length vs = 1" by simp
    then have "0 < length (vs_values (st_values (ex_stack ex)))" using vals(1) by linarith
    then have ne: "vs_values (st_values (ex_stack ex)) \<noteq> []" by simp
    let ?x = "ex\<lparr>ex_stack := (ex_stack ex)\<lparr>st_values := (st_values (ex_stack ex))\<lparr>vs_values :=
        (vs_values (st_values (ex_stack ex)))[0 := v]\<rparr>\<rparr>\<rparr>"
    have "return_caller_results ex = (Inr (0, 0) :: 'e xerr + _)"
      using calls fr(1) by (simp add: return_caller_results_def cs_peek_2_def vec_last_def)
    moreover have "set_register_at 0 0 v ex = (Inr ?x :: 'e xerr + _)"
      using ne by (simp add: set_register_at_def reg_set_at_def frame_set_def register_offset_def Let_def)
    ultimately have "leave_with vs ex = (return_impl ?x :: 'e xerr + _)" by (simp add: leave_with_def vs exec_return_value_def)
    moreover have "take 1 ((vs_values (st_values (ex_stack ex)))[0 := v]) = [v]"
      using ne by (cases "vs_values (st_values (ex_stack ex))") simp_all
    ultimately show ?thesis using ret [of ?x] vals(1) vs by simp
  qed
qed


section \<open>Calls of translated functions\<close>

text \<open>The locals of a function start as zeros of their types.\<close>

definition zero_locals :: "(u32 \<times> val_type) list \<Rightarrow> typed_val list" where
  "zero_locals lts = concat (map (\<lambda>(amount, ty). replicate (unat amount) (typed_as ty 0)) lts)"

lemma zero_locals_values: "map tv_value (zero_locals lts) = replicate (length (zero_locals lts)) 0"
  by (induction lts) (auto simp: zero_locals_def typed_as_def replicate_add)

lemma zero_locals_length: "length (zero_locals lts) = sum_list (map (unat \<circ> fst) lts)"
  by (induction lts) (auto simp: zero_locals_def)

lemma zero_locals_canonical: "all_canonical (zero_locals lts)"
proof -
  have "canonical (typed_as ty 0)" for ty using canonical_of(1) [of ty 0] by (simp add: of_i32_def)
  then show ?thesis by (auto simp: all_canonical_def zero_locals_def)
qed

lemma root_call_entered:
  fixes env :: "('h, 'e) exec_env"
  assumes prep: "prepare_root_wasm env w (map tv_value params) n (stack_reset st) s = Inr (st1, s1)"
    and cf: "env_code env (wf_body w) = cf" and cache: "load_caches s1 (wf_instance w) = (Inr cache :: 'e xerr + _)"
    and tr: "translated te base (length (params @ zero_locals lts)) ops cf t1 t2 t2c t3 fr"
  obtains ex c frame where "execute_instrs env st1 s1 = execute env ex" "ex_store ex = s1"
    "entered env (wf_body w) cf (params @ zero_locals lts) ex"
    "st_calls (ex_stack ex) = c\<lparr>cs_instances := \<lparr>hv_head = Some (wf_instance w), hv_rest = []\<rparr>, cs_frames := [frame]\<rparr>"
    "cf_results frame = 0" "cf_changed_instance frame" "so_frame (cf_offsets frame) = n"
    "n \<le> length (vs_values (st_values (ex_stack ex)))"
proof -
  let ?ls = "params @ zero_locals lts" and ?k = "length (cm_consts cf)" and ?m = "unat (cm_len_registers cf)"
  obtain vals where v: "vs_extend_by n (st_values (stack_reset st)) = Inr vals"
    and i: "init_root_frame env (wf_body w) (wf_instance w) (map tv_value params) ((stack_reset st)\<lparr>st_values := vals\<rparr>) = Inr st1"
    using prepare_root_wasm_result [OF prep] by metis
  have vals: "vs_values vals = replicate n 0"
    using v by (auto simp: vs_extend_by_def uninit_cell_def split: if_splits)
  have room: "?k + length ?ls \<le> ?m" using translated_frame [OF tr] .
  then have room': "length (cm_consts (env_code env (wf_body w))) + length (map tv_value params) \<le> unat (cm_len_registers (env_code env (wf_body w)))"
    using cf by simp
  define frame where "frame = \<lparr>cf_func = wf_body w, cf_instr_ptr = \<lparr>ip_func = wf_body w, ip_index = 0\<rparr>,
      cf_offsets = \<lparr>so_base = n + ?k, so_frame = n\<rparr>, cf_results = 0, cf_changed_instance = True\<rparr>"
  have calls: "st_calls st1 = (st_calls st)\<lparr>cs_instances := \<lparr>hv_head = Some (wf_instance w), hv_rest = []\<rparr>, cs_frames := [frame]\<rparr>"
    using root_frame [OF i _ room', of "st_calls st"] cf vals by (simp add: frame_def)
  have cells: "vs_values (st_values st1) = replicate n 0 @ cm_consts cf @ map tv_value ?ls @ replicate (?m - ?k - length ?ls) 0"
  proof -
    have "?m - ?k - length params = length (zero_locals lts) + (?m - ?k - length ?ls)" using room by simp
    then show ?thesis using init_root_frame_values [OF i room'] cf vals
      by (simp add: zero_locals_values replicate_add)
  qed
  define ex where "ex = \<lparr>ex_sp = n + ?k, ex_ip = \<lparr>ip_func = wf_body w, ip_index = 0\<rparr>, ex_cache = cache, ex_stack = st1, ex_store = s1\<rparr>"
  have "cs_instance (st_calls st1) = Some (wf_instance w)" by (simp add: calls cs_instance_def hv_last_def)
  moreover have "executor_new st1 cache s1 = (Inr ex :: 'e xerr + _)"
    by (simp add: executor_new_def cs_peek_def calls vec_last_def ex_def frame_def cf_base_offset_def)
  ultimately have "execute_instrs env st1 s1 = execute env ex" using cache by (simp add: execute_instrs_def)
  moreover have "entered env (wf_body w) cf ?ls ex"
  proof (rule root_entered)
    show "vs_values (st_values (ex_stack ex)) = replicate n 0 @ cm_consts cf @ map tv_value ?ls @ replicate (?m - ?k - length ?ls) 0"
      using cells by (simp add: ex_def)
    have "?m = ?k + length ?ls + (?m - ?k - length ?ls)" using room by simp
    then show "uint (cm_len_registers cf) = int (?k + length ?ls + length (replicate (?m - ?k - length ?ls) (0 :: untyped_val)))"
      unfolding uint_nat by (simp only: length_replicate)
    show "?k < 2 ^ 15" "length ?ls < 2 ^ 15"
      using tr by (auto simp: translated_def grown_def consts_inv_def fresh_def ra_fresh_def simp del: length_append)
  qed (simp_all add: ex_def cf)
  moreover have "n \<le> length (vs_values (st_values (ex_stack ex)))" by (simp add: ex_def cells)
  ultimately show thesis using calls by (intro that [of ex frame "st_calls st"]) (simp_all add: ex_def frame_def)
qed

lemma call_of_translated:
  fixes env :: "('h, 'e) exec_env"
  assumes laws: "stash_laws (te_stash te)" and fuel: "tle_fuel_costs te = None" and nan: "env_nan env = te_nan te"
    and tr: "translate_function te alloc base lts (ops @ [(p, OpControl OpEnd)]) = Inr (env_code env (wf_body w))"
    and ops: "\<forall>q \<in> set ops. straight_op (snd q)"
    and t: "tl_func_type te (tle_func te) = Inr t" "length (func_type_results t) \<le> 1"
    and func: "resolve (ws_funcs s) func = (Inr (WasmFunc w) :: 'e xerr + _)"
    and params: "length params = length (func_type_params t)" "\<forall>v \<in> set params. canonical v"
    and prep: "prepare_root_wasm env w (map tv_value params) (length (func_type_results t)) (stack_reset st) s = Inr (st1, s1)"
    and cache: "load_caches s1 (wf_instance w) = (Inr cache :: 'e xerr + _)"
    and hook: "invoke_call_hook env ReturningFromWasm s1 = Inr s2"
    and eval: "wasm_eval (te_nan te) (params @ zero_locals lts) (map snd ops) [] = Some res"
  shows "case res of
      Inl trap \<Rightarrow> engine_execute_func env func (map tv_value params) (length (func_type_results t)) st s = Some (Inl (XTrap trap))
    | Inr vs \<Rightarrow> \<exists>st'. engine_execute_func env func (map tv_value params) (length (func_type_results t)) st s =
        Some (Inr (map tv_value (take (length (func_type_results t)) vs), st', s2))"
proof -
  let ?n = "length (func_type_results t)" and ?ls = "params @ zero_locals lts"
  obtain t1 t2 t2c t3 fr where "translated te base (length (func_type_params t) + sum_list (map (unat \<circ> fst) lts))
      ops (env_code env (wf_body w)) t1 t2 t2c t3 fr"
    using translation_facts [OF laws fuel tr ops t(1)] .
  then have tr': "translated te base (length ?ls) ops (env_code env (wf_body w)) t1 t2 t2c t3 fr"
    by (simp add: params(1) zero_locals_length)
  have can: "all_canonical ?ls" using params(2) zero_locals_canonical by (auto simp: all_canonical_def)
  obtain ex c frame where ex: "execute_instrs env st1 s1 = execute env ex" "ex_store ex = s1"
    "entered env (wf_body w) (env_code env (wf_body w)) ?ls ex"
    "st_calls (ex_stack ex) = c\<lparr>cs_instances := \<lparr>hv_head = Some (wf_instance w), hv_rest = []\<rparr>, cs_frames := [frame]\<rparr>"
    "cf_results frame = 0" "cf_changed_instance frame" "so_frame (cf_offsets frame) = ?n"
    "?n \<le> length (vs_values (st_values (ex_stack ex)))"
    using root_call_entered [OF prep refl cache tr'] .
  obtain ex1 where steps: "exec_steps env ex ex1" and stop: "case res of
       Inl trap \<Rightarrow> exec_one env ex1 = Inl (XTrap trap)
     | Inr vs \<Rightarrow> frame_kept ex ex1 \<and> ?n \<le> length vs \<and> exec_one env ex1 = leave_with (map tv_value (take ?n vs)) ex1"
    using translated_body [OF laws fuel nan tr' ops t can ex(3) eval] by blast
  have run: "execute_instrs env st1 s1 = execute env ex1" using ex(1) exec_steps_execute [OF steps] by simp
  show ?thesis
  proof (cases res)
    case (Inl trap)
    then have "execute env ex1 = Some (Inl (XTrap trap))" using stop by (simp add: execute.simps [of env ex1])
    then show ?thesis using run Inl func prep by (simp add: engine_execute_func_def execute_root_func_def)
  next
    case (Inr vs)
    let ?rs = "map tv_value (take ?n vs)"
    have kept: "frame_kept ex ex1" and n: "length ?rs = ?n" and one: "exec_one env ex1 = leave_with ?rs ex1"
      using stop Inr by simp_all
    have "\<exists>ex'. leave_with ?rs ex1 = (Inr (Break, ex') :: 'e xerr + _) \<and> ex_store ex' = ex_store ex1 \<and>
        vs_values (st_values (ex_stack ex')) = ?rs"
      by (rule leave_root) (use kept n ex(4-8) t(2) in \<open>simp_all add: frame_kept_def\<close>)
    then obtain ex' where "exec_one env ex1 = Inr (Break, ex')" "ex_store ex' = s1" "vs_values (st_values (ex_stack ex')) = ?rs"
      using one kept ex(2) by (auto simp: frame_kept_def)
    moreover from this(1) have "execute env ex1 = Some (Inr ex')" by (simp add: execute.simps [of env ex1])
    moreover have "get_range 0 ?n ?rs = Some ?rs" using n by (simp add: get_range_def)
    ultimately show ?thesis using run Inr func prep hook
      by (auto simp: engine_execute_func_def execute_root_func_def write_results_back_def)
  qed
qed


section \<open>An example\<close>

text \<open>The function that multiplies its parameter by 70000.\<close>

definition demo_te :: "nat option list tl_env" where
  "demo_te = \<lparr>te_stash = list_stash, te_nan = demo_nan, te_types = (\<lambda>_. FtInline 1 1 [I32, I32]),
     te_module = \<lparr>mh_func_types = [0], mh_funcs = [0], mh_len_imported_funcs = 0, mh_len_imported_globals = 0,
       mh_globals = [], mh_globals_init = [], mh_engine_funcs_start = 0, mh_engine_funcs_end = 1\<rparr>,
     tle_func = 0, tle_fuel_costs = None\<rparr>"

definition demo_alloc :: "nat option list translator" where
  "demo_alloc = \<lparr>cg_stack = \<lparr>ts_providers = \<lparr>ps_providers = [], ps_len_locals = 0, ps_use_locals = False,
         ps_locals = \<lparr>lr_locals_last = [], lr_entries = \<lparr>le_next_free = None, le_entries = []\<rparr>\<rparr>\<rparr>,
       ts_reg_alloc = \<lparr>ra_preservations = [], ra_removed_preserved = [], ra_phase = PhaseInit, ra_len_locals = 0,
         ra_next_dynamic = 0, ra_max_dynamic = 0, ra_min_preserve = 0, ra_defrag_offset = 0\<rparr>,
       ts_consts = \<lparr>fc_const2idx = Map.empty, fc_idx2const = [], fc_next_idx = 0\<rparr>, ts_local_value_types = []\<rparr>,
     cg_enc = \<lparr>ie_instrs = [], ie_labels = \<lparr>lb_labels = [], lb_users = []\<rparr>, ie_last_instr = None,
       ie_notified_preservation = None\<rparr>,
     tl_reachable = False, tl_control = \<lparr>ct_frames = [], ct_else_providers = \<lparr>sl_ends = [], sl_providers = []\<rparr>\<rparr>,
     tl_visit_pos = 0\<rparr>"

definition demo_ops :: "(nat \<times> wasm_op) list" where
  "demo_ops = [(1, OpVariable (OpLocalGet 0)), (3, OpVariable (OpI32Const 70000)), (8, OpNumeric (OpComm I32Mul))]"



text \<open>The definitions by which the translation computes.\<close>

lemmas demo_start = translator_new_def init_func_body_block_def init_func_params_def make_fuel_instr_def enc_new_label_def new_label_def
    translator_reset_def ts_reset_def enc_reset_def control_reset_def labels_reset_def push_frame_def ps_reset_def consts_reset_def
    ra_reset_def slices_reset_def lr_reset_def le_reset_def demo_te_def demo_alloc_def get_type_of_func_def tl_func_type_def
    ts_register_locals_def ts_lift_alloc_def ra_register_locals_def bump_locals_def get_at_def ok_or_def Let_def upd_stack_def max_len_locals_def
    block_frame_new_def word_le_nat_alt initial_preservation_index_def consts_first_index_def
    translate_function_def driver_translate_locals_def tl_finish_translate_locals_def ts_finish_register_locals_def
    ra_finish_register_locals_def translate_operators_def translate_operator_def update_visit_pos_def demo_ops_def
    visit_local_get_def bail_unreachable_def ts_push_local_def ts_push_tagged_def ps_push_def
    visit_i32_const_def push_const_op_def ts_push_const_def ra_is_local_def ra_min_dynamic_def reg_is_const_def
    visit_comm_defs translate_binary_commutative_def no_custom_opt_def or_else_def try_opts_def ts_pop2_def ts_pop_def ps_pop_def
    ra_pop_provider_def vec_pop_def binary_commutative_imm_def try_push_binary_instr_imm16_def push_binary_instr_imm_def
    const16_of_i32_def emit_def push_base_instr_def push_fueled_def tl_bump_fuel_def fuel_info_of_def bump_fuel_consumption_def
    push_instr_def append_instr_def seq_push_def seq_next_instr_def iw_def ts_push_dynamic_def ra_push_dynamic_def i16_max_def
    ts_alloc_const_def consts_alloc_def consts_last_index_def imm_is_def comm_def comm16_def visit_end_def translate_end_block_def
    pop_frame_def end_of_function_def translate_return_with_def ts_pop_n_def encode_return_def push_return_def reset_last_instr_def
    tl_finish_def defrag_registers_def ts_finalize_alloc_def ra_finalize_alloc_def update_branch_offsets_def
    ts_len_registers_def ts_func_local_consts_def ra_len_registers_def consts_len_def consts_iter_def i16_abs_diff_def
    ra_pop_dynamic_def i16_saturating_add_def tv_i32_def of_i32_def to_i32_def opt_when_def

definition demo_code :: compiled_func where
  "demo_code = \<lparr>cm_instrs = [iw 8 (INum (IComm I32Mul 1 0 (-1))), iw 9 (IRet (IReturnReg 1))], cm_consts = [70000], cm_len_registers = 3\<rparr>"

lemma demo_translation: "translate_function demo_te demo_alloc 0 [] (demo_ops @ [(9, OpControl OpEnd)]) = Inr demo_code"
  by (simp add: demo_code_def demo_start tr_simps rsimps)

definition demo_tr_env :: "(unit, unit) exec_env" where
  "demo_tr_env = demo_env\<lparr>env_code := \<lambda>_. demo_code\<rparr>"

definition demo_tr_store :: "unit wstore" where
  "demo_tr_store = demo_store\<lparr>ws_funcs := [WasmFunc \<lparr>wf_type = 0, wf_body = 0, wf_instance = 0\<rparr>]\<rparr>"


section \<open>Compiler correctness\<close>

text \<open>
  C1. The compiler is correct for functions with a straight-line body: when the engine calls a
  function whose code the translator has made, the call ends, without undefined behaviour, with the
  results that the operators of the body yield on the arguments and the zeroed locals, or with the
  trap that they run into. The store is the one that the call hooks leave. The body consists of
  constants, reads of locals, drops and the numeric operators other than \<open>i32.eqz\<close> and the seven binary
  operators on floats of either width (addition to copysign); the function has at most one result,
  and metering is off.
\<close>
theorem translated_call_returns:
  fixes env :: "('h, 'e) exec_env"
  assumes laws: "stash_laws (te_stash te)" and fuel: "tle_fuel_costs te = None" and nan: "env_nan env = te_nan te"
    and tr: "translate_function te alloc base lts (ops @ [(p, OpControl OpEnd)]) = Inr (env_code env (wf_body w))"
    and ops: "\<forall>q \<in> set ops. straight_op (snd q)"
    and t: "tl_func_type te (tle_func te) = Inr t" "length (func_type_results t) \<le> 1"
    and func: "resolve (ws_funcs s) func = (Inr (WasmFunc w) :: 'e xerr + _)"
    and params: "length params = length (func_type_params t)" "\<forall>v \<in> set params. canonical v"
    and prep: "prepare_root_wasm env w (map tv_value params) (length (func_type_results t)) (stack_reset st) s = Inr (st1, s1)"
    and cache: "load_caches s1 (wf_instance w) = (Inr cache :: 'e xerr + _)"
    and hook: "invoke_call_hook env ReturningFromWasm s1 = Inr s2"
    and eval: "wasm_eval (te_nan te) (params @ zero_locals lts) (map snd ops) [] = Some res"
  shows "case res of
      Inl trap \<Rightarrow> engine_execute_func env func (map tv_value params) (length (func_type_results t)) st s = Some (Inl (XTrap trap))
    | Inr vs \<Rightarrow> \<exists>st'. engine_execute_func env func (map tv_value params) (length (func_type_results t)) st s =
        Some (Inr (map tv_value (take (length (func_type_results t)) vs), st', s2))"
  by (rule call_of_translated [OF assms])

lemma translated_call_returns_witness:
  defines "st \<equiv> \<lparr>st_calls = cs_new 10, st_values = \<lparr>vs_values = [], vs_max_len = 100\<rparr>\<rparr>"
  shows "\<exists>st'. engine_execute_func demo_tr_env 0 [6] 1 st demo_tr_store = Some (Inr ([420000], st', demo_tr_store))"
proof -
  let ?t = "FtInline 1 1 [I32, I32]" and ?w = "\<lparr>wf_type = 0, wf_body = 0, wf_instance = 0\<rparr>"
  have te: "stash_laws (te_stash demo_te)" "tle_fuel_costs demo_te = None" "env_nan demo_tr_env = te_nan demo_te"
    "tl_func_type demo_te (tle_func demo_te) = Inr ?t"
    by (simp_all add: demo_te_def list_stash_laws demo_tr_env_def demo_defs tl_func_type_def get_type_of_func_def get_at_def rsimps)
  have tr: "translate_function demo_te demo_alloc 0 [] (demo_ops @ [(9, OpControl OpEnd)]) = Inr (env_code demo_tr_env (wf_body ?w))"
    by (simp add: demo_translation demo_tr_env_def)
  have ops: "\<forall>q \<in> set demo_ops. straight_op (snd q)" by (simp add: demo_ops_def)
  have "\<exists>st1. prepare_root_wasm demo_tr_env ?w (map tv_value [tv_i32 6]) (length (func_type_results ?t)) (stack_reset st) demo_tr_store = Inr (st1, demo_tr_store)"
    by (simp add: prepare_root_wasm_def init_root_frame_def invoke_call_hook_def demo_defs demo_tr_env_def demo_tr_store_def st_def demo_code_def
        stack_reset_def vs_reset_def vs_extend_by_def vs_alloc_call_frame_def cs_reset_def cs_push_def
        cs_push_instance_def cs_new_def hv_clear_def hv_default_def hv_last_def hv_push_def lift_trap_def
        fp_init_zeroes_def call_frame_new_def Let_def fp_init_next_def)
  then obtain st1 where prep: "prepare_root_wasm demo_tr_env ?w (map tv_value [tv_i32 6]) (length (func_type_results ?t)) (stack_reset st) demo_tr_store
      = Inr (st1, demo_tr_store)" ..
  have eval: "wasm_eval (te_nan demo_te) ([tv_i32 6] @ zero_locals []) (map snd demo_ops) [] = Some (Inr [typed_as I32 420000])"
    by (simp add: demo_ops_def zero_locals_def tv_i32_def i32_mul_def execute_binary_def of_i32_def to_i32_def arith_mul_def)
  have cache: "load_caches demo_tr_store (wf_instance ?w) = (Inr \<lparr>ci_instance = 0, ci_memory = None, ci_global = None\<rparr> :: unit xerr + _)"
    by (simp add: load_caches_Inr demo_tr_store_def demo_store_def get_at_def)
  have func: "resolve (ws_funcs demo_tr_store) 0 = (Inr (WasmFunc ?w) :: unit xerr + _)"
    by (simp add: demo_tr_store_def resolve_def get_at_def)
  have hook: "invoke_call_hook demo_tr_env ReturningFromWasm demo_tr_store = Inr demo_tr_store"
    by (simp add: invoke_call_hook_def demo_tr_env_def demo_defs)
  have params: "length (func_type_results ?t) \<le> 1" "length [tv_i32 6] = length (func_type_params ?t)" "\<forall>v \<in> set [tv_i32 6]. canonical v"
    by simp_all
  show ?thesis
    using translated_call_returns [OF te(1-3) tr ops te(4) params(1) func params(2,3) prep cache hook eval]
    by (simp add: tv_i32_def typed_as_def of_i32_def)
qed

section \<open>Types\<close>

definition has_types :: "val_type list \<Rightarrow> (trap_code + typed_val list) \<Rightarrow> bool" where
  "has_types ts res = (case res of Inl _ \<Rightarrow> True | Inr vs \<Rightarrow> map tv_ty vs = ts)"

lemma has_types_rmap: "has_types (r # map tv_ty vs) (rmap (\<lambda>v. typed_as r v # vs) x)"
  by (cases x) (simp_all add: has_types_def)

lemma check_numeric_sound:
  assumes "check_numeric nan op (map tv_ty vs) = Some ts"
  shows "\<exists>res. wasm_numeric nan op vs = Some res \<and> has_types ts res"
proof -
  have one: "\<exists>res. wasm_numeric nan op [b] = Some res \<and> has_types ts res" if "check_numeric nan op [tv_ty b] = Some ts" for b
    using that has_types_rmap [of _ "[]"] by (cases "wasm_fn1 nan op") (auto split: if_splits)
  have two: "\<exists>res. wasm_numeric nan op (b # a # ws) = Some res \<and> has_types ts res"
    if c: "check_numeric nan op (tv_ty b # tv_ty a # map tv_ty ws) = Some ts" for a b ws
  proof (cases "wasm_fn2 op")
    case None
    then show ?thesis using c has_types_rmap [of _ "a # ws"] by (cases "wasm_fn1 nan op") (auto split: if_splits)
  next
    case (Some f)
    then show ?thesis using c has_types_rmap [of _ ws] by (auto split: if_splits prod.splits)
  qed
  show ?thesis
  proof (cases vs)
    case Nil
    then show ?thesis using assms by simp
  next
    case (Cons b us)
    then show ?thesis using assms one two by (cases us) simp_all
  qed
qed

lemma check_op_sound:
  "check_op nan (map tv_ty ls) op (map tv_ty vs) = Some ts \<Longrightarrow> \<exists>res. wasm_op_step nan ls op vs = Some res \<and> has_types ts res"
proof (cases op)
  case (OpNumeric n)
  then show "check_op nan (map tv_ty ls) op (map tv_ty vs) = Some ts \<Longrightarrow> ?thesis"
    using check_numeric_sound [of nan n vs ts] by simp
next
  case (OpVariable v)
  then show "check_op nan (map tv_ty ls) op (map tv_ty vs) = Some ts \<Longrightarrow> ?thesis"
    by (cases v; cases vs) (auto simp: has_types_def split: if_splits)
qed simp_all

text \<open>Progress and preservation.\<close>

lemma check_ops_sound:
  "check_ops nan (map tv_ty ls) ops (map tv_ty vs) = Some ts \<Longrightarrow>
    \<exists>res. wasm_eval nan ls ops vs = Some res \<and> has_types ts res"
proof (induction ops arbitrary: vs)
  case (Cons op ops)
  then obtain us where us: "check_op nan (map tv_ty ls) op (map tv_ty vs) = Some us" "check_ops nan (map tv_ty ls) ops us = Some ts"
    by (auto simp: bind_eq_Some_conv)
  obtain res where res: "wasm_op_step nan ls op vs = Some res" "has_types us res" using check_op_sound [OF us(1)] by blast
  show ?case
  proof (cases res)
    case (Inl t)
    then show ?thesis using res(1) by (simp add: has_types_def)
  next
    case (Inr ws)
    then show ?thesis using res us(2) Cons.IH [of ws] by (simp add: has_types_def)
  qed
qed (simp add: has_types_def)

lemma zero_locals_types: "map tv_ty (zero_locals lts) = concat (map (\<lambda>(amount, ty). replicate (unat amount) ty) lts)"
  by (induction lts) (auto simp: zero_locals_def)

text \<open>
  C6. A call of a translated function ends: when the straight-line body of the function has the
  type of the function, a call with arguments of the right types neither runs forever nor panics
  nor reaches undefined behaviour; it returns as many results as the type says, or a trap. The body
  consists of constants, reads of locals, drops and the numeric operators other than \<open>i32.eqz\<close> and the
  binary operators on floats; the function has at most one result, and metering is off. The root frame
  fits into the stack, and the call hooks do not fail.
\<close>
theorem well_typed_call_ends:
  fixes env :: "('h, 'e) exec_env"
  assumes laws: "stash_laws (te_stash te)" and fuel: "tle_fuel_costs te = None" and nan: "env_nan env = te_nan te"
    and tr: "translate_function te alloc base lts (ops @ [(p, OpControl OpEnd)]) = Inr (env_code env (wf_body w))"
    and t: "tl_func_type te (tle_func te) = Inr t" "length (func_type_results t) \<le> 1"
    and typed: "\<forall>q \<in> set ops. straight_op (snd q)"
      "check_ops (te_nan te) (func_type_params t @ concat (map (\<lambda>(amount, ty). replicate (unat amount) ty) lts))
        (map snd ops) [] = Some (func_type_results t)"
    and func: "resolve (ws_funcs s) func = (Inr (WasmFunc w) :: 'e xerr + _)"
    and params: "map tv_ty params = func_type_params t" "\<forall>v \<in> set params. canonical v"
    and prep: "prepare_root_wasm env w (map tv_value params) (length (func_type_results t)) (stack_reset st) s = Inr (st1, s1)"
    and cache: "load_caches s1 (wf_instance w) = (Inr cache :: 'e xerr + _)"
    and hook: "invoke_call_hook env ReturningFromWasm s1 = Inr s2"
  shows "(\<exists>trap. engine_execute_func env func (map tv_value params) (length (func_type_results t)) st s = Some (Inl (XTrap trap))) \<or>
    (\<exists>rs st'. engine_execute_func env func (map tv_value params) (length (func_type_results t)) st s = Some (Inr (rs, st', s2)) \<and>
       length rs = length (func_type_results t))"
proof -
  have "check_ops (te_nan te) (map tv_ty (params @ zero_locals lts)) (map snd ops) (map tv_ty []) = Some (func_type_results t)"
    using typed(2) params(1) by (simp add: zero_locals_types)
  from check_ops_sound [OF this] obtain res where
    eval: "wasm_eval (te_nan te) (params @ zero_locals lts) (map snd ops) [] = Some res" and ts: "has_types (func_type_results t) res"
    by blast
  have len: "length params = length (func_type_params t)" using params(1) by (metis length_map)
  from call_of_translated [OF laws fuel nan tr typed(1) t func len params(2) prep cache hook eval] ts
  show ?thesis
    by (cases res) (auto simp: has_types_def dest!: arg_cong [where f = length])
qed

lemma well_typed_call_ends_witness:
  defines "st \<equiv> \<lparr>st_calls = cs_new 10, st_values = \<lparr>vs_values = [], vs_max_len = 100\<rparr>\<rparr>"
  shows "(\<exists>trap. engine_execute_func demo_tr_env 0 [6] 1 st demo_tr_store = Some (Inl (XTrap trap))) \<or>
    (\<exists>rs st'. engine_execute_func demo_tr_env 0 [6] 1 st demo_tr_store = Some (Inr (rs, st', demo_tr_store)) \<and> length rs = 1)"
proof -
  let ?t = "FtInline 1 1 [I32, I32]" and ?w = "\<lparr>wf_type = 0, wf_body = 0, wf_instance = 0\<rparr>"
  have te: "stash_laws (te_stash demo_te)" "tle_fuel_costs demo_te = None" "env_nan demo_tr_env = te_nan demo_te"
    "tl_func_type demo_te (tle_func demo_te) = Inr ?t"
    by (simp_all add: demo_te_def list_stash_laws demo_tr_env_def demo_defs tl_func_type_def get_type_of_func_def get_at_def rsimps)
  have tr: "translate_function demo_te demo_alloc 0 [] (demo_ops @ [(9, OpControl OpEnd)]) = Inr (env_code demo_tr_env (wf_body ?w))"
    by (simp add: demo_translation demo_tr_env_def)
  have ops: "\<forall>q \<in> set demo_ops. straight_op (snd q)" by (simp add: demo_ops_def)
  have "\<exists>st1. prepare_root_wasm demo_tr_env ?w (map tv_value [tv_i32 6]) (length (func_type_results ?t)) (stack_reset st) demo_tr_store = Inr (st1, demo_tr_store)"
    by (simp add: prepare_root_wasm_def init_root_frame_def invoke_call_hook_def demo_defs demo_tr_env_def demo_tr_store_def st_def demo_code_def
        stack_reset_def vs_reset_def vs_extend_by_def vs_alloc_call_frame_def cs_reset_def cs_push_def
        cs_push_instance_def cs_new_def hv_clear_def hv_default_def hv_last_def hv_push_def lift_trap_def
        fp_init_zeroes_def call_frame_new_def Let_def fp_init_next_def)
  then obtain st1 where prep: "prepare_root_wasm demo_tr_env ?w (map tv_value [tv_i32 6]) (length (func_type_results ?t)) (stack_reset st) demo_tr_store
      = Inr (st1, demo_tr_store)" ..
  have typed: "check_ops (te_nan demo_te) (func_type_params ?t @ concat (map (\<lambda>(amount, ty). replicate (unat amount) ty) []))
      (map snd demo_ops) [] = Some (func_type_results ?t)"
    by (simp add: demo_ops_def)
  have cache: "load_caches demo_tr_store (wf_instance ?w) = (Inr \<lparr>ci_instance = 0, ci_memory = None, ci_global = None\<rparr> :: unit xerr + _)"
    by (simp add: load_caches_Inr demo_tr_store_def demo_store_def get_at_def)
  have func: "resolve (ws_funcs demo_tr_store) 0 = (Inr (WasmFunc ?w) :: unit xerr + _)"
    by (simp add: demo_tr_store_def resolve_def get_at_def)
  have hook: "invoke_call_hook demo_tr_env ReturningFromWasm demo_tr_store = Inr demo_tr_store"
    by (simp add: invoke_call_hook_def demo_tr_env_def demo_defs)
  have params: "length (func_type_results ?t) \<le> 1" "map tv_ty [tv_i32 6] = func_type_params ?t" "\<forall>v \<in> set [tv_i32 6]. canonical v"
    by simp_all
  show ?thesis
    using well_typed_call_ends [OF te(1-3) tr te(4) params(1) ops typed func params(2,3) prep cache hook]
    by (auto simp: tv_i32_def of_i32_def)
qed

text \<open>
  C40. The emulated stack of the translator follows the types of Wasm: after the operators of a
  straight-line body, the stack has one provider per value of the body's type, and a provider that
  is a constant, folded or not, has the type of its value and the bits of a value of that type. The
  body consists of constants, reads of locals, drops and the numeric operators other than \<open>i32.eqz\<close>
  and the binary operators on floats; metering is off, and the end of the body is reachable.
\<close>
theorem translated_stack_typed:
  assumes laws: "stash_laws (te_stash te)" and fuel: "tle_fuel_costs te = None"
    and new: "translator_new te alloc = Inr s0" "tl_func_type te (tle_func te) = Inr t"
    and locals: "driver_translate_locals lts s0 = Inr ((), s1)"
    and run: "translate_operators te base ops s1 = Inr ((), s2)" "tl_reachable s2"
    and typed: "\<forall>q \<in> set ops. straight_op (snd q)"
      "check_ops (te_nan te) (func_type_params t @ concat (map (\<lambda>(amount, ty). replicate (unat amount) ty) lts))
        (map snd ops) [] = Some ts"
  shows "length (providers s2) = length ts \<and>
    (\<forall>i < length ts. \<forall>c. rev (providers s2) ! i = TagConstValue c \<longrightarrow> tv_ty c = ts ! i \<and> canonical c)"
proof -
  have "providers s1 = []" using fresh_locals [OF locals fresh_new [OF laws fuel new]] by (simp add: fresh_def)
  then have "provider_types s2 ts" using provider_types_operators [OF fuel typed(1) run(1) typed(2) _ run(2)] by (simp add: provider_types_def)
  then have "list_all2 (\<lambda>p t. const_ok t p) (rev (providers s2)) ts" by (simp add: provider_types_def list_all2_rev1)
  then show ?thesis by (auto simp: list_all2_conv_all_nth const_ok_def)
qed

lemma translated_stack_typed_witness:
  "\<exists>s0 s1 s2. translator_new demo_te demo_alloc = Inr s0 \<and> driver_translate_locals [] s0 = Inr ((), s1) \<and>
    translate_operators demo_te 0 (take 2 demo_ops) s1 = Inr ((), s2) \<and> length (providers s2) = 2 \<and>
    (\<forall>c. rev (providers s2) ! 0 = TagConstValue c \<longrightarrow> tv_ty c = I32)"
proof -
  have "\<exists>s0 s1 s2. translator_new demo_te demo_alloc = Inr s0 \<and> driver_translate_locals [] s0 = Inr ((), s1) \<and>
      translate_operators demo_te 0 (take 2 demo_ops) s1 = Inr ((), s2) \<and> tl_reachable s2"
    by (simp add: demo_start tr_simps rsimps)
  then obtain s0 s1 s2 where s: "translator_new demo_te demo_alloc = Inr s0" "driver_translate_locals [] s0 = Inr ((), s1)"
      "translate_operators demo_te 0 (take 2 demo_ops) s1 = Inr ((), s2)" "tl_reachable s2"
    by blast
  have te: "stash_laws (te_stash demo_te)" "tle_fuel_costs demo_te = None" "tl_func_type demo_te (tle_func demo_te) = Inr (FtInline 1 1 [I32, I32])"
    by (simp_all add: demo_te_def list_stash_laws tl_func_type_def get_type_of_func_def get_at_def rsimps)
  have typed: "\<forall>q \<in> set (take 2 demo_ops). straight_op (snd q)"
    "check_ops (te_nan demo_te) (func_type_params (FtInline 1 1 [I32, I32]) @ concat (map (\<lambda>(amount, ty). replicate (unat amount) ty) []))
      (map snd (take 2 demo_ops)) [] = Some [I32, I32]"
    by (simp_all add: demo_ops_def)
  show ?thesis using s translated_stack_typed [OF te(1,2) s(1) te(3) s(2,3,4) typed] by fastforce
qed

end
