(* ===== verification/Handles.thy ===== *)
theory Handles
  imports Engine
begin

text \<open>
  The store as its users see it (\<open>wasmi/src/store.rs\<close>, \<open>table/mod.rs\<close>, \<open>memory/mod.rs\<close>,
  \<open>global.rs\<close>): allocation of entities, and the operations on the handles of tables, memories and
  globals. An operation takes the store and yields a result, or an error, together with the store
  that it leaves: an error keeps what has been done before it. The guard of a handle, the index of
  its store, is left out: there is one store.
\<close>


section \<open>Operations on a state that can fail\<close>

type_synonym ('s, 'e, 'a) st_res = "'s \<Rightarrow> ('e + 'a) \<times> 's"

named_theorems st_simps \<open>unfolding of operations on a state\<close>

definition st_ok :: "'a \<Rightarrow> ('s, 'e, 'a) st_res" where
  "st_ok x s = (Inr x, s)"

definition st_err :: "'e \<Rightarrow> ('s, 'e, 'a) st_res" where
  "st_err e s = (Inl e, s)"

definition st_lift :: "'e + 'a \<Rightarrow> ('s, 'e, 'a) st_res" where
  "st_lift r s = (r, s)"

definition st_bind :: "('s, 'e, 'a) st_res \<Rightarrow> ('a \<Rightarrow> ('s, 'e, 'b) st_res) \<Rightarrow> ('s, 'e, 'b) st_res" where
  "st_bind m f s = (case m s of (Inl e, s') \<Rightarrow> (Inl e, s') | (Inr x, s') \<Rightarrow> f x s')"

definition st_read :: "('s \<Rightarrow> ('s, 'e, 'a) st_res) \<Rightarrow> ('s, 'e, 'a) st_res" where
  "st_read f s = f s s"

definition map_err :: "('e \<Rightarrow> 'f) \<Rightarrow> 'e + 'a \<Rightarrow> 'f + 'a" where
  "map_err f r = (case r of Inl e \<Rightarrow> Inl (f e) | Inr x \<Rightarrow> Inr x)"

text \<open>A \<open>for\<close> loop that collects the results: the first error ends it.\<close>

primrec st_map :: "('a \<Rightarrow> ('s, 'e, 'b) st_res) \<Rightarrow> 'a list \<Rightarrow> ('s, 'e, 'b list) st_res" where
  "st_map f [] = st_ok []"
| "st_map f (x # xs) = st_bind (f x) (\<lambda>y. st_bind (st_map f xs) (\<lambda>ys. st_ok (y # ys)))"

text \<open>A \<open>for\<close> loop over a local variable.\<close>

primrec st_fold :: "('a \<Rightarrow> 'b \<Rightarrow> ('s, 'e, 'b) st_res) \<Rightarrow> 'a list \<Rightarrow> 'b \<Rightarrow> ('s, 'e, 'b) st_res" where
  "st_fold f [] b = st_ok b"
| "st_fold f (x # xs) b = st_bind (f x b) (st_fold f xs)"

lemma st_result_simps [simp, st_simps]:
  "st_ok x s = (Inr x, s)" "st_err e s = (Inl e, s)" "st_lift r s = (r, s)" "st_read g s = g s s"
  by (simp_all add: st_ok_def st_err_def st_lift_def st_read_def)

lemma map_err_simps [simp, rsimps]: "map_err f (Inl e) = Inl (f e)" "map_err f (Inr x) = Inr x"
  by (simp_all add: map_err_def)

lemma map_err_eq_Inr [rsimps]: "map_err f r = Inr x \<longleftrightarrow> r = Inr x"
  by (cases r) simp_all

lemma st_bind_cases:
  obtains e s' where "m s = (Inl e, s')" "st_bind m f s = (Inl e, s')"
  | x s' where "m s = (Inr x, s')" "st_bind m f s = f x s'"
  by (cases "m s"; cases "fst (m s)") (auto simp: st_bind_def)

lemma st_bind_Inr [st_simps]:
  "st_bind m f s = (Inr y, s'') \<longleftrightarrow> (\<exists>x s'. m s = (Inr x, s') \<and> f x s' = (Inr y, s''))"
  by (auto simp: st_bind_def split: prod.splits sum.splits)

lemma st_bind_eval:
  "m s = (Inr x, s') \<Longrightarrow> st_bind m f s = f x s'" "m s = (Inl e, s') \<Longrightarrow> st_bind m f s = (Inl e, s')"
  by (simp_all add: st_bind_def)

text \<open>
  What holds between the state before and after every operation holds between the states before and
  after their composition, also when it fails.
\<close>

definition st_keeps :: "('s \<Rightarrow> 's \<Rightarrow> bool) \<Rightarrow> ('s, 'e, 'a) st_res \<Rightarrow> bool" where
  "st_keeps R m \<longleftrightarrow> (\<forall>s. R s (snd (m s)))"

named_theorems st_keeps_intros \<open>operations that keep a relation between states\<close>

locale st_relation =
  fixes R :: "'s \<Rightarrow> 's \<Rightarrow> bool"
  assumes refl: "R s s" and trans: "R s t \<Longrightarrow> R t u \<Longrightarrow> R s u"
begin

lemma keeps_atoms: "st_keeps R (st_ok x)" "st_keeps R (st_err e)" "st_keeps R (st_lift r)"
  by (simp_all add: st_keeps_def refl)

lemma keeps_seq:
  assumes "st_keeps R m" "\<And>x. st_keeps R (f x)"
  shows "st_keeps R (st_bind m f)"
  unfolding st_keeps_def
proof
  fix s
  show "R s (snd (st_bind m f s))"
    by (rule st_bind_cases [of m s f]) (use assms trans in \<open>auto simp: st_keeps_def, (metis snd_conv)+\<close>)
qed

lemma keeps_get: "(\<And>s. st_keeps R (f s)) \<Longrightarrow> st_keeps R (st_read f)"
  by (simp add: st_keeps_def)

lemma keeps_map: "(\<And>x. st_keeps R (f x)) \<Longrightarrow> st_keeps R (st_map f xs)"
  by (induction xs) (auto intro!: keeps_seq keeps_atoms)

lemma keeps_fold: "(\<And>x b. st_keeps R (f x b)) \<Longrightarrow> st_keeps R (st_fold f xs b)"
  by (induction xs arbitrary: b) (auto intro!: keeps_seq keeps_atoms)

lemma keeps_result: "st_keeps R m \<Longrightarrow> m s = (r, s') \<Longrightarrow> R s s'"
  unfolding st_keeps_def by (metis snd_conv)

lemmas keeps = keeps_atoms keeps_seq keeps_get keeps_map keeps_fold

end


section \<open>Errors\<close>

text \<open>
  The errors of the interface. A linker error and an instantiation error name what they were
  raised for.
\<close>

datatype extern_type =
    EtGlobal global_type
  | EtTable table_type
  | EtMemory memory_type
  | EtFunc func_type

record import_name =
  imn_module :: string
  imn_field :: string

datatype linker_error =
    DuplicateDefinition import_name
  | MissingDefinition import_name extern_type
  | InvalidTypeDefinition import_name extern_type extern_type
  | FuncTypeMismatch import_name func_type func_type
  | InvalidTableSubtype import_name table_type table_type
  | InvalidMemorySubtype import_name memory_type memory_type
  | LinkGlobalTypeMismatch import_name global_type global_type

datatype instantiation_error =
    InvalidNumberOfImports nat nat
  | ImportsExternalsMismatch extern_type extern_val
  | SignatureMismatch func_type func_type
  | InstTable table_error
  | InstMemory memory_error
  | InstGlobal global_error
  | ElementSegmentDoesNotFit table_h nat nat
  | FoundStartFn u32
  | TooManyInstances

datatype 'e api_error =
    ErrTable table_error
  | ErrMemory memory_error
  | ErrGlobal global_error
  | ErrInst instantiation_error
  | ErrLinker linker_error
  | ErrTrap trap_code
  | ErrCall "'e call_error"
  | ErrPanic

type_synonym ('h, 'e, 'a) store_op = "('h wstore, 'e api_error, 'a) st_res"

text \<open>A handle that does not resolve and a violated assertion are panics.\<close>

definition st_expect :: "'a option \<Rightarrow> ('s, 'e api_error, 'a) st_res" where
  "st_expect r = st_lift (ok_or ErrPanic r)"


section \<open>Allocation\<close>

text \<open>The index of a function is a non-zero word of 32 bits, so that one index less is available.\<close>

definition func_arena_alloc :: "func_entity \<Rightarrow> func_entity arena \<Rightarrow> (nat \<times> func_entity arena) option" where
  "func_arena_alloc f a = (if length a < 2 ^ 32 - 1 then Some (length a, a @ [f]) else None)"

definition alloc_with :: "(nat \<times> 'b) option \<Rightarrow> ('b \<Rightarrow> 's \<Rightarrow> 's) \<Rightarrow> ('s, 'e api_error, nat) st_res" where
  "alloc_with r put s = (case r of None \<Rightarrow> (Inl ErrPanic, s) | Some (i, a) \<Rightarrow> (Inr i, put a s))"

definition alloc_global :: "global_entity \<Rightarrow> ('h, 'e, global_h) store_op" where
  "alloc_global g s = alloc_with (arena_alloc g (ws_globals s)) (\<lambda>a s. s\<lparr>ws_globals := a\<rparr>) s"

definition alloc_table :: "table_entity \<Rightarrow> ('h, 'e, table_h) store_op" where
  "alloc_table t s = alloc_with (arena_alloc t (ws_tables s)) (\<lambda>a s. s\<lparr>ws_tables := a\<rparr>) s"

definition alloc_memory :: "memory_entity \<Rightarrow> ('h, 'e, memory_h) store_op" where
  "alloc_memory m s = alloc_with (arena_alloc m (ws_memories s)) (\<lambda>a s. s\<lparr>ws_memories := a\<rparr>) s"

definition alloc_data_segment :: "data_segment \<Rightarrow> ('h, 'e, data_h) store_op" where
  "alloc_data_segment d s = alloc_with (arena_alloc d (ws_datas s)) (\<lambda>a s. s\<lparr>ws_datas := a\<rparr>) s"

definition alloc_element_segment :: "element_segment \<Rightarrow> ('h, 'e, elem_h) store_op" where
  "alloc_element_segment e s = alloc_with (arena_alloc e (ws_elems s)) (\<lambda>a s. s\<lparr>ws_elems := a\<rparr>) s"

definition alloc_func :: "func_entity \<Rightarrow> ('h, 'e, func_h) store_op" where
  "alloc_func f s = alloc_with (func_arena_alloc f (ws_funcs s)) (\<lambda>a s. s\<lparr>ws_funcs := a\<rparr>) s"

definition instance_uninitialized :: instance_entity where
  "instance_uninitialized =
    \<lparr>in_func_types = [], in_tables = [], in_funcs = [], in_memories = [], in_globals = [],
     in_data_segments = [], in_elem_segments = [], in_exports = [], in_initialized = False\<rparr>"

definition alloc_instance :: "('h, 'e, instance_h) store_op" where
  "alloc_instance s =
    alloc_with (arena_alloc instance_uninitialized (ws_instances s)) (\<lambda>a s. s\<lparr>ws_instances := a\<rparr>) s"

text \<open>The assertions: the new entity is initialized, the old one exists and is not.\<close>

definition initialize_instance :: "instance_h \<Rightarrow> instance_entity \<Rightarrow> ('h, 'e, unit) store_op" where
  "initialize_instance i init s =
    (if \<not> in_initialized init then (Inl ErrPanic, s)
     else (case get_at (ws_instances s) i of
         None \<Rightarrow> (Inl ErrPanic, s)
       | Some uninit \<Rightarrow>
           if in_initialized uninit then (Inl ErrPanic, s)
           else (Inr (), s\<lparr>ws_instances := (ws_instances s)[i := init]\<rparr>)))"


section \<open>Limits on the number of entities\<close>

text \<open>\<open>saturating_add\<close> on numbers of entities.\<close>

definition exceeds_limit :: "nat \<Rightarrow> nat \<Rightarrow> nat \<Rightarrow> bool" where
  "exceeds_limit len additional limit \<longleftrightarrow> limit < min (len + additional) usize_max"

definition check_new_instances_limit :: "nat \<Rightarrow> ('h wstore, instantiation_error, unit) st_res" where
  "check_new_instances_limit n s =
    (case limiter_ref_of s of
       Some (ops, l) \<Rightarrow>
         if exceeds_limit (length (ws_instances s)) n (lo_instances ops l) then (Inl TooManyInstances, s)
         else (Inr (), s)
     | None \<Rightarrow> (Inr (), s))"

definition check_new_memories_limit :: "nat \<Rightarrow> ('h wstore, memory_error, unit) st_res" where
  "check_new_memories_limit n s =
    (case limiter_ref_of s of
       Some (ops, l) \<Rightarrow>
         if exceeds_limit (length (ws_memories s)) n (lo_memories ops l) then (Inl TooManyMemories, s)
         else (Inr (), s)
     | None \<Rightarrow> (Inr (), s))"

definition check_new_tables_limit :: "nat \<Rightarrow> ('h wstore, table_error, unit) st_res" where
  "check_new_tables_limit n s =
    (case limiter_ref_of s of
       Some (ops, l) \<Rightarrow>
         if exceeds_limit (length (ws_tables s)) n (lo_tables ops l) then (Inl TooManyTables, s)
         else (Inr (), s)
     | None \<Rightarrow> (Inr (), s))"

text \<open>The errors of one operation as errors of another.\<close>

definition st_map_err :: "('e \<Rightarrow> 'f) \<Rightarrow> ('s, 'e, 'a) st_res \<Rightarrow> ('s, 'f, 'a) st_res" where
  "st_map_err f m s = apfst (map_err f) (m s)"

lemma st_map_err_Inr [st_simps]: "st_map_err f m s = (Inr x, s') \<longleftrightarrow> m s = (Inr x, s')"
  by (cases "m s") (simp add: st_map_err_def rsimps)



section \<open>Tables\<close>

text \<open>A value of the interface as the pair that the entities store.\<close>

definition val_parts :: "wasm_val \<Rightarrow> val_type \<times> untyped_val" where
  "val_parts v = (val_ty v, untyped_of_val v)"

definition with_table :: "table_h \<Rightarrow> (table_entity \<Rightarrow> 'e api_error + 'a) \<Rightarrow> ('h, 'e, 'a) store_op" where
  "with_table h f = st_read (\<lambda>s. st_lift (rbind (ok_or ErrPanic (get_at (ws_tables s) h)) f))"

definition table_handle_new :: "table_type \<Rightarrow> wasm_val \<Rightarrow> ('h wstore, 'e api_error, table_h) st_res" where
  "table_handle_new ty init s =
    (case table_entity_new ty (val_parts init) (limiter_ref_of s) of
       (Inl e, lim) \<Rightarrow> (Inl (ErrTable e), put_limiter lim s)
     | (Inr entity, lim) \<Rightarrow> alloc_table entity (put_limiter lim s))"

definition table_handle_ty :: "table_h \<Rightarrow> ('h, 'e, table_type) store_op" where
  "table_handle_ty h = with_table h (\<lambda>t. Inr (te_type t))"

definition table_handle_dynamic_ty :: "table_h \<Rightarrow> ('h, 'e, table_type) store_op" where
  "table_handle_dynamic_ty h = with_table h (\<lambda>t. ok_or ErrPanic (table_dynamic_ty t))"

definition table_handle_size :: "table_h \<Rightarrow> ('h, 'e, nat) store_op" where
  "table_handle_size h = with_table h (\<lambda>t. Inr (table_size t))"

definition table_handle_grow :: "table_h \<Rightarrow> u32 \<Rightarrow> wasm_val \<Rightarrow> ('h, 'e, nat) store_op" where
  "table_handle_grow h delta init s =
    (case get_at (ws_tables s) h of
       None \<Rightarrow> (Inl ErrPanic, s)
     | Some t \<Rightarrow>
         let current = table_size t;
             maximum = unwrap_or u32_max (tt_max (te_type t));
             (r, t', _, lim) = table_grow (unat delta) (val_parts init) None (limiter_ref_of s) t
         in (map_err (\<lambda>_. ErrTable (GrowOutOfBounds maximum current (unat delta))) r,
             put_limiter lim (put_table h t' s)))"

definition table_get :: "u32 \<Rightarrow> table_entity \<Rightarrow> wasm_val option" where
  "table_get index t =
    map_option (\<lambda>v. val_with_type v (tt_element (te_type t))) (table_get_untyped (unat index) t)"

definition table_handle_get :: "table_h \<Rightarrow> u32 \<Rightarrow> ('h, 'e, wasm_val option) store_op" where
  "table_handle_get h index = with_table h (\<lambda>t. Inr (table_get index t))"

definition table_handle_set :: "table_h \<Rightarrow> u32 \<Rightarrow> wasm_val \<Rightarrow> ('h, 'e, unit) store_op" where
  "table_handle_set h index v s =
    (case get_at (ws_tables s) h of
       None \<Rightarrow> (Inl ErrPanic, s)
     | Some t \<Rightarrow>
         (case table_set (unat index) (val_parts v) t of
            Inl e \<Rightarrow> (Inl (ErrTable e), s)
          | Inr t' \<Rightarrow> (Inr (), put_table h t' s)))"

text \<open>Both sides of a copy may be the same table.\<close>

definition table_handle_copy :: "table_h \<Rightarrow> u32 \<Rightarrow> table_h \<Rightarrow> u32 \<Rightarrow> u32 \<Rightarrow> ('h, 'e, unit) store_op" where
  "table_handle_copy dst dst_index src src_index len s =
    (case (get_at (ws_tables s) dst, get_at (ws_tables s) src) of
       (Some d, Some t) \<Rightarrow>
         (case (if dst = src
                then map_err (\<lambda>_. CopyOutOfBounds) (table_copy_within (unat dst_index) (unat src_index) (unat len) None d)
                else rbind (matches_element_type (te_type d) (tt_element (te_type t))) (\<lambda>_.
                  map_err (\<lambda>_. CopyOutOfBounds) (table_copy d (unat dst_index) t (unat src_index) (unat len) None))) of
            Inl e \<Rightarrow> (Inl (ErrTable e), s)
          | Inr (d', _) \<Rightarrow> (Inr (), put_table dst d' s))
     | _ \<Rightarrow> (Inl ErrPanic, s))"

definition table_fill :: "nat \<Rightarrow> val_type \<times> untyped_val \<Rightarrow> nat \<Rightarrow> fuel option \<Rightarrow> table_entity
    \<Rightarrow> trap_code + (table_entity \<times> fuel option)" where
  "table_fill dst v len fu t =
    rbind (map_err (\<lambda>_. BadSignature) (matches_element_type (te_type t) (fst v))) (\<lambda>_.
      table_fill_untyped dst (snd v) len fu t)"

definition table_handle_fill :: "table_h \<Rightarrow> u32 \<Rightarrow> wasm_val \<Rightarrow> u32 \<Rightarrow> ('h, 'e, unit) store_op" where
  "table_handle_fill h dst v len s =
    (case get_at (ws_tables s) h of
       None \<Rightarrow> (Inl ErrPanic, s)
     | Some t \<Rightarrow>
         (case table_fill (unat dst) (val_parts v) (unat len) None t of
            Inl e \<Rightarrow> (Inl (ErrTrap e), s)
          | Inr (t', _) \<Rightarrow> (Inr (), put_table h t' s)))"


section \<open>Linear memories\<close>

definition with_memory :: "memory_h \<Rightarrow> (memory_entity \<Rightarrow> 'e api_error + 'a) \<Rightarrow> ('h, 'e, 'a) store_op" where
  "with_memory h f = st_read (\<lambda>s. st_lift (rbind (ok_or ErrPanic (get_at (ws_memories s) h)) f))"

definition memory_handle_new :: "memory_type \<Rightarrow> ('h, 'e, memory_h) store_op" where
  "memory_handle_new ty s =
    (case memory_entity_new ty (limiter_ref_of s) of
       (Inl e, lim) \<Rightarrow> (Inl (ErrMemory e), put_limiter lim s)
     | (Inr entity, lim) \<Rightarrow> alloc_memory entity (put_limiter lim s))"

definition memory_handle_new_static :: "memory_type \<Rightarrow> u8 list \<Rightarrow> ('h, 'e, memory_h) store_op" where
  "memory_handle_new_static ty buf s =
    (case memory_entity_new_static ty (limiter_ref_of s) buf of
       (None, lim) \<Rightarrow> (Inl ErrPanic, put_limiter lim s)
     | (Some (Inl e), lim) \<Rightarrow> (Inl (ErrMemory e), put_limiter lim s)
     | (Some (Inr entity), lim) \<Rightarrow> alloc_memory entity (put_limiter lim s))"

definition memory_handle_ty :: "memory_h \<Rightarrow> ('h, 'e, memory_type) store_op" where
  "memory_handle_ty h = with_memory h (\<lambda>m. Inr (me_type m))"

definition memory_handle_dynamic_ty :: "memory_h \<Rightarrow> ('h, 'e, memory_type) store_op" where
  "memory_handle_dynamic_ty h = with_memory h (\<lambda>m. ok_or ErrPanic (memory_dynamic_ty m))"

definition memory_handle_size :: "memory_h \<Rightarrow> ('h, 'e, nat) store_op" where
  "memory_handle_size h = with_memory h (\<lambda>m. Inr (memory_size m))"

definition memory_handle_grow :: "memory_h \<Rightarrow> u32 \<Rightarrow> ('h, 'e, nat) store_op" where
  "memory_handle_grow h additional s =
    (case get_at (ws_memories s) h of
       None \<Rightarrow> (Inl ErrPanic, s)
     | Some m \<Rightarrow>
         (case memory_grow (unat additional) None (limiter_ref_of s) m of
            None \<Rightarrow> (Inl ErrPanic, s)
          | Some (r, m', _, lim) \<Rightarrow>
              (map_err (\<lambda>_. ErrMemory OutOfBoundsGrowth) r, put_limiter lim (put_memory h m' s))))"

definition memory_handle_data :: "memory_h \<Rightarrow> ('h, 'e, u8 list) store_op" where
  "memory_handle_data h = with_memory h (\<lambda>m. Inr (memory_data m))"

definition memory_handle_read :: "memory_h \<Rightarrow> nat \<Rightarrow> nat \<Rightarrow> ('h, 'e, u8 list) store_op" where
  "memory_handle_read h offset n = with_memory h (\<lambda>m. map_err ErrMemory (memory_read offset n m))"

definition memory_handle_write :: "memory_h \<Rightarrow> nat \<Rightarrow> u8 list \<Rightarrow> ('h, 'e, unit) store_op" where
  "memory_handle_write h offset buffer s =
    (case get_at (ws_memories s) h of
       None \<Rightarrow> (Inl ErrPanic, s)
     | Some m \<Rightarrow>
         (case memory_write offset buffer m of
            Inl e \<Rightarrow> (Inl (ErrMemory e), s)
          | Inr m' \<Rightarrow> (Inr (), put_memory h m' s)))"


section \<open>Globals\<close>

definition global_handle_new :: "wasm_val \<Rightarrow> mutability \<Rightarrow> ('h, 'e, global_h) store_op" where
  "global_handle_new v mut = alloc_global (global_entity_new (val_parts v) mut)"

definition global_handle_ty :: "global_h \<Rightarrow> ('h, 'e, global_type) store_op" where
  "global_handle_ty h = st_read (\<lambda>s. st_lift (rmap ge_type (ok_or ErrPanic (get_at (ws_globals s) h))))"

definition global_handle_set :: "global_h \<Rightarrow> wasm_val \<Rightarrow> ('h, 'e, unit) store_op" where
  "global_handle_set h v s =
    (case get_at (ws_globals s) h of
       None \<Rightarrow> (Inl ErrPanic, s)
     | Some g \<Rightarrow>
         (case global_set (val_parts v) g of
            Inl e \<Rightarrow> (Inl (ErrGlobal e), s)
          | Inr g' \<Rightarrow> (Inr (), put_global h g' s)))"

definition global_val :: "global_entity \<Rightarrow> wasm_val" where
  "global_val g = val_with_type (ge_value g) (gt_content (ge_type g))"

definition global_handle_get :: "global_h \<Rightarrow> ('h, 'e, wasm_val) store_op" where
  "global_handle_get h = st_read (\<lambda>s. st_lift (rmap global_val (ok_or ErrPanic (get_at (ws_globals s) h))))"

end
