(* ===== verification/Module_Def.thy ===== *)
theory Module_Def
  imports Handles Tr_Instr "HOL-Library.AList"
begin

text \<open>
  Modules (\<open>wasmi/src/module\<close>): constant expressions (\<open>init_expr.rs\<close>), element and data segments
  (\<open>element.rs\<close>, \<open>data.rs\<close>), custom sections (\<open>custom_section.rs\<close>), the header of a module with
  its builder (\<open>mod.rs\<close>, \<open>builder.rs\<close>, \<open>import.rs\<close>, \<open>export.rs\<close>). The operators and items that
  \<open>wasmparser\<close> reads from a section are the arguments of the operations. A panic is \<open>None\<close>.
\<close>


section \<open>Constant expressions\<close>

text \<open>
  A context yields the value of a global and the \<open>FuncRef\<close> of a function, here its bits. The boxed
  closure of an expression is a function.
\<close>

record eval_context =
  ec_get_global :: "u32 \<Rightarrow> wasm_val option"
  ec_get_func :: "u32 \<Rightarrow> untyped_val option"

definition empty_eval_context :: eval_context where
  "empty_eval_context = \<lparr>ec_get_global = (\<lambda>_. None), ec_get_func = (\<lambda>_. None)\<rparr>"

datatype const_op =
    CConst untyped_val
  | CGlobal u32
  | CFuncRef u32
  | CExpr "eval_context \<Rightarrow> untyped_val option"

primrec const_op_eval :: "const_op \<Rightarrow> eval_context \<Rightarrow> untyped_val option" where
  "const_op_eval (CConst v) ctx = Some v"
| "const_op_eval (CGlobal index) ctx = map_option untyped_of_val (ec_get_global ctx index)"
| "const_op_eval (CFuncRef index) ctx = ec_get_func ctx index"
| "const_op_eval (CExpr expr) ctx = expr ctx"

definition def_expr :: "const_op \<Rightarrow> const_op \<Rightarrow> (untyped_val \<Rightarrow> untyped_val \<Rightarrow> untyped_val) \<Rightarrow> const_op" where
  "def_expr lhs rhs f =
    CExpr (\<lambda>ctx. Option.bind (const_op_eval lhs ctx) (\<lambda>l.
      Option.bind (const_op_eval rhs ctx) (\<lambda>r. Some (f l r))))"

text \<open>The top of the translation buffer is the head of the list.\<close>

definition expr_op :: "(untyped_val \<Rightarrow> untyped_val \<Rightarrow> untyped_val) \<Rightarrow> const_op list \<Rightarrow> const_op list option" where
  "expr_op f stack =
    (case stack of
       rhs # lhs # rest \<Rightarrow> Some (def_expr lhs rhs f # rest)
     | _ \<Rightarrow> None)"

text \<open>The operators of constant expressions; every other one is a panic.\<close>

datatype const_operator =
    COpI32Const u32
  | COpI64Const u64
  | COpF32Const u32
  | COpF64Const u64
  | COpGlobalGet u32
  | COpRefNull val_type
  | COpRefFunc u32
  | COpI32Add
  | COpI32Sub
  | COpI32Mul
  | COpI64Add
  | COpI64Sub
  | COpI64Mul
  | COpEnd
  | COpOther

definition const_step :: "const_operator \<Rightarrow> const_op list \<Rightarrow> const_op list option" where
  "const_step op stack =
    (case op of
       COpI32Const v \<Rightarrow> Some (CConst (untyped_of_val (ValI32 v)) # stack)
     | COpI64Const v \<Rightarrow> Some (CConst (untyped_of_val (ValI64 v)) # stack)
     | COpF32Const v \<Rightarrow> Some (CConst (untyped_of_val (ValF32 v)) # stack)
     | COpF64Const v \<Rightarrow> Some (CConst (untyped_of_val (ValF64 v)) # stack)
     | COpGlobalGet index \<Rightarrow> Some (CGlobal index # stack)
     | COpRefNull ty \<Rightarrow> if is_ref ty then Some (CConst (untyped_of_val (val_default ty)) # stack) else None
     | COpRefFunc index \<Rightarrow> Some (CFuncRef index # stack)
     | COpI32Add \<Rightarrow> expr_op i32_add stack
     | COpI32Sub \<Rightarrow> expr_op i32_sub stack
     | COpI32Mul \<Rightarrow> expr_op i32_mul stack
     | COpI64Add \<Rightarrow> expr_op i64_add stack
     | COpI64Sub \<Rightarrow> expr_op i64_sub stack
     | COpI64Mul \<Rightarrow> expr_op i64_mul stack
     | _ \<Rightarrow> None)"

text \<open>The loop ends at \<open>End\<close>, with the operators after it; reading beyond the last one is a panic.\<close>

fun const_loop :: "const_operator list \<Rightarrow> const_op list \<Rightarrow> (const_op list \<times> const_operator list) option" where
  "const_loop [] stack = None"
| "const_loop (op # ops) stack =
    (if op = COpEnd then Some (stack, ops)
     else Option.bind (const_step op stack) (const_loop ops))"

definition const_expr_new :: "const_operator list \<Rightarrow> const_op option" where
  "const_expr_new ops =
    (case const_loop ops [] of
       Some ([op], []) \<Rightarrow> Some op
     | _ \<Rightarrow> None)"

definition const_expr_new_funcref :: "u32 \<Rightarrow> const_op" where
  "const_expr_new_funcref index = CFuncRef index"

definition const_expr_funcref :: "const_op \<Rightarrow> u32 option" where
  "const_expr_funcref e = (case e of CFuncRef index \<Rightarrow> Some index | _ \<Rightarrow> None)"

definition const_expr_eval_const :: "const_op \<Rightarrow> untyped_val option" where
  "const_expr_eval_const e = const_op_eval e empty_eval_context"

definition const_expr_eval_with_context :: "(u32 \<Rightarrow> wasm_val) \<Rightarrow> (u32 \<Rightarrow> untyped_val) \<Rightarrow> const_op \<Rightarrow> untyped_val option" where
  "const_expr_eval_with_context get_glob get_fun e =
    const_op_eval e \<lparr>ec_get_global = (\<lambda>i. Some (get_glob i)), ec_get_func = (\<lambda>i. Some (get_fun i))\<rparr>"

text \<open>What the translator sees of an initial value.\<close>

definition const_expr_view :: "const_op \<Rightarrow> const_expr" where
  "const_expr_view e = \<lparr>ce_eval_const = const_expr_eval_const e, ce_funcref = const_expr_funcref e\<rparr>"


subsection \<open>The meaning of constant expressions\<close>

text \<open>
  Wasm's own semantics: the operators on a stack of values, a value that the context does not have
  ends the evaluation.
\<close>

definition const_binop :: "(untyped_val \<Rightarrow> untyped_val \<Rightarrow> untyped_val) \<Rightarrow> untyped_val list \<Rightarrow> untyped_val list option" where
  "const_binop f vs = (case vs of r # l # rest \<Rightarrow> Some (f l r # rest) | _ \<Rightarrow> None)"

definition const_exec :: "eval_context \<Rightarrow> const_operator \<Rightarrow> untyped_val list \<Rightarrow> untyped_val list option" where
  "const_exec ctx op vs =
    (case op of
       COpI32Const v \<Rightarrow> Some (of_i32 v # vs)
     | COpI64Const v \<Rightarrow> Some (of_i64 v # vs)
     | COpF32Const v \<Rightarrow> Some (of_i32 v # vs)
     | COpF64Const v \<Rightarrow> Some (of_i64 v # vs)
     | COpGlobalGet i \<Rightarrow> map_option (\<lambda>v. untyped_of_val v # vs) (ec_get_global ctx i)
     | COpRefNull ty \<Rightarrow> Some (0 # vs)
     | COpRefFunc i \<Rightarrow> map_option (\<lambda>v. v # vs) (ec_get_func ctx i)
     | COpI32Add \<Rightarrow> const_binop i32_add vs
     | COpI32Sub \<Rightarrow> const_binop i32_sub vs
     | COpI32Mul \<Rightarrow> const_binop i32_mul vs
     | COpI64Add \<Rightarrow> const_binop i64_add vs
     | COpI64Sub \<Rightarrow> const_binop i64_sub vs
     | COpI64Mul \<Rightarrow> const_binop i64_mul vs
     | _ \<Rightarrow> None)"

primrec const_run :: "eval_context \<Rightarrow> const_operator list \<Rightarrow> untyped_val list \<Rightarrow> untyped_val list option" where
  "const_run ctx [] vs = Some vs"
| "const_run ctx (op # ops) vs =
    (if op = COpEnd then Some vs else Option.bind (const_exec ctx op vs) (const_run ctx ops))"

primrec all_some :: "'a option list \<Rightarrow> 'a list option" where
  "all_some [] = Some []"
| "all_some (x # xs) = Option.bind x (\<lambda>y. map_option (\<lambda>ys. y # ys) (all_some xs))"

text \<open>The buffer of operators stands for the stack of their values.\<close>

definition eval_stack :: "eval_context \<Rightarrow> const_op list \<Rightarrow> untyped_val list option" where
  "eval_stack ctx stack = all_some (map (\<lambda>op. const_op_eval op ctx) stack)"

lemma eval_stack_simps [simp]: "eval_stack ctx [] = Some []"
  "eval_stack ctx (op # ops) = Option.bind (const_op_eval op ctx) (\<lambda>v. map_option (\<lambda>vs. v # vs) (eval_stack ctx ops))"
  by (simp_all add: eval_stack_def)

lemma expr_op_exec:
  "expr_op f stack = Some stack' \<Longrightarrow> eval_stack ctx stack' = Option.bind (eval_stack ctx stack) (const_binop f)"
  by (auto simp: expr_op_def def_expr_def split: list.splits)
    (simp add: const_binop_def bind_map_option comp_def map_option_case split: option.split bind_splits)

lemma const_exec_apply:
  "const_exec ctx (COpI32Const v) = (\<lambda>vs. Some (of_i32 v # vs))"
  "const_exec ctx (COpI64Const w) = (\<lambda>vs. Some (of_i64 w # vs))"
  "const_exec ctx (COpF32Const v) = (\<lambda>vs. Some (of_i32 v # vs))"
  "const_exec ctx (COpF64Const w) = (\<lambda>vs. Some (of_i64 w # vs))"
  "const_exec ctx (COpRefNull ty) = (\<lambda>vs. Some (0 # vs))"
  "const_exec ctx COpI32Add = const_binop i32_add" "const_exec ctx COpI32Sub = const_binop i32_sub"
  "const_exec ctx COpI32Mul = const_binop i32_mul" "const_exec ctx COpI64Add = const_binop i64_add"
  "const_exec ctx COpI64Sub = const_binop i64_sub" "const_exec ctx COpI64Mul = const_binop i64_mul"
  by (auto simp: const_exec_def)

lemma push_value: "map_option (\<lambda>vs. v # vs) r = Option.bind r (\<lambda>vs. Some (v # vs))"
  by (cases r) simp_all

lemma const_step_exec:
  assumes "const_step op stack = Some stack'"
  shows "eval_stack ctx stack' = Option.bind (eval_stack ctx stack) (const_exec ctx op)"
proof (cases op)
  case (COpGlobalGet i)
  with assms show ?thesis
    by (cases "ec_get_global ctx i"; cases "eval_stack ctx stack") (auto simp: const_step_def const_exec_def)
next
  case (COpRefFunc i)
  with assms show ?thesis
    by (cases "ec_get_func ctx i"; cases "eval_stack ctx stack") (auto simp: const_step_def const_exec_def)
next
  case (COpRefNull ty)
  with assms show ?thesis
    by (cases ty) (auto simp: const_step_def const_exec_apply is_ref_def val_default_def push_value split: if_splits)
qed (use assms in \<open>auto simp: const_step_def const_exec_apply push_value expr_op_exec\<close>)

lemma const_loop_run:
  "const_loop ops stack = Some (stack', rest) \<Longrightarrow>
    eval_stack ctx stack' = Option.bind (eval_stack ctx stack) (const_run ctx ops)"
proof (induction ops stack rule: const_loop.induct)
  case (2 op ops stack)
  show ?case
  proof (cases "op = COpEnd")
    case False
    with 2(2) obtain mid where mid: "const_step op stack = Some mid" "const_loop ops mid = Some (stack', rest)"
      by (auto simp: bind_eq_Some_conv)
    from 2(1) [OF False mid] const_step_exec [OF mid(1), of ctx] False show ?thesis
      by (simp add: Option.bind_assoc)
  qed (use 2 in simp)
qed simp

text \<open>Translating a constant expression and evaluating the result is running its operators.\<close>

lemma const_expr_new_run:
  assumes "const_expr_new ops = Some e"
  shows "const_run ctx ops [] = map_option (\<lambda>v. [v]) (const_op_eval e ctx)"
proof -
  have "const_loop ops [] = Some ([e], [])"
    using assms by (auto simp: const_expr_new_def split: option.splits prod.splits list.splits)
  from const_loop_run [OF this, of ctx] show ?thesis
    by (cases "const_op_eval e ctx") simp_all
qed


section \<open>Segments\<close>

datatype element_kind =
    ElemPassive
  | ElemActive u32 const_op
  | ElemDeclared

record element_def =
  ed_kind :: element_kind
  ed_type :: val_type
  ed_items :: "const_op list"

text \<open>The items of a segment are functions or constant expressions.\<close>

datatype element_items = ItemFunctions "u32 list" | ItemExpressions "const_operator list list"

primrec map_some :: "('a \<Rightarrow> 'b option) \<Rightarrow> 'a list \<Rightarrow> 'b list option" where
  "map_some f [] = Some []"
| "map_some f (x # xs) = Option.bind (f x) (\<lambda>y. map_option (\<lambda>ys. y # ys) (map_some f xs))"

definition element_items_new :: "element_items \<Rightarrow> const_op list option" where
  "element_items_new items =
    (case items of
       ItemFunctions fs \<Rightarrow> Some (map const_expr_new_funcref fs)
     | ItemExpressions es \<Rightarrow> map_some const_expr_new es)"

datatype element_mode = ModePassive | ModeActive u32 "const_operator list" | ModeDeclared

definition element_kind_new :: "element_mode \<Rightarrow> element_kind option" where
  "element_kind_new mode =
    (case mode of
       ModeActive table_index offset \<Rightarrow> map_option (ElemActive table_index) (const_expr_new offset)
     | ModePassive \<Rightarrow> Some ElemPassive
     | ModeDeclared \<Rightarrow> Some ElemDeclared)"

definition element_def_new :: "val_type \<Rightarrow> element_mode \<Rightarrow> element_items \<Rightarrow> element_def option" where
  "element_def_new ty mode items =
    (if \<not> is_ref ty then None
     else Option.bind (element_kind_new mode) (\<lambda>k.
       Option.bind (element_items_new items) (\<lambda>es.
         Some \<lparr>ed_kind = k, ed_type = ty, ed_items = es\<rparr>)))"

text \<open>
  The bytes of all active data segments are stored one after the other; a segment has their number.
\<close>

datatype data_def =
    DataActive u32 const_op u32
  | DataPassive "u8 list"

record data_segments =
  dgs_segments :: "data_def list"
  dgs_bytes :: "u8 list"

datatype data_mode = DataModePassive | DataModeActive u32 "const_operator list"

definition data_segments_build :: data_segments where
  "data_segments_build = \<lparr>dgs_segments = [], dgs_bytes = []\<rparr>"

definition push_data_segment :: "data_mode \<Rightarrow> u8 list \<Rightarrow> data_segments \<Rightarrow> data_segments option" where
  "push_data_segment mode bytes d =
    (case mode of
       DataModePassive \<Rightarrow> Some (d\<lparr>dgs_segments := dgs_segments d @ [DataPassive bytes]\<rparr>)
     | DataModeActive memory_index offset \<Rightarrow>
         Option.bind (const_expr_new offset) (\<lambda>offset.
           if length bytes < 2 ^ 32
           then Some \<lparr>dgs_segments = dgs_segments d @ [DataActive memory_index offset (of_nat (length bytes))],
                      dgs_bytes = dgs_bytes d @ bytes\<rparr>
           else None))"

datatype init_data_segment =
    InitActive u32 const_op "u8 list"
  | InitPassive "u8 list"

definition split_at :: "nat \<Rightarrow> 'a list \<Rightarrow> ('a list \<times> 'a list) option" where
  "split_at n xs = (if n \<le> length xs then Some (take n xs, drop n xs) else None)"

text \<open>The iterator over the segments, with the bytes that are left.\<close>

primrec init_data_iter :: "data_def list \<Rightarrow> u8 list \<Rightarrow> init_data_segment list option" where
  "init_data_iter [] bytes = Some []"
| "init_data_iter (s # ss) bytes =
    (case s of
       DataActive memory_index offset len \<Rightarrow>
         Option.bind (split_at (unat len) bytes) (\<lambda>(bytes, rest).
           map_option (\<lambda>r. InitActive memory_index offset bytes # r) (init_data_iter ss rest))
     | DataPassive bs \<Rightarrow> map_option (\<lambda>r. InitPassive bs # r) (init_data_iter ss bytes))"

definition data_segments_iter :: "data_segments \<Rightarrow> init_data_segment list option" where
  "data_segments_iter d = init_data_iter (dgs_segments d) (dgs_bytes d)"

text \<open>What is pushed.\<close>

definition init_data_of :: "data_mode \<Rightarrow> u8 list \<Rightarrow> init_data_segment option" where
  "init_data_of mode bytes =
    (case mode of
       DataModePassive \<Rightarrow> Some (InitPassive bytes)
     | DataModeActive memory_index offset \<Rightarrow>
         map_option (\<lambda>e. InitActive memory_index e bytes) (const_expr_new offset))"

primrec push_data_all :: "(data_mode \<times> u8 list) list \<Rightarrow> data_segments \<Rightarrow> data_segments option" where
  "push_data_all [] d = Some d"
| "push_data_all (p # ps) d = Option.bind (push_data_segment (fst p) (snd p) d) (push_data_all ps)"

lemma init_data_iter_append:
  "init_data_iter ss bs = Some r \<Longrightarrow> init_data_iter ss (bs @ bs') = Some r"
  by (induction ss arbitrary: bs r) (auto simp: split_at_def bind_eq_Some_conv split: data_def.splits if_splits)

lemma init_data_iter_snoc:
  assumes "init_data_iter ss bs = Some r" "length (concat (map (\<lambda>i. case i of InitActive _ _ b \<Rightarrow> b | _ \<Rightarrow> []) r)) = length bs"
  shows "init_data_iter (ss @ ss') (bs @ bs') = map_option (\<lambda>r'. r @ r') (init_data_iter ss' bs')"
  using assms
proof (induction ss arbitrary: bs r)
  case (Cons s ss)
  show ?case
  proof (cases s)
    case (DataActive m e n)
    from Cons.prems(1) obtain r1 where le: "unat n \<le> length bs" and r1: "init_data_iter ss (drop (unat n) bs) = Some r1"
      and r: "r = InitActive m e (take (unat n) bs) # r1"
      by (auto simp: DataActive split_at_def bind_eq_Some_conv split: if_splits)
    from Cons.prems(2) le r have "length (concat (map (\<lambda>i. case i of InitActive _ _ b \<Rightarrow> b | _ \<Rightarrow> []) r1)) = length (drop (unat n) bs)"
      by simp
    from Cons.IH [OF r1 this] le r show ?thesis
      by (simp add: DataActive split_at_def option.map_comp comp_def)
  next
    case (DataPassive b)
    with Cons.prems obtain r1 where "init_data_iter ss bs = Some r1" "r = InitPassive b # r1" by auto
    with Cons.IH [of bs r1] Cons.prems(2) show ?thesis
      by (simp add: DataPassive option.map_comp comp_def)
  qed
qed (cases "init_data_iter ss' bs'"; simp)

definition data_complete :: "data_segments \<Rightarrow> init_data_segment list \<Rightarrow> bool" where
  "data_complete d r \<longleftrightarrow> data_segments_iter d = Some r \<and>
    length (concat (map (\<lambda>i. case i of InitActive _ _ b \<Rightarrow> b | _ \<Rightarrow> []) r)) = length (dgs_bytes d)"

lemma push_data_segment_complete:
  assumes "data_complete d r" "push_data_segment mode bytes d = Some d'"
  shows "\<exists>i. init_data_of mode bytes = Some i \<and> data_complete d' (r @ [i])"
proof (cases mode)
  case (DataModeActive m ops)
  with assms(2) obtain e where e: "const_expr_new ops = Some e" "length bytes < 2 ^ 32"
    and d': "d' = \<lparr>dgs_segments = dgs_segments d @ [DataActive m e (of_nat (length bytes))], dgs_bytes = dgs_bytes d @ bytes\<rparr>"
    by (auto simp: push_data_segment_def bind_eq_Some_conv split: if_splits)
  from e(2) have "unat (of_nat (length bytes) :: u32) = length bytes"
    by (simp add: unat_of_nat)
  with assms(1) e d' init_data_iter_snoc [of "dgs_segments d" "dgs_bytes d" r "[DataActive m e (of_nat (length bytes))]" bytes]
  show ?thesis
    by (simp add: data_complete_def data_segments_iter_def DataModeActive init_data_of_def split_at_def)
next
  case DataModePassive
  with assms init_data_iter_snoc [of "dgs_segments d" "dgs_bytes d" r "[DataPassive bytes]" "[]"] show ?thesis
    by (auto simp: push_data_segment_def data_complete_def data_segments_iter_def init_data_of_def)
qed

text \<open>The iterator yields the segments that were pushed, with their own bytes.\<close>

lemma push_data_all_complete:
  assumes "push_data_all ps d = Some d'" "data_complete d r"
  shows "\<exists>is. map_some (\<lambda>(m, b). init_data_of m b) ps = Some is \<and> data_complete d' (r @ is)"
  using assms
proof (induction ps arbitrary: d r)
  case (Cons p ps)
  then obtain d1 where d1: "push_data_segment (fst p) (snd p) d = Some d1" and rest: "push_data_all ps d1 = Some d'"
    by (auto simp: bind_eq_Some_conv)
  from push_data_segment_complete [OF Cons.prems(2) d1] obtain i
    where i: "init_data_of (fst p) (snd p) = Some i" "data_complete d1 (r @ [i])" by blast
  from Cons.IH [OF rest i(2)] i(1) show ?case by (cases p) auto
qed simp

lemma data_complete_build: "data_complete data_segments_build []"
  by (simp add: data_complete_def data_segments_iter_def data_segments_build_def)


section \<open>Custom sections\<close>

text \<open>The bytes of a text and the text of bytes.\<close>

definition str_bytes :: "string \<Rightarrow> u8 list" where
  "str_bytes s = map (\<lambda>c. of_nat (of_char c)) s"

definition bytes_str :: "u8 list \<Rightarrow> string" where
  "bytes_str bs = map (\<lambda>b. char_of (unat b)) bs"

lemma bytes_str_bytes [simp]: "bytes_str (str_bytes s) = s"
proof -
  have "char_of (unat (of_nat (of_char c) :: u8)) = c" for c
  proof -
    have "unat (of_nat (of_char c) :: u8) = of_char c mod 256" by (simp add: unat_of_nat)
    then show ?thesis by (metis char_of_char char_of_mod_256)
  qed
  then show ?thesis by (simp add: bytes_str_def str_bytes_def comp_def del: unsigned_of_nat)
qed

lemma str_bytes_inj [simp]: "str_bytes s = str_bytes t \<longleftrightarrow> s = t"
  by (metis bytes_str_bytes)

record custom_section_inner =
  csi_len_name :: nat
  csi_len_data :: nat

record custom_sections_inner =
  csn_items :: "custom_section_inner list"
  csn_names_and_data :: "u8 list"

definition custom_sections_push :: "string \<Rightarrow> u8 list \<Rightarrow> custom_sections_inner \<Rightarrow> custom_sections_inner" where
  "custom_sections_push name data c =
    \<lparr>csn_items = csn_items c @ [\<lparr>csi_len_name = length (str_bytes name), csi_len_data = length data\<rparr>],
     csn_names_and_data = csn_names_and_data c @ str_bytes name @ data\<rparr>"

primrec custom_sections_next :: "custom_section_inner list \<Rightarrow> u8 list \<Rightarrow> (string \<times> u8 list) list option" where
  "custom_sections_next [] bytes = Some []"
| "custom_sections_next (item # items) bytes =
    Option.bind (split_at (csi_len_name item) bytes) (\<lambda>(name, bytes).
    Option.bind (split_at (csi_len_data item) bytes) (\<lambda>(data, bytes).
      map_option (\<lambda>r. (bytes_str name, data) # r) (custom_sections_next items bytes)))"

definition custom_sections_iter :: "custom_sections_inner \<Rightarrow> (string \<times> u8 list) list option" where
  "custom_sections_iter c = custom_sections_next (csn_items c) (csn_names_and_data c)"

lemma custom_sections_iter_items:
  "custom_sections_next
     (map (\<lambda>(n, d). \<lparr>csi_len_name = length (str_bytes n), csi_len_data = length d\<rparr>) ps)
     (concat (map (\<lambda>(n, d). str_bytes n @ d) ps)) = Some ps"
  by (induction ps) (auto simp: split_at_def)

lemma custom_sections_pushed:
  "fold (\<lambda>(n, d). custom_sections_push n d) ps c =
    \<lparr>csn_items = csn_items c @ map (\<lambda>(n, d). \<lparr>csi_len_name = length (str_bytes n), csi_len_data = length d\<rparr>) ps,
     csn_names_and_data = csn_names_and_data c @ concat (map (\<lambda>(n, d). str_bytes n @ d) ps)\<rparr>"
  by (induction ps arbitrary: c) (auto simp: custom_sections_push_def)

lemma custom_sections_roundtrip:
  "custom_sections_iter (fold (\<lambda>(n, d). custom_sections_push n d) ps
    \<lparr>csn_items = [], csn_names_and_data = []\<rparr>) = Some ps"
  by (simp add: custom_sections_pushed custom_sections_iter_def custom_sections_iter_items)

record name_section =
  ns_functions :: "u32 \<Rightarrow> string option"
  ns_locals :: "u32 \<Rightarrow> (u32 \<times> string) list option"
  ns_globals :: "u32 \<Rightarrow> string option"
  ns_locals_dep :: "u32 \<Rightarrow> (u32 \<times> string) list option"

record custom_sections =
  cus_inner :: custom_sections_inner
  cus_names :: name_section

definition custom_sections_default :: custom_sections where
  "custom_sections_default =
    \<lparr>cus_inner = \<lparr>csn_items = [], csn_names_and_data = []\<rparr>,
     cus_names = \<lparr>ns_functions = Map.empty, ns_locals = Map.empty, ns_globals = Map.empty,
                  ns_locals_dep = Map.empty\<rparr>\<rparr>"

definition set_name_section :: "(u32 \<Rightarrow> string option) \<Rightarrow> (u32 \<Rightarrow> (u32 \<times> string) list option)
    \<Rightarrow> (u32 \<Rightarrow> string option) \<Rightarrow> (u32 \<Rightarrow> (u32 \<times> string) list option) \<Rightarrow> custom_sections \<Rightarrow> custom_sections" where
  "set_name_section functions locals globals locals_dep c =
    c\<lparr>cus_names := \<lparr>ns_functions = functions, ns_locals = locals, ns_globals = globals,
      ns_locals_dep = locals_dep\<rparr>\<rparr>"


section \<open>Spans of compiled functions\<close>

record engine_func_span =
  fs_start :: nat
  fs_end :: nat

definition func_span_empty :: engine_func_span where
  "func_span_empty = \<lparr>fs_start = 0, fs_end = 0\<rparr>"

definition func_span_is_empty :: "engine_func_span \<Rightarrow> bool" where
  "func_span_is_empty s \<longleftrightarrow> fs_start s = fs_end s"

definition func_span_len :: "engine_func_span \<Rightarrow> nat" where
  "func_span_len s = fs_end s - fs_start s"

definition func_span_next :: "engine_func_span \<Rightarrow> engine_func option \<times> engine_func_span" where
  "func_span_next s =
    (if func_span_is_empty s then (None, s) else (Some (fs_start s), s\<lparr>fs_start := fs_start s + 1\<rparr>))"

definition func_span_next_back :: "engine_func_span \<Rightarrow> engine_func option \<times> engine_func_span" where
  "func_span_next_back s =
    (if func_span_is_empty s then (None, s) else (Some (fs_end s - 1), s\<lparr>fs_end := fs_end s - 1\<rparr>))"

text \<open>The functions that the iterator yields, for a start that is not behind the end.\<close>

definition func_span_iter :: "engine_func_span \<Rightarrow> engine_func list" where
  "func_span_iter s = [fs_start s..<fs_end s]"

lemma func_span_iter_next:
  assumes "fs_start s \<le> fs_end s"
  shows "case func_span_next s of (None, _) \<Rightarrow> func_span_iter s = [] | (Some f, s') \<Rightarrow> func_span_iter s = f # func_span_iter s'"
    "case func_span_next_back s of (None, _) \<Rightarrow> func_span_iter s = [] | (Some f, s') \<Rightarrow> func_span_iter s = func_span_iter s' @ [f]"
proof -
  show "case func_span_next s of (None, _) \<Rightarrow> func_span_iter s = [] | (Some f, s') \<Rightarrow> func_span_iter s = f # func_span_iter s'"
    using assms by (auto simp: func_span_next_def func_span_iter_def func_span_is_empty_def upt_conv_Cons)
  show "case func_span_next_back s of (None, _) \<Rightarrow> func_span_iter s = [] | (Some f, s') \<Rightarrow> func_span_iter s = func_span_iter s' @ [f]"
    using assms by (cases "fs_end s") (auto simp: func_span_next_back_def func_span_iter_def func_span_is_empty_def)
qed

section \<open>Module headers\<close>

datatype extern_idx = IdxFunc u32 | IdxTable u32 | IdxMemory u32 | IdxGlobal u32

datatype imported =
    ImportedFunc import_name
  | ImportedTable import_name
  | ImportedMemory import_name
  | ImportedGlobal import_name

record module_imports =
  mi_items :: "imported list"
  mi_len_funcs :: nat
  mi_len_globals :: nat
  mi_len_memories :: nat
  mi_len_tables :: nat

text \<open>A function type is a handle of the registry of the engine; names are looked up in an association list.\<close>

record header =
  hd_func_types :: "func_type_h list"
  hd_imports :: module_imports
  hd_funcs :: "func_type_h list"
  hd_tables :: "table_type list"
  hd_memories :: "memory_type list"
  hd_globals :: "global_type list"
  hd_globals_init :: "const_op list"
  hd_exports :: "(string \<times> extern_idx) list"
  hd_start :: "u32 option"
  hd_engine_funcs :: engine_func_span
  hd_element_segments :: "element_def list"

record wasm_module =
  wm_header :: header
  wm_data_segments :: data_segments
  wm_custom_sections :: custom_sections

text \<open>The header as the translator of function bodies sees it.\<close>

definition header_view :: "header \<Rightarrow> module_header" where
  "header_view h =
    \<lparr>mh_func_types = hd_func_types h, mh_funcs = hd_funcs h,
     mh_len_imported_funcs = mi_len_funcs (hd_imports h), mh_len_imported_globals = mi_len_globals (hd_imports h),
     mh_globals = hd_globals h, mh_globals_init = map const_expr_view (hd_globals_init h),
     mh_engine_funcs_start = fs_start (hd_engine_funcs h), mh_engine_funcs_end = fs_end (hd_engine_funcs h)\<rparr>"

definition len_tables :: "wasm_module \<Rightarrow> nat" where
  "len_tables m = length (hd_tables (wm_header m))"

definition len_memories :: "wasm_module \<Rightarrow> nat" where
  "len_memories m = length (hd_memories (wm_header m))"

text \<open>An item of the imports takes the next type of its kind; a missing one is a panic.\<close>

record import_type =
  it_name :: import_name
  it_type :: extern_type

fun imports_next :: "func_type dedup_arena \<Rightarrow> imported list \<Rightarrow> func_type_h list \<Rightarrow> table_type list
    \<Rightarrow> memory_type list \<Rightarrow> global_type list \<Rightarrow> import_type list option" where
  "imports_next reg [] fs ts ms gs = Some []"
| "imports_next reg (ImportedFunc n # is) fs ts ms gs =
    (case fs of
       [] \<Rightarrow> None
     | f # fs \<Rightarrow> Option.bind (registry_resolve_func_type reg f) (\<lambda>ft.
         map_option (\<lambda>r. \<lparr>it_name = n, it_type = EtFunc ft\<rparr> # r) (imports_next reg is fs ts ms gs)))"
| "imports_next reg (ImportedTable n # is) fs ts ms gs =
    (case ts of
       [] \<Rightarrow> None
     | t # ts \<Rightarrow> map_option (\<lambda>r. \<lparr>it_name = n, it_type = EtTable t\<rparr> # r) (imports_next reg is fs ts ms gs))"
| "imports_next reg (ImportedMemory n # is) fs ts ms gs =
    (case ms of
       [] \<Rightarrow> None
     | m # ms \<Rightarrow> map_option (\<lambda>r. \<lparr>it_name = n, it_type = EtMemory m\<rparr> # r) (imports_next reg is fs ts ms gs))"
| "imports_next reg (ImportedGlobal n # is) fs ts ms gs =
    (case gs of
       [] \<Rightarrow> None
     | g # gs \<Rightarrow> map_option (\<lambda>r. \<lparr>it_name = n, it_type = EtGlobal g\<rparr> # r) (imports_next reg is fs ts ms gs))"

definition module_imports_iter :: "func_type dedup_arena \<Rightarrow> wasm_module \<Rightarrow> import_type list option" where
  "module_imports_iter reg m =
    (let h = wm_header m; imports = hd_imports h
     in if length (hd_funcs h) < mi_len_funcs imports \<or> length (hd_globals h) < mi_len_globals imports then None
        else imports_next reg (mi_items imports) (take (mi_len_funcs imports) (hd_funcs h)) (hd_tables h)
          (hd_memories h) (take (mi_len_globals imports) (hd_globals h)))"

text \<open>The entities that the module defines itself. A range beyond the end is a panic.\<close>

definition slice_from :: "nat \<Rightarrow> 'a list \<Rightarrow> 'a list option" where
  "slice_from n xs = (if n \<le> length xs then Some (drop n xs) else None)"

definition internal_funcs :: "wasm_module \<Rightarrow> (func_type_h \<times> engine_func) list option" where
  "internal_funcs m =
    (let h = wm_header m; engine_funcs = func_span_iter (hd_engine_funcs h)
     in Option.bind (slice_from (mi_len_funcs (hd_imports h)) (hd_funcs h)) (\<lambda>funcs.
          if length funcs = length engine_funcs then Some (zip funcs engine_funcs) else None))"

definition internal_memories :: "wasm_module \<Rightarrow> memory_type list option" where
  "internal_memories m = slice_from (mi_len_memories (hd_imports (wm_header m))) (hd_memories (wm_header m))"

definition internal_tables :: "wasm_module \<Rightarrow> table_type list option" where
  "internal_tables m = slice_from (mi_len_tables (hd_imports (wm_header m))) (hd_tables (wm_header m))"

definition internal_globals :: "wasm_module \<Rightarrow> (global_type \<times> const_op) list option" where
  "internal_globals m =
    map_option (\<lambda>gs. zip gs (hd_globals_init (wm_header m)))
      (slice_from (mi_len_globals (hd_imports (wm_header m))) (hd_globals (wm_header m)))"

definition get_extern_type :: "func_type dedup_arena \<Rightarrow> wasm_module \<Rightarrow> extern_idx \<Rightarrow> extern_type option" where
  "get_extern_type reg m idx =
    (let h = wm_header m
     in case idx of
          IdxFunc i \<Rightarrow> map_option EtFunc (Option.bind (get_at (hd_funcs h) (unat i)) (registry_resolve_func_type reg))
        | IdxTable i \<Rightarrow> map_option EtTable (get_at (hd_tables h) (unat i))
        | IdxMemory i \<Rightarrow> map_option EtMemory (get_at (hd_memories h) (unat i))
        | IdxGlobal i \<Rightarrow> map_option EtGlobal (get_at (hd_globals h) (unat i)))"

text \<open>The outer option is the panic, the inner one a name that is not exported.\<close>

definition module_get_export :: "func_type dedup_arena \<Rightarrow> wasm_module \<Rightarrow> string \<Rightarrow> extern_type option option" where
  "module_get_export reg m name =
    (case map_of (hd_exports (wm_header m)) name of
       None \<Rightarrow> Some None
     | Some idx \<Rightarrow> map_option Some (get_extern_type reg m idx))"

definition module_exports :: "func_type dedup_arena \<Rightarrow> wasm_module \<Rightarrow> (string \<times> extern_type) list option" where
  "module_exports reg m =
    map_some (\<lambda>(name, idx). map_option (Pair name) (get_extern_type reg m idx)) (hd_exports (wm_header m))"

end
