(* ===== verification/Linker.thy ===== *)
theory Linker
  imports Module_Def
begin

text \<open>
  The linker (\<open>wasmi/src/linker.rs\<close>): definitions by module and item name, host functions that are
  instantiated for a store when they are imported, the check of the imports of a module. The two
  names of a definition are interned and packed into one key of 64 bits. The code of a host
  function is of a type \<open>'t\<close>; a store keeps the trampolines, the engine the function types.
\<close>

unbundle bit_operations_syntax


section \<open>The context\<close>

record ('h, 't) store_context =
  cx_store :: "'h wstore"
  cx_trampolines :: "'t list"
  cx_types :: "func_type dedup_arena"

type_synonym ('h, 't, 'e, 'a) context_op = "(('h, 't) store_context, 'e api_error, 'a) st_res"

definition on_store :: "('h wstore, 'e, 'a) st_res \<Rightarrow> (('h, 't) store_context, 'e, 'a) st_res" where
  "on_store m c = (case m (cx_store c) of (r, s) \<Rightarrow> (r, c\<lparr>cx_store := s\<rparr>))"

text \<open>The index of a trampoline is a \<open>usize\<close>.\<close>

definition alloc_trampoline :: "'t \<Rightarrow> ('h, 't, 'e, nat) context_op" where
  "alloc_trampoline t c = (Inr (length (cx_trampolines c)), c\<lparr>cx_trampolines := cx_trampolines c @ [t]\<rparr>)"

definition alloc_func_type :: "func_type \<Rightarrow> ('h, 't, 'e, func_type_h) context_op" where
  "alloc_func_type ft c =
    alloc_with (registry_alloc_func_type ft (cx_types c)) (\<lambda>a c. c\<lparr>cx_types := a\<rparr>) c"

definition host_func_entity_new :: "func_type \<Rightarrow> nat \<Rightarrow> ('h, 't, 'e, host_func_entity) context_op" where
  "host_func_entity_new ty trampoline =
    st_bind (alloc_func_type ty) (\<lambda>dedup.
      st_ok \<lparr>hf_len_params = func_type_len_params ty, hf_len_results = func_type_len_results ty,
             hf_type = dedup, hf_trampoline = trampoline\<rparr>)"

text \<open>\<open>HostFuncTrampolineEntity\<close>\<close>

record 't host_trampoline =
  ht_type :: func_type
  ht_code :: 't

definition func_new :: "'t host_trampoline \<Rightarrow> ('h, 't, 'e, func_h) context_op" where
  "func_new host =
    st_bind (alloc_trampoline (ht_code host)) (\<lambda>trampoline.
    st_bind (host_func_entity_new (ht_type host) trampoline) (\<lambda>entity.
      on_store (alloc_func (HostFunc entity))))"

definition func_handle_ty :: "func_h \<Rightarrow> ('h, 't, 'e, func_type) context_op" where
  "func_handle_ty f = st_read (\<lambda>c. st_lift (map_err (\<lambda>_. ErrPanic) (func_ty (cx_types c) (cx_store c) f :: unit xerr + func_type)))"

definition extern_ty :: "extern_val \<Rightarrow> ('h, 't, 'e, extern_type) context_op" where
  "extern_ty e =
    (case e of
       ExtGlobal g \<Rightarrow> st_bind (on_store (global_handle_ty g)) (\<lambda>ty. st_ok (EtGlobal ty))
     | ExtTable t \<Rightarrow> st_bind (on_store (table_handle_ty t)) (\<lambda>ty. st_ok (EtTable ty))
     | ExtMemory m \<Rightarrow> st_bind (on_store (memory_handle_ty m)) (\<lambda>ty. st_ok (EtMemory ty))
     | ExtFunc f \<Rightarrow> st_bind (func_handle_ty f) (\<lambda>ty. st_ok (EtFunc ty)))"

definition extern_into_table :: "extern_val \<Rightarrow> table_h option" where
  "extern_into_table e = (case e of ExtTable t \<Rightarrow> Some t | _ \<Rightarrow> None)"

definition extern_into_memory :: "extern_val \<Rightarrow> memory_h option" where
  "extern_into_memory e = (case e of ExtMemory m \<Rightarrow> Some m | _ \<Rightarrow> None)"

definition extern_type_func :: "extern_type \<Rightarrow> func_type option" where
  "extern_type_func e = (case e of EtFunc ft \<Rightarrow> Some ft | _ \<Rightarrow> None)"


section \<open>Import keys\<close>

type_synonym import_key = u64

definition import_key_new :: "nat \<Rightarrow> nat \<Rightarrow> import_key" where
  "import_key_new module name = push_bit 32 (ucast (of_nat module :: u32)) OR ucast (of_nat name :: u32)"

definition import_key_module :: "import_key \<Rightarrow> nat" where
  "import_key_module key = unat (ucast (drop_bit 32 key) :: u32)"

definition import_key_name :: "import_key \<Rightarrow> nat" where
  "import_key_name key = unat (ucast key :: u32)"

lemma import_key_parts:
  assumes "module < 2 ^ 32" "name < 2 ^ 32"
  shows "import_key_module (import_key_new module name) = module"
    "import_key_name (import_key_new module name) = name"
proof -
  define m n where mn: "m = (of_nat module :: u32)" "n = (of_nat name :: u32)"
  let ?k = "push_bit 32 (ucast m) OR ucast n :: u64"
  have "ucast (drop_bit 32 ?k) = m"
    by (rule bit_word_eqI) (auto simp: bit_simps dest: bit_imp_le_length)
  moreover have "ucast ?k = n"
    by (rule bit_word_eqI) (auto simp: bit_simps)
  ultimately show "import_key_module (import_key_new module name) = module"
    "import_key_name (import_key_new module name) = name"
    using assms by (simp_all add: import_key_module_def import_key_name_def import_key_new_def mn unat_of_nat)
qed

lemma import_key_inj:
  assumes "m < 2 ^ 32" "n < 2 ^ 32" "m' < 2 ^ 32" "n' < 2 ^ 32"
  shows "import_key_new m n = import_key_new m' n' \<longleftrightarrow> m = m' \<and> n = n'"
  using import_key_parts [OF assms(1,2)] import_key_parts [OF assms(3,4)] by metis


section \<open>Definitions\<close>

datatype 't link_def = DefExtern extern_val | DefHostFunc "'t host_trampoline"

definition def_as_extern :: "'t link_def \<Rightarrow> extern_val option" where
  "def_as_extern d = (case d of DefExtern item \<Rightarrow> Some item | DefHostFunc _ \<Rightarrow> None)"

definition def_ty :: "'t link_def \<Rightarrow> ('h, 't, 'e, extern_type) context_op" where
  "def_ty d =
    (case d of
       DefExtern item \<Rightarrow> extern_ty item
     | DefHostFunc host \<Rightarrow> st_ok (EtFunc (ht_type host)))"

text \<open>A host function of the linker becomes a new function of the store.\<close>

definition def_as_func :: "'t link_def \<Rightarrow> ('h, 't, 'e, func_h option) context_op" where
  "def_as_func d =
    (case d of
       DefExtern (ExtFunc f) \<Rightarrow> st_ok (Some f)
     | DefHostFunc host \<Rightarrow> st_bind (func_new host) (\<lambda>f. st_ok (Some f))
     | _ \<Rightarrow> st_ok None)"


section \<open>The table of definitions\<close>

record 't linker_inner =
  li_strings :: string_interner
  li_definitions :: "import_key \<Rightarrow> 't link_def option"

definition linker_inner_default :: "'t linker_inner" where
  "linker_inner_default = \<lparr>li_strings = string_interner_new, li_definitions = Map.empty\<rparr>"

type_synonym ('t, 'e, 'a) inner_op = "('t linker_inner, 'e api_error, 'a) st_res"

definition intern_name :: "intern_hint \<Rightarrow> string \<Rightarrow> ('t, 'e, nat) inner_op" where
  "intern_name hint name l =
    alloc_with (get_or_intern_with_hint hint (str_bytes name) (li_strings l)) (\<lambda>a l. l\<lparr>li_strings := a\<rparr>) l"

definition new_import_key :: "string \<Rightarrow> string \<Rightarrow> ('t, 'e, import_key) inner_op" where
  "new_import_key module name =
    st_bind (intern_name HintLikelyExists module) (\<lambda>m.
    st_bind (intern_name HintLikelyNew name) (\<lambda>n. st_ok (import_key_new m n)))"

definition get_import_key :: "'t linker_inner \<Rightarrow> string \<Rightarrow> string \<Rightarrow> import_key option" where
  "get_import_key l module name =
    Option.bind (string_interner_get (str_bytes module) (li_strings l)) (\<lambda>m.
    Option.bind (string_interner_get (str_bytes name) (li_strings l)) (\<lambda>n. Some (import_key_new m n)))"

definition resolve_import_key :: "'t linker_inner \<Rightarrow> import_key \<Rightarrow> (string \<times> string) option" where
  "resolve_import_key l key =
    Option.bind (string_interner_resolve (li_strings l) (import_key_module key)) (\<lambda>m.
    Option.bind (string_interner_resolve (li_strings l) (import_key_name key)) (\<lambda>n.
      Some (bytes_str m, bytes_str n)))"

definition inner_insert :: "import_key \<Rightarrow> 't link_def \<Rightarrow> ('t, 'e, unit) inner_op" where
  "inner_insert key item l =
    (case li_definitions l key of
       Some _ \<Rightarrow>
         (case resolve_import_key l key of
            None \<Rightarrow> (Inl ErrPanic, l)
          | Some (m, n) \<Rightarrow> (Inl (ErrLinker (DuplicateDefinition \<lparr>imn_module = m, imn_field = n\<rparr>)), l))
     | None \<Rightarrow> (Inr (), l\<lparr>li_definitions := (li_definitions l)(key \<mapsto> item)\<rparr>))"

definition inner_define :: "string \<Rightarrow> string \<Rightarrow> 't link_def \<Rightarrow> ('t, 'e, unit) inner_op" where
  "inner_define module name item = st_bind (new_import_key module name) (\<lambda>key. inner_insert key item)"

definition inner_get_definition :: "'t linker_inner \<Rightarrow> string \<Rightarrow> string \<Rightarrow> 't link_def option" where
  "inner_get_definition l module name = Option.bind (get_import_key l module name) (li_definitions l)"

definition inner_has_definition :: "'t linker_inner \<Rightarrow> string \<Rightarrow> string \<Rightarrow> bool" where
  "inner_has_definition l module name =
    (case get_import_key l module name of
       None \<Rightarrow> False
     | Some key \<Rightarrow> li_definitions l key \<noteq> None)"

text \<open>\<open>LinkerInner::func_new\<close> and \<open>func_wrap\<close> differ in how the trampoline is built.\<close>

definition inner_func_new :: "string \<Rightarrow> string \<Rightarrow> 't host_trampoline \<Rightarrow> ('t, 'e, unit) inner_op" where
  "inner_func_new module name host = inner_define module name (DefHostFunc host)"



section \<open>Linkers\<close>

text \<open>Definitions shared by the linkers of one builder shadow the linker's own.\<close>

record 't linker =
  ln_shared :: "'t linker_inner option"
  ln_inner :: "'t linker_inner"

type_synonym ('t, 'e, 'a) linker_op = "('t linker, 'e api_error, 'a) st_res"

definition linker_new :: "'t linker" where
  "linker_new = \<lparr>ln_shared = None, ln_inner = linker_inner_default\<rparr>"

definition on_inner :: "('t, 'e, 'a) inner_op \<Rightarrow> ('t, 'e, 'a) linker_op" where
  "on_inner m l = (case m (ln_inner l) of (r, inner) \<Rightarrow> (r, l\<lparr>ln_inner := inner\<rparr>))"

definition ensure_undefined :: "string \<Rightarrow> string \<Rightarrow> ('t, 'e, unit) linker_op" where
  "ensure_undefined module name l =
    (case ln_shared l of
       Some shared \<Rightarrow>
         if inner_has_definition shared module name
         then (Inl (ErrLinker (DuplicateDefinition \<lparr>imn_module = module, imn_field = name\<rparr>)), l)
         else (Inr (), l)
     | None \<Rightarrow> (Inr (), l))"

definition linker_insert :: "string \<Rightarrow> string \<Rightarrow> 't link_def \<Rightarrow> ('t, 'e, unit) linker_op" where
  "linker_insert module name item =
    st_bind (ensure_undefined module name) (\<lambda>_. on_inner (inner_define module name item))"

definition linker_define :: "string \<Rightarrow> string \<Rightarrow> extern_val \<Rightarrow> ('t, 'e, unit) linker_op" where
  "linker_define module name item = linker_insert module name (DefExtern item)"

definition linker_func_new :: "string \<Rightarrow> string \<Rightarrow> 't host_trampoline \<Rightarrow> ('t, 'e, unit) linker_op" where
  "linker_func_new module name host = linker_insert module name (DefHostFunc host)"

definition linker_get_definition :: "'t linker \<Rightarrow> string \<Rightarrow> string \<Rightarrow> 't link_def option" where
  "linker_get_definition l module name =
    (case Option.bind (ln_shared l) (\<lambda>shared. inner_get_definition shared module name) of
       Some item \<Rightarrow> Some item
     | None \<Rightarrow> inner_get_definition (ln_inner l) module name)"

definition linker_get :: "'t linker \<Rightarrow> string \<Rightarrow> string \<Rightarrow> extern_val option" where
  "linker_get l module name =
    (case linker_get_definition l module name of
       Some (DefExtern item) \<Rightarrow> Some item
     | _ \<Rightarrow> None)"

text \<open>
  \<open>LinkerBuilder\<close>: its definitions, until it is finished, and the linkers that it creates then.
\<close>

definition linker_builder_create :: "'t linker_inner \<Rightarrow> 't linker" where
  "linker_builder_create builder = \<lparr>ln_shared = Some builder, ln_inner = linker_inner_default\<rparr>"


section \<open>Processing imports\<close>

definition process_import_func :: "import_name \<Rightarrow> extern_type \<Rightarrow> 't link_def \<Rightarrow> func_type
    \<Rightarrow> ('h, 't, 'e, extern_val) context_op" where
  "process_import_func name ty resolved expected =
    st_bind (def_ty resolved) (\<lambda>found.
      case extern_type_func found of
        None \<Rightarrow> st_err (ErrLinker (InvalidTypeDefinition name ty found))
      | Some found_type \<Rightarrow>
          if found_type \<noteq> expected then st_err (ErrLinker (FuncTypeMismatch name expected found_type))
          else st_bind (def_as_func resolved) (\<lambda>f.
            case f of None \<Rightarrow> st_err ErrPanic | Some func \<Rightarrow> st_ok (ExtFunc func)))"

text \<open>The definition of another kind: its type is found only for the error.\<close>

definition invalid_type :: "import_name \<Rightarrow> extern_type \<Rightarrow> 't link_def \<Rightarrow> ('h, 't, 'e, 'a) context_op" where
  "invalid_type name ty resolved =
    st_bind (def_ty resolved) (\<lambda>found. st_err (ErrLinker (InvalidTypeDefinition name ty found)))"

definition process_import_table :: "import_name \<Rightarrow> extern_type \<Rightarrow> 't link_def \<Rightarrow> table_type
    \<Rightarrow> ('h, 't, 'e, extern_val) context_op" where
  "process_import_table name ty resolved expected =
    (case Option.bind (def_as_extern resolved) extern_into_table of
       None \<Rightarrow> invalid_type name ty resolved
     | Some table \<Rightarrow>
         st_bind (on_store (table_handle_dynamic_ty table)) (\<lambda>found.
           if table_type_is_subtype_or_err found expected \<noteq> Inr ()
           then st_err (ErrLinker (InvalidTableSubtype name expected found))
           else st_ok (ExtTable table)))"

definition process_import_memory :: "import_name \<Rightarrow> extern_type \<Rightarrow> 't link_def \<Rightarrow> memory_type
    \<Rightarrow> ('h, 't, 'e, extern_val) context_op" where
  "process_import_memory name ty resolved expected =
    (case Option.bind (def_as_extern resolved) extern_into_memory of
       None \<Rightarrow> invalid_type name ty resolved
     | Some memory \<Rightarrow>
         st_bind (on_store (memory_handle_dynamic_ty memory)) (\<lambda>found.
           if memory_type_is_subtype_or_err found expected \<noteq> Inr ()
           then st_err (ErrLinker (InvalidMemorySubtype name expected found))
           else st_ok (ExtMemory memory)))"

definition process_import_global :: "import_name \<Rightarrow> extern_type \<Rightarrow> 't link_def \<Rightarrow> global_type
    \<Rightarrow> ('h, 't, 'e, extern_val) context_op" where
  "process_import_global name ty resolved expected =
    (case Option.bind (def_as_extern resolved) extern_into_global of
       None \<Rightarrow> invalid_type name ty resolved
     | Some global \<Rightarrow>
         st_bind (on_store (global_handle_ty global)) (\<lambda>found.
           if found \<noteq> expected then st_err (ErrLinker (LinkGlobalTypeMismatch name expected found))
           else st_ok (ExtGlobal global)))"

definition process_import :: "'t linker \<Rightarrow> import_type \<Rightarrow> ('h, 't, 'e, extern_val) context_op" where
  "process_import l import =
    (let name = it_name import; ty = it_type import
     in case linker_get_definition l (imn_module name) (imn_field name) of
          None \<Rightarrow> st_err (ErrLinker (MissingDefinition name ty))
        | Some resolved \<Rightarrow>
            (case ty of
               EtFunc expected \<Rightarrow> process_import_func name ty resolved expected
             | EtTable expected \<Rightarrow> process_import_table name ty resolved expected
             | EtMemory expected \<Rightarrow> process_import_memory name ty resolved expected
             | EtGlobal expected \<Rightarrow> process_import_global name ty resolved expected))"

definition process_imports :: "'t linker \<Rightarrow> wasm_module \<Rightarrow> ('h, 't, 'e, extern_val list) context_op" where
  "process_imports l m =
    st_read (\<lambda>c. case module_imports_iter (cx_types c) m of
      None \<Rightarrow> st_err ErrPanic
    | Some imports \<Rightarrow> st_map (process_import l) imports)"


section \<open>The linker as a map\<close>

text \<open>
  What a table of definitions promises: a definition that succeeds was not there before and is all
  that changes; one that fails changes nothing that can be looked up.
\<close>

locale name_table =
  fixes define_item :: "'k \<Rightarrow> 'd \<Rightarrow> ('s, 'e, unit) st_res"
    and lookup :: "'s \<Rightarrow> 'k \<Rightarrow> 'd option"
    and inv :: "'s \<Rightarrow> bool"
  assumes define_inv: "inv s \<Longrightarrow> inv (snd (define_item k d s))"
    and define_ok: "inv s \<Longrightarrow> define_item k d s = (Inr (), s') \<Longrightarrow> lookup s k = None \<and> lookup s' = (lookup s)(k \<mapsto> d)"
    and define_err: "inv s \<Longrightarrow> define_item k d s = (Inl e, s') \<Longrightarrow> lookup s' = lookup s"
begin

lemma no_overwrite: "inv s \<Longrightarrow> lookup s k = Some x \<Longrightarrow> \<exists>e s'. define_item k d s = (Inl e, s') \<and> lookup s' = lookup s"
  using define_ok [of s k d] define_err [of s k d] by (cases "define_item k d s"; cases "fst (define_item k d s)") auto

text \<open>Definitions, one after the other, until one fails.\<close>

definition define_all :: "('k \<times> 'd) list \<Rightarrow> ('s, 'e, unit) st_res" where
  "define_all ps = st_fold (\<lambda>p _. define_item (fst p) (snd p)) ps ()"

lemma define_all_inv: "inv s \<Longrightarrow> inv (snd (define_all ps s))"
proof (induction ps arbitrary: s)
  case (Cons p ps)
  have step: "inv (snd (define_item (fst p) (snd p) s))" by (rule define_inv [OF Cons.prems])
  show ?case
  proof (cases "define_item (fst p) (snd p) s")
    case (Pair r s1)
    with step Cons.IH [of s1] show ?thesis by (cases r) (simp_all add: define_all_def st_bind_eval)
  qed
qed (simp add: define_all_def)

text \<open>All succeed only for different names that are not defined, and then exactly they are added.\<close>

lemma define_all_ok:
  assumes "inv s" "define_all ps s = (Inr u, s')"
  shows "distinct (map fst ps) \<and> (\<forall>k \<in> set (map fst ps). lookup s k = None) \<and> lookup s' = lookup s ++ map_of ps"
  using assms
proof (induction ps arbitrary: s)
  case (Cons p ps)
  then obtain s1 where p: "define_item (fst p) (snd p) s = (Inr (), s1)" and ps: "define_all ps s1 = (Inr u, s')"
    by (auto simp: define_all_def st_simps)
  note one = define_ok [OF Cons.prems(1) p]
  have "inv s1" using define_inv [OF Cons.prems(1), of "fst p" "snd p"] p by simp
  from Cons.IH [OF this ps] have *: "distinct (map fst ps)" "\<forall>k \<in> set (map fst ps). lookup s1 k = None"
    "lookup s' = lookup s1 ++ map_of ps" by blast+
  from *(2) one have "fst p \<notin> set (map fst ps)" by force
  moreover from this have "map_of ps (fst p) = None" by (simp add: map_of_eq_None_iff)
  ultimately show ?case using * one by (fastforce simp: map_add_def fun_eq_iff split: option.splits if_splits)
qed (simp add: define_all_def)

end

text \<open>Symbols: what interning a name does to the names that are known.\<close>

lemma intern_cases:
  assumes "get_or_intern_with_hint hint x s = Some (i, s')"
  shows "s' = s \<and> string_interner_get x s = Some i \<or>
    string_interner_get x s = None \<and> i = length (si_strings s) \<and> i < 2 ^ 32 \<and> si_strings s' = si_strings s @ [x]"
  using assms
  by (auto simp: get_or_intern_with_hint_def get_or_intern_hint_existing_def get_or_intern_hint_new_def
      intern_string_def string_interner_get_def index_from_usize_def bind_eq_Some_conv
      split: intern_hint.splits option.splits if_splits)

definition interner_inv :: "string_interner \<Rightarrow> bool" where
  "interner_inv s \<longleftrightarrow> dedup_inv (interner_arena s) \<and> length (si_strings s) \<le> 2 ^ 32"

lemma interner_get_resolve:
  "interner_inv s \<Longrightarrow> string_interner_get x s = Some i \<longleftrightarrow> i < length (si_strings s) \<and> si_strings s ! i = x"
  by (simp add: interner_inv_def dedup_inv_def interner_arena_def string_interner_get_def arena_get_def)

lemma intern_facts:
  assumes "interner_inv s" "get_or_intern_with_hint hint x s = Some (i, s')"
  shows "interner_inv s'" "string_interner_get x s' = Some i" "length (si_strings s) \<le> length (si_strings s')"
    "\<And>y j. j < length (si_strings s) \<Longrightarrow> string_interner_get y s' = Some j \<longleftrightarrow> string_interner_get y s = Some j"
proof -
  have inv: "dedup_inv (interner_arena s')"
    using strings.intern_inv [OF _ assms(2)] assms(1) by (simp add: interner_inv_def)
  note c = intern_cases [OF assms(2)]
  show i': "interner_inv s'" using inv c assms(1) by (auto simp: interner_inv_def)
  show "string_interner_get x s' = Some i"
    using strings.intern_key [OF _ assms(2)] assms(1) interner_get_resolve [OF i']
    by (auto simp: interner_inv_def string_interner_resolve_def)
  show "length (si_strings s) \<le> length (si_strings s')" using c by auto
  show "string_interner_get y s' = Some j \<longleftrightarrow> string_interner_get y s = Some j" if "j < length (si_strings s)" for y j
    using that c interner_get_resolve [OF i'] interner_get_resolve [OF assms(1)] by (auto simp: nth_append)
qed

text \<open>The invariant: the keys of the definitions are made of known symbols.\<close>

definition linker_inv :: "'t linker_inner \<Rightarrow> bool" where
  "linker_inv l \<longleftrightarrow> interner_inv (li_strings l) \<and>
    (\<forall>key \<in> dom (li_definitions l). \<exists>m n. m < length (si_strings (li_strings l)) \<and>
      n < length (si_strings (li_strings l)) \<and> key = import_key_new m n)"

lemma linker_inv_default: "linker_inv linker_inner_default"
  using string_interner_new_inv
  by (simp add: linker_inv_def interner_inv_def linker_inner_default_def string_interner_new_def)

text \<open>Interning a name keeps what can be looked up.\<close>

lemma intern_name_keeps:
  assumes "linker_inv l" "intern_name hint name l = (Inr i, l')"
  shows "linker_inv l'" "li_definitions l' = li_definitions l" "inner_get_definition l' = inner_get_definition l"
    "string_interner_get (str_bytes name) (li_strings l') = Some i"
    "\<And>x j. string_interner_get x (li_strings l) = Some j \<Longrightarrow> string_interner_get x (li_strings l') = Some j"
proof -
  obtain strs where g: "get_or_intern_with_hint hint (str_bytes name) (li_strings l) = Some (i, strs)"
    and l': "l' = l\<lparr>li_strings := strs\<rparr>"
    using assms(2) by (auto simp: intern_name_def alloc_with_def split: option.splits prod.splits)
  have inv: "interner_inv (li_strings l)" using assms(1) by (simp add: linker_inv_def)
  note f = intern_facts [OF inv g]
  have keys: "\<exists>m n. m < length (si_strings (li_strings l)) \<and> n < length (si_strings (li_strings l)) \<and> key = import_key_new m n"
    if "li_definitions l key = Some d" for key d
    using assms(1) that by (auto simp: linker_inv_def)
  show "li_definitions l' = li_definitions l" by (simp add: l')
  show "linker_inv l'"
    unfolding linker_inv_def
  proof (intro conjI ballI)
    show "interner_inv (li_strings l')" using f(1) by (simp add: l')
    fix key
    assume "key \<in> dom (li_definitions l')"
    then obtain d where "li_definitions l key = Some d" by (auto simp: l')
    from keys [OF this] obtain m n where "m < length (si_strings strs)" "n < length (si_strings strs)"
      "key = import_key_new m n"
      using f(3) order_less_le_trans by blast
    then show "\<exists>m n. m < length (si_strings (li_strings l')) \<and>
      n < length (si_strings (li_strings l')) \<and> key = import_key_new m n"
      by (auto simp: l')
  qed
  show "string_interner_get (str_bytes name) (li_strings l') = Some i" using f(2) by (simp add: l')
  show old: "string_interner_get x (li_strings l') = Some j" if "string_interner_get x (li_strings l) = Some j" for x j
    using f(4) that interner_get_resolve [OF inv] by (auto simp: l')
  have bound: "string_interner_get x s = Some j \<Longrightarrow> interner_inv s \<Longrightarrow> j < 2 ^ 32" for x s j
    using interner_get_resolve [of s x j] by (auto simp: interner_inv_def)
  show "inner_get_definition l' = inner_get_definition l"
  proof (intro ext)
    fix m n
    let ?g = "\<lambda>x s. string_interner_get (str_bytes x) s"
    show "inner_get_definition l' m n = inner_get_definition l m n"
    proof (cases "inner_get_definition l' m n")
      case (Some d)
      then obtain a b where ab: "?g m strs = Some a" "?g n strs = Some b" "li_definitions l (import_key_new a b) = Some d"
        by (auto simp: inner_get_definition_def get_import_key_def bind_eq_Some_conv l')
      from keys [OF ab(3)] obtain a' b' where ab': "a' < length (si_strings (li_strings l))"
        "b' < length (si_strings (li_strings l))" "import_key_new a b = import_key_new a' b'" by blast
      moreover have "a < 2 ^ 32" "b < 2 ^ 32" using ab(1,2) bound f(1) by blast+
      moreover have "a' < 2 ^ 32" "b' < 2 ^ 32" using ab'(1,2) inv by (auto simp: interner_inv_def)
      ultimately have "a = a'" "b = b'" using import_key_inj by blast+
      with ab ab' f(4) Some show ?thesis
        by (simp add: inner_get_definition_def get_import_key_def)
    next
      case None
      have "inner_get_definition l' m n = Some d" if "inner_get_definition l m n = Some d" for d
        using that old [of "str_bytes m"] old [of "str_bytes n"]
        by (auto simp: inner_get_definition_def get_import_key_def l' bind_eq_Some_conv)
      with None show ?thesis by (metis not_None_eq)
    qed
  qed
qed


lemma define_steps:
  fixes l :: "'t linker_inner"
  assumes "linker_inv l" "new_import_key module name l = (Inr key :: 'e api_error + import_key, l')"
  shows "linker_inv l'" "inner_get_definition l' = inner_get_definition l" "get_import_key l' module name = Some key"
    "\<exists>m n. m < length (si_strings (li_strings l')) \<and> n < length (si_strings (li_strings l')) \<and> key = import_key_new m n"
    "resolve_import_key l' key = Some (module, name)"
proof -
  obtain m l1 n where m: "intern_name HintLikelyExists module l = (Inr m :: 'e api_error + nat, l1)"
    and n: "intern_name HintLikelyNew name l1 = (Inr n :: 'e api_error + nat, l')" and key: "key = import_key_new m n"
    using assms(2) by (auto simp: new_import_key_def st_simps)
  note k1 = intern_name_keeps [OF assms(1) m]
  note k2 = intern_name_keeps [OF k1(1) n]
  show "linker_inv l'" by (rule k2(1))
  show "inner_get_definition l' = inner_get_definition l" using k1(3) k2(3) by simp
  have g: "string_interner_get (str_bytes module) (li_strings l') = Some m"
    "string_interner_get (str_bytes name) (li_strings l') = Some n"
    using k1(4) k2(4,5) by auto
  show "get_import_key l' module name = Some key" by (simp add: get_import_key_def g key)
  have inv: "interner_inv (li_strings l')" using k2(1) by (simp add: linker_inv_def)
  note r = g [unfolded interner_get_resolve [OF inv]]
  from r show "\<exists>m n. m < length (si_strings (li_strings l')) \<and> n < length (si_strings (li_strings l')) \<and> key = import_key_new m n"
    using key by blast
  have "m < 2 ^ 32" "n < 2 ^ 32" using r inv by (auto simp: interner_inv_def)
  from import_key_parts [OF this] r show "resolve_import_key l' key = Some (module, name)"
    by (simp add: resolve_import_key_def key string_interner_resolve_def get_at_def)
qed

text \<open>A key that cannot be made leaves the definitions as they are.\<close>

lemma new_import_key_err:
  fixes e :: "'e api_error" and l :: "'t linker_inner"
  assumes "linker_inv l" "new_import_key module name l = (Inl e, l')"
  shows "linker_inv l'" "inner_get_definition l' = inner_get_definition l" "e = ErrPanic"
proof -
  have err: "intern_name hint x l1 = (Inl e', l2) \<Longrightarrow> l2 = l1 \<and> e' = ErrPanic" for hint x and l1 l2 :: "'t linker_inner" and e' :: "'e api_error"
    by (auto simp: intern_name_def alloc_with_def split: option.splits)
  have "linker_inv l' \<and> inner_get_definition l' = inner_get_definition l \<and> e = ErrPanic"
  proof (cases "intern_name HintLikelyExists module l :: ('e api_error + nat) \<times> _")
    case (Pair r l1)
    show ?thesis
    proof (cases r)
      case (Inl e1)
      with Pair assms(2) have "e = e1" "l' = l1" by (simp_all add: new_import_key_def st_bind_eval)
      with err [OF Pair [unfolded Inl]] assms(1) show ?thesis by simp
    next
      case (Inr m)
      note m = Pair [unfolded Inr]
      have "st_bind (intern_name HintLikelyNew name) (\<lambda>n. st_ok (import_key_new m n)) l1 = (Inl e, l')"
        using assms(2) m by (simp add: new_import_key_def st_bind_eval)
      then have "intern_name HintLikelyNew name l1 = (Inl e, l')"
        by (auto simp: st_bind_def split: prod.splits sum.splits)
      from err [OF this] intern_name_keeps(1,3) [OF assms(1) m] show ?thesis by simp
    qed
  qed
  then show "linker_inv l'" "inner_get_definition l' = inner_get_definition l" "e = ErrPanic" by blast+
qed

text \<open>A name of a table, two names with the definition it stands for.\<close>

definition inner_lookup :: "'t linker_inner \<Rightarrow> string \<times> string \<Rightarrow> 't link_def option" where
  "inner_lookup l k = inner_get_definition l (fst k) (snd k)"

lemma inner_define_cases:
  fixes l :: "'t linker_inner"
  assumes "linker_inv l"
  obtains (ok) l' where "inner_define module name item l = (Inr () :: 'e api_error + unit, l')" "linker_inv l'"
      "inner_get_definition l module name = None"
      "inner_lookup l' = (inner_lookup l)((module, name) \<mapsto> item)"
  | (duplicate) l' where "inner_define module name item l =
        (Inl (ErrLinker (DuplicateDefinition \<lparr>imn_module = module, imn_field = name\<rparr>)) :: 'e api_error + unit, l')"
      "linker_inv l'" "inner_get_definition l module name \<noteq> None" "inner_lookup l' = inner_lookup l"
  | (full) l' where "inner_define module name item l = (Inl ErrPanic :: 'e api_error + unit, l')"
      "linker_inv l'" "inner_lookup l' = inner_lookup l"
proof (cases "new_import_key module name l :: ('e api_error + import_key) \<times> _")
  case (Pair r l1)
  show thesis
  proof (cases r)
    case (Inl e)
    note k = Pair [unfolded Inl]
    note s = new_import_key_err [OF assms k]
    have "inner_define module name item l = (Inl e :: 'e api_error + unit, l1)"
      using k by (simp add: inner_define_def st_bind_eval)
    with s full show thesis by (simp add: inner_lookup_def fun_eq_iff)
  next
    case (Inr key)
    note k = Pair [unfolded Inr]
    note s = define_steps [OF assms k]
    show thesis
    proof (cases "li_definitions l1 key")
      case (Some d)
      then have "inner_define module name item l =
          (Inl (ErrLinker (DuplicateDefinition \<lparr>imn_module = module, imn_field = name\<rparr>)) :: 'e api_error + unit, l1)"
        using k s(5) by (simp add: inner_define_def st_bind_eval inner_insert_def)
      moreover have "inner_get_definition l module name = Some d"
        using s(2,3) Some by (metis inner_get_definition_def Option.bind.bind_lunit)
      ultimately show thesis using duplicate s(1,2) by (simp add: inner_lookup_def fun_eq_iff)
    next
      case None
      let ?l = "l1\<lparr>li_definitions := (li_definitions l1)(key \<mapsto> item)\<rparr>"
      have d: "inner_define module name item l = (Inr () :: 'e api_error + unit, ?l)"
        using k None by (simp add: inner_define_def st_bind_eval inner_insert_def)
      have inv: "linker_inv ?l" using s(1,4) by (auto simp: linker_inv_def)
      have i: "interner_inv (li_strings l1)" using s(1) by (simp add: linker_inv_def)
      have keys: "get_import_key l1 m n = Some key \<longleftrightarrow> m = module \<and> n = name" for m n
      proof
        assume "get_import_key l1 m n = Some key"
        then obtain a b a' b' where g: "string_interner_get (str_bytes m) (li_strings l1) = Some a"
          "string_interner_get (str_bytes n) (li_strings l1) = Some b" "key = import_key_new a b"
          "string_interner_get (str_bytes module) (li_strings l1) = Some a'"
          "string_interner_get (str_bytes name) (li_strings l1) = Some b'" "key = import_key_new a' b'"
          using s(3) by (auto simp: get_import_key_def bind_eq_Some_conv)
        then have "a < 2 ^ 32" "b < 2 ^ 32" "a' < 2 ^ 32" "b' < 2 ^ 32"
          using i by (auto simp: interner_get_resolve [OF i] interner_inv_def)
        with g(3,6) have "a = a'" "b = b'" using import_key_inj by blast+
        with g show "m = module \<and> n = name" by (auto simp: interner_get_resolve [OF i])
      qed (use s(3) in simp)
      have "inner_lookup ?l k = ((inner_lookup l)((module, name) \<mapsto> item)) k" for k
      proof (cases k)
        case (Pair m n)
        have "inner_get_definition ?l m n =
            (if m = module \<and> n = name then Some item else inner_get_definition l1 m n)"
          using keys [of m n] s(3)
          by (cases "get_import_key l1 m n") (auto simp: inner_get_definition_def get_import_key_def)
        with s(2) Pair show ?thesis by (simp add: inner_lookup_def)
      qed
      moreover have "inner_get_definition l module name = None"
        using s(2,3) None by (metis inner_get_definition_def Option.bind.bind_lunit)
      ultimately show thesis using ok d inv by blast
    qed
  qed
qed

interpretation definitions: name_table "\<lambda>k. inner_define (fst k) (snd k)" inner_lookup linker_inv
proof
  fix l l' :: "'a linker_inner" and k :: "string \<times> string" and d :: "'a link_def" and e :: "'b api_error"
  assume inv: "linker_inv l"
  note c = inner_define_cases [OF inv, of "fst k" "snd k" d, where 'e = 'b]
  show "linker_inv (snd (inner_define (fst k) (snd k) d l :: ('b api_error + unit) \<times> _))"
    by (rule c) simp_all
  show "inner_define (fst k) (snd k) d l = (Inr () :: 'b api_error + unit, l') \<Longrightarrow>
      inner_lookup l k = None \<and> inner_lookup l' = (inner_lookup l)(k \<mapsto> d)"
    by (rule c) (simp_all add: inner_lookup_def)
  show "inner_define (fst k) (snd k) d l = (Inl e, l') \<Longrightarrow> inner_lookup l' = inner_lookup l"
    by (rule c) simp_all
qed


text \<open>The definitions of a linker, with those that it shares, are a table as well.\<close>

definition linker_lookup :: "'t linker \<Rightarrow> string \<times> string \<Rightarrow> 't link_def option" where
  "linker_lookup l k = linker_get_definition l (fst k) (snd k)"

definition linker_ok :: "'t linker \<Rightarrow> bool" where
  "linker_ok l \<longleftrightarrow> linker_inv (ln_inner l)"

lemma inner_has_definition_iff: "inner_has_definition l m n \<longleftrightarrow> inner_get_definition l m n \<noteq> None"
  by (auto simp: inner_has_definition_def inner_get_definition_def split: option.split)

lemma linker_insert_cases:
  fixes l :: "'t linker"
  assumes "linker_ok l"
  obtains (ok) l' where "linker_insert module name item l = (Inr () :: 'e api_error + unit, l')" "linker_ok l'"
      "linker_get_definition l module name = None" "linker_lookup l' = (linker_lookup l)((module, name) \<mapsto> item)"
  | (failed) e l' where "linker_insert module name item l = (Inl e :: 'e api_error + unit, l')" "linker_ok l'"
      "linker_lookup l' = linker_lookup l"
      "e = ErrLinker (DuplicateDefinition \<lparr>imn_module = module, imn_field = name\<rparr>) \<and>
        linker_get_definition l module name \<noteq> None \<or> e = ErrPanic"
proof (cases "\<exists>shared. ln_shared l = Some shared \<and> inner_get_definition shared module name \<noteq> None")
  case True
  then have "linker_insert module name item l =
      (Inl (ErrLinker (DuplicateDefinition \<lparr>imn_module = module, imn_field = name\<rparr>)) :: 'e api_error + unit, l)"
    "linker_get_definition l module name \<noteq> None"
    by (auto simp: linker_insert_def st_bind_def ensure_undefined_def inner_has_definition_iff linker_get_definition_def)
  with failed assms show thesis by blast
next
  case False
  then have eq: "(linker_insert module name item l :: ('e api_error + unit) \<times> _) = on_inner (inner_define module name item) l"
    by (auto simp: linker_insert_def st_bind_def ensure_undefined_def inner_has_definition_iff split: option.split)
  have shared: "Option.bind (ln_shared l) (\<lambda>s. inner_get_definition s module name) = None"
    using False by (cases "ln_shared l") auto
  from assms have "linker_inv (ln_inner l)" by (simp add: linker_ok_def)
  then show thesis
  proof (cases rule: inner_define_cases [of "ln_inner l" module name item, where 'e = 'e])
    case (ok i)
    let ?l = "l\<lparr>ln_inner := i\<rparr>"
    have "linker_lookup ?l k = ((linker_lookup l)((module, name) \<mapsto> item)) k" for k
      using ok(4) [THEN fun_cong, of k] shared
      by (cases k) (auto simp: linker_lookup_def linker_get_definition_def inner_lookup_def split: if_splits option.split)
    then have look: "linker_lookup ?l = (linker_lookup l)((module, name) \<mapsto> item)" by (rule ext)
    from eq ok(1) have "linker_insert module name item l = (Inr () :: 'e api_error + unit, ?l)"
      by (simp add: on_inner_def)
    from that(1) [OF this _ _ look] ok(2,3) shared show thesis
      by (simp add: linker_ok_def linker_get_definition_def)
  next
    case (duplicate i)
    then have "linker_lookup (l\<lparr>ln_inner := i\<rparr>) = linker_lookup l"
      by (auto simp: fun_eq_iff linker_lookup_def linker_get_definition_def inner_lookup_def split: option.split)
    with duplicate show thesis
      using that(2) [of _ "l\<lparr>ln_inner := i\<rparr>"] eq shared
      by (auto simp: on_inner_def linker_ok_def linker_get_definition_def)
  next
    case (full i)
    then have "linker_lookup (l\<lparr>ln_inner := i\<rparr>) = linker_lookup l"
      by (auto simp: fun_eq_iff linker_lookup_def linker_get_definition_def inner_lookup_def split: option.split)
    with full show thesis
      using that(2) [of _ "l\<lparr>ln_inner := i\<rparr>"] eq by (auto simp: on_inner_def linker_ok_def)
  qed
qed

interpretation linkers: name_table "\<lambda>k. linker_insert (fst k) (snd k)" linker_lookup linker_ok
proof
  fix l l' :: "'a linker" and k :: "string \<times> string" and d :: "'a link_def" and e :: "'b api_error"
  assume ok: "linker_ok l"
  note c = linker_insert_cases [OF ok, of "fst k" "snd k" d, where 'e = 'b]
  show "linker_ok (snd (linker_insert (fst k) (snd k) d l :: ('b api_error + unit) \<times> _))"
    by (rule c) simp_all
  show "linker_insert (fst k) (snd k) d l = (Inr () :: 'b api_error + unit, l') \<Longrightarrow>
      linker_lookup l k = None \<and> linker_lookup l' = (linker_lookup l)(k \<mapsto> d)"
    by (rule c) (simp_all add: linker_lookup_def)
  show "linker_insert (fst k) (snd k) d l = (Inl e, l') \<Longrightarrow> linker_lookup l' = linker_lookup l"
    by (rule c) simp_all
qed

lemma linker_ok_new: "linker_ok linker_new" "linker_ok (linker_builder_create builder)"
  by (simp_all add: linker_ok_def linker_new_def linker_builder_create_def linker_inv_default)

end
