(* ===== verification/Instantiate.thy ===== *)
theory Instantiate
  imports Linker
begin

text \<open>
  The instantiation of modules (\<open>wasmi/src/module/instantiate\<close>, \<open>instance/builder.rs\<close>): the instance
  is allocated first, its parts are collected in a builder, and it is initialized at the end, when
  \<open>InstancePre\<close> is started. An error leaves what has been allocated and written until then in the
  store. \<open>func_bits\<close> is the memory layout of a \<open>FuncRef\<close>.
\<close>


section \<open>The builder of an instance\<close>

record instance_builder =
  ib_func_types :: "func_type_h list"
  ib_tables :: "table_h list"
  ib_funcs :: "func_h list"
  ib_memories :: "memory_h list"
  ib_globals :: "global_h list"
  ib_start_fn :: "u32 option"
  ib_exports :: "(string \<times> extern_val) list"
  ib_data_segments :: "data_h list"
  ib_elem_segments :: "elem_h list"

definition instance_builder_new :: "wasm_module \<Rightarrow> instance_builder" where
  "instance_builder_new m =
    \<lparr>ib_func_types = hd_func_types (wm_header m), ib_tables = [], ib_funcs = [], ib_memories = [],
     ib_globals = [], ib_start_fn = None, ib_exports = [], ib_data_segments = [], ib_elem_segments = []\<rparr>"

definition push_func :: "func_h \<Rightarrow> instance_builder \<Rightarrow> instance_builder" where
  "push_func f b = b\<lparr>ib_funcs := ib_funcs b @ [f]\<rparr>"

definition push_table :: "table_h \<Rightarrow> instance_builder \<Rightarrow> instance_builder" where
  "push_table t b = b\<lparr>ib_tables := ib_tables b @ [t]\<rparr>"

definition push_memory :: "memory_h \<Rightarrow> instance_builder \<Rightarrow> instance_builder" where
  "push_memory m b = b\<lparr>ib_memories := ib_memories b @ [m]\<rparr>"

definition push_global :: "global_h \<Rightarrow> instance_builder \<Rightarrow> instance_builder" where
  "push_global g b = b\<lparr>ib_globals := ib_globals b @ [g]\<rparr>"

definition push_data :: "data_h \<Rightarrow> instance_builder \<Rightarrow> instance_builder" where
  "push_data d b = b\<lparr>ib_data_segments := ib_data_segments b @ [d]\<rparr>"

definition push_element :: "elem_h \<Rightarrow> instance_builder \<Rightarrow> instance_builder" where
  "push_element e b = b\<lparr>ib_elem_segments := ib_elem_segments b @ [e]\<rparr>"

text \<open>A name that is used twice and a second start function are panics.\<close>

definition push_export :: "string \<Rightarrow> extern_val \<Rightarrow> instance_builder \<Rightarrow> instance_builder option" where
  "push_export name v b =
    (if map_of (ib_exports b) name \<noteq> None then None
     else Some (b\<lparr>ib_exports := ib_exports b @ [(name, v)]\<rparr>))"

definition builder_set_start :: "u32 \<Rightarrow> instance_builder \<Rightarrow> instance_builder option" where
  "builder_set_start f b = (if ib_start_fn b \<noteq> None then None else Some (b\<lparr>ib_start_fn := Some f\<rparr>))"

definition instance_builder_finish :: "instance_builder \<Rightarrow> instance_entity" where
  "instance_builder_finish b =
    \<lparr>in_func_types = ib_func_types b, in_tables = ib_tables b, in_funcs = ib_funcs b,
     in_memories = ib_memories b, in_globals = ib_globals b, in_data_segments = ib_data_segments b,
     in_elem_segments = ib_elem_segments b, in_exports = ib_exports b, in_initialized = True\<rparr>"


section \<open>Imports\<close>

definition inst_err :: "instantiation_error \<Rightarrow> ('s, 'e api_error, 'a) st_res" where
  "inst_err e = st_err (ErrInst e)"

definition extract_import :: "import_type \<Rightarrow> extern_val \<Rightarrow> instance_builder
    \<Rightarrow> ('h, 't, 'e, instance_builder) context_op" where
  "extract_import import external b =
    (case (it_type import, external) of
       (EtFunc expected, ExtFunc func) \<Rightarrow>
         st_bind (func_handle_ty func) (\<lambda>actual.
           if actual \<noteq> expected then inst_err (SignatureMismatch expected actual)
           else st_ok (push_func func b))
     | (EtTable required, ExtTable table) \<Rightarrow>
         st_bind (on_store (table_handle_dynamic_ty table)) (\<lambda>imported.
         st_bind (st_lift (map_err (\<lambda>e. ErrInst (InstTable e)) (table_type_is_subtype_or_err imported required))) (\<lambda>_.
           st_ok (push_table table b)))
     | (EtMemory required, ExtMemory memory) \<Rightarrow>
         st_bind (on_store (memory_handle_dynamic_ty memory)) (\<lambda>imported.
         st_bind (st_lift (map_err (\<lambda>e. ErrInst (InstMemory e)) (memory_type_is_subtype_or_err imported required))) (\<lambda>_.
           st_ok (push_memory memory b)))
     | (EtGlobal required, ExtGlobal global) \<Rightarrow>
         st_bind (on_store (global_handle_ty global)) (\<lambda>imported.
         st_bind (st_lift (map_err (\<lambda>e. ErrInst (InstGlobal e)) (global_type_satisfies required imported))) (\<lambda>_.
           st_ok (push_global global b)))
     | (expected, actual) \<Rightarrow> inst_err (ImportsExternalsMismatch expected actual))"

definition extract_imports :: "wasm_module \<Rightarrow> extern_val list \<Rightarrow> instance_builder
    \<Rightarrow> ('h, 't, 'e, instance_builder) context_op" where
  "extract_imports m externals b =
    st_bind (st_read (\<lambda>c. st_expect (module_imports_iter (cx_types c) m))) (\<lambda>imports.
      if length imports \<noteq> length externals
      then inst_err (InvalidNumberOfImports (length imports) (length externals))
      else st_fold (\<lambda>p. extract_import (fst p) (snd p)) (zip imports externals) b)"


section \<open>Entities of the module\<close>

definition extract_functions :: "wasm_module \<Rightarrow> instance_h \<Rightarrow> instance_builder \<Rightarrow> ('h, 'e, instance_builder) store_op" where
  "extract_functions m handle b =
    st_bind (st_expect (internal_funcs m)) (\<lambda>funcs.
      st_fold (\<lambda>p b. st_bind (alloc_func (WasmFunc \<lparr>wf_type = fst p, wf_body = snd p, wf_instance = handle\<rparr>))
        (\<lambda>f. st_ok (push_func f b))) funcs b)"

text \<open>A table error becomes an instantiation error.\<close>

definition table_to_inst :: "'e api_error \<Rightarrow> 'e api_error" where
  "table_to_inst e = (case e of ErrTable t \<Rightarrow> ErrInst (InstTable t) | _ \<Rightarrow> e)"

definition extract_tables :: "wasm_module \<Rightarrow> instance_builder \<Rightarrow> ('h, 'e, instance_builder) store_op" where
  "extract_tables m b =
    st_bind (st_map_err (\<lambda>e. ErrInst (InstTable e)) (check_new_tables_limit (len_tables m))) (\<lambda>_.
    st_bind (st_expect (internal_tables m)) (\<lambda>tables.
      st_fold (\<lambda>ty b. st_bind (st_map_err table_to_inst (table_handle_new ty (val_default (tt_element ty))))
        (\<lambda>t. st_ok (push_table t b))) tables b))"

definition extract_memories :: "wasm_module \<Rightarrow> instance_builder \<Rightarrow> ('h, 'e, instance_builder) store_op" where
  "extract_memories m b =
    st_bind (st_map_err ErrMemory (check_new_memories_limit (len_memories m))) (\<lambda>_.
    st_bind (st_expect (internal_memories m)) (\<lambda>memories.
      st_fold (\<lambda>ty b. st_bind (memory_handle_new ty) (\<lambda>h. st_ok (push_memory h b))) memories b))"

text \<open>A global or function that the builder does not have is a panic, and so is a value that is missing.\<close>

definition builder_context :: "(func_h \<Rightarrow> u64) \<Rightarrow> 'h wstore \<Rightarrow> instance_builder \<Rightarrow> eval_context" where
  "builder_context func_bits s b =
    \<lparr>ec_get_global = (\<lambda>i. Option.bind (get_at (ib_globals b) (unat i)) (\<lambda>g.
       map_option global_val (get_at (ws_globals s) g))),
     ec_get_func = (\<lambda>i. map_option func_bits (get_at (ib_funcs b) (unat i)))\<rparr>"

definition eval_init_expr :: "(func_h \<Rightarrow> u64) \<Rightarrow> instance_builder \<Rightarrow> const_op \<Rightarrow> ('h, 'e, untyped_val) store_op" where
  "eval_init_expr func_bits b e = st_read (\<lambda>s. st_expect (const_op_eval e (builder_context func_bits s b)))"

definition extract_global :: "(func_h \<Rightarrow> u64) \<Rightarrow> global_type \<times> const_op \<Rightarrow> instance_builder
    \<Rightarrow> ('h, 'e, instance_builder) store_op" where
  "extract_global func_bits p b =
    st_bind (eval_init_expr func_bits b (snd p)) (\<lambda>init_value.
    st_bind (global_handle_new (val_with_type init_value (gt_content (fst p))) (gt_mutability (fst p))) (\<lambda>g.
      st_ok (push_global g b)))"

definition extract_globals :: "(func_h \<Rightarrow> u64) \<Rightarrow> wasm_module \<Rightarrow> instance_builder \<Rightarrow> ('h, 'e, instance_builder) store_op" where
  "extract_globals func_bits m b =
    st_bind (st_expect (internal_globals m)) (\<lambda>globals. st_fold (extract_global func_bits) globals b)"

definition export_item :: "instance_builder \<Rightarrow> extern_idx \<Rightarrow> extern_val option" where
  "export_item b idx =
    (case idx of
       IdxFunc i \<Rightarrow> map_option ExtFunc (get_at (ib_funcs b) (unat i))
     | IdxTable i \<Rightarrow> map_option ExtTable (get_at (ib_tables b) (unat i))
     | IdxMemory i \<Rightarrow> map_option ExtMemory (get_at (ib_memories b) (unat i))
     | IdxGlobal i \<Rightarrow> map_option ExtGlobal (get_at (ib_globals b) (unat i)))"

primrec push_exports :: "(string \<times> extern_idx) list \<Rightarrow> instance_builder \<Rightarrow> instance_builder option" where
  "push_exports [] b = Some b"
| "push_exports (p # ps) b =
    Option.bind (export_item b (snd p)) (\<lambda>v. Option.bind (push_export (fst p) v b) (push_exports ps))"

definition extract_exports :: "wasm_module \<Rightarrow> instance_builder \<Rightarrow> ('h, 'e, instance_builder) store_op" where
  "extract_exports m b = st_expect (push_exports (hd_exports (wm_header m)) b)"

definition extract_start_fn :: "wasm_module \<Rightarrow> instance_builder \<Rightarrow> ('h, 'e, instance_builder) store_op" where
  "extract_start_fn m b =
    (case hd_start (wm_header m) of
       Some start_fn \<Rightarrow> st_expect (builder_set_start start_fn b)
     | None \<Rightarrow> st_ok b)"



section \<open>Segments\<close>

definition element_segment_items :: "(func_h \<Rightarrow> u64) \<Rightarrow> instance_builder \<Rightarrow> element_def \<Rightarrow> 'h wstore
    \<Rightarrow> untyped_val list option" where
  "element_segment_items func_bits b elem s =
    (case ed_kind elem of
       ElemDeclared \<Rightarrow> Some []
     | _ \<Rightarrow> map_some (\<lambda>e. const_op_eval e (builder_context func_bits s b)) (ed_items elem))"

definition element_segment_new :: "(func_h \<Rightarrow> u64) \<Rightarrow> instance_builder \<Rightarrow> element_def \<Rightarrow> ('h, 'e, elem_h) store_op" where
  "element_segment_new func_bits b elem =
    st_bind (st_read (\<lambda>s. st_expect (element_segment_items func_bits b elem s))) (\<lambda>items.
      alloc_element_segment \<lparr>es_type = ed_type elem, es_items = items\<rparr>)"

definition get_element :: "elem_h \<Rightarrow> ('h, 'e, element_segment) store_op" where
  "get_element e = st_read (\<lambda>s. st_expect (get_at (ws_elems s) e))"

text \<open>The elements of an active segment are written, then the segment is dropped.\<close>

definition write_elements :: "table_h \<Rightarrow> elem_h \<Rightarrow> nat \<Rightarrow> nat \<Rightarrow> ('h, 'e, unit) store_op" where
  "write_elements table elem dst len s =
    (case (get_at (ws_tables s) table, get_at (ws_elems s) elem) of
       (Some t, Some e) \<Rightarrow>
         (case table_init e dst 0 len None t of
            None \<Rightarrow> (Inl ErrPanic, s)
          | Some (Inl trap) \<Rightarrow> (Inl (ErrTrap trap), s)
          | Some (Inr (t', _)) \<Rightarrow>
              (Inr (), (put_table table t' s)\<lparr>ws_elems := (ws_elems s)[elem := element_segment_drop_items e]\<rparr>))
     | _ \<Rightarrow> (Inl ErrPanic, s))"

definition activate_element :: "(func_h \<Rightarrow> u64) \<Rightarrow> instance_builder \<Rightarrow> elem_h \<Rightarrow> u32 \<Rightarrow> const_op \<Rightarrow> ('h, 'e, unit) store_op" where
  "activate_element func_bits b element table_index offset =
    st_bind (eval_init_expr func_bits b offset) (\<lambda>v.
    st_bind (st_expect (get_at (ib_tables b) (unat table_index))) (\<lambda>table.
    st_bind (table_handle_size table) (\<lambda>len_table.
    st_bind (get_element element) (\<lambda>e.
      let dst_index = unat (to_i32 v); len_items = element_segment_size e; max_index = dst_index + len_items
      in if max_index < 2 ^ 32 \<and> max_index \<le> len_table
         then write_elements table element dst_index len_items
         else inst_err (ElementSegmentDoesNotFit table dst_index len_items)))))"

definition initialize_element :: "(func_h \<Rightarrow> u64) \<Rightarrow> element_def \<Rightarrow> instance_builder \<Rightarrow> ('h, 'e, instance_builder) store_op" where
  "initialize_element func_bits segment b =
    st_bind (element_segment_new func_bits b segment) (\<lambda>element.
    st_bind (case ed_kind segment of
        ElemActive table_index offset \<Rightarrow> activate_element func_bits b element table_index offset
      | _ \<Rightarrow> st_ok ()) (\<lambda>_.
      st_ok (push_element element b)))"

definition initialize_table_elements :: "(func_h \<Rightarrow> u64) \<Rightarrow> wasm_module \<Rightarrow> instance_builder
    \<Rightarrow> ('h, 'e, instance_builder) store_op" where
  "initialize_table_elements func_bits m b =
    st_fold (initialize_element func_bits) (hd_element_segments (wm_header m)) b"

definition initialize_data :: "(func_h \<Rightarrow> u64) \<Rightarrow> init_data_segment \<Rightarrow> instance_builder \<Rightarrow> ('h, 'e, instance_builder) store_op" where
  "initialize_data func_bits segment b =
    st_bind (case segment of
        InitActive memory_index offset bytes \<Rightarrow>
          st_bind (eval_init_expr func_bits b offset) (\<lambda>v.
          st_bind (st_expect (get_at (ib_memories b) (unat memory_index))) (\<lambda>memory.
          st_bind (memory_handle_write memory (unat (to_i32 v)) bytes) (\<lambda>_.
            alloc_data_segment \<lparr>ds_bytes = None\<rparr>)))
      | InitPassive bytes \<Rightarrow> alloc_data_segment \<lparr>ds_bytes = Some bytes\<rparr>) (\<lambda>d.
      st_ok (push_data d b))"

definition initialize_memory_data :: "(func_h \<Rightarrow> u64) \<Rightarrow> wasm_module \<Rightarrow> instance_builder
    \<Rightarrow> ('h, 'e, instance_builder) store_op" where
  "initialize_memory_data func_bits m b =
    st_bind (st_expect (data_segments_iter (wm_data_segments m))) (\<lambda>segments.
      st_fold (initialize_data func_bits) segments b)"


section \<open>Instantiation\<close>

record instance_pre =
  pre_handle :: instance_h
  pre_builder :: instance_builder

text \<open>What follows the imports.\<close>

definition build_instance :: "(func_h \<Rightarrow> u64) \<Rightarrow> wasm_module \<Rightarrow> instance_h \<Rightarrow> instance_builder
    \<Rightarrow> ('h, 'e, instance_builder) store_op" where
  "build_instance func_bits m handle b =
    st_bind (extract_functions m handle b) (\<lambda>b.
    st_bind (extract_tables m b) (\<lambda>b.
    st_bind (extract_memories m b) (\<lambda>b.
    st_bind (extract_globals func_bits m b) (\<lambda>b.
    st_bind (extract_exports m b) (\<lambda>b.
    st_bind (extract_start_fn m b) (\<lambda>b.
    st_bind (initialize_table_elements func_bits m b) (\<lambda>b.
      initialize_memory_data func_bits m b)))))))"

definition module_instantiate :: "(func_h \<Rightarrow> u64) \<Rightarrow> wasm_module \<Rightarrow> extern_val list
    \<Rightarrow> ('h, 't, 'e, instance_pre) context_op" where
  "module_instantiate func_bits m externals =
    st_bind (on_store (st_map_err ErrInst (check_new_instances_limit 1))) (\<lambda>_.
    st_bind (on_store alloc_instance) (\<lambda>handle.
    st_bind (extract_imports m externals (instance_builder_new m)) (\<lambda>b.
    st_bind (on_store (build_instance func_bits m handle b)) (\<lambda>b.
      st_ok \<lparr>pre_handle = handle, pre_builder = b\<rparr>))))"

definition linker_instantiate :: "(func_h \<Rightarrow> u64) \<Rightarrow> 't linker \<Rightarrow> wasm_module
    \<Rightarrow> ('h, 't, 'e, instance_pre) context_op" where
  "linker_instantiate func_bits l m =
    st_bind (process_imports l m) (\<lambda>externals. module_instantiate func_bits m externals)"

definition pre_start_fn :: "instance_pre \<Rightarrow> u32 option" where
  "pre_start_fn p = ib_start_fn (pre_builder p)"

definition pre_initialize_instance :: "instance_pre \<Rightarrow> ('h, 't, 'e, instance_h) context_op" where
  "pre_initialize_instance p =
    st_bind (on_store (initialize_instance (pre_handle p) (instance_builder_finish (pre_builder p)))) (\<lambda>_.
      st_ok (pre_handle p))"

definition pre_ensure_no_start :: "instance_pre \<Rightarrow> ('h, 't, 'e, instance_h) context_op" where
  "pre_ensure_no_start p =
    (case pre_start_fn p of
       Some index \<Rightarrow> inst_err (FoundStartFn index)
     | None \<Rightarrow> pre_initialize_instance p)"

text \<open>
  \<open>InstancePre::start\<close>: the call of the start function on a stack \<open>st\<close> of the engine; \<open>None\<close> is a
  start function that does not return.
\<close>

definition pre_start :: "('h, 'e) exec_env \<Rightarrow> stack \<Rightarrow> instance_pre \<Rightarrow> ('h, 't) store_context
    \<Rightarrow> ('e api_error + instance_h \<times> ('h, 't) store_context) option" where
  "pre_start env st p c =
    (case pre_initialize_instance p c of
       (Inl e, _) \<Rightarrow> Some (Inl e)
     | (Inr handle, c) \<Rightarrow>
         (case pre_start_fn p of
            None \<Rightarrow> Some (Inr (handle, c))
          | Some start_index \<Rightarrow>
              (case instance_get_func_by_index (cx_store c) handle start_index of
                 Inr (Some start_func) \<Rightarrow>
                   map_option (\<lambda>r. case r of
                       Inl e \<Rightarrow> Inl (ErrCall e)
                     | Inr (_, _, s) \<Rightarrow> Inr (handle, c\<lparr>cx_store := s\<rparr>))
                   (func_call env (cx_types c) start_func [] [] st (cx_store c))
               | Inr None \<Rightarrow> Some (Inl ErrPanic)
               | Inl (_ :: 'e xerr) \<Rightarrow> Some (Inl ErrPanic))))"

definition instance_new :: "('h, 'e) exec_env \<Rightarrow> stack \<Rightarrow> wasm_module \<Rightarrow> extern_val list \<Rightarrow> ('h, 't) store_context
    \<Rightarrow> ('e api_error + instance_h \<times> ('h, 't) store_context) option" where
  "instance_new env st m imports c =
    (case module_instantiate (env_func_bits env) m imports c of
       (Inl e, _) \<Rightarrow> Some (Inl e)
     | (Inr p, c) \<Rightarrow> pre_start env st p c)"

end
