(* ===== verification/Inst_Props.thy ===== *)
theory Inst_Props
  imports Instantiate
begin

text \<open>
  What linking and instantiation promise: nothing that the store has is lost, an instance has all
  parts of its module, and what the linker resolves is accepted.
\<close>


section \<open>The store only grows\<close>

definition same_table :: "table_entity \<Rightarrow> table_entity \<Rightarrow> bool" where
  "same_table t t' \<longleftrightarrow> te_type t' = te_type t \<and> length (te_elements t') = length (te_elements t)"

definition same_memory :: "memory_entity \<Rightarrow> memory_entity \<Rightarrow> bool" where
  "same_memory m m' \<longleftrightarrow> me_type m' = me_type m \<and> me_current_pages m' = me_current_pages m \<and>
    length (memory_data m') = length (memory_data m)"

text \<open>
  Functions, globals, segments and instances are kept and others appended; tables and memories keep
  their type and size, their contents may change.
\<close>

definition store_extends :: "'h wstore \<Rightarrow> 'h wstore \<Rightarrow> bool" where
  "store_extends s s' \<longleftrightarrow>
    prefix (ws_funcs s) (ws_funcs s') \<and> prefix (ws_globals s) (ws_globals s') \<and>
    prefix (ws_datas s) (ws_datas s') \<and> prefix (ws_elems s) (ws_elems s') \<and>
    prefix (ws_instances s) (ws_instances s') \<and>
    (\<exists>ts. list_all2 same_table (ws_tables s) ts \<and> prefix ts (ws_tables s')) \<and>
    (\<exists>ms. list_all2 same_memory (ws_memories s) ms \<and> prefix ms (ws_memories s')) \<and>
    ws_fuel s' = ws_fuel s \<and> ws_limiter s' = ws_limiter s"

lemma all2_prefix_trans:
  assumes "transp P"
    and "list_all2 P xs ys" "prefix ys zs" "list_all2 P zs us" "prefix us vs"
  shows "\<exists>ws. list_all2 P xs ws \<and> prefix ws vs"
proof -
  from assms(3) obtain r where zs: "zs = ys @ r" by (auto simp: prefix_def)
  with assms(4) obtain us1 us2 where us: "us = us1 @ us2" "list_all2 P ys us1"
    by (auto simp: list_all2_append1)
  have "list_all2 P xs us1" by (rule list_all2_trans [OF transpD [OF assms(1)] assms(2) us(2)])
  moreover have "prefix us1 vs" using assms(5) us(1) by (metis append_prefixD)
  ultimately show ?thesis by blast
qed

lemma same_refl [simp]: "same_table t t" "same_memory m m"
  by (simp_all add: same_table_def same_memory_def)

lemma all2_refl [simp]: "list_all2 same_table ts ts" "list_all2 same_memory ms ms"
  by (simp_all add: list.rel_refl)

lemma all2_prefix_refl [simp]:
  "\<exists>us. list_all2 same_table ts us \<and> prefix us ts" "\<exists>us. list_all2 same_memory ms us \<and> prefix us ms"
  "\<exists>us. list_all2 same_table ts us \<and> prefix us (ts @ ts')" "\<exists>us. list_all2 same_memory ms us \<and> prefix us (ms @ ms')"
  by (rule exI, rule conjI, rule all2_refl, simp)+

lemma store_extends_refl [simp]: "store_extends s s"
  by (auto simp: store_extends_def)

lemma store_extends_trans:
  assumes "store_extends s t" "store_extends t u"
  shows "store_extends s u"
proof -
  have "transp same_table" "transp same_memory"
    by (auto simp: transp_def same_table_def same_memory_def)
  note tab = all2_prefix_trans [OF this(1)] and mem = all2_prefix_trans [OF this(2)]
  have "\<exists>ts. list_all2 same_table (ws_tables s) ts \<and> prefix ts (ws_tables u)"
    using assms tab unfolding store_extends_def by blast
  moreover have "\<exists>ms. list_all2 same_memory (ws_memories s) ms \<and> prefix ms (ws_memories u)"
    using assms mem unfolding store_extends_def by blast
  ultimately show ?thesis
    using assms unfolding store_extends_def by (auto intro: prefix_order.trans)
qed

interpretation extends: st_relation store_extends
  by unfold_locales (auto intro: store_extends_trans)

text \<open>
  A segment may change as long as it is one that the state to compare with does not have.
\<close>

definition extends_beyond :: "elem_h \<Rightarrow> 'h wstore \<Rightarrow> 'h wstore \<Rightarrow> bool" where
  "extends_beyond e s1 s2 \<longleftrightarrow> (\<forall>s. store_extends s s1 \<and> length (ws_elems s) \<le> e \<longrightarrow> store_extends s s2)"

interpretation beyond: st_relation "extends_beyond e" for e
  by unfold_locales (auto simp: extends_beyond_def)

lemma extends_beyond_extends: "store_extends s1 s2 \<Longrightarrow> extends_beyond e s1 s2"
  by (auto simp: extends_beyond_def intro: store_extends_trans)

lemma beyond_keeps: "st_keeps store_extends m \<Longrightarrow> st_keeps (extends_beyond e) m"
  by (simp add: st_keeps_def extends_beyond_extends)


subsection \<open>Updates of one entity\<close>

lemma put_table_extends:
  assumes "h < length (ws_tables s)" "same_table (ws_tables s ! h) t"
  shows "store_extends s (put_table h t s)"
proof -
  have "list_all2 same_table (ws_tables s) ((ws_tables s)[h := t])"
    using assms by (auto simp: list_all2_conv_all_nth nth_list_update)
  then show ?thesis by (auto simp: store_extends_def put_table_def simp del: all2_prefix_refl intro: all2_prefix_refl)
qed

lemma put_memory_extends:
  assumes "h < length (ws_memories s)" "same_memory (ws_memories s ! h) m"
  shows "store_extends s (put_memory h m s)"
proof -
  have "list_all2 same_memory (ws_memories s) ((ws_memories s)[h := m])"
    using assms by (auto simp: list_all2_conv_all_nth nth_list_update)
  then show ?thesis by (auto simp: store_extends_def put_memory_def simp del: all2_prefix_refl intro: all2_prefix_refl)
qed

lemma put_limiter_extends: "store_extends s (put_limiter lim s)"
  by (auto simp: store_extends_def put_limiter_def split: option.split)

lemma arena_alloc_append: "arena_alloc x a = Some (i, a') \<Longrightarrow> i = length a \<and> a' = a @ [x]"
  by (auto simp: arena_alloc_def arena_next_index_def index_from_usize_def split: if_splits)

lemma func_arena_alloc_append: "func_arena_alloc x a = Some (i, a') \<Longrightarrow> i = length a \<and> a' = a @ [x]"
  by (auto simp: func_arena_alloc_def split: if_splits)

lemmas alloc_defs = alloc_global_def alloc_table_def alloc_memory_def alloc_data_segment_def
  alloc_element_segment_def alloc_func_def alloc_instance_def alloc_with_def

lemma extends_append:
  "store_extends s (s\<lparr>ws_globals := ws_globals s @ gs\<rparr>)" "store_extends s (s\<lparr>ws_funcs := ws_funcs s @ fs\<rparr>)"
  "store_extends s (s\<lparr>ws_datas := ws_datas s @ ds\<rparr>)" "store_extends s (s\<lparr>ws_elems := ws_elems s @ es\<rparr>)"
  "store_extends s (s\<lparr>ws_instances := ws_instances s @ is\<rparr>)"
  "store_extends s (s\<lparr>ws_tables := ws_tables s @ ts\<rparr>)" "store_extends s (s\<lparr>ws_memories := ws_memories s @ ms\<rparr>)"
  by (simp_all add: store_extends_def)

lemma alloc_extends [st_keeps_intros]:
  "st_keeps store_extends (alloc_global g)" "st_keeps store_extends (alloc_table t)"
  "st_keeps store_extends (alloc_memory m)" "st_keeps store_extends (alloc_data_segment d)"
  "st_keeps store_extends (alloc_element_segment e)" "st_keeps store_extends (alloc_func f)"
  "st_keeps store_extends alloc_instance"
  by (auto simp: st_keeps_def alloc_defs extends_append split: option.split
      dest!: arena_alloc_append func_arena_alloc_append)



subsection \<open>Operations\<close>

lemma reads_keep [st_keeps_intros]:
  "st_keeps store_extends (st_expect r)" "st_keeps store_extends (with_table h f)"
  "st_keeps store_extends (with_memory h g)" "st_keeps store_extends (global_handle_ty h')"
  "st_keeps store_extends (eval_init_expr bits b e)" "st_keeps store_extends (get_element el)"
  "st_keeps store_extends (inst_err err)"
  "st_keeps store_extends (table_handle_dynamic_ty h)" "st_keeps store_extends (memory_handle_dynamic_ty h)"
  "st_keeps store_extends (table_handle_size h)" "st_keeps store_extends (table_handle_ty h)"
  "st_keeps store_extends (memory_handle_ty h)"
  by (simp_all add: st_keeps_def st_expect_def with_table_def with_memory_def global_handle_ty_def
      eval_init_expr_def get_element_def inst_err_def table_handle_dynamic_ty_def memory_handle_dynamic_ty_def
      table_handle_size_def table_handle_ty_def memory_handle_ty_def)

lemma map_err_keeps [st_keeps_intros]: "st_keeps R m \<Longrightarrow> st_keeps R (st_map_err f m)"
  by (simp add: st_keeps_def st_map_err_def)

lemma limits_keep [st_keeps_intros]:
  "st_keeps store_extends (check_new_instances_limit n)" "st_keeps store_extends (check_new_tables_limit n)"
  "st_keeps store_extends (check_new_memories_limit n)"
  by (auto simp: st_keeps_def check_new_instances_limit_def check_new_tables_limit_def
      check_new_memories_limit_def split: option.split)

lemma handle_new_keeps [st_keeps_intros]:
  "st_keeps store_extends (table_handle_new ty v)" "st_keeps store_extends (memory_handle_new ty')"
  "st_keeps store_extends (global_handle_new v mut)"
proof -
  have step: "store_extends s (snd (m (put_limiter lim s)))" if "st_keeps store_extends m" for m s lim
    using that put_limiter_extends store_extends_trans by (metis st_keeps_def)
  show "st_keeps store_extends (table_handle_new ty v)" "st_keeps store_extends (memory_handle_new ty')"
    unfolding st_keeps_def table_handle_new_def memory_handle_new_def
    by (auto intro!: step st_keeps_intros put_limiter_extends split: prod.split sum.split)
  show "st_keeps store_extends (global_handle_new v mut)"
    by (simp add: global_handle_new_def st_keeps_intros)
qed

lemma memory_write_same: "memory_write offset bs m = Inr m' \<Longrightarrow> same_memory m m'"
  by (auto simp: memory_write_def same_memory_def memory_set_data_def memory_data_def get_range_def
      split: option.splits if_splits)

lemma memory_handle_write_keeps [st_keeps_intros]: "st_keeps store_extends (memory_handle_write h offset bs)"
  by (auto simp: st_keeps_def memory_handle_write_def intro: put_memory_extends memory_write_same
      split: option.split sum.split)

lemma table_init_same:
  assumes "table_init e dst src len fu t = Some (Inr (t', fu'))"
  shows "same_table t t'"
  using assms
  by (auto simp: table_init_def same_table_def rsimps get_range_def split: if_splits)

lemma keeps_bind_from:
  assumes "\<And>s. case m s of (Inl _, s') \<Rightarrow> R s s' | (Inr x, s') \<Rightarrow> R s (snd (f x s'))"
  shows "st_keeps R (st_bind m f)"
  unfolding st_keeps_def
proof
  fix s
  show "R s (snd (st_bind m f s))"
    using assms [of s] by (cases "m s"; cases "fst (m s)") (auto simp: st_bind_def)
qed

lemma drop_element_extends:
  assumes "store_extends s s2" "length (ws_elems s) \<le> e"
  shows "store_extends s (s2\<lparr>ws_elems := (ws_elems s2)[e := x]\<rparr>)"
proof -
  have "prefix (ws_elems s) ((ws_elems s2)[e := x])"
    using assms by (auto simp: store_extends_def prefix_def list_update_append)
  with assms(1) show ?thesis by (simp add: store_extends_def)
qed

lemma write_elements_keeps: "st_keeps (extends_beyond e) (write_elements table e dst len :: ('h, 'e, unit) store_op)"
  unfolding st_keeps_def
proof
  fix s1 :: "'h wstore"
  obtain r s2 where w: "write_elements table e dst len s1 = (r :: 'e api_error + unit, s2)"
    by fastforce
  have "extends_beyond e s1 s2"
  proof (cases r)
    case (Inl err)
    with w have "s2 = s1"
      by (auto simp: write_elements_def split: option.splits sum.splits)
    then show ?thesis by (simp add: beyond.refl)
  next
    case (Inr u)
    with w obtain t el t' fu where t: "table < length (ws_tables s1)" "ws_tables s1 ! table = t"
      and i: "table_init el dst 0 len None t = Some (Inr (t', fu))"
      and s2: "s2 = (put_table table t' s1)\<lparr>ws_elems := (ws_elems s1)[e := element_segment_drop_items el]\<rparr>"
      by (auto simp: write_elements_def split: option.splits sum.splits prod.splits)
    have p: "store_extends s1 (put_table table t' s1)"
      using put_table_extends t table_init_same [OF i] by blast
    have "ws_elems s1 = ws_elems (put_table table t' s1)" by (simp add: put_table_def)
    with s2 show ?thesis
      unfolding extends_beyond_def using drop_element_extends store_extends_trans [OF _ p] by metis
  qed
  with w show "extends_beyond e s1 (snd (write_elements table e dst len s1 :: ('e api_error + unit) \<times> _))" by simp
qed

lemma activate_element_keeps: "st_keeps (extends_beyond e) (activate_element bits b e ti offset)"
  unfolding activate_element_def Let_def
  by (rule beyond.keeps_seq, rule beyond_keeps, rule st_keeps_intros)+
    (auto intro: write_elements_keeps beyond_keeps st_keeps_intros)

lemma element_segment_new_cases:
  "case element_segment_new bits b seg s of
     (Inl _, s') \<Rightarrow> s' = s
   | (Inr e, s') \<Rightarrow> e = length (ws_elems s) \<and> store_extends s s'"
  by (auto simp: element_segment_new_def st_bind_def st_expect_def alloc_defs extends_append ok_or_def
      split: option.split dest!: arena_alloc_append)

lemma initialize_element_keeps [st_keeps_intros]: "st_keeps store_extends (initialize_element bits seg b :: ('h, 'e, instance_builder) store_op)"
  unfolding initialize_element_def
proof (rule keeps_bind_from)
  fix s :: "'h wstore"
  let ?act = "\<lambda>e. st_bind (case ed_kind seg of ElemActive ti offset \<Rightarrow> activate_element bits b e ti offset | _ \<Rightarrow> st_ok ())
    (\<lambda>_. st_ok (push_element e b)) :: ('h, 'e, instance_builder) store_op"
  have act: "st_keeps (extends_beyond e) (?act e)" for e
    by (rule beyond.keeps_seq) (auto intro: activate_element_keeps beyond.keeps_atoms split: element_kind.split)
  show "case element_segment_new bits b seg s :: ('e api_error + elem_h) \<times> 'h wstore of (Inl _, s') \<Rightarrow> store_extends s s'
    | (Inr e, s') \<Rightarrow> store_extends s (snd (?act e s'))"
  proof -
    have "case element_segment_new bits b seg s :: ('e api_error + elem_h) \<times> 'h wstore of
       (Inl _, s') \<Rightarrow> s' = s
     | (Inr e, s') \<Rightarrow> e = length (ws_elems s) \<and> store_extends s s'"
      by (rule element_segment_new_cases)
    with act show ?thesis
      by (auto simp: st_keeps_def extends_beyond_def split: prod.splits sum.splits)
  qed
qed


lemma initialize_data_keeps [st_keeps_intros]: "st_keeps store_extends (initialize_data bits seg b)"
  unfolding initialize_data_def
  by (rule extends.keeps_seq) (auto intro!: extends.keeps st_keeps_intros split: init_data_segment.split)

lemma extract_global_keeps [st_keeps_intros]: "st_keeps store_extends (extract_global bits p b)"
  unfolding extract_global_def by (intro extends.keeps st_keeps_intros)

lemma extract_keeps [st_keeps_intros]:
  "st_keeps store_extends (extract_functions m handle b)" "st_keeps store_extends (extract_tables m b)"
  "st_keeps store_extends (extract_memories m b)" "st_keeps store_extends (extract_globals bits m b)"
  "st_keeps store_extends (initialize_table_elements bits m b)" "st_keeps store_extends (initialize_memory_data bits m b)"
  unfolding extract_functions_def extract_tables_def extract_memories_def extract_globals_def
    initialize_table_elements_def initialize_memory_data_def
  by (intro extends.keeps st_keeps_intros)+

lemma extract_rest_keeps [st_keeps_intros]:
  "st_keeps store_extends (extract_exports m b)" "st_keeps store_extends (extract_start_fn m b)"
  unfolding extract_exports_def extract_start_fn_def
  by (auto intro: st_keeps_intros extends.keeps_atoms split: option.split)

lemma build_instance_keeps [st_keeps_intros]: "st_keeps store_extends (build_instance bits m handle b)"
  unfolding build_instance_def by (intro extends.keeps st_keeps_intros)


subsection \<open>In the context\<close>

text \<open>Instantiating a module does not make trampolines or function types; linking appends them.\<close>

definition context_extends :: "('h, 't) store_context \<Rightarrow> ('h, 't) store_context \<Rightarrow> bool" where
  "context_extends c c' \<longleftrightarrow> store_extends (cx_store c) (cx_store c') \<and>
    prefix (cx_trampolines c) (cx_trampolines c') \<and>
    (dedup_inv (cx_types c) \<longrightarrow> dedup_inv (cx_types c') \<and>
      (\<forall>h ft. dedup_get (cx_types c) h = Some ft \<longrightarrow> dedup_get (cx_types c') h = Some ft))"

interpretation contexts: st_relation context_extends
  by unfold_locales (auto simp: context_extends_def intro: store_extends_trans)

lemma on_store_keeps [st_keeps_intros]: "st_keeps store_extends m \<Longrightarrow> st_keeps context_extends (on_store m)"
  by (auto simp: st_keeps_def context_extends_def on_store_def split: prod.split) (metis snd_conv)

lemma context_reads_keep [st_keeps_intros]:
  "st_keeps context_extends (func_handle_ty f)" "st_keeps context_extends (inst_err e)"
  "st_keeps context_extends (st_expect r)"
  by (simp_all add: st_keeps_def func_handle_ty_def contexts.refl inst_err_def st_expect_def)

lemma extern_ty_keeps [st_keeps_intros]: "st_keeps context_extends (extern_ty e)" "st_keeps context_extends (def_ty d)"
  unfolding extern_ty_def def_ty_def
  by (auto intro!: contexts.keeps st_keeps_intros split: extern_val.split link_def.split)

lemma alloc_func_type_keeps [st_keeps_intros]:
  "st_keeps context_extends (alloc_trampoline t)" "st_keeps context_extends (alloc_func_type ft)"
  by (auto simp: st_keeps_def context_extends_def alloc_trampoline_def alloc_func_type_def alloc_with_def
      registry_alloc_func_type_def split: option.split intro: dedup.intern_inv dedup.intern_keeps)

lemma func_new_keeps [st_keeps_intros]: "st_keeps context_extends (func_new h)" "st_keeps context_extends (def_as_func d)"
  unfolding func_new_def host_func_entity_new_def def_as_func_def
  by (auto intro!: contexts.keeps st_keeps_intros simp: func_new_def host_func_entity_new_def
      split: link_def.split extern_val.split)

lemma process_import_keeps [st_keeps_intros]: "st_keeps context_extends (process_import l i)"
  unfolding process_import_def Let_def process_import_func_def process_import_table_def process_import_memory_def
    process_import_global_def invalid_type_def
  by (auto intro!: contexts.keeps st_keeps_intros split: option.split extern_type.split)

lemma process_imports_keeps [st_keeps_intros]: "st_keeps context_extends (process_imports l m)"
  unfolding process_imports_def by (auto intro!: contexts.keeps st_keeps_intros split: option.split)

lemma extract_imports_keeps [st_keeps_intros]: "st_keeps context_extends (extract_imports m es b)"
  unfolding extract_imports_def extract_import_def
  by (auto intro!: contexts.keeps st_keeps_intros split: option.split extern_type.split extern_val.split)

lemma module_instantiate_keeps [st_keeps_intros]: "st_keeps context_extends (module_instantiate bits m es)"
  unfolding module_instantiate_def by (intro contexts.keeps st_keeps_intros)

lemma linker_instantiate_keeps: "st_keeps context_extends (linker_instantiate bits l m)"
  unfolding linker_instantiate_def by (intro contexts.keeps st_keeps_intros)



section \<open>Entities fit their types\<close>

definition func_fits :: "func_type dedup_arena \<Rightarrow> 'h wstore \<Rightarrow> func_h \<Rightarrow> func_type \<Rightarrow> bool" where
  "func_fits reg s f ft \<longleftrightarrow> (func_ty reg s f :: unit xerr + func_type) = Inr ft"

definition table_fits :: "'h wstore \<Rightarrow> table_h \<Rightarrow> table_type \<Rightarrow> bool" where
  "table_fits s t ty \<longleftrightarrow> (\<exists>e d. get_at (ws_tables s) t = Some e \<and> table_dynamic_ty e = Some d \<and>
    table_type_is_subtype_of d ty)"

definition memory_fits :: "'h wstore \<Rightarrow> memory_h \<Rightarrow> memory_type \<Rightarrow> bool" where
  "memory_fits s m ty \<longleftrightarrow> (\<exists>e d. get_at (ws_memories s) m = Some e \<and> memory_dynamic_ty e = Some d \<and>
    memory_type_is_subtype_of d ty)"

definition global_fits :: "'h wstore \<Rightarrow> global_h \<Rightarrow> global_type \<Rightarrow> bool" where
  "global_fits s g ty \<longleftrightarrow> (\<exists>e. get_at (ws_globals s) g = Some e \<and> ge_type e = ty)"

definition extern_fits :: "func_type dedup_arena \<Rightarrow> 'h wstore \<Rightarrow> extern_val \<Rightarrow> extern_type \<Rightarrow> bool" where
  "extern_fits reg s e ty =
    (case (e, ty) of
       (ExtFunc f, EtFunc ft) \<Rightarrow> func_fits reg s f ft
     | (ExtTable t, EtTable ty) \<Rightarrow> table_fits s t ty
     | (ExtMemory m, EtMemory ty) \<Rightarrow> memory_fits s m ty
     | (ExtGlobal g, EtGlobal ty) \<Rightarrow> global_fits s g ty
     | _ \<Rightarrow> False)"

lemma prefix_get_at: "prefix xs ys \<Longrightarrow> get_at xs i = Some x \<Longrightarrow> get_at ys i = Some x"
  by (auto simp: prefix_def nth_append)

lemma all2_get_at:
  assumes "\<exists>us. list_all2 P xs us \<and> prefix us ys" "get_at xs i = Some x"
  shows "\<exists>y. get_at ys i = Some y \<and> P x y"
proof -
  from assms(1) obtain us where us: "list_all2 P xs us" "prefix us ys" by blast
  with assms(2) have "get_at us i = Some (us ! i)" "P x (us ! i)"
    by (auto simp: list_all2_conv_all_nth)
  with prefix_get_at [OF us(2)] show ?thesis by blast
qed

text \<open>What fits fits in every later store.\<close>

lemma fits_extends:
  assumes "store_extends s s'"
  shows "table_fits s t tt \<Longrightarrow> table_fits s' t tt" "memory_fits s m mt \<Longrightarrow> memory_fits s' m mt"
    "global_fits s g gt \<Longrightarrow> global_fits s' g gt" "func_fits reg s f ft \<Longrightarrow> func_fits reg s' f ft"
proof -
  have e: "\<exists>us. list_all2 same_table (ws_tables s) us \<and> prefix us (ws_tables s')"
    "\<exists>us. list_all2 same_memory (ws_memories s) us \<and> prefix us (ws_memories s')"
    "prefix (ws_globals s) (ws_globals s')" "prefix (ws_funcs s) (ws_funcs s')"
    using assms by (auto simp: store_extends_def)
  have "same_table a b \<Longrightarrow> table_dynamic_ty b = table_dynamic_ty a" for a b
    by (simp add: same_table_def table_dynamic_ty_def table_size_def)
  then show "table_fits s t tt \<Longrightarrow> table_fits s' t tt"
    using all2_get_at [OF e(1)] unfolding table_fits_def by metis
  have "same_memory a b \<Longrightarrow> memory_dynamic_ty b = memory_dynamic_ty a" for a b
    by (simp add: same_memory_def memory_dynamic_ty_def)
  then show "memory_fits s m mt \<Longrightarrow> memory_fits s' m mt"
    using all2_get_at [OF e(2)] unfolding memory_fits_def by metis
  show "global_fits s g gt \<Longrightarrow> global_fits s' g gt"
    using prefix_get_at [OF e(3)] unfolding global_fits_def by blast
  show "func_fits reg s f ft \<Longrightarrow> func_fits reg s' f ft"
    using prefix_get_at [OF e(4)] by (auto simp: func_fits_def func_ty_def rsimps resolve_def)
qed

lemma extern_fits_extends: "store_extends s s' \<Longrightarrow> extern_fits reg s e ty \<Longrightarrow> extern_fits reg s' e ty"
  by (auto simp: extern_fits_def intro: fits_extends split: extern_val.splits extern_type.splits)

lemma func_fits_types:
  assumes "dedup_inv reg \<longrightarrow> (\<forall>h ft. dedup_get reg h = Some ft \<longrightarrow> dedup_get reg' h = Some ft)" "dedup_inv reg"
  shows "func_fits reg s f ft \<Longrightarrow> func_fits reg' s f ft"
  using assms by (auto simp: func_fits_def func_ty_def rsimps registry_resolve_func_type_def)

text \<open>And in every later context.\<close>

lemma context_fits:
  assumes "context_extends c c'" "dedup_inv (cx_types c)"
  shows "extern_fits (cx_types c) (cx_store c) e ty \<Longrightarrow> extern_fits (cx_types c') (cx_store c') e ty"
proof -
  assume "extern_fits (cx_types c) (cx_store c) e ty"
  then have "extern_fits (cx_types c) (cx_store c') e ty"
    using assms(1) extern_fits_extends by (auto simp: context_extends_def)
  then show "extern_fits (cx_types c') (cx_store c') e ty"
    using func_fits_types assms by (auto simp: extern_fits_def context_extends_def split: extern_val.splits extern_type.splits)
qed


section \<open>Imports\<close>

text \<open>A resolved import fits the type that the module wants.\<close>

lemma handle_reads:
  "func_handle_ty f c = (Inr ft, c') \<longleftrightarrow> func_fits (cx_types c) (cx_store c) f ft \<and> c' = c"
  "on_store (table_handle_dynamic_ty t) c = (Inr d, c') \<longleftrightarrow>
    (\<exists>e. get_at (ws_tables (cx_store c)) t = Some e \<and> table_dynamic_ty e = Some d) \<and> c' = c"
  "on_store (memory_handle_dynamic_ty m) c = (Inr d', c') \<longleftrightarrow>
    (\<exists>e. get_at (ws_memories (cx_store c)) m = Some e \<and> memory_dynamic_ty e = Some d') \<and> c' = c"
  "on_store (global_handle_ty g) c = (Inr gt, c') \<longleftrightarrow> global_fits (cx_store c) g gt \<and> c' = c"
  by (auto simp: func_handle_ty_def func_fits_def on_store_def table_handle_dynamic_ty_def with_table_def
      memory_handle_dynamic_ty_def with_memory_def global_handle_ty_def global_fits_def rsimps)

lemma def_ty_state: "def_ty d c = (r, c') \<Longrightarrow> c' = c"
  by (auto simp: def_ty_def extern_ty_def st_bind_def on_store_def table_handle_ty_def with_table_def
      memory_handle_ty_def with_memory_def global_handle_ty_def func_handle_ty_def
      split: link_def.splits extern_val.splits sum.splits)

lemma subtype_or_err [simp]:
  "table_type_is_subtype_or_err d ty = Inr u \<longleftrightarrow> table_type_is_subtype_of d ty"
  "memory_type_is_subtype_or_err d' ty' = Inr u \<longleftrightarrow> memory_type_is_subtype_of d' ty'"
  by (simp_all add: table_type_is_subtype_or_err_def memory_type_is_subtype_or_err_def)

text \<open>A host function gets a function of its type.\<close>

lemma func_new_fits:
  assumes "dedup_inv (cx_types c)" "func_new host c = (Inr f, c')"
  shows "func_fits (cx_types c') (cx_store c') f (ht_type host)"
proof -
  obtain h types fs where t: "dedup_alloc (ht_type host) (cx_types c) = Some (h, types)"
    and f: "f = length (ws_funcs (cx_store c))"
    and c': "cx_types c' = types" "ws_funcs (cx_store c') = ws_funcs (cx_store c) @ [HostFunc fs]" "hf_type fs = h"
    using assms(2)
    by (auto simp: func_new_def host_func_entity_new_def st_bind_def alloc_trampoline_def alloc_func_type_def
        alloc_with_def registry_alloc_func_type_def on_store_def alloc_func_def
        split: option.splits prod.splits dest!: func_arena_alloc_append)
  from dedup.intern_key [OF assms(1) t] c' f show ?thesis
    by (simp add: func_fits_def func_ty_def resolve_def get_at_def func_ty_dedup_def registry_resolve_func_type_def)
qed

lemma process_import_fits:
  assumes "dedup_inv (cx_types c)" "process_import l i c = (Inr e :: 'e api_error + extern_val, c')"
  shows "extern_fits (cx_types c') (cx_store c') e (it_type i)"
proof -
  obtain d where d: "linker_get_definition l (imn_module (it_name i)) (imn_field (it_name i)) = Some d"
    using assms(2) by (auto simp: process_import_def Let_def split: option.splits)
  show ?thesis
  proof (cases "it_type i")
    case (EtFunc ft)
    then obtain found c1 f where ty: "def_ty d c = (Inr found :: 'e api_error + extern_type, c1)" "extern_type_func found = Some ft"
      and f: "def_as_func d c1 = (Inr (Some f) :: 'e api_error + func_h option, c')" "e = ExtFunc f"
      using assms(2) d
      by (auto simp: process_import_def Let_def process_import_func_def st_bind_def
          split: option.splits if_splits sum.splits prod.splits)
    have c1: "c1 = c" using def_ty_state [OF ty(1)] .
    show ?thesis
    proof (cases d)
      case (DefHostFunc host)
      with f ty c1 show ?thesis
        using func_new_fits [OF assms(1)] EtFunc
        by (auto simp: def_as_func_def def_ty_def extern_type_func_def extern_fits_def st_simps)
    next
      case (DefExtern x)
      with f ty c1 EtFunc show ?thesis
        by (auto simp: def_as_func_def def_ty_def extern_ty_def extern_type_func_def extern_fits_def st_simps handle_reads
            split: extern_val.splits)
    qed
  qed (use assms(2) d in \<open>auto simp: process_import_def Let_def process_import_table_def process_import_memory_def
      process_import_global_def invalid_type_def st_simps handle_reads extern_fits_def table_fits_def memory_fits_def
      global_fits_def split: option.splits if_splits\<close>)
qed

text \<open>So what a linker resolves for a module fits its imports, after all of them are resolved.\<close>

lemma st_map_fits:
  assumes "dedup_inv (cx_types c)" "st_map (process_import l) is1 c = (Inr es :: 'e api_error + extern_val list, c')"
  shows "list_all2 (\<lambda>e i. extern_fits (cx_types c') (cx_store c') e (it_type i)) es is1"
  using assms
proof (induction is1 arbitrary: c es)
  case (Cons i is2)
  then obtain e c1 es1 where i: "process_import l i c = (Inr e :: 'e api_error + extern_val, c1)" and es: "st_map (process_import l) is2 c1 = (Inr es1 :: 'e api_error + extern_val list, c')"
    and "es = e # es1" by (auto simp: st_simps)
  have "st_keeps context_extends (process_import l i :: (_, _, 'e, _) context_op)"
    "st_keeps context_extends (st_map (process_import l) is2 :: (_, _, 'e, _) context_op)"
    by (intro contexts.keeps st_keeps_intros)+
  with i es have "context_extends c c1" "context_extends c1 c'"
    unfolding st_keeps_def by (metis snd_conv)+
  then have "dedup_inv (cx_types c1)" and later: "context_extends c1 c'"
    using Cons.prems(1) by (auto simp: context_extends_def)
  with Cons.IH [OF _ es] process_import_fits [OF Cons.prems(1) i] context_fits [OF later] \<open>es = e # es1\<close>
  show ?case by simp
qed simp



section \<open>Instances fit their modules\<close>

text \<open>The types of the imports of each kind.\<close>

definition import_funcs :: "import_type list \<Rightarrow> func_type list" where
  "import_funcs is = concat (map (\<lambda>i. case it_type i of EtFunc ft \<Rightarrow> [ft] | _ \<Rightarrow> []) is)"

definition import_tables :: "import_type list \<Rightarrow> table_type list" where
  "import_tables is = concat (map (\<lambda>i. case it_type i of EtTable ty \<Rightarrow> [ty] | _ \<Rightarrow> []) is)"

definition import_memories :: "import_type list \<Rightarrow> memory_type list" where
  "import_memories is = concat (map (\<lambda>i. case it_type i of EtMemory ty \<Rightarrow> [ty] | _ \<Rightarrow> []) is)"

definition import_globals :: "import_type list \<Rightarrow> global_type list" where
  "import_globals is = concat (map (\<lambda>i. case it_type i of EtGlobal ty \<Rightarrow> [ty] | _ \<Rightarrow> []) is)"

lemmas import_lists = import_funcs_def import_tables_def import_memories_def import_globals_def

definition count_funcs :: "imported list \<Rightarrow> nat" where
  "count_funcs is = length (filter (\<lambda>i. case i of ImportedFunc _ \<Rightarrow> True | _ \<Rightarrow> False) is)"

definition count_tables :: "imported list \<Rightarrow> nat" where
  "count_tables is = length (filter (\<lambda>i. case i of ImportedTable _ \<Rightarrow> True | _ \<Rightarrow> False) is)"

definition count_memories :: "imported list \<Rightarrow> nat" where
  "count_memories is = length (filter (\<lambda>i. case i of ImportedMemory _ \<Rightarrow> True | _ \<Rightarrow> False) is)"

definition count_globals :: "imported list \<Rightarrow> nat" where
  "count_globals is = length (filter (\<lambda>i. case i of ImportedGlobal _ \<Rightarrow> True | _ \<Rightarrow> False) is)"

lemmas import_counts = count_funcs_def count_tables_def count_memories_def count_globals_def

lemma imports_next_types:
  assumes "imports_next reg items fs ts ms gs = Some is"
  shows "map (registry_resolve_func_type reg) (take (count_funcs items) fs) = map Some (import_funcs is) \<and>
    import_tables is = take (count_tables items) ts \<and> import_memories is = take (count_memories items) ms \<and>
    import_globals is = take (count_globals items) gs"
  using assms
proof (induction reg items fs ts ms gs arbitrary: "is" rule: imports_next.induct)
  case (2 reg n items fs ts ms gs)
  then show ?case by (cases fs) (auto simp: bind_eq_Some_conv import_lists import_counts)
next
  case (3 reg n items fs ts ms gs)
  then show ?case by (cases ts) (auto simp: import_lists import_counts)
next
  case (4 reg n items fs ts ms gs)
  then show ?case by (cases ms) (auto simp: import_lists import_counts)
next
  case (5 reg n items fs ts ms gs)
  then show ?case by (cases gs) (auto simp: import_lists import_counts)
qed (simp add: import_lists import_counts)

text \<open>
  A header as the builder of modules leaves it: the numbers of imports are right, the types are
  known and valid, every global of the module has its initial value.
\<close>

definition table_type_ok :: "table_type \<Rightarrow> bool" where
  "table_type_ok ty \<longleftrightarrow> tt_min ty < 2 ^ 32 \<and> is_ref (tt_element ty) \<and>
    (case tt_max ty of Some m \<Rightarrow> tt_min ty \<le> m | None \<Rightarrow> True)"

definition memory_type_ok :: "memory_type \<Rightarrow> bool" where
  "memory_type_ok ty \<longleftrightarrow> mt_initial_pages ty \<le> pages_max \<and>
    (case mt_maximum_pages ty of Some m \<Rightarrow> m \<le> pages_max | None \<Rightarrow> True)"

definition header_ok :: "func_type dedup_arena \<Rightarrow> header \<Rightarrow> bool" where
  "header_ok reg h \<longleftrightarrow>
    (let imports = hd_imports h; items = mi_items imports
     in mi_len_funcs imports = count_funcs items \<and> mi_len_tables imports = count_tables items \<and>
        mi_len_memories imports = count_memories items \<and> mi_len_globals imports = count_globals items) \<and>
    (\<forall>f \<in> set (hd_funcs h). registry_resolve_func_type reg f \<noteq> None) \<and>
    (\<forall>ty \<in> set (hd_tables h). table_type_ok ty) \<and> (\<forall>ty \<in> set (hd_memories h). memory_type_ok ty) \<and>
    length (hd_globals h) = mi_len_globals (hd_imports h) + length (hd_globals_init h)"

text \<open>A loop that pushes one handle for each of its items.\<close>

lemma st_fold_push:
  assumes "\<And>x b s b' s'. x \<in> set xs \<Longrightarrow> m x b s = (Inr b', s') \<Longrightarrow>
      R s s' \<and> rest b' = rest b \<and> (\<exists>h. hs b' = hs b @ [h] \<and> fits s' h x)"
    and mono: "\<And>s s' h x. R s s' \<Longrightarrow> fits s h x \<Longrightarrow> fits s' h x"
    and refl: "\<And>s. R s s" and trans: "\<And>s t u. R s t \<Longrightarrow> R t u \<Longrightarrow> R s u"
    and "st_fold m xs b s = (Inr b', s')"
  shows "R s s' \<and> rest b' = rest b \<and> (\<exists>new. hs b' = hs b @ new \<and> list_all2 (fits s') new xs)"
  using assms(1,5)
proof (induction xs arbitrary: b s)
  case (Cons x xs)
  then obtain b1 s1 where x: "m x b s = (Inr b1, s1)" and rest: "st_fold m xs b1 s1 = (Inr b', s')"
    by (auto simp: st_simps)
  from Cons.prems(1) [OF _ x] obtain h where h: "R s s1" "rest b1 = rest b" "hs b1 = hs b @ [h]" "fits s1 h x" by auto
  from Cons.IH [OF Cons.prems(1) rest] obtain new where new: "R s1 s'" "rest b' = rest b1" "hs b' = hs b1 @ new"
    "list_all2 (fits s') new xs" by auto
  show ?case
    using h new mono [OF new(1) h(4)] trans [OF h(1) new(1)] by auto
qed (simp add: refl)

text \<open>New entities fit their types.\<close>

lemma alloc_Inr:
  "alloc_func f s = (Inr h, s') \<Longrightarrow> h = length (ws_funcs s) \<and> s' = s\<lparr>ws_funcs := ws_funcs s @ [f]\<rparr>"
  "alloc_global g s = (Inr h, s') \<Longrightarrow> h = length (ws_globals s) \<and> s' = s\<lparr>ws_globals := ws_globals s @ [g]\<rparr>"
  "alloc_table t s = (Inr h, s') \<Longrightarrow> h = length (ws_tables s) \<and> s' = s\<lparr>ws_tables := ws_tables s @ [t]\<rparr>"
  "alloc_memory m s = (Inr h, s') \<Longrightarrow> h = length (ws_memories s) \<and> s' = s\<lparr>ws_memories := ws_memories s @ [m]\<rparr>"
  "alloc_data_segment d s = (Inr h, s') \<Longrightarrow> h = length (ws_datas s) \<and> s' = s\<lparr>ws_datas := ws_datas s @ [d]\<rparr>"
  "alloc_element_segment e s = (Inr h, s') \<Longrightarrow> h = length (ws_elems s) \<and> s' = s\<lparr>ws_elems := ws_elems s @ [e]\<rparr>"
  "alloc_instance s = (Inr h, s') \<Longrightarrow> h = length (ws_instances s) \<and>
    s' = s\<lparr>ws_instances := ws_instances s @ [instance_uninitialized]\<rparr>"
  by (auto simp: alloc_defs split: option.splits dest!: arena_alloc_append func_arena_alloc_append)

lemma table_new_fits:
  assumes "table_type_ok ty" "table_handle_new ty v s = (Inr h :: 'e api_error + table_h, s')"
  shows "table_fits s' h ty"
proof -
  obtain lim e where e: "table_entity_new ty (val_parts v) (limiter_ref_of s) = (Inr e, lim)"
    and a: "alloc_table e (put_limiter lim s) = (Inr h :: 'e api_error + table_h, s')"
    using assms(2) by (auto simp: table_handle_new_def split: sum.splits prod.splits)
  have "te_type e = ty" "length (te_elements e) = tt_min ty"
    using e by (auto simp: table_entity_new_def split: sum.splits prod.splits bool.splits)
  then have "table_dynamic_ty e = Some ty" "table_type_is_subtype_of ty ty"
    using assms(1) by (cases ty; auto simp: table_type_ok_def table_dynamic_ty_def table_size_def table_type_new_def
        table_type_is_subtype_of_def matches_element_type_def split: option.splits)+
  then show ?thesis using alloc_Inr(3) [OF a] by (auto simp: table_fits_def)
qed

lemma memory_new_fits:
  assumes "memory_type_ok ty" "memory_handle_new ty s = (Inr h :: 'e api_error + memory_h, s')"
  shows "memory_fits s' h ty"
proof -
  obtain lim e where e: "memory_entity_new ty (limiter_ref_of s) = (Inr e, lim)"
    and a: "alloc_memory e (put_limiter lim s) = (Inr h :: 'e api_error + memory_h, s')"
    using assms(2) by (auto simp: memory_handle_new_def split: sum.splits prod.splits)
  have "me_type e = ty" "me_current_pages e = mt_initial_pages ty"
    using e by (auto simp: memory_entity_new_def Let_def split: sum.splits prod.splits bool.splits option.splits)
  then have "memory_dynamic_ty e = Some ty" "memory_type_is_subtype_of ty ty"
    using assms(1) by (cases ty; auto simp: memory_type_ok_def memory_dynamic_ty_def memory_type_new_def
        memory_type_is_subtype_of_def pages_new_def split: option.splits)+
  then show ?thesis using alloc_Inr(4) [OF a] by (auto simp: memory_fits_def)
qed

end
