(* ===== verification/Inst_Types.thy ===== *)
theory Inst_Types
  imports Inst_Props
begin

text \<open>
  Instances fit their modules: each index of a module names an entity of the instance with the type
  that the header gives for it, exports have their types, and what a linker resolves is accepted.
\<close>


section \<open>Builders\<close>

text \<open>The handles that a builder has collected, against the types they must have.\<close>

definition parts_fit :: "func_type dedup_arena \<Rightarrow> 'h wstore \<Rightarrow> instance_builder \<Rightarrow> func_type list \<Rightarrow> table_type list
    \<Rightarrow> memory_type list \<Rightarrow> global_type list \<Rightarrow> bool" where
  "parts_fit reg s b fts tts mts gts \<longleftrightarrow>
    list_all2 (func_fits reg s) (ib_funcs b) fts \<and> list_all2 (table_fits s) (ib_tables b) tts \<and>
    list_all2 (memory_fits s) (ib_memories b) mts \<and> list_all2 (global_fits s) (ib_globals b) gts"

lemma parts_fit_new: "parts_fit reg s (instance_builder_new m) [] [] [] []"
  by (simp add: parts_fit_def instance_builder_new_def)

lemma parts_fit_extends:
  assumes "store_extends s s'" "parts_fit reg s b fts tts mts gts"
  shows "parts_fit reg s' b fts tts mts gts"
  using assms(2) unfolding parts_fit_def
  by (auto elim!: list_all2_mono intro: fits_extends [OF assms(1)])

text \<open>The parts of a builder that the collection of imports and entities leaves alone.\<close>

definition builder_rest :: "instance_builder \<Rightarrow> instance_builder" where
  "builder_rest b = b\<lparr>ib_funcs := [], ib_tables := [], ib_memories := [], ib_globals := []\<rparr>"

lemmas pushes = push_func_def push_table_def push_memory_def push_global_def push_data_def push_element_def

lemma builder_rest_push [simp]:
  "builder_rest (push_func f b) = builder_rest b" "builder_rest (push_table t b) = builder_rest b"
  "builder_rest (push_memory m b) = builder_rest b" "builder_rest (push_global g b) = builder_rest b"
  by (simp_all add: builder_rest_def pushes)

lemma builder_rest_parts:
  assumes "builder_rest b' = builder_rest b"
  shows "ib_func_types b' = ib_func_types b" "ib_start_fn b' = ib_start_fn b" "ib_exports b' = ib_exports b"
    "ib_data_segments b' = ib_data_segments b" "ib_elem_segments b' = ib_elem_segments b"
  using assms by (cases b; cases b'; simp add: builder_rest_def)+

lemma import_lists_simps [simp]:
  "import_funcs (i # is1) = (case it_type i of EtFunc ft \<Rightarrow> [ft] | _ \<Rightarrow> []) @ import_funcs is1"
  "import_tables (i # is1) = (case it_type i of EtTable ty \<Rightarrow> [ty] | _ \<Rightarrow> []) @ import_tables is1"
  "import_memories (i # is1) = (case it_type i of EtMemory ty \<Rightarrow> [ty] | _ \<Rightarrow> []) @ import_memories is1"
  "import_globals (i # is1) = (case it_type i of EtGlobal ty \<Rightarrow> [ty] | _ \<Rightarrow> []) @ import_globals is1"
  "import_funcs [] = []" "import_tables [] = []" "import_memories [] = []" "import_globals [] = []"
  by (simp_all add: import_lists)


section \<open>Imports\<close>

text \<open>An import is accepted exactly when it fits, and it is pushed.\<close>

definition push_extern :: "extern_val \<Rightarrow> instance_builder \<Rightarrow> instance_builder" where
  "push_extern e b =
    (case e of ExtFunc f \<Rightarrow> push_func f b | ExtTable t \<Rightarrow> push_table t b | ExtMemory m \<Rightarrow> push_memory m b
     | ExtGlobal g \<Rightarrow> push_global g b)"

lemma satisfies_Inr [simp]: "global_type_satisfies a b = Inr u \<longleftrightarrow> a = b"
  by (simp add: global_type_satisfies_def)

lemma extract_import_iff:
  "extract_import i e b c = (Inr b', c') \<longleftrightarrow>
    extern_fits (cx_types c) (cx_store c) e (it_type i) \<and> b' = push_extern e b \<and> c' = c"
  by (cases "it_type i"; cases e)
     (auto simp: extract_import_def extern_fits_def push_extern_def handle_reads inst_err_def table_fits_def
       memory_fits_def st_simps rsimps)

lemma parts_fit_push:
  assumes "parts_fit reg s b fts tts mts gts" "extern_fits reg s e (it_type i)"
  shows "parts_fit reg s (push_extern e b) (fts @ import_funcs [i]) (tts @ import_tables [i])
    (mts @ import_memories [i]) (gts @ import_globals [i])"
  using assms
  by (cases e; cases "it_type i")
     (auto simp: parts_fit_def extern_fits_def push_extern_def pushes list_all2_appendI)

lemma import_lists_append [simp]:
  "import_funcs (is1 @ is2) = import_funcs is1 @ import_funcs is2"
  "import_tables (is1 @ is2) = import_tables is1 @ import_tables is2"
  "import_memories (is1 @ is2) = import_memories is1 @ import_memories is2"
  "import_globals (is1 @ is2) = import_globals is1 @ import_globals is2"
  by (simp_all add: import_lists)

lemma extract_imports_fold:
  assumes "list_all2 (\<lambda>e i. extern_fits (cx_types c) (cx_store c) e (it_type i)) es is1"
  shows "\<exists>b'. st_fold (\<lambda>p. extract_import (fst p) (snd p)) (zip is1 es) b c = (Inr b' :: 'e api_error + instance_builder, c)"
  using assms
proof (induction es is1 arbitrary: b rule: list_all2_induct)
  case (Cons e es i is1)
  have "extract_import i e b c = (Inr (push_extern e b) :: 'e api_error + instance_builder, c)"
    using Cons.hyps(1) by (simp add: extract_import_iff)
  with Cons.IH show ?case by (simp add: st_bind_def)
qed simp

lemma extract_imports_fold_fits:
  assumes "st_fold (\<lambda>p. extract_import (fst p) (snd p)) ps b c = (Inr b' :: 'e api_error + instance_builder, c')"
    "parts_fit (cx_types c) (cx_store c) b (import_funcs is1) (import_tables is1) (import_memories is1) (import_globals is1)"
  shows "c' = c \<and> builder_rest b' = builder_rest b \<and>
    parts_fit (cx_types c) (cx_store c) b' (import_funcs (is1 @ map fst ps)) (import_tables (is1 @ map fst ps))
      (import_memories (is1 @ map fst ps)) (import_globals (is1 @ map fst ps))"
  using assms
proof (induction ps arbitrary: b is1)
  case (Cons p ps)
  obtain b1 c1 where p: "extract_import (fst p) (snd p) b c = (Inr b1 :: 'e api_error + instance_builder, c1)"
    and rest: "st_fold (\<lambda>p. extract_import (fst p) (snd p)) ps b1 c1 = (Inr b' :: 'e api_error + instance_builder, c')"
    using Cons.prems(1) by (auto simp: st_simps)
  from p have fits: "extern_fits (cx_types c) (cx_store c) (snd p) (it_type (fst p))"
    and b1: "b1 = push_extern (snd p) b" "c1 = c" by (simp_all add: extract_import_iff)
  have "builder_rest b1 = builder_rest b" by (simp add: b1 push_extern_def split: extern_val.split)
  moreover have "parts_fit (cx_types c) (cx_store c) b1 (import_funcs (is1 @ [fst p])) (import_tables (is1 @ [fst p]))
      (import_memories (is1 @ [fst p])) (import_globals (is1 @ [fst p]))"
    using parts_fit_push [OF Cons.prems(2) fits] by (simp only: b1 import_lists_append)
  moreover have "(is1 @ [fst p]) @ map fst ps = is1 @ map fst (p # ps)" by simp
  ultimately show ?case using Cons.IH [OF rest [unfolded b1(2)], of "is1 @ [fst p]"] by metis
qed simp



section \<open>Entities of the module\<close>

definition header_func_types :: "func_type dedup_arena \<Rightarrow> header \<Rightarrow> func_type list" where
  "header_func_types reg h = map (\<lambda>f. the (registry_resolve_func_type reg f)) (hd_funcs h)"

lemma module_imports_types:
  assumes "module_imports_iter reg m = Some is1" "header_ok reg (wm_header m)"
  defines "h \<equiv> wm_header m"
  defines "imports \<equiv> hd_imports (wm_header m)"
  shows "import_funcs is1 = take (mi_len_funcs imports) (header_func_types reg h)"
    "import_tables is1 = take (mi_len_tables imports) (hd_tables h)"
    "import_memories is1 = take (mi_len_memories imports) (hd_memories h)"
    "import_globals is1 = take (mi_len_globals imports) (hd_globals h)"
proof -
  have counts: "mi_len_funcs imports = count_funcs (mi_items imports)" "mi_len_tables imports = count_tables (mi_items imports)"
    "mi_len_memories imports = count_memories (mi_items imports)" "mi_len_globals imports = count_globals (mi_items imports)"
    using assms(2) by (simp_all add: header_ok_def Let_def imports_def)
  have next1: "imports_next reg (mi_items imports) (take (mi_len_funcs imports) (hd_funcs h)) (hd_tables h) (hd_memories h)
      (take (mi_len_globals imports) (hd_globals h)) = Some is1"
    using assms(1) by (simp add: module_imports_iter_def Let_def h_def imports_def split: if_splits)
  note types = imports_next_types [OF next1]
  then show "import_tables is1 = take (mi_len_tables imports) (hd_tables h)"
    "import_memories is1 = take (mi_len_memories imports) (hd_memories h)"
    "import_globals is1 = take (mi_len_globals imports) (hd_globals h)" by (simp_all add: counts)
  have "map the (map Some (import_funcs is1)) = map the (map (registry_resolve_func_type reg) (take (mi_len_funcs imports) (hd_funcs h)))"
    using types by (simp add: counts)
  then show "import_funcs is1 = take (mi_len_funcs imports) (header_func_types reg h)"
    by (simp add: header_func_types_def take_map comp_def)
qed

text \<open>Each loop appends the entities that the module defines.\<close>

lemma fold_push_parts:
  assumes "\<And>x b s b' s'. x \<in> set xs \<Longrightarrow> m x b s = (Inr b' :: 'e + instance_builder, s') \<Longrightarrow>
      store_extends s s' \<and> rest b' = rest b \<and> (\<exists>h. hs b' = hs b @ [h] \<and> fits s' h (ty x))"
    and "\<And>s s' h x. store_extends s s' \<Longrightarrow> fits s h x \<Longrightarrow> fits s' h x"
    and "st_fold m xs b s = (Inr b' :: 'e + instance_builder, s')" "list_all2 (fits s) (hs b) tys"
  shows "store_extends s s' \<and> rest b' = rest b \<and> list_all2 (fits s') (hs b') (tys @ map ty xs)"
proof -
  have "store_extends s s' \<and> rest b' = rest b \<and> (\<exists>new. hs b' = hs b @ new \<and> list_all2 (\<lambda>h x. fits s' h (ty x)) new xs)"
  proof (rule st_fold_push [where R = store_extends and fits = "\<lambda>s h x. fits s h (ty x)"])
    show "st_fold m xs b s = (Inr b', s')" by (rule assms(3))
  qed (auto dest: assms(1) intro: assms(2) store_extends_trans)
  then obtain new where new: "store_extends s s'" "rest b' = rest b" "hs b' = hs b @ new"
    "list_all2 (\<lambda>h x. fits s' h (ty x)) new xs" by blast
  have "list_all2 (fits s') (hs b) tys"
    by (rule list_all2_mono [OF assms(4)]) (rule assms(2) [OF new(1)])
  with new show ?thesis by (simp add: list_all2_appendI list_all2_map2)
qed

lemma slice_take_drop:
  assumes "slice_from n xs = Some ys"
  shows "take n xs @ ys = xs"
  using assms by (auto simp: slice_from_def split: if_splits)

definition without_funcs :: "instance_builder \<Rightarrow> instance_builder" where
  "without_funcs b = b\<lparr>ib_funcs := []\<rparr>"

definition without_tables :: "instance_builder \<Rightarrow> instance_builder" where
  "without_tables b = b\<lparr>ib_tables := []\<rparr>"

definition without_memories :: "instance_builder \<Rightarrow> instance_builder" where
  "without_memories b = b\<lparr>ib_memories := []\<rparr>"

definition without_globals :: "instance_builder \<Rightarrow> instance_builder" where
  "without_globals b = b\<lparr>ib_globals := []\<rparr>"

lemmas withouts = without_funcs_def without_tables_def without_memories_def without_globals_def

lemma push_table_simps: "without_tables (push_table t b) = without_tables b" "ib_tables (push_table t b) = ib_tables b @ [t]"
  and push_memory_simps: "without_memories (push_memory h b) = without_memories b" "ib_memories (push_memory h b) = ib_memories b @ [h]"
  and push_global_simps: "without_globals (push_global g b) = without_globals b" "ib_globals (push_global g b) = ib_globals b @ [g]"
  by (simp_all add: withouts pushes)

lemma without_parts:
  "without_funcs b' = without_funcs b \<Longrightarrow> builder_rest b' = builder_rest b \<and> ib_tables b' = ib_tables b \<and>
    ib_memories b' = ib_memories b \<and> ib_globals b' = ib_globals b"
  "without_tables b' = without_tables b \<Longrightarrow> builder_rest b' = builder_rest b \<and> ib_funcs b' = ib_funcs b \<and>
    ib_memories b' = ib_memories b \<and> ib_globals b' = ib_globals b"
  "without_memories b' = without_memories b \<Longrightarrow> builder_rest b' = builder_rest b \<and> ib_funcs b' = ib_funcs b \<and>
    ib_tables b' = ib_tables b \<and> ib_globals b' = ib_globals b"
  "without_globals b' = without_globals b \<Longrightarrow> builder_rest b' = builder_rest b \<and> ib_funcs b' = ib_funcs b \<and>
    ib_tables b' = ib_tables b \<and> ib_memories b' = ib_memories b"
  by (cases b; cases b'; simp add: withouts builder_rest_def)+

lemma extract_functions_fits:
  assumes "extract_functions m handle b s = (Inr b' :: 'e api_error + instance_builder, s')" "header_ok reg (wm_header m)"
    "list_all2 (func_fits reg s) (ib_funcs b) (take (mi_len_funcs (hd_imports (wm_header m))) (header_func_types reg (wm_header m)))"
  shows "store_extends s s' \<and> without_funcs b' = without_funcs b \<and>
    list_all2 (func_fits reg s') (ib_funcs b') (header_func_types reg (wm_header m))"
proof -
  define h where "h = wm_header m"
  define n where "n = mi_len_funcs (hd_imports h)"
  obtain fs es where fs: "slice_from n (hd_funcs h) = Some fs" "length fs = length es" "internal_funcs m = Some (zip fs es)"
    and fold: "st_fold (\<lambda>p b. st_bind (alloc_func (WasmFunc \<lparr>wf_type = fst p, wf_body = snd p, wf_instance = handle\<rparr>))
        (\<lambda>f. st_ok (push_func f b))) (zip fs es) b s = (Inr b' :: 'e api_error + instance_builder, s')"
    using assms(1) by (auto simp: extract_functions_def internal_funcs_def Let_def st_simps st_expect_def rsimps
        bind_eq_Some_conv n_def h_def split: if_splits)
  let ?ty = "\<lambda>p. the (registry_resolve_func_type reg (fst (p :: nat \<times> nat)))"
  have known: "registry_resolve_func_type reg f \<noteq> None" if "f \<in> set fs" for f
    using assms(2) fs(1) that by (auto simp: header_ok_def h_def slice_from_def dest: in_set_dropD split: if_splits)
  have step: "store_extends s s' \<and> without_funcs b' = without_funcs b \<and> (\<exists>h. ib_funcs b' = ib_funcs b @ [h] \<and> func_fits reg s' h (?ty p))"
    if p: "p \<in> set (zip fs es)" and run: "st_bind (alloc_func (WasmFunc \<lparr>wf_type = fst p, wf_body = snd p, wf_instance = handle\<rparr>))
        (\<lambda>f. st_ok (push_func f b)) s = (Inr b' :: 'e api_error + instance_builder, s')" for p b b' and s s' :: "'a wstore"
  proof -
    have "registry_resolve_func_type reg (fst p) \<noteq> None"
      using p known by (metis set_zip_leftD prod.collapse)
    moreover obtain f where f: "alloc_func (WasmFunc \<lparr>wf_type = fst p, wf_body = snd p, wf_instance = handle\<rparr>) s = (Inr f :: 'e api_error + func_h, s')"
      "b' = push_func f b" using run by (auto simp: st_simps)
    ultimately show ?thesis using alloc_Inr(1) [OF f(1)]
      by (auto simp: push_func_def withouts func_fits_def func_ty_def resolve_def func_ty_dedup_def rsimps extends_append)
  qed
  have "map ?ty (zip fs es) = drop n (header_func_types reg h)"
  proof -
    have "map ?ty (zip fs es) = map (\<lambda>f. the (registry_resolve_func_type reg f)) (map fst (zip fs es))" by simp
    then show ?thesis using fs(1,2) by (auto simp: header_func_types_def drop_map slice_from_def split: if_splits)
  qed
  moreover have "store_extends s s' \<and> without_funcs b' = without_funcs b \<and>
      list_all2 (func_fits reg s') (ib_funcs b') (take n (header_func_types reg h) @ map ?ty (zip fs es))"
    by (rule fold_push_parts [where hs = ib_funcs and rest = without_funcs and fits = "func_fits reg" and ty = ?ty, OF _ _ fold assms(3) [folded h_def, folded n_def]])
      (use step fits_extends(4) in blast)+
  ultimately show ?thesis by (simp add: h_def)
qed


lemma extract_tables_fits:
  assumes "extract_tables m b s = (Inr b' :: 'e api_error + instance_builder, s')" "header_ok reg (wm_header m)"
    "list_all2 (table_fits s) (ib_tables b) (take (mi_len_tables (hd_imports (wm_header m))) (hd_tables (wm_header m)))"
  shows "store_extends s s' \<and> without_tables b' = without_tables b \<and>
    list_all2 (table_fits s') (ib_tables b') (hd_tables (wm_header m))"
proof -
  obtain tys where tys: "internal_tables m = Some tys"
    and fold: "st_fold (\<lambda>ty b. st_bind (st_map_err table_to_inst (table_handle_new ty (val_default (tt_element ty))))
        (\<lambda>t. st_ok (push_table t b))) tys b s = (Inr b' :: 'e api_error + instance_builder, s')"
    using assms(1) by (auto simp: extract_tables_def st_simps st_expect_def rsimps check_new_tables_limit_def
        split: option.splits if_splits)
  have all: "take (mi_len_tables (hd_imports (wm_header m))) (hd_tables (wm_header m)) @ tys = hd_tables (wm_header m)"
    using tys slice_take_drop by (simp add: internal_tables_def)
  have step: "store_extends s s' \<and> without_tables b' = without_tables b \<and> (\<exists>h. ib_tables b' = ib_tables b @ [h] \<and> table_fits s' h ty)"
    if ty: "ty \<in> set tys" and run: "st_bind (st_map_err table_to_inst (table_handle_new ty (val_default (tt_element ty))))
        (\<lambda>t. st_ok (push_table t b)) s = (Inr b' :: 'e api_error + instance_builder, s')" for ty b b' and s s' :: "'a wstore"
  proof -
    obtain t where t: "table_handle_new ty (val_default (tt_element ty)) s = (Inr t :: 'e api_error + table_h, s')"
      "b' = push_table t b" using run by (auto simp: st_simps)
    have "table_type_ok ty" using assms(2) ty all unfolding header_ok_def by (metis Un_iff set_append)
    then show ?thesis using table_new_fits [OF _ t(1)] handle_new_keeps(1) [unfolded st_keeps_def] t
      by (metis (no_types, lifting) snd_conv push_table_simps)
  qed
  have "store_extends s s' \<and> without_tables b' = without_tables b \<and>
      list_all2 (table_fits s') (ib_tables b') (take (mi_len_tables (hd_imports (wm_header m))) (hd_tables (wm_header m)) @ map (\<lambda>t. t) tys)"
    by (rule fold_push_parts [where hs = ib_tables and rest = without_tables and fits = table_fits and ty = "\<lambda>t. t", OF _ _ fold assms(3)])
      (use step fits_extends(1) in blast)+
  then show ?thesis by (simp add: all)
qed

lemma extract_memories_fits:
  assumes "extract_memories m b s = (Inr b' :: 'e api_error + instance_builder, s')" "header_ok reg (wm_header m)"
    "list_all2 (memory_fits s) (ib_memories b) (take (mi_len_memories (hd_imports (wm_header m))) (hd_memories (wm_header m)))"
  shows "store_extends s s' \<and> without_memories b' = without_memories b \<and>
    list_all2 (memory_fits s') (ib_memories b') (hd_memories (wm_header m))"
proof -
  obtain tys where tys: "internal_memories m = Some tys"
    and fold: "st_fold (\<lambda>ty b. st_bind (memory_handle_new ty) (\<lambda>h. st_ok (push_memory h b))) tys b s
      = (Inr b' :: 'e api_error + instance_builder, s')"
    using assms(1) by (auto simp: extract_memories_def st_simps st_expect_def rsimps check_new_memories_limit_def
        split: option.splits if_splits)
  have all: "take (mi_len_memories (hd_imports (wm_header m))) (hd_memories (wm_header m)) @ tys = hd_memories (wm_header m)"
    using tys slice_take_drop by (simp add: internal_memories_def)
  have step: "store_extends s s' \<and> without_memories b' = without_memories b \<and> (\<exists>h. ib_memories b' = ib_memories b @ [h] \<and> memory_fits s' h ty)"
    if ty: "ty \<in> set tys" and run: "st_bind (memory_handle_new ty) (\<lambda>h. st_ok (push_memory h b)) s
      = (Inr b' :: 'e api_error + instance_builder, s')" for ty b b' and s s' :: "'a wstore"
  proof -
    obtain t where t: "memory_handle_new ty s = (Inr t :: 'e api_error + memory_h, s')" "b' = push_memory t b"
      using run by (auto simp: st_simps)
    have "memory_type_ok ty" using assms(2) ty all unfolding header_ok_def by (metis Un_iff set_append)
    then show ?thesis using memory_new_fits [OF _ t(1)] handle_new_keeps(2) [unfolded st_keeps_def] t
      by (metis (no_types, lifting) snd_conv push_memory_simps)
  qed
  have "store_extends s s' \<and> without_memories b' = without_memories b \<and>
      list_all2 (memory_fits s') (ib_memories b') (take (mi_len_memories (hd_imports (wm_header m))) (hd_memories (wm_header m)) @ map (\<lambda>t. t) tys)"
    by (rule fold_push_parts [where hs = ib_memories and rest = without_memories and fits = memory_fits and ty = "\<lambda>t. t", OF _ _ fold assms(3)])
      (use step fits_extends(2) in blast)+
  then show ?thesis by (simp add: all)
qed

lemma global_new_fits:
  assumes "global_handle_new v mut s = (Inr g :: 'e api_error + global_h, s')"
  shows "global_fits s' g \<lparr>gt_content = val_ty v, gt_mutability = mut\<rparr>"
  using alloc_Inr(2) [OF assms [unfolded global_handle_new_def]]
  by (auto simp: global_fits_def global_entity_new_def val_parts_def)

lemma extract_globals_fits:
  assumes "extract_globals bits m b s = (Inr b' :: 'e api_error + instance_builder, s')" "header_ok reg (wm_header m)"
    "list_all2 (global_fits s) (ib_globals b) (take (mi_len_globals (hd_imports (wm_header m))) (hd_globals (wm_header m)))"
  shows "store_extends s s' \<and> without_globals b' = without_globals b \<and>
    list_all2 (global_fits s') (ib_globals b') (hd_globals (wm_header m))"
proof -
  define h where "h = wm_header m"
  obtain gs where gs: "slice_from (mi_len_globals (hd_imports h)) (hd_globals h) = Some gs"
    and fold: "st_fold (extract_global bits) (zip gs (hd_globals_init h)) b s = (Inr b' :: 'e api_error + instance_builder, s')"
    using assms(1) by (auto simp: extract_globals_def internal_globals_def st_simps st_expect_def rsimps h_def
        split: option.splits)
  have "length gs = length (hd_globals_init h)"
    using assms(2) gs by (auto simp: header_ok_def slice_from_def h_def split: if_splits)
  then have all: "take (mi_len_globals (hd_imports h)) (hd_globals h) @ map fst (zip gs (hd_globals_init h)) = hd_globals h"
    using slice_take_drop [OF gs] by simp
  have step: "store_extends s s' \<and> without_globals b' = without_globals b \<and> (\<exists>h. ib_globals b' = ib_globals b @ [h] \<and> global_fits s' h (fst p))"
    if run: "extract_global bits p b s = (Inr b' :: 'e api_error + instance_builder, s')" for p b b' and s s' :: "'a wstore"
  proof -
    obtain v g where g: "global_handle_new (val_with_type v (gt_content (fst p))) (gt_mutability (fst p)) s = (Inr g :: 'e api_error + global_h, s')"
      "b' = push_global g b" using run by (auto simp: extract_global_def st_simps eval_init_expr_def st_expect_def rsimps)
    have "store_extends s s'" using handle_new_keeps(3) g(1) unfolding st_keeps_def by (metis snd_conv)
    moreover have "global_fits s' g (fst p)" using global_new_fits [OF g(1)] by (cases "fst p") simp
    ultimately show ?thesis by (simp add: g(2) push_global_simps)
  qed
  have "store_extends s s' \<and> without_globals b' = without_globals b \<and>
      list_all2 (global_fits s') (ib_globals b') (take (mi_len_globals (hd_imports h)) (hd_globals h) @ map fst (zip gs (hd_globals_init h)))"
    by (rule fold_push_parts [where hs = ib_globals and rest = without_globals and fits = global_fits and ty = fst, OF _ _ fold assms(3) [folded h_def]])
      (use step fits_extends(3) in blast)+
  then show ?thesis using all by (simp add: h_def)
qed



section \<open>Exports, start function and segments\<close>

text \<open>Every export is pushed under its name, with the item that its index names.\<close>

lemma push_exports_items:
  assumes "push_exports ps b = Some b'"
  shows "\<exists>es. b' = b\<lparr>ib_exports := ib_exports b @ es\<rparr> \<and>
    list_all2 (\<lambda>e p. fst e = fst p \<and> export_item b (snd p) = Some (snd e)) es ps"
  using assms
proof (induction ps arbitrary: b)
  case (Cons p ps)
  then obtain v b1 where v: "export_item b (snd p) = Some v" "push_export (fst p) v b = Some b1"
    and rest: "push_exports ps b1 = Some b'" by (auto simp: bind_eq_Some_conv)
  from v(2) have b1: "b1 = b\<lparr>ib_exports := ib_exports b @ [(fst p, v)]\<rparr>"
    by (auto simp: push_export_def split: if_splits)
  then have "export_item b1 = export_item b" by (auto simp: export_item_def fun_eq_iff split: extern_idx.split)
  with Cons.IH [OF rest] obtain es where es: "b' = b1\<lparr>ib_exports := ib_exports b1 @ es\<rparr>"
    "list_all2 (\<lambda>e p. fst e = fst p \<and> export_item b (snd p) = Some (snd e)) es ps" by auto
  show ?case by (rule exI [of _ "(fst p, v) # es"]) (use es v(1) b1 in simp)
qed (rule exI [of _ "[]"], simp)

lemma exports_map_of:
  assumes "list_all2 (\<lambda>e p. fst e = fst p \<and> f (snd p) = Some (snd e)) es ps" "map_of ps n = Some i"
  shows "\<exists>v. map_of es n = Some v \<and> f i = Some v"
  using assms by (induction es ps rule: list_all2_induct) (auto split: if_splits)

text \<open>The builder after these steps: only exports and start function are new.\<close>

definition parts_same :: "instance_builder \<Rightarrow> instance_builder \<Rightarrow> bool" where
  "parts_same b b' \<longleftrightarrow> ib_funcs b' = ib_funcs b \<and> ib_tables b' = ib_tables b \<and> ib_memories b' = ib_memories b \<and>
    ib_globals b' = ib_globals b \<and> ib_func_types b' = ib_func_types b"

lemma extract_start_fn_same:
  assumes "extract_start_fn m b s = (Inr b' :: 'e api_error + instance_builder, s')"
  shows "s' = s \<and> parts_same b b' \<and> ib_exports b' = ib_exports b \<and> ib_elem_segments b' = ib_elem_segments b \<and>
    ib_data_segments b' = ib_data_segments b"
  using assms by (auto simp: extract_start_fn_def builder_set_start_def st_expect_def rsimps parts_same_def
      split: option.splits if_splits)

text \<open>The number of segments of the store does not shrink when one is activated.\<close>

definition keeps_elems :: "'h wstore \<Rightarrow> 'h wstore \<Rightarrow> bool" where
  "keeps_elems s s' \<longleftrightarrow> length (ws_elems s) \<le> length (ws_elems s')"

interpretation elems: st_relation keeps_elems
  by unfold_locales (auto simp: keeps_elems_def)

lemma extends_keeps_elems: "st_keeps store_extends m \<Longrightarrow> st_keeps keeps_elems m"
  by (auto simp: st_keeps_def keeps_elems_def store_extends_def prefix_length_le)

lemma activate_keeps_elems: "st_keeps keeps_elems (activate_element bits b e ti offset)"
proof -
  have "st_keeps keeps_elems (write_elements table e dst len)" for table dst len
    by (auto simp: st_keeps_def write_elements_def keeps_elems_def put_table_def split: option.split sum.split)
  then show ?thesis
    unfolding activate_element_def Let_def
    by (intro elems.keeps_seq) (auto intro: extends_keeps_elems st_keeps_intros)
qed

lemma initialize_element_step:
  assumes "initialize_element bits seg b s = (Inr b' :: 'e api_error + instance_builder, s')"
  shows "store_extends s s' \<and> b'\<lparr>ib_elem_segments := []\<rparr> = b\<lparr>ib_elem_segments := []\<rparr> \<and>
    (\<exists>h. ib_elem_segments b' = ib_elem_segments b @ [h] \<and> h < length (ws_elems s'))"
proof -
  let ?act = "\<lambda>e. case ed_kind seg of ElemActive table_index offset \<Rightarrow> activate_element bits b e table_index offset
        | _ \<Rightarrow> st_ok ()"
  obtain e s1 where e: "element_segment_new bits b seg s = (Inr e :: 'e api_error + elem_h, s1)"
    and act: "?act e s1 = (Inr () :: 'e api_error + unit, s')" and b': "b' = push_element e b"
    using assms by (auto simp: initialize_element_def st_simps)
  have "store_extends s s'"
    using assms initialize_element_keeps [of bits seg b] unfolding st_keeps_def by (metis snd_conv)
  moreover have "st_keeps keeps_elems (?act e :: ('a, 'e, unit) store_op)"
    by (auto intro: activate_keeps_elems elems.keeps split: element_kind.split)
  then have "keeps_elems s1 s'" using act unfolding st_keeps_def by (metis snd_conv)
  moreover have "e < length (ws_elems s1)"
    using e by (auto simp: element_segment_new_def st_simps st_expect_def rsimps dest!: alloc_Inr(6))
  ultimately show ?thesis using b' by (simp add: pushes keeps_elems_def)
qed

lemma initialize_data_step:
  assumes "initialize_data bits seg b s = (Inr b' :: 'e api_error + instance_builder, s')"
  shows "store_extends s s' \<and> b'\<lparr>ib_data_segments := []\<rparr> = b\<lparr>ib_data_segments := []\<rparr> \<and>
    (\<exists>h. ib_data_segments b' = ib_data_segments b @ [h] \<and> h < length (ws_datas s'))"
proof -
  have "store_extends s s'"
    using assms initialize_data_keeps [of bits seg b] unfolding st_keeps_def by (metis snd_conv)
  moreover obtain d s1 seg' where "alloc_data_segment seg' s1 = (Inr d :: 'e api_error + data_h, s')" "b' = push_data d b"
    using assms by (auto simp: initialize_data_def st_simps split: init_data_segment.splits)
  ultimately show ?thesis by (auto simp: pushes dest!: alloc_Inr(5))
qed

text \<open>The loops over segments.\<close>

lemma initialize_loops:
  "initialize_table_elements bits m b s = (Inr b' :: 'e api_error + instance_builder, s') \<Longrightarrow>
    store_extends s s' \<and> b'\<lparr>ib_elem_segments := []\<rparr> = b\<lparr>ib_elem_segments := []\<rparr> \<and>
    (\<exists>new. ib_elem_segments b' = ib_elem_segments b @ new \<and>
       list_all2 (\<lambda>h _. h < length (ws_elems s')) new (hd_element_segments (wm_header m)))"
  "initialize_memory_data bits m b s = (Inr b' :: 'e api_error + instance_builder, s') \<Longrightarrow>
    store_extends s s' \<and> b'\<lparr>ib_data_segments := []\<rparr> = b\<lparr>ib_data_segments := []\<rparr> \<and>
    (\<exists>new segs. data_segments_iter (wm_data_segments m) = Some segs \<and> ib_data_segments b' = ib_data_segments b @ new \<and>
       list_all2 (\<lambda>h _. h < length (ws_datas s')) new segs)"
proof -
  have mono: "store_extends s s' \<Longrightarrow> h < length (ws_elems s) \<Longrightarrow> h < length (ws_elems s')"
    "store_extends s s' \<Longrightarrow> h < length (ws_datas s) \<Longrightarrow> h < length (ws_datas s')" for s s' :: "'a wstore" and h
    by (auto simp: store_extends_def dest: prefix_length_le)
  show "store_extends s s' \<and> b'\<lparr>ib_elem_segments := []\<rparr> = b\<lparr>ib_elem_segments := []\<rparr> \<and>
    (\<exists>new. ib_elem_segments b' = ib_elem_segments b @ new \<and>
       list_all2 (\<lambda>h _. h < length (ws_elems s')) new (hd_element_segments (wm_header m)))"
    if "initialize_table_elements bits m b s = (Inr b' :: 'e api_error + instance_builder, s')"
  proof (rule st_fold_push [where R = store_extends and hs = ib_elem_segments and rest = "\<lambda>b. b\<lparr>ib_elem_segments := []\<rparr>"
        and fits = "\<lambda>s h _. h < length (ws_elems s)", OF _ _ _ _ that [unfolded initialize_table_elements_def]])
  qed (auto dest: initialize_element_step intro: mono store_extends_trans)
  assume "initialize_memory_data bits m b s = (Inr b' :: 'e api_error + instance_builder, s')"
  then obtain segs where segs: "data_segments_iter (wm_data_segments m) = Some segs"
    and fold: "st_fold (initialize_data bits) segs b s = (Inr b' :: 'e api_error + instance_builder, s')"
    by (auto simp: initialize_memory_data_def st_simps st_expect_def rsimps)
  have "store_extends s s' \<and> b'\<lparr>ib_data_segments := []\<rparr> = b\<lparr>ib_data_segments := []\<rparr> \<and>
    (\<exists>new. ib_data_segments b' = ib_data_segments b @ new \<and> list_all2 (\<lambda>h _. h < length (ws_datas s')) new segs)"
  proof (rule st_fold_push [where R = store_extends and hs = ib_data_segments and rest = "\<lambda>b. b\<lparr>ib_data_segments := []\<rparr>"
        and fits = "\<lambda>s h _. h < length (ws_datas s)", OF _ _ _ _ fold])
  qed (auto dest: initialize_data_step intro: mono store_extends_trans)
  with segs show "store_extends s s' \<and> b'\<lparr>ib_data_segments := []\<rparr> = b\<lparr>ib_data_segments := []\<rparr> \<and>
    (\<exists>new segs. data_segments_iter (wm_data_segments m) = Some segs \<and> ib_data_segments b' = ib_data_segments b @ new \<and>
       list_all2 (\<lambda>h _. h < length (ws_datas s')) new segs)" by blast
qed



section \<open>Instances\<close>

definition instance_fits :: "func_type dedup_arena \<Rightarrow> 'h wstore \<Rightarrow> wasm_module \<Rightarrow> instance_entity \<Rightarrow> bool" where
  "instance_fits reg s m inst \<longleftrightarrow>
    in_func_types inst = hd_func_types (wm_header m) \<and>
    list_all2 (func_fits reg s) (in_funcs inst) (header_func_types reg (wm_header m)) \<and>
    list_all2 (table_fits s) (in_tables inst) (hd_tables (wm_header m)) \<and>
    list_all2 (memory_fits s) (in_memories inst) (hd_memories (wm_header m)) \<and>
    list_all2 (global_fits s) (in_globals inst) (hd_globals (wm_header m)) \<and>
    length (in_elem_segments inst) = length (hd_element_segments (wm_header m)) \<and>
    (\<forall>e \<in> set (in_elem_segments inst). e < length (ws_elems s)) \<and>
    Some (length (in_data_segments inst)) = map_option length (data_segments_iter (wm_data_segments m)) \<and>
    (\<forall>d \<in> set (in_data_segments inst). d < length (ws_datas s)) \<and>
    (\<forall>name ty. module_get_export reg m name = Some (Some ty) \<longrightarrow>
      (\<exists>e. map_of (in_exports inst) name = Some e \<and> extern_fits reg s e ty))"

lemma all2_get:
  "list_all2 P xs ys \<Longrightarrow> get_at ys i = Some y \<Longrightarrow> \<exists>x. get_at xs i = Some x \<and> P x y"
  by (auto simp: list_all2_conv_all_nth)

text \<open>An item that is exported has the type that the module promises for it.\<close>

lemma export_item_fits:
  assumes "parts_fit reg s b (header_func_types reg h) (hd_tables h) (hd_memories h) (hd_globals h)" "h = wm_header m"
    "get_extern_type reg m i = Some ty" "export_item b i = Some e"
  shows "extern_fits reg s e ty"
proof (cases i)
  case (IdxFunc n)
  with assms obtain f where f: "get_at (hd_funcs h) (unat n) = Some f" "map_option EtFunc (registry_resolve_func_type reg f) = Some ty"
    by (auto simp: get_extern_type_def Let_def bind_eq_Some_conv simp del: get_at_eq_Some)
  then have get: "get_at (header_func_types reg h) (unat n) = Some (the (registry_resolve_func_type reg f))"
    by (auto simp: header_func_types_def)
  have "list_all2 (func_fits reg s) (ib_funcs b) (header_func_types reg h)" using assms(1) by (simp add: parts_fit_def)
  from all2_get [OF this get] obtain x where "get_at (ib_funcs b) (unat n) = Some x"
    "func_fits reg s x (the (registry_resolve_func_type reg f))" by blast
  with f assms(4) IdxFunc show ?thesis by (auto simp: export_item_def extern_fits_def)
next
  case (IdxTable n)
  with assms(2-4) obtain t x where "ty = EtTable t" "get_at (hd_tables h) (unat n) = Some t"
    "e = ExtTable x" "get_at (ib_tables b) (unat n) = Some x"
    by (auto simp: get_extern_type_def Let_def export_item_def simp del: get_at_eq_Some)
  moreover have "list_all2 (table_fits s) (ib_tables b) (hd_tables h)" using assms(1) by (simp add: parts_fit_def)
  ultimately show ?thesis using all2_get unfolding extern_fits_def by fastforce
next
  case (IdxMemory n)
  with assms(2-4) obtain t x where "ty = EtMemory t" "get_at (hd_memories h) (unat n) = Some t"
    "e = ExtMemory x" "get_at (ib_memories b) (unat n) = Some x"
    by (auto simp: get_extern_type_def Let_def export_item_def simp del: get_at_eq_Some)
  moreover have "list_all2 (memory_fits s) (ib_memories b) (hd_memories h)" using assms(1) by (simp add: parts_fit_def)
  ultimately show ?thesis using all2_get unfolding extern_fits_def by fastforce
next
  case (IdxGlobal n)
  with assms(2-4) obtain t x where "ty = EtGlobal t" "get_at (hd_globals h) (unat n) = Some t"
    "e = ExtGlobal x" "get_at (ib_globals b) (unat n) = Some x"
    by (auto simp: get_extern_type_def Let_def export_item_def simp del: get_at_eq_Some)
  moreover have "list_all2 (global_fits s) (ib_globals b) (hd_globals h)" using assms(1) by (simp add: parts_fit_def)
  ultimately show ?thesis using all2_get unfolding extern_fits_def by fastforce
qed

lemma extract_imports_fits:
  assumes "extract_imports m es (instance_builder_new m) c = (Inr b :: 'e api_error + instance_builder, c')"
    "header_ok (cx_types c) (wm_header m)"
  shows "c' = c \<and> builder_rest b = builder_rest (instance_builder_new m) \<and>
    parts_fit (cx_types c) (cx_store c) b
      (take (mi_len_funcs (hd_imports (wm_header m))) (header_func_types (cx_types c) (wm_header m)))
      (take (mi_len_tables (hd_imports (wm_header m))) (hd_tables (wm_header m)))
      (take (mi_len_memories (hd_imports (wm_header m))) (hd_memories (wm_header m)))
      (take (mi_len_globals (hd_imports (wm_header m))) (hd_globals (wm_header m)))"
proof -
  obtain is1 where is1: "module_imports_iter (cx_types c) m = Some is1" "length is1 = length es"
    and fold: "st_fold (\<lambda>p. extract_import (fst p) (snd p)) (zip is1 es) (instance_builder_new m) c
      = (Inr b :: 'e api_error + instance_builder, c')"
    using assms(1) by (auto simp: extract_imports_def st_simps st_expect_def rsimps inst_err_def split: if_splits)
  have "map fst (zip is1 es) = is1" using is1(2) by simp
  moreover have "parts_fit (cx_types c) (cx_store c) (instance_builder_new m) (import_funcs []) (import_tables [])
      (import_memories []) (import_globals [])" by (simp add: parts_fit_new)
  ultimately show ?thesis
    using extract_imports_fold_fits [OF fold] module_imports_types [OF is1(1) assms(2)] by (metis append_Nil)
qed

lemma build_instance_fits:
  assumes "build_instance bits m handle b s = (Inr b' :: 'e api_error + instance_builder, s')"
    "header_ok reg (wm_header m)" "builder_rest b = builder_rest (instance_builder_new m)"
    "parts_fit reg s b (take (mi_len_funcs (hd_imports (wm_header m))) (header_func_types reg (wm_header m)))
      (take (mi_len_tables (hd_imports (wm_header m))) (hd_tables (wm_header m)))
      (take (mi_len_memories (hd_imports (wm_header m))) (hd_memories (wm_header m)))
      (take (mi_len_globals (hd_imports (wm_header m))) (hd_globals (wm_header m)))"
  shows "instance_fits reg s' m (instance_builder_finish b')"
proof -
  obtain b1 s1 b2 s2 b3 s3 b4 s4 b5 s5 b6 s6 b7 s7 where
    1: "extract_functions m handle b s = (Inr b1 :: 'e api_error + instance_builder, s1)" and
    2: "extract_tables m b1 s1 = (Inr b2 :: 'e api_error + instance_builder, s2)" and
    3: "extract_memories m b2 s2 = (Inr b3 :: 'e api_error + instance_builder, s3)" and
    4: "extract_globals bits m b3 s3 = (Inr b4 :: 'e api_error + instance_builder, s4)" and
    5: "extract_exports m b4 s4 = (Inr b5 :: 'e api_error + instance_builder, s5)" and
    6: "extract_start_fn m b5 s5 = (Inr b6 :: 'e api_error + instance_builder, s6)" and
    7: "initialize_table_elements bits m b6 s6 = (Inr b7 :: 'e api_error + instance_builder, s7)" and
    8: "initialize_memory_data bits m b7 s7 = (Inr b' :: 'e api_error + instance_builder, s')"
    using assms(1) by (auto simp: build_instance_def st_simps)
  let ?h = "wm_header m"
  let ?F = "header_func_types reg ?h" and ?T = "hd_tables ?h" and ?M = "hd_memories ?h" and ?G = "hd_globals ?h"
  let ?t = "take (mi_len_tables (hd_imports ?h)) ?T" and ?m = "take (mi_len_memories (hd_imports ?h)) ?M"
    and ?g = "take (mi_len_globals (hd_imports ?h)) ?G"
  have f1: "store_extends s s1" "without_funcs b1 = without_funcs b" "list_all2 (func_fits reg s1) (ib_funcs b1) ?F"
    using extract_functions_fits [OF 1 assms(2)] assms(4) by (simp_all add: parts_fit_def)
  have p1: "parts_fit reg s1 b1 ?F ?t ?m ?g"
    using parts_fit_extends [OF f1(1) assms(4)] f1(3) without_parts(1) [OF f1(2)] by (simp add: parts_fit_def)
  then have f2: "store_extends s1 s2" "without_tables b2 = without_tables b1" "list_all2 (table_fits s2) (ib_tables b2) ?T"
    using extract_tables_fits [OF 2 assms(2)] by (simp_all add: parts_fit_def)
  have p2: "parts_fit reg s2 b2 ?F ?T ?m ?g"
    using parts_fit_extends [OF f2(1) p1] f2(3) without_parts(2) [OF f2(2)] by (simp add: parts_fit_def)
  then have f3: "store_extends s2 s3" "without_memories b3 = without_memories b2" "list_all2 (memory_fits s3) (ib_memories b3) ?M"
    using extract_memories_fits [OF 3 assms(2)] by (simp_all add: parts_fit_def)
  have p3: "parts_fit reg s3 b3 ?F ?T ?M ?g"
    using parts_fit_extends [OF f3(1) p2] f3(3) without_parts(3) [OF f3(2)] by (simp add: parts_fit_def)
  then have f4: "store_extends s3 s4" "without_globals b4 = without_globals b3" "list_all2 (global_fits s4) (ib_globals b4) ?G"
    using extract_globals_fits [OF 4 assms(2)] by (simp_all add: parts_fit_def)
  have p4: "parts_fit reg s4 b4 ?F ?T ?M ?G"
    using parts_fit_extends [OF f4(1) p3] f4(3) without_parts(4) [OF f4(2)] by (simp add: parts_fit_def)
  have rest: "builder_rest b4 = builder_rest (instance_builder_new m)"
    using assms(3) without_parts(1) [OF f1(2)] without_parts(2) [OF f2(2)] without_parts(3) [OF f3(2)] without_parts(4) [OF f4(2)]
    by simp
  from 5 have "push_exports (hd_exports ?h) b4 = Some b5" "s5 = s4" by (auto simp: extract_exports_def st_expect_def rsimps)
  from push_exports_items [OF this(1)] obtain es where es: "b5 = b4\<lparr>ib_exports := ib_exports b4 @ es\<rparr>"
    "list_all2 (\<lambda>e p. fst e = fst p \<and> export_item b4 (snd p) = Some (snd e)) es (hd_exports ?h)" by blast
  note f6 = extract_start_fn_same [OF 6]
  have new: "ib_exports b4 = []" "ib_elem_segments b4 = []" "ib_data_segments b4 = []" "ib_func_types b4 = hd_func_types ?h"
    using builder_rest_parts [OF rest] by (simp_all add: instance_builder_new_def)
  obtain ns where f7: "store_extends s6 s7" "b7\<lparr>ib_elem_segments := []\<rparr> = b6\<lparr>ib_elem_segments := []\<rparr>"
    "ib_elem_segments b7 = ib_elem_segments b6 @ ns" "list_all2 (\<lambda>h _. h < length (ws_elems s7)) ns (hd_element_segments ?h)"
    using initialize_loops(1) [OF 7] by blast
  obtain ds segs where f8: "store_extends s7 s'" "b'\<lparr>ib_data_segments := []\<rparr> = b7\<lparr>ib_data_segments := []\<rparr>"
    "data_segments_iter (wm_data_segments m) = Some segs" "ib_data_segments b' = ib_data_segments b7 @ ds"
    "list_all2 (\<lambda>h _. h < length (ws_datas s')) ds segs"
    using initialize_loops(2) [OF 8] by blast
  have ext: "store_extends s4 s'"
    using f7(1) f8(1) f6 \<open>s5 = s4\<close> by (metis store_extends_trans)
  have same7: "ib_funcs b7 = ib_funcs b6" "ib_tables b7 = ib_tables b6" "ib_memories b7 = ib_memories b6" "ib_globals b7 = ib_globals b6"
    "ib_func_types b7 = ib_func_types b6" "ib_exports b7 = ib_exports b6" "ib_data_segments b7 = ib_data_segments b6"
    using f7(2) by (cases b6; cases b7; simp)+
  have same8: "ib_funcs b' = ib_funcs b7" "ib_tables b' = ib_tables b7" "ib_memories b' = ib_memories b7" "ib_globals b' = ib_globals b7"
    "ib_func_types b' = ib_func_types b7" "ib_exports b' = ib_exports b7" "ib_elem_segments b' = ib_elem_segments b7"
    using f8(2) by (cases b7; cases b'; simp)+
  note same = same8 same7 f6 [unfolded parts_same_def] es(1)
  have exports: "ib_exports b' = es" using same new by simp
  have fit: "\<exists>e. map_of es name = Some e \<and> extern_fits reg s' e ty" if exported: "module_get_export reg m name = Some (Some ty)" for name ty
  proof -
    obtain i where i: "map_of (hd_exports ?h) name = Some i" "get_extern_type reg m i = Some ty"
      using exported by (auto simp: module_get_export_def split: option.splits)
    from exports_map_of [OF es(2) i(1)] obtain v where "map_of es name = Some v" "export_item b4 i = Some v" by blast
    with export_item_fits [OF p4 refl i(2)] extern_fits_extends [OF ext] show ?thesis by blast
  qed
  have "length (ws_elems s7) \<le> length (ws_elems s')"
    using f8(1) by (simp add: store_extends_def prefix_length_le)
  with f7(4) have "length ns = length (hd_element_segments ?h)" "\<forall>e \<in> set ns. e < length (ws_elems s')"
    by (fastforce simp: list_all2_conv_all_nth in_set_conv_nth)+
  moreover have "length ds = length segs" "\<forall>d \<in> set ds. d < length (ws_datas s')"
    using f8(5) by (auto simp: list_all2_conv_all_nth in_set_conv_nth)
  moreover have "parts_fit reg s' b4 ?F ?T ?M ?G" by (rule parts_fit_extends [OF ext p4])
  ultimately show ?thesis
    using same new fit exports f7(3) f8(3,4)
    by (simp add: instance_fits_def instance_builder_finish_def parts_fit_def)
qed

text \<open>
  The instance is allocated before its parts, is not initialized meanwhile, and its initialization
  cannot fail.
\<close>

lemma module_instantiate_steps:
  assumes "module_instantiate bits m es c = (Inr p :: 'e api_error + instance_pre, c')" "header_ok (cx_types c) (wm_header m)"
  shows "instance_fits (cx_types c) (cx_store c') m (instance_builder_finish (pre_builder p)) \<and>
    cx_types c' = cx_types c \<and> cx_trampolines c' = cx_trampolines c \<and>
    pre_handle p = length (ws_instances (cx_store c)) \<and>
    get_at (ws_instances (cx_store c')) (pre_handle p) = Some instance_uninitialized"
proof -
  obtain c1 c2 c3 b where
    1: "on_store (st_map_err ErrInst (check_new_instances_limit 1)) c = (Inr () :: 'e api_error + unit, c1)" and
    2: "on_store alloc_instance c1 = (Inr (pre_handle p) :: 'e api_error + instance_h, c2)" and
    3: "extract_imports m es (instance_builder_new m) c2 = (Inr b :: 'e api_error + instance_builder, c3)" and
    4: "on_store (build_instance bits m (pre_handle p) b) c3 = (Inr (pre_builder p) :: 'e api_error + instance_builder, c')"
    using assms(1) by (auto simp: module_instantiate_def st_simps)
  have c1: "c1 = c" using 1
    by (auto simp: on_store_def st_map_err_def check_new_instances_limit_def split: option.splits if_splits)
  have c2: "c2 = c\<lparr>cx_store := (cx_store c)\<lparr>ws_instances := ws_instances (cx_store c) @ [instance_uninitialized]\<rparr>\<rparr>"
    "pre_handle p = length (ws_instances (cx_store c))"
    using 2 c1 by (auto simp: on_store_def split: prod.splits dest!: alloc_Inr(7))
  have types: "cx_types c2 = cx_types c" "cx_trampolines c2 = cx_trampolines c" by (simp_all add: c2)
  note f3 = extract_imports_fits [OF 3, unfolded types, OF assms(2)]
  then have c3: "c3 = c2" by blast
  from 4 obtain s' where build: "build_instance bits m (pre_handle p) b (cx_store c2) = (Inr (pre_builder p) :: 'e api_error + instance_builder, s')"
    and c': "c' = c2\<lparr>cx_store := s'\<rparr>"
    by (auto simp: on_store_def c3 split: prod.splits)
  have "instance_fits (cx_types c) s' m (instance_builder_finish (pre_builder p))"
    by (rule build_instance_fits [OF build assms(2)]) (use f3 in simp_all)
  moreover have "store_extends (cx_store c2) s'"
    using build build_instance_keeps [of bits m "pre_handle p" b] unfolding st_keeps_def by (metis snd_conv)
  then have "prefix (ws_instances (cx_store c2)) (ws_instances s')" by (simp add: store_extends_def)
  then have "get_at (ws_instances s') (pre_handle p) = Some instance_uninitialized"
    by (rule prefix_get_at) (simp add: c2)
  ultimately show ?thesis by (simp add: c' types c2(2))
qed

text \<open>What fits depends only on the lists of the store that the initialization of an instance keeps.\<close>

lemma instance_fits_instances:
  "instance_fits reg (s\<lparr>ws_instances := is\<rparr>) m inst \<longleftrightarrow> instance_fits reg s m inst"
proof -
  have "table_fits (s\<lparr>ws_instances := is\<rparr>) = table_fits s" "memory_fits (s\<lparr>ws_instances := is\<rparr>) = memory_fits s"
    "global_fits (s\<lparr>ws_instances := is\<rparr>) = global_fits s" "func_fits reg (s\<lparr>ws_instances := is\<rparr>) = func_fits reg s"
    by (auto simp: fun_eq_iff table_fits_def memory_fits_def global_fits_def func_fits_def func_ty_def)
  moreover from this have "extern_fits reg (s\<lparr>ws_instances := is\<rparr>) = extern_fits reg s"
    by (simp add: fun_eq_iff extern_fits_def split: extern_val.split extern_type.split)
  ultimately show ?thesis by (simp add: instance_fits_def)
qed

lemma instantiated_fits:
  assumes "header_ok (cx_types c) (wm_header m)"
    "module_instantiate bits m es c = (Inr p :: 'e api_error + instance_pre, c1)"
  shows "\<exists>c' inst. pre_initialize_instance p c1 = (Inr (pre_handle p) :: 'e api_error + instance_h, c') \<and>
    get_at (ws_instances (cx_store c')) (pre_handle p) = Some inst \<and> in_initialized inst \<and>
    instance_fits (cx_types c') (cx_store c') m inst"
proof -
  note f = module_instantiate_steps [OF assms(2,1)]
  define inst where "inst = instance_builder_finish (pre_builder p)"
  define c' where "c' = c1\<lparr>cx_store := (cx_store c1)\<lparr>ws_instances := (ws_instances (cx_store c1))[pre_handle p := inst]\<rparr>\<rparr>"
  have "in_initialized inst" by (simp add: inst_def instance_builder_finish_def)
  moreover have "pre_initialize_instance p c1 = (Inr (pre_handle p) :: 'e api_error + instance_h, c')"
  proof -
    from f have g: "get_at (ws_instances (cx_store c1)) (pre_handle p) = Some instance_uninitialized" by blast
    from \<open>in_initialized inst\<close> show ?thesis unfolding pre_initialize_instance_def inst_def [symmetric] c'_def
      by (simp add: on_store_def initialize_instance_def st_bind_def g instance_uninitialized_def del: get_at_eq_Some)
  qed
  moreover have "get_at (ws_instances (cx_store c')) (pre_handle p) = Some inst" using f by (simp add: c'_def)
  moreover have "instance_fits (cx_types c') (cx_store c') m inst"
    using f by (simp add: c'_def inst_def instance_fits_instances)
  ultimately show ?thesis by blast
qed



section \<open>Linking\<close>

text \<open>The imports of a module are the same in every later context.\<close>

lemma imports_next_later:
  assumes "imports_next reg items fs ts ms gs = Some is1" "\<And>h ft. dedup_get reg h = Some ft \<Longrightarrow> dedup_get reg' h = Some ft"
  shows "imports_next reg' items fs ts ms gs = Some is1"
  using assms
proof (induction reg items fs ts ms gs arbitrary: is1 rule: imports_next.induct)
  case (2 reg n items fs ts ms gs)
  show ?case
  proof (cases fs)
    case (Cons f fs')
    with "2.prems"(1) obtain ft rest where "dedup_get reg f = Some ft" "imports_next reg items fs' ts ms gs = Some rest"
      "is1 = \<lparr>it_name = n, it_type = EtFunc ft\<rparr> # rest"
      by (auto simp: bind_eq_Some_conv registry_resolve_func_type_def)
    moreover from this have "imports_next reg' items fs' ts ms gs = Some rest"
      using "2.IH" [OF Cons _ _ "2.prems"(2)] by (simp add: registry_resolve_func_type_def)
    ultimately show ?thesis using Cons "2.prems"(2) by (simp add: registry_resolve_func_type_def)
  qed (use "2.prems"(1) in simp)
qed (fastforce split: list.splits)+

lemma module_imports_later:
  assumes "module_imports_iter (cx_types c) m = Some is1" "context_extends c c'" "dedup_inv (cx_types c)"
  shows "module_imports_iter (cx_types c') m = Some is1"
proof -
  have later: "dedup_get (cx_types c) h = Some ft \<Longrightarrow> dedup_get (cx_types c') h = Some ft" for h ft
    using assms(2,3) by (simp add: context_extends_def)
  show ?thesis using assms(1) imports_next_later [OF _ later]
    by (simp add: module_imports_iter_def Let_def split: if_splits)
qed

lemma linked_imports_taken:
  assumes "dedup_inv (cx_types c)" "process_imports l m c = (Inr es :: 'e api_error + extern_val list, c1)"
    "context_extends c1 c'"
  shows "\<exists>b'. extract_imports m es b c' = (Inr b' :: 'f api_error + instance_builder, c')"
proof -
  obtain is1 where is1: "module_imports_iter (cx_types c) m = Some is1"
    and map: "st_map (process_import l) is1 c = (Inr es :: 'e api_error + extern_val list, c1)"
    using assms(2) by (auto simp: process_imports_def split: option.splits)
  have "context_extends c c1"
    using assms(2) process_imports_keeps [of l m] unfolding st_keeps_def by (metis snd_conv)
  then have "dedup_inv (cx_types c1)" using assms(1) by (simp add: context_extends_def)
  then have fits: "list_all2 (\<lambda>e i. extern_fits (cx_types c') (cx_store c') e (it_type i)) es is1"
    by (rule list_all2_mono [OF st_map_fits [OF assms(1) map] context_fits [OF assms(3)]])
  have "module_imports_iter (cx_types c') m = Some is1"
    by (rule module_imports_later [OF is1 contexts.trans [OF \<open>context_extends c c1\<close> assms(3)] assms(1)])
  moreover from fits have "length is1 = length es" by (simp add: list_all2_lengthD)
  ultimately show ?thesis using extract_imports_fold [OF fits]
    by (simp add: extract_imports_def st_bind_def st_expect_def)
qed

end
