(* ===== verification/Inst_Fail.thy ===== *)
theory Inst_Fail
  imports Inst_Types
begin

text \<open>
  What an instantiation that fails leaves behind: the instance is allocated first and its functions
  refer to it, but only \<open>InstancePre\<close> can initialize it, which a failed instantiation does not
  return. The sessions of a host are an inductive relation.
\<close>


section \<open>The functions of an instance\<close>

definition owned_by :: "instance_h \<Rightarrow> func_entity list \<Rightarrow> bool" where
  "owned_by k fs \<longleftrightarrow> (\<forall>e \<in> set fs. \<exists>w. e = WasmFunc w \<and> wf_instance w = k)"

text \<open>The instances stay, and the functions that are added belong to one of them.\<close>

definition adds_owned :: "instance_h \<Rightarrow> 'h wstore \<Rightarrow> 'h wstore \<Rightarrow> bool" where
  "adds_owned k s s' \<longleftrightarrow> ws_instances s' = ws_instances s \<and> (\<exists>fs. ws_funcs s' = ws_funcs s @ fs \<and> owned_by k fs)"

lemma adds_owned_same: "ws_instances s' = ws_instances s \<Longrightarrow> ws_funcs s' = ws_funcs s \<Longrightarrow> adds_owned k s s'"
  by (auto simp: adds_owned_def owned_by_def)

lemma adds_owned_trans: "adds_owned k s t \<Longrightarrow> adds_owned k t u \<Longrightarrow> adds_owned k s u"
  by (force simp: adds_owned_def owned_by_def)

interpretation owned: st_relation "adds_owned k" for k
  by unfold_locales (auto intro: adds_owned_same adds_owned_trans)

lemma alloc_owned [st_keeps_intros]:
  "st_keeps (adds_owned k) (alloc_global g)" "st_keeps (adds_owned k) (alloc_table t)"
  "st_keeps (adds_owned k) (alloc_memory m)" "st_keeps (adds_owned k) (alloc_data_segment d)"
  "st_keeps (adds_owned k) (alloc_element_segment e)"
  by (auto simp: st_keeps_def alloc_defs owned.refl split: option.split intro!: adds_owned_same)

lemma alloc_func_owned: "wf_instance w = k \<Longrightarrow> st_keeps (adds_owned k) (alloc_func (WasmFunc w))"
  by (auto simp: st_keeps_def alloc_defs owned.refl adds_owned_def owned_by_def split: option.split
      dest!: func_arena_alloc_append)

lemma reads_owned [st_keeps_intros]:
  "st_keeps (adds_owned k) (st_expect r)" "st_keeps (adds_owned k) (eval_init_expr bits b e)"
  "st_keeps (adds_owned k) (get_element el)" "st_keeps (adds_owned k) (inst_err err)"
  "st_keeps (adds_owned k) (table_handle_size h)"
  "st_keeps (adds_owned k) (check_new_tables_limit n)" "st_keeps (adds_owned k) (check_new_memories_limit n)"
  by (auto simp: st_keeps_def st_expect_def eval_init_expr_def get_element_def inst_err_def table_handle_size_def
      with_table_def check_new_tables_limit_def check_new_memories_limit_def owned.refl split: option.split)

lemma puts_owned:
  "adds_owned k s (put_table h t s)" "adds_owned k s (put_memory h m s)" "adds_owned k s (put_limiter lim s)"
  "adds_owned k s ((put_table h t s)\<lparr>ws_elems := es\<rparr>)"
  by (auto intro!: adds_owned_same simp: put_table_def put_memory_def put_limiter_def split: option.split)

lemma handle_new_owned [st_keeps_intros]:
  "st_keeps (adds_owned k) (table_handle_new ty v)" "st_keeps (adds_owned k) (memory_handle_new ty')"
  "st_keeps (adds_owned k) (global_handle_new v mut)"
proof -
  have step: "adds_owned k s (snd (m (put_limiter lim s)))" if "st_keeps (adds_owned k) m" for m s lim
    using that puts_owned(3) adds_owned_trans by (metis st_keeps_def)
  show "st_keeps (adds_owned k) (table_handle_new ty v)" "st_keeps (adds_owned k) (memory_handle_new ty')"
    unfolding st_keeps_def table_handle_new_def memory_handle_new_def
    by (auto intro!: step st_keeps_intros puts_owned split: prod.split sum.split)
  show "st_keeps (adds_owned k) (global_handle_new v mut)"
    by (simp add: global_handle_new_def st_keeps_intros)
qed

lemma writes_owned [st_keeps_intros]:
  "st_keeps (adds_owned k) (memory_handle_write h offset bs)" "st_keeps (adds_owned k) (write_elements t e dst len)"
  by (auto simp: st_keeps_def memory_handle_write_def write_elements_def owned.refl puts_owned
      split: option.split sum.split prod.split)

lemma segments_owned [st_keeps_intros]:
  "st_keeps (adds_owned k) (initialize_element bits seg b)" "st_keeps (adds_owned k) (initialize_data bits data b)"
  unfolding initialize_element_def element_segment_new_def activate_element_def initialize_data_def Let_def
  by (auto intro!: owned.keeps st_keeps_intros split: element_kind.split init_data_segment.split)

lemma extract_owned [st_keeps_intros]:
  "st_keeps (adds_owned k) (extract_functions m k b)" "st_keeps (adds_owned k) (extract_tables m b)"
  "st_keeps (adds_owned k) (extract_memories m b)" "st_keeps (adds_owned k) (extract_globals bits m b)"
  "st_keeps (adds_owned k) (extract_exports m b)" "st_keeps (adds_owned k) (extract_start_fn m b)"
  "st_keeps (adds_owned k) (initialize_table_elements bits m b)" "st_keeps (adds_owned k) (initialize_memory_data bits m b)"
  unfolding extract_functions_def extract_tables_def extract_memories_def extract_globals_def extract_global_def
    extract_exports_def extract_start_fn_def initialize_table_elements_def initialize_memory_data_def
  by (auto intro!: owned.keeps st_keeps_intros alloc_func_owned split: option.split)

lemma build_instance_owned: "st_keeps (adds_owned k) (build_instance bits m k b)"
  unfolding build_instance_def by (intro owned.keeps st_keeps_intros)


section \<open>An instantiation\<close>

definition same_store :: "('h, 't) store_context \<Rightarrow> ('h, 't) store_context \<Rightarrow> bool" where
  "same_store c c' \<longleftrightarrow> cx_store c' = cx_store c"

interpretation same_store: st_relation same_store
  by unfold_locales (auto simp: same_store_def)

lemma extract_imports_same_store: "st_keeps same_store (extract_imports m es b)"
proof -
  have [st_keeps_intros]: "st_keeps same_store (func_handle_ty f)" "st_keeps same_store (inst_err e)"
    "st_keeps same_store (on_store (table_handle_dynamic_ty h))" "st_keeps same_store (on_store (memory_handle_dynamic_ty h))"
    "st_keeps same_store (on_store (global_handle_ty h))" "st_keeps same_store (st_expect r)" for f e h r
    by (simp_all add: st_keeps_def same_store_def func_handle_ty_def inst_err_def on_store_def with_table_def st_expect_def
        table_handle_dynamic_ty_def memory_handle_dynamic_ty_def with_memory_def global_handle_ty_def)
  show ?thesis
    unfolding extract_imports_def extract_import_def
    by (auto intro!: same_store.keeps st_keeps_intros split: option.split extern_type.split extern_val.split)
qed

text \<open>
  Failing or not, an instantiation adds at most one instance, which is not initialized, and only
  functions of this instance.
\<close>

lemma instantiate_adds:
  assumes "module_instantiate bits m es c = (r :: 'e api_error + instance_pre, c')"
  obtains fs insts where "ws_funcs (cx_store c') = ws_funcs (cx_store c) @ fs"
    "ws_instances (cx_store c') = ws_instances (cx_store c) @ insts"
    "fs = [] \<and> insts = [] \<and> (\<exists>e. r = Inl e) \<or>
     owned_by (length (ws_instances (cx_store c))) fs \<and> insts = [instance_uninitialized] \<and>
       (\<forall>p. r = Inr p \<longrightarrow> pre_handle p = length (ws_instances (cx_store c)))"
proof -
  let ?k = "length (ws_instances (cx_store c))"
  obtain r1 c1 where 1: "on_store (st_map_err ErrInst (check_new_instances_limit 1)) c = (r1 :: 'e api_error + unit, c1)"
    by fastforce
  have c1: "c1 = c" using 1
    by (auto simp: on_store_def st_map_err_def check_new_instances_limit_def split: option.splits if_splits)
  obtain r2 c2 where 2: "on_store alloc_instance c = (r2 :: 'e api_error + instance_h, c2)" by fastforce
  show ?thesis
  proof (cases "(\<exists>e. r1 = Inl e) \<or> (\<exists>e. r2 = Inl e)")
    case True
    have "cx_store c2 = cx_store c" if "r2 = Inl e" for e
      using 2 that by (auto simp: on_store_def alloc_defs split: prod.splits option.splits)
    with True have "cx_store c' = cx_store c \<and> (\<exists>e. r = Inl e)"
      using assms 1 2 c1 by (cases r1) (auto simp: module_instantiate_def st_bind_def)
    then show ?thesis by (intro that [of "[]" "[]"]) simp_all
  next
    case False
    then obtain k where r: "r1 = Inr ()" "r2 = Inr k" by (cases r1; cases r2) auto
    have k: "k = ?k" "cx_store c2 = (cx_store c)\<lparr>ws_instances := ws_instances (cx_store c) @ [instance_uninitialized]\<rparr>"
      using 2 r(2) by (auto simp: on_store_def split: prod.splits dest!: alloc_Inr(7))
    obtain r3 c3 where 3: "extract_imports m es (instance_builder_new m) c2 = (r3 :: 'e api_error + instance_builder, c3)"
      by fastforce
    have c3: "cx_store c3 = cx_store c2"
      using same_store.keeps_result [OF extract_imports_same_store 3] by (simp add: same_store_def)
    show ?thesis
    proof (cases r3)
      case (Inl e)
      then have "c' = c3" "r = Inl e" using assms 1 2 3 c1 r by (auto simp: module_instantiate_def st_bind_def)
      then show ?thesis using c3 k by (intro that [of "[]" "[instance_uninitialized]"]) (simp_all add: owned_by_def)
    next
      case (Inr b)
      obtain r4 s4 where 4: "build_instance bits m k b (cx_store c3) = (r4 :: 'e api_error + instance_builder, s4)"
        by fastforce
      have "cx_store c' = s4" "r = (case r4 of Inl e \<Rightarrow> Inl e | Inr b \<Rightarrow> Inr \<lparr>pre_handle = k, pre_builder = b\<rparr>)"
        using assms 1 2 3 4 c1 r Inr by (auto simp: module_instantiate_def st_bind_def on_store_def split: sum.splits)
      moreover have "adds_owned k (cx_store c3) s4" by (rule owned.keeps_result [OF build_instance_owned 4])
      ultimately show ?thesis using k c3
        by (auto simp: adds_owned_def split: sum.splits intro!: that [of _ "[instance_uninitialized]"])
    qed
  qed
qed


section \<open>Sessions of a host\<close>

text \<open>
  What a host may do with the instances of a store: any operation that only appends functions and
  instances, an instantiation, and the start of an instance that an instantiation has returned. The
  set has the instances that may still be started.
\<close>

inductive host_run :: "('h, 'e) exec_env \<Rightarrow> ('h, 't) store_context \<times> instance_pre set
    \<Rightarrow> ('h, 't) store_context \<times> instance_pre set \<Rightarrow> bool" for env :: "('h, 'e) exec_env" and x where
  start: "host_run env x x"
| appends: "host_run env x (c1, P) \<Longrightarrow> prefix (ws_funcs (cx_store c1)) (ws_funcs (cx_store c2)) \<Longrightarrow>
    prefix (ws_instances (cx_store c1)) (ws_instances (cx_store c2)) \<Longrightarrow> host_run env x (c2, P)"
| instantiate: "host_run env x (c1, P) \<Longrightarrow>
    module_instantiate (env_func_bits env) m es c1 = (Inr p :: 'e api_error + instance_pre, c2) \<Longrightarrow>
    host_run env x (c2, insert p P)"
| initialize: "host_run env x (c1, P) \<Longrightarrow> p \<in> P \<Longrightarrow>
    pre_initialize_instance p c1 = (Inr h :: 'e api_error + instance_h, c2) \<Longrightarrow> host_run env x (c2, P)"

lemma initialize_one:
  assumes "pre_initialize_instance p c = (Inr h :: 'e api_error + instance_h, c')"
  shows "ws_funcs (cx_store c') = ws_funcs (cx_store c)"
    "ws_instances (cx_store c') = (ws_instances (cx_store c))[pre_handle p := instance_builder_finish (pre_builder p)]"
  using assms
  by (auto simp: pre_initialize_instance_def st_bind_def on_store_def initialize_instance_def
      split: sum.splits option.splits if_splits prod.splits)

lemma host_run_keeps:
  assumes "host_run env (c, P) x"
    "\<forall>p \<in> P. pre_handle p \<noteq> k" "get_at (ws_instances (cx_store c)) k = Some inst" "get_at (ws_funcs (cx_store c)) f = Some e"
  shows "(\<forall>p \<in> snd x. pre_handle p \<noteq> k) \<and> get_at (ws_instances (cx_store (fst x))) k = Some inst \<and>
    get_at (ws_funcs (cx_store (fst x))) f = Some e"
  using assms
proof (induction rule: host_run.induct)
  case (appends c1 P1 c2)
  then show ?case using prefix_get_at by (simp add: prefix_get_at)
next
  case (instantiate c1 P1 m es p c2)
  then have ih: "\<forall>p \<in> P1. pre_handle p \<noteq> k" "get_at (ws_instances (cx_store c1)) k = Some inst"
    "get_at (ws_funcs (cx_store c1)) f = Some e" by auto
  obtain fs insts where a: "ws_funcs (cx_store c2) = ws_funcs (cx_store c1) @ fs"
    "ws_instances (cx_store c2) = ws_instances (cx_store c1) @ insts" "pre_handle p = length (ws_instances (cx_store c1))"
    by (rule instantiate_adds [OF instantiate.hyps(2)]) auto
  have "k < length (ws_instances (cx_store c1))" using ih(2) by (auto simp: get_at_def split: if_splits)
  then show ?case using ih a by (auto simp: get_at_def nth_append split: if_splits)
next
  case (initialize c1 P1 p h c2)
  then have ih: "\<forall>p \<in> P1. pre_handle p \<noteq> k" "get_at (ws_instances (cx_store c1)) k = Some inst"
    "get_at (ws_funcs (cx_store c1)) f = Some e" by auto
  then have "pre_handle p \<noteq> k" using initialize.hyps(2) by blast
  then show ?case using ih initialize_one [OF initialize.hyps(3)] by (auto simp: get_at_def split: if_splits)
qed auto

lemma failed_instance_stays:
  assumes "module_instantiate (env_func_bits env) m es c = (Inl err :: 'e api_error + instance_pre, c1)"
    "\<forall>p \<in> P. pre_handle p < length (ws_instances (cx_store c))"
    "length (ws_funcs (cx_store c)) \<le> f" "get_at (ws_funcs (cx_store c1)) f = Some e"
    "host_run env (c1, P) (c2, P2)"
  shows "\<exists>w. e = WasmFunc w \<and> get_at (ws_funcs (cx_store c2)) f = Some (WasmFunc w) \<and>
    get_at (ws_instances (cx_store c2)) (wf_instance w) = Some instance_uninitialized"
proof (rule instantiate_adds [OF assms(1)])
  fix fs insts
  let ?k = "length (ws_instances (cx_store c))"
  assume fs: "ws_funcs (cx_store c1) = ws_funcs (cx_store c) @ fs"
    and ins: "ws_instances (cx_store c1) = ws_instances (cx_store c) @ insts"
    and d: "fs = [] \<and> insts = [] \<and> (\<exists>e. Inl err = Inl e) \<or> owned_by ?k fs \<and> insts = [instance_uninitialized] \<and>
       (\<forall>p. (Inl err :: 'e api_error + instance_pre) = Inr p \<longrightarrow> pre_handle p = ?k)"
  have "e \<in> set fs" using assms(3,4) fs by (auto simp: get_at_def nth_append split: if_splits)
  then obtain w where w: "e = WasmFunc w" "wf_instance w = ?k" and i: "insts = [instance_uninitialized]"
    using d by (cases fs) (auto simp: owned_by_def)
  have "get_at (ws_instances (cx_store c1)) ?k = Some instance_uninitialized" using ins i by (simp add: get_at_def)
  moreover have "\<forall>p \<in> P. pre_handle p \<noteq> ?k" using assms(2) by auto
  ultimately show ?thesis using host_run_keeps [OF assms(5) _ _ assms(4), of ?k] w by auto
qed

end
