(* ===== verification/Link_Props.thy ===== *)
theory Link_Props
  imports Inst_Fail Exec_Props
begin

text \<open>
  Properties of linking and instantiation, over a small module: it imports a table and a host
  function, defines a function, a memory of no pages and a global, and exports what it defines.
\<close>


section \<open>A module\<close>

definition demo_ft :: func_type where
  "demo_ft = the (func_type_new [I32] [])"

definition demo_table_type :: table_type where
  "demo_table_type = \<lparr>tt_element = FuncRef, tt_min = 1, tt_max = None\<rparr>"

definition demo_link_store :: "unit wstore" where
  "demo_link_store =
    \<lparr>ws_instances = [], ws_memories = [], ws_tables = [\<lparr>te_type = demo_table_type, te_elements = [0]\<rparr>],
     ws_globals = [], ws_funcs = [], ws_datas = [], ws_elems = [], ws_fuel = \<lparr>fu_remaining = 0, fu_enabled = False, fu_costs = \<lparr>fc_base = 1, fc_copies_per_fuel = 1, fc_bytes_per_fuel = 1\<rparr>\<rparr>, ws_data = (),
     ws_limiter = None\<rparr>"

definition demo_types :: "func_type dedup_arena" where
  "demo_types = \<lparr>da_entity2idx = [demo_ft \<mapsto> 0], da_entities = [demo_ft]\<rparr>"

definition demo_context :: "(unit, nat) store_context" where
  "demo_context = \<lparr>cx_store = demo_link_store, cx_trampolines = [], cx_types = demo_types\<rparr>"

definition demo_header :: header where
  "demo_header =
    \<lparr>hd_func_types = [0],
     hd_imports = \<lparr>mi_items = [ImportedTable \<lparr>imn_module = ''env'', imn_field = ''t''\<rparr>, ImportedFunc \<lparr>imn_module = ''env'', imn_field = ''f''\<rparr>],
       mi_len_funcs = 1, mi_len_globals = 0, mi_len_memories = 0, mi_len_tables = 1\<rparr>,
     hd_funcs = [0, 0], hd_tables = [demo_table_type],
     hd_memories = [\<lparr>mt_initial_pages = 0, mt_maximum_pages = None\<rparr>],
     hd_globals = [\<lparr>gt_content = I32, gt_mutability = MutConst\<rparr>], hd_globals_init = [CConst 7],
     hd_exports = [(''g'', IdxGlobal 0), (''run'', IdxFunc 1)], hd_start = None,
     hd_engine_funcs = \<lparr>fs_start = 0, fs_end = 1\<rparr>,
     hd_element_segments = [\<lparr>ed_kind = ElemActive 0 (CConst 0), ed_type = FuncRef, ed_items = [CFuncRef 1]\<rparr>]\<rparr>"

definition demo_module :: "data_segments \<Rightarrow> wasm_module" where
  "demo_module d = \<lparr>wm_header = demo_header, wm_data_segments = d, wm_custom_sections = custom_sections_default\<rparr>"

definition demo_linker :: "nat linker" where
  "demo_linker = snd (st_bind (linker_func_new ''env'' ''f'' \<lparr>ht_type = demo_ft, ht_code = 3\<rparr>)
    (\<lambda>_. linker_define ''env'' ''t'' (ExtTable 0)) linker_new :: (unit api_error + unit) \<times> nat linker)"


lemma demo_ft_new: "func_type_new [I32] [] = Some demo_ft"
  by (simp add: demo_ft_def func_type_new_def func_type_try_new_small_def inline_size_def Let_def)

lemma demo_header_ok: "header_ok demo_types demo_header"
  by (simp add: header_ok_def demo_header_def demo_types_def import_counts registry_resolve_func_type_def dedup_get_def
      table_type_ok_def memory_type_ok_def demo_table_type_def is_ref_def arena_get_def)

lemma demo_types_inv: "dedup_inv demo_types"
  by (auto simp: dedup_inv_def demo_types_def arena_get_def)

lemma demo_definitions:
  "linker_get_definition demo_linker ''env'' ''f'' = Some (DefHostFunc \<lparr>ht_type = demo_ft, ht_code = 3\<rparr>)"
  "linker_get_definition demo_linker ''env'' ''t'' = Some (DefExtern (ExtTable 0))"
  by (simp_all add: demo_linker_def linker_func_new_def linker_define_def linker_insert_def st_bind_def ensure_undefined_def
      linker_new_def on_inner_def inner_define_def new_import_key_def intern_name_def get_or_intern_with_hint_def
      get_or_intern_hint_existing_def get_or_intern_hint_new_def intern_string_def index_from_usize_def
      alloc_with_def linker_inner_default_def string_interner_new_def str_bytes_def inner_insert_def
      linker_get_definition_def inner_get_definition_def get_import_key_def string_interner_get_def import_key_new_def)

definition demo_linked :: "(unit, nat) store_context" where
  "demo_linked = demo_context\<lparr>cx_trampolines := [3],
     cx_store := demo_link_store\<lparr>ws_funcs := [HostFunc \<lparr>hf_len_params = 1, hf_len_results = 0, hf_type = 0, hf_trampoline = 0\<rparr>]\<rparr>\<rparr>"

lemma demo_imports:
  "module_imports_iter demo_types (demo_module d) =
    Some [\<lparr>it_name = \<lparr>imn_module = ''env'', imn_field = ''t''\<rparr>, it_type = EtTable demo_table_type\<rparr>,
      \<lparr>it_name = \<lparr>imn_module = ''env'', imn_field = ''f''\<rparr>, it_type = EtFunc demo_ft\<rparr>]"
  by (simp add: module_imports_iter_def demo_module_def demo_header_def Let_def demo_types_def
      registry_resolve_func_type_def dedup_get_def arena_get_def get_at_def)

lemma demo_process:
  "process_imports demo_linker (demo_module d) demo_context = (Inr [ExtTable 0, ExtFunc 0] :: unit api_error + extern_val list, demo_linked)"
proof -
  have t: "process_import demo_linker \<lparr>it_name = \<lparr>imn_module = ''env'', imn_field = ''t''\<rparr>, it_type = EtTable demo_table_type\<rparr> demo_context
      = (Inr (ExtTable 0) :: unit api_error + extern_val, demo_context)"
    by (simp add: process_import_def demo_definitions process_import_table_def def_as_extern_def extern_into_table_def
        st_bind_def on_store_def table_handle_dynamic_ty_def with_table_def demo_context_def demo_link_store_def get_at_def
        table_dynamic_ty_def table_size_def demo_table_type_def table_type_new_def table_type_is_subtype_of_def
        table_type_is_subtype_or_err_def matches_element_type_def)
  have f: "process_import demo_linker \<lparr>it_name = \<lparr>imn_module = ''env'', imn_field = ''f''\<rparr>, it_type = EtFunc demo_ft\<rparr> demo_context
      = (Inr (ExtFunc 0) :: unit api_error + extern_val, demo_linked)"
    by (simp add: process_import_def demo_definitions process_import_func_def def_ty_def extern_type_func_def
        st_bind_def def_as_func_def func_new_def alloc_trampoline_def host_func_entity_new_def alloc_func_type_def
        on_store_def alloc_func_def alloc_with_def func_arena_alloc_def registry_alloc_func_type_def dedup_alloc_def
        demo_context_def demo_link_store_def demo_types_def demo_linked_def func_type_len_params_def func_type_len_results_def
        demo_ft_def func_type_new_def func_type_try_new_small_def inline_size_def Let_def)
  have "cx_types demo_context = demo_types" by (simp add: demo_context_def)
  with t f show ?thesis by (simp add: process_imports_def demo_imports st_bind_def)
qed

text \<open>The instance after its entities and its elements, before its data.\<close>

definition demo_bits :: "func_h \<Rightarrow> u64" where
  "demo_bits f = of_nat f + 1"

definition demo_builder :: instance_builder where
  "demo_builder =
    \<lparr>ib_func_types = [0], ib_tables = [0], ib_funcs = [0, 1], ib_memories = [0], ib_globals = [0], ib_start_fn = None,
     ib_exports = [(''g'', ExtGlobal 0), (''run'', ExtFunc 1)], ib_data_segments = [], ib_elem_segments = [0]\<rparr>"

definition demo_store_built :: "unit wstore" where
  "demo_store_built = (cx_store demo_linked)
    \<lparr>ws_instances := [instance_uninitialized],
     ws_funcs := ws_funcs (cx_store demo_linked) @ [WasmFunc \<lparr>wf_type = 0, wf_body = 0, wf_instance = 0\<rparr>],
     ws_memories := [\<lparr>me_bytes = byte_buffer_new 0, me_type = \<lparr>mt_initial_pages = 0, mt_maximum_pages = None\<rparr>, me_current_pages = 0\<rparr>],
     ws_globals := [\<lparr>ge_value = 7, ge_type = \<lparr>gt_content = I32, gt_mutability = MutConst\<rparr>\<rparr>],
     ws_tables := [\<lparr>te_type = demo_table_type, te_elements = [2]\<rparr>],
     ws_elems := [\<lparr>es_type = FuncRef, es_items = []\<rparr>]\<rparr>"

lemmas demo_link_defs = demo_linked_def demo_context_def demo_link_store_def demo_types_def demo_module_def demo_header_def

abbreviation (input) "demo_builder0 \<equiv>
  \<lparr>ib_func_types = [0], ib_tables = [0], ib_funcs = [0], ib_memories = [], ib_globals = [], ib_start_fn = None,
   ib_exports = [], ib_data_segments = [], ib_elem_segments = []\<rparr>"
abbreviation "demo_store0 \<equiv> (cx_store demo_linked)\<lparr>ws_instances := [instance_uninitialized]\<rparr>"

lemma extract_import_eq:
  "extern_fits (cx_types c) (cx_store c) e (it_type i) \<Longrightarrow> extract_import i e b c = (Inr (push_extern e b), c)"
  by (simp add: extract_import_iff)

lemma demo_extract_imports:
  "extract_imports (demo_module d) [ExtTable 0, ExtFunc 0] (instance_builder_new (demo_module d)) (demo_linked\<lparr>cx_store := demo_store0\<rparr>) =
    (Inr (demo_builder0) :: unit api_error + instance_builder, demo_linked\<lparr>cx_store := demo_store0\<rparr>)"
proof -
  have "cx_types (demo_linked\<lparr>cx_store := demo_store0\<rparr>) = demo_types" by (simp add: demo_linked_def demo_context_def)
  moreover have "extern_fits demo_types demo_store0 (ExtTable 0) (EtTable demo_table_type)"
    "extern_fits demo_types demo_store0 (ExtFunc 0) (EtFunc demo_ft)"
    by (simp_all add: extern_fits_def table_fits_def func_fits_def demo_link_defs table_dynamic_ty_def table_size_def
        demo_table_type_def table_type_new_def table_type_is_subtype_of_def matches_element_type_def func_ty_def resolve_def
        get_at_def func_ty_dedup_def registry_resolve_func_type_def dedup_get_def arena_get_def)
  ultimately show ?thesis
    by (simp add: extract_imports_def st_bind_def st_expect_def demo_imports, simp add: st_bind_def extract_import_eq
        push_extern_def pushes instance_builder_new_def,
      simp add: demo_module_def demo_header_def)
qed

lemma demo_build:
  "build_instance demo_bits (demo_module d) 0 (demo_builder0) demo_store0 =
   (initialize_memory_data demo_bits (demo_module d) demo_builder demo_store_built :: (unit api_error + instance_builder) \<times> unit wstore)"
proof -
  let ?b = "demo_builder0" and ?s = demo_store0
  have 1: "(extract_functions (demo_module d) 0 ?b ?s :: (unit api_error + instance_builder) \<times> unit wstore) =
      (Inr (?b\<lparr>ib_funcs := [0, 1]\<rparr>), ?s\<lparr>ws_funcs := ws_funcs demo_store_built\<rparr>)"
    by (simp add: extract_functions_def st_bind_def st_expect_def internal_funcs_def demo_link_defs Let_def slice_from_def
        func_span_iter_def alloc_func_def alloc_with_def func_arena_alloc_def push_func_def demo_store_built_def)
  let ?b = "?b\<lparr>ib_funcs := [0, 1]\<rparr>" and ?s = "?s\<lparr>ws_funcs := ws_funcs demo_store_built\<rparr>"
  have 2: "(extract_tables (demo_module d) ?b ?s :: (unit api_error + instance_builder) \<times> unit wstore) = (Inr ?b, ?s)"
    by (simp add: extract_tables_def st_bind_def st_map_err_def check_new_tables_limit_def limiter_ref_of_def
        st_expect_def internal_tables_def demo_link_defs slice_from_def)
  have 3: "(extract_memories (demo_module d) ?b ?s :: (unit api_error + instance_builder) \<times> unit wstore) =
      (Inr (?b\<lparr>ib_memories := [0]\<rparr>), ?s\<lparr>ws_memories := ws_memories demo_store_built\<rparr>)"
    by (simp add: extract_memories_def st_bind_def st_map_err_def check_new_memories_limit_def limiter_ref_of_def
        st_expect_def internal_memories_def demo_link_defs slice_from_def memory_handle_new_def memory_entity_new_def Let_def
        ask_memory_growing_def put_limiter_def alloc_memory_def alloc_with_def arena_alloc_def
        arena_next_index_def index_from_usize_def push_memory_def demo_store_built_def)
  let ?b = "?b\<lparr>ib_memories := [0]\<rparr>" and ?s = "?s\<lparr>ws_memories := ws_memories demo_store_built\<rparr>"
  have 4: "(extract_globals demo_bits (demo_module d) ?b ?s :: (unit api_error + instance_builder) \<times> unit wstore) =
      (Inr (?b\<lparr>ib_globals := [0]\<rparr>), ?s\<lparr>ws_globals := ws_globals demo_store_built\<rparr>)"
    by (simp add: extract_globals_def st_bind_def st_expect_def internal_globals_def demo_link_defs slice_from_def
        extract_global_def eval_init_expr_def global_handle_new_def val_with_type_def alloc_global_def alloc_with_def
        arena_alloc_def arena_next_index_def index_from_usize_def push_global_def demo_store_built_def global_entity_new_def val_parts_def
        of_i32_def to_i32_def)
  let ?b = "?b\<lparr>ib_globals := [0]\<rparr>" and ?s = "?s\<lparr>ws_globals := ws_globals demo_store_built\<rparr>"
  have 5: "(extract_exports (demo_module d) ?b ?s :: (unit api_error + instance_builder) \<times> unit wstore) =
      (Inr (?b\<lparr>ib_exports := ib_exports demo_builder\<rparr>), ?s)"
    by (simp add: extract_exports_def st_expect_def demo_link_defs export_item_def push_export_def get_at_def demo_builder_def)
  let ?b = "?b\<lparr>ib_exports := ib_exports demo_builder\<rparr>"
  have 6: "(extract_start_fn (demo_module d) ?b ?s :: (unit api_error + instance_builder) \<times> unit wstore) = (Inr ?b, ?s)"
    by (simp add: extract_start_fn_def demo_link_defs)
  have 7: "(initialize_table_elements demo_bits (demo_module d) ?b ?s :: (unit api_error + instance_builder) \<times> unit wstore) =
      (Inr demo_builder, demo_store_built)"
    by (simp add: initialize_table_elements_def demo_link_defs st_bind_def initialize_element_def element_segment_new_def
        st_expect_def element_segment_items_def builder_context_def get_at_def alloc_element_segment_def alloc_with_def
        arena_alloc_def arena_next_index_def index_from_usize_def activate_element_def eval_init_expr_def to_i32_def
        table_handle_size_def with_table_def get_element_def Let_def element_segment_size_def write_elements_def table_init_def
        is_ref_def matches_element_type_def table_size_def pay_copies_def element_segment_drop_items_def put_table_def demo_table_type_def
        get_range_def put_range_def push_element_def demo_builder_def demo_store_built_def demo_bits_def)
  show ?thesis unfolding build_instance_def by (simp only: st_bind_def 1 2 3 4 5 6 7 prod.case sum.case)
qed


lemma demo_module_instantiate:
  "module_instantiate demo_bits (demo_module d) [ExtTable 0, ExtFunc 0] demo_linked =
    (case initialize_memory_data demo_bits (demo_module d) demo_builder demo_store_built of
       (Inl e, s) \<Rightarrow> (Inl e :: unit api_error + instance_pre, demo_linked\<lparr>cx_store := s\<rparr>)
     | (Inr b, s) \<Rightarrow> (Inr \<lparr>pre_handle = 0, pre_builder = b\<rparr>, demo_linked\<lparr>cx_store := s\<rparr>))"
proof -
  have 1: "on_store (st_map_err ErrInst (check_new_instances_limit 1)) demo_linked = (Inr () :: unit api_error + unit, demo_linked)"
    by (simp add: on_store_def st_map_err_def check_new_instances_limit_def limiter_ref_of_def demo_link_defs)
  have 2: "on_store alloc_instance demo_linked = (Inr 0 :: unit api_error + instance_h, demo_linked\<lparr>cx_store := demo_store0\<rparr>)"
    by (simp add: on_store_def alloc_instance_def alloc_with_def arena_alloc_def arena_next_index_def index_from_usize_def
        demo_link_defs)
  show ?thesis
    by (simp add: module_instantiate_def st_bind_def 1 2 demo_extract_imports del: One_nat_def)
      (simp add: on_store_def demo_build split: prod.split sum.split)
qed

lemma demo_linker_ok: "linker_ok demo_linker"
proof -
  have "linker_ok (snd (linker_insert m n d l :: (unit api_error + unit) \<times> nat linker))" if "linker_ok l" for m n d and l :: "nat linker"
    using linkers.define_inv [OF that, of "(m, n)" d] by simp
  then show ?thesis
    unfolding demo_linker_def linker_func_new_def linker_define_def st_bind_def
    by (auto split: prod.split sum.split) (metis linker_ok_new(1) snd_conv)+
qed

text \<open>A data segment of one byte for a memory of no pages.\<close>

definition demo_data :: data_segments where
  "demo_data = \<lparr>dgs_segments = [DataActive 0 (CConst 0) 1], dgs_bytes = [42]\<rparr>"

lemma demo_data_runs:
  "initialize_memory_data demo_bits (demo_module data_segments_build) demo_builder demo_store_built =
    (Inr demo_builder :: unit api_error + instance_builder, demo_store_built)"
  "initialize_memory_data demo_bits (demo_module demo_data) demo_builder demo_store_built =
    (Inl (ErrMemory OutOfBoundsAccess) :: unit api_error + instance_builder, demo_store_built)"
  by (simp_all add: initialize_memory_data_def demo_module_def data_segments_build_def data_segments_iter_def st_bind_def
      st_expect_def demo_data_def split_at_def initialize_data_def eval_init_expr_def demo_builder_def get_at_def
      memory_handle_write_def demo_store_built_def memory_write_def memory_data_def byte_buffer_new_def get_range_def)



section \<open>Properties\<close>

text \<open>
  C8. An instance fits its module: when instantiation succeeds, for a header whose numbers of imports and
  types are consistent, the initialization of the instance cannot fail, and the instance that is then
  stored is initialized and has a function, table, memory or global of the right type at every index
  of the module, as many segments as the module, and every export with the type that the module
  promises for it.
\<close>
theorem instantiated_module_fits:
  assumes "header_ok (cx_types c) (wm_header m)"
    "module_instantiate bits m externals c = (Inr p :: 'e api_error + instance_pre, c1)"
  shows "\<exists>c' inst. pre_initialize_instance p c1 = (Inr (pre_handle p) :: 'e api_error + instance_h, c') \<and>
    get_at (ws_instances (cx_store c')) (pre_handle p) = Some inst \<and> in_initialized inst \<and>
    instance_fits (cx_types c') (cx_store c') m inst"
  by (rule instantiated_fits [OF assms])

lemma instantiated_module_fits_witness:
  "\<exists>c1 (c' :: (unit, nat) store_context) inst p. (module_instantiate demo_bits (demo_module data_segments_build) [ExtTable 0, ExtFunc 0] demo_linked :: (unit api_error + _) \<times> _)
      = (Inr p, c1) \<and>
    get_at (ws_instances (cx_store c')) (pre_handle p) = Some inst \<and>
    instance_fits (cx_types c') (cx_store c') (demo_module data_segments_build) inst"
proof -
  have h: "header_ok (cx_types demo_linked) (wm_header (demo_module data_segments_build))"
    using demo_header_ok by (simp add: demo_linked_def demo_context_def demo_module_def)
  obtain p c1 where i: "module_instantiate demo_bits (demo_module data_segments_build) [ExtTable 0, ExtFunc 0] demo_linked
      = (Inr p :: unit api_error + instance_pre, c1)"
    by (simp add: demo_module_instantiate demo_data_runs)
  with instantiated_module_fits [OF h i] show ?thesis by blast
qed

text \<open>
  C9. What a linker resolves is accepted: the imports that it found for a module pass the checks of the
  instantiation that follows, in the context with the new instance, and end up in its builder.
\<close>
theorem linked_imports_accepted:
  assumes "dedup_inv (cx_types c)" "process_imports l m c = (Inr externals :: 'e api_error + extern_val list, c1)"
    "on_store alloc_instance c1 = (Inr handle :: 'e api_error + instance_h, c2)"
  shows "\<exists>b. extract_imports m externals (instance_builder_new m) c2 = (Inr b :: 'e api_error + instance_builder, c2)"
  by (rule linked_imports_taken [OF assms(1,2) contexts.keeps_result [OF on_store_keeps [OF alloc_extends(7)] assms(3)]])

lemma linked_imports_accepted_witness:
  "\<exists>b (c2 :: (unit, nat) store_context). extract_imports (demo_module demo_data) [ExtTable 0, ExtFunc 0] (instance_builder_new (demo_module demo_data)) c2
      = (Inr b :: unit api_error + instance_builder, c2) \<and> ws_instances (cx_store c2) = [instance_uninitialized]"
proof -
  have inv: "dedup_inv (cx_types demo_context)" using demo_types_inv by (simp add: demo_context_def)
  have alloc: "on_store alloc_instance demo_linked = (Inr 0 :: unit api_error + instance_h, demo_linked\<lparr>cx_store := demo_store0\<rparr>)"
    by (simp add: on_store_def alloc_instance_def alloc_with_def arena_alloc_def arena_next_index_def index_from_usize_def
        demo_link_defs)
  obtain b where "extract_imports (demo_module demo_data) [ExtTable 0, ExtFunc 0] (instance_builder_new (demo_module demo_data))
      (demo_linked\<lparr>cx_store := demo_store0\<rparr>) = (Inr b :: unit api_error + instance_builder, demo_linked\<lparr>cx_store := demo_store0\<rparr>)"
    using linked_imports_accepted [OF inv demo_process alloc] by blast
  then show ?thesis by (intro exI [of _ b] exI [of _ "demo_linked\<lparr>cx_store := demo_store0\<rparr>"]) simp
qed

text \<open>
  C15. Linking and instantiating a module, also when it fails, only extends the store: functions, globals,
  segments and instances that were there are unchanged, tables and memories keep their types and
  sizes, host functions and function types keep their handles, and fuel and limiter are the same.
\<close>
theorem linking_keeps_store:
  "context_extends c (snd (linker_instantiate bits l m c :: ('e api_error + instance_pre) \<times> _))"
  using linker_instantiate_keeps unfolding st_keeps_def by blast

text \<open>
  C14. A linker is a map that does not overwrite: definitions one after the other succeed only for
  different names that are not yet defined, then exactly they are added to what the linker and its
  shared definitions have, and a name that is defined already is refused and keeps its definition.
\<close>
theorem linker_defines_once:
  assumes "linker_ok l"
  shows "(st_fold (\<lambda>p _. linker_insert (fst (fst p)) (snd (fst p)) (snd p)) ps () l = (Inr () :: 'e api_error + unit, l') \<longrightarrow>
      distinct (map fst ps) \<and> (\<forall>k \<in> set (map fst ps). linker_lookup l k = None) \<and>
      linker_lookup l' = linker_lookup l ++ map_of ps) \<and>
    (linker_lookup l k = Some x \<longrightarrow>
      (\<exists>e l2. linker_insert (fst k) (snd k) d l = (Inl e :: 'e api_error + unit, l2) \<and> linker_lookup l2 = linker_lookup l))"
  using linkers.define_all_ok [OF assms, unfolded linkers.define_all_def, of ps "()" l'] linkers.no_overwrite [OF assms, of k x d]
  by blast

lemma linker_defines_once_witness:
  "\<exists>e l2. linker_insert ''env'' ''f'' (DefExtern (ExtFunc 5)) demo_linker = (Inl e :: unit api_error + unit, l2) \<and>
    linker_get_definition l2 ''env'' ''f'' = Some (DefHostFunc \<lparr>ht_type = demo_ft, ht_code = 3\<rparr>)"
proof -
  have k: "linker_lookup demo_linker (''env'', ''f'') = Some (DefHostFunc \<lparr>ht_type = demo_ft, ht_code = 3\<rparr>)"
    by (simp add: linker_lookup_def demo_definitions)
  from linker_defines_once [OF demo_linker_ok, of "[]" demo_linker "(''env'', ''f'')" "DefHostFunc \<lparr>ht_type = demo_ft, ht_code = 3\<rparr>"
    "DefExtern (ExtFunc 5)", where 'e = unit] k obtain e l2
    where l2: "linker_insert ''env'' ''f'' (DefExtern (ExtFunc 5)) demo_linker = (Inl e :: unit api_error + unit, l2)"
      "linker_lookup l2 = linker_lookup demo_linker" by auto
  have "linker_lookup l2 (''env'', ''f'') = linker_lookup demo_linker (''env'', ''f'')" by (simp add: l2(2))
  with l2(1) k show ?thesis by (auto simp: linker_lookup_def)
qed

text \<open>
  C21. Constant expressions mean what their operators mean: the translation to closures evaluates, in
  every context of globals and functions, to the value that running the operators on a stack gives,
  and to none exactly when they have none.
\<close>
theorem const_expr_exact:
  assumes "const_expr_new ops = Some e"
  shows "const_run ctx ops [] = map_option (\<lambda>v. [v]) (const_op_eval e ctx)"
  by (rule const_expr_new_run [OF assms])

lemma const_expr_exact_witness:
  "\<exists>e. const_expr_new [COpGlobalGet 0, COpI32Const 2, COpI32Sub, COpEnd] = Some e \<and>
    const_op_eval e \<lparr>ec_get_global = (\<lambda>_. Some (ValI32 7)), ec_get_func = (\<lambda>_. None)\<rparr> = Some 5"
proof -
  obtain e where e: "const_expr_new [COpGlobalGet 0, COpI32Const 2, COpI32Sub, COpEnd] = Some e"
    by (simp add: const_expr_new_def const_step_def expr_op_def)
  from const_expr_exact [OF e, of "\<lparr>ec_get_global = (\<lambda>_. Some (ValI32 7)), ec_get_func = (\<lambda>_. None)\<rparr>"]
  have "map_option (\<lambda>v. [v]) (const_op_eval e \<lparr>ec_get_global = (\<lambda>_. Some (ValI32 7)), ec_get_func = (\<lambda>_. None)\<rparr>) = Some [5]"
    by (simp add: const_exec_def const_binop_def i32_sub_def execute_binary_def arith_sub_def of_i32_def to_i32_def)
  with e show ?thesis by simp
qed

text \<open>
  C22. Data segments round trip: the iterator over the segments that were pushed one after the other
  yields each of them with its own bytes, although the bytes of all active ones are stored together.
\<close>
theorem data_segments_roundtrip:
  assumes "push_data_all ps data_segments_build = Some d"
  shows "\<exists>is. data_segments_iter d = Some is \<and> map_some (\<lambda>(mode, bytes). init_data_of mode bytes) ps = Some is"
  using push_data_all_complete [OF assms data_complete_build] by (auto simp: data_complete_def)

lemma data_segments_roundtrip_witness:
  "\<exists>d. push_data_all [(DataModeActive 0 [COpI32Const 0, COpEnd], [1, 2]), (DataModePassive, [3]), (DataModeActive 0 [COpI32Const 8, COpEnd], [4])]
      data_segments_build = Some d \<and> data_segments_iter d = Some [InitActive 0 (CConst 0) [1, 2], InitPassive [3], InitActive 0 (CConst 8) [4]]"
proof -
  let ?ps = "[(DataModeActive 0 [COpI32Const 0, COpEnd], [1, 2]), (DataModePassive, [3]), (DataModeActive 0 [COpI32Const 8, COpEnd], [4])]"
  obtain d where d: "push_data_all ?ps data_segments_build = Some d"
    by (simp add: push_data_segment_def const_expr_new_def const_step_def)
  from data_segments_roundtrip [OF d] d show ?thesis
    by (simp add: init_data_of_def const_expr_new_def const_step_def of_i32_def)
qed

text \<open>
  C27. A failed instantiation leaves functions of an instance that is never initialized: every function
  that it has added to the store is one of the instance that it has allocated, and whatever the host
  does afterwards (operations that append functions or instances, further instantiations, the start of
  instances that an instantiation has returned before or after), the function stays in the store and
  its instance is not initialized. An active element segment may have put a reference to it into an
  imported table before the failure, as in the witness.
\<close>
theorem failed_instantiation_leaks:
  fixes env :: "('h, 'e) exec_env"
  assumes "module_instantiate (env_func_bits env) m externals c = (Inl err :: 'e api_error + instance_pre, c1)"
    and "\<forall>p \<in> P. pre_handle p < length (ws_instances (cx_store c))"
    and "length (ws_funcs (cx_store c)) \<le> f" "get_at (ws_funcs (cx_store c1)) f = Some e"
    and "host_run env (c1, P) (c2, P2)"
  shows "\<exists>w. e = WasmFunc w \<and> get_at (ws_funcs (cx_store c2)) f = Some (WasmFunc w) \<and>
    get_at (ws_instances (cx_store c2)) (wf_instance w) = Some instance_uninitialized"
  by (rule failed_instance_stays [OF assms])

text \<open>
  The data segment of the module does not fit into its memory; its elements have been written to the
  imported table before.
\<close>

lemma failed_instantiation_leaks_witness:
  "\<exists>err c1 w. module_instantiate demo_bits (demo_module demo_data) [ExtTable 0, ExtFunc 0] demo_linked =
      (Inl err :: unit api_error + instance_pre, c1) \<and>
    map te_elements (ws_tables (cx_store demo_linked)) = [[0]] \<and>
    map te_elements (ws_tables (cx_store c1)) = [[demo_bits 1]] \<and>
    get_at (ws_funcs (cx_store c1)) 1 = Some (WasmFunc w) \<and>
    get_at (ws_instances (cx_store c1)) (wf_instance w) = Some instance_uninitialized"
proof -
  let ?env = "demo_env\<lparr>env_func_bits := demo_bits\<rparr>"
  obtain err c1 e where m: "module_instantiate (env_func_bits ?env) (demo_module demo_data) [ExtTable 0, ExtFunc 0] demo_linked =
      (Inl err :: unit api_error + instance_pre, c1)"
    and t: "map te_elements (ws_tables (cx_store c1)) = [[demo_bits 1]]"
    and f: "get_at (ws_funcs (cx_store c1)) 1 = Some e"
    by (simp add: demo_module_instantiate demo_data_runs)
      (simp add: demo_store_built_def demo_link_defs demo_bits_def get_at_def)
  have l: "length (ws_funcs (cx_store demo_linked)) \<le> 1" "map te_elements (ws_tables (cx_store demo_linked)) = [[0]]"
    by (simp_all add: demo_link_defs)
  show ?thesis
    using failed_instantiation_leaks [OF m _ l(1) f host_run.start [of ?env "(c1, {})"]] m t l(2) by auto
qed

text \<open>
  The limit of tables counts imported tables twice, once in the store and once in the module: a
  module that has no tables of its own is refused when the limit is reached.
\<close>
lemma imported_tables_counted_twice:
  assumes "internal_tables m = Some []" "hd_tables (wm_header m) \<noteq> []" "limiter_ref_of s = Some (ops, lim)"
    "lo_tables ops lim = length (ws_tables s)" "length (ws_tables s) + len_tables m \<le> usize_max"
  shows "extract_tables m b s = (Inl (ErrInst (InstTable TooManyTables)), s)"
  using assms by (auto simp: extract_tables_def st_bind_def st_map_err_def check_new_tables_limit_def exceeds_limit_def
      len_tables_def)

end
