(* ===== verification/Code_Map.thy ===== *)
theory Code_Map
  imports Module_Def Collections
begin

text \<open>
  The map of compiled functions of an engine, \<open>wasmi/src/engine/code_map.rs\<close>. Functions are compiled
  when they are called first, by the thread that calls them, while other threads that call them wait.
  The map is behind a lock, so that every operation on it is one step of a thread; the compilation
  itself is a step without the lock. The translation of a body, with or without its validation by a
  third-party crate, is an argument; \<open>None\<close> is its panic.
\<close>


section \<open>Small byte slices\<close>

datatype small_byte_slice = SmallBytes u8 "u8 list" | BigBytes "u8 list"

definition max_inline_size :: nat where "max_inline_size = 22"

definition small_byte_slice_default :: small_byte_slice where
  "small_byte_slice_default = SmallBytes 0 (replicate max_inline_size 0)"

definition as_slice :: "small_byte_slice \<Rightarrow> u8 list" where
  "as_slice b = (case b of SmallBytes len bytes \<Rightarrow> take (unat len) bytes | BigBytes bytes \<Rightarrow> bytes)"

definition small_byte_slice_from :: "u8 list \<Rightarrow> small_byte_slice" where
  "small_byte_slice_from bytes =
    (if length bytes \<le> max_inline_size
     then SmallBytes (of_nat (length bytes)) (bytes @ replicate (max_inline_size - length bytes) 0)
     else BigBytes bytes)"

lemma small_byte_slice_roundtrip [simp]: "as_slice (small_byte_slice_from bytes) = bytes"
  by (simp add: as_slice_def small_byte_slice_from_def max_inline_size_def unat_of_nat take_bit_nat_eq_self)


section \<open>Functions\<close>

text \<open>What the third-party crate hands over for the validation of a function: \<open>resources\<close> are opaque.\<close>

record 'r func_to_validate =
  fv_resources :: 'r
  fv_index :: u32
  fv_ty :: u32

record 'r uncompiled_func =
  uf_func_index :: u32
  uf_bytes :: small_byte_slice
  uf_module :: header
  uf_validation :: "(u32 \<times> 'r) option"

definition uncompiled_new :: "u32 \<Rightarrow> u8 list \<Rightarrow> header \<Rightarrow> 'r func_to_validate option \<Rightarrow> 'r uncompiled_func option" where
  "uncompiled_new func_index bytes module func_to_validate =
    map_option (\<lambda>validation. \<lparr>uf_func_index = func_index, uf_bytes = small_byte_slice_from bytes, uf_module = module,
        uf_validation = validation\<rparr>)
      (case func_to_validate of
         None \<Rightarrow> Some None
       | Some v \<Rightarrow> if fv_index v = func_index then Some (Some (fv_ty v, fv_resources v)) else None)"

datatype ('r, 'c) func_entity_code =
    CodeUninit
  | CodeUncompiled "'r uncompiled_func"
  | CodeCompiling
  | CodeFailed
  | CodeCompiled 'c

definition entity_init_compiled :: "'c \<Rightarrow> ('r, 'c) func_entity_code \<Rightarrow> ('r, 'c) func_entity_code option" where
  "entity_init_compiled c e = (case e of CodeUninit \<Rightarrow> Some (CodeCompiled c) | _ \<Rightarrow> None)"

definition entity_init_uncompiled :: "'r uncompiled_func \<Rightarrow> ('r, 'c) func_entity_code \<Rightarrow> ('r, 'c) func_entity_code option" where
  "entity_init_uncompiled u e = (case e of CodeUninit \<Rightarrow> Some (CodeUncompiled u) | _ \<Rightarrow> None)"

definition entity_get_compiled :: "('r, 'c) func_entity_code \<Rightarrow> 'c option" where
  "entity_get_compiled e = (case e of CodeCompiled c \<Rightarrow> Some c | _ \<Rightarrow> None)"

definition entity_get_uncompiled :: "('r, 'c) func_entity_code \<Rightarrow> 'r uncompiled_func option \<times> ('r, 'c) func_entity_code" where
  "entity_get_uncompiled e = (case e of CodeUncompiled u \<Rightarrow> (Some u, CodeCompiling) | _ \<Rightarrow> (None, e))"

definition entity_set_compiled :: "'c \<Rightarrow> ('r, 'c) func_entity_code \<Rightarrow> ('r, 'c) func_entity_code option" where
  "entity_set_compiled c e = (case e of CodeCompiling \<Rightarrow> Some (CodeCompiled c) | _ \<Rightarrow> None)"

definition entity_set_failed_to_compile :: "('r, 'c) func_entity_code \<Rightarrow> ('r, 'c) func_entity_code option" where
  "entity_set_failed_to_compile e = (case e of CodeCompiling \<Rightarrow> Some CodeFailed | _ \<Rightarrow> None)"


section \<open>The compilation of one function\<close>

datatype 'e code_error = CodeOutOfFuel | CodeLazyFailed | CodeTranslation 'e

type_synonym ('r, 'e, 'c) translate_body = "u32 \<Rightarrow> u8 list \<Rightarrow> header \<Rightarrow> (u32 \<times> 'r) option \<Rightarrow> ('e + 'c) option"

definition u64_saturating_mul :: "u64 \<Rightarrow> u64 \<Rightarrow> u64" where
  "u64_saturating_mul a b = (if unat a * unat b < 2 ^ 64 then a * b else - 1)"

definition compilation_fuel :: "'r uncompiled_func \<Rightarrow> u64" where
  "compilation_fuel u =
    u64_saturating_mul (of_nat (length (as_slice (uf_bytes u)))) (if uf_validation u = None then 7 else 9)"

definition translate_uncompiled :: "('r, 'e, 'c) translate_body \<Rightarrow> 'r uncompiled_func \<Rightarrow> ('e + 'c) option" where
  "translate_uncompiled tr u = tr (uf_func_index u) (as_slice (uf_bytes u)) (uf_module u) (uf_validation u)"

text \<open>The fuel is paid before the translation starts; without metering, or without a store, it is free.\<close>

definition uncompiled_compile :: "('r, 'e, 'c) translate_body \<Rightarrow> fuel option \<Rightarrow> 'r uncompiled_func
    \<Rightarrow> ('e code_error + 'c) option \<times> fuel option" where
  "uncompiled_compile tr fuel u =
    (let result = map_option (map_err CodeTranslation) (translate_uncompiled tr u)
     in case fuel of
          None \<Rightarrow> (result, None)
        | Some f \<Rightarrow>
            (case consume_fuel (\<lambda>_. compilation_fuel u) f of
               Inl FuelOutOfFuel \<Rightarrow> (Some (Inl CodeOutOfFuel), Some f)
             | Inl FuelMeteringDisabled \<Rightarrow> (result, Some f)
             | Inr (_, f') \<Rightarrow> (result, Some f')))"


section \<open>The map\<close>

record ('r, 'c) code_map =
  cmap_funcs :: "('r, 'c) func_entity_code arena"

definition code_map_new :: "('r, 'c) code_map" where
  "code_map_new = \<lparr>cmap_funcs = []\<rparr>"

definition code_alloc_funcs :: "nat \<Rightarrow> ('r, 'c) code_map \<Rightarrow> (engine_func_span \<times> ('r, 'c) code_map) option" where
  "code_alloc_funcs amount m =
    map_option (\<lambda>((start, end_index), funcs). (\<lparr>fs_start = start, fs_end = end_index\<rparr>, m\<lparr>cmap_funcs := funcs\<rparr>))
      (arena_alloc_many CodeUninit amount (cmap_funcs m))"

text \<open>An update of an entity; an unknown function and a failing assertion are panics.\<close>

definition code_update :: "engine_func \<Rightarrow> (('r, 'c) func_entity_code \<Rightarrow> ('r, 'c) func_entity_code option)
    \<Rightarrow> ('r, 'c) code_map \<Rightarrow> ('r, 'c) code_map option" where
  "code_update func f m =
    Option.bind (arena_get func (cmap_funcs m)) (\<lambda>e.
      map_option (\<lambda>e'. m\<lparr>cmap_funcs := (cmap_funcs m)[func := e']\<rparr>) (f e))"

definition init_func_as_compiled :: "engine_func \<Rightarrow> 'c \<Rightarrow> ('r, 'c) code_map \<Rightarrow> ('r, 'c) code_map option" where
  "init_func_as_compiled func c = code_update func (entity_init_compiled c)"

definition init_func_as_uncompiled :: "engine_func \<Rightarrow> u32 \<Rightarrow> u8 list \<Rightarrow> header \<Rightarrow> 'r func_to_validate option
    \<Rightarrow> ('r, 'c) code_map \<Rightarrow> ('r, 'c) code_map option" where
  "init_func_as_uncompiled func func_idx bytes module func_to_validate m =
    Option.bind (uncompiled_new func_idx bytes module func_to_validate) (\<lambda>u.
      code_update func (entity_init_uncompiled u) m)"

text \<open>An unknown function is undefined behaviour here, \<open>None\<close>.\<close>

definition code_get_compiled :: "engine_func \<Rightarrow> ('r, 'c) code_map \<Rightarrow> 'c option option" where
  "code_get_compiled func m = map_option entity_get_compiled (arena_get func (cmap_funcs m))"

definition code_get_uncompiled :: "engine_func \<Rightarrow> ('r, 'c) code_map
    \<Rightarrow> ('r uncompiled_func option \<times> ('r, 'c) code_map) option" where
  "code_get_uncompiled func m =
    map_option (\<lambda>e. case entity_get_uncompiled e of (u, e') \<Rightarrow> (u, m\<lparr>cmap_funcs := (cmap_funcs m)[func := e']\<rparr>))
      (arena_get func (cmap_funcs m))"

text \<open>The end of \<open>CodeMap::compile\<close>, with the lock.\<close>

definition code_finish :: "engine_func \<Rightarrow> 'e code_error + 'c \<Rightarrow> ('r, 'c) code_map \<Rightarrow> ('r, 'c) code_map option" where
  "code_finish func result =
    code_update func (case result of Inr c \<Rightarrow> entity_set_compiled c | Inl _ \<Rightarrow> entity_set_failed_to_compile)"

text \<open>One round of \<open>wait_for_compilation\<close>: a panic, another round, or the result.\<close>

definition code_wait :: "engine_func \<Rightarrow> ('r, 'c) code_map \<Rightarrow> ('e code_error + 'c) option option" where
  "code_wait func m =
    (case arena_get func (cmap_funcs m) of
       Some CodeCompiling \<Rightarrow> Some None
     | Some (CodeCompiled c) \<Rightarrow> Some (Some (Inr c))
     | Some CodeFailed \<Rightarrow> Some (Some (Inl CodeLazyFailed))
     | _ \<Rightarrow> None)"


section \<open>The functions of a module\<close>

text \<open>
  The engine translates the functions of a module eagerly, or hands them to the lazy translator, which
  keeps the body. Translation with its driver (\<open>tr\<close>) and the validation of a body on its own (\<open>validate\<close>)
  are arguments. The lazy translator is set up, and so the function initialized, before the validation.
\<close>

datatype compilation_mode = CompileEager | CompileLazyTranslation | CompileLazy

record 'r lazy_translator =
  lt_func_idx :: u32
  lt_engine_func :: engine_func
  lt_module :: header
  lt_func_to_validate :: "'r func_to_validate option"

definition lazy_setup :: "'r lazy_translator \<Rightarrow> u8 list \<Rightarrow> ('r, 'c) code_map
    \<Rightarrow> ('r lazy_translator \<times> ('r, 'c) code_map) option" where
  "lazy_setup lt bytes m =
    map_option (Pair (lt\<lparr>lt_func_to_validate := None\<rparr>))
      (init_func_as_uncompiled (lt_engine_func lt) (lt_func_idx lt) bytes (lt_module lt) (lt_func_to_validate lt) m)"

definition engine_translate_func :: "compilation_mode \<Rightarrow> ('r, 'e, 'c) translate_body
    \<Rightarrow> ('r func_to_validate \<Rightarrow> u8 list \<Rightarrow> ('e + unit) option) \<Rightarrow> u32 \<Rightarrow> engine_func \<Rightarrow> u8 list \<Rightarrow> header
    \<Rightarrow> 'r func_to_validate option \<Rightarrow> ('r, 'c) code_map \<Rightarrow> (('e + unit) \<times> ('r, 'c) code_map) option" where
  "engine_translate_func mode tr validate func_index engine_func bytes module func_to_validate m =
    (let lazy = (\<lambda>v. \<lparr>lt_func_idx = func_index, lt_engine_func = engine_func, lt_module = module, lt_func_to_validate = v\<rparr>)
     in case (mode, func_to_validate) of
          (CompileEager, _) \<Rightarrow>
            Option.bind (tr func_index bytes module (map_option (\<lambda>v. (fv_ty v, fv_resources v)) func_to_validate)) (\<lambda>r.
              case r of
                Inl e \<Rightarrow> Some (Inl e, m)
              | Inr c \<Rightarrow> map_option (Pair (Inr ())) (init_func_as_compiled engine_func c m))
        | (CompileLazyTranslation, Some v) \<Rightarrow>
            Option.bind (lazy_setup (lazy None) bytes m) (\<lambda>(_, m'). map_option (\<lambda>r. (r, m')) (validate v bytes))
        | _ \<Rightarrow> map_option (\<lambda>(_, m'). (Inr (), m')) (lazy_setup (lazy func_to_validate) bytes m))"


section \<open>Threads\<close>

text \<open>
  A thread that calls \<open>CodeMap::get\<close>: it looks for the compiled function, takes the uncompiled one,
  compiles it and publishes the result, or waits. \<open>ThDied\<close> is a panic in the translation,
  \<open>ThPanicked\<close> one of the map.
\<close>

datatype ('r, 'e, 'c) code_thread =
    ThIdle
  | ThGet engine_func "fuel option"
  | ThTake engine_func "fuel option"
  | ThCompile engine_func "fuel option" "'r uncompiled_func"
  | ThFinish engine_func "fuel option" "'e code_error + 'c"
  | ThWait engine_func "fuel option"
  | ThDone engine_func "fuel option" "'e code_error + 'c"
  | ThDied engine_func
  | ThPanicked engine_func

definition thread_step :: "('r, 'e, 'c) translate_body \<Rightarrow> ('r, 'c) code_map \<Rightarrow> ('r, 'e, 'c) code_thread
    \<Rightarrow> ('r, 'e, 'c) code_thread \<times> ('r, 'c) code_map" where
  "thread_step tr m t =
    (case t of
       ThGet func fuel \<Rightarrow>
         (case code_get_compiled func m of
            None \<Rightarrow> (ThPanicked func, m)
          | Some (Some c) \<Rightarrow> (ThDone func fuel (Inr c), m)
          | Some None \<Rightarrow> (ThTake func fuel, m))
     | ThTake func fuel \<Rightarrow>
         (case code_get_uncompiled func m of
            None \<Rightarrow> (ThPanicked func, m)
          | Some (Some u, m') \<Rightarrow> (ThCompile func fuel u, m')
          | Some (None, m') \<Rightarrow> (ThWait func fuel, m'))
     | ThCompile func fuel u \<Rightarrow>
         (case uncompiled_compile tr fuel u of
            (None, _) \<Rightarrow> (ThDied func, m)
          | (Some r, fuel') \<Rightarrow> (ThFinish func fuel' r, m))
     | ThFinish func fuel r \<Rightarrow>
         (case code_finish func r m of
            None \<Rightarrow> (ThPanicked func, m)
          | Some m' \<Rightarrow> (ThDone func fuel r, m'))
     | ThWait func fuel \<Rightarrow>
         (case code_wait func m of
            None \<Rightarrow> (ThPanicked func, m)
          | Some None \<Rightarrow> (t, m)
          | Some (Some r) \<Rightarrow> (ThDone func fuel r, m))
     | _ \<Rightarrow> (t, m))"

text \<open>
  The runs of any number of threads: a thread makes a step, or a thread that has nothing to do calls
  a function of the map.
\<close>

inductive code_run :: "('r, 'e, 'c) translate_body \<Rightarrow> ('r, 'c) code_map \<times> ('r, 'e, 'c) code_thread list
    \<Rightarrow> ('r, 'c) code_map \<times> ('r, 'e, 'c) code_thread list \<Rightarrow> bool" for tr x where
  start: "code_run tr x x"
| step: "code_run tr x (m, ts) \<Longrightarrow> i < length ts \<Longrightarrow> thread_step tr m (ts ! i) = (t, m') \<Longrightarrow>
    code_run tr x (m', ts[i := t])"
| call: "code_run tr x (m, ts) \<Longrightarrow> i < length ts \<Longrightarrow> ts ! i = ThIdle \<or> (\<exists>f fu r. ts ! i = ThDone f fu r) \<Longrightarrow>
    func < length (cmap_funcs m) \<Longrightarrow> code_run tr x (m, ts[i := ThGet func fuel])"


section \<open>The invariant\<close>

text \<open>The thread that will publish the result of a function, unless the translation has panicked.\<close>

definition owns :: "('r, 'e, 'c) code_thread \<Rightarrow> engine_func \<Rightarrow> bool" where
  "owns t func = (case t of ThCompile f _ _ \<Rightarrow> f = func | ThFinish f _ _ \<Rightarrow> f = func | ThDied f \<Rightarrow> f = func | _ \<Rightarrow> False)"

definition initial_entry :: "('r, 'c) func_entity_code \<Rightarrow> bool" where
  "initial_entry e = (case e of CodeUncompiled _ \<Rightarrow> True | CodeCompiled _ \<Rightarrow> True | _ \<Rightarrow> False)"

text \<open>What an entry may have become.\<close>

definition entry_ok :: "('r, 'e, 'c) translate_body \<Rightarrow> ('r, 'c) func_entity_code \<Rightarrow> ('r, 'c) func_entity_code \<Rightarrow> bool" where
  "entry_ok tr e0 e =
    (case e0 of
       CodeCompiled c \<Rightarrow> e = CodeCompiled c
     | CodeUncompiled u \<Rightarrow>
         (case e of CodeUncompiled u' \<Rightarrow> u' = u | CodeCompiled c \<Rightarrow> translate_uncompiled tr u = Some (Inr c)
          | CodeUninit \<Rightarrow> False | _ \<Rightarrow> True)
     | _ \<Rightarrow> False)"

definition thread_ok :: "('r, 'e, 'c) translate_body \<Rightarrow> ('r, 'c) func_entity_code list \<Rightarrow> ('r, 'c) func_entity_code list
    \<Rightarrow> ('r, 'e, 'c) code_thread \<Rightarrow> bool" where
  "thread_ok tr es0 es t =
    (case t of
       ThIdle \<Rightarrow> True
     | ThGet f _ \<Rightarrow> f < length es
     | ThTake f _ \<Rightarrow> f < length es
     | ThCompile f _ u \<Rightarrow> f < length es \<and> es0 ! f = CodeUncompiled u
     | ThFinish f _ r \<Rightarrow> f < length es \<and> (\<exists>u. es0 ! f = CodeUncompiled u \<and>
         (\<forall>c. r = Inr c \<longrightarrow> translate_uncompiled tr u = Some (Inr c)))
     | ThWait f _ \<Rightarrow> f < length es \<and> (\<forall>u. es ! f \<noteq> CodeUncompiled u)
     | ThDone f _ r \<Rightarrow> f < length es \<and> (case r of Inr c \<Rightarrow> es ! f = CodeCompiled c | Inl _ \<Rightarrow> es ! f = CodeFailed)
     | ThDied f \<Rightarrow> f < length es \<and> (\<exists>u. es0 ! f = CodeUncompiled u \<and> translate_uncompiled tr u = None)
     | ThPanicked _ \<Rightarrow> False)"

definition owners :: "engine_func \<Rightarrow> ('r, 'e, 'c) code_thread list \<Rightarrow> nat" where
  "owners f ts = length (filter (\<lambda>t. owns t f) ts)"

definition code_inv :: "('r, 'e, 'c) translate_body \<Rightarrow> ('r, 'c) func_entity_code list
    \<Rightarrow> ('r, 'c) func_entity_code list \<Rightarrow> ('r, 'e, 'c) code_thread list \<Rightarrow> bool" where
  "code_inv tr es0 es ts \<longleftrightarrow> length es = length es0 \<and>
    (\<forall>f < length es. entry_ok tr (es0 ! f) (es ! f) \<and> owners f ts = of_bool (es ! f = CodeCompiling)) \<and>
    (\<forall>t \<in> set ts. thread_ok tr es0 es t)"

text \<open>The stages of an entry.\<close>

definition entry_step :: "('r, 'c) func_entity_code \<Rightarrow> ('r, 'c) func_entity_code \<Rightarrow> bool" where
  "entry_step e e' \<longleftrightarrow> e' = e \<or> (\<exists>u. e = CodeUncompiled u) \<and> e' = CodeCompiling \<or>
    e = CodeCompiling \<and> (e' = CodeFailed \<or> (\<exists>c. e' = CodeCompiled c))"

text \<open>A function that has been translated is initialized, and no other one has changed.\<close>

lemma code_update_Some:
  "code_update f g m = Some m' \<Longrightarrow> \<exists>e e'. f < length (cmap_funcs m) \<and> cmap_funcs m ! f = e \<and> g e = Some e' \<and>
    cmap_funcs m' = (cmap_funcs m)[f := e']"
  by (auto simp: code_update_def arena_get_def get_at_def split: Option.bind_splits if_splits)

lemma init_func_initial:
  "init_func_as_compiled f c m = Some m' \<Longrightarrow> f < length (cmap_funcs m) \<and> cmap_funcs m' = (cmap_funcs m)[f := CodeCompiled c]"
  "init_func_as_uncompiled f i bytes h v m = Some m' \<Longrightarrow>
    f < length (cmap_funcs m) \<and> (\<exists>u. cmap_funcs m' = (cmap_funcs m)[f := CodeUncompiled u])"
  by (auto simp: init_func_as_compiled_def init_func_as_uncompiled_def entity_init_compiled_def entity_init_uncompiled_def
      split: Option.bind_splits func_entity_code.splits dest!: code_update_Some)

lemma translated_func_initial:
  assumes "engine_translate_func mode tr validate i f bytes h v m = Some (Inr (), m')"
  shows "initial_entry (cmap_funcs m' ! f) \<and> length (cmap_funcs m') = length (cmap_funcs m) \<and>
    (\<forall>g. g \<noteq> f \<longrightarrow> cmap_funcs m' ! g = cmap_funcs m ! g)"
  using assms
  by (cases mode; cases v)
    (auto simp: engine_translate_func_def Let_def lazy_setup_def initial_entry_def split: Option.bind_splits sum.splits
      dest!: init_func_initial)

lemma owners_update:
  "i < length ts \<Longrightarrow> owners f (ts[i := t]) + of_bool (owns (ts ! i) f) = owners f ts + of_bool (owns t f)"
proof (induction ts arbitrary: i)
  case (Cons x ts)
  then show ?case by (cases i) (use Cons.IH in \<open>fastforce simp: owners_def\<close>)+
qed simp

lemma owners_pos: "t \<in> set ts \<Longrightarrow> owns t f \<Longrightarrow> 0 < owners f ts"
  by (auto simp: owners_def length_greater_0_conv filter_empty_conv)

lemma thread_ok_step:
  assumes "thread_ok tr es0 es t" "length es' = length es" "\<forall>f < length es. entry_step (es ! f) (es' ! f)"
  shows "thread_ok tr es0 es' t"
  using assms by (cases t) (auto simp: thread_ok_def entry_step_def split: sum.splits)

lemma compile_result:
  assumes "uncompiled_compile tr fuel u = (r, fuel')"
  shows "(r = None \<longrightarrow> translate_uncompiled tr u = None) \<and> (\<forall>c. r = Some (Inr c) \<longrightarrow> translate_uncompiled tr u = Some (Inr c))"
  using assms
  by (auto simp: uncompiled_compile_def Let_def map_err_def split: option.splits sum.splits fuel_error.splits)

lemmas code_ops = code_get_compiled_def code_get_uncompiled_def code_finish_def code_update_def code_wait_def arena_get_def
  entity_get_compiled_def entity_get_uncompiled_def entity_set_compiled_def entity_set_failed_to_compile_def

lemma arena_get_nth: "f < length es \<Longrightarrow> get_at es f = Some (es ! f)"
  by (simp add: get_at_def)

text \<open>A step of a thread on a map with the entries \<open>es\<close>.\<close>

lemma thread_step_ok:
  fixes m m' :: "('r, 'c) code_map"
  defines "es \<equiv> cmap_funcs m" and "es' \<equiv> cmap_funcs m'"
  assumes step: "thread_step tr m t = (t', m')"
    and ok: "thread_ok tr es0 es t" "length es = length es0" "\<forall>f < length es. entry_ok tr (es0 ! f) (es ! f)"
    and own: "\<forall>f. owns t f \<longrightarrow> es ! f = CodeCompiling"
  shows "thread_ok tr es0 es' t' \<and> length es' = length es \<and>
    (\<forall>f < length es. entry_ok tr (es0 ! f) (es' ! f) \<and> entry_step (es ! f) (es' ! f) \<and>
      of_bool (es' ! f = CodeCompiling) + of_bool (owns t f) = (of_bool (es ! f = CodeCompiling) + of_bool (owns t' f) :: nat))"
proof -
  have g: "get_at (cmap_funcs m) f = Some (cmap_funcs m ! f) \<and> entry_ok tr (es0 ! f) (cmap_funcs m ! f)"
    if "f < length (cmap_funcs m)" for f using ok(3) that by (simp add: arena_get_nth es_def)
  show ?thesis
  proof (cases t)
    case (ThGet f fuel)
    then have f: "f < length (cmap_funcs m)" using ok by (simp add: thread_ok_def es_def)
    show ?thesis using step ok ThGet f g [OF f] unfolding es_def es'_def
      by (cases "cmap_funcs m ! f")
        (auto simp: thread_step_def code_ops thread_ok_def entry_step_def owns_def)
  next
    case (ThTake f fuel)
    then have f: "f < length es" using ok by (simp add: thread_ok_def)
    show ?thesis
    proof (cases "\<exists>u. es ! f = CodeUncompiled u")
      case True
      then obtain u where u: "es ! f = CodeUncompiled u" by blast
      have "t' = ThCompile f fuel u" "es' = es[f := CodeCompiling]"
        using step ThTake g [OF f [unfolded es_def]] u by (auto simp: thread_step_def code_ops es_def es'_def)
      moreover have "es0 ! f = CodeUncompiled u"
        using g [OF f [unfolded es_def]] u by (cases "es0 ! f") (auto simp: entry_ok_def es_def)
      ultimately show ?thesis using ok f u ThTake
        by (auto simp: thread_ok_def entry_step_def owns_def nth_list_update entry_ok_def)
    next
      case False
      then have "entity_get_uncompiled (es ! f) = (None, es ! f)"
        by (cases "es ! f") (auto simp: entity_get_uncompiled_def)
      then have "t' = ThWait f fuel" "es' = es"
        using step ThTake g [OF f [unfolded es_def]] by (auto simp: thread_step_def code_get_uncompiled_def arena_get_def es_def es'_def)
      then show ?thesis using ok f False ThTake by (auto simp: thread_ok_def entry_step_def owns_def)
    qed
  next
    case (ThCompile f fuel u)
    obtain r fuel' where r: "uncompiled_compile tr fuel u = (r, fuel')" by fastforce
    show ?thesis using step ok ThCompile compile_result [OF r] r unfolding es_def es'_def
      by (cases r) (auto simp: thread_step_def thread_ok_def entry_step_def owns_def)
  next
    case (ThFinish f fuel r)
    then have f: "f < length es" "es ! f = CodeCompiling" using ok own by (auto simp: thread_ok_def owns_def)
    obtain u where u: "es0 ! f = CodeUncompiled u" "\<forall>c. r = Inr c \<longrightarrow> translate_uncompiled tr u = Some (Inr c)"
      using ok ThFinish by (auto simp: thread_ok_def)
    have "t' = ThDone f fuel r" "es' = es[f := (case r of Inr c \<Rightarrow> CodeCompiled c | Inl _ \<Rightarrow> CodeFailed)]"
      using step ThFinish g [OF f(1) [unfolded es_def]] f by (cases r; auto simp: thread_step_def code_ops es_def es'_def)+
    then show ?thesis using ok f u ThFinish
      by (cases r) (auto simp: thread_ok_def entry_step_def owns_def nth_list_update entry_ok_def)
  next
    case (ThWait f fuel)
    then have f: "f < length (cmap_funcs m)" using ok by (simp add: thread_ok_def es_def)
    have "cmap_funcs m ! f \<noteq> CodeUninit"
      using g [OF f] by (cases "es0 ! f") (auto simp: entry_ok_def split: func_entity_code.splits)
    then show ?thesis using step ok(1,2) ThWait g [OF f] ok(3) unfolding es_def es'_def
      by (cases "cmap_funcs m ! f") (auto simp: thread_step_def code_wait_def arena_get_def thread_ok_def entry_step_def owns_def)
  qed (use step ok in \<open>auto simp: thread_step_def entry_step_def es_def es'_def\<close>)
qed

lemma code_inv_step:
  assumes inv: "code_inv tr es0 (cmap_funcs m) ts" and i: "i < length ts" and step: "thread_step tr m (ts ! i) = (t', m')"
  shows "code_inv tr es0 (cmap_funcs m') (ts[i := t']) \<and>
    (\<forall>f < length es0. entry_step (cmap_funcs m ! f) (cmap_funcs m' ! f))"
proof -
  let ?es = "cmap_funcs m" and ?es' = "cmap_funcs m'"
  have ok: "length ?es = length es0" "\<forall>f < length ?es. entry_ok tr (es0 ! f) (?es ! f)" "\<forall>t \<in> set ts. thread_ok tr es0 ?es t"
    "\<forall>f < length ?es. owners f ts = of_bool (?es ! f = CodeCompiling)"
    using inv by (auto simp: code_inv_def)
  have ti: "thread_ok tr es0 ?es (ts ! i)" using ok(3) i by simp
  have own: "?es ! f = CodeCompiling" if o: "owns (ts ! i) f" for f
  proof -
    have "f < length ?es" using ti o by (cases "ts ! i") (auto simp: thread_ok_def owns_def)
    moreover have "0 < owners f ts" using owners_pos [of "ts ! i"] i o by simp
    ultimately show ?thesis using ok(4) by (auto simp: of_bool_def split: if_splits)
  qed
  note s = thread_step_ok [OF step ti ok(1,2)] own
  then have s: "thread_ok tr es0 ?es' t'" "length ?es' = length ?es"
    "\<forall>f < length ?es. entry_ok tr (es0 ! f) (?es' ! f)" "\<forall>f < length ?es. entry_step (?es ! f) (?es' ! f)"
    "\<forall>f < length ?es. of_bool (?es' ! f = CodeCompiling) + of_bool (owns (ts ! i) f) =
       (of_bool (?es ! f = CodeCompiling) + of_bool (owns t' f) :: nat)"
    by blast+
  have "owners f (ts[i := t']) = of_bool (?es' ! f = CodeCompiling)" if "f < length ?es" for f
    using owners_update [OF i, of f t'] s(5) ok(4) that by (metis add_right_cancel)
  moreover have "thread_ok tr es0 ?es' t" if "t \<in> set (ts[i := t'])" for t
    using that s(1) thread_ok_step [OF _ s(2,4)] ok(3) set_update_subset_insert [of ts i t'] by blast
  ultimately show ?thesis using s ok(1) by (simp add: code_inv_def)
qed

lemma code_run_inv:
  assumes "code_run tr (m0, ts0) (m, ts)" "code_inv tr es0 (cmap_funcs m0) ts0"
  shows "code_inv tr es0 (cmap_funcs m) ts \<and> length ts = length ts0"
  using assms
proof (induction "(m, ts)" arbitrary: m ts rule: code_run.induct)
  case (step m ts i t m')
  then show ?case using code_inv_step by fastforce
next
  case (call m ts i func fuel)
  then have inv: "code_inv tr es0 (cmap_funcs m) ts" "length ts = length ts0" by auto
  have idle: "\<not> owns (ts ! i) f" "\<not> owns (ThGet func fuel :: ('a, 'b, 'c) code_thread) f" for f
    using call.hyps(4) by (auto simp: owns_def)
  have "owners f (ts[i := ThGet func fuel]) = owners f ts" for f
    using owners_update [OF call.hyps(3), of f "ThGet func fuel"] idle by simp
  moreover have "thread_ok tr es0 (cmap_funcs m) t" if "t \<in> set (ts[i := ThGet func fuel])" for t
  proof (cases "t = ThGet func fuel")
    case True
    then show ?thesis using call.hyps(5) by (simp add: thread_ok_def)
  next
    case False
    then have "t \<in> set ts" using that set_update_subset_insert [of ts i "ThGet func fuel"] by blast
    then show ?thesis using inv(1) by (simp add: code_inv_def)
  qed
  ultimately show ?case using inv by (simp add: code_inv_def)
qed simp

lemma code_inv_start:
  assumes "\<forall>e \<in> set (cmap_funcs m). initial_entry e"
  shows "code_inv tr (cmap_funcs m) (cmap_funcs m) (replicate n ThIdle)"
proof -
  have e: "initial_entry (cmap_funcs m ! f)" if "f < length (cmap_funcs m)" for f using assms that by simp
  have "owners f (replicate n ThIdle) = 0" for f by (simp add: owners_def owns_def)
  moreover have "entry_ok tr (cmap_funcs m ! f) (cmap_funcs m ! f)" "cmap_funcs m ! f \<noteq> CodeCompiling"
    if "f < length (cmap_funcs m)" for f
    using e [OF that] by (auto simp: initial_entry_def entry_ok_def split: func_entity_code.splits)
  ultimately show ?thesis by (auto simp: code_inv_def thread_ok_def)
qed

lemma owners_one:
  assumes "owners f ts = 1"
  shows "\<exists>!i. i < length ts \<and> owns (ts ! i) f"
proof -
  have "card {i. i < length ts \<and> owns (ts ! i) f} = 1" using assms by (simp add: owners_def length_filter_conv_card)
  then show ?thesis by (simp add: card_1_singleton_iff) (metis (mono_tags, lifting) mem_Collect_eq singleton_iff singletonI)
qed


section \<open>Properties\<close>

text \<open>
  C16. Lazy compilation is safe with any number of threads, in any interleaving of their steps: no
  assertion of the map fails; a function is marked as compiling exactly when there is one thread, and
  only one, that has taken it (and is compiling it, or has panicked in the translation); a thread
  that gets code gets what the map holds from then on, the translation of the body with which the
  function was initialized; and a thread that waits has another one to wait for, or ends with its next
  step. At the beginning every function is initialized, compiled or not.
\<close>
theorem lazy_compilation_safe:
  assumes run: "code_run tr (m0, replicate n ThIdle) (m, ts)" and init: "\<forall>e \<in> set (cmap_funcs m0). initial_entry e"
    and i: "i < n"
  shows "(\<forall>f. ts ! i \<noteq> ThPanicked f) \<and>
    (\<forall>f < length (cmap_funcs m0). cmap_funcs m ! f = CodeCompiling \<longleftrightarrow> (\<exists>!j. j < n \<and> owns (ts ! j) f)) \<and>
    (\<forall>f fuel c. ts ! i = ThDone f fuel (Inr c) \<longrightarrow> cmap_funcs m ! f = CodeCompiled c \<and>
      (case cmap_funcs m0 ! f of
         CodeCompiled c0 \<Rightarrow> c = c0
       | CodeUncompiled u \<Rightarrow> translate_uncompiled tr u = Some (Inr c)
       | _ \<Rightarrow> False)) \<and>
    (\<forall>f fuel. ts ! i = ThWait f fuel \<longrightarrow> (\<exists>j < n. owns (ts ! j) f) \<or>
      (\<exists>r. thread_step tr m (ts ! i) = (ThDone f fuel r, m)))"
proof -
  have inv: "code_inv tr (cmap_funcs m0) (cmap_funcs m) ts" and len: "length ts = n"
    using code_run_inv [OF run code_inv_start [OF init]] by simp_all
  have ti: "thread_ok tr (cmap_funcs m0) (cmap_funcs m) (ts ! i)" using inv i len by (simp add: code_inv_def)
  have es: "entry_ok tr (cmap_funcs m0 ! f) (cmap_funcs m ! f)" "owners f ts = of_bool (cmap_funcs m ! f = CodeCompiling)"
    "f < length (cmap_funcs m)" if "f < length (cmap_funcs m0)" for f
    using inv that by (auto simp: code_inv_def)
  have compiling: "cmap_funcs m ! f = CodeCompiling \<longleftrightarrow> (\<exists>!j. j < n \<and> owns (ts ! j) f)" if f: "f < length (cmap_funcs m0)" for f
  proof
    assume "cmap_funcs m ! f = CodeCompiling"
    then show "\<exists>!j. j < n \<and> owns (ts ! j) f" using owners_one [of f ts] es(2) [OF f] len by simp
  next
    assume "\<exists>!j. j < n \<and> owns (ts ! j) f"
    then have "0 < owners f ts" using owners_pos len by (metis nth_mem)
    then show "cmap_funcs m ! f = CodeCompiling" using es(2) [OF f] by (simp split: if_splits)
  qed
  have bound: "f < length (cmap_funcs m0)" if "f < length (cmap_funcs m)" for f using that inv by (simp add: code_inv_def)
  have "\<forall>f. ts ! i \<noteq> ThPanicked f" using ti by (auto simp: thread_ok_def)
  moreover have "cmap_funcs m ! f = CodeCompiled c \<and> (case cmap_funcs m0 ! f of CodeCompiled c0 \<Rightarrow> c = c0
      | CodeUncompiled u \<Rightarrow> translate_uncompiled tr u = Some (Inr c) | _ \<Rightarrow> False)" if "ts ! i = ThDone f fuel (Inr c)" for f fuel c
    using ti that es(1) [OF bound, of f] by (auto simp: thread_ok_def entry_ok_def split: func_entity_code.splits)
  moreover have "(\<exists>j < n. owns (ts ! j) f) \<or> (\<exists>r. thread_step tr m (ts ! i) = (ThDone f fuel r, m))"
    if w: "ts ! i = ThWait f fuel" for f fuel
  proof (cases "cmap_funcs m ! f")
    case CodeCompiling
    then show ?thesis using compiling [OF bound] ti w by (auto simp: thread_ok_def)
  next
    case CodeUninit
    then show ?thesis using es(1) [OF bound, of f] ti w
      by (auto simp: thread_ok_def entry_ok_def split: func_entity_code.splits)
  qed (use ti w in \<open>auto simp: thread_ok_def thread_step_def code_ops arena_get_nth\<close>)
  ultimately show ?thesis using compiling by blast
qed

text \<open>A schedule, for the examples: a thread calls a function or makes a step.\<close>

datatype code_event = EvCall nat engine_func "fuel option" | EvStep nat

primrec run_events :: "('r, 'e, 'c) translate_body \<Rightarrow> code_event list \<Rightarrow> ('r, 'c) code_map \<times> ('r, 'e, 'c) code_thread list
    \<Rightarrow> (('r, 'c) code_map \<times> ('r, 'e, 'c) code_thread list) option" where
  "run_events tr [] s = Some s"
| "run_events tr (ev # evs) s =
    (case ev of
       EvCall i f fuel \<Rightarrow>
         if i < length (snd s) \<and> (case snd s ! i of ThIdle \<Rightarrow> True | ThDone _ _ _ \<Rightarrow> True | _ \<Rightarrow> False) \<and>
           f < length (cmap_funcs (fst s))
         then run_events tr evs (fst s, (snd s)[i := ThGet f fuel]) else None
     | EvStep i \<Rightarrow>
         if i < length (snd s)
         then (case thread_step tr (fst s) (snd s ! i) of (t, m) \<Rightarrow> run_events tr evs (m, (snd s)[i := t])) else None)"

lemma run_events_code_run:
  "run_events tr evs s = Some s' \<Longrightarrow> code_run tr x s \<Longrightarrow> code_run tr x s'"
proof (induction evs arbitrary: s)
  case (Cons ev evs)
  obtain m ts where s: "s = (m, ts)" by force
  show ?case
  proof (cases ev)
    case (EvCall i f fuel)
    then have "i < length ts" "ts ! i = ThIdle \<or> (\<exists>f fu r. ts ! i = ThDone f fu r)" "f < length (cmap_funcs m)"
      using Cons.prems(1) s by (auto split: if_splits code_thread.splits)
    then have "code_run tr x (m, ts[i := ThGet f fuel])" using code_run.call Cons.prems(2) s by blast
    then show ?thesis using Cons.IH Cons.prems(1) EvCall s by (auto split: if_splits)
  next
    case (EvStep i)
    obtain t m' where st: "thread_step tr m (ts ! i) = (t, m')" by force
    have "i < length ts" using Cons.prems(1) s EvStep by (auto split: if_splits)
    then have "code_run tr x (m', ts[i := t])" using code_run.step [OF _ _ st] Cons.prems(2) s by blast
    then show ?thesis using Cons.IH Cons.prems(1) EvStep s st by (auto split: if_splits)
  qed
qed simp

text \<open>
  Two threads call the same function of three bytes, and both look for it before one of them takes it;
  the other one waits, a round in vain. The code of a function is here the number of its bytes.
\<close>

definition demo_uncompiled :: "unit uncompiled_func" where
  "demo_uncompiled = \<lparr>uf_func_index = 0, uf_bytes = small_byte_slice_from [0, 65, 11],
     uf_module = \<lparr>hd_func_types = [], hd_imports = \<lparr>mi_items = [], mi_len_funcs = 0, mi_len_globals = 0, mi_len_memories = 0, mi_len_tables = 0\<rparr>,
       hd_funcs = [], hd_tables = [], hd_memories = [], hd_globals = [], hd_globals_init = [], hd_exports = [], hd_start = None,
       hd_engine_funcs = func_span_empty, hd_element_segments = []\<rparr>, uf_validation = None\<rparr>"

definition demo_code :: "(unit, nat) code_map" where
  "demo_code = \<lparr>cmap_funcs = [CodeUncompiled demo_uncompiled]\<rparr>"

definition demo_translate :: "(unit, unit, nat) translate_body" where
  "demo_translate func_index bytes module validation = Some (Inr (length bytes))"

definition demo_schedule :: "code_event list" where
  "demo_schedule = [EvCall 0 0 None, EvCall 1 0 None, EvStep 0, EvStep 1, EvStep 1, EvStep 0, EvStep 0, EvStep 1, EvStep 1, EvStep 0]"

lemmas demo_code_defs = demo_schedule_def demo_code_def demo_translate_def thread_step_def code_ops arena_get_nth
  uncompiled_compile_def translate_uncompiled_def map_err_def entity_get_uncompiled_def

lemma demo_code_runs:
  "run_events demo_translate demo_schedule (demo_code, replicate 2 ThIdle) =
    Some (\<lparr>cmap_funcs = [CodeCompiled 3]\<rparr>, [ThDone 0 None (Inr 3), ThDone 0 None (Inr 3)])"
  by (simp add: demo_code_defs numeral_2_eq_2) (simp add: demo_uncompiled_def)

lemma lazy_compilation_safe_witness:
  "\<exists>m ts. run_events demo_translate demo_schedule (demo_code, replicate 2 ThIdle) = Some (m, ts) \<and>
    ts ! 0 = ThDone 0 None (Inr 3) \<and> cmap_funcs m ! 0 = CodeCompiled 3 \<and>
    translate_uncompiled demo_translate demo_uncompiled = Some (Inr 3)"
proof -
  let ?m = "\<lparr>cmap_funcs = [CodeCompiled 3]\<rparr> :: (unit, nat) code_map"
  let ?ts = "[ThDone 0 None (Inr 3), ThDone 0 None (Inr 3)] :: (unit, unit, nat) code_thread list"
  have run: "code_run demo_translate (demo_code, replicate 2 ThIdle) (?m, ?ts)"
    by (rule run_events_code_run [OF demo_code_runs code_run.start])
  have init: "\<forall>e \<in> set (cmap_funcs demo_code). initial_entry e" by (simp add: demo_code_def initial_entry_def)
  have "cmap_funcs demo_code ! 0 = CodeUncompiled demo_uncompiled" by (simp add: demo_code_def)
  then show ?thesis using lazy_compilation_safe [OF run init, of 0] demo_code_runs by simp
qed

text \<open>
  A function whose lazy compilation runs out of fuel is lost for all callers: it stays marked as failed,
  and every later call of it, with as much fuel as it may have, ends with the error that its lazy
  compilation failed.
\<close>

lemma failed_entry_stays:
  "code_run tr (m, ts) (m', ts') \<Longrightarrow> f < length (cmap_funcs m) \<Longrightarrow> cmap_funcs m ! f = CodeFailed \<Longrightarrow>
    f < length (cmap_funcs m') \<and> cmap_funcs m' ! f = CodeFailed"
proof (induction "(m', ts')" arbitrary: m' ts' rule: code_run.induct)
  case (step m1 ts1 i t m2)
  then have f: "f < length (cmap_funcs m1)" "cmap_funcs m1 ! f = CodeFailed" by auto
  have upd: "f < length (cmap_funcs m2) \<and> cmap_funcs m2 ! f = CodeFailed"
    if "m2 = m1 \<or> (\<exists>g e e'. m2 = m1\<lparr>cmap_funcs := (cmap_funcs m1)[g := e']\<rparr> \<and> get_at (cmap_funcs m1) g = Some e \<and>
      (e = CodeFailed \<longrightarrow> e' = CodeFailed))"
    using that f by (auto simp: nth_list_update get_at_def split: if_splits)
  show ?case
    by (rule upd) (use step.hyps(4) in \<open>auto simp: thread_step_def code_ops split: code_thread.splits option.splits prod.splits
      func_entity_code.splits sum.splits Option.bind_splits\<close>)
qed auto

lemma out_of_fuel_is_permanent:
  assumes "f < length (cmap_funcs m)" "cmap_funcs m ! f = CodeCompiling"
    and "fu_enabled fu" "fu_remaining fu < compilation_fuel u"
    and "thread_step tr m (ThCompile f (Some fu) u) = (t, m1)" "thread_step tr m1 t = (t', m2)"
    and run: "code_run tr (m2, ts) (m', ts')"
  shows "t' = ThDone f (Some fu) (Inl CodeOutOfFuel) \<and>
    thread_step tr m' (ThGet f fuel) = (ThTake f fuel, m') \<and> thread_step tr m' (ThTake f fuel) = (ThWait f fuel, m') \<and>
    thread_step tr m' (ThWait f fuel) = (ThDone f fuel (Inl CodeLazyFailed), m')"
proof -
  have g: "get_at (cmap_funcs m) f = Some CodeCompiling" using assms(1,2) by (simp add: arena_get_nth)
  have "consume_fuel (\<lambda>_. compilation_fuel u) fu = Inl FuelOutOfFuel"
    using assms(3,4) by (auto simp: consume_fuel_def consume_fuel_unchecked_def dest: leD)
  then have "t = ThFinish f (Some fu) (Inl CodeOutOfFuel)" "m1 = m"
    using assms(5) by (auto simp: thread_step_def uncompiled_compile_def)
  then have t': "t' = ThDone f (Some fu) (Inl CodeOutOfFuel)" "m2 = m\<lparr>cmap_funcs := (cmap_funcs m)[f := CodeFailed]\<rparr>"
    using assms(6) g by (auto simp: thread_step_def code_ops)
  then have "f < length (cmap_funcs m')" "cmap_funcs m' ! f = CodeFailed"
    using failed_entry_stays [OF run, of f] assms(1) by auto
  then have g': "get_at (cmap_funcs m') f = Some CodeFailed" "(cmap_funcs m')[f := CodeFailed] = cmap_funcs m'"
    by (simp_all add: arena_get_nth) (metis list_update_id)
  then show ?thesis using t' by (simp add: thread_step_def code_ops g')
qed

end
