(* ===== verification/Spec2Isabelle.thy ===== *)
theory Spec2Isabelle
  imports Exec_Flow Float_Props Engine Collections Dwarf_Info Debug_Props Tr_Props Tr_Call Link_Props Code_Map
begin

text \<open>
  A model of the Motoko debugger: a command line debugger for WebAssembly modules compiled from
  Motoko, built on a fork of the register machine interpreter Wasmi. The program has two halves. The
  engine (crates \<open>core\<close>, \<open>ir\<close>, \<open>collections\<close> and \<open>wasmi\<close>) executes a register code, with an
  additional stepper that executes one instruction and reports calls and returns to an interceptor.
  The debugger (crate \<open>debugger\<close>) is that interceptor: it keeps breakpoints and a list of invoked
  functions, maps code offsets to source lines, shows values of the Motoko heap and reads commands.

  The engine, bottom up. All paths are under \<open>src/crates\<close>.

    \<^item> \<open>Prelude\<close> has the operations on vectors, options and results that all theories share, with
      the collection \<open>rsimps\<close> of simplification rules for results.
    \<^item> \<open>Wasm_Num\<close>, \<open>Mem_Access\<close> and \<open>Wasm_Float\<close> model \<open>core/src/untyped.rs\<close>, \<open>value.rs\<close> and
      \<open>trap.rs\<close>: 64-bit cells, their integer, floating point and conversion operations, and loads
      and stores. Floats are bit patterns with exact rational values in between; which NaN an
      operation yields is a parameter. \<open>Float_Props\<close> states the truncations to integers exactly.
    \<^item> \<open>Reg_Span\<close> and \<open>Ir_Primitives\<close> model \<open>ir/src/index.rs\<close>, \<open>span.rs\<close>, \<open>primitive.rs\<close> and
      \<open>immeditate.rs\<close>: registers, spans with their overlap check, branch offsets and compressed
      constants.
    \<^item> \<open>Stacks\<close> models \<open>wasmi/src/engine/executor/stack\<close>, \<open>instr_ptr.rs\<close> and \<open>head_vec.rs\<close>: the
      value stack, the frames and instances of the call stack, and the merging of tail calls.
    \<^item> \<open>Entities\<close> models memories, tables, globals, segments, fuel and resource limiters
      (\<open>wasmi/src/memory\<close>, \<open>table\<close>, \<open>global.rs\<close>, \<open>limits.rs\<close>, \<open>store.rs\<close>, \<open>config.rs\<close>).
    \<^item> \<open>Instr\<close> models the instruction set of \<open>ir/src/for_each_op.rs\<close>. Instructions that share an
      implementation share a constructor with a parameter for the operation; the tables of
      functions say which operation of \<open>Wasm_Num\<close>, \<open>Wasm_Float\<close> or \<open>Mem_Access\<close> each one uses.
    \<^item> \<open>Exec_State\<close>, \<open>Exec_Data\<close>, \<open>Exec_Control\<close>, \<open>Exec_Memory\<close>, \<open>Exec_Table\<close>, \<open>Exec_Call\<close> and
      \<open>Exec_Loop\<close> model the executor of \<open>wasmi/src/engine/executor/instrs.rs\<close> and \<open>instrs\<close>:
      its state (stack pointer, instruction pointer, instance cache, stacks, store), one definition
      per handler, the loop \<open>execute\<close> of the engine and the stepper \<open>execute_step\<close> of the debugger.
    \<^item> \<open>Exec_Shape\<close> and \<open>Exec_Inv\<close> have the invariant of the executor and its preservation,
      \<open>Exec_Props\<close> and \<open>Exec_Flow\<close> the properties of whole instructions: the invariant, the stepper
      against the loop, copies, calls and returns, and two defects of branches and host calls.
    \<^item> \<open>Collections\<close>, \<open>Func_Types\<close> and \<open>Engine\<close> model the arenas and the string interner, function
      types with their registry, and calls from outside (\<open>func/mod.rs\<close>, \<open>executor/mod.rs\<close>).
    \<^item> \<open>Handles\<close> models the store as its users see it (\<open>store.rs\<close> and the handles of \<open>table/mod.rs\<close>,
      \<open>memory/mod.rs\<close>, \<open>global.rs\<close>), \<open>Module_Def\<close> a parsed module (\<open>module/init_expr.rs\<close>, \<open>element.rs\<close>,
      \<open>data.rs\<close>, \<open>custom_section.rs\<close>, \<open>mod.rs\<close>, \<open>export.rs\<close>), \<open>Linker\<close> the definitions of a linker and the
      resolution of imports (\<open>linker.rs\<close>), \<open>Instantiate\<close> instantiation (\<open>module/instantiate\<close>,
      \<open>instance/builder.rs\<close>). Their operations yield a result or an error with the state that they leave;
      \<open>st_relation\<close> is the locale of relations between states that the combinators respect.
      \<open>Inst_Props\<close> shows that instantiation only extends the store and that what the linker resolves
      has the imported type, \<open>Inst_Types\<close> that an instance has what its module declares,
      \<open>Inst_Fail\<close> what an instantiation that fails leaves in the store for all later sessions, and
      \<open>Link_Props\<close> has the properties, with a small module as their example.
    \<^item> \<open>Code_Map\<close> models the map of compiled functions (\<open>engine/code_map.rs\<close>) and the compilation
      modes. A thread that calls a function is a state machine with one step per use of the lock;
      \<open>code_run\<close> interleaves any number of them, and an invariant over all runs says who compiles what.

  The translator from Wasm to the register code, \<open>wasmi/src/engine/translator\<close>. Its state is the record
  \<open>translator\<close> of \<open>Tr_Func\<close>; a method that takes \<open>&mut self\<close> and may fail is a function from a state to an
  error or a result with the new state.

    \<^item> \<open>Tr_Slots\<close>: errors, the pool of constants (\<open>stack/consts.rs\<close>) and the index of the positions of
      locals (\<open>stack/locals.rs\<close>). \<open>Tr_Regs\<close>: the register allocator (\<open>stack/register_alloc.rs\<close>); its
      multi-map of preserved registers is a third-party package, a parameter with the laws
      \<open>stash_laws\<close>, which the witnesses instantiate with an association list. \<open>Tr_Stack\<close>,
      \<open>Tr_Stack_Inv\<close>: the emulated value stack (\<open>stack/mod.rs\<close>, \<open>provider.rs\<close>) with its invariant.
    \<^item> \<open>Tr_Control\<close>: labels, control frames and the control stack. \<open>Tr_Instr\<close>, \<open>Tr_Encoder\<close> and
      \<open>Tr_Fusion\<close>: \<open>comparator.rs\<close>, \<open>relink_result.rs\<close>, \<open>visit_register.rs\<close> and \<open>instr_encoder.rs\<close>.
    \<^item> \<open>Tr_Func\<close> and \<open>Tr_Ops\<close>: \<open>mod.rs\<close>; \<open>Tr_Visit_Num\<close>, \<open>Tr_Visit\<close>, \<open>Tr_Blocks\<close> and
      \<open>Tr_Translate\<close>: the operators of \<open>visit.rs\<close>; \<open>Tr_Driver\<close>: \<open>driver.rs\<close> and the translation of a body.
    \<^item> \<open>Tr_Props\<close> has the properties of the bookkeeping. \<open>Tr_Sim\<close>, \<open>Tr_Sim_Ops\<close> and \<open>Tr_Sim_Num\<close> show for
      the numeric operators, except \<open>i32.eqz\<close> and the binary operators on floats, that what the
      translation of an operator leaves on the emulated stack, together with what the executor does
      with the pushed instruction, is what the operator means. \<open>Tr_Grow\<close>
      shows that the translator only appends, \<open>Tr_Types\<close> that constants on the stack have the types
      of their operators, \<open>Tr_Expr\<close> composes this to sequences of operators, \<open>Tr_Whole\<close> to
      function bodies and \<open>Tr_Call\<close> to calls from outside. These last theorems are for translation without fuel metering.

  The debugger, under \<open>debugger/src\<close>.

    \<^item> \<open>Text\<close> has the operations of Rust strings and numbers that the debugger uses.
    \<^item> \<open>Breakpoints\<close> models \<open>breakpoint.rs\<close>, with the unspecified order of a hash map as a parameter.
    \<^item> \<open>Source_Map\<close> models the line tables of \<open>dwarf/mod.rs\<close> and \<open>commands/sourcemap.rs\<close>;
      \<open>Dwarf_Info\<close> its subroutines, variables, types and their display. What the library \<open>gimli\<close>
      parses (entry trees, line rows, location expressions) is an argument.
    \<^item> \<open>Heap_Display\<close> models \<open>heap.rs\<close>. Calls of Motoko's own functions for big integers are a
      parameter; the recursion over the heap has fuel, and \<open>cyclic_text_never_displayed\<close> shows
      that no fuel is enough in general. Texts are UTF-8 in the heap and displayed byte by byte.
    \<^item> \<open>Debugger\<close> and \<open>Inspect\<close> model \<open>debugger.rs\<close>: the session, its steps and what it shows.
    \<^item> \<open>Commands\<close> models \<open>commands\<close>, \<open>process.rs\<close> and the command table of \<open>lib.rs\<close>.
    \<^item> \<open>Debug_Props\<close> has the properties of sessions: a function that is run through any sequence of
      step and continue commands ends with the results that a call of it returns; when steps end;
      when a step stops at a breakpoint; what happens to the list of invoked functions.

  Conventions. A Rust \<open>Result\<close> is a sum, a panic or an access that validation excludes is an error
  of its own (\<open>XPanic\<close>, \<open>XUB\<close>, \<open>DbgPanic\<close>) or \<open>None\<close>. Loops that need not end are
  \<open>partial_function (option)\<close>, where \<open>None\<close> is a run that does not end; no such definition has fuel
  except the display of the heap. Integers keep their width. Interfaces (register files, vector stacks, size limiters,
  interning and source maps) are locales, interpreted on the model's definitions.

  Parameters of the model: the compiled code of a function (\<open>env_code\<close>, \<open>env_compile\<close> and the
  like in \<open>exec_env\<close>), host functions, the call hook and the limiter of the embedder, the NaN payloads
  of floating point operations, the contents of source files, the splitting of command lines into
  words and the parsing of options, and the answers of the user.

  Not modelled: the parser and validator of modules (a third-party crate with glue; the translator
  takes the decoded operators as its input and instantiation a parsed module), the validating
  translator, references to objects of the host, WASI, the command line of the engine, and the Debug and Display output of error values. After an error inside the engine
  the session of the debugger continues in the program, with a state that the model does not give.
\<close>

end
